(* ===== verification/Prelude.thy ===== *)
theory Prelude
  imports Main "HOL-Library.Word" "HOL-Library.Sublist"
begin

text \<open>
  The vocabulary every component shares: Go's 64-bit integers with their wrap-around, the
  instants of package time, decimal text, \<open>strings.TrimSpace\<close>, and the actions (state
  passing with an error result) in which the code that talks to the database is written.

  Go integers are modelled as \<open>int\<close>; every addition, subtraction and multiplication of the
  source that could leave the int64 range is written with \<open>add64\<close>, \<open>sub64\<close>, \<open>mul64\<close>, which wrap
  as Go does, so that the absence of overflow is a theorem and not an assumption.
  Go strings are byte sequences: HOL's \<open>string\<close>, one \<open>char\<close> per byte.
\<close>

named_theorems act_simps \<open>when an action succeeds, step by step\<close>
named_theorems int64_simps \<open>int64 arithmetic that does not wrap\<close>

section \<open>64-bit integers\<close>

definition max_int64 :: int where
  "max_int64 = 9223372036854775807"

definition min_int64 :: int where
  "min_int64 = - 9223372036854775808"

definition in_int64 :: "int \<Rightarrow> bool" where
  "in_int64 x \<longleftrightarrow> min_int64 \<le> x \<and> x \<le> max_int64"

definition wrap64 :: "int \<Rightarrow> int" where
  "wrap64 x = (x + 9223372036854775808) mod 18446744073709551616 - 9223372036854775808"

definition add64 :: "int \<Rightarrow> int \<Rightarrow> int" where
  "add64 a b = wrap64 (a + b)"

definition sub64 :: "int \<Rightarrow> int \<Rightarrow> int" where
  "sub64 a b = wrap64 (a - b)"

definition mul64 :: "int \<Rightarrow> int \<Rightarrow> int" where
  "mul64 a b = wrap64 (a * b)"

text \<open>Go's integer division truncates towards zero.\<close>

definition quo64 :: "int \<Rightarrow> int \<Rightarrow> int" where
  "quo64 a b = wrap64 (sgn a * sgn b * (\<bar>a\<bar> div \<bar>b\<bar>))"

definition rem64 :: "int \<Rightarrow> int \<Rightarrow> int" where
  "rem64 a b = sgn a * (\<bar>a\<bar> mod \<bar>b\<bar>)"

lemma wrap64_id [simp, int64_simps]: "in_int64 x \<Longrightarrow> wrap64 x = x"
  by (simp add: wrap64_def in_int64_def min_int64_def max_int64_def)

lemma wrap64_is_word: "wrap64 x = sint (word_of_int x :: 64 word)"
  by (simp add: wrap64_def sint_word_ariths signed_take_bit_eq_take_bit_shift take_bit_eq_mod
      sint_uint uint_word_of_int mod_simps)

lemma in_int64_wrap64: "in_int64 (wrap64 x)"
proof -
  have "0 \<le> (x + 9223372036854775808) mod 18446744073709551616"
    and "(x + 9223372036854775808) mod 18446744073709551616 < 18446744073709551616"
    by simp_all
  then show ?thesis
    unfolding in_int64_def wrap64_def min_int64_def max_int64_def by linarith
qed

lemma add64_id [int64_simps]: "in_int64 (a + b) \<Longrightarrow> add64 a b = a + b"
  by (simp add: add64_def)

lemma sub64_id [int64_simps]: "in_int64 (a - b) \<Longrightarrow> sub64 a b = a - b"
  by (simp add: sub64_def)

lemma mul64_id [int64_simps]: "in_int64 (a * b) \<Longrightarrow> mul64 a b = a * b"
  by (simp add: mul64_def)

lemma in_int64_nonneg [simp]: "0 \<le> x \<Longrightarrow> in_int64 x \<longleftrightarrow> x \<le> max_int64"
  by (simp add: in_int64_def min_int64_def)

lemma sub64_max [simp]: "0 \<le> d \<Longrightarrow> d \<le> max_int64 \<Longrightarrow> sub64 max_int64 d = max_int64 - d"
  by (rule sub64_id) (simp add: in_int64_def min_int64_def max_int64_def)

lemma sub64_nonneg: "0 \<le> a \<Longrightarrow> a \<le> max_int64 \<Longrightarrow> 0 \<le> b \<Longrightarrow> b \<le> max_int64 \<Longrightarrow> sub64 a b = a - b"
  by (rule sub64_id) (simp add: in_int64_def min_int64_def max_int64_def)

lemma max_int64_pos [simp]: "0 < max_int64" "0 \<le> max_int64"
  by (simp_all add: max_int64_def)

section \<open>Instants\<close>

text \<open>
  A \<open>time.Time\<close> is the number of nanoseconds since Go's zero time (year 1), so
  \<open>IsZero\<close> is equality with 0, \<open>Before\<close> and \<open>After\<close> are the order of int and \<open>Add\<close> is +.
\<close>

type_synonym gotime = int

definition time_is_zero :: "gotime \<Rightarrow> bool" where
  "time_is_zero t \<longleftrightarrow> t = 0"

definition nanosecond :: "gotime \<Rightarrow> int" where
  "nanosecond t = t mod 1000000000"

definition seconds :: "int \<Rightarrow> int" where
  "seconds n = n * 1000000000"

text \<open>\<open>value.UTC().Truncate(time.Microsecond)\<close>: the zero time is a multiple of a microsecond.\<close>

definition truncate_us :: "gotime \<Rightarrow> gotime" where
  "truncate_us t = t - t mod 1000"

section \<open>Text\<close>

definition digit_char :: "nat \<Rightarrow> char" where
  "digit_char d = (if d < 10 then char_of (48 + d) else char_of (55 + d))"

fun format_base :: "nat \<Rightarrow> nat \<Rightarrow> string" where
  "format_base b n =
     (if b \<le> 1 \<or> n < b then [digit_char n] else format_base b (n div b) @ [digit_char (n mod b)])"

declare format_base.simps [simp del]

definition format_nat :: "nat \<Rightarrow> string" where
  "format_nat n = format_base 10 n"

text \<open>\<open>strconv.FormatInt(x, 10)\<close>, and a non-negative integer in another base\<close>

definition format_int :: "int \<Rightarrow> string" where
  "format_int x = (if x < 0 then CHR ''-'' # format_nat (nat (- x)) else format_nat (nat x))"

definition text_base :: "int \<Rightarrow> int \<Rightarrow> string" where
  "text_base b n = format_base (nat b) (nat n)"

text \<open>To evaluate them on the binary numerals of int:\<close>

definition int_digit :: "int \<Rightarrow> char" where
  "int_digit d = (if d < 10 then char_of (48 + d) else char_of (55 + d))"

lemma char_of_int: "char_of (int n) = char_of n"
  by (simp add: char_of_def bit_of_nat_iff flip: bit_0)

lemma int_digit: "digit_char n = int_digit (int n)"
  using char_of_int [of "48 + n"] char_of_int [of "55 + n"] by (simp add: int_digit_def digit_char_def)

lemma text_base_code [code]:
  "text_base b n = (if b \<le> 1 \<or> n < b then [int_digit (max 0 n)]
     else text_base b (n div b) @ [int_digit (n mod b)])"
proof (cases "b \<le> 1 \<or> n < b")
  case True
  then have "format_base (nat b) (nat n) = [digit_char (nat n)]"
    by (subst format_base.simps) (auto simp: nat_le_iff nat_less_iff)
  with True show ?thesis by (simp add: text_base_def int_digit max.commute)
next
  case False
  then have "nat (n div b) = nat n div nat b" "nat (n mod b) = nat n mod nat b" "0 \<le> n mod b"
    by (simp_all add: nat_div_distrib nat_mod_distrib)
  moreover from this have "int_digit (n mod b) = digit_char (nat n mod nat b)"
    using int_digit [of "nat n mod nat b"] by (metis int_nat_eq)
  moreover have "format_base (nat b) (nat n) =
      format_base (nat b) (nat n div nat b) @ [digit_char (nat n mod nat b)]"
    using False by (subst format_base.simps) auto
  ultimately show ?thesis using False by (simp add: text_base_def)
qed

lemma format_int_code [code]:
  "format_int x = (if x < 0 then CHR ''-'' # text_base 10 (- x) else text_base 10 x)"
  by (simp add: format_int_def text_base_def format_nat_def)

text \<open>\<open>fmt.Sprintf("%0wd", n)\<close> for a natural number\<close>

definition pad_zeros :: "nat \<Rightarrow> string \<Rightarrow> string" where
  "pad_zeros w s = replicate (w - length s) (CHR ''0'') @ s"

definition is_digit :: "char \<Rightarrow> bool" where
  "is_digit c \<longleftrightarrow> 48 \<le> (of_char c :: nat) \<and> (of_char c :: nat) \<le> 57"

definition digit_val :: "char \<Rightarrow> nat" where
  "digit_val c = of_char c - 48"

definition digits_val :: "string \<Rightarrow> nat" where
  "digits_val s = foldl (\<lambda>n c. n * 10 + digit_val c) 0 s"

lemma is_digit_code [code]: "is_digit c \<longleftrightarrow> List.member ''0123456789'' c"
proof -
  have "is_digit c \<longleftrightarrow> (\<exists>d < 10. c = char_of (48 + d :: nat))"
  proof
    assume "is_digit c"
    then have "48 \<le> (of_char c :: nat)" "(of_char c :: nat) \<le> 57" by (simp_all add: is_digit_def)
    then have "of_char c - 48 < (10 :: nat)" "48 + (of_char c - 48 :: nat) = of_char c" by linarith+
    then have "of_char c - 48 < (10 :: nat) \<and> c = char_of (48 + (of_char c - 48) :: nat)" by simp
    then show "\<exists>d < 10. c = char_of (48 + d :: nat)" by blast
  qed (auto simp: is_digit_def)
  also have "\<dots> \<longleftrightarrow> (\<exists>d \<in> {0, 1, 2, 3, 4, 5, 6, 7, 8, 9}. c = char_of (48 + d :: nat))"
  proof -
    have "d < 10 \<longleftrightarrow> d \<in> {0, 1, 2, 3, 4, 5, 6, 7, 8, 9}" for d :: nat by auto
    then show ?thesis by blast
  qed
  also have "\<dots> \<longleftrightarrow> List.member ''0123456789'' c"
    by (simp add: char_of_def bit_0)
  finally show ?thesis .
qed

lemma digits_val_Nil [simp]: "digits_val [] = 0"
  by (simp add: digits_val_def)

lemma digits_val_snoc [simp]: "digits_val (s @ [c]) = digits_val s * 10 + digit_val c"
  by (simp add: digits_val_def)

lemma digits_val_append: "digits_val (s @ t) = digits_val s * 10 ^ length t + digits_val t"
proof (induction t rule: rev_induct)
  case Nil
  then show ?case by simp
next
  case (snoc c t)
  have "digits_val (s @ t @ [c]) = digits_val (s @ t) * 10 + digit_val c"
    by (metis append.assoc digits_val_snoc)
  with snoc show ?case by (simp add: algebra_simps)
qed

lemma is_digit_digit_char [simp]: "d < 10 \<Longrightarrow> is_digit (digit_char d)"
  by (simp add: is_digit_def digit_char_def)

lemma digit_val_digit_char [simp]: "d < 10 \<Longrightarrow> digit_val (digit_char d) = d"
  by (simp add: digit_val_def digit_char_def)

lemma digit_val_bound: "is_digit c \<Longrightarrow> digit_val c < 10"
  unfolding is_digit_def digit_val_def by linarith

lemma digits_val_bound: "list_all is_digit s \<Longrightarrow> digits_val s < 10 ^ length s"
proof (induction s rule: rev_induct)
  case Nil
  then show ?case by simp
next
  case (snoc c s)
  then have "digits_val s < 10 ^ length s" and "digit_val c < 10"
    by (simp_all add: digit_val_bound)
  then have "digits_val s * 10 + digit_val c < 10 ^ length s * 10"
    by linarith
  then show ?case by simp
qed

lemma format_nat_unfold:
  "format_nat n = (if n < 10 then [digit_char n] else format_nat (n div 10) @ [digit_char (n mod 10)])"
  by (simp add: format_nat_def format_base.simps [of 10 n])

lemma format_nat_induct [case_names small step]:
  assumes "\<And>n. n < 10 \<Longrightarrow> P n" and "\<And>n. 10 \<le> n \<Longrightarrow> P (n div 10) \<Longrightarrow> P n"
  shows "P (n :: nat)"
proof (induction n rule: less_induct)
  case (less n)
  show ?case
  proof (cases "n < 10")
    case False
    then have "n div 10 < n" by simp
    with False less assms(2) show ?thesis by simp
  qed (rule assms(1))
qed

lemma format_nat_digits: "list_all is_digit (format_nat n)"
  by (induction n rule: format_nat_induct) (subst format_nat_unfold, simp)+

lemma digits_val_format_nat [simp]: "digits_val (format_nat n) = n"
proof (induction n rule: format_nat_induct)
  case (small n)
  then show ?case by (subst format_nat_unfold) (simp add: digits_val_def)
next
  case (step n)
  then show ?case by (subst format_nat_unfold) simp
qed

lemma format_nat_nonempty [simp]: "format_nat n \<noteq> []"
  by (subst format_nat_unfold) simp

lemma format_nat_hd: "0 < n \<Longrightarrow> hd (format_nat n) \<noteq> CHR ''0''"
proof (induction n rule: format_nat_induct)
  case (small n)
  then have "n \<in> {1, 2, 3, 4, 5, 6, 7, 8, 9}" by auto
  then show ?case by (subst format_nat_unfold) (auto simp: digit_char_def char_of_def)
next
  case (step n)
  then show ?case by (subst format_nat_unfold) (simp add: hd_append)
qed

lemma format_nat_inj: "format_nat m = format_nat n \<longleftrightarrow> m = n"
  by (metis digits_val_format_nat)

lemma div_10_less_power: "n div 10 < 10 ^ k \<longleftrightarrow> n < (10 :: nat) ^ Suc k"
  by (simp add: div_less_iff_less_mult mult.commute)

lemma format_nat_length: "0 < k \<Longrightarrow> length (format_nat n) \<le> k \<longleftrightarrow> n < 10 ^ k"
proof (induction n arbitrary: k rule: format_nat_induct)
  case (small n)
  have "10 ^ 1 \<le> (10 :: nat) ^ k" using small.prems by (intro power_increasing) auto
  with small show ?case by (subst format_nat_unfold) auto
next
  case (step n)
  then obtain j where k: "k = Suc j" by (cases k) auto
  have len: "length (format_nat n) = Suc (length (format_nat (n div 10)))"
    using step.hyps by (subst format_nat_unfold) simp
  show ?case
  proof (cases "j = 0")
    case True
    then show ?thesis using step.hyps by (simp add: len k)
  next
    case False
    then show ?thesis using step.IH [of j] by (simp add: len k div_10_less_power)
  qed
qed

text \<open>
  \<open>strings.TrimSpace\<close>: the code points of \<open>unicode.IsSpace\<close> in UTF-8. A space at an end of the
  string is one of these byte sequences at that end (UTF-8 is self-synchronising), and a
  malformed byte is no space.
\<close>

definition space_seqs :: "string list" where
  "space_seqs = map (map char_of)
     ([[9], [10], [11], [12], [13], [32], [194, 133], [194, 160], [225, 154, 128],
       [226, 128, 168], [226, 128, 169], [226, 128, 175], [226, 129, 159], [227, 128, 128]]
      @ map (\<lambda>b. [226, 128, b :: int]) [128, 129, 130, 131, 132, 133, 134, 135, 136, 137, 138])"

fun drop_seq :: "string list \<Rightarrow> string \<Rightarrow> string option" where
  "drop_seq [] s = None"
| "drop_seq (q # qs) s = (if q \<noteq> [] \<and> prefix q s then Some (drop (length q) s) else drop_seq qs s)"

lemma drop_seq_shorter: "drop_seq qs s = Some r \<Longrightarrow> length r < length s"
  by (induction qs) (auto split: if_splits dest: prefix_length_le simp: prefix_def)

function trim_left :: "string list \<Rightarrow> string \<Rightarrow> string" where
  "trim_left qs s = (case drop_seq qs s of None \<Rightarrow> s | Some r \<Rightarrow> trim_left qs r)"
  by pat_completeness auto
termination
  by (relation "measure (length \<circ> snd)") (auto dest: drop_seq_shorter)

declare trim_left.simps [simp del]

definition trim_space :: "string \<Rightarrow> string" where
  "trim_space s = rev (trim_left (map rev space_seqs) (rev (trim_left space_seqs s)))"

lemma trim_left_fixed: "drop_seq qs s = None \<Longrightarrow> trim_left qs s = s"
  by (simp add: trim_left.simps)

lemma drop_seq_trim_left: "drop_seq qs (trim_left qs s) = None"
proof (induction s rule: measure_induct_rule [where f = length])
  case (less s)
  show ?case
  proof (cases "drop_seq qs s")
    case None
    then show ?thesis by (simp add: trim_left_fixed)
  next
    case (Some r)
    with less [of r] show ?thesis
      by (simp add: trim_left.simps [of qs s] drop_seq_shorter)
  qed
qed

lemma drop_seq_None: "drop_seq qs s = None \<longleftrightarrow> (\<forall>q \<in> set qs. q \<noteq> [] \<longrightarrow> \<not> prefix q s)"
  by (induction qs) auto

lemma trim_left_suffix: "suffix (trim_left qs s) s"
proof (induction s rule: measure_induct_rule [where f = length])
  case (less s)
  have "suffix r s" if "drop_seq qs s = Some r" for r
    using that by (induction qs) (auto split: if_splits simp: suffix_drop)
  with less show ?case
    by (subst trim_left.simps) (auto split: option.split dest: drop_seq_shorter intro: suffix_order.trans)
qed

lemma trim_space_idem [simp]: "trim_space (trim_space s) = trim_space s"
proof -
  let ?l = "trim_left space_seqs s" and ?r = "trim_space s"
  have "suffix (rev ?r) (rev ?l)"
    by (simp add: trim_space_def trim_left_suffix)
  then have "prefix ?r ?l" by (simp add: suffix_to_prefix)
  then have "drop_seq space_seqs ?r = None"
    using drop_seq_trim_left [of space_seqs s]
    by (auto simp: drop_seq_None intro: prefix_order.trans)
  moreover have "drop_seq (map rev space_seqs) (rev ?r) = None"
    by (simp add: trim_space_def drop_seq_trim_left)
  ultimately show ?thesis by (simp add: trim_space_def [of ?r] trim_left_fixed)
qed

text \<open>A byte that occurs in no space survives trimming.\<close>

lemma trim_left_keeps: "c \<in> set s \<Longrightarrow> c \<notin> \<Union> (set ` set qs) \<Longrightarrow> c \<in> set (trim_left qs s)"
proof (induction s rule: measure_induct_rule [where f = length])
  case (less s)
  show ?case
  proof (cases "drop_seq qs s")
    case None
    with less show ?thesis by (simp add: trim_left_fixed)
  next
    case (Some r)
    then have "\<exists>q \<in> set qs. s = q @ r"
      by (induction qs) (auto split: if_splits simp: prefix_def)
    with less.prems have "c \<in> set r" by auto
    with less Some show ?thesis by (simp add: trim_left.simps [of qs s] drop_seq_shorter)
  qed
qed

lemma trim_space_keeps: "c \<in> set s \<Longrightarrow> c \<notin> \<Union> (set ` set space_seqs) \<Longrightarrow> trim_space s \<noteq> []"
proof -
  assume "c \<in> set s" "c \<notin> \<Union> (set ` set space_seqs)"
  then have "c \<in> set (trim_left space_seqs s)" by (rule trim_left_keeps)
  then have "c \<in> set (trim_left (map rev space_seqs) (rev (trim_left space_seqs s)))"
    using \<open>c \<notin> _\<close> by (intro trim_left_keeps) simp_all
  then show ?thesis by (auto simp: trim_space_def)
qed

lemma trim_space_Nil [simp]: "trim_space [] = []"
  by (simp add: trim_space_def trim_left_fixed drop_seq_None)

lemma trim_space_empty_iff: "trim_space s = [] \<Longrightarrow> trim_space (trim_space s) = []"
  by simp

end
