(* ===== verification/Store.thy ===== *)
theory Store
  imports Prelude
begin

named_theorems keeps_intros \<open>actions that leave a part of the tables alone\<close>
named_theorems grows_intros \<open>actions that never take the id counter back\<close>

text \<open>
  The database as the code sees it. The source talks to MySQL through gorm, which are not part
  of the repository: what they add to the statements written in the source is kept as a
  parameter, the record \<open>env\<close>. \<open>ev_fault n\<close> is the fault with which the n-th statement the
  process sends fails (a MySQL error or one of the connection, never \<open>gorm.ErrRecordNotFound\<close>,
  which means that the statement ran), None when the server executes it, so every theorem about an action holds
  for every schedule of failures; \<open>ev_now k\<close> is the k-th reading of the clock and \<open>ev_stamp t\<close>
  is \<open>t.Format("20060102150405")\<close> in the time zone of the process.

  What is left is the meaning of the statements themselves: a table is the list of its rows in
  primary-key order; \<open>Where(..).First\<close> is the first row that satisfies the condition or
  \<open>gorm.ErrRecordNotFound\<close>, \<open>Where(..).Order("id ASC").Limit(n).Find\<close> the first n of them,
  \<open>Updates\<close> rewrites the rows that satisfy the condition and returns their number
  (\<open>RowsAffected\<close>), \<open>Create\<close> appends a row under a fresh AUTO_INCREMENT id unless a unique key
  is violated (MySQL error 1062, whose message names the key). Every id comes from one growing
  counter: the code relies on their being positive and fresh only, and MySQL allows gaps.
  Rows read \<open>FOR UPDATE\<close> stay locked until the surrounding transaction ends, so an action on
  one wallet runs without interference, and transactions are steps of one sequence.
\<close>

section \<open>Errors of the driver\<close>

datatype db_error = RecordNotFound | MySQLError nat string | OtherDbError string

datatype db_fault = ServerFault nat string | ConnectionFault string

definition fault_error :: "db_fault \<Rightarrow> db_error" where
  "fault_error f = (case f of ServerFault n msg \<Rightarrow> MySQLError n msg | ConnectionFault msg \<Rightarrow> OtherDbError msg)"

lemma fault_error_not_found [simp]: "fault_error f \<noteq> RecordNotFound" "RecordNotFound \<noteq> fault_error f"
  by (simp_all add: fault_error_def split: db_fault.split)

definition error_text :: "db_error \<Rightarrow> string" where
  "error_text e = (case e of
     RecordNotFound \<Rightarrow> ''record not found''
   | MySQLError n msg \<Rightarrow> ''Error '' @ format_nat n @ '': '' @ msg
   | OtherDbError msg \<Rightarrow> msg)"

fun contains :: "string \<Rightarrow> string \<Rightarrow> bool" where
  "contains [] sub = (sub = [])"
| "contains (c # s) sub = (prefix sub (c # s) \<or> contains s sub)"

lemma contains_sublist: "contains s sub = sublist sub s"
  by (induction s) (auto simp: sublist_Cons_right)

section \<open>Actions\<close>

record env =
  ev_fault :: "nat \<Rightarrow> db_fault option"
  ev_now :: "nat \<Rightarrow> gotime"
  ev_stamp :: "gotime \<Rightarrow> string"

record 'd world =
  stmt_no :: nat
  clock_no :: nat
  auto_inc :: int
  serial_seq :: int
  tables :: 'd

type_synonym ('e, 's, 'a) act = "'s \<Rightarrow> ('e + 'a) \<times> 's"

definition ret :: "'a \<Rightarrow> ('e, 's, 'a) act" where
  "ret a s = (Inr a, s)"

definition throw :: "'e \<Rightarrow> ('e, 's, 'a) act" where
  "throw e s = (Inl e, s)"

definition bind :: "('e, 's, 'a) act \<Rightarrow> ('a \<Rightarrow> ('e, 's, 'b) act) \<Rightarrow> ('e, 's, 'b) act" where
  "bind m f s = (case m s of (Inl e, t) \<Rightarrow> (Inl e, t) | (Inr a, t) \<Rightarrow> f a t)"

text \<open>\<open>catch m h\<close> hands the error of m to h, as code that inspects \<open>err\<close> does.\<close>

definition catch :: "('e, 's, 'a) act \<Rightarrow> ('e \<Rightarrow> ('f, 's, 'a) act) \<Rightarrow> ('f, 's, 'a) act" where
  "catch m h s = (case m s of (Inl e, t) \<Rightarrow> h e t | (Inr a, t) \<Rightarrow> (Inr a, t))"

definition map_error :: "('e \<Rightarrow> 'f) \<Rightarrow> ('e, 's, 'a) act \<Rightarrow> ('f, 's, 'a) act" where
  "map_error g m = catch m (\<lambda>e. throw (g e))"

definition pure_result :: "'e + 'a \<Rightarrow> ('e, 's, 'a) act" where
  "pure_result r s = (r, s)"

text \<open>\<open>either m h f\<close> goes on with h on the error of m and with f on its value.\<close>

definition either ::
    "('e, 's, 'a) act \<Rightarrow> ('e \<Rightarrow> ('f, 's, 'b) act) \<Rightarrow> ('a \<Rightarrow> ('f, 's, 'b) act) \<Rightarrow> ('f, 's, 'b) act" where
  "either m h f s = (case m s of (Inl e, t) \<Rightarrow> h e t | (Inr a, t) \<Rightarrow> f a t)"

text \<open>
  \<open>Returns m s a t\<close>: started in s, m returns a and leaves t. The lemmas in \<open>act_simps\<close> unfold
  it along the structure of the action, which is how every proof below runs an operation.
\<close>

definition Returns :: "('e, 's, 'a) act \<Rightarrow> 's \<Rightarrow> 'a \<Rightarrow> 's \<Rightarrow> bool" where
  "Returns m s a t \<longleftrightarrow> m s = (Inr a, t)"

definition Fails :: "('e, 's, 'a) act \<Rightarrow> 's \<Rightarrow> 'e \<Rightarrow> 's \<Rightarrow> bool" where
  "Fails m s e t \<longleftrightarrow> m s = (Inl e, t)"

lemma Returns_ret [act_simps]: "Returns (ret a) s b t \<longleftrightarrow> b = a \<and> t = s"
  by (auto simp: Returns_def ret_def)

lemma Returns_throw [act_simps]: "Returns (throw e) s b t \<longleftrightarrow> False"
  by (simp add: Returns_def throw_def)

lemma Returns_bind [act_simps]:
  "Returns (bind m f) s b t \<longleftrightarrow> (\<exists>a u. Returns m s a u \<and> Returns (f a) u b t)"
  by (auto simp: Returns_def bind_def split: prod.splits sum.splits)

lemma Returns_catch [act_simps]:
  "Returns (catch m h) s b t \<longleftrightarrow> Returns m s b t \<or> (\<exists>e u. Fails m s e u \<and> Returns (h e) u b t)"
  by (auto simp: Returns_def Fails_def catch_def split: prod.splits sum.splits)

lemma Returns_map_error [act_simps]: "Returns (map_error g m) s b t \<longleftrightarrow> Returns m s b t"
  by (simp add: map_error_def act_simps)

lemma Returns_pure_result [act_simps]: "Returns (pure_result r) s b t \<longleftrightarrow> r = Inr b \<and> t = s"
  by (auto simp: Returns_def pure_result_def)

lemma Returns_either [act_simps]:
  "Returns (either m h f) s b t \<longleftrightarrow>
     (\<exists>e u. Fails m s e u \<and> Returns (h e) u b t) \<or> (\<exists>a u. Returns m s a u \<and> Returns (f a) u b t)"
  by (auto simp: Returns_def Fails_def either_def split: prod.splits sum.splits)

lemma Fails_either [act_simps]:
  "Fails (either m h f) s e t \<longleftrightarrow>
     (\<exists>d u. Fails m s d u \<and> Fails (h d) u e t) \<or> (\<exists>a u. Returns m s a u \<and> Fails (f a) u e t)"
  by (auto simp: Returns_def Fails_def either_def split: prod.splits sum.splits)

lemma Returns_if [act_simps]:
  "Returns (if c then m else n) s b t \<longleftrightarrow> c \<and> Returns m s b t \<or> \<not> c \<and> Returns n s b t"
  by simp

lemma Returns_det: "Returns m s a t \<Longrightarrow> Returns m s b u \<Longrightarrow> a = b \<and> t = u"
  by (simp add: Returns_def)

lemma Fails_ret [act_simps]: "Fails (ret a) s e t \<longleftrightarrow> False"
  by (simp add: Fails_def ret_def)

lemma Fails_throw [act_simps]: "Fails (throw e) s f t \<longleftrightarrow> f = e \<and> t = s"
  by (auto simp: Fails_def throw_def)

lemma Fails_bind [act_simps]:
  "Fails (bind m f) s e t \<longleftrightarrow> Fails m s e t \<or> (\<exists>a u. Returns m s a u \<and> Fails (f a) u e t)"
  by (auto simp: Returns_def Fails_def bind_def split: prod.splits sum.splits)

lemma Fails_catch [act_simps]:
  "Fails (catch m h) s e t \<longleftrightarrow> (\<exists>f u. Fails m s f u \<and> Fails (h f) u e t)"
  by (auto simp: Fails_def catch_def split: prod.splits sum.splits)

lemma Fails_map_error [act_simps]:
  "Fails (map_error g m) s e t \<longleftrightarrow> (\<exists>f. Fails m s f t \<and> e = g f)"
  by (auto simp: map_error_def act_simps)

lemma Fails_pure_result [act_simps]: "Fails (pure_result r) s e t \<longleftrightarrow> r = Inl e \<and> t = s"
  by (auto simp: Fails_def pure_result_def)

lemma Fails_if [act_simps]:
  "Fails (if c then m else n) s b t \<longleftrightarrow> c \<and> Fails m s b t \<or> \<not> c \<and> Fails n s b t"
  by simp

text \<open>The same rules for structured proofs.\<close>

lemma Returns_bindE [consumes 1, case_names bind]:
  assumes "Returns (bind m f) s b t"
  obtains a u where "Returns m s a u" "Returns (f a) u b t"
  using assms by (auto simp: act_simps)

lemma Returns_catchE [consumes 1, case_names ok handled]:
  assumes "Returns (catch m h) s b t"
  obtains "Returns m s b t" | e u where "Fails m s e u" "Returns (h e) u b t"
  using assms by (auto simp: act_simps)

lemma Returns_eitherE [consumes 1, case_names error ok]:
  assumes "Returns (either m h f) s b t"
  obtains e u where "Fails m s e u" "Returns (h e) u b t" | a u where "Returns m s a u" "Returns (f a) u b t"
  using assms by (auto simp: act_simps)

lemma Returns_or_Fails:
  obtains a t where "Returns m s a t" | e t where "Fails m s e t"
  unfolding Returns_def Fails_def by (cases "m s") (metis sumE)

text \<open>Running an action on a concrete state.\<close>

definition succeeds :: "('e, 's, 'a) act \<Rightarrow> 's \<Rightarrow> bool" where
  "succeeds m s \<longleftrightarrow> \<not> isl (fst (m s))"

definition answer :: "('e, 's, 'a) act \<Rightarrow> 's \<Rightarrow> 'a" where
  "answer m s = projr (fst (m s))"

definition final_state :: "('e, 's, 'a) act \<Rightarrow> 's \<Rightarrow> 's" where
  "final_state m s = snd (m s)"

lemma Returns_run: "succeeds m s \<Longrightarrow> Returns m s (answer m s) (final_state m s)"
  by (cases "m s"; cases "fst (m s)") (auto simp: Returns_def succeeds_def answer_def final_state_def)

lemma Returns_ran: "Returns m s a t \<Longrightarrow> succeeds m s \<and> answer m s = a \<and> final_state m s = t"
  by (simp add: Returns_def succeeds_def answer_def final_state_def)

lemma run_result: "succeeds m s \<Longrightarrow> m s = (Inr (answer m s), final_state m s)"
  using Returns_run [of m s] by (simp add: Returns_def)

section \<open>Statements\<close>

text \<open>Sending one statement: it runs, or fails as the environment says.\<close>

definition exec :: "env \<Rightarrow> (db_error, 'd world, unit) act" where
  "exec ev s =
     ((case ev_fault ev (stmt_no s) of Some f \<Rightarrow> Inl (fault_error f) | None \<Rightarrow> Inr ()),
      s\<lparr>stmt_no := Suc (stmt_no s)\<rparr>)"

definition read_clock :: "env \<Rightarrow> ('e, 'd world, gotime) act" where
  "read_clock ev s = (Inr (ev_now ev (clock_no s)), s\<lparr>clock_no := Suc (clock_no s)\<rparr>)"

definition query :: "env \<Rightarrow> ('d \<Rightarrow> 'a) \<Rightarrow> (db_error, 'd world, 'a) act" where
  "query ev q = bind (exec ev) (\<lambda>_ s. (Inr (q (tables s)), s))"

definition first :: "env \<Rightarrow> ('d \<Rightarrow> 'r list) \<Rightarrow> ('r \<Rightarrow> bool) \<Rightarrow> (db_error, 'd world, 'r) act" where
  "first ev get P = bind (query ev (\<lambda>d. find P (get d)))
     (\<lambda>r. case r of None \<Rightarrow> throw RecordNotFound | Some row \<Rightarrow> ret row)"

definition find_limit ::
    "env \<Rightarrow> ('d \<Rightarrow> 'r list) \<Rightarrow> ('r \<Rightarrow> bool) \<Rightarrow> nat \<Rightarrow> (db_error, 'd world, 'r list) act" where
  "find_limit ev get P n = query ev (\<lambda>d. take n (filter P (get d)))"

definition change_rows :: "('r \<Rightarrow> bool) \<Rightarrow> ('r \<Rightarrow> 'r) \<Rightarrow> 'r list \<Rightarrow> 'r list" where
  "change_rows P g = map (\<lambda>r. if P r then g r else r)"

definition update_where ::
    "env \<Rightarrow> ('d \<Rightarrow> 'r list) \<Rightarrow> (('r list \<Rightarrow> 'r list) \<Rightarrow> 'd \<Rightarrow> 'd) \<Rightarrow> ('r \<Rightarrow> bool) \<Rightarrow> (gotime \<Rightarrow> 'r \<Rightarrow> 'r)
       \<Rightarrow> (db_error, 'd world, nat) act" where
  "update_where ev get upd P g = bind (read_clock ev) (\<lambda>t. bind (exec ev) (\<lambda>_ s.
     (Inr (length (filter P (get (tables s)))),
      s\<lparr>tables := upd (change_rows P (g t)) (tables s)\<rparr>)))"

definition insert_row ::
    "env \<Rightarrow> ('d \<Rightarrow> 'r list) \<Rightarrow> (('r list \<Rightarrow> 'r list) \<Rightarrow> 'd \<Rightarrow> 'd) \<Rightarrow> ('r \<Rightarrow> 'r list \<Rightarrow> string option)
       \<Rightarrow> (int \<Rightarrow> gotime \<Rightarrow> 'r) \<Rightarrow> (db_error, 'd world, 'r) act" where
  "insert_row ev get upd violated mk = bind (read_clock ev) (\<lambda>t. bind (exec ev) (\<lambda>_ s.
     let row = mk (auto_inc s) t; s' = s\<lparr>auto_inc := auto_inc s + 1\<rparr>
     in case violated row (get (tables s)) of
          Some key \<Rightarrow> (Inl (MySQLError 1062 (''Duplicate entry for key '' @ key)), s')
        | None \<Rightarrow> (Inr row, s'\<lparr>tables := upd (\<lambda>rows. rows @ [row]) (tables s)\<rparr>)))"

text \<open>
  \<open>db.Transaction(f)\<close>: BEGIN, the body, COMMIT. An error of the body, or of COMMIT, rolls every
  table back; the process' own memory (statement and clock counters, the serial sequence) stays.
\<close>

definition transaction_with ::
    "env \<Rightarrow> (db_error \<Rightarrow> 'e) \<Rightarrow> ('a \<Rightarrow> db_error \<Rightarrow> 'e) \<Rightarrow> ('e, 'd world, 'a) act \<Rightarrow> ('e, 'd world, 'a) act" where
  "transaction_with ev begin_error commit_error body s =
     (case exec ev s of
        (Inl e, s1) \<Rightarrow> (Inl (begin_error e), s1)
      | (Inr _, s1) \<Rightarrow>
          (case body s1 of
             (Inl e, s2) \<Rightarrow> (Inl e, s2\<lparr>tables := tables s\<rparr>)
           | (Inr a, s2) \<Rightarrow>
               (case exec ev s2 of
                  (Inl e, s3) \<Rightarrow> (Inl (commit_error a e), s3\<lparr>tables := tables s\<rparr>)
                | (Inr _, s3) \<Rightarrow> (Inr a, s3))))"

definition transaction ::
    "env \<Rightarrow> (db_error \<Rightarrow> 'e) \<Rightarrow> ('e, 'd world, 'a) act \<Rightarrow> ('e, 'd world, 'a) act" where
  "transaction ev conv body = transaction_with ev conv (\<lambda>_. conv) body"

definition no_fault :: "env \<Rightarrow> 'd world \<Rightarrow> bool" where
  "no_fault ev s \<longleftrightarrow> ev_fault ev (stmt_no s) = None"

definition fault_at :: "env \<Rightarrow> 'd world \<Rightarrow> db_error \<Rightarrow> bool" where
  "fault_at ev s e \<longleftrightarrow> (\<exists>f. ev_fault ev (stmt_no s) = Some f \<and> e = fault_error f)"

lemma fault_at_not_found [simp]: "\<not> fault_at ev s RecordNotFound"
  by (simp add: fault_at_def)

definition sent :: "'d world \<Rightarrow> 'd world" where
  "sent s = s\<lparr>stmt_no := Suc (stmt_no s)\<rparr>"

definition ticked :: "'d world \<Rightarrow> 'd world" where
  "ticked s = s\<lparr>clock_no := Suc (clock_no s)\<rparr>"

lemma sent_simps [simp]:
  "tables (sent s) = tables s" "auto_inc (sent s) = auto_inc s"
  "serial_seq (sent s) = serial_seq s" "clock_no (sent s) = clock_no s"
  "stmt_no (sent s) = Suc (stmt_no s)"
  by (simp_all add: sent_def)

lemma ticked_simps [simp]:
  "tables (ticked s) = tables s" "auto_inc (ticked s) = auto_inc s"
  "serial_seq (ticked s) = serial_seq s" "stmt_no (ticked s) = stmt_no s"
  "clock_no (ticked s) = Suc (clock_no s)"
  by (simp_all add: ticked_def)

lemma Returns_exec [act_simps]: "Returns (exec ev) s u t \<longleftrightarrow> no_fault ev s \<and> t = sent s"
  by (auto simp: Returns_def exec_def no_fault_def sent_def split: option.splits)

lemma Returns_read_clock [act_simps]:
  "Returns (read_clock ev) s n t \<longleftrightarrow> n = ev_now ev (clock_no s) \<and> t = ticked s"
  by (auto simp: Returns_def read_clock_def ticked_def)

lemma Fails_read_clock [act_simps]: "Fails (read_clock ev) s e t \<longleftrightarrow> False"
  by (simp add: Fails_def read_clock_def)

lemma Fails_exec [act_simps]:
  "Fails (exec ev) s e t \<longleftrightarrow> fault_at ev s e \<and> t = sent s"
  by (auto simp: Fails_def exec_def sent_def fault_at_def split: option.splits)

lemma Returns_query [act_simps]:
  "Returns (query ev q) s a t \<longleftrightarrow> no_fault ev s \<and> a = q (tables s) \<and> t = sent s"
  by (auto simp: query_def act_simps) (auto simp: Returns_def)

lemma Fails_query [act_simps]:
  "Fails (query ev q) s e t \<longleftrightarrow> fault_at ev s e \<and> t = sent s"
  by (auto simp: query_def act_simps) (auto simp: Fails_def)

lemma Returns_first [act_simps]:
  "Returns (first ev get P) s r t \<longleftrightarrow> no_fault ev s \<and> find P (get (tables s)) = Some r \<and> t = sent s"
  by (auto simp: first_def act_simps split: option.splits)

lemma Fails_first [act_simps]:
  "Fails (first ev get P) s e t \<longleftrightarrow>
     t = sent s \<and> (fault_at ev s e \<or>
       no_fault ev s \<and> find P (get (tables s)) = None \<and> e = RecordNotFound)"
  by (auto simp: first_def act_simps split: option.splits)

lemma Returns_find_limit [act_simps]:
  "Returns (find_limit ev get P n) s rs t \<longleftrightarrow>
     no_fault ev s \<and> rs = take n (filter P (get (tables s))) \<and> t = sent s"
  by (simp add: find_limit_def act_simps)

lemma Fails_find_limit [act_simps]:
  "Fails (find_limit ev get P n) s e t \<longleftrightarrow> fault_at ev s e \<and> t = sent s"
  by (simp add: find_limit_def act_simps)

lemma Fails_update_where [act_simps]:
  "Fails (update_where ev get upd P g) s e t \<longleftrightarrow> fault_at ev s e \<and> t = sent (ticked s)"
  by (auto simp: update_where_def act_simps fault_at_def) (auto simp: Fails_def)

lemma Fails_insert_row [act_simps]:
  "Fails (insert_row ev get upd violated mk) s e t \<longleftrightarrow>
     fault_at ev s e \<and> t = sent (ticked s) \<or>
     no_fault ev s \<and> t = (sent (ticked s))\<lparr>auto_inc := auto_inc s + 1\<rparr> \<and>
     (\<exists>key. violated (mk (auto_inc s) (ev_now ev (clock_no s))) (get (tables s)) = Some key \<and>
       e = MySQLError 1062 (''Duplicate entry for key '' @ key))"
  by (auto simp: insert_row_def act_simps no_fault_def fault_at_def Let_def)
    (auto simp: Fails_def split: option.splits)

lemma Returns_update_where [act_simps]:
  "Returns (update_where ev get upd P g) s n t \<longleftrightarrow>
     no_fault ev s \<and> n = length (filter P (get (tables s))) \<and>
     t = (sent (ticked s))\<lparr>tables := upd (change_rows P (g (ev_now ev (clock_no s)))) (tables s)\<rparr>"
  by (auto simp: update_where_def act_simps no_fault_def) (auto simp: Returns_def)

lemma Returns_insert_row [act_simps]:
  "Returns (insert_row ev get upd violated mk) s r t \<longleftrightarrow>
     no_fault ev s \<and> r = mk (auto_inc s) (ev_now ev (clock_no s)) \<and>
     violated r (get (tables s)) = None \<and>
     t = (sent (ticked s))\<lparr>auto_inc := auto_inc s + 1,
           tables := upd (\<lambda>rows. rows @ [r]) (tables s)\<rparr>"
  by (auto simp: insert_row_def act_simps no_fault_def Let_def)
    (auto simp: Returns_def split: option.splits)

lemma Returns_transaction_with:
  "Returns (transaction_with ev b c body) s a t \<longleftrightarrow>
     no_fault ev s \<and> (\<exists>u. Returns body (sent s) a u \<and> no_fault ev u \<and> t = sent u)"
  by (auto simp: transaction_with_def Returns_def exec_def no_fault_def sent_def
      split: prod.splits sum.splits option.splits)

lemma Returns_transaction:
  "Returns (transaction ev conv body) s a t \<longleftrightarrow>
     no_fault ev s \<and> (\<exists>u. Returns body (sent s) a u \<and> no_fault ev u \<and> t = sent u)"
  unfolding transaction_def by (rule Returns_transaction_with)

lemma Fails_transaction_with_tables: "Fails (transaction_with ev b c body) s e t \<Longrightarrow> tables t = tables s"
  by (auto simp: transaction_with_def Fails_def exec_def split: prod.splits sum.splits option.splits)

lemma Fails_transaction_tables: "Fails (transaction ev conv body) s e t \<Longrightarrow> tables t = tables s"
  unfolding transaction_def by (rule Fails_transaction_with_tables)

section \<open>The id counter\<close>

text \<open>Whatever an action does, succeeding or failing, the counter of ids never goes back.\<close>

definition grows :: "('e, 'd world, 'a) act \<Rightarrow> bool" where
  "grows m \<longleftrightarrow> (\<forall>s. auto_inc s \<le> auto_inc (snd (m s)))"

lemma growsD: "grows m \<Longrightarrow> auto_inc s \<le> auto_inc (snd (m s))"
  by (simp add: grows_def)

lemma grows_basic [grows_intros]:
  "grows (ret a)" "grows (throw e)" "grows (pure_result r)" "grows (exec ev)" "grows (read_clock ev)"
  by (simp_all add: grows_def ret_def throw_def pure_result_def exec_def read_clock_def)

lemma grows_bind [grows_intros]: "grows m \<Longrightarrow> (\<And>a. grows (f a)) \<Longrightarrow> grows (bind m f)"
  unfolding grows_def bind_def by (fastforce split: prod.splits sum.splits intro: order_trans)

lemma grows_either [grows_intros]:
  "grows m \<Longrightarrow> (\<And>e. grows (h e)) \<Longrightarrow> (\<And>a. grows (f a)) \<Longrightarrow> grows (either m h f)"
  unfolding grows_def either_def by (fastforce split: prod.splits sum.splits intro: order_trans)

lemma grows_catch [grows_intros]: "grows m \<Longrightarrow> (\<And>e. grows (h e)) \<Longrightarrow> grows (catch m h)"
  unfolding grows_def catch_def by (fastforce split: prod.splits sum.splits intro: order_trans)

lemma grows_map_error [grows_intros]: "grows m \<Longrightarrow> grows (map_error g m)"
  unfolding map_error_def by (intro grows_intros)

lemma grows_query [grows_intros]: "grows (query ev q)"
  unfolding query_def by (intro grows_intros) (simp add: grows_def)

lemma grows_first [grows_intros]: "grows (first ev get P)"
  unfolding first_def by (intro grows_intros) (auto split: option.split intro: grows_intros)

lemma grows_find_limit [grows_intros]: "grows (find_limit ev get P n)"
  unfolding find_limit_def by (intro grows_intros)

lemma grows_update_where [grows_intros]: "grows (update_where ev get upd P g)"
  unfolding update_where_def by (intro grows_intros) (simp add: grows_def)

lemma grows_insert_row [grows_intros]: "grows (insert_row ev get upd violated mk)"
  unfolding insert_row_def by (intro grows_intros) (simp add: grows_def Let_def split: option.split)

lemma grows_if [grows_intros]: "(c \<Longrightarrow> grows m) \<Longrightarrow> (\<not> c \<Longrightarrow> grows n) \<Longrightarrow> grows (if c then m else n)"
  by simp

lemma grows_option [grows_intros]:
  "(x = None \<Longrightarrow> grows m) \<Longrightarrow> (\<And>a. x = Some a \<Longrightarrow> grows (f a)) \<Longrightarrow> grows (case x of None \<Rightarrow> m | Some a \<Rightarrow> f a)"
  by (cases x) simp_all

lemma grows_sum [grows_intros]:
  "(\<And>e. x = Inl e \<Longrightarrow> grows (g e)) \<Longrightarrow> (\<And>a. x = Inr a \<Longrightarrow> grows (f a)) \<Longrightarrow>
     grows (case x of Inl e \<Rightarrow> g e | Inr a \<Rightarrow> f a)"
  by (cases x) simp_all

lemma grows_list [grows_intros]:
  "(x = [] \<Longrightarrow> grows m) \<Longrightarrow> (\<And>a as. x = a # as \<Longrightarrow> grows (f a as)) \<Longrightarrow>
     grows (case x of [] \<Rightarrow> m | a # as \<Rightarrow> f a as)"
  by (cases x) simp_all

lemma auto_inc_exec: "exec ev s = (r, t) \<Longrightarrow> auto_inc t = auto_inc s"
  by (auto simp: exec_def)

lemma grows_transaction_with [grows_intros]: "grows m \<Longrightarrow> grows (transaction_with ev b c m)"
  unfolding grows_def transaction_with_def
proof
  fix s :: "'a world"
  assume m: "\<forall>s. auto_inc s \<le> auto_inc (snd (m s))"
  obtain r1 s1 where e1: "exec ev s = (r1, s1)" by fastforce
  obtain r2 s2 where e2: "m s1 = (r2, s2)" by fastforce
  obtain r3 s3 where e3: "exec ev s2 = (r3, s3)" by fastforce
  have "auto_inc s1 \<le> auto_inc s2" using m [rule_format, of s1] e2 by simp
  then show "auto_inc s \<le> auto_inc (snd (case exec ev s of
        (Inl e, s1) \<Rightarrow> (Inl (b e), s1)
      | (Inr _, s1) \<Rightarrow>
          (case m s1 of
             (Inl e, s2) \<Rightarrow> (Inl e, s2\<lparr>tables := tables s\<rparr>)
           | (Inr a, s2) \<Rightarrow>
               (case exec ev s2 of
                  (Inl e, s3) \<Rightarrow> (Inl (c a e), s3\<lparr>tables := tables s\<rparr>)
                | (Inr _, s3) \<Rightarrow> (Inr a, s3)))))"
    using auto_inc_exec [OF e1] auto_inc_exec [OF e3] by (simp add: e1 e2 e3 split: sum.split)
qed

lemma grows_transaction [grows_intros]: "grows m \<Longrightarrow> grows (transaction ev conv m)"
  unfolding transaction_def by (intro grows_intros)

section \<open>Tables an action leaves alone\<close>

text \<open>\<open>keeps f m\<close>: whatever m does, the part f of the tables is as before.\<close>

definition keeps :: "('d \<Rightarrow> 'b) \<Rightarrow> ('e, 'd world, 'a) act \<Rightarrow> bool" where
  "keeps f m \<longleftrightarrow> (\<forall>s. f (tables (snd (m s))) = f (tables s))"

lemma keepsD: "keeps f m \<Longrightarrow> Returns m s a t \<Longrightarrow> f (tables t) = f (tables s)"
  unfolding keeps_def Returns_def by (metis snd_conv)

lemma keeps_basic [keeps_intros]:
  "keeps f (ret a)" "keeps f (throw e)" "keeps f (pure_result r)" "keeps f (exec ev)" "keeps f (read_clock ev)"
  by (simp_all add: keeps_def ret_def throw_def pure_result_def exec_def read_clock_def)

lemma keeps_bind [keeps_intros]: "keeps f m \<Longrightarrow> (\<And>a. keeps f (g a)) \<Longrightarrow> keeps f (bind m g)"
  unfolding keeps_def bind_def by (auto split: prod.splits sum.splits) (metis snd_conv)+

lemma keeps_either [keeps_intros]:
  "keeps f m \<Longrightarrow> (\<And>e. keeps f (h e)) \<Longrightarrow> (\<And>a. keeps f (g a)) \<Longrightarrow> keeps f (either m h g)"
  unfolding keeps_def either_def by (auto split: prod.splits sum.splits) (metis snd_conv)+

lemma keeps_catch [keeps_intros]: "keeps f m \<Longrightarrow> (\<And>e. keeps f (h e)) \<Longrightarrow> keeps f (catch m h)"
  unfolding keeps_def catch_def by (auto split: prod.splits sum.splits) (metis snd_conv)+

lemma keeps_map_error [keeps_intros]: "keeps f m \<Longrightarrow> keeps f (map_error g m)"
  unfolding map_error_def by (intro keeps_intros)

lemma keeps_query [keeps_intros]: "keeps f (query ev q)"
  unfolding query_def by (intro keeps_intros) (simp add: keeps_def)

lemma keeps_first [keeps_intros]: "keeps f (first ev get P)"
  unfolding first_def by (intro keeps_intros) (auto split: option.split intro: keeps_intros)

lemma keeps_find_limit [keeps_intros]: "keeps f (find_limit ev get P n)"
  unfolding find_limit_def by (intro keeps_intros)

lemma keeps_update_where [keeps_intros]:
  "(\<And>h d. f (upd h d) = f d) \<Longrightarrow> keeps f (update_where ev get upd P g)"
  unfolding update_where_def by (intro keeps_intros) (simp add: keeps_def)

lemma keeps_insert_row [keeps_intros]:
  "(\<And>h d. f (upd h d) = f d) \<Longrightarrow> keeps f (insert_row ev get upd violated mk)"
  unfolding insert_row_def by (intro keeps_intros) (simp add: keeps_def Let_def split: option.split)

lemma keeps_cases [keeps_intros]:
  "(c \<Longrightarrow> keeps f m) \<Longrightarrow> (\<not> c \<Longrightarrow> keeps f n) \<Longrightarrow> keeps f (if c then m else n)"
  "(x = None \<Longrightarrow> keeps f m) \<Longrightarrow> (\<And>a. x = Some a \<Longrightarrow> keeps f (k a)) \<Longrightarrow>
     keeps f (case x of None \<Rightarrow> m | Some a \<Rightarrow> k a)"
  "(\<And>e. r = Inl e \<Longrightarrow> keeps f (g e)) \<Longrightarrow> (\<And>a. r = Inr a \<Longrightarrow> keeps f (k' a)) \<Longrightarrow>
     keeps f (case r of Inl e \<Rightarrow> g e | Inr a \<Rightarrow> k' a)"
  "(l = [] \<Longrightarrow> keeps f m) \<Longrightarrow> (\<And>a as. l = a # as \<Longrightarrow> keeps f (j a as)) \<Longrightarrow>
     keeps f (case l of [] \<Rightarrow> m | a # as \<Rightarrow> j a as)"
  by (simp_all split: option.split sum.split list.split)

section \<open>Rows\<close>

lemma change_rows_Nil [simp]: "change_rows P g [] = []"
  by (simp add: change_rows_def)

lemma change_rows_append [simp]: "change_rows P g (xs @ ys) = change_rows P g xs @ change_rows P g ys"
  by (simp add: change_rows_def)

lemma set_change_rows: "set (change_rows P g rs) = {if P r then g r else r | r. r \<in> set rs}"
  by (auto simp: change_rows_def)

lemma map_change_rows: "(\<And>r. P r \<Longrightarrow> f (g r) = f r) \<Longrightarrow> map f (change_rows P g rs) = map f rs"
  by (simp add: change_rows_def)

lemma length_change_rows [simp]: "length (change_rows P g rs) = length rs"
  by (simp add: change_rows_def)

lemma find_SomeD: "find P rs = Some r \<Longrightarrow> r \<in> set rs \<and> P r"
  by (auto simp: find_Some_iff)

lemma find_NoneD: "find P rs = None \<Longrightarrow> r \<in> set rs \<Longrightarrow> \<not> P r"
  by (auto simp: find_None_iff)

lemma find_key_one:
  "distinct (map key rs) \<Longrightarrow> x \<in> set rs \<Longrightarrow> (\<And>r. r \<in> set rs \<Longrightarrow> P r \<longleftrightarrow> key r = key x) \<Longrightarrow>
     find P rs = Some x"
proof (cases "find P rs")
  case (Some y)
  assume a: "distinct (map key rs)" "x \<in> set rs" "\<And>r. r \<in> set rs \<Longrightarrow> P r \<longleftrightarrow> key r = key x"
  from find_SomeD [OF Some] a have "y \<in> set rs" "key y = key x" by auto
  with a(1,2) have "y = x" by (auto simp: distinct_map dest: inj_onD)
  with Some show ?thesis by simp
qed (auto simp: find_None_iff)

lemma change_rows_cong:
  "rs = rs' \<Longrightarrow> (\<And>r. r \<in> set rs' \<Longrightarrow> P r = Q r) \<Longrightarrow> (\<And>r. r \<in> set rs' \<Longrightarrow> Q r \<Longrightarrow> g r = h r) \<Longrightarrow>
     change_rows P g rs = change_rows Q h rs'"
  by (simp add: change_rows_def)

text \<open>A table whose rows have distinct keys: updating the one row of a key.\<close>

definition row_sum :: "('r \<Rightarrow> int) \<Rightarrow> 'r list \<Rightarrow> int" where
  "row_sum f rs = sum_list (map f rs)"

lemma row_sum_Nil [simp]: "row_sum f [] = 0"
  by (simp add: row_sum_def)

lemma row_sum_Cons [simp]: "row_sum f (r # rs) = f r + row_sum f rs"
  by (simp add: row_sum_def)

lemma row_sum_append [simp]: "row_sum f (xs @ ys) = row_sum f xs + row_sum f ys"
  by (simp add: row_sum_def)

lemma row_sum_cong: "(\<And>r. r \<in> set rs \<Longrightarrow> f r = g r) \<Longrightarrow> row_sum f rs = row_sum g rs"
  unfolding row_sum_def by (metis map_cong)

lemma row_sum_add: "row_sum (\<lambda>r. f r + g r) rs = row_sum f rs + row_sum g rs"
  by (induction rs) auto

lemma row_sum_zero: "(\<And>r. r \<in> set rs \<Longrightarrow> f r = 0) \<Longrightarrow> row_sum f rs = 0"
  by (induction rs) auto

lemma row_sum_nonneg: "(\<And>r. r \<in> set rs \<Longrightarrow> 0 \<le> f r) \<Longrightarrow> 0 \<le> row_sum f rs"
  unfolding row_sum_def by (induction rs) auto

lemma row_sum_ge_member:
  "r \<in> set rs \<Longrightarrow> (\<And>r. r \<in> set rs \<Longrightarrow> 0 \<le> f r) \<Longrightarrow> f r \<le> row_sum f rs"
proof (induction rs)
  case (Cons x rs)
  then show ?case using row_sum_nonneg [of rs f] by fastforce
qed simp

lemma row_sum_change_other:
  "(\<And>r. r \<in> set rs \<Longrightarrow> P r \<Longrightarrow> f (g r) = f r) \<Longrightarrow> row_sum f (change_rows P g rs) = row_sum f rs"
  by (induction rs) (auto simp: change_rows_def)

lemma row_sum_change_key:
  "distinct (map key rs) \<Longrightarrow> x \<in> set rs \<Longrightarrow> (\<And>r. r \<in> set rs \<Longrightarrow> P r \<longleftrightarrow> key r = key x) \<Longrightarrow>
     row_sum f (change_rows P g rs) = row_sum f rs - f x + f (g x)"
proof (induction rs)
  case (Cons r rs)
  show ?case
  proof (cases "r = x")
    case True
    have "key y \<noteq> key x" if "y \<in> set rs" for y
      using Cons.prems(1) True that by (metis distinct.simps(2) imageI list.set_map list.simps(9))
    then have "\<not> P y" if "y \<in> set rs" for y
      using Cons.prems(3) [of y] that by simp
    then have "row_sum f (change_rows P g rs) = row_sum f rs"
      by (intro row_sum_change_other) auto
    with True Cons.prems show ?thesis by (simp add: change_rows_def)
  next
    case False
    with Cons.prems have "\<not> P r" by force
    with False Cons show ?thesis by (simp add: change_rows_def)
  qed
qed simp

lemma filter_key_one:
  "distinct (map key rs) \<Longrightarrow> x \<in> set rs \<Longrightarrow> (\<And>r. r \<in> set rs \<Longrightarrow> P r \<longleftrightarrow> key r = key x) \<Longrightarrow>
     filter P rs = [x]"
proof (induction rs)
  case (Cons r rs)
  show ?case
  proof (cases "r = x")
    case True
    have "key y \<noteq> key x" if "y \<in> set rs" for y
      using Cons.prems(1) True that by (metis distinct.simps(2) imageI list.set_map list.simps(9))
    then have "filter P rs = []"
      using Cons.prems(3) by (auto simp: filter_empty_conv)
    with True Cons.prems show ?thesis by simp
  next
    case False
    with Cons.prems have "\<not> P r" by force
    with False Cons show ?thesis by simp
  qed
qed simp

lemma find_append: "find P (xs @ ys) = (case find P xs of None \<Rightarrow> find P ys | Some x \<Rightarrow> Some x)"
  by (induction xs) auto

lemma distinct_key_eq: "distinct (map key rs) \<Longrightarrow> x \<in> set rs \<Longrightarrow> y \<in> set rs \<Longrightarrow> key x = key y \<Longrightarrow> x = y"
  by (auto simp: distinct_map dest: inj_onD)

lemma member_change_key:
  "distinct (map key rs) \<Longrightarrow> x \<in> set rs \<Longrightarrow> (\<And>r. r \<in> set rs \<Longrightarrow> P r \<longleftrightarrow> key r = key x) \<Longrightarrow>
     r \<in> set (change_rows P g rs) \<longleftrightarrow> r = g x \<or> r \<in> set rs \<and> key r \<noteq> key x"
  by (auto simp: set_change_rows dest: distinct_key_eq)

text \<open>A table read as a map from its key, and as a sum over the rows of one key.\<close>

definition row_map :: "('r \<Rightarrow> 'k) \<Rightarrow> ('r \<Rightarrow> 'v) \<Rightarrow> 'r list \<Rightarrow> 'k \<Rightarrow> 'v option" where
  "row_map key f rs = map_of (map (\<lambda>r. (key r, f r)) rs)"

lemma row_map_Nil [simp]: "row_map key f [] = Map.empty"
  by (simp add: row_map_def)

lemma row_map_Some: "distinct (map key rs) \<Longrightarrow> r \<in> set rs \<Longrightarrow> row_map key f rs (key r) = Some (f r)"
  unfolding row_map_def by (rule map_of_is_SomeI) (auto simp: comp_def)

lemma row_map_None: "row_map key f rs k = None \<longleftrightarrow> k \<notin> key ` set rs"
  by (force simp: row_map_def map_of_eq_None_iff)

lemma row_map_SomeD: "row_map key f rs k = Some v \<Longrightarrow> \<exists>r \<in> set rs. key r = k \<and> f r = v"
  unfolding row_map_def using map_of_SomeD by fastforce

lemma row_map_append_new:
  "key r \<notin> key ` set rs \<Longrightarrow> row_map key f (rs @ [r]) = (row_map key f rs)(key r \<mapsto> f r)"
proof (rule ext)
  fix k assume "key r \<notin> key ` set rs"
  then show "row_map key f (rs @ [r]) k = ((row_map key f rs)(key r \<mapsto> f r)) k"
    using row_map_None [of key f rs k]
    by (cases "k = key r") (auto simp: row_map_def map_add_def split: option.split)
qed

lemma row_map_change_key:
  assumes d: "distinct (map key rs)" and x: "x \<in> set rs"
    and P: "\<And>r. r \<in> set rs \<Longrightarrow> P r \<longleftrightarrow> key r = key x" and g: "\<And>r. key (g r) = key r"
  shows "row_map key f (change_rows P g rs) = (row_map key f rs)(key x \<mapsto> f (g x))"
proof (rule ext)
  fix k
  have keys: "map key (change_rows P g rs) = map key rs" by (rule map_change_rows) (rule g)
  have mem: "r \<in> set (change_rows P g rs) \<longleftrightarrow> r = g x \<or> r \<in> set rs \<and> key r \<noteq> key x" for r
    by (rule member_change_key [OF d x P])
  show "row_map key f (change_rows P g rs) k = ((row_map key f rs)(key x \<mapsto> f (g x))) k"
  proof (cases "k \<in> key ` set rs")
    case True
    then obtain r where r: "r \<in> set rs" "k = key r" by auto
    then show ?thesis
      using row_map_Some [of key "change_rows P g rs" "if key r = key x then g x else r" f]
        row_map_Some [OF d r(1), of f] d
      by (auto simp: keys mem g)
  next
    case False
    then have "k \<notin> key ` set (change_rows P g rs)" by (metis keys list.set_map)
    with False x show ?thesis
      using row_map_None [of key f rs k] row_map_None [of key f "change_rows P g rs" k] by auto
  qed
qed

lemma row_map_change_other:
  "(\<And>r. r \<in> set rs \<Longrightarrow> P r \<Longrightarrow> key (g r) = key r \<and> f (g r) = f r) \<Longrightarrow>
     row_map key f (change_rows P g rs) = row_map key f rs"
  unfolding row_map_def change_rows_def by (rule arg_cong [where f = map_of]) auto

definition key_sum :: "('r \<Rightarrow> 'k) \<Rightarrow> ('r \<Rightarrow> int) \<Rightarrow> 'r list \<Rightarrow> 'k \<Rightarrow> int" where
  "key_sum key f rs k = row_sum (\<lambda>r. if key r = k then f r else 0) rs"

lemma key_sum_unique:
  assumes "distinct (map key rs)" "x \<in> set rs"
  shows "key_sum key f rs (key x) = f x"
  using assms
proof (induction rs)
  case (Cons r rs)
  show ?case
  proof (cases "r = x")
    case True
    with Cons.prems have "row_sum (\<lambda>r. if key r = key x then f r else 0) rs = 0"
      by (intro row_sum_zero) (auto simp: rev_image_eqI)
    with True show ?thesis by (simp add: key_sum_def)
  next
    case False
    with Cons have "key r \<noteq> key x" by (auto simp: rev_image_eqI)
    with False Cons show ?thesis by (simp add: key_sum_def)
  qed
qed simp

lemma key_sum_none: "k \<notin> key ` set rs \<Longrightarrow> key_sum key f rs k = 0"
  unfolding key_sum_def by (rule row_sum_zero) auto

lemma key_sum_append_new:
  "key r \<notin> key ` set rs \<Longrightarrow> key_sum key f (rs @ [r]) = (key_sum key f rs)(key r := f r)"
  by (rule ext) (use key_sum_none [of _ key rs f] in \<open>auto simp: key_sum_def\<close>)

lemma key_sum_change_key:
  assumes "distinct (map key rs)" "x \<in> set rs"
    and "\<And>r. r \<in> set rs \<Longrightarrow> P r \<longleftrightarrow> key r = key x" "\<And>r. key (g r) = key r"
  shows "key_sum key f (change_rows P g rs) = (key_sum key f rs)(key x := f (g x))"
proof (rule ext)
  fix k
  have "key_sum key f (change_rows P g rs) k = key_sum key f rs k
      - (if key x = k then f x else 0) + (if key x = k then f (g x) else 0)"
    unfolding key_sum_def by (subst row_sum_change_key [OF assms(1-3)]) (simp_all add: assms(4))
  then show "key_sum key f (change_rows P g rs) k = ((key_sum key f rs)(key x := f (g x))) k"
    using key_sum_unique [OF assms(1,2), of f] by auto
qed

end
