(* ===== verification/Utf8.thy ===== *)
theory Utf8
  imports Prelude
begin

text \<open>
  What the source uses of package unicode/utf8 and unicode: decoding a byte sequence into runes
  the way a \<open>range\<close> loop and \<open>[]rune(s)\<close> do (a malformed byte is U+FFFD of width 1),
  \<open>utf8.RuneCountInString\<close>, \<open>utf8.ValidString\<close>, \<open>unicode.IsControl\<close>, encoding a rune back,
  and \<open>trimMax\<close> of the payment module, which cuts a text to a number of runes.
\<close>

definition cont_byte :: "int \<Rightarrow> bool" where
  "cont_byte b \<longleftrightarrow> 128 \<le> b \<and> b \<le> 191"

text \<open>The second byte a first byte of a three- or four-byte sequence accepts.\<close>

definition accept_second :: "int \<Rightarrow> int \<Rightarrow> bool" where
  "accept_second b0 b1 \<longleftrightarrow>
     (if b0 = 224 then 160 \<le> b1 \<and> b1 \<le> 191
      else if b0 = 237 then 128 \<le> b1 \<and> b1 \<le> 159
      else if b0 = 240 then 144 \<le> b1 \<and> b1 \<le> 191
      else if b0 = 244 then 128 \<le> b1 \<and> b1 \<le> 143
      else cont_byte b1)"

definition rune_error :: int where
  "rune_error = 65533"

text \<open>The first rune of a non-empty string, its width and whether it is well formed.\<close>

definition decode_rune :: "string \<Rightarrow> int \<times> nat \<times> bool" where
  "decode_rune s = (case map of_char s of
     [] \<Rightarrow> (rune_error, 0, False)
   | b0 # bs \<Rightarrow>
       if b0 < 128 then (b0, 1, True)
       else if 194 \<le> b0 \<and> b0 \<le> 223 then
         (case bs of b1 # _ \<Rightarrow>
            if cont_byte b1 then ((b0 - 192) * 64 + (b1 - 128), 2, True) else (rune_error, 1, False)
          | [] \<Rightarrow> (rune_error, 1, False))
       else if 224 \<le> b0 \<and> b0 \<le> 239 then
         (case bs of b1 # b2 # _ \<Rightarrow>
            if accept_second b0 b1 \<and> cont_byte b2
            then ((b0 - 224) * 4096 + (b1 - 128) * 64 + (b2 - 128), 3, True)
            else (rune_error, 1, False)
          | _ \<Rightarrow> (rune_error, 1, False))
       else if 240 \<le> b0 \<and> b0 \<le> 244 then
         (case bs of b1 # b2 # b3 # _ \<Rightarrow>
            if accept_second b0 b1 \<and> cont_byte b2 \<and> cont_byte b3
            then ((b0 - 240) * 262144 + (b1 - 128) * 4096 + (b2 - 128) * 64 + (b3 - 128), 4, True)
            else (rune_error, 1, False)
          | _ \<Rightarrow> (rune_error, 1, False))
       else (rune_error, 1, False))"

lemma decode_rune_width: "s \<noteq> [] \<Longrightarrow> 0 < fst (snd (decode_rune s))"
  by (cases s) (auto simp: decode_rune_def split: list.splits)

text \<open>The runes of a string, each with its well-formedness.\<close>

function runes :: "string \<Rightarrow> (int \<times> bool) list" where
  "runes s = (if s = [] then []
     else (fst (decode_rune s), snd (snd (decode_rune s))) # runes (drop (fst (snd (decode_rune s))) s))"
  by pat_completeness auto
termination
  by (relation "measure length") (auto simp: decode_rune_width)

declare runes.simps [simp del]

definition rune_count :: "string \<Rightarrow> nat" where
  "rune_count s = length (runes s)"

definition valid_utf8 :: "string \<Rightarrow> bool" where
  "valid_utf8 s \<longleftrightarrow> list_all snd (runes s)"

definition is_control :: "int \<Rightarrow> bool" where
  "is_control r \<longleftrightarrow> r < 32 \<or> 127 \<le> r \<and> r \<le> 159"

definition has_control :: "string \<Rightarrow> bool" where
  "has_control s \<longleftrightarrow> list_ex (\<lambda>(r, _). is_control r) (runes s)"

text \<open>\<open>utf8.AppendRune\<close> for the runes decoding can yield.\<close>

definition encode_rune :: "int \<Rightarrow> string" where
  "encode_rune r =
     (if r < 128 then [char_of r]
      else if r < 2048 then [char_of (192 + r div 64), char_of (128 + r mod 64)]
      else if r < 65536 then
        [char_of (224 + r div 4096), char_of (128 + r div 64 mod 64), char_of (128 + r mod 64)]
      else [char_of (240 + r div 262144), char_of (128 + r div 4096 mod 64),
            char_of (128 + r div 64 mod 64), char_of (128 + r mod 64)])"

definition encode_runes :: "int list \<Rightarrow> string" where
  "encode_runes rs = concat (map encode_rune rs)"

text \<open>order_repository.go, trimMax\<close>

definition trimMax :: "string \<Rightarrow> nat \<Rightarrow> string" where
  "trimMax value m =
     (let v = trim_space value
      in if rune_count v \<le> m then v else encode_runes (take m (map fst (runes v))))"

lemma runes_Nil [simp]: "runes [] = []"
  by (simp add: runes.simps)

lemma decode_rune_ascii: "of_char c < (128 :: int) \<Longrightarrow> decode_rune (c # s) = (of_char c, 1, True)"
  by (simp add: decode_rune_def)

lemma runes_ascii: "list_all (\<lambda>c. of_char c < (128 :: int)) s \<Longrightarrow> runes s = map (\<lambda>c. (of_char c, True)) s"
proof (induction s)
  case (Cons c s)
  then show ?case by (simp add: runes.simps [of "c # s"] decode_rune_ascii)
qed simp

lemma rune_count_le_length: "rune_count s \<le> length s"
proof (induction s rule: measure_induct_rule [where f = length])
  case (less s)
  show ?case
  proof (cases "s = []")
    case True
    then show ?thesis by (simp add: rune_count_def)
  next
    case False
    obtain r w ok where d: "decode_rune s = (r, w, ok)" by (metis prod_cases3)
    with decode_rune_width [OF False] have w: "0 < w" by simp
    then have "rune_count (drop w s) \<le> length (drop w s)"
      using False by (intro less.IH) simp
    moreover have "Suc (length s - w) \<le> length s"
      using w False by (cases s) auto
    ultimately show ?thesis
      using False d by (simp add: rune_count_def runes.simps [of s])
  qed
qed

end
