(* ===== verification/WalletModel.thy ===== *)
theory WalletModel
  imports Money Utf8
begin

text \<open>
  The data of \<open>internal/module/payment/wallet\<close>: the rows of user_wallets, wallet_transactions
  and wallet_holds (model.go), the inputs and constants of dto.go, the errors of hold.go and
  repository.go, and the three tables as the state the wallet operations run on. The columns
  keep their Go names after a prefix per struct.
\<close>

section \<open>Rows (model.go)\<close>

record Wallet =
  w_ID :: int
  w_UserID :: int
  w_BalanceUnits :: int
  w_TotalRechargeUnits :: int
  w_TotalConsumeUnits :: int
  w_HeldUnits :: int
  w_IsDel :: int
  w_CreatedAt :: gotime
  w_UpdatedAt :: gotime

record Transaction =
  t_ID :: int
  t_TransactionNo :: string
  t_WalletID :: int
  t_UserID :: int
  t_Direction :: string
  t_AmountUnits :: int
  t_BalanceBeforeUnits :: int
  t_BalanceAfterUnits :: int
  t_SourceType :: string
  t_SourceID :: int
  t_Remark :: string
  t_IsDel :: int
  t_CreatedAt :: gotime
  t_UpdatedAt :: gotime

record Hold =
  h_ID :: int
  h_WalletID :: int
  h_UserID :: int
  h_RunID :: int
  h_HeldUnits :: int
  h_CapturedUnits :: int
  h_Status :: string
  h_CreatedAt :: gotime
  h_UpdatedAt :: gotime

record wallet_tables =
  wallets :: "Wallet list"
  transactions :: "Transaction list"
  holds :: "Hold list"

section \<open>Constants and inputs (dto.go, enum/common.go)\<close>

definition CommonYes :: int where "CommonYes = 1"

definition CommonNo :: int where "CommonNo = 2"

definition DirectionIn :: string where "DirectionIn = ''in''"

definition DirectionOut :: string where "DirectionOut = ''out''"

definition SourceRecharge :: string where "SourceRecharge = ''recharge''"

definition SourceAIGenerate :: string where "SourceAIGenerate = ''ai_generate''"

definition SourceRedeemCode :: string where "SourceRedeemCode = ''redeem_code''"

definition HoldActive :: string where "HoldActive = ''active''"

definition HoldCaptured :: string where "HoldCaptured = ''captured''"

definition HoldReleased :: string where "HoldReleased = ''released''"

lemma common_distinct [simp]: "CommonYes \<noteq> CommonNo" "CommonNo \<noteq> CommonYes"
  by (simp_all add: CommonYes_def CommonNo_def)

lemma direction_distinct [simp]: "DirectionIn \<noteq> DirectionOut" "DirectionOut \<noteq> DirectionIn"
  by (simp_all add: DirectionIn_def DirectionOut_def)

lemma source_distinct [simp]:
  "SourceRecharge \<noteq> SourceAIGenerate" "SourceAIGenerate \<noteq> SourceRecharge"
  "SourceRecharge \<noteq> SourceRedeemCode" "SourceRedeemCode \<noteq> SourceRecharge"
  "SourceAIGenerate \<noteq> SourceRedeemCode" "SourceRedeemCode \<noteq> SourceAIGenerate"
  by (simp_all add: SourceRecharge_def SourceAIGenerate_def SourceRedeemCode_def)

lemma hold_status_distinct [simp]:
  "HoldActive \<noteq> HoldCaptured" "HoldCaptured \<noteq> HoldActive" "HoldActive \<noteq> HoldReleased"
  "HoldReleased \<noteq> HoldActive" "HoldCaptured \<noteq> HoldReleased" "HoldReleased \<noteq> HoldCaptured"
  by (simp_all add: HoldActive_def HoldCaptured_def HoldReleased_def)

record CaptureHoldInput =
  cap_UserID :: int
  cap_RunID :: int
  cap_ActualUnits :: int
  cap_SourceSummary :: string

record CreditRechargeInput =
  cr_UserID :: int
  cr_RechargeID :: int
  cr_AmountUnits :: int
  cr_Remark :: string

datatype RechargeCreditDisposition = RechargeCreditCreated | RechargeCreditReplayed

record RechargeCreditFact =
  rf_Wallet :: "Wallet option"
  rf_Transaction :: "Transaction option"
  rf_Disposition :: RechargeCreditDisposition

record RedeemCodeCreditInput =
  rc_UserID :: int
  rc_CodeID :: int
  rc_AmountUnits :: int
  rc_BatchNo :: string

section \<open>Errors (repository.go, hold.go)\<close>

datatype wallet_error =
    ErrRepositoryNotConfigured
  | ErrWalletInvariant
  | ErrRechargeCreditIntegrity
  | ErrRedeemCodeTransactionRequired
  | ErrRedeemCodeInvalidInput
  | ErrRedeemCodeCreditIdentityInvalid
  | ErrRedeemCodeWalletIntegrity
  | ErrRedeemCodeSourceExists
  | ErrRedeemCodeBalanceOverflow
  | ErrRedeemCodeTotalRechargeOverflow
  | ErrHoldTransactionRequired
  | ErrHoldInvalidInput
  | ErrHoldInsufficient
  | ErrHoldUnderflow
  | ErrHoldOwnerMismatch
  | ErrHoldSummaryInvalid
  | ErrHoldIntegrity
  | WalletDb db_error

text \<open>isDuplicateKeyFor\<close>

definition isDuplicateKeyFor :: "db_error \<Rightarrow> string \<Rightarrow> bool" where
  "isDuplicateKeyFor err key =
     (case err of
        MySQLError n msg \<Rightarrow>
          if n = 1062 then contains msg key
          else contains (error_text err) ''Duplicate entry'' \<and> contains (error_text err) key
      | _ \<Rightarrow> contains (error_text err) ''Duplicate entry'' \<and> contains (error_text err) key)"

definition duplicateKeyWalletTransactionNo :: string where
  "duplicateKeyWalletTransactionNo = ''uk_wallet_transaction_no''"

definition duplicateKeyWalletTransactionSource :: string where
  "duplicateKeyWalletTransactionSource = ''uk_wallet_transaction_source''"

definition duplicateKeyUserWalletUser :: string where
  "duplicateKeyUserWalletUser = ''uk_user_wallet_user''"

text \<open>
  The unique keys of the tables, by the names the source tests for: user_wallets(user_id),
  wallet_transactions(transaction_no) and wallet_transactions(source_type, source_id),
  wallet_holds(run_id).
\<close>

definition wallet_violated :: "Wallet \<Rightarrow> Wallet list \<Rightarrow> string option" where
  "wallet_violated r rs =
     (if list_ex (\<lambda>x. w_UserID x = w_UserID r) rs then Some duplicateKeyUserWalletUser else None)"

definition transaction_violated :: "Transaction \<Rightarrow> Transaction list \<Rightarrow> string option" where
  "transaction_violated r rs =
     (if list_ex (\<lambda>x. t_TransactionNo x = t_TransactionNo r) rs then Some duplicateKeyWalletTransactionNo
      else if list_ex (\<lambda>x. t_SourceType x = t_SourceType r \<and> t_SourceID x = t_SourceID r) rs
      then Some duplicateKeyWalletTransactionSource else None)"

definition hold_violated :: "Hold \<Rightarrow> Hold list \<Rightarrow> string option" where
  "hold_violated r rs = (if list_ex (\<lambda>x. h_RunID x = h_RunID r) rs then Some ''uk_wallet_hold_run'' else None)"

section \<open>The repository and its transaction handle\<close>

text \<open>
  \<open>requireHoldTransaction\<close> and \<open>requireRedeemCodeTransaction\<close> look at the handle they are given:
  nil, a statement or connection pool that is nil, a handle that already failed, a pool that is
  no \<open>TxCommitter\<close> or a nil one.
\<close>

record tx_handle =
  tx_nil :: bool
  tx_statement_nil :: bool
  tx_pool_nil :: bool
  tx_failed :: bool
  tx_committer :: bool
  tx_committer_nil :: bool

definition open_tx :: tx_handle where
  "open_tx = \<lparr>tx_nil = False, tx_statement_nil = False, tx_pool_nil = False, tx_failed = False,
      tx_committer = True, tx_committer_nil = False\<rparr>"

definition tx_usable :: "tx_handle \<Rightarrow> bool" where
  "tx_usable tx \<longleftrightarrow> \<not> (tx_nil tx \<or> tx_statement_nil tx \<or> tx_pool_nil tx \<or> tx_failed tx) \<and>
     tx_committer tx \<and> \<not> tx_committer_nil tx"

definition requireHoldTransaction :: "tx_handle \<Rightarrow> wallet_error + unit" where
  "requireHoldTransaction tx =
     (if tx_nil tx \<or> tx_statement_nil tx \<or> tx_pool_nil tx \<or> tx_failed tx then Inl ErrHoldTransactionRequired
      else if \<not> tx_committer tx then Inl ErrHoldTransactionRequired
      else if tx_committer_nil tx then Inl ErrHoldTransactionRequired
      else Inr ())"

definition requireRedeemCodeTransaction :: "tx_handle \<Rightarrow> wallet_error + unit" where
  "requireRedeemCodeTransaction tx =
     (if tx_nil tx \<or> tx_statement_nil tx \<or> tx_pool_nil tx \<or> tx_failed tx then Inl ErrRedeemCodeTransactionRequired
      else if \<not> tx_committer tx then Inl ErrRedeemCodeTransactionRequired
      else if tx_committer_nil tx then Inl ErrRedeemCodeTransactionRequired
      else Inr ())"

lemma requireHoldTransaction_ok [simp]: "requireHoldTransaction tx = Inr () \<longleftrightarrow> tx_usable tx"
  by (auto simp: requireHoldTransaction_def tx_usable_def)

lemma requireRedeemCodeTransaction_ok [simp]: "requireRedeemCodeTransaction tx = Inr () \<longleftrightarrow> tx_usable tx"
  by (auto simp: requireRedeemCodeTransaction_def tx_usable_def)

lemma open_tx_usable [simp]: "tx_usable open_tx"
  by (simp add: tx_usable_def open_tx_def)

section \<open>Statements on the wallet tables\<close>

type_synonym ('x, 'a) wallet_act = "(wallet_error, 'x wallet_tables_scheme world, 'a) act"

definition live_wallet_of :: "int \<Rightarrow> Wallet \<Rightarrow> bool" where
  "live_wallet_of userID w \<longleftrightarrow> w_UserID w = userID \<and> w_IsDel w = CommonNo"

definition live_wallet_id :: "int \<Rightarrow> Wallet \<Rightarrow> bool" where
  "live_wallet_id wid w \<longleftrightarrow> w_ID w = wid \<and> w_IsDel w = CommonNo"

definition create_wallet :: "env \<Rightarrow> Wallet \<Rightarrow> (db_error, 'x wallet_tables_scheme world, Wallet) act" where
  "create_wallet ev row = insert_row ev wallets wallets_update wallet_violated
     (\<lambda>i t. row\<lparr>w_ID := i, w_CreatedAt := t, w_UpdatedAt := t\<rparr>)"

definition create_transaction ::
    "env \<Rightarrow> Transaction \<Rightarrow> (db_error, 'x wallet_tables_scheme world, Transaction) act" where
  "create_transaction ev row = insert_row ev transactions transactions_update transaction_violated
     (\<lambda>i t. row\<lparr>t_ID := i, t_CreatedAt := t, t_UpdatedAt := t\<rparr>)"

definition create_hold :: "env \<Rightarrow> Hold \<Rightarrow> (db_error, 'x wallet_tables_scheme world, Hold) act" where
  "create_hold ev row = insert_row ev holds holds_update hold_violated
     (\<lambda>i t. row\<lparr>h_ID := i, h_CreatedAt := t, h_UpdatedAt := t\<rparr>)"

text \<open>\<open>Wallet{UserID: userID, IsDel: enum.CommonNo}\<close>\<close>

definition new_wallet :: "int \<Rightarrow> Wallet" where
  "new_wallet userID = \<lparr>w_ID = 0, w_UserID = userID, w_BalanceUnits = 0, w_TotalRechargeUnits = 0,
     w_TotalConsumeUnits = 0, w_HeldUnits = 0, w_IsDel = CommonNo, w_CreatedAt = 0, w_UpdatedAt = 0\<rparr>"

lemmas wallet_statement_defs = create_wallet_def create_transaction_def create_hold_def

end
