(* ===== verification/WalletHold.thy ===== *)
theory WalletHold
  imports WalletModel
begin

text \<open>
  \<open>hold.go\<close>, with the parts of repository.go it calls: reserving, topping up, capturing and
  releasing the hold of a run, and crediting a recharge. Every operation is the whole Go
  function, statement by statement, in the transaction of its caller. \<open>configured\<close> is
  \<open>r != nil && r.db != nil\<close>.
\<close>

section \<open>Finding and creating the wallet of a user (repository.go)\<close>

definition getWalletByUserID :: "env \<Rightarrow> int \<Rightarrow> (db_error, 'x wallet_tables_scheme world, Wallet) act" where
  "getWalletByUserID ev userID = first ev wallets (live_wallet_of userID)"

definition getOrCreateWallet :: "env \<Rightarrow> int \<Rightarrow> (db_error, 'x wallet_tables_scheme world, Wallet) act" where
  "getOrCreateWallet ev userID =
     either (first ev wallets (live_wallet_of userID))
       (\<lambda>err. if err \<noteq> RecordNotFound then throw err
         else either (create_wallet ev (new_wallet userID))
           (\<lambda>err. if isDuplicateKeyFor err duplicateKeyUserWalletUser then getWalletByUserID ev userID
             else throw err)
           (\<lambda>wallet. ret wallet))
       ret"

definition GetOrCreateWallet :: "bool \<Rightarrow> env \<Rightarrow> int \<Rightarrow> ('x, Wallet) wallet_act" where
  "GetOrCreateWallet configured ev userID =
     (if \<not> configured then throw ErrRepositoryNotConfigured
      else map_error WalletDb (getOrCreateWallet ev userID))"

definition GetWallet :: "bool \<Rightarrow> env \<Rightarrow> int \<Rightarrow> ('x, Wallet option) wallet_act" where
  "GetWallet configured ev userID =
     (if \<not> configured then throw ErrRepositoryNotConfigured
      else either (first ev wallets (live_wallet_of userID))
        (\<lambda>err. if err = RecordNotFound then ret None else throw (WalletDb err))
        (\<lambda>wallet. ret (Some wallet)))"

definition lockOrCreateWalletForUpdate ::
    "env \<Rightarrow> int \<Rightarrow> (db_error, 'x wallet_tables_scheme world, Wallet) act" where
  "lockOrCreateWalletForUpdate ev userID =
     either (first ev wallets (live_wallet_of userID))
       (\<lambda>err. if err \<noteq> RecordNotFound then throw err
         else either (create_wallet ev (new_wallet userID))
           (\<lambda>err. if isDuplicateKeyFor err duplicateKeyUserWalletUser then getWalletByUserID ev userID
             else throw err)
           (\<lambda>wallet. first ev wallets (\<lambda>w. w_ID w = w_ID wallet)))
       ret"

definition lockWalletForUpdateUnits :: "env \<Rightarrow> int \<Rightarrow> ('x, Wallet) wallet_act" where
  "lockWalletForUpdateUnits ev userID = map_error WalletDb (first ev wallets (live_wallet_of userID))"

definition lockOrCreateWalletForUpdateUnits :: "env \<Rightarrow> int \<Rightarrow> ('x, Wallet) wallet_act" where
  "lockOrCreateWalletForUpdateUnits ev userID = map_error WalletDb (lockOrCreateWalletForUpdate ev userID)"

text \<open>
  createTransactionWithNumberRetry: at most three inserts, with a new number after a collision of
  the number and no retry for any other error.
\<close>

definition maxTransactionNoInsertAttempts :: nat where
  "maxTransactionNoInsertAttempts = 3"

primrec transaction_attempts ::
    "env \<Rightarrow> gotime \<Rightarrow> nat \<Rightarrow> Transaction \<Rightarrow> (db_error, 'x wallet_tables_scheme world, Transaction) act" where
  "transaction_attempts ev now 0 row = create_transaction ev row"
| "transaction_attempts ev now (Suc left) row = catch (create_transaction ev row) (\<lambda>err.
     if \<not> isDuplicateKeyFor err duplicateKeyWalletTransactionNo then throw err
     else bind (newTransactionNo ev now) (\<lambda>no.
       transaction_attempts ev now left (row\<lparr>t_TransactionNo := no\<rparr>)))"

definition createTransactionWithNumberRetry ::
    "env \<Rightarrow> Transaction \<Rightarrow> gotime \<Rightarrow> ('x, Transaction) wallet_act" where
  "createTransactionWithNumberRetry ev row now =
     map_error WalletDb (transaction_attempts ev now (maxTransactionNoInsertAttempts - 1) row)"

section \<open>Locking and checking holds\<close>

definition lockHoldByRun :: "env \<Rightarrow> int \<Rightarrow> ('x, Hold option) wallet_act" where
  "lockHoldByRun ev runID =
     either (first ev holds (\<lambda>h. h_RunID h = runID))
       (\<lambda>err. if err = RecordNotFound then ret None else throw (WalletDb err))
       (\<lambda>h. ret (Some h))"

definition active_units :: "int \<Rightarrow> Hold \<Rightarrow> int" where
  "active_units walletID h =
     (if h_WalletID h = walletID \<and> h_Status h = HoldActive then h_HeldUnits h else 0)"

definition active_total :: "int \<Rightarrow> Hold list \<Rightarrow> int" where
  "active_total walletID hs = row_sum (active_units walletID) hs"

text \<open>The sum is a DECIMAL: scanning one beyond int64 into \<open>Total\<close> is an error of the driver.\<close>

definition assertActiveHoldTotal :: "env \<Rightarrow> int \<Rightarrow> int \<Rightarrow> ('x, unit) wallet_act" where
  "assertActiveHoldTotal ev walletID heldUnits =
     bind (map_error WalletDb (query ev (\<lambda>d. active_total walletID (holds d)))) (\<lambda>total.
     if \<not> in_int64 total then throw (WalletDb (OtherDbError ''value out of range''))
     else if total \<noteq> heldUnits then throw ErrHoldIntegrity
     else ret ())"

definition terminalAIGenerateTransactions :: "env \<Rightarrow> Hold \<Rightarrow> ('x, Transaction list) wallet_act" where
  "terminalAIGenerateTransactions ev hold = map_error WalletDb
     (find_limit ev transactions (\<lambda>t. t_SourceType t = SourceAIGenerate \<and> t_SourceID t = h_RunID hold) 2)"

definition validateHoldSummary :: "string \<Rightarrow> wallet_error + unit" where
  "validateHoldSummary summary =
     (if trim_space summary = [] \<or> 255 < rune_count summary \<or> has_control summary
      then Inl ErrHoldSummaryInvalid else Inr ())"

definition validateActiveHoldFact :: "Hold \<Rightarrow> Wallet \<Rightarrow> int \<Rightarrow> wallet_error + unit" where
  "validateActiveHoldFact hold wallet userID =
     (if h_UserID hold \<noteq> userID \<or> h_WalletID hold \<noteq> w_ID wallet then Inl ErrHoldOwnerMismatch
      else if h_Status hold \<noteq> HoldActive \<or> h_HeldUnits hold \<le> 0 \<or> h_CapturedUnits hold \<noteq> 0
      then Inl ErrHoldIntegrity
      else Inr ())"

definition validateCapturedHoldFact ::
    "env \<Rightarrow> Hold \<Rightarrow> Wallet \<Rightarrow> int \<Rightarrow> ('x, Transaction option) wallet_act" where
  "validateCapturedHoldFact ev hold wallet userID =
     (if h_UserID hold \<noteq> userID \<or> h_WalletID hold \<noteq> w_ID wallet then throw ErrHoldOwnerMismatch
      else bind (terminalAIGenerateTransactions ev hold) (\<lambda>ts.
        if h_HeldUnits hold \<noteq> 0 \<or> h_CapturedUnits hold < 0 then throw ErrHoldIntegrity
        else if h_CapturedUnits hold = 0 then
          (if length ts \<noteq> 0 then throw ErrHoldIntegrity else ret None)
        else case ts of
          [t] \<Rightarrow>
            if t_IsDel t \<noteq> CommonNo \<or> t_WalletID t \<noteq> w_ID wallet \<or> t_UserID t \<noteq> userID \<or>
               t_Direction t \<noteq> DirectionOut \<or> t_SourceType t \<noteq> SourceAIGenerate \<or>
               t_SourceID t \<noteq> h_RunID hold \<or> t_AmountUnits t \<noteq> h_CapturedUnits hold \<or>
               t_BalanceBeforeUnits t < t_AmountUnits t \<or>
               sub64 (t_BalanceBeforeUnits t) (t_AmountUnits t) \<noteq> t_BalanceAfterUnits t
            then throw ErrHoldIntegrity
            else (case validateHoldSummary (t_Remark t) of
                    Inl _ \<Rightarrow> throw ErrHoldIntegrity
                  | Inr _ \<Rightarrow> ret (Some t))
        | _ \<Rightarrow> throw ErrHoldIntegrity))"

definition validateReleasedHoldFact :: "env \<Rightarrow> Hold \<Rightarrow> Wallet \<Rightarrow> int \<Rightarrow> ('x, unit) wallet_act" where
  "validateReleasedHoldFact ev hold wallet userID =
     (if h_UserID hold \<noteq> userID \<or> h_WalletID hold \<noteq> w_ID wallet then throw ErrHoldOwnerMismatch
      else bind (terminalAIGenerateTransactions ev hold) (\<lambda>ts.
        if h_HeldUnits hold \<noteq> 0 \<or> h_CapturedUnits hold \<noteq> 0 \<or> length ts \<noteq> 0
        then throw ErrHoldIntegrity else ret ()))"

section \<open>Updates of one row\<close>

text \<open>\<open>tx.Model(&Wallet{}).Where("id = ? AND is_del = ?", ..).Updates(..)\<close>, checked for one row\<close>

definition update_wallet_row :: "env \<Rightarrow> int \<Rightarrow> (Wallet \<Rightarrow> Wallet) \<Rightarrow> ('x, unit) wallet_act" where
  "update_wallet_row ev walletID g =
     bind (map_error WalletDb (update_where ev wallets wallets_update (live_wallet_id walletID)
       (\<lambda>t w. (g w)\<lparr>w_UpdatedAt := t\<rparr>))) (\<lambda>n.
     if n \<noteq> 1 then throw ErrHoldIntegrity else ret ())"

text \<open>\<open>tx.Model(&Hold{}).Where("id = ? AND status = ?", hold.ID, HoldActive).Updates(..)\<close>\<close>

definition update_active_hold :: "env \<Rightarrow> int \<Rightarrow> (Hold \<Rightarrow> Hold) \<Rightarrow> ('x, unit) wallet_act" where
  "update_active_hold ev holdID g =
     bind (map_error WalletDb (update_where ev holds holds_update
       (\<lambda>h. h_ID h = holdID \<and> h_Status h = HoldActive) (\<lambda>t h. (g h)\<lparr>h_UpdatedAt := t\<rparr>))) (\<lambda>n.
     if n \<noteq> 1 then throw ErrHoldIntegrity else ret ())"

section \<open>Reserving and topping up\<close>

text \<open>The second half of reserveHold, from \<open>delta := target\<close> on.\<close>

definition grow_hold :: "env \<Rightarrow> Wallet \<Rightarrow> Hold \<Rightarrow> int \<Rightarrow> ('x, Hold) wallet_act" where
  "grow_hold ev wallet hold target =
     (let delta = (if 0 < h_ID hold then sub64 target (h_HeldUnits hold) else target)
      in if delta \<le> 0 then ret hold
         else if w_BalanceUnits wallet < w_HeldUnits wallet \<or>
                 sub64 (w_BalanceUnits wallet) (w_HeldUnits wallet) < delta
         then throw ErrHoldInsufficient
         else if sub64 max_int64 delta < w_HeldUnits wallet then throw ErrHoldIntegrity
         else
           bind (if h_ID hold = 0
                 then map_error WalletDb (create_hold ev (hold\<lparr>h_HeldUnits := target\<rparr>))
                 else (let units = add64 (h_HeldUnits hold) delta
                       in bind (update_active_hold ev (h_ID hold) (h_HeldUnits_update (\<lambda>_. units)))
                            (\<lambda>_. ret (hold\<lparr>h_HeldUnits := units\<rparr>)))) (\<lambda>hold.
           let held = add64 (w_HeldUnits wallet) delta
           in bind (update_wallet_row ev (w_ID wallet) (w_HeldUnits_update (\<lambda>_. held))) (\<lambda>_.
              bind (assertActiveHoldTotal ev (w_ID wallet) held) (\<lambda>_.
              ret hold))))"

definition new_hold :: "int \<Rightarrow> int \<Rightarrow> int \<Rightarrow> Hold" where
  "new_hold walletID userID runID = \<lparr>h_ID = 0, h_WalletID = walletID, h_UserID = userID, h_RunID = runID,
     h_HeldUnits = 0, h_CapturedUnits = 0, h_Status = HoldActive, h_CreatedAt = 0, h_UpdatedAt = 0\<rparr>"

text \<open>The first half after the hold of the run is looked up and locked.\<close>

definition reserve_found :: "env \<Rightarrow> Wallet \<Rightarrow> int \<Rightarrow> int \<Rightarrow> int \<Rightarrow> Hold option \<Rightarrow> ('x, Hold) wallet_act" where
  "reserve_found ev wallet userID runID target found =
     (case found of
        Some hold \<Rightarrow>
          if h_UserID hold \<noteq> userID \<or> h_WalletID hold \<noteq> w_ID wallet then throw ErrHoldOwnerMismatch
          else if h_Status hold \<noteq> HoldActive then
            (if h_Status hold = HoldCaptured
             then bind (validateCapturedHoldFact ev hold wallet userID) (\<lambda>_. throw ErrHoldIntegrity)
             else if h_Status hold = HoldReleased
             then bind (validateReleasedHoldFact ev hold wallet userID) (\<lambda>_. throw ErrHoldIntegrity)
             else throw ErrHoldIntegrity)
          else bind (pure_result (validateActiveHoldFact hold wallet userID)) (\<lambda>_.
            if target \<le> h_HeldUnits hold then ret hold else grow_hold ev wallet hold target)
      | None \<Rightarrow> grow_hold ev wallet (new_hold (w_ID wallet) userID runID) target)"

definition reserveHold :: "bool \<Rightarrow> env \<Rightarrow> tx_handle \<Rightarrow> int \<Rightarrow> int \<Rightarrow> int \<Rightarrow> ('x, Hold) wallet_act" where
  "reserveHold configured ev tx userID runID target =
     (if \<not> configured then throw ErrRepositoryNotConfigured
      else bind (pure_result (requireHoldTransaction tx)) (\<lambda>_.
      if userID \<le> 0 \<or> runID \<le> 0 \<or> target \<le> 0 then throw ErrHoldInvalidInput
      else bind (lockOrCreateWalletForUpdateUnits ev userID) (\<lambda>wallet.
      if w_HeldUnits wallet < 0 \<or> w_BalanceUnits wallet < w_HeldUnits wallet then throw ErrHoldIntegrity
      else bind (assertActiveHoldTotal ev (w_ID wallet) (w_HeldUnits wallet)) (\<lambda>_.
      bind (lockHoldByRun ev runID) (\<lambda>found.
      reserve_found ev wallet userID runID target found)))))"

definition ReserveHoldInTx :: "bool \<Rightarrow> env \<Rightarrow> tx_handle \<Rightarrow> int \<Rightarrow> int \<Rightarrow> int \<Rightarrow> ('x, Hold) wallet_act" where
  "ReserveHoldInTx configured ev tx userID runID amountUnits = reserveHold configured ev tx userID runID amountUnits"

definition TopUpHoldInTx :: "bool \<Rightarrow> env \<Rightarrow> tx_handle \<Rightarrow> int \<Rightarrow> int \<Rightarrow> int \<Rightarrow> ('x, Hold) wallet_act" where
  "TopUpHoldInTx configured ev tx userID runID amountUnits = reserveHold configured ev tx userID runID amountUnits"

section \<open>Capturing\<close>

text \<open>The ledger row of a capture, when anything is charged.\<close>

definition capture_ledger ::
    "env \<Rightarrow> Wallet \<Rightarrow> CaptureHoldInput \<Rightarrow> string \<Rightarrow> int \<Rightarrow> ('x, Transaction option) wallet_act" where
  "capture_ledger ev wallet i summary balanceAfter =
     (if 0 < cap_ActualUnits i then
        bind (read_clock ev) (\<lambda>now1.
        bind (newTransactionNo ev now1) (\<lambda>no.
        bind (read_clock ev) (\<lambda>now2.
        bind (createTransactionWithNumberRetry ev
          \<lparr>t_ID = 0, t_TransactionNo = no, t_WalletID = w_ID wallet, t_UserID = cap_UserID i,
           t_Direction = DirectionOut, t_AmountUnits = cap_ActualUnits i,
           t_BalanceBeforeUnits = w_BalanceUnits wallet, t_BalanceAfterUnits = balanceAfter,
           t_SourceType = SourceAIGenerate, t_SourceID = cap_RunID i, t_Remark = summary,
           t_IsDel = CommonNo, t_CreatedAt = 0, t_UpdatedAt = 0\<rparr> now2) (\<lambda>row. ret (Some row)))))
      else ret None)"

text \<open>What a capture does with the hold it found, and with an active one.\<close>

definition capture_active ::
    "env \<Rightarrow> Wallet \<Rightarrow> CaptureHoldInput \<Rightarrow> string \<Rightarrow> Hold \<Rightarrow> ('x, Wallet \<times> Transaction option) wallet_act" where
  "capture_active ev wallet i summary hold =
     (if h_HeldUnits hold < cap_ActualUnits i \<or> w_HeldUnits wallet < h_HeldUnits hold \<or>
         w_BalanceUnits wallet < cap_ActualUnits i
      then throw ErrHoldUnderflow
      else
        let remaining = sub64 (w_HeldUnits wallet) (h_HeldUnits hold);
            balanceAfter = sub64 (w_BalanceUnits wallet) (cap_ActualUnits i)
        in if 0 < cap_ActualUnits i \<and> sub64 max_int64 (cap_ActualUnits i) < w_TotalConsumeUnits wallet
           then throw ErrHoldIntegrity
           else
             let totalConsume = add64 (w_TotalConsumeUnits wallet) (cap_ActualUnits i) in
             bind (capture_ledger ev wallet i summary balanceAfter) (\<lambda>ledger.
             bind (update_wallet_row ev (w_ID wallet) (\<lambda>w. w\<lparr>w_BalanceUnits := balanceAfter,
               w_TotalConsumeUnits := totalConsume, w_HeldUnits := remaining\<rparr>)) (\<lambda>_.
             bind (update_active_hold ev (h_ID hold) (\<lambda>h. h\<lparr>h_HeldUnits := 0,
               h_CapturedUnits := cap_ActualUnits i, h_Status := HoldCaptured\<rparr>)) (\<lambda>_.
             bind (assertActiveHoldTotal ev (w_ID wallet) remaining) (\<lambda>_.
             ret (wallet\<lparr>w_BalanceUnits := balanceAfter, w_TotalConsumeUnits := totalConsume,
                    w_HeldUnits := remaining\<rparr>, ledger))))))"

definition capture_found ::
    "env \<Rightarrow> Wallet \<Rightarrow> CaptureHoldInput \<Rightarrow> string \<Rightarrow> Hold option \<Rightarrow> ('x, Wallet \<times> Transaction option) wallet_act" where
  "capture_found ev wallet i summary found =
     (case found of
        None \<Rightarrow> throw (WalletDb RecordNotFound)
      | Some hold \<Rightarrow>
          if h_UserID hold \<noteq> cap_UserID i \<or> h_WalletID hold \<noteq> w_ID wallet then throw ErrHoldOwnerMismatch
          else if h_Status hold \<noteq> HoldActive then
            (if h_Status hold \<noteq> HoldCaptured \<or> cap_ActualUnits i \<noteq> h_CapturedUnits hold
             then throw ErrHoldIntegrity
             else bind (validateCapturedHoldFact ev hold wallet (cap_UserID i)) (\<lambda>ledger. ret (wallet, ledger)))
          else bind (pure_result (validateActiveHoldFact hold wallet (cap_UserID i))) (\<lambda>_.
          bind (pure_result (validateHoldSummary summary)) (\<lambda>_.
          capture_active ev wallet i summary hold)))"

definition CaptureHoldInTx ::
    "bool \<Rightarrow> env \<Rightarrow> tx_handle \<Rightarrow> CaptureHoldInput \<Rightarrow> ('x, Wallet \<times> Transaction option) wallet_act" where
  "CaptureHoldInTx configured ev tx i =
     (if \<not> configured then throw ErrRepositoryNotConfigured
      else bind (pure_result (requireHoldTransaction tx)) (\<lambda>_.
      if cap_UserID i \<le> 0 \<or> cap_RunID i \<le> 0 \<or> cap_ActualUnits i < 0 then throw ErrHoldInvalidInput
      else let summary = trim_space (cap_SourceSummary i) in
      bind (lockWalletForUpdateUnits ev (cap_UserID i)) (\<lambda>wallet.
      if w_BalanceUnits wallet < w_HeldUnits wallet then throw ErrHoldIntegrity
      else bind (assertActiveHoldTotal ev (w_ID wallet) (w_HeldUnits wallet)) (\<lambda>_.
      bind (lockHoldByRun ev (cap_RunID i)) (\<lambda>found.
      capture_found ev wallet i summary found)))))"

section \<open>Releasing\<close>

definition release_found :: "env \<Rightarrow> Wallet \<Rightarrow> int \<Rightarrow> Hold option \<Rightarrow> ('x, Hold) wallet_act" where
  "release_found ev wallet userID found =
     (case found of
        None \<Rightarrow> throw (WalletDb RecordNotFound)
      | Some hold \<Rightarrow>
          if h_UserID hold \<noteq> userID \<or> h_WalletID hold \<noteq> w_ID wallet then throw ErrHoldOwnerMismatch
          else if h_Status hold \<noteq> HoldActive then
            (if h_Status hold \<noteq> HoldReleased then throw ErrHoldIntegrity
             else bind (validateReleasedHoldFact ev hold wallet userID) (\<lambda>_. ret hold))
          else bind (pure_result (validateActiveHoldFact hold wallet userID)) (\<lambda>_.
          if w_HeldUnits wallet < h_HeldUnits hold then throw ErrHoldUnderflow
          else
            let held = sub64 (w_HeldUnits wallet) (h_HeldUnits hold) in
            bind (update_wallet_row ev (w_ID wallet) (w_HeldUnits_update (\<lambda>_. held))) (\<lambda>_.
            bind (update_active_hold ev (h_ID hold) (\<lambda>h. h\<lparr>h_HeldUnits := 0, h_CapturedUnits := 0,
              h_Status := HoldReleased\<rparr>)) (\<lambda>_.
            bind (assertActiveHoldTotal ev (w_ID wallet) held) (\<lambda>_.
            ret (hold\<lparr>h_HeldUnits := 0, h_Status := HoldReleased\<rparr>))))))"

definition ReleaseHoldInTx :: "bool \<Rightarrow> env \<Rightarrow> tx_handle \<Rightarrow> int \<Rightarrow> int \<Rightarrow> ('x, Hold) wallet_act" where
  "ReleaseHoldInTx configured ev tx userID runID =
     (if \<not> configured then throw ErrRepositoryNotConfigured
      else bind (pure_result (requireHoldTransaction tx)) (\<lambda>_.
      if userID \<le> 0 \<or> runID \<le> 0 then throw ErrHoldInvalidInput
      else bind (lockWalletForUpdateUnits ev userID) (\<lambda>wallet.
      if w_BalanceUnits wallet < w_HeldUnits wallet then throw ErrHoldIntegrity
      else bind (assertActiveHoldTotal ev (w_ID wallet) (w_HeldUnits wallet)) (\<lambda>_.
      bind (lockHoldByRun ev runID) (\<lambda>found.
      release_found ev wallet userID found)))))"

section \<open>Crediting a recharge\<close>

definition findRechargeCreditTransactionForUpdate :: "env \<Rightarrow> int \<Rightarrow> ('x, Transaction option) wallet_act" where
  "findRechargeCreditTransactionForUpdate ev rechargeID =
     bind (map_error WalletDb (find_limit ev transactions
       (\<lambda>t. t_SourceType t = SourceRecharge \<and> t_SourceID t = rechargeID) 2)) (\<lambda>ts.
     case ts of
       [] \<Rightarrow> ret None
     | [t] \<Rightarrow> ret (Some t)
     | _ \<Rightarrow> throw ErrRechargeCreditIntegrity)"

definition validateRechargeCreditFact :: "Wallet \<Rightarrow> Transaction \<Rightarrow> CreditRechargeInput \<Rightarrow> wallet_error + unit" where
  "validateRechargeCreditFact wallet t i =
     (if w_ID wallet \<le> 0 \<or> w_UserID wallet \<noteq> cr_UserID i \<or> w_IsDel wallet \<noteq> CommonNo \<or>
         w_BalanceUnits wallet < 0 \<or> w_TotalRechargeUnits wallet < cr_AmountUnits i \<or>
         w_HeldUnits wallet < 0 \<or> w_BalanceUnits wallet < w_HeldUnits wallet \<or>
         t_ID t \<le> 0 \<or> trim_space (t_TransactionNo t) = [] \<or> t_IsDel t \<noteq> CommonNo \<or>
         t_WalletID t \<noteq> w_ID wallet \<or> t_UserID t \<noteq> cr_UserID i \<or> t_Direction t \<noteq> DirectionIn \<or>
         t_AmountUnits t \<noteq> cr_AmountUnits i \<or> t_SourceType t \<noteq> SourceRecharge \<or>
         t_SourceID t \<noteq> cr_RechargeID i \<or> t_BalanceBeforeUnits t < 0 \<or>
         sub64 max_int64 (cr_AmountUnits i) < t_BalanceBeforeUnits t \<or>
         t_BalanceAfterUnits t \<noteq> add64 (t_BalanceBeforeUnits t) (cr_AmountUnits i)
      then Inl ErrRechargeCreditIntegrity else Inr ())"

definition replayed_credit :: "Wallet \<Rightarrow> Transaction \<Rightarrow> RechargeCreditFact" where
  "replayed_credit wallet t =
     \<lparr>rf_Wallet = Some wallet, rf_Transaction = Some t, rf_Disposition = RechargeCreditReplayed\<rparr>"

definition FindRechargeCreditInTx ::
    "bool \<Rightarrow> env \<Rightarrow> tx_handle \<Rightarrow> CreditRechargeInput \<Rightarrow> ('x, RechargeCreditFact) wallet_act" where
  "FindRechargeCreditInTx configured ev tx i =
     (if \<not> configured then throw ErrRepositoryNotConfigured
      else bind (pure_result (requireHoldTransaction tx)) (\<lambda>_.
      if cr_UserID i \<le> 0 \<or> cr_RechargeID i \<le> 0 \<or> cr_AmountUnits i \<le> 0 then throw ErrHoldInvalidInput
      else bind (catch (lockWalletForUpdateUnits ev (cr_UserID i)) (\<lambda>err.
        if err = WalletDb RecordNotFound then throw ErrRechargeCreditIntegrity else throw err)) (\<lambda>wallet.
      bind (findRechargeCreditTransactionForUpdate ev (cr_RechargeID i)) (\<lambda>existing.
      if existing = None then throw ErrRechargeCreditIntegrity
      else bind (pure_result (validateRechargeCreditFact wallet (the existing) i)) (\<lambda>_.
           ret (replayed_credit wallet (the existing)))))))"

text \<open>The part of CreditRechargeInTx for a recharge without a ledger row.\<close>

definition credit_new_recharge ::
    "env \<Rightarrow> Wallet \<Rightarrow> CreditRechargeInput \<Rightarrow> ('x, RechargeCreditFact) wallet_act" where
  "credit_new_recharge ev wallet i =
     (if sub64 max_int64 (cr_AmountUnits i) < w_BalanceUnits wallet \<or>
         sub64 max_int64 (cr_AmountUnits i) < w_TotalRechargeUnits wallet
      then throw ErrHoldIntegrity
      else
        let after = add64 (w_BalanceUnits wallet) (cr_AmountUnits i);
            totalRecharge = add64 (w_TotalRechargeUnits wallet) (cr_AmountUnits i)
        in bind (read_clock ev) (\<lambda>now1.
           bind (newTransactionNo ev now1) (\<lambda>no.
           bind (read_clock ev) (\<lambda>now2.
           bind (createTransactionWithNumberRetry ev
             \<lparr>t_ID = 0, t_TransactionNo = no, t_WalletID = w_ID wallet, t_UserID = cr_UserID i,
              t_Direction = DirectionIn, t_AmountUnits = cr_AmountUnits i,
              t_BalanceBeforeUnits = w_BalanceUnits wallet, t_BalanceAfterUnits = after,
              t_SourceType = SourceRecharge, t_SourceID = cr_RechargeID i,
              t_Remark = trim_space (cr_Remark i), t_IsDel = CommonNo,
              t_CreatedAt = 0, t_UpdatedAt = 0\<rparr> now2) (\<lambda>row.
           bind (update_wallet_row ev (w_ID wallet) (\<lambda>w. w\<lparr>w_BalanceUnits := after,
             w_TotalRechargeUnits := totalRecharge\<rparr>)) (\<lambda>_.
           ret \<lparr>rf_Wallet = Some (wallet\<lparr>w_BalanceUnits := after, w_TotalRechargeUnits := totalRecharge\<rparr>),
                rf_Transaction = Some row, rf_Disposition = RechargeCreditCreated\<rparr>))))))"

definition CreditRechargeInTx ::
    "bool \<Rightarrow> env \<Rightarrow> tx_handle \<Rightarrow> CreditRechargeInput \<Rightarrow> ('x, RechargeCreditFact) wallet_act" where
  "CreditRechargeInTx configured ev tx i =
     (if \<not> configured then throw ErrRepositoryNotConfigured
      else bind (pure_result (requireHoldTransaction tx)) (\<lambda>_.
      if cr_UserID i \<le> 0 \<or> cr_RechargeID i \<le> 0 \<or> cr_AmountUnits i \<le> 0 then throw ErrHoldInvalidInput
      else bind (lockOrCreateWalletForUpdateUnits ev (cr_UserID i)) (\<lambda>wallet.
      bind (findRechargeCreditTransactionForUpdate ev (cr_RechargeID i)) (\<lambda>existing.
      if existing \<noteq> None
      then bind (pure_result (validateRechargeCreditFact wallet (the existing) i)) (\<lambda>_.
           ret (replayed_credit wallet (the existing)))
      else credit_new_recharge ev wallet i))))"

end
