(* ===== verification/WalletRedeem.thy ===== *)
theory WalletRedeem
  imports WalletHold
begin

text \<open>
  The credit of a redeem code (\<open>repository.go\<close> and \<open>redeem_code_identity.go\<close> of
  \<open>internal/module/payment/wallet\<close>): the identity that fixes the three candidate ledger numbers
  of one credit before its transaction starts, the lookup of an existing credit, and the credit
  itself. \<open>configured\<close> is \<open>r != nil\<close>; the identity is \<open>None\<close> for a nil pointer, and
  \<open>ci_self\<close> says whether \<open>identity.self == identity\<close>, which copying the struct breaks.
\<close>

section \<open>The identity of a credit (redeem_code_identity.go)\<close>

record RedeemCodeCreditBinding =
  cb_userID :: int
  cb_codeID :: int
  cb_amountUnits :: int
  cb_batchNo :: string

record RedeemCodeCreditIdentity =
  ci_binding :: RedeemCodeCreditBinding
  ci_transactionNos :: "string list"
  ci_self :: bool

definition normalizeRedeemCodeCreditInput :: "RedeemCodeCreditInput \<Rightarrow> RedeemCodeCreditInput" where
  "normalizeRedeemCodeCreditInput i = i\<lparr>rc_BatchNo := trim_space (rc_BatchNo i)\<rparr>"

definition input_binding :: "RedeemCodeCreditInput \<Rightarrow> RedeemCodeCreditBinding" where
  "input_binding i = \<lparr>cb_userID = rc_UserID i, cb_codeID = rc_CodeID i,
     cb_amountUnits = rc_AmountUnits i, cb_batchNo = rc_BatchNo i\<rparr>"

primrec serial_numbers :: "env \<Rightarrow> gotime \<Rightarrow> nat \<Rightarrow> ('e, 'd world, string list) act" where
  "serial_numbers ev now 0 = ret []"
| "serial_numbers ev now (Suc n) = bind (newTransactionNo ev now) (\<lambda>no.
     bind (serial_numbers ev now n) (\<lambda>nos. ret (no # nos)))"

definition NewRedeemCodeCreditIdentity ::
    "env \<Rightarrow> RedeemCodeCreditInput \<Rightarrow> gotime \<Rightarrow> ('e, 'd world, RedeemCodeCreditIdentity) act" where
  "NewRedeemCodeCreditIdentity ev i now =
     bind (serial_numbers ev now maxTransactionNoInsertAttempts) (\<lambda>nos.
     ret \<lparr>ci_binding = input_binding (normalizeRedeemCodeCreditInput i),
          ci_transactionNos = nos, ci_self = True\<rparr>)"

definition identity_valid :: "RedeemCodeCreditIdentity option \<Rightarrow> bool" where
  "identity_valid idn = (case idn of
     None \<Rightarrow> False
   | Some x \<Rightarrow> ci_self x \<and> [] \<notin> set (ci_transactionNos x) \<and> distinct (ci_transactionNos x))"

definition identity_TransactionNo :: "RedeemCodeCreditIdentity option \<Rightarrow> string" where
  "identity_TransactionNo idn =
     (if \<not> identity_valid idn then [] else hd (ci_transactionNos (the idn)))"

definition identity_Matches :: "RedeemCodeCreditIdentity option \<Rightarrow> string \<Rightarrow> bool" where
  "identity_Matches idn no \<longleftrightarrow>
     \<not> (\<not> identity_valid idn \<or> no = []) \<and> list_ex (\<lambda>c. c = no) (ci_transactionNos (the idn))"

definition identity_matchesInput :: "RedeemCodeCreditIdentity option \<Rightarrow> RedeemCodeCreditInput \<Rightarrow> bool" where
  "identity_matchesInput idn i \<longleftrightarrow>
     identity_valid idn \<and> ci_binding (the idn) = input_binding (normalizeRedeemCodeCreditInput i)"

section \<open>The facts read back (repository.go)\<close>

definition validRedeemCodeLifecycle :: "int \<Rightarrow> bool" where
  "validRedeemCodeLifecycle isDel \<longleftrightarrow> isDel = CommonYes \<or> isDel = CommonNo"

definition validRedeemCodeTransactionFact :: "Transaction \<Rightarrow> int \<Rightarrow> bool" where
  "validRedeemCodeTransactionFact t codeID \<longleftrightarrow>
     0 < t_ID t \<and> 0 < t_WalletID t \<and> 0 < t_UserID t \<and> t_SourceType t = SourceRedeemCode \<and>
     t_SourceID t = codeID \<and> validRedeemCodeLifecycle (t_IsDel t)"

definition validRedeemCodeWalletFact :: "Wallet \<Rightarrow> int \<Rightarrow> bool" where
  "validRedeemCodeWalletFact w userID \<longleftrightarrow>
     0 < w_ID w \<and> 0 < w_UserID w \<and> w_UserID w = userID \<and> validRedeemCodeLifecycle (w_IsDel w)"

text \<open>With or without \<open>FOR UPDATE\<close>: the rows read are the same.\<close>

definition findRedeemCodeSourceFact :: "env \<Rightarrow> int \<Rightarrow> ('x, Transaction option) wallet_act" where
  "findRedeemCodeSourceFact ev codeID =
     either (find_limit ev transactions
         (\<lambda>t. t_SourceType t = SourceRedeemCode \<and> t_SourceID t = codeID) 2)
       (\<lambda>err. if err = RecordNotFound then ret None else throw (WalletDb err))
       (\<lambda>ts. if length ts = 0 then ret None
         else if length ts \<noteq> 1 \<or> \<not> validRedeemCodeTransactionFact (hd ts) codeID
         then throw ErrRedeemCodeWalletIntegrity
         else ret (Some (hd ts)))"

definition findRedeemCodeWalletByUserIDForUpdate :: "env \<Rightarrow> int \<Rightarrow> ('x, Wallet) wallet_act" where
  "findRedeemCodeWalletByUserIDForUpdate ev userID =
     bind (map_error WalletDb (find_limit ev wallets (\<lambda>w. w_UserID w = userID) 2)) (\<lambda>ws.
     if length ws = 0 then throw (WalletDb RecordNotFound)
     else if length ws \<noteq> 1 \<or> \<not> validRedeemCodeWalletFact (hd ws) userID \<or> w_IsDel (hd ws) \<noteq> CommonNo
     then throw ErrRedeemCodeWalletIntegrity
     else ret (hd ws))"

definition lockOrCreateRedeemCodeWalletForUpdate :: "env \<Rightarrow> int \<Rightarrow> ('x, Wallet) wallet_act" where
  "lockOrCreateRedeemCodeWalletForUpdate ev userID =
     either (findRedeemCodeWalletByUserIDForUpdate ev userID)
       (\<lambda>err. if err \<noteq> WalletDb RecordNotFound then throw err
         else either (create_wallet ev (new_wallet userID))
           (\<lambda>err. if isDuplicateKeyFor err duplicateKeyUserWalletUser
             then catch (findRedeemCodeWalletByUserIDForUpdate ev userID) (\<lambda>lookupErr.
                    if lookupErr = WalletDb RecordNotFound then throw ErrRedeemCodeWalletIntegrity
                    else throw lookupErr)
             else throw (WalletDb err))
           (\<lambda>wallet. either (first ev wallets (\<lambda>w. w_ID w = w_ID wallet))
             (\<lambda>err. if err = RecordNotFound then throw ErrRedeemCodeWalletIntegrity
               else throw (WalletDb err))
             (\<lambda>locked. if \<not> validRedeemCodeWalletFact locked userID \<or> w_ID locked \<noteq> w_ID wallet \<or>
                 w_IsDel locked \<noteq> CommonNo
               then throw ErrRedeemCodeWalletIntegrity
               else ret locked)))
       ret"

primrec identity_attempts ::
    "env \<Rightarrow> Transaction \<Rightarrow> string \<Rightarrow> string list \<Rightarrow> (db_error, 'x wallet_tables_scheme world, Transaction) act" where
  "identity_attempts ev row no [] = create_transaction ev (row\<lparr>t_TransactionNo := no\<rparr>)"
| "identity_attempts ev row no (no' # nos) =
     catch (create_transaction ev (row\<lparr>t_TransactionNo := no\<rparr>)) (\<lambda>err.
       if \<not> isDuplicateKeyFor err duplicateKeyWalletTransactionNo then throw err
       else identity_attempts ev row no' nos)"

text \<open>The loop runs over an array of three numbers, so it always has a first one.\<close>

definition createRedeemCodeTransactionWithIdentityRetry ::
    "env \<Rightarrow> Transaction \<Rightarrow> RedeemCodeCreditIdentity \<Rightarrow> (db_error, 'x wallet_tables_scheme world, Transaction) act" where
  "createRedeemCodeTransactionWithIdentityRetry ev row idn =
     identity_attempts ev row (hd (ci_transactionNos idn)) (tl (ci_transactionNos idn))"

section \<open>The operations\<close>

text \<open>The wallet that a credit found in the ledger went to.\<close>

definition credited_wallet :: "env \<Rightarrow> Transaction \<Rightarrow> ('x, (Wallet \<times> Transaction) option) wallet_act" where
  "credited_wallet ev t =
     (if t_IsDel t \<noteq> CommonNo then throw ErrRedeemCodeWalletIntegrity
      else either (first ev wallets (\<lambda>w. w_ID w = t_WalletID t))
        (\<lambda>err. if err = RecordNotFound then throw ErrRedeemCodeWalletIntegrity
          else throw (WalletDb err))
        (\<lambda>w. if \<not> validRedeemCodeWalletFact w (t_UserID t) \<or> w_ID w \<noteq> t_WalletID t \<or>
            w_IsDel w \<noteq> CommonNo
          then throw ErrRedeemCodeWalletIntegrity
          else ret (Some (w, t))))"

definition FindRedeemCodeCreditInTx ::
    "bool \<Rightarrow> env \<Rightarrow> tx_handle \<Rightarrow> int \<Rightarrow> ('x, (Wallet \<times> Transaction) option) wallet_act" where
  "FindRedeemCodeCreditInTx configured ev tx codeID =
     (if \<not> configured then throw ErrRepositoryNotConfigured
      else bind (pure_result (requireRedeemCodeTransaction tx)) (\<lambda>_.
      if codeID \<le> 0 then throw ErrRedeemCodeInvalidInput
      else bind (findRedeemCodeSourceFact ev codeID) (\<lambda>found.
      if found = None then ret None else credited_wallet ev (the found))))"

definition redeem_ledger_row :: "Wallet \<Rightarrow> RedeemCodeCreditInput \<Rightarrow> string \<Rightarrow> int \<Rightarrow> Transaction" where
  "redeem_ledger_row wallet i no balanceAfter =
     \<lparr>t_ID = 0, t_TransactionNo = no, t_WalletID = w_ID wallet, t_UserID = rc_UserID i,
      t_Direction = DirectionIn, t_AmountUnits = rc_AmountUnits i,
      t_BalanceBeforeUnits = w_BalanceUnits wallet, t_BalanceAfterUnits = balanceAfter,
      t_SourceType = SourceRedeemCode, t_SourceID = rc_CodeID i, t_Remark = rc_BatchNo i,
      t_IsDel = CommonNo, t_CreatedAt = 0, t_UpdatedAt = 0\<rparr>"

text \<open>The second half of the credit: the ledger row, then the wallet.\<close>

definition redeem_credit ::
    "env \<Rightarrow> Wallet \<Rightarrow> RedeemCodeCreditInput \<Rightarrow> RedeemCodeCreditIdentity option
       \<Rightarrow> ('x, Wallet \<times> Transaction) wallet_act" where
  "redeem_credit ev wallet i idn =
     (if sub64 max_int64 (rc_AmountUnits i) < w_BalanceUnits wallet then throw ErrRedeemCodeBalanceOverflow
      else if sub64 max_int64 (rc_AmountUnits i) < w_TotalRechargeUnits wallet
      then throw ErrRedeemCodeTotalRechargeOverflow
      else
        let balanceAfter = add64 (w_BalanceUnits wallet) (rc_AmountUnits i);
            totalRechargeAfter = add64 (w_TotalRechargeUnits wallet) (rc_AmountUnits i)
        in bind (catch (createRedeemCodeTransactionWithIdentityRetry ev
                   (redeem_ledger_row wallet i (identity_TransactionNo idn) balanceAfter) (the idn))
             (\<lambda>err. if isDuplicateKeyFor err duplicateKeyWalletTransactionSource
                    then throw ErrRedeemCodeSourceExists else throw (WalletDb err))) (\<lambda>row.
           bind (map_error WalletDb (update_where ev wallets wallets_update (live_wallet_id (w_ID wallet))
             (\<lambda>t w. w\<lparr>w_BalanceUnits := balanceAfter, w_TotalRechargeUnits := totalRechargeAfter,
                w_UpdatedAt := t\<rparr>))) (\<lambda>n.
           if n \<noteq> 1 then throw ErrRedeemCodeWalletIntegrity
           else ret (wallet\<lparr>w_BalanceUnits := balanceAfter, w_TotalRechargeUnits := totalRechargeAfter\<rparr>, row))))"

definition CreditRedeemCodeWithIdentityInTx ::
    "bool \<Rightarrow> env \<Rightarrow> tx_handle \<Rightarrow> RedeemCodeCreditInput \<Rightarrow> RedeemCodeCreditIdentity option
       \<Rightarrow> ('x, Wallet \<times> Transaction) wallet_act" where
  "CreditRedeemCodeWithIdentityInTx configured ev tx input idn =
     (if \<not> configured then throw ErrRepositoryNotConfigured
      else bind (pure_result (requireRedeemCodeTransaction tx)) (\<lambda>_.
      if \<not> identity_matchesInput idn input then throw ErrRedeemCodeCreditIdentityInvalid
      else let i = normalizeRedeemCodeCreditInput input in
        if rc_UserID i \<le> 0 \<or> rc_CodeID i \<le> 0 \<or> rc_AmountUnits i \<le> 0 \<or> rc_BatchNo i = []
        then throw ErrRedeemCodeInvalidInput
        else bind (findRedeemCodeSourceFact ev (rc_CodeID i)) (\<lambda>existing.
        case existing of
          Some t \<Rightarrow> if t_IsDel t \<noteq> CommonNo then throw ErrRedeemCodeWalletIntegrity
                    else throw ErrRedeemCodeSourceExists
        | None \<Rightarrow> bind (lockOrCreateRedeemCodeWalletForUpdate ev (rc_UserID i)) (\<lambda>wallet.
                  redeem_credit ev wallet i idn))))"

definition CreditRedeemCodeInTx ::
    "bool \<Rightarrow> env \<Rightarrow> tx_handle \<Rightarrow> RedeemCodeCreditInput \<Rightarrow> gotime \<Rightarrow> ('x, Wallet \<times> Transaction) wallet_act" where
  "CreditRedeemCodeInTx configured ev tx input now =
     bind (NewRedeemCodeCreditIdentity ev input now) (\<lambda>idn.
     CreditRedeemCodeWithIdentityInTx configured ev tx input (Some idn))"

section \<open>Pages (repository.go, normalizePage)\<close>

definition defaultPageSize :: int where "defaultPageSize = 20"

definition maxPageSize :: int where "maxPageSize = 100"

definition normalizePage :: "int \<Rightarrow> int \<Rightarrow> int \<times> int \<times> int" where
  "normalizePage currentPage pageSize =
     (let currentPage = (if currentPage \<le> 0 then 1 else currentPage);
          pageSize = (if pageSize \<le> 0 then defaultPageSize else pageSize);
          pageSize = (if maxPageSize < pageSize then maxPageSize else pageSize)
      in (currentPage, pageSize, mul64 (sub64 currentPage 1) pageSize))"

end
