(* ===== verification/WalletInv.thy ===== *)
theory WalletInv
  imports WalletRedeem
begin

text \<open>
  What a consistent wallet database is, as one invariant over the three tables, and the facts
  about the tables alone: each change of rows the operations make keeps it. The operations are
  connected to these changes in WalletOps.
\<close>

section \<open>The invariant\<close>

definition owners :: "Wallet list \<Rightarrow> (int \<times> int) list" where
  "owners ws = map (\<lambda>w. (w_ID w, w_UserID w)) ws"

definition ledger_of :: "int \<Rightarrow> Transaction list \<Rightarrow> Transaction list" where
  "ledger_of wid ts = filter (\<lambda>t. t_WalletID t = wid) ts"

definition in_units :: "int \<Rightarrow> Transaction \<Rightarrow> int" where
  "in_units wid t = (if t_WalletID t = wid \<and> t_Direction t = DirectionIn then t_AmountUnits t else 0)"

definition out_units :: "int \<Rightarrow> Transaction \<Rightarrow> int" where
  "out_units wid t = (if t_WalletID t = wid \<and> t_Direction t = DirectionOut then t_AmountUnits t else 0)"

text \<open>Each row of a ledger starts from the balance the one before it ended with.\<close>

fun chained :: "int \<Rightarrow> Transaction list \<Rightarrow> int \<Rightarrow> bool" where
  "chained b [] e \<longleftrightarrow> b = e"
| "chained b (t # ts) e \<longleftrightarrow> t_BalanceBeforeUnits t = b \<and> chained (t_BalanceAfterUnits t) ts e"

definition ai_rows :: "int \<Rightarrow> Transaction list \<Rightarrow> Transaction list" where
  "ai_rows run ts = filter (\<lambda>t. t_SourceType t = SourceAIGenerate \<and> t_SourceID t = run) ts"

definition wallet_ok :: "Transaction list \<Rightarrow> Hold list \<Rightarrow> Wallet \<Rightarrow> bool" where
  "wallet_ok ts hs w \<longleftrightarrow>
     0 < w_ID w \<and> 0 < w_UserID w \<and> w_IsDel w = CommonNo \<and>
     w_HeldUnits w \<le> w_BalanceUnits w \<and> w_HeldUnits w = active_total (w_ID w) hs \<and>
     chained 0 (ledger_of (w_ID w) ts) (w_BalanceUnits w) \<and>
     w_TotalRechargeUnits w = row_sum (in_units (w_ID w)) ts \<and>
     w_TotalConsumeUnits w = row_sum (out_units (w_ID w)) ts \<and>
     w_TotalRechargeUnits w \<le> max_int64"

definition hold_ok :: "Wallet list \<Rightarrow> Transaction list \<Rightarrow> Hold \<Rightarrow> bool" where
  "hold_ok ws ts h \<longleftrightarrow>
     0 < h_ID h \<and> 0 < h_RunID h \<and> (h_WalletID h, h_UserID h) \<in> set (owners ws) \<and>
     (h_Status h = HoldActive \<and> 0 < h_HeldUnits h \<and> h_CapturedUnits h = 0 \<or>
      h_Status h = HoldCaptured \<and> h_HeldUnits h = 0 \<and> 0 \<le> h_CapturedUnits h \<or>
      h_Status h = HoldReleased \<and> h_HeldUnits h = 0 \<and> h_CapturedUnits h = 0) \<and>
     map (\<lambda>t. (t_AmountUnits t, t_WalletID t, t_UserID t)) (ai_rows (h_RunID h) ts) =
       (if h_CapturedUnits h = 0 then [] else [(h_CapturedUnits h, h_WalletID h, h_UserID h)])"

definition transaction_ok :: "Wallet list \<Rightarrow> Hold list \<Rightarrow> Transaction \<Rightarrow> bool" where
  "transaction_ok ws hs t \<longleftrightarrow>
     0 < t_ID t \<and> 0 < t_AmountUnits t \<and> t_IsDel t = CommonNo \<and>
     (t_WalletID t, t_UserID t) \<in> set (owners ws) \<and>
     0 \<le> t_BalanceBeforeUnits t \<and> 0 \<le> t_BalanceAfterUnits t \<and> t_BalanceBeforeUnits t \<le> max_int64 \<and>
     t_BalanceAfterUnits t \<le> max_int64 \<and>
     (if t_SourceType t = SourceAIGenerate then
        t_Direction t = DirectionOut \<and> t_SourceID t \<in> set (map h_RunID hs) \<and>
        validateHoldSummary (t_Remark t) = Inr () \<and>
        t_BalanceAfterUnits t = t_BalanceBeforeUnits t - t_AmountUnits t
      else
        (t_SourceType t = SourceRecharge \<or> t_SourceType t = SourceRedeemCode) \<and>
        t_Direction t = DirectionIn \<and> trim_space (t_TransactionNo t) \<noteq> [] \<and>
        t_BalanceAfterUnits t = t_BalanceBeforeUnits t + t_AmountUnits t)"

definition wallet_keys :: "'x wallet_tables_scheme \<Rightarrow> bool" where
  "wallet_keys D \<longleftrightarrow>
     distinct (map w_ID (wallets D)) \<and> distinct (map w_UserID (wallets D)) \<and>
     distinct (map h_ID (holds D)) \<and> distinct (map h_RunID (holds D)) \<and>
     distinct (map t_ID (transactions D)) \<and> distinct (map t_TransactionNo (transactions D)) \<and>
     distinct (map (\<lambda>t. (t_SourceType t, t_SourceID t)) (transactions D))"

definition wallet_inv :: "'x wallet_tables_scheme \<Rightarrow> bool" where
  "wallet_inv D \<longleftrightarrow> wallet_keys D \<and>
     list_all (wallet_ok (transactions D) (holds D)) (wallets D) \<and>
     list_all (hold_ok (wallets D) (transactions D)) (holds D) \<and>
     list_all (transaction_ok (wallets D) (holds D)) (transactions D)"

text \<open>Every id handed out is below the counter.\<close>

definition ids_below :: "int \<Rightarrow> 'x wallet_tables_scheme \<Rightarrow> bool" where
  "ids_below n D \<longleftrightarrow> 0 < n \<and> list_all (\<lambda>w. w_ID w < n) (wallets D) \<and>
     list_all (\<lambda>t. t_ID t < n) (transactions D) \<and> list_all (\<lambda>h. h_ID h < n) (holds D)"

definition wallet_state_ok :: "'x wallet_tables_scheme world \<Rightarrow> bool" where
  "wallet_state_ok s \<longleftrightarrow> wallet_inv (tables s) \<and> ids_below (auto_inc s) (tables s)"

section \<open>Reading the invariant\<close>

lemma wallet_invD:
  assumes "wallet_inv D"
  shows "wallet_keys D"
    and "w \<in> set (wallets D) \<Longrightarrow> wallet_ok (transactions D) (holds D) w"
    and "h \<in> set (holds D) \<Longrightarrow> hold_ok (wallets D) (transactions D) h"
    and "t \<in> set (transactions D) \<Longrightarrow> transaction_ok (wallets D) (holds D) t"
  using assms by (auto simp: wallet_inv_def list_all_iff)

lemma wallet_keysD:
  assumes "wallet_inv D"
  shows "distinct (map w_ID (wallets D))" "distinct (map w_UserID (wallets D))"
    "distinct (map h_ID (holds D))" "distinct (map h_RunID (holds D))"
    "distinct (map t_ID (transactions D))" "distinct (map t_TransactionNo (transactions D))"
    "distinct (map (\<lambda>t. (t_SourceType t, t_SourceID t)) (transactions D))"
  using wallet_invD(1) [OF assms] by (simp_all add: wallet_keys_def)

lemma ledger_of_append [simp]: "ledger_of i (ts @ us) = ledger_of i ts @ ledger_of i us"
  by (simp add: ledger_of_def)

lemma ai_rows_append [simp]: "ai_rows r (ts @ us) = ai_rows r ts @ ai_rows r us"
  by (simp add: ai_rows_def)

lemma active_total_append [simp]: "active_total i (hs @ gs) = active_total i hs + active_total i gs"
  by (simp add: active_total_def)

lemma chained_append: "chained b (ts @ us) e \<longleftrightarrow> (\<exists>m. chained b ts m \<and> chained m us e)"
  by (induction ts arbitrary: b) auto

lemma chained_snoc: "chained b ts e \<Longrightarrow> t_BalanceBeforeUnits t = e \<Longrightarrow>
    chained b (ts @ [t]) (t_BalanceAfterUnits t)"
  by (auto simp: chained_append)

lemma owners_change: "(\<And>w. P w \<Longrightarrow> w_ID (g w) = w_ID w \<and> w_UserID (g w) = w_UserID w) \<Longrightarrow>
    owners (change_rows P g ws) = owners ws"
  by (simp add: owners_def map_change_rows)

lemma owners_append [simp]: "owners (ws @ vs) = owners ws @ owners vs"
  by (simp add: owners_def)

lemma owners_member: "w \<in> set ws \<Longrightarrow> (w_ID w, w_UserID w) \<in> set (owners ws)"
  by (auto simp: owners_def)

lemma owners_id: "(i, u) \<in> set (owners ws) \<Longrightarrow> i \<in> w_ID ` set ws"
  by (force simp: owners_def)

text \<open>The balance is what came in less what went out.\<close>

lemma chained_balance:
  assumes "list_all (transaction_ok ws hs) ts" and "chained b (ledger_of i ts) e"
  shows "e = b + row_sum (in_units i) ts - row_sum (out_units i) ts"
  using assms
proof (induction ts arbitrary: b)
  case Nil
  then show ?case by (simp add: ledger_of_def)
next
  case (Cons t ts)
  have t: "t_Direction t = DirectionOut \<and> t_BalanceAfterUnits t = t_BalanceBeforeUnits t - t_AmountUnits t
      \<or> t_Direction t = DirectionIn \<and> t_BalanceAfterUnits t = t_BalanceBeforeUnits t + t_AmountUnits t"
    using Cons.prems(1) by (auto simp: transaction_ok_def split: if_splits)
  show ?case
  proof (cases "t_WalletID t = i")
    case True
    with Cons.prems have "t_BalanceBeforeUnits t = b" and "chained (t_BalanceAfterUnits t) (ledger_of i ts) e"
      by (simp_all add: ledger_of_def)
    with Cons.IH [of "t_BalanceAfterUnits t"] Cons.prems(1) t True show ?thesis
      by (auto simp: in_units_def out_units_def)
  next
    case False
    with Cons show ?thesis by (simp add: ledger_of_def in_units_def out_units_def)
  qed
qed

lemma in_units_nonneg: "list_all (transaction_ok ws hs) ts \<Longrightarrow> 0 \<le> row_sum (in_units i) ts"
  by (intro row_sum_nonneg) (auto simp: in_units_def transaction_ok_def list_all_iff)

lemma out_units_nonneg: "list_all (transaction_ok ws hs) ts \<Longrightarrow> 0 \<le> row_sum (out_units i) ts"
  by (intro row_sum_nonneg) (auto simp: out_units_def transaction_ok_def list_all_iff)

lemma active_units_nonneg: "hold_ok ws ts h \<Longrightarrow> 0 \<le> active_units i h"
  by (auto simp: active_units_def hold_ok_def)

text \<open>The numbers of one wallet in a consistent database.\<close>

lemma wallet_numbers:
  assumes inv: "wallet_inv D" and w: "w \<in> set (wallets D)"
  shows "0 < w_ID w" "0 < w_UserID w" "w_IsDel w = CommonNo"
    "0 \<le> w_HeldUnits w" "w_HeldUnits w \<le> w_BalanceUnits w" "w_BalanceUnits w \<le> w_TotalRechargeUnits w"
    "0 \<le> w_TotalConsumeUnits w" "w_TotalRechargeUnits w \<le> max_int64"
    "w_BalanceUnits w = w_TotalRechargeUnits w - w_TotalConsumeUnits w"
    "w_HeldUnits w = active_total (w_ID w) (holds D)"
proof -
  note ok = wallet_invD(2) [OF inv w, unfolded wallet_ok_def]
  show "0 < w_ID w" "0 < w_UserID w" "w_IsDel w = CommonNo" "w_HeldUnits w \<le> w_BalanceUnits w"
    "w_TotalRechargeUnits w \<le> max_int64"
    and held: "w_HeldUnits w = active_total (w_ID w) (holds D)"
    using ok by simp_all
  show "0 \<le> w_HeldUnits w" unfolding held active_total_def
    by (rule row_sum_nonneg) (rule active_units_nonneg, erule wallet_invD(3) [OF inv])
  have ts: "list_all (transaction_ok (wallets D) (holds D)) (transactions D)"
    using inv by (simp add: wallet_inv_def)
  from chained_balance [OF ts, of 0 "w_ID w" "w_BalanceUnits w"] ok
  show b: "w_BalanceUnits w = w_TotalRechargeUnits w - w_TotalConsumeUnits w" by simp
  show c: "0 \<le> w_TotalConsumeUnits w" using out_units_nonneg [OF ts] ok by simp
  show "w_BalanceUnits w \<le> w_TotalRechargeUnits w" using b c by simp
qed

lemma live_wallet_key:
  assumes "wallet_inv D" and "w \<in> set (wallets D)" and "r \<in> set (wallets D)"
  shows "live_wallet_id (w_ID w) r \<longleftrightarrow> w_ID r = w_ID w"
  using wallet_numbers(3) [OF assms(1) assms(3)] by (simp add: live_wallet_id_def)

lemma active_hold_le_held:
  assumes inv: "wallet_inv D" and w: "w \<in> set (wallets D)" and h: "h \<in> set (holds D)"
    and "h_WalletID h = w_ID w" "h_Status h = HoldActive"
  shows "h_HeldUnits h \<le> w_HeldUnits w"
proof -
  have "active_units (w_ID w) h \<le> row_sum (active_units (w_ID w)) (holds D)"
    by (rule row_sum_ge_member [OF h]) (rule active_units_nonneg, erule wallet_invD(3) [OF inv])
  with assms(4,5) wallet_numbers(10) [OF inv w] show ?thesis
    by (simp add: active_units_def active_total_def)
qed

section \<open>The changes of rows the operations make\<close>

lemma transaction_ok_mono:
  "transaction_ok ws hs t \<Longrightarrow> set (owners ws) \<subseteq> set (owners ws') \<Longrightarrow>
     set (map h_RunID hs) \<subseteq> set (map h_RunID hs') \<Longrightarrow> transaction_ok ws' hs' t"
  unfolding transaction_ok_def by auto

lemma hold_ok_mono:
  "hold_ok ws ts h \<Longrightarrow> set (owners ws) \<subseteq> set (owners ws') \<Longrightarrow>
     ai_rows (h_RunID h) ts' = ai_rows (h_RunID h) ts \<Longrightarrow> hold_ok ws' ts' h"
  unfolding hold_ok_def by auto

lemma transactions_mono:
  "list_all (transaction_ok ws hs) ts \<Longrightarrow> owners ws' = owners ws \<Longrightarrow> map h_RunID hs' = map h_RunID hs \<Longrightarrow>
     list_all (transaction_ok ws' hs') ts"
  unfolding list_all_iff transaction_ok_def by auto

lemma holds_mono:
  "list_all (hold_ok ws ts) hs \<Longrightarrow> owners ws' = owners ws \<Longrightarrow>
     (\<And>h. h \<in> set hs \<Longrightarrow> ai_rows (h_RunID h) ts' = ai_rows (h_RunID h) ts) \<Longrightarrow>
     list_all (hold_ok ws' ts') hs"
  unfolding list_all_iff hold_ok_def by auto

lemma wallet_inv_lists:
  assumes "wallet_inv D"
  shows "list_all (hold_ok (wallets D) (transactions D)) (holds D)"
    "list_all (transaction_ok (wallets D) (holds D)) (transactions D)"
  using assms by (simp_all add: wallet_inv_def)

lemma wallet_ok_frame:
  "wallet_ok ts hs w \<Longrightarrow> active_total (w_ID w) hs' = active_total (w_ID w) hs \<Longrightarrow>
     list_all (\<lambda>t. t_WalletID t \<noteq> w_ID w) us \<Longrightarrow> wallet_ok (ts @ us) hs' w"
proof -
  assume other: "list_all (\<lambda>t. t_WalletID t \<noteq> w_ID w) us"
  then have "ledger_of (w_ID w) us = []" "row_sum (in_units (w_ID w)) us = 0"
    "row_sum (out_units (w_ID w)) us = 0"
    by (induction us) (auto simp: ledger_of_def in_units_def out_units_def)
  then show "wallet_ok ts hs w \<Longrightarrow> active_total (w_ID w) hs' = active_total (w_ID w) hs \<Longrightarrow>
      wallet_ok (ts @ us) hs' w"
    by (simp add: wallet_ok_def)
qed

text \<open>Changing the row of one wallet, in a database whose other tables may have changed too.\<close>

lemma wallets_changed:
  assumes inv: "wallet_inv D" and w: "w \<in> set (wallets D)"
    and g: "\<And>r. w_ID (g r) = w_ID r \<and> w_UserID (g r) = w_UserID r"
    and others: "\<forall>r \<in> set (wallets D). w_ID r \<noteq> w_ID w \<longrightarrow> wallet_ok ts hs r"
    and upd: "wallet_ok ts hs (g w)"
  defines "ws \<equiv> change_rows (live_wallet_id (w_ID w)) g (wallets D)"
  shows "list_all (wallet_ok ts hs) ws" "owners ws = owners (wallets D)"
    "map w_ID ws = map w_ID (wallets D)" "map w_UserID ws = map w_UserID (wallets D)"
proof -
  have member: "r \<in> set ws \<longleftrightarrow> r = g w \<or> r \<in> set (wallets D) \<and> w_ID r \<noteq> w_ID w" for r
    unfolding ws_def using live_wallet_key [OF inv w]
    by (intro member_change_key [OF wallet_keysD(1) [OF inv] w])
  show "list_all (wallet_ok ts hs) ws"
    using others upd by (auto simp: list_all_iff member)
  show "owners ws = owners (wallets D)" unfolding ws_def by (rule owners_change) (simp add: g)
  show "map w_ID ws = map w_ID (wallets D)" "map w_UserID ws = map w_UserID (wallets D)"
    unfolding ws_def by (simp_all add: map_change_rows g)
qed

lemma inv_new_wallet:
  assumes inv: "wallet_inv D" and u: "0 < u" and "0 < i" "i \<notin> w_ID ` set (wallets D)"
    and "wallet_violated (new_wallet u) (wallets D) = None"
    and v: "v = (new_wallet u)\<lparr>w_ID := i, w_CreatedAt := a, w_UpdatedAt := a'\<rparr>"
  shows "wallet_inv (D\<lparr>wallets := wallets D @ [v]\<rparr>)"
proof -
  have no_row: "t_WalletID t \<noteq> i" if "t \<in> set (transactions D)" for t
    using wallet_invD(4) [OF inv that] assms(4) owners_id by (fastforce simp: transaction_ok_def)
  have no_hold: "h_WalletID h \<noteq> i" if "h \<in> set (holds D)" for h
    using wallet_invD(3) [OF inv that] assms(4) owners_id by (fastforce simp: hold_ok_def)
  have "active_total i (holds D) = 0"
    unfolding active_total_def by (rule row_sum_zero) (simp add: active_units_def no_hold)
  moreover have "row_sum (in_units i) (transactions D) = 0" "row_sum (out_units i) (transactions D) = 0"
    by (rule row_sum_zero, simp add: in_units_def out_units_def no_row)+
  moreover have "ledger_of i (transactions D) = []"
    by (simp add: ledger_of_def filter_empty_conv no_row)
  ultimately have new: "wallet_ok (transactions D) (holds D) v"
    using u assms(3) by (simp add: v wallet_ok_def new_wallet_def)
  have keys: "wallet_keys (D\<lparr>wallets := wallets D @ [v]\<rparr>)"
    using wallet_invD(1) [OF inv] assms(4,5)
    by (auto simp: v wallet_keys_def wallet_violated_def new_wallet_def list_ex_iff split: if_splits)
  have "list_all (wallet_ok (transactions D) (holds D)) (wallets D @ [v])"
    using inv new by (simp add: wallet_inv_def)
  moreover have "list_all (hold_ok (wallets D @ [v]) (transactions D)) (holds D)"
    using wallet_invD(3) [OF inv]
    by (auto simp: list_all_iff intro: hold_ok_mono [where ws = "wallets D" and ts = "transactions D"])
  moreover have "list_all (transaction_ok (wallets D @ [v]) (holds D)) (transactions D)"
    using wallet_invD(4) [OF inv]
    by (auto simp: list_all_iff intro: transaction_ok_mono [where ws = "wallets D" and hs = "holds D"])
  ultimately show ?thesis using keys by (simp add: wallet_inv_def)
qed

text \<open>A ledger row whose keys are fresh keeps the keys of the tables distinct.\<close>

lemma keys_new_transaction:
  assumes "wallet_keys D" and "transaction_violated t (transactions D) = None"
    and "t_ID t \<notin> t_ID ` set (transactions D)"
  shows "distinct (map t_ID (transactions D @ [t]))"
    "distinct (map t_TransactionNo (transactions D @ [t]))"
    "distinct (map (\<lambda>t. (t_SourceType t, t_SourceID t)) (transactions D @ [t]))"
  using assms by (auto simp: wallet_keys_def transaction_violated_def list_ex_iff split: if_splits)

lemma inv_credit:
  assumes inv: "wallet_inv D" and w: "w \<in> set (wallets D)"
    and t: "t_WalletID t = w_ID w" "t_UserID t = w_UserID w" "t_Direction t = DirectionIn"
      "t_AmountUnits t = a" "t_BalanceBeforeUnits t = w_BalanceUnits w"
      "t_BalanceAfterUnits t = w_BalanceUnits w + a" "t_IsDel t = CommonNo" "0 < t_ID t"
      "t_SourceType t = SourceRecharge \<or> t_SourceType t = SourceRedeemCode"
      "trim_space (t_TransactionNo t) \<noteq> []"
    and a: "0 < a" "w_TotalRechargeUnits w + a \<le> max_int64"
    and fresh: "transaction_violated t (transactions D) = None" "t_ID t \<notin> t_ID ` set (transactions D)"
    and g: "\<And>r. w_ID (g r) = w_ID r \<and> w_UserID (g r) = w_UserID r \<and> w_IsDel (g r) = w_IsDel r \<and>
        w_HeldUnits (g r) = w_HeldUnits r \<and> w_TotalConsumeUnits (g r) = w_TotalConsumeUnits r \<and>
        w_BalanceUnits (g r) = w_BalanceUnits w + a \<and> w_TotalRechargeUnits (g r) = w_TotalRechargeUnits w + a"
  shows "wallet_inv (D\<lparr>transactions := transactions D @ [t],
           wallets := change_rows (live_wallet_id (w_ID w)) g (wallets D)\<rparr>)"
proof -
  let ?ts = "transactions D @ [t]" and ?ws = "change_rows (live_wallet_id (w_ID w)) g (wallets D)"
  note n = wallet_numbers [OF inv w]
  have ids: "\<And>r. w_ID (g r) = w_ID r \<and> w_UserID (g r) = w_UserID r" using g by simp
  have others: "\<forall>r \<in> set (wallets D). w_ID r \<noteq> w_ID w \<longrightarrow> wallet_ok ?ts (holds D) r"
    using wallet_invD(2) [OF inv] t(1) by (intro ballI impI wallet_ok_frame) auto
  have upd: "wallet_ok ?ts (holds D) (g w)"
    using wallet_invD(2) [OF inv w] chained_snoc [of 0 _ "w_BalanceUnits w" t] t a g [of w]
    by (auto simp: wallet_ok_def in_units_def out_units_def ledger_of_def)
  note ws = wallets_changed [OF inv w ids others upd]
  have "transaction_ok (wallets D) (holds D) t"
    using t a n owners_member [OF w] by (auto simp: transaction_ok_def)
  then have "list_all (transaction_ok (wallets D) (holds D)) ?ts"
    using wallet_inv_lists(2) [OF inv] by simp
  then have "list_all (transaction_ok ?ws (holds D)) ?ts"
    by (rule transactions_mono) (simp_all add: ws(2))
  moreover have no_ai: "ai_rows r ?ts = ai_rows r (transactions D)" for r using t(9) by (auto simp: ai_rows_def)
  have "list_all (hold_ok ?ws ?ts) (holds D)"
    by (rule holds_mono [OF wallet_inv_lists(1) [OF inv] ws(2) no_ai])
  ultimately show ?thesis
    using ws keys_new_transaction [OF wallet_invD(1) [OF inv] fresh] wallet_keysD [OF inv]
    by (simp add: wallet_inv_def wallet_keys_def)
qed

text \<open>The active hold of an id, changed together with its wallet and at most a ledger row of its run.\<close>

definition active_hold_id :: "int \<Rightarrow> Hold \<Rightarrow> bool" where
  "active_hold_id i h \<longleftrightarrow> h_ID h = i \<and> h_Status h = HoldActive"

lemma active_hold_key:
  assumes "wallet_inv D" and "h \<in> set (holds D)" "h_Status h = HoldActive" and "r \<in> set (holds D)"
  shows "active_hold_id (h_ID h) r \<longleftrightarrow> h_ID r = h_ID h"
  using distinct_key_eq [OF wallet_keysD(3) [OF assms(1)] assms(4,2)] assms(3)
  by (auto simp: active_hold_id_def)

lemma active_total_change:
  assumes "wallet_inv D" and "h \<in> set (holds D)" "h_Status h = HoldActive"
  shows "active_total i (change_rows (active_hold_id (h_ID h)) k (holds D)) =
    active_total i (holds D) - active_units i h + active_units i (k h)"
  unfolding active_total_def
  by (rule row_sum_change_key [OF wallet_keysD(3) [OF assms(1)] assms(2)])
    (rule active_hold_key [OF assms])

lemma inv_hold_change:
  fixes g :: "Wallet \<Rightarrow> Wallet" and k :: "Hold \<Rightarrow> Hold"
  assumes inv: "wallet_inv D" and w: "w \<in> set (wallets D)" and h: "h \<in> set (holds D)"
    and active: "h_Status h = HoldActive" and own: "h_WalletID h = w_ID w"
    and g: "\<And>r. w_ID (g r) = w_ID r \<and> w_UserID (g r) = w_UserID r"
    and k: "\<And>r. h_ID (k r) = h_ID r \<and> h_RunID (k r) = h_RunID r \<and> h_WalletID (k r) = h_WalletID r"
    and us: "us = [] \<or> (\<exists>t. us = [t] \<and> t_WalletID t = w_ID w \<and> t_SourceType t = SourceAIGenerate \<and>
      t_SourceID t = h_RunID h \<and> transaction_ok (wallets D) (holds D) t \<and>
      transaction_violated t (transactions D) = None \<and> t_ID t \<notin> t_ID ` set (transactions D))"
  defines "D' \<equiv> D\<lparr>transactions := transactions D @ us,
      wallets := change_rows (live_wallet_id (w_ID w)) g (wallets D),
      holds := change_rows (active_hold_id (h_ID h)) k (holds D)\<rparr>"
  assumes w': "wallet_ok (transactions D') (holds D') (g w)"
    and h': "hold_ok (wallets D) (transactions D') (k h)"
  shows "wallet_inv D'"
proof -
  let ?ts = "transactions D @ us" and ?hs = "change_rows (active_hold_id (h_ID h)) k (holds D)"
  let ?ws = "change_rows (live_wallet_id (w_ID w)) g (wallets D)"
  have total: "active_total i ?hs = active_total i (holds D)" if "i \<noteq> w_ID w" for i
    using that own k [of h] unfolding active_total_change [OF inv h active] by (simp add: active_units_def)
  have others: "\<forall>r \<in> set (wallets D). w_ID r \<noteq> w_ID w \<longrightarrow> wallet_ok ?ts ?hs r"
    using wallet_invD(2) [OF inv] us by (intro ballI impI wallet_ok_frame) (auto simp: total)
  note ws = wallets_changed [OF inv w g others w' [unfolded D'_def, simplified]]
  have runs: "map h_RunID ?hs = map h_RunID (holds D)" and hids: "map h_ID ?hs = map h_ID (holds D)"
    using k by (simp_all add: map_change_rows)
  have "list_all (transaction_ok (wallets D) (holds D)) ?ts"
    using wallet_inv_lists(2) [OF inv] us by auto
  then have ts: "list_all (transaction_ok ?ws ?hs) ?ts"
    by (rule transactions_mono) (simp_all add: ws(2) runs)
  have "hold_ok (wallets D) ?ts r" if r: "r \<in> set ?hs" for r
  proof -
    from r member_change_key [OF wallet_keysD(3) [OF inv] h, of "active_hold_id (h_ID h)" r k]
      active_hold_key [OF inv h active]
    have "r = k h \<or> r \<in> set (holds D) \<and> h_ID r \<noteq> h_ID h" by blast
    then show ?thesis
    proof
      assume "r = k h"
      then show ?thesis using h' by (simp add: D'_def)
    next
      assume other: "r \<in> set (holds D) \<and> h_ID r \<noteq> h_ID h"
      then have "h_RunID r \<noteq> h_RunID h"
        using distinct_key_eq [OF wallet_keysD(4) [OF inv] _ h] by auto
      then have "ai_rows (h_RunID r) ?ts = ai_rows (h_RunID r) (transactions D)"
        using us by (auto simp: ai_rows_def)
      with wallet_invD(3) [OF inv conjunct1 [OF other]] show ?thesis
        unfolding hold_ok_def by simp
    qed
  qed
  then have "list_all (hold_ok (wallets D) ?ts) ?hs" by (simp add: list_all_iff)
  then have "list_all (hold_ok ?ws ?ts) ?hs" by (rule holds_mono) (simp_all add: ws(2))
  moreover have "distinct (map t_ID ?ts)" "distinct (map t_TransactionNo ?ts)"
    "distinct (map (\<lambda>t. (t_SourceType t, t_SourceID t)) ?ts)"
    using us wallet_keysD(5-7) [OF inv] by (elim disjE exE; use keys_new_transaction [OF wallet_invD(1) [OF inv]] in force)+
  ultimately show ?thesis
    using ws ts wallet_keysD [OF inv] runs hids by (simp add: D'_def wallet_inv_def wallet_keys_def)
qed

text \<open>A hold grows by \<open>d\<close>; so does the part of the balance that is held.\<close>

lemma inv_grow:
  assumes inv: "wallet_inv D" and w: "w \<in> set (wallets D)" and h: "h \<in> set (holds D)"
    and active: "h_Status h = HoldActive" and own: "h_WalletID h = w_ID w"
    and d: "0 < d" "w_HeldUnits w + d \<le> w_BalanceUnits w"
    and g: "\<And>r. g r = r\<lparr>w_HeldUnits := w_HeldUnits w + d, w_UpdatedAt := a\<rparr>"
    and k: "\<And>r. k r = r\<lparr>h_HeldUnits := h_HeldUnits h + d, h_UpdatedAt := b\<rparr>"
  shows "wallet_inv (D\<lparr>wallets := change_rows (live_wallet_id (w_ID w)) g (wallets D),
           holds := change_rows (active_hold_id (h_ID h)) k (holds D)\<rparr>)"
proof -
  have "wallet_ok (transactions D) (change_rows (active_hold_id (h_ID h)) k (holds D)) (g w)"
    using wallet_invD(2) [OF inv w] d own active
    by (simp add: wallet_ok_def g k active_total_change [OF inv h active] active_units_def)
  moreover have "hold_ok (wallets D) (transactions D) (k h)"
    using wallet_invD(3) [OF inv h] active d by (auto simp: hold_ok_def k)
  ultimately show ?thesis
    using inv_hold_change [OF inv w h active own, of g k "[]"] by (simp add: g k)
qed

lemma inv_release:
  assumes inv: "wallet_inv D" and w: "w \<in> set (wallets D)" and h: "h \<in> set (holds D)"
    and active: "h_Status h = HoldActive" and own: "h_WalletID h = w_ID w"
    and g: "\<And>r. g r = r\<lparr>w_HeldUnits := w_HeldUnits w - h_HeldUnits h, w_UpdatedAt := a\<rparr>"
    and k: "\<And>r. k r = r\<lparr>h_HeldUnits := 0, h_CapturedUnits := 0, h_Status := HoldReleased, h_UpdatedAt := b\<rparr>"
  shows "wallet_inv (D\<lparr>wallets := change_rows (live_wallet_id (w_ID w)) g (wallets D),
           holds := change_rows (active_hold_id (h_ID h)) k (holds D)\<rparr>)"
proof -
  have pos: "0 < h_HeldUnits h" using wallet_invD(3) [OF inv h] active by (simp add: hold_ok_def)
  have "wallet_ok (transactions D) (change_rows (active_hold_id (h_ID h)) k (holds D)) (g w)"
    using wallet_invD(2) [OF inv w] pos own active
    by (simp add: wallet_ok_def g k active_total_change [OF inv h active] active_units_def)
  moreover have "hold_ok (wallets D) (transactions D) (k h)"
    using wallet_invD(3) [OF inv h] active by (auto simp: hold_ok_def k)
  ultimately show ?thesis
    using inv_hold_change [OF inv w h active own, of g k "[]"] by (simp add: g k)
qed

text \<open>A capture of \<open>c\<close> units: nothing is written to the ledger when \<open>c = 0\<close>.\<close>

lemma inv_capture:
  assumes inv: "wallet_inv D" and w: "w \<in> set (wallets D)" and h: "h \<in> set (holds D)"
    and active: "h_Status h = HoldActive" and own: "h_WalletID h = w_ID w" "h_UserID h = w_UserID w"
    and c: "0 \<le> c" "c \<le> h_HeldUnits h"
    and us: "us = (if 0 < c then [t] else [])"
    and t: "0 < c \<Longrightarrow> t_WalletID t = w_ID w \<and> t_UserID t = w_UserID w \<and> t_Direction t = DirectionOut \<and>
      t_AmountUnits t = c \<and> t_BalanceBeforeUnits t = w_BalanceUnits w \<and>
      t_BalanceAfterUnits t = w_BalanceUnits w - c \<and> t_IsDel t = CommonNo \<and> 0 < t_ID t \<and>
      t_SourceType t = SourceAIGenerate \<and> t_SourceID t = h_RunID h \<and>
      validateHoldSummary (t_Remark t) = Inr () \<and>
      transaction_violated t (transactions D) = None \<and> t_ID t \<notin> t_ID ` set (transactions D)"
    and g: "\<And>r. g r = r\<lparr>w_BalanceUnits := w_BalanceUnits w - c,
      w_TotalConsumeUnits := w_TotalConsumeUnits w + c, w_HeldUnits := w_HeldUnits w - h_HeldUnits h,
      w_UpdatedAt := a\<rparr>"
    and k: "\<And>r. k r = r\<lparr>h_HeldUnits := 0, h_CapturedUnits := c, h_Status := HoldCaptured, h_UpdatedAt := b\<rparr>"
  shows "wallet_inv (D\<lparr>transactions := transactions D @ us,
           wallets := change_rows (live_wallet_id (w_ID w)) g (wallets D),
           holds := change_rows (active_hold_id (h_ID h)) k (holds D)\<rparr>)"
proof -
  note n = wallet_numbers [OF inv w]
  have le: "h_HeldUnits h \<le> w_HeldUnits w"
    by (rule active_hold_le_held [OF inv w h own(1) active])
  have hok: "hold_ok (wallets D) (transactions D) h" by (rule wallet_invD(3) [OF inv h])
  have tok: "transaction_ok (wallets D) (holds D) t" if "0 < c"
    using t [OF that] that n c le h owners_member [OF w] by (auto simp: transaction_ok_def)
  have row: "us = [] \<or> (\<exists>t. us = [t] \<and> t_WalletID t = w_ID w \<and> t_SourceType t = SourceAIGenerate \<and>
      t_SourceID t = h_RunID h \<and> transaction_ok (wallets D) (holds D) t \<and>
      transaction_violated t (transactions D) = None \<and> t_ID t \<notin> t_ID ` set (transactions D))"
    using t tok unfolding us by (cases "0 < c") simp_all
  have "wallet_ok (transactions D @ us) (change_rows (active_hold_id (h_ID h)) k (holds D)) (g w)"
  proof (cases "0 < c")
    case True
    with wallet_invD(2) [OF inv w] c own active le chained_snoc [of 0 _ "w_BalanceUnits w" t] t [OF True]
    show ?thesis
      by (simp add: us wallet_ok_def g k active_total_change [OF inv h active] active_units_def
          in_units_def out_units_def ledger_of_def)
  next
    case False
    with wallet_invD(2) [OF inv w] c own active le show ?thesis
      by (simp add: us wallet_ok_def g k active_total_change [OF inv h active] active_units_def)
  qed
  moreover have "hold_ok (wallets D) (transactions D @ us) (k h)"
  proof (cases "0 < c")
    case True
    then show ?thesis using hok active c t [OF True] own
      by (auto simp: us hold_ok_def k ai_rows_def)
  next
    case False
    then show ?thesis using hok active c by (auto simp: us hold_ok_def k)
  qed
  ultimately show ?thesis
    using inv_hold_change [OF inv w h active own(1) _ _ row, of g k] by (simp add: g k)
qed

text \<open>A new hold on a run without one.\<close>

lemma inv_new_hold:
  assumes inv: "wallet_inv D" and w: "w \<in> set (wallets D)"
    and d: "0 < d" "w_HeldUnits w + d \<le> w_BalanceUnits w" and run: "0 < run"
    and fresh: "hold_violated h (holds D) = None" "h_ID h \<notin> h_ID ` set (holds D)" "0 < h_ID h"
    and h: "h_WalletID h = w_ID w" "h_UserID h = w_UserID w" "h_RunID h = run" "h_HeldUnits h = d"
      "h_CapturedUnits h = 0" "h_Status h = HoldActive"
    and g: "\<And>r. g r = r\<lparr>w_HeldUnits := w_HeldUnits w + d, w_UpdatedAt := a\<rparr>"
  shows "wallet_inv (D\<lparr>wallets := change_rows (live_wallet_id (w_ID w)) g (wallets D),
           holds := holds D @ [h]\<rparr>)"
proof -
  let ?hs = "holds D @ [h]" and ?ws = "change_rows (live_wallet_id (w_ID w)) g (wallets D)"
  have new_run: "run \<notin> h_RunID ` set (holds D)"
    using fresh(1) h(3) by (auto simp: hold_violated_def list_ex_iff split: if_splits)
  then have "ai_rows run (transactions D) = []"
    using wallet_inv_lists(2) [OF inv]
    by (auto simp: ai_rows_def filter_empty_conv list_all_iff transaction_ok_def split: if_splits)
  with h d fresh run w have hok: "hold_ok (wallets D) (transactions D) h"
    by (auto simp: hold_ok_def owners_def)
  have others: "\<forall>r \<in> set (wallets D). w_ID r \<noteq> w_ID w \<longrightarrow> wallet_ok (transactions D) ?hs r"
  proof (intro ballI impI)
    fix r assume r: "r \<in> set (wallets D)" "w_ID r \<noteq> w_ID w"
    then show "wallet_ok (transactions D) ?hs r"
      using wallet_ok_frame [OF wallet_invD(2) [OF inv r(1)], of ?hs "[]"] h(1)
      by (simp add: active_total_def active_units_def)
  qed
  have upd: "wallet_ok (transactions D) ?hs (g w)"
    using wallet_invD(2) [OF inv w] d h by (simp add: wallet_ok_def g active_total_def active_units_def)
  have ids: "w_ID (g r) = w_ID r \<and> w_UserID (g r) = w_UserID r" for r by (simp add: g)
  note ws = wallets_changed [OF inv w ids others upd]
  have "list_all (hold_ok (wallets D) (transactions D)) ?hs"
    using wallet_inv_lists(1) [OF inv] hok by simp
  then have "list_all (hold_ok ?ws (transactions D)) ?hs"
    by (rule holds_mono) (simp_all add: ws)
  moreover have "list_all (transaction_ok ?ws ?hs) (transactions D)"
    using wallet_inv_lists(2) [OF inv] unfolding list_all_iff transaction_ok_def ws(2) by auto
  moreover have "distinct (map h_ID ?hs)" "distinct (map h_RunID ?hs)"
    using wallet_keysD [OF inv] fresh new_run h(3) by auto
  ultimately show ?thesis
    using ws wallet_keysD [OF inv] by (simp add: wallet_inv_def wallet_keys_def)
qed

end
