(* ===== verification/WalletOps.thy ===== *)
theory WalletOps
  imports WalletInv
begin

text \<open>
  The operations of WalletHold and WalletRedeem on a consistent database: what each returns and
  which change of rows of WalletInv it makes, whatever statements fail on the way. Every
  operation keeps the invariant, and none of them needs an assumption on overflow: the guards
  of the source are enough.
\<close>

section \<open>Reading\<close>

definition same_tables :: "'d world \<Rightarrow> 'd world \<Rightarrow> bool" where
  "same_tables s t \<longleftrightarrow> tables t = tables s \<and> auto_inc t = auto_inc s"

lemma same_tables_refl [simp]: "same_tables s s" "same_tables s (sent s)" "same_tables s (ticked s)"
  by (simp_all add: same_tables_def)

lemma same_tables_trans [trans]: "same_tables s t \<Longrightarrow> same_tables t u \<Longrightarrow> same_tables s u"
  by (simp add: same_tables_def)

lemma same_tables_ok: "same_tables s t \<Longrightarrow> wallet_state_ok t \<longleftrightarrow> wallet_state_ok s"
  by (simp add: same_tables_def wallet_state_ok_def)

lemma wallet_state_okD:
  assumes "wallet_state_ok s"
  shows "wallet_inv (tables s)" "ids_below (auto_inc s) (tables s)"
  using assms by (simp_all add: wallet_state_ok_def)

lemma live_wallet_user:
  assumes "wallet_inv D" "w \<in> set (wallets D)"
  shows "live_wallet_of u w \<longleftrightarrow> w_UserID w = u"
  using wallet_numbers(3) [OF assms] by (simp add: live_wallet_of_def)

lemma lockWalletForUpdateUnits_effect:
  assumes "Returns (lockWalletForUpdateUnits ev u) s w t"
  shows "same_tables s t" "w \<in> set (wallets (tables s))" "w_UserID w = u" "w_IsDel w = CommonNo"
  using assms
  by (auto simp: lockWalletForUpdateUnits_def act_simps same_tables_def live_wallet_of_def dest!: find_SomeD)

lemma lockHoldByRun_effect:
  assumes "Returns (lockHoldByRun ev run) s found t"
  shows "same_tables s t" "found = find (\<lambda>h. h_RunID h = run) (holds (tables s))"
  using assms by (auto simp: lockHoldByRun_def act_simps)

lemma assertActiveHoldTotal_effect:
  assumes "Returns (assertActiveHoldTotal ev wid n) s x t"
  shows "same_tables s t" "active_total wid (holds (tables s)) = n"
  using assms by (auto simp: assertActiveHoldTotal_def act_simps)

lemma validateCapturedHoldFact_effect:
  assumes "Returns (validateCapturedHoldFact ev h w u) s ledger t"
  shows "same_tables s t" "h_HeldUnits h = 0" "0 \<le> h_CapturedUnits h"
    "(case ledger of None \<Rightarrow> h_CapturedUnits h = 0
      | Some x \<Rightarrow> 0 < h_CapturedUnits h \<and> take 2 (ai_rows (h_RunID h) (transactions (tables s))) = [x])"
  using assms
  by (auto simp: validateCapturedHoldFact_def terminalAIGenerateTransactions_def ai_rows_def act_simps
      split: list.splits sum.splits if_splits)

lemma validateReleasedHoldFact_effect:
  assumes "Returns (validateReleasedHoldFact ev h w u) s x t"
  shows "same_tables s t"
  using assms
  by (auto simp: validateReleasedHoldFact_def terminalAIGenerateTransactions_def act_simps)

section \<open>Opening a wallet\<close>

text \<open>The wallet of the user is there, or was appended, empty.\<close>

definition opened :: "int \<Rightarrow> Wallet \<Rightarrow> 'x wallet_tables_scheme \<Rightarrow> 'x wallet_tables_scheme \<Rightarrow> bool" where
  "opened u w D D' \<longleftrightarrow> w \<in> set (wallets D') \<and> w_UserID w = u \<and>
     (D' = D \<or> u \<notin> w_UserID ` set (wallets D) \<and> D' = D\<lparr>wallets := wallets D @ [w]\<rparr> \<and>
        w_BalanceUnits w = 0 \<and> w_HeldUnits w = 0 \<and> w_TotalRechargeUnits w = 0 \<and> w_TotalConsumeUnits w = 0)"

lemma fresh_ids:
  assumes "ids_below n D"
  shows "0 < n" "n \<notin> w_ID ` set (wallets D)" "n \<notin> t_ID ` set (transactions D)" "n \<notin> h_ID ` set (holds D)"
  using assms by (auto simp: ids_below_def list_all_iff)

lemma ids_below_mono: "ids_below n D \<Longrightarrow> n \<le> m \<Longrightarrow> ids_below m D"
  by (fastforce simp: ids_below_def list_all_iff)

lemma ids_below_change:
  assumes "ids_below n D" "n \<le> m" "map w_ID (wallets D') = map w_ID (wallets D)"
    "map t_ID (transactions D') = map t_ID (transactions D) @ us" "list_all (\<lambda>i. i < m) us"
    "map h_ID (holds D') = map h_ID (holds D) @ vs" "list_all (\<lambda>i. i < m) vs"
  shows "ids_below m D'"
proof -
  have "list_all (\<lambda>i. i < m) (map w_ID (wallets D'))" "list_all (\<lambda>i. i < m) (map t_ID (transactions D'))"
    "list_all (\<lambda>i. i < m) (map h_ID (holds D'))"
    using assms by (auto simp: ids_below_def list_all_iff)
  then show ?thesis using assms(1,2) by (auto simp: ids_below_def list.pred_map comp_def)
qed

lemma failed_inserts:
  "Fails (create_wallet ev w) s e t \<Longrightarrow> tables t = tables s \<and> auto_inc s \<le> auto_inc t"
  "Fails (create_transaction ev x) s e t \<Longrightarrow> tables t = tables s \<and> auto_inc s \<le> auto_inc t"
  "Fails (create_hold ev h) s e t \<Longrightarrow> tables t = tables s \<and> auto_inc s \<le> auto_inc t"
  by (auto simp: wallet_statement_defs act_simps)

lemma created_wallet_opened:
  assumes ok: "wallet_state_ok s" and u: "0 < u"
    and create: "Returns (create_wallet ev (new_wallet u)) s w t"
  shows "wallet_state_ok t" "opened u w (tables s) (tables t)" "w_ID w = auto_inc s" "auto_inc t = auto_inc s + 1"
    "find (\<lambda>v. w_ID v = w_ID w) (wallets (tables t)) = Some w"
proof -
  note inv = wallet_state_okD [OF ok]
  from create have w: "w = (new_wallet u)\<lparr>w_ID := auto_inc s, w_CreatedAt := ev_now ev (clock_no s),
      w_UpdatedAt := ev_now ev (clock_no s)\<rparr>"
    and v: "wallet_violated w (wallets (tables s)) = None"
    and t: "tables t = (tables s)\<lparr>wallets := wallets (tables s) @ [w]\<rparr>" "auto_inc t = auto_inc s + 1"
    by (auto simp: create_wallet_def act_simps)
  have "w_UserID w = u" by (simp add: w new_wallet_def)
  with v have nou: "u \<notin> w_UserID ` set (wallets (tables s))"
    by (auto simp: wallet_violated_def list_ex_iff split: if_splits)
  show "w_ID w = auto_inc s" "auto_inc t = auto_inc s + 1" by (simp_all add: w t)
  have "wallet_violated (new_wallet u) (wallets (tables s)) = None"
    using v by (simp add: w wallet_violated_def new_wallet_def split: if_splits)
  then have "wallet_inv (tables t)"
    unfolding t(1) using fresh_ids [OF inv(2)]
    by (intro inv_new_wallet [OF inv(1) u, of "auto_inc s" w]) (simp_all add: w)
  moreover have "ids_below (auto_inc t) (tables t)"
    using inv(2) unfolding ids_below_def t by (auto simp: w list_all_iff)
  ultimately show "wallet_state_ok t" by (simp add: wallet_state_ok_def)
  show "opened u w (tables s) (tables t)"
    unfolding opened_def t using nou \<open>w_UserID w = u\<close> by (simp add: w new_wallet_def)
  have "w_ID v \<noteq> w_ID w" if "v \<in> set (wallets (tables s))" for v
    using fresh_ids(2) [OF inv(2)] that \<open>w_ID w = auto_inc s\<close> by (metis imageI)
  then have "find (\<lambda>v. w_ID v = w_ID w) (wallets (tables s)) = None"
    by (simp add: find_None_iff)
  then show "find (\<lambda>v. w_ID v = w_ID w) (wallets (tables t)) = Some w"
    by (simp add: t find_append)
qed

lemma lockOrCreateWalletForUpdate_effect:
  assumes ok: "wallet_state_ok s" and u: "0 < u"
    and run: "Returns (lockOrCreateWalletForUpdate ev u) s w t"
  shows "wallet_state_ok t \<and> opened u w (tables s) (tables t) \<and> auto_inc s \<le> auto_inc t"
  using run unfolding lockOrCreateWalletForUpdate_def
proof (cases rule: Returns_eitherE)
  case (ok w')
  then have found: "find (live_wallet_of u) (wallets (tables s)) = Some w" and same: "same_tables s t"
    by (auto simp: act_simps)
  then show ?thesis
    using same_tables_ok [OF same] \<open>wallet_state_ok s\<close> find_SomeD [OF found]
    by (simp add: opened_def live_wallet_of_def same_tables_def)
next
  case (error e s')
  then have none: "find (live_wallet_of u) (wallets (tables s)) = None" and s': "same_tables s s'"
    and "Returns (either (create_wallet ev (new_wallet u))
      (\<lambda>err. if isDuplicateKeyFor err duplicateKeyUserWalletUser then getWalletByUserID ev u else throw err)
      (\<lambda>wallet. first ev wallets (\<lambda>w. w_ID w = w_ID wallet))) s' w t"
    by (auto simp: act_simps split: if_splits)
  from this(3) show ?thesis
  proof (cases rule: Returns_eitherE)
    case (error f r)
    with failed_inserts(1) [OF error(1)] none s' show ?thesis
      by (auto simp: act_simps getWalletByUserID_def same_tables_def)
  next
    case (ok v r)
    have "wallet_state_ok s'" using assms(1) same_tables_ok [OF s'] by simp
    note new = created_wallet_opened [OF this u ok(1)]
    have t: "t = sent r" and "w = v" using ok(2) new(5) by (auto simp: act_simps)
    then show ?thesis
      using new s' same_tables_ok [of r t] by (simp add: same_tables_def)
  qed
qed

section \<open>Writing\<close>

text \<open>A new ledger row: what the caller built, with fresh keys.\<close>

definition same_entry :: "Transaction \<Rightarrow> Transaction \<Rightarrow> bool" where
  "same_entry row r \<longleftrightarrow> t_WalletID r = t_WalletID row \<and> t_UserID r = t_UserID row \<and>
     t_Direction r = t_Direction row \<and> t_AmountUnits r = t_AmountUnits row \<and>
     t_BalanceBeforeUnits r = t_BalanceBeforeUnits row \<and> t_BalanceAfterUnits r = t_BalanceAfterUnits row \<and>
     t_SourceType r = t_SourceType row \<and> t_SourceID r = t_SourceID row \<and>
     t_Remark r = t_Remark row \<and> t_IsDel r = t_IsDel row"

definition added_row :: "Transaction \<Rightarrow> Transaction \<Rightarrow> 'x wallet_tables_scheme world \<Rightarrow>
    'x wallet_tables_scheme world \<Rightarrow> bool" where
  "added_row row r s t \<longleftrightarrow> same_entry row r \<and> auto_inc s \<le> t_ID r \<and> auto_inc t = t_ID r + 1 \<and>
     trim_space (t_TransactionNo r) \<noteq> [] \<and>
     transaction_violated r (transactions (tables s)) = None \<and>
     tables t = (tables s)\<lparr>transactions := transactions (tables s) @ [r]\<rparr>"

lemma create_transaction_effect:
  assumes "Returns (create_transaction ev row) s r t" and "trim_space (t_TransactionNo row) \<noteq> []"
  shows "added_row row r s t"
  using assms by (auto simp: create_transaction_def act_simps added_row_def same_entry_def)

lemma added_row_later:
  "added_row row r u t \<Longrightarrow> tables u = tables s \<Longrightarrow> auto_inc s \<le> auto_inc u \<Longrightarrow>
     same_entry row' row \<Longrightarrow> added_row row' r s t"
  by (simp add: added_row_def same_entry_def)

lemma newTransactionNo_effect:
  assumes "Returns (newTransactionNo ev now) s no t"
  shows "tables t = tables s" "auto_inc t = auto_inc s" "trim_space no \<noteq> []"
  using assms by (auto simp: newTransactionNo_def act_simps serial_text_nonblank)

lemma transaction_attempts_effect:
  assumes "Returns (transaction_attempts ev now n row) s r t" and "trim_space (t_TransactionNo row) \<noteq> []"
  shows "added_row row r s t"
  using assms
proof (induction n arbitrary: row s)
  case 0
  then show ?case by (simp add: create_transaction_effect)
next
  case (Suc n)
  from Suc.prems(1) [simplified] show ?case
  proof (cases rule: Returns_catchE)
    case ok
    then show ?thesis using Suc.prems(2) by (rule create_transaction_effect)
  next
    case (handled e u)
    from handled(2) have "Returns (bind (newTransactionNo ev now)
        (\<lambda>no. transaction_attempts ev now n (row\<lparr>t_TransactionNo := no\<rparr>))) u r t"
      by (auto split: if_splits simp: Returns_throw)
    then obtain no u' where no: "Returns (newTransactionNo ev now :: (db_error, _, _) act) u no u'"
      and "Returns (transaction_attempts ev now n (row\<lparr>t_TransactionNo := no\<rparr>)) u' r t"
      by (rule Returns_bindE)
    note u' = newTransactionNo_effect [OF no]
    then have "added_row (row\<lparr>t_TransactionNo := no\<rparr>) r u' t" using \<open>Returns _ u' r t\<close>
      by (intro Suc.IH) simp_all
    with failed_inserts(2) [OF handled(1)] u' show ?thesis
      by (intro added_row_later [of "row\<lparr>t_TransactionNo := no\<rparr>" r u' t s row]) (simp_all add: same_entry_def)
  qed
qed

lemma createTransactionWithNumberRetry_effect:
  assumes "Returns (createTransactionWithNumberRetry ev row now) s r t"
    and "trim_space (t_TransactionNo row) \<noteq> []"
  shows "added_row row r s t"
  using assms transaction_attempts_effect
  by (auto simp: createTransactionWithNumberRetry_def act_simps)

lemma identity_attempts_effect:
  assumes "Returns (identity_attempts ev row no nos) s r t" and "\<forall>x \<in> set (no # nos). trim_space x \<noteq> []"
  shows "added_row row r s t"
  using assms
proof (induction nos arbitrary: no s)
  case Nil
  then show ?case
    using create_transaction_effect [of ev "row\<lparr>t_TransactionNo := no\<rparr>" s r t]
    by (simp add: added_row_def same_entry_def)
next
  case (Cons no' nos)
  from Cons.prems(1) [simplified] show ?case
  proof (cases rule: Returns_catchE)
    case ok
    then show ?thesis
      using Cons.prems(2) create_transaction_effect [of ev "row\<lparr>t_TransactionNo := no\<rparr>" s r t]
      by (simp add: added_row_def same_entry_def)
  next
    case (handled e u)
    from handled(2) have "Returns (identity_attempts ev row no' nos) u r t"
      by (auto split: if_splits simp: Returns_throw)
    with Cons.IH [of no' u] Cons.prems(2) have "added_row row r u t" by simp
    with failed_inserts(2) [OF handled(1)] show ?thesis by (auto simp: added_row_def)
  qed
qed

lemma update_wallet_row_effect:
  assumes "Returns (update_wallet_row ev wid g) s x t"
  shows "\<exists>a. tables t = (tables s)\<lparr>wallets := change_rows (live_wallet_id wid)
      (\<lambda>w. (g w)\<lparr>w_UpdatedAt := a\<rparr>) (wallets (tables s))\<rparr> \<and> auto_inc t = auto_inc s"
  using assms by (intro exI [of _ "ev_now ev (clock_no s)"]) (auto simp: update_wallet_row_def act_simps)

lemma update_active_hold_effect:
  assumes "Returns (update_active_hold ev hid k) s x t"
  shows "\<exists>a. tables t = (tables s)\<lparr>holds := change_rows (active_hold_id hid)
      (\<lambda>h. (k h)\<lparr>h_UpdatedAt := a\<rparr>) (holds (tables s))\<rparr> \<and> auto_inc t = auto_inc s"
  using assms by (intro exI [of _ "ev_now ev (clock_no s)"])
    (auto simp: update_active_hold_def active_hold_id_def [abs_def] act_simps)

end
