(* ===== verification/WalletSpec.thy ===== *)
theory WalletSpec
  imports WalletOps
begin

text \<open>
  What the wallet promises, without rows, ids or timestamps: per user a balance and the part of
  it that is held, per run its owner and state, per ledger source the amount booked. The
  operations of the source refine the operations below, whatever statements fail on the way: a
  call that returns has made exactly the step of the specification.
\<close>

section \<open>The specification\<close>

datatype run_state = RunHeld int | RunCaptured int | RunReleased

record account_state =
  as_balance :: "int \<Rightarrow> int"
  as_held :: "int \<Rightarrow> int"
  as_run :: "int \<Rightarrow> (int \<times> run_state) option"
  as_ledger :: "string \<times> int \<Rightarrow> int option"

definition spec_hold :: "int \<Rightarrow> int \<Rightarrow> int \<Rightarrow> int \<Rightarrow> account_state \<Rightarrow> account_state option" where
  "spec_hold u r m n A =
     (if n - m \<le> as_balance A u - as_held A u
      then Some (A\<lparr>as_held := (as_held A)(u := as_held A u + (n - m)),
             as_run := (as_run A)(r \<mapsto> (u, RunHeld n))\<rparr>)
      else None)"

definition spec_reserve :: "int \<Rightarrow> int \<Rightarrow> int \<Rightarrow> account_state \<Rightarrow> account_state option" where
  "spec_reserve u r n A = (case as_run A r of
     None \<Rightarrow> spec_hold u r 0 n A
   | Some (v, RunHeld m) \<Rightarrow> if v \<noteq> u then None else if n \<le> m then Some A else spec_hold u r m n A
   | _ \<Rightarrow> None)"

definition spec_capture :: "int \<Rightarrow> int \<Rightarrow> int \<Rightarrow> account_state \<Rightarrow> account_state option" where
  "spec_capture u r c A = (case as_run A r of
     Some (v, RunHeld m) \<Rightarrow>
       if v = u \<and> c \<le> m
       then Some (A\<lparr>as_balance := (as_balance A)(u := as_balance A u - c),
              as_held := (as_held A)(u := as_held A u - m),
              as_run := (as_run A)(r \<mapsto> (u, RunCaptured c)),
              as_ledger := (if 0 < c then (as_ledger A)((SourceAIGenerate, r) \<mapsto> c) else as_ledger A)\<rparr>)
       else None
   | Some (v, RunCaptured d) \<Rightarrow> if v = u \<and> d = c then Some A else None
   | _ \<Rightarrow> None)"

definition spec_release :: "int \<Rightarrow> int \<Rightarrow> account_state \<Rightarrow> account_state option" where
  "spec_release u r A = (case as_run A r of
     Some (v, RunHeld m) \<Rightarrow>
       if v = u
       then Some (A\<lparr>as_held := (as_held A)(u := as_held A u - m),
              as_run := (as_run A)(r \<mapsto> (u, RunReleased))\<rparr>)
       else None
   | Some (v, RunReleased) \<Rightarrow> if v = u then Some A else None
   | _ \<Rightarrow> None)"

definition spec_credit :: "string \<Rightarrow> int \<Rightarrow> int \<Rightarrow> int \<Rightarrow> account_state \<Rightarrow> account_state option" where
  "spec_credit src u i n A = (case as_ledger A (src, i) of
     None \<Rightarrow> Some (A\<lparr>as_balance := (as_balance A)(u := as_balance A u + n),
                 as_ledger := (as_ledger A)((src, i) \<mapsto> n)\<rparr>)
   | Some m \<Rightarrow> if m = n then Some A else None)"

lemma spec_reserve_Some:
  "spec_reserve u r n A = Some B \<Longrightarrow>
     (\<exists>m. n \<le> m \<and> as_run B r = Some (u, RunHeld m)) \<and> as_balance B = as_balance A \<and> as_ledger B = as_ledger A"
  by (auto simp: spec_reserve_def spec_hold_def split: option.splits run_state.splits if_splits)

text \<open>Once a run is captured or released it stays so, and what is booked stays booked.\<close>

definition run_over :: "account_state \<Rightarrow> int \<Rightarrow> bool" where
  "run_over A r \<longleftrightarrow> (\<exists>u c. as_run A r = Some (u, RunCaptured c)) \<or> (\<exists>u. as_run A r = Some (u, RunReleased))"

definition spec_extends :: "account_state \<Rightarrow> account_state \<Rightarrow> bool" where
  "spec_extends A B \<longleftrightarrow> (\<forall>r. run_over A r \<longrightarrow> as_run B r = as_run A r) \<and>
     (\<forall>k m. as_ledger A k = Some m \<longrightarrow> as_ledger B k = Some m)"

lemma spec_extends_refl: "spec_extends A A"
  by (simp add: spec_extends_def)

lemma spec_extends_trans: "spec_extends A B \<Longrightarrow> spec_extends B C \<Longrightarrow> spec_extends A C"
  by (simp add: spec_extends_def run_over_def)

lemma spec_reserve_extends: "spec_reserve u r n A = Some B \<Longrightarrow> spec_extends A B"
  by (auto simp: spec_reserve_def spec_hold_def spec_extends_def run_over_def
      split: option.splits run_state.splits if_splits)

lemma spec_release_extends: "spec_release u r A = Some B \<Longrightarrow> spec_extends A B"
  by (auto simp: spec_release_def spec_extends_def run_over_def
      split: option.splits run_state.splits if_splits)

lemma spec_credit_extends: "spec_credit src u i n A = Some B \<Longrightarrow> spec_extends A B"
  by (auto simp: spec_credit_def spec_extends_def run_over_def split: option.splits if_splits)

lemma spec_capture_extends:
  "spec_capture u r c A = Some B \<Longrightarrow>
     ((\<exists>v m. as_run A r = Some (v, RunHeld m)) \<Longrightarrow> as_ledger A (SourceAIGenerate, r) = None) \<Longrightarrow>
     spec_extends A B"
  by (auto simp: spec_capture_def spec_extends_def run_over_def
      split: option.splits run_state.splits if_splits)

section \<open>The abstraction\<close>

definition run_state_of :: "Hold \<Rightarrow> run_state" where
  "run_state_of h =
     (if h_Status h = HoldActive then RunHeld (h_HeldUnits h)
      else if h_Status h = HoldCaptured then RunCaptured (h_CapturedUnits h) else RunReleased)"

definition run_of :: "Hold \<Rightarrow> int \<times> run_state" where
  "run_of h = (h_UserID h, run_state_of h)"

definition source_of :: "Transaction \<Rightarrow> string \<times> int" where
  "source_of t = (t_SourceType t, t_SourceID t)"

definition account_of :: "'x wallet_tables_scheme \<Rightarrow> account_state" where
  "account_of D = \<lparr>as_balance = key_sum w_UserID w_BalanceUnits (wallets D),
     as_held = key_sum w_UserID w_HeldUnits (wallets D),
     as_run = row_map h_RunID run_of (holds D),
     as_ledger = row_map source_of t_AmountUnits (transactions D)\<rparr>"

lemma account_of_wallet:
  assumes "wallet_inv D" "w \<in> set (wallets D)"
  shows "as_balance (account_of D) (w_UserID w) = w_BalanceUnits w"
    "as_held (account_of D) (w_UserID w) = w_HeldUnits w"
  using key_sum_unique [OF wallet_keysD(2) [OF assms(1)] assms(2)] by (simp_all add: account_of_def)

lemma account_of_hold:
  assumes "wallet_inv D" "h \<in> set (holds D)"
  shows "as_run (account_of D) (h_RunID h) = Some (run_of h)"
  using row_map_Some [OF wallet_keysD(4) [OF assms(1)] assms(2)] by (simp add: account_of_def)

lemma account_of_no_hold:
  "as_run (account_of D) r = None \<longleftrightarrow> find (\<lambda>h. h_RunID h = r) (holds D) = None"
  by (auto simp: account_of_def row_map_None find_None_iff)

lemma account_of_source:
  assumes "wallet_inv D" "t \<in> set (transactions D)"
  shows "as_ledger (account_of D) (source_of t) = Some (t_AmountUnits t)"
  using row_map_Some [of source_of "transactions D" t t_AmountUnits] wallet_keysD(7) [OF assms(1)] assms(2)
  by (simp add: account_of_def source_of_def [abs_def])

lemma account_of_opened:
  assumes "opened u w D D'"
  shows "account_of D' = account_of D"
proof -
  have "account_of (D\<lparr>wallets := wallets D @ [w]\<rparr>) = account_of D"
    if "w_UserID w \<notin> w_UserID ` set (wallets D)" "w_BalanceUnits w = 0" "w_HeldUnits w = 0"
    using that key_sum_none [OF that(1), of w_BalanceUnits] key_sum_none [OF that(1), of w_HeldUnits]
    by (simp add: account_of_def key_sum_append_new fun_upd_idem)
  with assms show ?thesis by (auto simp: opened_def)
qed

section \<open>The changes of rows, seen from the accounts\<close>

lemma account_of_hold_change:
  fixes g :: "Wallet \<Rightarrow> Wallet" and k :: "Hold \<Rightarrow> Hold"
  assumes inv: "wallet_inv D" and w: "w \<in> set (wallets D)" and h: "h \<in> set (holds D)"
    and active: "h_Status h = HoldActive"
    and g: "\<And>r. w_UserID (g r) = w_UserID r" and k: "\<And>r. h_RunID (k r) = h_RunID r"
  shows "account_of (D\<lparr>wallets := change_rows (live_wallet_id (w_ID w)) g (wallets D),
           holds := change_rows (active_hold_id (h_ID h)) k (holds D)\<rparr>) =
    account_of D\<lparr>as_balance := (as_balance (account_of D))(w_UserID w := w_BalanceUnits (g w)),
      as_held := (as_held (account_of D))(w_UserID w := w_HeldUnits (g w)),
      as_run := (as_run (account_of D))(h_RunID h \<mapsto> run_of (k h))\<rparr>"
proof -
  have users: "live_wallet_id (w_ID w) r \<longleftrightarrow> w_UserID r = w_UserID w" if "r \<in> set (wallets D)" for r
    using live_wallet_key [OF inv w that] distinct_key_eq [OF wallet_keysD(1) [OF inv] that w]
      distinct_key_eq [OF wallet_keysD(2) [OF inv] that w] by auto
  have runs: "active_hold_id (h_ID h) r \<longleftrightarrow> h_RunID r = h_RunID h" if "r \<in> set (holds D)" for r
    using active_hold_key [OF inv h active that] distinct_key_eq [OF wallet_keysD(3) [OF inv] that h]
      distinct_key_eq [OF wallet_keysD(4) [OF inv] that h] by auto
  show ?thesis
    using key_sum_change_key [OF wallet_keysD(2) [OF inv] w users g]
      row_map_change_key [OF wallet_keysD(4) [OF inv] h runs k]
    by (simp add: account_of_def)
qed

lemma account_of_wallet_change:
  assumes inv: "wallet_inv D" and w: "w \<in> set (wallets D)" and g: "\<And>r. w_UserID (g r) = w_UserID r"
  shows "account_of (D\<lparr>wallets := change_rows (live_wallet_id (w_ID w)) g (wallets D)\<rparr>) =
    account_of D\<lparr>as_balance := (as_balance (account_of D))(w_UserID w := w_BalanceUnits (g w)),
      as_held := (as_held (account_of D))(w_UserID w := w_HeldUnits (g w))\<rparr>"
proof -
  have users: "live_wallet_id (w_ID w) r \<longleftrightarrow> w_UserID r = w_UserID w" if "r \<in> set (wallets D)" for r
    using live_wallet_key [OF inv w that] distinct_key_eq [OF wallet_keysD(1) [OF inv] that w]
      distinct_key_eq [OF wallet_keysD(2) [OF inv] that w] by auto
  show ?thesis
    using key_sum_change_key [OF wallet_keysD(2) [OF inv] w users g] by (simp add: account_of_def)
qed

lemma account_of_new_hold:
  "h_RunID h \<notin> h_RunID ` set (holds D) \<Longrightarrow>
     account_of (D\<lparr>holds := holds D @ [h]\<rparr>) =
     account_of D\<lparr>as_run := (as_run (account_of D))(h_RunID h \<mapsto> run_of h)\<rparr>"
  by (simp add: account_of_def row_map_append_new)

lemma account_of_new_row:
  "transaction_violated t (transactions D) = None \<Longrightarrow>
     account_of (D\<lparr>transactions := transactions D @ [t]\<rparr>) =
     account_of D\<lparr>as_ledger := (as_ledger (account_of D))(source_of t \<mapsto> t_AmountUnits t)\<rparr>"
proof -
  assume "transaction_violated t (transactions D) = None"
  then have "source_of t \<notin> source_of ` set (transactions D)"
    by (auto simp: transaction_violated_def list_ex_iff source_of_def split: if_splits)
  then show ?thesis by (simp add: account_of_def row_map_append_new)
qed

end
