(* ===== verification/WalletRefine.thy ===== *)
theory WalletRefine
  imports WalletSpec
begin

text \<open>
  Each operation on the holds and credits keeps the invariant and refines its specification. The
  statements hold for every schedule of failing statements: whatever happens on the way, a call
  that returns has made the specified step; a call that fails leaves the rollback to the
  transaction around it.
\<close>

section \<open>Reserving and topping up\<close>

lemma state_okI: "wallet_inv (tables s) \<Longrightarrow> ids_below (auto_inc s) (tables s) \<Longrightarrow> wallet_state_ok s"
  by (simp add: wallet_state_ok_def)

lemma ids_below_same:
  "ids_below n D \<Longrightarrow> map w_ID (wallets D') = map w_ID (wallets D) \<Longrightarrow>
     map t_ID (transactions D') = map t_ID (transactions D) \<Longrightarrow> map h_ID (holds D') = map h_ID (holds D) \<Longrightarrow>
     ids_below n D'"
  by (erule ids_below_change [where us = "[]" and vs = "[]"]) simp_all

lemma ids_below_new_row:
  "ids_below n D \<Longrightarrow> n \<le> t_ID t \<Longrightarrow> ids_below (t_ID t + 1) (D\<lparr>transactions := transactions D @ [t]\<rparr>)"
  by (erule ids_below_change [where us = "[t_ID t]" and vs = "[]"]) simp_all

lemma grow_existing_effect:
  assumes ok: "wallet_state_ok s" and w: "w \<in> set (wallets (tables s))" and h: "h \<in> set (holds (tables s))"
    and active: "h_Status h = HoldActive" and own: "h_WalletID h = w_ID w"
    and n: "h_HeldUnits h < n" "n \<le> max_int64"
    and run: "Returns (grow_hold ev w h n) s h' t"
  shows "wallet_state_ok t \<and> h' = h\<lparr>h_HeldUnits := n\<rparr> \<and> auto_inc t = auto_inc s \<and>
    n - h_HeldUnits h \<le> w_BalanceUnits w - w_HeldUnits w \<and>
    account_of (tables t) = account_of (tables s)\<lparr>
      as_held := (as_held (account_of (tables s)))(w_UserID w := w_HeldUnits w + (n - h_HeldUnits h)),
      as_run := (as_run (account_of (tables s)))(h_RunID h \<mapsto> (h_UserID h, RunHeld n))\<rparr>"
proof -
  note inv = wallet_state_okD(1) [OF ok]
  note num = wallet_numbers [OF inv w]
  let ?m = "h_HeldUnits h" and ?d = "n - h_HeldUnits h"
  have hid: "0 < h_ID h" and m: "0 < ?m"
    using wallet_invD(3) [OF inv h] active by (auto simp: hold_ok_def)
  have d: "sub64 n ?m = ?d" "add64 ?m ?d = n" using m n by (auto simp: sub64_nonneg add64_def)
  have b: "sub64 (w_BalanceUnits w) (w_HeldUnits w) = w_BalanceUnits w - w_HeldUnits w"
    using num by (intro sub64_nonneg) auto
  from run have le: "?d \<le> w_BalanceUnits w - w_HeldUnits w"
    using hid n by (auto simp: grow_hold_def Let_def d b act_simps)
  have held: "add64 (w_HeldUnits w) ?d = w_HeldUnits w + ?d"
    using num le n by (auto simp: add64_def)
  from run obtain s1 s2 where
    s1: "Returns (update_active_hold ev (h_ID h) (h_HeldUnits_update (\<lambda>_. n))) s () s1"
    and s2: "Returns (update_wallet_row ev (w_ID w) (w_HeldUnits_update (\<lambda>_. w_HeldUnits w + ?d))) s1 () s2"
    and t: "same_tables s2 t" and h': "h' = h\<lparr>h_HeldUnits := n\<rparr>"
    using hid n le
    by (auto simp: grow_hold_def Let_def d b held act_simps dest!: assertActiveHoldTotal_effect(1))
  obtain a where D1: "tables s1 = (tables s)\<lparr>holds := change_rows (active_hold_id (h_ID h))
        (\<lambda>r. r\<lparr>h_HeldUnits := n, h_UpdatedAt := a\<rparr>) (holds (tables s))\<rparr>" and i1: "auto_inc s1 = auto_inc s"
    using update_active_hold_effect [OF s1] by auto
  obtain c where D2: "tables s2 = (tables s1)\<lparr>wallets := change_rows (live_wallet_id (w_ID w))
        (\<lambda>r. r\<lparr>w_HeldUnits := w_HeldUnits w + ?d, w_UpdatedAt := c\<rparr>) (wallets (tables s1))\<rparr>"
      and i2: "auto_inc s2 = auto_inc s1"
    using update_wallet_row_effect [OF s2] by auto
  have D: "tables t = (tables s)\<lparr>wallets := change_rows (live_wallet_id (w_ID w))
        (\<lambda>r. r\<lparr>w_HeldUnits := w_HeldUnits w + ?d, w_UpdatedAt := c\<rparr>) (wallets (tables s)),
      holds := change_rows (active_hold_id (h_ID h))
        (\<lambda>r. r\<lparr>h_HeldUnits := n, h_UpdatedAt := a\<rparr>) (holds (tables s))\<rparr>"
    and auto: "auto_inc t = auto_inc s"
    using t D1 D2 i1 i2 by (simp_all add: same_tables_def)
  have "wallet_inv (tables t)"
    unfolding D using n le by (intro inv_grow [OF inv w h active own, where d = "?d" and a = c and b = a]) simp_all
  moreover have "ids_below (auto_inc t) (tables t)"
    unfolding auto using wallet_state_okD(2) [OF ok]
    by (rule ids_below_same) (simp_all add: D map_change_rows)
  moreover have "account_of (tables t) = account_of (tables s)\<lparr>
      as_held := (as_held (account_of (tables s)))(w_UserID w := w_HeldUnits w + ?d),
      as_run := (as_run (account_of (tables s)))(h_RunID h \<mapsto> (h_UserID h, RunHeld n))\<rparr>"
    unfolding D using account_of_wallet [OF inv w] active
    by (subst account_of_hold_change [OF inv w h active])
      (simp_all add: run_of_def run_state_of_def fun_upd_idem)
  ultimately show ?thesis using h' le auto by (simp add: wallet_state_ok_def)
qed

lemma grow_new_effect:
  assumes ok: "wallet_state_ok s" and w: "w \<in> set (wallets (tables s))"
    and n: "0 < n" "n \<le> max_int64" and r: "0 < r"
    and run: "Returns (grow_hold ev w (new_hold (w_ID w) (w_UserID w) r) n) s h' t"
  shows "wallet_state_ok t \<and> h_UserID h' = w_UserID w \<and> h_RunID h' = r \<and> h_HeldUnits h' = n \<and>
    h_Status h' = HoldActive \<and> auto_inc s \<le> auto_inc t \<and> r \<notin> h_RunID ` set (holds (tables s)) \<and>
    n \<le> w_BalanceUnits w - w_HeldUnits w \<and>
    account_of (tables t) = account_of (tables s)\<lparr>
      as_held := (as_held (account_of (tables s)))(w_UserID w := w_HeldUnits w + n),
      as_run := (as_run (account_of (tables s)))(r \<mapsto> (w_UserID w, RunHeld n))\<rparr>"
proof -
  note inv = wallet_state_okD(1) [OF ok] and ids = wallet_state_okD(2) [OF ok]
  note num = wallet_numbers [OF inv w]
  have b: "sub64 (w_BalanceUnits w) (w_HeldUnits w) = w_BalanceUnits w - w_HeldUnits w"
    using num by (intro sub64_nonneg) auto
  from run have le: "n \<le> w_BalanceUnits w - w_HeldUnits w"
    using n by (auto simp: grow_hold_def new_hold_def Let_def b act_simps)
  have held: "add64 (w_HeldUnits w) n = w_HeldUnits w + n"
    using num le n by (auto simp: add64_def)
  from run obtain s1 s2 where
    s1: "Returns (create_hold ev ((new_hold (w_ID w) (w_UserID w) r)\<lparr>h_HeldUnits := n\<rparr>)) s h' s1"
    and s2: "Returns (update_wallet_row ev (w_ID w) (w_HeldUnits_update (\<lambda>_. w_HeldUnits w + n))) s1 () s2"
    and t: "same_tables s2 t"
    using n le
    by (auto simp: grow_hold_def Let_def new_hold_def b held act_simps dest!: assertActiveHoldTotal_effect(1))
  from s1 have h': "h_WalletID h' = w_ID w" "h_UserID h' = w_UserID w" "h_RunID h' = r" "h_HeldUnits h' = n"
    "h_CapturedUnits h' = 0" "h_Status h' = HoldActive" "h_ID h' = auto_inc s"
    and v: "hold_violated h' (holds (tables s)) = None"
    and D1: "tables s1 = (tables s)\<lparr>holds := holds (tables s) @ [h']\<rparr>" and i1: "auto_inc s1 = auto_inc s + 1"
    by (auto simp: create_hold_def new_hold_def act_simps)
  obtain c where D2: "tables s2 = (tables s1)\<lparr>wallets := change_rows (live_wallet_id (w_ID w))
        (\<lambda>r. r\<lparr>w_HeldUnits := w_HeldUnits w + n, w_UpdatedAt := c\<rparr>) (wallets (tables s1))\<rparr>"
      and i2: "auto_inc s2 = auto_inc s1"
    using update_wallet_row_effect [OF s2] by auto
  have D: "tables t = (tables s)\<lparr>wallets := change_rows (live_wallet_id (w_ID w))
        (\<lambda>r. r\<lparr>w_HeldUnits := w_HeldUnits w + n, w_UpdatedAt := c\<rparr>) (wallets (tables s)),
      holds := holds (tables s) @ [h']\<rparr>"
    and auto: "auto_inc t = auto_inc s + 1"
    using t D1 D2 i1 i2 by (simp_all add: same_tables_def)
  have new: "r \<notin> h_RunID ` set (holds (tables s))"
    using v h'(3) by (auto simp: hold_violated_def list_ex_iff split: if_splits)
  have "wallet_inv (tables t)"
    unfolding D using n le r h' v fresh_ids [OF ids]
    by (intro inv_new_hold [OF inv w, where d = n and run = r and a = c]) simp_all
  moreover have "ids_below (auto_inc t) (tables t)"
    unfolding auto using ids
    by (rule ids_below_change [where us = "[]" and vs = "[auto_inc s]"]) (simp_all add: D h' map_change_rows)
  moreover have "account_of (tables t) = account_of (tables s)\<lparr>
      as_held := (as_held (account_of (tables s)))(w_UserID w := w_HeldUnits w + n),
      as_run := (as_run (account_of (tables s)))(r \<mapsto> (w_UserID w, RunHeld n))\<rparr>"
  proof -
    let ?D = "(tables s)\<lparr>wallets := change_rows (live_wallet_id (w_ID w))
        (\<lambda>r. r\<lparr>w_HeldUnits := w_HeldUnits w + n, w_UpdatedAt := c\<rparr>) (wallets (tables s))\<rparr>"
    have e1: "account_of (tables t) = account_of ?D\<lparr>as_run := (as_run (account_of ?D))(r \<mapsto> (w_UserID w, RunHeld n))\<rparr>"
      using account_of_new_hold [of h' ?D] new h' by (simp add: D run_of_def run_state_of_def)
    have e2: "account_of ?D = account_of (tables s)\<lparr>
        as_held := (as_held (account_of (tables s)))(w_UserID w := w_HeldUnits w + n)\<rparr>"
      using account_of_wallet [OF inv w]
      by (subst account_of_wallet_change [OF inv w]) (simp_all add: fun_upd_idem)
    show ?thesis unfolding e1 e2 by simp
  qed
  moreover have "auto_inc s \<le> auto_inc t" using auto by simp
  ultimately show ?thesis using h' le new unfolding wallet_state_ok_def by blast
qed

lemma lockOrCreate_effect:
  assumes "wallet_state_ok s" "0 < u" "Returns (lockOrCreateWalletForUpdateUnits ev u) s w t"
  shows "wallet_state_ok t" "opened u w (tables s) (tables t)" "auto_inc s \<le> auto_inc t"
    "w \<in> set (wallets (tables t))" "w_UserID w = u"
    "account_of (tables t) = account_of (tables s)" "holds (tables t) = holds (tables s)"
    "transactions (tables t) = transactions (tables s)"
proof -
  have "wallet_state_ok t \<and> opened u w (tables s) (tables t) \<and> auto_inc s \<le> auto_inc t"
    using assms(3) by (intro lockOrCreateWalletForUpdate_effect [OF assms(1,2)])
      (simp add: lockOrCreateWalletForUpdateUnits_def act_simps)
  then show "wallet_state_ok t" and o: "opened u w (tables s) (tables t)" and "auto_inc s \<le> auto_inc t"
    by simp_all
  from o show "w \<in> set (wallets (tables t))" "w_UserID w = u" "holds (tables t) = holds (tables s)"
    "transactions (tables t) = transactions (tables s)"
    by (auto simp: opened_def)
  from account_of_opened [OF o] show "account_of (tables t) = account_of (tables s)" .
qed

text \<open>The answer of a reservation: the active hold of the run, with at least what was asked for.\<close>

lemma reserveHold_effect:
  assumes ok: "wallet_state_ok s" and n: "n \<le> max_int64"
    and run: "Returns (reserveHold configured ev tx u r n) s h t"
  shows "wallet_state_ok t \<and> spec_reserve u r n (account_of (tables s)) = Some (account_of (tables t)) \<and>
    h_UserID h = u \<and> h_RunID h = r \<and> h_Status h = HoldActive \<and> n \<le> h_HeldUnits h \<and>
    auto_inc s \<le> auto_inc t"
proof -
  from run obtain w s1 s2 s3 found where pos: "0 < u" "0 < r" "0 < n"
    and s1: "Returns (lockOrCreateWalletForUpdateUnits ev u) s w s1"
    and s2: "Returns (assertActiveHoldTotal ev (w_ID w) (w_HeldUnits w)) s1 () s2"
    and s3: "Returns (lockHoldByRun ev r) s2 found s3"
    and rest: "Returns (reserve_found ev w u r n found) s3 h t"
    by (auto simp: reserveHold_def act_simps)
  note W = lockOrCreate_effect [OF ok pos(1) s1]
  have same: "same_tables s1 s3"
    using assertActiveHoldTotal_effect(1) [OF s2] lockHoldByRun_effect(1) [OF s3] by (rule same_tables_trans)
  then have D3: "tables s3 = tables s1" "auto_inc s3 = auto_inc s1" by (simp_all add: same_tables_def)
  have ok3: "wallet_state_ok s3" and w3: "w \<in> set (wallets (tables s3))"
    and acc: "account_of (tables s3) = account_of (tables s)" and auto: "auto_inc s \<le> auto_inc s3"
    using W same_tables_ok [OF same] by (simp_all add: D3)
  have found: "found = find (\<lambda>h. h_RunID h = r) (holds (tables s3))"
    using lockHoldByRun_effect [OF s3] by (simp add: same_tables_def)
  note A = account_of_wallet [OF wallet_state_okD(1) [OF ok3] w3, unfolded W(5) acc]
  show ?thesis
  proof (cases found)
    case None
    then have none: "as_run (account_of (tables s)) r = None"
      using found account_of_no_hold [of "tables s3" r] acc by simp
    have "Returns (grow_hold ev w (new_hold (w_ID w) (w_UserID w) r) n) s3 h t"
      using rest None W(5) by (simp add: reserve_found_def)
    note new = grow_new_effect [OF ok3 w3 pos(3) n pos(2) this, unfolded W(5) acc]
    then have "spec_reserve u r n (account_of (tables s)) = Some (account_of (tables t))"
      using A none by (simp add: spec_reserve_def spec_hold_def)
    then show ?thesis using new auto by simp
  next
    case (Some h0)
    then have "find (\<lambda>h. h_RunID h = r) (holds (tables s3)) = Some h0" using found by simp
    from find_SomeD [OF this] have h0: "h0 \<in> set (holds (tables s3))" "h_RunID h0 = r" by simp_all
    from account_of_hold [OF wallet_state_okD(1) [OF ok3] h0(1)] h0(2) acc
    have runA: "as_run (account_of (tables s)) r = Some (run_of h0)" by simp
    from rest Some have own: "h_UserID h0 = u" "h_WalletID h0 = w_ID w" "h_Status h0 = HoldActive"
      and go: "if n \<le> h_HeldUnits h0 then h = h0 \<and> t = s3 else Returns (grow_hold ev w h0 n) s3 h t"
      by (auto simp: reserve_found_def act_simps)
    show ?thesis
    proof (cases "n \<le> h_HeldUnits h0")
      case True
      with own go ok3 acc runA h0 auto show ?thesis
        by (auto simp: spec_reserve_def run_of_def run_state_of_def)
    next
      case False
      with go have g: "Returns (grow_hold ev w h0 n) s3 h t" by simp
      have "h_HeldUnits h0 < n" using False by simp
      note more = grow_existing_effect [OF ok3 w3 h0(1) own(3,2) this n g, unfolded W(5) acc h0(2)]
      then have "spec_reserve u r n (account_of (tables s)) = Some (account_of (tables t))"
        using A runA own False by (simp add: spec_reserve_def spec_hold_def run_of_def run_state_of_def)
      then show ?thesis using more auto own h0(2) by simp
    qed
  qed
qed

section \<open>Releasing and capturing\<close>

lemma locked_hold_effect:
  assumes "wallet_state_ok s" and "Returns (lockWalletForUpdateUnits ev u) s w s1"
    and "Returns (assertActiveHoldTotal ev i m) s1 x s2" and "Returns (lockHoldByRun ev r) s2 (Some h) s3"
  shows "wallet_state_ok s3" "tables s3 = tables s" "auto_inc s3 = auto_inc s"
    "w \<in> set (wallets (tables s3))" "w_UserID w = u" "h \<in> set (holds (tables s3))" "h_RunID h = r"
proof -
  note l = lockWalletForUpdateUnits_effect [OF assms(2)] and a = assertActiveHoldTotal_effect [OF assms(3)]
    and f = lockHoldByRun_effect [OF assms(4)]
  from l(1) a(1) f(1) show D: "tables s3 = tables s" and "auto_inc s3 = auto_inc s"
    by (simp_all add: same_tables_def)
  then show "wallet_state_ok s3" using assms(1) by (simp add: wallet_state_ok_def)
  show "w \<in> set (wallets (tables s3))" "w_UserID w = u" using l D by simp_all
  have "find (\<lambda>h. h_RunID h = r) (holds (tables s2)) = Some h" using f(2) by simp
  from find_SomeD [OF this] show "h \<in> set (holds (tables s3))" "h_RunID h = r"
    using l(1) a(1) D by (simp_all add: same_tables_def)
qed

lemma release_active_effect:
  assumes ok: "wallet_state_ok s" and w: "w \<in> set (wallets (tables s))" and h: "h \<in> set (holds (tables s))"
    and active: "h_Status h = HoldActive" and own: "h_WalletID h = w_ID w" "h_UserID h = w_UserID w"
    and run: "Returns (release_found ev w (w_UserID w) (Some h)) s h' t"
  shows "wallet_state_ok t \<and> h' = h\<lparr>h_HeldUnits := 0, h_Status := HoldReleased\<rparr> \<and> auto_inc t = auto_inc s \<and>
    account_of (tables t) = account_of (tables s)\<lparr>
      as_held := (as_held (account_of (tables s)))(w_UserID w := w_HeldUnits w - h_HeldUnits h),
      as_run := (as_run (account_of (tables s)))(h_RunID h \<mapsto> (w_UserID w, RunReleased))\<rparr>"
proof -
  note inv = wallet_state_okD(1) [OF ok]
  note num = wallet_numbers [OF inv w]
  let ?m = "h_HeldUnits h"
  have m: "0 < ?m" "?m \<le> w_HeldUnits w"
    using wallet_invD(3) [OF inv h] active active_hold_le_held [OF inv w h own(1) active]
    by (auto simp: hold_ok_def)
  have rest: "sub64 (w_HeldUnits w) ?m = w_HeldUnits w - ?m"
    using num m by (intro sub64_nonneg) auto
  from run obtain s1 s2 where
    s1: "Returns (update_wallet_row ev (w_ID w) (w_HeldUnits_update (\<lambda>_. w_HeldUnits w - ?m))) s () s1"
    and s2: "Returns (update_active_hold ev (h_ID h) (\<lambda>h. h\<lparr>h_HeldUnits := 0, h_CapturedUnits := 0,
        h_Status := HoldReleased\<rparr>)) s1 () s2"
    and t: "same_tables s2 t" and h': "h' = h\<lparr>h_HeldUnits := 0, h_Status := HoldReleased\<rparr>"
    using active m
    by (auto simp: release_found_def Let_def rest act_simps dest!: assertActiveHoldTotal_effect(1))
  obtain a where D1: "tables s1 = (tables s)\<lparr>wallets := change_rows (live_wallet_id (w_ID w))
        (\<lambda>r. r\<lparr>w_HeldUnits := w_HeldUnits w - ?m, w_UpdatedAt := a\<rparr>) (wallets (tables s))\<rparr>"
      and i1: "auto_inc s1 = auto_inc s"
    using update_wallet_row_effect [OF s1] by auto
  obtain c where D2: "tables s2 = (tables s1)\<lparr>holds := change_rows (active_hold_id (h_ID h))
        (\<lambda>r. r\<lparr>h_HeldUnits := 0, h_CapturedUnits := 0, h_Status := HoldReleased, h_UpdatedAt := c\<rparr>)
        (holds (tables s1))\<rparr>" and i2: "auto_inc s2 = auto_inc s1"
    using update_active_hold_effect [OF s2] by auto
  have D: "tables t = (tables s)\<lparr>wallets := change_rows (live_wallet_id (w_ID w))
        (\<lambda>r. r\<lparr>w_HeldUnits := w_HeldUnits w - ?m, w_UpdatedAt := a\<rparr>) (wallets (tables s)),
      holds := change_rows (active_hold_id (h_ID h))
        (\<lambda>r. r\<lparr>h_HeldUnits := 0, h_CapturedUnits := 0, h_Status := HoldReleased, h_UpdatedAt := c\<rparr>)
        (holds (tables s))\<rparr>"
    and auto: "auto_inc t = auto_inc s"
    using t D1 D2 i1 i2 by (simp_all add: same_tables_def)
  have "wallet_inv (tables t)"
    unfolding D by (rule inv_release [OF inv w h active own(1)]) simp_all
  moreover have "ids_below (auto_inc t) (tables t)"
    unfolding auto using wallet_state_okD(2) [OF ok]
    by (rule ids_below_same) (simp_all add: D map_change_rows)
  moreover have "account_of (tables t) = account_of (tables s)\<lparr>
      as_held := (as_held (account_of (tables s)))(w_UserID w := w_HeldUnits w - ?m),
      as_run := (as_run (account_of (tables s)))(h_RunID h \<mapsto> (w_UserID w, RunReleased))\<rparr>"
    unfolding D using account_of_wallet [OF inv w] own(2)
    by (subst account_of_hold_change [OF inv w h active])
      (simp_all add: run_of_def run_state_of_def fun_upd_idem)
  ultimately show ?thesis using h' auto by (simp add: wallet_state_ok_def)
qed

lemma ReleaseHold_effect:
  assumes ok: "wallet_state_ok s" and run: "Returns (ReleaseHoldInTx configured ev tx u r) s h t"
  shows "wallet_state_ok t \<and> spec_release u r (account_of (tables s)) = Some (account_of (tables t)) \<and>
    h_UserID h = u \<and> h_RunID h = r \<and> h_Status h = HoldReleased \<and> auto_inc s \<le> auto_inc t"
proof -
  from run obtain w s1 s2 s3 found where
    s1: "Returns (lockWalletForUpdateUnits ev u) s w s1"
    and s2: "Returns (assertActiveHoldTotal ev (w_ID w) (w_HeldUnits w)) s1 () s2"
    and s3: "Returns (lockHoldByRun ev r) s2 found s3"
    and rest: "Returns (release_found ev w u found) s3 h t"
    by (auto simp: ReleaseHoldInTx_def act_simps)
  from rest obtain h0 where "found = Some h0" by (cases found) (auto simp: release_found_def act_simps)
  note s3 = s3 [unfolded this] and rest = rest [unfolded this]
  note L = locked_hold_effect [OF ok s1 s2 s3]
  note inv = wallet_state_okD(1) [OF L(1)]
  from account_of_hold [OF inv L(6)] L(2,7)
  have runA: "as_run (account_of (tables s)) r = Some (run_of h0)" by simp
  from rest have own: "h_UserID h0 = u" "h_WalletID h0 = w_ID w"
    by (auto simp: release_found_def act_simps)
  show ?thesis
  proof (cases "h_Status h0 = HoldActive")
    case True
    have "Returns (release_found ev w (w_UserID w) (Some h0)) s3 h t" using rest L(5) by simp
    note new = release_active_effect [OF L(1,4,6) True own(2) _ this, unfolded L(2,3,5,7), OF own(1)]
    then have "spec_release u r (account_of (tables s)) = Some (account_of (tables t))"
      using runA own True account_of_wallet [OF inv L(4), unfolded L(2,5)]
      by (simp add: spec_release_def run_of_def run_state_of_def)
    then show ?thesis using new own L(7) by simp
  next
    case False
    with rest have "h_Status h0 = HoldReleased" "h = h0" and same: "same_tables s3 t"
      by (auto simp: release_found_def act_simps dest!: validateReleasedHoldFact_effect)
    then show ?thesis
      using L runA own False same_tables_ok [OF same]
      by (simp add: spec_release_def run_of_def run_state_of_def same_tables_def)
  qed
qed

text \<open>The ledger row of a capture of \<open>c\<close> units: none when nothing is charged.\<close>

definition charge_row :: "int \<Rightarrow> int \<Rightarrow> Transaction option \<Rightarrow> Transaction list \<Rightarrow> bool" where
  "charge_row r c ledger ts = (case ledger of
     None \<Rightarrow> c = 0
   | Some x \<Rightarrow> 0 < c \<and> x \<in> set ts \<and> source_of x = (SourceAIGenerate, r) \<and> t_AmountUnits x = c)"

lemma capture_ledger_effect:
  assumes run: "Returns (capture_ledger ev w i summary after) s ledger t"
  shows "(0 < cap_ActualUnits i \<longrightarrow> (\<exists>x. ledger = Some x \<and> auto_inc s \<le> t_ID x \<and> auto_inc t = t_ID x + 1 \<and>
      t_WalletID x = w_ID w \<and> t_UserID x = cap_UserID i \<and> t_Direction x = DirectionOut \<and>
      t_AmountUnits x = cap_ActualUnits i \<and> t_BalanceBeforeUnits x = w_BalanceUnits w \<and>
      t_BalanceAfterUnits x = after \<and> t_IsDel x = CommonNo \<and> t_SourceType x = SourceAIGenerate \<and>
      t_SourceID x = cap_RunID i \<and> t_Remark x = summary \<and>
      transaction_violated x (transactions (tables s)) = None \<and>
      tables t = (tables s)\<lparr>transactions := transactions (tables s) @ [x]\<rparr>)) \<and>
    (\<not> 0 < cap_ActualUnits i \<longrightarrow> ledger = None \<and> same_tables s t)"
proof (cases "0 < cap_ActualUnits i")
  case True
  with run obtain no s2 x where
    no: "Returns (newTransactionNo ev (ev_now ev (clock_no s)) :: (wallet_error, _, _) act) (ticked s) no s2"
    and x: "Returns (createTransactionWithNumberRetry ev
         \<lparr>t_ID = 0, t_TransactionNo = no, t_WalletID = w_ID w, t_UserID = cap_UserID i,
           t_Direction = DirectionOut, t_AmountUnits = cap_ActualUnits i,
           t_BalanceBeforeUnits = w_BalanceUnits w, t_BalanceAfterUnits = after,
           t_SourceType = SourceAIGenerate, t_SourceID = cap_RunID i, t_Remark = summary,
           t_IsDel = CommonNo, t_CreatedAt = 0, t_UpdatedAt = 0\<rparr> (ev_now ev (clock_no s2))) (ticked s2) x t"
      (is "Returns (createTransactionWithNumberRetry ev ?row _) _ _ _")
    and ledger: "ledger = Some x"
    by (auto simp: capture_ledger_def act_simps)
  note no' = newTransactionNo_effect [OF no]
  have "added_row ?row x (ticked s2) t"
    using no'(3) by (intro createTransactionWithNumberRetry_effect [OF x]) simp
  with ledger True no'(1,2) show ?thesis
    by (simp add: added_row_def same_entry_def)
next
  case False
  with run show ?thesis by (auto simp: capture_ledger_def act_simps)
qed

lemma capture_active_effect:
  assumes ok: "wallet_state_ok s" and w: "w \<in> set (wallets (tables s))" and h: "h \<in> set (holds (tables s))"
    and active: "h_Status h = HoldActive" and own: "h_WalletID h = w_ID w" "h_UserID h = w_UserID w"
    and user: "w_UserID w = cap_UserID i" and run_id: "h_RunID h = cap_RunID i"
    and c0: "0 \<le> cap_ActualUnits i" and summary: "validateHoldSummary summary = Inr ()"
    and run: "Returns (capture_active ev w i summary h) s (w', ledger) t"
  shows "wallet_state_ok t \<and> auto_inc s \<le> auto_inc t \<and>
    charge_row (cap_RunID i) (cap_ActualUnits i) ledger (transactions (tables t)) \<and>
    cap_ActualUnits i \<le> h_HeldUnits h \<and> w_BalanceUnits w' = w_BalanceUnits w - cap_ActualUnits i \<and>
    account_of (tables t) = account_of (tables s)\<lparr>
      as_balance := (as_balance (account_of (tables s)))(cap_UserID i := w_BalanceUnits w - cap_ActualUnits i),
      as_held := (as_held (account_of (tables s)))(cap_UserID i := w_HeldUnits w - h_HeldUnits h),
      as_run := (as_run (account_of (tables s)))(cap_RunID i \<mapsto> (cap_UserID i, RunCaptured (cap_ActualUnits i))),
      as_ledger := (if 0 < cap_ActualUnits i
        then (as_ledger (account_of (tables s)))((SourceAIGenerate, cap_RunID i) \<mapsto> cap_ActualUnits i)
        else as_ledger (account_of (tables s)))\<rparr>"
proof -
  note inv = wallet_state_okD(1) [OF ok] and ids = wallet_state_okD(2) [OF ok]
  note num = wallet_numbers [OF inv w]
  let ?m = "h_HeldUnits h" and ?c = "cap_ActualUnits i"
  from run have c: "?c \<le> ?m" by (auto simp: capture_active_def act_simps)
  have m: "?m \<le> w_HeldUnits w" by (rule active_hold_le_held [OF inv w h own(1) active])
  have sums: "sub64 (w_HeldUnits w) ?m = w_HeldUnits w - ?m" "sub64 (w_BalanceUnits w) ?c = w_BalanceUnits w - ?c"
    "add64 (w_TotalConsumeUnits w) ?c = w_TotalConsumeUnits w + ?c"
    using num m c c0 wallet_invD(3) [OF inv h] active
    by (auto simp: sub64_nonneg add64_def hold_ok_def)
  from run obtain s1 s2 s3 where
    s1: "Returns (capture_ledger ev w i summary (w_BalanceUnits w - ?c)) s ledger s1"
    and s2: "Returns (update_wallet_row ev (w_ID w) (\<lambda>v. v\<lparr>w_BalanceUnits := w_BalanceUnits w - ?c,
        w_TotalConsumeUnits := w_TotalConsumeUnits w + ?c, w_HeldUnits := w_HeldUnits w - ?m\<rparr>)) s1 () s2"
    and s3: "Returns (update_active_hold ev (h_ID h) (\<lambda>h. h\<lparr>h_HeldUnits := 0, h_CapturedUnits := ?c,
        h_Status := HoldCaptured\<rparr>)) s2 () s3"
    and t: "same_tables s3 t" and w': "w_BalanceUnits w' = w_BalanceUnits w - ?c"
    by (auto simp: capture_active_def Let_def sums act_simps dest!: assertActiveHoldTotal_effect(1))
  let ?us = "case ledger of None \<Rightarrow> [] | Some x \<Rightarrow> [x]"
  note C = capture_ledger_effect [OF s1]
  have D1: "tables s1 = (tables s)\<lparr>transactions := transactions (tables s) @ ?us\<rparr>"
    using C by (cases "0 < ?c") (auto simp: same_tables_def)
  obtain a where D2: "tables s2 = (tables s1)\<lparr>wallets := change_rows (live_wallet_id (w_ID w))
        (\<lambda>v. v\<lparr>w_BalanceUnits := w_BalanceUnits w - ?c, w_TotalConsumeUnits := w_TotalConsumeUnits w + ?c,
          w_HeldUnits := w_HeldUnits w - ?m, w_UpdatedAt := a\<rparr>) (wallets (tables s1))\<rparr>"
      and i2: "auto_inc s2 = auto_inc s1"
    using update_wallet_row_effect [OF s2] by auto
  obtain b where D3: "tables s3 = (tables s2)\<lparr>holds := change_rows (active_hold_id (h_ID h))
        (\<lambda>r. r\<lparr>h_HeldUnits := 0, h_CapturedUnits := ?c, h_Status := HoldCaptured, h_UpdatedAt := b\<rparr>)
        (holds (tables s2))\<rparr>" and i3: "auto_inc s3 = auto_inc s2"
    using update_active_hold_effect [OF s3] by auto
  let ?g = "\<lambda>v. v\<lparr>w_BalanceUnits := w_BalanceUnits w - ?c, w_TotalConsumeUnits := w_TotalConsumeUnits w + ?c,
      w_HeldUnits := w_HeldUnits w - ?m, w_UpdatedAt := a\<rparr>"
    and ?k = "\<lambda>r. r\<lparr>h_HeldUnits := 0, h_CapturedUnits := ?c, h_Status := HoldCaptured, h_UpdatedAt := b\<rparr>"
  let ?E = "(tables s)\<lparr>wallets := change_rows (live_wallet_id (w_ID w)) ?g (wallets (tables s)),
      holds := change_rows (active_hold_id (h_ID h)) ?k (holds (tables s))\<rparr>"
  have D: "tables t = (tables s)\<lparr>transactions := transactions (tables s) @ ?us,
      wallets := change_rows (live_wallet_id (w_ID w)) ?g (wallets (tables s)),
      holds := change_rows (active_hold_id (h_ID h)) ?k (holds (tables s))\<rparr>"
    and auto: "auto_inc t = auto_inc s1"
    using t D1 D2 D3 i2 i3 by (simp_all add: same_tables_def)
  have le: "auto_inc s \<le> auto_inc s1" using C by (cases "0 < ?c") (auto simp: same_tables_def)
  have us: "?us = (if 0 < ?c then [the ledger] else [])" using C by (cases "0 < ?c") auto
  have row: "t_WalletID (the ledger) = w_ID w \<and> t_UserID (the ledger) = w_UserID w \<and>
      t_Direction (the ledger) = DirectionOut \<and> t_AmountUnits (the ledger) = ?c \<and>
      t_BalanceBeforeUnits (the ledger) = w_BalanceUnits w \<and>
      t_BalanceAfterUnits (the ledger) = w_BalanceUnits w - ?c \<and> t_IsDel (the ledger) = CommonNo \<and>
      0 < t_ID (the ledger) \<and> t_SourceType (the ledger) = SourceAIGenerate \<and>
      t_SourceID (the ledger) = h_RunID h \<and> validateHoldSummary (t_Remark (the ledger)) = Inr () \<and>
      transaction_violated (the ledger) (transactions (tables s)) = None \<and>
      t_ID (the ledger) \<notin> t_ID ` set (transactions (tables s))" if "0 < ?c"
    using C that user run_id summary fresh_ids(1) [OF ids]
      fresh_ids(3) [OF ids_below_mono [OF ids, of "t_ID (the ledger)"]] by auto
  have "wallet_inv (tables t)"
    unfolding D by (rule inv_capture [OF inv w h active own c0 c us row]) simp_all
  moreover have "ids_below (auto_inc t) (tables t)"
    unfolding auto using ids le
    by (rule ids_below_change [where us = "map t_ID ?us" and vs = "[]"])
      (use C in \<open>auto simp: D map_change_rows\<close>)
  moreover have "charge_row (cap_RunID i) ?c ledger (transactions (tables t))"
    using C c0 by (cases "0 < ?c") (auto simp: charge_row_def D source_of_def)
  moreover have "account_of (tables t) = account_of (tables s)\<lparr>
      as_balance := (as_balance (account_of (tables s)))(cap_UserID i := w_BalanceUnits w - ?c),
      as_held := (as_held (account_of (tables s)))(cap_UserID i := w_HeldUnits w - ?m),
      as_run := (as_run (account_of (tables s)))(cap_RunID i \<mapsto> (cap_UserID i, RunCaptured ?c)),
      as_ledger := (if 0 < ?c
        then (as_ledger (account_of (tables s)))((SourceAIGenerate, cap_RunID i) \<mapsto> ?c)
        else as_ledger (account_of (tables s)))\<rparr>"
  proof -
    have e: "account_of ?E = account_of (tables s)\<lparr>
        as_balance := (as_balance (account_of (tables s)))(cap_UserID i := w_BalanceUnits w - ?c),
        as_held := (as_held (account_of (tables s)))(cap_UserID i := w_HeldUnits w - ?m),
        as_run := (as_run (account_of (tables s)))(cap_RunID i \<mapsto> (cap_UserID i, RunCaptured ?c))\<rparr>"
      using own(2) user run_id
      by (subst account_of_hold_change [OF inv w h active]) (simp_all add: run_of_def run_state_of_def)
    have "tables t = ?E\<lparr>transactions := transactions ?E @ ?us\<rparr>" by (simp add: D)
    moreover have "account_of (?E\<lparr>transactions := transactions ?E @ [the ledger]\<rparr>) = account_of ?E\<lparr>as_ledger :=
        (as_ledger (account_of ?E))((SourceAIGenerate, cap_RunID i) \<mapsto> ?c)\<rparr>" if "0 < ?c"
      using row [OF that] run_id by (subst account_of_new_row) (simp_all add: source_of_def)
    ultimately show ?thesis unfolding us by (cases "0 < ?c") (simp_all add: e)
  qed
  ultimately show ?thesis using c w' le auto by (simp add: wallet_state_ok_def)
qed

lemma ai_rows_take:
  assumes "wallet_inv D" "take 2 (ai_rows r (transactions D)) = [x]"
  shows "x \<in> set (transactions D)" "source_of x = (SourceAIGenerate, r)"
proof -
  from assms(2) have "x \<in> set (ai_rows r (transactions D))" by (metis in_set_takeD list.set_intros(1))
  then show "x \<in> set (transactions D)" "source_of x = (SourceAIGenerate, r)"
    by (auto simp: ai_rows_def source_of_def)
qed

lemma CaptureHold_effect:
  assumes ok: "wallet_state_ok s" and run: "Returns (CaptureHoldInTx configured ev tx i) s (w', ledger) t"
  shows "wallet_state_ok t \<and>
    spec_capture (cap_UserID i) (cap_RunID i) (cap_ActualUnits i) (account_of (tables s)) =
      Some (account_of (tables t)) \<and>
    charge_row (cap_RunID i) (cap_ActualUnits i) ledger (transactions (tables t)) \<and>
    w_BalanceUnits w' = as_balance (account_of (tables t)) (cap_UserID i) \<and> auto_inc s \<le> auto_inc t"
proof -
  let ?c = "cap_ActualUnits i"
  from run obtain w s1 s2 s3 found where c0: "0 \<le> ?c"
    and s1: "Returns (lockWalletForUpdateUnits ev (cap_UserID i)) s w s1"
    and s2: "Returns (assertActiveHoldTotal ev (w_ID w) (w_HeldUnits w)) s1 () s2"
    and s3: "Returns (lockHoldByRun ev (cap_RunID i)) s2 found s3"
    and rest: "Returns (capture_found ev w i (trim_space (cap_SourceSummary i)) found) s3 (w', ledger) t"
    by (auto simp: CaptureHoldInTx_def Let_def act_simps)
  from rest obtain h where "found = Some h" by (cases found) (auto simp: capture_found_def act_simps)
  note s3 = s3 [unfolded this] and rest = rest [unfolded this]
  note L = locked_hold_effect [OF ok s1 s2 s3]
  note inv = wallet_state_okD(1) [OF L(1)]
  from account_of_hold [OF inv L(6)] L(2,7)
  have runA: "as_run (account_of (tables s)) (cap_RunID i) = Some (run_of h)" by simp
  from rest have own: "h_UserID h = cap_UserID i" "h_WalletID h = w_ID w"
    by (auto simp: capture_found_def act_simps)
  note A = account_of_wallet [OF inv L(4), unfolded L(2,5)]
  show ?thesis
  proof (cases "h_Status h = HoldActive")
    case True
    then have summary: "validateHoldSummary (trim_space (cap_SourceSummary i)) = Inr ()"
      and go: "Returns (capture_active ev w i (trim_space (cap_SourceSummary i)) h) s3 (w', ledger) t"
      using rest by (auto simp: capture_found_def act_simps)
    have "h_UserID h = w_UserID w" using own L(5) by simp
    note new = capture_active_effect [OF L(1,4,6) True own(2) this L(5,7) c0 summary go, unfolded L(2,3)]
    then have "spec_capture (cap_UserID i) (cap_RunID i) ?c (account_of (tables s)) = Some (account_of (tables t))"
      using runA own True A by (simp add: spec_capture_def run_of_def run_state_of_def)
    moreover have "w_BalanceUnits w' = as_balance (account_of (tables t)) (cap_UserID i)" using new by simp
    ultimately show ?thesis using new by simp
  next
    case False
    with rest have st: "h_Status h = HoldCaptured" "?c = h_CapturedUnits h" "w' = w"
      and v: "Returns (validateCapturedHoldFact ev h w (cap_UserID i)) s3 ledger t"
      by (auto simp: capture_found_def act_simps)
    note V = validateCapturedHoldFact_effect [OF v]
    have D: "tables t = tables s" "auto_inc t = auto_inc s" "wallet_state_ok t"
      using V(1) L(1,2,3) same_tables_ok [OF V(1)] by (simp_all add: same_tables_def)
    have "charge_row (cap_RunID i) ?c ledger (transactions (tables t))"
    proof (cases ledger)
      case (Some x)
      with V(4) have x: "0 < h_CapturedUnits h"
        "take 2 (ai_rows (cap_RunID i) (transactions (tables s3))) = [x]" using L(7) by simp_all
      have "x \<in> set (ai_rows (h_RunID h) (transactions (tables s3)))"
        using ai_rows_take [OF inv x(2)] L(7) by (simp add: ai_rows_def source_of_def)
      with wallet_invD(3) [OF inv L(6)] have "t_AmountUnits x = h_CapturedUnits h"
        by (auto simp: hold_ok_def split: if_splits dest: arg_cong [where f = set])
      with ai_rows_take [OF inv x(2)] x st D L(2) Some show ?thesis by (simp add: charge_row_def)
    qed (use V(4) st in \<open>simp add: charge_row_def\<close>)
    then show ?thesis
      using runA own st A D by (simp add: spec_capture_def run_of_def run_state_of_def)
  qed
qed

section \<open>Crediting\<close>

text \<open>A ledger row for money that comes in, and the wallet after it: recharges and redeem codes alike.\<close>

lemma credit_rows_effect:
  assumes ok: "wallet_state_ok s" and w: "w \<in> set (wallets (tables s))"
    and a: "0 < a" "w_TotalRechargeUnits w + a \<le> max_int64"
    and row: "t_WalletID row = w_ID w" "t_UserID row = w_UserID w" "t_Direction row = DirectionIn"
      "t_AmountUnits row = a" "t_BalanceBeforeUnits row = w_BalanceUnits w"
      "t_BalanceAfterUnits row = w_BalanceUnits w + a" "t_IsDel row = CommonNo"
      "t_SourceType row = SourceRecharge \<or> t_SourceType row = SourceRedeemCode"
    and added: "added_row row r s s1"
    and D2: "tables t = (tables s1)\<lparr>wallets := change_rows (live_wallet_id (w_ID w))
      (\<lambda>v. v\<lparr>w_BalanceUnits := w_BalanceUnits w + a, w_TotalRechargeUnits := w_TotalRechargeUnits w + a,
         w_UpdatedAt := c\<rparr>) (wallets (tables s1))\<rparr>" and i2: "auto_inc t = auto_inc s1"
  shows "wallet_state_ok t \<and> auto_inc s \<le> auto_inc t \<and> r \<in> set (transactions (tables t)) \<and>
    as_ledger (account_of (tables s)) (t_SourceType row, t_SourceID row) = None \<and>
    account_of (tables t) = account_of (tables s)\<lparr>
      as_balance := (as_balance (account_of (tables s)))(w_UserID w := w_BalanceUnits w + a),
      as_ledger := (as_ledger (account_of (tables s)))((t_SourceType row, t_SourceID row) \<mapsto> a)\<rparr> \<and>
    transactions (tables t) = transactions (tables s) @ [r] \<and> same_entry row r"
proof -
  note inv = wallet_state_okD(1) [OF ok] and ids = wallet_state_okD(2) [OF ok]
  let ?g = "\<lambda>v. v\<lparr>w_BalanceUnits := w_BalanceUnits w + a,
      w_TotalRechargeUnits := w_TotalRechargeUnits w + a, w_UpdatedAt := c\<rparr>"
  let ?E = "(tables s)\<lparr>wallets := change_rows (live_wallet_id (w_ID w)) ?g (wallets (tables s))\<rparr>"
  from added have D1: "tables s1 = (tables s)\<lparr>transactions := transactions (tables s) @ [r]\<rparr>"
    and v: "transaction_violated r (transactions (tables s)) = None"
    and r: "auto_inc s \<le> t_ID r" "auto_inc s1 = t_ID r + 1" "trim_space (t_TransactionNo r) \<noteq> []"
    and same: "same_entry row r" by (simp_all add: added_row_def)
  have D: "tables t = (tables s)\<lparr>transactions := transactions (tables s) @ [r],
      wallets := change_rows (live_wallet_id (w_ID w)) ?g (wallets (tables s))\<rparr>"
    using D1 D2 by simp
  have "t_ID r \<notin> t_ID ` set (transactions (tables s))" "0 < t_ID r"
    using fresh_ids(1) [OF ids] fresh_ids(3) [OF ids_below_mono [OF ids r(1)]] r(1) by simp_all
  with row a v r(3) same have "wallet_inv (tables t)"
    unfolding D by (intro inv_credit [OF inv w, where a = a]) (simp_all add: same_entry_def)
  moreover have "ids_below (auto_inc t) (tables t)"
    unfolding i2 using ids r(1,2)
    by (intro ids_below_change [OF ids, where us = "[t_ID r]" and vs = "[]"]) (simp_all add: D map_change_rows)
  moreover have "source_of r = (t_SourceType row, t_SourceID row)"
    using same by (simp add: same_entry_def source_of_def)
  moreover have "as_ledger (account_of (tables s)) (source_of r) = None"
    using v by (auto simp: account_of_def row_map_None transaction_violated_def list_ex_iff source_of_def
        split: if_splits)
  moreover have "account_of (tables t) = account_of (tables s)\<lparr>
      as_balance := (as_balance (account_of (tables s)))(w_UserID w := w_BalanceUnits w + a),
      as_ledger := (as_ledger (account_of (tables s)))(source_of r \<mapsto> a)\<rparr>"
  proof -
    have "account_of ?E = account_of (tables s)\<lparr>
        as_balance := (as_balance (account_of (tables s)))(w_UserID w := w_BalanceUnits w + a)\<rparr>"
      using account_of_wallet [OF inv w]
      by (subst account_of_wallet_change [OF inv w]) (simp_all add: fun_upd_idem)
    moreover have "account_of (?E\<lparr>transactions := transactions ?E @ [r]\<rparr>) = account_of ?E\<lparr>as_ledger :=
        (as_ledger (account_of ?E))(source_of r \<mapsto> a)\<rparr>"
      using v same row(4) by (subst account_of_new_row) (simp_all add: same_entry_def)
    moreover have "tables t = ?E\<lparr>transactions := transactions ?E @ [r]\<rparr>" by (simp add: D)
    ultimately show ?thesis by simp
  qed
  ultimately show ?thesis using r(1,2) i2 same by (simp add: wallet_state_ok_def D)
qed

lemma findRechargeCredit_effect:
  assumes "Returns (findRechargeCreditTransactionForUpdate ev i) s found t" and "wallet_inv (tables s)"
  shows "same_tables s t"
    "found = Some x \<Longrightarrow> x \<in> set (transactions (tables s)) \<and> source_of x = (SourceRecharge, i)"
    "found = None \<longleftrightarrow> as_ledger (account_of (tables s)) (SourceRecharge, i) = None"
proof -
  let ?P = "\<lambda>t. t_SourceType t = SourceRecharge \<and> t_SourceID t = i"
  from assms(1) have same: "same_tables s t"
    and rows: "(\<exists>x. take 2 (filter ?P (transactions (tables s))) = [x] \<and> found = Some x) \<or>
      take 2 (filter ?P (transactions (tables s))) = [] \<and> found = None"
    by (auto simp: findRechargeCreditTransactionForUpdate_def act_simps split: list.splits)
  show "same_tables s t" by (rule same)
  show "x \<in> set (transactions (tables s)) \<and> source_of x = (SourceRecharge, i)" if "found = Some x"
  proof -
    from rows that have "x \<in> set (filter ?P (transactions (tables s)))"
      by (metis in_set_takeD list.set_intros(1) option.distinct(1) option.inject)
    then show ?thesis by (simp add: source_of_def)
  qed
  have "found = None \<longleftrightarrow> filter ?P (transactions (tables s)) = []" using rows by auto
  also have "\<dots> \<longleftrightarrow> as_ledger (account_of (tables s)) (SourceRecharge, i) = None"
    by (auto simp: account_of_def row_map_None filter_empty_conv source_of_def image_iff)
  finally show "found = None \<longleftrightarrow> as_ledger (account_of (tables s)) (SourceRecharge, i) = None" .
qed

text \<open>
  The answer of a credit: the ledger row of the recharge, created by this call or by an earlier
  one with the same facts.
\<close>

definition recharge_fact :: "CreditRechargeInput \<Rightarrow> RechargeCreditFact \<Rightarrow> 'x wallet_tables_scheme \<Rightarrow> bool" where
  "recharge_fact i f D \<longleftrightarrow> (case (rf_Wallet f, rf_Transaction f) of
     (Some w, Some x) \<Rightarrow> x \<in> set (transactions D) \<and> source_of x = (SourceRecharge, cr_RechargeID i) \<and>
       t_AmountUnits x = cr_AmountUnits i \<and> t_UserID x = cr_UserID i \<and> w_UserID w = cr_UserID i \<and>
       w_BalanceUnits w = as_balance (account_of D) (cr_UserID i) \<and>
       trim_space (t_TransactionNo x) \<noteq> [] \<and> 0 < w_ID w \<and> t_WalletID x = w_ID w \<and>
       t_BalanceAfterUnits x = t_BalanceBeforeUnits x + t_AmountUnits x
   | _ \<Rightarrow> False)"

lemma replayed_credit_fact:
  assumes inv: "wallet_inv D" and w: "w \<in> set (wallets D)" "w_UserID w = cr_UserID i"
    and x: "x \<in> set (transactions D)" "source_of x = (SourceRecharge, cr_RechargeID i)"
    and v: "validateRechargeCreditFact w x i = Inr ()"
  shows "recharge_fact i (replayed_credit w x) D"
    "as_ledger (account_of D) (SourceRecharge, cr_RechargeID i) = Some (cr_AmountUnits i)"
proof -
  have "transaction_ok (wallets D) (holds D) x" by (rule wallet_invD(4) [OF inv x(1)])
  with x v wallet_numbers [OF inv w(1)] account_of_wallet [OF inv w(1)] w(2)
  show "recharge_fact i (replayed_credit w x) D"
    by (auto simp: recharge_fact_def replayed_credit_def validateRechargeCreditFact_def transaction_ok_def
        source_of_def split: if_splits)
  show "as_ledger (account_of D) (SourceRecharge, cr_RechargeID i) = Some (cr_AmountUnits i)"
    using account_of_source [OF inv x(1)] x(2) v
    by (auto simp: validateRechargeCreditFact_def split: if_splits)
qed

lemma credit_new_recharge_effect:
  assumes ok: "wallet_state_ok s" and w: "w \<in> set (wallets (tables s))" and user: "w_UserID w = cr_UserID i"
    and a: "0 < cr_AmountUnits i" and le: "cr_AmountUnits i \<le> max_int64"
    and run: "Returns (credit_new_recharge ev w i) s f t"
  shows "wallet_state_ok t \<and> auto_inc s \<le> auto_inc t \<and> recharge_fact i f (tables t) \<and>
    rf_Disposition f = RechargeCreditCreated \<and>
    as_ledger (account_of (tables s)) (SourceRecharge, cr_RechargeID i) = None \<and>
    account_of (tables t) = account_of (tables s)\<lparr>
      as_balance := (as_balance (account_of (tables s)))(cr_UserID i := w_BalanceUnits w + cr_AmountUnits i),
      as_ledger := (as_ledger (account_of (tables s)))((SourceRecharge, cr_RechargeID i) \<mapsto> cr_AmountUnits i)\<rparr>"
proof -
  note inv = wallet_state_okD(1) [OF ok]
  note num = wallet_numbers [OF inv w]
  let ?a = "cr_AmountUnits i"
  from run have fits: "w_BalanceUnits w + ?a \<le> max_int64" "w_TotalRechargeUnits w + ?a \<le> max_int64"
    using a le by (auto simp: credit_new_recharge_def act_simps)
  have sums: "add64 (w_BalanceUnits w) ?a = w_BalanceUnits w + ?a"
    "add64 (w_TotalRechargeUnits w) ?a = w_TotalRechargeUnits w + ?a"
    using num a fits by (auto simp: add64_def)
  from run obtain no s2 x s3 s4 where
    no: "Returns (newTransactionNo ev (ev_now ev (clock_no s)) :: (wallet_error, _, _) act) (ticked s) no s2"
    and x: "Returns (createTransactionWithNumberRetry ev
       \<lparr>t_ID = 0, t_TransactionNo = no, t_WalletID = w_ID w, t_UserID = cr_UserID i,
        t_Direction = DirectionIn, t_AmountUnits = ?a, t_BalanceBeforeUnits = w_BalanceUnits w,
        t_BalanceAfterUnits = w_BalanceUnits w + ?a, t_SourceType = SourceRecharge,
        t_SourceID = cr_RechargeID i, t_Remark = trim_space (cr_Remark i), t_IsDel = CommonNo,
        t_CreatedAt = 0, t_UpdatedAt = 0\<rparr> (ev_now ev (clock_no s2))) (ticked s2) x s3"
      (is "Returns (createTransactionWithNumberRetry ev ?row _) _ _ _")
    and s4: "Returns (update_wallet_row ev (w_ID w) (\<lambda>v. v\<lparr>w_BalanceUnits := w_BalanceUnits w + ?a,
        w_TotalRechargeUnits := w_TotalRechargeUnits w + ?a\<rparr>)) s3 () s4"
    and t: "t = s4"
    and f: "f = \<lparr>rf_Wallet = Some (w\<lparr>w_BalanceUnits := w_BalanceUnits w + ?a,
        w_TotalRechargeUnits := w_TotalRechargeUnits w + ?a\<rparr>), rf_Transaction = Some x,
        rf_Disposition = RechargeCreditCreated\<rparr>"
    by (auto simp: credit_new_recharge_def Let_def sums act_simps)
  note no' = newTransactionNo_effect [OF no]
  have added: "added_row ?row x (ticked s2) s3"
    using no'(3) by (intro createTransactionWithNumberRetry_effect [OF x]) simp
  then have added: "added_row ?row x s s3"
    using no'(1,2) by (simp add: added_row_def)
  obtain c where D2: "tables t = (tables s3)\<lparr>wallets := change_rows (live_wallet_id (w_ID w))
      (\<lambda>v. v\<lparr>w_BalanceUnits := w_BalanceUnits w + ?a, w_TotalRechargeUnits := w_TotalRechargeUnits w + ?a,
         w_UpdatedAt := c\<rparr>) (wallets (tables s3))\<rparr>" and i2: "auto_inc t = auto_inc s3"
    using update_wallet_row_effect [OF s4] t by auto
  note C = credit_rows_effect [OF ok w a fits(2) _ _ _ _ _ _ _ _ added D2 i2, simplified user, simplified]
  have "recharge_fact i f (tables t)"
    using C added num(1) user
    by (auto simp: recharge_fact_def f added_row_def same_entry_def source_of_def)
  with C show ?thesis by (simp add: f)
qed

lemma CreditRecharge_effect:
  assumes ok: "wallet_state_ok s" and le: "cr_AmountUnits i \<le> max_int64"
    and run: "Returns (CreditRechargeInTx configured ev tx i) s f t"
  shows "wallet_state_ok t \<and> auto_inc s \<le> auto_inc t \<and> recharge_fact i f (tables t) \<and>
    spec_credit SourceRecharge (cr_UserID i) (cr_RechargeID i) (cr_AmountUnits i) (account_of (tables s)) =
      Some (account_of (tables t)) \<and>
    (rf_Disposition f = RechargeCreditReplayed \<longleftrightarrow>
       as_ledger (account_of (tables s)) (SourceRecharge, cr_RechargeID i) \<noteq> None)"
proof -
  from run obtain w s1 found s2 where pos: "0 < cr_UserID i" "0 < cr_AmountUnits i"
    and s1: "Returns (lockOrCreateWalletForUpdateUnits ev (cr_UserID i)) s w s1"
    and s2: "Returns (findRechargeCreditTransactionForUpdate ev (cr_RechargeID i)) s1 found s2"
    and rest: "if found \<noteq> None
      then validateRechargeCreditFact w (the found) i = Inr () \<and> f = replayed_credit w (the found) \<and> t = s2
      else Returns (credit_new_recharge ev w i) s2 f t"
    by (auto simp: CreditRechargeInTx_def act_simps)
  note W = lockOrCreate_effect [OF ok pos(1) s1]
  note F = findRechargeCredit_effect [OF s2 wallet_state_okD(1) [OF W(1)]]
  have D: "tables s2 = tables s1" "auto_inc s2 = auto_inc s1" and ok2: "wallet_state_ok s2"
    using F(1) W(1) same_tables_ok [OF F(1)] by (simp_all add: same_tables_def)
  have w2: "w \<in> set (wallets (tables s2))" and acc: "account_of (tables s2) = account_of (tables s)"
    and auto: "auto_inc s \<le> auto_inc s2" using W D by simp_all
  show ?thesis
  proof (cases found)
    case None
    with rest have "Returns (credit_new_recharge ev w i) s2 f t" by simp
    note C = credit_new_recharge_effect [OF ok2 w2 W(5) pos(2) le this, unfolded acc]
    have "w_BalanceUnits w = as_balance (account_of (tables s)) (cr_UserID i)"
      using account_of_wallet [OF wallet_state_okD(1) [OF ok2] w2] W(5) acc by simp
    with C auto show ?thesis by (simp add: spec_credit_def)
  next
    case (Some x)
    with rest have v: "validateRechargeCreditFact w x i = Inr ()" and f: "f = replayed_credit w x" and "t = s2"
      by simp_all
    note R = replayed_credit_fact [OF wallet_state_okD(1) [OF ok2] w2 W(5) _ _ v]
    have "x \<in> set (transactions (tables s2))" "source_of x = (SourceRecharge, cr_RechargeID i)"
      using F(2) [OF Some] D by simp_all
    note R = R [OF this, unfolded acc]
    with ok2 auto acc f \<open>t = s2\<close> show ?thesis
      by (simp add: spec_credit_def replayed_credit_def)
  qed
qed

lemma FindRecharge_effect:
  assumes ok: "wallet_state_ok s" and run: "Returns (FindRechargeCreditInTx configured ev tx i) s f t"
  shows "same_tables s t" "recharge_fact i f (tables s)"
    "as_ledger (account_of (tables s)) (SourceRecharge, cr_RechargeID i) = Some (cr_AmountUnits i)"
    "rf_Disposition f = RechargeCreditReplayed"
proof -
  from run obtain w s1 x s2 where
    s1: "Returns (lockWalletForUpdateUnits ev (cr_UserID i)) s w s1"
    and s2: "Returns (findRechargeCreditTransactionForUpdate ev (cr_RechargeID i)) s1 (Some x) s2"
    and v: "validateRechargeCreditFact w x i = Inr ()" and f: "f = replayed_credit w x" and t: "t = s2"
    by (auto simp: FindRechargeCreditInTx_def act_simps split: if_splits)
  note L = lockWalletForUpdateUnits_effect [OF s1]
  have D: "tables s1 = tables s" using L(1) by (simp add: same_tables_def)
  note inv = wallet_state_okD(1) [OF ok]
  note F = findRechargeCredit_effect [OF s2 inv [folded D]]
  show "same_tables s t" using L(1) F(1) t same_tables_trans by blast
  from F(2) [OF refl] D have x: "x \<in> set (transactions (tables s))" "source_of x = (SourceRecharge, cr_RechargeID i)"
    by simp_all
  from replayed_credit_fact [OF inv L(2,3) x v] f
  show "recharge_fact i f (tables s)"
    "as_ledger (account_of (tables s)) (SourceRecharge, cr_RechargeID i) = Some (cr_AmountUnits i)"
    "rf_Disposition f = RechargeCreditReplayed"
    by (simp_all add: replayed_credit_def)
qed

section \<open>Redeem codes\<close>

lemma findRedeemCodeSourceFact_effect:
  assumes "Returns (findRedeemCodeSourceFact ev i) s found t"
  shows "same_tables s t"
    "found = Some x \<Longrightarrow> x \<in> set (transactions (tables s)) \<and> source_of x = (SourceRedeemCode, i)"
    "found = None \<longleftrightarrow> as_ledger (account_of (tables s)) (SourceRedeemCode, i) = None"
proof -
  let ?P = "\<lambda>t. t_SourceType t = SourceRedeemCode \<and> t_SourceID t = i"
  from assms have same: "same_tables s t"
    and rows: "(filter ?P (transactions (tables s)) \<noteq> [] \<and> found = Some (hd (take 2 (filter ?P (transactions (tables s)))))) \<or>
      filter ?P (transactions (tables s)) = [] \<and> found = None"
    by (auto simp: findRedeemCodeSourceFact_def act_simps)
  show "same_tables s t" by (rule same)
  show "x \<in> set (transactions (tables s)) \<and> source_of x = (SourceRedeemCode, i)" if "found = Some x"
  proof -
    have "x = hd (filter ?P (transactions (tables s)))" "filter ?P (transactions (tables s)) \<noteq> []"
      using rows that by (auto simp: hd_take)
    then have "x \<in> set (filter ?P (transactions (tables s)))" by (metis hd_in_set)
    then show ?thesis by (simp add: source_of_def)
  qed
  have "found = None \<longleftrightarrow> filter ?P (transactions (tables s)) = []" using rows by auto
  also have "\<dots> \<longleftrightarrow> as_ledger (account_of (tables s)) (SourceRedeemCode, i) = None"
    by (auto simp: account_of_def row_map_None filter_empty_conv source_of_def image_iff)
  finally show "found = None \<longleftrightarrow> as_ledger (account_of (tables s)) (SourceRedeemCode, i) = None" .
qed

lemma findRedeemCodeWallet_effect:
  assumes "Returns (findRedeemCodeWalletByUserIDForUpdate ev u) s w t"
  shows "same_tables s t" "w \<in> set (wallets (tables s))" "w_UserID w = u"
proof -
  from assms have "same_tables s t" and f: "filter (\<lambda>w. w_UserID w = u) (wallets (tables s)) \<noteq> []"
    and w: "w = hd (take 2 (filter (\<lambda>w. w_UserID w = u) (wallets (tables s))))"
    by (auto simp: findRedeemCodeWalletByUserIDForUpdate_def act_simps)
  then show "same_tables s t" by simp
  have "w = hd (filter (\<lambda>w. w_UserID w = u) (wallets (tables s)))" using w by (simp add: hd_take)
  with f have "w \<in> set (filter (\<lambda>w. w_UserID w = u) (wallets (tables s)))" by (metis hd_in_set)
  then show "w \<in> set (wallets (tables s))" "w_UserID w = u" by simp_all
qed

lemma findRedeemCodeWallet_missing:
  assumes "Fails (findRedeemCodeWalletByUserIDForUpdate ev u) s e t"
  shows "same_tables s t" "e = WalletDb RecordNotFound \<Longrightarrow> u \<notin> w_UserID ` set (wallets (tables s))"
  using assms
  by (auto simp: findRedeemCodeWalletByUserIDForUpdate_def act_simps filter_empty_conv split: if_splits)

lemma lockOrCreateRedeemCode_effect:
  assumes ok: "wallet_state_ok s" and u: "0 < u"
    and run: "Returns (lockOrCreateRedeemCodeWalletForUpdate ev u) s w t"
  shows "wallet_state_ok t \<and> opened u w (tables s) (tables t) \<and> auto_inc s \<le> auto_inc t"
  using run unfolding lockOrCreateRedeemCodeWalletForUpdate_def
proof (cases rule: Returns_eitherE)
  case (ok w' s')
  note F = findRedeemCodeWallet_effect [OF ok(1)]
  from ok(2) F show ?thesis
    using same_tables_ok [OF F(1)] \<open>wallet_state_ok s\<close> by (auto simp: act_simps opened_def same_tables_def)
next
  case (error e s')
  note M = findRedeemCodeWallet_missing [OF error(1)]
  from error(2) have e: "e = WalletDb RecordNotFound"
    and go: "Returns (either (create_wallet ev (new_wallet u))
      (\<lambda>err. if isDuplicateKeyFor err duplicateKeyUserWalletUser
        then catch (findRedeemCodeWalletByUserIDForUpdate ev u) (\<lambda>lookupErr.
               if lookupErr = WalletDb RecordNotFound then throw ErrRedeemCodeWalletIntegrity
               else throw lookupErr)
        else throw (WalletDb err))
      (\<lambda>wallet. either (first ev wallets (\<lambda>w. w_ID w = w_ID wallet))
        (\<lambda>err. if err = RecordNotFound then throw ErrRedeemCodeWalletIntegrity
          else throw (WalletDb err))
        (\<lambda>locked. if \<not> validRedeemCodeWalletFact locked u \<or> w_ID locked \<noteq> w_ID wallet \<or>
            w_IsDel locked \<noteq> CommonNo
          then throw ErrRedeemCodeWalletIntegrity else ret locked))) s' w t"
    by (auto simp: Returns_throw split: if_splits)
  from go show ?thesis
  proof (cases rule: Returns_eitherE)
    case (error f r)
    then have "Returns (findRedeemCodeWalletByUserIDForUpdate ev u) r w t"
      by (auto simp: act_simps)
    with findRedeemCodeWallet_effect(2,3) [OF this] failed_inserts(1) [OF error(1)] M e show ?thesis
      by (auto simp: same_tables_def)
  next
    case (ok v r)
    have "wallet_state_ok s'" using assms(1) same_tables_ok [OF M(1)] by simp
    note new = created_wallet_opened [OF this u ok(1)]
    have "t = sent r" and "w = v" using ok(2) new(5) by (auto simp: act_simps)
    then show ?thesis
      using new M(1) same_tables_ok [of r t] by (simp add: same_tables_def)
  qed
qed

text \<open>Every identity the constructor builds has numbers that are not blank.\<close>

definition identity_numbered :: "RedeemCodeCreditIdentity option \<Rightarrow> bool" where
  "identity_numbered idn = (case idn of None \<Rightarrow> True
   | Some x \<Rightarrow> ci_transactionNos x \<noteq> [] \<and> list_all (\<lambda>no. trim_space no \<noteq> []) (ci_transactionNos x))"

lemma serial_numbers_effect:
  assumes "Returns (serial_numbers ev now n :: ('e, 'd world, string list) act) s nos t"
  shows "same_tables s t \<and> list_all (\<lambda>no. trim_space no \<noteq> []) nos \<and> length nos = n"
  using assms
proof (induction n arbitrary: s nos)
  case (Suc n)
  from Suc.prems obtain no s1 nos' where
    no: "Returns (newTransactionNo ev now :: ('e, 'd world, string) act) s no s1"
    and rest: "Returns (serial_numbers ev now n :: ('e, 'd world, string list) act) s1 nos' t"
    and nos: "nos = no # nos'"
    by (auto simp: act_simps)
  from Suc.IH [OF rest] newTransactionNo_effect [OF no] nos show ?case by (simp add: same_tables_def)
qed (auto simp: act_simps)

lemma NewRedeemCodeCreditIdentity_effect:
  assumes "Returns (NewRedeemCodeCreditIdentity ev i now :: ('e, 'd world, _) act) s idn t"
  shows "same_tables s t" "identity_numbered (Some idn)"
    "ci_binding idn = input_binding (normalizeRedeemCodeCreditInput i)" "ci_self idn"
proof -
  from assms obtain nos where
    "Returns (serial_numbers ev now maxTransactionNoInsertAttempts :: ('e, 'd world, string list) act) s nos t"
    and idn: "idn = \<lparr>ci_binding = input_binding (normalizeRedeemCodeCreditInput i), ci_transactionNos = nos, ci_self = True\<rparr>"
    by (auto simp: NewRedeemCodeCreditIdentity_def act_simps)
  from serial_numbers_effect [OF this(1)] idn
  show "same_tables s t" "identity_numbered (Some idn)"
    "ci_binding idn = input_binding (normalizeRedeemCodeCreditInput i)" "ci_self idn"
    by (auto simp: identity_numbered_def maxTransactionNoInsertAttempts_def)
qed

lemma redeem_credit_effect:
  assumes ok: "wallet_state_ok s" and w: "w \<in> set (wallets (tables s))" and user: "w_UserID w = rc_UserID i"
    and a: "0 < rc_AmountUnits i" "rc_AmountUnits i \<le> max_int64"
    and idn: "identity_numbered (Some idn)"
    and run: "Returns (redeem_credit ev w i (Some idn)) s (w', x) t"
  shows "wallet_state_ok t \<and> auto_inc s \<le> auto_inc t \<and>
    x \<in> set (transactions (tables t)) \<and> source_of x = (SourceRedeemCode, rc_CodeID i) \<and>
    t_AmountUnits x = rc_AmountUnits i \<and>
    w_BalanceUnits w' = w_BalanceUnits w + rc_AmountUnits i \<and>
    as_ledger (account_of (tables s)) (SourceRedeemCode, rc_CodeID i) = None \<and>
    account_of (tables t) = account_of (tables s)\<lparr>
      as_balance := (as_balance (account_of (tables s)))(rc_UserID i := w_BalanceUnits w + rc_AmountUnits i),
      as_ledger := (as_ledger (account_of (tables s)))((SourceRedeemCode, rc_CodeID i) \<mapsto> rc_AmountUnits i)\<rparr> \<and>
    transactions (tables t) = transactions (tables s) @ [x] \<and> t_UserID x = rc_UserID i"
proof -
  note inv = wallet_state_okD(1) [OF ok]
  note num = wallet_numbers [OF inv w]
  let ?a = "rc_AmountUnits i"
  from run have fits: "w_BalanceUnits w + ?a \<le> max_int64" "w_TotalRechargeUnits w + ?a \<le> max_int64"
    using a by (auto simp: redeem_credit_def act_simps)
  have sums: "add64 (w_BalanceUnits w) ?a = w_BalanceUnits w + ?a"
    "add64 (w_TotalRechargeUnits w) ?a = w_TotalRechargeUnits w + ?a"
    using num a fits by (auto simp: add64_def)
  let ?row = "redeem_ledger_row w i (identity_TransactionNo (Some idn)) (w_BalanceUnits w + ?a)"
  from run obtain s1 where
    x: "Returns (identity_attempts ev ?row (hd (ci_transactionNos idn)) (tl (ci_transactionNos idn))) s x s1"
    and t: "t = sent (ticked s1)\<lparr>tables := wallets_update (change_rows (live_wallet_id (w_ID w))
      (\<lambda>v. v\<lparr>w_BalanceUnits := w_BalanceUnits w + ?a, w_TotalRechargeUnits := w_TotalRechargeUnits w + ?a,
        w_UpdatedAt := ev_now ev (clock_no s1)\<rparr>)) (tables s1)\<rparr>"
    and w': "w_BalanceUnits w' = w_BalanceUnits w + ?a"
    by (auto simp: redeem_credit_def createRedeemCodeTransactionWithIdentityRetry_def Let_def sums act_simps
        split: if_splits)
  have "\<forall>no \<in> set (hd (ci_transactionNos idn) # tl (ci_transactionNos idn)). trim_space no \<noteq> []"
    using idn by (simp add: identity_numbered_def list_all_iff)
  from identity_attempts_effect [OF x this] have added: "added_row ?row x s s1" .
  have D2: "tables t = (tables s1)\<lparr>wallets := change_rows (live_wallet_id (w_ID w))
      (\<lambda>v. v\<lparr>w_BalanceUnits := w_BalanceUnits w + ?a, w_TotalRechargeUnits := w_TotalRechargeUnits w + ?a,
         w_UpdatedAt := ev_now ev (clock_no s1)\<rparr>) (wallets (tables s1))\<rparr>" and i2: "auto_inc t = auto_inc s1"
    by (simp_all add: t)
  note C = credit_rows_effect [OF ok w a(1) fits(2) _ _ _ _ _ _ _ _ added D2 i2,
      simplified redeem_ledger_row_def, simplified user, simplified]
  have "source_of x = (SourceRedeemCode, rc_CodeID i)" "t_AmountUnits x = ?a" "t_UserID x = rc_UserID i"
    using added by (simp_all add: added_row_def same_entry_def source_of_def redeem_ledger_row_def)
  with C w' show ?thesis by simp
qed

lemma CreditRedeemCodeWithIdentity_effect:
  assumes ok: "wallet_state_ok s" and le: "rc_AmountUnits i \<le> max_int64" and idn: "identity_numbered idn"
    and run: "Returns (CreditRedeemCodeWithIdentityInTx configured ev tx i idn) s (w, x) t"
  shows "wallet_state_ok t \<and> auto_inc s \<le> auto_inc t \<and>
    x \<in> set (transactions (tables t)) \<and> source_of x = (SourceRedeemCode, rc_CodeID i) \<and>
    t_AmountUnits x = rc_AmountUnits i \<and>
    w_BalanceUnits w = as_balance (account_of (tables t)) (rc_UserID i) \<and>
    as_ledger (account_of (tables s)) (SourceRedeemCode, rc_CodeID i) = None \<and>
    spec_credit SourceRedeemCode (rc_UserID i) (rc_CodeID i) (rc_AmountUnits i) (account_of (tables s)) =
      Some (account_of (tables t)) \<and>
    transactions (tables t) = transactions (tables s) @ [x] \<and> t_UserID x = rc_UserID i"
proof -
  let ?i = "normalizeRedeemCodeCreditInput i"
  have same_i: "rc_UserID ?i = rc_UserID i" "rc_CodeID ?i = rc_CodeID i" "rc_AmountUnits ?i = rc_AmountUnits i"
    by (simp_all add: normalizeRedeemCodeCreditInput_def)
  from run obtain s1 wallet s2 where valid: "identity_valid idn"
    and pos: "0 < rc_UserID ?i" "0 < rc_AmountUnits ?i"
    and s1: "Returns (findRedeemCodeSourceFact ev (rc_CodeID ?i)) s None s1"
    and s2: "Returns (lockOrCreateRedeemCodeWalletForUpdate ev (rc_UserID ?i)) s1 wallet s2"
    and rest: "Returns (redeem_credit ev wallet ?i idn) s2 (w, x) t"
    by (auto simp: CreditRedeemCodeWithIdentityInTx_def Let_def identity_matchesInput_def act_simps
        split: option.splits if_splits)
  obtain idn' where idn': "idn = Some idn'" using valid by (cases idn) (auto simp: identity_valid_def)
  note F = findRedeemCodeSourceFact_effect [OF s1]
  have ok1: "wallet_state_ok s1" and D1: "tables s1 = tables s" "auto_inc s1 = auto_inc s"
    using F(1) ok same_tables_ok [OF F(1)] by (simp_all add: same_tables_def)
  have W: "wallet_state_ok s2" "opened (rc_UserID ?i) wallet (tables s1) (tables s2)" "auto_inc s1 \<le> auto_inc s2"
    using lockOrCreateRedeemCode_effect [OF ok1 pos(1) s2] by simp_all
  have w2: "wallet \<in> set (wallets (tables s2))" "w_UserID wallet = rc_UserID ?i"
    "transactions (tables s2) = transactions (tables s)"
    using W(2) D1 by (auto simp: opened_def)
  have acc: "account_of (tables s2) = account_of (tables s)"
    using account_of_opened [OF W(2)] D1 by simp
  note C = redeem_credit_effect [OF W(1) w2(1,2) pos(2) _ idn [unfolded idn'] rest [unfolded idn'], unfolded same_i acc, OF le]
  have "w_BalanceUnits wallet = as_balance (account_of (tables s)) (rc_UserID i)"
    using account_of_wallet [OF wallet_state_okD(1) [OF W(1)] w2(1)] w2(2) acc same_i by simp
  with C W(3) D1 w2(3) show ?thesis by (simp add: spec_credit_def)
qed

lemma CreditRedeemCode_effect:
  assumes ok: "wallet_state_ok s" and le: "rc_AmountUnits i \<le> max_int64"
    and run: "Returns (CreditRedeemCodeInTx configured ev tx i now) s (w, x) t"
  shows "wallet_state_ok t \<and> auto_inc s \<le> auto_inc t \<and>
    x \<in> set (transactions (tables t)) \<and> source_of x = (SourceRedeemCode, rc_CodeID i) \<and>
    t_AmountUnits x = rc_AmountUnits i \<and>
    w_BalanceUnits w = as_balance (account_of (tables t)) (rc_UserID i) \<and>
    as_ledger (account_of (tables s)) (SourceRedeemCode, rc_CodeID i) = None \<and>
    spec_credit SourceRedeemCode (rc_UserID i) (rc_CodeID i) (rc_AmountUnits i) (account_of (tables s)) =
      Some (account_of (tables t)) \<and>
    transactions (tables t) = transactions (tables s) @ [x] \<and> t_UserID x = rc_UserID i"
proof -
  from run obtain idn s1 where
    s1: "Returns (NewRedeemCodeCreditIdentity ev i now :: (wallet_error, 'a wallet_tables_scheme world, _) act) s idn s1"
    and rest: "Returns (CreditRedeemCodeWithIdentityInTx configured ev tx i (Some idn)) s1 (w, x) t"
    unfolding CreditRedeemCodeInTx_def by (rule Returns_bindE)
  note N = NewRedeemCodeCreditIdentity_effect [OF s1]
  have "wallet_state_ok s1" using ok same_tables_ok [OF N(1)] by simp
  from CreditRedeemCodeWithIdentity_effect [OF this le N(2) rest] N(1)
  show ?thesis by (simp add: same_tables_def)
qed

text \<open>A lookup changes nothing and answers with the ledger row of the code.\<close>

lemma FindRedeemCodeCredit_effect:
  assumes "Returns (FindRedeemCodeCreditInTx configured ev tx i) s found t"
  shows "same_tables s t"
    "found = None \<longleftrightarrow> as_ledger (account_of (tables s)) (SourceRedeemCode, i) = None"
    "found = Some (w, x) \<Longrightarrow> w \<in> set (wallets (tables s)) \<and> x \<in> set (transactions (tables s)) \<and>
       source_of x = (SourceRedeemCode, i) \<and> w_ID w = t_WalletID x \<and> w_UserID w = t_UserID x"
proof -
  from assms obtain fact s1 where s1: "Returns (findRedeemCodeSourceFact ev i) s fact s1"
    and rest: "if fact = None then found = None \<and> t = s1
      else (\<exists>w. found = Some (w, the fact) \<and> same_tables s1 t \<and> w \<in> set (wallets (tables s1)) \<and>
          w_ID w = t_WalletID (the fact) \<and> w_UserID w = t_UserID (the fact))"
    by (auto simp: FindRedeemCodeCreditInTx_def credited_wallet_def act_simps validRedeemCodeWalletFact_def
        dest!: find_SomeD)
  note F = findRedeemCodeSourceFact_effect [OF s1]
  show "same_tables s t" using F(1) rest by (cases fact) (auto intro: same_tables_trans)
  show "found = None \<longleftrightarrow> as_ledger (account_of (tables s)) (SourceRedeemCode, i) = None"
    using F(3) rest by (cases fact) auto
  show "w \<in> set (wallets (tables s)) \<and> x \<in> set (transactions (tables s)) \<and>
      source_of x = (SourceRedeemCode, i) \<and> w_ID w = t_WalletID x \<and> w_UserID w = t_UserID x"
    if "found = Some (w, x)"
    using F(1) F(2) [of x] rest that by (cases fact) (auto simp: same_tables_def)
qed

end
