(* ===== verification/WalletHistory.thy ===== *)
theory WalletHistory
  imports WalletRefine
begin

text \<open>
  Histories: any sequence of wallet calls, each in its own database transaction, each under its
  own schedule of failing statements, from empty tables on. The invariant of WalletInv holds
  after every step, and every step is a step of the specification or changes nothing that the
  accounts show.
\<close>

section \<open>Steps\<close>

datatype wallet_op =
    OpOpen int
  | OpReserve int int int
  | OpTopUp int int int
  | OpCapture CaptureHoldInput
  | OpRelease int int
  | OpRecharge CreditRechargeInput
  | OpRedeem RedeemCodeCreditInput gotime

text \<open>The arguments are Go int64 values; a user id is one of the users table, so positive.\<close>

definition op_ok :: "wallet_op \<Rightarrow> bool" where
  "op_ok op = (case op of
     OpOpen u \<Rightarrow> 0 < u
   | OpReserve u r n \<Rightarrow> n \<le> max_int64
   | OpTopUp u r n \<Rightarrow> n \<le> max_int64
   | OpCapture i \<Rightarrow> True
   | OpRelease u r \<Rightarrow> True
   | OpRecharge i \<Rightarrow> cr_AmountUnits i \<le> max_int64
   | OpRedeem i now \<Rightarrow> rc_AmountUnits i \<le> max_int64)"

definition discard :: "('e, 's, 'a) act \<Rightarrow> ('e, 's, unit) act" where
  "discard m = bind m (\<lambda>_. ret ())"

definition wallet_call :: "env \<Rightarrow> wallet_op \<Rightarrow> ('x, unit) wallet_act" where
  "wallet_call ev op = (case op of
     OpOpen u \<Rightarrow> discard (GetOrCreateWallet True ev u)
   | OpReserve u r n \<Rightarrow> discard (ReserveHoldInTx True ev open_tx u r n)
   | OpTopUp u r n \<Rightarrow> discard (TopUpHoldInTx True ev open_tx u r n)
   | OpCapture i \<Rightarrow> discard (CaptureHoldInTx True ev open_tx i)
   | OpRelease u r \<Rightarrow> discard (ReleaseHoldInTx True ev open_tx u r)
   | OpRecharge i \<Rightarrow> discard (CreditRechargeInTx True ev open_tx i)
   | OpRedeem i now \<Rightarrow> discard (CreditRedeemCodeInTx True ev open_tx i now))"

definition wallet_tx :: "env \<Rightarrow> wallet_op \<Rightarrow> ('x, unit) wallet_act" where
  "wallet_tx ev op = transaction ev WalletDb (wallet_call ev op)"

inductive wallet_step :: "'x wallet_tables_scheme world \<Rightarrow> 'x wallet_tables_scheme world \<Rightarrow> bool" where
  step: "op_ok op \<Longrightarrow> wallet_tx ev op s = (res, t) \<Longrightarrow> wallet_step s t"

inductive_cases wallet_stepE: "wallet_step s t"

definition empty_world :: "wallet_tables world" where
  "empty_world = \<lparr>stmt_no = 0, clock_no = 0, auto_inc = 1, serial_seq = 0,
     tables = \<lparr>wallets = [], transactions = [], holds = []\<rparr>\<rparr>"

inductive wallet_reachable :: "wallet_tables world \<Rightarrow> bool" where
  start: "wallet_reachable empty_world"
| more: "wallet_reachable s \<Longrightarrow> wallet_step s t \<Longrightarrow> wallet_reachable t"

section \<open>The counter of ids\<close>

lemma grows_wallet_statements [grows_intros]:
  "grows (create_wallet ev w)" "grows (create_transaction ev x)" "grows (create_hold ev h)"
  unfolding wallet_statement_defs by (intro grows_intros)+

lemma grows_newTransactionNo [grows_intros]: "grows (newTransactionNo ev now)"
  by (simp add: newTransactionNo_def grows_def serialno_New_def Let_def)

lemma grows_wallet_lookup [grows_intros]:
  "grows (getOrCreateWallet ev u)" "grows (lockOrCreateWalletForUpdateUnits ev u)"
  "grows (lockWalletForUpdateUnits ev u)" "grows (lockHoldByRun ev r)" "grows (assertActiveHoldTotal ev i n)"
  unfolding getOrCreateWallet_def getWalletByUserID_def lockOrCreateWalletForUpdateUnits_def
    lockOrCreateWalletForUpdate_def lockWalletForUpdateUnits_def lockHoldByRun_def assertActiveHoldTotal_def
  by (intro grows_intros)+

lemma grows_validate [grows_intros]:
  "grows (validateCapturedHoldFact ev h w u)" "grows (validateReleasedHoldFact ev h w u)"
  unfolding validateCapturedHoldFact_def validateReleasedHoldFact_def terminalAIGenerateTransactions_def
  by (intro grows_intros)+

lemma grows_updates [grows_intros]:
  "grows (update_wallet_row ev i g)" "grows (update_active_hold ev i k)"
  unfolding update_wallet_row_def update_active_hold_def by (intro grows_intros)+

lemma grows_transaction_attempts [grows_intros]: "grows (transaction_attempts ev now n row)"
  by (induction n arbitrary: row) (auto intro!: grows_intros)

lemma grows_identity_attempts [grows_intros]: "grows (identity_attempts ev row no nos)"
  by (induction nos arbitrary: no) (auto intro!: grows_intros)

lemma grows_serial_numbers [grows_intros]: "grows (serial_numbers ev now n)"
  by (induction n) (auto intro!: grows_intros)

lemma grows_reserve [grows_intros]: "grows (reserveHold c ev tx u r n)"
  unfolding reserveHold_def reserve_found_def grow_hold_def Let_def by (intro grows_intros)

lemma grows_capture [grows_intros]: "grows (CaptureHoldInTx c ev tx i)"
  unfolding CaptureHoldInTx_def capture_found_def capture_active_def capture_ledger_def
    createTransactionWithNumberRetry_def Let_def
  by (intro grows_intros)

lemma grows_release [grows_intros]: "grows (ReleaseHoldInTx c ev tx u r)"
  unfolding ReleaseHoldInTx_def release_found_def Let_def by (intro grows_intros)

lemma grows_recharge [grows_intros]: "grows (CreditRechargeInTx c ev tx i)"
  unfolding CreditRechargeInTx_def credit_new_recharge_def findRechargeCreditTransactionForUpdate_def
    createTransactionWithNumberRetry_def Let_def
  by (intro grows_intros)

lemma grows_redeem [grows_intros]: "grows (CreditRedeemCodeWithIdentityInTx c ev tx i idn)"
  unfolding CreditRedeemCodeWithIdentityInTx_def findRedeemCodeSourceFact_def
    lockOrCreateRedeemCodeWalletForUpdate_def findRedeemCodeWalletByUserIDForUpdate_def
    redeem_credit_def createRedeemCodeTransactionWithIdentityRetry_def Let_def
  by (intro grows_intros)

lemma grows_wallet_tx [grows_intros]: "grows (wallet_tx ev op)"
proof -
  have "grows (wallet_call ev op)"
    unfolding wallet_call_def discard_def GetOrCreateWallet_def ReserveHoldInTx_def TopUpHoldInTx_def
      CreditRedeemCodeInTx_def NewRedeemCodeCreditIdentity_def
    by (cases op) (auto intro!: grows_intros)
  then show ?thesis unfolding wallet_tx_def by (intro grows_intros)
qed

section \<open>Every step keeps the invariant and refines the specification\<close>

lemma getOrCreateWallet_effect:
  assumes ok: "wallet_state_ok s" and u: "0 < u" and run: "Returns (getOrCreateWallet ev u) s w t"
  shows "wallet_state_ok t \<and> opened u w (tables s) (tables t)"
  using run unfolding getOrCreateWallet_def
proof (cases rule: Returns_eitherE)
  case (ok w' s')
  then have found: "find (live_wallet_of u) (wallets (tables s)) = Some w" and same: "same_tables s t"
    by (auto simp: act_simps)
  then show ?thesis
    using same_tables_ok [OF same] \<open>wallet_state_ok s\<close> find_SomeD [OF found]
    by (simp add: opened_def live_wallet_of_def same_tables_def)
next
  case (error e s')
  then have none: "find (live_wallet_of u) (wallets (tables s)) = None" and s': "same_tables s s'"
    and "Returns (either (create_wallet ev (new_wallet u))
      (\<lambda>err. if isDuplicateKeyFor err duplicateKeyUserWalletUser then getWalletByUserID ev u else throw err)
      ret) s' w t"
    by (auto simp: act_simps split: if_splits)
  from this(3) show ?thesis
  proof (cases rule: Returns_eitherE)
    case (error f r)
    with failed_inserts(1) [OF error(1)] none s' show ?thesis
      by (auto simp: act_simps getWalletByUserID_def same_tables_def)
  next
    case (ok v r)
    have "wallet_state_ok s'" using assms(1) same_tables_ok [OF s'] by simp
    note new = created_wallet_opened [OF this u ok(1)]
    have "t = r" and "w = v" using ok(2) by (auto simp: act_simps)
    then show ?thesis using new s' by (simp add: same_tables_def)
  qed
qed

definition spec_call :: "wallet_op \<Rightarrow> account_state \<Rightarrow> account_state option" where
  "spec_call op = (case op of
     OpOpen u \<Rightarrow> Some
   | OpReserve u r n \<Rightarrow> spec_reserve u r n
   | OpTopUp u r n \<Rightarrow> spec_reserve u r n
   | OpCapture i \<Rightarrow> spec_capture (cap_UserID i) (cap_RunID i) (cap_ActualUnits i)
   | OpRelease u r \<Rightarrow> spec_release u r
   | OpRecharge i \<Rightarrow> spec_credit SourceRecharge (cr_UserID i) (cr_RechargeID i) (cr_AmountUnits i)
   | OpRedeem i now \<Rightarrow> spec_credit SourceRedeemCode (rc_UserID i) (rc_CodeID i) (rc_AmountUnits i))"

lemma Returns_discard [act_simps]: "Returns (discard m) s x t \<longleftrightarrow> (\<exists>a. Returns m s a t)"
  by (auto simp: discard_def act_simps)

lemma wallet_call_effect:
  assumes ok: "wallet_state_ok s" and op: "op_ok op" and run: "Returns (wallet_call ev op) s x t"
  shows "wallet_state_ok t \<and> spec_call op (account_of (tables s)) = Some (account_of (tables t))"
proof (cases op)
  case (OpOpen u)
  with run obtain w where "Returns (getOrCreateWallet ev u) s w t"
    by (auto simp: wallet_call_def GetOrCreateWallet_def act_simps)
  from getOrCreateWallet_effect [OF ok _ this] op OpOpen account_of_opened [of u w "tables s" "tables t"]
  show ?thesis by (simp add: op_ok_def spec_call_def)
next
  case (OpReserve u r n)
  with run obtain h where "Returns (reserveHold True ev open_tx u r n) s h t"
    by (auto simp: wallet_call_def ReserveHoldInTx_def act_simps)
  from reserveHold_effect [OF ok _ this] op OpReserve show ?thesis by (simp add: op_ok_def spec_call_def)
next
  case (OpTopUp u r n)
  with run obtain h where "Returns (reserveHold True ev open_tx u r n) s h t"
    by (auto simp: wallet_call_def TopUpHoldInTx_def act_simps)
  from reserveHold_effect [OF ok _ this] op OpTopUp show ?thesis by (simp add: op_ok_def spec_call_def)
next
  case (OpCapture i)
  with run obtain w' l where "Returns (CaptureHoldInTx True ev open_tx i) s (w', l) t"
    by (auto simp: wallet_call_def act_simps)
  from CaptureHold_effect [OF ok this] OpCapture show ?thesis by (simp add: spec_call_def)
next
  case (OpRelease u r)
  with run obtain h where "Returns (ReleaseHoldInTx True ev open_tx u r) s h t"
    by (auto simp: wallet_call_def act_simps)
  from ReleaseHold_effect [OF ok this] OpRelease show ?thesis by (simp add: spec_call_def)
next
  case (OpRecharge i)
  with run obtain f where "Returns (CreditRechargeInTx True ev open_tx i) s f t"
    by (auto simp: wallet_call_def act_simps)
  from CreditRecharge_effect [OF ok _ this] op OpRecharge show ?thesis by (simp add: op_ok_def spec_call_def)
next
  case (OpRedeem i now)
  with run obtain w' y where "Returns (CreditRedeemCodeInTx True ev open_tx i now) s (w', y) t"
    by (auto simp: wallet_call_def act_simps)
  from CreditRedeemCode_effect [OF ok _ this] op OpRedeem show ?thesis by (simp add: op_ok_def spec_call_def)
qed

text \<open>A transaction, succeeding or failing: what the caller of the wallet sees.\<close>

lemma wallet_tx_effect:
  assumes ok: "wallet_state_ok s" and op: "op_ok op" and run: "wallet_tx ev op s = (res, t)"
  shows "wallet_state_ok t"
    "res = Inl e \<Longrightarrow> tables t = tables s"
    "res = Inr x \<Longrightarrow> spec_call op (account_of (tables s)) = Some (account_of (tables t))"
proof -
  have fails: "tables t = tables s" if "res = Inl e" for e
    using run that unfolding wallet_tx_def by (intro Fails_transaction_tables) (simp add: Fails_def)
  have returns: "wallet_state_ok t \<and> spec_call op (account_of (tables s)) = Some (account_of (tables t))"
    if "res = Inr x" for x
  proof -
    have "Returns (wallet_tx ev op) s x t" using run that by (simp add: Returns_def)
    then obtain u where u: "Returns (wallet_call ev op) (sent s) x u" and t: "t = sent u"
      by (auto simp: wallet_tx_def Returns_transaction)
    have "wallet_state_ok (sent s)" using ok by (simp add: wallet_state_ok_def)
    from wallet_call_effect [OF this op u] t show ?thesis by (simp add: wallet_state_ok_def)
  qed
  show "tables t = tables s" if "res = Inl e" using fails that .
  show "spec_call op (account_of (tables s)) = Some (account_of (tables t))" if "res = Inr x"
    using returns that by simp
  show "wallet_state_ok t"
  proof (cases res)
    case (Inl e)
    have "auto_inc s \<le> auto_inc t" using growsD [OF grows_wallet_tx, of s ev op] run by simp
    with Inl fails ok show ?thesis by (auto simp: wallet_state_ok_def intro: ids_below_mono)
  next
    case (Inr x)
    then show ?thesis using returns by simp
  qed
qed

lemma wallet_step_ok:
  assumes "wallet_state_ok s" and "wallet_step s t"
  shows "wallet_state_ok t"
  using assms(2) by (rule wallet_stepE) (rule wallet_tx_effect [OF assms(1)])

lemma empty_world_ok: "wallet_state_ok empty_world"
  by (simp add: wallet_state_ok_def empty_world_def wallet_inv_def wallet_keys_def ids_below_def)

lemma reachable_ok: "wallet_reachable s \<Longrightarrow> wallet_state_ok s"
  by (induction rule: wallet_reachable.induct) (auto intro: empty_world_ok wallet_step_ok)

text \<open>What one step does to the accounts: nothing, or one call of the specification.\<close>

lemma wallet_step_spec:
  assumes "wallet_state_ok s" and "wallet_step s t"
  shows "account_of (tables t) = account_of (tables s) \<or>
    (\<exists>op. op_ok op \<and> spec_call op (account_of (tables s)) = Some (account_of (tables t)))"
  using assms(2)
proof (rule wallet_stepE)
  fix op ev and res :: "wallet_error + unit"
  assume op: "op_ok op" and run: "wallet_tx ev op s = (res, t)"
  note E = wallet_tx_effect [OF assms(1) op run]
  show ?thesis
    using E(2) E(3) op by (cases res) auto
qed

section \<open>What stays for ever\<close>

lemma held_run_unbooked:
  assumes inv: "wallet_inv D" and "as_run (account_of D) r = Some (v, RunHeld m)"
  shows "as_ledger (account_of D) (SourceAIGenerate, r) = None"
proof -
  from assms(2) obtain h where h: "h \<in> set (holds D)" "h_RunID h = r" "run_of h = (v, RunHeld m)"
    by (auto simp: account_of_def dest: row_map_SomeD)
  then have "ai_rows r (transactions D) = []"
    using wallet_invD(3) [OF inv h(1)]
    by (auto simp: hold_ok_def run_of_def run_state_of_def split: if_splits)
  then show ?thesis
    by (auto simp: account_of_def row_map_None source_of_def ai_rows_def filter_empty_conv)
qed

lemma wallet_step_extends:
  assumes ok: "wallet_state_ok s" and "wallet_step s t"
  shows "spec_extends (account_of (tables s)) (account_of (tables t))"
proof -
  note inv = wallet_state_okD(1) [OF ok]
  let ?A = "account_of (tables s)" and ?B = "account_of (tables t)"
  have "spec_extends ?A ?B" if "spec_call op ?A = Some ?B" for op
    using that held_run_unbooked [OF inv]
    by (cases op) (auto simp: spec_call_def intro: spec_extends_refl spec_reserve_extends
        spec_release_extends spec_credit_extends spec_capture_extends)
  with wallet_step_spec [OF assms] show ?thesis by (auto simp: spec_extends_refl)
qed

lemma wallet_steps_extend:
  assumes "wallet_step\<^sup>*\<^sup>* s t" and "wallet_state_ok s"
  shows "wallet_state_ok t \<and> spec_extends (account_of (tables s)) (account_of (tables t))"
  using assms
proof (induction rule: rtranclp_induct)
  case base
  then show ?case by (simp add: spec_extends_refl)
next
  case (step t u)
  then show ?case
    using wallet_step_ok [of t u] wallet_step_extends [of t u] spec_extends_trans by blast
qed

end
