(* ===== verification/WalletLive.thy ===== *)
theory WalletLive
  imports WalletHistory
begin

text \<open>
  When no statement fails, the settlement of a hold cannot fail either: in a consistent database
  releasing a held run, and capturing at most what it holds, always return.
\<close>

definition no_faults :: "env \<Rightarrow> bool" where
  "no_faults ev \<longleftrightarrow> (\<forall>n. ev_fault ev n = None)"

lemma no_faults_at [simp]: "no_faults ev \<Longrightarrow> no_fault ev s"
  by (simp add: no_faults_def no_fault_def)

text \<open>Running an action forward, once its first step is known.\<close>

lemma run_bind: "Returns m s a u \<Longrightarrow> Returns (bind m f) s b t \<longleftrightarrow> Returns (f a) u b t"
  by (auto simp: Returns_bind dest: Returns_det)

lemma run_pure: "Returns (bind (pure_result (Inr a)) f) s b t \<longleftrightarrow> Returns (f a) s b t"
  by (auto simp: act_simps)

lemma requireHoldTransaction_open: "requireHoldTransaction open_tx = Inr ()"
  by (simp add: requireHoldTransaction_def open_tx_def)

lemma run_ret: "Returns (ret a) s a s"
  by (simp add: act_simps)

lemma lockWallet_succeeds:
  assumes nf: "no_faults ev" and inv: "wallet_inv (tables s)" and w: "w \<in> set (wallets (tables s))"
  shows "Returns (lockWalletForUpdateUnits ev (w_UserID w)) s w (sent s)"
proof -
  have "find (live_wallet_of (w_UserID w)) (wallets (tables s)) = Some w"
    using live_wallet_user [OF inv] by (intro find_key_one [OF wallet_keysD(2) [OF inv] w]) simp
  with nf show ?thesis by (simp add: lockWalletForUpdateUnits_def act_simps)
qed

lemma lockHold_succeeds:
  assumes nf: "no_faults ev" and inv: "wallet_inv (tables s)" and h: "h \<in> set (holds (tables s))"
  shows "Returns (lockHoldByRun ev (h_RunID h)) s (Some h) (sent s)"
proof -
  have "find (\<lambda>x. h_RunID x = h_RunID h) (holds (tables s)) = Some h"
    by (rule find_key_one [OF wallet_keysD(4) [OF inv] h]) simp
  with nf show ?thesis by (simp add: lockHoldByRun_def act_simps)
qed

lemma assertTotal_succeeds:
  "no_faults ev \<Longrightarrow> active_total i (holds (tables s)) = n \<Longrightarrow> in_int64 n \<Longrightarrow>
     Returns (assertActiveHoldTotal ev i n) s () (sent s)"
  by (simp add: assertActiveHoldTotal_def act_simps)

lemma update_wallet_succeeds:
  assumes nf: "no_faults ev" and one: "length (filter (live_wallet_id i) (wallets (tables s))) = 1"
  shows "\<exists>t. Returns (update_wallet_row ev i g) s () t \<and> (\<exists>a. tables t = (tables s)\<lparr>wallets :=
      change_rows (live_wallet_id i) (\<lambda>w. (g w)\<lparr>w_UpdatedAt := a\<rparr>) (wallets (tables s))\<rparr>)"
proof -
  have "\<exists>t. Returns (update_wallet_row ev i g) s () t"
    using nf one by (simp add: update_wallet_row_def act_simps)
  then show ?thesis using update_wallet_row_effect by blast
qed

lemma update_hold_succeeds:
  assumes nf: "no_faults ev" and one: "length (filter (active_hold_id i) (holds (tables s))) = 1"
  shows "\<exists>t. Returns (update_active_hold ev i k) s () t \<and> (\<exists>a. tables t = (tables s)\<lparr>holds :=
      change_rows (active_hold_id i) (\<lambda>h. (k h)\<lparr>h_UpdatedAt := a\<rparr>) (holds (tables s))\<rparr>)"
proof -
  have "\<exists>t. Returns (update_active_hold ev i k) s () t"
    using nf one by (simp add: update_active_hold_def active_hold_id_def [abs_def] act_simps)
  then show ?thesis using update_active_hold_effect by blast
qed

text \<open>The locked wallet and the active hold of a run that the accounts show as held.\<close>

lemma held_rows:
  assumes inv: "wallet_inv D" and held: "as_run (account_of D) r = Some (u, RunHeld m)"
  obtains w h where "w \<in> set (wallets D)" "h \<in> set (holds D)" "w_UserID w = u" "h_RunID h = r"
    "h_UserID h = u" "h_WalletID h = w_ID w" "h_Status h = HoldActive" "h_HeldUnits h = m" "0 < m"
    "h_CapturedUnits h = 0" "m \<le> w_HeldUnits w" "0 < u" "0 < r"
proof -
  from held obtain h where h: "h \<in> set (holds D)" "h_RunID h = r" "run_of h = (u, RunHeld m)"
    by (auto simp: account_of_def dest: row_map_SomeD)
  then have st: "h_UserID h = u" "h_Status h = HoldActive" "h_HeldUnits h = m"
    by (auto simp: run_of_def run_state_of_def split: if_splits)
  note ok = wallet_invD(3) [OF inv h(1), unfolded hold_ok_def]
  then obtain w where w: "w \<in> set (wallets D)" "w_ID w = h_WalletID h" "w_UserID w = h_UserID h"
    by (auto simp: owners_def)
  have "m \<le> w_HeldUnits w" using active_hold_le_held [OF inv w(1) h(1)] w(2) st by simp
  with w h st ok wallet_numbers(2) [OF inv w(1)] show ?thesis by (intro that [of w h]) auto
qed

lemma one_live_wallet:
  "wallet_inv D \<Longrightarrow> w \<in> set (wallets D) \<Longrightarrow> filter (live_wallet_id (w_ID w)) (wallets D) = [w]"
  by (rule filter_key_one [OF wallet_keysD(1)]) (auto simp: live_wallet_key)

lemma one_active_hold:
  "wallet_inv D \<Longrightarrow> h \<in> set (holds D) \<Longrightarrow> h_Status h = HoldActive \<Longrightarrow>
     filter (active_hold_id (h_ID h)) (holds D) = [h]"
  by (rule filter_key_one [OF wallet_keysD(3)]) (auto simp: active_hold_key)

lemma ReleaseHold_succeeds:
  assumes nf: "no_faults ev" and ok: "wallet_state_ok s"
    and held: "as_run (account_of (tables s)) r = Some (u, RunHeld m)"
  shows "\<exists>h t. Returns (ReleaseHoldInTx True ev open_tx u r) s h t"
proof -
  note inv = wallet_state_okD(1) [OF ok]
  from held_rows [OF inv held] obtain w h where w: "w \<in> set (wallets (tables s))" "w_UserID w = u"
    and h: "h \<in> set (holds (tables s))" "h_RunID h = r" "h_UserID h = u" "h_WalletID h = w_ID w"
      "h_Status h = HoldActive" "h_HeldUnits h = m" "h_CapturedUnits h = 0"
    and m: "0 < m" "m \<le> w_HeldUnits w" and pos: "0 < u" "0 < r" .
  note num = wallet_numbers [OF inv w(1)]
  have in64: "in_int64 (w_HeldUnits w)" "in_int64 (w_HeldUnits w - m)" using num m by simp_all
  have sub: "sub64 (w_HeldUnits w) m = w_HeldUnits w - m" using num m by (intro sub64_nonneg) auto
  let ?s3 = "sent (sent (sent s))"
  obtain s4 a where s4: "Returns (update_wallet_row ev (w_ID w) (w_HeldUnits_update (\<lambda>_. w_HeldUnits w - m))) ?s3 () s4"
    and D4: "tables s4 = (tables s)\<lparr>wallets := change_rows (live_wallet_id (w_ID w))
      (\<lambda>v. v\<lparr>w_HeldUnits := w_HeldUnits w - m, w_UpdatedAt := a\<rparr>) (wallets (tables s))\<rparr>"
    using update_wallet_succeeds [OF nf, of "w_ID w" ?s3 "w_HeldUnits_update (\<lambda>_. w_HeldUnits w - m)"]
      one_live_wallet [OF inv w(1)] by auto
  let ?k = "\<lambda>h. h\<lparr>h_HeldUnits := 0, h_CapturedUnits := 0, h_Status := HoldReleased\<rparr>"
  obtain s5 b where s5: "Returns (update_active_hold ev (h_ID h) ?k) s4 () s5"
    and D5: "holds (tables s5) = change_rows (active_hold_id (h_ID h))
      (\<lambda>r. (?k r)\<lparr>h_UpdatedAt := b\<rparr>) (holds (tables s))"
    using update_hold_succeeds [OF nf, of "h_ID h" s4 ?k] one_active_hold [OF inv h(1,5)] D4 by auto
  have "active_total (w_ID w) (holds (tables s5)) = w_HeldUnits w - m"
    unfolding D5 active_total_change [OF inv h(1,5)] using num(10) h by (simp add: active_units_def)
  from assertTotal_succeeds [OF nf this in64(2)] s4 s5
  have "\<exists>h' t. Returns (release_found ev w u (Some h)) ?s3 h' t"
    using h m by (simp add: release_found_def validateActiveHoldFact_def sub Let_def run_pure run_bind)
      (blast intro: run_ret)
  moreover have "Returns (lockWalletForUpdateUnits ev u) s w (sent s)"
    using lockWallet_succeeds [OF nf inv w(1)] w(2) by simp
  moreover have "Returns (assertActiveHoldTotal ev (w_ID w) (w_HeldUnits w)) (sent s) () (sent (sent s))"
    by (rule assertTotal_succeeds [OF nf _ in64(1)]) (simp add: num(10))
  moreover have "Returns (lockHoldByRun ev r) (sent (sent s)) (Some h) ?s3"
    using lockHold_succeeds [OF nf, of "sent (sent s)" h] inv h by simp
  ultimately show ?thesis
    using pos num(5) by (simp add: ReleaseHoldInTx_def run_pure run_bind requireHoldTransaction_open)
qed

text \<open>For a capture the number its ledger row will get must not be in the table yet.\<close>

definition fresh_number :: "env \<Rightarrow> 'x wallet_tables_scheme world \<Rightarrow> bool" where
  "fresh_number ev s \<longleftrightarrow> list_all (\<lambda>x. t_TransactionNo x \<noteq>
     serial_text ev ''WLT'' (ev_now ev (clock_no s)) ((serial_seq s + 1) mod 18446744073709551616))
     (transactions (tables s))"

lemma create_transaction_succeeds:
  assumes "no_faults ev"
    and "\<forall>x \<in> set (transactions (tables s)). t_TransactionNo x \<noteq> t_TransactionNo row \<and>
      \<not> (t_SourceType x = t_SourceType row \<and> t_SourceID x = t_SourceID row)"
  shows "\<exists>x t. Returns (createTransactionWithNumberRetry ev row now) s x t \<and>
    wallets (tables t) = wallets (tables s) \<and> holds (tables t) = holds (tables s)"
proof -
  let ?x = "row\<lparr>t_ID := auto_inc s, t_CreatedAt := ev_now ev (clock_no s), t_UpdatedAt := ev_now ev (clock_no s)\<rparr>"
  have "transaction_violated ?x (transactions (tables s)) = None"
    using assms(2) by (auto simp: transaction_violated_def list_ex_iff)
  then obtain t where "Returns (create_transaction ev row) s ?x t"
    and t: "wallets (tables t) = wallets (tables s)" "holds (tables t) = holds (tables s)"
    using assms(1) by (auto simp: create_transaction_def act_simps)
  then have "Returns (createTransactionWithNumberRetry ev row now) s ?x t"
    by (simp add: createTransactionWithNumberRetry_def maxTransactionNoInsertAttempts_def numeral_2_eq_2
        Returns_map_error Returns_catch)
  with t show ?thesis by blast
qed

lemma capture_ledger_succeeds:
  assumes nf: "no_faults ev" and fresh: "fresh_number ev s"
    and unbooked: "ai_rows (cap_RunID i) (transactions (tables s)) = []"
  shows "\<exists>ledger t. Returns (capture_ledger ev w i summary b) s ledger t \<and>
    wallets (tables t) = wallets (tables s) \<and> holds (tables t) = holds (tables s)"
proof (cases "0 < cap_ActualUnits i")
  case True
  let ?n = "(serial_seq s + 1) mod 18446744073709551616"
  let ?no = "serial_text ev ''WLT'' (ev_now ev (clock_no s)) ?n"
  let ?s2 = "(ticked s)\<lparr>serial_seq := ?n\<rparr>"
  let ?row = "\<lparr>t_ID = 0, t_TransactionNo = ?no, t_WalletID = w_ID w, t_UserID = cap_UserID i,
     t_Direction = DirectionOut, t_AmountUnits = cap_ActualUnits i,
     t_BalanceBeforeUnits = w_BalanceUnits w, t_BalanceAfterUnits = b,
     t_SourceType = SourceAIGenerate, t_SourceID = cap_RunID i, t_Remark = summary,
     t_IsDel = CommonNo, t_CreatedAt = 0, t_UpdatedAt = 0\<rparr>"
  have clock: "Returns (read_clock ev) v (ev_now ev (clock_no v)) (ticked v)" for v :: "'a wallet_tables_scheme world"
    by (simp add: act_simps)
  have no: "Returns (newTransactionNo ev (ev_now ev (clock_no s)) :: (wallet_error, _, _) act) (ticked s) ?no ?s2"
    by (simp add: newTransactionNo_def act_simps)
  have "\<forall>x \<in> set (transactions (tables (ticked ?s2))). t_TransactionNo x \<noteq> t_TransactionNo ?row \<and>
      \<not> (t_SourceType x = t_SourceType ?row \<and> t_SourceID x = t_SourceID ?row)"
    using fresh unbooked by (auto simp: fresh_number_def ai_rows_def filter_empty_conv list_all_iff)
  from create_transaction_succeeds [OF nf this, of "ev_now ev (clock_no ?s2)"]
  obtain x t where "Returns (createTransactionWithNumberRetry ev ?row (ev_now ev (clock_no ?s2))) (ticked ?s2) x t"
    and t: "wallets (tables t) = wallets (tables s)" "holds (tables t) = holds (tables s)"
    by auto
  then have "Returns (capture_ledger ev w i summary b) s (Some x) t"
    using True unfolding capture_ledger_def
    by (simp only: if_True run_bind [OF clock] run_bind [OF no] run_bind Returns_ret)
  with t show ?thesis by blast
next
  case False
  then show ?thesis by (auto simp: capture_ledger_def act_simps)
qed

lemma CaptureHold_succeeds:
  assumes nf: "no_faults ev" and ok: "wallet_state_ok s" and fresh: "fresh_number ev s"
    and held: "as_run (account_of (tables s)) (cap_RunID i) = Some (cap_UserID i, RunHeld m)"
    and c: "0 \<le> cap_ActualUnits i" "cap_ActualUnits i \<le> m"
    and summary: "validateHoldSummary (trim_space (cap_SourceSummary i)) = Inr ()"
  shows "\<exists>w l t. Returns (CaptureHoldInTx True ev open_tx i) s (w, l) t"
proof -
  let ?c = "cap_ActualUnits i" and ?r = "cap_RunID i" and ?u = "cap_UserID i"
  note inv = wallet_state_okD(1) [OF ok]
  from held_rows [OF inv held] obtain w h where w: "w \<in> set (wallets (tables s))" "w_UserID w = ?u"
    and h: "h \<in> set (holds (tables s))" "h_RunID h = ?r" "h_UserID h = ?u" "h_WalletID h = w_ID w"
      "h_Status h = HoldActive" "h_HeldUnits h = m" "h_CapturedUnits h = 0"
    and m: "0 < m" "m \<le> w_HeldUnits w" and pos: "0 < ?u" "0 < ?r" .
  note num = wallet_numbers [OF inv w(1)]
  have in64: "in_int64 (w_HeldUnits w)" "in_int64 (w_HeldUnits w - m)" using num m by simp_all
  have sub: "sub64 (w_HeldUnits w) m = w_HeldUnits w - m" "sub64 max_int64 ?c = max_int64 - ?c"
    using num m c by (auto intro: sub64_nonneg)
  have booked: "ai_rows ?r (transactions (tables s)) = []"
    using wallet_invD(3) [OF inv h(1)] h by (simp add: hold_ok_def)
  let ?s3 = "sent (sent (sent s))"
  let ?b = "sub64 (w_BalanceUnits w) ?c" and ?t = "add64 (w_TotalConsumeUnits w) ?c"
  obtain l s4 where s4: "Returns (capture_ledger ev w i (trim_space (cap_SourceSummary i)) ?b) ?s3 l s4"
    and D4: "wallets (tables s4) = wallets (tables s)" "holds (tables s4) = holds (tables s)"
    using capture_ledger_succeeds [OF nf, of ?s3 i w "trim_space (cap_SourceSummary i)" ?b] fresh booked
    by (auto simp: fresh_number_def)
  let ?g = "\<lambda>v. v\<lparr>w_BalanceUnits := ?b, w_TotalConsumeUnits := ?t, w_HeldUnits := w_HeldUnits w - m\<rparr>"
  obtain s5 where s5: "Returns (update_wallet_row ev (w_ID w) ?g) s4 () s5"
    and D5: "holds (tables s5) = holds (tables s)"
    using update_wallet_succeeds [OF nf, of "w_ID w" s4 ?g] one_live_wallet [OF inv w(1)] D4 by auto
  let ?k = "\<lambda>h. h\<lparr>h_HeldUnits := 0, h_CapturedUnits := ?c, h_Status := HoldCaptured\<rparr>"
  obtain s6 b where s6: "Returns (update_active_hold ev (h_ID h) ?k) s5 () s6"
    and D6: "holds (tables s6) = change_rows (active_hold_id (h_ID h))
      (\<lambda>r. (?k r)\<lparr>h_UpdatedAt := b\<rparr>) (holds (tables s))"
    using update_hold_succeeds [OF nf, of "h_ID h" s5 ?k] one_active_hold [OF inv h(1,5)] D5 by auto
  have "active_total (w_ID w) (holds (tables s6)) = w_HeldUnits w - m"
    unfolding D6 active_total_change [OF inv h(1,5)] using num(10) h by (simp add: active_units_def)
  note T = assertTotal_succeeds [OF nf this in64(2)]
  have small: "\<not> w_BalanceUnits w < ?c" "\<not> m < ?c" "\<not> w_HeldUnits w < m" "\<not> max_int64 - ?c < w_TotalConsumeUnits w"
    using num m c by linarith+
  have "\<exists>a t. Returns (capture_active ev w i (trim_space (cap_SourceSummary i)) h) ?s3 a t"
    using small s4 s5 s6 T unfolding capture_active_def sub h(6) Let_def
    by (simp add: run_bind) (blast intro: run_ret)
  then have "\<exists>a t. Returns (capture_found ev w i (trim_space (cap_SourceSummary i)) (Some h)) ?s3 a t"
    using h m summary by (simp add: capture_found_def validateActiveHoldFact_def act_simps)
  moreover have "Returns (lockWalletForUpdateUnits ev ?u) s w (sent s)"
    using lockWallet_succeeds [OF nf inv w(1)] w(2) by simp
  moreover have "Returns (assertActiveHoldTotal ev (w_ID w) (w_HeldUnits w)) (sent s) () (sent (sent s))"
    by (rule assertTotal_succeeds [OF nf _ in64(1)]) (simp add: num(10))
  moreover have "Returns (lockHoldByRun ev ?r) (sent (sent s)) (Some h) ?s3"
    using lockHold_succeeds [OF nf, of "sent (sent s)" h] inv h by simp
  ultimately have "\<exists>a t. Returns (CaptureHoldInTx True ev open_tx i) s a t"
    using pos num(5) c by (simp add: CaptureHoldInTx_def Let_def run_pure run_bind requireHoldTransaction_open)
  then show ?thesis by (metis surj_pair)
qed

end
