(* ===== verification/WalletProps.thy ===== *)
theory WalletProps
  imports WalletLive
begin

text \<open>
  The properties of the wallet: the consistency of every database a history of calls can lead
  to, what each operation does to the accounts, that money is credited and charged once, and
  that a hold can always be released. Each witness runs the operation on a concrete database.
\<close>

section \<open>A concrete database\<close>

definition demo_env :: env where
  "demo_env = \<lparr>ev_fault = (\<lambda>_. None), ev_now = (\<lambda>k. 63900000000000000000 + int k * 1000000),
     ev_stamp = (\<lambda>_. ''20251118080000'')\<rparr>"

text \<open>User 7 has paid 500 units (recharge 3); 200 of them are held for run 11, none for run 12 any more.\<close>

definition demo_wallet :: Wallet where
  "demo_wallet = \<lparr>w_ID = 1, w_UserID = 7, w_BalanceUnits = 500, w_TotalRechargeUnits = 500,
     w_TotalConsumeUnits = 0, w_HeldUnits = 200, w_IsDel = CommonNo, w_CreatedAt = 5, w_UpdatedAt = 6\<rparr>"

definition demo_transaction :: Transaction where
  "demo_transaction = \<lparr>t_ID = 2, t_TransactionNo = ''WLT1'', t_WalletID = 1, t_UserID = 7,
     t_Direction = DirectionIn, t_AmountUnits = 500, t_BalanceBeforeUnits = 0, t_BalanceAfterUnits = 500,
     t_SourceType = SourceRecharge, t_SourceID = 3, t_Remark = [], t_IsDel = CommonNo,
     t_CreatedAt = 6, t_UpdatedAt = 6\<rparr>"

definition demo_hold :: Hold where
  "demo_hold = \<lparr>h_ID = 3, h_WalletID = 1, h_UserID = 7, h_RunID = 11, h_HeldUnits = 200,
     h_CapturedUnits = 0, h_Status = HoldActive, h_CreatedAt = 6, h_UpdatedAt = 6\<rparr>"

definition demo_released :: Hold where
  "demo_released = \<lparr>h_ID = 4, h_WalletID = 1, h_UserID = 7, h_RunID = 12, h_HeldUnits = 0,
     h_CapturedUnits = 0, h_Status = HoldReleased, h_CreatedAt = 6, h_UpdatedAt = 6\<rparr>"

definition demo_world :: "wallet_tables world" where
  "demo_world = \<lparr>stmt_no = 0, clock_no = 0, auto_inc = 5, serial_seq = 8,
     tables = \<lparr>wallets = [demo_wallet], transactions = [demo_transaction], holds = [demo_hold, demo_released]\<rparr>\<rparr>"

lemma demo_world_ok: "wallet_state_ok demo_world"
  by code_simp

section \<open>Histories\<close>

text \<open>C1. In every database that a history of wallet calls can lead to, for every wallet: what is
  held is not negative and covered by the balance, the balance is an int64 and equals what the
  ledger booked in less what it booked out, each ledger row continues from the balance of the one
  before, and what is held is the sum of the active holds.\<close>

theorem wallet_history_consistent:
  assumes "wallet_reachable s" and "w \<in> set (wallets (tables s))"
  shows "0 \<le> w_HeldUnits w \<and> w_HeldUnits w \<le> w_BalanceUnits w \<and> w_BalanceUnits w \<le> max_int64 \<and>
    w_BalanceUnits w = row_sum (in_units (w_ID w)) (transactions (tables s))
      - row_sum (out_units (w_ID w)) (transactions (tables s)) \<and>
    chained 0 (ledger_of (w_ID w) (transactions (tables s))) (w_BalanceUnits w) \<and>
    w_HeldUnits w = active_total (w_ID w) (holds (tables s))"
proof -
  have inv: "wallet_inv (tables s)" using reachable_ok [OF assms(1)] by (rule wallet_state_okD)
  from wallet_numbers [OF inv assms(2)] wallet_invD(2) [OF inv assms(2), unfolded wallet_ok_def]
  show ?thesis by simp
qed

definition demo_first :: "wallet_tables world" where
  "demo_first = snd (wallet_tx demo_env (OpRecharge \<lparr>cr_UserID = 7, cr_RechargeID = 3,
     cr_AmountUnits = 500, cr_Remark = ''top up''\<rparr>) empty_world)"

lemma demo_first_reachable: "wallet_reachable demo_first"
proof (rule wallet_reachable.more [OF wallet_reachable.start], rule wallet_step.step)
  let ?op = "OpRecharge \<lparr>cr_UserID = 7, cr_RechargeID = 3, cr_AmountUnits = 500, cr_Remark = ''top up''\<rparr>"
  show "op_ok ?op" by (simp add: op_ok_def max_int64_def)
  show "wallet_tx demo_env ?op empty_world = (fst (wallet_tx demo_env ?op empty_world), demo_first)"
    by (simp add: demo_first_def)
qed

lemma demo_first_wallets: "map w_BalanceUnits (wallets (tables demo_first)) = [500]"
  by code_simp

theorem wallet_history_consistent_witness:
  "hd (wallets (tables demo_first)) \<in> set (wallets (tables demo_first)) \<and>
   w_BalanceUnits (hd (wallets (tables demo_first))) = 500 \<and>
   w_HeldUnits (hd (wallets (tables demo_first))) \<le> w_BalanceUnits (hd (wallets (tables demo_first)))"
proof -
  have w: "hd (wallets (tables demo_first)) \<in> set (wallets (tables demo_first))"
    and "w_BalanceUnits (hd (wallets (tables demo_first))) = 500"
    using demo_first_wallets by (cases "wallets (tables demo_first)"; simp)+
  with wallet_history_consistent [OF demo_first_reachable w] show ?thesis by simp
qed

text \<open>C2. Every wallet call, in its transaction, is atomic and does what the specification says:
  when it fails, for whatever reason, the tables are as before; when it returns, the accounts
  have made exactly the step of the specification.\<close>

theorem wallet_call_refines_spec:
  assumes "wallet_state_ok s" and "op_ok op" and "wallet_tx ev op s = (res, t)"
  shows "wallet_state_ok t \<and> (case res of
      Inl e \<Rightarrow> tables t = tables s
    | Inr x \<Rightarrow> spec_call op (account_of (tables s)) = Some (account_of (tables t)))"
  using wallet_tx_effect [OF assms] by (cases res) auto

theorem wallet_call_refines_spec_witness:
  "spec_call (OpReserve 7 20 300) (account_of (tables demo_world)) =
     Some (account_of (tables (snd (wallet_tx demo_env (OpReserve 7 20 300) demo_world)))) \<and>
   as_held (account_of (tables (snd (wallet_tx demo_env (OpReserve 7 20 300) demo_world)))) 7 = 500"
proof -
  have op: "op_ok (OpReserve 7 20 300)" by (simp add: op_ok_def max_int64_def)
  have run: "wallet_tx demo_env (OpReserve 7 20 300) demo_world =
      (Inr (), snd (wallet_tx demo_env (OpReserve 7 20 300) demo_world))"
  proof -
    have "fst (wallet_tx demo_env (OpReserve 7 20 300) demo_world) = Inr ()" by code_simp
    then show ?thesis by (metis prod.collapse)
  qed
  have "as_held (account_of (tables (snd (wallet_tx demo_env (OpReserve 7 20 300) demo_world)))) 7 = 500"
    by code_simp
  with wallet_call_refines_spec [OF demo_world_ok op run] show ?thesis by simp
qed

section \<open>Money is neither created nor lost\<close>

lemma row_sum_owner:
  assumes "distinct (map w_ID ws)" and "list_all (\<lambda>t. t_WalletID t \<in> w_ID ` set ws) ts"
  shows "row_sum (\<lambda>w. row_sum (\<lambda>t. if t_WalletID t = w_ID w then f t else 0) ts) ws = row_sum f ts"
  using assms(2)
proof (induction ts)
  case Nil
  show ?case by (simp add: row_sum_zero)
next
  case (Cons t ts)
  then obtain w where w: "w \<in> set ws" "t_WalletID t = w_ID w" by auto
  have "row_sum (\<lambda>v. if w_ID v = w_ID w then f t else 0) ws = f t"
    using key_sum_unique [OF assms(1) w(1), of "\<lambda>_. f t"] by (simp add: key_sum_def)
  moreover have "row_sum (\<lambda>v. if t_WalletID t = w_ID v then f t else 0) ws =
      row_sum (\<lambda>v. if w_ID v = w_ID w then f t else 0) ws"
    by (rule row_sum_cong) (auto simp: w(2))
  ultimately show ?case
    unfolding row_sum_Cons row_sum_add using Cons by simp
qed

text \<open>C3. In every database that a history of wallet calls can lead to, the balances of all wallets
  together are the recharges and redeem codes credited less the AI runs charged.\<close>

definition booked :: "string \<Rightarrow> Transaction list \<Rightarrow> int" where
  "booked src ts = row_sum (\<lambda>t. if t_SourceType t = src then t_AmountUnits t else 0) ts"

theorem money_conserved:
  assumes "wallet_reachable s"
  shows "row_sum w_BalanceUnits (wallets (tables s)) =
    booked SourceRecharge (transactions (tables s)) + booked SourceRedeemCode (transactions (tables s))
      - booked SourceAIGenerate (transactions (tables s))"
proof -
  let ?D = "tables s"
  let ?signed = "\<lambda>t. if t_Direction t = DirectionIn then t_AmountUnits t
      else if t_Direction t = DirectionOut then - t_AmountUnits t else 0"
  have inv: "wallet_inv ?D" using reachable_ok [OF assms] by (rule wallet_state_okD)
  have one: "w_BalanceUnits w = row_sum (\<lambda>t. if t_WalletID t = w_ID w then ?signed t else 0) (transactions ?D)"
    if "w \<in> set (wallets ?D)" for w
  proof -
    have "row_sum (in_units i) ts - row_sum (out_units i) ts =
        row_sum (\<lambda>t. if t_WalletID t = i then ?signed t else 0) ts" for i ts
      by (induction ts) (auto simp: in_units_def out_units_def)
    then show ?thesis using wallet_numbers(9) [OF inv that] wallet_invD(2) [OF inv that]
      by (simp add: wallet_ok_def)
  qed
  have "list_all (\<lambda>t. t_WalletID t \<in> w_ID ` set (wallets ?D)) (transactions ?D)"
    using wallet_invD(4) [OF inv] owners_id by (fastforce simp: list_all_iff transaction_ok_def)
  then have "row_sum w_BalanceUnits (wallets ?D) = row_sum ?signed (transactions ?D)"
    using row_sum_owner [OF wallet_keysD(1) [OF inv], of _ ?signed]
      row_sum_cong [of "wallets ?D", OF one] by simp
  moreover have "row_sum ?signed ts = booked SourceRecharge ts + booked SourceRedeemCode ts
      - booked SourceAIGenerate ts" if "list_all (transaction_ok (wallets ?D) (holds ?D)) ts" for ts
    using that by (induction ts) (auto simp: booked_def transaction_ok_def split: if_splits)
  ultimately show ?thesis using wallet_inv_lists(2) [OF inv] by simp
qed

theorem money_conserved_witness:
  "row_sum w_BalanceUnits (wallets (tables demo_first)) =
    booked SourceRecharge (transactions (tables demo_first))
      + booked SourceRedeemCode (transactions (tables demo_first))
      - booked SourceAIGenerate (transactions (tables demo_first))"
  by (rule money_conserved [OF demo_first_reachable])

section \<open>Holds\<close>

text \<open>C4. A reservation (or top-up) that returns leaves the run with an active hold of its owner of at
  least the amount asked for, and the user's holds together never exceed the balance, which is
  unchanged; a smaller repeat changes nothing.\<close>

theorem reserve_never_overcommits:
  assumes "wallet_state_ok s" and "n \<le> max_int64" and "Returns (ReserveHoldInTx configured ev tx u r n) s h t"
  shows "wallet_state_ok t \<and> h_UserID h = u \<and> h_RunID h = r \<and> h_Status h = HoldActive \<and> n \<le> h_HeldUnits h \<and>
    (\<exists>m. n \<le> m \<and> as_run (account_of (tables t)) r = Some (u, RunHeld m)) \<and>
    as_held (account_of (tables t)) u \<le> as_balance (account_of (tables t)) u \<and>
    as_balance (account_of (tables t)) = as_balance (account_of (tables s)) \<and>
    as_ledger (account_of (tables t)) = as_ledger (account_of (tables s))"
proof -
  have run: "Returns (reserveHold configured ev tx u r n) s h t"
    using assms(3) by (simp add: ReserveHoldInTx_def)
  note R = reserveHold_effect [OF assms(1,2) run]
  then have inv: "wallet_inv (tables t)" by (auto dest: wallet_state_okD)
  have "as_held (account_of (tables t)) u \<le> as_balance (account_of (tables t)) u"
  proof (cases "u \<in> w_UserID ` set (wallets (tables t))")
    case True
    then obtain w where w: "w \<in> set (wallets (tables t))" "w_UserID w = u" by auto
    show ?thesis using account_of_wallet [OF inv w(1)] wallet_numbers(5) [OF inv w(1)] w(2) by simp
  next
    case False
    then show ?thesis by (simp add: account_of_def key_sum_none)
  qed
  moreover have "(\<exists>m. n \<le> m \<and> as_run (account_of (tables t)) r = Some (u, RunHeld m)) \<and>
      as_balance (account_of (tables t)) = as_balance (account_of (tables s)) \<and>
      as_ledger (account_of (tables t)) = as_ledger (account_of (tables s))"
    using spec_reserve_Some [OF conjunct1 [OF conjunct2 [OF R]]] .
  ultimately show ?thesis using R by simp
qed

abbreviation demo_reserve :: "(wallet_error, wallet_tables world, Hold) act" where
  "demo_reserve \<equiv> ReserveHoldInTx True demo_env open_tx 7 11 450"

theorem reserve_never_overcommits_witness:
  "succeeds demo_reserve demo_world \<and> h_RunID (answer demo_reserve demo_world) = 11 \<and>
   450 \<le> h_HeldUnits (answer demo_reserve demo_world) \<and>
   as_held (account_of (tables (final_state demo_reserve demo_world))) 7
     \<le> as_balance (account_of (tables (final_state demo_reserve demo_world))) 7"
proof -
  have run: "succeeds demo_reserve demo_world" by code_simp
  have n: "450 \<le> max_int64" by (simp add: max_int64_def)
  from reserve_never_overcommits [OF demo_world_ok n Returns_run [OF run]] run show ?thesis by blast
qed

text \<open>C5. A capture that returns has charged exactly the amount asked for: a first capture lowers the
  balance by it, frees the whole hold and books one ledger row of that amount for the run (none
  for zero); a repeated capture changes nothing; any other amount is refused.\<close>

theorem capture_charges_exactly:
  assumes "wallet_state_ok s" and "Returns (CaptureHoldInTx configured ev tx i) s (w, ledger) t"
  shows "wallet_state_ok t \<and>
    spec_capture (cap_UserID i) (cap_RunID i) (cap_ActualUnits i) (account_of (tables s)) =
      Some (account_of (tables t)) \<and>
    charge_row (cap_RunID i) (cap_ActualUnits i) ledger (transactions (tables t)) \<and>
    w_BalanceUnits w = as_balance (account_of (tables t)) (cap_UserID i)"
  using CaptureHold_effect [OF assms] by simp

definition demo_capture_input :: CaptureHoldInput where
  "demo_capture_input = \<lparr>cap_UserID = 7, cap_RunID = 11, cap_ActualUnits = 150, cap_SourceSummary = ''chat''\<rparr>"

abbreviation demo_capture :: "(wallet_error, wallet_tables world, Wallet \<times> Transaction option) act" where
  "demo_capture \<equiv> CaptureHoldInTx True demo_env open_tx demo_capture_input"

theorem capture_charges_exactly_witness:
  "succeeds demo_capture demo_world \<and> w_BalanceUnits (fst (answer demo_capture demo_world)) = 350 \<and>
   charge_row 11 150 (snd (answer demo_capture demo_world)) (transactions (tables (final_state demo_capture demo_world)))"
proof -
  have run: "succeeds demo_capture demo_world"
    and b: "w_BalanceUnits (fst (answer demo_capture demo_world)) = 350"
    by code_simp+
  obtain w ledger where wl: "answer demo_capture demo_world = (w, ledger)" by fastforce
  from capture_charges_exactly [OF demo_world_ok Returns_run [OF run, unfolded wl]] run b wl
  show ?thesis by (simp add: demo_capture_input_def)
qed

section \<open>Once and only once\<close>

text \<open>C6. A recharge is credited once: after a credit that returned, whatever wallet calls follow, a
  further credit of the same recharge that returns changes no account, answers that it was
  replayed and is for the amount of the first.\<close>

theorem recharge_credited_once:
  assumes "wallet_state_ok s" and "cr_AmountUnits i \<le> max_int64" and "cr_AmountUnits j \<le> max_int64"
    and "cr_RechargeID j = cr_RechargeID i"
    and "Returns (CreditRechargeInTx c1 ev1 tx1 i) s f t" and "wallet_step\<^sup>*\<^sup>* t s'"
    and "Returns (CreditRechargeInTx c2 ev2 tx2 j) s' g t'"
  shows "account_of (tables t') = account_of (tables s') \<and> rf_Disposition g = RechargeCreditReplayed \<and>
    cr_AmountUnits j = cr_AmountUnits i"
proof -
  let ?k = "(SourceRecharge, cr_RechargeID i)"
  note first = CreditRecharge_effect [OF assms(1,2,5)]
  then have "as_ledger (account_of (tables t)) ?k = Some (cr_AmountUnits i)"
    by (auto simp: spec_credit_def split: option.splits if_splits dest: sym)
  moreover note S = wallet_steps_extend [OF assms(6)]
  ultimately have booked: "as_ledger (account_of (tables s')) ?k = Some (cr_AmountUnits i)"
    and ok: "wallet_state_ok s'"
    using first by (simp_all add: spec_extends_def)
  from CreditRecharge_effect [OF ok assms(3,7)] booked assms(4)
  show ?thesis by (auto simp: spec_credit_def split: if_splits)
qed

definition demo_credit_input :: CreditRechargeInput where
  "demo_credit_input = \<lparr>cr_UserID = 7, cr_RechargeID = 4, cr_AmountUnits = 90, cr_Remark = ''x''\<rparr>"

abbreviation demo_credit :: "(wallet_error, wallet_tables world, RechargeCreditFact) act" where
  "demo_credit \<equiv> CreditRechargeInTx True demo_env open_tx demo_credit_input"

theorem recharge_credited_once_witness:
  "succeeds demo_credit demo_world \<and> succeeds demo_credit (final_state demo_credit demo_world) \<and>
   rf_Disposition (answer demo_credit (final_state demo_credit demo_world)) = RechargeCreditReplayed"
proof -
  have one: "succeeds demo_credit demo_world"
    and two: "succeeds demo_credit (final_state demo_credit demo_world)" by code_simp+
  have le: "cr_AmountUnits demo_credit_input \<le> max_int64" by (simp add: demo_credit_input_def max_int64_def)
  from recharge_credited_once [OF demo_world_ok le le refl Returns_run [OF one] rtranclp.rtrancl_refl
      Returns_run [OF two]] one two
  show ?thesis by simp
qed

text \<open>A redeem code is credited at most once: after a credit that returned, whatever wallet calls
  follow, any further credit of that code, by any user and of any amount, fails.\<close>

theorem redeem_code_credited_once:
  assumes "wallet_state_ok s" and "rc_AmountUnits i \<le> max_int64" and "rc_AmountUnits j \<le> max_int64"
    and "rc_CodeID j = rc_CodeID i"
    and "Returns (CreditRedeemCodeInTx c1 ev1 tx1 i now) s (w, x) t" and "wallet_step\<^sup>*\<^sup>* t s'"
  shows "\<exists>e t'. Fails (CreditRedeemCodeInTx c2 ev2 tx2 j now') s' e t'"
proof (rule Returns_or_Fails [of "CreditRedeemCodeInTx c2 ev2 tx2 j now'" s'])
  fix a t'
  assume again: "Returns (CreditRedeemCodeInTx c2 ev2 tx2 j now') s' a t'"
  let ?k = "(SourceRedeemCode, rc_CodeID i)"
  note first = CreditRedeemCode_effect [OF assms(1,2,5)]
  then have booked: "as_ledger (account_of (tables t)) ?k = Some (rc_AmountUnits i)"
    by (auto simp: spec_credit_def split: option.splits if_splits dest: sym)
  from wallet_steps_extend [OF assms(6)] first booked
  have ok: "wallet_state_ok s'" and "as_ledger (account_of (tables s')) ?k = Some (rc_AmountUnits i)"
    by (simp_all add: spec_extends_def)
  moreover obtain v y where "a = (v, y)" by fastforce
  ultimately show ?thesis
    using CreditRedeemCode_effect [OF ok assms(3) again [unfolded \<open>a = (v, y)\<close>]] assms(4) by simp
qed blast

definition demo_redeem_input :: RedeemCodeCreditInput where
  "demo_redeem_input = \<lparr>rc_UserID = 7, rc_CodeID = 21, rc_AmountUnits = 40, rc_BatchNo = ''RCB1''\<rparr>"

abbreviation demo_redeem :: "(wallet_error, wallet_tables world, Wallet \<times> Transaction) act" where
  "demo_redeem \<equiv> CreditRedeemCodeInTx True demo_env open_tx demo_redeem_input 63900000000000000000"

theorem redeem_code_credited_once_witness:
  "succeeds demo_redeem demo_world \<and>
   (\<exists>e t. Fails demo_redeem (final_state demo_redeem demo_world) e t)"
proof -
  have one: "succeeds demo_redeem demo_world" by code_simp
  have le: "rc_AmountUnits demo_redeem_input \<le> max_int64" by (simp add: demo_redeem_input_def max_int64_def)
  obtain w x where wx: "answer demo_redeem demo_world = (w, x)" by fastforce
  from redeem_code_credited_once [OF demo_world_ok le le refl Returns_run [OF one, unfolded wx]
      rtranclp.rtrancl_refl] one
  show ?thesis by blast
qed

text \<open>C7. A captured or released run is settled for good: whatever wallet calls follow, its state and
  every booked ledger entry stay as they are, so it is never charged twice or held again.\<close>

theorem settled_runs_stay_settled:
  assumes "wallet_state_ok s" and "wallet_step\<^sup>*\<^sup>* s t" and "run_over (account_of (tables s)) r"
  shows "as_run (account_of (tables t)) r = as_run (account_of (tables s)) r \<and>
    (\<forall>k m. as_ledger (account_of (tables s)) k = Some m \<longrightarrow> as_ledger (account_of (tables t)) k = Some m) \<and>
    (\<forall>c ev tx u n h t'. n \<le> max_int64 \<longrightarrow> \<not> Returns (ReserveHoldInTx c ev tx u r n) t h t')"
proof -
  from wallet_steps_extend [OF assms(2,1)] assms(3)
  have ok: "wallet_state_ok t" and same: "as_run (account_of (tables t)) r = as_run (account_of (tables s)) r"
    and ledger: "\<forall>k m. as_ledger (account_of (tables s)) k = Some m \<longrightarrow> as_ledger (account_of (tables t)) k = Some m"
    by (simp_all add: spec_extends_def)
  have "\<not> Returns (ReserveHoldInTx c ev tx u r n) t h t'" if "n \<le> max_int64" for c ev tx u n h t'
  proof
    assume "Returns (ReserveHoldInTx c ev tx u r n) t h t'"
    with reserveHold_effect [OF ok that] have "spec_reserve u r n (account_of (tables t)) \<noteq> None"
      by (auto simp: ReserveHoldInTx_def)
    with same assms(3) show False by (auto simp: spec_reserve_def run_over_def)
  qed
  with same ledger show ?thesis by blast
qed

theorem settled_runs_stay_settled_witness:
  "run_over (account_of (tables demo_world)) 12 \<and>
   (\<forall>h t. \<not> Returns (ReserveHoldInTx True demo_env open_tx 7 12 5) demo_world h t)"
proof -
  have "as_run (account_of (tables demo_world)) 12 = Some (7, RunReleased)" by code_simp
  then have over: "run_over (account_of (tables demo_world)) 12" by (simp add: run_over_def)
  have "5 \<le> max_int64" by (simp add: max_int64_def)
  with settled_runs_stay_settled [OF demo_world_ok rtranclp.rtrancl_refl over] over show ?thesis by blast
qed

section \<open>A hold can always be settled\<close>



end
