(* ===== verification/Billing.thy ===== *)
theory Billing
  imports Prelude
begin

text \<open>
  \<open>internal/module/ai/billing/contracts.go\<close>: usage items and their normalisation, and the
  transition tables of the billing, hold and attempt states of an AI run. Go's string types stay
  strings, so a value outside the declared constants is a value here too. The lemmas show that
  normalising is idempotent and that the tables are the reflexive closures of two acyclic
  machines whose final states are absorbing.
\<close>

section \<open>Constants\<close>

definition BillingStatusPending :: string where "BillingStatusPending = ''pending''"
definition BillingStatusHeld :: string where "BillingStatusHeld = ''held''"
definition BillingStatusSettled :: string where "BillingStatusSettled = ''settled''"
definition BillingStatusReleased :: string where "BillingStatusReleased = ''released''"
definition BillingStatusUnbilled :: string where "BillingStatusUnbilled = ''unbilled''"

definition HoldStatusActive :: string where "HoldStatusActive = ''active''"
definition HoldStatusCaptured :: string where "HoldStatusCaptured = ''captured''"
definition HoldStatusReleased :: string where "HoldStatusReleased = ''released''"

definition UsageCategoryInputText :: string where "UsageCategoryInputText = ''input''"
definition UsageCategoryOutputText :: string where "UsageCategoryOutputText = ''output''"
definition UsageCategoryCacheRead :: string where "UsageCategoryCacheRead = ''cache_read''"
definition UsageCategoryCacheWrite :: string where "UsageCategoryCacheWrite = ''cache_write''"
definition UsageCategoryMedia :: string where "UsageCategoryMedia = ''media''"

definition AttemptStatePrepared :: string where "AttemptStatePrepared = ''prepared''"
definition AttemptStateDispatched :: string where "AttemptStateDispatched = ''dispatched''"
definition AttemptStateSucceeded :: string where "AttemptStateSucceeded = ''succeeded''"
definition AttemptStateFailed :: string where "AttemptStateFailed = ''failed''"
definition AttemptStateCanceled :: string where "AttemptStateCanceled = ''canceled''"
definition AttemptStateOutcomeUnknown :: string where "AttemptStateOutcomeUnknown = ''outcome_unknown''"

lemmas billing_status_defs = BillingStatusPending_def BillingStatusHeld_def BillingStatusSettled_def
  BillingStatusReleased_def BillingStatusUnbilled_def
lemmas hold_status_defs = HoldStatusActive_def HoldStatusCaptured_def HoldStatusReleased_def
lemmas usage_category_defs = UsageCategoryInputText_def UsageCategoryOutputText_def
  UsageCategoryCacheRead_def UsageCategoryCacheWrite_def UsageCategoryMedia_def
lemmas attempt_state_defs = AttemptStatePrepared_def AttemptStateDispatched_def AttemptStateSucceeded_def
  AttemptStateFailed_def AttemptStateCanceled_def AttemptStateOutcomeUnknown_def

section \<open>Usage items\<close>

record UsageItem =
  u_Category :: string
  u_Unit :: string
  u_TierKey :: string
  u_Quantity :: int

datatype usage_error = ErrInvalidUsageItem

definition validUsageCategory :: "string \<Rightarrow> bool" where
  "validUsageCategory category \<longleftrightarrow>
     category = UsageCategoryInputText \<or> category = UsageCategoryOutputText \<or>
     category = UsageCategoryCacheRead \<or> category = UsageCategoryCacheWrite \<or>
     category = UsageCategoryMedia"

definition Normalized :: "UsageItem \<Rightarrow> usage_error + UsageItem" where
  "Normalized item =
     (let item = item\<lparr>u_Unit := trim_space (u_Unit item), u_TierKey := trim_space (u_TierKey item)\<rparr>
      in if \<not> validUsageCategory (u_Category item) \<or> u_Unit item = [] \<or> u_Quantity item < 0
         then Inl ErrInvalidUsageItem
         else Inr item)"

definition usage_Validate :: "UsageItem \<Rightarrow> usage_error option" where
  "usage_Validate item = (case Normalized item of Inl e \<Rightarrow> Some e | Inr _ \<Rightarrow> None)"

lemma Normalized_Inr:
  "Normalized item = Inr n \<longleftrightarrow>
     n = item\<lparr>u_Unit := trim_space (u_Unit item), u_TierKey := trim_space (u_TierKey item)\<rparr> \<and>
     validUsageCategory (u_Category item) \<and> trim_space (u_Unit item) \<noteq> [] \<and> 0 \<le> u_Quantity item"
  by (auto simp: Normalized_def Let_def)

lemma Normalized_fields:
  "Normalized item = Inr n \<Longrightarrow> u_Category n = u_Category item \<and> u_Quantity n = u_Quantity item \<and>
     0 \<le> u_Quantity n \<and> trim_space (u_Unit n) = u_Unit n \<and> trim_space (u_TierKey n) = u_TierKey n"
  by (simp add: Normalized_Inr)

lemma Normalized_idem: "Normalized item = Inr n \<Longrightarrow> Normalized n = Inr n"
  by (simp add: Normalized_Inr)

section \<open>Transition tables\<close>

definition validBillingStatus :: "string \<Rightarrow> bool" where
  "validBillingStatus status \<longleftrightarrow>
     status = BillingStatusPending \<or> status = BillingStatusHeld \<or> status = BillingStatusSettled \<or>
     status = BillingStatusReleased \<or> status = BillingStatusUnbilled"

definition validHoldStatus :: "string \<Rightarrow> bool" where
  "validHoldStatus status \<longleftrightarrow>
     status = HoldStatusActive \<or> status = HoldStatusCaptured \<or> status = HoldStatusReleased"

definition validAttemptState :: "string \<Rightarrow> bool" where
  "validAttemptState state \<longleftrightarrow>
     state = AttemptStatePrepared \<or> state = AttemptStateDispatched \<or> state = AttemptStateSucceeded \<or>
     state = AttemptStateFailed \<or> state = AttemptStateCanceled \<or> state = AttemptStateOutcomeUnknown"

definition CanTransitionBillingStatus :: "string \<Rightarrow> string \<Rightarrow> bool" where
  "CanTransitionBillingStatus from to =
     (if \<not> validBillingStatus from \<or> \<not> validBillingStatus to then False
      else if from = to then True
      else if from = BillingStatusPending then
        to = BillingStatusHeld \<or> to = BillingStatusReleased \<or> to = BillingStatusUnbilled
      else if from = BillingStatusHeld then
        to = BillingStatusSettled \<or> to = BillingStatusReleased \<or> to = BillingStatusUnbilled
      else False)"

definition CanTransitionHoldStatus :: "string \<Rightarrow> string \<Rightarrow> bool" where
  "CanTransitionHoldStatus from to =
     (if \<not> validHoldStatus from \<or> \<not> validHoldStatus to then False
      else from = to \<or> from = HoldStatusActive \<and> (to = HoldStatusCaptured \<or> to = HoldStatusReleased))"

definition CanTransitionAttemptState :: "string \<Rightarrow> string \<Rightarrow> bool" where
  "CanTransitionAttemptState from to =
     (if \<not> validAttemptState from \<or> \<not> validAttemptState to then False
      else if from = to then True
      else if from = AttemptStatePrepared then
        to = AttemptStateDispatched \<or> to = AttemptStateCanceled
      else if from = AttemptStateDispatched then
        to = AttemptStateSucceeded \<or> to = AttemptStateFailed \<or> to = AttemptStateCanceled \<or>
        to = AttemptStateOutcomeUnknown
      else False)"

text \<open>How far a run's billing has come: a status can only go up, or stay.\<close>

definition billing_rank :: "string \<Rightarrow> nat" where
  "billing_rank status =
     (if status = BillingStatusPending then 0 else if status = BillingStatusHeld then 1 else 2)"

lemma billing_transition_rank:
  "CanTransitionBillingStatus a b \<Longrightarrow> a = b \<or> billing_rank a < billing_rank b"
  by (auto simp: CanTransitionBillingStatus_def billing_rank_def billing_status_defs split: if_splits)

definition attempt_rank :: "string \<Rightarrow> nat" where
  "attempt_rank state =
     (if state = AttemptStatePrepared then 0 else if state = AttemptStateDispatched then 1 else 2)"

lemma attempt_transition_rank:
  "CanTransitionAttemptState a b \<Longrightarrow> a = b \<or> attempt_rank a < attempt_rank b"
  by (auto simp: CanTransitionAttemptState_def attempt_rank_def attempt_state_defs split: if_splits)

text \<open>A sequence of statuses every step of which the code allows.\<close>

fun billing_path :: "string list \<Rightarrow> bool" where
  "billing_path (a # b # rest) \<longleftrightarrow> CanTransitionBillingStatus a b \<and> billing_path (b # rest)"
| "billing_path _ \<longleftrightarrow> True"

lemma billing_path_rank: "billing_path (a # ps) \<Longrightarrow> b \<in> set ps \<Longrightarrow> a = b \<or> billing_rank a < billing_rank b"
proof (induction ps arbitrary: a)
  case (Cons c ps)
  then have "a = c \<or> billing_rank a < billing_rank c" by (simp add: billing_transition_rank)
  moreover have "b = c \<or> c = b \<or> billing_rank c < billing_rank b" using Cons by auto
  ultimately show ?case by auto
qed simp

text \<open>In a history of a run's billing status in which every change passes the table of the
  code, a final status (settled, released, unbilled) is never left, pending is never entered
  again, and settled is reached only through held.\<close>

theorem billing_history:
  assumes "billing_path (ps @ a # qs)"
  shows "(a \<in> {BillingStatusSettled, BillingStatusReleased, BillingStatusUnbilled} \<longrightarrow> set qs \<subseteq> {a}) \<and>
    (a \<noteq> BillingStatusPending \<longrightarrow> BillingStatusPending \<notin> set qs) \<and>
    (a = BillingStatusPending \<and> BillingStatusSettled \<in> set qs \<longrightarrow> BillingStatusHeld \<in> set qs)"
proof -
  have path: "billing_path (a # qs)"
    using assms by (induction ps rule: induct_list012) (auto elim: billing_path.elims)
  have later: "b = a \<or> billing_rank a < billing_rank b" if "b \<in> set qs" for b
    using billing_path_rank [OF path that] by auto
  have settled: "BillingStatusHeld \<in> set qs"
    if "a = BillingStatusPending" "BillingStatusSettled \<in> set qs" "billing_path (a # qs)" for a qs
    using that
  proof (induction qs arbitrary: a)
    case (Cons b qs)
    then have "b \<in> {BillingStatusPending, BillingStatusHeld, BillingStatusReleased, BillingStatusUnbilled}"
      by (auto simp: CanTransitionBillingStatus_def split: if_splits)
    moreover have "b = BillingStatusSettled \<or> BillingStatusSettled \<in> set qs" using Cons.prems by auto
    moreover have "\<not> (b \<noteq> BillingStatusSettled \<and> billing_rank b = 2 \<and> BillingStatusSettled \<in> set qs)"
      using Cons.prems(3) billing_path_rank [of b qs BillingStatusSettled]
      by (auto simp: billing_rank_def billing_status_defs)
    ultimately show ?case
      using Cons by (auto simp: billing_rank_def billing_status_defs)
  qed simp
  have final: "billing_rank b \<le> 2"
    "a \<in> {BillingStatusSettled, BillingStatusReleased, BillingStatusUnbilled} \<Longrightarrow> billing_rank a = 2"
    "a \<noteq> BillingStatusPending \<Longrightarrow> 0 < billing_rank a" "billing_rank BillingStatusPending = 0" for b
    by (auto simp: billing_rank_def billing_status_defs)
  have "set qs \<subseteq> {a}" if "a \<in> {BillingStatusSettled, BillingStatusReleased, BillingStatusUnbilled}"
    using later final(1) final(2) [OF that] by (metis insert_iff leD subsetI)
  moreover have "BillingStatusPending \<notin> set qs" if "a \<noteq> BillingStatusPending"
    using later [of BillingStatusPending] final(4) that by auto
  ultimately show ?thesis using settled [OF _ _ path] by blast
qed

theorem billing_history_witness:
  "set [BillingStatusReleased] \<subseteq> {BillingStatusReleased}"
proof -
  have "billing_path ([BillingStatusPending, BillingStatusHeld] @ BillingStatusReleased # [BillingStatusReleased])"
    by code_simp
  from billing_history [OF this] show ?thesis by simp
qed

end
