(* ===== verification/Pricing.thy ===== *)
theory Pricing
  imports Complex_Main "HOL-Library.Multiset" Billing
begin

text \<open>
  \<open>internal/module/ai/pricing\<close>: the price book of a model (types.go), the choice of the tier a
  usage line is priced at (tier.go), the exact quote with one rounding up of the total and its
  allocation to the lines by largest remainder (quote.go, usage.go). \<open>big.Rat\<close> is \<open>rat\<close>, whose
  \<open>quotient_of\<close> is numerator and positive denominator in lowest terms, as Go keeps them;
  \<open>big.Int\<close> is \<open>int\<close>.
\<close>

section \<open>Price books and quote lines (types.go, usage.go)\<close>

definition InputTokens :: string where "InputTokens = ''input''"
definition OutputTokens :: string where "OutputTokens = ''output''"
definition CacheRead :: string where "CacheRead = ''cache_read''"
definition CacheWrite :: string where "CacheWrite = ''cache_write''"
definition MediaUnits :: string where "MediaUnits = ''media''"

lemmas pricing_category_defs = InputTokens_def OutputTokens_def CacheRead_def CacheWrite_def MediaUnits_def

record Rate =
  r_Category :: string
  r_Unit :: string
  r_TierKey :: string
  r_PriceUnits :: int
  r_UnitScale :: int

record PriceBook =
  p_ModelID :: string
  p_ContextTierThresholdTokens :: int
  p_Rates :: "Rate list"

record QuoteLine =
  q_Key :: string
  q_AttemptID :: string
  q_Item :: UsageItem

record QuoteLineResult =
  qr_Key :: string
  qr_AttemptID :: string
  qr_Rate :: Rate
  qr_AmountUnits :: int

record QuoteResult =
  quote_AmountUnits :: int
  quote_Lines :: "QuoteLineResult list"

record exactLine =
  e_index :: nat
  e_key :: string
  e_attemptID :: string
  e_category :: string
  e_tierKey :: string
  e_unit :: string
  e_rate :: Rate
  e_value :: rat

datatype pricing_error =
    ErrPriceUnavailable
  | ErrMissingModel
  | ErrInvalidCatalog
  | ErrUnsupportedUsage
  | ErrInvalidMultiplier
  | ErrDuplicateLine
  | ErrQuoteOverflow

definition multiplierScale :: int where "multiplierScale = 1000000"

definition validCategory :: "string \<Rightarrow> bool" where
  "validCategory category \<longleftrightarrow>
     category = InputTokens \<or> category = OutputTokens \<or> category = CacheRead \<or>
     category = CacheWrite \<or> category = MediaUnits"

definition rateKey :: "string \<Rightarrow> string \<Rightarrow> string \<Rightarrow> string" where
  "rateKey category unit tier = category @ [CHR 0x00] @ unit @ [CHR 0x00] @ tier"

definition categoryForUsage :: "string \<Rightarrow> string option" where
  "categoryForUsage category =
     (if category = UsageCategoryInputText then Some InputTokens
      else if category = UsageCategoryOutputText then Some OutputTokens
      else if category = UsageCategoryCacheRead then Some CacheRead
      else if category = UsageCategoryCacheWrite then Some CacheWrite
      else if category = UsageCategoryMedia then Some MediaUnits
      else None)"

definition usageCategoryForPricing :: "string \<Rightarrow> string" where
  "usageCategoryForPricing category =
     (if category = InputTokens then UsageCategoryInputText
      else if category = OutputTokens then UsageCategoryOutputText
      else if category = CacheRead then UsageCategoryCacheRead
      else if category = CacheWrite then UsageCategoryCacheWrite
      else if category = MediaUnits then UsageCategoryMedia
      else [])"

definition normalizedAttemptID :: "QuoteLine \<Rightarrow> string" where
  "normalizedAttemptID line =
     (let attempt = trim_space (q_AttemptID line) in if attempt = [] then q_Key line else attempt)"

section \<open>Tiers (tier.go)\<close>

definition ratesFor :: "PriceBook \<Rightarrow> string \<Rightarrow> string \<Rightarrow> Rate list" where
  "ratesFor price category unit =
     map (\<lambda>r. r\<lparr>r_Unit := trim_space (r_Unit r), r_TierKey := trim_space (r_TierKey r)\<rparr>)
       (filter (\<lambda>r. r_Category r = category \<and> trim_space (r_Unit r) = unit) (p_Rates price))"

definition hasTier :: "Rate list \<Rightarrow> string \<Rightarrow> bool" where
  "hasTier rates tier \<longleftrightarrow> list_ex (\<lambda>r. r_TierKey r = tier) rates"

text \<open>Go compares strings byte by byte.\<close>

fun string_less :: "string \<Rightarrow> string \<Rightarrow> bool" where
  "string_less s [] = False"
| "string_less [] (d # t) = True"
| "string_less (c # s) (d # t) =
     ((of_char c :: int) < of_char d \<or> c = d \<and> string_less s t)"

definition dearer :: "Rate \<Rightarrow> Rate \<Rightarrow> bool" where
  "dearer rate best \<longleftrightarrow>
     (let left = r_PriceUnits rate * r_UnitScale best; right = r_PriceUnits best * r_UnitScale rate
      in right < left \<or> left = right \<and> string_less (r_TierKey best) (r_TierKey rate))"

text \<open>The loop over \<open>rates[1:]\<close>; the callers never pass an empty slice.\<close>

definition mostExpensive :: "Rate list \<Rightarrow> Rate" where
  "mostExpensive rates = foldl (\<lambda>best rate. if dearer rate best then rate else best) (hd rates) (tl rates)"

text \<open>The first loop of selectTiers: normalised items and the input tokens of every attempt.\<close>

fun attempt_totals ::
    "QuoteLine list \<Rightarrow> (string \<Rightarrow> int) \<Rightarrow> pricing_error + (QuoteLine list \<times> (string \<Rightarrow> int))" where
  "attempt_totals [] totals = Inr ([], totals)"
| "attempt_totals (line # lines) totals =
     (case Normalized (q_Item line) of
        Inl _ \<Rightarrow> Inl ErrUnsupportedUsage
      | Inr item \<Rightarrow>
          let line = line\<lparr>q_Item := item\<rparr>
          in case categoryForUsage (u_Category item) of
               None \<Rightarrow> Inl ErrUnsupportedUsage
             | Some category \<Rightarrow>
                 if category \<noteq> InputTokens \<and> category \<noteq> CacheRead \<and> category \<noteq> CacheWrite then
                   (case attempt_totals lines totals of
                      Inl e \<Rightarrow> Inl e | Inr (rest, totals') \<Rightarrow> Inr (line # rest, totals'))
                 else
                   let attempt = normalizedAttemptID line
                   in if sub64 max_int64 (totals attempt) < u_Quantity item then Inl ErrQuoteOverflow
                      else
                        (case attempt_totals lines
                            (totals(attempt := add64 (totals attempt) (u_Quantity item))) of
                           Inl e \<Rightarrow> Inl e | Inr (rest, totals') \<Rightarrow> Inr (line # rest, totals')))"

text \<open>The choice for one line in the second loop: reserving, and settling.\<close>

definition reserve_tier :: "PriceBook \<Rightarrow> UsageItem \<Rightarrow> string \<Rightarrow> Rate list \<Rightarrow> pricing_error + UsageItem" where
  "reserve_tier price item category candidates =
     (if category = InputTokens \<and> u_TierKey item = [] then
        let selected = mostExpensive (candidates @ ratesFor price CacheRead (u_Unit item)
              @ ratesFor price CacheWrite (u_Unit item))
        in Inr (item\<lparr>u_Category := usageCategoryForPricing (r_Category selected),
                     u_TierKey := r_TierKey selected\<rparr>)
      else if hasTier candidates ''short_context'' \<and> hasTier candidates ''long_context'' then
        Inr (item\<lparr>u_TierKey := r_TierKey (mostExpensive candidates)\<rparr>)
      else if u_TierKey item \<noteq> [] then
        if \<not> hasTier candidates (u_TierKey item) then Inl ErrPriceUnavailable else Inr item
      else Inr (item\<lparr>u_TierKey := r_TierKey (mostExpensive candidates)\<rparr>))"

definition context_tier :: "PriceBook \<Rightarrow> int \<Rightarrow> Rate list \<Rightarrow> string" where
  "context_tier price tot candidates =
     (if 0 < p_ContextTierThresholdTokens price \<and> hasTier candidates ''short_context'' \<and>
         hasTier candidates ''long_context''
      then if p_ContextTierThresholdTokens price < tot then ''long_context'' else ''short_context''
      else [])"

definition settle_tier :: "PriceBook \<Rightarrow> int \<Rightarrow> UsageItem \<Rightarrow> Rate list \<Rightarrow> pricing_error + UsageItem" where
  "settle_tier price tot item candidates =
     (let contextTier = context_tier price tot candidates
      in if contextTier \<noteq> [] then Inr (item\<lparr>u_TierKey := contextTier\<rparr>)
         else if u_TierKey item \<noteq> [] then
           if \<not> hasTier candidates (u_TierKey item) then Inl ErrPriceUnavailable else Inr item
         else if length candidates = 1 then Inr (item\<lparr>u_TierKey := r_TierKey (hd candidates)\<rparr>)
         else Inl ErrPriceUnavailable)"

definition select_line ::
    "PriceBook \<Rightarrow> bool \<Rightarrow> (string \<Rightarrow> int) \<Rightarrow> QuoteLine \<Rightarrow> pricing_error + QuoteLine" where
  "select_line price upperBound totals line =
     (case Normalized (q_Item line) of
        Inl _ \<Rightarrow> Inl ErrUnsupportedUsage
      | Inr item \<Rightarrow>
          (case categoryForUsage (u_Category item) of
             None \<Rightarrow> Inl ErrUnsupportedUsage
           | Some category \<Rightarrow>
               let candidates = ratesFor price category (u_Unit item)
               in if candidates = [] then
                    if category = MediaUnits then Inl ErrUnsupportedUsage else Inl ErrPriceUnavailable
                  else
                    (case (if upperBound then reserve_tier price item category candidates
                           else settle_tier price (totals (normalizedAttemptID line)) item candidates) of
                       Inl e \<Rightarrow> Inl e
                     | Inr item \<Rightarrow> Inr (line\<lparr>q_Item := item\<rparr>))))"

fun select_lines ::
    "PriceBook \<Rightarrow> bool \<Rightarrow> (string \<Rightarrow> int) \<Rightarrow> QuoteLine list \<Rightarrow> pricing_error + QuoteLine list" where
  "select_lines price upperBound totals [] = Inr []"
| "select_lines price upperBound totals (line # lines) =
     (case select_line price upperBound totals line of
        Inl e \<Rightarrow> Inl e
      | Inr line' \<Rightarrow>
          (case select_lines price upperBound totals lines of
             Inl e \<Rightarrow> Inl e | Inr rest \<Rightarrow> Inr (line' # rest)))"

definition selectTiers :: "PriceBook \<Rightarrow> QuoteLine list \<Rightarrow> bool \<Rightarrow> pricing_error + QuoteLine list" where
  "selectTiers price lines upperBound =
     (if upperBound then select_lines price True (\<lambda>_. 0) lines
      else case attempt_totals lines (\<lambda>_. 0) of
        Inl e \<Rightarrow> Inl e
      | Inr (lines, totals) \<Rightarrow> select_lines price False totals lines)"

definition UpperBoundLines :: "PriceBook \<Rightarrow> QuoteLine list \<Rightarrow> pricing_error + QuoteLine list" where
  "UpperBoundLines price lines = selectTiers price lines True"

definition SettlementLines :: "PriceBook \<Rightarrow> QuoteLine list \<Rightarrow> pricing_error + QuoteLine list" where
  "SettlementLines price lines = selectTiers price lines False"

section \<open>Quotes (quote.go)\<close>

text \<open>The map from rate keys to rates.\<close>

fun index_rates :: "Rate list \<Rightarrow> (string \<rightharpoonup> Rate) \<Rightarrow> pricing_error + (string \<rightharpoonup> Rate)" where
  "index_rates [] rateByKey = Inr rateByKey"
| "index_rates (rate # rates) rateByKey =
     (if r_UnitScale rate \<le> 0 \<or> r_PriceUnits rate < 0 \<or> trim_space (r_Unit rate) = [] \<or>
         \<not> validCategory (r_Category rate) then Inl ErrInvalidCatalog
      else
        let key = rateKey (r_Category rate) (trim_space (r_Unit rate)) (trim_space (r_TierKey rate))
        in case rateByKey key of
             Some _ \<Rightarrow> Inl ErrInvalidCatalog
           | None \<Rightarrow>
               let rate = rate\<lparr>r_Unit := trim_space (r_Unit rate), r_TierKey := trim_space (r_TierKey rate)\<rparr>
               in index_rates rates (rateByKey(key \<mapsto> rate)))"

text \<open>One line of the loop: the identities seen so far and the exact value of the line.\<close>

definition line_value :: "int \<Rightarrow> Rate \<Rightarrow> int \<Rightarrow> rat" where
  "line_value quantity rate multiplierPPM =
     Fract (quantity * r_PriceUnits rate) (r_UnitScale rate) * Fract multiplierPPM multiplierScale"

definition quote_line ::
    "(string \<rightharpoonup> Rate) \<Rightarrow> int \<Rightarrow> string list \<Rightarrow> string list \<Rightarrow> nat \<Rightarrow> QuoteLine
       \<Rightarrow> pricing_error + (string \<times> exactLine)" where
  "quote_line rateByKey multiplierPPM seenIDs seenIdentities index line =
     (if trim_space (q_Key line) = [] then Inl ErrDuplicateLine
      else if List.member seenIDs (q_Key line) then Inl ErrDuplicateLine
      else case Normalized (q_Item line) of
        Inl _ \<Rightarrow> Inl ErrUnsupportedUsage
      | Inr item \<Rightarrow>
          (case categoryForUsage (u_Category item) of
             None \<Rightarrow> Inl ErrUnsupportedUsage
           | Some category \<Rightarrow>
               let key = rateKey category (u_Unit item) (u_TierKey item);
                   attemptID = normalizedAttemptID line;
                   identity = attemptID @ [CHR 0x00] @ key
               in if List.member seenIdentities identity then Inl ErrDuplicateLine
                  else case rateByKey key of
                    None \<Rightarrow> if category = MediaUnits then Inl ErrUnsupportedUsage else Inl ErrPriceUnavailable
                  | Some rate \<Rightarrow>
                      Inr (identity, \<lparr>e_index = index, e_key = q_Key line, e_attemptID = attemptID,
                        e_category = category, e_tierKey = u_TierKey item, e_unit = u_Unit item,
                        e_rate = rate, e_value = line_value (u_Quantity item) rate multiplierPPM\<rparr>)))"

fun quote_lines ::
    "(string \<rightharpoonup> Rate) \<Rightarrow> int \<Rightarrow> string list \<Rightarrow> string list \<Rightarrow> nat \<Rightarrow> QuoteLine list
       \<Rightarrow> exactLine list \<Rightarrow> rat \<Rightarrow> pricing_error + (exactLine list \<times> rat)" where
  "quote_lines rateByKey ppm ids idents index [] exact tot = Inr (exact, tot)"
| "quote_lines rateByKey ppm ids idents index (line # lines) exact tot =
     (case quote_line rateByKey ppm ids idents index line of
        Inl e \<Rightarrow> Inl e
      | Inr (identity, x) \<Rightarrow>
          quote_lines rateByKey ppm (q_Key line # ids) (identity # idents) (Suc index) lines
            (exact @ [x]) (tot + e_value x))"

text \<open>The comparison of \<open>sort.SliceStable\<close> in allocate, and a stable sort by it.\<close>

definition fraction_before :: "exactLine \<Rightarrow> exactLine \<Rightarrow> bool" where
  "fraction_before x y \<longleftrightarrow>
     (let (xn, xd) = quotient_of (e_value x); (yn, yd) = quotient_of (e_value y);
          crossLeft = (xn mod xd) * yd; crossRight = (yn mod yd) * xd
      in if crossLeft \<noteq> crossRight then crossRight < crossLeft
         else if e_attemptID x \<noteq> e_attemptID y then string_less (e_attemptID x) (e_attemptID y)
         else if e_category x \<noteq> e_category y then string_less (e_category x) (e_category y)
         else if e_tierKey x \<noteq> e_tierKey y then string_less (e_tierKey x) (e_tierKey y)
         else if e_unit x \<noteq> e_unit y then string_less (e_unit x) (e_unit y)
         else string_less (e_key x) (e_key y))"

fun insert_stable :: "('a \<Rightarrow> 'a \<Rightarrow> bool) \<Rightarrow> 'a \<Rightarrow> 'a list \<Rightarrow> 'a list" where
  "insert_stable bef x [] = [x]"
| "insert_stable bef x (y # ys) = (if bef y x then y # insert_stable bef x ys else x # y # ys)"

definition SliceStable :: "('a \<Rightarrow> 'a \<Rightarrow> bool) \<Rightarrow> 'a list \<Rightarrow> 'a list" where
  "SliceStable bef xs = foldr (insert_stable bef) xs []"

definition add_unit :: "nat \<Rightarrow> QuoteLineResult list \<Rightarrow> QuoteLineResult list" where
  "add_unit i rs = rs[i := (rs ! i)\<lparr>qr_AmountUnits := add64 (qr_AmountUnits (rs ! i)) 1\<rparr>]"

definition floor_units :: "exactLine \<Rightarrow> int" where
  "floor_units x = (let (n, d) = quotient_of (e_value x) in wrap64 (sgn n * (\<bar>n\<bar> div d)))"

definition allocate :: "exactLine list \<Rightarrow> int \<Rightarrow> QuoteLineResult list" where
  "allocate lines tot =
     (let result = map (\<lambda>x. \<lparr>qr_Key = e_key x, qr_AttemptID = e_attemptID x, qr_Rate = e_rate x,
                             qr_AmountUnits = floor_units x\<rparr>) lines;
          floors = foldl add64 0 (map floor_units lines);
          remaining = sub64 tot floors;
          order = SliceStable fraction_before lines
      in foldl (\<lambda>rs i. add_unit (e_index (order ! (i mod length order))) rs) result
           [0..<nat remaining])"

text \<open>\<open>QuoRem\<close> and one more for a positive remainder.\<close>

definition round_up :: "rat \<Rightarrow> int" where
  "round_up tot =
     (let (numerator, denominator) = quotient_of tot;
          quotient = sgn numerator * (\<bar>numerator\<bar> div denominator);
          remainder = sgn numerator * (\<bar>numerator\<bar> mod denominator)
      in if 0 < remainder then quotient + 1 else quotient)"

definition Quote :: "PriceBook \<Rightarrow> QuoteLine list \<Rightarrow> int \<Rightarrow> pricing_error + QuoteResult" where
  "Quote price lines multiplierPPM =
     (if multiplierPPM \<le> 0 then Inl ErrInvalidMultiplier
      else if trim_space (p_ModelID price) = [] then Inl ErrMissingModel
      else case index_rates (p_Rates price) Map.empty of
        Inl e \<Rightarrow> Inl e
      | Inr rateByKey \<Rightarrow>
          (case quote_lines rateByKey multiplierPPM [] [] 0 lines [] 0 of
             Inl e \<Rightarrow> Inl e
           | Inr (exact, tot) \<Rightarrow>
               if exact = [] then Inr \<lparr>quote_AmountUnits = 0, quote_Lines = []\<rparr>
               else
                 let quotient = round_up tot
                 in if quotient < 0 \<or> \<not> in_int64 quotient \<or> max_int64 < quotient then Inl ErrQuoteOverflow
                    else Inr \<lparr>quote_AmountUnits = quotient, quote_Lines = allocate exact quotient\<rparr>))"

section \<open>Rationals as Go reads them\<close>

lemma rat_parts:
  assumes "quotient_of v = (n, d)"
  shows "0 < d" and "v = of_int n / of_int d" and "\<lfloor>v\<rfloor> = n div d" and "frac v = of_int (n mod d) / of_int d"
proof -
  show d: "0 < d" using assms by (rule quotient_of_denom_pos)
  show v: "v = of_int n / of_int d" using assms by (rule quotient_of_div)
  show f: "\<lfloor>v\<rfloor> = n div d" unfolding v by (rule floor_divide_of_int_eq)
  have "of_int n = (of_int (n div d) * of_int d + of_int (n mod d) :: rat)"
    by (metis div_mult_mod_eq of_int_add of_int_mult)
  then have "frac v * of_int d = of_int (n mod d)"
    using d unfolding frac_def f by (simp add: left_diff_distrib) (simp add: v)
  then show "frac v = of_int (n mod d) / of_int d"
    using d by (simp add: eq_divide_eq)
qed

lemma nonneg_parts: "0 \<le> v \<Longrightarrow> quotient_of v = (n, d) \<Longrightarrow> 0 \<le> n"
  using rat_parts(1,2) [of v n d] by (simp add: zero_le_divide_iff)

lemma round_up_ceiling:
  assumes "0 \<le> v"
  shows "round_up v = \<lceil>v\<rceil>"
proof -
  obtain n d where p: "quotient_of v = (n, d)" by fastforce
  note parts = rat_parts [OF p] and n = nonneg_parts [OF assms p]
  have "\<lceil>v\<rceil> = (if n mod d = 0 then n div d else n div d + 1)"
  proof (cases "n mod d = 0")
    case True
    then have "frac v = 0" using parts(4) by simp
    then have "v = of_int (n div d)" by (simp add: frac_def parts(3))
    with True show ?thesis by simp
  next
    case False
    then have "0 < n mod d" using parts(1) by (smt (verit) pos_mod_sign)
    then have "0 < frac v" using parts(1,4) by simp
    moreover have "frac v < 1" by (rule frac_lt_1)
    ultimately have "\<lceil>v\<rceil> = \<lfloor>v\<rfloor> + 1" by (simp add: frac_def ceiling_eq_iff)
    with False show ?thesis by (simp add: parts(3))
  qed
  moreover have "0 \<le> n mod d" using parts(1) by simp
  ultimately show ?thesis using n by (cases "n = 0") (auto simp: round_up_def p Let_def)
qed

lemma floor_units_floor:
  assumes "0 \<le> e_value x" and "\<lfloor>e_value x\<rfloor> \<le> max_int64"
  shows "floor_units x = \<lfloor>e_value x\<rfloor>"
proof -
  obtain n d where p: "quotient_of (e_value x) = (n, d)" by fastforce
  note parts = rat_parts [OF p] and n = nonneg_parts [OF assms(1) p]
  have "sgn n * (\<bar>n\<bar> div d) = n div d" using n by (cases "n = 0") simp_all
  moreover have "0 \<le> n div d" using n parts(1) by (simp add: pos_imp_zdiv_nonneg_iff)
  ultimately show ?thesis using assms(2) parts(3) by (simp add: floor_units_def p)
qed

lemma fraction_before_frac:
  "fraction_before x y \<Longrightarrow> frac (e_value y) \<le> frac (e_value x)"
  "\<not> fraction_before x y \<Longrightarrow> frac (e_value x) \<le> frac (e_value y)"
proof -
  obtain xn xd where x: "quotient_of (e_value x) = (xn, xd)" by fastforce
  obtain yn yd where y: "quotient_of (e_value y) = (yn, yd)" by fastforce
  have le: "frac (e_value y) \<le> frac (e_value x) \<longleftrightarrow> (yn mod yd) * xd \<le> (xn mod xd) * yd"
    and ge: "frac (e_value x) \<le> frac (e_value y) \<longleftrightarrow> (xn mod xd) * yd \<le> (yn mod yd) * xd"
    unfolding rat_parts(4) [OF x] rat_parts(4) [OF y] using rat_parts(1) [OF x] rat_parts(1) [OF y]
    by (simp_all add: divide_le_eq le_divide_eq flip: of_int_mult)
  show "fraction_before x y \<Longrightarrow> frac (e_value y) \<le> frac (e_value x)"
    unfolding le by (simp add: fraction_before_def x y Let_def split: if_splits)
  show "\<not> fraction_before x y \<Longrightarrow> frac (e_value x) \<le> frac (e_value y)"
    unfolding ge by (simp add: fraction_before_def x y Let_def split: if_splits)
qed

section \<open>The stable sort\<close>

lemma mset_insert_stable [simp]: "mset (insert_stable bef x ys) = add_mset x (mset ys)"
  by (induction ys) auto

lemma mset_SliceStable [simp]: "mset (SliceStable bef xs) = mset xs"
  unfolding SliceStable_def by (induction xs) auto

lemma set_insert_stable [simp]: "set (insert_stable bef x ys) = insert x (set ys)"
  by (induction ys) (simp_all add: insert_commute)

text \<open>Sorted by a rank that the comparison respects.\<close>

lemma sorted_insert_stable:
  fixes rank :: "'a \<Rightarrow> 'r :: linorder"
  assumes "\<And>x y. bef x y \<Longrightarrow> rank x \<le> rank y" and "\<And>x y. \<not> bef x y \<Longrightarrow> rank y \<le> rank x"
    and "sorted_wrt (\<lambda>x y. rank x \<le> rank y) ys"
  shows "sorted_wrt (\<lambda>x y. rank x \<le> rank y) (insert_stable bef x ys)"
  using assms(3)
proof (induction ys)
  case (Cons y ys)
  then show ?case
    using assms(1) [of y x] assms(2) [of y x] by (auto intro: order_trans)
qed simp

lemma sorted_SliceStable:
  fixes rank :: "'a \<Rightarrow> 'r :: linorder"
  assumes "\<And>x y. bef x y \<Longrightarrow> rank x \<le> rank y" and "\<And>x y. \<not> bef x y \<Longrightarrow> rank y \<le> rank x"
  shows "sorted_wrt (\<lambda>x y. rank x \<le> rank y) (SliceStable bef xs)"
  unfolding SliceStable_def
proof (induction xs)
  case (Cons x xs)
  then show ?case using sorted_insert_stable [OF assms] by simp
qed simp

end
