(* ===== verification/PricingProps.thy ===== *)
theory PricingProps
  imports Pricing
begin

text \<open>
  The properties of a quote: the total is the exact price of all lines rounded up once, the line
  amounts add up to it, each within one unit of its exact price, the units of rounding going to
  the largest fractions; and the amount reserved for the upper bound of a call covers what the
  actual usage settles at.
\<close>

section \<open>The indexed price book\<close>

definition trimmed_rate :: "Rate \<Rightarrow> Rate" where
  "trimmed_rate r = r\<lparr>r_Unit := trim_space (r_Unit r), r_TierKey := trim_space (r_TierKey r)\<rparr>"

definition key_of_rate :: "Rate \<Rightarrow> string" where
  "key_of_rate r = rateKey (r_Category r) (trim_space (r_Unit r)) (trim_space (r_TierKey r))"

definition rate_ok :: "Rate \<Rightarrow> bool" where
  "rate_ok r \<longleftrightarrow> 0 < r_UnitScale r \<and> 0 \<le> r_PriceUnits r \<and> validCategory (r_Category r)"

lemma index_rates_cases:
  "index_rates (r # rs) m = Inr m' \<longleftrightarrow>
     rate_ok r \<and> trim_space (r_Unit r) \<noteq> [] \<and> m (key_of_rate r) = None \<and>
     index_rates rs (m(key_of_rate r \<mapsto> trimmed_rate r)) = Inr m'"
  by (auto simp: rate_ok_def key_of_rate_def trimmed_rate_def Let_def split: option.split)

declare index_rates.simps(2) [simp del]

lemma index_rates_keeps: "index_rates rs m = Inr m' \<Longrightarrow> m k = Some r \<Longrightarrow> m' k = Some r"
proof (induction rs arbitrary: m)
  case (Cons q rs)
  from Cons.prems have "k \<noteq> key_of_rate q" by (auto simp: index_rates_cases)
  then have "(m(key_of_rate q \<mapsto> trimmed_rate q)) k = Some r" using Cons.prems(2) by simp
  with Cons.prems(1) show ?case unfolding index_rates_cases by (blast intro: Cons.IH)
qed simp

lemma index_rates_lists:
  "index_rates rs m = Inr m' \<Longrightarrow> r \<in> set rs \<Longrightarrow> m' (key_of_rate r) = Some (trimmed_rate r) \<and> rate_ok r"
proof (induction rs arbitrary: m)
  case (Cons q rs)
  then have m': "index_rates rs (m(key_of_rate q \<mapsto> trimmed_rate q)) = Inr m'" "rate_ok q"
    by (simp_all add: index_rates_cases)
  from index_rates_keeps [OF m'(1)] have "m' (key_of_rate q) = Some (trimmed_rate q)" by simp
  with Cons.IH [OF m'(1)] Cons.prems(2) m'(2) show ?case by auto
qed simp

lemma index_rates_found:
  "index_rates rs m = Inr m' \<Longrightarrow> m' k = Some r \<Longrightarrow>
     m k = Some r \<or> (\<exists>q \<in> set rs. r = trimmed_rate q \<and> k = key_of_rate q \<and> rate_ok q)"
proof (induction rs arbitrary: m)
  case (Cons q rs)
  then have "index_rates rs (m(key_of_rate q \<mapsto> trimmed_rate q)) = Inr m'" "rate_ok q"
    by (simp_all add: index_rates_cases)
  with Cons.IH [OF this(1) Cons.prems(2)] show ?case by (auto split: if_splits)
qed simp

lemma trimmed_rate_simps [simp]:
  "r_Category (trimmed_rate r) = r_Category r" "r_PriceUnits (trimmed_rate r) = r_PriceUnits r"
  "r_UnitScale (trimmed_rate r) = r_UnitScale r" "r_Unit (trimmed_rate r) = trim_space (r_Unit r)"
  "r_TierKey (trimmed_rate r) = trim_space (r_TierKey r)" "rate_ok (trimmed_rate r) = rate_ok r"
  by (simp_all add: trimmed_rate_def rate_ok_def)

section \<open>The exact lines\<close>

text \<open>What a line is worth at a rate, before rounding.\<close>

definition unit_price :: "Rate \<Rightarrow> rat" where
  "unit_price r = of_int (r_PriceUnits r) / of_int (r_UnitScale r)"

lemma unit_price_nonneg: "rate_ok r \<Longrightarrow> 0 \<le> unit_price r"
  by (simp add: rate_ok_def unit_price_def)

lemma line_value_price:
  "rate_ok r \<Longrightarrow> line_value n r ppm = of_int n * unit_price r * (of_int ppm / 1000000)"
  by (simp add: line_value_def unit_price_def rate_ok_def multiplierScale_def Fract_of_int_quotient)

lemma line_value_nonneg: "rate_ok r \<Longrightarrow> 0 \<le> n \<Longrightarrow> 0 < ppm \<Longrightarrow> 0 \<le> line_value n r ppm"
  by (simp add: line_value_price unit_price_nonneg)

definition exact_for :: "(string \<rightharpoonup> Rate) \<Rightarrow> int \<Rightarrow> QuoteLine \<Rightarrow> exactLine \<Rightarrow> bool" where
  "exact_for m ppm line x \<longleftrightarrow>
     e_key x = q_Key line \<and> 0 \<le> u_Quantity (q_Item line) \<and>
     e_value x = line_value (u_Quantity (q_Item line)) (e_rate x) ppm \<and>
     (\<exists>category. categoryForUsage (u_Category (q_Item line)) = Some category \<and>
        m (rateKey category (trim_space (u_Unit (q_Item line))) (trim_space (u_TierKey (q_Item line))))
          = Some (e_rate x))"

lemma quote_line_exact:
  assumes "quote_line m ppm ids idents i line = Inr (identity, x)"
  shows "exact_for m ppm line x \<and> e_index x = i"
proof -
  from assms obtain item category rate where item: "Normalized (q_Item line) = Inr item"
    and c: "categoryForUsage (u_Category item) = Some category"
    and r: "m (rateKey category (u_Unit item) (u_TierKey item)) = Some rate"
    and x: "e_index x = i" "e_key x = q_Key line" "e_rate x = rate"
      "e_value x = line_value (u_Quantity item) rate ppm"
    unfolding quote_line_def by (auto simp: Let_def split: if_splits sum.splits option.splits)
  then show ?thesis by (auto simp: exact_for_def Normalized_Inr)
qed

lemma quote_lines_exact:
  "quote_lines m ppm ids idents i lines ex t = Inr (ex', t') \<Longrightarrow>
     \<exists>new. ex' = ex @ new \<and> list_all2 (exact_for m ppm) lines new \<and>
       map e_index new = [i..<i + length lines] \<and> t' = t + sum_list (map e_value new)"
proof (induction lines arbitrary: ids idents i ex t)
  case (Cons line lines)
  from Cons.prems obtain identity x where x: "quote_line m ppm ids idents i line = Inr (identity, x)"
    and rest: "quote_lines m ppm (q_Key line # ids) (identity # idents) (Suc i) lines
      (ex @ [x]) (t + e_value x) = Inr (ex', t')"
    by (auto split: sum.splits)
  from Cons.IH [OF rest] obtain new where new: "ex' = (ex @ [x]) @ new"
    "list_all2 (exact_for m ppm) lines new" "map e_index new = [Suc i..<Suc i + length lines]"
    "t' = t + e_value x + sum_list (map e_value new)" by blast
  have "[i..<i + length (line # lines)] = i # [Suc i..<Suc i + length lines]"
    by (simp add: upt_conv_Cons del: upt_Suc)
  with new have "ex' = ex @ x # new" "list_all2 (exact_for m ppm) (line # lines) (x # new)"
    "map e_index (x # new) = [i..<i + length (line # lines)]"
    "t' = t + sum_list (map e_value (x # new))"
    using quote_line_exact [OF x] by (simp_all del: upt_Suc)
  then show ?case by blast
qed simp

section \<open>Allocating the total\<close>

lemma foldl_add64:
  "0 \<le> a \<Longrightarrow> list_all (\<lambda>x. 0 \<le> x) xs \<Longrightarrow> a + sum_list xs \<le> max_int64 \<Longrightarrow>
     foldl add64 a xs = a + sum_list xs"
proof (induction xs arbitrary: a)
  case (Cons x xs)
  from Cons.prems(2) have "0 \<le> sum_list xs" by (auto intro: sum_list_nonneg simp: list_all_iff)
  with Cons.prems have "add64 a x = a + x" by (intro add64_id) simp
  with Cons show ?case by (simp add: add.assoc)
qed simp

text \<open>Adding one unit to the lines of distinct indices.\<close>

lemma add_units:
  assumes "inj_on f {..<k}" and "\<And>i. i < k \<Longrightarrow> f i < length rs"
    and "\<And>r. r \<in> set rs \<Longrightarrow> 0 \<le> qr_AmountUnits r \<and> (0 < k \<longrightarrow> qr_AmountUnits r < max_int64)"
  shows "foldl (\<lambda>rs i. add_unit (f i) rs) rs [0..<k] =
    map (\<lambda>(j, r). r\<lparr>qr_AmountUnits := qr_AmountUnits r + (if j \<in> f ` {..<k} then 1 else 0)\<rparr>)
      (enumerate 0 rs)"
  using assms
proof (induction k)
  case 0
  have "map (\<lambda>(j, r). r\<lparr>qr_AmountUnits := qr_AmountUnits r\<rparr>) (enumerate 0 rs) = map snd (enumerate 0 rs)"
    by (rule map_cong) auto
  then show ?case by simp
next
  case (Suc k)
  let ?g = "\<lambda>k (j, r). r\<lparr>qr_AmountUnits := qr_AmountUnits r + (if j \<in> f ` {..<k} then 1 else 0)\<rparr>"
  have IH: "foldl (\<lambda>rs i. add_unit (f i) rs) rs [0..<k] = map (?g k) (enumerate 0 rs)"
    using Suc by (intro Suc.IH) (auto simp: inj_on_def)
  have new: "f k \<notin> f ` {..<k}" using Suc.prems(1) by (auto dest: inj_onD)
  have "add_unit (f k) (map (?g k) (enumerate 0 rs)) = map (?g (Suc k)) (enumerate 0 rs)"
  proof (rule nth_equalityI)
    fix j assume "j < length (add_unit (f k) (map (?g k) (enumerate 0 rs)))"
    then have j: "j < length rs" by (simp add: add_unit_def)
    have "0 \<le> qr_AmountUnits (rs ! f k)" "qr_AmountUnits (rs ! f k) < max_int64"
      using Suc.prems(2,3) by simp_all
    then have "add64 (qr_AmountUnits (rs ! f k)) 1 = qr_AmountUnits (rs ! f k) + 1"
      by (intro add64_id) simp
    then show "add_unit (f k) (map (?g k) (enumerate 0 rs)) ! j = map (?g (Suc k)) (enumerate 0 rs) ! j"
      using j new Suc.prems(2) [of k]
      by (auto simp: add_unit_def nth_list_update nth_enumerate_eq lessThan_Suc)
  qed (simp add: add_unit_def)
  with IH show ?case by simp
qed


lemma sum_floor_le:
  assumes "list_all (\<lambda>v. 0 \<le> v) vs"
  shows "of_int (sum_list (map floor vs)) \<le> (sum_list vs :: rat)"
    and "sum_list vs \<le> of_int (sum_list (map floor vs)) + of_nat (length vs)"
proof -
  show "of_int (sum_list (map floor vs)) \<le> (sum_list vs :: rat)"
    by (induction vs) (auto intro!: add_mono)
  show "sum_list vs \<le> of_int (sum_list (map floor vs)) + of_nat (length vs)"
  proof (induction vs)
    case (Cons v vs)
    have "v \<le> of_int \<lfloor>v\<rfloor> + 1" by (simp add: floor_le_iff le_less) linarith
    with Cons show ?case by simp
  qed simp
qed

definition allocated :: "exactLine list \<Rightarrow> nat set \<Rightarrow> QuoteLineResult list" where
  "allocated ex chosen =
     map (\<lambda>(j, x). \<lparr>qr_Key = e_key x, qr_AttemptID = e_attemptID x, qr_Rate = e_rate x,
        qr_AmountUnits = \<lfloor>e_value x\<rfloor> + (if j \<in> chosen then 1 else 0)\<rparr>) (enumerate 0 ex)"

lemma length_allocated [simp]: "length (allocated ex chosen) = length ex"
  by (simp add: allocated_def)

lemma nth_allocated:
  "j < length ex \<Longrightarrow> allocated ex chosen ! j =
     \<lparr>qr_Key = e_key (ex ! j), qr_AttemptID = e_attemptID (ex ! j), qr_Rate = e_rate (ex ! j),
      qr_AmountUnits = \<lfloor>e_value (ex ! j)\<rfloor> + (if j \<in> chosen then 1 else 0)\<rparr>"
  by (simp add: allocated_def nth_enumerate_eq)

lemma sum_allocated:
  assumes "chosen \<subseteq> {..<length ex}"
  shows "sum_list (map qr_AmountUnits (allocated ex chosen)) =
    sum_list (map (\<lambda>x. \<lfloor>e_value x\<rfloor>) ex) + int (card chosen)"
proof -
  have "sum_list (map qr_AmountUnits (allocated ex chosen)) =
      (\<Sum>j<length ex. \<lfloor>e_value (ex ! j)\<rfloor> + (if j \<in> chosen then 1 else 0))"
    by (simp add: sum_list_sum_nth nth_allocated atLeast0LessThan)
  also have "\<dots> = (\<Sum>j<length ex. \<lfloor>e_value (ex ! j)\<rfloor>) + (\<Sum>j<length ex. if j \<in> chosen then 1 else 0)"
    by (rule sum.distrib)
  also have "(\<Sum>j<length ex. if j \<in> chosen then 1 else 0 :: int) = int (card chosen)"
    using assms by (simp add: sum.If_cases Int_absorb1)
  finally show ?thesis by (simp add: sum_list_sum_nth atLeast0LessThan)
qed

text \<open>The units of rounding go to the first lines in the order of the sort.\<close>

lemma chosen_lines:
  assumes idx: "map e_index ex = [0..<length ex]" and k: "k \<le> length ex"
    and f_def: "\<And>i. f i = e_index (SliceStable fraction_before ex ! (i mod length (SliceStable fraction_before ex)))"
  shows "inj_on f {..<k}" and "\<And>i. i < k \<Longrightarrow> f i < length ex"
    and "\<And>i j. i \<in> f ` {..<k} \<Longrightarrow> j < length ex \<Longrightarrow> j \<notin> f ` {..<k} \<Longrightarrow>
      frac (e_value (ex ! j)) \<le> frac (e_value (ex ! i))"
proof -
  let ?o = "SliceStable fraction_before ex"
  have ms: "mset (map e_index ?o) = mset [0..<length ex]"
    by (simp add: mset_map flip: idx)
  have len: "length ?o = length ex" by (metis mset_SliceStable size_mset)
  have dist: "distinct (map e_index ?o)"
    using mset_eq_imp_distinct_iff [OF ms] by simp
  have f: "f i = map e_index ?o ! i" if "i < length ex" for i
    using that by (simp add: f_def len)
  show "inj_on f {..<k}"
    using k len nth_eq_iff_index_eq [OF dist] by (auto simp: inj_on_def f)
  have range: "map e_index ?o ! i < length ex" if "i < length ex" for i
    using that len mset_eq_setD [OF ms] nth_mem [of i "map e_index ?o"] by auto
  then show "f i < length ex" if "i < k" for i using that k by (simp add: f)
  have at: "ex ! (e_index x) = x" if "x \<in> set ex" for x
    using that idx by (auto simp: in_set_conv_nth) (metis length_map nth_map nth_upt add_0)
  have val: "ex ! (map e_index ?o ! i) = ?o ! i" if "i < length ex" for i
  proof -
    have "?o ! i \<in> set ?o" using that len by simp
    then have "?o ! i \<in> set ex" by (metis mset_SliceStable mset_eq_setD)
    with at that len show ?thesis by simp
  qed
  have sorted: "sorted_wrt (\<lambda>x y. - frac (e_value x) \<le> - frac (e_value y)) ?o"
    using fraction_before_frac by (intro sorted_SliceStable) auto
  show "frac (e_value (ex ! j)) \<le> frac (e_value (ex ! i))"
    if "i \<in> f ` {..<k}" "j < length ex" "j \<notin> f ` {..<k}" for i j
  proof -
    from that(1) obtain a where a: "a < k" "i = map e_index ?o ! a" using k by (auto simp: f)
    have "j \<in> set (map e_index ?o)" using that(2) mset_eq_setD [OF ms] by auto
    then obtain b where b: "b < length ex" "j = map e_index ?o ! b"
      by (auto simp: in_set_conv_nth len)
    with that(3) have "k \<le> b" by (metis f imageI lessThan_iff not_le)
    with a have "a < b" by simp
    with sorted b(1) have "- frac (e_value (?o ! a)) \<le> - frac (e_value (?o ! b))"
      by (simp add: sorted_wrt_iff_nth_less len)
    moreover have "ex ! i = ?o ! a" "ex ! j = ?o ! b"
      using val [of a] val [of b] a b k by simp_all
    ultimately show ?thesis by simp
  qed
qed


lemma allocate_ok:
  assumes ex: "map e_index ex = [0..<length ex]" and pos: "\<And>x. x \<in> set ex \<Longrightarrow> 0 \<le> e_value x"
    and t: "t = \<lceil>sum_list (map e_value ex)\<rceil>" and max: "t \<le> max_int64"
  obtains chosen where "chosen \<subseteq> {..<length ex}" and "allocate ex t = allocated ex chosen"
    and "sum_list (map qr_AmountUnits (allocated ex chosen)) = t"
    and "\<And>i j. i \<in> chosen \<Longrightarrow> j < length ex \<Longrightarrow> j \<notin> chosen \<Longrightarrow>
      frac (e_value (ex ! j)) \<le> frac (e_value (ex ! i))"
proof -
  let ?fl = "map (\<lambda>x. \<lfloor>e_value x\<rfloor>) ex" and ?vs = "map e_value ex"
  have vs: "list_all (\<lambda>v. 0 \<le> v) ?vs" using pos by (simp add: list_all_iff)
  note bounds = sum_floor_le [OF vs, unfolded list.map_comp comp_def, simplified]
  have low: "sum_list ?fl \<le> t" unfolding t using bounds(1) by linarith
  have high: "t \<le> sum_list ?fl + int (length ex)" unfolding t ceiling_le_iff using bounds(2) by simp
  obtain k where k: "k = nat (t - sum_list ?fl)" by simp
  then have k: "k = nat (t - sum_list ?fl)" "k \<le> length ex" "t = sum_list ?fl + int k"
    using low high by simp_all
  obtain f where f: "\<And>i. f i = e_index (SliceStable fraction_before ex ! (i mod length (SliceStable fraction_before ex)))"
    by simp
  note chosen = chosen_lines [OF ex k(2), of f, OF f]
  have member: "0 \<le> \<lfloor>e_value x\<rfloor> \<and> \<lfloor>e_value x\<rfloor> \<le> max_int64 \<and> (0 < k \<longrightarrow> \<lfloor>e_value x\<rfloor> < max_int64)"
    if "x \<in> set ex" for x
  proof -
    have "\<lfloor>e_value x\<rfloor> \<le> sum_list ?fl"
      using that pos by (intro member_le_sum_list) auto
    with pos [OF that] k(3) max show ?thesis by auto
  qed
  have units: "map floor_units ex = ?fl"
    using member pos by (auto intro: floor_units_floor)
  have "foldl add64 0 ?fl = sum_list ?fl"
    using member k(3) max foldl_add64 [of 0 ?fl] by (simp add: list_all_iff)
  moreover have "0 \<le> sum_list ?fl" using member by (intro sum_list_nonneg) auto
  ultimately have rem: "sub64 t (foldl add64 0 (map floor_units ex)) = t - sum_list ?fl"
    using k(3) max by (simp add: units sub64_nonneg)
  let ?rs = "map (\<lambda>x. \<lparr>qr_Key = e_key x, qr_AttemptID = e_attemptID x, qr_Rate = e_rate x,
    qr_AmountUnits = floor_units x\<rparr>) ex"
  have fl: "floor_units x = \<lfloor>e_value x\<rfloor>" if "x \<in> set ex" for x
    using member [OF that] pos [OF that] by (intro floor_units_floor) auto
  have "allocate ex t = foldl (\<lambda>rs i. add_unit (f i) rs) ?rs [0..<k]"
    by (simp add: allocate_def Let_def rem k(1) f)
  also have "\<dots> = map (\<lambda>(j, r). r\<lparr>qr_AmountUnits := qr_AmountUnits r + (if j \<in> f ` {..<k} then 1 else 0)\<rparr>)
      (enumerate 0 ?rs)"
    using chosen(1,2) member fl by (intro add_units) auto
  also have "\<dots> = allocated ex (f ` {..<k})"
    using fl by (intro nth_equalityI) (simp_all add: nth_allocated nth_enumerate_eq)
  finally have result: "allocate ex t = allocated ex (f ` {..<k})" .
  have sub: "f ` {..<k} \<subseteq> {..<length ex}" using chosen(2) by auto
  have "sum_list (map qr_AmountUnits (allocated ex (f ` {..<k}))) = t"
    using sum_allocated [OF sub] card_image [OF chosen(1)] k(3) by simp
  with that [OF sub result] chosen(3) show ?thesis by blast
qed

section \<open>Properties\<close>

text \<open>The exact price of a line, at the rate its result names.\<close>

definition exact_price :: "int \<Rightarrow> QuoteLine \<Rightarrow> QuoteLineResult \<Rightarrow> rat" where
  "exact_price ppm line res =
     of_int (u_Quantity (q_Item line)) * unit_price (qr_Rate res) * (of_int ppm / 1000000)"

lemma Quote_exact:
  assumes "Quote price lines ppm = Inr res"
  obtains m ex chosen where "index_rates (p_Rates price) Map.empty = Inr m"
    and "list_all2 (exact_for m ppm) lines ex" and "quote_Lines res = allocated ex chosen"
    and "\<And>x. x \<in> set ex \<Longrightarrow> 0 \<le> e_value x" and "0 < ppm"
    and "quote_AmountUnits res = \<lceil>sum_list (map e_value ex)\<rceil>"
    and "sum_list (map qr_AmountUnits (quote_Lines res)) = quote_AmountUnits res"
    and "\<And>i j. i \<in> chosen \<Longrightarrow> j < length ex \<Longrightarrow> j \<notin> chosen \<Longrightarrow>
      frac (e_value (ex ! j)) \<le> frac (e_value (ex ! i))"
proof -
  from assms obtain m ex t where m: "index_rates (p_Rates price) Map.empty = Inr m"
    and ex: "quote_lines m ppm [] [] 0 lines [] 0 = Inr (ex, t)" and ppm: "0 < ppm"
    and res: "if ex = [] then res = \<lparr>quote_AmountUnits = 0, quote_Lines = []\<rparr>
      else round_up t \<le> max_int64 \<and> res = \<lparr>quote_AmountUnits = round_up t, quote_Lines = allocate ex (round_up t)\<rparr>"
    unfolding Quote_def by (auto simp: Let_def split: if_splits sum.splits prod.splits)
  from quote_lines_exact [OF ex] have lines: "list_all2 (exact_for m ppm) lines ex"
    and idx: "map e_index ex = [0..<length lines]" and t: "t = sum_list (map e_value ex)"
    by auto
  have len: "length lines = length ex" using lines by (rule list_all2_lengthD)
  have pos: "0 \<le> e_value x" if "x \<in> set ex" for x
  proof -
    from that lines obtain line where "exact_for m ppm line x"
      by (auto simp: list_all2_conv_all_nth in_set_conv_nth)
    then obtain k where "m k = Some (e_rate x)" "0 \<le> u_Quantity (q_Item line)"
      "e_value x = line_value (u_Quantity (q_Item line)) (e_rate x) ppm"
      by (auto simp: exact_for_def)
    with index_rates_found [OF m, of k "e_rate x"] ppm show ?thesis
      by (auto intro: line_value_nonneg)
  qed
  have "0 \<le> t" unfolding t using pos by (intro sum_list_nonneg) auto
  then have up: "round_up t = \<lceil>sum_list (map e_value ex)\<rceil>" by (simp add: round_up_ceiling t)
  show ?thesis
  proof (cases "ex = []")
    case True
    with res have "quote_Lines res = allocated ex {}" "quote_AmountUnits res = 0"
      by (simp_all add: allocated_def)
    with True that [OF m lines this(1) pos ppm] show ?thesis by (simp add: allocated_def)
  next
    case False
    with res have r: "round_up t \<le> max_int64" "quote_AmountUnits res = round_up t"
      "quote_Lines res = allocate ex (round_up t)" by simp_all
    show ?thesis
    proof (rule allocate_ok [OF idx [unfolded len] pos up r(1)])
      fix chosen
      assume a: "allocate ex (round_up t) = allocated ex chosen"
        "sum_list (map qr_AmountUnits (allocated ex chosen)) = round_up t"
        "\<And>i j. i \<in> chosen \<Longrightarrow> j < length ex \<Longrightarrow> j \<notin> chosen \<Longrightarrow>
          frac (e_value (ex ! j)) \<le> frac (e_value (ex ! i))"
      have "quote_Lines res = allocated ex chosen" by (simp add: r(3) a(1))
      from that [OF m lines this pos ppm _ _ a(3)] show ?thesis
        using r(2) up a by (simp add: r(3))
    qed
  qed
qed


lemma exact_price_allocated:
  assumes "list_all2 (exact_for m ppm) lines ex" and "index_rates (p_Rates price) Map.empty = Inr m"
    and "j < length lines"
  shows "exact_price ppm (lines ! j) (allocated ex chosen ! j) = e_value (ex ! j)"
proof -
  have j: "j < length ex" using assms(1,3) by (simp add: list_all2_lengthD)
  from assms(1,3) have "exact_for m ppm (lines ! j) (ex ! j)" by (simp add: list_all2_conv_all_nth)
  then obtain k where "m k = Some (e_rate (ex ! j))"
    "e_value (ex ! j) = line_value (u_Quantity (q_Item (lines ! j))) (e_rate (ex ! j)) ppm"
    by (auto simp: exact_for_def)
  with index_rates_found [OF assms(2), of k] show ?thesis
    by (auto simp: exact_price_def nth_allocated [OF j] line_value_price)
qed

lemma exact_prices_allocated:
  assumes "list_all2 (exact_for m ppm) lines ex" and "index_rates (p_Rates price) Map.empty = Inr m"
  shows "map2 (exact_price ppm) lines (allocated ex chosen) = map e_value ex"
  using exact_price_allocated [OF assms] list_all2_lengthD [OF assms(1)]
  by (intro nth_equalityI) simp_all

text \<open>C31. A quote that succeeds has one result per line, in the order of the lines; its amount is
  the exact rational price of all lines together, rounded up once; the line amounts add up to it
  without loss or excess; each line amount is the exact price of its line rounded down, or one
  unit more.\<close>

theorem quote_total_exact:
  assumes "Quote price lines ppm = Inr res"
  shows "map qr_Key (quote_Lines res) = map q_Key lines \<and>
    quote_AmountUnits res = \<lceil>sum_list (map2 (exact_price ppm) lines (quote_Lines res))\<rceil> \<and>
    sum_list (map qr_AmountUnits (quote_Lines res)) = quote_AmountUnits res \<and>
    list_all2 (\<lambda>line r. qr_AmountUnits r - \<lfloor>exact_price ppm line r\<rfloor> \<in> {0, 1}) lines (quote_Lines res)"
  using assms
proof (cases rule: Quote_exact)
  case (1 m ex chosen)
  have len: "length lines = length ex" using 1(2) by (rule list_all2_lengthD)
  have "map qr_Key (quote_Lines res) = map q_Key lines"
    using 1(2) len unfolding 1(3)
    by (intro nth_equalityI) (auto simp: nth_allocated list_all2_conv_all_nth exact_for_def)
  moreover have "list_all2 (\<lambda>line r. qr_AmountUnits r - \<lfloor>exact_price ppm line r\<rfloor> \<in> {0, 1}) lines (quote_Lines res)"
    unfolding 1(3) list_all2_conv_all_nth using len exact_price_allocated [OF 1(2,1)]
    by (simp add: nth_allocated)
  ultimately show ?thesis
    using 1(6,7) exact_prices_allocated [OF 1(2,1), of chosen] by (simp add: 1(3))
qed

text \<open>The units of rounding go to the lines with the largest fractions: a line that got one
  has at least the fractional part of every line that got none.\<close>

theorem quote_largest_remainder:
  assumes "Quote price lines ppm = Inr res" and "i < length lines" and "j < length lines"
    and "qr_AmountUnits (quote_Lines res ! i) = \<lfloor>exact_price ppm (lines ! i) (quote_Lines res ! i)\<rfloor> + 1"
    and "qr_AmountUnits (quote_Lines res ! j) = \<lfloor>exact_price ppm (lines ! j) (quote_Lines res ! j)\<rfloor>"
  shows "frac (exact_price ppm (lines ! j) (quote_Lines res ! j))
    \<le> frac (exact_price ppm (lines ! i) (quote_Lines res ! i))"
  using assms(1)
proof (cases rule: Quote_exact)
  case (1 m ex chosen)
  have len: "length lines = length ex" using 1(2) by (rule list_all2_lengthD)
  from assms(2-5) have "i \<in> chosen" "j \<notin> chosen"
    using exact_price_allocated [OF 1(2,1)] len by (auto simp: 1(3) nth_allocated split: if_splits)
  with 1(8) [of i j] assms(2,3) len exact_price_allocated [OF 1(2,1)] show ?thesis by (simp add: 1(3))
qed

section \<open>A reservation covers the settlement\<close>

lemma dearer_price:
  assumes "rate_ok r" "rate_ok best"
  shows "dearer r best \<Longrightarrow> unit_price best \<le> unit_price r"
    and "\<not> dearer r best \<Longrightarrow> unit_price r \<le> unit_price best"
proof -
  have le: "unit_price best \<le> unit_price r \<longleftrightarrow> r_PriceUnits best * r_UnitScale r \<le> r_PriceUnits r * r_UnitScale best"
    and ge: "unit_price r \<le> unit_price best \<longleftrightarrow> r_PriceUnits r * r_UnitScale best \<le> r_PriceUnits best * r_UnitScale r"
    using assms unfolding unit_price_def rate_ok_def
    by (simp_all add: divide_le_eq le_divide_eq flip: of_int_mult)
  show "dearer r best \<Longrightarrow> unit_price best \<le> unit_price r"
    unfolding le by (auto simp: dearer_def Let_def)
  show "\<not> dearer r best \<Longrightarrow> unit_price r \<le> unit_price best"
    unfolding ge by (auto simp: dearer_def Let_def)
qed

lemma foldl_dearer:
  assumes "rate_ok b" and "\<And>r. r \<in> set rs \<Longrightarrow> rate_ok r"
  defines "w \<equiv> foldl (\<lambda>best rate. if dearer rate best then rate else best) b rs"
  shows "w \<in> insert b (set rs) \<and> (\<forall>r \<in> insert b (set rs). unit_price r \<le> unit_price w)"
  using assms(1,2) unfolding w_def
proof (induction rs arbitrary: b)
  case (Cons r rs)
  let ?b = "if dearer r b then r else b"
  have ok: "rate_ok ?b" "unit_price r \<le> unit_price ?b" "unit_price b \<le> unit_price ?b"
    using Cons.prems dearer_price [of r b] by auto
  from Cons.IH [of ?b] ok(1) Cons.prems
  have IH: "foldl (\<lambda>best rate. if dearer rate best then rate else best) ?b rs \<in> insert ?b (set rs)"
    "\<forall>q \<in> insert ?b (set rs). unit_price q \<le> unit_price (foldl (\<lambda>best rate. if dearer rate best then rate else best) ?b rs)"
    by auto
  have step: "foldl (\<lambda>best rate. if dearer rate best then rate else best) b (r # rs)
      = foldl (\<lambda>best rate. if dearer rate best then rate else best) ?b rs" by simp
  have "unit_price ?b \<le> unit_price (foldl (\<lambda>best rate. if dearer rate best then rate else best) ?b rs)"
    using IH(2) by blast
  with IH ok(2,3) show ?case unfolding step by (auto split: if_splits)
qed simp

lemma mostExpensive_max:
  assumes "rs \<noteq> []" and "\<And>r. r \<in> set rs \<Longrightarrow> rate_ok r"
  shows "mostExpensive rs \<in> set rs" and "r \<in> set rs \<Longrightarrow> unit_price r \<le> unit_price (mostExpensive rs)"
proof -
  obtain b qs where rs: "rs = b # qs" using assms(1) by (cases rs) auto
  from foldl_dearer [of b qs] assms(2)
  show "mostExpensive rs \<in> set rs" "r \<in> set rs \<Longrightarrow> unit_price r \<le> unit_price (mostExpensive rs)"
    by (auto simp: rs mostExpensive_def)
qed

text \<open>Every candidate is what its key finds in the index.\<close>

lemma ratesFor_indexed:
  assumes "index_rates (p_Rates price) Map.empty = Inr m" and "r \<in> set (ratesFor price c unit)"
  shows "m (rateKey c unit (r_TierKey r)) = Some r" and "rate_ok r" and "r_Category r = c"
proof -
  from assms(2) obtain q where "q \<in> set (p_Rates price)" "r = trimmed_rate q" "r_Category q = c"
    "trim_space (r_Unit q) = unit"
    by (auto simp: ratesFor_def trimmed_rate_def)
  with index_rates_lists [OF assms(1) this(1)]
  show "m (rateKey c unit (r_TierKey r)) = Some r" "rate_ok r" "r_Category r = c"
    by (simp_all add: key_of_rate_def)
qed

lemma hasTier_rate: "hasTier rs t \<Longrightarrow> \<exists>r \<in> set rs. r_TierKey r = t"
  by (auto simp: hasTier_def list_ex_iff)

text \<open>The rate a settled line is quoted at is one of the candidates of its category and unit, and
  the one of its tier when the candidates have no context tiers.\<close>

lemma settle_tier_rate:
  assumes "settle_tier price t item rs = Inr item'" and "rs \<noteq> []"
  shows "\<exists>r \<in> set rs. item' = item\<lparr>u_TierKey := r_TierKey r\<rparr> \<and>
    (u_TierKey item \<noteq> [] \<and> \<not> (hasTier rs ''short_context'' \<and> hasTier rs ''long_context'') \<longrightarrow>
      r_TierKey r = u_TierKey item)"
proof -
  have ctx: "context_tier price t rs \<noteq> [] \<Longrightarrow> hasTier rs (context_tier price t rs) \<and>
      hasTier rs ''short_context'' \<and> hasTier rs ''long_context''"
    by (auto simp: context_tier_def split: if_splits)
  show ?thesis
  proof (cases "context_tier price t rs = []")
    case False
    with ctx hasTier_rate obtain r where "r \<in> set rs" "r_TierKey r = context_tier price t rs" by metis
    with assms(1) False ctx show ?thesis by (force simp: settle_tier_def Let_def)
  next
    case True
    show ?thesis
    proof (cases "u_TierKey item = []")
      case False
      with assms(1) True hasTier_rate [of rs "u_TierKey item"] show ?thesis
        by (force simp: settle_tier_def Let_def split: if_splits)
    next
      case empty: True
      with assms True have "item' = item\<lparr>u_TierKey := r_TierKey (hd rs)\<rparr>"
        by (simp add: settle_tier_def Let_def split: if_splits)
      with empty assms(2) show ?thesis by (intro bexI [of _ "hd rs"]) simp_all
    qed
  qed
qed

lemma category_names [simp]:
  "categoryForUsage u = Some c \<Longrightarrow> usageCategoryForPricing c = u"
  "validCategory c \<Longrightarrow> categoryForUsage (usageCategoryForPricing c) = Some c"
  by (auto simp: categoryForUsage_def usageCategoryForPricing_def validCategory_def usage_category_defs
      pricing_category_defs split: if_splits)

definition prompt_categories :: "string list" where
  "prompt_categories = [InputTokens, CacheRead, CacheWrite]"

lemma reserve_tier_rate:
  assumes m: "index_rates (p_Rates price) Map.empty = Inr m"
    and c: "categoryForUsage (u_Category item) = Some c"
    and sel: "reserve_tier price item c (ratesFor price c (u_Unit item)) = Inr item'"
    and ne: "ratesFor price c (u_Unit item) \<noteq> []"
  obtains R where "R \<in> set (ratesFor price (r_Category R) (u_Unit item))"
    and "item' = item\<lparr>u_Category := usageCategoryForPricing (r_Category R), u_TierKey := r_TierKey R\<rparr>"
    and "\<And>r. r \<in> set (ratesFor price c (u_Unit item)) \<Longrightarrow>
      u_TierKey item = [] \<or> r_TierKey r = u_TierKey item \<or>
      hasTier (ratesFor price c (u_Unit item)) ''short_context'' \<and>
      hasTier (ratesFor price c (u_Unit item)) ''long_context'' \<Longrightarrow> unit_price r \<le> unit_price R"
    and "\<And>c' r. c = InputTokens \<Longrightarrow> u_TierKey item = [] \<Longrightarrow> c' \<in> set prompt_categories \<Longrightarrow>
      r \<in> set (ratesFor price c' (u_Unit item)) \<Longrightarrow> unit_price r \<le> unit_price R"
proof -
  let ?rs = "ratesFor price c (u_Unit item)"
  note idx = ratesFor_indexed [OF m]
  show ?thesis
  proof (cases "c = InputTokens \<and> u_TierKey item = []")
    case True
    let ?all = "?rs @ ratesFor price CacheRead (u_Unit item) @ ratesFor price CacheWrite (u_Unit item)"
    have ok: "rate_ok r" if "r \<in> set ?all" for r using that idx(2) by auto
    note mx = mostExpensive_max [of ?all, OF _ ok, simplified]
    have R: "mostExpensive ?all \<in> set (ratesFor price (r_Category (mostExpensive ?all)) (u_Unit item))"
      using mx(1) ne idx(3) by auto
    have i': "item' = item\<lparr>u_Category := usageCategoryForPricing (r_Category (mostExpensive ?all)),
        u_TierKey := r_TierKey (mostExpensive ?all)\<rparr>"
      using sel True by (simp add: reserve_tier_def Let_def)
    show ?thesis
      by (rule that [OF R i']) (use mx(2) ne True in \<open>auto simp: prompt_categories_def\<close>)
  next
    case False
    note mx = mostExpensive_max [OF ne idx(2)]
    have cat: "u_Category item = usageCategoryForPricing c" using c by simp
    show ?thesis
    proof (cases "u_TierKey item = [] \<or> hasTier ?rs ''short_context'' \<and> hasTier ?rs ''long_context''")
      case True
      with sel False have "item' = item\<lparr>u_TierKey := r_TierKey (mostExpensive ?rs)\<rparr>"
        by (auto simp: reserve_tier_def split: if_splits)
      with cat idx(3) [OF mx(1)]
      have i': "item' = item\<lparr>u_Category := usageCategoryForPricing (r_Category (mostExpensive ?rs)),
          u_TierKey := r_TierKey (mostExpensive ?rs)\<rparr>" by simp
      have R: "mostExpensive ?rs \<in> set (ratesFor price (r_Category (mostExpensive ?rs)) (u_Unit item))"
        using mx(1) idx(3) [OF mx(1)] by simp
      show ?thesis by (rule that [OF R i']) (use mx(2) False in auto)
    next
      case keep: False
      with sel False have has: "hasTier ?rs (u_TierKey item)" and i: "item' = item"
        by (auto simp: reserve_tier_def split: if_splits)
      from hasTier_rate [OF has] obtain R where R: "R \<in> set ?rs" "r_TierKey R = u_TierKey item" by blast
      have i': "item' = item\<lparr>u_Category := usageCategoryForPricing (r_Category R), u_TierKey := r_TierKey R\<rparr>"
        using i cat idx(3) [OF R(1)] R(2) by simp
      have R': "R \<in> set (ratesFor price (r_Category R) (u_Unit item))" using R(1) idx(3) [OF R(1)] by simp
      have same: "r = R" if "r \<in> set ?rs" "r_TierKey r = u_TierKey item" for r
        using idx(1) [OF that(1)] idx(1) [OF R(1)] that(2) R(2) by simp
      show ?thesis by (rule that [OF R' i']) (use same keep False in auto)
    qed
  qed
qed

text \<open>A usage line that may be paid from a reserved line: the same unit and category, and the
  reserved tier unless none was named; or prompt tokens paid from a reserved prompt without tier.\<close>

definition drawn_from :: "QuoteLine \<Rightarrow> QuoteLine \<Rightarrow> bool" where
  "drawn_from line reserved \<longleftrightarrow>
     (let u = q_Item line; r = q_Item reserved
      in trim_space (u_Unit u) = trim_space (u_Unit r) \<and>
         (u_Category u = u_Category r \<and>
            (trim_space (u_TierKey r) = [] \<or> trim_space (u_TierKey u) = trim_space (u_TierKey r)) \<or>
          u_Category r = UsageCategoryInputText \<and> trim_space (u_TierKey r) = [] \<and>
            (u_Category u = UsageCategoryCacheRead \<or> u_Category u = UsageCategoryCacheWrite)))"

lemma select_lineE:
  assumes "select_line price upper t line = Inr line'"
  obtains item c item' where "Normalized (q_Item line) = Inr item"
    "categoryForUsage (u_Category item) = Some c" "ratesFor price c (u_Unit item) \<noteq> []"
    "(if upper then reserve_tier price item c (ratesFor price c (u_Unit item))
      else settle_tier price (t (normalizedAttemptID line)) item (ratesFor price c (u_Unit item))) = Inr item'"
    "line' = line\<lparr>q_Item := item'\<rparr>"
  using assms unfolding select_line_def by (auto simp: Let_def split: if_splits sum.splits option.splits)

lemma ratesFor_trimmed: "r \<in> set (ratesFor price c unit) \<Longrightarrow> trim_space (r_TierKey r) = r_TierKey r"
  by (auto simp: ratesFor_def)

lemma quoted_rate:
  assumes "index_rates (p_Rates price) Map.empty = Inr m" and "R \<in> set (ratesFor price (r_Category R) (u_Unit item))"
    and "trim_space (u_Unit item) = u_Unit item"
    and "exact_for m ppm line x"
    and "q_Item line = item\<lparr>u_Category := usageCategoryForPricing (r_Category R), u_TierKey := r_TierKey R\<rparr>"
  shows "e_rate x = R"
proof -
  have "validCategory (r_Category R)" using ratesFor_indexed(2) [OF assms(1,2)] by (simp add: rate_ok_def)
  with assms(3-5) ratesFor_trimmed [OF assms(2)]
  have "m (rateKey (r_Category R) (u_Unit item) (r_TierKey R)) = Some (e_rate x)"
    by (simp add: exact_for_def)
  with ratesFor_indexed(1) [OF assms(1,2)] show ?thesis by simp
qed

lemma line_prices:
  assumes m: "index_rates (p_Rates price) Map.empty = Inr m"
    and r: "select_line price True t r = Inr r'" "exact_for m ppm r' x"
    and u: "select_line price False t' u = Inr u'" "exact_for m ppm u' y"
    and d: "drawn_from u r"
  shows "unit_price (e_rate y) \<le> unit_price (e_rate x)"
proof -
  from r(1) obtain ri rc ri' where ri: "Normalized (q_Item r) = Inr ri" "categoryForUsage (u_Category ri) = Some rc"
    "ratesFor price rc (u_Unit ri) \<noteq> []" "reserve_tier price ri rc (ratesFor price rc (u_Unit ri)) = Inr ri'"
    "r' = r\<lparr>q_Item := ri'\<rparr>" by (auto elim: select_lineE)
  from u(1) obtain ui uc ui' where ui: "Normalized (q_Item u) = Inr ui" "categoryForUsage (u_Category ui) = Some uc"
    "ratesFor price uc (u_Unit ui) \<noteq> []"
    "settle_tier price (t' (normalizedAttemptID u)) ui (ratesFor price uc (u_Unit ui)) = Inr ui'"
    "u' = u\<lparr>q_Item := ui'\<rparr>" by (auto elim: select_lineE)
  from settle_tier_rate [OF ui(4,3)] obtain S where S: "S \<in> set (ratesFor price uc (u_Unit ui))"
    "ui' = ui\<lparr>u_TierKey := r_TierKey S\<rparr>"
    "u_TierKey ui \<noteq> [] \<and> \<not> (hasTier (ratesFor price uc (u_Unit ui)) ''short_context'' \<and>
      hasTier (ratesFor price uc (u_Unit ui)) ''long_context'') \<longrightarrow> r_TierKey S = u_TierKey ui" by blast
  have Sc: "r_Category S = uc" using ratesFor_indexed(3) [OF m S(1)] .
  have "e_rate y = S"
    using S(1,2) ui Normalized_fields [OF ui(1)] Sc by (intro quoted_rate [OF m _ _ u(2), of S ui]) simp_all
  moreover have unit: "u_Unit ui = u_Unit ri"
    using d ri(1) ui(1) by (auto simp: drawn_from_def Let_def Normalized_Inr)
  have "unit_price S \<le> unit_price (e_rate x)"
    using m ri(2,4,3)
  proof (cases rule: reserve_tier_rate)
    case (1 R)
    have x: "e_rate x = R"
      using 1(1,2) ri(5) Normalized_fields [OF ri(1)] by (intro quoted_rate [OF m _ _ r(2), of R ri]) simp_all
    show ?thesis
    proof (cases "u_Category ui = u_Category ri")
      case True
      then have c: "uc = rc" using ri(2) ui(2) by simp
      have "u_TierKey ri = [] \<or> u_TierKey ui = u_TierKey ri"
        using d True ri(1) ui(1) by (auto simp: drawn_from_def Let_def Normalized_Inr usage_category_defs)
      then show ?thesis unfolding x using 1(3) [of S] S(1,3) unit c by auto
    next
      case False
      then have "rc = InputTokens" "u_TierKey ri = []" "uc \<in> set prompt_categories"
        using d ri(1,2) ui(1,2)
        by (auto simp: drawn_from_def Let_def Normalized_Inr categoryForUsage_def prompt_categories_def
            usage_category_defs)
      then show ?thesis unfolding x using 1(4) [of uc S] S(1) unit by simp
    qed
  qed
  ultimately show ?thesis by simp
qed

definition line_quantity :: "QuoteLine \<Rightarrow> int" where
  "line_quantity line = u_Quantity (q_Item line)"

text \<open>\<open>from ! j\<close> is the reserved line that pays for the j-th used line; no reserved line pays for
  more than its quantity.\<close>

definition covers :: "QuoteLine list \<Rightarrow> QuoteLine list \<Rightarrow> nat list \<Rightarrow> bool" where
  "covers reserved used from \<longleftrightarrow> length from = length used \<and>
     list_all (\<lambda>j. from ! j < length reserved \<and> drawn_from (used ! j) (reserved ! (from ! j))) [0..<length used] \<and>
     list_all (\<lambda>i. sum_list (map (\<lambda>j. if from ! j = i then line_quantity (used ! j) else 0) [0..<length used])
        \<le> line_quantity (reserved ! i)) [0..<length reserved]"

lemma weighted_cover:
  fixes q Q p P :: "nat \<Rightarrow> 'a :: linordered_idom"
  assumes "\<And>j. j < n \<Longrightarrow> f j < k \<and> 0 \<le> q j \<and> p j \<le> P (f j)"
    and "\<And>i. i < k \<Longrightarrow> 0 \<le> P i \<and> (\<Sum>j<n. if f j = i then q j else 0) \<le> Q i"
  shows "(\<Sum>j<n. q j * p j) \<le> (\<Sum>i<k. Q i * P i)"
proof -
  have "(\<Sum>j<n. q j * p j) \<le> (\<Sum>j<n. q j * P (f j))"
    using assms(1) by (intro sum_mono mult_left_mono) auto
  also have "\<dots> = (\<Sum>j<n. \<Sum>i<k. (if f j = i then q j else 0) * P i)"
  proof (rule sum.cong)
    fix j assume "j \<in> {..<n}"
    then have "f j \<in> {..<k}" using assms(1) by simp
    have "(\<Sum>i<k. (if f j = i then q j else 0) * P i) = (\<Sum>i<k. if i = f j then q j * P i else 0)"
      by (rule sum.cong) auto
    also have "\<dots> = q j * P (f j)" using \<open>f j \<in> {..<k}\<close> by (simp add: sum.delta)
    finally show "q j * P (f j) = (\<Sum>i<k. (if f j = i then q j else 0) * P i)" by simp
  qed simp
  also have "\<dots> = (\<Sum>i<k. (\<Sum>j<n. if f j = i then q j else 0) * P i)"
    by (subst sum.swap) (simp add: sum_distrib_right)
  also have "\<dots> \<le> (\<Sum>i<k. Q i * P i)"
    using assms(2) by (intro sum_mono mult_right_mono) auto
  finally show ?thesis .
qed

lemma select_lines_all2:
  "select_lines price up t ls = Inr ls' \<Longrightarrow> list_all2 (\<lambda>l l'. select_line price up t l = Inr l') ls ls'"
  by (induction ls arbitrary: ls') (auto split: sum.splits)

lemma attempt_totals_all2:
  "attempt_totals ls t = Inr (ls', t') \<Longrightarrow>
     list_all2 (\<lambda>l l'. \<exists>n. Normalized (q_Item l) = Inr n \<and> l' = l\<lparr>q_Item := n\<rparr>) ls ls'"
proof (induction ls arbitrary: t ls')
  case (Cons l ls)
  then show ?case
    by (auto simp: Let_def split: sum.splits option.splits if_splits prod.splits)
qed simp

text \<open>What settlement does line by line, on the lines as they were given.\<close>

lemma SettlementLines_lines:
  assumes "SettlementLines price ls = Inr ls'"
  obtains t where "list_all2 (\<lambda>l l'. \<exists>n. select_line price False t n = Inr l' \<and>
      line_quantity n = line_quantity l \<and> (\<forall>r. drawn_from n r = drawn_from l r)) ls ls'"
proof -
  from assms obtain mid t where mid: "attempt_totals ls (\<lambda>_. 0) = Inr (mid, t)"
    and sel: "select_lines price False t mid = Inr ls'"
    by (auto simp: SettlementLines_def selectTiers_def split: sum.splits)
  have n: "line_quantity (l\<lparr>q_Item := n\<rparr>) = line_quantity l \<and> (\<forall>r. drawn_from (l\<lparr>q_Item := n\<rparr>) r = drawn_from l r)"
    if "Normalized (q_Item l) = Inr n" for l n
    using that by (auto simp: line_quantity_def drawn_from_def Normalized_Inr Let_def)
  have "list_all2 (\<lambda>l l'. \<exists>n. select_line price False t n = Inr l' \<and>
      line_quantity n = line_quantity l \<and> (\<forall>r. drawn_from n r = drawn_from l r)) ls ls'"
    using attempt_totals_all2 [OF mid] select_lines_all2 [OF sel]
    by (rule list_all2_trans [rotated]) (use n in blast)
  with that show ?thesis .
qed

lemma select_line_quantity: "select_line price up t l = Inr l' \<Longrightarrow> line_quantity l' = line_quantity l"
proof (erule select_lineE)
  fix item c item'
  assume n: "Normalized (q_Item l) = Inr item" and l': "l' = l\<lparr>q_Item := item'\<rparr>"
    and sel: "(if up then reserve_tier price item c (ratesFor price c (u_Unit item))
      else settle_tier price (t (normalizedAttemptID l)) item (ratesFor price c (u_Unit item))) = Inr item'"
  have "u_Quantity item' = u_Quantity item"
    using sel by (auto simp: reserve_tier_def settle_tier_def Let_def split: if_splits)
  with n l' show "line_quantity l' = line_quantity l" by (auto simp: line_quantity_def Normalized_Inr)
qed

lemma sum_list_line_values:
  assumes "list_all2 (exact_for m ppm) lines ex" and "index_rates (p_Rates price) Map.empty = Inr m"
  shows "sum_list (map e_value ex) =
      (\<Sum>j<length ex. of_int (line_quantity (lines ! j)) * unit_price (e_rate (ex ! j))) * (of_int ppm / 1000000)"
    and "j < length ex \<Longrightarrow> 0 \<le> line_quantity (lines ! j) \<and> 0 \<le> unit_price (e_rate (ex ! j))"
proof -
  have each: "exact_for m ppm (lines ! j) (ex ! j)" "rate_ok (e_rate (ex ! j))" if "j < length ex" for j
  proof -
    show *: "exact_for m ppm (lines ! j) (ex ! j)"
      using assms(1) that by (simp add: list_all2_conv_all_nth)
    then obtain k where "m k = Some (e_rate (ex ! j))" by (auto simp: exact_for_def)
    with index_rates_found [OF assms(2)] show "rate_ok (e_rate (ex ! j))" by fastforce
  qed
  show "sum_list (map e_value ex) =
      (\<Sum>j<length ex. of_int (line_quantity (lines ! j)) * unit_price (e_rate (ex ! j))) * (of_int ppm / 1000000)"
    unfolding sum_list_sum_nth sum_distrib_right using each
    by (intro sum.cong) (auto simp: exact_for_def line_value_price line_quantity_def)
  show "j < length ex \<Longrightarrow> 0 \<le> line_quantity (lines ! j) \<and> 0 \<le> unit_price (e_rate (ex ! j))"
    using each [of j] by (simp add: exact_for_def line_quantity_def unit_price_nonneg)
qed

text \<open>The exact value of used lines is at most that of the reserved lines that pay for them.\<close>

lemma covered_value:
  assumes m: "index_rates (p_Rates price) Map.empty = Inr m" and ppm: "0 < ppm"
    and rl: "list_all2 (\<lambda>l l'. select_line price True (\<lambda>_. 0) l = Inr l') reserved rl" and ex: "list_all2 (exact_for m ppm) rl ex"
    and sl: "list_all2 (\<lambda>l l'. \<exists>n. select_line price False t n = Inr l' \<and> line_quantity n = line_quantity l \<and>
      (\<forall>r. drawn_from n r = drawn_from l r)) used sl" and ey: "list_all2 (exact_for m ppm) sl ey"
    and covers: "covers reserved used from"
  shows "sum_list (map e_value ey) \<le> sum_list (map e_value ex)"
proof -
  note lens = list_all2_lengthD [OF ex] list_all2_lengthD [OF ey] list_all2_lengthD [OF rl] list_all2_lengthD [OF sl]
  let ?q = "\<lambda>j. of_int (line_quantity (sl ! j)) :: rat" and ?Q = "\<lambda>i. of_int (line_quantity (rl ! i)) :: rat"
  let ?p = "\<lambda>j. unit_price (e_rate (ey ! j))" and ?P = "\<lambda>i. unit_price (e_rate (ex ! i))"
  have rq: "line_quantity (rl ! i) = line_quantity (reserved ! i)" if "i < length ex" for i
    using rl that lens by (auto simp: list_all2_conv_all_nth intro: select_line_quantity)
  have sq: "line_quantity (sl ! j) = line_quantity (used ! j)" if "j < length ey" for j
    using sl that lens by (auto simp: list_all2_conv_all_nth dest!: spec [of _ j] select_line_quantity)
  have pays: "from ! j < length ex \<and> ?p j \<le> ?P (from ! j)" if j: "j < length ey" for j
  proof -
    have i: "from ! j < length ex" and d: "drawn_from (used ! j) (reserved ! (from ! j))"
      using covers j lens by (auto simp: covers_def list_all_iff)
    from sl j lens obtain n where n: "select_line price False t n = Inr (sl ! j)"
      "drawn_from n (reserved ! (from ! j))" using d by (auto simp: list_all2_conv_all_nth)
    have "select_line price True (\<lambda>_. 0) (reserved ! (from ! j)) = Inr (rl ! (from ! j))"
      "exact_for m ppm (rl ! (from ! j)) (ex ! (from ! j))" "exact_for m ppm (sl ! j) (ey ! j)"
      using rl ex ey i j lens by (simp_all add: list_all2_conv_all_nth)
    from line_prices [OF m this(1,2) n(1) this(3) n(2)] i show ?thesis by simp
  qed
  have total: "(\<Sum>j<length ey. if from ! j = i then ?q j else 0) \<le> ?Q i" if i: "i < length ex" for i
  proof -
    have "(\<Sum>j<length ey. if from ! j = i then line_quantity (used ! j) else 0) \<le> line_quantity (reserved ! i)"
      using covers i lens by (simp add: covers_def list_all_iff interv_sum_list_conv_sum_set_nat atLeast0LessThan)
    moreover have "(\<Sum>j<length ey. if from ! j = i then ?q j else 0) =
        of_int (\<Sum>j<length ey. if from ! j = i then line_quantity (used ! j) else 0)"
      unfolding of_int_sum using sq by (intro sum.cong) auto
    ultimately show ?thesis unfolding rq [OF i] by (simp only: of_int_le_iff)
  qed
  have "(\<Sum>j<length ey. ?q j * ?p j) \<le> (\<Sum>i<length ex. ?Q i * ?P i)"
    using pays total sum_list_line_values(2) [OF ex m] sum_list_line_values(2) [OF ey m]
    by (intro weighted_cover [where f = "\<lambda>j. from ! j"]) auto
  then show ?thesis
    unfolding sum_list_line_values(1) [OF ex m] sum_list_line_values(1) [OF ey m]
    using ppm by (intro mult_right_mono) auto
qed

text \<open>C30. Whenever a hold is quoted on the upper bound lines of a call, and the usage the call
  reports can be paid from those lines (the same units and categories, prompt tokens free to turn
  out as cached ones, no reserved line exceeded), the charge quoted on the settlement lines does
  not exceed the hold, whatever tiers settlement chooses.\<close>

theorem hold_covers_charge:
  assumes "UpperBoundLines price reserved = Inr rl" and "Quote price rl ppm = Inr hold"
    and "SettlementLines price used = Inr sl" and "Quote price sl ppm = Inr charge"
    and "covers reserved used from"
  shows "quote_AmountUnits charge \<le> quote_AmountUnits hold"
proof -
  from Quote_exact [OF assms(2)] obtain m ex where m: "index_rates (p_Rates price) Map.empty = Inr m"
    and ex: "list_all2 (exact_for m ppm) rl ex" and hold: "quote_AmountUnits hold = \<lceil>sum_list (map e_value ex)\<rceil>"
    and ppm: "0 < ppm" by metis
  from Quote_exact [OF assms(4)] obtain m' ey where m': "index_rates (p_Rates price) Map.empty = Inr m'"
    and ey: "list_all2 (exact_for m' ppm) sl ey" and charge: "quote_AmountUnits charge = \<lceil>sum_list (map e_value ey)\<rceil>"
    by metis
  have [simp]: "m' = m" using m m' by simp
  have rl: "list_all2 (\<lambda>l l'. select_line price True (\<lambda>_. 0) l = Inr l') reserved rl"
    using assms(1) by (simp add: UpperBoundLines_def selectTiers_def select_lines_all2)
  from SettlementLines_lines [OF assms(3)] obtain t where "list_all2 (\<lambda>l l'. \<exists>n.
      select_line price False t n = Inr l' \<and> line_quantity n = line_quantity l \<and>
      (\<forall>r. drawn_from n r = drawn_from l r)) used sl" by blast
  from covered_value [OF m ppm rl ex this ey [unfolded \<open>m' = m\<close>] assms(5)] show ?thesis
    by (simp add: hold charge ceiling_mono)
qed

section \<open>The hold of several calls\<close>

lemma attempt_totals_append:
  "attempt_totals (xs @ ys) t = (case attempt_totals xs t of
      Inl e \<Rightarrow> Inl e
    | Inr (xs', t1) \<Rightarrow> (case attempt_totals ys t1 of Inl e \<Rightarrow> Inl e | Inr (ys', t2) \<Rightarrow> Inr (xs' @ ys', t2)))"
  by (induction xs arbitrary: t) (auto simp: Let_def split: sum.splits option.splits prod.splits)

lemma attempt_totals_other:
  "attempt_totals ys t = Inr (ys', t') \<Longrightarrow> a \<notin> normalizedAttemptID ` set ys \<Longrightarrow> t' a = t a"
proof (induction ys arbitrary: t ys')
  case (Cons y ys)
  have same: "normalizedAttemptID (y\<lparr>q_Item := n\<rparr>) = normalizedAttemptID y" for n
    by (simp add: normalizedAttemptID_def Let_def)
  from Cons show ?case
    by (auto simp: Let_def same split: sum.splits option.splits prod.splits if_splits)
qed simp

lemma attempt_totals_ids:
  "attempt_totals ls t = Inr (ls', t') \<Longrightarrow> map normalizedAttemptID ls' = map normalizedAttemptID ls"
  using attempt_totals_all2 [of ls t ls' t']
  by (intro nth_equalityI) (auto simp: list_all2_conv_all_nth normalizedAttemptID_def Let_def)

lemma select_lines_cong:
  "(\<And>l. l \<in> set ls \<Longrightarrow> t (normalizedAttemptID l) = t' (normalizedAttemptID l)) \<Longrightarrow>
     select_lines price up t ls = select_lines price up t' ls"
proof (induction ls)
  case (Cons l ls)
  have eq: "t (normalizedAttemptID l) = t' (normalizedAttemptID l)" using Cons.prems by simp
  have "select_line price up t l = select_line price up t' l" unfolding select_line_def eq ..
  moreover have "select_lines price up t ls = select_lines price up t' ls" using Cons by simp
  ultimately show ?case by (simp only: select_lines.simps)
qed simp

lemma select_lines_append:
  "select_lines price up t (xs @ ys) = (case select_lines price up t xs of
      Inl e \<Rightarrow> Inl e
    | Inr xs' \<Rightarrow> (case select_lines price up t ys of Inl e \<Rightarrow> Inl e | Inr ys' \<Rightarrow> Inr (xs' @ ys')))"
  by (induction xs) (auto split: sum.splits)

text \<open>Settling the calls of several attempts together settles each as it would alone.\<close>

lemma SettlementLines_append:
  assumes all: "SettlementLines price (prior @ used) = Inr al"
    and disjoint: "normalizedAttemptID ` set prior \<inter> normalizedAttemptID ` set used = {}"
  obtains pl ul t where "SettlementLines price prior = Inr pl" and "al = pl @ ul"
    and "list_all2 (\<lambda>l l'. \<exists>n. select_line price False t n = Inr l' \<and> line_quantity n = line_quantity l \<and>
      (\<forall>r. drawn_from n r = drawn_from l r)) used ul"
proof -
  from all obtain mp t1 mu t2 pl ul where mp: "attempt_totals prior (\<lambda>_. 0) = Inr (mp, t1)"
    and mu: "attempt_totals used t1 = Inr (mu, t2)" and sel: "select_lines price False t2 mp = Inr pl"
    "select_lines price False t2 mu = Inr ul" and al: "al = pl @ ul"
    by (auto simp: SettlementLines_def selectTiers_def attempt_totals_append select_lines_append split: sum.splits prod.splits)
  have "t1 (normalizedAttemptID l) = t2 (normalizedAttemptID l)" if "l \<in> set mp" for l
  proof -
    from that have "normalizedAttemptID l \<in> set (map normalizedAttemptID mp)" by simp
    then have "normalizedAttemptID l \<in> normalizedAttemptID ` set prior" unfolding attempt_totals_ids [OF mp] by simp
    then have "normalizedAttemptID l \<notin> normalizedAttemptID ` set used" using disjoint by blast
    from attempt_totals_other [OF mu this] show ?thesis by simp
  qed
  then have "select_lines price False t1 mp = Inr pl" using select_lines_cong [of mp t1 t2 price False] sel(1) by simp
  then have prior: "SettlementLines price prior = Inr pl" using mp by (simp add: SettlementLines_def selectTiers_def)
  have n: "line_quantity (l\<lparr>q_Item := n\<rparr>) = line_quantity l \<and> (\<forall>r. drawn_from (l\<lparr>q_Item := n\<rparr>) r = drawn_from l r)"
    if "Normalized (q_Item l) = Inr n" for l n
    using that by (auto simp: line_quantity_def drawn_from_def Normalized_Inr Let_def)
  have "list_all2 (\<lambda>l l'. \<exists>n. select_line price False t2 n = Inr l' \<and>
      line_quantity n = line_quantity l \<and> (\<forall>r. drawn_from n r = drawn_from l r)) used ul"
    using attempt_totals_all2 [OF mu] select_lines_all2 [OF sel(2)]
    by (rule list_all2_trans [rotated]) (use n in blast)
  with that [OF prior al] show thesis .
qed

lemma exact_value: "exact_for m ppm l x \<Longrightarrow> exact_for m ppm l y \<Longrightarrow> e_value x = e_value y"
  by (auto simp: exact_for_def)

lemma exact_values:
  "list_all2 (exact_for m ppm) ls ex \<Longrightarrow> list_all2 (exact_for m ppm) ls ey \<Longrightarrow> map e_value ex = map e_value ey"
  by (auto simp: list_all2_conv_all_nth intro!: nth_equalityI exact_value)

text \<open>What is held for the earlier calls and the bound of the current one covers the settlement of all of them.\<close>

lemma cumulative_hold_covers:
  assumes prior: "SettlementLines price prior = Inr pl" "Quote price pl ppm = Inr before"
    and bound: "UpperBoundLines price reserved = Inr rl" "Quote price rl ppm = Inr bound"
    and all: "SettlementLines price (prior @ used) = Inr al" "Quote price al ppm = Inr after"
    and covers: "covers reserved used from"
    and disjoint: "normalizedAttemptID ` set prior \<inter> normalizedAttemptID ` set used = {}"
  shows "quote_AmountUnits after \<le> quote_AmountUnits before + quote_AmountUnits bound"
proof -
  obtain pl' ul t where pl': "SettlementLines price prior = Inr pl'" and al': "al = pl' @ ul"
    and ul: "list_all2 (\<lambda>l l'. \<exists>n. select_line price False t n = Inr l' \<and> line_quantity n = line_quantity l \<and>
      (\<forall>r. drawn_from n r = drawn_from l r)) used ul"
    using SettlementLines_append [OF all(1) disjoint] .
  have al: "al = pl @ ul" using prior(1) pl' al' by simp
  from Quote_exact [OF prior(2)] obtain m ex where m: "index_rates (p_Rates price) Map.empty = Inr m"
    and ex: "list_all2 (exact_for m ppm) pl ex" and before: "quote_AmountUnits before = \<lceil>sum_list (map e_value ex)\<rceil>"
    and ppm: "0 < ppm" by metis
  obtain m' er where m': "index_rates (p_Rates price) Map.empty = Inr m'" and er': "list_all2 (exact_for m' ppm) rl er"
    and bnd: "quote_AmountUnits bound = \<lceil>sum_list (map e_value er)\<rceil>" using Quote_exact [OF bound(2)] by metis
  obtain m'' ea where m'': "index_rates (p_Rates price) Map.empty = Inr m''" and ea': "list_all2 (exact_for m'' ppm) al ea"
    and after: "quote_AmountUnits after = \<lceil>sum_list (map e_value ea)\<rceil>" using Quote_exact [OF all(2)] by metis
  have "m' = m" "m'' = m" using m m' m'' by simp_all
  then have er: "list_all2 (exact_for m ppm) rl er" and ea: "list_all2 (exact_for m ppm) (pl @ ul) ea"
    using er' ea' al by simp_all
  from ea obtain ep eu where parts: "ea = ep @ eu" "list_all2 (exact_for m ppm) pl ep" "list_all2 (exact_for m ppm) ul eu"
    by (auto simp: list_all2_append1)
  have rl: "list_all2 (\<lambda>l l'. select_line price True (\<lambda>_. 0) l = Inr l') reserved rl"
    using bound(1) by (simp add: UpperBoundLines_def selectTiers_def select_lines_all2)
  have "sum_list (map e_value eu) \<le> sum_list (map e_value er)"
    by (rule covered_value [OF m ppm rl er ul parts(3) covers])
  moreover have "sum_list (map e_value ea) = sum_list (map e_value ex) + sum_list (map e_value eu)"
    using exact_values [OF parts(2) ex] by (simp add: parts(1))
  ultimately have "\<lceil>sum_list (map e_value ea)\<rceil> \<le> \<lceil>sum_list (map e_value ex) + sum_list (map e_value er)\<rceil>"
    by (intro ceiling_mono) simp
  also have "\<dots> \<le> \<lceil>sum_list (map e_value ex)\<rceil> + \<lceil>sum_list (map e_value er)\<rceil>" by (rule ceiling_add_le)
  finally show ?thesis by (simp only: before bnd after)
qed

section \<open>A concrete price book\<close>

definition demo_rate :: "string \<Rightarrow> string \<Rightarrow> int \<Rightarrow> Rate" where
  "demo_rate c tier price = \<lparr>r_Category = c, r_Unit = ''token'', r_TierKey = tier, r_PriceUnits = price,
     r_UnitScale = 3\<rparr>"

definition demo_prices :: PriceBook where
  "demo_prices = \<lparr>p_ModelID = ''gpt'', p_ContextTierThresholdTokens = 8,
     p_Rates = [demo_rate InputTokens ''short_context'' 7, demo_rate InputTokens ''long_context'' 9,
       demo_rate CacheRead [] 2, demo_rate OutputTokens [] 10]\<rparr>"

definition demo_line :: "string \<Rightarrow> string \<Rightarrow> string \<Rightarrow> int \<Rightarrow> QuoteLine" where
  "demo_line key c tier n = \<lparr>q_Key = key, q_AttemptID = ''1'',
     q_Item = \<lparr>u_Category = c, u_Unit = ''token'', u_TierKey = tier, u_Quantity = n\<rparr>\<rparr>"

definition demo_reserved :: "QuoteLine list" where
  "demo_reserved = [demo_line ''in'' UsageCategoryInputText [] 10, demo_line ''out'' UsageCategoryOutputText [] 2]"

definition demo_used :: "QuoteLine list" where
  "demo_used = [demo_line ''i'' UsageCategoryInputText [] 5, demo_line ''c'' UsageCategoryCacheRead [] 4,
     demo_line ''o'' UsageCategoryOutputText [] 2]"

definition demo_settled :: "QuoteLine list" where
  "demo_settled = projr (SettlementLines demo_prices demo_used)"

definition demo_charge :: QuoteResult where
  "demo_charge = projr (Quote demo_prices demo_settled 1000000)"

lemma demo_charge: "Quote demo_prices demo_settled 1000000 = Inr demo_charge"
proof -
  have "\<not> isl (Quote demo_prices demo_settled 1000000)" by code_simp
  then show ?thesis unfolding demo_charge_def by simp
qed

lemma demo_amounts: "map qr_AmountUnits (quote_Lines demo_charge) = [15, 3, 7]" "length demo_settled = 3"
  by code_simp+

theorem quote_total_exact_witness:
  "quote_AmountUnits demo_charge = 25 \<and>
   sum_list (map qr_AmountUnits (quote_Lines demo_charge)) = quote_AmountUnits demo_charge"
  using quote_total_exact [OF demo_charge] by (simp add: demo_amounts)

theorem quote_largest_remainder_witness:
  "frac (exact_price 1000000 (demo_settled ! 0) (quote_Lines demo_charge ! 0))
    \<le> frac (exact_price 1000000 (demo_settled ! 2) (quote_Lines demo_charge ! 2))"
proof -
  have "qr_AmountUnits (quote_Lines demo_charge ! 2) =
      \<lfloor>exact_price 1000000 (demo_settled ! 2) (quote_Lines demo_charge ! 2)\<rfloor> + 1" by code_simp
  moreover have "qr_AmountUnits (quote_Lines demo_charge ! 0) =
      \<lfloor>exact_price 1000000 (demo_settled ! 0) (quote_Lines demo_charge ! 0)\<rfloor>" by code_simp
  ultimately show ?thesis
    by (intro quote_largest_remainder [OF demo_charge]) (simp_all add: demo_amounts)
qed

definition demo_hold_lines :: "QuoteLine list" where
  "demo_hold_lines = projr (UpperBoundLines demo_prices demo_reserved)"

definition demo_hold_quote :: QuoteResult where
  "demo_hold_quote = projr (Quote demo_prices demo_hold_lines 1000000)"

theorem hold_covers_charge_witness:
  "quote_AmountUnits demo_hold_quote = 37 \<and> quote_AmountUnits demo_charge \<le> quote_AmountUnits demo_hold_quote"
proof -
  have "\<not> isl (UpperBoundLines demo_prices demo_reserved)" by code_simp
  then have lines: "UpperBoundLines demo_prices demo_reserved = Inr demo_hold_lines"
    unfolding demo_hold_lines_def by simp
  have "\<not> isl (Quote demo_prices demo_hold_lines 1000000)" by code_simp
  then have hold: "Quote demo_prices demo_hold_lines 1000000 = Inr demo_hold_quote"
    unfolding demo_hold_quote_def by simp
  have "\<not> isl (SettlementLines demo_prices demo_used)" by code_simp
  then have used: "SettlementLines demo_prices demo_used = Inr demo_settled"
    unfolding demo_settled_def by simp
  have cov: "covers demo_reserved demo_used [0, 0, 1]" by code_simp
  have "quote_AmountUnits demo_hold_quote = 37" by code_simp
  with hold_covers_charge [OF lines hold used demo_charge cov] show ?thesis by simp
qed

end
