(* ===== verification/RedeemCode.thy ===== *)
theory RedeemCode
  imports Money
begin

text \<open>
  \<open>internal/module/payment/redeemcode/code.go\<close>: drawing redeem codes from a source of random
  bytes, the canonical form of a code a user types, and the amount of a batch in cents. The
  \<open>io.Reader\<close> is a parameter: the outcome of its k-th one-byte \<open>Read\<close>.
\<close>

section \<open>Constants and errors\<close>

definition CodeAlphabet :: string where
  "CodeAlphabet = ''23456789ABCDEFGHJKMNPQRSTUVWXYZ''"

definition MaxBatchQuantity :: nat where "MaxBatchQuantity = 1000"

definition MaxRawCodeBytes :: nat where "MaxRawCodeBytes = 128"

definition MaxAmountCents :: int where "MaxAmountCents = 100000000"

definition randomCharacterCount :: nat where "randomCharacterCount = 20"

definition maxRandomReadAttempts :: nat where "maxRandomReadAttempts = randomCharacterCount * 16"

definition maxDuplicateCodeAttempts :: nat where "maxDuplicateCodeAttempts = 32"

datatype code_error =
    ErrInvalidCode
  | ErrInvalidAmount
  | ErrCodeGenerationExhausted
  | ErrCodeUniquenessExhausted

section \<open>Drawing codes\<close>

text \<open>A read of one byte: the byte; nothing, with no error or \<open>io.EOF\<close>; or another error.\<close>

datatype read_outcome = ReadByte int | ReadNothing | ReadError

type_synonym reader = "nat \<Rightarrow> read_outcome"

text \<open>\<open>fmt.Sprintf("ZHR-%s-%s-%s-%s-%s", ...)\<close> on the four-character groups\<close>

definition code_text :: "string \<Rightarrow> string" where
  "code_text part = ''ZHR-'' @ take 4 part @ ''-'' @ take 4 (drop 4 part) @ ''-'' @
     take 4 (drop 8 part) @ ''-'' @ take 4 (drop 12 part) @ ''-'' @ take 4 (drop 16 part)"

text \<open>The loop of GenerateCode, with the attempts left and the number of reads so far.\<close>

fun draw_characters :: "reader \<Rightarrow> nat \<Rightarrow> nat \<Rightarrow> string \<Rightarrow> (code_error + string) \<times> nat" where
  "draw_characters random 0 k randomPart = (Inr randomPart, k)"
| "draw_characters random (Suc attempts) k randomPart =
     (if randomCharacterCount \<le> length randomPart then (Inr randomPart, k)
      else case random k of
        ReadByte b \<Rightarrow> draw_characters random attempts (Suc k)
          (if b < 248 then randomPart @ [CodeAlphabet ! nat (b mod int (length CodeAlphabet))] else randomPart)
      | ReadNothing \<Rightarrow> draw_characters random attempts (Suc k) randomPart
      | ReadError \<Rightarrow> (Inl ErrCodeGenerationExhausted, Suc k))"

definition GenerateCode :: "reader option \<Rightarrow> nat \<Rightarrow> (code_error + string) \<times> nat" where
  "GenerateCode random k =
     (case random of
        None \<Rightarrow> (Inl ErrCodeGenerationExhausted, k)
      | Some r \<Rightarrow>
          (case draw_characters r maxRandomReadAttempts k [] of
             (Inl e, k') \<Rightarrow> (Inl e, k')
           | (Inr part, k') \<Rightarrow>
               if length part \<noteq> randomCharacterCount then (Inl ErrCodeGenerationExhausted, k')
               else (Inr (code_text part), k')))"

text \<open>The inner loop of generateUniqueCodes: None when every attempt drew a code seen before.\<close>

fun draw_new_code :: "reader option \<Rightarrow> nat \<Rightarrow> nat \<Rightarrow> string list \<Rightarrow> (code_error + string option) \<times> nat" where
  "draw_new_code random 0 k seen = (Inr None, k)"
| "draw_new_code random (Suc attempts) k seen =
     (case GenerateCode random k of
        (Inl e, k') \<Rightarrow> (Inl e, k')
      | (Inr code, k') \<Rightarrow>
          if List.member seen code then draw_new_code random attempts k' seen
          else (Inr (Some code), k'))"

fun draw_codes :: "reader option \<Rightarrow> nat \<Rightarrow> nat \<Rightarrow> string list \<Rightarrow> (code_error + string list) \<times> nat" where
  "draw_codes random 0 k codes = (Inr codes, k)"
| "draw_codes random (Suc missing) k codes =
     (case draw_new_code random maxDuplicateCodeAttempts k codes of
        (Inl e, k') \<Rightarrow> (Inl e, k')
      | (Inr None, k') \<Rightarrow> (Inl ErrCodeUniquenessExhausted, k')
      | (Inr (Some code), k') \<Rightarrow> draw_codes random missing k' (codes @ [code]))"

definition generateUniqueCodes :: "reader option \<Rightarrow> int \<Rightarrow> nat \<Rightarrow> (code_error + string list) \<times> nat" where
  "generateUniqueCodes random quantity k =
     (if quantity \<le> 0 \<or> int MaxBatchQuantity < quantity then (Inl ErrCodeUniquenessExhausted, k)
      else draw_codes random (nat quantity) k [])"

section \<open>The canonical form of a code\<close>

fun compact_code :: "string \<Rightarrow> string \<Rightarrow> string option" where
  "compact_code compact [] = Some compact"
| "compact_code compact (c # raw) =
     (let b = of_char c :: int
      in if 128 \<le> b \<or> b < 32 \<or> b = 127 then None
         else if c = CHR '' '' \<or> c = CHR ''-'' then compact_code compact raw
         else
           let b = (if 97 \<le> b \<and> b \<le> 122 then b - 32 else b)
           in if \<not> (65 \<le> b \<and> b \<le> 90 \<or> 48 \<le> b \<and> b \<le> 57) then None
              else compact_code (compact @ [char_of b]) raw)"

definition NormalizeCode :: "string \<Rightarrow> code_error + string" where
  "NormalizeCode raw =
     (if length raw = 0 \<or> MaxRawCodeBytes < length raw then Inl ErrInvalidCode
      else case compact_code [] raw of
        None \<Rightarrow> Inl ErrInvalidCode
      | Some compact \<Rightarrow>
          if length compact \<noteq> 3 + randomCharacterCount \<or> take 3 compact \<noteq> ''ZHR'' then Inl ErrInvalidCode
          else if \<not> list_all (List.member CodeAlphabet) (drop 3 compact) then Inl ErrInvalidCode
          else Inr (code_text (drop 3 compact)))"

section \<open>Amounts\<close>

text \<open>The first loop: the position of the dot, None where it rejects.\<close>

fun scan_cents :: "nat \<Rightarrow> nat option \<Rightarrow> string \<Rightarrow> nat option option" where
  "scan_cents i dot [] = Some dot"
| "scan_cents i dot (c # cs) =
     (if c = CHR ''.'' then (if dot \<noteq> None then None else scan_cents (Suc i) (Some i) cs)
      else if \<not> is_digit c then None
      else scan_cents (Suc i) dot cs)"

fun whole_amount :: "int \<Rightarrow> string \<Rightarrow> int option" where
  "whole_amount whole [] = Some whole"
| "whole_amount whole (c # cs) =
     (let digit = of_char c - 48
      in if quo64 (sub64 max_int64 digit) 10 < whole then None
         else whole_amount (add64 (mul64 whole 10) digit) cs)"

definition cents_text :: "int \<Rightarrow> string" where
  "cents_text cents = format_int (quo64 cents 100) @ ''.'' @ pad_zeros 2 (format_int (rem64 cents 100))"

text \<open>The part after the first loop, on the text before and after the dot.\<close>

definition cents_of_parts :: "bool \<Rightarrow> string \<Rightarrow> string \<Rightarrow> code_error + (int \<times> string)" where
  "cents_of_parts dotted integerPart fractionPart =
     (if integerPart = [] \<or> 1 < length integerPart \<and> hd integerPart = CHR ''0'' \<or>
         2 < length fractionPart \<or> dotted \<and> fractionPart = [] then Inl ErrInvalidAmount
      else case whole_amount 0 integerPart of
        None \<Rightarrow> Inl ErrInvalidAmount
      | Some whole \<Rightarrow>
          let fraction = (if fractionPart = [] then 0
                else add64 (mul64 (of_char (fractionPart ! 0) - 48) 10)
                  (if length fractionPart = 2 then of_char (fractionPart ! 1) - 48 else 0))
          in if quo64 (sub64 max_int64 fraction) 100 < whole then Inl ErrInvalidAmount
             else
               let cents = add64 (mul64 whole 100) fraction
               in Inr (cents, cents_text cents))"

definition ParseAmountCents :: "string \<Rightarrow> code_error + (int \<times> string)" where
  "ParseAmountCents raw =
     (if raw = [] then Inl ErrInvalidAmount
      else case scan_cents 0 None raw of
        None \<Rightarrow> Inl ErrInvalidAmount
      | Some dot \<Rightarrow>
          cents_of_parts (dot \<noteq> None) (case dot of None \<Rightarrow> raw | Some d \<Rightarrow> take d raw)
            (case dot of None \<Rightarrow> [] | Some d \<Rightarrow> drop (Suc d) raw))"

section \<open>Lemmas on codes\<close>

text \<open>A canonical code: the prefix and five groups of four letters of the alphabet.\<close>

definition canonical_part :: "string \<Rightarrow> bool" where
  "canonical_part part \<longleftrightarrow> length part = 20 \<and> set part \<subseteq> set CodeAlphabet"

definition canonical :: "string \<Rightarrow> bool" where
  "canonical code \<longleftrightarrow> (\<exists>part. canonical_part part \<and> code = code_text part)"

lemma alphabet_char:
  "c \<in> set CodeAlphabet \<Longrightarrow> 50 \<le> (of_char c :: int) \<and> (of_char c :: int) \<le> 57 \<or>
     65 \<le> (of_char c :: int) \<and> (of_char c :: int) \<le> 90"
  "c \<in> set CodeAlphabet \<Longrightarrow> c \<noteq> CHR '' '' \<and> c \<noteq> CHR ''-''"
  by (auto simp: CodeAlphabet_def)

lemma compact_code_letter:
  "50 \<le> (of_char c :: int) \<and> (of_char c :: int) \<le> 57 \<or> 65 \<le> (of_char c :: int) \<and> (of_char c :: int) \<le> 90 \<Longrightarrow>
     compact_code acc (c # s) = compact_code (acc @ [c]) s"
proof -
  assume "50 \<le> (of_char c :: int) \<and> (of_char c :: int) \<le> 57 \<or> 65 \<le> (of_char c :: int) \<and> (of_char c :: int) \<le> 90"
  moreover from this have "c \<noteq> CHR '' ''" "c \<noteq> CHR ''-''" by auto
  moreover have "char_of (of_char c :: int) = c" by simp
  ultimately show ?thesis by (auto simp: Let_def)
qed

lemma compact_code_letters:
  "set p \<subseteq> set CodeAlphabet \<Longrightarrow> compact_code acc (p @ s) = compact_code (acc @ p) s"
proof (induction p arbitrary: acc)
  case (Cons c p)
  then have "compact_code acc ((c # p) @ s) = compact_code (acc @ [c]) (p @ s)"
    using alphabet_char(1) [of c] by (simp add: compact_code_letter del: compact_code.simps)
  with Cons show ?case by (simp del: compact_code.simps)
qed simp

lemma compact_code_dash: "compact_code acc (CHR ''-'' # s) = compact_code acc s"
  by simp

lemma compact_code_text:
  assumes "canonical_part part"
  shows "compact_code [] (code_text part) = Some (''ZHR'' @ part)"
proof -
  have sub: "set (take 4 (drop n part)) \<subseteq> set CodeAlphabet" for n
    using assms set_drop_subset [of n part] set_take_subset [of 4 "drop n part"]
    by (auto simp: canonical_part_def)
  have "take 4 part @ take 4 (drop 4 part) @ take 4 (drop 8 part) @ take 4 (drop 12 part) @ take 4 (drop 16 part)
      = take 20 part"
    using take_add [of 16 4 part] take_add [of 12 4 part] take_add [of 8 4 part] take_add [of 4 4 part]
    by simp
  also have "\<dots> = part" using assms by (simp add: canonical_part_def)
  finally have join: "take 4 part @ take 4 (drop 4 part) @ take 4 (drop 8 part) @ take 4 (drop 12 part)
      @ take 4 (drop 16 part) = part" .
  have zhr: "compact_code [] (''ZHR-'' @ s) = compact_code ''ZHR'' s" for s by (simp add: char_of_def)
  show ?thesis
    unfolding code_text_def zhr
    using sub [of 0] sub [of 4] sub [of 8] sub [of 12] compact_code_letters [OF sub [of 16], of _ "[]"] join
    by (simp add: compact_code_letters compact_code_dash del: compact_code.simps(2))
qed

lemma length_code_text: "length part = 20 \<Longrightarrow> length (code_text part) = 28"
  by (simp add: code_text_def)

lemma NormalizeCode_canonical: "canonical code \<Longrightarrow> NormalizeCode code = Inr code"
proof -
  assume "canonical code"
  then obtain part where part: "canonical_part part" "code = code_text part" by (auto simp: canonical_def)
  then have "length code = 28" by (simp add: canonical_part_def length_code_text)
  moreover have "list_all (List.member CodeAlphabet) part"
    using part(1) by (auto simp: canonical_part_def list_all_iff)
  ultimately show ?thesis
    using part compact_code_text [OF part(1)]
    by (simp add: NormalizeCode_def MaxRawCodeBytes_def randomCharacterCount_def canonical_part_def)
qed

lemma canonical_NormalizeCode: "NormalizeCode raw = Inr code \<Longrightarrow> canonical code"
proof -
  assume "NormalizeCode raw = Inr code"
  then obtain compact where "code = code_text (drop 3 compact)" "length compact = 3 + 20"
    "list_all (List.member CodeAlphabet) (drop 3 compact)"
    by (auto simp: NormalizeCode_def randomCharacterCount_def split: if_splits option.splits)
  then show ?thesis
    unfolding canonical_def canonical_part_def
    by (intro exI [of _ "drop 3 compact"]) (auto simp: list_all_iff)
qed

lemma NormalizeCode_fixed: "NormalizeCode code = Inr code \<longleftrightarrow> canonical code"
  using NormalizeCode_canonical canonical_NormalizeCode by blast

lemma alphabet_nth: "0 \<le> b \<Longrightarrow> CodeAlphabet ! nat (b mod int (length CodeAlphabet)) \<in> set CodeAlphabet"
proof (rule nth_mem)
  have "b mod int (length CodeAlphabet) < int (length CodeAlphabet)"
    by (rule pos_mod_bound) (simp add: CodeAlphabet_def)
  then show "nat (b mod int (length CodeAlphabet)) < length CodeAlphabet"
    by (simp add: nat_less_iff CodeAlphabet_def)
qed

lemma alphabet_nth': "CodeAlphabet ! nat (b mod int (length CodeAlphabet)) \<in> set CodeAlphabet"
  using alphabet_nth [of "b mod int (length CodeAlphabet)"]
  by (simp add: CodeAlphabet_def)

lemma draw_characters_part:
  "draw_characters random n k part = (Inr part', k') \<Longrightarrow> length part \<le> randomCharacterCount \<Longrightarrow>
     set part \<subseteq> set CodeAlphabet \<Longrightarrow> length part' \<le> randomCharacterCount \<and> set part' \<subseteq> set CodeAlphabet"
proof (induction n arbitrary: k part)
  case (Suc n)
  show ?case
  proof (cases "randomCharacterCount \<le> length part")
    case True
    with Suc.prems show ?thesis by simp
  next
    case False
    then show ?thesis using Suc alphabet_nth' by (auto split: read_outcome.splits if_splits)
  qed
qed simp

lemma GenerateCode_canonical: "GenerateCode random k = (Inr code, k') \<Longrightarrow> canonical code"
proof -
  assume "GenerateCode random k = (Inr code, k')"
  then obtain r part where "draw_characters r maxRandomReadAttempts k [] = (Inr part, k')"
    and part: "length part = randomCharacterCount" "code = code_text part"
    by (auto simp: GenerateCode_def split: option.splits prod.splits sum.splits if_splits)
  from draw_characters_part [OF this(1)] part show ?thesis
    unfolding canonical_def canonical_part_def randomCharacterCount_def by auto
qed

lemma draw_new_code_new:
  "draw_new_code random n k seen = (Inr (Some code), k') \<Longrightarrow> code \<notin> set seen \<and> canonical code"
  by (induction n arbitrary: k)
    (auto split: prod.splits sum.splits if_splits dest: GenerateCode_canonical)

lemma draw_codes_ok:
  "draw_codes random n k codes = (Inr codes', k') \<Longrightarrow> distinct codes \<Longrightarrow> list_all canonical codes \<Longrightarrow>
     distinct codes' \<and> list_all canonical codes' \<and> length codes' = length codes + n"
proof (induction n arbitrary: k codes)
  case (Suc n)
  from Suc.prems(1) obtain code l where "draw_new_code random maxDuplicateCodeAttempts k codes = (Inr (Some code), l)"
    and rest: "draw_codes random n l (codes @ [code]) = (Inr codes', k')"
    by (auto split: prod.splits sum.splits option.splits)
  from draw_new_code_new [OF this(1)] Suc.prems(2,3) Suc.IH [OF rest] show ?case by simp
qed simp

section \<open>Lemmas on amounts\<close>

lemma digit_int: "is_digit c \<Longrightarrow> (of_char c :: int) - 48 = int (digit_val c)"
proof -
  assume "is_digit c"
  then have "48 \<le> (of_char c :: nat)" by (simp add: is_digit_def)
  moreover have "(of_char c :: int) = int (of_char c)" by (simp only: of_nat_of_char)
  ultimately show ?thesis by (simp add: digit_val_def of_nat_diff)
qed

lemma whole_amount_step:
  assumes "is_digit c" "0 \<le> w" "w \<le> max_int64"
  shows "whole_amount w (c # cs) =
    (if w * 10 + int (digit_val c) \<le> max_int64 then whole_amount (w * 10 + int (digit_val c)) cs else None)"
proof -
  have d: "0 \<le> int (digit_val c)" "int (digit_val c) \<le> 9" using digit_val_bound [OF assms(1)] by simp_all
  then have q: "quo64 (sub64 max_int64 (int (digit_val c))) 10 = (max_int64 - int (digit_val c)) div 10"
    by (simp add: sub64_nonneg max_int64_def quo64_nonneg)
  have iff: "(max_int64 - int (digit_val c)) div 10 < w \<longleftrightarrow> \<not> w * 10 + int (digit_val c) \<le> max_int64"
    by linarith
  have "add64 (mul64 w 10) (int (digit_val c)) = w * 10 + int (digit_val c)"
    if "w * 10 + int (digit_val c) \<le> max_int64"
  proof -
    have "mul64 w 10 = w * 10" using that assms(2) by (intro mul64_id) simp
    then show ?thesis using that assms(2) by (simp add: add64_id)
  qed
  then show ?thesis by (auto simp: digit_int [OF assms(1)] q iff Let_def)
qed

lemma whole_amount_value:
  "list_all is_digit s \<Longrightarrow> 0 \<le> w \<Longrightarrow> w \<le> max_int64 \<Longrightarrow>
     whole_amount w s = (if w * 10 ^ length s + int (digits_val s) \<le> max_int64
       then Some (w * 10 ^ length s + int (digits_val s)) else None)"
proof (induction s arbitrary: w)
  case (Cons c s)
  have val: "int (digits_val (c # s)) = int (digit_val c) * 10 ^ length s + int (digits_val s)"
    using digits_val_append [of "[c]" s] by (simp add: digits_val_def)
  have sum: "w * 10 ^ length (c # s) + int (digits_val (c # s))
      = (w * 10 + int (digit_val c)) * 10 ^ length s + int (digits_val s)"
    unfolding val by (simp add: algebra_simps)
  have "w * 10 + int (digit_val c) \<le> (w * 10 + int (digit_val c)) * 10 ^ length s"
    using Cons.prems(2) by (simp add: mult_le_cancel_left1)
  then show ?case
    unfolding sum using Cons by (simp add: whole_amount_step del: whole_amount.simps(2))
qed simp

lemma scan_cents_digits: "list_all is_digit s \<Longrightarrow> scan_cents i d s = Some d"
  by (induction s arbitrary: i) (auto simp: is_digit_def)

lemma scan_cents_dot:
  "list_all is_digit w \<Longrightarrow> list_all is_digit f \<Longrightarrow>
     scan_cents i None (w @ CHR ''.'' # f) = Some (Some (i + length w))"
  by (induction w arbitrary: i) (auto simp: scan_cents_digits is_digit_def)

lemma scan_cents_SomeD:
  "scan_cents i d s = Some r \<Longrightarrow>
     (r = d \<and> list_all is_digit s) \<or>
     (d = None \<and> (\<exists>w f. s = w @ CHR ''.'' # f \<and> list_all is_digit w \<and> list_all is_digit f \<and> r = Some (i + length w)))"
proof (induction s arbitrary: i d)
  case (Cons c s)
  show ?case
  proof (cases "c = CHR ''.''")
    case True
    with Cons.prems have d: "d = None" and rest: "scan_cents (Suc i) (Some i) s = Some r"
      by (auto split: if_splits)
    from Cons.IH [OF rest] have "r = Some i" "list_all is_digit s" by auto
    with True d have "c # s = [] @ CHR ''.'' # s \<and> list_all is_digit [] \<and> list_all is_digit s \<and>
        r = Some (i + length [])" by simp
    with d show ?thesis by blast
  next
    case False
    with Cons.prems have c: "is_digit c" and rest: "scan_cents (Suc i) d s = Some r"
      by (auto split: if_splits)
    from Cons.IH [OF rest] show ?thesis
    proof (elim disjE conjE exE)
      fix w f
      assume "d = None" "s = w @ CHR ''.'' # f" "list_all is_digit w" "list_all is_digit f" "r = Some (Suc i + length w)"
      with c have "c # s = (c # w) @ CHR ''.'' # f \<and> list_all is_digit (c # w) \<and> list_all is_digit f \<and>
          r = Some (i + length (c # w))" by simp
      with \<open>d = None\<close> show ?thesis by blast
    qed (use c in simp)
  qed
qed simp

text \<open>The fraction part read as cents: none, one digit, or two.\<close>

definition fraction_cents :: "string \<Rightarrow> int" where
  "fraction_cents f = int (digits_val (f @ replicate (2 - length f) (CHR ''0'')))"

lemma fraction_value:
  assumes "list_all is_digit f" "length f \<le> 2"
  shows "(if f = [] then 0 else add64 (mul64 (of_char (f ! 0) - 48) 10)
      (if length f = 2 then of_char (f ! 1) - 48 else 0)) = fraction_cents f"
    and "0 \<le> fraction_cents f" and "fraction_cents f < 100"
proof -
  have "digits_val (f @ replicate (2 - length f) (CHR ''0'')) < 10 ^ length (f @ replicate (2 - length f) (CHR ''0''))"
    using assms(1) by (intro digits_val_bound) (auto simp: list_all_iff is_digit_def)
  with assms(2) show "0 \<le> fraction_cents f" "fraction_cents f < 100"
    by (simp_all add: fraction_cents_def)
  consider "f = []" | c where "f = [c]" | c d where "f = [c, d]"
    using assms(2) by (cases f rule: list.exhaust; cases "tl f" rule: list.exhaust; fastforce)
  then show "(if f = [] then 0 else add64 (mul64 (of_char (f ! 0) - 48) 10)
      (if length f = 2 then of_char (f ! 1) - 48 else 0)) = fraction_cents f"
  proof cases
    case 1
    then show ?thesis by (simp add: fraction_cents_def numeral_2_eq_2 digits_val_def digit_val_def)
  next
    case (2 c)
    with assms(1) digit_val_bound [of c] show ?thesis
      by (simp add: digit_int fraction_cents_def digits_val_def mul64_id add64_id max_int64_def)
        (simp add: digit_val_def)
  next
    case (3 c d)
    with assms(1) digit_val_bound [of c] digit_val_bound [of d] show ?thesis
      by (simp add: digit_int fraction_cents_def digits_val_def mul64_id add64_id max_int64_def)
  qed
qed

text \<open>What ParseAmountCents accepts: digits without a leading zero, optionally a dot and one or two
  digits, of a value that fits.\<close>

definition amount_form :: "string \<Rightarrow> string \<Rightarrow> string \<Rightarrow> bool" where
  "amount_form raw w f \<longleftrightarrow> list_all is_digit w \<and> list_all is_digit f \<and> w \<noteq> [] \<and>
     (length w = 1 \<or> hd w \<noteq> CHR ''0'') \<and> length f \<le> 2 \<and>
     raw = (if f = [] then w else w @ ''.'' @ f)"

lemma amount_form_parse:
  assumes form: "amount_form raw w f"
  shows "ParseAmountCents raw =
    (if int (digits_val w) * 100 + fraction_cents f \<le> max_int64
     then Inr (int (digits_val w) * 100 + fraction_cents f, cents_text (int (digits_val w) * 100 + fraction_cents f))
     else Inl ErrInvalidAmount)"
proof -
  have w: "list_all is_digit w" "w \<noteq> []" and f: "list_all is_digit f" "length f \<le> 2"
    and raw: "raw = (if f = [] then w else w @ ''.'' @ f)" and lead: "length w = 1 \<or> hd w \<noteq> CHR ''0''"
    using form by (simp_all add: amount_form_def)
  note fv = fraction_value [OF f]
  obtain dot where scan: "scan_cents 0 None raw = Some dot"
    and parts: "(case dot of None \<Rightarrow> raw | Some d \<Rightarrow> take d raw) = w"
      "(case dot of None \<Rightarrow> [] | Some d \<Rightarrow> drop (Suc d) raw) = f" and dot: "dot = None \<longleftrightarrow> f = []"
  proof (cases "f = []")
    case True
    then show ?thesis using that [of None] raw w scan_cents_digits [of w] by simp
  next
    case False
    then show ?thesis using that [of "Some (length w)"] raw w f scan_cents_dot [of w f 0] by simp
  qed
  have whole: "whole_amount 0 w = (if int (digits_val w) \<le> max_int64 then Some (int (digits_val w)) else None)"
    using whole_amount_value [OF w(1), of 0] by simp
  have limit: "quo64 (sub64 max_int64 (fraction_cents f)) 100 < x \<longleftrightarrow> \<not> x * 100 + fraction_cents f \<le> max_int64" for x
  proof -
    have "quo64 (sub64 max_int64 (fraction_cents f)) 100 = (max_int64 - fraction_cents f) div 100"
      using fv(2,3) by (simp add: sub64_nonneg max_int64_def quo64_nonneg)
    then show ?thesis by linarith
  qed
  have cents: "add64 (mul64 x 100) (fraction_cents f) = x * 100 + fraction_cents f"
    if "0 \<le> x" "x * 100 + fraction_cents f \<le> max_int64" for x
  proof -
    have "mul64 x 100 = x * 100" using that fv(2) by (intro mul64_id) simp
    then show ?thesis using that fv(2) by (simp add: add64_id)
  qed
  have "raw \<noteq> []" using raw w by auto
  then have "ParseAmountCents raw = cents_of_parts (dot \<noteq> None) w f"
    using scan parts by (simp add: ParseAmountCents_def)
  also have "\<dots> = (case whole_amount 0 w of None \<Rightarrow> Inl ErrInvalidAmount
      | Some whole \<Rightarrow> if quo64 (sub64 max_int64 (fraction_cents f)) 100 < whole then Inl ErrInvalidAmount
          else Inr (add64 (mul64 whole 100) (fraction_cents f), cents_text (add64 (mul64 whole 100) (fraction_cents f))))"
    using dot w(2) f(2) lead unfolding cents_of_parts_def Let_def fv(1) by auto
  finally show ?thesis
    unfolding whole using fv(2) by (auto simp: limit cents simp del: sub64_max)
qed

lemma ParseAmountCents_form:
  "ParseAmountCents raw = Inr r \<Longrightarrow> \<exists>w f. amount_form raw w f"
proof -
  assume ok: "ParseAmountCents raw = Inr r"
  then obtain dot where scan: "scan_cents 0 None raw = Some dot"
    by (auto simp: ParseAmountCents_def split: if_splits option.splits)
  from scan_cents_SomeD [OF scan] show ?thesis
  proof (elim disjE conjE exE)
    assume d: "dot = None" "list_all is_digit raw"
    with ok scan have "amount_form raw raw []"
      by (auto simp: ParseAmountCents_def cents_of_parts_def amount_form_def neq_Nil_conv split: if_splits)
    then show ?thesis by blast
  next
    fix w f
    assume d: "raw = w @ CHR ''.'' # f" "list_all is_digit w" "list_all is_digit f" "dot = Some (0 + length w)"
    with ok scan have "w \<noteq> []" "length w = 1 \<or> hd w \<noteq> CHR ''0''" "length f \<le> 2" "f \<noteq> []"
      by (cases w; auto simp: ParseAmountCents_def cents_of_parts_def split: if_splits)+
    with d have "amount_form raw w f" by (simp add: amount_form_def)
    then show ?thesis by blast
  qed
qed

lemma cents_text_form:
  assumes "0 \<le> c" "c \<le> max_int64"
  shows "\<exists>w f. amount_form (cents_text c) w f \<and> int (digits_val w) * 100 + fraction_cents f = c"
proof -
  let ?w = "format_nat (nat (c div 100))" and ?f = "pad_zeros 2 (format_nat (nat (c mod 100)))"
  have "0 \<le> c div 100" "0 \<le> c mod 100" using assms by (simp_all add: pos_imp_zdiv_nonneg_iff)
  then have "format_int (c div 100) = ?w @ []" "format_int (c mod 100) = format_nat (nat (c mod 100))"
    unfolding format_int_def by (subst if_not_P; simp)+
  then have shown: "cents_text c = ?w @ ''.'' @ ?f"
    using assms by (simp add: cents_text_def quo64_nonneg rem64_nonneg)
  have "length (format_nat (nat (c mod 100))) \<le> 2"
    by (subst format_nat_length) (simp_all add: nat_less_iff)
  then have f: "length ?f = 2" "list_all is_digit ?f" "digits_val ?f = nat (c mod 100)"
    using format_nat_digits [of "nat (c mod 100)"]
    by (simp_all add: pad_zeros_def digits_val_append)
  have lead: "length ?w = 1 \<or> hd ?w \<noteq> CHR ''0''"
  proof (cases "nat (c div 100) = 0")
    case True
    then show ?thesis by (simp add: format_nat_unfold [of 0])
  qed (simp add: format_nat_hd)
  have "?f \<noteq> []" using f(1) by auto
  then have "amount_form (cents_text c) ?w ?f"
    using f lead unfolding shown amount_form_def by (simp add: format_nat_digits)
  moreover have "int (digits_val ?w) * 100 + fraction_cents ?f = c"
    using f \<open>0 \<le> c div 100\<close> \<open>0 \<le> c mod 100\<close> by (simp add: fraction_cents_def)
  ultimately show ?thesis by blast
qed

text \<open>The 256 bytes give the alphabet eight times over, and eight rejections.\<close>

lemma drawn_letters:
  "map (\<lambda>b. draw_characters (\<lambda>_. ReadByte b) 1 0 []) (map int [0..<256]) =
     concat (replicate 8 (map (\<lambda>d. (Inr [d], 1)) CodeAlphabet)) @ replicate 8 (Inr [], 1)"
  by code_simp

section \<open>Properties\<close>

text \<open>C21. NormalizeCode computes a canonical form: every generated code, and every result of
  NormalizeCode, is a code of the canonical shape, and such codes are exactly the fixed points.\<close>

theorem redeem_code_canonical:
  "(GenerateCode random k = (Inr code, k') \<longrightarrow> NormalizeCode code = Inr code) \<and>
   (NormalizeCode raw = Inr code \<longrightarrow> NormalizeCode code = Inr code) \<and>
   (NormalizeCode code = Inr code \<longleftrightarrow>
     (\<exists>part. length part = 20 \<and> set part \<subseteq> set CodeAlphabet \<and> code = code_text part))"
  using GenerateCode_canonical canonical_NormalizeCode
  unfolding NormalizeCode_fixed canonical_def canonical_part_def by blast

text \<open>Whatever the random source returns, a batch of codes that is drawn has the number of
  codes asked for, pairwise distinct and all canonical.\<close>

theorem unique_codes:
  assumes "generateUniqueCodes random quantity k = (Inr codes, k')"
  shows "int (length codes) = quantity \<and> 0 < quantity \<and> quantity \<le> int MaxBatchQuantity \<and> distinct codes \<and>
    (\<forall>code \<in> set codes. NormalizeCode code = Inr code)"
proof -
  from assms have q: "0 < quantity" "quantity \<le> int MaxBatchQuantity"
    and draw: "draw_codes random (nat quantity) k [] = (Inr codes, k')"
    by (auto simp: generateUniqueCodes_def split: if_splits)
  from draw_codes_ok [OF draw] q show ?thesis by (auto simp: list_all_iff NormalizeCode_canonical)
qed

text \<open>The bytes the generator accepts are spread evenly: of the 256 byte values, each letter of
  the alphabet is drawn by exactly 8, and the other 8 are drawn again.\<close>

theorem letters_uniform:
  assumes "c \<in> set CodeAlphabet"
  shows "length (filter (\<lambda>b. draw_characters (\<lambda>_. ReadByte b) 1 0 [] = (Inr [c], 1)) (map int [0..<256])) = 8"
proof -
  let ?f = "\<lambda>b. draw_characters (\<lambda>_. ReadByte b) 1 0 []"
  have "length (filter (\<lambda>b. ?f b = (Inr [c], 1)) (map int [0..<256])) =
      length (filter (\<lambda>r. r = (Inr [c], 1)) (map ?f (map int [0..<256])))"
    by (simp add: filter_map comp_def)
  also have "\<dots> = 8 * length (filter (\<lambda>r. r = (Inr [c], 1 :: nat)) (map (\<lambda>d. (Inr [d] :: code_error + string, 1)) CodeAlphabet))"
    unfolding drawn_letters by (simp add: eval_nat_numeral)
  also have "filter (\<lambda>r. r = (Inr [c], 1 :: nat)) (map (\<lambda>d. (Inr [d] :: code_error + string, 1)) CodeAlphabet) =
      map (\<lambda>d. (Inr [d], 1)) (filter (\<lambda>d. d = c) CodeAlphabet)"
    by (simp add: filter_map comp_def)
  also have "filter (\<lambda>d. d = c) CodeAlphabet = [c]"
  proof -
    have "list_all (\<lambda>c. filter (\<lambda>d. d = c) CodeAlphabet = [c]) CodeAlphabet" by code_simp
    with assms show ?thesis by (simp add: list_all_iff)
  qed
  finally show ?thesis by simp
qed

text \<open>C22. An amount that parses is worth an int64 number of cents, and the text the parser returns
  for it parses to the same cents and the same text.\<close>

theorem amount_roundtrip:
  assumes "ParseAmountCents raw = Inr (cents, shown)"
  shows "0 \<le> cents \<and> cents \<le> max_int64 \<and> shown = cents_text cents \<and>
    ParseAmountCents shown = Inr (cents, shown)"
proof -
  from ParseAmountCents_form [OF assms] obtain w f where form: "amount_form raw w f" by blast
  then have "0 \<le> fraction_cents f" using fraction_value(2) by (simp add: amount_form_def)
  with assms have c: "0 \<le> cents" "cents \<le> max_int64" and t: "shown = cents_text cents"
    unfolding amount_form_parse [OF form] by (auto split: if_splits)
  from cents_text_form [OF c] obtain w' f' where "amount_form (cents_text cents) w' f'"
    and "int (digits_val w') * 100 + fraction_cents f' = cents" by blast
  with c t amount_form_parse [OF this(1)] show ?thesis by simp
qed

section \<open>Generation ends\<close>

lemma draw_characters_reads: "snd (draw_characters r n k part) \<le> k + n"
  by (induction r n k part rule: draw_characters.induct) (auto split: read_outcome.split)

lemma GenerateCode_reads: "GenerateCode random k = (res, k') \<Longrightarrow> k' \<le> k + 320"
proof -
  have "maxRandomReadAttempts = 320" by (simp add: maxRandomReadAttempts_def randomCharacterCount_def)
  then show "GenerateCode random k = (res, k') \<Longrightarrow> k' \<le> k + 320"
    using draw_characters_reads [of _ maxRandomReadAttempts k "[]"]
    by (fastforce simp: GenerateCode_def split: option.splits prod.splits sum.splits if_splits dest: arg_cong [where f = snd])
qed

lemma draw_new_code_reads: "draw_new_code random n k seen = (res, k') \<Longrightarrow> k' \<le> k + n * 320"
proof (induction random n k seen arbitrary: res k' rule: draw_new_code.induct)
  case (2 random attempts k seen)
  obtain r l where g: "GenerateCode random k = (r, l)" by fastforce
  with GenerateCode_reads [OF g] 2 show ?case by (cases r) (fastforce split: if_splits)+
qed simp

lemma draw_codes_reads: "draw_codes random n k cs = (res, k') \<Longrightarrow> k' \<le> k + n * (32 * 320)"
proof (induction random n k cs arbitrary: res k' rule: draw_codes.induct)
  case (2 random missing k cs)
  obtain r l where d: "draw_new_code random maxDuplicateCodeAttempts k cs = (r, l)" by fastforce
  have "l \<le> k + 32 * 320" using draw_new_code_reads [OF d] by (simp add: maxDuplicateCodeAttempts_def)
  with d 2 show ?case by (cases r; fastforce split: option.splits)
qed simp

text \<open>C25. Generating codes ends whatever the source of random bytes does, also when it never yields a byte
  that can be used: at most 10240 reads for each code asked for, and at most 1000 codes.\<close>

theorem generation_ends:
  "snd (generateUniqueCodes random quantity k) \<le> k + nat quantity * 10240 \<and>
   snd (generateUniqueCodes random quantity k) \<le> k + 10240000"
proof -
  obtain res k' where g: "generateUniqueCodes random quantity k = (res, k')" by fastforce
  show ?thesis
  proof (cases "quantity \<le> 0 \<or> int MaxBatchQuantity < quantity")
    case True
    with g show ?thesis by (auto simp: generateUniqueCodes_def)
  next
    case False
    then have "draw_codes random (nat quantity) k [] = (res, k')" using g by (simp add: generateUniqueCodes_def)
    from draw_codes_reads [OF this] have "k' \<le> k + nat quantity * 10240" by simp
    moreover have "nat quantity \<le> 1000" using False by (simp add: MaxBatchQuantity_def nat_le_iff not_less)
    ultimately show ?thesis unfolding g by simp
  qed
qed

section \<open>Witnesses\<close>

text \<open>A source that counts up, skipping the byte before each code.\<close>

definition demo_reader :: "reader option" where
  "demo_reader = Some (\<lambda>k. if k = 0 then ReadByte 250 else ReadByte (int k * 7 mod 256))"

theorem redeem_code_canonical_witness:
  "NormalizeCode (projr (fst (GenerateCode demo_reader 0))) = Inr (projr (fst (GenerateCode demo_reader 0))) \<and>
   NormalizeCode ''zhr 9GPW 5CKS-29GP-W5BJ-R298'' = Inr ''ZHR-9GPW-5CKS-29GP-W5BJ-R298''"
proof -
  have ok: "\<not> isl (fst (GenerateCode demo_reader 0))" by code_simp
  then have "GenerateCode demo_reader 0 = (Inr (projr (fst (GenerateCode demo_reader 0))), snd (GenerateCode demo_reader 0))"
    by (metis prod.collapse sum.collapse(2))
  moreover have "NormalizeCode ''zhr 9GPW 5CKS-29GP-W5BJ-R298'' = Inr ''ZHR-9GPW-5CKS-29GP-W5BJ-R298''"
    by code_simp
  ultimately show ?thesis using redeem_code_canonical by blast
qed

theorem unique_codes_witness:
  "length (projr (fst (generateUniqueCodes demo_reader 2 0))) = 2 \<and>
   distinct (projr (fst (generateUniqueCodes demo_reader 2 0)))"
proof -
  have "\<not> isl (fst (generateUniqueCodes demo_reader 2 0))" by code_simp
  then have "generateUniqueCodes demo_reader 2 0 = (Inr (projr (fst (generateUniqueCodes demo_reader 2 0))),
      snd (generateUniqueCodes demo_reader 2 0))"
    by (metis prod.collapse sum.collapse(2))
  from unique_codes [OF this] show ?thesis by simp
qed

theorem letters_uniform_witness:
  "length (filter (\<lambda>b. draw_characters (\<lambda>_. ReadByte b) 1 0 [] = (Inr ''Z'', 1)) (map int [0..<256])) = 8"
  by (rule letters_uniform) (simp add: CodeAlphabet_def)

theorem amount_roundtrip_witness:
  "ParseAmountCents ''12.5'' = Inr (1250, ''12.50'') \<and> ParseAmountCents ''12.50'' = Inr (1250, ''12.50'')"
proof -
  have a: "ParseAmountCents ''12.5'' = Inr (1250, ''12.50'')" by code_simp
  with amount_roundtrip [OF a] show ?thesis by blast
qed

end
