(* ===== verification/RedeemModel.thy ===== *)
theory RedeemModel
  imports RedeemCode WalletHistory
begin

text \<open>
  The data of \<open>internal/module/payment/redeemcode\<close>: the rows of redeem_code_batches and
  redeem_codes (model.go) as two more tables beside those of the wallet, the errors of
  repository.go, and its checks on rows, requests and ids.
\<close>

section \<open>Rows (model.go)\<close>

definition StateUnused :: string where "StateUnused = ''unused''"
definition StateUsed :: string where "StateUsed = ''used''"
definition StateVoided :: string where "StateVoided = ''voided''"
definition StateExpired :: string where "StateExpired = ''expired''"

lemma code_state_distinct [simp]:
  "StateUnused \<noteq> StateUsed" "StateUsed \<noteq> StateUnused" "StateUnused \<noteq> StateVoided"
  "StateVoided \<noteq> StateUnused" "StateUsed \<noteq> StateVoided" "StateVoided \<noteq> StateUsed"
  by (simp_all add: StateUnused_def StateUsed_def StateVoided_def)

record Batch =
  b_ID :: int
  b_BatchNo :: string
  b_RequestID :: string
  b_RequestFingerprintVersion :: string
  b_RequestFingerprint :: string
  b_AmountCents :: int
  b_Quantity :: int
  b_ExpiresAt :: "gotime option"
  b_Note :: string
  b_CreatedBy :: int
  b_CreatedAt :: gotime
  b_UpdatedAt :: gotime

record Code =
  c_ID :: int
  c_BatchID :: int
  c_Code :: string
  c_State :: string
  c_UsedBy :: "int option"
  c_UsedAt :: "gotime option"
  c_CreatedAt :: gotime
  c_UpdatedAt :: gotime

record BatchWithCodes =
  bc_Batch :: Batch
  bc_Codes :: "Code list"

record RedemptionFact =
  fact_AmountCents :: int
  fact_AmountUnits :: int
  fact_Transaction :: "Transaction option"
  fact_Wallet :: "Wallet option"
  fact_Replayed :: bool

record redeem_tables = wallet_tables +
  batches :: "Batch list"
  codes :: "Code list"

section \<open>Errors (repository.go)\<close>

text \<open>ErrExpired wraps ErrUnavailable; ErrSourceConflict and ErrOverflow wrap ErrIntegrityViolation.\<close>

datatype redeem_error =
    ErrRepositoryNotConfigured
  | ErrRequestConflict
  | ErrBatchNumberCollision
  | ErrCodeCollision
  | ErrExpiryNotFuture
  | ErrVoidConflict
  | ErrUnavailable
  | ErrIntegrityViolation
  | ErrExpired
  | ErrSourceConflict
  | ErrOverflow
  | errCreatorRequestRace
  | RedeemMoney money_error
  | RedeemWallet wallet_error
  | RedeemDb db_error

definition duplicateKeyBatchNo :: string where
  "duplicateKeyBatchNo = ''uk_redeem_code_batches_batch_no''"

definition duplicateKeyCreatorRequest :: string where
  "duplicateKeyCreatorRequest = ''uk_redeem_code_batches_creator_request''"

definition duplicateKeyCode :: string where
  "duplicateKeyCode = ''uk_redeem_codes_code''"

definition maxTransactionAttempts :: nat where "maxTransactionAttempts = 3"

definition duplicateKeyFor :: "db_error \<Rightarrow> string \<Rightarrow> bool" where
  "duplicateKeyFor err key =
     (case err of
        MySQLError n msg \<Rightarrow>
          if n = 1062 then contains msg key
          else contains (error_text err) ''Duplicate entry'' \<and> contains (error_text err) key
      | _ \<Rightarrow> contains (error_text err) ''Duplicate entry'' \<and> contains (error_text err) key)"

definition retryableMySQLError :: "redeem_error \<Rightarrow> bool" where
  "retryableMySQLError err =
     (case err of RedeemDb (MySQLError n _) \<Rightarrow> n = 1213 \<or> n = 1205 | _ \<Rightarrow> False)"

text \<open>The default case hands the error of the wallet on; a database error in it stays one.\<close>

definition mapWalletError :: "wallet_error \<Rightarrow> redeem_error" where
  "mapWalletError err =
     (case err of
        ErrRedeemCodeSourceExists \<Rightarrow> ErrSourceConflict
      | ErrRedeemCodeBalanceOverflow \<Rightarrow> ErrOverflow
      | ErrRedeemCodeTotalRechargeOverflow \<Rightarrow> ErrOverflow
      | ErrRedeemCodeWalletIntegrity \<Rightarrow> ErrIntegrityViolation
      | ErrRedeemCodeInvalidInput \<Rightarrow> ErrIntegrityViolation
      | ErrRedeemCodeCreditIdentityInvalid \<Rightarrow> ErrIntegrityViolation
      | ErrRedeemCodeTransactionRequired \<Rightarrow> ErrIntegrityViolation
      | WalletDb e \<Rightarrow> RedeemDb e
      | e \<Rightarrow> RedeemWallet e)"

section \<open>Checks\<close>

text \<open>\<open>^[A-Za-z0-9][A-Za-z0-9._:-]{0,127}$\<close>\<close>

definition is_alnum :: "char \<Rightarrow> bool" where
  "is_alnum c \<longleftrightarrow> (let b = of_char c :: int in 65 \<le> b \<and> b \<le> 90 \<or> 97 \<le> b \<and> b \<le> 122 \<or> 48 \<le> b \<and> b \<le> 57)"

definition requestIDPattern :: "string \<Rightarrow> bool" where
  "requestIDPattern s \<longleftrightarrow> s \<noteq> [] \<and> is_alnum (hd s) \<and> length s \<le> 128 \<and>
     list_all (\<lambda>c. is_alnum c \<or> List.member ''._:-'' c) (tl s)"

definition RequestFingerprintVersion :: string where
  "RequestFingerprintVersion = ''redeem_batch_request_v1''"

definition MaxVoidCodes :: nat where "MaxVoidCodes = 1000"

definition validFingerprint :: "string \<Rightarrow> bool" where
  "validFingerprint v \<longleftrightarrow> length v = 64 \<and>
     list_all (\<lambda>c. let b = of_char c :: int in \<not> ((b < 48 \<or> 57 < b) \<and> (b < 97 \<or> 102 < b))) v"

definition after :: "gotime option \<Rightarrow> gotime \<Rightarrow> bool" where
  "after expiry t \<longleftrightarrow> (case expiry of None \<Rightarrow> True | Some e \<Rightarrow> t < e)"

definition validImmutableBatch :: "Batch \<Rightarrow> bool" where
  "validImmutableBatch b \<longleftrightarrow>
     \<not> (b_ID b \<le> 0 \<or> b_BatchNo b = [] \<or> b_CreatedBy b \<le> 0 \<or> \<not> requestIDPattern (b_RequestID b) \<or>
        b_AmountCents b \<le> 0 \<or> MaxAmountCents < b_AmountCents b \<or>
        b_Quantity b \<le> 0 \<or> int MaxBatchQuantity < b_Quantity b \<or>
        b_RequestFingerprintVersion b = [] \<or> \<not> validFingerprint (b_RequestFingerprint b) \<or>
        time_is_zero (b_CreatedAt b)) \<and>
     after (b_ExpiresAt b) (b_CreatedAt b)"

definition validStoredState :: "Code \<Rightarrow> bool" where
  "validStoredState c \<longleftrightarrow> NormalizeCode (c_Code c) = Inr (c_Code c) \<and>
     (if c_State c = StateUnused \<or> c_State c = StateVoided then c_UsedBy c = None \<and> c_UsedAt c = None
      else if c_State c = StateUsed then c_UsedBy c \<noteq> None \<and> c_UsedAt c \<noteq> None
      else False)"

definition sameRequestIdentity :: "Batch \<Rightarrow> Batch \<Rightarrow> bool" where
  "sameRequestIdentity existing candidate \<longleftrightarrow>
     b_RequestFingerprintVersion existing = b_RequestFingerprintVersion candidate \<and>
     b_RequestFingerprint existing = b_RequestFingerprint candidate"

text \<open>The loop of validateCreateRecord over the codes, with the codes seen.\<close>

fun codes_acceptable :: "string list \<Rightarrow> Code list \<Rightarrow> bool" where
  "codes_acceptable seen [] = True"
| "codes_acceptable seen (c # cs) =
     (NormalizeCode (c_Code c) = Inr (c_Code c) \<and> \<not> List.member seen (c_Code c) \<and>
      codes_acceptable (c_Code c # seen) cs)"

definition validateCreateRecord :: "Batch \<Rightarrow> Code list \<Rightarrow> redeem_error + unit" where
  "validateCreateRecord b cs =
     (if b_ID b \<noteq> 0 \<or> b_CreatedBy b \<le> 0 \<or> \<not> requestIDPattern (b_RequestID b) \<or> b_BatchNo b = [] \<or>
         b_RequestFingerprintVersion b \<noteq> RequestFingerprintVersion \<or> length (b_RequestFingerprint b) \<noteq> 64 \<or>
         b_AmountCents b \<le> 0 \<or> MaxAmountCents < b_AmountCents b \<or>
         b_Quantity b \<le> 0 \<or> int MaxBatchQuantity < b_Quantity b \<or> int (length cs) \<noteq> b_Quantity b
      then Inl ErrIntegrityViolation
      else if \<not> codes_acceptable [] cs then Inl ErrIntegrityViolation
      else Inr ())"

definition validWalletRedemptionFacts ::
    "(Wallet \<times> Transaction) option \<Rightarrow> int \<Rightarrow> Batch \<Rightarrow> Code \<Rightarrow> int \<Rightarrow> bool" where
  "validWalletRedemptionFacts found amountUnits batch code userID =
     (case found of None \<Rightarrow> False | Some (w, t) \<Rightarrow>
        if w_ID w \<le> 0 \<or> w_UserID w \<noteq> userID \<or> w_IsDel w \<noteq> CommonNo then False
        else if t_ID t \<le> 0 \<or> t_TransactionNo t = [] \<or> t_WalletID t \<noteq> w_ID w \<or> t_UserID t \<noteq> userID \<or>
          t_IsDel t \<noteq> CommonNo \<or> t_Direction t \<noteq> DirectionIn \<or> t_SourceType t \<noteq> SourceRedeemCode \<or>
          t_SourceID t \<noteq> c_ID code \<or> t_AmountUnits t \<noteq> amountUnits \<or> t_Remark t \<noteq> b_BatchNo batch \<or>
          t_BalanceBeforeUnits t < 0 then False
        else t_BalanceBeforeUnits t \<le> sub64 max_int64 (t_AmountUnits t) \<and>
          add64 (t_BalanceBeforeUnits t) (t_AmountUnits t) = t_BalanceAfterUnits t)"

text \<open>The ids as a set, sorted: \<open>sort.Slice\<close> over the keys of a map.\<close>

definition normalizeIDs :: "int list \<Rightarrow> redeem_error + int list" where
  "normalizeIDs ids =
     (if ids = [] \<or> MaxVoidCodes < length ids then Inl ErrVoidConflict
      else if list_ex (\<lambda>i. i \<le> 0) ids then Inl ErrVoidConflict
      else Inr (sort (remdups ids)))"

section \<open>Statements\<close>

type_synonym ('y, 'a) redeem_act = "(redeem_error, 'y redeem_tables_scheme world, 'a) act"

definition batch_violated :: "Batch \<Rightarrow> Batch list \<Rightarrow> string option" where
  "batch_violated r rs =
     (if list_ex (\<lambda>x. b_BatchNo x = b_BatchNo r) rs then Some duplicateKeyBatchNo
      else if list_ex (\<lambda>x. b_CreatedBy x = b_CreatedBy r \<and> b_RequestID x = b_RequestID r) rs
      then Some duplicateKeyCreatorRequest else None)"

definition code_violated :: "Code \<Rightarrow> Code list \<Rightarrow> string option" where
  "code_violated r rs = (if list_ex (\<lambda>x. c_Code x = c_Code r) rs then Some duplicateKeyCode else None)"

text \<open>\<open>Create\<close> of a slice: one INSERT of all rows under consecutive ids, or none of them.\<close>

fun rows_violated :: "('r \<Rightarrow> 'r list \<Rightarrow> string option) \<Rightarrow> 'r list \<Rightarrow> 'r list \<Rightarrow> string option" where
  "rows_violated violated [] rs = None"
| "rows_violated violated (r # new) rs =
     (case violated r rs of Some key \<Rightarrow> Some key | None \<Rightarrow> rows_violated violated new (rs @ [r]))"

definition insert_rows ::
    "env \<Rightarrow> ('d \<Rightarrow> 'r list) \<Rightarrow> (('r list \<Rightarrow> 'r list) \<Rightarrow> 'd \<Rightarrow> 'd) \<Rightarrow> ('r \<Rightarrow> 'r list \<Rightarrow> string option)
       \<Rightarrow> (int \<Rightarrow> 'r \<Rightarrow> 'r) \<Rightarrow> 'r list \<Rightarrow> (db_error, 'd world, 'r list) act" where
  "insert_rows ev get upd violated set_id rows = bind (exec ev) (\<lambda>_ s.
     let new = map (\<lambda>(k, r). set_id (auto_inc s + int k) r) (enumerate 0 rows);
         s' = s\<lparr>auto_inc := auto_inc s + int (length rows)\<rparr>
     in case rows_violated violated new (get (tables s)) of
          Some key \<Rightarrow> (Inl (MySQLError 1062 (''Duplicate entry for key '' @ key)), s')
        | None \<Rightarrow> (Inr new, s'\<lparr>tables := upd (\<lambda>old. old @ new) (tables s)\<rparr>))"

definition operationNow :: "env \<Rightarrow> ('e, 'd world, gotime) act" where
  "operationNow ev = bind (read_clock ev) (\<lambda>t. ret (truncate_us t))"

end
