(* ===== verification/RedeemRepo.thy ===== *)
theory RedeemRepo
  imports RedeemModel
begin

text \<open>
  The repository of redeem codes (\<open>internal/module/payment/redeemcode/repository.go\<close>): creating
  or replaying a batch, voiding codes and redeeming one, with the retry of transactions that lost
  a deadlock or a lock wait. Redeeming is written against an arbitrary wallet participant, the
  two calls it makes of \<open>wallet.RetryTransactionParticipant\<close>; \<open>Redeem\<close> uses the wallet's own.
\<close>

section \<open>Retrying a transaction (withTransactionRetry)\<close>

text \<open>An attempt hands on, in its error, what the closure has captured so far.\<close>

primrec retry_attempts ::
    "('e \<Rightarrow> bool) \<Rightarrow> ('i \<Rightarrow> ('e \<times> 'i, 's, 'a) act) \<Rightarrow> nat \<Rightarrow> 'i \<Rightarrow> ('e, 's, 'a) act" where
  "retry_attempts retryable attempt 0 i = map_error fst (attempt i)"
| "retry_attempts retryable attempt (Suc n) i =
     either (attempt i)
       (\<lambda>(err, j). if \<not> retryable err then throw err else retry_attempts retryable attempt n j)
       ret"

definition withTransactionRetry ::
    "env \<Rightarrow> ('i \<Rightarrow> (redeem_error \<times> 'i, 'd world, 'a \<times> 'i) act) \<Rightarrow> 'i \<Rightarrow> (redeem_error, 'd world, 'a) act" where
  "withTransactionRetry ev operation i =
     retry_attempts retryableMySQLError
       (\<lambda>i. bind (transaction_with ev (\<lambda>e. (RedeemDb e, i)) (\<lambda>(_, j) e. (RedeemDb e, j)) (operation i))
          (\<lambda>(a, _). ret a))
       (maxTransactionAttempts - 1) i"

text \<open>An operation whose closure captures nothing that a retry would read.\<close>

definition plain_operation :: "(redeem_error, 's, 'a) act \<Rightarrow> unit \<Rightarrow> (redeem_error \<times> unit, 's, 'a \<times> unit) act" where
  "plain_operation m u = bind (map_error (\<lambda>e. (e, u)) m) (\<lambda>a. ret (a, u))"

section \<open>Batches\<close>

text \<open>The batch found, with its codes.\<close>

definition load_batch :: "env \<Rightarrow> Batch list \<Rightarrow> ('y, BatchWithCodes option) redeem_act" where
  "load_batch ev bs =
     (if bs = [] then ret None
      else if length bs \<noteq> 1 \<or> \<not> validImmutableBatch (hd bs) then throw ErrIntegrityViolation
      else
        let batch = hd bs
        in bind (map_error RedeemDb (find_limit ev codes (\<lambda>c. c_BatchID c = b_ID batch)
                   (nat (b_Quantity batch + 1)))) (\<lambda>cs.
           if int (length cs) \<noteq> b_Quantity batch then throw ErrIntegrityViolation
           else if list_ex (\<lambda>c. c_ID c \<le> 0 \<or> c_BatchID c \<noteq> b_ID batch \<or> c_Code c = [] \<or> \<not> validStoredState c) cs
           then throw ErrIntegrityViolation
           else ret (Some \<lparr>bc_Batch = batch, bc_Codes = cs\<rparr>)))"

definition findBatchByRequestDB :: "env \<Rightarrow> int \<Rightarrow> string \<Rightarrow> ('y, BatchWithCodes option) redeem_act" where
  "findBatchByRequestDB ev createdBy requestID =
     bind (map_error RedeemDb (find_limit ev batches
        (\<lambda>b. b_CreatedBy b = createdBy \<and> b_RequestID b = requestID) 2)) (load_batch ev)"

definition FindBatchByRequest :: "bool \<Rightarrow> env \<Rightarrow> int \<Rightarrow> string \<Rightarrow> ('y, BatchWithCodes option) redeem_act" where
  "FindBatchByRequest configured ev createdBy requestID =
     (if \<not> configured then throw redeem_error.ErrRepositoryNotConfigured
      else if createdBy \<le> 0 \<or> \<not> requestIDPattern requestID then throw ErrIntegrityViolation
      else findBatchByRequestDB ev createdBy requestID)"

definition batch_insert_error :: "db_error \<Rightarrow> redeem_error" where
  "batch_insert_error e =
     (if duplicateKeyFor e duplicateKeyCreatorRequest then errCreatorRequestRace
      else if duplicateKeyFor e duplicateKeyBatchNo then ErrBatchNumberCollision
      else RedeemDb e)"

definition code_insert_error :: "db_error \<Rightarrow> redeem_error" where
  "code_insert_error e = (if duplicateKeyFor e duplicateKeyCode then ErrCodeCollision else RedeemDb e)"

text \<open>The time stamps are set before \<open>Create\<close>, which leaves set ones alone.\<close>

definition insert_batch :: "env \<Rightarrow> Batch \<Rightarrow> ('y, Batch) redeem_act" where
  "insert_batch ev batch =
     map_error batch_insert_error
       (insert_row ev batches batches_update batch_violated (\<lambda>i t. batch\<lparr>b_ID := i\<rparr>))"

definition new_code :: "int \<Rightarrow> gotime \<Rightarrow> Code \<Rightarrow> Code" where
  "new_code batchID createdAt c = c\<lparr>c_ID := 0, c_BatchID := batchID, c_State := StateUnused,
     c_UsedBy := None, c_UsedAt := None, c_CreatedAt := createdAt, c_UpdatedAt := createdAt\<rparr>"

definition insert_codes :: "env \<Rightarrow> Code list \<Rightarrow> ('y, Code list) redeem_act" where
  "insert_codes ev cs =
     map_error code_insert_error
       (insert_rows ev codes codes_update code_violated (\<lambda>i c. c\<lparr>c_ID := i\<rparr>) cs)"

definition create_attempt :: "env \<Rightarrow> Batch \<Rightarrow> Code list \<Rightarrow> ('y, BatchWithCodes \<times> bool) redeem_act" where
  "create_attempt ev batch cs =
     bind (findBatchByRequestDB ev (b_CreatedBy batch) (b_RequestID batch)) (\<lambda>existing.
     case existing of
       Some e \<Rightarrow> if \<not> sameRequestIdentity (bc_Batch e) batch then throw ErrRequestConflict else ret (e, True)
     | None \<Rightarrow>
         bind (operationNow ev) (\<lambda>createdAt.
         if \<not> after (b_ExpiresAt batch) createdAt then throw ErrExpiryNotFuture
         else bind (insert_batch ev (batch\<lparr>b_CreatedAt := createdAt, b_UpdatedAt := createdAt\<rparr>)) (\<lambda>row.
         bind (insert_codes ev (map (new_code (b_ID row) createdAt) cs)) (\<lambda>new.
         if int (length new) \<noteq> b_Quantity row then throw ErrIntegrityViolation
         else ret (\<lparr>bc_Batch = row, bc_Codes = new\<rparr>, False)))))"

definition CreateOrReplayBatch ::
    "bool \<Rightarrow> env \<Rightarrow> Batch \<Rightarrow> Code list \<Rightarrow> ('y, BatchWithCodes \<times> bool) redeem_act" where
  "CreateOrReplayBatch configured ev batch cs =
     (if \<not> configured then throw redeem_error.ErrRepositoryNotConfigured
      else bind (pure_result (validateCreateRecord batch cs)) (\<lambda>_.
      catch (withTransactionRetry ev (plain_operation (create_attempt ev batch cs)) ())
        (\<lambda>err. if err = errCreatorRequestRace then
            bind (FindBatchByRequest configured ev (b_CreatedBy batch) (b_RequestID batch)) (\<lambda>existing.
            case existing of
              None \<Rightarrow> throw ErrIntegrityViolation
            | Some e \<Rightarrow> if \<not> sameRequestIdentity (bc_Batch e) batch then throw ErrRequestConflict
                else ret (e, True))
          else throw err)))"

section \<open>Voiding codes\<close>

fun codes_to_void :: "int list \<Rightarrow> Code list \<Rightarrow> redeem_error + int list" where
  "codes_to_void (i # ids) (c # cs) =
     (if c_ID c \<noteq> i then Inl ErrVoidConflict
      else if c_State c = StateUnused then
        (case codes_to_void ids cs of Inl e \<Rightarrow> Inl e | Inr rest \<Rightarrow> Inr (c_ID c # rest))
      else if c_State c = StateVoided then codes_to_void ids cs
      else if c_State c = StateUsed then Inl ErrVoidConflict
      else Inl ErrIntegrityViolation)"
| "codes_to_void _ _ = Inr []"

definition void_attempt :: "env \<Rightarrow> int list \<Rightarrow> gotime \<Rightarrow> ('y, nat) redeem_act" where
  "void_attempt ev ids now =
     bind (map_error RedeemDb (find_limit ev codes (\<lambda>c. List.member ids (c_ID c)) (length ids + 1))) (\<lambda>cs.
     if length cs \<noteq> length ids then throw ErrVoidConflict
     else bind (pure_result (codes_to_void ids cs)) (\<lambda>toVoid.
     if toVoid = [] then ret 0
     else bind (map_error RedeemDb (update_where ev codes codes_update
         (\<lambda>c. List.member toVoid (c_ID c) \<and> c_State c = StateUnused)
         (\<lambda>_ c. c\<lparr>c_State := StateVoided, c_UpdatedAt := now\<rparr>))) (\<lambda>n.
     if n \<noteq> length toVoid then throw ErrVoidConflict else ret (length toVoid))))"

definition VoidCodes :: "bool \<Rightarrow> env \<Rightarrow> int list \<Rightarrow> gotime \<Rightarrow> ('y, nat) redeem_act" where
  "VoidCodes configured ev ids now =
     (if \<not> configured then throw redeem_error.ErrRepositoryNotConfigured
      else bind (pure_result (normalizeIDs ids)) (\<lambda>normalized.
      withTransactionRetry ev (plain_operation (void_attempt ev normalized (truncate_us now))) ()))"

section \<open>Redeeming a code\<close>

type_synonym 'd find_credit = "env \<Rightarrow> int \<Rightarrow> (wallet_error, 'd world, (Wallet \<times> Transaction) option) act"
type_synonym 'd credit = "env \<Rightarrow> RedeemCodeCreditInput \<Rightarrow> RedeemCodeCreditIdentity option \<Rightarrow>
  (wallet_error, 'd world, (Wallet \<times> Transaction) option) act"

definition findCodeForUpdate :: "env \<Rightarrow> string \<Rightarrow> ('y, Code option) redeem_act" where
  "findCodeForUpdate ev code =
     bind (map_error RedeemDb (find_limit ev codes (\<lambda>c. c_Code c = code) 2)) (\<lambda>cs.
     if cs = [] then ret None
     else if length cs \<noteq> 1 \<or> c_ID (hd cs) \<le> 0 \<or> c_BatchID (hd cs) \<le> 0 then throw ErrIntegrityViolation
     else ret (Some (hd cs)))"

definition redeem_lookup :: "env \<Rightarrow> string \<Rightarrow> ('y, Code \<times> Batch \<times> int) redeem_act" where
  "redeem_lookup ev code =
     bind (findCodeForUpdate ev code) (\<lambda>found.
     case found of
       None \<Rightarrow> throw ErrUnavailable
     | Some lockedCode \<Rightarrow>
         bind (map_error (\<lambda>err. if err = RecordNotFound then ErrIntegrityViolation else RedeemDb err)
           (first ev batches (\<lambda>b. b_ID b = c_BatchID lockedCode))) (\<lambda>batch.
         if \<not> validImmutableBatch batch then throw ErrIntegrityViolation
         else case CentsToUnits (b_AmountCents batch) of
           Inl err \<Rightarrow> throw (RedeemMoney err)
         | Inr amountUnits \<Rightarrow> ret (lockedCode, batch, amountUnits)))"

definition redemption_fact :: "Batch \<Rightarrow> int \<Rightarrow> (Wallet \<times> Transaction) option \<Rightarrow> bool \<Rightarrow> RedemptionFact" where
  "redemption_fact batch amountUnits found replayed =
     \<lparr>fact_AmountCents = b_AmountCents batch, fact_AmountUnits = amountUnits,
      fact_Transaction = map_option snd found, fact_Wallet = map_option fst found, fact_Replayed = replayed\<rparr>"

text \<open>A used code: its user gets the fact of the credit again.\<close>

definition redeem_replay ::
    "env \<Rightarrow> 'y redeem_tables_scheme find_credit \<Rightarrow> int \<Rightarrow> Code \<Rightarrow> Batch \<Rightarrow> int \<Rightarrow> ('y, RedemptionFact) redeem_act" where
  "redeem_replay ev findCredit userID code batch amountUnits =
     (if c_UsedBy code = None \<or> c_UsedAt code = None then throw ErrIntegrityViolation
      else if the (c_UsedBy code) \<noteq> userID then throw ErrUnavailable
      else bind (map_error mapWalletError (findCredit ev (c_ID code))) (\<lambda>found.
      if \<not> validWalletRedemptionFacts found amountUnits batch code userID then throw ErrIntegrityViolation
      else ret (redemption_fact batch amountUnits found True)))"

text \<open>An unused code: the credit, the checks on it, and the state of the code.\<close>

definition redeem_book ::
    "env \<Rightarrow> 'y redeem_tables_scheme credit \<Rightarrow> int \<Rightarrow> Code \<Rightarrow> Batch \<Rightarrow> int \<Rightarrow> RedeemCodeCreditInput
       \<Rightarrow> RedeemCodeCreditIdentity option \<Rightarrow> gotime \<Rightarrow> ('y, RedemptionFact) redeem_act" where
  "redeem_book ev credit userID code batch amountUnits creditInput identity decisionTime =
     bind (map_error mapWalletError (credit ev creditInput identity)) (\<lambda>credited.
     if credited = None \<or> \<not> identity_Matches identity (t_TransactionNo (snd (the credited)))
     then throw ErrIntegrityViolation
     else if \<not> validWalletRedemptionFacts credited amountUnits batch code userID then throw ErrIntegrityViolation
     else bind (map_error RedeemDb (update_where ev codes codes_update
         (\<lambda>c. c_ID c = c_ID code \<and> c_State c = StateUnused)
         (\<lambda>_ c. c\<lparr>c_State := StateUsed, c_UsedBy := Some userID, c_UsedAt := Some decisionTime,
                   c_UpdatedAt := decisionTime\<rparr>))) (\<lambda>n.
     if n \<noteq> 1 then throw ErrIntegrityViolation
     else ret (redemption_fact batch amountUnits credited False)))"

type_synonym identity_state = "RedeemCodeCreditIdentity option"

definition redeem_unused ::
    "env \<Rightarrow> 'y redeem_tables_scheme credit \<Rightarrow> int \<Rightarrow> Code \<Rightarrow> Batch \<Rightarrow> int \<Rightarrow> identity_state
       \<Rightarrow> (redeem_error \<times> identity_state, 'y redeem_tables_scheme world, RedemptionFact \<times> identity_state) act" where
  "redeem_unused ev credit userID code batch amountUnits identity =
     bind (operationNow ev) (\<lambda>decisionTime.
     if \<not> after (b_ExpiresAt batch) decisionTime then throw (ErrExpired, identity)
     else
       let creditInput = \<lparr>rc_UserID = userID, rc_CodeID = c_ID code, rc_AmountUnits = amountUnits,
             rc_BatchNo = b_BatchNo batch\<rparr>
       in bind (case identity of
            None \<Rightarrow> bind (NewRedeemCodeCreditIdentity ev creditInput decisionTime) (\<lambda>i. ret (Some i))
          | Some i \<Rightarrow> ret (Some i)) (\<lambda>identity.
          bind (map_error (\<lambda>e. (e, identity))
            (redeem_book ev credit userID code batch amountUnits creditInput identity decisionTime)) (\<lambda>fact.
          ret (fact, identity))))"

definition redeem_attempt ::
    "env \<Rightarrow> 'y redeem_tables_scheme find_credit \<Rightarrow> 'y redeem_tables_scheme credit \<Rightarrow> int \<Rightarrow> string
       \<Rightarrow> identity_state
       \<Rightarrow> (redeem_error \<times> identity_state, 'y redeem_tables_scheme world, RedemptionFact \<times> identity_state) act" where
  "redeem_attempt ev findCredit credit userID code identity =
     bind (map_error (\<lambda>e. (e, identity)) (redeem_lookup ev code)) (\<lambda>(lockedCode, batch, amountUnits).
     if c_State lockedCode = StateUsed then
       bind (map_error (\<lambda>e. (e, identity)) (redeem_replay ev findCredit userID lockedCode batch amountUnits)) (\<lambda>fact.
       ret (fact, identity))
     else if c_State lockedCode = StateVoided then throw (ErrUnavailable, identity)
     else if c_State lockedCode = StateUnused then
       (if c_UsedBy lockedCode \<noteq> None \<or> c_UsedAt lockedCode \<noteq> None then throw (ErrIntegrityViolation, identity)
        else redeem_unused ev credit userID lockedCode batch amountUnits identity)
     else throw (ErrIntegrityViolation, identity))"

definition Redeem_with ::
    "bool \<Rightarrow> env \<Rightarrow> ('y redeem_tables_scheme find_credit \<times> 'y redeem_tables_scheme credit) option \<Rightarrow> int \<Rightarrow> string
       \<Rightarrow> ('y, RedemptionFact) redeem_act" where
  "Redeem_with configured ev walletParticipant userID code =
     (if \<not> configured then throw redeem_error.ErrRepositoryNotConfigured
      else case walletParticipant of
        None \<Rightarrow> throw redeem_error.ErrRepositoryNotConfigured
      | Some (findCredit, credit) \<Rightarrow>
          if userID \<le> 0 then throw ErrUnavailable
          else if NormalizeCode code \<noteq> Inr code then throw ErrUnavailable
          else withTransactionRetry ev (redeem_attempt ev findCredit credit userID code) None)"

text \<open>The participant the program is wired with: the wallet's repository, in the open transaction.\<close>

definition wallet_find :: "'y redeem_tables_scheme find_credit" where
  "wallet_find ev codeID = FindRedeemCodeCreditInTx True ev open_tx codeID"

definition wallet_credit :: "'y redeem_tables_scheme credit" where
  "wallet_credit ev i identity =
     bind (CreditRedeemCodeWithIdentityInTx True ev open_tx i identity) (\<lambda>r. ret (Some r))"

definition Redeem :: "env \<Rightarrow> int \<Rightarrow> string \<Rightarrow> ('y, RedemptionFact) redeem_act" where
  "Redeem ev userID code = Redeem_with True ev (Some (wallet_find, wallet_credit)) userID code"

end
