(* ===== verification/WalletFrame.thy ===== *)
theory WalletFrame
  imports WalletHistory
begin

text \<open>
  What the wallet operations leave alone, whatever they do and however they end: every part of the
  database that depends neither on wallets and holds nor on ledger rows of the sources the
  operation books under.
\<close>

definition blind_to :: "string set \<Rightarrow> ('x wallet_tables_scheme \<Rightarrow> 'b) \<Rightarrow> bool" where
  "blind_to S f \<longleftrightarrow> (\<forall>h d. f (wallets_update h d) = f d) \<and> (\<forall>h d. f (holds_update h d) = f d) \<and>
     (\<forall>x d. t_SourceType x \<in> S \<longrightarrow> f (transactions_update (\<lambda>rows. rows @ [x]) d) = f d)"

lemma keeps_create_transaction [keeps_intros]:
  "blind_to S f \<Longrightarrow> t_SourceType row \<in> S \<Longrightarrow> keeps f (create_transaction ev row)"
  unfolding create_transaction_def insert_row_def
  by (intro keeps_intros) (simp add: keeps_def blind_to_def Let_def split: option.split)

lemma keeps_wallet_statements [keeps_intros]:
  assumes "blind_to S f"
  shows "keeps f (create_wallet ev w)" "keeps f (create_hold ev h)"
    "keeps f (update_where ev wallets wallets_update P g)"
    "keeps f (update_where ev holds holds_update R l)"
    "keeps f (update_wallet_row ev i u)" "keeps f (update_active_hold ev i v)"
  using assms unfolding wallet_statement_defs update_wallet_row_def update_active_hold_def
  by (intro keeps_intros; simp add: blind_to_def)+

lemma keeps_newTransactionNo [keeps_intros]: "keeps f (newTransactionNo ev now)"
  by (simp add: newTransactionNo_def keeps_def serialno_New_def Let_def)

lemma keeps_wallet_lookup [keeps_intros]:
  assumes "blind_to S f"
  shows "keeps f (getOrCreateWallet ev u)" "keeps f (lockOrCreateWalletForUpdateUnits ev u)"
    "keeps f (lockWalletForUpdateUnits ev u)" "keeps f (lockHoldByRun ev r)" "keeps f (assertActiveHoldTotal ev i n)"
  using assms
  unfolding getOrCreateWallet_def getWalletByUserID_def lockOrCreateWalletForUpdateUnits_def
    lockOrCreateWalletForUpdate_def lockWalletForUpdateUnits_def lockHoldByRun_def assertActiveHoldTotal_def
  by (intro keeps_intros; assumption)+

lemma keeps_transaction_attempts [keeps_intros]:
  "blind_to S f \<Longrightarrow> t_SourceType row \<in> S \<Longrightarrow> keeps f (transaction_attempts ev now n row)"
  by (induction n arbitrary: row) (auto intro!: keeps_intros)

lemma keeps_identity_attempts [keeps_intros]:
  "blind_to S f \<Longrightarrow> t_SourceType row \<in> S \<Longrightarrow> keeps f (identity_attempts ev row no nos)"
  by (induction nos arbitrary: no) (auto intro!: keeps_intros)

lemma keeps_serial_numbers [keeps_intros]: "keeps f (serial_numbers ev now n)"
  by (induction n) (auto intro!: keeps_intros)

lemma keeps_FindRecharge [keeps_intros]:
  "keeps f (findRechargeCreditTransactionForUpdate ev i)"
  unfolding findRechargeCreditTransactionForUpdate_def by (intro keeps_intros)

lemma keeps_CreditRecharge [keeps_intros]:
  "blind_to S f \<Longrightarrow> SourceRecharge \<in> S \<Longrightarrow> keeps f (CreditRechargeInTx c ev tx i)"
  unfolding CreditRechargeInTx_def credit_new_recharge_def createTransactionWithNumberRetry_def Let_def
  by (intro keeps_intros; (assumption | simp)?)

lemma keeps_CreditRedeemCode [keeps_intros]:
  "blind_to S f \<Longrightarrow> SourceRedeemCode \<in> S \<Longrightarrow> keeps f (CreditRedeemCodeWithIdentityInTx c ev tx i idn)"
  unfolding CreditRedeemCodeWithIdentityInTx_def findRedeemCodeSourceFact_def
    lockOrCreateRedeemCodeWalletForUpdate_def findRedeemCodeWalletByUserIDForUpdate_def
    redeem_credit_def createRedeemCodeTransactionWithIdentityRetry_def Let_def
  by (intro keeps_intros; (assumption | simp add: redeem_ledger_row_def)?)

lemma keeps_FindRedeemCode [keeps_intros]:
  "keeps f (FindRedeemCodeCreditInTx c ev tx i)"
  unfolding FindRedeemCodeCreditInTx_def findRedeemCodeSourceFact_def credited_wallet_def
  by (intro keeps_intros)

lemma keeps_NewIdentity [keeps_intros]: "keeps f (NewRedeemCodeCreditIdentity ev i now)"
  unfolding NewRedeemCodeCreditIdentity_def by (intro keeps_intros)

text \<open>The reservations, captures and releases of holds.\<close>

lemma keeps_validate [keeps_intros]:
  "keeps f (validateCapturedHoldFact ev h w u)" "keeps f (validateReleasedHoldFact ev h w u)"
  unfolding validateCapturedHoldFact_def validateReleasedHoldFact_def terminalAIGenerateTransactions_def
  by (intro keeps_intros)+

lemma keeps_reserve [keeps_intros]: "blind_to S f \<Longrightarrow> keeps f (reserveHold c ev tx u r n)"
  unfolding reserveHold_def reserve_found_def grow_hold_def Let_def by (intro keeps_intros; assumption?)

lemma keeps_capture [keeps_intros]:
  "blind_to S f \<Longrightarrow> SourceAIGenerate \<in> S \<Longrightarrow> keeps f (CaptureHoldInTx c ev tx i)"
  unfolding CaptureHoldInTx_def capture_found_def capture_active_def capture_ledger_def
    createTransactionWithNumberRetry_def Let_def
  by (intro keeps_intros; (assumption | simp)?)

lemma keeps_release [keeps_intros]: "blind_to S f \<Longrightarrow> keeps f (ReleaseHoldInTx c ev tx u r)"
  unfolding ReleaseHoldInTx_def release_found_def Let_def by (intro keeps_intros; assumption?)

text \<open>A call books under one source at most.\<close>

definition op_source :: "wallet_op \<Rightarrow> string" where
  "op_source op = (case op of OpRedeem i now \<Rightarrow> SourceRedeemCode | OpRecharge i \<Rightarrow> SourceRecharge | _ \<Rightarrow> SourceAIGenerate)"

lemma keeps_wallet_call:
  assumes "blind_to S f" "op_source op \<in> S"
  shows "keeps f (wallet_call ev op)"
  using assms unfolding wallet_call_def discard_def GetOrCreateWallet_def ReserveHoldInTx_def TopUpHoldInTx_def
    CreditRedeemCodeInTx_def
  by (cases op) (auto intro!: keeps_intros simp: op_source_def)

text \<open>The invariant of the wallet reads its own tables only.\<close>

lemma wallet_state_ok_frame:
  assumes "wallet_state_ok s" and "wallets (tables t) = wallets (tables s)"
    and "transactions (tables t) = transactions (tables s)" and "holds (tables t) = holds (tables s)"
    and "auto_inc s \<le> auto_inc t"
  shows "wallet_state_ok t"
  using assms unfolding wallet_state_ok_def wallet_inv_def wallet_keys_def ids_below_def
  by (auto simp: list_all_iff)

lemma account_of_frame:
  "wallets D' = wallets D \<Longrightarrow> transactions D' = transactions D \<Longrightarrow> holds D' = holds D \<Longrightarrow>
     account_of D' = account_of D"
  by (simp add: account_of_def)

end
