(* ===== verification/RedeemLaws.thy ===== *)
theory RedeemLaws
  imports RedeemRepo WalletFrame
begin

text \<open>
  What the repository of redeem codes relies on of its wallet participant, as a locale, and what
  it guarantees in turn: the codes table and what is booked for each code always agree. The
  locale is interpreted on the wallet's repository at the end.
\<close>

section \<open>Retried transactions\<close>

text \<open>
  A retried operation that returns has run once, to the end, on the tables as they were at the
  start; P is what the captured state keeps satisfying.
\<close>

lemma retry_attempts_effect:
  assumes "P i" and "Returns (retry_attempts retryable attempt n i) s a t"
    and "\<And>i. grows (attempt i)"
    and "\<And>i s e j t. P i \<Longrightarrow> Fails (attempt i) s (e, j) t \<Longrightarrow> tables t = tables s \<and> P j"
  shows "\<exists>i s0. P i \<and> tables s0 = tables s \<and> auto_inc s \<le> auto_inc s0 \<and> Returns (attempt i) s0 a t"
  using assms(1,2)
proof (induction n arbitrary: i s)
  case 0
  then show ?case by (auto simp: act_simps)
next
  case (Suc n)
  from Suc.prems(2) have "Returns (either (attempt i)
      (\<lambda>(err, j). if \<not> retryable err then throw err else retry_attempts retryable attempt n j) ret) s a t"
    by simp
  then show ?case
  proof (cases rule: Returns_eitherE)
    case (error e u)
    obtain err j where e: "e = (err, j)" by fastforce
    from assms(4) [OF Suc.prems(1) error(1) [unfolded e]] have u: "tables u = tables s" "P j" by simp_all
    have "auto_inc s \<le> auto_inc u"
      using assms(3) [of i] error(1) by (auto simp: grows_def Fails_def dest!: spec [of _ s])
    moreover have "Returns (retry_attempts retryable attempt n j) u a t"
      using error(2) by (auto simp: e act_simps)
    ultimately show ?thesis using Suc.IH [OF u(2)] u(1) by (metis order_trans)
  next
    case (ok b u)
    then have "Returns (attempt i) s a t" by (simp add: act_simps)
    with Suc.prems(1) show ?thesis by blast
  qed
qed

lemma Fails_retry_attempts_tables:
  assumes "Fails (retry_attempts retryable attempt n i) s e t"
    and "\<And>i s e j t. Fails (attempt i) s (e, j) t \<Longrightarrow> tables t = tables s"
  shows "tables t = tables s"
  using assms(1)
proof (induction n arbitrary: i s)
  case 0
  then show ?case using assms(2) by (auto simp: act_simps)
next
  case (Suc n)
  then obtain err j u where "Fails (attempt i) s (err, j) u"
    and "u = t \<or> Fails (retry_attempts retryable attempt n j) u e t"
    by (auto simp: act_simps)
  with Suc.IH [of j u] assms(2) [of i s err j u] show ?case by auto
qed

text \<open>One attempt of withTransactionRetry.\<close>

definition tx_attempt :: "env \<Rightarrow> ('i \<Rightarrow> (redeem_error \<times> 'i, 'd world, 'a \<times> 'i) act) \<Rightarrow> 'i
    \<Rightarrow> (redeem_error \<times> 'i, 'd world, 'a) act" where
  "tx_attempt ev operation i =
     bind (transaction_with ev (\<lambda>e. (RedeemDb e, i)) (\<lambda>(_, j) e. (RedeemDb e, j)) (operation i)) (\<lambda>(a, _). ret a)"

lemma withTransactionRetry_alt:
  "withTransactionRetry ev operation i =
     retry_attempts retryableMySQLError (tx_attempt ev operation) (maxTransactionAttempts - 1) i"
  by (simp add: withTransactionRetry_def tx_attempt_def [abs_def])

lemma Fails_tx_attempt:
  "Fails (tx_attempt ev operation i) s (e, j) t \<Longrightarrow>
     tables t = tables s \<and>
     (j = i \<or> (\<exists>s' e' t'. Fails (operation i) s' (e', j) t') \<or> (\<exists>s' a t'. Returns (operation i) s' (a, j) t'))"
proof -
  assume "Fails (tx_attempt ev operation i) s (e, j) t"
  then have f: "Fails (transaction_with ev (\<lambda>e. (RedeemDb e, i)) (\<lambda>(_, j) e. (RedeemDb e, j)) (operation i)) s (e, j) t"
    by (auto simp: tx_attempt_def act_simps)
  moreover from this have "j = i \<or> (\<exists>s' e' t'. Fails (operation i) s' (e', j) t') \<or>
      (\<exists>s' a t'. Returns (operation i) s' (a, j) t')"
    unfolding transaction_with_def Fails_def Returns_def exec_def
    by (auto split: prod.splits sum.splits option.splits)
  ultimately show ?thesis using Fails_transaction_with_tables [OF f] by simp
qed

lemma withTransactionRetry_effect:
  assumes "P i" and "Returns (withTransactionRetry ev operation i) s a t"
    and "\<And>i. grows (operation i)"
    and "\<And>i s e j t. P i \<Longrightarrow> Fails (operation i) s (e, j) t \<Longrightarrow> P j"
    and "\<And>i s a j t. P i \<Longrightarrow> Returns (operation i) s (a, j) t \<Longrightarrow> P j"
  shows "\<exists>i j s0 t0. P i \<and> tables s0 = tables s \<and> auto_inc s \<le> auto_inc s0 \<and>
    Returns (operation i) s0 (a, j) t0 \<and> same_tables t0 t"
proof -
  have "grows (tx_attempt ev operation i)" for i
    unfolding tx_attempt_def using assms(3) by (auto intro!: grows_intros split: prod.split)
  moreover have "tables t = tables s \<and> P j" if "P i" "Fails (tx_attempt ev operation i) s (e, j) t" for i s e j t
    using Fails_tx_attempt [OF that(2)] that(1) assms(4,5) by blast
  ultimately obtain i s0 where i: "P i" "tables s0 = tables s" "auto_inc s \<le> auto_inc s0"
    and run: "Returns (tx_attempt ev operation i) s0 a t"
    using retry_attempts_effect [where P = P, OF assms(1) assms(2) [unfolded withTransactionRetry_alt]] by blast
  from run obtain j t0 where "Returns (operation i) (sent s0) (a, j) t0" "t = sent t0"
    by (auto simp: tx_attempt_def act_simps Returns_transaction_with split: prod.splits)
  with i show ?thesis by (intro exI [of _ i] exI [of _ j] exI [of _ "sent s0"] exI [of _ t0]) simp
qed

lemma Fails_withTransactionRetry_tables:
  "Fails (withTransactionRetry ev operation i) s e t \<Longrightarrow> tables t = tables s"
  unfolding withTransactionRetry_alt
  by (erule Fails_retry_attempts_tables) (rule Fails_tx_attempt [THEN conjunct1])

lemma grows_retry_attempts: "(\<And>i. grows (attempt i)) \<Longrightarrow> grows (retry_attempts retryable attempt n i)"
  by (induction n arbitrary: i) (auto intro!: grows_intros)

lemma grows_plain_retry: "grows m \<Longrightarrow> grows (withTransactionRetry ev (plain_operation m) ())"
  unfolding withTransactionRetry_def plain_operation_def
  by (intro grows_retry_attempts) (auto intro!: grows_intros split: prod.split)

lemma plain_retry_effect:
  assumes "Returns (withTransactionRetry ev (plain_operation m) ()) s a t" and "grows m"
  shows "\<exists>s0 t0. tables s0 = tables s \<and> auto_inc s \<le> auto_inc s0 \<and> Returns m s0 a t0 \<and> same_tables t0 t"
proof -
  have "grows (plain_operation m i)" for i
    unfolding plain_operation_def using assms(2) by (intro grows_intros)
  from withTransactionRetry_effect [of "\<lambda>_. True", OF TrueI assms(1) this]
  show ?thesis by (auto simp: plain_operation_def act_simps)
qed

section \<open>Codes and what is booked for them\<close>

text \<open>The books of a participant: for a code the user and the amount it was credited to.\<close>

type_synonym books = "int \<Rightarrow> (int \<times> int) option"

text \<open>A code belongs to a batch of the table, and it is used exactly when its amount is booked, for
  the user it names; otherwise nothing of it is booked.\<close>

definition code_booked :: "books \<Rightarrow> Batch \<Rightarrow> Code \<Rightarrow> bool" where
  "code_booked booked b c \<longleftrightarrow> b_ID b = c_BatchID c \<and>
     (if c_State c = StateUsed
      then c_UsedAt c \<noteq> None \<and> c_UsedBy c \<noteq> None \<and>
        booked (c_ID c) = Some (the (c_UsedBy c), b_AmountCents b * UnitsPerCent)
      else (c_State c = StateUnused \<or> c_State c = StateVoided) \<and> c_UsedBy c = None \<and> c_UsedAt c = None \<and>
        booked (c_ID c) = None)"

definition code_ok :: "books \<Rightarrow> Batch list \<Rightarrow> Code \<Rightarrow> bool" where
  "code_ok booked bs c \<longleftrightarrow> 0 < c_ID c \<and> list_ex (\<lambda>b. code_booked booked b c) bs"

lemma code_booked_cong: "booked' (c_ID c) = booked (c_ID c) \<Longrightarrow> code_booked booked' b c = code_booked booked b c"
  by (simp add: code_booked_def)

lemma code_ok_cong: "booked' (c_ID c) = booked (c_ID c) \<Longrightarrow> code_ok booked' bs c = code_ok booked bs c"
  by (simp add: code_ok_def code_booked_cong [of booked' c booked])

definition request_of :: "Batch \<Rightarrow> int \<times> string" where
  "request_of b = (b_CreatedBy b, b_RequestID b)"

definition codes_ok :: "books \<Rightarrow> 'y redeem_tables_scheme \<Rightarrow> bool" where
  "codes_ok booked D \<longleftrightarrow> distinct (map c_ID (codes D)) \<and> distinct (map c_Code (codes D)) \<and>
     distinct (map b_ID (batches D)) \<and> distinct (map request_of (batches D)) \<and> list_all (code_ok booked (batches D)) (codes D) \<and>
     dom booked \<subseteq> c_ID ` set (codes D)"

lemma codes_okD:
  assumes "codes_ok booked D"
  shows "distinct (map c_ID (codes D))" "distinct (map c_Code (codes D))" "distinct (map b_ID (batches D))"
    "distinct (map request_of (batches D))" "c \<in> set (codes D) \<Longrightarrow> code_ok booked (batches D) c"
    "dom booked \<subseteq> set (map c_ID (codes D))"
  using assms by (simp_all add: codes_ok_def list_all_iff)

lemma codes_okI:
  assumes "distinct (map c_ID (codes D))" "distinct (map c_Code (codes D))" "distinct (map b_ID (batches D))"
    "distinct (map request_of (batches D))" "\<And>c. c \<in> set (codes D) \<Longrightarrow> code_ok booked (batches D) c" "dom booked \<subseteq> set (map c_ID (codes D))"
  shows "codes_ok booked D"
  using assms by (simp add: codes_ok_def list_all_iff)

lemma code_ok_batch:
  assumes "codes_ok booked D" "c \<in> set (codes D)" "b \<in> set (batches D)" "b_ID b = c_BatchID c"
  shows "code_booked booked b c"
proof -
  from codes_okD(5) [OF assms(1,2)] obtain b' where "b' \<in> set (batches D)" "code_booked booked b' c"
    by (auto simp: code_ok_def list_ex_iff)
  moreover from this have "b' = b"
    using distinct_key_eq [OF codes_okD(3) [OF assms(1)]] assms(3,4) by (metis code_booked_def)
  ultimately show ?thesis by simp
qed

text \<open>One code becomes used and is booked: the others stay as they are.\<close>

lemma codes_ok_used:
  assumes ok: "codes_ok booked D" and c: "c \<in> set (codes D)" "c_State c = StateUnused"
    and b: "b \<in> set (batches D)" "b_ID b = c_BatchID c"
    and D': "codes D' = change_rows (\<lambda>d. c_ID d = c_ID c \<and> c_State d = StateUnused)
      (\<lambda>d. d\<lparr>c_State := StateUsed, c_UsedBy := Some u, c_UsedAt := Some now, c_UpdatedAt := now\<rparr>) (codes D)"
    "batches D' = batches D"
  shows "codes_ok (booked(c_ID c \<mapsto> (u, b_AmountCents b * UnitsPerCent))) D'"
proof -
  let ?P = "\<lambda>d. c_ID d = c_ID c \<and> c_State d = StateUnused"
  let ?g = "\<lambda>d. d\<lparr>c_State := StateUsed, c_UsedBy := Some u, c_UsedAt := Some now, c_UpdatedAt := now\<rparr>"
  have P: "?P d \<longleftrightarrow> c_ID d = c_ID c" if "d \<in> set (codes D)" for d
    using distinct_key_eq [OF codes_okD(1) [OF ok] that c(1)] c(2) by auto
  have keys: "map c_ID (codes D') = map c_ID (codes D)" "map c_Code (codes D') = map c_Code (codes D)"
    unfolding D' by (rule map_change_rows, simp)+
  have "code_ok (booked(c_ID c \<mapsto> (u, b_AmountCents b * UnitsPerCent))) (batches D) d" if "d \<in> set (codes D')" for d
  proof -
    from that have "d \<in> set (change_rows ?P ?g (codes D))" by (simp add: D')
    then have "d = ?g c \<or> d \<in> set (codes D) \<and> c_ID d \<noteq> c_ID c"
      using member_change_key [where P = ?P and g = ?g, OF codes_okD(1) [OF ok] c(1) P] by simp
    then consider "d = ?g c" | "d \<in> set (codes D)" "c_ID d \<noteq> c_ID c" by blast
    then show ?thesis
    proof cases
      case 1
      have "code_booked (booked(c_ID c \<mapsto> (u, b_AmountCents b * UnitsPerCent))) b d"
        unfolding 1 using b by (simp add: code_booked_def)
      with 1 b codes_okD(5) [OF ok c(1)] show ?thesis by (auto simp: code_ok_def list_ex_iff)
    next
      case 2
      with codes_okD(5) [OF ok 2(1)] code_ok_cong [of "booked(c_ID c \<mapsto> (u, b_AmountCents b * UnitsPerCent))" d booked]
      show ?thesis by simp
    qed
  qed
  then show ?thesis
    using codes_okD(1-4,6) [OF ok] c(1) by (intro codes_okI) (auto simp: keys D'(2))
qed

text \<open>Unused codes become void: nothing is booked for them.\<close>

lemma codes_ok_void:
  assumes ok: "codes_ok booked D"
    and D': "codes D' = change_rows (\<lambda>d. P d \<and> c_State d = StateUnused)
      (\<lambda>d. d\<lparr>c_State := StateVoided, c_UpdatedAt := now\<rparr>) (codes D)"
    "batches D' = batches D"
  shows "codes_ok booked D'"
proof -
  have keys: "map c_ID (codes D') = map c_ID (codes D)" "map c_Code (codes D') = map c_Code (codes D)"
    unfolding D' by (rule map_change_rows, simp)+
  have "code_ok booked (batches D) d" if "d \<in> set (codes D')" for d
  proof -
    from that obtain r where r: "r \<in> set (codes D)"
      and d: "d = (if P r \<and> c_State r = StateUnused then r\<lparr>c_State := StateVoided, c_UpdatedAt := now\<rparr> else r)"
      by (auto simp: D' set_change_rows)
    have "code_booked booked b d" if "code_booked booked b r" for b
      using that unfolding d code_booked_def by (simp split: if_splits)
    moreover have "c_ID d = c_ID r" by (simp add: d)
    ultimately show ?thesis using codes_okD(5) [OF ok r] by (auto simp: code_ok_def list_ex_iff)
  qed
  then show ?thesis
    using codes_okD(1-4,6) [OF ok] by (intro codes_okI) (simp_all add: keys D'(2))
qed

text \<open>A new batch arrives with its codes.\<close>

lemma codes_ok_batch:
  assumes ok: "codes_ok booked D" and D': "codes D' = codes D @ new" "batches D' = batches D @ [b]"
    and new: "distinct (map c_ID (codes D @ new))" "distinct (map c_Code (codes D @ new))" "b_ID b \<notin> b_ID ` set (batches D)"
      "request_of b \<notin> request_of ` set (batches D)"
    and fields: "\<And>c. c \<in> set new \<Longrightarrow> 0 < c_ID c \<and> c_BatchID c = b_ID b \<and> c_State c = StateUnused \<and> c_UsedBy c = None \<and> c_UsedAt c = None"
  shows "codes_ok booked D'"
proof (rule codes_okI)
  show "distinct (map c_ID (codes D'))" "distinct (map c_Code (codes D'))" using new(1,2) by (simp_all add: D')
  show "distinct (map b_ID (batches D'))" using codes_okD(3) [OF ok] new(3) by (simp add: D')
  show "distinct (map request_of (batches D'))" using codes_okD(4) [OF ok] new(4) by (simp add: D')
  show "dom booked \<subseteq> set (map c_ID (codes D'))" using codes_okD(6) [OF ok] by (auto simp: D')
  show "code_ok booked (batches D') c" if "c \<in> set (codes D')" for c
  proof (cases "c \<in> set (codes D)")
    case True
    with codes_okD(5) [OF ok] show ?thesis by (auto simp: D' code_ok_def list_ex_iff)
  next
    case False
    with that have c: "c \<in> set new" by (simp add: D')
    have "c_ID c \<notin> c_ID ` set (codes D)" using new(1) c by auto
    then have "booked (c_ID c) = None" using codes_okD(6) [OF ok] by (auto simp flip: domIff)
    with fields [OF c] show ?thesis by (auto simp: D' code_ok_def code_booked_def)
  qed
qed

section \<open>Lookups\<close>

lemma CentsToUnits_valid: "validImmutableBatch b \<Longrightarrow> CentsToUnits (b_AmountCents b) = Inr (b_AmountCents b * UnitsPerCent)"
  by (auto simp: CentsToUnits_Inr validImmutableBatch_def MaxAmountCents_def)

lemma valid_amount:
  "validImmutableBatch b \<Longrightarrow> 0 < b_AmountCents b * UnitsPerCent \<and> b_AmountCents b * UnitsPerCent \<le> max_int64"
  by (auto simp: validImmutableBatch_def MaxAmountCents_def UnitsPerCent_def max_int64_def)

lemma findCodeForUpdate_effect:
  assumes "Returns (findCodeForUpdate ev code) s (Some c) t"
  shows "same_tables s t \<and> c \<in> set (codes (tables s)) \<and> c_Code c = code"
proof -
  let ?cs = "filter (\<lambda>c. c_Code c = code) (codes (tables s))"
  from assms have "same_tables s t" "take 2 ?cs \<noteq> []" "c = hd (take 2 ?cs)"
    by (auto simp: findCodeForUpdate_def act_simps split: if_splits)
  moreover from this have "c \<in> set ?cs" by (metis hd_in_set in_set_takeD)
  ultimately show ?thesis by simp
qed

lemma redeem_lookup_effect:
  assumes "Returns (redeem_lookup ev code) s (c, b, units) t"
  shows "same_tables s t \<and> c \<in> set (codes (tables s)) \<and> c_Code c = code \<and>
    b \<in> set (batches (tables s)) \<and> b_ID b = c_BatchID c \<and> validImmutableBatch b \<and>
    units = b_AmountCents b * UnitsPerCent"
proof -
  from assms obtain found s1 where s1: "Returns (findCodeForUpdate ev code) s found s1"
    and rest: "Returns (case found of None \<Rightarrow> throw ErrUnavailable | Some lockedCode \<Rightarrow>
         bind (map_error (\<lambda>err. if err = RecordNotFound then ErrIntegrityViolation else RedeemDb err)
           (first ev batches (\<lambda>b. b_ID b = c_BatchID lockedCode))) (\<lambda>batch.
         if \<not> validImmutableBatch batch then throw ErrIntegrityViolation
         else case CentsToUnits (b_AmountCents batch) of
           Inl err \<Rightarrow> throw (RedeemMoney err)
         | Inr amountUnits \<Rightarrow> ret (lockedCode, batch, amountUnits))) s1 (c, b, units) t"
    unfolding redeem_lookup_def by (rule Returns_bindE)
  from rest obtain lockedCode where found: "found = Some lockedCode"
    by (cases found) (simp_all add: act_simps)
  with rest obtain a where a: "find (\<lambda>b. b_ID b = c_BatchID lockedCode) (batches (tables s1)) = Some a"
    "validImmutableBatch a" and money: "Returns (case CentsToUnits (b_AmountCents a) of
        Inl err \<Rightarrow> throw (RedeemMoney err) | Inr n \<Rightarrow> ret (lockedCode, a, n)) (sent s1) (c, b, units) t"
    by (auto simp: act_simps)
  from money have "lockedCode = c" "a = b" "CentsToUnits (b_AmountCents b) = Inr units" "same_tables s1 t"
    by (cases "CentsToUnits (b_AmountCents a)"; simp add: act_simps)+
  note found = found [unfolded this(1)] and facts = a [unfolded this(1,2)] this(3,4)
  with findCodeForUpdate_effect [OF s1 [unfolded found]] CentsToUnits_valid [of b] find_SomeD [OF facts(1)]
  show ?thesis by (auto simp: same_tables_def)
qed

lemma grows_redeem_lookup [grows_intros]: "grows (redeem_lookup ev code)"
  unfolding redeem_lookup_def findCodeForUpdate_def
  by (intro grows_intros)

lemma grows_operationNow [grows_intros]: "grows (operationNow ev)"
  unfolding operationNow_def by (intro grows_intros)

lemma Returns_operationNow [act_simps]:
  "Returns (operationNow ev) s now t \<longleftrightarrow> now = truncate_us (ev_now ev (clock_no s)) \<and> t = ticked s"
  by (auto simp: operationNow_def act_simps)

lemma Fails_operationNow [act_simps]: "Fails (operationNow ev) s e t \<longleftrightarrow> False"
  by (simp add: operationNow_def act_simps)

text \<open>The identity of a credit: the one captured, or a new one.\<close>

lemma chosen_identity_effect:
  assumes "identity_numbered idn"
    and "Returns ((case idn of None \<Rightarrow> bind (NewRedeemCodeCreditIdentity ev i now) (\<lambda>i. ret (Some i))
      | Some i \<Rightarrow> ret (Some i)) :: ('e, 'd world, identity_state) act) s j t"
  shows "same_tables s t" "identity_numbered j"
proof -
  have "same_tables s t \<and> identity_numbered j"
  proof (cases idn)
    case None
    with assms(2) obtain k where k: "Returns (NewRedeemCodeCreditIdentity ev i now :: ('e, 'd world, _) act) s k t" "j = Some k"
      by (auto simp: act_simps)
    from NewRedeemCodeCreditIdentity_effect(1,2) [OF k(1)] k(2) show ?thesis by simp
  next
    case (Some k)
    with assms show ?thesis by (simp add: act_simps)
  qed
  then show "same_tables s t" "identity_numbered j" by simp_all
qed

lemma not_Fails_serial_numbers: "\<not> Fails (serial_numbers ev now n) s e t"
  by (induction n arbitrary: s) (auto simp: act_simps newTransactionNo_def)

lemma attempt_identity:
  assumes "identity_numbered i"
  shows "Fails (redeem_attempt ev findCredit credit u code i) s (e, j) t \<Longrightarrow> identity_numbered j"
    "Returns (redeem_attempt ev findCredit credit u code i) s (a, j) t \<Longrightarrow> identity_numbered j"
proof -
  have chosen: "identity_numbered k" if "Returns ((case i of None \<Rightarrow> bind (NewRedeemCodeCreditIdentity ev x now) (\<lambda>i. ret (Some i))
      | Some i \<Rightarrow> ret (Some i)) :: (redeem_error \<times> identity_state, 'd world, identity_state) act) s k t" for x now k s t
    using chosen_identity_effect(2) [OF assms that] .
  have "\<not> Fails ((case i of None \<Rightarrow> bind (NewRedeemCodeCreditIdentity ev x now) (\<lambda>i. ret (Some i))
      | Some i \<Rightarrow> ret (Some i)) :: (redeem_error \<times> identity_state, 'd world, identity_state) act) s e t" for x now s e t
    by (cases i) (auto simp: act_simps NewRedeemCodeCreditIdentity_def not_Fails_serial_numbers)
  note chosen = chosen this
  have fails: "Fails (redeem_unused ev credit u c b n i) s (e, j) t \<Longrightarrow> identity_numbered j" for c b n s e j t
    unfolding redeem_unused_def Let_def using assms
    by (auto simp: act_simps chosen(2) split: if_splits dest: chosen(1))
  have rets: "Returns (redeem_unused ev credit u c b n i) s (a, j) t \<Longrightarrow> identity_numbered j" for c b n s a j t
    unfolding redeem_unused_def Let_def by (auto simp: act_simps split: if_splits dest: chosen(1))
  show "Fails (redeem_attempt ev findCredit credit u code i) s (e, j) t \<Longrightarrow> identity_numbered j"
    using assms unfolding redeem_attempt_def by (auto simp: act_simps split: if_splits dest: fails)
  show "Returns (redeem_attempt ev findCredit credit u code i) s (a, j) t \<Longrightarrow> identity_numbered j"
    using assms unfolding redeem_attempt_def by (auto simp: act_simps split: if_splits dest: rets)
qed

text \<open>What a redemption that returns has done to the tables and the books.\<close>

definition used_at :: "int \<Rightarrow> gotime \<Rightarrow> Code \<Rightarrow> Code" where
  "used_at u now d =
     d\<lparr>c_State := StateUsed, c_UsedBy := Some u, c_UsedAt := Some now, c_UpdatedAt := now\<rparr>"

definition redeemed ::
    "('y redeem_tables_scheme \<Rightarrow> books) \<Rightarrow> ('y redeem_tables_scheme \<Rightarrow> int \<Rightarrow> int) \<Rightarrow> env \<Rightarrow> int \<Rightarrow> Code \<Rightarrow> Batch
       \<Rightarrow> RedemptionFact \<Rightarrow> 'y redeem_tables_scheme \<Rightarrow> 'y redeem_tables_scheme \<Rightarrow> bool" where
  "redeemed booked funds ev u c b res D D' \<longleftrightarrow> fact_AmountUnits res = b_AmountCents b * UnitsPerCent \<and>
     (if fact_Replayed res then D' = D \<and> c_State c = StateUsed \<and> c_UsedBy c = Some u
      else c_State c = StateUnused \<and> booked D (c_ID c) = None \<and>
        booked D' = (booked D)(c_ID c \<mapsto> (u, b_AmountCents b * UnitsPerCent)) \<and>
        funds D' = (funds D)(u := funds D u + b_AmountCents b * UnitsPerCent) \<and> batches D' = batches D \<and>
        (\<exists>k now. now = truncate_us (ev_now ev k) \<and> after (b_ExpiresAt b) now \<and>
          codes D' = change_rows (\<lambda>d. c_ID d = c_ID c \<and> c_State d = StateUnused) (used_at u now) (codes D)))"

text \<open>The state to keep: consistent books that agree with the codes, under ids the counter has given.\<close>

definition ids_given :: "'y redeem_tables_scheme world \<Rightarrow> bool" where
  "ids_given s \<longleftrightarrow> 0 < auto_inc s \<and> list_all (\<lambda>c. c_ID c < auto_inc s) (codes (tables s)) \<and>
     list_all (\<lambda>b. b_ID b < auto_inc s) (batches (tables s))"

lemma ids_given_later:
  assumes "ids_given s" "auto_inc s \<le> auto_inc t" "map c_ID (codes (tables t)) = map c_ID (codes (tables s))"
    "batches (tables t) = batches (tables s)"
  shows "ids_given t"
proof -
  have alt: "ids_given w \<longleftrightarrow> 0 < auto_inc w \<and> (\<forall>i \<in> set (map c_ID (codes (tables w))). i < auto_inc w) \<and>
      (\<forall>b \<in> set (batches (tables w)). b_ID b < auto_inc w)" for w :: "'y redeem_tables_scheme world"
    by (simp add: ids_given_def list_all_iff)
  show ?thesis using assms(1,2) unfolding alt assms(3,4) by auto
qed

definition books_ok ::
    "('y redeem_tables_scheme world \<Rightarrow> bool) \<Rightarrow> ('y redeem_tables_scheme \<Rightarrow> books) \<Rightarrow> 'y redeem_tables_scheme world \<Rightarrow> bool" where
  "books_ok consistent booked s \<longleftrightarrow>
     consistent s \<and> codes_ok (booked (tables s)) (tables s) \<and> ids_given s"

section \<open>Voiding\<close>

lemma codes_to_void_Inr:
  "length ids = length cs \<Longrightarrow> codes_to_void ids cs = Inr toVoid \<Longrightarrow>
     map c_ID cs = ids \<and> toVoid = map c_ID (filter (\<lambda>c. c_State c = StateUnused) cs) \<and>
     (\<forall>c \<in> set cs. c_State c = StateUnused \<or> c_State c = StateVoided)"
proof (induction ids cs arbitrary: toVoid rule: list_induct2)
  case (Cons i ids c cs)
  from Cons.prems Cons.IH show ?case by (auto split: if_splits sum.splits)
qed simp

text \<open>The codes to void are those of the request that are unused.\<close>

definition voided :: "int list \<Rightarrow> gotime \<Rightarrow> Code list \<Rightarrow> Code list" where
  "voided ids now = change_rows (\<lambda>c. c_ID c \<in> set ids \<and> c_State c = StateUnused)
     (\<lambda>c. c\<lparr>c_State := StateVoided, c_UpdatedAt := now\<rparr>)"

definition void_outcome :: "int list \<Rightarrow> gotime \<Rightarrow> nat \<Rightarrow> 'y redeem_tables_scheme \<Rightarrow> 'y redeem_tables_scheme \<Rightarrow> bool" where
  "void_outcome ids now n D D' \<longleftrightarrow>
     (\<forall>i \<in> set ids. \<exists>c \<in> set (codes D). c_ID c = i \<and> (c_State c = StateUnused \<or> c_State c = StateVoided)) \<and>
     n = length (filter (\<lambda>c. c_ID c \<in> set ids \<and> c_State c = StateUnused) (codes D)) \<and>
     D' = codes_update (voided ids now) D"

lemma void_attempt_effect:
  assumes d: "distinct ids" and run: "Returns (void_attempt ev ids now) s n t"
  shows "void_outcome ids now n (tables s) (tables t)" "auto_inc t = auto_inc s"
proof -
  let ?sel = "\<lambda>c. c_ID c \<in> set ids"
  let ?cs = "take (length ids + 1) (filter ?sel (codes (tables s)))"
  from run obtain toVoid where len: "length ?cs = length ids" and tv: "codes_to_void ids ?cs = Inr toVoid"
    and rest: "if toVoid = [] then n = 0 \<and> same_tables s t
      else n = length toVoid \<and> auto_inc t = auto_inc s \<and>
        length (filter (\<lambda>c. c_ID c \<in> set toVoid \<and> c_State c = StateUnused) (codes (tables s))) = length toVoid \<and>
        tables t = codes_update (voided toVoid now) (tables s)"
    unfolding void_attempt_def voided_def
    by (auto simp: act_simps same_tables_def  split: if_splits)
  have all: "?cs = filter ?sel (codes (tables s))" using len by (cases "length (filter ?sel (codes (tables s))) \<le> length ids") auto
  from codes_to_void_Inr [OF len [symmetric] tv] all
  have ids: "map c_ID (filter ?sel (codes (tables s))) = ids"
    and toVoid: "toVoid = map c_ID (filter (\<lambda>c. c_State c = StateUnused) (filter ?sel (codes (tables s))))"
    and states: "\<And>c. c \<in> set (codes (tables s)) \<Longrightarrow> ?sel c \<Longrightarrow> c_State c = StateUnused \<or> c_State c = StateVoided"
    by auto
  have key: "c_ID c \<in> set toVoid \<and> c_State c = StateUnused \<longleftrightarrow> ?sel c \<and> c_State c = StateUnused"
    if "c \<in> set (codes (tables s))" for c
    using that by (auto simp: toVoid)
  then have same: "voided toVoid now (codes (tables s)) = voided ids now (codes (tables s))"
    unfolding voided_def by (intro change_rows_cong) auto
  have n: "n = length (filter (\<lambda>c. ?sel c \<and> c_State c = StateUnused) (codes (tables s)))"
    using rest by (auto simp: toVoid split: if_splits)
  have D: "tables t = codes_update (voided ids now) (tables s)"
  proof (cases "toVoid = []")
    case True
    then have "voided toVoid now (codes (tables s)) = codes (tables s)" by (simp add: voided_def change_rows_def)
    with True rest same show ?thesis by (simp add: same_tables_def)
  next
    case False
    with rest same show ?thesis by simp
  qed
  have "\<exists>c \<in> set (codes (tables s)). c_ID c = i \<and> (c_State c = StateUnused \<or> c_State c = StateVoided)"
    if "i \<in> set ids" for i
  proof -
    from that have "i \<in> c_ID ` set (filter ?sel (codes (tables s)))" by (metis ids list.set_map)
    with states show ?thesis by auto
  qed
  with n D show "void_outcome ids now n (tables s) (tables t)" by (simp add: void_outcome_def)
  show "auto_inc t = auto_inc s" using rest by (auto simp: same_tables_def split: if_splits)
qed

section \<open>Creating a batch\<close>

lemma Returns_insert_rows [act_simps]:
  "Returns (insert_rows ev get upd violated set_id rows) s rs t \<longleftrightarrow>
     no_fault ev s \<and> rs = map (\<lambda>(k, r). set_id (auto_inc s + int k) r) (enumerate 0 rows) \<and>
     rows_violated violated rs (get (tables s)) = None \<and>
     t = (sent s)\<lparr>auto_inc := auto_inc s + int (length rows), tables := upd (\<lambda>old. old @ rs) (tables s)\<rparr>"
  by (auto simp: insert_rows_def act_simps Let_def) (auto simp: Returns_def split: option.splits)

lemma grows_insert_rows [grows_intros]: "grows (insert_rows ev get upd violated set_id rows)"
  unfolding insert_rows_def by (intro grows_intros) (simp add: grows_def Let_def split: option.split)

lemma distinct_new_codes:
  "rows_violated code_violated new old = None \<Longrightarrow> distinct (map c_Code old) \<Longrightarrow> distinct (map c_Code (old @ new))"
proof (induction new arbitrary: old)
  case (Cons c new)
  then have "code_violated c old = None" "rows_violated code_violated new (old @ [c]) = None"
    by (simp_all split: option.splits)
  moreover from this(1) have "c_Code c \<notin> c_Code ` set old"
    by (auto simp: code_violated_def list_ex_iff split: if_splits)
  ultimately show ?case using Cons.IH [of "old @ [c]"] Cons.prems(2) by simp
qed simp

lemma load_batch_effect:
  assumes "Returns (load_batch ev bs) s found t"
  shows "same_tables s t \<and> (if bs = [] then found = None
    else \<exists>e. found = Some e \<and> bc_Batch e = hd bs \<and> int (length (bc_Codes e)) = b_Quantity (hd bs) \<and>
      set (bc_Codes e) \<subseteq> {c \<in> set (codes (tables s)). c_BatchID c = b_ID (hd bs)})"
  using assms unfolding load_batch_def Let_def
  by (auto simp: act_simps same_tables_def split: if_splits dest: in_set_takeD)

lemma findBatchByRequestDB_effect:
  assumes "Returns (findBatchByRequestDB ev u r) s found t"
  shows "same_tables s t"
    "found = Some e \<Longrightarrow> bc_Batch e \<in> set (batches (tables s)) \<and> b_CreatedBy (bc_Batch e) = u \<and> b_RequestID (bc_Batch e) = r \<and>
      set (bc_Codes e) \<subseteq> {c \<in> set (codes (tables s)). c_BatchID c = b_ID (bc_Batch e)} \<and>
      int (length (bc_Codes e)) = b_Quantity (bc_Batch e)"
    "found = None \<Longrightarrow> b \<in> set (batches (tables s)) \<Longrightarrow> \<not> (b_CreatedBy b = u \<and> b_RequestID b = r)"
proof -
  let ?sel = "filter (\<lambda>b. b_CreatedBy b = u \<and> b_RequestID b = r) (batches (tables s))"
  from assms have run: "Returns (load_batch ev (take 2 ?sel)) (sent s) found t"
    by (auto simp: findBatchByRequestDB_def act_simps)
  note L = load_batch_effect [OF run]
  then show "same_tables s t" by (simp add: same_tables_def)
  show "bc_Batch e \<in> set (batches (tables s)) \<and> b_CreatedBy (bc_Batch e) = u \<and> b_RequestID (bc_Batch e) = r \<and>
      set (bc_Codes e) \<subseteq> {c \<in> set (codes (tables s)). c_BatchID c = b_ID (bc_Batch e)} \<and>
      int (length (bc_Codes e)) = b_Quantity (bc_Batch e)" if "found = Some e"
  proof -
    from L that have ne: "take 2 ?sel \<noteq> []" by (auto split: if_splits)
    obtain x where x: "x = hd (take 2 ?sel)" by simp
    have "x \<in> set ?sel" unfolding x using hd_in_set [OF ne] by (rule in_set_takeD)
    then show ?thesis using L that ne unfolding x [symmetric] by simp
  qed
  show "\<not> (b_CreatedBy b = u \<and> b_RequestID b = r)" if "found = None" "b \<in> set (batches (tables s))"
    using L that by (auto simp: filter_empty_conv split: if_splits)
qed

text \<open>A batch that was created: its row and its codes are new, the codes unused and as asked for.\<close>

definition batch_created :: "Batch \<Rightarrow> Code list \<Rightarrow> BatchWithCodes \<Rightarrow> 'y redeem_tables_scheme \<Rightarrow> 'y redeem_tables_scheme \<Rightarrow> bool" where
  "batch_created batch cs bc D D' \<longleftrightarrow>
     D' = codes_update (\<lambda>old. old @ bc_Codes bc) (batches_update (\<lambda>old. old @ [bc_Batch bc]) D) \<and>
     sameRequestIdentity (bc_Batch bc) batch \<and> request_of (bc_Batch bc) = request_of batch \<and> b_AmountCents (bc_Batch bc) = b_AmountCents batch \<and>
     after (b_ExpiresAt batch) (b_CreatedAt (bc_Batch bc)) \<and>
     int (length (bc_Codes bc)) = b_Quantity batch \<and> map c_Code (bc_Codes bc) = map c_Code cs \<and>
     (\<forall>c \<in> set (bc_Codes bc). c_BatchID c = b_ID (bc_Batch bc) \<and> c_State c = StateUnused \<and> c_UsedBy c = None \<and> c_UsedAt c = None)"

definition batch_outcome :: "Batch \<Rightarrow> Code list \<Rightarrow> BatchWithCodes \<times> bool \<Rightarrow> 'y redeem_tables_scheme \<Rightarrow> 'y redeem_tables_scheme \<Rightarrow> bool" where
  "batch_outcome batch cs res D D' \<longleftrightarrow>
     (if snd res then D' = D \<and> bc_Batch (fst res) \<in> set (batches D) \<and> sameRequestIdentity (bc_Batch (fst res)) batch \<and>
        request_of (bc_Batch (fst res)) = request_of batch \<and>
        set (bc_Codes (fst res)) \<subseteq> {c \<in> set (codes D). c_BatchID c = b_ID (bc_Batch (fst res))}
      else batch_created batch cs (fst res) D D' \<and>
        request_of batch \<notin> request_of ` set (batches D))"

lemma create_attempt_effect:
  assumes run: "Returns (create_attempt ev batch cs) s res t"
  shows "batch_outcome batch cs res (tables s) (tables t)"
    "codes_ok booked (tables s) \<Longrightarrow> ids_given s \<Longrightarrow> codes_ok booked (tables t) \<and> ids_given t"
    "auto_inc s \<le> auto_inc t"
proof -
  from run obtain found s1 where s1: "Returns (findBatchByRequestDB ev (b_CreatedBy batch) (b_RequestID batch)) s found s1"
    and rest: "Returns (case found of
       Some e \<Rightarrow> if \<not> sameRequestIdentity (bc_Batch e) batch then throw ErrRequestConflict else ret (e, True)
     | None \<Rightarrow>
         bind (operationNow ev) (\<lambda>createdAt.
         if \<not> after (b_ExpiresAt batch) createdAt then throw ErrExpiryNotFuture
         else bind (insert_batch ev (batch\<lparr>b_CreatedAt := createdAt, b_UpdatedAt := createdAt\<rparr>)) (\<lambda>row.
         bind (insert_codes ev (map (new_code (b_ID row) createdAt) cs)) (\<lambda>new.
         if int (length new) \<noteq> b_Quantity row then throw ErrIntegrityViolation
         else ret (\<lparr>bc_Batch = row, bc_Codes = new\<rparr>, False))))) s1 res t"
    unfolding create_attempt_def by (rule Returns_bindE)
  note F = findBatchByRequestDB_effect [OF s1]
  have D1: "tables s1 = tables s" "auto_inc s1 = auto_inc s" using F(1) by (simp_all add: same_tables_def)
  have "batch_outcome batch cs res (tables s) (tables t) \<and> auto_inc s \<le> auto_inc t \<and>
    (codes_ok booked (tables s) \<longrightarrow> ids_given s \<longrightarrow> codes_ok booked (tables t) \<and> ids_given t)"
  proof (cases found)
    case (Some e)
    with rest have res: "res = (e, True)" "sameRequestIdentity (bc_Batch e) batch" "t = s1" by (auto simp: act_simps)
    with F(2) [OF Some] D1 show ?thesis by (simp add: batch_outcome_def ids_given_def request_of_def)
  next
    case None
    with rest obtain createdAt row new s2 s3 where now: "after (b_ExpiresAt batch) createdAt"
      and b: "Returns (insert_batch ev (batch\<lparr>b_CreatedAt := createdAt, b_UpdatedAt := createdAt\<rparr>)) (ticked s1) row s2"
      and c: "Returns (insert_codes ev (map (new_code (b_ID row) createdAt) cs)) s2 new t"
      and q: "int (length new) = b_Quantity row" and res: "res = (\<lparr>bc_Batch = row, bc_Codes = new\<rparr>, False)"
      by (auto simp: act_simps)
    let ?n = "auto_inc s"
    from b have row: "row = batch\<lparr>b_ID := ?n, b_CreatedAt := createdAt, b_UpdatedAt := createdAt\<rparr>"
      and s2: "tables s2 = batches_update (\<lambda>old. old @ [row]) (tables s)" "auto_inc s2 = ?n + 1"
      by (auto simp: insert_batch_def act_simps D1)
    from c have new: "new = map (\<lambda>(k, c). c\<lparr>c_ID := ?n + 1 + int k\<rparr>) (enumerate 0 (map (new_code ?n createdAt) cs))"
      and t: "tables t = codes_update (\<lambda>old. old @ new) (tables s2)" "auto_inc t = ?n + 1 + int (length cs)"
      and fresh: "rows_violated code_violated new (codes (tables s)) = None"
      by (auto simp: insert_codes_def act_simps s2 row)
    have fields: "c_BatchID c = ?n \<and> c_State c = StateUnused \<and> c_UsedBy c = None \<and> c_UsedAt c = None" if "c \<in> set new" for c
      using that by (auto simp: new new_code_def in_set_enumerate_eq)
    have ids: "map c_ID new = map (\<lambda>k. ?n + 1 + int k) [0..<length cs]"
      by (rule nth_equalityI) (simp_all add: new nth_enumerate_eq)
    have texts: "map c_Code new = map c_Code cs"
      by (rule nth_equalityI) (simp_all add: new nth_enumerate_eq new_code_def)
    have created: "batch_created batch cs (fst res) (tables s) (tables t)"
      using fields now q texts by (auto simp: batch_created_def res t(1) s2(1) row sameRequestIdentity_def request_of_def)
    moreover have req: "request_of batch \<notin> request_of ` set (batches (tables s))"
    proof
      assume "request_of batch \<in> request_of ` set (batches (tables s))"
      then obtain x where x: "x \<in> set (batches (tables s))" "request_of batch = request_of x" by blast
      from F(3) [OF None x(1)] x(2) show False by (simp add: request_of_def)
    qed
    moreover have "codes_ok booked (tables t) \<and> ids_given t" if ok: "codes_ok booked (tables s)" and given: "ids_given s"
    proof
      have old: "c_ID c < ?n" "b_ID b < ?n" "0 < ?n" if "c \<in> set (codes (tables s))" "b \<in> set (batches (tables s))" for c b
        using given that by (auto simp: ids_given_def list_all_iff)
      have newids: "c_ID ` set new = (\<lambda>k. ?n + 1 + int k) ` {0..<length cs}" using ids by (metis list.set_map set_upt)
      show "codes_ok booked (tables t)"
      proof (rule codes_ok_batch [OF ok, of "tables t" new row])
        show "codes (tables t) = codes (tables s) @ new" "batches (tables t) = batches (tables s) @ [row]"
          by (simp_all add: t s2)
        show "distinct (map c_Code (codes (tables s) @ new))"
          by (rule distinct_new_codes [OF fresh codes_okD(2) [OF ok]])
        have "distinct (map c_ID new)" by (simp add: ids distinct_map inj_on_def)
        moreover have "c_ID ` set (codes (tables s)) \<inter> c_ID ` set new = {}"
          using given unfolding newids by (fastforce simp: ids_given_def list_all_iff)
        ultimately show "distinct (map c_ID (codes (tables s) @ new))" using codes_okD(1) [OF ok] by simp
        show "b_ID row \<notin> b_ID ` set (batches (tables s))"
          using given by (auto simp: row ids_given_def list_all_iff)
        show "request_of row \<notin> request_of ` set (batches (tables s))" using req by (simp add: row request_of_def)
        show "0 < c_ID c \<and> c_BatchID c = b_ID row \<and> c_State c = StateUnused \<and> c_UsedBy c = None \<and> c_UsedAt c = None"
          if "c \<in> set new" for c
        proof -
          from that have "c_ID c \<in> c_ID ` set new" by simp
          then have "0 < c_ID c" using given unfolding newids by (auto simp: ids_given_def)
          with fields [OF that] show ?thesis by (simp add: row)
        qed
      qed
      have "c_ID c < auto_inc t" if "c \<in> set new" for c
      proof -
        from that have "c_ID c \<in> c_ID ` set new" by simp
        then show ?thesis unfolding newids by (auto simp: t)
      qed
      with given show "ids_given t" by (fastforce simp: ids_given_def list_all_iff t s2 row)
    qed
    ultimately show ?thesis by (simp add: batch_outcome_def res t(2))
  qed
  then show "batch_outcome batch cs res (tables s) (tables t)"
    "codes_ok booked (tables s) \<Longrightarrow> ids_given s \<Longrightarrow> codes_ok booked (tables t) \<and> ids_given t"
    "auto_inc s \<le> auto_inc t" by simp_all
qed

section \<open>The interface of the wallet participant\<close>

locale redeem_participant =
  fixes findCredit :: "'y redeem_tables_scheme find_credit"
    and credit :: "'y redeem_tables_scheme credit"
    and consistent :: "'y redeem_tables_scheme world \<Rightarrow> bool"
    and booked :: "'y redeem_tables_scheme \<Rightarrow> books"
    and funds :: "'y redeem_tables_scheme \<Rightarrow> int \<Rightarrow> int"
  assumes find_reads: "Returns (findCredit ev i) s r t \<Longrightarrow> same_tables s t"
    and find_grows: "grows (findCredit ev i)"
    and credit_grows: "grows (credit ev input identity)"
    and credit_keeps: "Returns (credit ev input identity) s r t \<Longrightarrow>
      codes (tables t) = codes (tables s) \<and> batches (tables t) = batches (tables s)"
    and credit_books: "consistent s \<Longrightarrow> rc_AmountUnits input \<le> max_int64 \<Longrightarrow> identity_numbered identity \<Longrightarrow>
      Returns (credit ev input identity) s r t \<Longrightarrow>
      consistent t \<and> auto_inc s \<le> auto_inc t \<and> booked (tables s) (rc_CodeID input) = None \<and>
      booked (tables t) = (booked (tables s))(rc_CodeID input \<mapsto> (rc_UserID input, rc_AmountUnits input)) \<and>
      funds (tables t) = (funds (tables s))(rc_UserID input := funds (tables s) (rc_UserID input) + rc_AmountUnits input)"
    and other_tables: "consistent s \<Longrightarrow> auto_inc s \<le> auto_inc t \<Longrightarrow>
      tables t = batches_update g (codes_update h (tables s)) \<Longrightarrow>
      consistent t \<and> booked (tables t) = booked (tables s) \<and> funds (tables t) = funds (tables s)"
begin

lemma same_consistent: "consistent s \<Longrightarrow> tables t = tables s \<Longrightarrow> auto_inc s \<le> auto_inc t \<Longrightarrow> consistent t"
  using other_tables [of s t "\<lambda>x. x" "\<lambda>x. x"] by simp

abbreviation redeem_ok :: "'y redeem_tables_scheme world \<Rightarrow> bool" where
  "redeem_ok \<equiv> books_ok consistent booked"

lemma redeem_ok_same: "redeem_ok s \<Longrightarrow> tables t = tables s \<Longrightarrow> auto_inc s \<le> auto_inc t \<Longrightarrow> redeem_ok t"
  unfolding books_ok_def using same_consistent [of s t] ids_given_later [of s t] by simp

lemma redeem_replay_effect:
  assumes "Returns (redeem_replay ev findCredit u c b units) s res t"
  shows "same_tables s t \<and> c_UsedBy c = Some u \<and> fact_Replayed res \<and> fact_AmountUnits res = units"
  using assms by (auto simp: redeem_replay_def redemption_fact_def act_simps dest: find_reads)

lemma redeem_book_effect:
  assumes ok: "consistent s" "codes_ok (booked (tables s)) (tables s)" "ids_given s"
    and c: "c \<in> set (codes (tables s))" "c_State c = StateUnused"
    and b: "b \<in> set (batches (tables s))" "b_ID b = c_BatchID c" "validImmutableBatch b"
    and i: "input = \<lparr>rc_UserID = u, rc_CodeID = c_ID c, rc_AmountUnits = b_AmountCents b * UnitsPerCent,
      rc_BatchNo = b_BatchNo b\<rparr>" "identity_numbered idn"
    and now: "now = truncate_us (ev_now ev k)" "after (b_ExpiresAt b) now"
    and run: "Returns (redeem_book ev credit u c b (b_AmountCents b * UnitsPerCent) input idn now) s res t"
  shows "redeem_ok t \<and> redeemed booked funds ev u c b res (tables s) (tables t)"
proof -
  from run obtain r s1 where r: "Returns (credit ev input idn) s r s1"
    and t: "tables t = codes_update (change_rows (\<lambda>d. c_ID d = c_ID c \<and> c_State d = StateUnused) (used_at u now)) (tables s1)"
    and inc: "auto_inc t = auto_inc s1" and res: "res = redemption_fact b (b_AmountCents b * UnitsPerCent) r False"
    unfolding redeem_book_def used_at_def [abs_def] by (auto simp: act_simps split: if_splits)
  have amount: "rc_AmountUnits input \<le> max_int64" using valid_amount [OF b(3)] by (simp add: i)
  note B = credit_books [OF ok(1) amount i(2) r, unfolded i(1), simplified]
  note K = credit_keeps [OF r]
  have "tables t = batches_update (\<lambda>x. x) (codes_update (change_rows
      (\<lambda>d. c_ID d = c_ID c \<and> c_State d = StateUnused) (used_at u now)) (tables s1))" by (simp add: t)
  from other_tables [OF _ _ this] B inc have c2: "consistent t" and bk: "booked (tables t) = booked (tables s1)"
    and fd: "funds (tables t) = funds (tables s1)"
    by simp_all
  have rows: "codes (tables t) = change_rows (\<lambda>d. c_ID d = c_ID c \<and> c_State d = StateUnused) (used_at u now) (codes (tables s))"
    "batches (tables t) = batches (tables s)" using K by (simp_all add: t)
  have "codes_ok ((booked (tables s))(c_ID c \<mapsto> (u, b_AmountCents b * UnitsPerCent))) (tables t)"
    using codes_ok_used [OF ok(2) c b(1,2), of "tables t" now u] rows by (simp add: used_at_def [abs_def])
  moreover have "ids_given t"
    using ids_given_later [OF ok(3), of t] B inc rows by (simp add: map_change_rows used_at_def)
  ultimately have "redeem_ok t" using c2 bk B by (simp add: books_ok_def)
  moreover have "redeemed booked funds ev u c b res (tables s) (tables t)"
    using B bk fd rows now c(2) by (auto simp: redeemed_def res redemption_fact_def)
  ultimately show ?thesis ..
qed

lemma redeem_attempt_effect:
  assumes ok: "redeem_ok s" and idn: "identity_numbered idn"
    and run: "Returns (redeem_attempt ev findCredit credit u code idn) s (res, idn') t"
  shows "redeem_ok t \<and> (\<exists>c b. c \<in> set (codes (tables s)) \<and> c_Code c = code \<and> b \<in> set (batches (tables s)) \<and>
    b_ID b = c_BatchID c \<and> redeemed booked funds ev u c b res (tables s) (tables t))"
proof -
  from run obtain c b units s1 where look: "Returns (redeem_lookup ev code) s (c, b, units) s1"
    and rest: "Returns (if c_State c = StateUsed then
       bind (map_error (\<lambda>e. (e, idn)) (redeem_replay ev findCredit u c b units)) (\<lambda>fact. ret (fact, idn))
     else if c_State c = StateVoided then throw (ErrUnavailable, idn)
     else if c_State c = StateUnused then
       (if c_UsedBy c \<noteq> None \<or> c_UsedAt c \<noteq> None then throw (ErrIntegrityViolation, idn)
        else redeem_unused ev credit u c b units idn)
     else throw (ErrIntegrityViolation, idn)) s1 (res, idn') t"
    unfolding redeem_attempt_def by (auto simp: act_simps)
  note L = redeem_lookup_effect [OF look]
  then have D: "tables s1 = tables s" "auto_inc s1 = auto_inc s"
    and units: "units = b_AmountCents b * UnitsPerCent" by (simp_all add: same_tables_def)
  have ok1: "redeem_ok s1" using redeem_ok_same [OF ok D(1)] D(2) by simp
  show ?thesis
  proof (cases "c_State c = StateUsed")
    case True
    with rest have "Returns (redeem_replay ev findCredit u c b units) s1 res t" by (auto simp: act_simps)
    note R = redeem_replay_effect [OF this]
    then have T: "tables t = tables s" "auto_inc t = auto_inc s" using D by (simp_all add: same_tables_def)
    with redeem_ok_same [OF ok T(1)] True R L show ?thesis by (auto simp: redeemed_def)
  next
    case False
    with rest have unused: "c_State c = StateUnused" and run2: "Returns (redeem_unused ev credit u c b units idn) s1 (res, idn') t"
      by (auto simp: act_simps split: if_splits)
    let ?now = "truncate_us (ev_now ev (clock_no s1))"
    let ?i = "\<lparr>rc_UserID = u, rc_CodeID = c_ID c, rc_AmountUnits = units, rc_BatchNo = b_BatchNo b\<rparr>"
    from run2 obtain j s2 where now: "after (b_ExpiresAt b) ?now"
      and j: "Returns ((case idn of None \<Rightarrow> bind (NewRedeemCodeCreditIdentity ev ?i ?now) (\<lambda>i. ret (Some i))
          | Some i \<Rightarrow> ret (Some i)) :: (redeem_error \<times> identity_state, 'y redeem_tables_scheme world, identity_state) act) (ticked s1) j s2"
      and book: "Returns (redeem_book ev credit u c b units ?i j ?now) s2 res t"
      unfolding redeem_unused_def Let_def by (auto simp: act_simps split: if_splits)
    note J = chosen_identity_effect [OF idn j]
    have D2: "tables s2 = tables s" "auto_inc s2 = auto_inc s" using J(1) D by (simp_all add: same_tables_def)
    from redeem_ok_same [OF ok D2(1)] D2(2)
    have "consistent s2" "codes_ok (booked (tables s2)) (tables s2)" "ids_given s2"
      by (simp_all add: books_ok_def)
    from redeem_book_effect [OF this _ unused _ _ _ _ J(2) refl now book [unfolded units]] L D2
    show ?thesis by auto
  qed
qed

lemma grows_redeem_attempt [grows_intros]: "grows (redeem_attempt ev findCredit credit u code idn)"
  unfolding redeem_attempt_def redeem_unused_def redeem_book_def redeem_replay_def
    NewRedeemCodeCreditIdentity_def Let_def
  by (auto intro!: grows_intros find_grows credit_grows split: prod.split)

lemma Redeem_effect:
  assumes ok: "redeem_ok s" and run: "Returns (Redeem_with c ev (Some (findCredit, credit)) u code) s res t"
  shows "redeem_ok t \<and> (\<exists>c b. c \<in> set (codes (tables s)) \<and> c_Code c = code \<and> b \<in> set (batches (tables s)) \<and>
    b_ID b = c_BatchID c \<and> redeemed booked funds ev u c b res (tables s) (tables t))"
proof -
  have "Returns (withTransactionRetry ev (redeem_attempt ev findCredit credit u code) None) s res t"
    using run by (auto simp: Redeem_with_def act_simps split: if_splits)
  moreover have "identity_numbered None" by (simp add: identity_numbered_def)
  ultimately obtain i j s0 t0 where i: "identity_numbered i" and s0: "tables s0 = tables s" "auto_inc s \<le> auto_inc s0"
    and run0: "Returns (redeem_attempt ev findCredit credit u code i) s0 (res, j) t0" and t0: "same_tables t0 t"
    using withTransactionRetry_effect [of identity_numbered None ev "redeem_attempt ev findCredit credit u code" s res t]
      grows_redeem_attempt attempt_identity [of _ ev findCredit credit u code] by blast
  have "redeem_ok s0" using redeem_ok_same [OF ok s0] .
  from redeem_attempt_effect [OF this i run0] redeem_ok_same [of t0 t] t0 s0(1)
  show ?thesis by (simp add: same_tables_def)
qed

lemma VoidCodes_effect:
  assumes ok: "redeem_ok s" and run: "Returns (VoidCodes c ev ids now) s n t"
  shows "redeem_ok t \<and> void_outcome ids (truncate_us now) n (tables s) (tables t)"
proof -
  from run obtain l where l: "normalizeIDs ids = Inr l"
    and retry: "Returns (withTransactionRetry ev (plain_operation (void_attempt ev l (truncate_us now))) ()) s n t"
    by (auto simp: VoidCodes_def act_simps split: if_splits)
  have "grows (void_attempt ev l (truncate_us now))"
    unfolding void_attempt_def by (intro grows_intros)
  from plain_retry_effect [OF retry this] obtain s0 t0 where s0: "tables s0 = tables s" "auto_inc s \<le> auto_inc s0"
    and run0: "Returns (void_attempt ev l (truncate_us now)) s0 n t0" and t0: "same_tables t0 t"
    by blast
  have "distinct l" "set l = set ids" using l by (auto simp: normalizeIDs_def split: if_splits)
  note V = void_attempt_effect [OF this(1) run0]
  have out: "void_outcome ids (truncate_us now) n (tables s) (tables t)"
    using V(1) t0 s0 \<open>set l = set ids\<close> by (simp add: void_outcome_def voided_def same_tables_def)
  then have D: "tables t = batches_update (\<lambda>x. x) (codes_update (voided ids (truncate_us now)) (tables s))"
    by (simp add: void_outcome_def)
  have inc: "auto_inc s \<le> auto_inc t" using V(2) t0 s0 by (simp add: same_tables_def)
  from ok have parts: "consistent s" "codes_ok (booked (tables s)) (tables s)" "ids_given s" by (simp_all add: books_ok_def)
  have "codes_ok (booked (tables s)) (tables t)"
    by (rule codes_ok_void [OF parts(2)]) (simp_all add: D voided_def)
  moreover have "ids_given t"
    using ids_given_later [OF parts(3) inc] by (simp add: D voided_def map_change_rows)
  ultimately show ?thesis using other_tables [OF parts(1) inc D] out by (simp add: books_ok_def)
qed

lemma create_attempt_keeps:
  assumes ok: "redeem_ok s" and run: "Returns (create_attempt ev batch cs) s res t"
  shows "redeem_ok t"
proof -
  note C = create_attempt_effect [OF run]
  from ok have parts: "consistent s" "codes_ok (booked (tables s)) (tables s)" "ids_given s" by (simp_all add: books_ok_def)
  have "\<exists>g h. tables t = batches_update g (codes_update h (tables s))"
  proof (cases "snd res")
    case True
    with C(1) have "tables t = batches_update (\<lambda>x. x) (codes_update (\<lambda>x. x) (tables s))" by (simp add: batch_outcome_def)
    then show ?thesis by blast
  next
    case False
    with C(1) have "tables t = batches_update (\<lambda>old. old @ [bc_Batch (fst res)]) (codes_update (\<lambda>old. old @ bc_Codes (fst res)) (tables s))"
      by (simp add: batch_outcome_def batch_created_def)
    then show ?thesis by blast
  qed
  then obtain g h where D: "tables t = batches_update g (codes_update h (tables s))" by blast
  from other_tables [OF parts(1) C(3) D] C(2) [OF parts(2,3)] show ?thesis by (simp add: books_ok_def)
qed

lemma CreateOrReplayBatch_effect:
  assumes ok: "redeem_ok s" and run: "Returns (CreateOrReplayBatch c ev batch cs) s res t"
  shows "redeem_ok t \<and> batch_outcome batch cs res (tables s) (tables t)"
proof -
  let ?tx = "withTransactionRetry ev (plain_operation (create_attempt ev batch cs)) ()"
  from run have "Returns (catch ?tx
        (\<lambda>err. if err = errCreatorRequestRace then
            bind (FindBatchByRequest c ev (b_CreatedBy batch) (b_RequestID batch)) (\<lambda>existing.
            case existing of
              None \<Rightarrow> throw ErrIntegrityViolation
            | Some e \<Rightarrow> if \<not> sameRequestIdentity (bc_Batch e) batch then throw ErrRequestConflict
                else ret (e, True))
          else throw err)) s res t"
    by (auto simp: CreateOrReplayBatch_def act_simps split: if_splits)
  then show ?thesis
  proof (cases rule: Returns_catchE)
    case ok
    have "grows (create_attempt ev batch cs)"
      unfolding create_attempt_def findBatchByRequestDB_def load_batch_def insert_batch_def insert_codes_def Let_def
      by (intro grows_intros)
    from plain_retry_effect [OF ok this] obtain s0 t0 where s0: "tables s0 = tables s" "auto_inc s \<le> auto_inc s0"
      and run0: "Returns (create_attempt ev batch cs) s0 res t0" and t0: "same_tables t0 t" by blast
    have "redeem_ok s0" using redeem_ok_same [OF \<open>redeem_ok s\<close> s0] .
    from create_attempt_keeps [OF this run0] create_attempt_effect(1) [OF run0] redeem_ok_same [of t0 t] t0 s0(1)
    show ?thesis by (simp add: same_tables_def)
  next
    case (handled e u)
    have D: "tables u = tables s" using handled(1) by (rule Fails_withTransactionRetry_tables)
    have inc: "auto_inc s \<le> auto_inc u"
    proof -
      have "grows ?tx" by (rule grows_plain_retry) (unfold create_attempt_def findBatchByRequestDB_def load_batch_def
        insert_batch_def insert_codes_def Let_def, intro grows_intros)
      from growsD [OF this, of s] handled(1) show ?thesis by (simp add: Fails_def)
    qed
    from handled(2) obtain x where race: "Returns (findBatchByRequestDB ev (b_CreatedBy batch) (b_RequestID batch)) u (Some x) t"
      and x: "sameRequestIdentity (bc_Batch x) batch" "res = (x, True)"
      by (auto simp: act_simps FindBatchByRequest_def split: if_splits option.splits)
    note F = findBatchByRequestDB_effect [OF race]
    have T: "tables t = tables s" "auto_inc s \<le> auto_inc t" using F(1) D inc by (simp_all add: same_tables_def)
    with F(2) x D redeem_ok_same [OF \<open>redeem_ok s\<close> T] show ?thesis by (simp add: batch_outcome_def request_of_def)
  qed
qed

end

end
