(* ===== verification/RedeemHistory.thy ===== *)
theory RedeemHistory
  imports RedeemLaws
begin

text \<open>
  The wallet's repository keeps the contract of a redeem participant, and histories: any sequence
  of redemptions, batches, void requests and other wallet calls, each under its own schedule of
  failing statements, from empty tables on.
\<close>

section \<open>The wallet as participant\<close>

text \<open>The books of the wallet: its ledger rows of redeem codes.\<close>

definition ledger_books :: "'x wallet_tables_scheme \<Rightarrow> books" where
  "ledger_books D c = row_map source_of (\<lambda>t. (t_UserID t, t_AmountUnits t)) (transactions D) (SourceRedeemCode, c)"

lemma blind_redeem_tables [simp]: "blind_to S codes" "blind_to S batches"
  by (simp_all add: blind_to_def)

lemma keeps_wallet_credit: "blind_to UNIV f \<Longrightarrow> keeps f (wallet_credit ev input identity)"
  unfolding wallet_credit_def by (intro keeps_bind keeps_basic keeps_CreditRedeemCode [OF _ UNIV_I])

lemma ledger_books_append:
  assumes "source_of x \<notin> source_of ` set (transactions D)" "transactions D' = transactions D @ [x]"
    "source_of x = (SourceRedeemCode, c)"
  shows "ledger_books D c = None" "ledger_books D' = (ledger_books D)(c \<mapsto> (t_UserID x, t_AmountUnits x))"
proof -
  show "ledger_books D c = None" using assms by (simp add: ledger_books_def row_map_None)
  show "ledger_books D' = (ledger_books D)(c \<mapsto> (t_UserID x, t_AmountUnits x))"
    using row_map_append_new [OF assms(1), of "\<lambda>t. (t_UserID t, t_AmountUnits t)"]
    by (intro ext) (simp add: ledger_books_def assms(2,3))
qed

text \<open>And the balance of each user.\<close>

definition user_funds :: "'x wallet_tables_scheme \<Rightarrow> int \<Rightarrow> int" where
  "user_funds D = as_balance (account_of D)"

interpretation wallet_redeem: redeem_participant wallet_find wallet_credit wallet_state_ok ledger_books user_funds
proof unfold_locales
  fix ev i and s t :: "'a redeem_tables_scheme world" and r
  assume "Returns (wallet_find ev i) s r t"
  then show "same_tables s t" unfolding wallet_find_def by (rule FindRedeemCodeCredit_effect(1))
next
  fix ev i
  show "grows (wallet_find ev i)"
    unfolding wallet_find_def FindRedeemCodeCreditInTx_def findRedeemCodeSourceFact_def credited_wallet_def
    by (intro grows_intros)
next
  fix ev input identity
  show "grows (wallet_credit ev input identity)"
    unfolding wallet_credit_def by (intro grows_intros)
next
  fix ev input identity and s t :: "'a redeem_tables_scheme world" and r
  assume run: "Returns (wallet_credit ev input identity) s r t"
  show "codes (tables t) = codes (tables s) \<and> batches (tables t) = batches (tables s)"
    by (simp add: keepsD [OF keeps_wallet_credit [OF blind_redeem_tables(1)] run]
        keepsD [OF keeps_wallet_credit [OF blind_redeem_tables(2)] run])
next
  fix ev input identity and s t :: "'a redeem_tables_scheme world" and r
  assume ok: "wallet_state_ok s" "rc_AmountUnits input \<le> max_int64" "identity_numbered identity"
    and run: "Returns (wallet_credit ev input identity) s r t"
  from run obtain w x where "Returns (CreditRedeemCodeWithIdentityInTx True ev open_tx input identity) s (w, x) t"
    by (auto simp: wallet_credit_def act_simps)
  note C = CreditRedeemCodeWithIdentity_effect [OF ok this]
  from C have "source_of x \<notin> source_of ` set (transactions (tables s))"
    by (simp add: account_of_def row_map_None)
  moreover have acc: "Some (account_of (tables t)) = Some (account_of (tables s)\<lparr>
      as_balance := (as_balance (account_of (tables s)))(rc_UserID input :=
        as_balance (account_of (tables s)) (rc_UserID input) + rc_AmountUnits input),
      as_ledger := (as_ledger (account_of (tables s)))((SourceRedeemCode, rc_CodeID input) \<mapsto> rc_AmountUnits input)\<rparr>)"
  proof -
    from C have none: "as_ledger (account_of (tables s)) (SourceRedeemCode, rc_CodeID input) = None" by blast
    from C have "Some (account_of (tables t)) = spec_credit SourceRedeemCode (rc_UserID input) (rc_CodeID input)
        (rc_AmountUnits input) (account_of (tables s))" by presburger
    then show ?thesis by (simp add: spec_credit_def none)
  qed
  ultimately have "user_funds (tables t) = (user_funds (tables s))(rc_UserID input :=
      user_funds (tables s) (rc_UserID input) + rc_AmountUnits input)"
    and key: "source_of x \<notin> source_of ` set (transactions (tables s))"
    by (simp_all add: user_funds_def)
  moreover from C have "wallet_state_ok t" "auto_inc s \<le> auto_inc t" and x: "source_of x = (SourceRedeemCode, rc_CodeID input)"
    "t_AmountUnits x = rc_AmountUnits input" "t_UserID x = rc_UserID input"
    and appended: "transactions (tables t) = transactions (tables s) @ [x]" by blast+
  ultimately
  show "wallet_state_ok t \<and> auto_inc s \<le> auto_inc t \<and> ledger_books (tables s) (rc_CodeID input) = None \<and>
      ledger_books (tables t) = (ledger_books (tables s))(rc_CodeID input \<mapsto> (rc_UserID input, rc_AmountUnits input)) \<and>
      user_funds (tables t) = (user_funds (tables s))(rc_UserID input := user_funds (tables s) (rc_UserID input) + rc_AmountUnits input)"
    using ledger_books_append [OF key appended x(1)] unfolding x(2,3) by blast
next
  fix s t :: "'a redeem_tables_scheme world" and g h
  assume "wallet_state_ok s" "auto_inc s \<le> auto_inc t" "tables t = batches_update g (codes_update h (tables s))"
  then show "wallet_state_ok t \<and> ledger_books (tables t) = ledger_books (tables s) \<and> user_funds (tables t) = user_funds (tables s)"
    using wallet_state_ok_frame [of s t] account_of_frame [of "tables t" "tables s"]
    by (simp add: ledger_books_def [abs_def] user_funds_def)
qed

section \<open>Histories\<close>

datatype redeem_op =
    OpRedeemCode int string
  | OpVoid "int list" gotime
  | OpCreateBatch Batch "Code list"
  | OpWallet wallet_op

text \<open>The wallet is credited for a code by the repository of redeem codes only.\<close>

definition redeem_op_ok :: "redeem_op \<Rightarrow> bool" where
  "redeem_op_ok op = (case op of
     OpWallet w \<Rightarrow> op_ok w \<and> op_source w \<noteq> SourceRedeemCode
   | _ \<Rightarrow> True)"

definition redeem_call :: "env \<Rightarrow> redeem_op \<Rightarrow> ('y, unit) redeem_act" where
  "redeem_call ev op = (case op of
     OpRedeemCode u code \<Rightarrow> discard (Redeem ev u code)
   | OpVoid ids now \<Rightarrow> discard (VoidCodes True ev ids now)
   | OpCreateBatch batch cs \<Rightarrow> discard (CreateOrReplayBatch True ev batch cs)
   | OpWallet w \<Rightarrow> map_error RedeemWallet (wallet_tx ev w))"

inductive redeem_step :: "'y redeem_tables_scheme world \<Rightarrow> 'y redeem_tables_scheme world \<Rightarrow> bool" where
  step: "redeem_op_ok op \<Longrightarrow> redeem_call ev op s = (res, t) \<Longrightarrow> redeem_step s t"

definition empty_redeem_world :: "redeem_tables world" where
  "empty_redeem_world = \<lparr>stmt_no = 0, clock_no = 0, auto_inc = 1, serial_seq = 0,
     tables = \<lparr>wallets = [], transactions = [], holds = [], batches = [], codes = []\<rparr>\<rparr>"

inductive redeem_reachable :: "redeem_tables world \<Rightarrow> bool" where
  start: "redeem_reachable empty_redeem_world"
| more: "redeem_reachable s \<Longrightarrow> redeem_step s t \<Longrightarrow> redeem_reachable t"

abbreviation redeem_state_ok :: "'y redeem_tables_scheme world \<Rightarrow> bool" where
  "redeem_state_ok \<equiv> books_ok wallet_state_ok ledger_books"

lemma redeem_state_okD:
  assumes "redeem_state_ok s"
  shows "wallet_state_ok s" "codes_ok (ledger_books (tables s)) (tables s)" "ids_given s"
  using assms by (simp_all add: books_ok_def)

lemma Redeem_outcome:
  assumes "redeem_state_ok s" "Returns (Redeem ev u code) s res t"
  shows "redeem_state_ok t" "\<exists>c b. c \<in> set (codes (tables s)) \<and> c_Code c = code \<and> b \<in> set (batches (tables s)) \<and>
    b_ID b = c_BatchID c \<and> redeemed ledger_books user_funds ev u c b res (tables s) (tables t)"
  using wallet_redeem.Redeem_effect [OF assms(1) assms(2) [unfolded Redeem_def]] by simp_all

text \<open>A wallet call that books under another source leaves the codes and their books alone.\<close>

definition redeem_part :: "'y redeem_tables_scheme \<Rightarrow> Transaction list \<times> Batch list \<times> Code list" where
  "redeem_part D = (filter (\<lambda>t. t_SourceType t = SourceRedeemCode) (transactions D), batches D, codes D)"

lemma ledger_books_filter:
  "ledger_books D c = row_map source_of (\<lambda>t. (t_UserID t, t_AmountUnits t))
     (filter (\<lambda>t. t_SourceType t = SourceRedeemCode) (transactions D)) (SourceRedeemCode, c)"
proof -
  have "row_map source_of f ts (SourceRedeemCode, c) =
      row_map source_of f (filter (\<lambda>t. t_SourceType t = SourceRedeemCode) ts) (SourceRedeemCode, c)"
    for f :: "Transaction \<Rightarrow> int \<times> int" and ts
    by (induction ts) (auto simp: row_map_def source_of_def)
  then show ?thesis unfolding ledger_books_def .
qed

lemma ledger_books_part: "redeem_part D' = redeem_part D \<Longrightarrow> ledger_books D' = ledger_books D"
  by (intro ext) (simp add: ledger_books_filter redeem_part_def)

lemma keeps_redeem_part: "op_source w \<noteq> SourceRedeemCode \<Longrightarrow> keeps redeem_part (wallet_call ev w)"
  by (rule keeps_wallet_call [where S = "- {SourceRedeemCode}"]) (simp_all add: blind_to_def redeem_part_def)

lemma wallet_call_keeps_redeem:
  assumes ok: "redeem_state_ok s" and op: "op_ok w" "op_source w \<noteq> SourceRedeemCode"
    and run: "wallet_tx ev w s = (res, t)"
  shows "redeem_state_ok t \<and> redeem_part (tables t) = redeem_part (tables s)"
proof -
  note parts = redeem_state_okD [OF ok]
  note W = wallet_tx_effect [OF parts(1) op(1) run]
  have inc: "auto_inc s \<le> auto_inc t" using growsD [OF grows_wallet_tx, of s ev w] run by simp
  have part: "redeem_part (tables t) = redeem_part (tables s)"
  proof (cases res)
    case (Inl e)
    with W(2) show ?thesis by simp
  next
    case (Inr x)
    with run have "Returns (wallet_tx ev w) s x t" by (simp add: Returns_def)
    then obtain u where u: "Returns (wallet_call ev w) (sent s) x u" and t: "t = sent u"
      by (auto simp: wallet_tx_def Returns_transaction)
    from keepsD [OF keeps_redeem_part [OF op(2)] u] t show ?thesis by simp
  qed
  then have same: "codes (tables t) = codes (tables s)" "batches (tables t) = batches (tables s)"
    by (simp_all add: redeem_part_def)
  have "codes_ok (ledger_books (tables t)) (tables t)"
    using parts(2) ledger_books_part [OF part] same by (simp add: codes_ok_def)
  with W(1) ids_given_later [OF parts(3) inc] same part show ?thesis by (simp add: books_ok_def)
qed

lemma redeem_call_grows: "grows (redeem_call ev op)"
proof (cases op)
  case (OpRedeemCode u code)
  have "grows (tx_attempt ev (redeem_attempt ev wallet_find wallet_credit u code) i)" for i
    unfolding tx_attempt_def by (auto intro!: grows_intros wallet_redeem.grows_redeem_attempt split: prod.split)
  then have "grows (withTransactionRetry ev (redeem_attempt ev wallet_find wallet_credit u code) None)"
    unfolding withTransactionRetry_alt by (rule grows_retry_attempts)
  with OpRedeemCode show ?thesis
    by (auto simp: redeem_call_def discard_def Redeem_def Redeem_with_def intro!: grows_intros)
next
  case (OpVoid ids now)
  have "grows (void_attempt ev l n)" for l n
    unfolding void_attempt_def by (intro grows_intros)
  with OpVoid show ?thesis
    by (auto simp: redeem_call_def discard_def VoidCodes_def intro!: grows_intros grows_plain_retry)
next
  case (OpCreateBatch batch cs)
  have "grows (findBatchByRequestDB ev u r)" for u r
    unfolding findBatchByRequestDB_def load_batch_def Let_def by (intro grows_intros)
  moreover from this have "grows (create_attempt ev batch cs)"
    unfolding create_attempt_def insert_batch_def insert_codes_def by (intro grows_intros)
  ultimately show ?thesis
    unfolding OpCreateBatch redeem_call_def discard_def CreateOrReplayBatch_def FindBatchByRequest_def
    by (auto intro!: grows_intros grows_plain_retry)
next
  case (OpWallet w)
  then show ?thesis by (auto simp: redeem_call_def intro!: grows_intros)
qed

text \<open>A failed operation leaves the tables as they were.\<close>

lemma Fails_redeem_tables:
  "Fails (Redeem ev u code) s e t \<Longrightarrow> tables t = tables s"
  "Fails (VoidCodes c ev ids now) s e t \<Longrightarrow> tables t = tables s"
proof -
  show "Fails (Redeem ev u code) s e t \<Longrightarrow> tables t = tables s"
    unfolding Redeem_def Redeem_with_def
    by (auto simp: act_simps split: if_splits dest: Fails_withTransactionRetry_tables)
  show "Fails (VoidCodes c ev ids now) s e t \<Longrightarrow> tables t = tables s"
    unfolding VoidCodes_def by (auto simp: act_simps split: if_splits dest: Fails_withTransactionRetry_tables)
qed

lemma FindBatchByRequest_reads: "keeps f (FindBatchByRequest c ev u r)"
  unfolding FindBatchByRequest_def findBatchByRequestDB_def load_batch_def Let_def by (intro keeps_intros)

lemma Fails_catch_tables:
  assumes "Fails (catch m h) s e t" and "\<And>f u. Fails m s f u \<Longrightarrow> tables u = tables s"
    and "\<And>f. keeps (\<lambda>d. d) (h f)"
  shows "tables t = tables s"
proof -
  from assms(1) obtain f u where "Fails m s f u" "Fails (h f) u e t" by (auto simp: act_simps)
  with assms(2) assms(3) [of f] show ?thesis unfolding keeps_def Fails_def by (metis snd_conv)
qed

lemma Fails_create_tables:
  assumes "Fails (CreateOrReplayBatch c ev batch cs) s e t"
  shows "tables t = tables s"
proof (cases "c \<and> validateCreateRecord batch cs = Inr ()")
  case True
  let ?tx = "withTransactionRetry ev (plain_operation (create_attempt ev batch cs)) ()"
  let ?race = "\<lambda>err. if err = errCreatorRequestRace then
            bind (FindBatchByRequest True ev (b_CreatedBy batch) (b_RequestID batch)) (\<lambda>existing.
            case existing of
              None \<Rightarrow> throw ErrIntegrityViolation
            | Some e \<Rightarrow> if \<not> sameRequestIdentity (bc_Batch e) batch then throw ErrRequestConflict
                else ret (e, True))
          else throw err"
  have "Fails (catch ?tx ?race) s e t" using assms True by (simp add: CreateOrReplayBatch_def Fails_bind Fails_pure_result Returns_pure_result)
  then show ?thesis
  proof (rule Fails_catch_tables)
    show "tables u = tables s" if "Fails ?tx s f u" for f u using that by (rule Fails_withTransactionRetry_tables)
    show "keeps (\<lambda>d. d) (?race f)" for f by (intro keeps_intros FindBatchByRequest_reads)
  qed
next
  case False
  with assms show ?thesis
    by (cases "validateCreateRecord batch cs") (auto simp: CreateOrReplayBatch_def act_simps)
qed

lemma redeem_call_fails:
  assumes "redeem_call ev op s = (Inl e, t)"
  shows "tables t = tables s"
proof -
  have "Fails (redeem_call ev op) s e t" using assms by (simp add: Fails_def)
  then show ?thesis
    by (cases op) (auto simp: redeem_call_def discard_def act_simps wallet_tx_def
      dest: Fails_redeem_tables Fails_create_tables Fails_transaction_tables)
qed

lemma redeem_call_ok:
  assumes ok: "redeem_state_ok s" and op: "redeem_op_ok op" and run: "redeem_call ev op s = (res, t)"
  shows "redeem_state_ok t"
proof (cases res)
  case (Inl e)
  have inc: "auto_inc s \<le> auto_inc t" using growsD [OF redeem_call_grows, of s ev op] run by simp
  have "tables t = tables s" using redeem_call_fails run unfolding Inl .
  then show ?thesis by (rule wallet_redeem.redeem_ok_same [OF ok _ inc])
next
  case (Inr x)
  with run have "Returns (redeem_call ev op) s x t" by (simp add: Returns_def)
  then show ?thesis
  proof (cases op)
    case (OpWallet w)
    with \<open>Returns _ s x t\<close> have "Returns (wallet_tx ev w) s x t" by (simp add: redeem_call_def Returns_map_error)
    then have "wallet_tx ev w s = (Inr x, t)" by (simp add: Returns_def)
    from wallet_call_keeps_redeem [OF ok _ _ this] OpWallet op show ?thesis by (simp add: redeem_op_ok_def)
  qed (auto simp: redeem_call_def discard_def act_simps
      dest: Redeem_outcome(1) [OF ok] wallet_redeem.VoidCodes_effect [OF ok] wallet_redeem.CreateOrReplayBatch_effect [OF ok])
qed

text \<open>What no operation undoes: rows of batches, and codes that are used.\<close>

definition code_kept :: "Code list \<Rightarrow> Code list \<Rightarrow> bool" where
  "code_kept cs cs' \<longleftrightarrow> (\<forall>c \<in> set cs. \<exists>c' \<in> set cs'. c_ID c' = c_ID c \<and> c_Code c' = c_Code c \<and> c_BatchID c' = c_BatchID c \<and>
     (c_State c \<noteq> StateUnused \<longrightarrow> c' = c))"

definition kept :: "'y redeem_tables_scheme \<Rightarrow> 'y redeem_tables_scheme \<Rightarrow> bool" where
  "kept D D' \<longleftrightarrow> set (batches D) \<subseteq> set (batches D') \<and> code_kept (codes D) (codes D')"

lemma code_kept_refl [simp]: "code_kept cs cs"
  by (auto simp: code_kept_def)

lemma code_kept_append: "code_kept cs (cs @ new)"
  by (auto simp: code_kept_def)

lemma code_kept_change:
  assumes "\<And>c. P c \<Longrightarrow> c_State c = StateUnused"
    and "\<And>c. c_ID (g c) = c_ID c \<and> c_Code (g c) = c_Code c \<and> c_BatchID (g c) = c_BatchID c"
  shows "code_kept cs (change_rows P g cs)"
  unfolding code_kept_def
proof
  fix c assume "c \<in> set cs"
  then have "(if P c then g c else c) \<in> set (change_rows P g cs)" by (auto simp: set_change_rows)
  with assms show "\<exists>c' \<in> set (change_rows P g cs). c_ID c' = c_ID c \<and> c_Code c' = c_Code c \<and> c_BatchID c' = c_BatchID c \<and>
     (c_State c \<noteq> StateUnused \<longrightarrow> c' = c)"
    by (intro bexI [of _ "if P c then g c else c"]) auto
qed

lemma code_kept_trans: "code_kept a b \<Longrightarrow> code_kept b c \<Longrightarrow> code_kept a c"
  unfolding code_kept_def by (metis (no_types, lifting))

lemma kept_trans: "kept a b \<Longrightarrow> kept b c \<Longrightarrow> kept a c"
  unfolding kept_def using code_kept_trans by blast

lemma redeem_call_kept:
  assumes ok: "redeem_state_ok s" and op: "redeem_op_ok op" and run: "redeem_call ev op s = (res, t)"
  shows "kept (tables s) (tables t)"
proof (cases res)
  case (Inl e)
  have "tables t = tables s" using redeem_call_fails run unfolding Inl .
  then show ?thesis by (simp add: kept_def)
next
  case (Inr x)
  with run have R: "Returns (redeem_call ev op) s x t" by (simp add: Returns_def)
  show ?thesis
  proof (cases op)
    case (OpRedeemCode u code)
    with R obtain r where "Returns (Redeem ev u code) s r t" by (auto simp: redeem_call_def discard_def act_simps)
    from Redeem_outcome(2) [OF ok this] show ?thesis
      by (auto simp: kept_def redeemed_def used_at_def split: if_splits intro!: code_kept_change)
  next
    case (OpVoid ids now)
    with R obtain n where "Returns (VoidCodes True ev ids now) s n t" by (auto simp: redeem_call_def discard_def act_simps)
    from wallet_redeem.VoidCodes_effect [OF ok this] show ?thesis
      by (auto simp: kept_def void_outcome_def voided_def intro!: code_kept_change)
  next
    case (OpCreateBatch batch cs)
    with R obtain r where "Returns (CreateOrReplayBatch True ev batch cs) s r t" by (auto simp: redeem_call_def discard_def act_simps)
    from wallet_redeem.CreateOrReplayBatch_effect [OF ok this] show ?thesis
      by (auto simp: kept_def batch_outcome_def batch_created_def code_kept_append split: if_splits)
  next
    case (OpWallet w)
    with R have "Returns (wallet_tx ev w) s x t" by (simp add: redeem_call_def Returns_map_error)
    then have "wallet_tx ev w s = (Inr x, t)" by (simp add: Returns_def)
    from wallet_call_keeps_redeem [OF ok _ _ this] OpWallet op show ?thesis
      by (simp add: redeem_op_ok_def redeem_part_def kept_def)
  qed
qed

lemma redeem_steps_ok:
  assumes "redeem_step\<^sup>*\<^sup>* s t" and "redeem_state_ok s"
  shows "redeem_state_ok t \<and> kept (tables s) (tables t)"
  using assms
proof (induction rule: rtranclp_induct)
  case base
  then show ?case by (simp add: kept_def)
next
  case (step t u)
  from step(2) show ?case
  proof cases
    case (step op ev res)
    from redeem_call_ok [OF _ step] redeem_call_kept [OF _ step] show ?thesis
      using \<open>redeem_state_ok s \<Longrightarrow> _\<close> \<open>redeem_state_ok s\<close> kept_trans by blast
  qed
qed

lemma redeem_reachable_ok: "redeem_reachable s \<Longrightarrow> redeem_state_ok s"
proof (induction rule: redeem_reachable.induct)
  case start
  show ?case
    by (auto simp: books_ok_def codes_ok_def ids_given_def empty_redeem_world_def ledger_books_def
        wallet_state_ok_def wallet_inv_def wallet_keys_def ids_below_def)
next
  case (more s t)
  from more(2) show ?case by cases (rule redeem_call_ok [OF more.IH])
qed

end
