(* ===== verification/RedeemReceipt.thy ===== *)
theory RedeemReceipt
  imports RedeemHistory
begin

text \<open>
  What a redemption reports: the ledger row of the credit and the wallet it went to. The interface of the wallet
  participant is extended by the rows booked for a code; a redemption that returns reports the one row of its
  code, and no later operation changes this row.
\<close>

section \<open>The rows of a code\<close>

definition code_credits :: "'x wallet_tables_scheme \<Rightarrow> int \<Rightarrow> Transaction list" where
  "code_credits D i = filter (\<lambda>t. source_of t = (SourceRedeemCode, i)) (transactions D)"

section \<open>The interface, with receipts\<close>

locale redeem_receipts = redeem_participant findCredit credit consistent booked funds
  for findCredit :: "'y redeem_tables_scheme find_credit"
    and credit :: "'y redeem_tables_scheme credit"
    and consistent :: "'y redeem_tables_scheme world \<Rightarrow> bool"
    and booked :: "'y redeem_tables_scheme \<Rightarrow> books"
    and funds :: "'y redeem_tables_scheme \<Rightarrow> int \<Rightarrow> int" +
  fixes receipts :: "'y redeem_tables_scheme \<Rightarrow> int \<Rightarrow> Transaction list"
    and stored :: "'y redeem_tables_scheme \<Rightarrow> Wallet \<Rightarrow> bool"
  assumes find_receipt: "consistent s \<Longrightarrow> Returns (findCredit ev i) s (Some (w, x)) t \<Longrightarrow>
      receipts (tables s) i = [x] \<and> stored (tables s) w"
    and credit_receipt: "consistent s \<Longrightarrow> rc_AmountUnits input \<le> max_int64 \<Longrightarrow> identity_numbered identity \<Longrightarrow>
      Returns (credit ev input identity) s (Some (w, x)) t \<Longrightarrow>
      receipts (tables t) = (receipts (tables s))(rc_CodeID input := [x])"
    and other_receipts: "receipts (batches_update g (codes_update h d)) = receipts d"
begin

text \<open>What is reported for a code: its only receipt, with the wallet of the user it went to\<close>

definition reported :: "int \<Rightarrow> int \<Rightarrow> RedemptionFact \<Rightarrow> 'y redeem_tables_scheme \<Rightarrow> 'y redeem_tables_scheme \<Rightarrow> bool" where
  "reported u i res d d' \<longleftrightarrow> (\<exists>w x. fact_Wallet res = Some w \<and> fact_Transaction res = Some x \<and> receipts d' = (receipts d)(i := [x]) \<and>
     w_ID w = t_WalletID x \<and> w_UserID w = u \<and> t_UserID x = u \<and> (fact_Replayed res \<longrightarrow> stored d w))"

lemma valid_pair:
  "validWalletRedemptionFacts (Some (w, x)) units b c u \<Longrightarrow> w_ID w = t_WalletID x \<and> w_UserID w = u \<and> t_UserID x = u"
  by (auto simp: validWalletRedemptionFacts_def split: if_splits)

lemma replay_reported:
  assumes ok: "consistent s" and run: "Returns (redeem_replay ev findCredit u c b units) s res t"
  shows "reported u (c_ID c) res (tables s) (tables t) \<and> fact_AmountCents res = b_AmountCents b"
proof -
  from run obtain found where f: "Returns (findCredit ev (c_ID c)) s found t" "validWalletRedemptionFacts found units b c u"
    "res = redemption_fact b units found True" by (auto simp: redeem_replay_def act_simps)
  then obtain w x where wx: "found = Some (w, x)" by (cases found) (auto simp: validWalletRedemptionFacts_def)
  from find_receipt [OF ok f(1) [unfolded wx]] find_reads [OF f(1)] valid_pair [OF f(2) [unfolded wx]]
  show ?thesis by (auto simp: reported_def f(3) wx redemption_fact_def same_tables_def)
qed

lemma book_reported:
  assumes ok: "consistent s" and le: "rc_AmountUnits input \<le> max_int64" and idn: "identity_numbered idn"
    and code: "rc_CodeID input = c_ID c" and run: "Returns (redeem_book ev credit u c b units input idn now) s res t"
  shows "reported u (c_ID c) res (tables s) (tables t) \<and> fact_AmountCents res = b_AmountCents b"
proof -
  from run obtain r s1 h where r: "Returns (credit ev input idn) s r s1" "validWalletRedemptionFacts r units b c u"
    "res = redemption_fact b units r False" "tables t = codes_update h (tables s1)"
    unfolding redeem_book_def by (auto simp: act_simps split: if_splits)
  then obtain w x where wx: "r = Some (w, x)" by (cases r) (auto simp: validWalletRedemptionFacts_def)
  have "tables t = batches_update (\<lambda>x. x) (codes_update h (tables s1))" by (simp add: r(4))
  then have "receipts (tables t) = receipts (tables s1)" by (simp only: other_receipts)
  with credit_receipt [OF ok le idn r(1) [unfolded wx]] valid_pair [OF r(2) [unfolded wx]] code
  show ?thesis by (auto simp: reported_def r(3) wx redemption_fact_def)
qed

lemma attempt_reported:
  assumes ok: "redeem_ok s" and idn: "identity_numbered idn"
    and run: "Returns (redeem_attempt ev findCredit credit u code idn) s (res, idn') t"
  shows "\<exists>c b. c \<in> set (codes (tables s)) \<and> c_Code c = code \<and> b \<in> set (batches (tables s)) \<and> b_ID b = c_BatchID c \<and>
    reported u (c_ID c) res (tables s) (tables t) \<and> fact_AmountCents res = b_AmountCents b"
proof -
  from run obtain c b units s1 where look: "Returns (redeem_lookup ev code) s (c, b, units) s1"
    and rest: "Returns (if c_State c = StateUsed then
       bind (map_error (\<lambda>e. (e, idn)) (redeem_replay ev findCredit u c b units)) (\<lambda>fact. ret (fact, idn))
     else if c_State c = StateVoided then throw (ErrUnavailable, idn)
     else if c_State c = StateUnused then
       (if c_UsedBy c \<noteq> None \<or> c_UsedAt c \<noteq> None then throw (ErrIntegrityViolation, idn)
        else redeem_unused ev credit u c b units idn)
     else throw (ErrIntegrityViolation, idn)) s1 (res, idn') t"
    unfolding redeem_attempt_def by (auto simp: act_simps)
  note L = redeem_lookup_effect [OF look]
  then have D: "tables s1 = tables s" "auto_inc s1 = auto_inc s" and le: "units \<le> max_int64"
    using valid_amount [of b] by (auto simp: same_tables_def)
  have "redeem_ok s1" using redeem_ok_same [OF ok D(1)] D(2) by simp
  then have ok1: "consistent s1" by (simp add: books_ok_def)
  have "reported u (c_ID c) res (tables s) (tables t) \<and> fact_AmountCents res = b_AmountCents b"
  proof (cases "c_State c = StateUsed")
    case True
    with rest have "Returns (redeem_replay ev findCredit u c b units) s1 res t" by (auto simp: act_simps)
    from replay_reported [OF ok1 this] D(1) show ?thesis by simp
  next
    case False
    let ?now = "truncate_us (ev_now ev (clock_no s1))"
    let ?i = "\<lparr>rc_UserID = u, rc_CodeID = c_ID c, rc_AmountUnits = units, rc_BatchNo = b_BatchNo b\<rparr>"
    from False rest obtain j s2 where
      j: "Returns ((case idn of None \<Rightarrow> bind (NewRedeemCodeCreditIdentity ev ?i ?now) (\<lambda>i. ret (Some i))
          | Some i \<Rightarrow> ret (Some i)) :: (redeem_error \<times> identity_state, 'y redeem_tables_scheme world, identity_state) act) (ticked s1) j s2"
      and book: "Returns (redeem_book ev credit u c b units ?i j ?now) s2 res t"
      unfolding redeem_unused_def Let_def by (auto simp: act_simps split: if_splits)
    note J = chosen_identity_effect [OF idn j]
    have D2: "tables s2 = tables s" "auto_inc s2 = auto_inc s" using J(1) D by (simp_all add: same_tables_def)
    have "redeem_ok s2" using redeem_ok_same [OF ok D2(1)] D2(2) by simp
    then have "consistent s2" by (simp add: books_ok_def)
    from book_reported [OF this _ J(2) _ book] le D2(1) show ?thesis by simp
  qed
  with L show ?thesis by blast
qed

lemma Redeem_reported:
  assumes ok: "redeem_ok s" and run: "Returns (Redeem_with c ev (Some (findCredit, credit)) u code) s res t"
  shows "\<exists>c b. c \<in> set (codes (tables s)) \<and> c_Code c = code \<and> b \<in> set (batches (tables s)) \<and> b_ID b = c_BatchID c \<and>
    reported u (c_ID c) res (tables s) (tables t) \<and> fact_AmountCents res = b_AmountCents b"
proof -
  have "Returns (withTransactionRetry ev (redeem_attempt ev findCredit credit u code) None) s res t"
    using run by (auto simp: Redeem_with_def act_simps split: if_splits)
  moreover have "identity_numbered None" by (simp add: identity_numbered_def)
  ultimately obtain i j s0 t0 where i: "identity_numbered i" and s0: "tables s0 = tables s" "auto_inc s \<le> auto_inc s0"
    and run0: "Returns (redeem_attempt ev findCredit credit u code i) s0 (res, j) t0" and t0: "same_tables t0 t"
    using withTransactionRetry_effect [of identity_numbered None ev "redeem_attempt ev findCredit credit u code" s res t]
      grows_redeem_attempt attempt_identity [of _ ev findCredit credit u code] by blast
  from attempt_reported [OF redeem_ok_same [OF ok s0] i run0] t0 s0(1) show ?thesis by (simp add: same_tables_def)
qed

end

section \<open>The wallet's receipts\<close>

lemma code_credits_one:
  assumes "distinct (map source_of (transactions d))" and "x \<in> set (transactions d)" and "source_of x = (SourceRedeemCode, i)"
  shows "code_credits d i = [x]"
  using filter_key_one [OF assms(1,2)] assms(3) by (simp add: code_credits_def)

lemma ledger_sources_distinct: "wallet_state_ok s \<Longrightarrow> distinct (map source_of (transactions (tables s)))"
  using wallet_keysD(7) [OF wallet_state_okD(1)] by (simp add: source_of_def [abs_def])

interpretation wallet_receipts: redeem_receipts wallet_find wallet_credit wallet_state_ok ledger_books user_funds
  code_credits "\<lambda>d w. w \<in> set (wallets d)"
proof unfold_locales
  fix ev i w x and s t :: "'a redeem_tables_scheme world"
  assume ok: "wallet_state_ok s" and run: "Returns (wallet_find ev i) s (Some (w, x)) t"
  from FindRedeemCodeCredit_effect(3) [OF run [unfolded wallet_find_def]]
  show "code_credits (tables s) i = [x] \<and> w \<in> set (wallets (tables s))"
    using code_credits_one [OF ledger_sources_distinct [OF ok]] by simp
next
  fix ev input identity w x and s t :: "'a redeem_tables_scheme world"
  assume ok: "wallet_state_ok s" "rc_AmountUnits input \<le> max_int64" "identity_numbered identity"
    and run: "Returns (wallet_credit ev input identity) s (Some (w, x)) t"
  then have "Returns (CreditRedeemCodeWithIdentityInTx True ev open_tx input identity) s (w, x) t"
    by (auto simp: wallet_credit_def act_simps)
  from CreditRedeemCodeWithIdentity_effect [OF ok this]
  have t: "transactions (tables t) = transactions (tables s) @ [x]" "source_of x = (SourceRedeemCode, rc_CodeID input)"
    "as_ledger (account_of (tables s)) (SourceRedeemCode, rc_CodeID input) = None" by blast+
  then have "code_credits (tables s) (rc_CodeID input) = []"
    by (force simp: code_credits_def filter_empty_conv account_of_def row_map_None)
  with t(1,2) show "code_credits (tables t) = (code_credits (tables s))(rc_CodeID input := [x])"
    by (intro ext) (auto simp: code_credits_def)
next
  fix g h and d :: "'a redeem_tables_scheme"
  show "code_credits (batches_update g (codes_update h d)) = code_credits d" by (simp add: code_credits_def [abs_def])
qed

section \<open>Receipts are kept\<close>

lemma code_credits_part:
  fixes d d' :: "'a redeem_tables_scheme"
  assumes "redeem_part d' = redeem_part d"
  shows "code_credits d' = code_credits d"
proof
  fix i
  have alt: "code_credits e i = filter (\<lambda>t. t_SourceID t = i) (filter (\<lambda>t. t_SourceType t = SourceRedeemCode) (transactions e))"
    for e :: "'a redeem_tables_scheme"
    by (simp add: code_credits_def source_of_def conj_commute)
  show "code_credits d' i = code_credits d i" using assms by (simp only: alt redeem_part_def prod.inject)
qed

lemma reported_keeps:
  assumes ok: "redeem_state_ok s" and run: "Returns (Redeem ev u code) s res t" and old: "code_credits (tables s) i = [x]"
  shows "code_credits (tables t) i = [x]"
proof -
  from Redeem_outcome(2) [OF ok run] obtain c b where "c \<in> set (codes (tables s))" "c_Code c = code"
    and red: "redeemed ledger_books user_funds ev u c b res (tables s) (tables t)" by blast
  from wallet_receipts.Redeem_reported [OF ok run [unfolded Redeem_def]] obtain c' where c': "c' \<in> set (codes (tables s))" "c_Code c' = code"
    and rep: "wallet_receipts.reported u (c_ID c') res (tables s) (tables t)" by blast
  have same: "c' = c"
    using distinct_key_eq [OF codes_okD(2) [OF redeem_state_okD(2) [OF ok]] c'(1) \<open>c \<in> _\<close>] c'(2) \<open>c_Code c = code\<close> by simp
  show ?thesis
  proof (cases "i = c_ID c \<and> \<not> fact_Replayed res")
    case True
    with red have "ledger_books (tables s) i = None" by (simp add: redeemed_def)
    with old show ?thesis
      by (force simp: code_credits_def ledger_books_def row_map_None filter_eq_Cons_iff)
  next
    case False
    with red rep same old show ?thesis by (auto simp: redeemed_def wallet_receipts.reported_def split: if_splits)
  qed
qed

lemma redeem_step_keeps:
  assumes ok: "redeem_state_ok s" and op: "redeem_op_ok op" and run: "redeem_call ev op s = (res, t)"
    and old: "code_credits (tables s) i = [x]"
  shows "code_credits (tables t) i = [x]"
proof (cases res)
  case (Inl e)
  have "tables t = tables s" using redeem_call_fails run unfolding Inl .
  with old show ?thesis by simp
next
  case (Inr y)
  with run have R: "Returns (redeem_call ev op) s y t" by (simp add: Returns_def)
  show ?thesis
  proof (cases op)
    case (OpRedeemCode u code)
    with R obtain r where "Returns (Redeem ev u code) s r t" by (auto simp: redeem_call_def discard_def act_simps)
    from reported_keeps [OF ok this old] show ?thesis .
  next
    case (OpVoid ids now)
    with R obtain n where "Returns (VoidCodes True ev ids now) s n t" by (auto simp: redeem_call_def discard_def act_simps)
    from wallet_redeem.VoidCodes_effect [OF ok this] old show ?thesis by (simp add: void_outcome_def code_credits_def)
  next
    case (OpCreateBatch batch cs)
    with R obtain r where "Returns (CreateOrReplayBatch True ev batch cs) s r t" by (auto simp: redeem_call_def discard_def act_simps)
    from wallet_redeem.CreateOrReplayBatch_effect [OF ok this] old show ?thesis
      by (auto simp: batch_outcome_def batch_created_def code_credits_def split: if_splits)
  next
    case (OpWallet w)
    with R have "Returns (wallet_tx ev w) s y t" by (simp add: redeem_call_def Returns_map_error)
    then have "wallet_tx ev w s = (Inr y, t)" by (simp add: Returns_def)
    from wallet_call_keeps_redeem [OF ok _ _ this] OpWallet op old code_credits_part [of "tables t" "tables s"] show ?thesis
      by (simp add: redeem_op_ok_def)
  qed
qed

lemma redeem_steps_keep:
  assumes "redeem_step\<^sup>*\<^sup>* s t" and "redeem_state_ok s" and "code_credits (tables s) i = [x]"
  shows "code_credits (tables t) i = [x]"
  using assms
proof (induction rule: rtranclp_induct)
  case (step t u)
  have ok: "redeem_state_ok t" using redeem_steps_ok [OF step(1,4)] by simp
  from step(2) show ?case by cases (use redeem_step_keeps [OF ok] step in blast)
qed

end
