(* ===== verification/RedeemProps.thy ===== *)
theory RedeemProps
  imports RedeemReceipt WalletProps
begin

text \<open>
  The properties of redeem codes: a code is worth its amount exactly once, to one user; what
  voiding and creating change; and that failed operations change nothing. Each witness runs the
  operations on a concrete database.
\<close>

section \<open>A concrete history\<close>

definition demo_code1 :: string where "demo_code1 = ''ZHR-9GPW-5CKS-29GP-W5BJ-R298''"
definition demo_code2 :: string where "demo_code2 = ''ZHR-9GPW-5CKS-29GP-W5BJ-R299''"

definition demo_batch :: Batch where
  "demo_batch = \<lparr>b_ID = 0, b_BatchNo = ''RB1'', b_RequestID = ''req-1'',
     b_RequestFingerprintVersion = RequestFingerprintVersion,
     b_RequestFingerprint = replicate 64 (CHR ''a''), b_AmountCents = 1000, b_Quantity = 2,
     b_ExpiresAt = None, b_Note = [], b_CreatedBy = 1, b_CreatedAt = 0, b_UpdatedAt = 0\<rparr>"

definition demo_row :: "string \<Rightarrow> Code" where
  "demo_row text = \<lparr>c_ID = 0, c_BatchID = 0, c_Code = text, c_State = StateUnused, c_UsedBy = None,
     c_UsedAt = None, c_CreatedAt = 0, c_UpdatedAt = 0\<rparr>"

definition demo_create :: "redeem_op" where
  "demo_create = OpCreateBatch demo_batch [demo_row demo_code1, demo_row demo_code2]"

definition after_op :: "redeem_op \<Rightarrow> redeem_tables world \<Rightarrow> redeem_tables world" where
  "after_op op s = snd (redeem_call demo_env op s)"

definition demo_created :: "redeem_tables world" where
  "demo_created = after_op demo_create empty_redeem_world"

definition demo_redeemed :: "redeem_tables world" where
  "demo_redeemed = after_op (OpRedeemCode 7 demo_code1) demo_created"

definition demo_voided :: "redeem_tables world" where
  "demo_voided = after_op (OpVoid [3] 63900000000000000000) demo_redeemed"

lemma after_op_step: "redeem_op_ok op \<Longrightarrow> redeem_step s (after_op op s)"
  unfolding after_op_def by (rule redeem_step.step [where ev = demo_env and res = "fst (redeem_call demo_env op s)"]) simp_all

lemma demo_reachable: "redeem_reachable demo_created" "redeem_reachable demo_redeemed" "redeem_reachable demo_voided"
proof -
  show c: "redeem_reachable demo_created" unfolding demo_created_def
    by (rule redeem_reachable.more [OF redeem_reachable.start after_op_step]) (simp add: redeem_op_ok_def demo_create_def)
  show r: "redeem_reachable demo_redeemed" unfolding demo_redeemed_def
    by (rule redeem_reachable.more [OF c after_op_step]) (simp add: redeem_op_ok_def)
  show "redeem_reachable demo_voided" unfolding demo_voided_def
    by (rule redeem_reachable.more [OF r after_op_step]) (simp add: redeem_op_ok_def)
qed

section \<open>What is booked for codes\<close>

lemma code_credits_books:
  assumes "distinct (map source_of (transactions D))"
  shows "ledger_books D i = None \<Longrightarrow> code_credits D i = []"
    "ledger_books D i = Some (u, n) \<Longrightarrow> \<exists>t. code_credits D i = [t] \<and> t_UserID t = u \<and> t_AmountUnits t = n"
proof -
  show "ledger_books D i = None \<Longrightarrow> code_credits D i = []"
    by (force simp: ledger_books_def row_map_None code_credits_def filter_empty_conv)
  assume "ledger_books D i = Some (u, n)"
  then obtain t where t: "t \<in> set (transactions D)" "source_of t = (SourceRedeemCode, i)" "t_UserID t = u" "t_AmountUnits t = n"
    by (auto simp: ledger_books_def dest!: row_map_SomeD)
  from filter_key_one [OF assms t(1)] have "filter (\<lambda>x. source_of x = source_of t) (transactions D) = [t]" by simp
  with t show "\<exists>t. code_credits D i = [t] \<and> t_UserID t = u \<and> t_AmountUnits t = n"
    by (auto simp: code_credits_def)
qed

lemma redeem_sources_distinct:
  "redeem_state_ok s \<Longrightarrow> distinct (map source_of (transactions (tables s)))"
  using wallet_keysD(7) [OF wallet_state_okD(1) [OF redeem_state_okD(1)]] by (simp add: source_of_def [abs_def])

lemma code_row:
  assumes ok: "redeem_state_ok s" and c: "c \<in> set (codes (tables s))"
  obtains b where "b \<in> set (batches (tables s))" "code_booked (ledger_books (tables s)) b c"
  using codes_okD(5) [OF redeem_state_okD(2) [OF ok] c] by (auto simp: code_ok_def list_ex_iff)

text \<open>C15. In every database that a history of redemptions, new batches, void requests and other
  wallet calls can lead to: a code is used exactly when the ledger holds one credit of it, which
  went to the user the code names and has the amount of its batch; otherwise it holds none.\<close>

theorem redeem_code_books:
  assumes "redeem_reachable s" and "c \<in> set (codes (tables s))"
  shows "\<exists>b \<in> set (batches (tables s)). b_ID b = c_BatchID c \<and>
    (if c_State c = StateUsed
     then \<exists>t. code_credits (tables s) (c_ID c) = [t] \<and> c_UsedBy c = Some (t_UserID t) \<and>
       t_AmountUnits t = b_AmountCents b * UnitsPerCent
     else code_credits (tables s) (c_ID c) = [] \<and> c_UsedBy c = None)"
proof -
  have ok: "redeem_state_ok s" using assms(1) by (rule redeem_reachable_ok)
  obtain b where b: "b \<in> set (batches (tables s))" "code_booked (ledger_books (tables s)) b c"
    using code_row [OF ok assms(2)] .
  note credits = code_credits_books [OF redeem_sources_distinct [OF ok], of "c_ID c"]
  show ?thesis
  proof (rule bexI [OF _ b(1)], cases "c_State c = StateUsed")
    case True
    with b(2) have "ledger_books (tables s) (c_ID c) = Some (the (c_UsedBy c), b_AmountCents b * UnitsPerCent)"
      "c_UsedBy c \<noteq> None" "b_ID b = c_BatchID c" by (simp_all add: code_booked_def)
    with credits(2) True show "b_ID b = c_BatchID c \<and> (if c_State c = StateUsed
       then \<exists>t. code_credits (tables s) (c_ID c) = [t] \<and> c_UsedBy c = Some (t_UserID t) \<and>
         t_AmountUnits t = b_AmountCents b * UnitsPerCent
       else code_credits (tables s) (c_ID c) = [] \<and> c_UsedBy c = None)" by fastforce
  next
    case False
    with b(2) credits(1) show "b_ID b = c_BatchID c \<and> (if c_State c = StateUsed
       then \<exists>t. code_credits (tables s) (c_ID c) = [t] \<and> c_UsedBy c = Some (t_UserID t) \<and>
         t_AmountUnits t = b_AmountCents b * UnitsPerCent
       else code_credits (tables s) (c_ID c) = [] \<and> c_UsedBy c = None)" by (simp add: code_booked_def)
  qed
qed

lemma demo_redeemed_codes:
  "map c_State (codes (tables demo_redeemed)) = [StateUsed, StateUnused]"
  "map t_AmountUnits (transactions (tables demo_redeemed)) = [1000000000]"
  by code_simp+

theorem redeem_code_books_witness:
  "c_State (hd (codes (tables demo_redeemed))) = StateUsed \<and>
   length (code_credits (tables demo_redeemed) (c_ID (hd (codes (tables demo_redeemed))))) = 1"
proof -
  have c: "hd (codes (tables demo_redeemed)) \<in> set (codes (tables demo_redeemed))"
    and used: "c_State (hd (codes (tables demo_redeemed))) = StateUsed"
    using demo_redeemed_codes(1) by (cases "codes (tables demo_redeemed)"; simp)+
  from redeem_code_books [OF demo_reachable(2) c] used show ?thesis by auto
qed

text \<open>The code of a redemption that returned stays used by its user, with its one credit.\<close>

lemma first_redemption:
  assumes ok: "redeem_state_ok s" and run: "Returns (Redeem ev u code) s res t" and kept: "kept (tables t) (tables t')"
  obtains c b w x where "c \<in> set (codes (tables t'))" "c_Code c = code" "c_State c = StateUsed" "c_UsedBy c = Some u"
    and "b \<in> set (batches (tables t'))" "b_ID b = c_BatchID c" "fact_AmountCents res = b_AmountCents b"
      "fact_AmountUnits res = b_AmountCents b * UnitsPerCent"
    and "fact_Wallet res = Some w" "fact_Transaction res = Some x" "w_ID w = t_WalletID x" "t_UserID x = u"
      "code_credits (tables t) (c_ID c) = [x]"
proof -
  from Redeem_outcome(2) [OF ok run] obtain c b where c: "c \<in> set (codes (tables s))" "c_Code c = code"
    and b: "b \<in> set (batches (tables s))" "b_ID b = c_BatchID c"
    and red: "redeemed ledger_books user_funds ev u c b res (tables s) (tables t)" by blast
  from wallet_receipts.Redeem_reported [OF ok run [unfolded Redeem_def]] obtain c' b' where
    c': "c' \<in> set (codes (tables s))" "c_Code c' = code" and b': "b' \<in> set (batches (tables s))" "b_ID b' = c_BatchID c'"
    and rep: "wallet_receipts.reported u (c_ID c') res (tables s) (tables t)" "fact_AmountCents res = b_AmountCents b'" by blast
  note rows = redeem_state_okD(2) [OF ok]
  have "c' = c" using distinct_key_eq [OF codes_okD(2) [OF rows] c'(1) c(1)] c'(2) c(2) by simp
  moreover from this have "b' = b" using distinct_key_eq [OF codes_okD(3) [OF rows] b'(1) b(1)] b'(2) b(2) by simp
  ultimately have rep: "wallet_receipts.reported u (c_ID c) res (tables s) (tables t)" "fact_AmountCents res = b_AmountCents b"
    using rep by simp_all
  obtain d where d: "d \<in> set (codes (tables t))" "c_Code d = code" "c_ID d = c_ID c" "c_BatchID d = c_BatchID c"
    "c_State d = StateUsed" "c_UsedBy d = Some u"
  proof (cases "fact_Replayed res")
    case True
    with red c that [of c] show ?thesis by (simp add: redeemed_def)
  next
    case False
    with red obtain now where "codes (tables t) = change_rows (\<lambda>d. c_ID d = c_ID c \<and> c_State d = StateUnused) (used_at u now) (codes (tables s))"
      "c_State c = StateUnused" by (auto simp: redeemed_def)
    then have "used_at u now c \<in> set (codes (tables t))" using c(1) by (auto simp: set_change_rows)
    with that c(2) show ?thesis by (simp add: used_at_def)
  qed
  have "d \<in> set (codes (tables t'))" using kept d(1,5) by (force simp: kept_def code_kept_def)
  moreover have "b \<in> set (batches (tables t'))" using b(1) red kept by (auto simp: redeemed_def kept_def split: if_splits)
  moreover obtain w x where "fact_Wallet res = Some w" "fact_Transaction res = Some x" "w_ID w = t_WalletID x" "t_UserID x = u"
      "code_credits (tables t) (c_ID c) = [x]" using rep(1) by (auto simp: wallet_receipts.reported_def)
  ultimately show thesis using that [of d b w x] d b(2) rep(2) red by (auto simp: redeemed_def)
qed

text \<open>Redeeming a used code: only its user gets an answer, a replay.\<close>

lemma replayed_redemption:
  assumes ok: "redeem_state_ok s" and run: "Returns (Redeem ev v code) s res t"
    and c: "c \<in> set (codes (tables s))" "c_Code c = code" "c_State c = StateUsed" "c_UsedBy c = Some u"
    and b: "b \<in> set (batches (tables s))" "b_ID b = c_BatchID c" and x: "code_credits (tables s) (c_ID c) = [x]" "t_UserID x = u"
  obtains w where "v = u" "tables t = tables s" "res = \<lparr>fact_AmountCents = b_AmountCents b,
      fact_AmountUnits = b_AmountCents b * UnitsPerCent, fact_Transaction = Some x, fact_Wallet = Some w, fact_Replayed = True\<rparr>"
    "w \<in> set (wallets (tables s))" "w_ID w = t_WalletID x" "w_UserID w = u"
proof -
  from Redeem_outcome(2) [OF ok run] obtain d a where d: "d \<in> set (codes (tables s))" "c_Code d = code"
    and a: "a \<in> set (batches (tables s))" "b_ID a = c_BatchID d"
    and red: "redeemed ledger_books user_funds ev v d a res (tables s) (tables t)" by blast
  from wallet_receipts.Redeem_reported [OF ok run [unfolded Redeem_def]] obtain d' a' where
    d': "d' \<in> set (codes (tables s))" "c_Code d' = code" and a': "a' \<in> set (batches (tables s))" "b_ID a' = c_BatchID d'"
    and rep: "wallet_receipts.reported v (c_ID d') res (tables s) (tables t)" "fact_AmountCents res = b_AmountCents a'" by blast
  note rows = redeem_state_okD(2) [OF ok]
  have same: "d = c" using distinct_key_eq [OF codes_okD(2) [OF rows] d(1) c(1)] d(2) c(2) by simp
  have same': "d' = c" using distinct_key_eq [OF codes_okD(2) [OF rows] d'(1) c(1)] d'(2) c(2) by simp
  have "a = b" using distinct_key_eq [OF codes_okD(3) [OF rows] a(1) b(1)] a(2) b(2) same by simp
  moreover have "a' = b" using distinct_key_eq [OF codes_okD(3) [OF rows] a'(1) b(1)] a'(2) b(2) same' by simp
  ultimately have red: "v = u" "tables t = tables s" "fact_Replayed res" "fact_AmountUnits res = b_AmountCents b * UnitsPerCent"
    and rep: "wallet_receipts.reported v (c_ID c) res (tables s) (tables t)" "fact_AmountCents res = b_AmountCents b"
    using red rep c(3,4) same same' by (auto simp: redeemed_def split: if_splits)
  from rep(1) obtain w y where y: "fact_Wallet res = Some w" "fact_Transaction res = Some y" "w_ID w = t_WalletID y" "w_UserID w = v"
      "code_credits (tables t) (c_ID c) = [y]" "w \<in> set (wallets (tables s))"
    using red(3) by (auto simp: wallet_receipts.reported_def)
  moreover have "y = x" using y(5) red(2) x(1) by simp
  ultimately show thesis using that [of w] red rep(2) by (cases res) simp
qed

text \<open>C16. Once a user has redeemed a code, whatever other operations follow: no other user can
  redeem it any more, and the same user gets the same fact again, marked as a replay: the same amounts
  and the same row of the ledger, the only one the ledger holds for the code, with the wallet as it is now, which
  is the one of the user that the row credited. The replay changes nothing.\<close>

theorem redeem_pays_once:
  assumes "redeem_reachable s" and "Returns (Redeem ev u code) s res t" and "redeem_step\<^sup>*\<^sup>* t t'"
    and "Returns (Redeem ev' v code) t' res' t''"
  shows "v = u \<and> tables t'' = tables t' \<and>
    (\<exists>c w w' x. c \<in> set (codes (tables t')) \<and> c_Code c = code \<and> code_credits (tables t') (c_ID c) = [x] \<and>
      fact_Transaction res = Some x \<and> fact_Wallet res = Some w \<and> w' \<in> set (wallets (tables t')) \<and>
      w_ID w = t_WalletID x \<and> w_ID w' = t_WalletID x \<and> w_UserID w' = u \<and>
      res' = res\<lparr>fact_Wallet := Some w', fact_Replayed := True\<rparr>)"
proof -
  have ok: "redeem_state_ok s" using assms(1) by (rule redeem_reachable_ok)
  note R = Redeem_outcome [OF ok assms(2)]
  note steps = redeem_steps_ok [OF assms(3) R(1)]
  then have ok': "redeem_state_ok t'" and kept: "kept (tables t) (tables t')" by simp_all
  note R' = Redeem_outcome(2) [OF ok' assms(4)]
  obtain c b w x where c: "c \<in> set (codes (tables t'))" "c_Code c = code" "c_State c = StateUsed" "c_UsedBy c = Some u"
    and b: "b \<in> set (batches (tables t'))" "b_ID b = c_BatchID c" "fact_AmountCents res = b_AmountCents b"
      "fact_AmountUnits res = b_AmountCents b * UnitsPerCent"
    and x: "fact_Wallet res = Some w" "fact_Transaction res = Some x" "w_ID w = t_WalletID x" "t_UserID x = u"
      "code_credits (tables t) (c_ID c) = [x]"
    using first_redemption [OF ok assms(2) kept] .
  have credits: "code_credits (tables t') (c_ID c) = [x]" using redeem_steps_keep [OF assms(3) R(1) x(5)] .
  obtain w' where res': "v = u" "tables t'' = tables t'" "res' = \<lparr>fact_AmountCents = b_AmountCents b,
      fact_AmountUnits = b_AmountCents b * UnitsPerCent, fact_Transaction = Some x, fact_Wallet = Some w', fact_Replayed = True\<rparr>"
      "w' \<in> set (wallets (tables t'))" "w_ID w' = t_WalletID x" "w_UserID w' = u"
    using replayed_redemption [OF ok' assms(4) c b(1,2) credits x(4)] .
  have "res' = res\<lparr>fact_Wallet := Some w', fact_Replayed := True\<rparr>" using b(3,4) x(2) res'(3) by (cases res) simp
  with res' c(1,2) credits x(1,2,3) show ?thesis by blast
qed

theorem redeem_pays_once_witness:
  "tables (final_state (Redeem demo_env 7 demo_code1) (final_state (Redeem demo_env 7 demo_code1) demo_created)) =
     tables (final_state (Redeem demo_env 7 demo_code1) demo_created) \<and>
   fact_Transaction (answer (Redeem demo_env 7 demo_code1) (final_state (Redeem demo_env 7 demo_code1) demo_created)) =
     fact_Transaction (answer (Redeem demo_env 7 demo_code1) demo_created) \<and>
   fact_Replayed (answer (Redeem demo_env 7 demo_code1) (final_state (Redeem demo_env 7 demo_code1) demo_created))"
proof -
  let ?m = "Redeem demo_env 7 demo_code1 :: (unit, RedemptionFact) redeem_act"
  have "succeeds ?m demo_created" "succeeds ?m (final_state ?m demo_created)" by code_simp+
  from redeem_pays_once [OF demo_reachable(1) this(1) [THEN Returns_run] rtranclp.rtrancl_refl this(2) [THEN Returns_run]]
  show ?thesis by auto
qed

section \<open>What each operation does\<close>

text \<open>C17. A redemption that returns either reports an earlier one again and changes nothing, or
  turns one unused, unexpired code into a used one of the user and raises the balance of this
  user, and of no other, by the amount of the batch.\<close>

theorem redeem_outcome:
  assumes "redeem_reachable s" and "Returns (Redeem ev u code) s res t"
  shows "\<exists>c b. c \<in> set (codes (tables s)) \<and> c_Code c = code \<and> b \<in> set (batches (tables s)) \<and> b_ID b = c_BatchID c \<and>
    fact_AmountUnits res = b_AmountCents b * UnitsPerCent \<and>
    (if fact_Replayed res then tables t = tables s \<and> c_State c = StateUsed \<and> c_UsedBy c = Some u
     else c_State c = StateUnused \<and> batches (tables t) = batches (tables s) \<and>
       user_funds (tables t) = (user_funds (tables s))(u := user_funds (tables s) u + fact_AmountUnits res) \<and>
       (\<exists>k. after (b_ExpiresAt b) (truncate_us (ev_now ev k)) \<and>
         codes (tables t) = map (\<lambda>d. if c_ID d = c_ID c \<and> c_State d = StateUnused
           then used_at u (truncate_us (ev_now ev k)) d else d) (codes (tables s))))"
proof -
  have ok: "redeem_state_ok s" using assms(1) by (rule redeem_reachable_ok)
  from Redeem_outcome(2) [OF ok assms(2)] obtain c b where
    c: "c \<in> set (codes (tables s))" "c_Code c = code" "b \<in> set (batches (tables s))" "b_ID b = c_BatchID c"
    and "redeemed ledger_books user_funds ev u c b res (tables s) (tables t)" by blast
  then show ?thesis
    by (intro exI [of _ c] exI [of _ b]) (auto simp: redeemed_def change_rows_def split: if_splits)
qed

theorem redeem_outcome_witness:
  "user_funds (tables (final_state (Redeem demo_env 7 demo_code1) demo_created)) 7 = 1000000000 \<and>
   user_funds (tables demo_created) 7 = 0"
proof -
  let ?m = "Redeem demo_env 7 demo_code1 :: (unit, RedemptionFact) redeem_act"
  have run: "succeeds ?m demo_created" by code_simp
  have "\<not> fact_Replayed (answer ?m demo_created)" "fact_AmountUnits (answer ?m demo_created) = 1000000000"
    "user_funds (tables demo_created) 7 = 0" by code_simp+
  with redeem_outcome [OF demo_reachable(1) Returns_run [OF run]] show ?thesis by auto
qed

text \<open>A voided code, a code that another user has used, and an unused code whose batch has
  expired whenever the clock is read cannot be redeemed; the attempt changes nothing.\<close>

theorem redeem_rejects:
  assumes "redeem_reachable s" and "c \<in> set (codes (tables s))" and "b \<in> set (batches (tables s))" and "b_ID b = c_BatchID c"
    and "c_State c = StateVoided \<or> c_State c = StateUsed \<and> c_UsedBy c \<noteq> Some u \<or>
      c_State c = StateUnused \<and> (\<forall>k. \<not> after (b_ExpiresAt b) (truncate_us (ev_now ev k)))"
  shows "\<exists>e. fst (Redeem ev u (c_Code c) s) = Inl e \<and> tables (snd (Redeem ev u (c_Code c) s)) = tables s"
proof (cases rule: Returns_or_Fails [of "Redeem ev u (c_Code c)" s])
  case (1 res t)
  have ok: "redeem_state_ok s" using assms(1) by (rule redeem_reachable_ok)
  note keys = redeem_state_okD(2) [OF ok]
  from Redeem_outcome(2) [OF ok 1] obtain d b' where
    d: "d \<in> set (codes (tables s))" "c_Code d = c_Code c" and b': "b' \<in> set (batches (tables s))" "b_ID b' = c_BatchID d"
    and res: "redeemed ledger_books user_funds ev u d b' res (tables s) (tables t)" by blast
  have "d = c" by (rule distinct_key_eq [OF codes_okD(2) [OF keys] d(1) assms(2) d(2)])
  moreover from this have "b' = b"
    using distinct_key_eq [OF codes_okD(3) [OF keys] b'(1) assms(3)] b'(2) assms(4) by simp
  ultimately have False using res assms(5) by (auto simp: redeemed_def split: if_splits)
  then show ?thesis ..
next
  case (2 e t)
  with Fails_redeem_tables(1) [OF 2] show ?thesis by (simp add: Fails_def)
qed

lemma demo_voided_rows:
  "map c_State (codes (tables demo_voided)) = [StateUsed, StateVoided]"
  "map b_ID (batches (tables demo_voided)) = [1]" "map c_BatchID (codes (tables demo_voided)) = [1, 1]"
  by code_simp+

theorem redeem_rejects_witness:
  "\<exists>e. fst (Redeem demo_env 7 (c_Code (codes (tables demo_voided) ! 1)) demo_voided) = Inl e"
proof -
  let ?c = "codes (tables demo_voided) ! 1" and ?b = "hd (batches (tables demo_voided))"
  have len: "length (codes (tables demo_voided)) = 2" using arg_cong [OF demo_voided_rows(1), of length] by simp
  have "?c \<in> set (codes (tables demo_voided))" using len by simp
  moreover have "c_State ?c = StateVoided" "c_BatchID ?c = 1"
    using arg_cong [OF demo_voided_rows(1), of "\<lambda>l. l ! 1"] arg_cong [OF demo_voided_rows(3), of "\<lambda>l. l ! 1"] len by simp_all
  moreover have "?b \<in> set (batches (tables demo_voided))" "b_ID ?b = 1"
    using demo_voided_rows(2) by (cases "batches (tables demo_voided)"; simp)+
  ultimately show ?thesis using redeem_rejects [OF demo_reachable(3), of ?c ?b 7 demo_env] by auto
qed

text \<open>C18. A void request that returns voids exactly the unused codes of the request and reports their
  number; every code of the request exists and none is used, and the wallets stay as they are.\<close>

theorem void_exact:
  assumes "redeem_reachable s" and "Returns (VoidCodes True ev ids now) s n t"
  shows "tables t = codes_update (map (\<lambda>c. if c_ID c \<in> set ids \<and> c_State c = StateUnused
      then c\<lparr>c_State := StateVoided, c_UpdatedAt := truncate_us now\<rparr> else c)) (tables s) \<and>
    n = length (filter (\<lambda>c. c_ID c \<in> set ids \<and> c_State c = StateUnused) (codes (tables s))) \<and>
    set ids \<subseteq> c_ID ` set (codes (tables s)) \<and>
    (\<forall>c \<in> set (codes (tables s)). c_ID c \<in> set ids \<longrightarrow> c_State c \<noteq> StateUsed)"
proof -
  have ok: "redeem_state_ok s" using assms(1) by (rule redeem_reachable_ok)
  note V = conjunct2 [OF wallet_redeem.VoidCodes_effect [OF ok assms(2)], unfolded void_outcome_def]
  have "c_State c \<noteq> StateUsed" if "c \<in> set (codes (tables s))" "c_ID c \<in> set ids" for c
  proof -
    from V that(2) obtain d where "d \<in> set (codes (tables s))" "c_ID d = c_ID c" "c_State d = StateUnused \<or> c_State d = StateVoided"
      by blast
    moreover from this have "d = c"
      using distinct_key_eq [OF codes_okD(1) [OF redeem_state_okD(2) [OF ok]]] that(1) by blast
    ultimately show ?thesis by auto
  qed
  with V show ?thesis by (force simp: voided_def change_rows_def [abs_def])
qed

theorem void_exact_witness:
  "answer (VoidCodes True demo_env [3, 3] 63900000000000000000) demo_redeemed = 1"
proof -
  let ?m = "VoidCodes True demo_env [3, 3] 63900000000000000000 :: (unit, nat) redeem_act"
  have "succeeds ?m demo_redeemed" by code_simp
  from void_exact [OF demo_reachable(2) Returns_run [OF this]]
  have "answer ?m demo_redeemed = length (filter (\<lambda>c. c_ID c \<in> {3} \<and> c_State c = StateUnused) (codes (tables demo_redeemed)))"
    by simp
  also have "\<dots> = 1" by code_simp
  finally show ?thesis by simp
qed

text \<open>C19. One request, one batch: a request that returned a batch and is sent again, whatever
  happened in between, returns the same batch as a replay and changes nothing; with another
  fingerprint it cannot return.\<close>

theorem batch_request_once:
  assumes "redeem_reachable s" and "Returns (CreateOrReplayBatch True ev batch cs) s res t" and "redeem_step\<^sup>*\<^sup>* t t'"
    and "Returns (CreateOrReplayBatch True ev' batch' cs') t' res' t''" and "request_of batch' = request_of batch"
  shows "snd res' \<and> tables t'' = tables t' \<and> bc_Batch (fst res') = bc_Batch (fst res) \<and>
    sameRequestIdentity batch' batch"
proof -
  have ok: "redeem_state_ok s" using assms(1) by (rule redeem_reachable_ok)
  note C = wallet_redeem.CreateOrReplayBatch_effect [OF ok assms(2)]
  note steps = redeem_steps_ok [OF assms(3) conjunct1 [OF C]]
  note C' = wallet_redeem.CreateOrReplayBatch_effect [OF conjunct1 [OF steps] assms(4)]
  have b: "bc_Batch (fst res) \<in> set (batches (tables t))" "request_of (bc_Batch (fst res)) = request_of batch"
    "sameRequestIdentity (bc_Batch (fst res)) batch"
    using conjunct2 [OF C] by (auto simp: batch_outcome_def batch_created_def split: if_splits)
  have bt': "bc_Batch (fst res) \<in> set (batches (tables t'))" using steps b(1) by (auto simp: kept_def)
  have replay: "snd res'"
    using conjunct2 [OF C'] bt' b(2) assms(5) by (auto simp: batch_outcome_def rev_image_eqI split: if_splits)
  with conjunct2 [OF C'] have b': "tables t'' = tables t'" "bc_Batch (fst res') \<in> set (batches (tables t'))"
    "sameRequestIdentity (bc_Batch (fst res')) batch'" "request_of (bc_Batch (fst res')) = request_of batch'"
    by (auto simp: batch_outcome_def)
  have "distinct (map request_of (batches (tables t')))" using steps by (auto dest!: redeem_state_okD(2) codes_okD(4))
  from distinct_key_eq [OF this b'(2) bt'] b'(4) b(2) assms(5) have "bc_Batch (fst res') = bc_Batch (fst res)" by simp
  with replay b' b(3) show ?thesis by (simp add: sameRequestIdentity_def)
qed

theorem batch_request_once_witness:
  "snd (answer (CreateOrReplayBatch True demo_env demo_batch [demo_row demo_code1, demo_row demo_code2])
     (final_state (CreateOrReplayBatch True demo_env demo_batch [demo_row demo_code1, demo_row demo_code2]) empty_redeem_world))"
proof -
  let ?m = "CreateOrReplayBatch True demo_env demo_batch [demo_row demo_code1, demo_row demo_code2] :: (unit, BatchWithCodes \<times> bool) redeem_act"
  have "succeeds ?m empty_redeem_world" "succeeds ?m (final_state ?m empty_redeem_world)" by code_simp+
  from batch_request_once [OF redeem_reachable.start this(1) [THEN Returns_run] rtranclp.rtrancl_refl this(2) [THEN Returns_run] refl]
  show ?thesis by blast
qed

text \<open>C20. Every operation, however it ends, keeps codes, books and wallets consistent: one that
  fails leaves all tables as they were, and one that returns keeps every batch and every code that
  is no longer unused.\<close>

theorem redeem_operations_safe:
  assumes "redeem_state_ok s" and "redeem_op_ok op" and "redeem_call ev op s = (res, t)"
  shows "redeem_state_ok t \<and> (case res of Inl e \<Rightarrow> tables t = tables s | Inr x \<Rightarrow> kept (tables s) (tables t))"
proof (cases res)
  case (Inl e)
  have "tables t = tables s" using redeem_call_fails assms(3) unfolding Inl .
  with Inl redeem_call_ok [OF assms] show ?thesis by simp
next
  case (Inr x)
  with redeem_call_ok [OF assms] redeem_call_kept [OF assms] show ?thesis by simp
qed

theorem redeem_operations_safe_witness:
  "fst (redeem_call demo_env (OpRedeemCode 8 demo_code1) demo_redeemed) = Inl ErrUnavailable \<and>
   tables (snd (redeem_call demo_env (OpRedeemCode 8 demo_code1) demo_redeemed)) = tables demo_redeemed"
proof -
  let ?r = "redeem_call demo_env (OpRedeemCode 8 demo_code1) demo_redeemed"
  have e: "fst ?r = Inl ErrUnavailable" by code_simp
  have "redeem_op_ok (OpRedeemCode 8 demo_code1)" by (simp add: redeem_op_ok_def)
  from redeem_operations_safe [OF redeem_reachable_ok [OF demo_reachable(2)] this, of demo_env "Inl ErrUnavailable" "snd ?r"] e
  show ?thesis by (metis prod.collapse sum.case(1))
qed

end
