(* ===== verification/Redis.thy ===== *)
theory Redis
  imports Store
begin

named_theorems preserves_intros \<open>actions that keep an invariant however they end\<close>

text \<open>
  The part of Redis the attempt limiter of redeem codes talks to. Redis is not part of the
  repository; what is modelled is the documented meaning of the commands its code and its Lua
  scripts use: a key holds a string and may expire at an instant (in milliseconds) of the
  server's clock, a script runs atomically at one instant. The n-th command may fail before it
  reaches the server or after it has run (\<open>re_fault\<close>); \<open>re_time n\<close> is the server's clock then.
\<close>

datatype redis_fault = RequestLost | ReplyLost

record redis_env =
  re_fault :: "nat \<Rightarrow> redis_fault option"
  re_time :: "nat \<Rightarrow> int"

type_synonym redis_data = "string \<Rightarrow> (string \<times> int option) option"

record redis =
  rd_calls :: nat
  rd_data :: redis_data

section \<open>Commands\<close>

text \<open>The value a key still has at an instant, with its expiry.\<close>

definition redis_entry :: "int \<Rightarrow> redis_data \<Rightarrow> string \<Rightarrow> (string \<times> int option) option" where
  "redis_entry now d key =
     (case d key of
        Some (v, Some e) \<Rightarrow> if e < now then None else Some (v, Some e)
      | other \<Rightarrow> other)"

definition redis_get :: "int \<Rightarrow> redis_data \<Rightarrow> string \<Rightarrow> string option" where
  "redis_get now d key = map_option fst (redis_entry now d key)"

definition redis_pttl :: "int \<Rightarrow> redis_data \<Rightarrow> string \<Rightarrow> int" where
  "redis_pttl now d key =
     (case redis_entry now d key of None \<Rightarrow> -2 | Some (v, None) \<Rightarrow> -1 | Some (v, Some e) \<Rightarrow> e - now)"

text \<open>\<open>SET key v NX PX ms\<close>: whether it was set\<close>

definition redis_set_nx :: "int \<Rightarrow> string \<Rightarrow> string \<Rightarrow> int \<Rightarrow> redis_data \<Rightarrow> bool \<times> redis_data" where
  "redis_set_nx now key v ms d =
     (if redis_entry now d key \<noteq> None then (False, d) else (True, d(key \<mapsto> (v, Some (now + ms)))))"

definition redis_del :: "int \<Rightarrow> string \<Rightarrow> redis_data \<Rightarrow> int \<times> redis_data" where
  "redis_del now key d = ((if redis_entry now d key = None then 0 else 1), d(key := None))"

definition redis_pexpire :: "int \<Rightarrow> string \<Rightarrow> int \<Rightarrow> redis_data \<Rightarrow> redis_data" where
  "redis_pexpire now key ms d =
     (case redis_entry now d key of None \<Rightarrow> d | Some (v, _) \<Rightarrow> d(key \<mapsto> (v, Some (now + ms))))"

text \<open>INCR takes canonical decimal int64 values; it keeps the expiry.\<close>

definition redis_integer :: "string \<Rightarrow> int option" where
  "redis_integer v =
     (if v \<noteq> [] \<and> list_all is_digit v \<and> (hd v \<noteq> CHR ''0'' \<or> length v = 1) \<and> int (digits_val v) \<le> max_int64
      then Some (int (digits_val v)) else None)"

definition redis_incr :: "int \<Rightarrow> string \<Rightarrow> redis_data \<Rightarrow> redis_data option" where
  "redis_incr now key d =
     (case redis_entry now d key of
        None \<Rightarrow> Some (d(key \<mapsto> (''1'', None)))
      | Some (v, e) \<Rightarrow>
          (case redis_integer v of
             None \<Rightarrow> None
           | Some n \<Rightarrow> if n = max_int64 then None else Some (d(key \<mapsto> (format_int (n + 1), e)))))"

text \<open>The reply of a command or script, and an error reply.\<close>

datatype redis_value = RInt int | RBulk string | RNil | RArray "redis_value list"

datatype redis_error = RedisNil | RedisFailed string

text \<open>One command: what it does to the data at an instant, and its reply.\<close>

definition redis_do ::
    "redis_env \<Rightarrow> (int \<Rightarrow> redis_data \<Rightarrow> (redis_error + 'a) \<times> redis_data) \<Rightarrow> (redis_error, redis, 'a) act" where
  "redis_do ev cmd s =
     (let s' = s\<lparr>rd_calls := Suc (rd_calls s)\<rparr>; (r, d) = cmd (re_time ev (rd_calls s)) (rd_data s)
      in case re_fault ev (rd_calls s) of
           None \<Rightarrow> (r, s'\<lparr>rd_data := d\<rparr>)
         | Some RequestLost \<Rightarrow> (Inl (RedisFailed ''request lost''), s')
         | Some ReplyLost \<Rightarrow> (Inl (RedisFailed ''reply lost''), s'\<lparr>rd_data := d\<rparr>))"

definition redis_now :: "redis_env \<Rightarrow> redis \<Rightarrow> int" where
  "redis_now ev s = re_time ev (rd_calls s)"

definition redis_called :: "redis \<Rightarrow> redis_data \<Rightarrow> redis" where
  "redis_called s d = s\<lparr>rd_calls := Suc (rd_calls s), rd_data := d\<rparr>"

lemma redis_called_simps [simp]:
  "rd_data (redis_called s d) = d" "rd_calls (redis_called s d) = Suc (rd_calls s)"
  by (simp_all add: redis_called_def)

lemma Returns_redis_do [act_simps]:
  "Returns (redis_do ev cmd) s a t \<longleftrightarrow>
     (\<exists>d. re_fault ev (rd_calls s) = None \<and> cmd (redis_now ev s) (rd_data s) = (Inr a, d) \<and> t = redis_called s d)"
  by (auto simp: Returns_def redis_do_def redis_now_def redis_called_def Let_def
      split: prod.splits option.splits redis_fault.splits)

lemma redis_do_state:
  "snd (redis_do ev cmd s) = redis_called s (rd_data s) \<or>
     snd (redis_do ev cmd s) = redis_called s (snd (cmd (redis_now ev s) (rd_data s)))"
  by (auto simp: redis_do_def redis_now_def redis_called_def Let_def split: prod.splits option.splits redis_fault.splits)

section \<open>Facts on keys\<close>

lemma redis_entry_None [simp]: "d key = None \<Longrightarrow> redis_entry now d key = None"
  by (simp add: redis_entry_def)

lemma redis_entry_cong: "d key = d' key \<Longrightarrow> redis_entry now d key = redis_entry now d' key"
  by (simp add: redis_entry_def)

lemma redis_entry_live: "d key = Some (v, Some e) \<Longrightarrow> now \<le> e \<Longrightarrow> redis_entry now d key = Some (v, Some e)"
  by (simp add: redis_entry_def)

lemma redis_entry_SomeD: "redis_entry now d key = Some (v, Some e) \<Longrightarrow> d key = Some (v, Some e) \<and> now \<le> e"
  by (auto simp: redis_entry_def split: option.splits prod.splits if_splits)

lemma redis_integer_canonical: "0 \<le> n \<Longrightarrow> n \<le> max_int64 \<Longrightarrow> redis_integer (format_int n) = Some n"
proof -
  assume n: "0 \<le> n" "n \<le> max_int64"
  have "hd (format_nat (nat n)) \<noteq> CHR ''0'' \<or> length (format_nat (nat n)) = 1"
  proof (cases "nat n = 0")
    case True
    then show ?thesis by (simp add: format_nat_unfold [of 0])
  qed (simp add: format_nat_hd)
  with n show ?thesis by (simp add: redis_integer_def format_int_def format_nat_digits)
qed

section \<open>Invariants\<close>

text \<open>\<open>preserves I m\<close>: however m ends, the state satisfies I again.\<close>

definition preserves :: "('s \<Rightarrow> bool) \<Rightarrow> ('e, 's, 'a) act \<Rightarrow> bool" where
  "preserves I m \<longleftrightarrow> (\<forall>s. I s \<longrightarrow> I (snd (m s)))"

lemma preservesD: "preserves I m \<Longrightarrow> I s \<Longrightarrow> I (snd (m s))"
  by (simp add: preserves_def)

lemma preserves_basic [preserves_intros]:
  "preserves I (ret a)" "preserves I (throw e)" "preserves I (pure_result r)"
  by (simp_all add: preserves_def ret_def throw_def pure_result_def)

lemma preserves_bind [preserves_intros]:
  "preserves I m \<Longrightarrow> (\<And>a. preserves I (f a)) \<Longrightarrow> preserves I (bind m f)"
  unfolding preserves_def bind_def by (auto split: prod.splits sum.splits)

lemma preserves_either [preserves_intros]:
  "preserves I m \<Longrightarrow> (\<And>e. preserves I (h e)) \<Longrightarrow> (\<And>a. preserves I (f a)) \<Longrightarrow> preserves I (either m h f)"
  unfolding preserves_def either_def by (auto split: prod.splits sum.splits)

lemma preserves_catch [preserves_intros]:
  "preserves I m \<Longrightarrow> (\<And>e. preserves I (h e)) \<Longrightarrow> preserves I (catch m h)"
  unfolding preserves_def catch_def by (auto split: prod.splits sum.splits)

lemma preserves_map_error [preserves_intros]: "preserves I m \<Longrightarrow> preserves I (map_error g m)"
  unfolding map_error_def by (intro preserves_intros)

lemma preserves_cases [preserves_intros]:
  "(c \<Longrightarrow> preserves I m) \<Longrightarrow> (\<not> c \<Longrightarrow> preserves I n) \<Longrightarrow> preserves I (if c then m else n)"
  "(x = None \<Longrightarrow> preserves I m) \<Longrightarrow> (\<And>a. x = Some a \<Longrightarrow> preserves I (k a)) \<Longrightarrow>
     preserves I (case x of None \<Rightarrow> m | Some a \<Rightarrow> k a)"
  "(\<And>e. r = Inl e \<Longrightarrow> preserves I (g e)) \<Longrightarrow> (\<And>a. r = Inr a \<Longrightarrow> preserves I (k' a)) \<Longrightarrow>
     preserves I (case r of Inl e \<Rightarrow> g e | Inr a \<Rightarrow> k' a)"
  by (simp_all split: option.split sum.split)

lemma preserves_redis_do [preserves_intros]:
  assumes "\<And>s. I s \<Longrightarrow> I (redis_called s (rd_data s))"
    and "\<And>s. I s \<Longrightarrow> I (redis_called s (snd (cmd (redis_now ev s) (rd_data s))))"
  shows "preserves I (redis_do ev cmd)"
  unfolding preserves_def using redis_do_state [of ev cmd] assms by metis

end
