(* ===== verification/RedeemLimiter.thy ===== *)
theory RedeemLimiter
  imports Redis RedeemModel
begin

text \<open>
  The attempt limiter of redemptions (\<open>internal/module/payment/redeemcode/limiter.go\<close>): a lease
  on a lock key that expires, and a counter of failures in a window, both kept in Redis by the
  Lua scripts of the file, which are translated line by line.
\<close>

section \<open>Constants, data, errors\<close>

definition redeemRedisPrefix :: string where "redeemRedisPrefix = ''admin_go:wallet:redeem:v1:''"

definition failureLimit :: int where "failureLimit = 10"

text \<open>Durations in nanoseconds.\<close>

definition failureWindow :: int where "failureWindow = 10 * 60 * 1000000000"

definition attemptLockTTL :: int where "attemptLockTTL = 15 * 1000000000"

definition milliseconds :: "int \<Rightarrow> int" where "milliseconds d = quo64 d 1000000"

record AttemptLease =
  le_Key :: string
  le_Owner :: string
  le_Platform :: string
  le_UserID :: int
  le_RetryAfter :: int

record FailureState =
  fs_Count :: int
  fs_TTL :: int
  fs_RetryAfter :: int

datatype limiter_error =
    AttemptLocked int
  | LimiterUnavailable
  | InvalidKeyParts
  | OwnerFailed
  | AcquireFailed
  | BusyTTLFailed
  | FailureStateFailed
  | InvalidFailureState
  | InvalidFailureStateValues
  | ReleaseFailed
  | LeaseLost
  | InvalidLease

section \<open>Text forms\<close>

text \<open>\<open>^[A-Za-z0-9._-]+$\<close> and \<open>^[0-9a-f]{32}$\<close>\<close>

definition keyPartPattern :: "string \<Rightarrow> bool" where
  "keyPartPattern s \<longleftrightarrow> s \<noteq> [] \<and> list_all (\<lambda>c. is_alnum c \<or> List.member ''._-'' c) s"

definition hex_digit :: "char \<Rightarrow> bool" where
  "hex_digit c \<longleftrightarrow> List.member ''0123456789abcdef'' c"

definition ownerPattern :: "string \<Rightarrow> bool" where
  "ownerPattern s \<longleftrightarrow> length s = 32 \<and> list_all hex_digit s"

text \<open>\<open>hex.EncodeToString\<close>\<close>

definition hex_text :: "int list \<Rightarrow> string" where
  "hex_text bytes = concat (map (\<lambda>b. [''0123456789abcdef'' ! nat (b div 16 mod 16), ''0123456789abcdef'' ! nat (b mod 16)]) bytes)"

definition limiter_keys :: "string \<Rightarrow> int \<Rightarrow> limiter_error + string \<times> string" where
  "limiter_keys platform userID =
     (let platform = trim_space platform
      in if \<not> keyPartPattern platform \<or> userID \<le> 0 then Inl InvalidKeyParts
         else
           let base = redeemRedisPrefix @ ''{'' @ platform @ '':'' @ format_int userID @ ''}''
           in Inr (base @ '':attempt'', base @ '':failures''))"

text \<open>\<open>math.Ceil(float64(ttl) / float64(time.Second))\<close> is exact: a ttl is a number of milliseconds
  below 2^53 nanoseconds.\<close>

definition retryAfter :: "int \<Rightarrow> int" where
  "retryAfter ttl =
     (if ttl \<le> 0 then 1
      else let seconds = (ttl + 999999999) div 1000000000 in if seconds < 1 then 1 else seconds)"

definition parseRedisDecimal :: "string \<Rightarrow> int option" where
  "parseRedisDecimal v =
     (if v = [] then None
      else if \<not> list_all is_digit v then None
      else if int (digits_val v) \<le> max_int64 then Some (int (digits_val v)) else None)"

definition redisInt64 :: "redis_value \<Rightarrow> int option" where
  "redisInt64 v = (case v of RInt n \<Rightarrow> Some n | RBulk s \<Rightarrow> parseRedisDecimal s | _ \<Rightarrow> None)"

section \<open>The Lua scripts\<close>

text \<open>\<open>string.match(current, "^%d+$")\<close>\<close>

definition lua_decimal :: "string \<Rightarrow> bool" where
  "lua_decimal v \<longleftrightarrow> v \<noteq> [] \<and> list_all is_digit v"

definition attemptReleaseScript :: "string \<Rightarrow> string \<Rightarrow> int \<Rightarrow> redis_data \<Rightarrow> (redis_error + int) \<times> redis_data" where
  "attemptReleaseScript key owner now d =
     (if redis_get now d key = Some owner
      then (let (n, d') = redis_del now key d in (Inr n, d'))
      else (Inr 0, d))"

text \<open>The end both scripts share: the time to live, renewed when it is missing or too long.\<close>

definition bounded_ttl :: "string \<Rightarrow> int \<Rightarrow> int \<Rightarrow> redis_data \<Rightarrow> int \<times> redis_data" where
  "bounded_ttl key window now d =
     (let ttl = redis_pttl now d key
      in if ttl < 0 \<or> window < ttl
         then (let d' = redis_pexpire now key window d in (redis_pttl now d' key, d'))
         else (ttl, d))"

definition bulk :: "string option \<Rightarrow> redis_value" where
  "bulk v = (case v of None \<Rightarrow> RNil | Some s \<Rightarrow> RBulk s)"

definition failureRecordScript ::
    "string \<Rightarrow> int \<Rightarrow> int \<Rightarrow> redis_data \<Rightarrow> (redis_error + redis_value list) \<times> redis_data" where
  "failureRecordScript key window now d =
     (let current = redis_get now d key
      in if current \<noteq> None \<and> \<not> lua_decimal (the current)
         then (Inl (RedisFailed ''redeem failure counter is corrupt''), d)
         else case redis_incr now key d of
           None \<Rightarrow> (Inl (RedisFailed ''value is not an integer or out of range''), d)
         | Some d1 \<Rightarrow> (let (ttl, d2) = bounded_ttl key window now d1
             in (Inr [bulk (redis_get now d2 key), RInt ttl], d2)))"

definition failureStateScript ::
    "string \<Rightarrow> int \<Rightarrow> int \<Rightarrow> redis_data \<Rightarrow> (redis_error + redis_value list) \<times> redis_data" where
  "failureStateScript key window now d =
     (case redis_get now d key of
        None \<Rightarrow> (Inr [RInt 0, RInt 0], d)
      | Some current \<Rightarrow>
          if \<not> lua_decimal current then (Inl (RedisFailed ''redeem failure counter is corrupt''), d)
          else (let (ttl, d1) = bounded_ttl key window now d in (Inr [RBulk current, RInt ttl], d1)))"

section \<open>The limiter\<close>

text \<open>\<open>configured\<close> is \<open>limiter.configured()\<close>; the owner is what \<open>io.ReadFull\<close> reads, None on an
  error.\<close>

type_synonym 'a limiter_act = "(limiter_error, redis, 'a) act"

definition acquire_cmd :: "string \<Rightarrow> string \<Rightarrow> int \<Rightarrow> redis_data \<Rightarrow> (redis_error + bool) \<times> redis_data" where
  "acquire_cmd key owner now d =
     (let (ok, d') = redis_set_nx now key owner (milliseconds attemptLockTTL) d
      in (if ok then Inr True else Inl RedisNil, d'))"

definition pttl_cmd :: "string \<Rightarrow> int \<Rightarrow> redis_data \<Rightarrow> (redis_error + int) \<times> redis_data" where
  "pttl_cmd key now d = (Inr (redis_pttl now d key), d)"

definition Acquire :: "bool \<Rightarrow> redis_env \<Rightarrow> int list option \<Rightarrow> string \<Rightarrow> int \<Rightarrow> AttemptLease limiter_act" where
  "Acquire configured ev ownerBytes platform userID =
     (if \<not> configured then throw LimiterUnavailable
      else bind (pure_result (limiter_keys platform userID)) (\<lambda>(attemptKey, _).
      case ownerBytes of
        None \<Rightarrow> throw OwnerFailed
      | Some bytes \<Rightarrow>
          let owner = hex_text bytes
          in bind (catch (redis_do ev (acquire_cmd attemptKey owner))
               (\<lambda>err. if err = RedisNil then ret False else throw AcquireFailed)) (\<lambda>acquired.
             if \<not> acquired then
               bind (map_error (\<lambda>_. BusyTTLFailed) (redis_do ev (pttl_cmd attemptKey))) (\<lambda>pttl.
               throw (AttemptLocked (retryAfter (if pttl < 0 then pttl else pttl * 1000000))))
             else ret \<lparr>le_Key = attemptKey, le_Owner = owner, le_Platform = trim_space platform, le_UserID = userID, le_RetryAfter = 0\<rparr>)))"

definition failure_state :: "redis_value list \<Rightarrow> limiter_error + FailureState" where
  "failure_state values =
     (if length values \<noteq> 2 then Inl InvalidFailureState
      else case (redisInt64 (values ! 0), redisInt64 (values ! 1)) of
        (Some count, Some ttlMillis) \<Rightarrow>
          if count < 0 \<or> max_int64 < count \<or> ttlMillis < 0 \<or> quo64 failureWindow 1000000 < ttlMillis
          then Inl InvalidFailureStateValues
          else let ttl = mul64 ttlMillis 1000000
               in Inr \<lparr>fs_Count = count, fs_TTL = ttl, fs_RetryAfter = retryAfter ttl\<rparr>
      | _ \<Rightarrow> Inl InvalidFailureStateValues)"

definition evalFailure ::
    "redis_env \<Rightarrow> (string \<Rightarrow> int \<Rightarrow> int \<Rightarrow> redis_data \<Rightarrow> (redis_error + redis_value list) \<times> redis_data) \<Rightarrow> string
       \<Rightarrow> FailureState limiter_act" where
  "evalFailure ev script key =
     bind (map_error (\<lambda>_. FailureStateFailed) (redis_do ev (script key (milliseconds failureWindow)))) (\<lambda>values.
     pure_result (failure_state values))"

definition limiter_FailureState :: "bool \<Rightarrow> redis_env \<Rightarrow> string \<Rightarrow> int \<Rightarrow> FailureState limiter_act" where
  "limiter_FailureState configured ev platform userID =
     (if \<not> configured then throw LimiterUnavailable
      else bind (pure_result (limiter_keys platform userID)) (\<lambda>(_, failureKey).
      evalFailure ev failureStateScript failureKey))"

definition RecordFailure :: "bool \<Rightarrow> redis_env \<Rightarrow> string \<Rightarrow> int \<Rightarrow> FailureState limiter_act" where
  "RecordFailure configured ev platform userID =
     (if \<not> configured then throw LimiterUnavailable
      else bind (pure_result (limiter_keys platform userID)) (\<lambda>(_, failureKey).
      evalFailure ev failureRecordScript failureKey))"

definition validateAttemptLease :: "AttemptLease \<Rightarrow> limiter_error + unit" where
  "validateAttemptLease lease =
     (case limiter_keys (le_Platform lease) (le_UserID lease) of
        Inl _ \<Rightarrow> Inl InvalidLease
      | Inr (attemptKey, _) \<Rightarrow>
          if le_Key lease \<noteq> attemptKey \<or> \<not> ownerPattern (le_Owner lease) then Inl InvalidLease else Inr ())"

definition Release :: "bool \<Rightarrow> redis_env \<Rightarrow> AttemptLease \<Rightarrow> unit limiter_act" where
  "Release configured ev lease =
     (if \<not> configured then throw LimiterUnavailable
      else bind (pure_result (validateAttemptLease lease)) (\<lambda>_.
      bind (map_error (\<lambda>_. ReleaseFailed) (redis_do ev (attemptReleaseScript (le_Key lease) (le_Owner lease)))) (\<lambda>result.
      if result \<noteq> 1 then throw LeaseLost else ret ())))"

section \<open>Keys\<close>

lemma limiter_keys_Inr:
  "limiter_keys p u = Inr (a, f) \<longleftrightarrow> keyPartPattern (trim_space p) \<and> 0 < u \<and>
     a = redeemRedisPrefix @ ''{'' @ trim_space p @ '':'' @ format_int u @ ''}:attempt'' \<and>
     f = redeemRedisPrefix @ ''{'' @ trim_space p @ '':'' @ format_int u @ ''}:failures''"
  by (auto simp: limiter_keys_def Let_def)

definition is_attempt_key :: "string \<Rightarrow> bool" where
  "is_attempt_key key \<longleftrightarrow> suffix '':attempt'' key"

definition is_failure_key :: "string \<Rightarrow> bool" where
  "is_failure_key key \<longleftrightarrow> suffix '':failures'' key"

lemma key_kinds:
  assumes "limiter_keys p u = Inr (a, f)"
  shows "is_attempt_key a" "is_failure_key f"
proof -
  from assms show "is_attempt_key a" "is_failure_key f"
    unfolding limiter_keys_Inr is_attempt_key_def is_failure_key_def
    by (auto simp: suffix_def)
qed

lemma key_kinds_differ: "is_attempt_key key \<Longrightarrow> \<not> is_failure_key key"
proof
  assume "is_attempt_key key" "is_failure_key key"
  then have "last key = CHR ''t''" "last key = CHR ''s''"
    unfolding is_attempt_key_def is_failure_key_def suffix_def by auto
  then show False by simp
qed

lemma keyPart_no_colon: "keyPartPattern s \<Longrightarrow> CHR '':'' \<notin> set s"
  by (auto simp: keyPartPattern_def list_all_iff is_alnum_def)

lemma before_colon: "CHR '':'' \<notin> set p \<Longrightarrow> takeWhile (\<lambda>c. c \<noteq> CHR '':'') (p @ CHR '':'' # x) = p"
  by (induction p) auto

lemma split_at_colon:
  "CHR '':'' \<notin> set p \<Longrightarrow> CHR '':'' \<notin> set q \<Longrightarrow> p @ CHR '':'' # x = q @ CHR '':'' # y \<Longrightarrow> p = q \<and> x = y"
  using before_colon [of p x] before_colon [of q y] by (metis append_same_eq same_append_eq list.inject)

lemma format_int_inj: "0 < m \<Longrightarrow> 0 < n \<Longrightarrow> format_int m = format_int n \<Longrightarrow> m = n"
  by (simp add: format_int_def format_nat_inj)

lemma limiter_keys_same:
  assumes "limiter_keys p u = Inr (a, f)" "limiter_keys q v = Inr (b, g)"
  shows "a = b \<longleftrightarrow> trim_space p = trim_space q \<and> u = v" "f = g \<longleftrightarrow> trim_space p = trim_space q \<and> u = v"
proof -
  from assms have k: "CHR '':'' \<notin> set (trim_space p)" "CHR '':'' \<notin> set (trim_space q)" "0 < u" "0 < v"
    by (auto simp: limiter_keys_Inr dest: keyPart_no_colon)
  have *: "trim_space p = trim_space q \<and> u = v"
    if "trim_space p @ CHR '':'' # format_int u @ r = trim_space q @ CHR '':'' # format_int v @ r" for r
    using split_at_colon [OF k(1,2) that] format_int_inj [OF k(3,4)] by auto
  from assms show "a = b \<longleftrightarrow> trim_space p = trim_space q \<and> u = v"
    using * [of "''}:attempt''"] by (auto simp: limiter_keys_Inr)
  from assms show "f = g \<longleftrightarrow> trim_space p = trim_space q \<and> u = v"
    using * [of "''}:failures''"] by (auto simp: limiter_keys_Inr)
qed

section \<open>Operations\<close>

lemma pure_result_bind: "bind (pure_result (Inr a)) f = f a" "bind (pure_result (Inl e)) f = throw e"
  by (simp_all add: bind_def pure_result_def throw_def fun_eq_iff)


datatype limiter_op =
    LAcquire "int list option" string int
  | LState string int
  | LRecord string int
  | LRelease AttemptLease

definition limiter_call :: "redis_env \<Rightarrow> limiter_op \<Rightarrow> unit limiter_act" where
  "limiter_call ev op = (case op of
     LAcquire bytes p u \<Rightarrow> bind (Acquire True ev bytes p u) (\<lambda>_. ret ())
   | LState p u \<Rightarrow> bind (limiter_FailureState True ev p u) (\<lambda>_. ret ())
   | LRecord p u \<Rightarrow> bind (RecordFailure True ev p u) (\<lambda>_. ret ())
   | LRelease lease \<Rightarrow> Release True ev lease)"

definition limiter_run :: "redis_env \<Rightarrow> limiter_op list \<Rightarrow> redis \<Rightarrow> redis" where
  "limiter_run ev ops s = foldl (\<lambda>s op. snd (limiter_call ev op s)) s ops"

text \<open>An invariant that each command keeps is kept by every operation.\<close>

lemma preserves_limiter_call:
  assumes idle: "\<And>s. I s \<Longrightarrow> I (redis_called s (rd_data s))"
    and lock: "\<And>s p u a f bytes. I s \<Longrightarrow> limiter_keys p u = Inr (a, f) \<Longrightarrow> op = LAcquire (Some bytes) p u \<Longrightarrow>
      I (redis_called s (snd (acquire_cmd a (hex_text bytes) (redis_now ev s) (rd_data s))))"
    and unlock: "\<And>s lease. I s \<Longrightarrow> op = LRelease lease \<Longrightarrow> validateAttemptLease lease = Inr () \<Longrightarrow>
      I (redis_called s (snd (attemptReleaseScript (le_Key lease) (le_Owner lease) (redis_now ev s) (rd_data s))))"
    and count: "\<And>s p u a f. I s \<Longrightarrow> limiter_keys p u = Inr (a, f) \<Longrightarrow> op = LRecord p u \<Longrightarrow>
      I (redis_called s (snd (failureRecordScript f (milliseconds failureWindow) (redis_now ev s) (rd_data s))))"
    and read: "\<And>s p u a f. I s \<Longrightarrow> limiter_keys p u = Inr (a, f) \<Longrightarrow> op = LState p u \<Longrightarrow>
      I (redis_called s (snd (failureStateScript f (milliseconds failureWindow) (redis_now ev s) (rd_data s))))"
  shows "preserves I (limiter_call ev op)"
proof (cases op)
  case (LAcquire bytes p u)
  show ?thesis
  proof (cases "\<exists>a f bs. limiter_keys p u = Inr (a, f) \<and> bytes = Some bs")
    case True
    then obtain a f bs where k: "limiter_keys p u = Inr (a, f)" and b: "bytes = Some bs" by blast
    have "preserves I (redis_do ev (pttl_cmd a))"
      by (intro preserves_redis_do idle) (simp_all add: pttl_cmd_def idle)
    moreover have "preserves I (redis_do ev (acquire_cmd a (hex_text bs)))"
      by (intro preserves_redis_do idle lock [OF _ k]) (simp_all add: LAcquire b)
    ultimately show ?thesis
      by (simp add: LAcquire limiter_call_def Acquire_def k b Let_def pure_result_bind) (intro preserves_bind preserves_catch preserves_map_error
        preserves_cases preserves_basic; assumption)
  next
    case False
    then have "snd (limiter_call ev op s) = s" for s
      by (cases "limiter_keys p u"; cases bytes)
        (auto simp: LAcquire limiter_call_def Acquire_def bind_def pure_result_def throw_def)
    then show ?thesis by (simp add: preserves_def)
  qed
next
  case (LState p u)
  then show ?thesis
    unfolding limiter_call_def limiter_FailureState_def evalFailure_def
    by (cases "limiter_keys p u") (auto intro!: preserves_intros idle read split: prod.split simp: pure_result_bind)
next
  case (LRecord p u)
  then show ?thesis
    unfolding limiter_call_def RecordFailure_def evalFailure_def
    by (cases "limiter_keys p u") (auto intro!: preserves_intros idle count split: prod.split simp: pure_result_bind)
next
  case (LRelease lease)
  then show ?thesis
    unfolding limiter_call_def Release_def
    by (cases "validateAttemptLease lease") (auto intro!: preserves_intros idle unlock simp: pure_result_bind)
qed

lemma limiter_run_preserves:
  assumes "\<And>op. op \<in> set ops \<Longrightarrow> preserves I (limiter_call ev op)" and "I s"
  shows "I (limiter_run ev ops s)"
  using assms unfolding limiter_run_def
  by (induction ops arbitrary: s) (simp_all add: preservesD)

section \<open>Every key expires\<close>

text \<open>Lock and counter keys carry an expiry within their bound, and counters are canonical numbers.\<close>

definition entry_ok :: "int \<Rightarrow> string \<Rightarrow> (string \<times> int option) option \<Rightarrow> bool" where
  "entry_ok now key x \<longleftrightarrow>
     (is_attempt_key key \<longrightarrow> (case x of Some (v, e) \<Rightarrow> (\<exists>t. e = Some t \<and> t \<le> now + 15000) | None \<Rightarrow> True)) \<and>
     (is_failure_key key \<longrightarrow> (case x of Some (v, e) \<Rightarrow> (\<exists>t n. e = Some t \<and> t \<le> now + 600000 \<and>
        0 < n \<and> n \<le> max_int64 \<and> v = format_int n) | None \<Rightarrow> True))"

definition limiter_ok :: "redis_env \<Rightarrow> redis \<Rightarrow> bool" where
  "limiter_ok ev s \<longleftrightarrow> (\<forall>key. entry_ok (redis_now ev s) key (rd_data s key))"

lemma entry_ok_later: "entry_ok now key x \<Longrightarrow> now \<le> now' \<Longrightarrow> entry_ok now' key x"
  by (force simp: entry_ok_def split: option.splits)

lemma entry_ok_None [simp]: "entry_ok now key None"
  by (simp add: entry_ok_def)

lemma entry_ok_lock: "is_attempt_key key \<Longrightarrow> t \<le> now + 15000 \<Longrightarrow> entry_ok now key (Some (v, Some t))"
  using key_kinds_differ [of key] by (simp add: entry_ok_def)

lemma entry_ok_count:
  "is_failure_key key \<Longrightarrow> t \<le> now + 600000 \<Longrightarrow> 0 < n \<Longrightarrow> n \<le> max_int64 \<Longrightarrow>
     entry_ok now key (Some (format_int n, Some t))"
  using key_kinds_differ [of key] by (auto simp: entry_ok_def)

lemma limiter_milliseconds [simp]:
  "milliseconds attemptLockTTL = 15000" "milliseconds failureWindow = 600000" "quo64 failureWindow 1000000 = 600000"
  by (simp_all add: milliseconds_def attemptLockTTL_def failureWindow_def quo64_def max_int64_def)

lemma counter_decimal: "0 \<le> n \<Longrightarrow> lua_decimal (format_int n)"
  by (simp add: lua_decimal_def format_int_def format_nat_digits)

lemma live_counter:
  assumes "entry_ok now' key (d key)" "is_failure_key key" "redis_entry now d key = Some x"
  obtains n t where "x = (format_int n, Some t)" "0 < n" "n \<le> max_int64" "now \<le> t" "t \<le> now' + 600000"
    "d key = Some (format_int n, Some t)"
proof -
  from assms(3) obtain y where y: "d key = Some y" by (cases "d key") auto
  from assms(1,2) y obtain t n where "y = (format_int n, Some t)" "t \<le> now' + 600000" "0 < n" "n \<le> max_int64"
    by (cases y) (auto simp: entry_ok_def)
  with that y assms(3) show ?thesis by (auto simp: redis_entry_def split: if_splits)
qed

text \<open>The failure count of a key at an instant.\<close>

definition failures_at :: "int \<Rightarrow> redis_data \<Rightarrow> string \<Rightarrow> int" where
  "failures_at now d key = (case redis_get now d key of None \<Rightarrow> 0 | Some v \<Rightarrow> int (digits_val v))"

lemma format_int_value: "0 \<le> n \<Longrightarrow> int (digits_val (format_int n)) = n"
  by (simp add: format_int_def)

text \<open>One failure recorded: the count goes up by one, and the key expires within the window.\<close>

lemma failureRecordScript_effect:
  assumes key: "is_failure_key key" and ok: "entry_ok now key (d key)" and small: "failures_at now d key < max_int64"
  obtains t where "failureRecordScript key 600000 now d =
      (Inr [RBulk (format_int (failures_at now d key + 1)), RInt (t - now)],
       d(key \<mapsto> (format_int (failures_at now d key + 1), Some t)))"
    "now \<le> t" "t \<le> now + 600000" "0 \<le> failures_at now d key"
    "redis_get now d key \<noteq> None \<longrightarrow> (\<exists>v. d key = Some (v, Some t))"
proof (cases "redis_entry now d key")
  case None
  let ?d = "d(key \<mapsto> (''1'', Some (now + 600000)))"
  have one: "format_int 1 = ''1''" by code_simp
  have "bounded_ttl key 600000 now (d(key \<mapsto> (''1'', None))) = (600000, ?d)"
    by (simp add: bounded_ttl_def redis_pttl_def redis_pexpire_def redis_entry_def)
  then have "failureRecordScript key 600000 now d = (Inr [RBulk (format_int 1), RInt 600000], ?d)"
    using None by (simp add: failureRecordScript_def redis_get_def redis_incr_def bulk_def one) (simp add: redis_entry_def)
  with that [of "now + 600000"] None show ?thesis by (simp add: failures_at_def redis_get_def one)
next
  case (Some x)
  obtain n t where n: "x = (format_int n, Some t)" "0 < n" "n \<le> max_int64" "now \<le> t" "t \<le> now + 600000"
    "d key = Some (format_int n, Some t)" using live_counter [OF ok key Some] by blast
  have count: "failures_at now d key = n" using Some n by (simp add: failures_at_def redis_get_def format_int_value)
  with small n have lt: "n \<noteq> max_int64" "redis_integer (format_int n) = Some n" "lua_decimal (format_int n)"
    by (auto simp: redis_integer_canonical counter_decimal)
  let ?d = "d(key \<mapsto> (format_int (n + 1), Some t))"
  have "bounded_ttl key 600000 now ?d = (t - now, ?d)"
    using n by (simp add: bounded_ttl_def redis_pttl_def redis_entry_def)
  then have "failureRecordScript key 600000 now d = (Inr [RBulk (format_int (n + 1)), RInt (t - now)], ?d)"
    using Some n lt by (simp add: failureRecordScript_def redis_get_def redis_incr_def bulk_def) (simp add: redis_entry_def)
  with that [of t] n count show ?thesis by simp
qed

text \<open>Reading the counter changes nothing.\<close>

lemma failureStateScript_effect:
  assumes key: "is_failure_key key" and ok: "entry_ok now key (d key)"
  shows "snd (failureStateScript key 600000 now d) = d"
    "\<exists>t. fst (failureStateScript key 600000 now d) = Inr (if failures_at now d key = 0 then [RInt 0, RInt 0]
       else [RBulk (format_int (failures_at now d key)), RInt (t - now)]) \<and> now \<le> t \<and> t \<le> now + 600000 \<and>
       0 \<le> failures_at now d key \<and> failures_at now d key \<le> max_int64"
proof -
  have "snd (failureStateScript key 600000 now d) = d \<and>
    (\<exists>t. fst (failureStateScript key 600000 now d) = Inr (if failures_at now d key = 0 then [RInt 0, RInt 0]
       else [RBulk (format_int (failures_at now d key)), RInt (t - now)]) \<and> now \<le> t \<and> t \<le> now + 600000 \<and>
       0 \<le> failures_at now d key \<and> failures_at now d key \<le> max_int64)"
  proof (cases "redis_entry now d key")
    case None
    then show ?thesis by (auto simp: failureStateScript_def redis_get_def failures_at_def intro!: exI [of _ now])
  next
    case (Some x)
    obtain n t where n: "x = (format_int n, Some t)" "0 < n" "n \<le> max_int64" "now \<le> t" "t \<le> now + 600000"
      using live_counter [OF ok key Some] by blast
    have "failures_at now d key = n" using Some n by (simp add: failures_at_def redis_get_def format_int_value)
    moreover have "bounded_ttl key 600000 now d = (t - now, d)"
      using n Some by (simp add: bounded_ttl_def redis_pttl_def)
    ultimately show ?thesis using Some n
      by (auto simp: failureStateScript_def redis_get_def counter_decimal intro!: exI [of _ t])
  qed
  then show "snd (failureStateScript key 600000 now d) = d"
    "\<exists>t. fst (failureStateScript key 600000 now d) = Inr (if failures_at now d key = 0 then [RInt 0, RInt 0]
       else [RBulk (format_int (failures_at now d key)), RInt (t - now)]) \<and> now \<le> t \<and> t \<le> now + 600000 \<and>
       0 \<le> failures_at now d key \<and> failures_at now d key \<le> max_int64" by blast+
qed

text \<open>A counter at the last int64 makes INCR fail and stays.\<close>

lemma failureRecordScript_full:
  assumes key: "is_failure_key key" and ok: "entry_ok now key (d key)" and full: "max_int64 \<le> failures_at now d key"
  shows "snd (failureRecordScript key 600000 now d) = d"
proof (cases "redis_entry now d key")
  case None
  with full show ?thesis by (simp add: failures_at_def redis_get_def max_int64_def)
next
  case (Some x)
  obtain n t where n: "x = (format_int n, Some t)" "0 < n" "n \<le> max_int64"
    using live_counter [OF ok key Some] by blast
  moreover have "failures_at now d key = n" using Some n by (simp add: failures_at_def redis_get_def format_int_value)
  ultimately show ?thesis using Some full
    by (simp add: failureRecordScript_def redis_get_def redis_incr_def counter_decimal redis_integer_canonical)
qed

lemma limiter_ok_called:
  assumes time: "mono (re_time ev)" and ok: "limiter_ok ev s"
    and d: "\<And>key. d key = rd_data s key \<or> entry_ok (redis_now ev s) key (d key)"
  shows "limiter_ok ev (redis_called s d)"
proof -
  have "redis_now ev s \<le> redis_now ev (redis_called s d)" using time by (simp add: redis_now_def mono_def)
  then show ?thesis unfolding limiter_ok_def
    using d ok entry_ok_later by (metis limiter_ok_def redis_called_simps(1))
qed

lemma limiter_call_ok:
  assumes time: "mono (re_time ev)"
  shows "preserves (limiter_ok ev) (limiter_call ev op)"
proof (rule preserves_limiter_call)
  fix s assume ok: "limiter_ok ev s"
  then have entries: "entry_ok (redis_now ev s) key (rd_data s key)" for key by (simp add: limiter_ok_def)
  show "limiter_ok ev (redis_called s (rd_data s))"
    by (rule limiter_ok_called [OF time ok]) simp
  fix p u a f assume k: "limiter_keys p u = Inr (a, f)"
  show "limiter_ok ev (redis_called s (snd (acquire_cmd a (hex_text bytes) (redis_now ev s) (rd_data s))))" for bytes
    by (rule limiter_ok_called [OF time ok])
      (simp add: acquire_cmd_def redis_set_nx_def entry_ok_lock [OF key_kinds(1) [OF k]])
  show "limiter_ok ev (redis_called s (snd (failureStateScript f (milliseconds failureWindow) (redis_now ev s) (rd_data s))))"
    by (rule limiter_ok_called [OF time ok]) (simp add: failureStateScript_effect(1) [where d = "rd_data s", OF key_kinds(2) [OF k] entries])
  show "limiter_ok ev (redis_called s (snd (failureRecordScript f (milliseconds failureWindow) (redis_now ev s) (rd_data s))))"
  proof (rule limiter_ok_called [OF time ok], cases "failures_at (redis_now ev s) (rd_data s) f < max_int64")
    case True
    note F = key_kinds(2) [OF k]
    obtain t where t: "failureRecordScript f 600000 (redis_now ev s) (rd_data s) =
      (Inr [RBulk (format_int (failures_at (redis_now ev s) (rd_data s) f + 1)), RInt (t - redis_now ev s)],
       (rd_data s)(f \<mapsto> (format_int (failures_at (redis_now ev s) (rd_data s) f + 1), Some t)))"
      "redis_now ev s \<le> t" "t \<le> redis_now ev s + 600000" "0 \<le> failures_at (redis_now ev s) (rd_data s) f"
      using failureRecordScript_effect [where d = "rd_data s", OF F entries True] by metis
    fix key
    show "snd (failureRecordScript f (milliseconds failureWindow) (redis_now ev s) (rd_data s)) key = rd_data s key \<or>
        entry_ok (redis_now ev s) key (snd (failureRecordScript f (milliseconds failureWindow) (redis_now ev s) (rd_data s)) key)"
      using t True by (simp add: entry_ok_count [OF F])
  next
    case False
    fix key
    from False show "snd (failureRecordScript f (milliseconds failureWindow) (redis_now ev s) (rd_data s)) key = rd_data s key \<or>
        entry_ok (redis_now ev s) key (snd (failureRecordScript f (milliseconds failureWindow) (redis_now ev s) (rd_data s)) key)"
      by (simp add: failureRecordScript_full [where d = "rd_data s", OF key_kinds(2) [OF k] entries])
  qed
next
  fix s lease assume ok: "limiter_ok ev s"
  show "limiter_ok ev (redis_called s (snd (attemptReleaseScript (le_Key lease) (le_Owner lease) (redis_now ev s) (rd_data s))))"
    by (rule limiter_ok_called [OF time ok]) (simp add: attemptReleaseScript_def redis_del_def)
qed

end
