(* ===== verification/LimiterProps.thy ===== *)
theory LimiterProps
  imports RedeemLimiter
begin

text \<open>
  The properties of the attempt limiter: keys of different users never meet, a lease is
  exclusive while it lasts, failures are counted one by one, and nothing blocks a user for longer
  than its window. The witnesses run the limiter on an empty Redis.
\<close>

definition demo_redis_env :: redis_env where
  "demo_redis_env = \<lparr>re_fault = (\<lambda>_. None), re_time = (\<lambda>n. 1000 * int n)\<rparr>"

definition empty_redis :: redis where
  "empty_redis = \<lparr>rd_calls = 0, rd_data = Map.empty\<rparr>"

lemma demo_time: "mono (re_time demo_redis_env)"
  by (simp add: demo_redis_env_def mono_def)

lemma empty_redis_ok: "limiter_ok ev empty_redis"
  by (simp add: limiter_ok_def empty_redis_def)

lemma limiter_run_ok: "mono (re_time ev) \<Longrightarrow> limiter_ok ev s \<Longrightarrow> limiter_ok ev (limiter_run ev ops s)"
  by (rule limiter_run_preserves [where I = "limiter_ok ev"]) (simp_all add: limiter_call_ok)

text \<open>The keys of two attempts are the same exactly for the same platform, up to surrounding
  space, and the same user; a lock key is never a counter key.\<close>

theorem limiter_keys_injective:
  assumes "limiter_keys p u = Inr (a, f)" and "limiter_keys q v = Inr (b, g)"
  shows "(a = b \<longleftrightarrow> trim_space p = trim_space q \<and> u = v) \<and> (f = g \<longleftrightarrow> trim_space p = trim_space q \<and> u = v) \<and> a \<noteq> g"
  using limiter_keys_same [OF assms] key_kinds(1) [OF assms(1)] key_kinds(2) [OF assms(2)] key_kinds_differ by blast

theorem limiter_keys_injective_witness:
  "projr (limiter_keys ''web'' 17) \<noteq> projr (limiter_keys ''web1'' 7)"
proof -
  have "limiter_keys ''web'' 17 = Inr (fst (projr (limiter_keys ''web'' 17)), snd (projr (limiter_keys ''web'' 17)))"
    "limiter_keys ''web1'' 7 = Inr (fst (projr (limiter_keys ''web1'' 7)), snd (projr (limiter_keys ''web1'' 7)))"
    by code_simp+
  from limiter_keys_injective [OF this] have "fst (projr (limiter_keys ''web'' 17)) \<noteq> fst (projr (limiter_keys ''web1'' 7))" by simp
  then show ?thesis by metis
qed

section \<open>Leases\<close>

text \<open>The lock of a lease that has not expired.\<close>

definition holds_lock :: "redis_env \<Rightarrow> string \<Rightarrow> string \<Rightarrow> int \<Rightarrow> redis \<Rightarrow> bool" where
  "holds_lock ev key owner e s \<longleftrightarrow> (redis_now ev s \<le> e \<longrightarrow> rd_data s key = Some (owner, Some e))"

lemma holds_lock_called:
  assumes time: "mono (re_time ev)" and s: "holds_lock ev key owner e s"
    and d: "rd_data s key = Some (owner, Some e) \<Longrightarrow> redis_now ev s \<le> e \<Longrightarrow> d key = rd_data s key"
  shows "holds_lock ev key owner e (redis_called s d)"
proof -
  have "redis_now ev s \<le> redis_now ev (redis_called s d)" using time by (simp add: redis_now_def mono_def)
  with s d show ?thesis by (auto simp: holds_lock_def)
qed

lemma pexpire_other: "key' \<noteq> key \<Longrightarrow> redis_pexpire now key' ms d key = d key"
  by (simp add: redis_pexpire_def split: option.split)

lemma counter_scripts_other:
  assumes "key \<noteq> f"
  shows "snd (failureRecordScript f w now d) key = d key" "snd (failureStateScript f w now d) key = d key"
proof -
  have b: "snd (bounded_ttl f w now d') key = d' key" for d'
    using assms pexpire_other by (simp add: bounded_ttl_def Let_def split: prod.split)
  have i: "d' key = d key" if "redis_incr now f d = Some d'" for d'
    using that assms by (auto simp: redis_incr_def split: option.splits if_splits prod.splits)
  show "snd (failureRecordScript f w now d) key = d key"
    using b i by (auto simp: failureRecordScript_def Let_def split: option.split prod.split) (metis snd_conv)+
  show "snd (failureStateScript f w now d) key = d key"
    using b [of d] by (auto simp: failureStateScript_def Let_def split: option.split prod.split)
qed

lemma others_keep_lock:
  assumes time: "mono (re_time ev)" and key: "is_attempt_key key"
    and op: "\<And>lease. op = LRelease lease \<Longrightarrow> le_Key lease = key \<Longrightarrow> le_Owner lease \<noteq> owner"
  shows "preserves (holds_lock ev key owner e) (limiter_call ev op)"
proof (rule preserves_limiter_call)
  fix s assume s: "holds_lock ev key owner e s"
  show "holds_lock ev key owner e (redis_called s (rd_data s))"
    by (rule holds_lock_called [OF time s]) simp
  show "holds_lock ev key owner e (redis_called s (snd (acquire_cmd a o' (redis_now ev s) (rd_data s))))" for a o'
    by (rule holds_lock_called [OF time s]) (auto simp: acquire_cmd_def redis_set_nx_def redis_entry_live)
  show "holds_lock ev key owner e (redis_called s (snd (attemptReleaseScript (le_Key lease) (le_Owner lease) (redis_now ev s) (rd_data s))))"
    if "op = LRelease lease" for lease
  proof (rule holds_lock_called [OF time s])
    assume live: "rd_data s key = Some (owner, Some e)" "redis_now ev s \<le> e"
    show "snd (attemptReleaseScript (le_Key lease) (le_Owner lease) (redis_now ev s) (rd_data s)) key = rd_data s key"
      using op [OF that] live
      by (auto simp: attemptReleaseScript_def redis_del_def redis_get_def redis_entry_live Let_def split: prod.split)
  qed
  fix p u a f assume k: "limiter_keys p u = Inr (a, f)"
  have f: "key \<noteq> f" using key_kinds_differ [OF key] key_kinds(2) [OF k] by auto
  show "holds_lock ev key owner e (redis_called s (snd (failureRecordScript f (milliseconds failureWindow) (redis_now ev s) (rd_data s))))"
    "holds_lock ev key owner e (redis_called s (snd (failureStateScript f (milliseconds failureWindow) (redis_now ev s) (rd_data s))))"
    using counter_scripts_other [OF f] by (auto intro!: holds_lock_called [OF time s])
qed

lemma Acquire_returns:
  assumes "Returns (Acquire True ev bytes p u) s lease t"
  shows "\<exists>a f bs. limiter_keys p u = Inr (a, f) \<and> bytes = Some bs \<and> le_Key lease = a \<and> le_Owner lease = hex_text bs \<and>
    le_Platform lease = trim_space p \<and> le_UserID lease = u \<and>
    redis_entry (redis_now ev s) (rd_data s) a = None \<and>
    t = redis_called s ((rd_data s)(a \<mapsto> (hex_text bs, Some (redis_now ev s + 15000))))"
proof -
  from assms obtain a f bs where k: "limiter_keys p u = Inr (a, f)" "bytes = Some bs"
    by (auto simp: Acquire_def act_simps split: option.splits)
  with assms obtain acquired s1 where
    c: "Returns (catch (redis_do ev (acquire_cmd a (hex_text bs))) (\<lambda>err. if err = RedisNil then ret False else throw AcquireFailed)) s acquired s1"
    and rest: "acquired" "lease = \<lparr>le_Key = a, le_Owner = hex_text bs, le_Platform = trim_space p, le_UserID = u, le_RetryAfter = 0\<rparr>" "t = s1"
    by (auto simp: Acquire_def act_simps Let_def split: if_splits)
  from c rest(1) obtain d where "acquire_cmd a (hex_text bs) (redis_now ev s) (rd_data s) = (Inr acquired, d)" "s1 = redis_called s d"
    by (auto simp: act_simps split: if_splits)
  then have "redis_entry (redis_now ev s) (rd_data s) a = None \<and> d = (rd_data s)(a \<mapsto> (hex_text bs, Some (redis_now ev s + 15000)))"
    using rest(1) by (cases "redis_entry (redis_now ev s) (rd_data s) a") (simp_all add: acquire_cmd_def redis_set_nx_def)
  with k rest \<open>s1 = _\<close> show ?thesis by auto
qed

text \<open>C23. While a lease lasts (15 seconds) nobody else gets one for the same platform and user,
  whatever other operations run in between, as long as none of them releases this lease; without
  faults the refused attempt is told to come back within 15 seconds.\<close>

theorem lease_exclusive:
  assumes "mono (re_time ev)" and "Returns (Acquire True ev bytes p u) s lease s1"
    and "\<And>l. LRelease l \<in> set ops \<Longrightarrow> le_Key l = le_Key lease \<Longrightarrow> le_Owner l \<noteq> le_Owner lease"
    and "s2 = limiter_run ev ops s1" and "redis_now ev s2 \<le> redis_now ev s + 15000" and "trim_space q = trim_space p"
  shows "\<not> succeeds (Acquire True ev (Some bytes') q u) s2 \<and>
    (re_fault ev (rd_calls s2) = None \<and> re_fault ev (Suc (rd_calls s2)) = None \<and> redis_now ev s \<le> redis_now ev s2 \<longrightarrow>
      (\<exists>n. 1 \<le> n \<and> n \<le> 15 \<and> fst (Acquire True ev (Some bytes') q u s2) = Inl (AttemptLocked n)))"
proof -
  from Acquire_returns [OF assms(2)] obtain a f bs where k: "limiter_keys p u = Inr (a, f)"
    and lease: "le_Key lease = a" "le_Owner lease = hex_text bs"
    and s1: "s1 = redis_called s ((rd_data s)(a \<mapsto> (hex_text bs, Some (redis_now ev s + 15000))))" by blast
  let ?e = "redis_now ev s + 15000"
  have kq: "limiter_keys q u = Inr (a, f)" using k assms(6) by (simp add: limiter_keys_def)
  have "holds_lock ev a (hex_text bs) ?e s2"
    unfolding assms(4)
  proof (rule limiter_run_preserves)
    show "preserves (holds_lock ev a (hex_text bs) ?e) (limiter_call ev op)" if "op \<in> set ops" for op
    proof (rule others_keep_lock [OF assms(1) key_kinds(1) [OF k]])
      show "le_Owner l \<noteq> hex_text bs" if "op = LRelease l" "le_Key l = a" for l
        using assms(3) [of l] that \<open>op \<in> set ops\<close> lease by simp
    qed
    show "holds_lock ev a (hex_text bs) ?e s1" by (simp add: holds_lock_def s1)
  qed
  then have live: "redis_entry (redis_now ev s2) (rd_data s2) a = Some (hex_text bs, Some ?e)"
    using assms(5) by (simp add: holds_lock_def redis_entry_live)
  have never: "\<not> succeeds (Acquire True ev (Some bytes') q u) s2"
  proof
    assume "succeeds (Acquire True ev (Some bytes') q u) s2"
    from Acquire_returns [OF Returns_run [OF this]] kq live show False by auto
  qed
  moreover have "\<exists>n. 1 \<le> n \<and> n \<le> 15 \<and> fst (Acquire True ev (Some bytes') q u s2) = Inl (AttemptLocked n)"
    if f: "re_fault ev (rd_calls s2) = None" "re_fault ev (Suc (rd_calls s2)) = None" and now: "redis_now ev s \<le> redis_now ev s2"
  proof -
    let ?s3 = "redis_called s2 (rd_data s2)"
    let ?t = "redis_pttl (redis_now ev ?s3) (rd_data s2) a"
    have "redis_now ev s2 \<le> redis_now ev ?s3" using assms(1) by (simp add: redis_now_def mono_def)
    then have t: "?t \<le> 15000" using now live by (auto simp: redis_pttl_def redis_entry_def split: option.splits if_splits)
    have "acquire_cmd a (hex_text bytes') (redis_now ev s2) (rd_data s2) = (Inl RedisNil, rd_data s2)"
      using live by (simp add: acquire_cmd_def redis_set_nx_def)
    then have "redis_do ev (acquire_cmd a (hex_text bytes')) s2 = (Inl RedisNil, ?s3)"
      using f(1) by (simp add: redis_do_def redis_now_def redis_called_def)
    moreover have "redis_do ev (pttl_cmd a) ?s3 = (Inr ?t, redis_called ?s3 (rd_data s2))"
      using f(2) by (simp add: redis_do_def redis_now_def redis_called_def pttl_cmd_def)
    ultimately have "fst (Acquire True ev (Some bytes') q u s2) =
        Inl (AttemptLocked (retryAfter (if ?t < 0 then ?t else ?t * 1000000)))"
      by (simp add: Acquire_def kq pure_result_bind bind_def catch_def map_error_def ret_def throw_def Let_def)
    moreover have "1 \<le> retryAfter (if ?t < 0 then ?t else ?t * 1000000)" "retryAfter (if ?t < 0 then ?t else ?t * 1000000) \<le> 15"
      using t by (auto simp: retryAfter_def Let_def)
    ultimately show ?thesis by blast
  qed
  ultimately show ?thesis by blast
qed

definition demo_acquire :: "int \<Rightarrow> AttemptLease limiter_act" where
  "demo_acquire b = Acquire True demo_redis_env (Some (replicate 16 b)) ''web'' 7"

definition demo_leased :: redis where
  "demo_leased = final_state (demo_acquire 7) empty_redis"

definition demo_later :: redis where
  "demo_later = limiter_run demo_redis_env [LRecord ''web'' 7, LAcquire (Some (replicate 16 8)) ''web'' 7] demo_leased"

theorem lease_exclusive_witness:
  "\<exists>n. 1 \<le> n \<and> n \<le> 15 \<and> fst (demo_acquire 9 demo_later) = Inl (AttemptLocked n)"
proof -
  have run: "succeeds (demo_acquire 7) empty_redis" by code_simp
  have calls: "rd_calls demo_later = 4" by code_simp
  have late: "redis_now demo_redis_env demo_later \<le> redis_now demo_redis_env empty_redis + 15000"
    "redis_now demo_redis_env empty_redis \<le> redis_now demo_redis_env demo_later"
    by (simp_all add: redis_now_def calls) (simp_all add: demo_redis_env_def empty_redis_def)
  from lease_exclusive [OF demo_time Returns_run [OF run, unfolded demo_acquire_def] _
      demo_later_def [unfolded demo_leased_def demo_acquire_def] late(1) refl, of "replicate 16 9"] late(2)
  show ?thesis by (simp add: demo_acquire_def demo_redis_env_def)
qed

text \<open>C24. Nothing sticks: whatever operations have run on an empty Redis, under whatever faults, a
  lock is gone 15 seconds and a failure counter 10 minutes after the last command.\<close>

theorem limiter_never_sticks:
  assumes "mono (re_time ev)" and "s = limiter_run ev ops empty_redis" and "limiter_keys p u = Inr (a, f)"
  shows "(redis_now ev s + 15000 < now \<longrightarrow> redis_get now (rd_data s) a = None) \<and>
    (redis_now ev s + 600000 < now \<longrightarrow> redis_get now (rd_data s) f = None)"
proof -
  have "limiter_ok ev s"
    unfolding assms(2) by (rule limiter_run_ok [OF assms(1) empty_redis_ok])
  then have "entry_ok (redis_now ev s) a (rd_data s a)" "entry_ok (redis_now ev s) f (rd_data s f)"
    by (simp_all add: limiter_ok_def)
  with key_kinds [OF assms(3)] show ?thesis
    by (auto simp: entry_ok_def redis_get_def redis_entry_def split: option.splits prod.splits)
qed

theorem limiter_never_sticks_witness:
  "redis_get 700000 (rd_data (limiter_run demo_redis_env [LRecord ''web'' 7] empty_redis)) (snd (projr (limiter_keys ''web'' 7))) = None \<and>
   redis_get 600000 (rd_data (limiter_run demo_redis_env [LRecord ''web'' 7] empty_redis)) (snd (projr (limiter_keys ''web'' 7))) \<noteq> None"
proof -
  have k: "limiter_keys ''web'' 7 = Inr (fst (projr (limiter_keys ''web'' 7)), snd (projr (limiter_keys ''web'' 7)))" by code_simp
  have "redis_now demo_redis_env (limiter_run demo_redis_env [LRecord ''web'' 7] empty_redis) + 600000 < 700000" by code_simp
  moreover have "redis_get 600000 (rd_data (limiter_run demo_redis_env [LRecord ''web'' 7] empty_redis)) (snd (projr (limiter_keys ''web'' 7))) \<noteq> None"
    by code_simp
  ultimately show ?thesis using limiter_never_sticks [OF demo_time refl k] by blast
qed

section \<open>Failures\<close>

lemma failures_at_set: "0 \<le> n \<Longrightarrow> now \<le> e \<Longrightarrow> failures_at now (d(f \<mapsto> (format_int n, Some e))) f = n"
  by (simp add: failures_at_def redis_get_def redis_entry_def format_int_value)

text \<open>A recorded failure counts: the state returned is one more than the failures that still
  counted, its time to live is within the window, and the counter read at any instant until
  then shows that number.\<close>

theorem failure_counted:
  assumes "limiter_ok ev s" and "limiter_keys p u = Inr (a, f)" and "Returns (RecordFailure True ev p u) s st t"
  shows "fs_Count st = failures_at (redis_now ev s) (rd_data s) f + 1 \<and>
    0 \<le> fs_TTL st \<and> fs_TTL st \<le> failureWindow \<and> 1 \<le> fs_RetryAfter st \<and> fs_RetryAfter st \<le> 600 \<and>
    (\<forall>now. now \<le> redis_now ev s + milliseconds (fs_TTL st) \<longrightarrow> failures_at now (rd_data t) f = fs_Count st)"
proof -
  let ?now = "redis_now ev s" and ?n = "failures_at (redis_now ev s) (rd_data s) f"
  have entry: "entry_ok ?now f (rd_data s f)" using assms(1) by (simp add: limiter_ok_def)
  note F = key_kinds(2) [OF assms(2)]
  from assms(2,3) obtain vs d where run: "failureRecordScript f 600000 ?now (rd_data s) = (Inr vs, d)"
    and st: "failure_state vs = Inr st" and t: "t = redis_called s d"
    by (auto simp: RecordFailure_def evalFailure_def act_simps)
  have small: "?n < max_int64"
  proof (rule ccontr)
    assume "\<not> ?n < max_int64"
    then have full: "max_int64 \<le> ?n" by simp
    then obtain x where x: "redis_entry ?now (rd_data s) f = Some x"
      by (cases "redis_entry ?now (rd_data s) f") (simp_all add: failures_at_def redis_get_def max_int64_def)
    obtain n e where n: "x = (format_int n, Some e)" "0 < n" "n \<le> max_int64" using live_counter [OF entry F x] by blast
    moreover from this have "?n = n" using x by (simp add: failures_at_def redis_get_def format_int_value)
    ultimately show False using run x full
      by (simp add: failureRecordScript_def redis_get_def redis_incr_def counter_decimal redis_integer_canonical)
  qed
  obtain e where e: "failureRecordScript f 600000 ?now (rd_data s) = (Inr [RBulk (format_int (?n + 1)), RInt (e - ?now)],
      (rd_data s)(f \<mapsto> (format_int (?n + 1), Some e)))" "?now \<le> e" "e \<le> ?now + 600000" "0 \<le> ?n"
    using failureRecordScript_effect [where d = "rd_data s", OF F entry small] by metis
  have parsed: "parseRedisDecimal (format_int (?n + 1)) = Some (?n + 1)"
    using e(4) small by (simp add: parseRedisDecimal_def format_int_def format_nat_digits)
  have ttl: "mul64 (e - ?now) 1000000 = (e - ?now) * 1000000"
    using e(2,3) by (intro mul64_id) (simp add: max_int64_def)
  have state: "fs_Count st = ?n + 1 \<and> fs_TTL st = (e - ?now) * 1000000 \<and> fs_RetryAfter st = retryAfter (fs_TTL st)"
    using st run e(1) parsed e(2-4) small unfolding failure_state_def
    by (auto simp: redisInt64_def ttl Let_def split: if_splits)
  have "milliseconds (fs_TTL st) = e - ?now"
    using state e(2,3) by (simp add: milliseconds_def quo64_nonneg max_int64_def)
  moreover have "failures_at now (rd_data t) f = ?n + 1" if "now \<le> e" for now
  proof -
    have "d = (rd_data s)(f \<mapsto> (format_int (?n + 1), Some e))" using run e(1) by simp
    then show ?thesis using that e(4) by (simp add: t failures_at_set)
  qed
  moreover have "1 \<le> fs_RetryAfter st" "fs_RetryAfter st \<le> 600" "fs_TTL st \<le> failureWindow"
    using state e(2,3) by (auto simp: retryAfter_def Let_def failureWindow_def)
  ultimately show ?thesis using state e(2) by simp
qed

theorem failure_counted_witness:
  "fs_Count (answer (RecordFailure True demo_redis_env ''web'' 7) (limiter_run demo_redis_env [LRecord ''web'' 7] empty_redis)) = 2"
proof -
  let ?s = "limiter_run demo_redis_env [LRecord ''web'' 7] empty_redis"
  have ok: "limiter_ok demo_redis_env ?s"
    by (rule limiter_run_ok [OF demo_time empty_redis_ok])
  have k: "limiter_keys ''web'' 7 = Inr (fst (projr (limiter_keys ''web'' 7)), snd (projr (limiter_keys ''web'' 7)))" by code_simp
  have run: "succeeds (RecordFailure True demo_redis_env ''web'' 7) ?s" by code_simp
  have "failures_at (redis_now demo_redis_env ?s) (rd_data ?s) (snd (projr (limiter_keys ''web'' 7))) = 1" by code_simp
  with failure_counted [OF ok k Returns_run [OF run]] show ?thesis by simp
qed

end
