(* ===== verification/TimeText.thy ===== *)
theory TimeText
  imports Money
begin

text \<open>
  What the code uses of package time to show instants: the civil date of an instant in UTC (Go's
  proleptic Gregorian calendar from year 1 on) and the layouts
  \<open>2006-01-02T15:04:05.000000Z07:00\<close> and \<open>20060102\<close>.
\<close>

section \<open>The calendar\<close>

definition year_days :: "int \<Rightarrow> int" where
  "year_days y = (if (y mod 4 = 0 \<and> y mod 100 \<noteq> 0) \<or> y mod 400 = 0 then 366 else 365)"

definition month_days :: "int \<Rightarrow> int list" where
  "month_days y = [31, year_days y - 337, 31, 30, 31, 30, 31, 31, 30, 31, 30, 31]"

lemma year_days_bounds: "365 \<le> year_days y" "year_days y \<le> 366"
  by (simp_all add: year_days_def)

text \<open>The year of the d-th day from the first day of year y on, and the day in it; the same for
  months.\<close>

function year_of :: "int \<Rightarrow> int \<Rightarrow> int \<times> int" where
  "year_of y d = (if d < year_days y then (y, d) else year_of (y + 1) (d - year_days y))"
  by pat_completeness auto
termination
proof (relation "measure (\<lambda>(y, d). nat d)")
  fix y d :: int assume "\<not> d < year_days y"
  then show "((y + 1, d - year_days y), y, d) \<in> measure (\<lambda>(y, d). nat d)"
    using year_days_bounds(1) [of y] by simp
qed simp

declare year_of.simps [simp del]

fun month_of :: "int \<Rightarrow> int list \<Rightarrow> int \<Rightarrow> int \<times> int" where
  "month_of m [] d = (m, d)"
| "month_of m (l # ls) d = (if d < l then (m, d) else month_of (m + 1) ls (d - l))"

text \<open>Day 0 is January 1 of year 1; 400 years have 146097 days.\<close>

definition civil_date :: "int \<Rightarrow> int \<times> int \<times> int" where
  "civil_date days =
     (let (y, r) = year_of (1 + 400 * (days div 146097)) (days mod 146097);
          (m, d) = month_of 1 (month_days y) r
      in (y, m, d + 1))"

definition day_of :: "gotime \<Rightarrow> int" where "day_of t = t div 86400000000000"

definition second_of_day :: "gotime \<Rightarrow> int" where "second_of_day t = t div 1000000000 mod 86400"

definition pad :: "nat \<Rightarrow> int \<Rightarrow> string" where "pad k n = pad_zeros k (format_int n)"

definition date_text :: "gotime \<Rightarrow> string" where
  "date_text t = (let (y, m, d) = civil_date (day_of t) in pad 4 y @ ''-'' @ pad 2 m @ ''-'' @ pad 2 d)"

definition date_digits :: "gotime \<Rightarrow> string" where
  "date_digits t = (let (y, m, d) = civil_date (day_of t) in pad 4 y @ pad 2 m @ pad 2 d)"

definition format_utc :: "gotime \<Rightarrow> string" where
  "format_utc t = (let s = second_of_day t in
     date_text t @ ''T'' @ pad 2 (s div 3600) @ '':'' @ pad 2 (s div 60 mod 60) @ '':'' @ pad 2 (s mod 60) @
     ''.'' @ pad 6 (nanosecond t div 1000) @ ''Z'')"

section \<open>The calendar counts days\<close>

definition days_before_year :: "int \<Rightarrow> int" where
  "days_before_year y = 365 * (y - 1) + (y - 1) div 4 - (y - 1) div 100 + (y - 1) div 400"

lemma div_succ: "0 < k \<Longrightarrow> y div k - (y - 1) div k = (if y mod k = 0 then 1 else 0)" for y k :: int
proof (cases "y mod k = 0")
  case True
  assume k: "0 < k"
  from True have "k dvd y" by (simp add: dvd_eq_mod_eq_0)
  then obtain z where "y = k * z" by (elim dvdE)
  with k have "(y - 1) div k = z - 1"
    by (intro int_div_pos_eq [where r = "k - 1"]) (simp_all add: algebra_simps)
  with k True \<open>y = k * z\<close> show ?thesis by simp
next
  case False
  assume k: "0 < k"
  have "(y - 1) div k = y div k"
  proof (rule int_div_pos_eq [where r = "y mod k - 1"])
    show "y - 1 = k * (y div k) + (y mod k - 1)" by simp
    show "0 \<le> y mod k - 1" using False k pos_mod_sign [of k y] by linarith
    show "y mod k - 1 < k" using k pos_mod_bound [of k y] by linarith
  qed
  with False show ?thesis by simp
qed

lemma mod_400_100: "y mod 400 = 0 \<Longrightarrow> y mod 100 = 0 \<and> y mod 4 = 0" for y :: int
  by presburger

lemma mod_100_4: "y mod 100 = 0 \<Longrightarrow> y mod 4 = 0" for y :: int
  by presburger

lemma days_before_next: "days_before_year (y + 1) = days_before_year y + year_days y"
proof -
  obtain a b c where abc: "a = (y - 1) div 4" "b = (y - 1) div 100" "c = (y - 1) div 400" by simp
  obtain p q r where pqr: "p = y div 4" "q = y div 100" "r = y div 400" by simp
  have "p - a = (if y mod 4 = 0 then 1 else 0)" "q - b = (if y mod 100 = 0 then 1 else 0)" "r - c = (if y mod 400 = 0 then 1 else 0)"
    unfolding abc pqr by (rule div_succ, simp)+
  moreover have "y + 1 - 1 = y" by simp
  ultimately show ?thesis
    using mod_400_100 [of y] mod_100_4 [of y]
    unfolding days_before_year_def year_days_def \<open>y + 1 - 1 = y\<close> abc [symmetric] pqr [symmetric]
    by (cases "y mod 4 = 0"; cases "y mod 100 = 0"; cases "y mod 400 = 0") simp_all
qed

lemma days_before_cycle: "days_before_year (1 + 400 * q) = 146097 * q"
  by (simp add: days_before_year_def)

lemma year_of_days:
  "year_of y d = (y', d') \<Longrightarrow> 0 \<le> d \<Longrightarrow>
     days_before_year y + d = days_before_year y' + d' \<and> 0 \<le> d' \<and> d' < year_days y' \<and> y \<le> y'"
proof (induction y d rule: year_of.induct)
  case (1 y d)
  show ?case
  proof (cases "d < year_days y")
    case True
    with 1 show ?thesis by (simp add: year_of.simps [of y d])
  next
    case False
    have "year_of (y + 1) (d - year_days y) = (y', d')" using 1(2) False by (simp add: year_of.simps [of y d])
    moreover have "0 \<le> d - year_days y" using False by simp
    ultimately have "days_before_year (y + 1) + (d - year_days y) = days_before_year y' + d' \<and> 0 \<le> d' \<and> d' < year_days y' \<and> y + 1 \<le> y'"
      by (rule 1(1) [OF False])
    then show ?thesis unfolding days_before_next by linarith
  qed
qed

lemma month_of_days:
  "month_of m ls d = (m', d') \<Longrightarrow> 0 \<le> d \<Longrightarrow> d < sum_list ls \<Longrightarrow>
     d = sum_list (take (nat (m' - m)) ls) + d' \<and> 0 \<le> d' \<and> m \<le> m' \<and> nat (m' - m) < length ls \<and> d' < ls ! nat (m' - m)"
proof (induction m ls d rule: month_of.induct)
  case (2 m l ls d)
  show ?case
  proof (cases "d < l")
    case True
    with 2 show ?thesis by auto
  next
    case False
    with 2 have IH: "d - l = sum_list (take (nat (m' - (m + 1))) ls) + d' \<and> 0 \<le> d' \<and> m + 1 \<le> m' \<and>
      nat (m' - (m + 1)) < length ls \<and> d' < ls ! nat (m' - (m + 1))" by simp
    then have "nat (m' - m) = Suc (nat (m' - (m + 1)))" by linarith
    with IH show ?thesis by simp
  qed
qed simp

definition day_number :: "int \<times> int \<times> int \<Rightarrow> int" where
  "day_number date = (case date of (y, m, d) \<Rightarrow>
     days_before_year y + sum_list (take (nat (m - 1)) (month_days y)) + d - 1)"

lemma sum_month_days: "sum_list (month_days y) = year_days y"
  by (simp add: month_days_def)

lemma civil_date_number:
  assumes "civil_date days = (y, m, d)"
  shows "day_number (y, m, d) = days" "1 \<le> m" "m \<le> 12" "1 \<le> d" "d \<le> 31" "1 + 400 * (days div 146097) \<le> y"
    "d \<le> month_days y ! nat (m - 1)"
proof -
  obtain y' r where y: "year_of (1 + 400 * (days div 146097)) (days mod 146097) = (y', r)" by fastforce
  obtain m' k where m: "month_of 1 (month_days y') r = (m', k)" by fastforce
  from assms y m have date: "y = y'" "m = m'" "d = k + 1" by (simp_all add: civil_date_def)
  note Y = year_of_days [OF y, unfolded days_before_cycle]
  note M = month_of_days [OF m]
  have r: "0 \<le> r" "r < sum_list (month_days y')" using Y by (simp_all add: sum_month_days)
  note M = M [OF r]
  have "146097 * (days div 146097) + days mod 146097 = days" by simp
  with Y M date show "day_number (y, m, d) = days" by (simp add: day_number_def)
  show "1 \<le> m" "1 \<le> d" "1 + 400 * (days div 146097) \<le> y" using Y M date by auto
  have len: "length (month_days y') = 12" by (simp add: month_days_def)
  then show "m \<le> 12" using M date by linarith
  have "\<forall>x \<in> set (month_days y'). x \<le> 31" using year_days_bounds [of y'] by (simp add: month_days_def)
  with M len have "month_days y' ! nat (m' - 1) \<le> 31" by (simp add: nth_mem)
  with M date show "d \<le> 31" by linarith
  show "d \<le> month_days y ! nat (m - 1)" using M date by simp
qed

lemma civil_date_inj: "civil_date a = civil_date b \<Longrightarrow> a = b"
  by (metis civil_date_number(1) prod_cases3)

section \<open>The text determines the instant\<close>

lemma pad_digits: "0 \<le> n \<Longrightarrow> list_all is_digit (pad k n)"
  by (simp add: pad_def pad_zeros_def format_int_def format_nat_digits)

lemma digits_val_pad: "0 \<le> n \<Longrightarrow> digits_val (pad k n) = nat n"
  by (simp add: pad_def pad_zeros_def format_int_def digits_val_append)

lemma pad_inj: "0 \<le> m \<Longrightarrow> 0 \<le> n \<Longrightarrow> pad k m = pad k n \<Longrightarrow> m = n"
  by (metis digits_val_pad nat_eq_iff2 nat_0_le)

lemma length_pad: "0 \<le> n \<Longrightarrow> n < 10 ^ k \<Longrightarrow> 0 < k \<Longrightarrow> length (pad k n) = k"
proof -
  assume n: "0 \<le> n" "n < 10 ^ k" "0 < k"
  then have "length (format_nat (nat n)) \<le> k" by (simp add: format_nat_length nat_less_iff)
  with n show ?thesis by (simp add: pad_def pad_zeros_def format_int_def)
qed

lemma before_mark: "c \<notin> set p \<Longrightarrow> takeWhile (\<lambda>x. x \<noteq> c) (p @ c # x) = p"
  by (induction p) auto

lemma split_at_mark: "c \<notin> set p \<Longrightarrow> c \<notin> set q \<Longrightarrow> p @ c # x = q @ c # y \<Longrightarrow> p = q \<and> x = y"
  using before_mark [of c p x] before_mark [of c q y] by (metis same_append_eq list.inject)

lemma pad_append_inj:
  assumes "0 \<le> m" "m < 10 ^ k" "0 \<le> n" "n < 10 ^ k" "0 < k" "pad k m @ x = pad k n @ y"
  shows "m = n \<and> x = y"
proof -
  have "length (pad k m) = length (pad k n)" using assms by (simp add: length_pad)
  with assms(6) have "pad k m = pad k n \<and> x = y" by (simp add: append_eq_append_conv)
  with pad_inj [OF assms(1,3)] show ?thesis by blast
qed

lemma no_mark: "0 \<le> n \<Longrightarrow> CHR ''-'' \<notin> set (pad k n)"
  using pad_digits [of n k] by (auto simp: list_all_iff is_digit_def)

lemma format_utc_inj:
  assumes "0 \<le> t" "0 \<le> u" "format_utc t = format_utc u"
  shows "truncate_us t = truncate_us u"
proof -
  obtain y m d where D: "civil_date (day_of t) = (y, m, d)" by (metis prod_cases3)
  obtain y' m' d' where D': "civil_date (day_of u) = (y', m', d')" by (metis prod_cases3)
  have "0 \<le> day_of t" "0 \<le> day_of u" using assms by (simp_all add: day_of_def)
  then have "0 \<le> day_of t div 146097" "0 \<le> day_of u div 146097" by (simp_all add: pos_imp_zdiv_nonneg_iff)
  then have y: "0 \<le> y" "0 \<le> y'"
    using civil_date_number(6) [OF D] civil_date_number(6) [OF D'] by linarith+
  note B = civil_date_number(2-5) [OF D] and B' = civil_date_number(2-5) [OF D']
  let ?s = "second_of_day t" and ?s' = "second_of_day u"
  have s: "0 \<le> ?s" "?s < 86400" "0 \<le> ?s'" "?s' < 86400" by (simp_all add: second_of_day_def)
  let ?n = "nanosecond t div 1000" and ?n' = "nanosecond u div 1000"
  have n: "0 \<le> ?n" "?n < 10 ^ 6" "0 \<le> ?n'" "?n' < 10 ^ 6" by (simp_all add: nanosecond_def)
  have hms: "0 \<le> ?s div 3600" "?s div 3600 < 10 ^ 2" "0 \<le> ?s' div 3600" "?s' div 3600 < 10 ^ 2"
    "0 \<le> ?s div 60 mod 60" "?s div 60 mod 60 < 10 ^ 2" "0 \<le> ?s' div 60 mod 60" "?s' div 60 mod 60 < 10 ^ 2"
    "0 \<le> ?s mod 60" "?s mod 60 < 10 ^ 2" "0 \<le> ?s' mod 60" "?s' mod 60 < 10 ^ 2"
    using s by (auto simp: div_less_iff_less_mult intro: order.strict_trans [OF pos_mod_bound])
  have md: "0 \<le> m" "m < 10 ^ 2" "0 \<le> m'" "m' < 10 ^ 2" "0 \<le> d" "d < 10 ^ 2" "0 \<le> d'" "d' < 10 ^ 2"
    using B B' by simp_all
  from assms(3) have eq: "pad 4 y @ CHR ''-'' # pad 2 m @ CHR ''-'' # pad 2 d @ CHR ''T'' # pad 2 (?s div 3600) @ CHR '':'' #
      pad 2 (?s div 60 mod 60) @ CHR '':'' # pad 2 (?s mod 60) @ CHR ''.'' # pad 6 ?n @ ''Z'' =
    pad 4 y' @ CHR ''-'' # pad 2 m' @ CHR ''-'' # pad 2 d' @ CHR ''T'' # pad 2 (?s' div 3600) @ CHR '':'' #
      pad 2 (?s' div 60 mod 60) @ CHR '':'' # pad 2 (?s' mod 60) @ CHR ''.'' # pad 6 ?n' @ ''Z''"
    by (simp add: format_utc_def date_text_def D D' Let_def)
  note e1 = split_at_mark [OF no_mark [OF y(1)] no_mark [OF y(2)] eq]
  note e2 = pad_append_inj [OF md(1-4) _ conjunct2 [OF e1], simplified]
  note e3 = pad_append_inj [OF md(5-8) _ conjunct2 [OF e2], simplified]
  note e4 = pad_append_inj [OF hms(1-4) _ conjunct2 [OF e3], simplified]
  note e5 = pad_append_inj [OF hms(5-8) _ conjunct2 [OF e4], simplified]
  note e6 = pad_append_inj [OF hms(9-12) _ conjunct2 [OF e5], simplified]
  have "y = y'" using pad_inj [OF y conjunct1 [OF e1]] .
  with e2 e3 D D' have "day_of t = day_of u" by (intro civil_date_inj) simp
  moreover have "?s = ?s'"
  proof -
    have "x = (x div 3600 * 60 + x div 60 mod 60) * 60 + x mod 60" for x :: int
    proof -
      have "x div 3600 = x div 60 div 60" using zdiv_zmult2_eq [of 60 x 60] by simp
      then have "x div 3600 * 60 + x div 60 mod 60 = x div 60" by simp
      then show ?thesis by simp
    qed
    from this [of ?s] this [of ?s'] e4 e5 e6 show ?thesis by metis
  qed
  moreover have "?n = ?n'" by (rule pad_inj [OF n(1,3) conjunct2 [OF e6]])
  moreover have "truncate_us x = (day_of x * 86400 + second_of_day x) * 1000000000 + nanosecond x div 1000 * 1000" for x
  proof -
    have "day_of x = x div 1000000000 div 86400" using zdiv_zmult2_eq [of 86400 x 1000000000] by (simp add: day_of_def)
    then have "day_of x * 86400 + second_of_day x = x div 1000000000" by (simp add: second_of_day_def)
    moreover have "nanosecond x mod 1000 = x mod 1000" by (simp add: nanosecond_def mod_mod_cancel)
    then have "nanosecond x div 1000 * 1000 = nanosecond x - x mod 1000" by (metis minus_mod_eq_div_mult)
    moreover have "x div 1000000000 * 1000000000 + nanosecond x = x" by (simp add: nanosecond_def)
    ultimately show ?thesis unfolding truncate_us_def by (metis add_diff_eq)
  qed
  ultimately show ?thesis by simp
qed

end
