(* ===== verification/AppError.thy ===== *)
theory AppError
  imports Prelude
begin

text \<open>
  Errors as every service of the server returns them (\<open>internal/shared/apperror/error.go\<close>): a
  stable code, the older numeric code, a category, the HTTP status and whether the caller may
  retry. The type of causes and of template values are type parameters; a nil \<open>*Error\<close> is None.
\<close>

section \<open>Codes and categories\<close>

definition CodeOK :: int where "CodeOK = 0"
definition CodeBadRequest :: int where "CodeBadRequest = 100"
definition CodeUnauthorized :: int where "CodeUnauthorized = 401"
definition CodeForbidden :: int where "CodeForbidden = 403"
definition CodeNotFound :: int where "CodeNotFound = 404"
definition CodeInternal :: int where "CodeInternal = 500"

definition CategoryValidation :: string where "CategoryValidation = ''validation''"
definition CategoryAuthentication :: string where "CategoryAuthentication = ''authentication''"
definition CategoryAuthorization :: string where "CategoryAuthorization = ''authorization''"
definition CategoryNotFound :: string where "CategoryNotFound = ''not_found''"
definition CategoryConflict :: string where "CategoryConflict = ''conflict''"
definition CategoryRateLimit :: string where "CategoryRateLimit = ''rate_limit''"
definition CategoryDependency :: string where "CategoryDependency = ''dependency''"
definition CategoryTimeout :: string where "CategoryTimeout = ''timeout''"
definition CategoryInternal :: string where "CategoryInternal = ''internal''"
definition CategoryCanceled :: string where "CategoryCanceled = ''canceled''"

lemmas category_defs = CategoryValidation_def CategoryAuthentication_def CategoryAuthorization_def
  CategoryNotFound_def CategoryConflict_def CategoryRateLimit_def CategoryDependency_def
  CategoryTimeout_def CategoryInternal_def CategoryCanceled_def

definition Permanent :: string where "Permanent = ''permanent''"
definition RetryableClass :: string where "RetryableClass = ''retryable''"

text \<open>The statuses of package net/http the file names.\<close>

definition StatusBadRequest :: int where "StatusBadRequest = 400"
definition StatusUnauthorized :: int where "StatusUnauthorized = 401"
definition StatusForbidden :: int where "StatusForbidden = 403"
definition StatusNotFound :: int where "StatusNotFound = 404"
definition StatusRequestTimeout :: int where "StatusRequestTimeout = 408"
definition StatusConflict :: int where "StatusConflict = 409"
definition StatusTooManyRequests :: int where "StatusTooManyRequests = 429"
definition StatusInternalServerError :: int where "StatusInternalServerError = 500"
definition StatusServiceUnavailable :: int where "StatusServiceUnavailable = 503"
definition StatusGatewayTimeout :: int where "StatusGatewayTimeout = 504"

lemmas status_defs = StatusBadRequest_def StatusUnauthorized_def StatusForbidden_def StatusNotFound_def
  StatusRequestTimeout_def StatusConflict_def StatusTooManyRequests_def StatusInternalServerError_def
  StatusServiceUnavailable_def StatusGatewayTimeout_def

lemmas legacy_defs = CodeBadRequest_def CodeUnauthorized_def CodeForbidden_def CodeNotFound_def CodeInternal_def

section \<open>The error\<close>

type_synonym 'v template = "(string \<rightharpoonup> 'v) option"

record ('v, 'c) app_error =
  ae_Code :: string
  ae_LegacyCode :: int
  ae_Category :: string
  ae_HTTPStatus :: int
  ae_Retry :: string
  ae_MessageID :: string
  ae_TemplateData :: "'v template"
  ae_Message :: string
  ae_Cause :: "'c option"
  ae_Operation :: string

text \<open>A copy of the map has the same entries.\<close>

definition cloneTemplateData :: "'v template \<Rightarrow> 'v template" where
  "cloneTemplateData data = (case data of None \<Rightarrow> None | Some m \<Rightarrow> Some (\<lambda>key. m key))"

definition legacyClassification :: "int \<Rightarrow> int \<Rightarrow> string \<times> string" where
  "legacyClassification code httpStatus =
     (if code = CodeBadRequest then (''request.invalid'', CategoryValidation)
      else if code = CodeUnauthorized then (''auth.unauthenticated'', CategoryAuthentication)
      else if code = CodeForbidden then (''auth.forbidden'', CategoryAuthorization)
      else if code = CodeNotFound then (''resource.not_found'', CategoryNotFound)
      else if code = CodeInternal then (''internal.unknown'', CategoryInternal)
      else if httpStatus = StatusUnauthorized then (''auth.unauthenticated'', CategoryAuthentication)
      else if httpStatus = StatusForbidden then (''auth.forbidden'', CategoryAuthorization)
      else if httpStatus = StatusNotFound then (''resource.not_found'', CategoryNotFound)
      else if httpStatus = StatusConflict then (''resource.conflict'', CategoryConflict)
      else if httpStatus = StatusTooManyRequests then (''request.rate_limited'', CategoryRateLimit)
      else if httpStatus = StatusRequestTimeout \<or> httpStatus = StatusGatewayTimeout
      then (''request.timeout'', CategoryTimeout)
      else if StatusInternalServerError \<le> httpStatus then (''internal.unknown'', CategoryInternal)
      else (''request.invalid'', CategoryValidation))"

definition defaultCode :: "string \<Rightarrow> string" where
  "defaultCode category =
     (if category = CategoryValidation then ''request.invalid''
      else if category = CategoryAuthentication then ''auth.unauthenticated''
      else if category = CategoryAuthorization then ''auth.forbidden''
      else if category = CategoryNotFound then ''resource.not_found''
      else if category = CategoryConflict then ''resource.conflict''
      else if category = CategoryRateLimit then ''request.rate_limited''
      else if category = CategoryDependency then ''dependency.unavailable''
      else if category = CategoryTimeout then ''request.timeout''
      else if category = CategoryCanceled then ''request.canceled''
      else ''internal.unknown'')"

definition defaultHTTPStatus :: "string \<Rightarrow> int" where
  "defaultHTTPStatus category =
     (if category = CategoryValidation then StatusBadRequest
      else if category = CategoryAuthentication then StatusUnauthorized
      else if category = CategoryAuthorization then StatusForbidden
      else if category = CategoryNotFound then StatusNotFound
      else if category = CategoryConflict then StatusConflict
      else if category = CategoryRateLimit then StatusTooManyRequests
      else if category = CategoryDependency then StatusServiceUnavailable
      else if category = CategoryTimeout then StatusGatewayTimeout
      else if category = CategoryCanceled then StatusRequestTimeout
      else StatusInternalServerError)"

definition legacyCode :: "string \<Rightarrow> int" where
  "legacyCode category =
     (if category = CategoryValidation \<or> category = CategoryConflict \<or> category = CategoryRateLimit \<or>
         category = CategoryCanceled then CodeBadRequest
      else if category = CategoryAuthentication then CodeUnauthorized
      else if category = CategoryAuthorization then CodeForbidden
      else if category = CategoryNotFound then CodeNotFound
      else CodeInternal)"

definition newError ::
    "string \<Rightarrow> string \<Rightarrow> int \<Rightarrow> string \<Rightarrow> string \<Rightarrow> 'v template \<Rightarrow> string \<Rightarrow> 'c option \<Rightarrow> ('v, 'c) app_error" where
  "newError code category httpStatus retry messageID templateData message cause =
     (let category = (if category = [] then CategoryInternal else category);
          code = (if trim_space code = [] then defaultCode category else code);
          httpStatus = (if httpStatus = 0 then defaultHTTPStatus category else httpStatus);
          retry = (if retry = [] then Permanent else retry)
      in \<lparr>ae_Code = code, ae_LegacyCode = legacyCode category, ae_Category = category,
          ae_HTTPStatus = httpStatus, ae_Retry = retry, ae_MessageID = messageID,
          ae_TemplateData = cloneTemplateData templateData, ae_Message = message, ae_Cause = cause,
          ae_Operation = []\<rparr>)"

definition apperror_New :: "string \<Rightarrow> string \<Rightarrow> int \<Rightarrow> string \<Rightarrow> string \<Rightarrow> 'v template \<Rightarrow> string \<Rightarrow> ('v, 'c) app_error" where
  "apperror_New code category httpStatus retry messageID templateData message =
     newError code category httpStatus retry messageID templateData message None"

definition apperror_Wrap ::
    "string \<Rightarrow> string \<Rightarrow> int \<Rightarrow> string \<Rightarrow> string \<Rightarrow> 'v template \<Rightarrow> string \<Rightarrow> 'c option \<Rightarrow> ('v, 'c) app_error" where
  "apperror_Wrap = newError"

definition newLegacyError :: "int \<Rightarrow> int \<Rightarrow> string \<Rightarrow> 'v template \<Rightarrow> string \<Rightarrow> 'c option \<Rightarrow> ('v, 'c) app_error" where
  "newLegacyError code httpStatus messageID templateData message cause =
     (let (stableCode, category) = legacyClassification code httpStatus
      in (newError stableCode category httpStatus Permanent messageID templateData message cause)\<lparr>ae_LegacyCode := code\<rparr>)"

definition LegacyNew :: "int \<Rightarrow> int \<Rightarrow> string \<Rightarrow> ('v, 'c) app_error" where
  "LegacyNew code httpStatus message = newLegacyError code httpStatus [] None message None"

definition LegacyWrap :: "int \<Rightarrow> int \<Rightarrow> string \<Rightarrow> 'c option \<Rightarrow> ('v, 'c) app_error" where
  "LegacyWrap code httpStatus message cause = newLegacyError code httpStatus [] None message cause"

definition NewKey :: "int \<Rightarrow> int \<Rightarrow> string \<Rightarrow> 'v template \<Rightarrow> string \<Rightarrow> ('v, 'c) app_error" where
  "NewKey code httpStatus messageID templateData fallback =
     newLegacyError code httpStatus messageID templateData fallback None"

definition WrapKey :: "int \<Rightarrow> int \<Rightarrow> string \<Rightarrow> 'v template \<Rightarrow> string \<Rightarrow> 'c option \<Rightarrow> ('v, 'c) app_error" where
  "WrapKey code httpStatus messageID templateData fallback cause =
     newLegacyError code httpStatus messageID templateData fallback cause"

section \<open>Methods\<close>

definition Error_text :: "('v, 'c) app_error option \<Rightarrow> string" where
  "Error_text e = (case e of None \<Rightarrow> [] | Some e \<Rightarrow> ae_Message e)"

definition Unwrap :: "('v, 'c) app_error option \<Rightarrow> 'c option" where
  "Unwrap e = (case e of None \<Rightarrow> None | Some e \<Rightarrow> ae_Cause e)"

definition Retryable :: "('v, 'c) app_error option \<Rightarrow> bool" where
  "Retryable e \<longleftrightarrow> (case e of None \<Rightarrow> False | Some e \<Rightarrow> ae_Retry e = RetryableClass)"

definition clone :: "('v, 'c) app_error option \<Rightarrow> ('v, 'c) app_error option" where
  "clone e = (case e of None \<Rightarrow> None | Some e \<Rightarrow> Some (e\<lparr>ae_TemplateData := cloneTemplateData (ae_TemplateData e)\<rparr>))"

definition WithCode :: "string \<Rightarrow> ('v, 'c) app_error option \<Rightarrow> ('v, 'c) app_error option" where
  "WithCode code e = (case clone e of None \<Rightarrow> None
     | Some e \<Rightarrow> Some (if trim_space code \<noteq> [] then e\<lparr>ae_Code := code\<rparr> else e))"

definition WithOperation :: "string \<Rightarrow> ('v, 'c) app_error option \<Rightarrow> ('v, 'c) app_error option" where
  "WithOperation operation e = (case clone e of None \<Rightarrow> None
     | Some e \<Rightarrow> Some (e\<lparr>ae_Operation := trim_space operation\<rparr>))"

section \<open>The usual errors\<close>

definition BadRequest :: "string \<Rightarrow> ('v, 'c) app_error" where
  "BadRequest message = LegacyNew CodeBadRequest StatusBadRequest message"

definition BadRequestKey :: "string \<Rightarrow> 'v template \<Rightarrow> string \<Rightarrow> ('v, 'c) app_error" where
  "BadRequestKey messageID templateData fallback = NewKey CodeBadRequest StatusBadRequest messageID templateData fallback"

definition Unauthorized :: "string \<Rightarrow> ('v, 'c) app_error" where
  "Unauthorized message = LegacyNew CodeUnauthorized StatusUnauthorized message"

definition UnauthorizedKey :: "string \<Rightarrow> 'v template \<Rightarrow> string \<Rightarrow> ('v, 'c) app_error" where
  "UnauthorizedKey messageID templateData fallback =
     NewKey CodeUnauthorized StatusUnauthorized messageID templateData fallback"

definition Forbidden :: "string \<Rightarrow> ('v, 'c) app_error" where
  "Forbidden message = LegacyNew CodeForbidden StatusForbidden message"

definition ForbiddenKey :: "string \<Rightarrow> 'v template \<Rightarrow> string \<Rightarrow> ('v, 'c) app_error" where
  "ForbiddenKey messageID templateData fallback = NewKey CodeForbidden StatusForbidden messageID templateData fallback"

definition NotFound :: "string \<Rightarrow> ('v, 'c) app_error" where
  "NotFound message = LegacyNew CodeNotFound StatusNotFound message"

definition NotFoundKey :: "string \<Rightarrow> 'v template \<Rightarrow> string \<Rightarrow> ('v, 'c) app_error" where
  "NotFoundKey messageID templateData fallback = NewKey CodeNotFound StatusNotFound messageID templateData fallback"

definition Internal :: "string \<Rightarrow> ('v, 'c) app_error" where
  "Internal message = LegacyNew CodeInternal StatusInternalServerError message"

definition InternalKey :: "string \<Rightarrow> 'v template \<Rightarrow> string \<Rightarrow> ('v, 'c) app_error" where
  "InternalKey messageID templateData fallback =
     NewKey CodeInternal StatusInternalServerError messageID templateData fallback"

section \<open>Every error is well formed\<close>

lemma not_blank: "c \<in> set s \<Longrightarrow> List.member ''abcdefghijklmnopqrstuvwxyz'' c \<Longrightarrow> trim_space s \<noteq> []"
proof (rule trim_space_keeps)
  have "\<not> List.member (concat space_seqs) c" if "List.member ''abcdefghijklmnopqrstuvwxyz'' c"
    using that by (auto simp: space_seqs_def char_of_def bit_simps)
  then show "List.member ''abcdefghijklmnopqrstuvwxyz'' c \<Longrightarrow> c \<notin> \<Union> (set ` set space_seqs)" by auto
qed

lemma defaultCode_cases:
  "defaultCode category \<in> {''request.invalid'', ''auth.unauthenticated'', ''auth.forbidden'', ''resource.not_found'',
     ''resource.conflict'', ''request.rate_limited'', ''dependency.unavailable'', ''request.timeout'',
     ''request.canceled'', ''internal.unknown''}"
  by (simp add: defaultCode_def)

lemma default_code_given: "trim_space (defaultCode category) \<noteq> []"
  using defaultCode_cases [of category] not_blank [of "CHR ''e''" "defaultCode category"] not_blank [of "CHR ''n''" "defaultCode category"]
    not_blank [of "CHR ''o''" "defaultCode category"] by auto

lemma default_status_given: "defaultHTTPStatus category \<noteq> 0"
  by (simp add: defaultHTTPStatus_def status_defs)

text \<open>The table for numeric codes and the table for categories agree.\<close>

lemma legacy_default: "fst (legacyClassification code status) = defaultCode (snd (legacyClassification code status))"
  by (simp add: legacyClassification_def defaultCode_def category_defs)

lemma legacy_category: "snd (legacyClassification code status) \<noteq> []"
  by (simp add: legacyClassification_def category_defs)

definition error_ok :: "('v, 'c) app_error \<Rightarrow> bool" where
  "error_ok e \<longleftrightarrow> trim_space (ae_Code e) \<noteq> [] \<and> ae_Category e \<noteq> [] \<and> ae_HTTPStatus e \<noteq> 0 \<and> ae_Retry e \<noteq> []"

lemma newError_ok: "error_ok (newError code category status retry i t msg cause)"
  by (simp add: error_ok_def newError_def Let_def default_code_given default_status_given Permanent_def CategoryInternal_def)

text \<open>The errors the package can build: the other constructors are calls of these.\<close>

inductive built_error :: "('v, 'c) app_error \<Rightarrow> bool" where
  new: "built_error (newError code category status retry i t msg cause)"
| legacy: "built_error (newLegacyError n status i t msg cause)"
| code: "built_error e \<Longrightarrow> WithCode code (Some e) = Some e' \<Longrightarrow> built_error e'"
| operation: "built_error e \<Longrightarrow> WithOperation op (Some e) = Some e' \<Longrightarrow> built_error e'"

text \<open>C26. Whatever arguments the constructors and modifiers of the package get, blank and zero ones
  included, the error they build has a code that is not blank, a category, a status and a retry class.\<close>

theorem app_error_well_formed:
  assumes "built_error e"
  shows "trim_space (ae_Code e) \<noteq> [] \<and> ae_Category e \<noteq> [] \<and> ae_HTTPStatus e \<noteq> 0 \<and> ae_Retry e \<noteq> []"
  unfolding error_ok_def [symmetric]
  using assms
proof induction
  case (legacy n status i t msg cause)
  show ?case
    using newError_ok [of "fst (legacyClassification n status)" "snd (legacyClassification n status)" status Permanent i t msg cause]
    by (cases "legacyClassification n status") (simp add: newLegacyError_def error_ok_def)
next
  case (code e c e')
  then show ?case by (auto simp: WithCode_def clone_def error_ok_def split: if_splits)
next
  case (operation e op e')
  then show ?case by (auto simp: WithOperation_def clone_def error_ok_def)
qed (rule newError_ok)

theorem app_error_well_formed_witness:
  "trim_space (ae_Code (the (WithCode '' '' (Some (newError '' '' [] 0 [] [] None [] None :: (int, int) app_error))))) \<noteq> []"
proof -
  let ?e = "newError '' '' [] 0 [] [] None [] None :: (int, int) app_error"
  have "WithCode '' '' (Some ?e) = Some (the (WithCode '' '' (Some ?e)))" by (simp add: WithCode_def clone_def)
  from app_error_well_formed [OF built_error.code [OF built_error.new this]] show ?thesis by blast
qed

text \<open>The older numeric constructors build the same error as the typed one: the code and the status
  are the defaults of the category the number stands for, so the two tables of the package agree.\<close>

theorem legacy_constructors_agree:
  "newLegacyError n status i t msg cause =
     (newError [] (snd (legacyClassification n status)) status Permanent i t msg cause)\<lparr>ae_LegacyCode := n\<rparr> \<and>
   BadRequestKey i t msg = apperror_New [] CategoryValidation 0 [] i t msg \<and>
   UnauthorizedKey i t msg = apperror_New [] CategoryAuthentication 0 [] i t msg \<and>
   ForbiddenKey i t msg = apperror_New [] CategoryAuthorization 0 [] i t msg \<and>
   NotFoundKey i t msg = apperror_New [] CategoryNotFound 0 [] i t msg \<and>
   InternalKey i t msg = apperror_New [] CategoryInternal 0 [] i t msg"
proof -
  have kept: "trim_space (fst (legacyClassification n status)) \<noteq> []" for n status
    by (simp add: legacy_default default_code_given)
  have table: "newLegacyError n status i t msg cause =
      (newError [] (snd (legacyClassification n status)) status Permanent i t msg cause)\<lparr>ae_LegacyCode := n\<rparr>"
    for n status i t msg cause
    using kept [of n status] legacy_category [of n status] legacy_default [of n status]
    by (cases "legacyClassification n status") (simp add: newLegacyError_def newError_def Let_def)
  have named: "snd (legacyClassification CodeBadRequest x) = CategoryValidation" "snd (legacyClassification CodeUnauthorized x) = CategoryAuthentication"
    "snd (legacyClassification CodeForbidden x) = CategoryAuthorization" "snd (legacyClassification CodeNotFound x) = CategoryNotFound"
    "snd (legacyClassification CodeInternal x) = CategoryInternal" for x
    by (simp_all add: legacyClassification_def legacy_defs)
  show ?thesis
    unfolding BadRequestKey_def UnauthorizedKey_def ForbiddenKey_def NotFoundKey_def InternalKey_def NewKey_def table named
    by (simp add: apperror_New_def newError_def Let_def legacyCode_def defaultHTTPStatus_def category_defs status_defs
        legacy_defs Permanent_def)
qed

end
