(* ===== verification/WalletService.thy ===== *)
theory WalletService
  imports WalletHistory TimeText AppError Utf8
begin

text \<open>
  The wallet's service (\<open>internal/module/payment/wallet/service.go\<close>, the read models of \<open>dto.go\<close>
  and \<open>model.go\<close>, and the list queries of \<open>repository.go\<close>): the summary of a wallet, the ledger and
  the list of wallets, page by page.

  A query joins the table users, which another module owns: a \<open>directory\<close> is its contents, with
  MySQL's LIKE under the collation of the tables, the instant MySQL reads a text as when it is compared
  with a time (None for a text that is no time), and \<open>value.Format(timeLayout)\<close> in the location of
  the value.
\<close>

section \<open>Read models\<close>

record AppUser =
  u_ID :: int
  u_Username :: string
  u_Phone :: "string option"
  u_Email :: "string option"
  u_IsDel :: int

record directory =
  di_users :: "AppUser list"
  di_like :: "string \<Rightarrow> string \<Rightarrow> bool"
  di_instant :: "string \<Rightarrow> gotime option"
  di_layout :: "gotime \<Rightarrow> string"

record WalletWithUser =
  wu_Wallet :: Wallet
  wu_Username :: string
  wu_Phone :: string
  wu_Email :: string

record TransactionWithUser =
  tu_Transaction :: Transaction
  tu_Username :: string
  tu_Phone :: string
  tu_Email :: string

record Page =
  pg_PageSize :: int
  pg_CurrentPage :: int
  pg_TotalPage :: int
  pg_Total :: int

record SummaryResponse =
  sr_Balance :: string
  sr_AvailableBalance :: string
  sr_HeldAmount :: string
  sr_TotalRecharge :: string
  sr_TotalConsume :: string

record TransactionListQuery =
  tq_CurrentPage :: int
  tq_PageSize :: int
  tq_UserID :: int
  tq_Keyword :: string
  tq_Direction :: string
  tq_SourceType :: string
  tq_DateStart :: string
  tq_DateEnd :: string

record TransactionItem =
  ti_ID :: int
  ti_TransactionNo :: string
  ti_UserID :: int
  ti_Username :: string
  ti_Account :: string
  ti_Direction :: string
  ti_DirectionText :: string
  ti_Amount :: string
  ti_BalanceBefore :: string
  ti_BalanceAfter :: string
  ti_SourceType :: string
  ti_SourceTypeText :: string
  ti_SourceID :: int
  ti_Remark :: string
  ti_CreatedAt :: string

record TransactionListResponse =
  tl_List :: "TransactionItem list"
  tl_Page :: Page

record WalletUserListQuery =
  wq_CurrentPage :: int
  wq_PageSize :: int
  wq_Keyword :: string
  wq_UserID :: int

record WalletUserItem =
  wi_ID :: int
  wi_WalletID :: int
  wi_UserID :: int
  wi_Username :: string
  wi_Account :: string
  wi_Balance :: string
  wi_TotalRecharge :: string
  wi_TotalConsume :: string
  wi_AvailableBalance :: string
  wi_HeldAmount :: string
  wi_UpdatedAt :: string

record WalletUserListResponse =
  wl_List :: "WalletUserItem list"
  wl_Page :: Page

record dict_option =
  opt_Label :: string
  opt_Value :: string

record WalletDict =
  wd_DirectionArr :: "dict_option list"
  wd_SourceTypeArr :: "dict_option list"

section \<open>List queries (repository.go)\<close>

text \<open>\<open>LEFT JOIN users AS u ON u.id = .. AND u.is_del = ..\<close>: the id is the primary key.\<close>

definition joined_user :: "directory \<Rightarrow> int \<Rightarrow> AppUser option" where
  "joined_user dir userID = find (\<lambda>u. u_ID u = userID \<and> u_IsDel u = CommonNo) (di_users dir)"

text \<open>\<open>column LIKE pattern\<close> is not true for NULL; a NULL column is read as an empty string.\<close>

definition like :: "directory \<Rightarrow> string option \<Rightarrow> string \<Rightarrow> bool" where
  "like dir column pattern = (case column of None \<Rightarrow> False | Some v \<Rightarrow> di_like dir v pattern)"

definition column_text :: "string option \<Rightarrow> string" where
  "column_text column = (case column of None \<Rightarrow> [] | Some v \<Rightarrow> v)"

definition user_username :: "AppUser option \<Rightarrow> string option" where
  "user_username u = map_option u_Username u"

definition user_phone :: "AppUser option \<Rightarrow> string option" where
  "user_phone u = (case u of None \<Rightarrow> None | Some v \<Rightarrow> u_Phone v)"

definition user_email :: "AppUser option \<Rightarrow> string option" where
  "user_email u = (case u of None \<Rightarrow> None | Some v \<Rightarrow> u_Email v)"

definition user_like :: "directory \<Rightarrow> AppUser option \<Rightarrow> string \<Rightarrow> bool" where
  "user_like dir u pattern \<longleftrightarrow>
     like dir (user_username u) pattern \<or> like dir (user_phone u) pattern \<or> like dir (user_email u) pattern"

text \<open>\<open>time.Parse("2006-01-02", value)\<close>, as the number of the day; the day after it as text\<close>

definition parse_date :: "string \<Rightarrow> int option" where
  "parse_date v =
     (if length v \<noteq> 10 \<or> v ! 4 \<noteq> CHR ''-'' \<or> v ! 7 \<noteq> CHR ''-'' \<or>
         \<not> list_all is_digit (take 4 v) \<or> \<not> list_all is_digit (take 2 (drop 5 v)) \<or> \<not> list_all is_digit (drop 8 v)
      then None
      else
        let y = int (digits_val (take 4 v)); m = int (digits_val (take 2 (drop 5 v))); d = int (digits_val (drop 8 v))
        in if m < 1 \<or> 12 < m \<or> d < 1 \<or> month_days y ! nat (m - 1) < d then None
           else Some (days_before_year y + sum_list (take (nat (m - 1)) (month_days y)) + d - 1))"

definition nextDateOnlyDay :: "string \<Rightarrow> string option" where
  "nextDateOnlyDay value = map_option (\<lambda>day. date_text ((day + 1) * 86400000000000)) (parse_date value)"

definition not_before :: "directory \<Rightarrow> gotime \<Rightarrow> string \<Rightarrow> bool" where
  "not_before dir t text = (case di_instant dir text of None \<Rightarrow> False | Some i \<Rightarrow> i \<le> t)"

definition created_until :: "directory \<Rightarrow> gotime \<Rightarrow> string \<Rightarrow> bool" where
  "created_until dir t end_text =
     (case nextDateOnlyDay end_text of
        Some next_day \<Rightarrow> (case di_instant dir next_day of None \<Rightarrow> False | Some i \<Rightarrow> t < i)
      | None \<Rightarrow> (case di_instant dir end_text of None \<Rightarrow> False | Some i \<Rightarrow> t \<le> i))"

definition transaction_selected :: "directory \<Rightarrow> TransactionListQuery \<Rightarrow> Transaction \<Rightarrow> bool" where
  "transaction_selected dir q t \<longleftrightarrow>
     (let u = joined_user dir (t_UserID t);
          keyword = trim_space (tq_Keyword q); pattern = keyword @ ''%'';
          direction = trim_space (tq_Direction q); sourceType = trim_space (tq_SourceType q);
          start = trim_space (tq_DateStart q); end_text = trim_space (tq_DateEnd q)
      in t_IsDel t = CommonNo \<and>
         (0 < tq_UserID q \<longrightarrow> t_UserID t = tq_UserID q) \<and>
         (keyword \<noteq> [] \<longrightarrow> like dir (Some (t_TransactionNo t)) pattern \<or> like dir (Some (t_Remark t)) pattern \<or> user_like dir u pattern) \<and>
         (direction \<noteq> [] \<longrightarrow> t_Direction t = direction) \<and>
         (sourceType \<noteq> [] \<longrightarrow> t_SourceType t = sourceType) \<and>
         (start \<noteq> [] \<longrightarrow> not_before dir (t_CreatedAt t) start) \<and>
         (end_text \<noteq> [] \<longrightarrow> created_until dir (t_CreatedAt t) end_text))"

definition transaction_with_user :: "directory \<Rightarrow> Transaction \<Rightarrow> TransactionWithUser" where
  "transaction_with_user dir t = (let u = joined_user dir (t_UserID t) in
     \<lparr>tu_Transaction = t, tu_Username = column_text (user_username u), tu_Phone = column_text (user_phone u),
      tu_Email = column_text (user_email u)\<rparr>)"

text \<open>\<open>LIMIT limit OFFSET offset\<close>; gorm leaves an offset that is not positive out.\<close>

definition limit_offset :: "int \<Rightarrow> int \<Rightarrow> 'r list \<Rightarrow> 'r list" where
  "limit_offset limit offset rows = take (nat limit) (drop (nat offset) rows)"

definition selected_transactions :: "directory \<Rightarrow> TransactionListQuery \<Rightarrow> 'x wallet_tables_scheme \<Rightarrow> Transaction list" where
  "selected_transactions dir q D = rev (sort_key t_ID (filter (transaction_selected dir q) (transactions D)))"

definition ListTransactions ::
    "bool \<Rightarrow> env \<Rightarrow> directory \<Rightarrow> TransactionListQuery \<Rightarrow> ('x, TransactionWithUser list \<times> int) wallet_act" where
  "ListTransactions configured ev dir q =
     (if \<not> configured then throw ErrRepositoryNotConfigured
      else
        let (_, limit, offset) = normalizePage (tq_CurrentPage q) (tq_PageSize q)
        in bind (map_error WalletDb (query ev (\<lambda>D. int (length (selected_transactions dir q D))))) (\<lambda>count.
           bind (map_error WalletDb (query ev (\<lambda>D. map (transaction_with_user dir)
             (limit_offset limit offset (selected_transactions dir q D))))) (\<lambda>rows.
           ret (rows, count))))"

definition wallet_selected :: "directory \<Rightarrow> WalletUserListQuery \<Rightarrow> Wallet \<Rightarrow> bool" where
  "wallet_selected dir q w \<longleftrightarrow>
     (let keyword = trim_space (wq_Keyword q)
      in w_IsDel w = CommonNo \<and>
         (0 < wq_UserID q \<longrightarrow> w_UserID w = wq_UserID q) \<and>
         (keyword \<noteq> [] \<longrightarrow> user_like dir (joined_user dir (w_UserID w)) (keyword @ ''%'')))"

definition wallet_with_user :: "directory \<Rightarrow> Wallet \<Rightarrow> WalletWithUser" where
  "wallet_with_user dir w = (let u = joined_user dir (w_UserID w) in
     \<lparr>wu_Wallet = w, wu_Username = column_text (user_username u), wu_Phone = column_text (user_phone u),
      wu_Email = column_text (user_email u)\<rparr>)"

text \<open>\<open>ORDER BY w.updated_at desc, w.id desc\<close>: sorting is stable.\<close>

definition selected_wallets :: "directory \<Rightarrow> WalletUserListQuery \<Rightarrow> 'x wallet_tables_scheme \<Rightarrow> Wallet list" where
  "selected_wallets dir q D =
     rev (sort_key w_UpdatedAt (sort_key w_ID (filter (wallet_selected dir q) (wallets D))))"

definition ListWalletUsers ::
    "bool \<Rightarrow> env \<Rightarrow> directory \<Rightarrow> WalletUserListQuery \<Rightarrow> ('x, WalletWithUser list \<times> int) wallet_act" where
  "ListWalletUsers configured ev dir q =
     (if \<not> configured then throw ErrRepositoryNotConfigured
      else
        let (_, limit, offset) = normalizePage (wq_CurrentPage q) (wq_PageSize q)
        in bind (map_error WalletDb (query ev (\<lambda>D. int (length (selected_wallets dir q D))))) (\<lambda>count.
           bind (map_error WalletDb (query ev (\<lambda>D. map (wallet_with_user dir)
             (limit_offset limit offset (selected_wallets dir q D))))) (\<lambda>rows.
           ret (rows, count))))"

section \<open>Errors and texts (service.go)\<close>

datatype wallet_cause = WalletCause wallet_error | MoneyCause money_error

type_synonym wallet_app_error = "(int, wallet_cause) app_error"
type_synonym ('x, 'a) wallet_service_act = "(wallet_app_error, 'x wallet_tables_scheme world, 'a) act"

definition wrapInternal :: "string \<Rightarrow> string \<Rightarrow> wallet_cause \<Rightarrow> wallet_app_error" where
  "wrapInternal key fallback err = WrapKey CodeInternal 500 key None fallback (Some err)"

definition token_invalid :: wallet_app_error where
  "token_invalid = UnauthorizedKey ''auth.token.invalid_or_expired'' None (encode_runes [84, 111, 107, 101, 110, 26080, 25928, 25110, 24050, 36807, 26399])"

definition service_missing :: wallet_app_error where
  "service_missing = InternalKey ''wallet.service_missing'' None (encode_runes [38065, 21253, 26381, 21153, 26410, 37197, 32622])"

definition accountText :: "string \<Rightarrow> string \<Rightarrow> string \<Rightarrow> string" where
  "accountText username phone email =
     (case find (\<lambda>v. v \<noteq> []) (map trim_space [phone, email, username]) of None \<Rightarrow> [] | Some v \<Rightarrow> v)"

definition directionText :: "string \<Rightarrow> string" where
  "directionText v =
     (if v = DirectionIn then encode_runes [25910, 20837] else if v = DirectionOut then encode_runes [25903, 20986] else v)"

definition sourceTypeText :: "string \<Rightarrow> string" where
  "sourceTypeText v =
     (if v = SourceRecharge then encode_runes [20805, 20540]
      else if v = SourceAIGenerate then encode_runes [65, 73, 32, 29983, 25104]
      else if v = SourceRedeemCode then encode_runes [20817, 25442, 30721, 20805, 20540]
      else v)"

definition walletDict :: WalletDict where
  "walletDict = \<lparr>
     wd_DirectionArr = [\<lparr>opt_Label = encode_runes [25910, 20837], opt_Value = DirectionIn\<rparr>, \<lparr>opt_Label = encode_runes [25903, 20986], opt_Value = DirectionOut\<rparr>],
     wd_SourceTypeArr = [\<lparr>opt_Label = encode_runes [20805, 20540], opt_Value = SourceRecharge\<rparr>,
       \<lparr>opt_Label = encode_runes [65, 73, 29983, 25104], opt_Value = SourceAIGenerate\<rparr>, \<lparr>opt_Label = encode_runes [20817, 25442, 30721, 20805, 20540], opt_Value = SourceRedeemCode\<rparr>]\<rparr>"

definition formatUnits :: "int \<Rightarrow> wallet_cause + string" where
  "formatUnits units = (case FormatRMBUnits units of Inl e \<Rightarrow> Inl (MoneyCause e) | Inr v \<Rightarrow> Inr v)"

definition formatAvailable :: "int \<Rightarrow> int \<Rightarrow> wallet_cause + string" where
  "formatAvailable balance held =
     (if balance < held then Inl (WalletCause ErrWalletInvariant) else formatUnits (sub64 balance held))"

definition wallet_formatTime :: "directory \<Rightarrow> gotime \<Rightarrow> string" where
  "wallet_formatTime dir t = (if time_is_zero t then [] else di_layout dir t)"

definition totalPage :: "int \<Rightarrow> int \<Rightarrow> int" where
  "totalPage count pageSize =
     (if pageSize \<le> 0 \<or> count \<le> 0 then 0
      else
        let pages = quo64 count pageSize
        in if rem64 count pageSize \<noteq> 0 then add64 pages 1 else pages)"

definition summaryResponse :: "Wallet option \<Rightarrow> wallet_cause + SummaryResponse" where
  "summaryResponse wallet =
     (case wallet of
        None \<Rightarrow> Inr \<lparr>sr_Balance = [], sr_AvailableBalance = [], sr_HeldAmount = [], sr_TotalRecharge = [], sr_TotalConsume = []\<rparr>
      | Some w \<Rightarrow>
          (case formatUnits (w_BalanceUnits w) of Inl e \<Rightarrow> Inl e | Inr balance \<Rightarrow>
          (case formatUnits (w_HeldUnits w) of Inl e \<Rightarrow> Inl e | Inr held \<Rightarrow>
          (case formatUnits (w_TotalRechargeUnits w) of Inl e \<Rightarrow> Inl e | Inr totalRecharge \<Rightarrow>
          (case formatUnits (w_TotalConsumeUnits w) of Inl e \<Rightarrow> Inl e | Inr totalConsume \<Rightarrow>
          (case formatAvailable (w_BalanceUnits w) (w_HeldUnits w) of Inl e \<Rightarrow> Inl e | Inr available \<Rightarrow>
           Inr \<lparr>sr_Balance = balance, sr_AvailableBalance = available, sr_HeldAmount = held,
             sr_TotalRecharge = totalRecharge, sr_TotalConsume = totalConsume\<rparr>))))))"

definition transactionItem :: "directory \<Rightarrow> TransactionWithUser \<Rightarrow> wallet_cause + TransactionItem" where
  "transactionItem dir row =
     (let t = tu_Transaction row in
      case formatUnits (t_AmountUnits t) of Inl e \<Rightarrow> Inl e | Inr amount \<Rightarrow>
      (case formatUnits (t_BalanceBeforeUnits t) of Inl e \<Rightarrow> Inl e | Inr before \<Rightarrow>
      (case formatUnits (t_BalanceAfterUnits t) of Inl e \<Rightarrow> Inl e | Inr after_text \<Rightarrow>
       Inr \<lparr>ti_ID = t_ID t, ti_TransactionNo = t_TransactionNo t, ti_UserID = t_UserID t,
         ti_Username = tu_Username row, ti_Account = accountText (tu_Username row) (tu_Phone row) (tu_Email row),
         ti_Direction = t_Direction t, ti_DirectionText = directionText (t_Direction t),
         ti_Amount = amount, ti_BalanceBefore = before, ti_BalanceAfter = after_text,
         ti_SourceType = t_SourceType t, ti_SourceTypeText = sourceTypeText (t_SourceType t),
         ti_SourceID = t_SourceID t, ti_Remark = t_Remark t, ti_CreatedAt = wallet_formatTime dir (t_CreatedAt t)\<rparr>)))"

definition walletUserItem :: "directory \<Rightarrow> WalletWithUser \<Rightarrow> wallet_cause + WalletUserItem" where
  "walletUserItem dir row =
     (let w = wu_Wallet row in
      case formatUnits (w_BalanceUnits w) of Inl e \<Rightarrow> Inl e | Inr balance \<Rightarrow>
      (case formatAvailable (w_BalanceUnits w) (w_HeldUnits w) of Inl e \<Rightarrow> Inl e | Inr available \<Rightarrow>
      (case formatUnits (w_HeldUnits w) of Inl e \<Rightarrow> Inl e | Inr held \<Rightarrow>
      (case formatUnits (w_TotalRechargeUnits w) of Inl e \<Rightarrow> Inl e | Inr totalRecharge \<Rightarrow>
      (case formatUnits (w_TotalConsumeUnits w) of Inl e \<Rightarrow> Inl e | Inr totalConsume \<Rightarrow>
       Inr \<lparr>wi_ID = w_ID w, wi_WalletID = w_ID w, wi_UserID = w_UserID w, wi_Username = wu_Username row,
         wi_Account = accountText (wu_Username row) (wu_Phone row) (wu_Email row),
         wi_Balance = balance, wi_TotalRecharge = totalRecharge, wi_TotalConsume = totalConsume,
         wi_AvailableBalance = available, wi_HeldAmount = held, wi_UpdatedAt = wallet_formatTime dir (w_UpdatedAt w)\<rparr>)))))"

text \<open>The loops that build the items of a page.\<close>

fun items_of :: "('r \<Rightarrow> 'e + 'i) \<Rightarrow> 'r list \<Rightarrow> 'e + 'i list" where
  "items_of item [] = Inr []"
| "items_of item (r # rs) =
     (case item r of
        Inl e \<Rightarrow> Inl e
      | Inr i \<Rightarrow> (case items_of item rs of Inl e \<Rightarrow> Inl e | Inr is \<Rightarrow> Inr (i # is)))"

section \<open>Operations (service.go)\<close>

text \<open>\<open>present\<close> is whether the service has a repository, \<open>configured\<close> whether that has a database.\<close>

definition wallet_Summary :: "bool \<Rightarrow> bool \<Rightarrow> env \<Rightarrow> int \<Rightarrow> ('x, SummaryResponse) wallet_service_act" where
  "wallet_Summary present configured ev userID =
     (if userID \<le> 0 then throw token_invalid
      else if \<not> present then throw service_missing
      else bind (map_error (\<lambda>err. wrapInternal ''wallet.summary.query_failed'' (encode_runes [26597, 35810, 38065, 21253, 22833, 36133]) (WalletCause err))
                  (GetOrCreateWallet configured ev userID)) (\<lambda>wallet.
           map_error (\<lambda>err. wrapInternal ''wallet.summary.invalid'' (encode_runes [38065, 21253, 20313, 39069, 25968, 25454, 26080, 25928]) err)
             (pure_result (summaryResponse (Some wallet)))))"

definition normalizeTransactionQuery :: "TransactionListQuery \<Rightarrow> TransactionListQuery" where
  "normalizeTransactionQuery q =
     (let (current, size, _) = normalizePage (tq_CurrentPage q) (tq_PageSize q)
      in q\<lparr>tq_Keyword := trim_space (tq_Keyword q), tq_Direction := trim_space (tq_Direction q),
           tq_SourceType := trim_space (tq_SourceType q), tq_DateStart := trim_space (tq_DateStart q),
           tq_DateEnd := trim_space (tq_DateEnd q), tq_CurrentPage := current, tq_PageSize := size\<rparr>)"

definition listTransactions ::
    "bool \<Rightarrow> bool \<Rightarrow> env \<Rightarrow> directory \<Rightarrow> TransactionListQuery \<Rightarrow> ('x, TransactionListResponse) wallet_service_act" where
  "listTransactions present configured ev dir q =
     (if \<not> present then throw service_missing
      else
        let (current, size, _) = normalizePage (tq_CurrentPage q) (tq_PageSize q);
            q = q\<lparr>tq_CurrentPage := current, tq_PageSize := size\<rparr>
        in bind (map_error (\<lambda>err. wrapInternal ''wallet.transactions.query_failed'' (encode_runes [26597, 35810, 36164, 37329, 27969, 27700, 22833, 36133]) (WalletCause err))
             (ListTransactions configured ev dir q)) (\<lambda>(rows, count).
           bind (map_error (\<lambda>err. wrapInternal ''wallet.transactions.invalid'' (encode_runes [38065, 21253, 20313, 39069, 25968, 25454, 26080, 25928]) err)
             (pure_result (items_of (transactionItem dir) rows))) (\<lambda>items.
           ret \<lparr>tl_List = items, tl_Page = \<lparr>pg_PageSize = size, pg_CurrentPage = current,
             pg_TotalPage = totalPage count size, pg_Total = count\<rparr>\<rparr>)))"

definition wallet_Transactions ::
    "bool \<Rightarrow> bool \<Rightarrow> env \<Rightarrow> directory \<Rightarrow> TransactionListQuery \<Rightarrow> ('x, TransactionListResponse) wallet_service_act" where
  "wallet_Transactions present configured ev dir q =
     (if tq_UserID q \<le> 0 then throw token_invalid
      else listTransactions present configured ev dir (normalizeTransactionQuery q))"

definition wallet_Ledger ::
    "bool \<Rightarrow> bool \<Rightarrow> env \<Rightarrow> directory \<Rightarrow> TransactionListQuery \<Rightarrow> ('x, TransactionListResponse) wallet_service_act" where
  "wallet_Ledger present configured ev dir q =
     listTransactions present configured ev dir (normalizeTransactionQuery q)"

definition WalletUsers ::
    "bool \<Rightarrow> bool \<Rightarrow> env \<Rightarrow> directory \<Rightarrow> WalletUserListQuery \<Rightarrow> ('x, WalletUserListResponse) wallet_service_act" where
  "WalletUsers present configured ev dir q =
     (if \<not> present then throw service_missing
      else
        let (current, size, _) = normalizePage (wq_CurrentPage q) (wq_PageSize q);
            q = q\<lparr>wq_Keyword := trim_space (wq_Keyword q), wq_CurrentPage := current, wq_PageSize := size\<rparr>
        in bind (map_error (\<lambda>err. wrapInternal ''wallet.users.query_failed'' (encode_runes [26597, 35810, 29992, 25143, 38065, 21253, 22833, 36133]) (WalletCause err))
             (ListWalletUsers configured ev dir q)) (\<lambda>(rows, count).
           bind (map_error (\<lambda>err. wrapInternal ''wallet.users.invalid'' (encode_runes [38065, 21253, 20313, 39069, 25968, 25454, 26080, 25928]) err)
             (pure_result (items_of (walletUserItem dir) rows))) (\<lambda>items.
           ret \<lparr>wl_List = items, wl_Page = \<lparr>pg_PageSize = size, pg_CurrentPage = current,
             pg_TotalPage = totalPage count size, pg_Total = count\<rparr>\<rparr>)))"

end
