(* ===== verification/WalletServiceProps.thy ===== *)
theory WalletServiceProps
  imports WalletService WalletProps
begin

text \<open>
  The properties of the wallet's service: the pages of the ledger show every selected entry once, a
  summary shows exactly the account, and a date without a time as the end of a range takes the whole
  day in.
\<close>

section \<open>Pages\<close>

lemma concat_pages:
  assumes "0 < s"
  shows "concat (map (\<lambda>k. take s (drop (k * s) xs)) [0..<n]) = take (n * s) xs"
proof (induction n)
  case (Suc n)
  have "take (n * s + s) xs = take (n * s) xs @ take s (drop (n * s) xs)" by (rule take_add)
  with Suc show ?case by (simp add: add.commute)
qed simp

lemma concat_all_pages:
  assumes "0 < s" "length xs \<le> n * s"
  shows "concat (map (\<lambda>k. take s (drop ((k - 1) * s) xs)) [1..<Suc n]) = xs"
proof -
  have "[1..<Suc n] = map Suc [0..<n]" by (simp add: map_Suc_upt)
  then have "concat (map (\<lambda>k. take s (drop ((k - 1) * s) xs)) [1..<Suc n]) = concat (map (\<lambda>k. take s (drop (k * s) xs)) [0..<n])"
    by (simp add: comp_def)
  also have "\<dots> = xs" using assms by (simp add: concat_pages)
  finally show ?thesis .
qed

lemma totalPage_nat:
  assumes "0 < s" "int n \<le> max_int64"
  shows "totalPage (int n) (int s) = int (n div s + (if n mod s = 0 then 0 else 1))"
proof (cases "n = 0")
  case False
  have "int n div int s = int (n div s)" "int n mod int s = int (n mod s)" by (simp_all add: zdiv_int zmod_int)
  moreover have "n div s \<le> n" by simp
  moreover have "n div s < n" if "n mod s \<noteq> 0"
    using that False assms(1) by (cases "s = 1") (auto intro: div_less_dividend)
  ultimately show ?thesis using False assms
    by (auto simp: totalPage_def quo64_nonneg rem64_nonneg int64_simps Let_def)
qed (simp add: totalPage_def)

lemma totalPage_covers:
  assumes "0 < s" "int n \<le> max_int64"
  shows "n \<le> nat (totalPage (int n) (int s)) * s" "k < nat (totalPage (int n) (int s)) \<Longrightarrow> k * s \<le> n"
proof -
  have n: "n div s * s + n mod s = n" "n mod s < s" using assms(1) by simp_all
  have pages: "nat (totalPage (int n) (int s)) = n div s + (if n mod s = 0 then 0 else 1)"
    unfolding totalPage_nat [OF assms] by (rule nat_int)
  have "d * s + r = n \<Longrightarrow> r < s \<Longrightarrow> n \<le> (d + (if r = 0 then 0 else 1)) * s" for d r by auto
  from this [OF n] show "n \<le> nat (totalPage (int n) (int s)) * s" by (simp only: pages)
  assume "k < nat (totalPage (int n) (int s))"
  then have "k \<le> n div s" unfolding pages by (auto split: if_splits)
  then have "k * s \<le> n div s * s" by simp
  with n show "k * s \<le> n" by linarith
qed

lemma normalizePage_given:
  assumes "1 \<le> k" "1 \<le> sz" "sz \<le> 100"
  shows "normalizePage k sz = (k, sz, mul64 (sub64 k 1) sz)"
  using assms by (simp add: normalizePage_def maxPageSize_def)

section \<open>Entries\<close>

lemma formatUnits_returns: "0 \<le> u \<Longrightarrow> u \<le> max_int64 \<Longrightarrow> \<exists>v. formatUnits u = Inr v"
  using FormatRMBUnits_parses [of u] by (auto simp: formatUnits_def)

lemma formatUnits_parses: "formatUnits u = Inr v \<Longrightarrow> 0 \<le> u \<Longrightarrow> u \<le> max_int64 \<Longrightarrow> ParseRMBUnits v = Inr u"
  using FormatRMBUnits_parses [of u] by (auto simp: formatUnits_def)

lemma transaction_numbers:
  assumes "wallet_state_ok s" "t \<in> set (transactions (tables s))"
  shows "0 \<le> t_AmountUnits t" "t_AmountUnits t \<le> max_int64" "0 \<le> t_BalanceBeforeUnits t" "t_BalanceBeforeUnits t \<le> max_int64"
    "0 \<le> t_BalanceAfterUnits t" "t_BalanceAfterUnits t \<le> max_int64"
  using wallet_invD(4) [OF wallet_state_okD(1) [OF assms(1)] assms(2)]
  by (auto simp: transaction_ok_def split: if_splits)

lemma transactionItem_returns:
  assumes "wallet_state_ok s" "t \<in> set (transactions (tables s))"
  shows "\<exists>i. transactionItem dir (transaction_with_user dir t) = Inr i \<and> ti_ID i = t_ID t"
proof -
  note N = transaction_numbers [OF assms]
  from formatUnits_returns [OF N(1,2)] formatUnits_returns [OF N(3,4)] formatUnits_returns [OF N(5,6)]
  show ?thesis by (auto simp: transactionItem_def transaction_with_user_def Let_def)
qed

lemma items_of_all:
  "(\<And>r. r \<in> set rs \<Longrightarrow> \<exists>i. item r = Inr i \<and> key i = g r) \<Longrightarrow> \<exists>its. items_of item rs = Inr its \<and> map key its = map g rs"
proof (induction rs)
  case (Cons r rs)
  then obtain i its where "item r = Inr i" "key i = g r" "items_of item rs = Inr its" "map key its = map g rs"
    by (metis list.set_intros)
  then show ?case by simp
qed simp

lemma sort_key_keys: "map f (sort_key f xs) = sort (map f xs)"
proof (induction xs)
  case (Cons x xs)
  have "map f (insort_key f x ys) = insort (f x) (map f ys)" for ys by (induction ys) auto
  with Cons show ?case by simp
qed simp

lemma selected_ids:
  "map t_ID (selected_transactions dir q D) = rev (sort (map t_ID (filter (transaction_selected dir q) (transactions D))))"
  by (simp add: selected_transactions_def rev_map [symmetric] sort_key_keys)

lemma normalized_selects: "transaction_selected dir (normalizeTransactionQuery q) = transaction_selected dir q"
  by (rule ext) (simp add: transaction_selected_def normalizeTransactionQuery_def Let_def split: prod.split)

lemma ledger_page:
  assumes ok: "wallet_state_ok s" and nf: "no_faults ev" and k: "1 \<le> k" and sz: "1 \<le> sz" "sz \<le> 100"
  obtains r t where "Returns (wallet_Ledger True True ev dir (q\<lparr>tq_CurrentPage := k, tq_PageSize := sz\<rparr>)) s r t"
    "map ti_ID (tl_List r) = map t_ID (limit_offset sz (mul64 (sub64 k 1) sz) (selected_transactions dir q (tables s)))"
    "pg_TotalPage (tl_Page r) = totalPage (int (length (selected_transactions dir q (tables s)))) sz"
    "pg_Total (tl_Page r) = int (length (selected_transactions dir q (tables s)))" "tables t = tables s"
proof -
  let ?q = "q\<lparr>tq_CurrentPage := k, tq_PageSize := sz\<rparr>"
  let ?n = "(normalizeTransactionQuery ?q)\<lparr>tq_CurrentPage := k, tq_PageSize := sz\<rparr>"
  let ?rows = "selected_transactions dir q (tables s)"
  have sel: "selected_transactions dir ?n = (selected_transactions dir q :: 'a wallet_tables_scheme \<Rightarrow> _)"
  proof -
    have "transaction_selected dir ?n = transaction_selected dir q"
      by (rule ext) (simp add: transaction_selected_def normalizeTransactionQuery_def Let_def split: prod.split)
    then show ?thesis by (intro ext) (simp add: selected_transactions_def)
  qed
  let ?page = "limit_offset sz (mul64 (sub64 k 1) sz) ?rows"
  have sub: "set ?page \<subseteq> set (transactions (tables s))"
    by (auto simp: limit_offset_def selected_transactions_def dest!: in_set_takeD in_set_dropD)
  have "\<exists>its. items_of (transactionItem dir) (map (transaction_with_user dir) ?page) = Inr its \<and>
      map ti_ID its = map (\<lambda>r. t_ID (tu_Transaction r)) (map (transaction_with_user dir) ?page)"
  proof (rule items_of_all)
    fix r assume "r \<in> set (map (transaction_with_user dir) ?page)"
    then obtain t where "t \<in> set (transactions (tables s))" "r = transaction_with_user dir t" using sub by auto
    with transactionItem_returns [OF ok this(1)]
    show "\<exists>i. transactionItem dir r = Inr i \<and> ti_ID i = t_ID (tu_Transaction r)" by (simp add: transaction_with_user_def Let_def)
  qed
  then obtain its where items: "items_of (transactionItem dir) (map (transaction_with_user dir) ?page) = Inr its"
    "map ti_ID its = map t_ID ?page"
    by (auto simp: transaction_with_user_def Let_def comp_def)
  note pn = normalizePage_given [OF k sz]
  let ?r = "\<lparr>tl_List = its, tl_Page = \<lparr>pg_PageSize = sz, pg_CurrentPage = k,
    pg_TotalPage = totalPage (int (length ?rows)) sz, pg_Total = int (length ?rows)\<rparr>\<rparr>"
  have "Returns (ListTransactions True ev dir ?n) s (map (transaction_with_user dir) ?page, int (length ?rows)) (sent (sent s))"
    using nf by (simp add: ListTransactions_def pn act_simps sel)
  moreover have "tq_CurrentPage (normalizeTransactionQuery ?q) = k" "tq_PageSize (normalizeTransactionQuery ?q) = sz"
    by (simp_all add: normalizeTransactionQuery_def pn)
  ultimately have run: "Returns (wallet_Ledger True True ev dir ?q) s ?r (sent (sent s))"
    unfolding wallet_Ledger_def listTransactions_def
    by (simp add: pn Returns_bind Returns_map_error Returns_pure_result Returns_ret exI [of _ "sent (sent s)"] exI [of _ "map (transaction_with_user dir) ?page"] items(1))
  show thesis by (rule that [OF run]) (simp_all add: items(2))
qed

text \<open>C27. The pages of the ledger, read one after the other from an unchanged database, show every
  selected entry exactly once, the newest first; the number of pages is the one the first page
  reports, and no page fails.\<close>

theorem ledger_pages_complete:
  fixes s :: "'x wallet_tables_scheme world"
  assumes "wallet_state_ok s" and "no_faults ev" and "1 \<le> sz" and "sz \<le> 100"
    and "int (length (transactions (tables s))) \<le> max_int64"
    and "page = (\<lambda>k. wallet_Ledger True True ev dir (q\<lparr>tq_CurrentPage := int k, tq_PageSize := sz\<rparr>))"
    and "n = nat (pg_TotalPage (tl_Page (answer (page 1) s)))"
  shows "concat (map (\<lambda>k. map ti_ID (tl_List (answer (page k) s))) [1..<Suc n]) =
      rev (sort (map t_ID (filter (transaction_selected dir q) (transactions (tables s))))) \<and>
    (\<forall>k. 1 \<le> k \<longrightarrow> succeeds (page k) s)"
proof -
  let ?rows = "selected_transactions dir q (tables s)"
  obtain m where m: "sz = int m" "0 < m" using assms(3) by (intro that [of "nat sz"]) simp_all
  have len: "int (length ?rows) \<le> max_int64"
    using assms(5) length_filter_le [of "transaction_selected dir q" "transactions (tables s)"]
    by (simp add: selected_transactions_def del: length_filter_le)
  have pages: "succeeds (page k) s \<and> pg_TotalPage (tl_Page (answer (page k) s)) = totalPage (int (length ?rows)) sz \<and>
      map ti_ID (tl_List (answer (page k) s)) = map t_ID (limit_offset sz (mul64 (sub64 (int k) 1) sz) ?rows)" if "1 \<le> k" for k
  proof -
    have "1 \<le> int k" using that by simp
    from ledger_page [OF assms(1,2) this assms(3,4), of dir q] obtain r t where
      run: "Returns (page k) s r t" and
      "map ti_ID (tl_List r) = map t_ID (limit_offset sz (mul64 (sub64 (int k) 1) sz) ?rows)"
      "pg_TotalPage (tl_Page r) = totalPage (int (length ?rows)) sz"
      unfolding assms(6) by blast
    with Returns_ran [OF run] show ?thesis by simp
  qed
  have n: "n = nat (totalPage (int (length ?rows)) sz)" using pages [of 1] assms(7) by simp
  have one: "map ti_ID (tl_List (answer (page k) s)) = map t_ID (take m (drop ((k - 1) * m) ?rows))" if "k \<in> set [1..<Suc n]" for k
  proof -
    from that have k: "1 \<le> k" "k - 1 < n" by auto
    from totalPage_covers(2) [OF m(2) len] k(2) n m(1) have "(k - 1) * m \<le> length ?rows" by simp
    then have "int ((k - 1) * m) \<le> max_int64" using len by linarith
    then have fits: "(int k - 1) * int m \<le> max_int64" using k(1) by (simp add: of_nat_diff)
    have "int k - 1 \<le> (int k - 1) * int m" using k(1) m(2) by (simp add: mult_le_cancel_left1)
    then have "sub64 (int k) 1 = int k - 1" using k(1) fits by (intro sub64_id) simp
    moreover have "mul64 (int k - 1) (int m) = int ((k - 1) * m)"
      using k(1) fits by (simp add: int64_simps of_nat_diff)
    ultimately show ?thesis using pages [OF k(1)] by (simp add: limit_offset_def m(1) del: of_nat_mult)
  qed
  have "concat (map (\<lambda>k. map ti_ID (tl_List (answer (page k) s))) [1..<Suc n]) =
      concat (map (\<lambda>k. map t_ID (take m (drop ((k - 1) * m) ?rows))) [1..<Suc n])"
    using one by (intro arg_cong [where f = concat] map_cong) simp_all
  also have "\<dots> = map t_ID (concat (map (\<lambda>k. take m (drop ((k - 1) * m) ?rows)) [1..<Suc n]))"
    by (simp only: map_concat map_map comp_def)
  also have "\<dots> = map t_ID ?rows"
    using totalPage_covers(1) [OF m(2) len] by (simp only: concat_all_pages [OF m(2)] n m(1))
  finally show ?thesis using pages by (simp add: selected_ids)
qed

definition demo_directory :: directory where
  "demo_directory = \<lparr>di_users = [\<lparr>u_ID = 7, u_Username = ''ada'', u_Phone = None, u_Email = Some ''ada@x.y'', u_IsDel = CommonNo\<rparr>],
     di_like = (\<lambda>v p. prefix (butlast p) v), di_instant = (\<lambda>_. None), di_layout = (\<lambda>_. ''2025-11-29 08:00:00'')\<rparr>"

definition demo_query :: TransactionListQuery where
  "demo_query = \<lparr>tq_CurrentPage = 0, tq_PageSize = 0, tq_UserID = 7, tq_Keyword = ''ada'', tq_Direction = [],
     tq_SourceType = [], tq_DateStart = [], tq_DateEnd = []\<rparr>"

lemma demo_no_faults: "no_faults demo_env"
  by (simp add: no_faults_def demo_env_def)

theorem ledger_pages_complete_witness:
  "concat (map (\<lambda>k. map ti_ID (tl_List (answer (wallet_Ledger True True demo_env demo_directory
     (demo_query\<lparr>tq_CurrentPage := int k, tq_PageSize := 1\<rparr>)) demo_world))) [1..<2]) = [2]"
proof -
  let ?page = "\<lambda>k. wallet_Ledger True True demo_env demo_directory (demo_query\<lparr>tq_CurrentPage := int k, tq_PageSize := 1\<rparr>) ::
    (unit, TransactionListResponse) wallet_service_act"
  have len: "int (length (transactions (tables demo_world))) \<le> max_int64" by code_simp
  have n: "(1::nat) = nat (pg_TotalPage (tl_Page (answer (?page 1) demo_world)))" by code_simp
  have sel: "rev (sort (map t_ID (filter (transaction_selected demo_directory demo_query) (transactions (tables demo_world))))) = [2]"
    by code_simp
  from ledger_pages_complete [OF demo_world_ok demo_no_faults _ _ len refl n] sel show ?thesis by (simp add: numeral_2_eq_2)
qed

section \<open>Summaries\<close>

text \<open>A summary shows the account: its amounts are texts that parse to the balance, the held units and
  what is left of the balance, totals that account for the balance, and opening the wallet on the way
  changes no account; a database a history can lead to is never reported as invalid.\<close>

theorem summary_shows_account:
  fixes s :: "'x wallet_tables_scheme world"
  assumes "wallet_state_ok s"
  shows "case wallet_Summary present configured ev u s of
      (Inl e, t) \<Rightarrow> ae_MessageID e \<noteq> ''wallet.summary.invalid''
    | (Inr r, t) \<Rightarrow> account_of (tables t) = account_of (tables s) \<and>
        ParseRMBUnits (sr_Balance r) = Inr (as_balance (account_of (tables s)) u) \<and>
        ParseRMBUnits (sr_HeldAmount r) = Inr (as_held (account_of (tables s)) u) \<and>
        ParseRMBUnits (sr_AvailableBalance r) = Inr (as_balance (account_of (tables s)) u - as_held (account_of (tables s)) u) \<and>
        (\<exists>recharged consumed. ParseRMBUnits (sr_TotalRecharge r) = Inr recharged \<and>
          ParseRMBUnits (sr_TotalConsume r) = Inr consumed \<and> recharged - consumed = as_balance (account_of (tables s)) u)"
proof (cases "0 < u \<and> present \<and> configured")
  case False
  then show ?thesis
    by (auto simp: wallet_Summary_def token_invalid_def service_missing_def UnauthorizedKey_def InternalKey_def NewKey_def
        newLegacyError_def newError_def Let_def GetOrCreateWallet_def throw_def bind_def map_error_def catch_def wrapInternal_def
        WrapKey_def legacyClassification_def legacy_defs category_defs)
next
  case True
  show ?thesis
  proof (cases rule: Returns_or_Fails [of "getOrCreateWallet ev u" s])
    case (1 w t)
    from getOrCreateWallet_effect [OF assms conjunct1 [OF True] 1] have ok: "wallet_state_ok t" and w: "opened u w (tables s) (tables t)" by blast+
    then have wt: "w \<in> set (wallets (tables t))" "w_UserID w = u" by (simp_all add: opened_def)
    note N = wallet_numbers [OF wallet_state_okD(1) [OF ok] wt(1)]
    note A = account_of_wallet [OF wallet_state_okD(1) [OF ok] wt(1)]
    have acc: "account_of (tables t) = account_of (tables s)" using account_of_opened [OF w] .
    from N obtain b h c d a where f: "formatUnits (w_BalanceUnits w) = Inr b" "formatUnits (w_HeldUnits w) = Inr h"
      "formatUnits (w_TotalRechargeUnits w) = Inr c" "formatUnits (w_TotalConsumeUnits w) = Inr d"
      "formatUnits (w_BalanceUnits w - w_HeldUnits w) = Inr a"
      using formatUnits_returns [of "w_BalanceUnits w"] formatUnits_returns [of "w_HeldUnits w"]
        formatUnits_returns [of "w_TotalRechargeUnits w"] formatUnits_returns [of "w_TotalConsumeUnits w"]
        formatUnits_returns [of "w_BalanceUnits w - w_HeldUnits w"] by auto
    have "sub64 (w_BalanceUnits w) (w_HeldUnits w) = w_BalanceUnits w - w_HeldUnits w" using N by (intro sub64_nonneg) auto
    then have "summaryResponse (Some w) = Inr \<lparr>sr_Balance = b, sr_AvailableBalance = a, sr_HeldAmount = h,
        sr_TotalRecharge = c, sr_TotalConsume = d\<rparr>"
      using N f by (simp add: summaryResponse_def formatAvailable_def)
    then have run: "wallet_Summary present configured ev u s = (Inr \<lparr>sr_Balance = b, sr_AvailableBalance = a, sr_HeldAmount = h,
        sr_TotalRecharge = c, sr_TotalConsume = d\<rparr>, t)"
      using True 1 by (simp add: wallet_Summary_def GetOrCreateWallet_def Returns_def bind_def map_error_def catch_def pure_result_def)
    note P = f [THEN formatUnits_parses]
    show ?thesis using run N A acc P wt(2) by simp
  next
    case (2 e t)
    then show ?thesis using True
      by (simp add: wallet_Summary_def GetOrCreateWallet_def Fails_def bind_def map_error_def catch_def throw_def wrapInternal_def
          WrapKey_def newLegacyError_def newError_def Let_def split: prod.split)
  qed
qed

theorem summary_shows_account_witness:
  "ParseRMBUnits (sr_AvailableBalance (answer (wallet_Summary True True demo_env 7) demo_world)) = Inr 300"
proof -
  let ?m = "wallet_Summary True True demo_env 7 :: (unit, SummaryResponse) wallet_service_act"
  have run: "succeeds ?m demo_world" by code_simp
  have "as_balance (account_of (tables demo_world)) 7 - as_held (account_of (tables demo_world)) 7 = 300" by code_simp
  with summary_shows_account [OF demo_world_ok, where present = True and configured = True and ev = demo_env and u = 7] run_result [OF run] show ?thesis by simp
qed

section \<open>Date ranges\<close>

lemma parse_date_text:
  assumes day: "0 \<le> days" and year: "fst (civil_date days) < 10000"
  shows "parse_date (date_text (days * 86400000000000)) = Some days"
proof -
  obtain y m d where D: "civil_date days = (y, m, d)" by (metis prod_cases3)
  note N = civil_date_number [OF D]
  have "0 \<le> days div 146097" using day by (simp add: pos_imp_zdiv_nonneg_iff)
  then have y: "0 \<le> y" "y < 10 ^ 4" using N(6) year D by auto
  have md: "0 \<le> m" "m < 10 ^ 2" "0 \<le> d" "d < 10 ^ 2" using N(2-5) by simp_all
  obtain Y M T where texts: "Y = pad 4 y" "M = pad 2 m" "T = pad 2 d" by simp
  have len: "length Y = 4" "length M = 2" "length T = 2"
    using y md by (simp_all add: texts length_pad)
  have digits: "list_all is_digit Y" "list_all is_digit M" "list_all is_digit T" using y md by (simp_all add: texts pad_digits)
  have vals: "int (digits_val Y) = y" "int (digits_val M) = m" "int (digits_val T) = d" using y md by (simp_all add: texts digits_val_pad)
  have shown: "date_text (days * 86400000000000) = Y @ CHR ''-'' # M @ CHR ''-'' # T"
    by (simp add: date_text_def day_of_def D texts)
  have parts: "length (Y @ CHR ''-'' # M @ CHR ''-'' # T) = 10" "(Y @ CHR ''-'' # M @ CHR ''-'' # T) ! 4 = CHR ''-''"
    "(Y @ CHR ''-'' # M @ CHR ''-'' # T) ! 7 = CHR ''-''" "take 4 (Y @ CHR ''-'' # M @ CHR ''-'' # T) = Y"
    "take 2 (drop 5 (Y @ CHR ''-'' # M @ CHR ''-'' # T)) = M" "drop 8 (Y @ CHR ''-'' # M @ CHR ''-'' # T) = T"
    using len by (simp_all add: nth_append)
  have "days_before_year y + sum_list (take (nat (m - 1)) (month_days y)) + d - 1 = days"
    using N(1) by (simp add: day_number_def)
  with N digits show ?thesis unfolding parse_date_def shown parts by (simp add: vals Let_def not_less)
qed

text \<open>A list filtered up to a date without a time takes the whole day in: the entries selected are
  exactly those created before the day after it, given that MySQL reads that date as its midnight.\<close>

theorem date_end_takes_whole_day:
  assumes "0 \<le> days" and "fst (civil_date days) < 10000"
    and "di_instant dir (date_text ((days + 1) * 86400000000000)) = Some ((days + 1) * 86400000000000)"
  shows "created_until dir t (date_text (days * 86400000000000)) \<longleftrightarrow> day_of t \<le> days"
proof -
  have "t = t div 86400000000000 * 86400000000000 + t mod 86400000000000" "0 \<le> t mod 86400000000000"
    "t mod 86400000000000 < 86400000000000" by simp_all
  moreover have "t < (days + 1) * 86400000000000 \<longleftrightarrow> q \<le> days"
    if "t = q * 86400000000000 + r" "0 \<le> r" "r < 86400000000000" for q r
    using that by (cases "q \<le> days") simp_all
  ultimately have "t < (days + 1) * 86400000000000 \<longleftrightarrow> day_of t \<le> days" unfolding day_of_def by blast
  then show ?thesis
    using assms(3) by (simp add: created_until_def nextDateOnlyDay_def parse_date_text [OF assms(1,2)])
qed

definition midnight_directory :: directory where
  "midnight_directory = demo_directory\<lparr>di_instant := (\<lambda>v. map_option (\<lambda>day. day * 86400000000000) (parse_date v))\<rparr>"

theorem date_end_takes_whole_day_witness:
  "created_until midnight_directory (739584 * 86400000000000 + 5) (date_text (739584 * 86400000000000)) \<and>
   \<not> created_until midnight_directory (739585 * 86400000000000) (date_text (739584 * 86400000000000))"
proof -
  have year: "fst (civil_date 739584) < 10000" by code_simp
  have midnight: "di_instant midnight_directory (date_text ((739584 + 1) * 86400000000000)) = Some ((739584 + 1) * 86400000000000)"
    by code_simp
  note D = date_end_takes_whole_day [OF _ year midnight]
  show ?thesis using D [of "739584 * 86400000000000 + 5"] D [of "739585 * 86400000000000"]
    by (simp add: day_of_def)
qed

end
