(* ===== verification/RedeemRequest.thy ===== *)
theory RedeemRequest
  imports RedeemHistory RedeemLimiter WalletService
begin

text \<open>
  What the redeem code service reads and answers (\<open>internal/module/payment/redeemcode\<close>: dto.go, and the
  pure functions of service.go): errors, the check of a batch request and its fingerprint, list queries,
  and the texts of the responses.
\<close>

section \<open>Requests and responses (dto.go)\<close>

record GenerateBatchInput =
  gi_RequestID :: string
  gi_Amount :: string
  gi_Quantity :: int
  gi_ExpiresAt :: "gotime option"
  gi_Note :: string

record GeneratedBatchItem =
  gb_ID :: int
  gb_BatchNo :: string
  gb_RequestID :: string
  gb_Amount :: string
  gb_Quantity :: int
  gb_ExpiresAt :: string
  gb_Note :: string
  gb_CreatedBy :: int
  gb_CreatedAt :: string
  gb_Replayed :: bool

record GeneratedCodeItem =
  gc_ID :: int
  gc_Code :: string

record GenerateBatchResponse =
  gr_Batch :: GeneratedBatchItem
  gr_Codes :: "GeneratedCodeItem list"

record ListQuery =
  lq_CurrentPage :: int
  lq_PageSize :: int
  lq_BatchNo :: string
  lq_State :: string
  lq_UsedBy :: int
  lq_UsedUser :: string
  lq_CreatedBy :: int
  lq_Note :: string
  lq_CreatedFrom :: "gotime option"
  lq_CreatedTo :: "gotime option"
  lq_ExpiresFrom :: "gotime option"
  lq_ExpiresTo :: "gotime option"

record RedemptionResponse =
  rr_Amount :: string
  rr_Transaction :: TransactionItem
  rr_Wallet :: SummaryResponse
  rr_Replayed :: bool

section \<open>Errors\<close>

definition ErrorRequestInvalid :: string where "ErrorRequestInvalid = ''payment.redeem_code.request_invalid''"
definition ErrorRequestConflict :: string where "ErrorRequestConflict = ''payment.redeem_code.request_conflict''"
definition ErrorVoidConflict :: string where "ErrorVoidConflict = ''payment.redeem_code.void_conflict''"
definition ErrorExportTooLarge :: string where "ErrorExportTooLarge = ''payment.redeem_code.export_too_large''"
definition ErrorDependencyUnavailable :: string where "ErrorDependencyUnavailable = ''payment.redeem_code.dependency_unavailable''"
definition ErrorIntegrityViolation :: string where "ErrorIntegrityViolation = ''payment.redeem_code.integrity_violation''"
definition ErrorServiceMissing :: string where "ErrorServiceMissing = ''payment.redeem_code.service_missing''"
definition ErrorWalletCodeRequired :: string where "ErrorWalletCodeRequired = ''wallet.redeem.code_required''"
definition ErrorWalletUnavailable :: string where "ErrorWalletUnavailable = ''wallet.redeem.unavailable''"
definition ErrorWalletRateLimited :: string where "ErrorWalletRateLimited = ''wallet.redeem.rate_limited''"
definition ErrorWalletDependencyUnavailable :: string where "ErrorWalletDependencyUnavailable = ''wallet.redeem.dependency_unavailable''"
definition ErrorWalletIntegrityViolation :: string where "ErrorWalletIntegrityViolation = ''wallet.redeem.integrity_violation''"
definition ErrorWalletRateLimitUnavailable :: string where "ErrorWalletRateLimitUnavailable = ''wallet.redeem.rate_limit_unavailable''"

lemmas redeem_error_codes = ErrorRequestInvalid_def ErrorRequestConflict_def ErrorVoidConflict_def ErrorExportTooLarge_def
  ErrorDependencyUnavailable_def ErrorIntegrityViolation_def ErrorServiceMissing_def ErrorWalletCodeRequired_def
  ErrorWalletUnavailable_def ErrorWalletRateLimited_def ErrorWalletDependencyUnavailable_def
  ErrorWalletIntegrityViolation_def ErrorWalletRateLimitUnavailable_def

datatype redeem_cause = RepositoryCause redeem_error | LimiterCause limiter_error | FactCause wallet_cause

type_synonym redeem_app_error = "(int, redeem_cause) app_error"

definition newAppError :: "string \<Rightarrow> string \<Rightarrow> int \<Rightarrow> string \<Rightarrow> string \<Rightarrow> redeem_cause option \<Rightarrow> redeem_app_error" where
  "newAppError code category status retry message cause =
     (if cause \<noteq> None then apperror_Wrap code category status retry code None message cause
      else apperror_New code category status retry code None message)"

definition managementInvalid :: "string \<Rightarrow> redeem_app_error" where
  "managementInvalid message = newAppError ErrorRequestInvalid CategoryValidation StatusBadRequest Permanent message None"

definition managementConflict :: "string \<Rightarrow> string \<Rightarrow> redeem_app_error" where
  "managementConflict code message = newAppError code CategoryConflict StatusConflict Permanent message None"

definition managementDependency :: "redeem_cause option \<Rightarrow> redeem_app_error" where
  "managementDependency cause = newAppError ErrorDependencyUnavailable CategoryDependency StatusServiceUnavailable
     RetryableClass (encode_runes [20817, 25442, 30721, 26381, 21153, 26242, 19981, 21487, 29992]) cause"

definition managementIntegrity :: "redeem_cause option \<Rightarrow> redeem_app_error" where
  "managementIntegrity cause = newAppError ErrorIntegrityViolation CategoryInternal StatusInternalServerError
     Permanent (encode_runes [20817, 25442, 30721, 25968, 25454, 23436, 25972, 24615, 24322, 24120]) cause"

text \<open>\<open>errors.Is(err, ErrIntegrityViolation)\<close> and \<open>errors.Is(err, ErrUnavailable)\<close>, along the wrapped errors\<close>

definition is_integrity_violation :: "redeem_error \<Rightarrow> bool" where
  "is_integrity_violation err \<longleftrightarrow> err = ErrIntegrityViolation \<or> err = ErrSourceConflict \<or> err = ErrOverflow"

definition is_unavailable :: "redeem_error \<Rightarrow> bool" where
  "is_unavailable err \<longleftrightarrow> err = ErrUnavailable \<or> err = ErrExpired"

definition managementRepositoryError :: "redeem_error \<Rightarrow> redeem_app_error" where
  "managementRepositoryError err =
     (if is_integrity_violation err then managementIntegrity None else managementDependency (Some (RepositoryCause err)))"

definition walletUnavailable :: redeem_app_error where
  "walletUnavailable = newAppError ErrorWalletUnavailable CategoryValidation StatusBadRequest Permanent (encode_runes [20817, 25442, 30721, 19981, 21487, 29992]) None"

definition walletCodeRequired :: redeem_app_error where
  "walletCodeRequired = newAppError ErrorWalletCodeRequired CategoryValidation StatusBadRequest Permanent (encode_runes [35831, 36755, 20837, 20817, 25442, 30721]) None"

definition walletRateLimited :: "int \<Rightarrow> redeem_app_error" where
  "walletRateLimited retry_after = (let retry_after = (if retry_after < 1 then 1 else retry_after) in
     apperror_New ErrorWalletRateLimited CategoryRateLimit StatusTooManyRequests RetryableClass ErrorWalletRateLimited
       (Some [''retry_after'' \<mapsto> retry_after]) (encode_runes [20817, 25442, 35831, 27714, 36807, 20110, 39057, 32321]))"

definition walletRateDependency :: "redeem_cause option \<Rightarrow> redeem_app_error" where
  "walletRateDependency cause = newAppError ErrorWalletRateLimitUnavailable CategoryDependency StatusServiceUnavailable
     RetryableClass (encode_runes [20817, 25442, 38480, 27969, 26381, 21153, 26242, 19981, 21487, 29992]) cause"

definition walletDependency :: "redeem_cause option \<Rightarrow> redeem_app_error" where
  "walletDependency cause = newAppError ErrorWalletDependencyUnavailable CategoryDependency StatusServiceUnavailable
     RetryableClass (encode_runes [20817, 25442, 26381, 21153, 26242, 19981, 21487, 29992]) cause"

definition walletIntegrity :: "redeem_cause option \<Rightarrow> redeem_app_error" where
  "walletIntegrity cause = newAppError ErrorWalletIntegrityViolation CategoryInternal StatusInternalServerError
     Permanent (encode_runes [20817, 25442, 20107, 23454, 23436, 25972, 24615, 24322, 24120]) cause"

definition redeem_service_missing :: redeem_app_error where
  "redeem_service_missing = newAppError ErrorServiceMissing CategoryInternal StatusInternalServerError Permanent
     (encode_runes [20817, 25442, 30721, 26381, 21153, 26410, 37197, 32622]) None"

lemma error_code_kept: "trim_space code \<noteq> [] \<Longrightarrow> ae_Code (newAppError code category status retry message cause) = code"
  by (simp add: newAppError_def apperror_Wrap_def apperror_New_def newError_def Let_def)

section \<open>Texts\<close>

definition amountText :: "int \<Rightarrow> string" where
  "amountText cents = format_int (quo64 cents 100) @ ''.'' @ pad_zeros 2 (format_int (rem64 cents 100))"

definition redeem_formatTime :: "gotime \<Rightarrow> string" where
  "redeem_formatTime t = (if time_is_zero t then [] else format_utc t)"

definition formatOptionalTime :: "gotime option \<Rightarrow> string" where
  "formatOptionalTime t = (case t of None \<Rightarrow> [] | Some v \<Rightarrow> redeem_formatTime v)"

definition totalPages :: "int \<Rightarrow> int \<Rightarrow> int" where
  "totalPages count pageSize =
     (if count \<le> 0 \<or> pageSize \<le> 0 then 0 else quo64 (sub64 (add64 count pageSize) 1) pageSize)"

section \<open>A batch request\<close>

record normalizedGenerate =
  ng_requestID :: string
  ng_amountCents :: int
  ng_quantity :: int
  ng_expiresAt :: "gotime option"
  ng_note :: string

definition normalizeGenerateInput :: "int \<Rightarrow> GenerateBatchInput \<Rightarrow> redeem_app_error + normalizedGenerate" where
  "normalizeGenerateInput createdBy input =
     (if createdBy \<le> 0 \<or> \<not> requestIDPattern (gi_RequestID input)
      then Inl (managementInvalid (encode_runes [29983, 25104, 35831, 27714, 73, 68, 26080, 25928]))
      else
        let amount = ParseAmountCents (gi_Amount input) in
        if (case amount of Inl _ \<Rightarrow> True | Inr (cents, _) \<Rightarrow> cents \<le> 0 \<or> MaxAmountCents < cents)
        then Inl (managementInvalid (encode_runes [20817, 25442, 30721, 38754, 39069, 26080, 25928]))
        else if gi_Quantity input \<le> 0 \<or> int MaxBatchQuantity < gi_Quantity input
        then Inl (managementInvalid (encode_runes [20817, 25442, 30721, 25968, 37327, 26080, 25928]))
        else
          let note = trim_space (gi_Note input) in
          if \<not> valid_utf8 note \<or> 255 < rune_count note then Inl (managementInvalid (encode_runes [20817, 25442, 30721, 22791, 27880, 26080, 25928]))
          else if has_control note then Inl (managementInvalid (encode_runes [20817, 25442, 30721, 22791, 27880, 26080, 25928]))
          else Inr \<lparr>ng_requestID = gi_RequestID input, ng_amountCents = fst (projr amount), ng_quantity = gi_Quantity input,
            ng_expiresAt = map_option truncate_us (gi_ExpiresAt input), ng_note = note\<rparr>)"

subsection \<open>JSON (\<open>json.Marshal\<close>, with HTML escaping)\<close>

definition backslash :: char where "backslash = CHR 0x5C"

definition hex_char :: "int \<Rightarrow> char" where
  "hex_char n = ''0123456789abcdef'' ! nat n"

text \<open>One rune: its code point, whether it is well formed, and its bytes.\<close>

definition json_rune :: "int \<Rightarrow> bool \<Rightarrow> string \<Rightarrow> string" where
  "json_rune r ok raw =
     (if \<not> ok then backslash # ''ufffd''
      else if r = 34 \<or> r = 92 then backslash # raw
      else if r = 8 then [backslash, CHR ''b''] else if r = 12 then [backslash, CHR ''f'']
      else if r = 10 then [backslash, CHR ''n''] else if r = 13 then [backslash, CHR ''r'']
      else if r = 9 then [backslash, CHR ''t'']
      else if r < 32 \<or> r = 38 \<or> r = 60 \<or> r = 62
      then backslash # ''u00'' @ [hex_char (r div 16), hex_char (r mod 16)]
      else if r = 8232 \<or> r = 8233 then backslash # ''u202'' @ [hex_char (r mod 16)]
      else raw)"

function json_escape :: "string \<Rightarrow> string" where
  "json_escape s =
     (if s = [] then []
      else
        let (r, w, ok) = decode_rune s
        in json_rune r ok (take w s) @ json_escape (drop (max 1 w) s))"
  by pat_completeness auto
termination
  by (relation "measure length") auto

declare json_escape.simps [simp del]

definition json_string :: "string \<Rightarrow> string" where
  "json_string s = CHR 0x22 # json_escape s @ [CHR 0x22]"

text \<open>The canonical request: the struct's fields in order under their tags.\<close>

definition canonical_request :: "int \<Rightarrow> int \<Rightarrow> gotime option \<Rightarrow> string \<Rightarrow> string" where
  "canonical_request amountCents quantity expiresAt note =
     ''{'' @ json_string ''amount_cents'' @ '':'' @ format_int amountCents @ '','' @
     json_string ''quantity'' @ '':'' @ format_int quantity @ '','' @
     json_string ''expires_at'' @ '':'' @
       (case expiresAt of None \<Rightarrow> ''null'' | Some t \<Rightarrow> json_string (format_utc (truncate_us t))) @ '','' @
     json_string ''note'' @ '':'' @ json_string note @ ''}''"

text \<open>SHA-256 is a parameter.\<close>

definition batchRequestFingerprint :: "(string \<Rightarrow> int list) \<Rightarrow> int \<Rightarrow> int \<Rightarrow> gotime option \<Rightarrow> string \<Rightarrow> string" where
  "batchRequestFingerprint sha256 amountCents quantity expiresAt note =
     hex_text (sha256 (canonical_request amountCents quantity expiresAt note))"

section \<open>Redemptions\<close>

definition failureRetryAfter :: "FailureState \<Rightarrow> int" where
  "failureRetryAfter st = (if 0 < fs_RetryAfter st then fs_RetryAfter st else retryAfter (fs_TTL st))"

definition validRedemptionFact :: "RedemptionFact \<Rightarrow> int \<Rightarrow> bool" where
  "validRedemptionFact rf userID =
     (case (fact_Transaction rf, fact_Wallet rf) of
        (Some t, Some w) \<Rightarrow>
          (let units = fact_AmountUnits rf in
           if fact_AmountCents rf \<le> 0 \<or> units \<le> 0 then False
           else if t_ID t \<le> 0 \<or> t_WalletID t \<le> 0 \<or> t_UserID t \<noteq> userID \<or> t_Direction t \<noteq> DirectionIn \<or>
             t_SourceType t \<noteq> SourceRedeemCode \<or> t_SourceID t \<le> 0 \<or> t_AmountUnits t \<noteq> units \<or>
             t_IsDel t \<noteq> CommonNo \<or> w_ID w \<noteq> t_WalletID t \<or> w_UserID w \<noteq> userID \<or> w_IsDel w \<noteq> CommonNo
           then False
           else t_BalanceBeforeUnits t \<le> sub64 max_int64 units \<and>
             add64 (t_BalanceBeforeUnits t) units = t_BalanceAfterUnits t)
      | _ \<Rightarrow> False)"

definition redemptionResponse :: "RedemptionFact \<Rightarrow> wallet_cause + RedemptionResponse" where
  "redemptionResponse rf =
     (let t = the (fact_Transaction rf); w = the (fact_Wallet rf); units = fact_AmountUnits rf in
      if units \<le> 0 then Inl (WalletCause ErrWalletInvariant)
      else
        case formatUnits units of Inl e \<Rightarrow> Inl e | Inr amount \<Rightarrow>
        (case formatUnits (t_BalanceBeforeUnits t) of Inl e \<Rightarrow> Inl e | Inr before \<Rightarrow>
        (case formatUnits (t_BalanceAfterUnits t) of Inl e \<Rightarrow> Inl e | Inr after_text \<Rightarrow>
        (case formatUnits (t_AmountUnits t) of Inl e \<Rightarrow> Inl e | Inr amountUnits \<Rightarrow>
        (case formatUnits (w_BalanceUnits w) of Inl e \<Rightarrow> Inl e | Inr balance \<Rightarrow>
        (case formatUnits (w_TotalRechargeUnits w) of Inl e \<Rightarrow> Inl e | Inr totalRecharge \<Rightarrow>
        (case formatUnits (w_TotalConsumeUnits w) of Inl e \<Rightarrow> Inl e | Inr totalConsume \<Rightarrow>
        (if w_BalanceUnits w < w_HeldUnits w then Inl (WalletCause ErrWalletInvariant)
         else case formatUnits (sub64 (w_BalanceUnits w) (w_HeldUnits w)) of Inl e \<Rightarrow> Inl e | Inr available \<Rightarrow>
        (case formatUnits (w_HeldUnits w) of Inl e \<Rightarrow> Inl e | Inr held \<Rightarrow>
         Inr \<lparr>rr_Amount = amount,
           rr_Transaction = \<lparr>ti_ID = t_ID t, ti_TransactionNo = t_TransactionNo t, ti_UserID = t_UserID t,
             ti_Username = [], ti_Account = [], ti_Direction = t_Direction t, ti_DirectionText = encode_runes [25910, 20837],
             ti_Amount = amountUnits, ti_BalanceBefore = before, ti_BalanceAfter = after_text,
             ti_SourceType = t_SourceType t, ti_SourceTypeText = encode_runes [20817, 25442, 30721, 20805, 20540],
             ti_SourceID = t_SourceID t, ti_Remark = t_Remark t, ti_CreatedAt = redeem_formatTime (t_CreatedAt t)\<rparr>,
           rr_Wallet = \<lparr>sr_Balance = balance, sr_AvailableBalance = available, sr_HeldAmount = held,
             sr_TotalRecharge = totalRecharge, sr_TotalConsume = totalConsume\<rparr>,
           rr_Replayed = fact_Replayed rf\<rparr>)))))))))"

end
