(* ===== verification/RedeemService.thy ===== *)
theory RedeemService
  imports RedeemRequest
begin

text \<open>
  The redeem code service (\<open>internal/module/payment/redeemcode\<close>: service.go, telemetry.go): generating
  and voiding codes for the administration, and redeeming a code as a user under the attempt limiter,
  with the metrics each of them records.

  The service stands on the repository, the limiter, the clock, a source of random bytes and the
  telemetry recorder. A request whose context ends makes the statements or Redis commands after it fail,
  so timeouts are part of the schedules of failures in \<open>se_db\<close> and \<open>se_redis\<close>.
\<close>

section \<open>Metrics (telemetry.go)\<close>

definition metricBatches :: string where "metricBatches = ''payment.redeem_code.batches''"
definition metricCodes :: string where "metricCodes = ''payment.redeem_code.codes''"
definition metricStateTransitions :: string where "metricStateTransitions = ''payment.redeem_code.state_transitions''"
definition metricRedemptions :: string where "metricRedemptions = ''payment.redeem_code.redemptions''"
definition metricRedemptionLatency :: string where "metricRedemptionLatency = ''payment.redeem_code.redemption_latency_seconds''"
definition metricConflicts :: string where "metricConflicts = ''payment.redeem_code.conflicts''"

text \<open>A recorded event: a count, an observed duration in nanoseconds, or a warning of the logger.\<close>

datatype service_event =
    Count string int "(string \<times> string) list"
  | Observe string int "(string \<times> string) list"
  | Warn string "(string \<times> string) list"

definition controlledOperation :: "string \<Rightarrow> string" where
  "controlledOperation v =
     (if List.member [''generate'', ''void'', ''redeem'', ''lookup'', ''list'', ''export'', ''transition'', ''inventory''] v
      then v else ''other'')"

definition controlledOutcome :: "string \<Rightarrow> string" where
  "controlledOutcome v =
     (if List.member [''ok'', ''error'', ''conflict'', ''unavailable'', ''replayed'', ''rejected''] v then v else ''error'')"

definition controlledState :: "string \<Rightarrow> string" where
  "controlledState v =
     (if List.member [StateUnused, StateUsed, StateVoided, StateExpired] v then v else ''unknown'')"

definition controlledReason :: "string \<Rightarrow> string" where
  "controlledReason v =
     (if List.member [''created'', ''replayed'', ''admin_void'', ''expired'', ''unavailable'', ''request'', ''batch_collision'',
        ''code_collision'', ''source_unique'', ''wallet_overflow'', ''integrity'', ''dependency'', ''invalid'', ''none''] v
      then v else ''other'')"

definition metric_batch :: "string \<Rightarrow> string \<Rightarrow> service_event list" where
  "metric_batch outcome reason = [Count metricBatches 1
     [(''operation'', ''generate''), (''outcome'', controlledOutcome outcome), (''reason'', controlledReason reason)]]"

definition metric_codes :: "int \<Rightarrow> string \<Rightarrow> service_event list" where
  "metric_codes quantity state =
     (if quantity \<le> 0 then []
      else [Count metricCodes quantity [(''operation'', ''inventory''), (''state'', controlledState state)]])"

definition metric_transition :: "int \<Rightarrow> string \<Rightarrow> string \<Rightarrow> service_event list" where
  "metric_transition quantity state reason =
     (if quantity \<le> 0 then []
      else [Count metricStateTransitions quantity
        [(''operation'', ''transition''), (''state'', controlledState state), (''reason'', controlledReason reason)]])"

definition metric_redemption :: "string \<Rightarrow> string \<Rightarrow> int \<Rightarrow> service_event list" where
  "metric_redemption outcome reason elapsed =
     (let attributes = [(''operation'', ''redeem''), (''outcome'', controlledOutcome outcome), (''reason'', controlledReason reason)]
      in [Count metricRedemptions 1 attributes,
          Observe metricRedemptionLatency (if elapsed < 0 then 0 else elapsed) attributes])"

definition metric_conflict :: "string \<Rightarrow> string \<Rightarrow> service_event list" where
  "metric_conflict operation reason = [Count metricConflicts 1
     [(''operation'', controlledOperation operation), (''outcome'', ''conflict''), (''reason'', controlledReason reason)]]"

section \<open>The service\<close>

text \<open>
  \<open>se_repository\<close> and \<open>se_limiter\<close> say whether the service has a repository and a limiter with a
  client (the limiter that stands in for a missing one refuses everything the same way);
  \<open>se_owners k\<close> is what the k-th lease reads as its owner.
\<close>

record service_env =
  se_db :: env
  se_redis :: redis_env
  se_repository :: bool
  se_limiter :: bool
  se_random :: "reader option"
  se_owners :: "nat \<Rightarrow> int list option"
  se_sha256 :: "string \<Rightarrow> int list"

record 'd service_world =
  sv_db :: "'d world"
  sv_redis :: redis
  sv_reads :: nat
  sv_leases :: nat
  sv_events :: "service_event list"

type_synonym ('y, 'a) service_act = "(redeem_app_error, 'y redeem_tables_scheme service_world, 'a) act"

definition on_db :: "('e, 'd world, 'a) act \<Rightarrow> ('e, 'd service_world, 'a) act" where
  "on_db m s = (let (r, d) = m (sv_db s) in (r, s\<lparr>sv_db := d\<rparr>))"

definition on_redis :: "('e, redis, 'a) act \<Rightarrow> ('e, 'd service_world, 'a) act" where
  "on_redis m s = (let (r, d) = m (sv_redis s) in (r, s\<lparr>sv_redis := d\<rparr>))"

definition on_random :: "(nat \<Rightarrow> ('e + 'a) \<times> nat) \<Rightarrow> ('e, 'd service_world, 'a) act" where
  "on_random m s = (let (r, k) = m (sv_reads s) in (r, s\<lparr>sv_reads := k\<rparr>))"

definition record_events :: "service_event list \<Rightarrow> ('e, 'd service_world, unit) act" where
  "record_events es s = (Inr (), s\<lparr>sv_events := sv_events s @ es\<rparr>)"

definition service_now :: "service_env \<Rightarrow> ('e, 'd service_world, gotime) act" where
  "service_now ev = on_db (operationNow (se_db ev))"

definition requireRepository :: "service_env \<Rightarrow> ('e, 'd service_world, bool) act" where
  "requireRepository ev = ret (se_repository ev)"

section \<open>Generating a batch\<close>

definition batch_response :: "BatchWithCodes \<Rightarrow> GenerateBatchResponse" where
  "batch_response bc = (let b = bc_Batch bc in
     \<lparr>gr_Batch = \<lparr>gb_ID = b_ID b, gb_BatchNo = b_BatchNo b, gb_RequestID = b_RequestID b,
        gb_Amount = amountText (b_AmountCents b), gb_Quantity = b_Quantity b,
        gb_ExpiresAt = formatOptionalTime (b_ExpiresAt b), gb_Note = b_Note b, gb_CreatedBy = b_CreatedBy b,
        gb_CreatedAt = redeem_formatTime (b_CreatedAt b), gb_Replayed = True\<rparr>,
      gr_Codes = map (\<lambda>c. \<lparr>gc_ID = c_ID c, gc_Code = c_Code c\<rparr>) (sort_key c_ID (bc_Codes bc))\<rparr>)"

definition replayResponse :: "BatchWithCodes option \<Rightarrow> string \<Rightarrow> ('y, GenerateBatchResponse) service_act" where
  "replayResponse batch fingerprint =
     (case batch of
        None \<Rightarrow> throw (managementIntegrity None)
      | Some bc \<Rightarrow>
          if b_RequestFingerprintVersion (bc_Batch bc) \<noteq> RequestFingerprintVersion \<or>
             b_RequestFingerprint (bc_Batch bc) \<noteq> fingerprint
          then bind (record_events (metric_conflict ''generate'' ''request'')) (\<lambda>_.
               throw (managementConflict ErrorRequestConflict (encode_runes [29983, 25104, 35831, 27714, 73, 68, 24050, 29992, 20110, 20854, 20182, 21442, 25968])))
          else if b_Quantity (bc_Batch bc) \<le> 0 \<or> int (length (bc_Codes bc)) \<noteq> b_Quantity (bc_Batch bc)
          then throw (managementIntegrity None)
          else ret (batch_response bc))"

definition batch_row :: "string \<Rightarrow> string \<Rightarrow> int \<Rightarrow> normalizedGenerate \<Rightarrow> Batch" where
  "batch_row batchNo fingerprint createdBy n =
     \<lparr>b_ID = 0, b_BatchNo = batchNo, b_RequestID = ng_requestID n,
      b_RequestFingerprintVersion = RequestFingerprintVersion, b_RequestFingerprint = fingerprint,
      b_AmountCents = ng_amountCents n, b_Quantity = ng_quantity n, b_ExpiresAt = ng_expiresAt n,
      b_Note = ng_note n, b_CreatedBy = createdBy, b_CreatedAt = 0, b_UpdatedAt = 0\<rparr>"

definition unused_code :: "string \<Rightarrow> Code" where
  "unused_code code = \<lparr>c_ID = 0, c_BatchID = 0, c_Code = code, c_State = StateUnused, c_UsedBy = None,
     c_UsedAt = None, c_CreatedAt = 0, c_UpdatedAt = 0\<rparr>"

text \<open>What an error of \<open>CreateOrReplayBatch\<close> leads to: another attempt (None), or an answer; and its metrics.\<close>

definition create_failed :: "redeem_error \<Rightarrow> service_event list \<times> redeem_app_error option" where
  "create_failed err =
     (if err = ErrBatchNumberCollision then (metric_conflict ''generate'' ''batch_collision'', None)
      else if err = ErrCodeCollision then (metric_conflict ''generate'' ''code_collision'', None)
      else if err = redeem_error.ErrRequestConflict then
        (metric_conflict ''generate'' ''request'', Some (managementConflict ErrorRequestConflict (encode_runes [29983, 25104, 35831, 27714, 73, 68, 24050, 29992, 20110, 20854, 20182, 21442, 25968])))
      else if err = ErrExpiryNotFuture then ([], Some (managementInvalid (encode_runes [36807, 26399, 26102, 38388, 24517, 39035, 26202, 20110, 21019, 24314, 26102, 38388])))
      else if is_integrity_violation err then ([], Some (managementIntegrity None))
      else ([], Some (managementDependency (Some (RepositoryCause err)))))"

text \<open>The loop over the attempts; a number is taken for the batch in each of them.\<close>

fun create_batch ::
    "service_env \<Rightarrow> int \<Rightarrow> normalizedGenerate \<Rightarrow> gotime \<Rightarrow> string \<Rightarrow> nat \<Rightarrow> ('y, GenerateBatchResponse) service_act" where
  "create_batch ev createdBy n now fingerprint 0 =
     bind (record_events (metric_batch ''error'' ''code_collision'')) (\<lambda>_. throw (managementIntegrity None))"
| "create_batch ev createdBy n now fingerprint (Suc attempts) =
     either (on_random (generateUniqueCodes (se_random ev) (ng_quantity n)))
       (\<lambda>_. bind (record_events (metric_batch ''error'' ''code_collision'' @ metric_conflict ''generate'' ''code_collision'')) (\<lambda>_.
            throw (managementIntegrity None)))
       (\<lambda>new_codes.
     bind (on_db (serialno_New (se_db ev) ''RCB'' now)) (\<lambda>batchNo.
     either (on_db (CreateOrReplayBatch True (se_db ev) (batch_row batchNo fingerprint createdBy n) (map unused_code new_codes)))
       (\<lambda>err. bind (record_events (fst (create_failed err))) (\<lambda>_.
            case snd (create_failed err) of
              None \<Rightarrow> create_batch ev createdBy n now fingerprint attempts
            | Some reply \<Rightarrow> throw reply))
       (\<lambda>(created, replayed).
     bind (replayResponse (Some created) fingerprint) (\<lambda>response.
     bind (record_events
        (if replayed then metric_batch ''replayed'' ''replayed''
         else metric_batch ''ok'' ''created'' @ metric_codes (ng_quantity n) StateUnused)) (\<lambda>_.
     ret (response\<lparr>gr_Batch := (gr_Batch response)\<lparr>gb_Replayed := replayed\<rparr>\<rparr>))))))"

definition maxCreateBatchAttempts :: nat where "maxCreateBatchAttempts = 3"

definition GenerateBatch :: "service_env \<Rightarrow> int \<Rightarrow> GenerateBatchInput \<Rightarrow> ('y, GenerateBatchResponse) service_act" where
  "GenerateBatch ev createdBy input =
     (if \<not> se_repository ev then throw redeem_service_missing
      else case normalizeGenerateInput createdBy input of
        Inl appErr \<Rightarrow> bind (record_events (metric_batch ''rejected'' ''invalid'')) (\<lambda>_. throw appErr)
      | Inr n \<Rightarrow>
          bind (service_now ev) (\<lambda>now.
          let fingerprint = batchRequestFingerprint (se_sha256 ev) (ng_amountCents n) (ng_quantity n) (ng_expiresAt n) (ng_note n)
          in either (on_db (FindBatchByRequest True (se_db ev) createdBy (ng_requestID n)))
            (\<lambda>err. bind (record_events (metric_batch ''error'' (if is_integrity_violation err then ''integrity'' else ''dependency''))) (\<lambda>_.
                 throw (managementRepositoryError err)))
            (\<lambda>existing.
          if existing \<noteq> None then
            bind (replayResponse existing fingerprint) (\<lambda>response.
            bind (record_events (metric_batch ''replayed'' ''replayed'')) (\<lambda>_. ret response))
          else create_batch ev createdBy n now fingerprint maxCreateBatchAttempts)))"

section \<open>Voiding codes\<close>

definition service_Void :: "service_env \<Rightarrow> int list \<Rightarrow> ('y, nat) service_act" where
  "service_Void ev ids =
     (if \<not> se_repository ev then throw redeem_service_missing
      else if ids = [] \<or> MaxVoidCodes < length ids then throw (managementInvalid (encode_runes [20316, 24223, 20817, 25442, 30721, 25968, 37327, 26080, 25928]))
      else if list_ex (\<lambda>i. i \<le> 0) ids then throw (managementInvalid (encode_runes [20817, 25442, 30721, 73, 68, 26080, 25928]))
      else
        bind (service_now ev) (\<lambda>now.
        either (on_db (VoidCodes True (se_db ev) (sort (remdups ids)) now))
          (\<lambda>err.
             if err = redeem_error.ErrVoidConflict then
               bind (record_events (metric_conflict ''void'' ''request'')) (\<lambda>_.
               throw (managementConflict ErrorVoidConflict (encode_runes [20817, 25442, 30721, 38598, 21512, 26080, 27861, 20316, 24223])))
             else if is_integrity_violation err then throw (managementIntegrity None)
             else throw (managementDependency (Some (RepositoryCause err))))
          (\<lambda>count.
        bind (record_events (metric_transition (int count) StateVoided ''admin_void'')) (\<lambda>_. ret count))))"

section \<open>Redeeming a code\<close>

definition limiter_acquire :: "service_env \<Rightarrow> string \<Rightarrow> int \<Rightarrow> (limiter_error, 'd service_world, AttemptLease) act" where
  "limiter_acquire ev platform userID s =
     (let (r, d) = Acquire (se_limiter ev) (se_redis ev) (se_owners ev (sv_leases s)) platform userID (sv_redis s)
      in (r, s\<lparr>sv_redis := d, sv_leases := Suc (sv_leases s)\<rparr>))"

text \<open>\<open>release()\<close>, before what follows; its failure is the answer.\<close>

definition release_then :: "service_env \<Rightarrow> AttemptLease \<Rightarrow> ('y, 'a) service_act \<Rightarrow> ('y, 'a) service_act" where
  "release_then ev lease m =
     either (on_redis (Release (se_limiter ev) (se_redis ev) lease))
       (\<lambda>err. throw (walletRateDependency (Some (LimiterCause err)))) (\<lambda>_. m)"

text \<open>\<open>_ = release()\<close>\<close>

definition release_anyway :: "service_env \<Rightarrow> AttemptLease \<Rightarrow> ('y, 'a) service_act \<Rightarrow> ('y, 'a) service_act" where
  "release_anyway ev lease m =
     either (on_redis (Release (se_limiter ev) (se_redis ev) lease)) (\<lambda>_. m) (\<lambda>_. m)"

definition mark_failure :: "service_env \<Rightarrow> AttemptLease \<Rightarrow> string \<Rightarrow> int \<Rightarrow> ('y, unit) service_act" where
  "mark_failure ev lease platform userID =
     either (on_redis (RecordFailure (se_limiter ev) (se_redis ev) platform userID))
       (\<lambda>err. release_anyway ev lease (throw (walletRateDependency (Some (LimiterCause err))))) (\<lambda>_. ret ())"

text \<open>The metrics and the answer for each error of the repository.\<close>

definition redeem_failure :: "redeem_error \<Rightarrow> int \<Rightarrow> service_event list \<times> redeem_app_error" where
  "redeem_failure err elapsed =
     (if err = ErrExpired then
        (metric_codes 1 StateExpired @ metric_redemption ''unavailable'' ''expired'' elapsed, walletUnavailable)
      else if is_unavailable err then (metric_redemption ''unavailable'' ''unavailable'' elapsed, walletUnavailable)
      else if err = ErrSourceConflict then
        (metric_conflict ''redeem'' ''source_unique'' @ metric_redemption ''error'' ''source_unique'' elapsed, walletIntegrity None)
      else if err = ErrOverflow then (metric_redemption ''rejected'' ''wallet_overflow'' elapsed, walletIntegrity None)
      else if is_integrity_violation err then (metric_redemption ''error'' ''integrity'' elapsed, walletIntegrity None)
      else (metric_redemption ''error'' ''dependency'' elapsed, walletDependency (Some (RepositoryCause err))))"

definition redeem_failed ::
    "service_env \<Rightarrow> AttemptLease \<Rightarrow> string \<Rightarrow> int \<Rightarrow> redeem_error \<Rightarrow> int \<Rightarrow> ('y, RedemptionResponse) service_act" where
  "redeem_failed ev lease platform userID err elapsed =
     bind (record_events (fst (redeem_failure err elapsed))) (\<lambda>_.
     let responseErr = snd (redeem_failure err elapsed)
     in bind (if ae_Code responseErr = ErrorWalletUnavailable then mark_failure ev lease platform userID else ret ()) (\<lambda>_.
        release_then ev lease (throw responseErr)))"

definition cleanup_warning :: service_event where
  "cleanup_warning = Warn ''redeem limiter cleanup failed'' [(''operation'', ''redeem''), (''reason'', ''release'')]"

definition redeem_succeeded ::
    "service_env \<Rightarrow> AttemptLease \<Rightarrow> int \<Rightarrow> RedemptionFact \<Rightarrow> int \<Rightarrow> ('y, RedemptionResponse) service_act" where
  "redeem_succeeded ev lease userID rf elapsed =
     (if \<not> validRedemptionFact rf userID then
        bind (record_events (metric_redemption ''error'' ''integrity'' elapsed)) (\<lambda>_.
        release_then ev lease (throw (walletIntegrity None)))
      else
        bind (record_events
          (if fact_Replayed rf then metric_redemption ''replayed'' ''replayed'' elapsed
           else metric_codes 1 StateUsed @ metric_transition 1 StateUsed ''created'' @ metric_redemption ''ok'' ''created'' elapsed)) (\<lambda>_.
        case redemptionResponse rf of
          Inl responseErr \<Rightarrow>
            bind (record_events (metric_redemption ''error'' ''integrity'' elapsed)) (\<lambda>_.
            release_then ev lease (throw (walletIntegrity (Some (FactCause responseErr)))))
        | Inr response \<Rightarrow>
            either (on_redis (Release (se_limiter ev) (se_redis ev) lease))
              (\<lambda>_. bind (record_events [cleanup_warning]) (\<lambda>_. ret response)) (\<lambda>_. ret response)))"

definition redeem_attempted ::
    "service_env \<Rightarrow> AttemptLease \<Rightarrow> int \<Rightarrow> string \<Rightarrow> string \<Rightarrow> ('y, RedemptionResponse) service_act" where
  "redeem_attempted ev lease userID platform code =
     bind (on_db (read_clock (se_db ev))) (\<lambda>started.
     either (on_db (Redeem (se_db ev) userID code))
       (\<lambda>err. bind (on_db (read_clock (se_db ev))) (\<lambda>finished. redeem_failed ev lease platform userID err (finished - started)))
       (\<lambda>rf. bind (on_db (read_clock (se_db ev))) (\<lambda>finished. redeem_succeeded ev lease userID rf (finished - started))))"

definition redeem_leased ::
    "service_env \<Rightarrow> AttemptLease \<Rightarrow> int \<Rightarrow> string \<Rightarrow> string \<Rightarrow> ('y, RedemptionResponse) service_act" where
  "redeem_leased ev lease userID platform rawCode =
     (if \<not> se_repository ev then release_then ev lease (throw (walletDependency None))
      else if trim_space rawCode = [] then
        bind (mark_failure ev lease platform userID) (\<lambda>_. release_then ev lease (throw walletCodeRequired))
      else case NormalizeCode rawCode of
        Inl _ \<Rightarrow>
          bind (record_events (metric_redemption ''unavailable'' ''invalid'' 0)) (\<lambda>_.
          bind (mark_failure ev lease platform userID) (\<lambda>_. release_then ev lease (throw walletUnavailable)))
      | Inr code \<Rightarrow> redeem_attempted ev lease userID platform code)"

definition redeemLimited :: "service_env \<Rightarrow> int \<Rightarrow> string \<Rightarrow> string \<Rightarrow> ('y, RedemptionResponse) service_act" where
  "redeemLimited ev userID platform rawCode =
     either (limiter_acquire ev platform userID)
       (\<lambda>err. case err of
            AttemptLocked retry_after \<Rightarrow> throw (walletRateLimited retry_after)
          | _ \<Rightarrow> throw (walletRateDependency (Some (LimiterCause err))))
       (\<lambda>lease.
     either (on_redis (limiter_FailureState (se_limiter ev) (se_redis ev) platform userID))
       (\<lambda>err. release_anyway ev lease (throw (walletRateDependency (Some (LimiterCause err)))))
       (\<lambda>st.
     if failureLimit \<le> fs_Count st then release_then ev lease (throw (walletRateLimited (failureRetryAfter st)))
     else redeem_leased ev lease userID platform rawCode))"

end
