(* ===== verification/RedeemServiceLaws.thy ===== *)
theory RedeemServiceLaws
  imports RedeemService LimiterProps
begin

text \<open>
  How the redeem code service uses the limiter: what each limiter operation does on a Redis without
  faults, and rules to follow an action of the service from what holds before it to what holds after
  it, on every path.
\<close>

section \<open>Following an action\<close>

text \<open>\<open>leads P m Q\<close>: started where P holds, m ends with a result and a state for which Q holds.\<close>

definition leads :: "('s \<Rightarrow> bool) \<Rightarrow> ('e, 's, 'a) act \<Rightarrow> ('e + 'a \<Rightarrow> 's \<Rightarrow> bool) \<Rightarrow> bool" where
  "leads P m Q \<longleftrightarrow> (\<forall>s. P s \<longrightarrow> Q (fst (m s)) (snd (m s)))"

lemma leadsD: "leads P m Q \<Longrightarrow> P s \<Longrightarrow> m s = (r, t) \<Longrightarrow> Q r t"
  by (auto simp: leads_def)

lemma leads_ret: "(\<And>s. P s \<Longrightarrow> Q (Inr a) s) \<Longrightarrow> leads P (ret a) Q"
  by (simp add: leads_def ret_def)

lemma leads_throw: "(\<And>s. P s \<Longrightarrow> Q (Inl e) s) \<Longrightarrow> leads P (throw e) Q"
  by (simp add: leads_def throw_def)

lemma leads_bind:
  assumes "leads P m R" and "\<And>e s. R (Inl e) s \<Longrightarrow> Q (Inl e) s" and "\<And>a. leads (R (Inr a)) (f a) Q"
  shows "leads P (bind m f) Q"
  using assms unfolding leads_def bind_def by (auto split: prod.splits sum.splits)

lemma ret_bind: "bind (ret a) f = f a"
  by (simp add: bind_def ret_def fun_eq_iff)

lemma leads_either:
  assumes "leads P m R" and "\<And>e. leads (R (Inl e)) (h e) Q" and "\<And>a. leads (R (Inr a)) (f a) Q"
  shows "leads P (either m h f) Q"
  using assms unfolding leads_def either_def by (auto split: prod.splits sum.splits)

lemma leads_mono: "leads P m Q \<Longrightarrow> (\<And>s. P' s \<Longrightarrow> P s) \<Longrightarrow> (\<And>r s. Q r s \<Longrightarrow> Q' r s) \<Longrightarrow> leads P' m Q'"
  by (auto simp: leads_def)

lemma leads_on_redis: "leads P m Q \<Longrightarrow> leads (\<lambda>s. P (sv_redis s)) (on_redis m) (\<lambda>r s. Q r (sv_redis s))"
  by (simp add: leads_def on_redis_def Let_def split_beta)

lemma leads_on_db: "leads (\<lambda>s. P (sv_redis s)) (on_db m) (\<lambda>_ s. P (sv_redis s))"
  by (simp add: leads_def on_db_def Let_def split_beta)

lemma leads_record_events: "leads (\<lambda>s. P (sv_redis s)) (record_events es) (\<lambda>r s. P (sv_redis s) \<and> r = Inr ())"
  by (simp add: leads_def record_events_def)

section \<open>Error codes\<close>

lemma redeem_codes_given [simp]:
  "trim_space ErrorWalletCodeRequired \<noteq> []" "trim_space ErrorWalletUnavailable \<noteq> []" "trim_space ErrorWalletRateLimited \<noteq> []"
  "trim_space ErrorWalletDependencyUnavailable \<noteq> []" "trim_space ErrorWalletIntegrityViolation \<noteq> []"
  "trim_space ErrorWalletRateLimitUnavailable \<noteq> []"
  by code_simp+

lemma wallet_error_codes [simp]:
  "ae_Code walletUnavailable = ErrorWalletUnavailable" "ae_Code walletCodeRequired = ErrorWalletCodeRequired"
  "ae_Code (walletRateLimited n) = ErrorWalletRateLimited" "ae_Code (walletRateDependency c) = ErrorWalletRateLimitUnavailable"
  "ae_Code (walletDependency c) = ErrorWalletDependencyUnavailable" "ae_Code (walletIntegrity c) = ErrorWalletIntegrityViolation"
  by (simp_all add: walletUnavailable_def walletCodeRequired_def walletRateLimited_def walletRateDependency_def walletDependency_def
      walletIntegrity_def error_code_kept Let_def apperror_New_def newError_def)

lemma wallet_codes_differ [simp]:
  "distinct [ErrorWalletCodeRequired, ErrorWalletUnavailable, ErrorWalletRateLimited, ErrorWalletDependencyUnavailable,
     ErrorWalletIntegrityViolation, ErrorWalletRateLimitUnavailable]"
  by code_simp

text \<open>The answers that count as a failed attempt, and those that do not; a limiter that is not available
  gives no answer to the code itself.\<close>

definition counted_answer :: "redeem_app_error + RedemptionResponse \<Rightarrow> bool" where
  "counted_answer r = (case r of
     Inl err \<Rightarrow> ae_Code err = ErrorWalletCodeRequired \<or> ae_Code err = ErrorWalletUnavailable
   | Inr _ \<Rightarrow> False)"

definition uncounted_answer :: "redeem_app_error + RedemptionResponse \<Rightarrow> bool" where
  "uncounted_answer r = (case r of
     Inl err \<Rightarrow> List.member [ErrorWalletRateLimited, ErrorWalletDependencyUnavailable, ErrorWalletIntegrityViolation] (ae_Code err)
   | Inr _ \<Rightarrow> True)"

lemma answer_kinds [simp]:
  "counted_answer (Inl walletUnavailable)" "counted_answer (Inl walletCodeRequired)"
  "\<not> uncounted_answer (Inl walletUnavailable)" "\<not> uncounted_answer (Inl walletCodeRequired)"
  "\<not> counted_answer (Inl (walletRateDependency c))" "\<not> uncounted_answer (Inl (walletRateDependency c))"
  "\<not> counted_answer (Inl (walletDependency c))" "\<not> counted_answer (Inl (walletIntegrity c))"
  "\<not> counted_answer (Inl (walletRateLimited n))" "\<not> counted_answer (Inr resp)"
  using wallet_codes_differ by (auto simp: counted_answer_def uncounted_answer_def)

section \<open>The limiter without faults\<close>

definition no_redis_faults :: "redis_env \<Rightarrow> bool" where
  "no_redis_faults ev \<longleftrightarrow> (\<forall>n. re_fault ev n = None)"

lemma redis_do_runs:
  "no_redis_faults ev \<Longrightarrow> redis_do ev cmd s = (fst (cmd (redis_now ev s) (rd_data s)), redis_called s (snd (cmd (redis_now ev s) (rd_data s))))"
  by (simp add: redis_do_def redis_now_def redis_called_def no_redis_faults_def Let_def split_beta)

lemma failures_at_cong: "d f = d' f \<Longrightarrow> failures_at now d f = failures_at now d' f"
  by (simp add: failures_at_def redis_get_def redis_entry_def)

text \<open>A failure that is not counted any more was counted before, or nothing was.\<close>

lemma failures_at_later: "0 \<le> failures_at now d f \<Longrightarrow> now \<le> now' \<Longrightarrow> failures_at now' d f \<le> failures_at now d f"
  by (auto simp: failures_at_def redis_get_def redis_entry_def split: option.splits)

lemma failure_state_runs:
  assumes "no_redis_faults ev" "limiter_ok ev s" "limiter_keys p u = Inr (a, f)"
  obtains st where "limiter_FailureState True ev p u s = (Inr st, redis_called s (rd_data s))"
    "fs_Count st = failures_at (redis_now ev s) (rd_data s) f" "0 \<le> fs_Count st"
proof -
  let ?now = "redis_now ev s" and ?d = "rd_data s"
  have entry: "entry_ok ?now f (?d f)" using assms(2) by (simp add: limiter_ok_def)
  note S = failureStateScript_effect [where d = ?d, OF key_kinds(2) [OF assms(3)] entry]
  from S(2) obtain t where t: "fst (failureStateScript f 600000 ?now ?d) = Inr (if failures_at ?now ?d f = 0 then [RInt 0, RInt 0]
       else [RBulk (format_int (failures_at ?now ?d f)), RInt (t - ?now)])" "?now \<le> t" "t \<le> ?now + 600000"
    "0 \<le> failures_at ?now ?d f" "failures_at ?now ?d f \<le> max_int64" by blast
  have "parseRedisDecimal (format_int (failures_at ?now ?d f)) = Some (failures_at ?now ?d f)"
    using t(4,5) by (simp add: parseRedisDecimal_def format_int_def format_nat_digits)
  then have "\<exists>st. failure_state (projr (fst (failureStateScript f 600000 ?now ?d))) = Inr st \<and> fs_Count st = failures_at ?now ?d f"
    using t by (auto simp: failure_state_def redisInt64_def Let_def)
  then obtain st where st: "failure_state (projr (fst (failureStateScript f 600000 ?now ?d))) = Inr st"
    "fs_Count st = failures_at ?now ?d f" by blast
  have "limiter_FailureState True ev p u s = (Inr st, redis_called s ?d)"
    using st(1) t(1) S(1)
    by (simp add: limiter_FailureState_def assms(3) pure_result_bind evalFailure_def bind_def map_error_def catch_def
        redis_do_runs [OF assms(1)] pure_result_def)
  with that st(2) t(4) show thesis by simp
qed

lemma record_failure_runs:
  assumes "no_redis_faults ev" "limiter_ok ev s" "limiter_keys p u = Inr (a, f)"
    and small: "failures_at (redis_now ev s) (rd_data s) f < max_int64"
  obtains st t where "RecordFailure True ev p u s = (Inr st, redis_called s ((rd_data s)
      (f \<mapsto> (format_int (failures_at (redis_now ev s) (rd_data s) f + 1), Some t))))"
    "redis_now ev s \<le> t"
proof -
  let ?now = "redis_now ev s" and ?d = "rd_data s"
  have entry: "entry_ok ?now f (?d f)" using assms(2) by (simp add: limiter_ok_def)
  obtain t where t: "failureRecordScript f 600000 ?now ?d = (Inr [RBulk (format_int (failures_at ?now ?d f + 1)), RInt (t - ?now)],
      ?d(f \<mapsto> (format_int (failures_at ?now ?d f + 1), Some t)))" "?now \<le> t" "t \<le> ?now + 600000" "0 \<le> failures_at ?now ?d f"
    using failureRecordScript_effect [where d = ?d, OF key_kinds(2) [OF assms(3)] entry small] by metis
  have "parseRedisDecimal (format_int (failures_at ?now ?d f + 1)) = Some (failures_at ?now ?d f + 1)"
    using t(4) small by (simp add: parseRedisDecimal_def format_int_def format_nat_digits)
  then have "\<exists>st. failure_state [RBulk (format_int (failures_at ?now ?d f + 1)), RInt (t - ?now)] = Inr st"
    using t(2-4) small by (simp add: failure_state_def redisInt64_def Let_def)
  then obtain st where st: "failure_state [RBulk (format_int (failures_at ?now ?d f + 1)), RInt (t - ?now)] = Inr st" by blast
  have "RecordFailure True ev p u s = (Inr st, redis_called s (?d(f \<mapsto> (format_int (failures_at ?now ?d f + 1), Some t))))"
    using st t(1)
    by (simp add: RecordFailure_def assms(3) pure_result_bind evalFailure_def bind_def map_error_def catch_def
        redis_do_runs [OF assms(1)] pure_result_def)
  with that t(2) show thesis by blast
qed

lemma hex_text_owner:
  assumes "length bs = 16"
  shows "ownerPattern (hex_text bs)"
proof -
  have digit: "hex_digit (''0123456789abcdef'' ! nat k)" if "0 \<le> k" "k < 16" for k :: int
  proof -
    have "nat k < length ''0123456789abcdef''" using that by simp
    then have "''0123456789abcdef'' ! nat k \<in> set ''0123456789abcdef''" by (rule nth_mem)
    then show ?thesis by (simp add: hex_digit_def)
  qed
  have "length (hex_text bs) = 2 * length bs" for bs by (induction bs) (simp_all add: hex_text_def)
  moreover have "list_all hex_digit (hex_text bs)" for bs by (induction bs) (simp_all add: hex_text_def digit)
  ultimately show ?thesis using assms by (simp add: ownerPattern_def)
qed

text \<open>Releasing a lease whose lock is still there frees the key, and so does its expiry.\<close>

lemma release_runs:
  assumes "no_redis_faults ev" "validateAttemptLease lease = Inr ()" "rd_data s (le_Key lease) = Some (le_Owner lease, Some e)"
  shows "\<exists>r d. Release True ev lease s = (r, redis_called s d) \<and> (\<forall>key. key \<noteq> le_Key lease \<longrightarrow> d key = rd_data s key) \<and>
    (\<forall>now. redis_now ev s \<le> now \<longrightarrow> redis_entry now d (le_Key lease) = None)"
proof -
  let ?now = "redis_now ev s" and ?d = "rd_data s"
  obtain r0 d0 where script: "attemptReleaseScript (le_Key lease) (le_Owner lease) ?now ?d = (r0, d0)" by fastforce
  have d0: "(\<forall>key. key \<noteq> le_Key lease \<longrightarrow> d0 key = ?d key) \<and> (\<forall>now. ?now \<le> now \<longrightarrow> redis_entry now d0 (le_Key lease) = None)"
  proof (cases "?now \<le> e")
    case True
    then have "redis_entry ?now ?d (le_Key lease) = Some (le_Owner lease, Some e)" using assms(3) by (rule redis_entry_live [rotated])
    with script show ?thesis by (auto simp: attemptReleaseScript_def redis_get_def redis_del_def)
  next
    case False
    then have gone: "redis_entry now ?d (le_Key lease) = None" if "?now \<le> now" for now
      using assms(3) that by (simp add: redis_entry_def)
    with script have "d0 = ?d" by (simp add: attemptReleaseScript_def redis_get_def)
    with gone show ?thesis by simp
  qed
  have "\<exists>r. Release True ev lease s = (r, redis_called s d0)"
    using script by (cases r0) (auto simp: Release_def assms(2) pure_result_bind bind_def map_error_def catch_def throw_def
        ret_def redis_do_runs [OF assms(1)])
  with d0 show ?thesis by blast
qed

lemma redis_now_called: "mono (re_time ev) \<Longrightarrow> redis_now ev s \<le> redis_now ev (redis_called s d)"
  by (simp add: redis_now_def mono_def)

text \<open>Acquiring: the lock under a fresh owner, or nothing changes.\<close>

lemma acquire_runs:
  assumes "no_redis_faults ev" "limiter_keys p u = Inr (a, f)" "\<And>bs. bytes = Some bs \<Longrightarrow> length bs = 16"
    "Acquire True ev bytes p u s = (r, t)"
  shows "case r of
      Inr lease \<Rightarrow> le_Key lease = a \<and> validateAttemptLease lease = Inr () \<and> redis_entry (redis_now ev s) (rd_data s) a = None \<and>
        t = redis_called s ((rd_data s)(a \<mapsto> (le_Owner lease, Some (redis_now ev s + 15000))))
    | Inl err \<Rightarrow> rd_data t = rd_data s \<and> (redis_entry (redis_now ev s) (rd_data s) a = None \<longrightarrow> t = s)"
proof (cases r)
  case (Inr lease)
  then have "Returns (Acquire True ev bytes p u) s lease t" using assms(4) by (simp add: Returns_def)
  from Acquire_returns [OF this] assms(2) obtain bs where
    L: "bytes = Some bs" "le_Key lease = a" "le_Owner lease = hex_text bs" "le_Platform lease = trim_space p" "le_UserID lease = u"
    "redis_entry (redis_now ev s) (rd_data s) a = None"
    "t = redis_called s ((rd_data s)(a \<mapsto> (hex_text bs, Some (redis_now ev s + 15000))))" by auto
  have "limiter_keys (trim_space p) u = Inr (a, f)" using assms(2) by (simp add: limiter_keys_def)
  with L hex_text_owner [OF assms(3) [OF L(1)]] have "validateAttemptLease lease = Inr ()" by (simp add: validateAttemptLease_def)
  with L Inr show ?thesis by simp
next
  case (Inl err)
  show ?thesis
  proof (cases bytes)
    case None
    with assms Inl show ?thesis by (auto simp: Acquire_def pure_result_bind throw_def)
  next
    case (Some bs)
    with assms(2,4) Inl show ?thesis
      by (auto simp: Acquire_def pure_result_bind Let_def bind_def catch_def map_error_def throw_def ret_def acquire_cmd_def
          redis_set_nx_def pttl_cmd_def redis_do_runs [OF assms(1)] split: if_splits)
  qed
qed

section \<open>A redemption under a lease\<close>

text \<open>The Redis data before the attempt is \<open>d0\<close>, read from \<open>start\<close> on; \<open>lease\<close> holds the lock.\<close>

definition leased :: "redis_env \<Rightarrow> AttemptLease \<Rightarrow> string \<Rightarrow> redis_data \<Rightarrow> int \<Rightarrow> redis \<Rightarrow> bool" where
  "leased ev lease f d0 start s \<longleftrightarrow> limiter_ok ev s \<and> start \<le> redis_now ev s \<and> rd_data s f = d0 f \<and>
     (\<exists>e. rd_data s (le_Key lease) = Some (le_Owner lease, Some e))"

definition admitted :: "redis_env \<Rightarrow> AttemptLease \<Rightarrow> string \<Rightarrow> redis_data \<Rightarrow> int \<Rightarrow> redis \<Rightarrow> bool" where
  "admitted ev lease f d0 start s \<longleftrightarrow> leased ev lease f d0 start s \<and> failures_at (redis_now ev s) d0 f < failureLimit"

definition one_more :: "string \<Rightarrow> redis_data \<Rightarrow> int \<Rightarrow> redis_data \<Rightarrow> bool" where
  "one_more f d0 start d \<longleftrightarrow> (\<exists>now t. start \<le> now \<and> now \<le> t \<and> d f = Some (format_int (failures_at now d0 f + 1), Some t))"

definition locked_counted :: "AttemptLease \<Rightarrow> string \<Rightarrow> redis_data \<Rightarrow> int \<Rightarrow> redis \<Rightarrow> bool" where
  "locked_counted lease f d0 start s \<longleftrightarrow> one_more f d0 start (rd_data s) \<and>
     (\<exists>e. rd_data s (le_Key lease) = Some (le_Owner lease, Some e))"

text \<open>Afterwards: the lock is gone, and the counter is as the answer says.\<close>

definition returned :: "redis_env \<Rightarrow> string \<Rightarrow> string \<Rightarrow> redis_data \<Rightarrow> int \<Rightarrow> redeem_app_error + RedemptionResponse \<Rightarrow> redis \<Rightarrow> bool" where
  "returned ev a f d0 start r s \<longleftrightarrow> (\<forall>now. redis_now ev s \<le> now \<longrightarrow> redis_entry now (rd_data s) a = None) \<and>
     (counted_answer r \<longrightarrow> one_more f d0 start (rd_data s)) \<and> (uncounted_answer r \<longrightarrow> rd_data s f = d0 f)"

definition setting :: "service_env \<Rightarrow> string \<Rightarrow> int \<Rightarrow> string \<Rightarrow> string \<Rightarrow> AttemptLease \<Rightarrow> bool" where
  "setting ev p u a f lease \<longleftrightarrow> mono (re_time (se_redis ev)) \<and> no_redis_faults (se_redis ev) \<and> se_limiter ev \<and>
     limiter_keys p u = Inr (a, f) \<and> le_Key lease = a \<and> validateAttemptLease lease = Inr ()"

lemma setting_keys: "setting ev p u a f lease \<Longrightarrow> f \<noteq> a"
  using key_kinds [of p u a f] key_kinds_differ [of a] by (auto simp: setting_def)

lemma Release_leads:
  assumes "setting ev p u a f lease"
    and "\<And>s. P s \<Longrightarrow> \<exists>e. rd_data s a = Some (le_Owner lease, Some e)"
  shows "leads P (Release (se_limiter ev) (se_redis ev) lease)
    (\<lambda>_ s. (\<forall>now. redis_now (se_redis ev) s \<le> now \<longrightarrow> redis_entry now (rd_data s) a = None) \<and> (\<exists>s0. P s0 \<and> rd_data s f = rd_data s0 f))"
  unfolding leads_def
proof (intro allI impI)
  fix s assume P: "P s"
  from assms(1) have env: "mono (re_time (se_redis ev))" "no_redis_faults (se_redis ev)" "se_limiter ev"
    "validateAttemptLease lease = Inr ()" "le_Key lease = a" by (simp_all add: setting_def)
  from assms(2) [OF P] obtain e where "rd_data s (le_Key lease) = Some (le_Owner lease, Some e)" using env by auto
  from release_runs [OF env(2,4) this] obtain r d where run: "Release True (se_redis ev) lease s = (r, redis_called s d)"
    "\<forall>key. key \<noteq> a \<longrightarrow> d key = rd_data s key" "\<forall>now. redis_now (se_redis ev) s \<le> now \<longrightarrow> redis_entry now d a = None"
    using env by auto
  have "redis_entry now d a = None" if "redis_now (se_redis ev) (redis_called s d) \<le> now" for now
    using run(3) redis_now_called [OF env(1), of s d] that by (metis order_trans)
  with run(1,2) env(3) P setting_keys [OF assms(1)]
  show "(\<forall>now. redis_now (se_redis ev) (snd (Release (se_limiter ev) (se_redis ev) lease s)) \<le> now \<longrightarrow>
        redis_entry now (rd_data (snd (Release (se_limiter ev) (se_redis ev) lease s))) a = None) \<and>
    (\<exists>s0. P s0 \<and> rd_data (snd (Release (se_limiter ev) (se_redis ev) lease s)) f = rd_data s0 f)" by auto
qed

text \<open>Releasing before an answer, from a state that is leased or counted.\<close>

lemma release_then_uncounted:
  assumes "setting ev p u a f lease" "\<not> counted_answer (Inl err)"
  shows "leads (\<lambda>s. leased (se_redis ev) lease f d0 start (sv_redis s)) (release_then ev lease (throw err))
    (\<lambda>r s. returned (se_redis ev) a f d0 start r (sv_redis s))"
  unfolding release_then_def
proof (rule leads_either)
  show "leads (\<lambda>s. leased (se_redis ev) lease f d0 start (sv_redis s)) (on_redis (Release (se_limiter ev) (se_redis ev) lease))
    (\<lambda>_ s. (\<forall>now. redis_now (se_redis ev) (sv_redis s) \<le> now \<longrightarrow> redis_entry now (rd_data (sv_redis s)) a = None) \<and>
       (\<exists>s0. leased (se_redis ev) lease f d0 start s0 \<and> rd_data (sv_redis s) f = rd_data s0 f))"
    by (rule leads_on_redis, rule Release_leads [OF assms(1)]) (use assms(1) in \<open>auto simp: leased_def setting_def\<close>)
qed (rule leads_throw, use assms(2) in \<open>auto simp: returned_def leased_def\<close>)+

lemma release_then_counted:
  assumes "setting ev p u a f lease" "\<not> uncounted_answer (Inl err)"
  shows "leads (\<lambda>s. locked_counted lease f d0 start (sv_redis s)) (release_then ev lease (throw err))
    (\<lambda>r s. returned (se_redis ev) a f d0 start r (sv_redis s))"
  unfolding release_then_def
proof (rule leads_either)
  show "leads (\<lambda>s. locked_counted lease f d0 start (sv_redis s)) (on_redis (Release (se_limiter ev) (se_redis ev) lease))
    (\<lambda>_ s. (\<forall>now. redis_now (se_redis ev) (sv_redis s) \<le> now \<longrightarrow> redis_entry now (rd_data (sv_redis s)) a = None) \<and>
       (\<exists>s0. locked_counted lease f d0 start s0 \<and> rd_data (sv_redis s) f = rd_data s0 f))"
    by (rule leads_on_redis, rule Release_leads [OF assms(1)]) (use assms(1) in \<open>auto simp: locked_counted_def setting_def\<close>)
qed (rule leads_throw, use assms(2) in \<open>auto simp: returned_def locked_counted_def one_more_def\<close>)+

lemma mark_failure_leads:
  assumes "setting ev p u a f lease"
  shows "leads (\<lambda>s. admitted (se_redis ev) lease f d0 start (sv_redis s)) (mark_failure ev lease p u)
    (\<lambda>r s. r = Inr () \<and> locked_counted lease f d0 start (sv_redis s))"
  unfolding mark_failure_def
proof (rule leads_either)
  from assms have env: "mono (re_time (se_redis ev))" "no_redis_faults (se_redis ev)" "se_limiter ev"
    "limiter_keys p u = Inr (a, f)" "le_Key lease = a" by (simp_all add: setting_def)
  show "leads (\<lambda>s. admitted (se_redis ev) lease f d0 start (sv_redis s)) (on_redis (RecordFailure (se_limiter ev) (se_redis ev) p u))
    (\<lambda>r s. (\<exists>st. r = Inr st) \<and> locked_counted lease f d0 start (sv_redis s))"
  proof (rule leads_on_redis, unfold leads_def, intro allI impI)
    fix s assume P: "admitted (se_redis ev) lease f d0 start s"
    then have count: "failures_at (redis_now (se_redis ev) s) (rd_data s) f = failures_at (redis_now (se_redis ev) s) d0 f"
      by (intro failures_at_cong) (simp add: admitted_def leased_def)
    with P have "failures_at (redis_now (se_redis ev) s) (rd_data s) f < max_int64" "limiter_ok (se_redis ev) s"
      by (simp_all add: admitted_def leased_def failureLimit_def max_int64_def)
    from record_failure_runs [OF env(2) this(2) env(4) this(1)] obtain st t where
      run: "RecordFailure True (se_redis ev) p u s = (Inr st, redis_called s ((rd_data s)(f \<mapsto>
        (format_int (failures_at (redis_now (se_redis ev) s) d0 f + 1), Some t))))" "redis_now (se_redis ev) s \<le> t"
      unfolding count by blast
    moreover from P obtain e where "rd_data s a = Some (le_Owner lease, Some e)" "start \<le> redis_now (se_redis ev) s"
      using env(5) by (auto simp: admitted_def leased_def)
    ultimately show "(\<exists>st. fst (RecordFailure (se_limiter ev) (se_redis ev) p u s) = Inr st) \<and>
        locked_counted lease f d0 start (snd (RecordFailure (se_limiter ev) (se_redis ev) p u s))"
      using env(3,5) setting_keys [OF assms] by (auto simp: locked_counted_def one_more_def)
  qed
qed (auto simp: leads_def ret_def)

lemma admitted_leased: "admitted ev lease f d0 start s \<Longrightarrow> leased ev lease f d0 start s"
  by (simp add: admitted_def)

lemma redeem_failed_leads:
  assumes "setting ev p u a f lease"
  shows "leads (\<lambda>s. admitted (se_redis ev) lease f d0 start (sv_redis s)) (redeem_failed ev lease p u err elapsed)
    (\<lambda>r s. returned (se_redis ev) a f d0 start r (sv_redis s))"
  unfolding redeem_failed_def Let_def
proof (rule leads_bind [OF leads_record_events])
  fix x
  let ?err = "snd (redeem_failure err elapsed)"
  show "leads (\<lambda>s. admitted (se_redis ev) lease f d0 start (sv_redis s) \<and> Inr x = Inr ())
      (bind (if ae_Code ?err = ErrorWalletUnavailable then mark_failure ev lease p u else ret ()) (\<lambda>_. release_then ev lease (throw ?err)))
      (\<lambda>r s. returned (se_redis ev) a f d0 start r (sv_redis s))"
  proof (cases "?err = walletUnavailable")
    case True
    show ?thesis unfolding True
      by (simp, rule leads_bind [OF mark_failure_leads [OF assms]]) (simp, rule leads_mono [OF release_then_counted [OF assms]], simp_all)
  next
    case False
    then have "\<not> counted_answer (Inl ?err)" "ae_Code ?err \<noteq> ErrorWalletUnavailable"
      using wallet_codes_differ by (auto simp: redeem_failure_def is_unavailable_def split: if_splits)
    then show ?thesis
      by (simp add: ret_bind, intro leads_mono [OF release_then_uncounted [OF assms]]) (simp_all add: admitted_leased)
  qed
qed simp

lemma redeem_succeeded_leads:
  assumes "setting ev p u a f lease"
  shows "leads (\<lambda>s. leased (se_redis ev) lease f d0 start (sv_redis s)) (redeem_succeeded ev lease u rf elapsed :: ('y, RedemptionResponse) service_act)
    (\<lambda>r s. returned (se_redis ev) a f d0 start r (sv_redis s))"
proof -
  let ?P = "\<lambda>s :: 'y redeem_tables_scheme service_world. leased (se_redis ev) lease f d0 start (sv_redis s)" and ?Q = "\<lambda>r s. returned (se_redis ev) a f d0 start r (sv_redis s)"
  have reject: "leads ?P (bind (record_events es) (\<lambda>_. release_then ev lease (throw (walletIntegrity c)))) ?Q" for es c
    by (rule leads_bind [OF leads_record_events]) (simp_all, rule leads_mono [OF release_then_uncounted [OF assms]], simp_all)
  have accept: "leads ?P (either (on_redis (Release (se_limiter ev) (se_redis ev) lease))
      (\<lambda>_. bind (record_events [cleanup_warning]) (\<lambda>_. ret response)) (\<lambda>_. ret response)) ?Q" for response
  proof (rule leads_either)
    let ?R = "\<lambda>_ s. (\<forall>now. redis_now (se_redis ev) (sv_redis s) \<le> now \<longrightarrow> redis_entry now (rd_data (sv_redis s)) a = None) \<and>
         (\<exists>s0. leased (se_redis ev) lease f d0 start s0 \<and> rd_data (sv_redis s) f = rd_data s0 f)"
    show "leads ?P (on_redis (Release (se_limiter ev) (se_redis ev) lease)) ?R"
      by (rule leads_on_redis, rule Release_leads [OF assms(1)]) (use assms(1) in \<open>auto simp: leased_def setting_def\<close>)
    show "leads (?R (Inr x)) (ret response) ?Q" for x by (rule leads_ret) (auto simp: returned_def leased_def)
    show "leads (?R (Inl e)) (bind (record_events [cleanup_warning]) (\<lambda>_. ret response)) ?Q" for e
      by (auto simp: leads_def bind_def record_events_def ret_def returned_def leased_def)
  qed
  show ?thesis
  proof (cases "validRedemptionFact rf u")
    case False
    then show ?thesis by (simp add: redeem_succeeded_def reject)
  next
    case True
    have "leads ?P (case redemptionResponse rf of
        Inl e \<Rightarrow> bind (record_events es) (\<lambda>_. release_then ev lease (throw (walletIntegrity (Some (FactCause e)))))
      | Inr response \<Rightarrow> either (on_redis (Release (se_limiter ev) (se_redis ev) lease))
          (\<lambda>_. bind (record_events [cleanup_warning]) (\<lambda>_. ret response)) (\<lambda>_. ret response)) ?Q" for es
      using reject accept by (simp split: sum.split)
    note step = leads_mono [OF this]
    have "\<not> \<not> validRedemptionFact rf u" using True by simp
    then show ?thesis
      unfolding redeem_succeeded_def
      by (subst if_not_P, assumption, intro leads_bind [OF leads_record_events]) (simp, rule step, simp_all)
  qed
qed

lemma later_admitted:
  assumes "mono (re_time ev)" "leased ev lease f d0 start s" "failures_at (redis_now ev s) d0 f < failureLimit" "0 \<le> failures_at (redis_now ev s) d0 f"
  shows "admitted ev lease f d0 start (redis_called s (rd_data s))"
proof -
  note later = redis_now_called [OF assms(1), of s "rd_data s"]
  have "limiter_ok ev (redis_called s (rd_data s))"
    by (rule limiter_ok_called [OF assms(1)]) (use assms(2) in \<open>simp_all add: leased_def\<close>)
  moreover have "failures_at (redis_now ev (redis_called s (rd_data s))) d0 f < failureLimit"
    using failures_at_later [OF assms(4) later] assms(3) by linarith
  ultimately show ?thesis using assms(2) later by (simp add: admitted_def leased_def)
qed

lemma redeem_leased_leads:
  assumes "setting ev p u a f lease"
  shows "leads (\<lambda>s. admitted (se_redis ev) lease f d0 start (sv_redis s)) (redeem_leased ev lease u p raw :: ('y, RedemptionResponse) service_act)
    (\<lambda>r s. returned (se_redis ev) a f d0 start r (sv_redis s))"
proof -
  let ?P = "\<lambda>s :: 'y redeem_tables_scheme service_world. admitted (se_redis ev) lease f d0 start (sv_redis s)" and ?Q = "\<lambda>r s. returned (se_redis ev) a f d0 start r (sv_redis s)"
  have counted: "leads ?P (bind (mark_failure ev lease p u) (\<lambda>_. release_then ev lease (throw e))) ?Q"
    if "\<not> uncounted_answer (Inl e)" for e
    by (rule leads_bind [OF mark_failure_leads [OF assms]]) (simp, rule leads_mono [OF release_then_counted [OF assms that]], simp_all)
  have missing: "leads ?P (release_then ev lease (throw (walletDependency None))) ?Q"
    by (rule leads_mono [OF release_then_uncounted [OF assms]]) (simp_all add: admitted_leased)
  have malformed: "leads ?P (bind (record_events es) (\<lambda>_. bind (mark_failure ev lease p u) (\<lambda>_. release_then ev lease (throw walletUnavailable)))) ?Q" for es
    by (rule leads_bind [OF leads_record_events]) (simp_all, rule leads_mono [OF counted], simp_all)
  have db: "leads ?P (bind (on_db m) k) ?Q" if "\<And>x. leads ?P (k x) ?Q" "\<And>e s. fst (m s) \<noteq> Inl e" for m :: "(_, _, 'c) act" and k
    unfolding leads_def bind_def on_db_def using that by (auto simp: leads_def Let_def split: prod.splits sum.splits) (metis fst_conv)
  have clock: "fst (read_clock x s) \<noteq> Inl e" for x s e by (simp add: read_clock_def)
  have attempted: "leads ?P (redeem_attempted ev lease u p code) ?Q" for code
    unfolding redeem_attempted_def
    by (intro db leads_either [OF leads_on_db] clock redeem_failed_leads [OF assms] leads_mono [OF redeem_succeeded_leads [OF assms]])
      (simp_all add: admitted_leased)
  show ?thesis
    unfolding redeem_leased_def
    using missing counted [of walletCodeRequired, simplified] malformed attempted by (auto split: sum.split)
qed

text \<open>The whole call, from a free lock.\<close>

lemma redeemLimited_returns:
  assumes env: "mono (re_time (se_redis ev))" "no_redis_faults (se_redis ev)" "se_limiter ev"
    and owners: "\<And>k bs. se_owners ev k = Some bs \<Longrightarrow> length bs = 16" and keys: "limiter_keys p u = Inr (a, f)"
    and ok: "limiter_ok (se_redis ev) (sv_redis s)" and free: "redis_entry (redis_now (se_redis ev) (sv_redis s)) (rd_data (sv_redis s)) a = None"
    and run: "redeemLimited ev u p raw s = (r, t)"
  shows "returned (se_redis ev) a f (rd_data (sv_redis s)) (redis_now (se_redis ev) (sv_redis s)) r (sv_redis t)"
proof -
  let ?R = "se_redis ev" and ?d0 = "rd_data (sv_redis s)" and ?start = "redis_now (se_redis ev) (sv_redis s)"
  obtain ra d where acq: "Acquire True ?R (se_owners ev (sv_leases s)) p u (sv_redis s) = (ra, d)" by fastforce
  note A = acquire_runs [OF env(2) keys owners acq]
  let ?s1 = "s\<lparr>sv_redis := d, sv_leases := Suc (sv_leases s)\<rparr>"
  have acquired: "limiter_acquire ev p u s = (ra, ?s1)" using acq env(3) by (simp add: limiter_acquire_def)
  show ?thesis
  proof (cases ra)
    case (Inl err)
    with A free have "d = sv_redis s" by simp
    with Inl run obtain e where "r = Inl e" "\<not> counted_answer (Inl e)" "sv_redis t = sv_redis s"
      by (cases err) (auto simp: redeemLimited_def either_def acquired throw_def)
    then show ?thesis using free by (auto simp: returned_def redis_entry_def split: option.splits if_splits)
  next
    case (Inr lease)
    with A have L: "le_Key lease = a" "validateAttemptLease lease = Inr ()"
      and d: "d = redis_called (sv_redis s) (?d0(a \<mapsto> (le_Owner lease, Some (?start + 15000))))" by simp_all
    have set: "setting ev p u a f lease" using env keys L by (simp add: setting_def)
    note fa = setting_keys [OF set]
    have start: "?start \<le> redis_now ?R d" unfolding d by (rule redis_now_called [OF env(1)])
    have "limiter_ok ?R d" unfolding d
      by (rule limiter_ok_called [OF env(1) ok]) (simp add: entry_ok_lock [OF key_kinds(1) [OF keys]])
    then have leased: "leased ?R lease f ?d0 ?start d" using start fa L(1) by (simp add: leased_def d)
    from failure_state_runs [OF env(2) \<open>limiter_ok ?R d\<close> keys] obtain st where
      st: "limiter_FailureState True ?R p u d = (Inr st, redis_called d (rd_data d))"
      "fs_Count st = failures_at (redis_now ?R d) (rd_data d) f" "0 \<le> fs_Count st" by blast
    have count: "fs_Count st = failures_at (redis_now ?R d) ?d0 f"
      unfolding st(2) using fa by (intro failures_at_cong) (simp add: d)
    let ?s2 = "?s1\<lparr>sv_redis := redis_called d (rd_data d)\<rparr>"
    have cont: "redeemLimited ev u p raw s = (if failureLimit \<le> fs_Count st then release_then ev lease (throw (walletRateLimited (failureRetryAfter st)))
        else redeem_leased ev lease u p raw) ?s2"
      using st(1) env(3) by (simp add: redeemLimited_def either_def acquired Inr on_redis_def)
    show ?thesis
    proof (cases "failureLimit \<le> fs_Count st")
      case True
      have "leased ?R lease f ?d0 ?start (redis_called d (rd_data d))"
        using leased redis_now_called [OF env(1), of d "rd_data d"] limiter_ok_called [OF env(1), of d "rd_data d"] by (simp add: leased_def)
      with leadsD [OF release_then_uncounted [OF set, of "walletRateLimited (failureRetryAfter st)"], of _ _ ?s2 r t] cont run True
      show ?thesis by simp
    next
      case False
      with later_admitted [OF env(1) leased] count st(3) have "admitted ?R lease f ?d0 ?start (redis_called d (rd_data d))" by simp
      with leadsD [OF redeem_leased_leads [OF set], of _ _ ?s2 raw r t] cont run False show ?thesis by simp
    qed
  qed
qed

end
