(* ===== verification/RedeemFacts.thy ===== *)
theory RedeemFacts
  imports RedeemServiceLaws WalletServiceProps
begin

text \<open>
  What a redemption reports can always be shown: the fact the repository returns passes the checks
  of the service, and its amounts are texts of the account.
\<close>

section \<open>The wallet a credit returns\<close>

definition wallet_shown :: "Wallet \<Rightarrow> bool" where
  "wallet_shown w \<longleftrightarrow> 0 \<le> w_HeldUnits w \<and> w_HeldUnits w \<le> w_BalanceUnits w \<and> w_BalanceUnits w \<le> max_int64 \<and>
     0 \<le> w_TotalRechargeUnits w \<and> w_TotalRechargeUnits w \<le> max_int64 \<and>
     0 \<le> w_TotalConsumeUnits w \<and> w_TotalConsumeUnits w \<le> max_int64"

lemma wallet_shown_stored:
  assumes "wallet_inv D" "w \<in> set (wallets D)"
  shows "wallet_shown w"
  using wallet_numbers [OF assms] by (auto simp: wallet_shown_def)

lemma credited_wallet_shown:
  assumes ok: "wallet_state_ok s" and le: "rc_AmountUnits i \<le> max_int64"
    and run: "Returns (CreditRedeemCodeWithIdentityInTx configured ev tx i idn) s (w, x) t"
  shows "wallet_shown w"
proof -
  let ?i = "normalizeRedeemCodeCreditInput i"
  have a: "rc_AmountUnits ?i \<le> max_int64" using le by (simp add: normalizeRedeemCodeCreditInput_def)
  from run obtain s1 wallet s2 where pos: "0 < rc_UserID ?i" "0 < rc_AmountUnits ?i"
    and s1: "Returns (findRedeemCodeSourceFact ev (rc_CodeID ?i)) s None s1"
    and s2: "Returns (lockOrCreateRedeemCodeWalletForUpdate ev (rc_UserID ?i)) s1 wallet s2"
    and rest: "Returns (redeem_credit ev wallet ?i idn) s2 (w, x) t"
    by (auto simp: CreditRedeemCodeWithIdentityInTx_def Let_def identity_matchesInput_def act_simps
        split: option.splits if_splits)
  have "wallet_state_ok s1"
    using same_tables_ok [OF findRedeemCodeSourceFact_effect(1) [OF s1]] ok by simp
  then have W: "wallet_state_ok s2" "opened (rc_UserID ?i) wallet (tables s1) (tables s2)"
    using lockOrCreateRedeemCode_effect [OF _ pos(1) s2] by simp_all
  then have "wallet \<in> set (wallets (tables s2))" by (simp add: opened_def)
  note N = wallet_numbers [OF wallet_state_okD(1) [OF W(1)] this]
  from rest have fits: "w_BalanceUnits wallet + rc_AmountUnits ?i \<le> max_int64" "w_TotalRechargeUnits wallet + rc_AmountUnits ?i \<le> max_int64"
    and w: "w = wallet\<lparr>w_BalanceUnits := add64 (w_BalanceUnits wallet) (rc_AmountUnits ?i),
      w_TotalRechargeUnits := add64 (w_TotalRechargeUnits wallet) (rc_AmountUnits ?i)\<rparr>"
    using pos(2) a by (auto simp: redeem_credit_def Let_def act_simps split: if_splits)
  have "add64 (w_BalanceUnits wallet) (rc_AmountUnits ?i) = w_BalanceUnits wallet + rc_AmountUnits ?i"
    "add64 (w_TotalRechargeUnits wallet) (rc_AmountUnits ?i) = w_TotalRechargeUnits wallet + rc_AmountUnits ?i"
    using N pos(2) fits by (simp_all add: add64_id)
  with N fits pos(2) show ?thesis by (auto simp: wallet_shown_def w)
qed

section \<open>The fact\<close>

definition presentable :: "int \<Rightarrow> RedemptionFact \<Rightarrow> int \<Rightarrow> bool" where
  "presentable u rf balance \<longleftrightarrow> (\<exists>w x b c units. rf = \<lparr>fact_AmountCents = b_AmountCents b, fact_AmountUnits = units,
      fact_Transaction = Some x, fact_Wallet = Some w, fact_Replayed = fact_Replayed rf\<rparr> \<and>
     validWalletRedemptionFacts (Some (w, x)) units b c u \<and> 0 < b_AmountCents b \<and> 0 < units \<and> units \<le> max_int64 \<and> 0 < c_ID c \<and>
     wallet_shown w \<and> w_BalanceUnits w = balance)"

lemma findCodeForUpdate_id: "Returns (findCodeForUpdate ev code) s (Some c) t \<Longrightarrow> 0 < c_ID c"
  by (auto simp: findCodeForUpdate_def act_simps split: if_splits)

lemma redeem_lookup_id: "Returns (redeem_lookup ev code) s (c, b, units) t \<Longrightarrow> 0 < c_ID c"
proof -
  assume "Returns (redeem_lookup ev code) s (c, b, units) t"
  then obtain found s1 where f: "Returns (findCodeForUpdate ev code) s found s1"
    and "found = Some c" unfolding redeem_lookup_def
    by (auto simp: act_simps split: option.splits sum.splits) (metis sum.exhaust)
  then show "0 < c_ID c" using findCodeForUpdate_id by simp
qed

lemma found_pair:
  assumes "wallet_state_ok s" "Returns (wallet_find ev i) s (Some (w, x)) t"
  shows "wallet_shown w \<and> w_BalanceUnits w = user_funds (tables s) (w_UserID w)"
proof -
  from assms(2) have "w \<in> set (wallets (tables s))"
    unfolding wallet_find_def by (simp add: FindRedeemCodeCredit_effect(3))
  with wallet_shown_stored [OF wallet_state_okD(1) [OF assms(1)]] account_of_wallet(1) [OF wallet_state_okD(1) [OF assms(1)]]
  show ?thesis by (simp add: user_funds_def)
qed

lemma credited_pair:
  assumes "wallet_state_ok s" "rc_AmountUnits i \<le> max_int64" "identity_numbered idn"
    "Returns (wallet_credit ev i idn) s r t"
  shows "\<exists>w x. r = Some (w, x) \<and> wallet_shown w \<and> w_BalanceUnits w = user_funds (tables t) (rc_UserID i)"
proof -
  from assms(4) obtain w x where run: "Returns (CreditRedeemCodeWithIdentityInTx True ev open_tx i idn) s (w, x) t" "r = Some (w, x)"
    by (auto simp: wallet_credit_def act_simps)
  with credited_wallet_shown [OF assms(1,2) run(1)] CreditRedeemCodeWithIdentity_effect [OF assms(1-3) run(1)]
  show ?thesis by (simp add: user_funds_def)
qed

lemma attempt_presentable:
  assumes ok: "redeem_state_ok s" and idn: "identity_numbered idn"
    and run: "Returns (redeem_attempt ev wallet_find wallet_credit u code idn) s (res, idn') t"
  shows "presentable u res (user_funds (tables t) u)"
proof -
  from run obtain c b units s1 where look: "Returns (redeem_lookup ev code) s (c, b, units) s1"
    and rest: "Returns (if c_State c = StateUsed then
       bind (map_error (\<lambda>e. (e, idn)) (redeem_replay ev wallet_find u c b units)) (\<lambda>fact. ret (fact, idn))
     else if c_State c = StateVoided then throw (ErrUnavailable, idn)
     else if c_State c = StateUnused then
       (if c_UsedBy c \<noteq> None \<or> c_UsedAt c \<noteq> None then throw (ErrIntegrityViolation, idn)
        else redeem_unused ev wallet_credit u c b units idn)
     else throw (ErrIntegrityViolation, idn)) s1 (res, idn') t"
    unfolding redeem_attempt_def by (auto simp: act_simps)
  note L = redeem_lookup_effect [OF look]
  then have D: "tables s1 = tables s" "auto_inc s1 = auto_inc s"
    and units: "units = b_AmountCents b * UnitsPerCent" and b: "validImmutableBatch b" by (simp_all add: same_tables_def)
  from valid_amount [OF b] b have amount: "0 < b_AmountCents b" "0 < units" "units \<le> max_int64"
    by (simp_all add: units validImmutableBatch_def UnitsPerCent_def)
  note id = redeem_lookup_id [OF look]
  have ok1: "redeem_state_ok s1" using wallet_redeem.redeem_ok_same [OF ok D(1)] D(2) by simp
  show ?thesis
  proof (cases "c_State c = StateUsed")
    case True
    with rest have "Returns (redeem_replay ev wallet_find u c b units) s1 res t" by (auto simp: act_simps)
    then obtain found where F: "Returns (wallet_find ev (c_ID c)) s1 found t" "validWalletRedemptionFacts found units b c u"
      "res = redemption_fact b units found True" by (auto simp: redeem_replay_def act_simps)
    then obtain w x where wx: "found = Some (w, x)" by (cases found) (auto simp: validWalletRedemptionFacts_def)
    have "w_UserID w = u" using F(2) by (auto simp: wx validWalletRedemptionFacts_def split: if_splits)
    with found_pair [OF redeem_state_okD(1) [OF ok1] F(1) [unfolded wx]] wallet_redeem.find_reads [OF F(1)]
    have "wallet_shown w" "w_BalanceUnits w = user_funds (tables t) u" by (simp_all add: same_tables_def)
    with F(2,3) wx amount id show ?thesis unfolding presentable_def
      by (intro exI [of _ w] exI [of _ x] exI [of _ b] exI [of _ c] exI [of _ units]) (simp add: redemption_fact_def)
  next
    case False
    with rest have run2: "Returns (redeem_unused ev wallet_credit u c b units idn) s1 (res, idn') t"
      by (auto simp: act_simps split: if_splits)
    let ?now = "truncate_us (ev_now ev (clock_no s1))"
    let ?i = "\<lparr>rc_UserID = u, rc_CodeID = c_ID c, rc_AmountUnits = units, rc_BatchNo = b_BatchNo b\<rparr>"
    from run2 obtain j s2 where
      j: "Returns ((case idn of None \<Rightarrow> bind (NewRedeemCodeCreditIdentity ev ?i ?now) (\<lambda>i. ret (Some i))
          | Some i \<Rightarrow> ret (Some i)) :: (redeem_error \<times> identity_state, 'a redeem_tables_scheme world, identity_state) act) (ticked s1) j s2"
      and book: "Returns (redeem_book ev wallet_credit u c b units ?i j ?now) s2 res t"
      unfolding redeem_unused_def Let_def by (auto simp: act_simps split: if_splits)
    note J = chosen_identity_effect [OF idn j]
    have D2: "tables s2 = tables s" "auto_inc s2 = auto_inc s" using J(1) D by (simp_all add: same_tables_def)
    have ok2: "wallet_state_ok s2" using wallet_redeem.redeem_ok_same [OF ok D2(1)] D2(2) by (simp add: redeem_state_okD(1))
    from book obtain r s3 h where r: "Returns (wallet_credit ev ?i j) s2 r s3" "validWalletRedemptionFacts r units b c u"
      "res = redemption_fact b units r False" "tables t = codes_update h (tables s3)" "auto_inc t = auto_inc s3"
      unfolding redeem_book_def by (auto simp: act_simps split: if_splits)
    have "rc_AmountUnits ?i \<le> max_int64" using amount by simp
    from credited_pair [OF ok2 this J(2) r(1)] obtain w x where
      wx: "r = Some (w, x)" "wallet_shown w" "w_BalanceUnits w = user_funds (tables s3) u" by auto
    have "wallet_state_ok s3" using wallet_redeem.credit_books [OF ok2 _ J(2) r(1)] amount by simp
    from wallet_redeem.other_tables [OF this, of t "\<lambda>x. x" h] r(4,5) have "user_funds (tables t) = user_funds (tables s3)" by simp
    with r(2,3) wx amount id show ?thesis unfolding presentable_def
      by (intro exI [of _ w] exI [of _ x] exI [of _ b] exI [of _ c] exI [of _ units]) (simp add: redemption_fact_def)
  qed
qed

lemma Redeem_presentable:
  assumes ok: "redeem_state_ok s" and run: "Returns (Redeem ev u code) s res t"
  shows "presentable u res (user_funds (tables t) u)"
proof -
  have "Returns (withTransactionRetry ev (redeem_attempt ev wallet_find wallet_credit u code) None) s res t"
    using run by (auto simp: Redeem_def Redeem_with_def act_simps split: if_splits)
  moreover have "identity_numbered None" by (simp add: identity_numbered_def)
  ultimately obtain i j s0 t0 where i: "identity_numbered i" and s0: "tables s0 = tables s" "auto_inc s \<le> auto_inc s0"
    and run0: "Returns (redeem_attempt ev wallet_find wallet_credit u code i) s0 (res, j) t0" and t0: "same_tables t0 t"
    using withTransactionRetry_effect [of identity_numbered None ev "redeem_attempt ev wallet_find wallet_credit u code" s res t]
      wallet_redeem.grows_redeem_attempt attempt_identity [of _ ev wallet_find wallet_credit u code] by blast
  from attempt_presentable [OF wallet_redeem.redeem_ok_same [OF ok s0] i run0] t0 show ?thesis by (simp add: same_tables_def)
qed

section \<open>What the service makes of it\<close>

lemma presentable_valid: "presentable u rf balance \<Longrightarrow> validRedemptionFact rf u"
proof -
  assume "presentable u rf balance"
  then obtain w x b c units r where "rf = \<lparr>fact_AmountCents = b_AmountCents b, fact_AmountUnits = units,
      fact_Transaction = Some x, fact_Wallet = Some w, fact_Replayed = r\<rparr>"
    "validWalletRedemptionFacts (Some (w, x)) units b c u" "0 < b_AmountCents b" "0 < units" "0 < c_ID c"
    unfolding presentable_def by blast
  then show "validRedemptionFact rf u"
    by (auto simp: validRedemptionFact_def validWalletRedemptionFacts_def Let_def split: if_splits)
qed

lemma presentable_response:
  assumes "presentable u rf balance"
  shows "\<exists>r. redemptionResponse rf = Inr r \<and> rr_Replayed r = fact_Replayed rf \<and>
    ParseRMBUnits (rr_Amount r) = Inr (fact_AmountUnits rf) \<and> ParseRMBUnits (ti_Amount (rr_Transaction r)) = Inr (fact_AmountUnits rf) \<and>
    ti_UserID (rr_Transaction r) = u \<and> ParseRMBUnits (sr_Balance (rr_Wallet r)) = Inr balance"
proof -
  from assms obtain w x b c units where rf: "rf = \<lparr>fact_AmountCents = b_AmountCents b, fact_AmountUnits = units,
      fact_Transaction = Some x, fact_Wallet = Some w, fact_Replayed = fact_Replayed rf\<rparr>"
    and valid: "validWalletRedemptionFacts (Some (w, x)) units b c u" and units: "0 < units" "units \<le> max_int64"
    and w: "wallet_shown w" "w_BalanceUnits w = balance" unfolding presentable_def by blast
  from valid have x: "t_AmountUnits x = units" "t_UserID x = u" "0 \<le> t_BalanceBeforeUnits x"
    "t_BalanceBeforeUnits x \<le> sub64 max_int64 units" "add64 (t_BalanceBeforeUnits x) units = t_BalanceAfterUnits x"
    by (auto simp: validWalletRedemptionFacts_def split: if_splits)
  then have after: "t_BalanceAfterUnits x = t_BalanceBeforeUnits x + units" "t_BalanceBeforeUnits x + units \<le> max_int64"
    using units by (simp_all add: add64_id)
  have avail: "sub64 (w_BalanceUnits w) (w_HeldUnits w) = w_BalanceUnits w - w_HeldUnits w" "\<not> w_BalanceUnits w < w_HeldUnits w"
    using w(1) by (auto simp: wallet_shown_def intro!: sub64_nonneg)
  note F = formatUnits_returns
  have bounds: "t_BalanceBeforeUnits x \<le> max_int64" "0 \<le> t_BalanceAfterUnits x" "t_BalanceAfterUnits x \<le> max_int64"
    "0 \<le> w_BalanceUnits w" "0 \<le> w_BalanceUnits w - w_HeldUnits w" "w_BalanceUnits w - w_HeldUnits w \<le> max_int64" "w_HeldUnits w \<le> max_int64"
    using units x(3) after w(1) by (auto simp: wallet_shown_def)
  obtain s1 where f1: "formatUnits units = Inr s1" using F [of units] units by auto
  obtain s2 where f2: "formatUnits (t_BalanceBeforeUnits x) = Inr s2" using F [of "t_BalanceBeforeUnits x"] x(3) bounds by auto
  obtain s3 where f3: "formatUnits (t_BalanceAfterUnits x) = Inr s3" using F [of "t_BalanceAfterUnits x"] bounds by auto
  obtain s4 where f4: "formatUnits (w_BalanceUnits w) = Inr s4" using F [of "w_BalanceUnits w"] bounds w(1) by (auto simp: wallet_shown_def)
  obtain s5 where f5: "formatUnits (w_TotalRechargeUnits w) = Inr s5" using F [of "w_TotalRechargeUnits w"] w(1) by (auto simp: wallet_shown_def)
  obtain s6 where f6: "formatUnits (w_TotalConsumeUnits w) = Inr s6" using F [of "w_TotalConsumeUnits w"] w(1) by (auto simp: wallet_shown_def)
  obtain s7 where f7: "formatUnits (w_BalanceUnits w - w_HeldUnits w) = Inr s7" using F [of "w_BalanceUnits w - w_HeldUnits w"] bounds by auto
  obtain s8 where f8: "formatUnits (w_HeldUnits w) = Inr s8" using F [of "w_HeldUnits w"] bounds w(1) by (auto simp: wallet_shown_def)
  note f = f1 f2 f3 f4 f5 f6 f7 f8
  have "ParseRMBUnits s1 = Inr units" "ParseRMBUnits s4 = Inr balance"
    using formatUnits_parses [OF f1] formatUnits_parses [OF f4] units w by (simp_all add: wallet_shown_def)
  moreover have parts: "fact_AmountUnits rf = units" "fact_Transaction rf = Some x" "fact_Wallet rf = Some w"
    by (subst rf, simp)+
  ultimately show ?thesis
    using f x(1,2) units(1) avail by (simp add: parts redemptionResponse_def Let_def)
qed

end
