(* ===== verification/PaymentModel.thy ===== *)
theory PaymentModel
  imports RedeemHistory Utf8
begin

text \<open>
  The data of \<open>internal/module/payment\<close>: orders, recharges, recharge packages, configurations and
  callback events (order_model.go, recharge_model.go, package_model.go, model.go, callback_model.go)
  as tables beside those of the wallet and the redeem codes, the statuses and the transitions a
  statement may make, and the errors (errors.go).

  The code names no unique key of these tables but that of the callback events: a violated one is
  one of the errors the environment may let an INSERT fail with.
\<close>

section \<open>Rows\<close>

record Order =
  o_ID :: int
  o_OrderNo :: string
  o_ConfigID :: int
  o_ConfigCode :: string
  o_Provider :: string
  o_PayMethod :: string
  o_Subject :: string
  o_AmountCents :: int
  o_Status :: string
  o_PayURL :: string
  o_ReturnURL :: string
  o_AlipayTradeNo :: string
  o_AlipayTradeNoIdentity :: "string option"
  o_ExpiredAt :: gotime
  o_PaidAt :: "gotime option"
  o_ClosedAt :: "gotime option"
  o_FailureReason :: string
  o_IsDel :: int
  o_CreatedAt :: gotime
  o_UpdatedAt :: gotime

record Recharge =
  r_ID :: int
  r_RechargeNo :: string
  r_UserID :: int
  r_PackageCode :: string
  r_PackageName :: string
  r_AmountCents :: int
  r_PaymentOrderID :: int
  r_Status :: string
  r_PaidAt :: "gotime option"
  r_CreditedAt :: "gotime option"
  r_FailureReason :: string
  r_IsDel :: int
  r_CreatedAt :: gotime
  r_UpdatedAt :: gotime

record RechargeWithOrder =
  ro_Recharge :: Recharge
  ro_PaymentOrderNo :: string
  ro_PayURL :: string
  ro_OrderStatus :: string
  ro_AlipayTradeNo :: string
  ro_OrderPaidAt :: "gotime option"

record RechargePackage =
  p_ID :: int
  p_Code :: string
  p_Name :: string
  p_AmountCents :: int
  p_Badge :: string
  p_Sort :: int
  p_Status :: int
  p_IsDel :: int
  p_CreatedAt :: gotime
  p_UpdatedAt :: gotime

record Config =
  cf_ID :: int
  cf_Provider :: string
  cf_Code :: string
  cf_Name :: string
  cf_AppID :: string
  cf_PrivateKeyEnc :: string
  cf_PrivateKeyHint :: string
  cf_AppCertPath :: string
  cf_PlatformCertPath :: string
  cf_RootCertPath :: string
  cf_NotifyURL :: string
  cf_Environment :: string
  cf_EnabledMethodsJSON :: string
  cf_Sort :: int
  cf_Status :: int
  cf_Remark :: string
  cf_IsDel :: int
  cf_CreatedAt :: gotime
  cf_UpdatedAt :: gotime

record CallbackEvent =
  e_ID :: int
  e_Provider :: string
  e_DedupeKey :: string
  e_NotifyID :: string
  e_OutTradeNo :: string
  e_TradeNo :: string
  e_TradeStatus :: string
  e_AppID :: string
  e_TotalAmountCents :: int
  e_SignatureValid :: int
  e_ProcessStatus :: string
  e_ProcessMessage :: string
  e_RawPayloadJSON :: string
  e_ReceivedAt :: gotime
  e_ProcessedAt :: "gotime option"
  e_IsDel :: int
  e_CreatedAt :: gotime
  e_UpdatedAt :: gotime

record payment_tables = redeem_tables +
  pay_orders :: "Order list"
  recharges :: "Recharge list"
  packages :: "RechargePackage list"
  configs :: "Config list"
  events :: "CallbackEvent list"

section \<open>Statuses (order_dto.go, recharge_dto.go, callback_dto.go)\<close>

definition orderStatusPending :: string where "orderStatusPending = ''pending''"
definition orderStatusPaying :: string where "orderStatusPaying = ''paying''"
definition orderStatusPaid :: string where "orderStatusPaid = ''paid''"
definition orderStatusClosed :: string where "orderStatusClosed = ''closed''"
definition orderStatusFailed :: string where "orderStatusFailed = ''failed''"

lemmas order_status_defs = orderStatusPending_def orderStatusPaying_def orderStatusPaid_def
  orderStatusClosed_def orderStatusFailed_def

definition rechargeStatusPending :: string where "rechargeStatusPending = ''pending''"
definition rechargeStatusPaying :: string where "rechargeStatusPaying = ''paying''"
definition rechargeStatusPaid :: string where "rechargeStatusPaid = ''paid''"
definition rechargeStatusCredited :: string where "rechargeStatusCredited = ''credited''"
definition rechargeStatusClosed :: string where "rechargeStatusClosed = ''closed''"
definition rechargeStatusFailed :: string where "rechargeStatusFailed = ''failed''"

lemmas recharge_status_defs = rechargeStatusPending_def rechargeStatusPaying_def rechargeStatusPaid_def
  rechargeStatusCredited_def rechargeStatusClosed_def rechargeStatusFailed_def

definition callbackProcessPending :: string where "callbackProcessPending = ''pending''"
definition callbackProcessSuccess :: string where "callbackProcessSuccess = ''success''"
definition callbackProcessFailed :: string where "callbackProcessFailed = ''failed''"
definition callbackProcessIgnored :: string where "callbackProcessIgnored = ''ignored''"
definition callbackResultSuccess :: string where "callbackResultSuccess = ''success''"
definition callbackResultFail :: string where "callbackResultFail = ''fail''"

lemmas callback_status_defs = callbackProcessPending_def callbackProcessSuccess_def
  callbackProcessFailed_def callbackProcessIgnored_def callbackResultSuccess_def callbackResultFail_def

text \<open>order_service.go: the statuses a compare-and-set statement may start from.\<close>

definition orderOpenStatuses :: "string list" where
  "orderOpenStatuses = [orderStatusPending, orderStatusPaying]"
definition orderPayingCASStatuses :: "string list" where
  "orderPayingCASStatuses = [orderStatusPending, orderStatusFailed]"
definition orderFailedCASStatuses :: "string list" where
  "orderFailedCASStatuses = [orderStatusPending, orderStatusFailed]"
definition orderClosedCASStatuses :: "string list" where
  "orderClosedCASStatuses = [orderStatusPending, orderStatusFailed, orderStatusPaying]"
definition rechargePayingCASStatuses :: "string list" where
  "rechargePayingCASStatuses = [rechargeStatusPending, rechargeStatusFailed]"
definition rechargeFailedCASStatuses :: "string list" where
  "rechargeFailedCASStatuses = [rechargeStatusPending, rechargeStatusFailed]"
definition rechargeClosedCASStatuses :: "string list" where
  "rechargeClosedCASStatuses = [rechargeStatusPending, rechargeStatusFailed, rechargeStatusPaying]"

lemmas cas_defs = orderPayingCASStatuses_def orderFailedCASStatuses_def orderClosedCASStatuses_def
  rechargePayingCASStatuses_def rechargeFailedCASStatuses_def rechargeClosedCASStatuses_def

section \<open>Errors (errors.go)\<close>

datatype payment_error =
    ErrRepositoryNotConfigured
  | ErrPaymentStateChanged
  | ErrPaymentOrderNotFound
  | ErrCallbackStateChanged
  | PayMoney money_error
  | PayWallet wallet_error
  | PayDb db_error

definition alipayTradeNotExistCode :: string where
  "alipayTradeNotExistCode = ''ACQ.TRADE_NOT_EXIST''"

text \<open>\<open>isAlipayTradeNotExistError\<close>, on the text of an error\<close>

definition isAlipayTradeNotExistError :: "string \<Rightarrow> bool" where
  "isAlipayTradeNotExistError err = contains err alipayTradeNotExistCode"

section \<open>Facts and inputs (finalizer.go, callback_dto.go)\<close>

record PaidOrderFinalization =
  pf_Order :: Order
  pf_Recharge :: "Recharge option"
  pf_Wallet :: "Wallet option"
  pf_OrderPaid :: bool
  pf_OrderAlreadyPaid :: bool
  pf_RechargeCredited :: bool
  pf_RechargeAlreadyCredited :: bool
  pf_RawOrder :: bool

record CallbackEventResolution =
  cer_EventID :: int
  cer_DedupeKey :: string
  cer_SignatureValid :: int
  cer_ProcessStatus :: string
  cer_ProcessMessage :: string
  cer_ProcessedAt :: gotime
  cer_PaidOrderID :: int
  cer_AlipayTradeNo :: string
  cer_PaidAt :: gotime

record CallbackEventResolutionResult =
  crr_Event :: CallbackEvent
  crr_PaidOrder :: "PaidOrderFinalization option"
  crr_Replay :: bool

text \<open>\<open>resultTradeNoFromStrings\<close>: the first value that is not blank\<close>

primrec resultTradeNoFromStrings :: "string list \<Rightarrow> string" where
  "resultTradeNoFromStrings [] = []"
| "resultTradeNoFromStrings (v # vs) =
     (let trimmed = trim_space v in if trimmed \<noteq> [] then trimmed else resultTradeNoFromStrings vs)"

type_synonym ('z, 'a) pay_act = "(payment_error, 'z payment_tables_scheme world, 'a) act"

end
