(* ===== verification/PaymentRepo.thy ===== *)
theory PaymentRepo
  imports PaymentModel
begin

text \<open>
  The statements of the payment repository that change orders, recharges and callback events, and
  the reads they rest on: order_repository.go, recharge_repository.go and callback_repository.go.
  The wallet takes part in the settlement of an order through two operations, which are parameters
  here; PaymentLaws states what is relied on of them. \<open>configured\<close> is
  \<open>r != nil && r.db != nil\<close>, for settlements \<open>&& r.walletParticipant != nil\<close> as well.
\<close>

section \<open>Reads\<close>

definition live_order :: "int \<Rightarrow> Order \<Rightarrow> bool" where
  "live_order i o' \<longleftrightarrow> o_ID o' = i \<and> o_IsDel o' = CommonNo"

definition live_recharge :: "int \<Rightarrow> Recharge \<Rightarrow> bool" where
  "live_recharge i r \<longleftrightarrow> r_ID r = i \<and> r_IsDel r = CommonNo"

text \<open>\<open>First(&row)\<close>, with \<open>gorm.ErrRecordNotFound\<close> as nil\<close>

definition optional_first ::
    "env \<Rightarrow> ('z payment_tables_scheme \<Rightarrow> 'r list) \<Rightarrow> ('r \<Rightarrow> bool) \<Rightarrow> ('z, 'r option) pay_act" where
  "optional_first ev get P =
     either (first ev get P) (\<lambda>err. if err = RecordNotFound then ret None else throw (PayDb err)) (\<lambda>r. ret (Some r))"

definition GetOrder :: "bool \<Rightarrow> env \<Rightarrow> int \<Rightarrow> ('z, Order option) pay_act" where
  "GetOrder configured ev i =
     (if \<not> configured then throw payment_error.ErrRepositoryNotConfigured
      else optional_first ev pay_orders (live_order i))"

definition GetOrderByNo :: "bool \<Rightarrow> env \<Rightarrow> string \<Rightarrow> ('z, Order option) pay_act" where
  "GetOrderByNo configured ev orderNo =
     (if \<not> configured then throw payment_error.ErrRepositoryNotConfigured
      else optional_first ev pay_orders (\<lambda>o'. o_OrderNo o' = trim_space orderNo \<and> o_IsDel o' = CommonNo))"

definition GetRechargeByOrderID :: "bool \<Rightarrow> env \<Rightarrow> int \<Rightarrow> ('z, Recharge option) pay_act" where
  "GetRechargeByOrderID configured ev orderID =
     (if \<not> configured then throw payment_error.ErrRepositoryNotConfigured
      else optional_first ev recharges (\<lambda>r. r_PaymentOrderID r = orderID \<and> r_IsDel r = CommonNo))"

text \<open>\<open>rechargeJoinQuery\<close>: the rows of a recharge with its live order, an inner join\<close>

definition recharge_with_order :: "Recharge \<Rightarrow> Order \<Rightarrow> RechargeWithOrder" where
  "recharge_with_order r o' = \<lparr>ro_Recharge = r, ro_PaymentOrderNo = o_OrderNo o', ro_PayURL = o_PayURL o',
     ro_OrderStatus = o_Status o', ro_AlipayTradeNo = o_AlipayTradeNo o', ro_OrderPaidAt = o_PaidAt o'\<rparr>"

definition rechargeJoinQuery :: "'z payment_tables_scheme \<Rightarrow> RechargeWithOrder list" where
  "rechargeJoinQuery d = concat (map (\<lambda>r. map (recharge_with_order r)
     (filter (\<lambda>o'. o_ID o' = r_PaymentOrderID r \<and> o_IsDel o' = CommonNo) (pay_orders d))) (recharges d))"

definition GetRecharge :: "bool \<Rightarrow> env \<Rightarrow> int \<Rightarrow> int \<Rightarrow> ('z, RechargeWithOrder option) pay_act" where
  "GetRecharge configured ev userID i =
     (if \<not> configured then throw payment_error.ErrRepositoryNotConfigured
      else optional_first ev rechargeJoinQuery (\<lambda>x. r_ID (ro_Recharge x) = i \<and>
        r_UserID (ro_Recharge x) = userID \<and> r_IsDel (ro_Recharge x) = CommonNo))"

definition defaultPaymentJobLimit :: int where "defaultPaymentJobLimit = 50"

definition normalizePaymentJobLimit :: "int \<Rightarrow> int" where
  "normalizePaymentJobLimit limit = (if limit \<le> 0 \<or> 100 < limit then defaultPaymentJobLimit else limit)"

definition providerAlipay :: string where "providerAlipay = ''alipay''"

definition ListPendingPayingOrders :: "bool \<Rightarrow> env \<Rightarrow> gotime \<Rightarrow> int \<Rightarrow> ('z, Order list) pay_act" where
  "ListPendingPayingOrders configured ev cutoff limit =
     (if \<not> configured then throw payment_error.ErrRepositoryNotConfigured
      else map_error PayDb (find_limit ev pay_orders (\<lambda>o'. o_Provider o' = providerAlipay \<and>
        o_Status o' = orderStatusPaying \<and> o_IsDel o' = CommonNo \<and> o_UpdatedAt o' \<le> cutoff)
        (nat (normalizePaymentJobLimit limit))))"

text \<open>\<open>ORDER BY expired_at ASC, id ASC\<close>: the rows come in the order of their ids and sorting is stable.\<close>

definition ListExpiredOpenOrders :: "bool \<Rightarrow> env \<Rightarrow> gotime \<Rightarrow> int \<Rightarrow> ('z, Order list) pay_act" where
  "ListExpiredOpenOrders configured ev now limit =
     (if \<not> configured then throw payment_error.ErrRepositoryNotConfigured
      else map_error PayDb (query ev (\<lambda>d. take (nat (normalizePaymentJobLimit limit))
        (sort_key o_ExpiredAt (filter (\<lambda>o'. o_Provider o' = providerAlipay \<and>
          List.member [orderStatusPending, orderStatusPaying] (o_Status o') \<and> o_IsDel o' = CommonNo \<and>
          o_ExpiredAt o' < now) (pay_orders d))))))"

definition uncredited_paid :: "RechargeWithOrder \<Rightarrow> bool" where
  "uncredited_paid x \<longleftrightarrow> ro_OrderStatus x = orderStatusPaid \<and>
     List.member [rechargeStatusPending, rechargeStatusPaying, rechargeStatusPaid] (r_Status (ro_Recharge x)) \<and>
     r_CreditedAt (ro_Recharge x) = None \<and> r_IsDel (ro_Recharge x) = CommonNo"

definition ListUncreditedPaidRecharges :: "bool \<Rightarrow> env \<Rightarrow> int \<Rightarrow> ('z, RechargeWithOrder list) pay_act" where
  "ListUncreditedPaidRecharges configured ev limit =
     (if \<not> configured then throw payment_error.ErrRepositoryNotConfigured
      else map_error PayDb (find_limit ev rechargeJoinQuery uncredited_paid (nat (normalizePaymentJobLimit limit))))"

section \<open>Orders\<close>

definition insert_order :: "env \<Rightarrow> Order \<Rightarrow> (db_error, 'z payment_tables_scheme world, Order) act" where
  "insert_order ev row = insert_row ev pay_orders pay_orders_update (\<lambda>_ _. None)
     (\<lambda>i t. row\<lparr>o_ID := i, o_IsDel := CommonNo, o_CreatedAt := t, o_UpdatedAt := t\<rparr>)"

definition CreateOrder :: "bool \<Rightarrow> env \<Rightarrow> Order \<Rightarrow> ('z, int) pay_act" where
  "CreateOrder configured ev order =
     (if \<not> configured then throw payment_error.ErrRepositoryNotConfigured
      else bind (map_error PayDb (insert_order ev order)) (\<lambda>row. ret (o_ID row)))"

text \<open>\<open>Model(&Order{}).Where("id = ? AND is_del = ? AND status IN ?", ..).Updates(..)\<close> with
  \<open>ensurePaymentRowsChanged\<close>\<close>

definition update_order_from ::
    "env \<Rightarrow> int \<Rightarrow> string list \<Rightarrow> (Order \<Rightarrow> Order) \<Rightarrow> ('z, unit) pay_act" where
  "update_order_from ev i statuses g =
     bind (map_error PayDb (update_where ev pay_orders pay_orders_update
       (\<lambda>o'. live_order i o' \<and> List.member statuses (o_Status o')) (\<lambda>t o'. (g o')\<lparr>o_UpdatedAt := t\<rparr>))) (\<lambda>n.
     if n = 0 then throw ErrPaymentStateChanged else ret ())"

definition UpdateOrderPaying :: "bool \<Rightarrow> env \<Rightarrow> int \<Rightarrow> string \<Rightarrow> ('z, unit) pay_act" where
  "UpdateOrderPaying configured ev i payURL =
     (if \<not> configured then throw payment_error.ErrRepositoryNotConfigured
      else update_order_from ev i orderPayingCASStatuses
        (\<lambda>o'. o'\<lparr>o_Status := orderStatusPaying, o_PayURL := trim_space payURL, o_FailureReason := []\<rparr>))"

definition UpdateOrderFailed :: "bool \<Rightarrow> env \<Rightarrow> int \<Rightarrow> string \<Rightarrow> ('z, unit) pay_act" where
  "UpdateOrderFailed configured ev i reason =
     (if \<not> configured then throw payment_error.ErrRepositoryNotConfigured
      else update_order_from ev i orderFailedCASStatuses
        (\<lambda>o'. o'\<lparr>o_Status := orderStatusFailed, o_FailureReason := trimMax reason 255\<rparr>))"

definition UpdateOrderClosed :: "bool \<Rightarrow> env \<Rightarrow> int \<Rightarrow> gotime \<Rightarrow> ('z, unit) pay_act" where
  "UpdateOrderClosed configured ev i closedAt =
     (if \<not> configured then throw payment_error.ErrRepositoryNotConfigured
      else update_order_from ev i orderClosedCASStatuses
        (\<lambda>o'. o'\<lparr>o_Status := orderStatusClosed, o_ClosedAt := Some closedAt\<rparr>))"

section \<open>Recharges\<close>

definition insert_recharge :: "env \<Rightarrow> Recharge \<Rightarrow> (db_error, 'z payment_tables_scheme world, Recharge) act" where
  "insert_recharge ev row = insert_row ev recharges recharges_update (\<lambda>_ _. None)
     (\<lambda>i t. row\<lparr>r_ID := i, r_IsDel := CommonNo, r_CreatedAt := t, r_UpdatedAt := t\<rparr>)"

text \<open>The row is read again after the transaction; \<open>CreateRechargeWithOrder\<close> answers it.\<close>

definition CreateRechargeWithOrder ::
    "bool \<Rightarrow> env \<Rightarrow> Recharge \<Rightarrow> Order \<Rightarrow> ('z, RechargeWithOrder) pay_act" where
  "CreateRechargeWithOrder configured ev recharge order =
     (if \<not> configured then throw payment_error.ErrRepositoryNotConfigured
      else bind (transaction ev PayDb (
             bind (map_error PayDb (insert_order ev order)) (\<lambda>o'.
             map_error PayDb (insert_recharge ev (recharge\<lparr>r_PaymentOrderID := o_ID o'\<rparr>))))) (\<lambda>r.
           bind (GetRecharge configured ev (r_UserID r) (r_ID r)) (\<lambda>row.
           case row of None \<Rightarrow> throw (PayDb RecordNotFound) | Some x \<Rightarrow> ret x)))"

text \<open>\<open>Model(&Recharge{}).Where("id = ? AND is_del = ? AND status IN ?", ..).Updates(..)\<close> with
  \<open>rechargeUpdateResult\<close>\<close>

definition update_recharge_from ::
    "env \<Rightarrow> int \<Rightarrow> string list \<Rightarrow> (Recharge \<Rightarrow> Recharge) \<Rightarrow> ('z, unit) pay_act" where
  "update_recharge_from ev i statuses g =
     bind (map_error PayDb (update_where ev recharges recharges_update
       (\<lambda>r. live_recharge i r \<and> List.member statuses (r_Status r)) (\<lambda>t r. (g r)\<lparr>r_UpdatedAt := t\<rparr>))) (\<lambda>n.
     if n \<noteq> 1 then throw ErrPaymentStateChanged else ret ())"

definition UpdateRechargePaying :: "bool \<Rightarrow> env \<Rightarrow> int \<Rightarrow> ('z, unit) pay_act" where
  "UpdateRechargePaying configured ev i =
     (if \<not> configured then throw payment_error.ErrRepositoryNotConfigured
      else update_recharge_from ev i rechargePayingCASStatuses
        (\<lambda>r. r\<lparr>r_Status := rechargeStatusPaying, r_FailureReason := []\<rparr>))"

definition UpdateRechargeFailed :: "bool \<Rightarrow> env \<Rightarrow> int \<Rightarrow> string \<Rightarrow> ('z, unit) pay_act" where
  "UpdateRechargeFailed configured ev i reason =
     (if \<not> configured then throw payment_error.ErrRepositoryNotConfigured
      else update_recharge_from ev i rechargeFailedCASStatuses
        (\<lambda>r. r\<lparr>r_Status := rechargeStatusFailed, r_FailureReason := trimMax reason 255\<rparr>))"

definition UpdateRechargeClosed :: "bool \<Rightarrow> env \<Rightarrow> int \<Rightarrow> ('z, unit) pay_act" where
  "UpdateRechargeClosed configured ev i =
     (if \<not> configured then throw payment_error.ErrRepositoryNotConfigured
      else update_recharge_from ev i rechargeClosedCASStatuses (\<lambda>r. r\<lparr>r_Status := rechargeStatusClosed\<rparr>))"

section \<open>Settling a paid order\<close>

definition validateOrderForPaidFinalization :: "Order \<Rightarrow> int \<Rightarrow> string \<Rightarrow> payment_error + bool" where
  "validateOrderForPaidFinalization order orderID tradeNo =
     (if o_ID order \<le> 0 \<or> o_ID order \<noteq> orderID \<or> o_IsDel order \<noteq> CommonNo \<or> o_AmountCents order \<le> 0
      then Inl ErrPaymentStateChanged
      else if o_Status order = orderStatusPending \<or> o_Status order = orderStatusPaying then
        (if o_PaidAt order \<noteq> None \<or> o_ClosedAt order \<noteq> None then Inl ErrPaymentStateChanged else Inr False)
      else if o_Status order = orderStatusPaid then
        (if o_PaidAt order = None \<or> o_ClosedAt order \<noteq> None then Inl ErrPaymentStateChanged
         else let incomingTradeNo = trim_space tradeNo; existingTradeNo = trim_space (o_AlipayTradeNo order)
              in if incomingTradeNo \<noteq> [] \<and> existingTradeNo \<noteq> [] \<and> incomingTradeNo \<noteq> existingTradeNo
                 then Inl ErrPaymentStateChanged else Inr True)
      else Inl ErrPaymentStateChanged)"

definition validateRechargeForPaidFinalization :: "Recharge \<Rightarrow> Order \<Rightarrow> bool \<Rightarrow> payment_error + bool" where
  "validateRechargeForPaidFinalization recharge order orderAlreadyPaid =
     (if r_ID recharge \<le> 0 \<or> r_UserID recharge \<le> 0 \<or> r_PaymentOrderID recharge \<noteq> o_ID order \<or>
         r_AmountCents recharge \<le> 0 \<or> r_AmountCents recharge \<noteq> o_AmountCents order \<or> r_IsDel recharge \<noteq> CommonNo
      then Inl ErrPaymentStateChanged
      else if r_Status recharge = rechargeStatusPending \<or> r_Status recharge = rechargeStatusPaying then
        (if r_PaidAt recharge \<noteq> None \<or> r_CreditedAt recharge \<noteq> None then Inl ErrPaymentStateChanged else Inr False)
      else if r_Status recharge = rechargeStatusPaid then
        (if \<not> orderAlreadyPaid \<or> r_PaidAt recharge = None \<or> r_CreditedAt recharge \<noteq> None
         then Inl ErrPaymentStateChanged else Inr False)
      else if r_Status recharge = rechargeStatusCredited then
        (if \<not> orderAlreadyPaid \<or> r_PaidAt recharge = None \<or> r_CreditedAt recharge = None
         then Inl ErrPaymentStateChanged else Inr True)
      else Inl ErrPaymentStateChanged)"

text \<open>\<open>markOrderPaidInTx\<close>: the statement, and the order as it is afterwards\<close>

definition order_paid :: "string \<Rightarrow> gotime \<Rightarrow> Order \<Rightarrow> Order" where
  "order_paid resolvedTradeNo paidAt o' =
     o'\<lparr>o_Status := orderStatusPaid, o_PaidAt := Some paidAt, o_AlipayTradeNo := resolvedTradeNo\<rparr>"

definition markOrderPaidInTx :: "env \<Rightarrow> Order \<Rightarrow> string \<Rightarrow> gotime \<Rightarrow> ('z, Order) pay_act" where
  "markOrderPaidInTx ev order tradeNo paidAt =
     (let resolvedTradeNo = resultTradeNoFromStrings [tradeNo, o_AlipayTradeNo order];
          tradeNoIdentity = (if resolvedTradeNo \<noteq> [] then Some resolvedTradeNo else None)
      in bind (map_error PayDb (update_where ev pay_orders pay_orders_update
           (\<lambda>o'. live_order (o_ID order) o' \<and> o_Status o' = o_Status order \<and> o_PaidAt o' = None \<and> o_ClosedAt o' = None)
           (\<lambda>t o'. (order_paid resolvedTradeNo paidAt o')\<lparr>o_AlipayTradeNoIdentity := tradeNoIdentity, o_UpdatedAt := t\<rparr>))) (\<lambda>n.
         if n \<noteq> 1 then throw ErrPaymentStateChanged else ret (order_paid resolvedTradeNo paidAt order)))"

definition recharge_credited :: "gotime \<Rightarrow> gotime \<Rightarrow> Recharge \<Rightarrow> Recharge" where
  "recharge_credited paidAt creditedAt r = r\<lparr>r_Status := rechargeStatusCredited, r_PaidAt := Some paidAt,
     r_CreditedAt := Some creditedAt, r_FailureReason := []\<rparr>"

definition markRechargeCreditedInTx :: "env \<Rightarrow> Recharge \<Rightarrow> gotime \<Rightarrow> gotime \<Rightarrow> ('z, Recharge) pay_act" where
  "markRechargeCreditedInTx ev recharge paidAt creditedAt =
     bind (map_error PayDb (update_where ev recharges recharges_update
       (\<lambda>r. r_ID r = r_ID recharge \<and> r_PaymentOrderID r = r_PaymentOrderID recharge \<and> r_UserID r = r_UserID recharge \<and>
         r_AmountCents r = r_AmountCents recharge \<and> r_IsDel r = CommonNo \<and> r_Status r = r_Status recharge \<and>
         r_PaidAt r = r_PaidAt recharge \<and> r_CreditedAt r = None)
       (\<lambda>t r. (recharge_credited paidAt creditedAt r)\<lparr>r_UpdatedAt := t\<rparr>))) (\<lambda>n.
     if n \<noteq> 1 then throw ErrPaymentStateChanged else ret (recharge_credited paidAt creditedAt recharge))"

definition validateRechargeCreditParticipantFact ::
    "RechargeCreditFact option \<Rightarrow> Recharge \<Rightarrow> int \<Rightarrow> bool \<Rightarrow> payment_error + RechargeCreditFact" where
  "validateRechargeCreditParticipantFact found recharge units replay =
     (case found of None \<Rightarrow> Inl ErrPaymentStateChanged | Some rf \<Rightarrow>
        (case (rf_Wallet rf, rf_Transaction rf) of
           (Some wallet, Some t) \<Rightarrow>
             (let expectedDisposition = (if replay then RechargeCreditReplayed else RechargeCreditCreated) in
              if rf_Disposition rf \<noteq> expectedDisposition \<or> w_ID wallet \<le> 0 \<or> w_UserID wallet \<noteq> r_UserID recharge \<or>
                w_IsDel wallet \<noteq> CommonNo \<or> t_ID t \<le> 0 \<or> trim_space (t_TransactionNo t) = [] \<or>
                t_WalletID t \<noteq> w_ID wallet \<or> t_UserID t \<noteq> r_UserID recharge \<or> t_Direction t \<noteq> DirectionIn \<or>
                t_AmountUnits t \<noteq> units \<or> t_SourceType t \<noteq> SourceRecharge \<or> t_SourceID t \<noteq> r_ID recharge \<or>
                t_IsDel t \<noteq> CommonNo \<or> t_BalanceBeforeUnits t < 0 \<or> sub64 max_int64 units < t_BalanceBeforeUnits t \<or>
                t_BalanceAfterUnits t \<noteq> add64 (t_BalanceBeforeUnits t) units \<or> w_BalanceUnits wallet < 0 \<or>
                w_TotalRechargeUnits wallet < units \<or> w_HeldUnits wallet < 0 \<or> w_BalanceUnits wallet < w_HeldUnits wallet
              then Inl ErrPaymentStateChanged else Inr rf)
         | _ \<Rightarrow> Inl ErrPaymentStateChanged))"

type_synonym 'd recharge_call = "env \<Rightarrow> CreditRechargeInput \<Rightarrow> (wallet_error, 'd world, RechargeCreditFact option) act"

text \<open>The recharge of an order that is settled: the credit, the checks on it and the state of the recharge.\<close>

definition recharge_remark :: string where "recharge_remark = encode_runes [25903, 20184, 23453, 20805, 20540]"

definition recharge_input :: "Recharge \<Rightarrow> int \<Rightarrow> CreditRechargeInput" where
  "recharge_input row units = \<lparr>cr_UserID = r_UserID row, cr_RechargeID = r_ID row, cr_AmountUnits = units,
     cr_Remark = recharge_remark\<rparr>"

definition settle_recharge ::
    "env \<Rightarrow> 'z payment_tables_scheme recharge_call \<Rightarrow> 'z payment_tables_scheme recharge_call \<Rightarrow> Order \<Rightarrow> bool \<Rightarrow>
      string \<Rightarrow> gotime \<Rightarrow> gotime \<Rightarrow> Recharge \<Rightarrow> ('z, PaidOrderFinalization) pay_act" where
  "settle_recharge ev findCredit credit order orderAlreadyPaid tradeNo paidAt now row =
     bind (pure_result (validateRechargeForPaidFinalization row order orderAlreadyPaid)) (\<lambda>rechargeAlreadyCredited.
     bind (pure_result (case CentsToUnits (r_AmountCents row) of Inl e \<Rightarrow> Inl (PayMoney e) | Inr u \<Rightarrow> Inr u)) (\<lambda>units.
     bind (if orderAlreadyPaid then ret order else markOrderPaidInTx ev order tradeNo paidAt) (\<lambda>order.
     bind (map_error PayWallet (if rechargeAlreadyCredited then findCredit ev (recharge_input row units)
       else credit ev (recharge_input row units))) (\<lambda>creditFact.
     bind (pure_result (validateRechargeCreditParticipantFact creditFact row units rechargeAlreadyCredited)) (\<lambda>rf.
     bind (if rechargeAlreadyCredited then ret row
       else markRechargeCreditedInTx ev row (case o_PaidAt order of Some t \<Rightarrow> t | None \<Rightarrow> paidAt) now) (\<lambda>row.
     ret \<lparr>pf_Order = order, pf_Recharge = Some row, pf_Wallet = rf_Wallet rf, pf_OrderPaid = (\<not> orderAlreadyPaid),
          pf_OrderAlreadyPaid = orderAlreadyPaid, pf_RechargeCredited = (\<not> rechargeAlreadyCredited),
          pf_RechargeAlreadyCredited = rechargeAlreadyCredited, pf_RawOrder = False\<rparr>))))))"

definition finalizePaidOrderInTx ::
    "env \<Rightarrow> 'z payment_tables_scheme recharge_call \<Rightarrow> 'z payment_tables_scheme recharge_call \<Rightarrow> int \<Rightarrow> string \<Rightarrow>
      gotime \<Rightarrow> gotime \<Rightarrow> ('z, PaidOrderFinalization) pay_act" where
  "finalizePaidOrderInTx ev findCredit credit orderID tradeNo paidAt now =
     bind (map_error (\<lambda>err. if err = RecordNotFound then ErrPaymentOrderNotFound else PayDb err)
       (first ev pay_orders (\<lambda>o'. o_ID o' = orderID))) (\<lambda>order.
     bind (pure_result (validateOrderForPaidFinalization order orderID tradeNo)) (\<lambda>orderAlreadyPaid.
     either (first ev recharges (\<lambda>r. r_PaymentOrderID r = o_ID order))
       (\<lambda>err. if err = RecordNotFound then
           bind (if orderAlreadyPaid then ret order else markOrderPaidInTx ev order tradeNo paidAt) (\<lambda>order.
           ret \<lparr>pf_Order = order, pf_Recharge = None, pf_Wallet = None, pf_OrderPaid = (\<not> orderAlreadyPaid),
                pf_OrderAlreadyPaid = orderAlreadyPaid, pf_RechargeCredited = False,
                pf_RechargeAlreadyCredited = False, pf_RawOrder = True\<rparr>)
         else throw (PayDb err))
       (settle_recharge ev findCredit credit order orderAlreadyPaid tradeNo paidAt now)))"

definition FinalizePaidOrder_with ::
    "bool \<Rightarrow> env \<Rightarrow> 'z payment_tables_scheme recharge_call \<Rightarrow> 'z payment_tables_scheme recharge_call \<Rightarrow> int \<Rightarrow> string \<Rightarrow>
      gotime \<Rightarrow> gotime \<Rightarrow> ('z, PaidOrderFinalization) pay_act" where
  "FinalizePaidOrder_with configured ev findCredit credit orderID tradeNo paidAt now =
     (if \<not> configured then throw payment_error.ErrRepositoryNotConfigured
      else if orderID \<le> 0 \<or> time_is_zero paidAt \<or> time_is_zero now then throw ErrPaymentStateChanged
      else transaction ev PayDb (finalizePaidOrderInTx ev findCredit credit orderID tradeNo paidAt now))"

section \<open>Callback events\<close>

definition normalizeCallbackEvent :: "CallbackEvent \<Rightarrow> CallbackEvent" where
  "normalizeCallbackEvent e = e\<lparr>e_Provider := trim_space (e_Provider e), e_NotifyID := trim_space (e_NotifyID e),
     e_OutTradeNo := trim_space (e_OutTradeNo e), e_TradeNo := trim_space (e_TradeNo e),
     e_TradeStatus := trim_space (e_TradeStatus e), e_AppID := trim_space (e_AppID e),
     e_ProcessStatus := trim_space (e_ProcessStatus e), e_ProcessMessage := trimMax (e_ProcessMessage e) 512\<rparr>"

definition event_violated :: "CallbackEvent \<Rightarrow> CallbackEvent list \<Rightarrow> string option" where
  "event_violated e es = (if list_ex (\<lambda>x. e_DedupeKey x = e_DedupeKey e) es then Some ''dedupe_key'' else None)"

definition CreateCallbackEvent :: "bool \<Rightarrow> env \<Rightarrow> CallbackEvent \<Rightarrow> ('z, int) pay_act" where
  "CreateCallbackEvent configured ev event =
     (if \<not> configured then throw payment_error.ErrRepositoryNotConfigured
      else bind (map_error PayDb (insert_row ev events events_update event_violated
        (\<lambda>i t. (normalizeCallbackEvent event)\<lparr>e_ID := i, e_CreatedAt := t, e_UpdatedAt := t\<rparr>))) (\<lambda>e. ret (e_ID e)))"

definition UpdateCallbackEventProcessed ::
    "bool \<Rightarrow> env \<Rightarrow> int \<Rightarrow> int \<Rightarrow> string \<Rightarrow> string \<Rightarrow> gotime \<Rightarrow> ('z, unit) pay_act" where
  "UpdateCallbackEventProcessed configured ev i signatureValid status message processedAt =
     (if \<not> configured then throw payment_error.ErrRepositoryNotConfigured
      else bind (map_error PayDb (update_where ev events events_update (\<lambda>e. e_ID e = i)
        (\<lambda>t e. e\<lparr>e_SignatureValid := signatureValid, e_ProcessStatus := trim_space status,
          e_ProcessMessage := trimMax message 512, e_ProcessedAt := Some processedAt, e_UpdatedAt := t\<rparr>))) (\<lambda>_. ret ()))"

text \<open>\<open>INSERT .. ON CONFLICT (dedupe_key) DO NOTHING\<close>: None when no row was inserted\<close>

definition insert_new_event :: "env \<Rightarrow> CallbackEvent \<Rightarrow> (db_error, 'z payment_tables_scheme world, CallbackEvent option) act" where
  "insert_new_event ev row =
     bind (read_clock ev) (\<lambda>t. bind (exec ev) (\<lambda>_ s.
       let e = row\<lparr>e_ID := auto_inc s, e_CreatedAt := t, e_UpdatedAt := t\<rparr>; s' = s\<lparr>auto_inc := auto_inc s + 1\<rparr>
       in if list_ex (\<lambda>x. e_DedupeKey x = e_DedupeKey row) (events (tables s)) then (Inr None, s')
          else (Inr (Some e), s'\<lparr>tables := events_update (\<lambda>rows. rows @ [e]) (tables s)\<rparr>)))"

definition AcquireCallbackEvent :: "bool \<Rightarrow> env \<Rightarrow> CallbackEvent \<Rightarrow> ('z, CallbackEvent \<times> bool) pay_act" where
  "AcquireCallbackEvent configured ev event =
     (if \<not> configured then throw payment_error.ErrRepositoryNotConfigured
      else let event = normalizeCallbackEvent event in
        if length (e_DedupeKey event) \<noteq> 32 \<or> e_Provider event = [] \<or> e_ProcessStatus event \<noteq> callbackProcessPending
        then throw ErrCallbackStateChanged
        else bind (map_error PayDb (insert_new_event ev (event\<lparr>e_IsDel := CommonNo\<rparr>))) (\<lambda>created.
          case created of
            Some e \<Rightarrow> ret (e, True)
          | None \<Rightarrow> bind (map_error PayDb (first ev events (\<lambda>x. e_DedupeKey x = e_DedupeKey event))) (\<lambda>x. ret (x, False))))"

definition validateCallbackEventResolution :: "CallbackEventResolution \<Rightarrow> payment_error + unit" where
  "validateCallbackEventResolution resolution =
     (let status = trim_space (cer_ProcessStatus resolution) in
      if cer_EventID resolution \<le> 0 \<or> length (cer_DedupeKey resolution) \<noteq> 32 \<or> time_is_zero (cer_ProcessedAt resolution)
      then Inl ErrCallbackStateChanged
      else if cer_SignatureValid resolution \<noteq> CommonYes \<and> cer_SignatureValid resolution \<noteq> CommonNo
      then Inl ErrCallbackStateChanged
      else if status \<noteq> callbackProcessSuccess \<and> status \<noteq> callbackProcessFailed \<and> status \<noteq> callbackProcessIgnored
      then Inl ErrCallbackStateChanged
      else if status = callbackProcessSuccess then
        (if cer_SignatureValid resolution \<noteq> CommonYes \<or> cer_PaidOrderID resolution \<le> 0 \<or>
            trim_space (cer_AlipayTradeNo resolution) = [] \<or> time_is_zero (cer_PaidAt resolution)
         then Inl ErrCallbackStateChanged else Inr ())
      else if cer_PaidOrderID resolution \<noteq> 0 \<or> trim_space (cer_AlipayTradeNo resolution) \<noteq> [] \<or>
        \<not> time_is_zero (cer_PaidAt resolution)
      then Inl ErrCallbackStateChanged else Inr ())"

definition callbackEventFactsEqual :: "CallbackEvent \<Rightarrow> CallbackEvent \<Rightarrow> bool" where
  "callbackEventFactsEqual left right \<longleftrightarrow> e_Provider left = e_Provider right \<and> e_DedupeKey left = e_DedupeKey right \<and>
     e_NotifyID left = e_NotifyID right \<and> e_OutTradeNo left = e_OutTradeNo right \<and> e_TradeNo left = e_TradeNo right \<and>
     e_TradeStatus left = e_TradeStatus right \<and> e_AppID left = e_AppID right \<and>
     e_TotalAmountCents left = e_TotalAmountCents right"

definition event_resolved :: "CallbackEventResolution \<Rightarrow> CallbackEvent \<Rightarrow> CallbackEvent" where
  "event_resolved resolution e = e\<lparr>e_SignatureValid := cer_SignatureValid resolution,
     e_ProcessStatus := cer_ProcessStatus resolution, e_ProcessMessage := trimMax (cer_ProcessMessage resolution) 512,
     e_ProcessedAt := Some (cer_ProcessedAt resolution)\<rparr>"

text \<open>The body of the transaction of \<open>ResolveCallbackEvent\<close>\<close>

definition resolve_event ::
    "env \<Rightarrow> 'z payment_tables_scheme recharge_call \<Rightarrow> 'z payment_tables_scheme recharge_call \<Rightarrow> CallbackEventResolution \<Rightarrow>
      ('z, CallbackEventResolutionResult) pay_act" where
  "resolve_event ev findCredit credit resolution =
     bind (map_error (\<lambda>err. if err = RecordNotFound then ErrCallbackStateChanged else PayDb err)
       (first ev events (\<lambda>e. e_ID e = cer_EventID resolution \<and> e_DedupeKey e = cer_DedupeKey resolution))) (\<lambda>event.
     if e_IsDel event \<noteq> CommonNo then throw ErrCallbackStateChanged
     else if e_ProcessStatus event = callbackProcessSuccess \<or> e_ProcessStatus event = callbackProcessIgnored
     then ret \<lparr>crr_Event = event, crr_PaidOrder = None, crr_Replay = True\<rparr>
     else if e_ProcessStatus event \<noteq> callbackProcessPending \<and> e_ProcessStatus event \<noteq> callbackProcessFailed
     then throw ErrCallbackStateChanged
     else bind (if 0 < cer_PaidOrderID resolution
         then bind (finalizePaidOrderInTx ev findCredit credit (cer_PaidOrderID resolution) (cer_AlipayTradeNo resolution)
           (cer_PaidAt resolution) (cer_ProcessedAt resolution)) (\<lambda>x. ret (Some x))
         else ret None) (\<lambda>paidOrder.
       bind (map_error PayDb (update_where ev events events_update
         (\<lambda>e. e_ID e = e_ID event \<and> e_DedupeKey e = cer_DedupeKey resolution \<and> e_IsDel e = CommonNo \<and>
           List.member [callbackProcessPending, callbackProcessFailed] (e_ProcessStatus e))
         (\<lambda>t e. (event_resolved resolution e)\<lparr>e_UpdatedAt := t\<rparr>))) (\<lambda>n.
       if n \<noteq> 1 then throw ErrCallbackStateChanged
       else ret \<lparr>crr_Event = event_resolved resolution event, crr_PaidOrder = paidOrder, crr_Replay = False\<rparr>)))"

definition ResolveCallbackEvent_with ::
    "bool \<Rightarrow> env \<Rightarrow> 'z payment_tables_scheme recharge_call \<Rightarrow> 'z payment_tables_scheme recharge_call \<Rightarrow>
      CallbackEventResolution \<Rightarrow> ('z, CallbackEventResolutionResult) pay_act" where
  "ResolveCallbackEvent_with configured ev findCredit credit resolution =
     (if \<not> configured then throw payment_error.ErrRepositoryNotConfigured
      else bind (pure_result (validateCallbackEventResolution resolution)) (\<lambda>_.
        transaction ev PayDb (resolve_event ev findCredit credit resolution)))"

section \<open>The wallet as participant\<close>

definition recharge_find :: "'z payment_tables_scheme recharge_call" where
  "recharge_find ev input = bind (FindRechargeCreditInTx True ev open_tx input) (\<lambda>rf. ret (Some rf))"

definition recharge_credit :: "'z payment_tables_scheme recharge_call" where
  "recharge_credit ev input = bind (CreditRechargeInTx True ev open_tx input) (\<lambda>rf. ret (Some rf))"

definition FinalizePaidOrder :: "bool \<Rightarrow> env \<Rightarrow> int \<Rightarrow> string \<Rightarrow> gotime \<Rightarrow> gotime \<Rightarrow> ('z, PaidOrderFinalization) pay_act" where
  "FinalizePaidOrder configured ev = FinalizePaidOrder_with configured ev recharge_find recharge_credit"

definition ResolveCallbackEvent :: "bool \<Rightarrow> env \<Rightarrow> CallbackEventResolution \<Rightarrow> ('z, CallbackEventResolutionResult) pay_act" where
  "ResolveCallbackEvent configured ev = ResolveCallbackEvent_with configured ev recharge_find recharge_credit"

end
