(* ===== verification/JsonText.thy ===== *)
theory JsonText
  imports Utf8
begin

text \<open>
  What encoding/json reads as a list of strings, and how it writes one: \<open>json.Unmarshal\<close> into a
  []string accepts an array of strings and nulls (a null element is the empty string, a null array
  the empty list) and refuses every other text; \<open>json.Marshal\<close> of a []string that is not nil. Strings
  are byte strings; bytes that are not UTF-8 are read and written as U+FFFD.
\<close>

section \<open>Reading\<close>

definition json_space :: "char \<Rightarrow> bool" where
  "json_space c \<longleftrightarrow> c = CHR '' '' \<or> of_char c = (9 :: int) \<or> of_char c = (10 :: int) \<or> of_char c = (13 :: int)"

definition json_skip :: "string \<Rightarrow> string" where
  "json_skip = dropWhile json_space"

definition json_hex :: "char \<Rightarrow> int option" where
  "json_hex c = (let n = of_char c in
     if 48 \<le> n \<and> n \<le> 57 then Some (n - 48)
     else if 97 \<le> n \<and> n \<le> 102 then Some (n - 87)
     else if 65 \<le> n \<and> n \<le> 70 then Some (n - 55) else None)"

text \<open>The four hexadecimal digits of an escape\<close>

fun json_hex4 :: "string \<Rightarrow> int option" where
  "json_hex4 (a # b # c # d # _) =
     (case (json_hex a, json_hex b, json_hex c, json_hex d) of
        (Some w, Some x, Some y, Some z) \<Rightarrow> Some (w * 4096 + x * 256 + y * 16 + z)
      | _ \<Rightarrow> None)"
| "json_hex4 _ = None"

text \<open>\<open>utf16.DecodeRune\<close> of a high and a low surrogate\<close>

definition surrogate_pair :: "int \<Rightarrow> int \<Rightarrow> int option" where
  "surrogate_pair r1 r2 =
     (if 55296 \<le> r1 \<and> r1 < 56320 \<and> 56320 \<le> r2 \<and> r2 < 57344
      then Some ((r1 - 55296) * 1024 + (r2 - 56320) + 65536) else None)"

text \<open>The rune of an escape \<open>\u....\<close> after its \<open>u\<close>, and how many bytes it takes\<close>

definition json_unicode :: "string \<Rightarrow> (int \<times> nat) option" where
  "json_unicode s =
     (case json_hex4 s of
        None \<Rightarrow> None
      | Some r \<Rightarrow>
          if r < 55296 \<or> 57344 \<le> r then Some (r, 4)
          else if take 2 (drop 4 s) = [CHR 0x5C, CHR ''u''] then
            (case json_hex4 (drop 6 s) of
               None \<Rightarrow> Some (rune_error, 4)
             | Some r2 \<Rightarrow> (case surrogate_pair r r2 of Some p \<Rightarrow> Some (p, 10) | None \<Rightarrow> Some (rune_error, 4)))
          else Some (rune_error, 4))"

definition json_escape :: "char \<Rightarrow> int option" where
  "json_escape c =
     (if c = CHR 0x22 \<or> c = CHR 0x5C \<or> c = CHR ''/'' then Some (of_char c)
      else if c = CHR ''b'' then Some 8 else if c = CHR ''f'' then Some 12
      else if c = CHR ''n'' then Some 10 else if c = CHR ''r'' then Some 13
      else if c = CHR ''t'' then Some 9 else None)"

text \<open>The rest of a string literal after its opening quote: its value, and what follows the literal.\<close>

function json_chars :: "string \<Rightarrow> (string \<times> string) option" where
  "json_chars s = (case s of
     [] \<Rightarrow> None
   | c # rest \<Rightarrow>
       if c = CHR 0x22 then Some ([], rest)
       else if c = CHR 0x5C then
         (case rest of
            [] \<Rightarrow> None
          | e # rest' \<Rightarrow>
              if e = CHR ''u'' then
                (case json_unicode rest' of
                   None \<Rightarrow> None
                 | Some (r, n) \<Rightarrow> map_option (\<lambda>(v, t). (encode_rune r @ v, t)) (json_chars (drop n rest')))
              else (case json_escape e of
                   None \<Rightarrow> None
                 | Some r \<Rightarrow> map_option (\<lambda>(v, t). (encode_rune r @ v, t)) (json_chars rest')))
       else if of_char c < (32 :: int) then None
       else map_option (\<lambda>(v, t). (encode_rune (fst (decode_rune s)) @ v, t))
              (json_chars (drop (fst (snd (decode_rune s))) s)))"
  by pat_completeness auto
termination
  by (relation "measure length") (auto simp: decode_rune_width)

declare json_chars.simps [simp del]

text \<open>An element: a string or null\<close>

definition json_element :: "string \<Rightarrow> (string \<times> string) option" where
  "json_element s =
     (if take 1 s = [CHR 0x22] then json_chars (drop 1 s)
      else if take 4 s = ''null'' then Some ([], drop 4 s) else None)"

lemma json_chars_shorter: "json_chars s = Some (v, t) \<Longrightarrow> length t < length s"
proof (induction s arbitrary: v t rule: json_chars.induct)
  case (1 s)
  note eq = "1.prems" [unfolded json_chars.simps [of s]]
  show ?case
  proof (cases s)
    case Nil
    with eq show ?thesis by simp
  next
    case (Cons c rest)
    consider "c = CHR 0x22" | e rest' where "c = CHR 0x5C" "rest = e # rest'"
      | "c \<noteq> CHR 0x22" "c \<noteq> CHR 0x5C" "\<not> of_char c < (32 :: int)"
      using eq Cons by (cases rest) (auto split: if_splits)
    then show ?thesis
    proof cases
      case 1
      with eq Cons show ?thesis by simp
    next
      case (2 e rest')
      show ?thesis
      proof (cases "e = CHR ''u''")
        case True
        with eq Cons 2 obtain r n w where n: "json_unicode rest' = Some (r, n)" "json_chars (drop n rest') = Some (w, t)"
          by (auto split: option.splits)
        from "1.IH"(1) [OF Cons _ _ 2(2) True n(1) refl n(2)] 2(1) have "length t < length (drop n rest')" by simp
        then show ?thesis by (simp add: Cons 2)
      next
        case False
        with eq Cons 2 obtain r w where n: "json_escape e = Some r" "json_chars rest' = Some (w, t)"
          by (auto split: option.splits)
        from "1.IH"(2) [OF Cons _ _ 2(2) False n] 2(1) show ?thesis by (simp add: Cons 2)
      qed
    next
      case 3
      with eq Cons obtain w where n: "json_chars (drop (fst (snd (decode_rune s))) s) = Some (w, t)" by auto
      from "1.IH"(3) [OF Cons 3 n] show ?thesis by simp
    qed
  qed
qed

lemma json_element_shorter: "json_element s = Some (v, t) \<Longrightarrow> length t < length s"
  by (cases s) (auto simp: json_element_def split: if_splits dest!: json_chars_shorter)

text \<open>The elements of an array after one of its commas or its opening bracket\<close>

function json_elements :: "string \<Rightarrow> (string list \<times> string) option" where
  "json_elements s =
     (case json_element (json_skip s) of
        None \<Rightarrow> None
      | Some (v, rest) \<Rightarrow>
          (case json_skip rest of
             [] \<Rightarrow> None
           | c # rest' \<Rightarrow>
               if c = CHR '']'' then Some ([v], rest')
               else if c = CHR '','' then map_option (\<lambda>(vs, t). (v # vs, t)) (json_elements rest')
               else None))"
  by pat_completeness auto
termination
proof (relation "measure length", goal_cases)
  case 1
  show ?case by simp
next
  case (2 s x v rest c rest')
  then have "json_element (json_skip s) = Some (v, rest)" "json_skip rest = c # rest'" by simp_all
  then have "length rest < length (json_skip s)" "length rest' < length rest"
    using json_element_shorter [of "json_skip s" v rest] length_dropWhile_le [of json_space rest]
    by (auto simp: json_skip_def)
  moreover have "length (json_skip s) \<le> length s" by (simp add: json_skip_def length_dropWhile_le)
  ultimately show ?case by simp
qed

declare json_elements.simps [simp del]

definition json_strings :: "string \<Rightarrow> string list option" where
  "json_strings text =
     (let s = json_skip text in
      if take 4 s = ''null'' \<and> json_skip (drop 4 s) = [] then Some []
      else case s of
        [] \<Rightarrow> None
      | c # rest \<Rightarrow>
          if c \<noteq> CHR ''['' then None
          else if take 1 (json_skip rest) = '']'' then (if json_skip (drop 1 (json_skip rest)) = [] then Some [] else None)
          else case json_elements rest of
            None \<Rightarrow> None
          | Some (vs, t) \<Rightarrow> if json_skip t = [] then Some vs else None)"

section \<open>Writing\<close>

definition json_unicode_text :: "int \<Rightarrow> string" where
  "json_unicode_text r = [CHR 0x5C, CHR ''u''] @ pad_zeros 4 (text_base 16 r)"

text \<open>A rune, or a byte that is none, inside a string literal; HTML characters are escaped.\<close>

definition json_rune :: "int \<times> bool \<Rightarrow> string" where
  "json_rune ro = (case ro of (r, ok) \<Rightarrow>
     if \<not> ok then [CHR 0x5C] @ ''ufffd''
     else if r = 34 \<or> r = 92 then [CHR 0x5C, char_of r]
     else if r = 8 then [CHR 0x5C, CHR ''b''] else if r = 12 then [CHR 0x5C, CHR ''f'']
     else if r = 10 then [CHR 0x5C, CHR ''n''] else if r = 13 then [CHR 0x5C, CHR ''r'']
     else if r = 9 then [CHR 0x5C, CHR ''t'']
     else if r < 32 \<or> r = 60 \<or> r = 62 \<or> r = 38 \<or> r = 8232 \<or> r = 8233 then json_unicode_text r
     else encode_rune r)"

definition json_string_text :: "string \<Rightarrow> string" where
  "json_string_text s = [CHR 0x22] @ concat (map json_rune (runes s)) @ [CHR 0x22]"

fun json_joined :: "string list \<Rightarrow> string" where
  "json_joined [] = []"
| "json_joined [s] = json_string_text s"
| "json_joined (s # ss) = json_string_text s @ '','' @ json_joined ss"

definition json_strings_text :: "string list \<Rightarrow> string" where
  "json_strings_text ss = ''['' @ json_joined ss @ '']''"

lemma json_examples:
  "json_strings (''['' @ [CHR 0x22] @ ''web'' @ [CHR 0x22] @ '' , null]'') = Some [''web'', []]"
  "json_strings ''[1]'' = None"
  "json_strings (json_strings_text [[CHR 0x22, CHR 0x5C], ''<b>'']) = Some [[CHR 0x22, CHR 0x5C], ''<b>'']"
  by code_simp+

end
