(* ===== verification/Alipay.thy ===== *)
theory Alipay
  imports PaymentModel
begin

text \<open>
  The payment gateway (\<open>internal/infra/payment/gateway.go\<close>) and its implementation for Alipay
  (\<open>internal/infra/payment/alipay\<close>: types.go, mapper.go, gateway.go). The SDK is a parameter: what
  its client answers at each point in time, and whether a signature verifies. Errors are their texts.
\<close>

section \<open>The interface (gateway.go)\<close>

record ChannelConfig =
  cc_Provider :: string
  cc_AppID :: string
  cc_PrivateKey :: string
  cc_AppCertPath :: string
  cc_PlatformCertPath :: string
  cc_RootCertPath :: string
  cc_NotifyURL :: string
  cc_IsSandbox :: bool

record PayInput =
  pi_Method :: string
  pi_OutTradeNo :: string
  pi_Subject :: string
  pi_AmountCents :: int
  pi_ReturnURL :: string
  pi_ExpiredAt :: gotime

record QueryResult =
  qr_TradeNo :: string
  qr_Status :: string
  qr_PaidAt :: "gotime option"

record NotifyPayload =
  np_NotifyID :: string
  np_OutTradeNo :: string
  np_TradeNo :: string
  np_TradeStatus :: string
  np_AppID :: string
  np_TotalAmountCents :: int
  np_Raw :: "(string \<times> string) list"

text \<open>\<open>url.Values\<close> as a list of its entries, with different keys; \<open>Get\<close>; and the first value of each key\<close>

type_synonym form = "(string \<times> string list) list"

definition form_get :: "form \<Rightarrow> string \<Rightarrow> string" where
  "form_get form key = (case map_of form key of Some (v # _) \<Rightarrow> v | _ \<Rightarrow> [])"

definition form_firsts :: "form \<Rightarrow> (string \<times> string) list" where
  "form_firsts form = concat (map (\<lambda>(key, vs). case vs of [] \<Rightarrow> [] | v # _ \<Rightarrow> [(key, v)]) form)"

text \<open>The answers of a gateway; the first argument numbers the requests in the order of time.\<close>

record gateway =
  gw_TestConfig :: "nat \<Rightarrow> ChannelConfig \<Rightarrow> string option"
  gw_Pay :: "nat \<Rightarrow> ChannelConfig \<Rightarrow> PayInput \<Rightarrow> string + string option"
  gw_Query :: "nat \<Rightarrow> ChannelConfig \<Rightarrow> string \<Rightarrow> string + QueryResult option"
  gw_Close :: "nat \<Rightarrow> ChannelConfig \<Rightarrow> string \<Rightarrow> string option"
  gw_VerifyNotify :: "nat \<Rightarrow> ChannelConfig \<Rightarrow> form \<Rightarrow> string + NotifyPayload option"

section \<open>Amounts as text\<close>

fun split_dots :: "string \<Rightarrow> string list" where
  "split_dots [] = [[]]"
| "split_dots (c # cs) =
     (if c = CHR ''.'' then [] # split_dots cs
      else case split_dots cs of p # ps \<Rightarrow> (c # p) # ps | [] \<Rightarrow> [[c]])"

text \<open>\<open>strconv.ParseInt(value, 10, 64)\<close> of a text of digits\<close>

definition parse_int63 :: "string \<Rightarrow> int option" where
  "parse_int63 v = (let n = int (digits_val v) in if n \<le> max_int64 then Some n else None)"

definition isASCIIAmountDigits :: "string \<Rightarrow> bool" where
  "isASCIIAmountDigits v \<longleftrightarrow> v \<noteq> [] \<and> list_all is_digit v"

definition cents_text_of :: "int \<Rightarrow> string" where
  "cents_text_of cents = format_int (quo64 cents 100) @ ''.'' @ pad_zeros 2 (format_int (rem64 cents 100))"

definition formatAmountCents :: "int \<Rightarrow> string + string" where
  "formatAmountCents cents =
     (if cents \<le> 0 then Inl ''alipay: amount cents must be positive'' else Inr (cents_text_of cents))"

definition parseAmountCents :: "(string \<Rightarrow> string) \<Rightarrow> string \<Rightarrow> string + int" where
  "parseAmountCents quote value =
     (let value = trim_space value; invalid = Inl (''alipay: invalid total amount '' @ quote value) in
      if value = [] then Inl ''alipay: total amount is required''
      else let parts = split_dots value in
      if 2 < length parts \<or> hd parts = [] then invalid
      else if \<not> isASCIIAmountDigits (hd parts) then invalid
      else case parse_int63 (hd parts) of
        None \<Rightarrow> invalid
      | Some yuan \<Rightarrow>
          if length parts = 2 \<and> (parts ! 1 = [] \<or> 2 < length (parts ! 1) \<or> \<not> isASCIIAmountDigits (parts ! 1)) then invalid
          else let centText = (if length parts = 2 then take 2 (parts ! 1 @ ''00'') else ''00'')
          in (case parse_int63 centText of
                None \<Rightarrow> invalid
              | Some cents \<Rightarrow> Inr (add64 (mul64 yuan 100) cents)))"

section \<open>The gateway of Alipay\<close>

text \<open>The SDK: a client for app id, private key and environment, with the notify URL and certificates set on it.\<close>

record alipay_client =
  ac_AppID :: string
  ac_PrivateKey :: string
  ac_IsProd :: bool
  ac_NotifyURL :: string
  ac_Certs :: "string \<times> string \<times> string"

type_synonym body = "(string \<times> string) list"

record trade_response =
  tr_TradeNo :: string
  tr_TradeStatus :: string
  tr_SendPayDate :: string

record sdk =
  sdk_NewClient :: "string \<Rightarrow> string \<Rightarrow> bool \<Rightarrow> string option"
  sdk_SetCertSnByPath :: "nat \<Rightarrow> string \<Rightarrow> string \<Rightarrow> string \<Rightarrow> string option"
  sdk_TradePagePay :: "nat \<Rightarrow> alipay_client \<Rightarrow> body \<Rightarrow> string + string"
  sdk_TradeWapPay :: "nat \<Rightarrow> alipay_client \<Rightarrow> body \<Rightarrow> string + string"
  sdk_TradeQuery :: "nat \<Rightarrow> alipay_client \<Rightarrow> body \<Rightarrow> string + trade_response option"
  sdk_TradeClose :: "nat \<Rightarrow> alipay_client \<Rightarrow> body \<Rightarrow> string + bool"
  sdk_ParseNotifyByURLValues :: "form \<Rightarrow> string + body"
  sdk_VerifySignWithCert :: "nat \<Rightarrow> string \<Rightarrow> body \<Rightarrow> string + bool"
  sdk_quote :: "string \<Rightarrow> string"
  sdk_local_time :: "string \<Rightarrow> string + gotime"
  sdk_layout :: "gotime \<Rightarrow> string"

definition validateChannelConfig :: "ChannelConfig \<Rightarrow> string option" where
  "validateChannelConfig cfg =
     (if trim_space (cc_AppID cfg) = [] then Some ''alipay: app id is required''
      else if trim_space (cc_PrivateKey cfg) = [] then Some ''alipay: private key is required''
      else if trim_space (cc_AppCertPath cfg) = [] then Some ''alipay: app cert path is required''
      else if trim_space (cc_PlatformCertPath cfg) = [] then Some ''alipay: alipay cert path is required''
      else if trim_space (cc_RootCertPath cfg) = [] then Some ''alipay: root cert path is required''
      else if trim_space (cc_NotifyURL cfg) = [] then Some ''alipay: notify url is required''
      else None)"

definition newClient :: "sdk \<Rightarrow> nat \<Rightarrow> ChannelConfig \<Rightarrow> string + alipay_client" where
  "newClient sdk k cfg =
     (case validateChannelConfig cfg of
        Some e \<Rightarrow> Inl e
      | None \<Rightarrow>
          (case sdk_NewClient sdk (trim_space (cc_AppID cfg)) (trim_space (cc_PrivateKey cfg)) (\<not> cc_IsSandbox cfg) of
             Some e \<Rightarrow> Inl (''alipay: new client: '' @ e)
           | None \<Rightarrow>
               (case sdk_SetCertSnByPath sdk k (cc_AppCertPath cfg) (cc_RootCertPath cfg) (cc_PlatformCertPath cfg) of
                  Some e \<Rightarrow> Inl (''alipay: set cert sn: '' @ e)
                | None \<Rightarrow> Inr \<lparr>ac_AppID = trim_space (cc_AppID cfg), ac_PrivateKey = trim_space (cc_PrivateKey cfg),
                    ac_IsProd = (\<not> cc_IsSandbox cfg), ac_NotifyURL = trim_space (cc_NotifyURL cfg),
                    ac_Certs = (cc_AppCertPath cfg, cc_RootCertPath cfg, cc_PlatformCertPath cfg)\<rparr>)))"

definition buildPayBody :: "sdk \<Rightarrow> PayInput \<Rightarrow> string + body" where
  "buildPayBody sdk input =
     (if trim_space (pi_OutTradeNo input) = [] then Inl ''alipay: out trade no is required''
      else if trim_space (pi_Subject input) = [] then Inl ''alipay: subject is required''
      else case formatAmountCents (pi_AmountCents input) of
        Inl e \<Rightarrow> Inl e
      | Inr amount \<Rightarrow> Inr (
          [(''out_trade_no'', trim_space (pi_OutTradeNo input)), (''subject'', trim_space (pi_Subject input)),
           (''total_amount'', amount)] @
          (if trim_space (pi_ReturnURL input) \<noteq> [] then [(''return_url'', trim_space (pi_ReturnURL input))] else []) @
          (if \<not> time_is_zero (pi_ExpiredAt input) then [(''time_expire'', sdk_layout sdk (pi_ExpiredAt input))] else [])))"

definition buildOutTradeNoBody :: "string \<Rightarrow> body" where
  "buildOutTradeNoBody outTradeNo =
     (if trim_space outTradeNo \<noteq> [] then [(''out_trade_no'', trim_space outTradeNo)] else [])"

definition PaymentMethodWeb :: string where "PaymentMethodWeb = ''web''"
definition PaymentMethodH5 :: string where "PaymentMethodH5 = ''h5''"

definition gopay_Pay :: "sdk \<Rightarrow> nat \<Rightarrow> ChannelConfig \<Rightarrow> PayInput \<Rightarrow> string + string option" where
  "gopay_Pay sdk k cfg input =
     (case newClient sdk k cfg of Inl e \<Rightarrow> Inl e | Inr client \<Rightarrow>
     (case buildPayBody sdk input of Inl e \<Rightarrow> Inl e | Inr body \<Rightarrow>
       (if trim_space (pi_Method input) = PaymentMethodWeb then
          (case sdk_TradePagePay sdk k client body of Inl e \<Rightarrow> Inl (''alipay: create pay url: '' @ e) | Inr payURL \<Rightarrow> Inr (Some payURL))
        else if trim_space (pi_Method input) = PaymentMethodH5 then
          (case sdk_TradeWapPay sdk k client body of Inl e \<Rightarrow> Inl (''alipay: create pay url: '' @ e) | Inr payURL \<Rightarrow> Inr (Some payURL))
        else Inl (''alipay: unsupported pay method '' @ sdk_quote sdk (pi_Method input)))))"

definition parseAlipayTime :: "sdk \<Rightarrow> string \<Rightarrow> string + gotime option" where
  "parseAlipayTime sdk value =
     (let value = trim_space value in
      if value = [] then Inr None
      else case sdk_local_time sdk value of
        Inl e \<Rightarrow> Inl (''alipay: parse paid time: '' @ e)
      | Inr t \<Rightarrow> Inr (Some t))"

definition gopay_Query :: "sdk \<Rightarrow> nat \<Rightarrow> ChannelConfig \<Rightarrow> string \<Rightarrow> string + QueryResult option" where
  "gopay_Query sdk k cfg outTradeNo =
     (case newClient sdk k cfg of Inl e \<Rightarrow> Inl e | Inr client \<Rightarrow>
     (case sdk_TradeQuery sdk k client (buildOutTradeNoBody outTradeNo) of
        Inl e \<Rightarrow> Inl (''alipay: query: '' @ e)
      | Inr None \<Rightarrow> Inl ''alipay: query empty response''
      | Inr (Some rsp) \<Rightarrow>
          (case parseAlipayTime sdk (tr_SendPayDate rsp) of Inl e \<Rightarrow> Inl e | Inr paidAt \<Rightarrow>
           Inr (Some \<lparr>qr_TradeNo = tr_TradeNo rsp, qr_Status = tr_TradeStatus rsp, qr_PaidAt = paidAt\<rparr>))))"

definition gopay_Close :: "sdk \<Rightarrow> nat \<Rightarrow> ChannelConfig \<Rightarrow> string \<Rightarrow> string option" where
  "gopay_Close sdk k cfg outTradeNo =
     (case newClient sdk k cfg of Inl e \<Rightarrow> Some e | Inr client \<Rightarrow>
     (case sdk_TradeClose sdk k client (buildOutTradeNoBody outTradeNo) of
        Inl e \<Rightarrow> Some (''alipay: close: '' @ e)
      | Inr answered \<Rightarrow> if answered then None else Some ''alipay: close empty response''))"

definition ParseNotifyPayload :: "sdk \<Rightarrow> form \<Rightarrow> string + NotifyPayload" where
  "ParseNotifyPayload sdk form =
     (case parseAmountCents (sdk_quote sdk) (form_get form ''total_amount'') of
        Inl e \<Rightarrow> Inl e
      | Inr amountCents \<Rightarrow> Inr
         \<lparr>np_NotifyID = trim_space (form_get form ''notify_id''), np_OutTradeNo = trim_space (form_get form ''out_trade_no''),
          np_TradeNo = trim_space (form_get form ''trade_no''), np_TradeStatus = trim_space (form_get form ''trade_status''),
          np_AppID = trim_space (form_get form ''app_id''), np_TotalAmountCents = amountCents,
          np_Raw = form_firsts form\<rparr>)"

definition gopay_VerifyNotify :: "sdk \<Rightarrow> nat \<Rightarrow> ChannelConfig \<Rightarrow> form \<Rightarrow> string + NotifyPayload option" where
  "gopay_VerifyNotify sdk k cfg form =
     (case validateChannelConfig cfg of Some e \<Rightarrow> Inl e | None \<Rightarrow>
     (case ParseNotifyPayload sdk form of Inl e \<Rightarrow> Inl e | Inr payload \<Rightarrow>
     (case sdk_ParseNotifyByURLValues sdk form of Inl e \<Rightarrow> Inl (''alipay: parse notify: '' @ e) | Inr body \<Rightarrow>
     (case sdk_VerifySignWithCert sdk k (trim_space (cc_PlatformCertPath cfg)) body of
        Inl e \<Rightarrow> Inl (''alipay: verify notify sign: '' @ e)
      | Inr valid \<Rightarrow> if valid then Inr (Some payload) else Inl ''alipay: verify notify sign failed''))))"

definition gopay_TestConfig :: "sdk \<Rightarrow> nat \<Rightarrow> ChannelConfig \<Rightarrow> string option" where
  "gopay_TestConfig sdk k cfg = (case newClient sdk k cfg of Inl e \<Rightarrow> Some e | Inr _ \<Rightarrow> None)"

text \<open>\<open>PlatformGateway\<close>: its mappings keep every field; without an inner gateway it refuses everything.\<close>

definition alipay_missing :: string where "alipay_missing = ''alipay: gateway not configured''"

definition PlatformGateway :: "sdk option \<Rightarrow> gateway" where
  "PlatformGateway inner = (case inner of
     None \<Rightarrow> \<lparr>gw_TestConfig = (\<lambda>_ _. Some alipay_missing), gw_Pay = (\<lambda>_ _ _. Inl alipay_missing),
       gw_Query = (\<lambda>_ _ _. Inl alipay_missing), gw_Close = (\<lambda>_ _ _. Some alipay_missing),
       gw_VerifyNotify = (\<lambda>_ _ _. Inl alipay_missing)\<rparr>
   | Some sdk \<Rightarrow> \<lparr>gw_TestConfig = gopay_TestConfig sdk, gw_Pay = gopay_Pay sdk, gw_Query = gopay_Query sdk,
       gw_Close = gopay_Close sdk, gw_VerifyNotify = gopay_VerifyNotify sdk\<rparr>)"

end
