(* ===== verification/PaymentText.thy ===== *)
theory PaymentText
  imports PaymentRepo WalletService JsonText Alipay "HOL-Library.List_Lexorder"
begin

text \<open>
  The pure parts of the payment service (service.go, order_service.go, recharge_service.go and
  callback_service.go, with the read models of dto.go, order_dto.go and recharge_dto.go): labels,
  amounts as text, the methods a configuration enables, and what is taken from a callback's form.

  \<open>pe_url\<close> is net/url's reading of a text as a URL (its scheme and host); \<open>pe_sha256\<close> is the hash
  function, \<open>pe_layout\<close> formats a time in its location.
\<close>

section \<open>Errors\<close>

datatype pay_cause = PaymentCause payment_error | GatewayCause string | DecryptCause string | EncryptCause string
  | CertificateCause string | JsonCause | MoneyTextCause wallet_cause

type_synonym pay_app_error = "(int, pay_cause) app_error"

definition internal_wrap :: "string \<Rightarrow> pay_cause \<Rightarrow> pay_app_error" where
  "internal_wrap message cause = LegacyWrap CodeInternal StatusInternalServerError message (Some cause)"

definition bad_request_wrap :: "string \<Rightarrow> pay_cause \<Rightarrow> pay_app_error" where
  "bad_request_wrap message cause = LegacyWrap CodeBadRequest StatusBadRequest message (Some cause)"

section \<open>Labels\<close>

definition environmentSandbox :: string where "environmentSandbox = ''sandbox''"
definition environmentProduction :: string where "environmentProduction = ''production''"
definition certTypeApp :: string where "certTypeApp = ''app_cert''"
definition certTypePlatform :: string where "certTypePlatform = ''platform_cert''"
definition certTypeRoot :: string where "certTypeRoot = ''root_cert''"
definition certTypeAlipay :: string where "certTypeAlipay = ''alipay_cert''"
definition certTypeAlipayRoot :: string where "certTypeAlipayRoot = ''alipay_root_cert''"

definition PaymentMethods :: "string list" where "PaymentMethods = [PaymentMethodWeb, PaymentMethodH5]"

definition PaymentMethodLabels :: "string \<Rightarrow> string" where
  "PaymentMethodLabels v =
     (if v = PaymentMethodWeb then encode_runes [80, 67, 32593, 39029, 25903, 20184] else if v = PaymentMethodH5 then encode_runes [72, 53, 25903, 20184] else [])"

definition IsPaymentMethod :: "string \<Rightarrow> bool" where
  "IsPaymentMethod v = List.member PaymentMethods v"

definition IsCommonStatus :: "int \<Rightarrow> bool" where
  "IsCommonStatus v \<longleftrightarrow> v = CommonYes \<or> v = CommonNo"

definition option_of :: "string \<Rightarrow> string \<Rightarrow> dict_option" where
  "option_of label v = \<lparr>opt_Label = label, opt_Value = v\<rparr>"

definition PaymentMethodOptions :: "dict_option list" where
  "PaymentMethodOptions = map (\<lambda>v. option_of (PaymentMethodLabels v) v) PaymentMethods"

definition orderStatusOptions :: "dict_option list" where
  "orderStatusOptions = [option_of (encode_runes [24453, 25903, 20184]) orderStatusPending, option_of (encode_runes [25903, 20184, 20013]) orderStatusPaying,
     option_of (encode_runes [24050, 25903, 20184]) orderStatusPaid, option_of (encode_runes [24050, 20851, 38381]) orderStatusClosed, option_of (encode_runes [25903, 20184, 22833, 36133]) orderStatusFailed]"

definition rechargeStatusOptions :: "dict_option list" where
  "rechargeStatusOptions = [option_of (encode_runes [24453, 25903, 20184]) rechargeStatusPending, option_of (encode_runes [25903, 20184, 20013]) rechargeStatusPaying,
     option_of (encode_runes [24050, 25903, 20184]) rechargeStatusPaid, option_of (encode_runes [24050, 20837, 36134]) rechargeStatusCredited,
     option_of (encode_runes [24050, 20851, 38381]) rechargeStatusClosed, option_of (encode_runes [25903, 20184, 22833, 36133]) rechargeStatusFailed]"

definition option_label :: "dict_option list \<Rightarrow> string \<Rightarrow> string" where
  "option_label options v = (case find (\<lambda>x. opt_Value x = v) options of Some x \<Rightarrow> opt_Label x | None \<Rightarrow> v)"

definition orderStatusText :: "string \<Rightarrow> string" where
  "orderStatusText = option_label orderStatusOptions"

definition rechargeStatusText :: "string \<Rightarrow> string" where
  "rechargeStatusText = option_label rechargeStatusOptions"

definition paymentMethodText :: "string \<Rightarrow> string" where
  "paymentMethodText v = (if PaymentMethodLabels v \<noteq> [] then PaymentMethodLabels v else v)"

definition providerText :: "string \<Rightarrow> string" where
  "providerText v = (if v = providerAlipay then encode_runes [25903, 20184, 23453] else v)"

definition environmentText :: "string \<Rightarrow> string" where
  "environmentText v =
     (if v = environmentSandbox then encode_runes [27801, 31665, 29615, 22659] else if v = environmentProduction then encode_runes [27491, 24335, 29615, 22659] else v)"

definition commonStatusText :: "int \<Rightarrow> string" where
  "commonStatusText v = (if v = CommonYes then encode_runes [21551, 29992] else if v = CommonNo then encode_runes [31105, 29992] else encode_runes [26410, 30693])"

fun join_with :: "string \<Rightarrow> string list \<Rightarrow> string" where
  "join_with sep [] = []"
| "join_with sep [s] = s"
| "join_with sep (s # ss) = s @ sep @ join_with sep ss"

definition methodText :: "string list \<Rightarrow> string" where
  "methodText methods = join_with (encode_runes [12289]) (map paymentMethodText methods)"

definition paymentProviderOptions :: "dict_option list" where
  "paymentProviderOptions = [option_of (encode_runes [25903, 20184, 23453]) providerAlipay]"

definition paymentEnvironmentOptions :: "dict_option list" where
  "paymentEnvironmentOptions = [option_of (encode_runes [27801, 31665, 29615, 22659]) environmentSandbox, option_of (encode_runes [27491, 24335, 29615, 22659]) environmentProduction]"

definition paymentCertificateTypeOptions :: "dict_option list" where
  "paymentCertificateTypeOptions = [option_of (encode_runes [24212, 29992, 20844, 38053, 35777, 20070]) certTypeApp, option_of (encode_runes [25903, 20184, 23453, 20844, 38053, 35777, 20070]) certTypeAlipay,
     option_of (encode_runes [25903, 20184, 23453, 26681, 35777, 20070]) certTypeAlipayRoot]"

definition isPaymentEnvironment :: "string \<Rightarrow> bool" where
  "isPaymentEnvironment v \<longleftrightarrow> v = environmentSandbox \<or> v = environmentProduction"

definition certificateStoreType :: "string \<Rightarrow> string" where
  "certificateStoreType v =
     (if trim_space v = certTypePlatform then certTypeAlipay
      else if trim_space v = certTypeRoot then certTypeAlipayRoot else v)"

section \<open>Pages, amounts and URLs\<close>

definition payment_defaultPageSize :: int where "payment_defaultPageSize = 20"
definition payment_maxPageSize :: int where "payment_maxPageSize = 100"

definition payment_normalizePage :: "int \<Rightarrow> int \<Rightarrow> int \<times> int \<times> int" where
  "payment_normalizePage page size' =
     (let page = (if page \<le> 0 then 1 else page);
          size' = (if size' \<le> 0 then payment_defaultPageSize else size');
          size' = (if payment_maxPageSize < size' then payment_maxPageSize else size')
      in (page, size', mul64 (sub64 page 1) size'))"

definition currentPage :: "int \<Rightarrow> int" where
  "currentPage v = (if v \<le> 0 then 1 else v)"

definition payment_totalPage :: "int \<Rightarrow> int \<Rightarrow> int" where
  "payment_totalPage count size' =
     (if count \<le> 0 \<or> size' \<le> 0 then 0 else quo64 (sub64 (add64 count size') 1) size')"

definition payment_page :: "int \<Rightarrow> int \<Rightarrow> int \<Rightarrow> Page" where
  "payment_page page size' count = (let (_, size', _) = payment_normalizePage page size' in
     \<lparr>pg_PageSize = size', pg_CurrentPage = currentPage page, pg_TotalPage = payment_totalPage count size', pg_Total = count\<rparr>)"

definition payment_amountText :: "int \<Rightarrow> string" where
  "payment_amountText cents =
     (let (sign, cents) = (if cents < 0 then (''-'', sub64 0 cents) else ([], cents)) in sign @ cents_text_of cents)"

definition rechargeReturnURL :: "string \<Rightarrow> string \<Rightarrow> string" where
  "rechargeReturnURL base rechargeNo =
     (let base = trim_space base in
      if rechargeNo = [] then base
      else base @ (if List.member base CHR ''?'' then ''&'' else ''?'') @ ''tab=records&recharge_no='' @ rechargeNo)"

section \<open>The methods a configuration enables\<close>

definition methodOrder :: "string \<Rightarrow> nat" where
  "methodOrder v = (if v = PaymentMethodWeb then 0 else if v = PaymentMethodH5 then 1 else 2)"

text \<open>The methods have different ranks, so it does not matter which of two equal ones is dropped.\<close>

definition normalizeEnabledMethods :: "string list \<Rightarrow> pay_app_error + string list" where
  "normalizeEnabledMethods values =
     (if \<not> list_all (\<lambda>v. IsPaymentMethod (trim_space v)) values then Inl (BadRequest (encode_runes [26080, 25928, 30340, 25903, 20184, 26041, 24335]))
      else
        let methods = sort_key methodOrder (remdups (map trim_space values))
        in if methods = [] then Inl (BadRequest (encode_runes [33267, 23569, 36873, 25321, 19968, 20010, 25903, 20184, 26041, 24335])) else Inr methods)"

definition decodeEnabledMethods :: "string \<Rightarrow> pay_app_error + string list" where
  "decodeEnabledMethods raw =
     (case json_strings (trim_space raw) of
        None \<Rightarrow> Inl (internal_wrap (encode_runes [35299, 26512, 25903, 20184, 26041, 24335, 22833, 36133]) JsonCause)
      | Some methods \<Rightarrow> normalizeEnabledMethods methods)"

definition methodEnabled :: "string \<Rightarrow> string \<Rightarrow> bool" where
  "methodEnabled raw method' =
     (case decodeEnabledMethods raw of Inl _ \<Rightarrow> False | Inr methods \<Rightarrow> List.member methods method')"

section \<open>What a callback's form says (callback_service.go)\<close>

definition asciiDigits :: "string \<Rightarrow> bool" where
  "asciiDigits v \<longleftrightarrow> list_all is_digit v \<and> v \<noteq> []"

definition amount_invalid :: pay_app_error where
  "amount_invalid = BadRequestKey ''payment.callback.amount.invalid'' None (encode_runes [26080, 25928, 30340, 25903, 20184, 23453, 22238, 35843, 37329, 39069])"

definition amountStringToCents :: "string \<Rightarrow> pay_app_error + int" where
  "amountStringToCents value =
     (let value = trim_space value in
      if value = [] then Inr 0
      else let parts = split_dots value in
      if 2 < length parts \<or> hd parts = [] then Inl amount_invalid
      else if \<not> asciiDigits (hd parts) then Inl amount_invalid
      else case parse_int63 (hd parts) of
        None \<Rightarrow> Inl amount_invalid
      | Some yuan \<Rightarrow>
          if length parts = 2 then
            (if 2 < length (parts ! 1) then Inl amount_invalid
             else if parts ! 1 \<noteq> [] \<and> \<not> asciiDigits (parts ! 1) then Inl amount_invalid
             else case parse_int63 (take 2 (parts ! 1 @ ''00'')) of
               None \<Rightarrow> Inl amount_invalid
             | Some cents \<Rightarrow> Inr (add64 (mul64 yuan 100) cents))
          else Inr (add64 (mul64 yuan 100) 0))"

definition mustParseCallbackAmount :: "string \<Rightarrow> int" where
  "mustParseCallbackAmount value = (case amountStringToCents value of Inl _ \<Rightarrow> 0 | Inr cents \<Rightarrow> cents)"

definition callback_parts :: "string \<Rightarrow> form \<Rightarrow> string list" where
  "callback_parts provider form =
     (let notifyID = trim_space (form_get form ''notify_id'')
      in [''payment_callback_v1'', trim_space provider] @
        (if notifyID \<noteq> [] then [''notify_id'', notifyID]
         else [''callback_facts'', trim_space (form_get form ''out_trade_no''), trim_space (form_get form ''trade_no''),
           trim_space (form_get form ''trade_status''), trim_space (form_get form ''app_id''),
           trim_space (form_get form ''total_amount'')]))"

definition callbackDedupeKey :: "(string \<Rightarrow> string) \<Rightarrow> string \<Rightarrow> form \<Rightarrow> string" where
  "callbackDedupeKey sha256 provider form = sha256 (join_with [CHR 0x00] (callback_parts provider form))"

definition formFirstValuesLimited :: "form \<Rightarrow> nat \<Rightarrow> (string \<times> string) list" where
  "formFirstValuesLimited form maxValueRunes =
     map (\<lambda>(key, v). (key, if 0 < maxValueRunes then trimMax v maxValueRunes else v)) (form_firsts form)"

text \<open>\<open>json.Marshal\<close> of a map from strings to strings: its entries in the order of their keys, byte by byte\<close>

definition json_map_text :: "(string \<times> string) list \<Rightarrow> string" where
  "json_map_text entries = ''{'' @ join_with '','' (map (\<lambda>(key, v). json_string_text key @ '':'' @ json_string_text v)
     (sort_key (\<lambda>(key, _). map of_char key :: int list) entries)) @ ''}''"

definition callbackAuditPayloadJSON :: "form \<Rightarrow> string" where
  "callbackAuditPayloadJSON form = json_map_text (formFirstValuesLimited form 4096)"

end
