(* ===== verification/PaymentConfig.thy ===== *)
theory PaymentConfig
  imports PaymentText
begin

text \<open>
  Payment configurations and recharge packages: the statements of repository.go and
  recharge_repository.go on them, and the service's operations on configurations (service.go), with
  the gateway, the secret box, the certificate store and resolver as parameters.

  Every answer from outside is read at the point in time it is asked for: \<open>ask\<close> hands the number of
  the next clock reading to the parameter and lets that time pass.
\<close>

section \<open>The service\<close>

record CertificateFile =
  ct_ConfigCode :: string
  ct_CertType :: string
  ct_FileName :: string
  ct_Size :: int
  ct_Content :: "string option"

record CertificateSaveResult =
  cs_Path :: string
  cs_FileName :: string
  cs_SHA256 :: string
  cs_Size :: int

record payment_env =
  pe_db :: env
  pe_repository :: bool
  pe_configured :: bool
  pe_gateway :: "gateway option"
  pe_encrypt :: "nat \<Rightarrow> string \<Rightarrow> string + string"
  pe_decrypt :: "string \<Rightarrow> string + string"
  pe_resolve :: "nat \<Rightarrow> string \<Rightarrow> string + string"
  pe_save :: "(nat \<Rightarrow> CertificateFile \<Rightarrow> string + CertificateSaveResult) option"
  pe_url :: "string \<Rightarrow> (string \<times> string) option"
  pe_sha256 :: "string \<Rightarrow> string"
  pe_dir :: directory

type_synonym ('z, 'a) payment_service_act = "(pay_app_error, 'z payment_tables_scheme world, 'a) act"

definition ask :: "(nat \<Rightarrow> 'e + 'a) \<Rightarrow> ('e, 'd world, 'a) act" where
  "ask f s = (f (clock_no s), s\<lparr>clock_no := Suc (clock_no s)\<rparr>)"

definition unless :: "'e option \<Rightarrow> 'e + unit" where
  "unless failure = (case failure of Some e \<Rightarrow> Inl e | None \<Rightarrow> Inr ())"

definition payment_now :: "payment_env \<Rightarrow> ('e, 'd world, gotime) act" where
  "payment_now pe = read_clock (pe_db pe)"

definition payment_requireRepository :: "payment_env \<Rightarrow> ('z, unit) payment_service_act" where
  "payment_requireRepository pe = (if pe_repository pe then ret () else throw (Internal (encode_runes [25903, 20184, 37197, 32622, 20179, 24211, 26410, 37197, 32622])))"

definition wrapped :: "string \<Rightarrow> ('z, 'a) pay_act \<Rightarrow> ('z, 'a) payment_service_act" where
  "wrapped message m = map_error (\<lambda>err. internal_wrap message (PaymentCause err)) m"

definition payment_formatTime :: "payment_env \<Rightarrow> gotime \<Rightarrow> string" where
  "payment_formatTime pe t = (if time_is_zero t then [] else di_layout (pe_dir pe) t)"

definition formatPtrTime :: "payment_env \<Rightarrow> gotime option \<Rightarrow> string" where
  "formatPtrTime pe t = (case t of None \<Rightarrow> [] | Some t \<Rightarrow> payment_formatTime pe t)"

definition isHTTPURL :: "payment_env \<Rightarrow> string \<Rightarrow> bool" where
  "isHTTPURL pe v = (case pe_url pe (trim_space v) of
     None \<Rightarrow> False
   | Some (scheme, host) \<Rightarrow> host \<noteq> [] \<and> (scheme = ''http'' \<or> scheme = ''https''))"

section \<open>Statements on configurations (repository.go)\<close>

definition live_config :: "int \<Rightarrow> Config \<Rightarrow> bool" where
  "live_config i c \<longleftrightarrow> cf_ID c = i \<and> cf_IsDel c = CommonNo"

definition GetConfig :: "bool \<Rightarrow> env \<Rightarrow> int \<Rightarrow> ('z, Config option) pay_act" where
  "GetConfig configured ev i =
     (if \<not> configured then throw payment_error.ErrRepositoryNotConfigured else optional_first ev configs (live_config i))"

definition GetConfigByCode :: "bool \<Rightarrow> env \<Rightarrow> string \<Rightarrow> ('z, Config option) pay_act" where
  "GetConfigByCode configured ev code =
     (if \<not> configured then throw payment_error.ErrRepositoryNotConfigured
      else optional_first ev configs (\<lambda>c. cf_Code c = trim_space code \<and> cf_IsDel c = CommonNo))"

definition GetConfigByIDForSettlement :: "bool \<Rightarrow> env \<Rightarrow> int \<Rightarrow> ('z, Config option) pay_act" where
  "GetConfigByIDForSettlement configured ev i =
     (if \<not> configured then throw payment_error.ErrRepositoryNotConfigured
      else optional_first ev configs (\<lambda>c. cf_ID c = i))"

definition repository_CreateConfig :: "bool \<Rightarrow> env \<Rightarrow> Config \<Rightarrow> ('z, int) pay_act" where
  "repository_CreateConfig configured ev cfg =
     (if \<not> configured then throw payment_error.ErrRepositoryNotConfigured
      else bind (map_error PayDb (insert_row ev configs configs_update (\<lambda>_ _. None)
        (\<lambda>i t. cfg\<lparr>cf_ID := i, cf_IsDel := CommonNo, cf_CreatedAt := t, cf_UpdatedAt := t\<rparr>))) (\<lambda>c. ret (cf_ID c)))"

definition update_config :: "bool \<Rightarrow> env \<Rightarrow> int \<Rightarrow> (Config \<Rightarrow> Config) \<Rightarrow> ('z, unit) pay_act" where
  "update_config configured ev i g =
     (if \<not> configured then throw payment_error.ErrRepositoryNotConfigured
      else bind (map_error PayDb (update_where ev configs configs_update (live_config i)
        (\<lambda>t c. (g c)\<lparr>cf_UpdatedAt := t\<rparr>))) (\<lambda>_. ret ()))"

definition repository_UpdateConfig :: "bool \<Rightarrow> env \<Rightarrow> Config \<Rightarrow> bool \<Rightarrow> ('z, unit) pay_act" where
  "repository_UpdateConfig configured ev cfg keepPrivateKey =
     update_config configured ev (cf_ID cfg) (\<lambda>c.
       let c = c\<lparr>cf_Provider := cf_Provider cfg, cf_Name := cf_Name cfg, cf_AppID := cf_AppID cfg,
         cf_AppCertPath := cf_AppCertPath cfg, cf_PlatformCertPath := cf_PlatformCertPath cfg,
         cf_RootCertPath := cf_RootCertPath cfg, cf_NotifyURL := cf_NotifyURL cfg,
         cf_Environment := cf_Environment cfg, cf_EnabledMethodsJSON := cf_EnabledMethodsJSON cfg,
         cf_Sort := cf_Sort cfg, cf_Status := cf_Status cfg, cf_Remark := cf_Remark cfg\<rparr>
       in if keepPrivateKey then c
          else c\<lparr>cf_PrivateKeyEnc := cf_PrivateKeyEnc cfg, cf_PrivateKeyHint := cf_PrivateKeyHint cfg\<rparr>)"

definition repository_ChangeConfigStatus :: "bool \<Rightarrow> env \<Rightarrow> int \<Rightarrow> int \<Rightarrow> ('z, unit) pay_act" where
  "repository_ChangeConfigStatus configured ev i status = update_config configured ev i (\<lambda>c. c\<lparr>cf_Status := status\<rparr>)"

definition repository_DeleteConfig :: "bool \<Rightarrow> env \<Rightarrow> int \<Rightarrow> ('z, unit) pay_act" where
  "repository_DeleteConfig configured ev i =
     update_config configured ev i (\<lambda>c. c\<lparr>cf_IsDel := CommonYes, cf_Status := CommonNo\<rparr>)"

record ConfigListQuery =
  cq_CurrentPage :: int
  cq_PageSize :: int
  cq_Name :: string
  cq_Provider :: string
  cq_Environment :: string
  cq_Status :: int

definition config_selected :: "directory \<Rightarrow> ConfigListQuery \<Rightarrow> Config \<Rightarrow> bool" where
  "config_selected dir q c \<longleftrightarrow>
     (let name = trim_space (cq_Name q); provider = trim_space (cq_Provider q); environment = trim_space (cq_Environment q)
      in cf_IsDel c = CommonNo \<and>
         (name \<noteq> [] \<longrightarrow> di_like dir (cf_Name c) (name @ ''%'') \<or> di_like dir (cf_Code c) (name @ ''%'') \<or>
            di_like dir (cf_AppID c) (name @ ''%'')) \<and>
         (provider \<noteq> [] \<longrightarrow> cf_Provider c = provider) \<and>
         (environment \<noteq> [] \<longrightarrow> cf_Environment c = environment) \<and>
         (0 < cq_Status q \<longrightarrow> cf_Status c = cq_Status q))"

text \<open>\<open>ORDER BY sort asc, id desc\<close>: sorting is stable.\<close>

definition repository_ListConfigs ::
    "bool \<Rightarrow> env \<Rightarrow> directory \<Rightarrow> ConfigListQuery \<Rightarrow> ('z, Config list \<times> int) pay_act" where
  "repository_ListConfigs configured ev dir q =
     (if \<not> configured then throw payment_error.ErrRepositoryNotConfigured
      else
        let (_, limit, offset) = payment_normalizePage (cq_CurrentPage q) (cq_PageSize q);
            selected = (\<lambda>d. sort_key cf_Sort (rev (sort_key cf_ID (filter (config_selected dir q) (configs d)))))
        in bind (map_error PayDb (query ev (\<lambda>d. int (length (selected d))))) (\<lambda>count.
           bind (map_error PayDb (query ev (\<lambda>d. limit_offset limit offset (selected d)))) (\<lambda>rows.
           ret (rows, count))))"

definition ListEnabledOrderConfigOptions :: "bool \<Rightarrow> env \<Rightarrow> ('z, Config list) pay_act" where
  "ListEnabledOrderConfigOptions configured ev =
     (if \<not> configured then throw payment_error.ErrRepositoryNotConfigured
      else map_error PayDb (query ev (\<lambda>d. sort_key cf_Sort (sort_key cf_ID
        (filter (\<lambda>c. cf_IsDel c = CommonNo \<and> cf_Status c = CommonYes) (configs d))))))"

definition FirstEnabledConfigForPay :: "bool \<Rightarrow> env \<Rightarrow> string \<Rightarrow> string \<Rightarrow> ('z, Config option) pay_act" where
  "FirstEnabledConfigForPay configured ev provider payMethod =
     (if \<not> configured then throw payment_error.ErrRepositoryNotConfigured
      else bind (map_error PayDb (query ev (\<lambda>d. sort_key cf_Sort (sort_key cf_ID
        (filter (\<lambda>c. cf_Provider c = trim_space provider \<and> cf_Status c = CommonYes \<and> cf_IsDel c = CommonNo) (configs d)))))) (\<lambda>rows.
        ret (find (\<lambda>c. methodEnabled (cf_EnabledMethodsJSON c) (trim_space payMethod)) rows)))"

section \<open>Statements on packages (recharge_repository.go)\<close>

definition ListRechargePackages :: "bool \<Rightarrow> env \<Rightarrow> ('z, RechargePackage list) pay_act" where
  "ListRechargePackages configured ev =
     (if \<not> configured then throw payment_error.ErrRepositoryNotConfigured
      else map_error PayDb (query ev (\<lambda>d. sort_key p_Sort (sort_key p_ID
        (filter (\<lambda>p. p_IsDel p = CommonNo \<and> p_Status p = CommonYes) (packages d))))))"

definition GetRechargePackageByCode :: "bool \<Rightarrow> env \<Rightarrow> string \<Rightarrow> ('z, RechargePackage option) pay_act" where
  "GetRechargePackageByCode configured ev code =
     (if \<not> configured then throw payment_error.ErrRepositoryNotConfigured
      else optional_first ev packages (\<lambda>p. p_Code p = trim_space code \<and> p_IsDel p = CommonNo \<and> p_Status p = CommonYes))"

section \<open>Orders of a configuration (order_repository.go)\<close>

record OrderListQuery =
  oq_CurrentPage :: int
  oq_PageSize :: int
  oq_Keyword :: string
  oq_ConfigCode :: string
  oq_Provider :: string
  oq_PayMethod :: string
  oq_Status :: string
  oq_DateStart :: string
  oq_DateEnd :: string

text \<open>\<open>column >= text\<close> and \<open>column <= text\<close>, as MySQL reads the text as a time\<close>

definition since :: "directory \<Rightarrow> gotime \<Rightarrow> string \<Rightarrow> bool" where
  "since dir t v = (case di_instant dir v of None \<Rightarrow> False | Some i \<Rightarrow> i \<le> t)"

definition until :: "directory \<Rightarrow> gotime \<Rightarrow> string \<Rightarrow> bool" where
  "until dir t v = (case di_instant dir v of None \<Rightarrow> False | Some i \<Rightarrow> t \<le> i)"

definition order_selected :: "directory \<Rightarrow> OrderListQuery \<Rightarrow> Order \<Rightarrow> bool" where
  "order_selected dir q x \<longleftrightarrow>
     (let keyword = trim_space (oq_Keyword q); configCode = trim_space (oq_ConfigCode q);
          provider = trim_space (oq_Provider q); payMethod = trim_space (oq_PayMethod q); status = trim_space (oq_Status q);
          start = trim_space (oq_DateStart q); end_text = trim_space (oq_DateEnd q)
      in o_IsDel x = CommonNo \<and>
         (keyword \<noteq> [] \<longrightarrow> di_like dir (o_OrderNo x) (keyword @ ''%'') \<or> di_like dir (o_Subject x) (keyword @ ''%'')) \<and>
         (configCode \<noteq> [] \<longrightarrow> o_ConfigCode x = configCode) \<and>
         (provider \<noteq> [] \<longrightarrow> o_Provider x = provider) \<and>
         (payMethod \<noteq> [] \<longrightarrow> o_PayMethod x = payMethod) \<and>
         (status \<noteq> [] \<longrightarrow> o_Status x = status) \<and>
         (start \<noteq> [] \<longrightarrow> since dir (o_CreatedAt x) start) \<and>
         (end_text \<noteq> [] \<longrightarrow> until dir (o_CreatedAt x) end_text))"

definition repository_ListOrders ::
    "bool \<Rightarrow> env \<Rightarrow> directory \<Rightarrow> OrderListQuery \<Rightarrow> ('z, Order list \<times> int) pay_act" where
  "repository_ListOrders configured ev dir q =
     (if \<not> configured then throw payment_error.ErrRepositoryNotConfigured
      else
        let (_, limit, offset) = payment_normalizePage (oq_CurrentPage q) (oq_PageSize q);
            selected = (\<lambda>d. rev (sort_key o_ID (filter (order_selected dir q) (pay_orders d))))
        in bind (map_error PayDb (query ev (\<lambda>d. int (length (selected d))))) (\<lambda>count.
           bind (map_error PayDb (query ev (\<lambda>d. limit_offset limit offset (selected d)))) (\<lambda>rows.
           ret (rows, count))))"

section \<open>Gateway configuration of a row (order_service.go)\<close>

definition gatewayConfigFromConfig :: "payment_env \<Rightarrow> Config \<Rightarrow> ('z, ChannelConfig) payment_service_act" where
  "gatewayConfigFromConfig pe cfg =
     (if trim_space (cf_Provider cfg) \<noteq> providerAlipay then throw (BadRequest (encode_runes [24403, 21069, 20165, 25903, 25345, 25903, 20184, 23453, 25903, 20184, 37197, 32622]))
      else if \<not> isPaymentEnvironment (trim_space (cf_Environment cfg)) then throw (BadRequest (encode_runes [26080, 25928, 30340, 25903, 20184, 23453, 29615, 22659]))
      else
        bind (pure_result (decodeEnabledMethods (cf_EnabledMethodsJSON cfg))) (\<lambda>_.
        case pe_decrypt pe (cf_PrivateKeyEnc cfg) of
          Inl err \<Rightarrow> throw (internal_wrap (encode_runes [35299, 23494, 25903, 20184, 23453, 24212, 29992, 31169, 38053, 22833, 36133]) (DecryptCause err))
        | Inr privateKey \<Rightarrow>
            if trim_space privateKey = [] then throw (BadRequest (encode_runes [25903, 20184, 23453, 24212, 29992, 31169, 38053, 26410, 37197, 32622]))
            else
              bind (map_error (\<lambda>err. bad_request_wrap (encode_runes [24212, 29992, 20844, 38053, 35777, 20070, 19981, 21487, 29992]) (CertificateCause err))
                (ask (\<lambda>k. pe_resolve pe k (cf_AppCertPath cfg)))) (\<lambda>appCertPath.
              bind (map_error (\<lambda>err. bad_request_wrap (encode_runes [25903, 20184, 23453, 20844, 38053, 35777, 20070, 19981, 21487, 29992]) (CertificateCause err))
                (ask (\<lambda>k. pe_resolve pe k (cf_PlatformCertPath cfg)))) (\<lambda>alipayCertPath.
              bind (map_error (\<lambda>err. bad_request_wrap (encode_runes [25903, 20184, 23453, 26681, 35777, 20070, 19981, 21487, 29992]) (CertificateCause err))
                (ask (\<lambda>k. pe_resolve pe k (cf_RootCertPath cfg)))) (\<lambda>rootCertPath.
              ret \<lparr>cc_Provider = cf_Provider cfg, cc_AppID = cf_AppID cfg, cc_PrivateKey = privateKey,
                cc_AppCertPath = appCertPath, cc_PlatformCertPath = alipayCertPath, cc_RootCertPath = rootCertPath,
                cc_NotifyURL = cf_NotifyURL cfg, cc_IsSandbox = (cf_Environment cfg = environmentSandbox)\<rparr>)))))"

definition requireGateway :: "payment_env \<Rightarrow> ('z, gateway) payment_service_act" where
  "requireGateway pe = (case pe_gateway pe of None \<Rightarrow> throw (Internal (encode_runes [25903, 20184, 23453, 32593, 20851, 26410, 37197, 32622])) | Some gw \<Rightarrow> ret gw)"

section \<open>The service's operations on configurations (service.go)\<close>

record ConfigMutationInput =
  cm_Provider :: string
  cm_Code :: string
  cm_Name :: string
  cm_AppID :: string
  cm_AppPrivateKey :: string
  cm_AppCertPath :: string
  cm_PlatformCertPath :: string
  cm_RootCertPath :: string
  cm_NotifyURL :: string
  cm_Environment :: string
  cm_EnabledMethods :: "string list"
  cm_Sort :: int
  cm_Status :: int
  cm_Remark :: string

record ConfigTestResponse =
  cr_OK :: bool
  cr_Checks :: "string list"
  cr_Message :: string

definition configCodePattern :: "string \<Rightarrow> bool" where
  "configCodePattern code \<longleftrightarrow> code \<noteq> [] \<and> list_all (\<lambda>c. is_digit c \<or> 97 \<le> (of_char c :: int) \<and> (of_char c :: int) \<le> 122 \<or>
     c = CHR ''_'' \<or> c = CHR ''-'') code"

text \<open>\<open>secretbox.Hint\<close>\<close>

definition secretbox_Hint :: "string \<Rightarrow> string" where
  "secretbox_Hint plain =
     (if plain = [] then []
      else if length plain \<le> 4 then ''***'' @ plain
      else ''***'' @ drop (length plain - 4) plain)"

text \<open>The key of a new or changed configuration: kept, or encrypted.\<close>

definition mutation_key :: "payment_env \<Rightarrow> string \<Rightarrow> Config option \<Rightarrow> bool \<Rightarrow> ('z, string \<times> string \<times> bool) payment_service_act" where
  "mutation_key pe key existing create =
     (case (\<not> create \<and> key = [], existing) of
        (True, Some old) \<Rightarrow> ret (cf_PrivateKeyEnc old, cf_PrivateKeyHint old, True)
      | _ \<Rightarrow> if key = [] then throw (BadRequest (encode_runes [26032, 22686, 25903, 20184, 37197, 32622, 24517, 39035, 22635, 20889, 24212, 29992, 31169, 38053]))
          else bind (map_error (\<lambda>err. internal_wrap (encode_runes [21152, 23494, 25903, 20184, 23453, 24212, 29992, 31169, 38053, 22833, 36133]) (EncryptCause err))
            (ask (\<lambda>k. pe_encrypt pe k key))) (\<lambda>enc. ret (enc, secretbox_Hint key, False)))"

definition normalizeMutation ::
    "payment_env \<Rightarrow> ConfigMutationInput \<Rightarrow> Config option \<Rightarrow> bool \<Rightarrow> ('z, Config \<times> bool) payment_service_act" where
  "normalizeMutation pe input existing create =
     (let provider = (if trim_space (cm_Provider input) = [] then providerAlipay else trim_space (cm_Provider input));
          code = trim_space (cm_Code input); name = trim_space (cm_Name input); appID = trim_space (cm_AppID input);
          environment = trim_space (cm_Environment input); notifyURL = trim_space (cm_NotifyURL input)
      in if provider \<noteq> providerAlipay then throw (BadRequest (encode_runes [24403, 21069, 20165, 25903, 25345, 25903, 20184, 23453, 25903, 20184, 37197, 32622]))
      else if code = [] \<or> \<not> configCodePattern code then throw (BadRequest (encode_runes [25903, 20184, 37197, 32622, 32534, 30721, 21482, 33021, 21253, 21547, 23567, 20889, 23383, 27597, 12289, 25968, 23383, 12289, 19979, 21010, 32447, 21644, 20013, 21010, 32447]))
      else if (case existing of Some old \<Rightarrow> code \<noteq> cf_Code old | None \<Rightarrow> False) then throw (BadRequest (encode_runes [25903, 20184, 37197, 32622, 32534, 30721, 21019, 24314, 21518, 19981, 33021, 20462, 25913]))
      else if (case existing of Some old \<Rightarrow> provider \<noteq> cf_Provider old | None \<Rightarrow> False) then throw (BadRequest (encode_runes [25903, 20184, 37197, 32622, 20379, 24212, 21830, 21019, 24314, 21518, 19981, 33021, 20462, 25913]))
      else if name = [] \<or> appID = [] then throw (BadRequest (encode_runes [25903, 20184, 37197, 32622, 21517, 31216, 21644, 25903, 20184, 23453, 65, 112, 112, 73, 68, 19981, 33021, 20026, 31354]))
      else if \<not> isPaymentEnvironment environment then throw (BadRequest (encode_runes [26080, 25928, 30340, 25903, 20184, 23453, 29615, 22659]))
      else bind (pure_result (normalizeEnabledMethods (cm_EnabledMethods input))) (\<lambda>methods.
        if \<not> IsCommonStatus (cm_Status input) then throw (BadRequest (encode_runes [26080, 25928, 30340, 25903, 20184, 37197, 32622, 29366, 24577]))
        else if \<not> isHTTPURL pe notifyURL then throw (BadRequest (encode_runes [25903, 20184, 23453, 24322, 27493, 36890, 30693, 22320, 22336, 24517, 39035, 26159, 32, 104, 116, 116, 112, 32, 25110, 32, 104, 116, 116, 112, 115, 32, 85, 82, 76]))
        else bind (mutation_key pe (trim_space (cm_AppPrivateKey input)) existing create) (\<lambda>(keyEnc, keyHint, keepPrivateKey).
          ret (\<lparr>cf_ID = 0, cf_Provider = provider, cf_Code = code, cf_Name = name, cf_AppID = appID,
            cf_PrivateKeyEnc = keyEnc, cf_PrivateKeyHint = keyHint, cf_AppCertPath = trim_space (cm_AppCertPath input),
            cf_PlatformCertPath = trim_space (cm_PlatformCertPath input), cf_RootCertPath = trim_space (cm_RootCertPath input),
            cf_NotifyURL = notifyURL, cf_Environment = environment, cf_EnabledMethodsJSON = json_strings_text methods,
            cf_Sort = (if cm_Sort input \<le> 0 then 100 else cm_Sort input), cf_Status = cm_Status input,
            cf_Remark = trim_space (cm_Remark input), cf_IsDel = CommonNo, cf_CreatedAt = 0, cf_UpdatedAt = 0\<rparr>, keepPrivateKey))))"

definition testConfigRow :: "payment_env \<Rightarrow> Config \<Rightarrow> ('z, ConfigTestResponse) payment_service_act" where
  "testConfigRow pe cfg =
     (case pe_gateway pe of
        None \<Rightarrow> throw (Internal (encode_runes [25903, 20184, 23453, 32593, 20851, 26410, 37197, 32622]))
      | Some gw \<Rightarrow>
          bind (gatewayConfigFromConfig pe cfg) (\<lambda>platformCfg.
          bind (map_error (\<lambda>err. bad_request_wrap (encode_runes [25903, 20184, 23453, 37197, 32622, 27979, 35797, 22833, 36133]) (GatewayCause err))
            (ask (\<lambda>k. unless (gw_TestConfig gw k platformCfg)))) (\<lambda>_.
          ret \<lparr>cr_OK = True, cr_Checks = [''private_key_decrypted'', ''cert_paths_resolved'', ''alipay_client_built''],
            cr_Message = (encode_runes [25903, 20184, 23453, 37197, 32622, 26412, 22320, 26657, 39564, 36890, 36807])\<rparr>)))"

text \<open>The loop over the open statuses\<close>

fun open_orders :: "payment_env \<Rightarrow> string \<Rightarrow> string list \<Rightarrow> ('z, unit) payment_service_act" where
  "open_orders pe code [] = ret ()"
| "open_orders pe code (status # rest) =
     bind (wrapped (encode_runes [26597, 35810, 25903, 20184, 35746, 21333, 22833, 36133]) (repository_ListOrders (pe_configured pe) (pe_db pe) (pe_dir pe)
       \<lparr>oq_CurrentPage = 1, oq_PageSize = 1, oq_Keyword = [], oq_ConfigCode = code, oq_Provider = [],
        oq_PayMethod = [], oq_Status = status, oq_DateStart = [], oq_DateEnd = []\<rparr>)) (\<lambda>(rows, count).
     if 0 < count \<or> rows \<noteq> [] then throw (BadRequest (encode_runes [25903, 20184, 37197, 32622, 23384, 22312, 26410, 23436, 25104, 25903, 20184, 35746, 21333, 65292, 19981, 33021, 20462, 25913, 12289, 31105, 29992, 25110, 21024, 38500]))
     else open_orders pe code rest)"

definition ensureNoOpenOrdersForConfig :: "payment_env \<Rightarrow> string \<Rightarrow> ('z, unit) payment_service_act" where
  "ensureNoOpenOrdersForConfig pe code =
     (if trim_space code = [] then ret () else open_orders pe (trim_space code) orderOpenStatuses)"

definition service_CreateConfig :: "payment_env \<Rightarrow> ConfigMutationInput \<Rightarrow> ('z, int) payment_service_act" where
  "service_CreateConfig pe input =
     bind (payment_requireRepository pe) (\<lambda>_.
     bind (normalizeMutation pe input None True) (\<lambda>(cfg, _).
     bind (if cf_Status cfg = CommonYes then bind (testConfigRow pe cfg) (\<lambda>_. ret ()) else ret ()) (\<lambda>_.
     wrapped (encode_runes [26032, 22686, 25903, 20184, 37197, 32622, 22833, 36133]) (repository_CreateConfig (pe_configured pe) (pe_db pe) cfg))))"

text \<open>A row that must exist\<close>

definition config_by_id :: "payment_env \<Rightarrow> int \<Rightarrow> ('z, Config) payment_service_act" where
  "config_by_id pe i =
     bind (wrapped (encode_runes [26597, 35810, 25903, 20184, 37197, 32622, 22833, 36133]) (GetConfig (pe_configured pe) (pe_db pe) i)) (\<lambda>row.
     case row of None \<Rightarrow> throw (NotFound (encode_runes [25903, 20184, 37197, 32622, 19981, 23384, 22312])) | Some cfg \<Rightarrow> ret cfg)"

definition service_UpdateConfig :: "payment_env \<Rightarrow> int \<Rightarrow> ConfigMutationInput \<Rightarrow> ('z, unit) payment_service_act" where
  "service_UpdateConfig pe i input =
     (if i \<le> 0 then throw (BadRequest (encode_runes [26080, 25928, 30340, 25903, 20184, 37197, 32622, 73, 68]))
      else
        bind (payment_requireRepository pe) (\<lambda>_.
        bind (config_by_id pe i) (\<lambda>existing.
        bind (ensureNoOpenOrdersForConfig pe (cf_Code existing)) (\<lambda>_.
        bind (normalizeMutation pe input (Some existing) False) (\<lambda>(cfg, keepPrivateKey).
        let cfg = cfg\<lparr>cf_ID := i\<rparr>
        in bind (if cf_Status cfg = CommonYes then bind (testConfigRow pe cfg) (\<lambda>_. ret ()) else ret ()) (\<lambda>_.
           wrapped (encode_runes [32534, 36753, 25903, 20184, 37197, 32622, 22833, 36133]) (repository_UpdateConfig (pe_configured pe) (pe_db pe) cfg keepPrivateKey)))))))"

definition service_ChangeConfigStatus :: "payment_env \<Rightarrow> int \<Rightarrow> int \<Rightarrow> ('z, unit) payment_service_act" where
  "service_ChangeConfigStatus pe i status =
     (if i \<le> 0 \<or> \<not> IsCommonStatus status then throw (BadRequest (encode_runes [26080, 25928, 30340, 25903, 20184, 37197, 32622, 29366, 24577]))
      else
        bind (payment_requireRepository pe) (\<lambda>_.
        bind (config_by_id pe i) (\<lambda>cfg.
        bind (if status = CommonYes then bind (testConfigRow pe cfg) (\<lambda>_. ret ())
          else ensureNoOpenOrdersForConfig pe (cf_Code cfg)) (\<lambda>_.
        wrapped (encode_runes [20999, 25442, 25903, 20184, 37197, 32622, 29366, 24577, 22833, 36133]) (repository_ChangeConfigStatus (pe_configured pe) (pe_db pe) i status)))))"

definition service_DeleteConfig :: "payment_env \<Rightarrow> int \<Rightarrow> ('z, unit) payment_service_act" where
  "service_DeleteConfig pe i =
     (if i \<le> 0 then throw (BadRequest (encode_runes [26080, 25928, 30340, 25903, 20184, 37197, 32622, 73, 68]))
      else
        bind (payment_requireRepository pe) (\<lambda>_.
        bind (config_by_id pe i) (\<lambda>cfg.
        bind (ensureNoOpenOrdersForConfig pe (cf_Code cfg)) (\<lambda>_.
        wrapped (encode_runes [21024, 38500, 25903, 20184, 37197, 32622, 22833, 36133]) (repository_DeleteConfig (pe_configured pe) (pe_db pe) i)))))"

definition TestConfig :: "payment_env \<Rightarrow> int \<Rightarrow> ('z, ConfigTestResponse) payment_service_act" where
  "TestConfig pe i =
     (if i \<le> 0 then throw (BadRequest (encode_runes [26080, 25928, 30340, 25903, 20184, 37197, 32622, 73, 68]))
      else bind (payment_requireRepository pe) (\<lambda>_. bind (config_by_id pe i) (testConfigRow pe)))"

definition UploadCertificate :: "payment_env \<Rightarrow> CertificateFile \<Rightarrow> ('z, CertificateSaveResult) payment_service_act" where
  "UploadCertificate pe input =
     (case pe_save pe of
        None \<Rightarrow> throw (Internal (encode_runes [25903, 20184, 35777, 20070, 23384, 20648, 26410, 37197, 32622]))
      | Some save \<Rightarrow> map_error (\<lambda>err. bad_request_wrap (encode_runes [19978, 20256, 25903, 20184, 23453, 35777, 20070, 22833, 36133]) (CertificateCause err))
          (ask (\<lambda>k. save k (input\<lparr>ct_CertType := certificateStoreType (ct_CertType input)\<rparr>))))"

section \<open>Lists of configurations\<close>

record ConfigListItem =
  ci_ID :: int
  ci_Provider :: string
  ci_ProviderText :: string
  ci_Code :: string
  ci_Name :: string
  ci_AppID :: string
  ci_PrivateKeyHint :: string
  ci_AppCertPath :: string
  ci_PlatformCertPath :: string
  ci_RootCertPath :: string
  ci_NotifyURL :: string
  ci_Environment :: string
  ci_EnvironmentText :: string
  ci_EnabledMethods :: "string list"
  ci_EnabledMethodsText :: string
  ci_Sort :: int
  ci_Status :: int
  ci_StatusText :: string
  ci_Remark :: string
  ci_CreatedAt :: string
  ci_UpdatedAt :: string

record ConfigListResponse =
  cl_List :: "ConfigListItem list"
  cl_Page :: Page

definition configListItem :: "payment_env \<Rightarrow> Config \<Rightarrow> pay_app_error + ConfigListItem" where
  "configListItem pe row =
     (case decodeEnabledMethods (cf_EnabledMethodsJSON row) of
        Inl appErr \<Rightarrow> Inl appErr
      | Inr methods \<Rightarrow> Inr
         \<lparr>ci_ID = cf_ID row, ci_Provider = cf_Provider row, ci_ProviderText = providerText (cf_Provider row),
          ci_Code = cf_Code row, ci_Name = cf_Name row, ci_AppID = cf_AppID row, ci_PrivateKeyHint = cf_PrivateKeyHint row,
          ci_AppCertPath = cf_AppCertPath row, ci_PlatformCertPath = cf_PlatformCertPath row,
          ci_RootCertPath = cf_RootCertPath row, ci_NotifyURL = cf_NotifyURL row, ci_Environment = cf_Environment row,
          ci_EnvironmentText = environmentText (cf_Environment row), ci_EnabledMethods = methods,
          ci_EnabledMethodsText = methodText methods, ci_Sort = cf_Sort row, ci_Status = cf_Status row,
          ci_StatusText = commonStatusText (cf_Status row), ci_Remark = cf_Remark row,
          ci_CreatedAt = payment_formatTime pe (cf_CreatedAt row), ci_UpdatedAt = payment_formatTime pe (cf_UpdatedAt row)\<rparr>)"

definition service_ListConfigs :: "payment_env \<Rightarrow> ConfigListQuery \<Rightarrow> ('z, ConfigListResponse) payment_service_act" where
  "service_ListConfigs pe q =
     (let q = q\<lparr>cq_Name := trim_space (cq_Name q), cq_Provider := trim_space (cq_Provider q),
        cq_Environment := trim_space (cq_Environment q)\<rparr>
      in bind (payment_requireRepository pe) (\<lambda>_.
         bind (wrapped (encode_runes [26597, 35810, 25903, 20184, 37197, 32622, 22833, 36133]) (repository_ListConfigs (pe_configured pe) (pe_db pe) (pe_dir pe) q)) (\<lambda>(rows, count).
         bind (pure_result (items_of (configListItem pe) rows)) (\<lambda>items.
         ret \<lparr>cl_List = items, cl_Page = payment_page (cq_CurrentPage q) (cq_PageSize q) count\<rparr>))))"

end
