(* ===== verification/PaymentService.thy ===== *)
theory PaymentService
  imports PaymentConfig
begin

text \<open>
  The payment service's operations on orders and recharges: order_service.go, recharge_service.go and
  finalizer.go, over the repository of PaymentRepo and PaymentConfig and the gateway.
\<close>

section \<open>Read models\<close>

record OrderListItem =
  oi_ID :: int
  oi_OrderNo :: string
  oi_ConfigCode :: string
  oi_Provider :: string
  oi_ProviderText :: string
  oi_PayMethod :: string
  oi_PayMethodText :: string
  oi_Subject :: string
  oi_AmountCents :: int
  oi_AmountText :: string
  oi_Status :: string
  oi_StatusText :: string
  oi_PayURL :: string
  oi_ExpiredAt :: string
  oi_CreatedAt :: string
  oi_UpdatedAt :: string

record OrderDetail = OrderListItem +
  od_ReturnURL :: string
  od_AlipayTradeNo :: string
  od_PaidAt :: string
  od_ClosedAt :: string
  od_FailureReason :: string

record OrderListResponse =
  ol_List :: "OrderListItem list"
  ol_Page :: Page

record OrderCreateResponse =
  oc_ID :: int
  oc_OrderNo :: string
  oc_Status :: string

record OrderPayResponse =
  op_ID :: int
  op_OrderNo :: string
  op_Status :: string
  op_PayURL :: string

record OrderStatusResponse =
  os_ID :: int
  os_OrderNo :: string
  os_Status :: string
  os_StatusText :: string
  os_AlipayTradeNo :: string
  os_PaidAt :: string
  os_ClosedAt :: string

record OrderConfigOption =
  co_Label :: string
  co_Value :: string
  co_Provider :: string
  co_EnabledMethods :: "string list"

record OrderCreateInput =
  in_ConfigCode :: string
  in_PayMethod :: string
  in_Subject :: string
  in_AmountCents :: int
  in_ReturnURL :: string
  in_ExpireMinutes :: int

definition orderListItem :: "payment_env \<Rightarrow> Order \<Rightarrow> OrderListItem" where
  "orderListItem pe row =
     \<lparr>oi_ID = o_ID row, oi_OrderNo = o_OrderNo row, oi_ConfigCode = o_ConfigCode row, oi_Provider = o_Provider row,
      oi_ProviderText = providerText (o_Provider row), oi_PayMethod = o_PayMethod row,
      oi_PayMethodText = paymentMethodText (o_PayMethod row), oi_Subject = o_Subject row,
      oi_AmountCents = o_AmountCents row, oi_AmountText = payment_amountText (o_AmountCents row),
      oi_Status = o_Status row, oi_StatusText = orderStatusText (o_Status row), oi_PayURL = o_PayURL row,
      oi_ExpiredAt = payment_formatTime pe (o_ExpiredAt row), oi_CreatedAt = payment_formatTime pe (o_CreatedAt row),
      oi_UpdatedAt = payment_formatTime pe (o_UpdatedAt row)\<rparr>"

definition orderDetail :: "payment_env \<Rightarrow> Order \<Rightarrow> OrderDetail" where
  "orderDetail pe row = OrderListItem.extend (orderListItem pe row)
     (OrderDetail.fields (o_ReturnURL row) (o_AlipayTradeNo row) (formatPtrTime pe (o_PaidAt row))
       (formatPtrTime pe (o_ClosedAt row)) (o_FailureReason row))"

definition orderStatusResponse :: "payment_env \<Rightarrow> Order \<Rightarrow> OrderStatusResponse" where
  "orderStatusResponse pe row =
     \<lparr>os_ID = o_ID row, os_OrderNo = o_OrderNo row, os_Status = o_Status row, os_StatusText = orderStatusText (o_Status row),
      os_AlipayTradeNo = o_AlipayTradeNo row, os_PaidAt = formatPtrTime pe (o_PaidAt row),
      os_ClosedAt = formatPtrTime pe (o_ClosedAt row)\<rparr>"

definition order_pay_response :: "Order \<Rightarrow> OrderPayResponse" where
  "order_pay_response row = \<lparr>op_ID = o_ID row, op_OrderNo = o_OrderNo row, op_Status = o_Status row, op_PayURL = o_PayURL row\<rparr>"

definition resultStatus :: "QueryResult option \<Rightarrow> string" where
  "resultStatus result = (case result of None \<Rightarrow> [] | Some r \<Rightarrow> qr_Status r)"

definition resultTradeNo :: "QueryResult option \<Rightarrow> string" where
  "resultTradeNo result = (case result of None \<Rightarrow> [] | Some r \<Rightarrow> qr_TradeNo r)"

definition resultPaidAt :: "QueryResult option \<Rightarrow> gotime \<Rightarrow> gotime" where
  "resultPaidAt result now =
     (case result of None \<Rightarrow> now | Some r \<Rightarrow> (case qr_PaidAt r of None \<Rightarrow> now | Some t \<Rightarrow> t))"

definition orderExpired :: "Order \<Rightarrow> gotime \<Rightarrow> bool" where
  "orderExpired row now \<longleftrightarrow> \<not> time_is_zero (o_ExpiredAt row) \<and> \<not> now < o_ExpiredAt row"

section \<open>Rows the operations start from\<close>

definition orderByID :: "payment_env \<Rightarrow> int \<Rightarrow> ('z, Order) payment_service_act" where
  "orderByID pe i =
     (if i \<le> 0 then throw (BadRequest (encode_runes [26080, 25928, 30340, 25903, 20184, 35746, 21333, 73, 68]))
      else
        bind (payment_requireRepository pe) (\<lambda>_.
        bind (wrapped (encode_runes [26597, 35810, 25903, 20184, 35746, 21333, 22833, 36133]) (GetOrder (pe_configured pe) (pe_db pe) i)) (\<lambda>row.
        case row of None \<Rightarrow> throw (NotFound (encode_runes [25903, 20184, 35746, 21333, 19981, 23384, 22312])) | Some x \<Rightarrow> ret x)))"

definition enabledConfigByCode :: "payment_env \<Rightarrow> string \<Rightarrow> ('z, Config) payment_service_act" where
  "enabledConfigByCode pe code =
     bind (payment_requireRepository pe) (\<lambda>_.
     bind (wrapped (encode_runes [26597, 35810, 25903, 20184, 37197, 32622, 22833, 36133]) (GetConfigByCode (pe_configured pe) (pe_db pe) (trim_space code))) (\<lambda>row.
     case row of
       None \<Rightarrow> throw (NotFound (encode_runes [25903, 20184, 37197, 32622, 19981, 23384, 22312]))
     | Some cfg \<Rightarrow>
         if cf_Status cfg \<noteq> CommonYes then throw (BadRequest (encode_runes [25903, 20184, 37197, 32622, 26410, 21551, 29992]))
         else if cf_Provider cfg \<noteq> providerAlipay then throw (BadRequest (encode_runes [24403, 21069, 20165, 25903, 25345, 25903, 20184, 23453, 25903, 20184, 37197, 32622]))
         else ret cfg))"

definition configByOrder :: "payment_env \<Rightarrow> Order \<Rightarrow> ('z, Config) payment_service_act" where
  "configByOrder pe row =
     bind (payment_requireRepository pe) (\<lambda>_.
     bind (wrapped (encode_runes [26597, 35810, 25903, 20184, 37197, 32622, 22833, 36133]) (GetConfigByIDForSettlement (pe_configured pe) (pe_db pe) (o_ConfigID row))) (\<lambda>found.
     case found of
       None \<Rightarrow> throw (NotFound (encode_runes [25903, 20184, 37197, 32622, 19981, 23384, 22312]))
     | Some cfg \<Rightarrow>
         if cf_ID cfg \<noteq> o_ConfigID row \<or> trim_space (cf_Code cfg) \<noteq> trim_space (o_ConfigCode row)
         then throw (BadRequest (encode_runes [25903, 20184, 35746, 21333, 32465, 23450, 37197, 32622, 19981, 19968, 33268]))
         else if cf_Provider cfg \<noteq> providerAlipay then throw (BadRequest (encode_runes [24403, 21069, 20165, 25903, 25345, 25903, 20184, 23453, 25903, 20184, 37197, 32622]))
         else ret cfg))"

text \<open>The three steps every use of the gateway for an order begins with\<close>

definition gateway_of :: "payment_env \<Rightarrow> Order \<Rightarrow> ('z, ChannelConfig \<times> gateway) payment_service_act" where
  "gateway_of pe row =
     bind (configByOrder pe row) (\<lambda>cfg.
     bind (gatewayConfigFromConfig pe cfg) (\<lambda>platformCfg.
     bind (requireGateway pe) (\<lambda>gw. ret (platformCfg, gw))))"

section \<open>Settling (finalizer.go)\<close>

definition finalizeSourceSync :: string where "finalizeSourceSync = ''sync''"
definition finalizeSourceCallback :: string where "finalizeSourceCallback = ''callback''"
definition finalizeSourceCronSync :: string where "finalizeSourceCronSync = ''cron_sync''"
definition finalizeSourceCronClose :: string where "finalizeSourceCronClose = ''cron_close''"

record FinalizePaidResult =
  fr_OrderID :: int
  fr_RechargeID :: int
  fr_OrderPaid :: bool
  fr_AlreadyPaid :: bool
  fr_RechargeCredited :: bool
  fr_RechargeAlreadyCredited :: bool
  fr_RawOrder :: bool
  fr_Source :: string

definition finalize_failure :: "payment_error \<Rightarrow> pay_app_error" where
  "finalize_failure err =
     (if err = ErrPaymentOrderNotFound then NotFound (encode_runes [25903, 20184, 35746, 21333, 19981, 23384, 22312])
      else if err = ErrPaymentStateChanged then BadRequest (encode_runes [20805, 20540, 21333, 29366, 24577, 24050, 21464, 21270, 65292, 19981, 33021, 20837, 36134])
      else internal_wrap (encode_runes [25903, 20184, 32456, 32467, 22833, 36133]) (PaymentCause err))"

definition FinalizeOrderPaid ::
    "payment_env \<Rightarrow> int \<Rightarrow> string \<Rightarrow> gotime \<Rightarrow> string \<Rightarrow> ('z, FinalizePaidResult) payment_service_act" where
  "FinalizeOrderPaid pe orderID tradeNo paidAt source =
     bind (payment_requireRepository pe) (\<lambda>_.
     if orderID \<le> 0 then throw (BadRequest (encode_runes [26080, 25928, 30340, 25903, 20184, 35746, 21333, 73, 68]))
     else
       bind (if time_is_zero paidAt then payment_now pe else ret paidAt) (\<lambda>paidAt.
       bind (payment_now pe) (\<lambda>now.
       bind (map_error finalize_failure (FinalizePaidOrder (pe_configured pe) (pe_db pe) orderID tradeNo paidAt now)) (\<lambda>pf.
       ret \<lparr>fr_OrderID = o_ID (pf_Order pf),
         fr_RechargeID = (case pf_Recharge pf of None \<Rightarrow> 0 | Some r \<Rightarrow> r_ID r),
         fr_OrderPaid = pf_OrderPaid pf, fr_AlreadyPaid = pf_OrderAlreadyPaid pf,
         fr_RechargeCredited = pf_RechargeCredited pf, fr_RechargeAlreadyCredited = pf_RechargeAlreadyCredited pf,
         fr_RawOrder = pf_RawOrder pf,
         fr_Source = (if trim_space source = [] then finalizeSourceSync else trim_space source)\<rparr>))))"

section \<open>Closing with the linked recharge (job_service.go)\<close>

definition canCloseLinkedRecharge :: "string \<Rightarrow> bool" where
  "canCloseLinkedRecharge status = List.member rechargeClosedCASStatuses status"

definition closeOrderAndLinkedRecharge :: "payment_env \<Rightarrow> int \<Rightarrow> gotime \<Rightarrow> ('z, unit) payment_service_act" where
  "closeOrderAndLinkedRecharge pe orderID closedAt =
     either (UpdateOrderClosed (pe_configured pe) (pe_db pe) orderID closedAt)
       (\<lambda>err. if err = ErrPaymentStateChanged then ret ()
          else throw (internal_wrap (encode_runes [20445, 23384, 25903, 20184, 35746, 21333, 20851, 38381, 29366, 24577, 22833, 36133]) (PaymentCause err)))
       (\<lambda>_.
     bind (wrapped (encode_runes [26597, 35810, 25903, 20184, 35746, 21333, 22833, 36133]) (GetOrder (pe_configured pe) (pe_db pe) orderID)) (\<lambda>order.
     case order of
       None \<Rightarrow> ret ()
     | Some x \<Rightarrow>
         if o_Status x \<noteq> orderStatusClosed then ret ()
         else
           bind (map_error (\<lambda>err. WrapKey CodeInternal StatusInternalServerError ''payment.job.linked_recharge.query_failed'' None
               (encode_runes [26597, 35810, 25903, 20184, 35746, 21333, 20851, 32852, 20805, 20540, 21333, 22833, 36133]) (Some (PaymentCause err)))
             (GetRechargeByOrderID (pe_configured pe) (pe_db pe) orderID)) (\<lambda>recharge.
           case recharge of
             None \<Rightarrow> ret ()
           | Some r \<Rightarrow>
               if \<not> canCloseLinkedRecharge (r_Status r) then ret ()
               else map_error (\<lambda>err. WrapKey CodeInternal StatusInternalServerError ''payment.job.linked_recharge.close_failed'' None
                   (encode_runes [20851, 38381, 25903, 20184, 35746, 21333, 20851, 32852, 20805, 20540, 21333, 22833, 36133]) (Some (PaymentCause err)))
                 (UpdateRechargeClosed (pe_configured pe) (pe_db pe) (r_ID r)))))"

section \<open>Orders (order_service.go)\<close>

definition defaultOrderExpireMinutes :: int where "defaultOrderExpireMinutes = 30"

definition expiry_after :: "gotime \<Rightarrow> int \<Rightarrow> gotime" where
  "expiry_after now minutes = now + mul64 minutes 60000000000"

definition newPaymentOrderNo :: "payment_env \<Rightarrow> gotime \<Rightarrow> ('e, 'd world, string) act" where
  "newPaymentOrderNo pe now = serialno_New (pe_db pe) ''PAY'' now"

definition order_row :: "string \<Rightarrow> Config \<Rightarrow> string \<Rightarrow> string \<Rightarrow> int \<Rightarrow> string \<Rightarrow> gotime \<Rightarrow> Order" where
  "order_row orderNo cfg method' subject amountCents returnURL expiredAt =
     \<lparr>o_ID = 0, o_OrderNo = orderNo, o_ConfigID = cf_ID cfg, o_ConfigCode = cf_Code cfg, o_Provider = cf_Provider cfg,
      o_PayMethod = method', o_Subject = subject, o_AmountCents = amountCents, o_Status = orderStatusPending,
      o_PayURL = [], o_ReturnURL = returnURL, o_AlipayTradeNo = [], o_AlipayTradeNoIdentity = None,
      o_ExpiredAt = expiredAt, o_PaidAt = None, o_ClosedAt = None, o_FailureReason = [], o_IsDel = CommonNo,
      o_CreatedAt = 0, o_UpdatedAt = 0\<rparr>"

definition service_CreateOrder :: "payment_env \<Rightarrow> OrderCreateInput \<Rightarrow> ('z, OrderCreateResponse) payment_service_act" where
  "service_CreateOrder pe input =
     bind (payment_requireRepository pe) (\<lambda>_.
     bind (enabledConfigByCode pe (in_ConfigCode input)) (\<lambda>cfg.
     let method' = trim_space (in_PayMethod input); subject = trim_space (in_Subject input);
         returnURL = trim_space (in_ReturnURL input)
     in if \<not> methodEnabled (cf_EnabledMethodsJSON cfg) method' then throw (BadRequest (encode_runes [25903, 20184, 37197, 32622, 26410, 21551, 29992, 35813, 25903, 20184, 26041, 24335]))
     else if subject = [] then throw (BadRequest (encode_runes [25903, 20184, 35746, 21333, 26631, 39064, 19981, 33021, 20026, 31354]))
     else if in_AmountCents input \<le> 0 then throw (BadRequest (encode_runes [25903, 20184, 35746, 21333, 37329, 39069, 24517, 39035, 22823, 20110, 48]))
     else if returnURL \<noteq> [] \<and> \<not> isHTTPURL pe returnURL then throw (BadRequest (encode_runes [25903, 20184, 36820, 22238, 22320, 22336, 24517, 39035, 26159, 32, 104, 116, 116, 112, 32, 25110, 32, 104, 116, 116, 112, 115, 32, 85, 82, 76]))
     else
       bind (payment_now pe) (\<lambda>now.
       bind (newPaymentOrderNo pe now) (\<lambda>orderNo.
       let expireMinutes = (if in_ExpireMinutes input \<le> 0 then defaultOrderExpireMinutes else in_ExpireMinutes input);
           row = order_row orderNo cfg method' subject (in_AmountCents input) returnURL (expiry_after now expireMinutes)
       in bind (wrapped (encode_runes [26032, 22686, 25903, 20184, 35746, 21333, 22833, 36133]) (CreateOrder (pe_configured pe) (pe_db pe) row)) (\<lambda>i.
          ret \<lparr>oc_ID = i, oc_OrderNo = o_OrderNo row, oc_Status = o_Status row\<rparr>)))))"

definition payOrderChangedResponse :: "payment_env \<Rightarrow> int \<Rightarrow> ('z, OrderPayResponse) payment_service_act" where
  "payOrderChangedResponse pe i =
     bind (orderByID pe i) (\<lambda>latest.
     if o_Status latest = orderStatusPaying \<and> trim_space (o_PayURL latest) \<noteq> [] then ret (order_pay_response latest)
     else throw (BadRequest (encode_runes [25903, 20184, 35746, 21333, 29366, 24577, 24050, 21464, 21270, 65292, 35831, 21047, 26032, 21518, 37325, 35797])))"

definition payOrderFailureResponse :: "payment_env \<Rightarrow> int \<Rightarrow> string \<Rightarrow> ('z, OrderPayResponse) payment_service_act" where
  "payOrderFailureResponse pe i payErr =
     either (UpdateOrderFailed (pe_configured pe) (pe_db pe) i payErr)
       (\<lambda>err. if err = ErrPaymentStateChanged then payOrderChangedResponse pe i
          else throw (internal_wrap (encode_runes [26356, 26032, 25903, 20184, 35746, 21333, 22833, 36133, 29366, 24577, 22833, 36133]) (PaymentCause err)))
       (\<lambda>_. throw (bad_request_wrap (encode_runes [25289, 36215, 25903, 20184, 23453, 25903, 20184, 22833, 36133]) (GatewayCause payErr)))"

definition pay_input :: "Order \<Rightarrow> PayInput" where
  "pay_input row = \<lparr>pi_Method = o_PayMethod row, pi_OutTradeNo = o_OrderNo row, pi_Subject = o_Subject row,
     pi_AmountCents = o_AmountCents row, pi_ReturnURL = o_ReturnURL row, pi_ExpiredAt = o_ExpiredAt row\<rparr>"

definition pay_through :: "payment_env \<Rightarrow> Order \<Rightarrow> ('z, OrderPayResponse) payment_service_act" where
  "pay_through pe row =
     bind (gateway_of pe row) (\<lambda>(platformCfg, gw).
     either (ask (\<lambda>k. gw_Pay gw k platformCfg (pay_input row)))
       (payOrderFailureResponse pe (o_ID row))
       (\<lambda>result.
     let payURL = (case result of None \<Rightarrow> [] | Some url \<Rightarrow> trim_space url)
     in if payURL = [] then payOrderFailureResponse pe (o_ID row) ''alipay: empty pay url''
     else
       either (UpdateOrderPaying (pe_configured pe) (pe_db pe) (o_ID row) payURL)
         (\<lambda>err. if err = ErrPaymentStateChanged then payOrderChangedResponse pe (o_ID row)
            else throw (internal_wrap (encode_runes [20445, 23384, 25903, 20184, 38142, 25509, 22833, 36133]) (PaymentCause err)))
         (\<lambda>_. payOrderChangedResponse pe (o_ID row))))"

definition PayOrder :: "payment_env \<Rightarrow> int \<Rightarrow> ('z, OrderPayResponse) payment_service_act" where
  "PayOrder pe i =
     bind (payment_requireRepository pe) (\<lambda>_.
     bind (orderByID pe i) (\<lambda>row.
     if o_Status row = orderStatusPaying \<and> trim_space (o_PayURL row) \<noteq> [] then ret (order_pay_response row)
     else if o_Status row \<noteq> orderStatusPending \<and> o_Status row \<noteq> orderStatusFailed
     then throw (BadRequest (encode_runes [24403, 21069, 25903, 20184, 35746, 21333, 29366, 24577, 19981, 33021, 25289, 36215, 25903, 20184]))
     else
       bind (payment_now pe) (\<lambda>now.
       if orderExpired row now then
         bind (wrapped (encode_runes [20851, 38381, 36807, 26399, 25903, 20184, 35746, 21333, 22833, 36133]) (UpdateOrderClosed (pe_configured pe) (pe_db pe) (o_ID row) now)) (\<lambda>_.
         ret ((order_pay_response row)\<lparr>op_Status := orderStatusClosed\<rparr>))
       else pay_through pe row)))"

text \<open>What the gateway says of a paying order, in a synchronisation\<close>

definition trade_paid :: "string \<Rightarrow> bool" where
  "trade_paid status \<longleftrightarrow> status = ''TRADE_SUCCESS'' \<or> status = ''TRADE_FINISHED''"

definition SyncOrder :: "payment_env \<Rightarrow> int \<Rightarrow> ('z, OrderStatusResponse) payment_service_act" where
  "SyncOrder pe i =
     bind (payment_requireRepository pe) (\<lambda>_.
     bind (orderByID pe i) (\<lambda>row.
     if o_Status row \<noteq> orderStatusPaying then throw (BadRequest (encode_runes [24403, 21069, 25903, 20184, 35746, 21333, 29366, 24577, 19981, 33021, 21516, 27493]))
     else
       bind (gateway_of pe row) (\<lambda>(platformCfg, gw).
       let latest = bind (orderByID pe i) (\<lambda>x. ret (orderStatusResponse pe x))
       in either (ask (\<lambda>k. gw_Query gw k platformCfg (o_OrderNo row)))
         (\<lambda>err. bind (payment_now pe) (\<lambda>now.
            if isAlipayTradeNotExistError err \<and> orderExpired row now
            then bind (closeOrderAndLinkedRecharge pe (o_ID row) now) (\<lambda>_. latest)
            else throw (bad_request_wrap (encode_runes [21516, 27493, 25903, 20184, 23453, 35746, 21333, 29366, 24577, 22833, 36133]) (GatewayCause err))))
         (\<lambda>result.
       let status = trim_space (resultStatus result)
       in if trade_paid status then
            bind (payment_now pe) (\<lambda>now.
            bind (FinalizeOrderPaid pe (o_ID row) (resultTradeNo result) (resultPaidAt result now) finalizeSourceSync) (\<lambda>_. latest))
          else if status = ''TRADE_CLOSED'' then
            bind (payment_now pe) (\<lambda>now. bind (closeOrderAndLinkedRecharge pe (o_ID row) now) (\<lambda>_. latest))
          else if status = ''WAIT_BUYER_PAY'' then latest
          else throw (BadRequest (encode_runes [26410, 30693, 30340, 25903, 20184, 23453, 35746, 21333, 29366, 24577]))))))"

definition CloseOrder :: "payment_env \<Rightarrow> int \<Rightarrow> ('z, OrderStatusResponse) payment_service_act" where
  "CloseOrder pe i =
     bind (payment_requireRepository pe) (\<lambda>_.
     bind (orderByID pe i) (\<lambda>row.
     bind (payment_now pe) (\<lambda>now.
     let close = wrapped (encode_runes [20851, 38381, 25903, 20184, 35746, 21333, 22833, 36133]) (UpdateOrderClosed (pe_configured pe) (pe_db pe) (o_ID row) now);
         latest = bind (orderByID pe i) (\<lambda>x. ret (orderStatusResponse pe x))
     in if o_Status row = orderStatusClosed then ret (orderStatusResponse pe row)
     else if o_Status row = orderStatusPaid then throw (BadRequest (encode_runes [24050, 25903, 20184, 35746, 21333, 19981, 33021, 20851, 38381]))
     else if o_Status row = orderStatusPending \<or> o_Status row = orderStatusFailed then bind close (\<lambda>_. latest)
     else if o_Status row = orderStatusPaying then
       bind (gateway_of pe row) (\<lambda>(platformCfg, gw).
       either (ask (\<lambda>k. unless (gw_Close gw k platformCfg (o_OrderNo row))))
         (\<lambda>err. if isAlipayTradeNotExistError err then bind close (\<lambda>_. latest)
            else throw (bad_request_wrap (encode_runes [20851, 38381, 25903, 20184, 23453, 35746, 21333, 22833, 36133]) (GatewayCause err)))
         (\<lambda>_. bind close (\<lambda>_. latest)))
     else throw (BadRequest (encode_runes [24403, 21069, 25903, 20184, 35746, 21333, 29366, 24577, 19981, 33021, 20851, 38381])))))"

definition service_GetOrder :: "payment_env \<Rightarrow> int \<Rightarrow> ('z, OrderDetail) payment_service_act" where
  "service_GetOrder pe i = bind (orderByID pe i) (\<lambda>row. ret (orderDetail pe row))"

definition service_ListOrders :: "payment_env \<Rightarrow> OrderListQuery \<Rightarrow> ('z, OrderListResponse) payment_service_act" where
  "service_ListOrders pe q =
     (let q = q\<lparr>oq_Keyword := trim_space (oq_Keyword q), oq_ConfigCode := trim_space (oq_ConfigCode q),
        oq_Provider := trim_space (oq_Provider q), oq_PayMethod := trim_space (oq_PayMethod q),
        oq_Status := trim_space (oq_Status q)\<rparr>
      in bind (payment_requireRepository pe) (\<lambda>_.
         bind (wrapped (encode_runes [26597, 35810, 25903, 20184, 35746, 21333, 22833, 36133]) (repository_ListOrders (pe_configured pe) (pe_db pe) (pe_dir pe) q)) (\<lambda>(rows, count).
         ret \<lparr>ol_List = map (orderListItem pe) rows, ol_Page = payment_page (oq_CurrentPage q) (oq_PageSize q) count\<rparr>)))"

definition order_option :: "Config \<Rightarrow> pay_app_error + OrderConfigOption" where
  "order_option row =
     (case decodeEnabledMethods (cf_EnabledMethodsJSON row) of
        Inl appErr \<Rightarrow> Inl appErr
      | Inr methods \<Rightarrow> Inr \<lparr>co_Label = cf_Name row @ ''('' @ cf_Code row @ '')'', co_Value = cf_Code row,
          co_Provider = cf_Provider row, co_EnabledMethods = methods\<rparr>)"

definition OrderPageInit :: "payment_env \<Rightarrow> ('z, OrderConfigOption list) payment_service_act" where
  "OrderPageInit pe =
     bind (payment_requireRepository pe) (\<lambda>_.
     bind (wrapped (encode_runes [26597, 35810, 25903, 20184, 37197, 32622, 36873, 39033, 22833, 36133]) (ListEnabledOrderConfigOptions (pe_configured pe) (pe_db pe))) (\<lambda>rows.
     pure_result (items_of order_option rows)))"

end
