(* ===== verification/PaymentRecharge.thy ===== *)
theory PaymentRecharge
  imports PaymentService
begin

text \<open>
  The payment service's operations on recharges: recharge_service.go, over the operations on their
  orders and the wallet.
\<close>

section \<open>Read models\<close>

record WalletSummary =
  ws_Balance :: string
  ws_AvailableBalance :: string
  ws_HeldAmount :: string
  ws_TotalRecharge :: string
  ws_TotalConsume :: string

record RechargePackageItem =
  pk_Code :: string
  pk_Name :: string
  pk_AmountCents :: int
  pk_AmountText :: string
  pk_Badge :: string

record RechargePaymentMethod =
  rm_Provider :: string
  rm_Label :: string
  rm_Enabled :: bool

record RechargePageInitResponse =
  ri_Wallet :: WalletSummary
  ri_Packages :: "RechargePackageItem list"
  ri_PaymentMethod :: RechargePaymentMethod
  ri_StatusArr :: "dict_option list"

record RechargeListQuery =
  rq_CurrentPage :: int
  rq_PageSize :: int
  rq_UserID :: int
  rq_Keyword :: string
  rq_Status :: string
  rq_DateStart :: string
  rq_DateEnd :: string

record RechargeCreateInput =
  rn_UserID :: int
  rn_PackageCode :: string
  rn_PayMethod :: string
  rn_ReturnURL :: string

record RechargeListItem =
  rl_ID :: int
  rl_RechargeNo :: string
  rl_PaymentOrderNo :: string
  rl_PackageCode :: string
  rl_PackageName :: string
  rl_AmountCents :: int
  rl_AmountText :: string
  rl_Status :: string
  rl_StatusText :: string
  rl_PayURL :: string
  rl_PaidAt :: string
  rl_CreditedAt :: string
  rl_CreatedAt :: string
  rl_UpdatedAt :: string

record RechargeDetail = RechargeListItem +
  rd_FailureReason :: string
  rd_AlipayTradeNo :: string

record RechargeListResponse =
  rs_List :: "RechargeListItem list"
  rs_Page :: Page

record RechargePayResponse =
  rp_ID :: int
  rp_RechargeNo :: string
  rp_PaymentOrderNo :: string
  rp_Status :: string
  rp_PayURL :: string

record RechargeStatusResponse =
  rt_ID :: int
  rt_RechargeNo :: string
  rt_Status :: string
  rt_StatusText :: string
  rt_Wallet :: WalletSummary
  rt_PaidAt :: string
  rt_CreditedAt :: string
  rt_FailureReason :: string

definition walletSummary :: "Wallet option \<Rightarrow> wallet_cause + WalletSummary" where
  "walletSummary wallet =
     (case wallet of
        None \<Rightarrow> Inr \<lparr>ws_Balance = [], ws_AvailableBalance = [], ws_HeldAmount = [], ws_TotalRecharge = [], ws_TotalConsume = []\<rparr>
      | Some w \<Rightarrow>
          (case formatUnits (w_BalanceUnits w) of Inl e \<Rightarrow> Inl e | Inr balance \<Rightarrow>
          (case formatAvailable (w_BalanceUnits w) (w_HeldUnits w) of Inl e \<Rightarrow> Inl e | Inr available \<Rightarrow>
          (case formatUnits (w_HeldUnits w) of Inl e \<Rightarrow> Inl e | Inr held \<Rightarrow>
          (case formatUnits (w_TotalRechargeUnits w) of Inl e \<Rightarrow> Inl e | Inr totalRecharge \<Rightarrow>
          (case formatUnits (w_TotalConsumeUnits w) of Inl e \<Rightarrow> Inl e | Inr totalConsume \<Rightarrow>
           Inr \<lparr>ws_Balance = balance, ws_AvailableBalance = available, ws_HeldAmount = held,
             ws_TotalRecharge = totalRecharge, ws_TotalConsume = totalConsume\<rparr>))))))"

definition rechargePackageItem :: "RechargePackage \<Rightarrow> RechargePackageItem" where
  "rechargePackageItem row = \<lparr>pk_Code = p_Code row, pk_Name = p_Name row, pk_AmountCents = p_AmountCents row,
     pk_AmountText = payment_amountText (p_AmountCents row), pk_Badge = p_Badge row\<rparr>"

definition rechargeListItem :: "payment_env \<Rightarrow> RechargeWithOrder \<Rightarrow> RechargeListItem" where
  "rechargeListItem pe row = (let r = ro_Recharge row in
     \<lparr>rl_ID = r_ID r, rl_RechargeNo = r_RechargeNo r, rl_PaymentOrderNo = ro_PaymentOrderNo row,
      rl_PackageCode = r_PackageCode r, rl_PackageName = r_PackageName r, rl_AmountCents = r_AmountCents r,
      rl_AmountText = payment_amountText (r_AmountCents r), rl_Status = r_Status r,
      rl_StatusText = rechargeStatusText (r_Status r), rl_PayURL = ro_PayURL row,
      rl_PaidAt = formatPtrTime pe (r_PaidAt r), rl_CreditedAt = formatPtrTime pe (r_CreditedAt r),
      rl_CreatedAt = payment_formatTime pe (r_CreatedAt r), rl_UpdatedAt = payment_formatTime pe (r_UpdatedAt r)\<rparr>)"

definition rechargeDetail :: "payment_env \<Rightarrow> RechargeWithOrder \<Rightarrow> RechargeDetail" where
  "rechargeDetail pe row = RechargeListItem.extend (rechargeListItem pe row)
     (RechargeDetail.fields (r_FailureReason (ro_Recharge row)) (ro_AlipayTradeNo row))"

definition rechargePayResponse :: "RechargeWithOrder \<Rightarrow> RechargePayResponse" where
  "rechargePayResponse row = \<lparr>rp_ID = r_ID (ro_Recharge row), rp_RechargeNo = r_RechargeNo (ro_Recharge row),
     rp_PaymentOrderNo = ro_PaymentOrderNo row, rp_Status = r_Status (ro_Recharge row), rp_PayURL = ro_PayURL row\<rparr>"

definition rechargeStatusResponse ::
    "payment_env \<Rightarrow> RechargeWithOrder \<Rightarrow> Wallet \<Rightarrow> wallet_cause + RechargeStatusResponse" where
  "rechargeStatusResponse pe row wallet =
     (case walletSummary (Some wallet) of
        Inl err \<Rightarrow> Inl err
      | Inr summary \<Rightarrow> (let r = ro_Recharge row in Inr
         \<lparr>rt_ID = r_ID r, rt_RechargeNo = r_RechargeNo r, rt_Status = r_Status r, rt_StatusText = rechargeStatusText (r_Status r),
          rt_Wallet = summary, rt_PaidAt = formatPtrTime pe (r_PaidAt r), rt_CreditedAt = formatPtrTime pe (r_CreditedAt r),
          rt_FailureReason = r_FailureReason r\<rparr>))"

definition rechargeStatusReply ::
    "payment_env \<Rightarrow> RechargeWithOrder \<Rightarrow> Wallet \<Rightarrow> ('z, RechargeStatusResponse) payment_service_act" where
  "rechargeStatusReply pe row wallet =
     (case rechargeStatusResponse pe row wallet of
        Inl err \<Rightarrow> throw (internal_wrap (encode_runes [38065, 21253, 20313, 39069, 25968, 25454, 26080, 25928]) (MoneyTextCause err))
      | Inr response \<Rightarrow> ret response)"

section \<open>Rows the operations start from\<close>

definition token_error :: pay_app_error where
  "token_error = Unauthorized (encode_runes [84, 111, 107, 101, 110, 26080, 25928, 25110, 24050, 36807, 26399])"

definition payment_wallet :: "payment_env \<Rightarrow> string \<Rightarrow> int \<Rightarrow> ('z, Wallet) payment_service_act" where
  "payment_wallet pe message userID =
     (if \<not> pe_configured pe then throw (internal_wrap message (PaymentCause payment_error.ErrRepositoryNotConfigured))
      else wrapped message (map_error PayWallet (GetOrCreateWallet True (pe_db pe) userID)))"

definition rechargeByID :: "payment_env \<Rightarrow> int \<Rightarrow> int \<Rightarrow> ('z, RechargeWithOrder) payment_service_act" where
  "rechargeByID pe userID i =
     (if userID \<le> 0 then throw token_error
      else if i \<le> 0 then throw (BadRequest (encode_runes [26080, 25928, 30340, 20805, 20540, 21333, 73, 68]))
      else
        bind (payment_requireRepository pe) (\<lambda>_.
        bind (wrapped (encode_runes [26597, 35810, 20805, 20540, 21333, 22833, 36133]) (GetRecharge (pe_configured pe) (pe_db pe) userID i)) (\<lambda>row.
        case row of None \<Rightarrow> throw (NotFound (encode_runes [20805, 20540, 21333, 19981, 23384, 22312])) | Some x \<Rightarrow> ret x)))"

section \<open>Paying\<close>

definition rechargePayChangedResponse :: "payment_env \<Rightarrow> int \<Rightarrow> int \<Rightarrow> ('z, RechargePayResponse) payment_service_act" where
  "rechargePayChangedResponse pe userID i = bind (rechargeByID pe userID i) (\<lambda>latest. ret (rechargePayResponse latest))"

definition with_status :: "string \<Rightarrow> RechargeWithOrder \<Rightarrow> RechargeWithOrder" where
  "with_status status row = row\<lparr>ro_Recharge := (ro_Recharge row)\<lparr>r_Status := status\<rparr>\<rparr>"

definition payRechargeRow :: "payment_env \<Rightarrow> RechargeWithOrder \<Rightarrow> ('z, RechargePayResponse) payment_service_act" where
  "payRechargeRow pe row =
     (let r = ro_Recharge row in
      if List.member [rechargeStatusCredited, rechargeStatusPaid, rechargeStatusClosed] (r_Status r)
      then throw (BadRequest (encode_runes [24403, 21069, 20805, 20540, 21333, 29366, 24577, 19981, 33021, 25289, 36215, 25903, 20184]))
      else if r_Status r = rechargeStatusPaying \<and> trim_space (ro_PayURL row) \<noteq> [] then ret (rechargePayResponse row)
      else
        bind (payment_requireRepository pe) (\<lambda>_.
        either (PayOrder pe (r_PaymentOrderID r))
          (\<lambda>appErr.
             either (UpdateRechargeFailed (pe_configured pe) (pe_db pe) (r_ID r) (ae_Message appErr))
               (\<lambda>err. if err = ErrPaymentStateChanged then rechargePayChangedResponse pe (r_UserID r) (r_ID r)
                  else throw (internal_wrap (encode_runes [26356, 26032, 20805, 20540, 22833, 36133, 29366, 24577, 22833, 36133]) (PaymentCause err)))
               (\<lambda>_. throw appErr))
          (\<lambda>result.
        if op_Status result = orderStatusClosed then
          bind (either (UpdateRechargeClosed (pe_configured pe) (pe_db pe) (r_ID r)) (\<lambda>_. ret ()) (\<lambda>_. ret ())) (\<lambda>_.
          ret (rechargePayResponse (with_status rechargeStatusClosed row)))
        else
          either (UpdateRechargePaying (pe_configured pe) (pe_db pe) (r_ID r))
            (\<lambda>err. if err = ErrPaymentStateChanged then rechargePayChangedResponse pe (r_UserID r) (r_ID r)
               else throw (internal_wrap (encode_runes [26356, 26032, 20805, 20540, 25903, 20184, 29366, 24577, 22833, 36133]) (PaymentCause err)))
            (\<lambda>_. ret (rechargePayResponse ((with_status rechargeStatusPaying row)\<lparr>ro_PayURL := op_PayURL result\<rparr>))))))"

definition PayRecharge :: "payment_env \<Rightarrow> int \<Rightarrow> int \<Rightarrow> ('z, RechargePayResponse) payment_service_act" where
  "PayRecharge pe userID i = bind (rechargeByID pe userID i) (payRechargeRow pe)"

definition newPaymentRechargeNo :: "payment_env \<Rightarrow> gotime \<Rightarrow> ('e, 'd world, string) act" where
  "newPaymentRechargeNo pe now = serialno_New (pe_db pe) ''RCG'' now"

definition recharge_row :: "string \<Rightarrow> int \<Rightarrow> RechargePackage \<Rightarrow> Recharge" where
  "recharge_row rechargeNo userID pkg =
     \<lparr>r_ID = 0, r_RechargeNo = rechargeNo, r_UserID = userID, r_PackageCode = p_Code pkg, r_PackageName = p_Name pkg,
      r_AmountCents = p_AmountCents pkg, r_PaymentOrderID = 0, r_Status = rechargeStatusPending, r_PaidAt = None,
      r_CreditedAt = None, r_FailureReason = [], r_IsDel = CommonNo, r_CreatedAt = 0, r_UpdatedAt = 0\<rparr>"

text \<open>\<open>CreateRecharge\<close> up to the row, and the payment it ends with\<close>

definition recharge_created :: "payment_env \<Rightarrow> RechargeCreateInput \<Rightarrow> ('z, RechargeWithOrder) payment_service_act" where
  "recharge_created pe input =
     (if rn_UserID input \<le> 0 then throw token_error
      else
        bind (payment_requireRepository pe) (\<lambda>_.
        let method' = trim_space (rn_PayMethod input); returnURL = trim_space (rn_ReturnURL input)
        in if \<not> IsPaymentMethod method' then throw (BadRequest (encode_runes [26080, 25928, 30340, 25903, 20184, 26041, 24335]))
        else if \<not> isHTTPURL pe returnURL then throw (BadRequest (encode_runes [25903, 20184, 36820, 22238, 22320, 22336, 24517, 39035, 26159, 32, 104, 116, 116, 112, 32, 25110, 32, 104, 116, 116, 112, 115, 32, 85, 82, 76]))
        else
          bind (wrapped (encode_runes [26597, 35810, 20805, 20540, 22871, 39184, 22833, 36133])
            (GetRechargePackageByCode (pe_configured pe) (pe_db pe) (trim_space (rn_PackageCode input)))) (\<lambda>package.
          case package of
            None \<Rightarrow> throw (NotFound (encode_runes [20805, 20540, 22871, 39184, 19981, 23384, 22312, 25110, 24050, 20572, 29992]))
          | Some pkg \<Rightarrow>
              bind (wrapped (encode_runes [26597, 35810, 21487, 29992, 25903, 20184, 37197, 32622, 22833, 36133])
                (FirstEnabledConfigForPay (pe_configured pe) (pe_db pe) providerAlipay method')) (\<lambda>found.
              case found of
                None \<Rightarrow> throw (BadRequest (encode_runes [26242, 26080, 21487, 29992, 25903, 20184, 23453, 25903, 20184, 37197, 32622]))
              | Some cfg \<Rightarrow>
                  bind (payment_wallet pe (encode_runes [21021, 22987, 21270, 29992, 25143, 38065, 21253, 22833, 36133]) (rn_UserID input)) (\<lambda>_.
                  bind (payment_now pe) (\<lambda>now.
                  bind (newPaymentOrderNo pe now) (\<lambda>orderNo.
                  bind (newPaymentRechargeNo pe now) (\<lambda>rechargeNo.
                  let recharge = recharge_row rechargeNo (rn_UserID input) pkg;
                      order = order_row orderNo cfg method' (encode_runes [20313, 39069, 20805, 20540, 32] @ p_Name pkg) (p_AmountCents pkg)
                        (rechargeReturnURL returnURL rechargeNo) (expiry_after now defaultOrderExpireMinutes)
                  in wrapped (encode_runes [21019, 24314, 20805, 20540, 21333, 22833, 36133]) (CreateRechargeWithOrder (pe_configured pe) (pe_db pe) recharge order)))))))))"

definition service_CreateRecharge :: "payment_env \<Rightarrow> RechargeCreateInput \<Rightarrow> ('z, RechargePayResponse) payment_service_act" where
  "service_CreateRecharge pe input = bind (recharge_created pe input) (payRechargeRow pe)"

section \<open>Synchronising and closing\<close>

definition syncRechargeRow :: "payment_env \<Rightarrow> RechargeWithOrder \<Rightarrow> ('z, RechargeStatusResponse) payment_service_act" where
  "syncRechargeRow pe row =
     bind (payment_requireRepository pe) (\<lambda>_.
     bind (payment_wallet pe (encode_runes [26597, 35810, 29992, 25143, 38065, 21253, 22833, 36133]) (r_UserID (ro_Recharge row))) (\<lambda>wallet.
     if r_Status (ro_Recharge row) = rechargeStatusCredited \<or> r_Status (ro_Recharge row) = rechargeStatusClosed
     then rechargeStatusReply pe row wallet
     else
       bind (if ro_OrderStatus row = orderStatusPaying then
               bind (SyncOrder pe (r_PaymentOrderID (ro_Recharge row))) (\<lambda>_.
               rechargeByID pe (r_UserID (ro_Recharge row)) (r_ID (ro_Recharge row)))
             else ret row) (\<lambda>row.
       if ro_OrderStatus row = orderStatusClosed then
         bind (wrapped (encode_runes [20851, 38381, 20805, 20540, 21333, 22833, 36133]) (UpdateRechargeClosed (pe_configured pe) (pe_db pe) (r_ID (ro_Recharge row)))) (\<lambda>_.
         rechargeStatusReply pe (with_status rechargeStatusClosed row) wallet)
       else if ro_OrderStatus row \<noteq> orderStatusPaid then rechargeStatusReply pe row wallet
       else
         bind (payment_now pe) (\<lambda>now.
         bind (FinalizeOrderPaid pe (r_PaymentOrderID (ro_Recharge row)) (ro_AlipayTradeNo row)
           (case ro_OrderPaidAt row of None \<Rightarrow> now | Some t \<Rightarrow> t) finalizeSourceSync) (\<lambda>_.
         bind (rechargeByID pe (r_UserID (ro_Recharge row)) (r_ID (ro_Recharge row))) (\<lambda>latest.
         bind (payment_wallet pe (encode_runes [26597, 35810, 29992, 25143, 38065, 21253, 22833, 36133]) (r_UserID (ro_Recharge latest))) (\<lambda>wallet.
         rechargeStatusReply pe latest wallet)))))))"

definition SyncRecharge :: "payment_env \<Rightarrow> int \<Rightarrow> int \<Rightarrow> ('z, RechargeStatusResponse) payment_service_act" where
  "SyncRecharge pe userID i = bind (rechargeByID pe userID i) (syncRechargeRow pe)"

definition CloseRecharge :: "payment_env \<Rightarrow> int \<Rightarrow> int \<Rightarrow> ('z, RechargeStatusResponse) payment_service_act" where
  "CloseRecharge pe userID i =
     bind (rechargeByID pe userID i) (\<lambda>row.
     let r = ro_Recharge row in
     if r_Status r = rechargeStatusCredited \<or> r_Status r = rechargeStatusPaid then throw (BadRequest (encode_runes [24050, 25903, 20184, 20805, 20540, 21333, 19981, 33021, 20851, 38381]))
     else
       bind (payment_requireRepository pe) (\<lambda>_.
       bind (if r_Status r \<noteq> rechargeStatusClosed then
               bind (CloseOrder pe (r_PaymentOrderID r)) (\<lambda>_.
               wrapped (encode_runes [20851, 38381, 20805, 20540, 21333, 22833, 36133]) (UpdateRechargeClosed (pe_configured pe) (pe_db pe) (r_ID r)))
             else ret ()) (\<lambda>_.
       bind (rechargeByID pe userID i) (\<lambda>latest.
       bind (payment_wallet pe (encode_runes [26597, 35810, 29992, 25143, 38065, 21253, 22833, 36133]) userID) (\<lambda>wallet.
       rechargeStatusReply pe latest wallet)))))"

section \<open>Reading\<close>

definition recharge_selected :: "directory \<Rightarrow> RechargeListQuery \<Rightarrow> RechargeWithOrder \<Rightarrow> bool" where
  "recharge_selected dir q x \<longleftrightarrow>
     (let r = ro_Recharge x; keyword = trim_space (rq_Keyword q); status = trim_space (rq_Status q);
          start = trim_space (rq_DateStart q); end_text = trim_space (rq_DateEnd q)
      in r_UserID r = rq_UserID q \<and> r_IsDel r = CommonNo \<and>
         (keyword \<noteq> [] \<longrightarrow> di_like dir (r_RechargeNo r) (keyword @ ''%'') \<or>
            di_like dir (ro_PaymentOrderNo x) (keyword @ ''%'') \<or> di_like dir (r_PackageName r) (keyword @ ''%'')) \<and>
         (status \<noteq> [] \<longrightarrow> r_Status r = status) \<and>
         (start \<noteq> [] \<longrightarrow> since dir (r_CreatedAt r) start) \<and>
         (end_text \<noteq> [] \<longrightarrow> until dir (r_CreatedAt r) end_text))"

definition repository_ListRecharges ::
    "bool \<Rightarrow> env \<Rightarrow> directory \<Rightarrow> RechargeListQuery \<Rightarrow> ('z, RechargeWithOrder list \<times> int) pay_act" where
  "repository_ListRecharges configured ev dir q =
     (if \<not> configured then throw payment_error.ErrRepositoryNotConfigured
      else
        let (_, limit, offset) = payment_normalizePage (rq_CurrentPage q) (rq_PageSize q);
            selected = (\<lambda>d. rev (sort_key (\<lambda>x. r_ID (ro_Recharge x)) (filter (recharge_selected dir q) (rechargeJoinQuery d))))
        in bind (map_error PayDb (query ev (\<lambda>d. int (length (selected d))))) (\<lambda>count.
           bind (map_error PayDb (query ev (\<lambda>d. limit_offset limit offset (selected d)))) (\<lambda>rows.
           ret (rows, count))))"

definition service_ListRecharges :: "payment_env \<Rightarrow> RechargeListQuery \<Rightarrow> ('z, RechargeListResponse) payment_service_act" where
  "service_ListRecharges pe q =
     (if rq_UserID q \<le> 0 then throw token_error
      else
        let q = q\<lparr>rq_Keyword := trim_space (rq_Keyword q), rq_Status := trim_space (rq_Status q)\<rparr>
        in bind (payment_requireRepository pe) (\<lambda>_.
           bind (wrapped (encode_runes [26597, 35810, 20805, 20540, 35760, 24405, 22833, 36133]) (repository_ListRecharges (pe_configured pe) (pe_db pe) (pe_dir pe) q)) (\<lambda>(rows, count).
           ret \<lparr>rs_List = map (rechargeListItem pe) rows, rs_Page = payment_page (rq_CurrentPage q) (rq_PageSize q) count\<rparr>)))"

definition service_GetRecharge :: "payment_env \<Rightarrow> int \<Rightarrow> int \<Rightarrow> ('z, RechargeDetail) payment_service_act" where
  "service_GetRecharge pe userID i = bind (rechargeByID pe userID i) (\<lambda>row. ret (rechargeDetail pe row))"

definition firstAvailableRechargeConfig :: "payment_env \<Rightarrow> ('z, Config option) pay_act" where
  "firstAvailableRechargeConfig pe =
     bind (FirstEnabledConfigForPay (pe_configured pe) (pe_db pe) providerAlipay PaymentMethodWeb) (\<lambda>cfg.
     case cfg of
       Some c \<Rightarrow> ret (Some c)
     | None \<Rightarrow> FirstEnabledConfigForPay (pe_configured pe) (pe_db pe) providerAlipay PaymentMethodH5)"

definition RechargePageInit :: "payment_env \<Rightarrow> int \<Rightarrow> ('z, RechargePageInitResponse) payment_service_act" where
  "RechargePageInit pe userID =
     (if userID \<le> 0 then throw token_error
      else
        bind (payment_requireRepository pe) (\<lambda>_.
        bind (payment_wallet pe (encode_runes [26597, 35810, 29992, 25143, 38065, 21253, 22833, 36133]) userID) (\<lambda>wallet.
        bind (wrapped (encode_runes [26597, 35810, 20805, 20540, 22871, 39184, 22833, 36133]) (ListRechargePackages (pe_configured pe) (pe_db pe))) (\<lambda>rows.
        bind (wrapped (encode_runes [26597, 35810, 21487, 29992, 25903, 20184, 37197, 32622, 22833, 36133]) (firstAvailableRechargeConfig pe)) (\<lambda>payConfig.
        case walletSummary (Some wallet) of
          Inl err \<Rightarrow> throw (internal_wrap (encode_runes [38065, 21253, 20313, 39069, 25968, 25454, 26080, 25928]) (MoneyTextCause err))
        | Inr summary \<Rightarrow> ret
           \<lparr>ri_Wallet = summary, ri_Packages = map rechargePackageItem rows,
            ri_PaymentMethod = \<lparr>rm_Provider = providerAlipay, rm_Label = providerText providerAlipay,
              rm_Enabled = (rows \<noteq> [] \<and> payConfig \<noteq> None)\<rparr>,
            ri_StatusArr = rechargeStatusOptions\<rparr>)))))"

end
