(* ===== verification/PaymentCallback.thy ===== *)
theory PaymentCallback
  imports PaymentRecharge
begin

text \<open>
  Alipay's asynchronous notifications (callback_service.go) and the two scheduled jobs
  (job_service.go): synchronising paying orders and closing expired ones.
\<close>

section \<open>Notifications\<close>

text \<open>What the event of a form records of it before anything is verified\<close>

definition incoming_event :: "payment_env \<Rightarrow> form \<Rightarrow> gotime \<Rightarrow> CallbackEvent" where
  "incoming_event pe form receivedAt =
     \<lparr>e_ID = 0, e_Provider = providerAlipay, e_DedupeKey = callbackDedupeKey (pe_sha256 pe) providerAlipay form,
      e_NotifyID = trim_space (form_get form ''notify_id''), e_OutTradeNo = trim_space (form_get form ''out_trade_no''),
      e_TradeNo = trim_space (form_get form ''trade_no''), e_TradeStatus = trim_space (form_get form ''trade_status''),
      e_AppID = trim_space (form_get form ''app_id''),
      e_TotalAmountCents = mustParseCallbackAmount (form_get form ''total_amount''), e_SignatureValid = CommonNo,
      e_ProcessStatus = callbackProcessPending, e_ProcessMessage = [], e_RawPayloadJSON = callbackAuditPayloadJSON form,
      e_ReceivedAt = receivedAt, e_ProcessedAt = None, e_IsDel = CommonNo, e_CreatedAt = 0, e_UpdatedAt = 0\<rparr>"

text \<open>The verdict on a notification: whether its signature holds, the status and message of its event, and
  the order it pays with the trade number\<close>

record verdict =
  vd_SignatureValid :: int
  vd_Status :: string
  vd_Message :: string
  vd_OrderID :: int
  vd_TradeNo :: string

definition refuse :: "int \<Rightarrow> string \<Rightarrow> string \<Rightarrow> verdict" where
  "refuse signatureValid status message =
     \<lparr>vd_SignatureValid = signatureValid, vd_Status = status, vd_Message = message, vd_OrderID = 0, vd_TradeNo = []\<rparr>"

text \<open>What follows a verified notification\<close>

definition judge_verified :: "Config \<Rightarrow> Order \<Rightarrow> NotifyPayload \<Rightarrow> verdict" where
  "judge_verified cfg order verified =
     (let tradeStatus = trim_space (np_TradeStatus verified); tradeNo = trim_space (np_TradeNo verified) in
      if trim_space (np_AppID verified) \<noteq> trim_space (cf_AppID cfg)
      then refuse CommonYes callbackProcessFailed (encode_runes [25903, 20184, 23453, 24212, 29992, 73, 68, 19981, 21305, 37197])
      else if np_TotalAmountCents verified \<noteq> o_AmountCents order
      then refuse CommonYes callbackProcessFailed (encode_runes [25903, 20184, 23453, 22238, 35843, 37329, 39069, 19981, 21305, 37197])
      else if trim_space (np_OutTradeNo verified) \<noteq> trim_space (o_OrderNo order)
      then refuse CommonYes callbackProcessFailed (encode_runes [25903, 20184, 23453, 21830, 25143, 35746, 21333, 21495, 19981, 21305, 37197])
      else if trade_paid tradeStatus then
        (if tradeNo = [] then refuse CommonYes callbackProcessFailed (encode_runes [25903, 20184, 23453, 20132, 26131, 21495, 20026, 31354])
         else \<lparr>vd_SignatureValid = CommonYes, vd_Status = callbackProcessSuccess, vd_Message = ''credited'',
           vd_OrderID = o_ID order, vd_TradeNo = tradeNo\<rparr>)
      else if tradeStatus = ''WAIT_BUYER_PAY'' then refuse CommonYes callbackProcessIgnored (encode_runes [25903, 20184, 23453, 20132, 26131, 20173, 24453, 25903, 20184])
      else refuse CommonYes callbackProcessIgnored (encode_runes [25903, 20184, 23453, 20132, 26131, 29366, 24577, 26410, 23436, 25104]))"

definition judge :: "payment_env \<Rightarrow> form \<Rightarrow> ('z, verdict) payment_service_act" where
  "judge pe form =
     either (GetOrderByNo (pe_configured pe) (pe_db pe) (trim_space (form_get form ''out_trade_no'')))
       (\<lambda>_. ret (refuse CommonNo callbackProcessFailed (encode_runes [26597, 35810, 25903, 20184, 35746, 21333, 22833, 36133])))
       (\<lambda>found.
     case found of
       None \<Rightarrow> ret (refuse CommonNo callbackProcessIgnored (encode_runes [25903, 20184, 35746, 21333, 19981, 23384, 22312]))
     | Some order \<Rightarrow>
         either (configByOrder pe order)
           (\<lambda>appErr. ret (refuse CommonNo callbackProcessFailed (ae_Message appErr)))
           (\<lambda>cfg.
         either (bind (gatewayConfigFromConfig pe cfg) (\<lambda>platformCfg. bind (requireGateway pe) (\<lambda>gw. ret (platformCfg, gw))))
           (\<lambda>appErr. ret (refuse CommonNo callbackProcessFailed (ae_Message appErr)))
           (\<lambda>(platformCfg, gw).
         either (ask (\<lambda>k. gw_VerifyNotify gw k platformCfg form))
           (\<lambda>verifyErr. ret (refuse CommonNo callbackProcessFailed verifyErr))
           (\<lambda>verified. ret (case verified of
              None \<Rightarrow> refuse CommonNo callbackProcessFailed (encode_runes [25903, 20184, 23453, 22238, 35843, 20026, 31354])
            | Some payload \<Rightarrow> judge_verified cfg order payload)))))"

definition resolution_of :: "CallbackEvent \<Rightarrow> string \<Rightarrow> gotime \<Rightarrow> verdict \<Rightarrow> CallbackEventResolution" where
  "resolution_of event dedupeKey processedAt v =
     \<lparr>cer_EventID = e_ID event, cer_DedupeKey = dedupeKey, cer_SignatureValid = vd_SignatureValid v,
      cer_ProcessStatus = vd_Status v, cer_ProcessMessage = vd_Message v, cer_ProcessedAt = processedAt,
      cer_PaidOrderID = (if 0 < vd_OrderID v then vd_OrderID v else 0),
      cer_AlipayTradeNo = (if 0 < vd_OrderID v then trim_space (vd_TradeNo v) else []),
      cer_PaidAt = (if 0 < vd_OrderID v then processedAt else 0)\<rparr>"

definition resolve_callback :: "payment_env \<Rightarrow> CallbackEvent \<Rightarrow> string \<Rightarrow> verdict \<Rightarrow> ('z, string) payment_service_act" where
  "resolve_callback pe event dedupeKey v =
     bind (payment_now pe) (\<lambda>processedAt.
     either (ResolveCallbackEvent (pe_configured pe) (pe_db pe) (resolution_of event dedupeKey processedAt v))
       (\<lambda>_. ret callbackResultFail)
       (\<lambda>result.
     ret (if e_ProcessStatus (crr_Event result) = callbackProcessSuccess \<or>
             e_ProcessStatus (crr_Event result) = callbackProcessIgnored
          then callbackResultSuccess else callbackResultFail)))"

text \<open>The handler answers a text in every case, never an error.\<close>

definition HandleAlipayCallback :: "payment_env \<Rightarrow> form \<Rightarrow> ('z, string) payment_service_act" where
  "HandleAlipayCallback pe form =
     (if \<not> pe_repository pe then ret callbackResultFail
      else
        bind (payment_now pe) (\<lambda>receivedAt.
        let incomingEvent = incoming_event pe form receivedAt
        in either (AcquireCallbackEvent (pe_configured pe) (pe_db pe) incomingEvent)
             (\<lambda>_. ret callbackResultFail)
             (\<lambda>(event, _).
           if \<not> callbackEventFactsEqual event incomingEvent then ret callbackResultFail
           else if e_ProcessStatus event = callbackProcessSuccess \<or> e_ProcessStatus event = callbackProcessIgnored
           then ret callbackResultSuccess
           else bind (judge pe form) (resolve_callback pe event (e_DedupeKey incomingEvent)))))"

section \<open>Jobs\<close>

record job_result =
  jr_Scanned :: nat
  jr_Paid :: nat
  jr_Closed :: nat
  jr_Waiting :: nat
  jr_Failed :: nat

datatype paymentJobOutcome = JobPaid | JobClosed | JobWaiting

datatype job_error = JobApp pay_app_error | JobGateway string | JobRepository payment_error

type_synonym ('z, 'a) job_act = "(job_error, 'z payment_tables_scheme world, 'a) act"

definition as_job :: "('z, 'a) payment_service_act \<Rightarrow> ('z, 'a) job_act" where
  "as_job m = map_error JobApp m"

definition applyPaymentJobOutcome :: "job_result \<Rightarrow> paymentJobOutcome \<Rightarrow> job_result" where
  "applyPaymentJobOutcome result outcome = (case outcome of
     JobPaid \<Rightarrow> result\<lparr>jr_Paid := Suc (jr_Paid result)\<rparr>
   | JobClosed \<Rightarrow> result\<lparr>jr_Closed := Suc (jr_Closed result)\<rparr>
   | JobWaiting \<Rightarrow> result\<lparr>jr_Waiting := Suc (jr_Waiting result)\<rparr>)"

definition syncPendingOrder :: "payment_env \<Rightarrow> Order \<Rightarrow> string \<Rightarrow> ('z, paymentJobOutcome) job_act" where
  "syncPendingOrder pe row source =
     bind (as_job (gateway_of pe row)) (\<lambda>(platformCfg, gw).
     let close = bind (as_job (payment_requireRepository pe)) (\<lambda>_.
           bind (payment_now pe) (\<lambda>now.
           bind (as_job (closeOrderAndLinkedRecharge pe (o_ID row) now)) (\<lambda>_. ret JobClosed)))
     in either (ask (\<lambda>k. gw_Query gw k platformCfg (o_OrderNo row)))
       (\<lambda>err.
          if isAlipayTradeNotExistError err then
            bind (payment_now pe) (\<lambda>now. if orderExpired row now then close else throw (JobGateway err))
          else throw (JobGateway err))
       (\<lambda>result.
     let status = trim_space (resultStatus result)
     in if trade_paid status then
          bind (payment_now pe) (\<lambda>now.
          bind (as_job (FinalizeOrderPaid pe (o_ID row) (resultTradeNo result) (resultPaidAt result now) source)) (\<lambda>_. ret JobPaid))
        else if status = ''TRADE_CLOSED'' then close
        else if status = ''WAIT_BUYER_PAY'' then ret JobWaiting
        else throw (JobApp (BadRequest (encode_runes [26410, 30693, 30340, 25903, 20184, 23453, 35746, 21333, 29366, 24577])))))"

definition closeExpiredOrder :: "payment_env \<Rightarrow> Order \<Rightarrow> ('z, paymentJobOutcome) job_act" where
  "closeExpiredOrder pe row =
     bind (as_job (payment_requireRepository pe)) (\<lambda>_.
     let close = bind (payment_now pe) (\<lambda>now.
           bind (as_job (closeOrderAndLinkedRecharge pe (o_ID row) now)) (\<lambda>_. ret JobClosed))
     in if o_Status row = orderStatusPending then close
     else if o_Status row = orderStatusPaying then
       bind (syncPendingOrder pe row finalizeSourceCronClose) (\<lambda>outcome.
       if outcome = JobWaiting then
         bind (as_job (gateway_of pe row)) (\<lambda>(platformCfg, gw).
         bind (map_error JobGateway (ask (\<lambda>k. unless (gw_Close gw k platformCfg (o_OrderNo row))))) (\<lambda>_. close))
       else ret outcome)
     else ret JobWaiting)"

definition creditUncreditedPaidRecharge :: "payment_env \<Rightarrow> RechargeWithOrder \<Rightarrow> ('z, paymentJobOutcome) job_act" where
  "creditUncreditedPaidRecharge pe row =
     bind (payment_now pe) (\<lambda>now.
     bind (as_job (FinalizeOrderPaid pe (r_PaymentOrderID (ro_Recharge row)) (ro_AlipayTradeNo row)
       (case r_PaidAt (ro_Recharge row) of Some t \<Rightarrow> t
        | None \<Rightarrow> (case ro_OrderPaidAt row of Some t \<Rightarrow> t | None \<Rightarrow> now)) finalizeSourceCronSync)) (\<lambda>_. ret JobPaid))"

text \<open>The loop over the rows of a job: a row that fails is counted and the loop goes on.\<close>

fun job_rows :: "('r \<Rightarrow> ('z, paymentJobOutcome) job_act) \<Rightarrow> 'r list \<Rightarrow> job_result \<Rightarrow> ('z, job_result) job_act" where
  "job_rows step [] result = ret result"
| "job_rows step (row # rows) result =
     either (step row)
       (\<lambda>_. job_rows step rows (result\<lparr>jr_Failed := Suc (jr_Failed result)\<rparr>))
       (\<lambda>outcome. job_rows step rows (applyPaymentJobOutcome result outcome))"

definition scanned :: "nat \<Rightarrow> job_result" where
  "scanned n = \<lparr>jr_Scanned = n, jr_Paid = 0, jr_Closed = 0, jr_Waiting = 0, jr_Failed = 0\<rparr>"

definition SyncPendingOrders :: "payment_env \<Rightarrow> int \<Rightarrow> ('z, job_result) job_act" where
  "SyncPendingOrders pe input_limit =
     bind (as_job (payment_requireRepository pe)) (\<lambda>_.
     let limit = normalizePaymentJobLimit input_limit
     in bind (payment_now pe) (\<lambda>now.
        bind (map_error JobRepository (ListPendingPayingOrders (pe_configured pe) (pe_db pe) (now - 30000000000) limit)) (\<lambda>rows.
        bind (job_rows (\<lambda>row. syncPendingOrder pe row finalizeSourceCronSync) rows (scanned (length rows))) (\<lambda>result.
        let remaining = limit - int (length rows)
        in if remaining \<le> 0 then ret result
           else
             bind (map_error JobRepository (ListUncreditedPaidRecharges (pe_configured pe) (pe_db pe) remaining)) (\<lambda>uncredited.
             job_rows (creditUncreditedPaidRecharge pe) uncredited
               (result\<lparr>jr_Scanned := jr_Scanned result + length uncredited\<rparr>))))))"

definition CloseExpiredOrders :: "payment_env \<Rightarrow> int \<Rightarrow> ('z, job_result) job_act" where
  "CloseExpiredOrders pe input_limit =
     bind (as_job (payment_requireRepository pe)) (\<lambda>_.
     let limit = normalizePaymentJobLimit input_limit
     in bind (payment_now pe) (\<lambda>now.
        bind (map_error JobRepository (ListExpiredOpenOrders (pe_configured pe) (pe_db pe) now limit)) (\<lambda>rows.
        job_rows (closeExpiredOrder pe) rows (scanned (length rows)))))"

end
