(* ===== verification/PaymentLaws.thy ===== *)
theory PaymentLaws
  imports PaymentRepo
begin

text \<open>
  What the payment repository relies on of its wallet participant, as a locale, and what it
  guarantees in turn: an order is paid exactly when its recharge is credited, and a recharge is
  credited exactly when its amount is booked for its user, once. The locale is interpreted on the
  wallet's repository in PaymentHistory.
\<close>

section \<open>Orders, recharges and what is booked for them\<close>

lemma order_status_distinct [simp]:
  "orderStatusPending \<noteq> orderStatusPaid" "orderStatusPaid \<noteq> orderStatusPending"
  "orderStatusPaying \<noteq> orderStatusPaid" "orderStatusPaid \<noteq> orderStatusPaying"
  "orderStatusClosed \<noteq> orderStatusPaid" "orderStatusPaid \<noteq> orderStatusClosed"
  "orderStatusFailed \<noteq> orderStatusPaid" "orderStatusPaid \<noteq> orderStatusFailed"
  "orderStatusPending \<noteq> orderStatusClosed" "orderStatusClosed \<noteq> orderStatusPending"
  "orderStatusPaying \<noteq> orderStatusClosed" "orderStatusClosed \<noteq> orderStatusPaying"
  "orderStatusFailed \<noteq> orderStatusClosed" "orderStatusClosed \<noteq> orderStatusFailed"
  "orderStatusPending \<noteq> orderStatusPaying" "orderStatusPaying \<noteq> orderStatusPending"
  "orderStatusFailed \<noteq> orderStatusPaying" "orderStatusPaying \<noteq> orderStatusFailed"
  "orderStatusPending \<noteq> orderStatusFailed" "orderStatusFailed \<noteq> orderStatusPending"
  by (simp_all add: order_status_defs)

lemma recharge_status_distinct [simp]:
  "rechargeStatusPending \<noteq> rechargeStatusCredited" "rechargeStatusPaying \<noteq> rechargeStatusCredited"
  "rechargeStatusPaid \<noteq> rechargeStatusCredited" "rechargeStatusClosed \<noteq> rechargeStatusCredited"
  "rechargeStatusFailed \<noteq> rechargeStatusCredited" "rechargeStatusCredited \<noteq> rechargeStatusPending"
  "rechargeStatusCredited \<noteq> rechargeStatusPaying" "rechargeStatusCredited \<noteq> rechargeStatusPaid"
  "rechargeStatusCredited \<noteq> rechargeStatusClosed" "rechargeStatusCredited \<noteq> rechargeStatusFailed"
  "rechargeStatusPending \<noteq> rechargeStatusPaid" "rechargeStatusPaying \<noteq> rechargeStatusPaid"
  "rechargeStatusClosed \<noteq> rechargeStatusPaid" "rechargeStatusFailed \<noteq> rechargeStatusPaid"
  "rechargeStatusPaid \<noteq> rechargeStatusPending" "rechargeStatusPaid \<noteq> rechargeStatusPaying"
  "rechargeStatusPaid \<noteq> rechargeStatusClosed" "rechargeStatusPaid \<noteq> rechargeStatusFailed"
  "rechargeStatusPending \<noteq> rechargeStatusPaying" "rechargeStatusPaying \<noteq> rechargeStatusPending"
  "rechargeStatusPending \<noteq> rechargeStatusClosed" "rechargeStatusClosed \<noteq> rechargeStatusPending"
  "rechargeStatusPaying \<noteq> rechargeStatusClosed" "rechargeStatusClosed \<noteq> rechargeStatusPaying"
  "rechargeStatusFailed \<noteq> rechargeStatusPending" "rechargeStatusPending \<noteq> rechargeStatusFailed"
  "rechargeStatusFailed \<noteq> rechargeStatusPaying" "rechargeStatusPaying \<noteq> rechargeStatusFailed"
  "rechargeStatusFailed \<noteq> rechargeStatusClosed" "rechargeStatusClosed \<noteq> rechargeStatusFailed"
  by (simp_all add: recharge_status_defs)

text \<open>An order has a time of payment exactly when it is paid, and one of closing exactly when it is closed.\<close>

definition order_ok :: "Order \<Rightarrow> bool" where
  "order_ok o' \<longleftrightarrow> 0 < o_ID o' \<and> o_IsDel o' = CommonNo \<and>
     (o_PaidAt o' \<noteq> None \<longleftrightarrow> o_Status o' = orderStatusPaid) \<and> (o_ClosedAt o' \<noteq> None \<longleftrightarrow> o_Status o' = orderStatusClosed)"

text \<open>A recharge and its order: of one amount, settled together, and booked exactly then.\<close>

definition recharge_of :: "books \<Rightarrow> Recharge \<Rightarrow> Order \<Rightarrow> bool" where
  "recharge_of booked r o' \<longleftrightarrow> o_ID o' = r_PaymentOrderID r \<and> o_AmountCents o' = r_AmountCents r \<and>
     (if r_Status r = rechargeStatusCredited
      then o_Status o' = orderStatusPaid \<and> r_PaidAt r \<noteq> None \<and> r_CreditedAt r \<noteq> None \<and>
        booked (r_ID r) = Some (r_UserID r, r_AmountCents r * UnitsPerCent)
      else r_Status r \<noteq> rechargeStatusPaid \<and> o_Status o' \<noteq> orderStatusPaid \<and> r_PaidAt r = None \<and>
        r_CreditedAt r = None \<and> booked (r_ID r) = None)"

definition recharge_ok :: "books \<Rightarrow> Order list \<Rightarrow> Recharge \<Rightarrow> bool" where
  "recharge_ok booked os r \<longleftrightarrow> 0 < r_ID r \<and> r_IsDel r = CommonNo \<and> list_ex (recharge_of booked r) os"

definition payments_ok :: "books \<Rightarrow> 'z payment_tables_scheme \<Rightarrow> bool" where
  "payments_ok booked D \<longleftrightarrow> distinct (map o_ID (pay_orders D)) \<and> distinct (map r_ID (recharges D)) \<and>
     distinct (map r_PaymentOrderID (recharges D)) \<and> list_all order_ok (pay_orders D) \<and>
     list_all (recharge_ok booked (pay_orders D)) (recharges D) \<and> dom booked \<subseteq> r_ID ` set (recharges D)"

lemma payments_okD:
  assumes "payments_ok booked D"
  shows "distinct (map o_ID (pay_orders D))" "distinct (map r_ID (recharges D))"
    "distinct (map r_PaymentOrderID (recharges D))" "o' \<in> set (pay_orders D) \<Longrightarrow> order_ok o'"
    "r \<in> set (recharges D) \<Longrightarrow> recharge_ok booked (pay_orders D) r" "dom booked \<subseteq> r_ID ` set (recharges D)"
  using assms by (simp_all add: payments_ok_def list_all_iff)

lemma payments_okI:
  assumes "distinct (map o_ID (pay_orders D))" "distinct (map r_ID (recharges D))"
    "distinct (map r_PaymentOrderID (recharges D))" "\<And>o'. o' \<in> set (pay_orders D) \<Longrightarrow> order_ok o'"
    "\<And>r. r \<in> set (recharges D) \<Longrightarrow> recharge_ok booked (pay_orders D) r" "dom booked \<subseteq> r_ID ` set (recharges D)"
  shows "payments_ok booked D"
  using assms by (simp add: payments_ok_def list_all_iff)

lemma recharge_okE:
  assumes "payments_ok booked D" "r \<in> set (recharges D)"
  obtains o' where "o' \<in> set (pay_orders D)" "recharge_of booked r o'" "0 < r_ID r" "r_IsDel r = CommonNo"
  using payments_okD(5) [OF assms] by (auto simp: recharge_ok_def list_ex_iff)

lemma recharge_ok_order:
  assumes ok: "payments_ok booked D" and r: "r \<in> set (recharges D)"
    and o': "o' \<in> set (pay_orders D)" "o_ID o' = r_PaymentOrderID r"
  shows "recharge_of booked r o'"
  using recharge_okE [OF ok r] distinct_key_eq [OF payments_okD(1) [OF ok] _ o'(1)] o'(2)
  by (metis recharge_of_def)

section \<open>How the statements change them\<close>

text \<open>Orders move between statuses other than paid.\<close>

lemma payments_ok_orders:
  assumes ok: "payments_ok booked D"
    and D': "pay_orders D' = change_rows P g (pay_orders D)" "recharges D' = recharges D"
    and g: "\<And>o'. order_ok o' \<Longrightarrow> P o' \<Longrightarrow> order_ok (g o') \<and> o_ID (g o') = o_ID o' \<and> o_AmountCents (g o') = o_AmountCents o' \<and>
      o_Status o' \<noteq> orderStatusPaid \<and> o_Status (g o') \<noteq> orderStatusPaid"
  shows "payments_ok booked D'"
proof (rule payments_okI)
  have "map o_ID (pay_orders D') = map o_ID (pay_orders D)"
    unfolding D' change_rows_def using g payments_okD(4) [OF ok] by auto
  then show "distinct (map o_ID (pay_orders D'))" using payments_okD(1) [OF ok] by simp
  show "distinct (map r_ID (recharges D'))" "distinct (map r_PaymentOrderID (recharges D'))"
    "dom booked \<subseteq> r_ID ` set (recharges D')" using payments_okD [OF ok] by (simp_all add: D')
  show "order_ok o'" if "o' \<in> set (pay_orders D')" for o'
    using that g payments_okD(4) [OF ok] by (auto simp: D' set_change_rows)
  show "recharge_ok booked (pay_orders D') r" if "r \<in> set (recharges D')" for r
  proof -
    from that have r: "r \<in> set (recharges D)" by (simp add: D')
    obtain o' where o': "o' \<in> set (pay_orders D)" "recharge_of booked r o'" and id: "0 < r_ID r" "r_IsDel r = CommonNo"
      by (rule recharge_okE [OF ok r])
    let ?x = "if P o' then g o' else o'"
    have "recharge_of booked r ?x" using o' g [OF payments_okD(4) [OF ok o'(1)]] by (auto simp: recharge_of_def)
    moreover have "?x \<in> set (pay_orders D')" using o' by (auto simp: D' set_change_rows)
    ultimately show ?thesis using id by (auto simp: recharge_ok_def list_ex_iff)
  qed
qed

text \<open>Recharges move between statuses other than paid and credited.\<close>

lemma payments_ok_recharges:
  assumes ok: "payments_ok booked D"
    and D': "recharges D' = change_rows P g (recharges D)" "pay_orders D' = pay_orders D"
    and g: "\<And>r. P r \<Longrightarrow> r_ID (g r) = r_ID r \<and> r_UserID (g r) = r_UserID r \<and> r_AmountCents (g r) = r_AmountCents r \<and>
      r_PaymentOrderID (g r) = r_PaymentOrderID r \<and> r_IsDel (g r) = r_IsDel r \<and> r_PaidAt (g r) = r_PaidAt r \<and>
      r_CreditedAt (g r) = r_CreditedAt r \<and> r_Status r \<noteq> rechargeStatusCredited \<and>
      r_Status (g r) \<noteq> rechargeStatusCredited \<and> r_Status (g r) \<noteq> rechargeStatusPaid"
  shows "payments_ok booked D'"
proof (rule payments_okI)
  have keys: "map r_ID (recharges D') = map r_ID (recharges D)"
    "map r_PaymentOrderID (recharges D') = map r_PaymentOrderID (recharges D)"
    unfolding D' by (rule map_change_rows, simp add: g)+
  then show "distinct (map r_ID (recharges D'))" "distinct (map r_PaymentOrderID (recharges D'))"
    "distinct (map o_ID (pay_orders D'))" using payments_okD [OF ok] by (simp_all add: D'(2))
  show "dom booked \<subseteq> r_ID ` set (recharges D')" using payments_okD(6) [OF ok] keys(1) by (metis list.set_map)
  show "order_ok o'" if "o' \<in> set (pay_orders D')" for o' using that payments_okD(4) [OF ok] by (simp add: D')
  show "recharge_ok booked (pay_orders D') r" if r': "r \<in> set (recharges D')" for r
  proof -
    from r' obtain r0 where r0: "r0 \<in> set (recharges D)" "r = (if P r0 then g r0 else r0)"
      by (auto simp: D' set_change_rows)
    obtain o' where o': "o' \<in> set (pay_orders D)" "recharge_of booked r0 o'" and id: "0 < r_ID r0" "r_IsDel r0 = CommonNo"
      by (rule recharge_okE [OF ok r0(1)])
    then have "recharge_of booked r o'" using r0(2) g [of r0] by (auto simp: recharge_of_def split: if_splits)
    with o' id r0(2) g [of r0] show ?thesis by (auto simp: recharge_ok_def list_ex_iff D'(2))
  qed
qed

text \<open>One order becomes paid: one without a recharge, or together with its recharge and the books.\<close>

lemma payments_ok_raw_paid:
  assumes ok: "payments_ok booked D" and o': "o' \<in> set (pay_orders D)"
    and raw: "\<forall>r \<in> set (recharges D). r_PaymentOrderID r \<noteq> o_ID o'"
    and D': "pay_orders D' = change_rows P g (pay_orders D)" "recharges D' = recharges D"
    and P: "\<And>x. x \<in> set (pay_orders D) \<Longrightarrow> P x \<longleftrightarrow> o_ID x = o_ID o'"
    and g: "\<And>x. o_ID (g x) = o_ID x" "order_ok (g o')"
  shows "payments_ok booked D'"
proof (rule payments_okI)
  have "map o_ID (pay_orders D') = map o_ID (pay_orders D)" unfolding D' by (rule map_change_rows) (rule g)
  then show "distinct (map o_ID (pay_orders D'))" using payments_okD(1) [OF ok] by simp
  show "distinct (map r_ID (recharges D'))" "distinct (map r_PaymentOrderID (recharges D'))"
    "dom booked \<subseteq> r_ID ` set (recharges D')" using payments_okD [OF ok] by (simp_all add: D')
  note mem = member_change_key [OF payments_okD(1) [OF ok] o' P, where g = g]
  show "order_ok x" if "x \<in> set (pay_orders D')" for x
    using that g payments_okD(4) [OF ok] by (auto simp: D' mem)
  show "recharge_ok booked (pay_orders D') r" if "r \<in> set (recharges D')" for r
  proof -
    from that have r: "r \<in> set (recharges D)" by (simp add: D')
    obtain x where x: "x \<in> set (pay_orders D)" "recharge_of booked r x" and id: "0 < r_ID r" "r_IsDel r = CommonNo"
      by (rule recharge_okE [OF ok r])
    from x(2) raw r have "o_ID x \<noteq> o_ID o'" by (auto simp: recharge_of_def)
    with x(1) have "x \<in> set (pay_orders D')" by (simp add: D' mem)
    with x id show ?thesis by (auto simp: recharge_ok_def list_ex_iff)
  qed
qed

lemma payments_ok_settled:
  assumes ok: "payments_ok booked D" and o': "o' \<in> set (pay_orders D)" and r: "r \<in> set (recharges D)" "r_PaymentOrderID r = o_ID o'"
    and D': "pay_orders D' = change_rows P g (pay_orders D)" "recharges D' = change_rows Q h (recharges D)"
    and P: "\<And>x. x \<in> set (pay_orders D) \<Longrightarrow> P x \<longleftrightarrow> o_ID x = o_ID o'"
    and g: "\<And>x. o_ID (g x) = o_ID x" "order_ok (g o')" "o_AmountCents (g o') = o_AmountCents o'" "o_Status (g o') = orderStatusPaid"
    and Q: "\<And>x. x \<in> set (recharges D) \<Longrightarrow> Q x \<longleftrightarrow> r_ID x = r_ID r"
    and h: "\<And>x. r_ID (h x) = r_ID x \<and> r_PaymentOrderID (h x) = r_PaymentOrderID x"
    and hr: "r_UserID (h r) = r_UserID r" "r_AmountCents (h r) = r_AmountCents r" "r_IsDel (h r) = r_IsDel r"
      "r_Status (h r) = rechargeStatusCredited" "r_PaidAt (h r) \<noteq> None" "r_CreditedAt (h r) \<noteq> None"
  shows "payments_ok (booked(r_ID r \<mapsto> (r_UserID r, r_AmountCents r * UnitsPerCent))) D'" (is "payments_ok ?b _")
proof (rule payments_okI)
  have "map o_ID (pay_orders D') = map o_ID (pay_orders D)" unfolding D' by (rule map_change_rows) (rule g)
  then show "distinct (map o_ID (pay_orders D'))" using payments_okD(1) [OF ok] by simp
  have keys: "map r_ID (recharges D') = map r_ID (recharges D)"
    "map r_PaymentOrderID (recharges D') = map r_PaymentOrderID (recharges D)"
    unfolding D' by (rule map_change_rows, simp add: h)+
  then show "distinct (map r_ID (recharges D'))" "distinct (map r_PaymentOrderID (recharges D'))"
    using payments_okD [OF ok] by simp_all
  have "r_ID ` set (recharges D') = r_ID ` set (recharges D)" using keys(1) by (metis list.set_map)
  then show "dom ?b \<subseteq> r_ID ` set (recharges D')" using payments_okD(6) [OF ok] r(1) by auto
  note mem = member_change_key [OF payments_okD(1) [OF ok] o' P, where g = g]
  note rmem = member_change_key [OF payments_okD(2) [OF ok] r(1) Q, where g = h]
  show "order_ok x" if "x \<in> set (pay_orders D')" for x
    using that g payments_okD(4) [OF ok] by (auto simp: D' mem)
  have main: "recharge_of booked r o'" by (rule recharge_ok_order [OF ok r(1) o']) (simp add: r(2))
  show "recharge_ok ?b (pay_orders D') x" if "x \<in> set (recharges D')" for x
  proof (cases "x = h r")
    case True
    have "recharge_of ?b x (g o')" using main g h hr by (auto simp: recharge_of_def True)
    moreover have "g o' \<in> set (pay_orders D')" by (simp add: D' mem)
    moreover have "0 < r_ID x" "r_IsDel x = CommonNo"
      using recharge_okE [OF ok r(1)] h hr(3) True by metis+
    ultimately show ?thesis by (auto simp: recharge_ok_def list_ex_iff)
  next
    case False
    with that have x: "x \<in> set (recharges D)" "r_ID x \<noteq> r_ID r" by (simp_all add: D'(2) rmem)
    obtain y where y: "y \<in> set (pay_orders D)" "recharge_of booked x y" and id: "0 < r_ID x" "r_IsDel x = CommonNo"
      by (rule recharge_okE [OF ok x(1)])
    have "r_PaymentOrderID x \<noteq> r_PaymentOrderID r"
      using distinct_key_eq [OF payments_okD(3) [OF ok] x(1) r(1)] x(2) by auto
    then have "o_ID y \<noteq> o_ID o'" using y(2) r(2) by (simp add: recharge_of_def)
    with y(1) have "y \<in> set (pay_orders D')" by (simp add: D' mem)
    moreover have "recharge_of ?b x y" using y(2) x(2) by (simp add: recharge_of_def)
    ultimately show ?thesis using id by (auto simp: recharge_ok_def list_ex_iff)
  qed
qed

text \<open>A new order, and a recharge of a new order.\<close>

lemma payments_ok_new_order:
  assumes ok: "payments_ok booked D" and D': "pay_orders D' = pay_orders D @ [o']" "recharges D' = recharges D"
    and new: "o_ID o' \<notin> o_ID ` set (pay_orders D)" "order_ok o'"
  shows "payments_ok booked D'"
  using payments_okD [OF ok] new by (intro payments_okI) (auto simp: D' recharge_ok_def list_ex_iff)

lemma payments_ok_new_recharge:
  assumes ok: "payments_ok booked D" and D': "pay_orders D' = pay_orders D" "recharges D' = recharges D @ [r]"
    and new: "r_ID r \<notin> r_ID ` set (recharges D)" "r_PaymentOrderID r \<notin> r_PaymentOrderID ` set (recharges D)"
    and fields: "0 < r_ID r" "r_IsDel r = CommonNo" "r_Status r = rechargeStatusPending" "r_PaidAt r = None" "r_CreditedAt r = None"
    and o': "o' \<in> set (pay_orders D)" "o_ID o' = r_PaymentOrderID r" "o_AmountCents o' = r_AmountCents r" "o_Status o' \<noteq> orderStatusPaid"
  shows "payments_ok booked D'"
proof (rule payments_okI)
  have "booked (r_ID r) = None" using payments_okD(6) [OF ok] new(1) by (auto simp flip: domIff)
  with fields o' have "recharge_of booked r o'" by (simp add: recharge_of_def)
  then show "recharge_ok booked (pay_orders D') x" if "x \<in> set (recharges D')" for x
    using that payments_okD(5) [OF ok, of x] fields o'(1) by (auto simp: D' recharge_ok_def list_ex_iff)
qed (use payments_okD [OF ok] new in \<open>auto simp: D'\<close>)

section \<open>Statements on the tables\<close>

definition pay_ids :: "'z payment_tables_scheme world \<Rightarrow> bool" where
  "pay_ids s \<longleftrightarrow> 0 < auto_inc s \<and> list_all (\<lambda>i. i < auto_inc s) (map o_ID (pay_orders (tables s)) @ map r_ID (recharges (tables s)))"

lemma pay_ids_later:
  assumes "pay_ids s" "auto_inc s \<le> auto_inc t" "map o_ID (pay_orders (tables t)) = map o_ID (pay_orders (tables s))"
    "map r_ID (recharges (tables t)) = map r_ID (recharges (tables s))"
  shows "pay_ids t"
proof -
  have "list_all (\<lambda>i. i < auto_inc s) js \<Longrightarrow> list_all (\<lambda>i. i < auto_inc t) js" for js
    using assms(2) by (induction js) auto
  then show ?thesis using assms(1,2) unfolding pay_ids_def assms(3,4) by simp
qed

text \<open>The row of an order that is marked as paid.\<close>

definition paid_row :: "string \<Rightarrow> gotime \<Rightarrow> gotime \<Rightarrow> Order \<Rightarrow> Order" where
  "paid_row resolved paidAt u o' = (order_paid resolved paidAt o')
     \<lparr>o_AlipayTradeNoIdentity := (if resolved \<noteq> [] then Some resolved else None), o_UpdatedAt := u\<rparr>"

definition paid_orders :: "int \<Rightarrow> string \<Rightarrow> gotime \<Rightarrow> gotime \<Rightarrow> Order list \<Rightarrow> Order list" where
  "paid_orders i resolved paidAt u = change_rows (\<lambda>x. o_ID x = i) (paid_row resolved paidAt u)"

definition credited_row :: "gotime \<Rightarrow> gotime \<Rightarrow> gotime \<Rightarrow> Recharge \<Rightarrow> Recharge" where
  "credited_row paidAt creditedAt u r = (recharge_credited paidAt creditedAt r)\<lparr>r_UpdatedAt := u\<rparr>"

definition credited_recharges :: "int \<Rightarrow> gotime \<Rightarrow> gotime \<Rightarrow> gotime \<Rightarrow> Recharge list \<Rightarrow> Recharge list" where
  "credited_recharges i paidAt creditedAt u = change_rows (\<lambda>x. r_ID x = i) (credited_row paidAt creditedAt u)"

lemma paid_row_fields [simp]:
  "o_ID (paid_row n p u x) = o_ID x" "o_AmountCents (paid_row n p u x) = o_AmountCents x"
  "o_Status (paid_row n p u x) = orderStatusPaid" "o_IsDel (paid_row n p u x) = o_IsDel x"
  "o_PaidAt (paid_row n p u x) = Some p" "o_ClosedAt (paid_row n p u x) = o_ClosedAt x"
  "o_AlipayTradeNo (paid_row n p u x) = n" "o_OrderNo (paid_row n p u x) = o_OrderNo x"
  by (simp_all add: paid_row_def order_paid_def)

lemma credited_row_fields [simp]:
  "r_ID (credited_row p c u x) = r_ID x" "r_UserID (credited_row p c u x) = r_UserID x"
  "r_AmountCents (credited_row p c u x) = r_AmountCents x" "r_PaymentOrderID (credited_row p c u x) = r_PaymentOrderID x"
  "r_Status (credited_row p c u x) = rechargeStatusCredited" "r_IsDel (credited_row p c u x) = r_IsDel x"
  "r_PaidAt (credited_row p c u x) = Some p" "r_CreditedAt (credited_row p c u x) = Some c"
  by (simp_all add: credited_row_def recharge_credited_def)

text \<open>An UPDATE that is checked to have met one row.\<close>

lemma updated_one:
  assumes "Returns (bind (map_error PayDb (update_where ev get upd P g)) (\<lambda>n.
    if n \<noteq> 1 then throw ErrPaymentStateChanged else ret x)) s y t"
  shows "y = x \<and> auto_inc t = auto_inc s \<and> length (filter P (get (tables s))) = 1 \<and>
    tables t = upd (change_rows P (g (ev_now ev (clock_no s)))) (tables s)"
proof -
  from assms obtain n s1 where "Returns (map_error PayDb (update_where ev get upd P g)) s n s1"
    and "Returns (if n \<noteq> 1 then throw ErrPaymentStateChanged else ret x) s1 y t" by (rule Returns_bindE)
  then show ?thesis by (cases "n = 1") (simp_all add: act_simps)
qed

lemma update_pay_orders: "change_rows P g (pay_orders D) = x \<Longrightarrow> pay_orders_update (change_rows P g) D = D\<lparr>pay_orders := x\<rparr>"
  by (cases D) simp

lemma update_recharges: "change_rows P g (recharges D) = x \<Longrightarrow> recharges_update (change_rows P g) D = D\<lparr>recharges := x\<rparr>"
  by (cases D) simp

lemma markOrderPaid_effect:
  assumes d: "distinct (map o_ID (pay_orders (tables s)))" and order: "order \<in> set (pay_orders (tables s))"
    and open_: "o_IsDel order = CommonNo" "o_PaidAt order = None" "o_ClosedAt order = None"
    and run: "Returns (markOrderPaidInTx ev order tradeNo paidAt) s order' t"
  defines "n \<equiv> resultTradeNoFromStrings [tradeNo, o_AlipayTradeNo order]"
  shows "order' = order_paid n paidAt order" "auto_inc t = auto_inc s"
    "\<exists>u. tables t = (tables s)\<lparr>pay_orders := paid_orders (o_ID order) n paidAt u (pay_orders (tables s))\<rparr>"
proof -
  let ?P = "\<lambda>x. live_order (o_ID order) x \<and> o_Status x = o_Status order \<and> o_PaidAt x = None \<and> o_ClosedAt x = None"
  let ?u = "ev_now ev (clock_no s)"
  note U = updated_one [OF run [unfolded markOrderPaidInTx_def Let_def, folded n_def]]
  from U have o': "order' = order_paid n paidAt order" and t: "auto_inc t = auto_inc s" by blast+
  have t2: "tables t = pay_orders_update (change_rows ?P (paid_row n paidAt ?u)) (tables s)"
    using U unfolding paid_row_def [abs_def] by (elim conjE)
  show "order' = order_paid n paidAt order" "auto_inc t = auto_inc s" by (fact o' t)+
  have "change_rows ?P (paid_row n paidAt ?u) (pay_orders (tables s)) = paid_orders (o_ID order) n paidAt ?u (pay_orders (tables s))"
    unfolding paid_orders_def
  proof (rule change_rows_cong)
    show "?P x = (o_ID x = o_ID order)" if "x \<in> set (pay_orders (tables s))" for x
      using distinct_key_eq [OF d that order] open_ by (auto simp: live_order_def)
  qed simp_all
  from t2 [unfolded update_pay_orders [OF this]]
  show "\<exists>u. tables t = (tables s)\<lparr>pay_orders := paid_orders (o_ID order) n paidAt u (pay_orders (tables s))\<rparr>"
    by (rule exI [where x = ?u])
qed

lemma markRechargeCredited_effect:
  assumes d: "distinct (map r_ID (recharges (tables s)))" and r: "row \<in> set (recharges (tables s))"
    and open_: "r_IsDel row = CommonNo" "r_CreditedAt row = None"
    and run: "Returns (markRechargeCreditedInTx ev row paidAt creditedAt) s row' t"
  shows "row' = recharge_credited paidAt creditedAt row" "auto_inc t = auto_inc s"
    "\<exists>u. tables t = (tables s)\<lparr>recharges := credited_recharges (r_ID row) paidAt creditedAt u (recharges (tables s))\<rparr>"
proof -
  let ?P = "\<lambda>r. r_ID r = r_ID row \<and> r_PaymentOrderID r = r_PaymentOrderID row \<and> r_UserID r = r_UserID row \<and>
         r_AmountCents r = r_AmountCents row \<and> r_IsDel r = CommonNo \<and> r_Status r = r_Status row \<and>
         r_PaidAt r = r_PaidAt row \<and> r_CreditedAt r = None"
  let ?u = "ev_now ev (clock_no s)"
  note U = updated_one [OF run [unfolded markRechargeCreditedInTx_def]]
  from U have row': "row' = recharge_credited paidAt creditedAt row" and t: "auto_inc t = auto_inc s" by blast+
  have t2: "tables t = recharges_update (change_rows ?P (credited_row paidAt creditedAt ?u)) (tables s)"
    using U unfolding credited_row_def [abs_def] by (elim conjE)
  show "row' = recharge_credited paidAt creditedAt row" "auto_inc t = auto_inc s" by (fact row' t)+
  have "change_rows ?P (credited_row paidAt creditedAt ?u) (recharges (tables s)) =
      credited_recharges (r_ID row) paidAt creditedAt ?u (recharges (tables s))"
    unfolding credited_recharges_def
  proof (rule change_rows_cong)
    show "?P x = (r_ID x = r_ID row)" if "x \<in> set (recharges (tables s))" for x
      using distinct_key_eq [OF d that r] open_ by auto
  qed simp_all
  from t2 [unfolded update_recharges [OF this]]
  show "\<exists>u. tables t = (tables s)\<lparr>recharges := credited_recharges (r_ID row) paidAt creditedAt u (recharges (tables s))\<rparr>"
    by (rule exI [where x = ?u])
qed

section \<open>The interface of the wallet participant\<close>

text \<open>What a settlement that returns has done.\<close>

definition order_settled ::
    "('z payment_tables_scheme \<Rightarrow> books) \<Rightarrow> ('z payment_tables_scheme \<Rightarrow> int \<Rightarrow> int) \<Rightarrow> int \<Rightarrow> string \<Rightarrow> gotime \<Rightarrow> gotime \<Rightarrow>
      PaidOrderFinalization \<Rightarrow> Order \<Rightarrow> 'z payment_tables_scheme \<Rightarrow> 'z payment_tables_scheme \<Rightarrow> bool" where
  "order_settled booked funds orderID tradeNo paidAt now pf o' D D' \<longleftrightarrow>
     o' \<in> set (pay_orders D) \<and> o_ID o' = orderID \<and> 0 < o_AmountCents o' \<and> pf_OrderPaid pf = (\<not> pf_OrderAlreadyPaid pf) \<and>
     (if pf_OrderAlreadyPaid pf
      then o_Status o' = orderStatusPaid \<and> D' = D \<and> pf_Order pf = o' \<and> \<not> pf_RechargeCredited pf
      else (o_Status o' = orderStatusPending \<or> o_Status o' = orderStatusPaying) \<and>
        (let n = resultTradeNoFromStrings [tradeNo, o_AlipayTradeNo o'] in
         pf_Order pf = order_paid n paidAt o' \<and> events D' = events D \<and>
         (\<exists>u. pay_orders D' = paid_orders orderID n paidAt u (pay_orders D)) \<and>
         (case find (\<lambda>r. r_PaymentOrderID r = orderID) (recharges D) of
            None \<Rightarrow> pf_RawOrder pf \<and> recharges D' = recharges D \<and> booked D' = booked D \<and> funds D' = funds D
          | Some r \<Rightarrow> pf_RechargeCredited pf \<and> r_AmountCents r = o_AmountCents o' \<and> 0 < r_UserID r \<and>
              (r_Status r = rechargeStatusPending \<or> r_Status r = rechargeStatusPaying) \<and>
              (\<exists>u. recharges D' = credited_recharges (r_ID r) paidAt now u (recharges D)) \<and> booked D (r_ID r) = None \<and>
              booked D' = (booked D)(r_ID r \<mapsto> (r_UserID r, o_AmountCents o' * UnitsPerCent)) \<and>
              funds D' = (funds D)(r_UserID r := funds D (r_UserID r) + o_AmountCents o' * UnitsPerCent))))"

definition pay_state_ok ::
    "('z payment_tables_scheme world \<Rightarrow> bool) \<Rightarrow> ('z payment_tables_scheme \<Rightarrow> books) \<Rightarrow> 'z payment_tables_scheme world \<Rightarrow> bool" where
  "pay_state_ok consistent booked s \<longleftrightarrow> consistent s \<and> payments_ok (booked (tables s)) (tables s) \<and> pay_ids s"

locale recharge_participant =
  fixes findCredit :: "'z payment_tables_scheme recharge_call"
    and credit :: "'z payment_tables_scheme recharge_call"
    and consistent :: "'z payment_tables_scheme world \<Rightarrow> bool"
    and booked :: "'z payment_tables_scheme \<Rightarrow> books"
    and funds :: "'z payment_tables_scheme \<Rightarrow> int \<Rightarrow> int"
  assumes find_reads: "consistent s \<Longrightarrow> Returns (findCredit ev i) s r t \<Longrightarrow> same_tables s t"
    and find_grows: "grows (findCredit ev i)"
    and credit_grows: "grows (credit ev i)"
    and credit_keeps: "Returns (credit ev i) s r t \<Longrightarrow> pay_orders (tables t) = pay_orders (tables s) \<and>
      recharges (tables t) = recharges (tables s) \<and> events (tables t) = events (tables s)"
    and credit_books: "consistent s \<Longrightarrow> cr_AmountUnits i \<le> max_int64 \<Longrightarrow> Returns (credit ev i) s (Some rf) t \<Longrightarrow>
      rf_Disposition rf = RechargeCreditCreated \<Longrightarrow>
      consistent t \<and> auto_inc s \<le> auto_inc t \<and> booked (tables s) (cr_RechargeID i) = None \<and>
      booked (tables t) = (booked (tables s))(cr_RechargeID i \<mapsto> (cr_UserID i, cr_AmountUnits i)) \<and>
      funds (tables t) = (funds (tables s))(cr_UserID i := funds (tables s) (cr_UserID i) + cr_AmountUnits i)"
    and other_tables: "consistent s \<Longrightarrow> auto_inc s \<le> auto_inc t \<Longrightarrow>
      tables t = events_update k (recharges_update h (pay_orders_update g (tables s))) \<Longrightarrow>
      consistent t \<and> booked (tables t) = booked (tables s) \<and> funds (tables t) = funds (tables s)"
begin

abbreviation pay_ok :: "'z payment_tables_scheme world \<Rightarrow> bool" where
  "pay_ok \<equiv> pay_state_ok consistent booked"

lemma same_consistent: "consistent s \<Longrightarrow> tables t = tables s \<Longrightarrow> auto_inc s \<le> auto_inc t \<Longrightarrow> consistent t"
  using other_tables [of s t "\<lambda>x. x" "\<lambda>x. x" "\<lambda>x. x"] by simp

lemma pay_ok_same: "pay_ok s \<Longrightarrow> tables t = tables s \<Longrightarrow> auto_inc s \<le> auto_inc t \<Longrightarrow> pay_ok t"
  unfolding pay_state_ok_def using same_consistent [of s t] pay_ids_later [of s t] by simp

lemma orders_changed:
  assumes "consistent s" "auto_inc s \<le> auto_inc t" "tables t = (tables s)\<lparr>pay_orders := os\<rparr>"
  shows "consistent t \<and> booked (tables t) = booked (tables s) \<and> funds (tables t) = funds (tables s)"
  using other_tables [OF assms(1,2), of "\<lambda>x. x" "\<lambda>x. x" "\<lambda>_. os"] assms(3) by simp

lemma recharges_changed:
  assumes "consistent s" "auto_inc s \<le> auto_inc t" "tables t = (tables s)\<lparr>recharges := rs\<rparr>"
  shows "consistent t \<and> booked (tables t) = booked (tables s) \<and> funds (tables t) = funds (tables s)"
  using other_tables [OF assms(1,2), of "\<lambda>x. x" "\<lambda>_. rs" "\<lambda>x. x"] assms(3) by simp

lemma events_changed:
  assumes "pay_ok s" "auto_inc s \<le> auto_inc t" "tables t = (tables s)\<lparr>events := es\<rparr>"
  shows "pay_ok t \<and> booked (tables t) = booked (tables s) \<and> funds (tables t) = funds (tables s)"
  using other_tables [OF _ assms(2), of "\<lambda>_. es" "\<lambda>x. x" "\<lambda>x. x"] assms pay_ids_later [of s t]
  unfolding pay_state_ok_def by (simp add: payments_ok_def)

lemma validOrder_Inr:
  assumes "validateOrderForPaidFinalization order orderID tradeNo = Inr already"
  shows "o_ID order = orderID" "o_IsDel order = CommonNo" "0 < o_AmountCents order"
    "already \<longleftrightarrow> o_Status order = orderStatusPaid"
    "\<not> already \<Longrightarrow> (o_Status order = orderStatusPending \<or> o_Status order = orderStatusPaying) \<and> o_PaidAt order = None \<and> o_ClosedAt order = None"
  using assms by (auto simp: validateOrderForPaidFinalization_def Let_def split: if_splits)

lemma validRecharge_Inr:
  assumes "validateRechargeForPaidFinalization row order already = Inr credited"
  shows "r_AmountCents row = o_AmountCents order" "0 < r_UserID row" "0 < r_ID row" "r_IsDel row = CommonNo"
    "credited \<longleftrightarrow> r_Status row = rechargeStatusCredited" "credited \<Longrightarrow> already"
    "\<not> credited \<Longrightarrow> r_CreditedAt row = None"
    "\<not> already \<Longrightarrow> r_Status row = rechargeStatusPending \<or> r_Status row = rechargeStatusPaying"
  using assms by (auto simp: validateRechargeForPaidFinalization_def split: if_splits)

lemma validFact_Inr:
  assumes "validateRechargeCreditParticipantFact found row units replay = Inr rf"
  shows "found = Some rf" "\<not> replay \<Longrightarrow> rf_Disposition rf = RechargeCreditCreated"
  using assms by (auto simp: validateRechargeCreditParticipantFact_def Let_def split: option.splits if_splits)

text \<open>The order without a recharge.\<close>

lemma raw_settlement:
  assumes ok: "pay_ok s" and order: "order \<in> set (pay_orders (tables s))"
    and valid: "validateOrderForPaidFinalization order orderID tradeNo = Inr already"
    and none: "find (\<lambda>r. r_PaymentOrderID r = orderID) (recharges (tables s)) = None"
    and run: "Returns (if already then ret order else markOrderPaidInTx ev order tradeNo paidAt) s order' t"
  defines "pf \<equiv> \<lparr>pf_Order = order', pf_Recharge = None, pf_Wallet = None, pf_OrderPaid = (\<not> already),
      pf_OrderAlreadyPaid = already, pf_RechargeCredited = False, pf_RechargeAlreadyCredited = False, pf_RawOrder = True\<rparr>"
  shows "pay_ok t \<and> order_settled booked funds orderID tradeNo paidAt now pf order (tables s) (tables t)"
proof -
  note V = validOrder_Inr [OF valid]
  have parts: "consistent s" "payments_ok (booked (tables s)) (tables s)" "pay_ids s" using ok by (simp_all add: pay_state_ok_def)
  show ?thesis
  proof (cases already)
    case True
    with run have "t = s" "order' = order" by (simp_all add: act_simps)
    with True V order ok show ?thesis by (simp add: order_settled_def pf_def)
  next
    case False
    let ?n = "resultTradeNoFromStrings [tradeNo, o_AlipayTradeNo order]"
    from False run have m: "Returns (markOrderPaidInTx ev order tradeNo paidAt) s order' t" by simp
    note op = V(5) [OF False]
    note M = markOrderPaid_effect [OF payments_okD(1) [OF parts(2)] order V(2) _ _ m]
    then obtain u where t: "tables t = (tables s)\<lparr>pay_orders := paid_orders (o_ID order) ?n paidAt u (pay_orders (tables s))\<rparr>"
      and inc: "auto_inc t = auto_inc s" and o': "order' = order_paid ?n paidAt order" using op by auto
    have C: "consistent t \<and> booked (tables t) = booked (tables s) \<and> funds (tables t) = funds (tables s)"
      using orders_changed [OF parts(1) _ t] inc by simp
    have "order_ok (paid_row ?n paidAt u order)"
      using payments_okD(4) [OF parts(2) order] V op by (auto simp: order_ok_def)
    then have "payments_ok (booked (tables s)) (tables t)"
      using find_NoneD [OF none] V(1)
      by (intro payments_ok_raw_paid [OF parts(2) order, of "tables t" "\<lambda>x. o_ID x = o_ID order" "paid_row ?n paidAt u"])
        (auto simp: t paid_orders_def)
    moreover have "pay_ids t"
      using pay_ids_later [OF parts(3), of t] inc by (simp add: t paid_orders_def map_change_rows)
    ultimately show ?thesis using C op V(1,3) False order none
      by (auto simp: pay_state_ok_def order_settled_def pf_def Let_def t o')
  qed
qed

lemma settle_recharge_effect:
  assumes ok: "pay_ok s" and order: "order \<in> set (pay_orders (tables s))"
    and valid: "validateOrderForPaidFinalization order orderID tradeNo = Inr already"
    and found: "find (\<lambda>r. r_PaymentOrderID r = orderID) (recharges (tables s)) = Some row"
    and run: "Returns (settle_recharge ev findCredit credit order already tradeNo paidAt now row) s pf t"
  shows "pay_ok t \<and> order_settled booked funds orderID tradeNo paidAt now pf order (tables s) (tables t)"
proof -
  note V = validOrder_Inr [OF valid]
  have parts: "consistent s" "payments_ok (booked (tables s)) (tables s)" "pay_ids s" using ok by (simp_all add: pay_state_ok_def)
  from find_SomeD [OF found] have row: "row \<in> set (recharges (tables s))" "r_PaymentOrderID row = orderID" by simp_all
  have linked: "recharge_of (booked (tables s)) row order" by (rule recharge_ok_order [OF parts(2) row(1) order]) (simp add: V row)
  from run obtain credited units order' s1 cf s2 rf row' where
    vr: "validateRechargeForPaidFinalization row order already = Inr credited"
    and units: "CentsToUnits (r_AmountCents row) = Inr units"
    and s1: "Returns (if already then ret order else markOrderPaidInTx ev order tradeNo paidAt) s order' s1"
    and s2: "Returns (map_error PayWallet (if credited then findCredit ev (recharge_input row units)
       else credit ev (recharge_input row units))) s1 cf s2"
    and vf: "validateRechargeCreditParticipantFact cf row units credited = Inr rf"
    and s3: "Returns (if credited then ret row
       else markRechargeCreditedInTx ev row (case o_PaidAt order' of Some t \<Rightarrow> t | None \<Rightarrow> paidAt) now) s2 row' t"
    and pf: "pf = \<lparr>pf_Order = order', pf_Recharge = Some row', pf_Wallet = rf_Wallet rf, pf_OrderPaid = (\<not> already),
          pf_OrderAlreadyPaid = already, pf_RechargeCredited = (\<not> credited),
          pf_RechargeAlreadyCredited = credited, pf_RawOrder = False\<rparr>"
    unfolding settle_recharge_def by (auto simp: Returns_bind Returns_pure_result Returns_ret split: sum.splits)
  note R = validRecharge_Inr [OF vr] and F = validFact_Inr [OF vf]
  show ?thesis
  proof (cases already)
    case True
    then have credited: credited using linked V(4) R(5) by (auto simp: recharge_of_def)
    with True s1 s3 have D: "s1 = s" "order' = order" "t = s2" by (simp_all add: act_simps)
    from s2 credited D(1) have "Returns (findCredit ev (recharge_input row units)) s cf s2" by (simp add: Returns_map_error)
    from find_reads [OF parts(1) this] D have same: "tables t = tables s" "auto_inc t = auto_inc s" by (simp_all add: same_tables_def)
    have "pay_ok t" by (rule pay_ok_same [OF ok same(1)]) (simp add: same)
    then show ?thesis using True credited V order D same by (simp add: order_settled_def pf)
  next
    case False
    then have nc: "\<not> credited" using R(6) by blast
    let ?n = "resultTradeNoFromStrings [tradeNo, o_AlipayTradeNo order]"
    note op = V(5) [OF False]
    from False s1 have m: "Returns (markOrderPaidInTx ev order tradeNo paidAt) s order' s1" by simp
    from markOrderPaid_effect [OF payments_okD(1) [OF parts(2)] order V(2) _ _ m] op obtain u where
      t1: "tables s1 = (tables s)\<lparr>pay_orders := paid_orders (o_ID order) ?n paidAt u (pay_orders (tables s))\<rparr>"
      and inc1: "auto_inc s1 = auto_inc s" and o': "order' = order_paid ?n paidAt order" by auto
    have C1: "consistent s1 \<and> booked (tables s1) = booked (tables s) \<and> funds (tables s1) = funds (tables s)"
      using orders_changed [OF parts(1) _ t1] inc1 by simp
    from s2 nc F(1) have cr: "Returns (credit ev (recharge_input row units)) s1 (Some rf) s2" by (simp add: Returns_map_error)
    have u: "units = r_AmountCents row * UnitsPerCent" "cr_AmountUnits (recharge_input row units) \<le> max_int64"
      using units R(1) V(3) CentsToUnits_bounds [of "r_AmountCents row" units] by (auto simp: CentsToUnits_Inr recharge_input_def)
    note K = credit_keeps [OF cr]
    note B = credit_books [OF _ u(2) cr F(2) [OF nc], unfolded recharge_input_def, simplified]
    have B: "consistent s2" "auto_inc s1 \<le> auto_inc s2" "booked (tables s) (r_ID row) = None"
      "booked (tables s2) = (booked (tables s))(r_ID row \<mapsto> (r_UserID row, units))"
      "funds (tables s2) = (funds (tables s))(r_UserID row := funds (tables s) (r_UserID row) + units)"
      using B C1 by simp_all
    have rows2: "recharges (tables s2) = recharges (tables s)"
      "pay_orders (tables s2) = paid_orders (o_ID order) ?n paidAt u (pay_orders (tables s))"
      "events (tables s2) = events (tables s)" using K by (simp_all add: t1)
    have paid: "o_PaidAt order' = Some paidAt" by (simp add: o' order_paid_def)
    from s3 nc paid have mr: "Returns (markRechargeCreditedInTx ev row paidAt now) s2 row' t" by simp
    have d: "distinct (map r_ID (recharges (tables s2)))" "row \<in> set (recharges (tables s2))"
      using payments_okD(2) [OF parts(2)] row by (simp_all add: rows2)
    from markRechargeCredited_effect [OF d R(4) R(7) [OF nc] mr] obtain v where
      t: "tables t = (tables s2)\<lparr>recharges := credited_recharges (r_ID row) paidAt now v (recharges (tables s2))\<rparr>"
      and inc: "auto_inc t = auto_inc s2" by auto
    have C: "consistent t \<and> booked (tables t) = booked (tables s2) \<and> funds (tables t) = funds (tables s2)"
      using recharges_changed [OF B(1) _ t] inc by simp
    have rows: "pay_orders (tables t) = paid_orders (o_ID order) ?n paidAt u (pay_orders (tables s))"
      "recharges (tables t) = credited_recharges (r_ID row) paidAt now v (recharges (tables s))" "events (tables t) = events (tables s)"
      by (simp_all add: t rows2)
    have "order_ok (paid_row ?n paidAt u order)"
      using payments_okD(4) [OF parts(2) order] V op by (auto simp: order_ok_def)
    then have "payments_ok ((booked (tables s))(r_ID row \<mapsto> (r_UserID row, r_AmountCents row * UnitsPerCent))) (tables t)"
      by (intro payments_ok_settled [OF parts(2) order row(1), of "tables t" "\<lambda>x. o_ID x = o_ID order" "paid_row ?n paidAt u"
          "\<lambda>x. r_ID x = r_ID row" "credited_row paidAt now v"]) (simp_all add: row V rows paid_orders_def credited_recharges_def)
    moreover have "pay_ids t"
      using pay_ids_later [OF parts(3), of t] inc B(2) inc1
      by (simp add: rows paid_orders_def credited_recharges_def map_change_rows)
    ultimately have "pay_ok t" using C B(4) by (simp add: pay_state_ok_def u)
    then show ?thesis using C B(3-5) rows op V(1,3) False nc order R(1,2) R(8) [OF False] found
      by (auto simp: order_settled_def pf Let_def o' u)
  qed
qed

lemma finalizePaidOrderInTx_effect:
  assumes ok: "pay_ok s" and run: "Returns (finalizePaidOrderInTx ev findCredit credit orderID tradeNo paidAt now) s pf t"
  shows "pay_ok t \<and> (\<exists>o'. order_settled booked funds orderID tradeNo paidAt now pf o' (tables s) (tables t))"
proof -
  from run obtain order already where order: "find (\<lambda>x. o_ID x = orderID) (pay_orders (tables s)) = Some order"
    and valid: "validateOrderForPaidFinalization order orderID tradeNo = Inr already"
    and rest: "Returns (either (first ev recharges (\<lambda>r. r_PaymentOrderID r = o_ID order))
       (\<lambda>err. if err = RecordNotFound then
           bind (if already then ret order else markOrderPaidInTx ev order tradeNo paidAt) (\<lambda>order.
           ret \<lparr>pf_Order = order, pf_Recharge = None, pf_Wallet = None, pf_OrderPaid = (\<not> already),
                pf_OrderAlreadyPaid = already, pf_RechargeCredited = False,
                pf_RechargeAlreadyCredited = False, pf_RawOrder = True\<rparr>)
         else throw (PayDb err))
       (settle_recharge ev findCredit credit order already tradeNo paidAt now)) (sent s) pf t"
    unfolding finalizePaidOrderInTx_def by (auto simp: Returns_bind Returns_map_error Returns_first Returns_pure_result)
  from find_SomeD [OF order] have o': "order \<in> set (pay_orders (tables s))" "o_ID order = orderID" by simp_all
  have ok1: "pay_ok (sent (sent s))" by (rule pay_ok_same [OF ok]) simp_all
  from rest show ?thesis
  proof (cases rule: Returns_eitherE)
    case (error e w)
    then have none: "find (\<lambda>r. r_PaymentOrderID r = orderID) (recharges (tables s)) = None" "e = RecordNotFound" "w = sent (sent s)"
      by (auto simp: Fails_first o' act_simps split: if_splits)
    from error(2) none(2,3) obtain order' where run2: "Returns (if already then ret order else markOrderPaidInTx ev order tradeNo paidAt) (sent (sent s)) order' t"
      and pf: "pf = \<lparr>pf_Order = order', pf_Recharge = None, pf_Wallet = None, pf_OrderPaid = (\<not> already),
                pf_OrderAlreadyPaid = already, pf_RechargeCredited = False, pf_RechargeAlreadyCredited = False, pf_RawOrder = True\<rparr>"
      by (auto simp: Returns_bind Returns_ret)
    from raw_settlement [OF ok1 _ valid _ run2] o' none(1) show ?thesis unfolding pf by auto
  next
    case (ok row w)
    then have "find (\<lambda>r. r_PaymentOrderID r = orderID) (recharges (tables (sent (sent s)))) = Some row" "w = sent (sent s)"
      by (simp_all add: Returns_first o')
    then have run2: "Returns (settle_recharge ev findCredit credit order already tradeNo paidAt now row) (sent (sent s)) pf t"
      and found: "find (\<lambda>r. r_PaymentOrderID r = orderID) (recharges (tables (sent (sent s)))) = Some row" using ok(2) by simp_all
    from settle_recharge_effect [OF ok1 _ valid found run2] o'(1) show ?thesis by auto
  qed
qed

lemma FinalizePaidOrder_effect:
  assumes ok: "pay_ok s" and run: "Returns (FinalizePaidOrder_with c ev findCredit credit orderID tradeNo paidAt now) s pf t"
  shows "pay_ok t \<and> (\<exists>o'. order_settled booked funds orderID tradeNo paidAt now pf o' (tables s) (tables t))"
proof -
  from run obtain u where u: "Returns (finalizePaidOrderInTx ev findCredit credit orderID tradeNo paidAt now) (sent s) pf u" "t = sent u"
    by (auto simp: FinalizePaidOrder_with_def Returns_transaction act_simps split: if_splits)
  have ok1: "pay_ok (sent s)" by (rule pay_ok_same [OF ok]) simp_all
  have "pay_ok t" if "pay_ok u" by (rule pay_ok_same [OF that]) (simp_all add: u)
  with finalizePaidOrderInTx_effect [OF ok1 u(1)] u(2) show ?thesis by simp
qed

end

end
