(* ===== verification/PaymentSteps.thy ===== *)
theory PaymentSteps
  imports PaymentLaws
begin

text \<open>
  The other statements of the payment repository under the same interface: each keeps orders,
  recharges and books in agreement, and rows only move along the allowed transitions, whether the
  statement succeeds or fails.
\<close>

section \<open>Rows that only advance\<close>

definition order_edge :: "string \<Rightarrow> string \<Rightarrow> bool" where
  "order_edge a b \<longleftrightarrow> List.member
     [(orderStatusPending, orderStatusPaying), (orderStatusFailed, orderStatusPaying),
      (orderStatusPending, orderStatusFailed), (orderStatusFailed, orderStatusFailed),
      (orderStatusPending, orderStatusClosed), (orderStatusFailed, orderStatusClosed), (orderStatusPaying, orderStatusClosed),
      (orderStatusPending, orderStatusPaid), (orderStatusPaying, orderStatusPaid)] (a, b)"

definition recharge_edge :: "string \<Rightarrow> string \<Rightarrow> bool" where
  "recharge_edge a b \<longleftrightarrow> List.member
     [(rechargeStatusPending, rechargeStatusPaying), (rechargeStatusFailed, rechargeStatusPaying),
      (rechargeStatusPending, rechargeStatusFailed), (rechargeStatusFailed, rechargeStatusFailed),
      (rechargeStatusPending, rechargeStatusClosed), (rechargeStatusFailed, rechargeStatusClosed),
      (rechargeStatusPaying, rechargeStatusClosed),
      (rechargeStatusPending, rechargeStatusCredited), (rechargeStatusPaying, rechargeStatusCredited)] (a, b)"

text \<open>Each row is still there with its fixed columns, its status has moved along the edges, and a
  final one has not changed at all.\<close>

definition advances ::
    "('r \<Rightarrow> 'f) \<Rightarrow> ('r \<Rightarrow> string) \<Rightarrow> (string \<Rightarrow> string \<Rightarrow> bool) \<Rightarrow> string list \<Rightarrow> 'r list \<Rightarrow> 'r list \<Rightarrow> bool" where
  "advances fixed status edge final rs rs' \<longleftrightarrow> (\<forall>r \<in> set rs. \<exists>r' \<in> set rs'. fixed r' = fixed r \<and>
     edge\<^sup>*\<^sup>* (status r) (status r') \<and> (status r \<in> set final \<longrightarrow> r' = r))"

lemma advances_refl [simp]: "advances fixed status edge final rs rs"
  by (auto simp: advances_def)

lemma advances_trans:
  assumes "advances fixed status edge final a b" "advances fixed status edge final b c"
  shows "advances fixed status edge final a c"
  unfolding advances_def
proof
  fix r assume "r \<in> set a"
  with assms(1) obtain r1 where r1: "r1 \<in> set b" "fixed r1 = fixed r" "edge\<^sup>*\<^sup>* (status r) (status r1)"
    "status r \<in> set final \<longrightarrow> r1 = r" unfolding advances_def by blast
  with assms(2) obtain r2 where "r2 \<in> set c" "fixed r2 = fixed r1" "edge\<^sup>*\<^sup>* (status r1) (status r2)"
    "status r1 \<in> set final \<longrightarrow> r2 = r1" unfolding advances_def by blast
  with r1 show "\<exists>r' \<in> set c. fixed r' = fixed r \<and> edge\<^sup>*\<^sup>* (status r) (status r') \<and> (status r \<in> set final \<longrightarrow> r' = r)"
    by (intro bexI [of _ r2]) auto
qed

lemma advances_append [simp]: "advances fixed status edge final rs (rs @ new)"
  by (auto simp: advances_def)

lemma advances_change:
  assumes "\<And>r. r \<in> set rs \<Longrightarrow> P r \<Longrightarrow> fixed (g r) = fixed r \<and> edge (status r) (status (g r)) \<and> status r \<notin> set final"
  shows "advances fixed status edge final rs (change_rows P g rs)"
  unfolding advances_def
proof
  fix r assume r: "r \<in> set rs"
  then have "(if P r then g r else r) \<in> set (change_rows P g rs)" by (auto simp: set_change_rows)
  then show "\<exists>r' \<in> set (change_rows P g rs). fixed r' = fixed r \<and> edge\<^sup>*\<^sup>* (status r) (status r') \<and> (status r \<in> set final \<longrightarrow> r' = r)"
    by (rule bexI [rotated]) (use assms [OF r] in auto)
qed

abbreviation orders_advance :: "Order list \<Rightarrow> Order list \<Rightarrow> bool" where
  "orders_advance \<equiv> advances (\<lambda>x. (o_ID x, o_OrderNo x, o_AmountCents x)) o_Status order_edge [orderStatusPaid, orderStatusClosed]"

abbreviation recharges_advance :: "Recharge list \<Rightarrow> Recharge list \<Rightarrow> bool" where
  "recharges_advance \<equiv> advances (\<lambda>x. (r_ID x, r_UserID x, r_AmountCents x, r_PaymentOrderID x)) r_Status recharge_edge
     [rechargeStatusCredited, rechargeStatusClosed]"

definition pay_advances ::
    "('z payment_tables_scheme \<Rightarrow> books) \<Rightarrow> 'z payment_tables_scheme \<Rightarrow> 'z payment_tables_scheme \<Rightarrow> bool" where
  "pay_advances booked D D' \<longleftrightarrow> orders_advance (pay_orders D) (pay_orders D') \<and>
     recharges_advance (recharges D) (recharges D') \<and> booked D \<subseteq>\<^sub>m booked D'"

lemma pay_advances_refl [simp]: "pay_advances booked D D"
  by (simp add: pay_advances_def)

lemma pay_advances_trans: "pay_advances booked a b \<Longrightarrow> pay_advances booked b c \<Longrightarrow> pay_advances booked a c"
  unfolding pay_advances_def by (meson advances_trans map_le_trans)

section \<open>Statements in general\<close>

lemma checked_update:
  assumes "bind (map_error E (update_where ev get upd P g)) (\<lambda>n. if c n then throw e else ret x) s = (res, t)"
  shows "auto_inc t = auto_inc s \<and> (tables t = tables s \<or> (\<exists>u. tables t = upd (change_rows P (g u)) (tables s)))"
proof (cases res)
  case (Inl err)
  with assms have "Fails (bind (map_error E (update_where ev get upd P g)) (\<lambda>n. if c n then throw e else ret x)) s err t"
    by (simp add: Fails_def)
  then show ?thesis by (auto simp: Fails_bind Fails_map_error Fails_update_where Returns_map_error Returns_update_where act_simps split: if_splits)
next
  case (Inr y)
  with assms have "Returns (bind (map_error E (update_where ev get upd P g)) (\<lambda>n. if c n then throw e else ret x)) s y t"
    by (simp add: Returns_def)
  then show ?thesis by (auto simp: Returns_bind Returns_map_error Returns_update_where act_simps split: if_splits)
qed

text \<open>An action that touches no other table than the events.\<close>

definition outside_events :: "'z payment_tables_scheme \<Rightarrow> 'z payment_tables_scheme" where
  "outside_events D = D\<lparr>events := []\<rparr>"

lemma outside_events_update [simp]: "outside_events (events_update h D) = outside_events D"
  by (simp add: outside_events_def)

lemma outside_events_eq: "outside_events D' = outside_events D \<Longrightarrow> D' = D\<lparr>events := events D'\<rparr>"
  unfolding outside_events_def by (metis payment_tables.surjective payment_tables.update_convs(5))

lemma updated_one_callback:
  assumes "Returns (bind (map_error PayDb (update_where ev events events_update P g)) (\<lambda>n.
    if n \<noteq> 1 then throw ErrCallbackStateChanged
    else ret \<lparr>crr_Event = e, crr_PaidOrder = p, crr_Replay = False\<rparr>)) s res t"
  shows "auto_inc t = auto_inc s \<and> outside_events (tables t) = outside_events (tables s) \<and>
    res = \<lparr>crr_Event = e, crr_PaidOrder = p, crr_Replay = False\<rparr>"
proof -
  from assms obtain n s1 where "Returns (map_error PayDb (update_where ev events events_update P g)) s n s1"
    and "Returns (if n \<noteq> 1 then throw ErrCallbackStateChanged
    else ret \<lparr>crr_Event = e, crr_PaidOrder = p, crr_Replay = False\<rparr>) s1 res t" by (rule Returns_bindE)
  then show ?thesis by (cases "n = 1") (simp_all add: act_simps)
qed

lemma bind_run: "m s = (Inr a, u) \<Longrightarrow> bind m f s = f a u"
  by (simp add: bind_def)

lemma map_error_run: "m s = (Inr a, u) \<Longrightarrow> map_error g m s = (Inr a, u)"
  by (simp add: map_error_def catch_def)

lemma throw_run: "throw e s = (res, t) \<longleftrightarrow> res = Inl e \<and> t = s"
  by (auto simp: throw_def)

text \<open>An order as the service creates it, and a recharge.\<close>

definition new_order :: "Order \<Rightarrow> bool" where
  "new_order o' \<longleftrightarrow> o_Status o' = orderStatusPending \<and> o_PaidAt o' = None \<and> o_ClosedAt o' = None"

definition new_recharge :: "Recharge \<Rightarrow> Order \<Rightarrow> bool" where
  "new_recharge r o' \<longleftrightarrow> r_Status r = rechargeStatusPending \<and> r_PaidAt r = None \<and> r_CreditedAt r = None \<and>
     r_AmountCents r = o_AmountCents o'"

context recharge_participant
begin

definition step_ok :: "'z payment_tables_scheme world \<Rightarrow> 'z payment_tables_scheme world \<Rightarrow> bool" where
  "step_ok s t \<longleftrightarrow> pay_ok t \<and> pay_advances booked (tables s) (tables t)"

lemma step_ok_same: "pay_ok s \<Longrightarrow> tables t = tables s \<Longrightarrow> auto_inc s \<le> auto_inc t \<Longrightarrow> step_ok s t"
  by (simp add: step_ok_def pay_ok_same)

lemma step_ok_trans: "step_ok s t \<Longrightarrow> step_ok t u \<Longrightarrow> step_ok s u"
  unfolding step_ok_def using pay_advances_trans by blast

text \<open>A compare-and-set statement on orders, or on recharges.\<close>

lemma order_statement:
  assumes ok: "pay_ok s" and run: "update_order_from ev i statuses g s = (res, t)"
    and g: "\<And>o' u. order_ok o' \<Longrightarrow> o_Status o' \<in> set statuses \<Longrightarrow> order_ok ((g o')\<lparr>o_UpdatedAt := u\<rparr>) \<and> o_ID (g o') = o_ID o' \<and>
      o_OrderNo (g o') = o_OrderNo o' \<and> o_AmountCents (g o') = o_AmountCents o' \<and> o_Status o' \<noteq> orderStatusPaid \<and>
      o_Status o' \<noteq> orderStatusClosed \<and> o_Status (g o') \<noteq> orderStatusPaid \<and> order_edge (o_Status o') (o_Status (g o'))"
  shows "step_ok s t"
proof -
  let ?P = "\<lambda>o'. live_order i o' \<and> List.member statuses (o_Status o')"
  note U = checked_update [OF run [unfolded update_order_from_def]]
  then have inc: "auto_inc t = auto_inc s" by simp
  have parts: "consistent s" "payments_ok (booked (tables s)) (tables s)" "pay_ids s" using ok by (simp_all add: pay_state_ok_def)
  from U consider "tables t = tables s" | u where "tables t = pay_orders_update (change_rows ?P (\<lambda>o'. (g o')\<lparr>o_UpdatedAt := u\<rparr>)) (tables s)"
    by blast
  then show ?thesis
  proof cases
    case 1
    then show ?thesis using step_ok_same [OF ok] inc by simp
  next
    case (2 u)
    let ?g = "\<lambda>o'. (g o')\<lparr>o_UpdatedAt := u\<rparr>"
    from 2 have t: "tables t = (tables s)\<lparr>pay_orders := change_rows ?P ?g (pay_orders (tables s))\<rparr>"
      by (simp add: update_pay_orders [OF refl])
    have C: "consistent t \<and> booked (tables t) = booked (tables s) \<and> funds (tables t) = funds (tables s)"
      using orders_changed [OF parts(1) _ t] inc by simp
    have "payments_ok (booked (tables s)) (tables t)"
      by (rule payments_ok_orders [OF parts(2), of _ ?P ?g]) (use g in \<open>auto simp: t\<close>)
    moreover have "map o_ID (pay_orders (tables t)) = map o_ID (pay_orders (tables s))"
      using g payments_okD(4) [OF parts(2)] by (auto simp: t change_rows_def)
    then have "pay_ids t" using pay_ids_later [OF parts(3), of t] inc by (simp add: t)
    moreover have "orders_advance (pay_orders (tables s)) (pay_orders (tables t))"
      unfolding t using g payments_okD(4) [OF parts(2)] by (auto intro!: advances_change)
    ultimately show ?thesis using C by (simp add: step_ok_def pay_state_ok_def pay_advances_def t)
  qed
qed

lemma recharge_statement:
  assumes ok: "pay_ok s" and run: "update_recharge_from ev i statuses g s = (res, t)"
    and g: "\<And>r. r_Status r \<in> set statuses \<Longrightarrow> r_ID (g r) = r_ID r \<and> r_UserID (g r) = r_UserID r \<and>
      r_AmountCents (g r) = r_AmountCents r \<and> r_PaymentOrderID (g r) = r_PaymentOrderID r \<and> r_IsDel (g r) = r_IsDel r \<and>
      r_PaidAt (g r) = r_PaidAt r \<and> r_CreditedAt (g r) = r_CreditedAt r \<and> r_Status r \<noteq> rechargeStatusCredited \<and>
      r_Status r \<noteq> rechargeStatusClosed \<and> r_Status (g r) \<noteq> rechargeStatusCredited \<and>
      r_Status (g r) \<noteq> rechargeStatusPaid \<and> recharge_edge (r_Status r) (r_Status (g r))"
  shows "step_ok s t"
proof -
  let ?P = "\<lambda>r. live_recharge i r \<and> List.member statuses (r_Status r)"
  note U = checked_update [OF run [unfolded update_recharge_from_def]]
  then have inc: "auto_inc t = auto_inc s" by simp
  have parts: "consistent s" "payments_ok (booked (tables s)) (tables s)" "pay_ids s" using ok by (simp_all add: pay_state_ok_def)
  from U consider "tables t = tables s" | u where "tables t = recharges_update (change_rows ?P (\<lambda>r. (g r)\<lparr>r_UpdatedAt := u\<rparr>)) (tables s)"
    by blast
  then show ?thesis
  proof cases
    case 1
    then show ?thesis using step_ok_same [OF ok] inc by simp
  next
    case (2 u)
    let ?g = "\<lambda>r. (g r)\<lparr>r_UpdatedAt := u\<rparr>"
    from 2 have t: "tables t = (tables s)\<lparr>recharges := change_rows ?P ?g (recharges (tables s))\<rparr>"
      by (simp add: update_recharges [OF refl])
    have C: "consistent t \<and> booked (tables t) = booked (tables s) \<and> funds (tables t) = funds (tables s)"
      using recharges_changed [OF parts(1) _ t] inc by simp
    have "payments_ok (booked (tables s)) (tables t)"
      by (rule payments_ok_recharges [OF parts(2), of _ ?P ?g]) (use g in \<open>auto simp: t\<close>)
    moreover have "map r_ID (recharges (tables t)) = map r_ID (recharges (tables s))"
      using g by (auto simp: t change_rows_def)
    then have "pay_ids t" using pay_ids_later [OF parts(3), of t] inc by (simp add: t)
    moreover have "recharges_advance (recharges (tables s)) (recharges (tables t))"
      unfolding t using g by (auto intro!: advances_change)
    ultimately show ?thesis using C by (simp add: step_ok_def pay_state_ok_def pay_advances_def t)
  qed
qed

lemma order_updates:
  assumes ok: "pay_ok s"
  shows "UpdateOrderPaying c ev i url s = (res, t) \<Longrightarrow> step_ok s t"
    "UpdateOrderFailed c ev i reason s = (res, t) \<Longrightarrow> step_ok s t"
    "UpdateOrderClosed c ev i time s = (res, t) \<Longrightarrow> step_ok s t"
  unfolding UpdateOrderPaying_def UpdateOrderFailed_def UpdateOrderClosed_def
  by (cases c; (simp add: throw_run step_ok_same [OF ok])?; erule order_statement [OF ok];
      auto simp: orderPayingCASStatuses_def orderFailedCASStatuses_def orderClosedCASStatuses_def order_ok_def order_edge_def)+

lemma recharge_updates:
  assumes ok: "pay_ok s"
  shows "UpdateRechargePaying c ev i s = (res, t) \<Longrightarrow> step_ok s t"
    "UpdateRechargeFailed c ev i reason s = (res, t) \<Longrightarrow> step_ok s t"
    "UpdateRechargeClosed c ev i s = (res, t) \<Longrightarrow> step_ok s t"
  unfolding UpdateRechargePaying_def UpdateRechargeFailed_def UpdateRechargeClosed_def
  by (cases c; (simp add: throw_run step_ok_same [OF ok])?; erule recharge_statement [OF ok];
      auto simp: rechargePayingCASStatuses_def rechargeFailedCASStatuses_def rechargeClosedCASStatuses_def recharge_edge_def)+

section \<open>Creating orders and recharges\<close>

text \<open>An INSERT that cannot collide, succeeding or failing.\<close>

lemma insert_order_effect:
  assumes ok: "pay_ok s" and new: "new_order row" and run: "Returns (insert_order ev row) s o' t"
  shows "step_ok s t" "o' \<in> set (pay_orders (tables t))" "o_ID o' = auto_inc s" "o_AmountCents o' = o_AmountCents row"
    "o_Status o' \<noteq> orderStatusPaid" "recharges (tables t) = recharges (tables s)"
    "\<forall>r \<in> set (recharges (tables s)). r_PaymentOrderID r < auto_inc s" "auto_inc s < auto_inc t"
proof -
  have parts: "consistent s" "payments_ok (booked (tables s)) (tables s)" "pay_ids s" using ok by (simp_all add: pay_state_ok_def)
  from run have o': "o' = row\<lparr>o_ID := auto_inc s, o_IsDel := CommonNo, o_CreatedAt := ev_now ev (clock_no s), o_UpdatedAt := ev_now ev (clock_no s)\<rparr>"
    and t: "tables t = (tables s)\<lparr>pay_orders := pay_orders (tables s) @ [o']\<rparr>" and inc: "auto_inc t = auto_inc s + 1"
    unfolding insert_order_def by (auto simp: Returns_insert_row)
  have C: "consistent t \<and> booked (tables t) = booked (tables s) \<and> funds (tables t) = funds (tables s)"
    using orders_changed [OF parts(1) _ t] inc by simp
  have given: "0 < auto_inc s" "\<And>x. x \<in> set (pay_orders (tables s)) \<Longrightarrow> o_ID x < auto_inc s"
    "\<And>x. x \<in> set (recharges (tables s)) \<Longrightarrow> r_ID x < auto_inc s"
    using parts(3) by (auto simp: pay_ids_def list_all_iff)
  have given_later: "\<forall>x \<in> set (pay_orders (tables s)). o_ID x < auto_inc s + 1" "\<forall>x \<in> set (recharges (tables s)). r_ID x < auto_inc s + 1"
    using parts(3) by (fastforce simp: pay_ids_def list_all_iff ball_Un)+
  have "o_ID o' \<notin> o_ID ` set (pay_orders (tables s))" using given(2) by (force simp: o')
  moreover have "order_ok o'" using new given(1) by (simp add: o' new_order_def order_ok_def)
  ultimately have "payments_ok (booked (tables s)) (tables t)"
    by (intro payments_ok_new_order [OF parts(2), of "tables t" o']) (simp_all add: t)
  moreover have "pay_ids t" using parts(3) given_later unfolding pay_ids_def inc by (auto simp: t o' list_all_iff)
  ultimately show "step_ok s t" using C by (simp add: step_ok_def pay_state_ok_def pay_advances_def t)
  show "\<forall>r \<in> set (recharges (tables s)). r_PaymentOrderID r < auto_inc s"
  proof
    fix r assume "r \<in> set (recharges (tables s))"
    then obtain x where "x \<in> set (pay_orders (tables s))" "recharge_of (booked (tables s)) r x"
      by (rule recharge_okE [OF parts(2)])
    with given(2) [of x] show "r_PaymentOrderID r < auto_inc s" by (simp add: recharge_of_def)
  qed
qed (use run new in \<open>auto simp: insert_order_def Returns_insert_row new_order_def\<close>)

lemma insert_recharge_effect:
  assumes ok: "pay_ok s" and new: "r_Status row = rechargeStatusPending" "r_PaidAt row = None" "r_CreditedAt row = None"
    and o': "o' \<in> set (pay_orders (tables s))" "o_ID o' = r_PaymentOrderID row" "o_AmountCents o' = r_AmountCents row"
      "o_Status o' \<noteq> orderStatusPaid"
    and first: "\<forall>r \<in> set (recharges (tables s)). r_PaymentOrderID r \<noteq> r_PaymentOrderID row"
    and run: "Returns (insert_recharge ev row) s r t"
  shows "step_ok s t"
proof -
  have parts: "consistent s" "payments_ok (booked (tables s)) (tables s)" "pay_ids s" using ok by (simp_all add: pay_state_ok_def)
  from run have r: "r = row\<lparr>r_ID := auto_inc s, r_IsDel := CommonNo, r_CreatedAt := ev_now ev (clock_no s), r_UpdatedAt := ev_now ev (clock_no s)\<rparr>"
    and t: "tables t = (tables s)\<lparr>recharges := recharges (tables s) @ [r]\<rparr>" and inc: "auto_inc t = auto_inc s + 1"
    unfolding insert_recharge_def by (auto simp: Returns_insert_row)
  have C: "consistent t \<and> booked (tables t) = booked (tables s) \<and> funds (tables t) = funds (tables s)"
    using recharges_changed [OF parts(1) _ t] inc by simp
  have given: "0 < auto_inc s" "\<And>x. x \<in> set (recharges (tables s)) \<Longrightarrow> r_ID x < auto_inc s"
    using parts(3) by (auto simp: pay_ids_def list_all_iff)
  have given_later: "\<forall>x \<in> set (pay_orders (tables s)). o_ID x < auto_inc s + 1" "\<forall>x \<in> set (recharges (tables s)). r_ID x < auto_inc s + 1"
    using parts(3) by (fastforce simp: pay_ids_def list_all_iff ball_Un)+
  have "payments_ok (booked (tables s)) (tables t)"
  proof (rule payments_ok_new_recharge [OF parts(2), of "tables t" r o'])
    show "r_ID r \<notin> r_ID ` set (recharges (tables s))" using given(2) by (force simp: r)
    show "r_PaymentOrderID r \<notin> r_PaymentOrderID ` set (recharges (tables s))" using first by (auto simp: r)
  qed (use o' new given in \<open>simp_all add: t r\<close>)
  moreover have "pay_ids t" using parts(3) given_later unfolding pay_ids_def inc by (auto simp: t r list_all_iff)
  ultimately show ?thesis using C by (simp add: step_ok_def pay_state_ok_def pay_advances_def t)
qed

lemma CreateOrder_effect:
  assumes ok: "pay_ok s" and new: "new_order row" and run: "CreateOrder c ev row s = (res, t)"
  shows "step_ok s t"
proof (cases res)
  case (Inl e)
  with run have "Fails (CreateOrder c ev row) s e t" by (simp add: Fails_def)
  then show ?thesis
    by (intro step_ok_same [OF ok])
      (auto simp: CreateOrder_def insert_order_def Fails_bind Fails_map_error Fails_insert_row act_simps split: if_splits)
next
  case (Inr i)
  with run have "Returns (CreateOrder c ev row) s i t" by (simp add: Returns_def)
  then obtain o' where "Returns (insert_order ev row) s o' t"
    by (auto simp: CreateOrder_def Returns_bind Returns_map_error act_simps split: if_splits)
  then show ?thesis by (rule insert_order_effect(1) [OF ok new])
qed

lemma optional_first_keeps: "keeps f (optional_first ev get P)"
  unfolding optional_first_def by (intro keeps_intros)

lemma optional_first_grows: "grows (optional_first ev get P)"
  unfolding optional_first_def by (intro grows_intros)

lemma grows_insert_pay: "grows (insert_order ev row)" "grows (insert_recharge ev r)"
  unfolding insert_order_def insert_recharge_def by (intro grows_intros)+

lemma CreateRecharge_effect:
  assumes ok: "pay_ok s" and new: "new_order order" "new_recharge recharge order"
    and run: "CreateRechargeWithOrder c ev recharge order s = (res, t)"
  shows "step_ok s t"
proof (cases c)
  case False
  with run show ?thesis by (simp add: CreateRechargeWithOrder_def throw_run step_ok_same [OF ok])
next
  case True
  let ?body = "bind (map_error PayDb (insert_order ev order)) (\<lambda>o'.
             map_error PayDb (insert_recharge ev (recharge\<lparr>r_PaymentOrderID := o_ID o'\<rparr>)))"
  let ?rest = "\<lambda>r. bind (GetRecharge c ev (r_UserID r) (r_ID r)) (\<lambda>row.
           case row of None \<Rightarrow> throw (PayDb RecordNotFound) | Some x \<Rightarrow> ret x)"
  obtain r1 s1 where tx: "transaction ev PayDb ?body s = (r1, s1)" by fastforce
  have inc: "auto_inc s \<le> auto_inc s1"
  proof -
    have "grows (transaction ev PayDb ?body)" by (intro grows_intros grows_insert_pay)
    from growsD [OF this, of s] tx show ?thesis by simp
  qed
  have first: "step_ok s s1"
  proof (cases r1)
    case (Inl e)
    with tx have "Fails (transaction ev PayDb ?body) s e s1" by (simp add: Fails_def)
    from Fails_transaction_tables [OF this] inc show ?thesis by (intro step_ok_same [OF ok])
  next
    case (Inr r)
    with tx have "Returns (transaction ev PayDb ?body) s r s1" by (simp add: Returns_def)
    then obtain o' u v where o': "Returns (insert_order ev order) (sent s) o' u"
      and r: "Returns (insert_recharge ev (recharge\<lparr>r_PaymentOrderID := o_ID o'\<rparr>)) u r v" and s1: "s1 = sent v"
      by (auto simp: Returns_transaction Returns_bind Returns_map_error)
    have ok0: "pay_ok (sent s)" by (rule pay_ok_same [OF ok]) simp_all
    note O = insert_order_effect [OF ok0 new(1) o']
    from O(1) have ok1: "pay_ok u" by (simp add: step_ok_def)
    have "step_ok u v"
    proof (rule insert_recharge_effect [OF ok1 _ _ _ O(2) _ _ O(5) _ r])
      show "\<forall>r \<in> set (recharges (tables u)). r_PaymentOrderID r \<noteq> r_PaymentOrderID (recharge\<lparr>r_PaymentOrderID := o_ID o'\<rparr>)"
        using O(3,6,7) by auto
    qed (use new O(4) in \<open>auto simp: new_recharge_def\<close>)
    with O(1) have "step_ok (sent s) v" by (rule step_ok_trans)
    then show ?thesis using pay_ok_same [of v s1] by (simp add: step_ok_def s1)
  qed
  have ok1: "pay_ok s1" using first by (simp add: step_ok_def)
  show ?thesis
  proof (cases r1)
    case (Inl e)
    with run tx True show ?thesis using first by (simp add: CreateRechargeWithOrder_def bind_def)
  next
    case (Inr r)
    have "?rest r s1 = (res, t)" using run tx True Inr by (simp add: CreateRechargeWithOrder_def bind_def)
    moreover have "keeps (\<lambda>d. d) (?rest r)" "grows (?rest r)"
      unfolding GetRecharge_def by (intro keeps_intros optional_first_keeps, intro grows_intros optional_first_grows)
    ultimately have "tables t = tables s1" "auto_inc s1 \<le> auto_inc t"
      unfolding keeps_def grows_def by (metis snd_conv)+
    with step_ok_same [OF ok1] first step_ok_trans show ?thesis by blast
  qed
qed

section \<open>Settlements\<close>

lemma settled_advances:
  assumes ok: "payments_ok (booked D) D" and set: "order_settled booked funds i tradeNo paidAt now pf o' D D'"
  shows "pay_advances booked D D'"
proof (cases "pf_OrderAlreadyPaid pf")
  case True
  with set show ?thesis by (simp add: order_settled_def)
next
  case False
  let ?n = "resultTradeNoFromStrings [tradeNo, o_AlipayTradeNo o']"
  from set False obtain u where o': "o' \<in> set (pay_orders D)" "o_ID o' = i"
    "o_Status o' = orderStatusPending \<or> o_Status o' = orderStatusPaying"
    and os: "pay_orders D' = paid_orders i ?n paidAt u (pay_orders D)"
    and rs: "case find (\<lambda>r. r_PaymentOrderID r = i) (recharges D) of
            None \<Rightarrow> recharges D' = recharges D \<and> booked D' = booked D
          | Some r \<Rightarrow> (r_Status r = rechargeStatusPending \<or> r_Status r = rechargeStatusPaying) \<and>
              (\<exists>u. recharges D' = credited_recharges (r_ID r) paidAt now u (recharges D)) \<and> booked D (r_ID r) = None \<and>
              booked D' = (booked D)(r_ID r \<mapsto> (r_UserID r, o_AmountCents o' * UnitsPerCent))"
    by (auto simp: order_settled_def Let_def split: option.splits)
  have "orders_advance (pay_orders D) (pay_orders D')"
    unfolding os paid_orders_def
  proof (rule advances_change)
    fix x assume "x \<in> set (pay_orders D)" "o_ID x = i"
    then have "x = o'" using distinct_key_eq [OF payments_okD(1) [OF ok] _ o'(1)] o'(2) by simp
    with o'(3) show "(o_ID (paid_row ?n paidAt u x), o_OrderNo (paid_row ?n paidAt u x), o_AmountCents (paid_row ?n paidAt u x)) =
        (o_ID x, o_OrderNo x, o_AmountCents x) \<and> order_edge (o_Status x) (o_Status (paid_row ?n paidAt u x)) \<and>
        o_Status x \<notin> set [orderStatusPaid, orderStatusClosed]" by (auto simp: order_edge_def)
  qed
  moreover have "recharges_advance (recharges D) (recharges D') \<and> booked D \<subseteq>\<^sub>m booked D'"
  proof (cases "find (\<lambda>r. r_PaymentOrderID r = i) (recharges D)")
    case None
    with rs show ?thesis by simp
  next
    case (Some r)
    with rs obtain v where r: "r_Status r = rechargeStatusPending \<or> r_Status r = rechargeStatusPaying"
      and R: "recharges D' = credited_recharges (r_ID r) paidAt now v (recharges D)" "booked D (r_ID r) = None"
        "booked D' = (booked D)(r_ID r \<mapsto> (r_UserID r, o_AmountCents o' * UnitsPerCent))" by auto
    have "recharges_advance (recharges D) (recharges D')"
      unfolding R credited_recharges_def
    proof (rule advances_change)
      fix x assume "x \<in> set (recharges D)" "r_ID x = r_ID r"
      then have "x = r" using distinct_key_eq [OF payments_okD(2) [OF ok]] find_SomeD [OF Some] by blast
      with r show "(r_ID (credited_row paidAt now v x), r_UserID (credited_row paidAt now v x), r_AmountCents (credited_row paidAt now v x),
          r_PaymentOrderID (credited_row paidAt now v x)) = (r_ID x, r_UserID x, r_AmountCents x, r_PaymentOrderID x) \<and>
          recharge_edge (r_Status x) (r_Status (credited_row paidAt now v x)) \<and>
          r_Status x \<notin> set [rechargeStatusCredited, rechargeStatusClosed]" by (auto simp: recharge_edge_def)
    qed
    with R show ?thesis by (auto simp: map_le_def)
  qed
  ultimately show ?thesis by (simp add: pay_advances_def)
qed

lemma grows_finalize:
  "grows (finalizePaidOrderInTx ev findCredit credit i tradeNo paidAt now)"
  unfolding finalizePaidOrderInTx_def settle_recharge_def markOrderPaidInTx_def markRechargeCreditedInTx_def Let_def
  by (intro grows_intros find_grows credit_grows)

lemma FinalizePaidOrder_step:
  assumes ok: "pay_ok s" and run: "FinalizePaidOrder_with c ev findCredit credit i tradeNo paidAt now s = (res, t)"
  shows "step_ok s t"
proof (cases res)
  case (Inl e)
  with run have F: "Fails (FinalizePaidOrder_with c ev findCredit credit i tradeNo paidAt now) s e t" by (simp add: Fails_def)
  then have "tables t = tables s"
    by (auto simp: FinalizePaidOrder_with_def act_simps split: if_splits dest: Fails_transaction_tables)
  moreover have "grows (FinalizePaidOrder_with c ev findCredit credit i tradeNo paidAt now)"
    unfolding FinalizePaidOrder_with_def by (intro grows_intros grows_finalize)
  from growsD [OF this, of s] run have "auto_inc s \<le> auto_inc t" by simp
  ultimately show ?thesis by (rule step_ok_same [OF ok])
next
  case (Inr pf)
  with run have "Returns (FinalizePaidOrder_with c ev findCredit credit i tradeNo paidAt now) s pf t" by (simp add: Returns_def)
  from FinalizePaidOrder_effect [OF ok this] settled_advances ok show ?thesis
    by (auto simp: step_ok_def pay_state_ok_def)
qed

section \<open>Callback events\<close>

lemma events_step:
  assumes "pay_ok s" "auto_inc s \<le> auto_inc t" "tables t = (tables s)\<lparr>events := es\<rparr>"
  shows "step_ok s t"
  using events_changed [OF assms] assms(3) by (simp add: step_ok_def pay_advances_def)

lemma events_only:
  assumes "pay_ok s" "keeps outside_events m" "grows m" "m s = (res, t)"
  shows "step_ok s t"
proof -
  have "outside_events (tables t) = outside_events (tables s)" using assms(2,4) unfolding keeps_def by (metis snd_conv)
  moreover have "auto_inc s \<le> auto_inc t" using growsD [OF assms(3), of s] assms(4) by simp
  ultimately show ?thesis using events_step [OF assms(1)] outside_events_eq by blast
qed

lemma insert_new_event_frame: "keeps outside_events (insert_new_event ev e)" "grows (insert_new_event ev e)"
  unfolding insert_new_event_def
  by (intro keeps_intros; simp add: keeps_def Let_def) (intro grows_intros; simp add: grows_def Let_def)

lemma event_steps:
  assumes ok: "pay_ok s"
  shows "CreateCallbackEvent c ev event s = (res1, t) \<Longrightarrow> step_ok s t"
    "UpdateCallbackEventProcessed c ev i v status message now s = (res2, t) \<Longrightarrow> step_ok s t"
    "AcquireCallbackEvent c ev event s = (res3, t) \<Longrightarrow> step_ok s t"
proof -
  have "keeps outside_events (CreateCallbackEvent c ev event)" "grows (CreateCallbackEvent c ev event)"
    unfolding CreateCallbackEvent_def by (intro keeps_intros; simp) (intro grows_intros)
  then show "CreateCallbackEvent c ev event s = (res1, t) \<Longrightarrow> step_ok s t" by (rule events_only [OF ok])
  have "keeps outside_events (UpdateCallbackEventProcessed c ev i v status message now)"
    "grows (UpdateCallbackEventProcessed c ev i v status message now)"
    unfolding UpdateCallbackEventProcessed_def by (intro keeps_intros; simp) (intro grows_intros)
  then show "UpdateCallbackEventProcessed c ev i v status message now s = (res2, t) \<Longrightarrow> step_ok s t" by (rule events_only [OF ok])
  have "keeps outside_events (AcquireCallbackEvent c ev event)" "grows (AcquireCallbackEvent c ev event)"
    unfolding AcquireCallbackEvent_def Let_def
    by (intro keeps_intros insert_new_event_frame) (intro grows_intros insert_new_event_frame)
  then show "AcquireCallbackEvent c ev event s = (res3, t) \<Longrightarrow> step_ok s t" by (rule events_only [OF ok])
qed

lemma resolve_event_effect:
  assumes ok: "pay_ok s" and run: "Returns (resolve_event ev findCredit credit cr) s res t"
  shows "step_ok s t"
    "\<not> crr_Replay res \<Longrightarrow> 0 < cer_PaidOrderID cr \<Longrightarrow> \<exists>pf o' D. crr_PaidOrder res = Some pf \<and> tables t = D\<lparr>events := events (tables t)\<rparr> \<and>
       order_settled booked funds (cer_PaidOrderID cr) (cer_AlipayTradeNo cr) (cer_PaidAt cr) (cer_ProcessedAt cr) pf o' (tables s) D"
    "crr_Replay res \<or> cer_PaidOrderID cr \<le> 0 \<Longrightarrow> tables t = (tables s)\<lparr>events := events (tables t)\<rparr>"
proof -
  let ?P = "\<lambda>event e. e_ID e = e_ID event \<and> e_DedupeKey e = cer_DedupeKey cr \<and> e_IsDel e = CommonNo \<and>
           List.member [callbackProcessPending, callbackProcessFailed] (e_ProcessStatus e)"
  let ?settle = "if 0 < cer_PaidOrderID cr
         then bind (finalizePaidOrderInTx ev findCredit credit (cer_PaidOrderID cr) (cer_AlipayTradeNo cr)
           (cer_PaidAt cr) (cer_ProcessedAt cr)) (\<lambda>x. ret (Some x))
         else ret None"
  let ?mark = "\<lambda>event paidOrder. bind (map_error PayDb (update_where ev events events_update (?P event)
         (\<lambda>t e. (event_resolved cr e)\<lparr>e_UpdatedAt := t\<rparr>))) (\<lambda>n.
       if n \<noteq> 1 then throw ErrCallbackStateChanged
       else ret \<lparr>crr_Event = event_resolved cr event, crr_PaidOrder = paidOrder, crr_Replay = False\<rparr>)"
  from run obtain event where rest: "Returns (if e_IsDel event \<noteq> CommonNo then throw ErrCallbackStateChanged
     else if e_ProcessStatus event = callbackProcessSuccess \<or> e_ProcessStatus event = callbackProcessIgnored
     then ret \<lparr>crr_Event = event, crr_PaidOrder = None, crr_Replay = True\<rparr>
     else if e_ProcessStatus event \<noteq> callbackProcessPending \<and> e_ProcessStatus event \<noteq> callbackProcessFailed
     then throw ErrCallbackStateChanged
     else bind ?settle (?mark event)) (sent s) res t"
    unfolding resolve_event_def by (auto simp: Returns_bind Returns_map_error Returns_first)
  have ok1: "pay_ok (sent s)" by (rule pay_ok_same [OF ok]) simp_all
  have replay: "res = \<lparr>crr_Event = event, crr_PaidOrder = None, crr_Replay = True\<rparr> \<and> t = sent s \<or>
      Returns (bind ?settle (?mark event)) (sent s) res t"
    using rest by (auto simp: Returns_ret Returns_throw split: if_splits)
  then consider "crr_Replay res" "t = sent s" | p u where "Returns ?settle (sent s) p u" "Returns (?mark event p) u res t"
    by (auto elim: Returns_bindE)
  then have "step_ok s t \<and> (\<not> crr_Replay res \<longrightarrow> 0 < cer_PaidOrderID cr \<longrightarrow> (\<exists>pf o' D. crr_PaidOrder res = Some pf \<and> tables t = D\<lparr>events := events (tables t)\<rparr> \<and>
       order_settled booked funds (cer_PaidOrderID cr) (cer_AlipayTradeNo cr) (cer_PaidAt cr) (cer_ProcessedAt cr) pf o' (tables s) D)) \<and>
      (crr_Replay res \<or> cer_PaidOrderID cr \<le> 0 \<longrightarrow> tables t = (tables s)\<lparr>events := events (tables t)\<rparr>)"
  proof cases
    case 1
    then show ?thesis using step_ok_same [OF ok, of t] by simp
  next
    case (2 p u)
    note W = updated_one_callback [OF 2(2)]
    have out: "tables t = (tables u)\<lparr>events := events (tables t)\<rparr>" and inc: "auto_inc t = auto_inc u"
      and res: "\<not> crr_Replay res" "crr_PaidOrder res = p"
      using W by (auto intro: outside_events_eq)
    show ?thesis
    proof (cases "0 < cer_PaidOrderID cr")
      case True
      with 2(1) obtain pf where pf: "Returns (finalizePaidOrderInTx ev findCredit credit (cer_PaidOrderID cr) (cer_AlipayTradeNo cr)
           (cer_PaidAt cr) (cer_ProcessedAt cr)) (sent s) pf u" "p = Some pf" by (auto simp: Returns_bind Returns_ret)
      from finalizePaidOrderInTx_effect [OF ok1 pf(1)] obtain o' where
        S: "pay_ok u" "order_settled booked funds (cer_PaidOrderID cr) (cer_AlipayTradeNo cr) (cer_PaidAt cr) (cer_ProcessedAt cr) pf o' (tables s) (tables u)"
        by auto
      have "step_ok s u" using S settled_advances [OF _ S(2)] ok by (simp add: step_ok_def pay_state_ok_def)
      moreover have "step_ok u t" using events_step [OF S(1) _ out] inc by simp
      ultimately show ?thesis using S(2) pf(2) out res step_ok_trans True by auto
    next
      case False
      with 2(1) have "u = sent s" by (simp add: Returns_ret)
      with out have "tables t = (tables s)\<lparr>events := events (tables t)\<rparr>" by simp
      with events_step [OF ok _ this] inc \<open>u = sent s\<close> False res show ?thesis by simp
    qed
  qed
  then show "step_ok s t"
    "\<not> crr_Replay res \<Longrightarrow> 0 < cer_PaidOrderID cr \<Longrightarrow> \<exists>pf o' D. crr_PaidOrder res = Some pf \<and> tables t = D\<lparr>events := events (tables t)\<rparr> \<and>
       order_settled booked funds (cer_PaidOrderID cr) (cer_AlipayTradeNo cr) (cer_PaidAt cr) (cer_ProcessedAt cr) pf o' (tables s) D"
    "crr_Replay res \<or> cer_PaidOrderID cr \<le> 0 \<Longrightarrow> tables t = (tables s)\<lparr>events := events (tables t)\<rparr>" by blast+
qed

lemma grows_resolve: "grows (ResolveCallbackEvent_with c ev findCredit credit cr)"
  unfolding ResolveCallbackEvent_with_def resolve_event_def by (intro grows_intros grows_finalize)

lemma ResolveCallbackEvent_step:
  assumes ok: "pay_ok s" and run: "ResolveCallbackEvent_with c ev findCredit credit cr s = (res, t)"
  shows "step_ok s t"
proof (cases res)
  case (Inl e)
  with run have "Fails (ResolveCallbackEvent_with c ev findCredit credit cr) s e t" by (simp add: Fails_def)
  then have "tables t = tables s"
    by (auto simp: ResolveCallbackEvent_with_def act_simps split: if_splits dest: Fails_transaction_tables)
  moreover have "auto_inc s \<le> auto_inc t" using growsD [OF grows_resolve, of s c ev cr] run by simp
  ultimately show ?thesis by (rule step_ok_same [OF ok])
next
  case (Inr r)
  with run have "Returns (ResolveCallbackEvent_with c ev findCredit credit cr) s r t" by (simp add: Returns_def)
  then obtain u where u: "Returns (resolve_event ev findCredit credit cr) (sent s) r u" "t = sent u"
    by (auto simp: ResolveCallbackEvent_with_def Returns_transaction act_simps split: if_splits)
  have ok1: "pay_ok (sent s)" by (rule pay_ok_same [OF ok]) simp_all
  from resolve_event_effect(1) [OF ok1 u(1)] have "step_ok s u" by (simp add: step_ok_def)
  then show ?thesis using pay_ok_same [of u t] by (simp add: step_ok_def u)
qed

end

end
