(* ===== verification/PaymentHistory.thy ===== *)
theory PaymentHistory
  imports PaymentSteps
begin

text \<open>
  The wallet's repository keeps the contract of a recharge participant, and the histories of the
  whole payment database: any sequence of statements on orders, recharges and callback events,
  settlements, redemptions and other wallet calls, each under its own schedule of failing
  statements, from empty tables on.
\<close>

section \<open>The wallet as participant\<close>

text \<open>The books of the wallet: its ledger rows of recharges.\<close>

definition recharge_books :: "'x wallet_tables_scheme \<Rightarrow> books" where
  "recharge_books D i = row_map source_of (\<lambda>t. (t_UserID t, t_AmountUnits t)) (transactions D) (SourceRecharge, i)"

lemma blind_payment_tables [simp]: "blind_to S pay_orders" "blind_to S recharges" "blind_to S events"
  by (simp_all add: blind_to_def)

lemma blind_transactions: "blind_to {} transactions"
  by (simp add: blind_to_def)

lemma keeps_recharge_credit: "blind_to S f \<Longrightarrow> SourceRecharge \<in> S \<Longrightarrow> keeps f (recharge_credit ev i)"
  unfolding recharge_credit_def by (intro keeps_bind keeps_basic keeps_CreditRecharge)

lemma grows_recharge_calls: "grows (recharge_find ev i)" "grows (recharge_credit ev i)"
  unfolding recharge_find_def recharge_credit_def FindRechargeCreditInTx_def findRechargeCreditTransactionForUpdate_def
    lockWalletForUpdateUnits_def by (intro grows_intros)+

text \<open>A first credit appends its one ledger row.\<close>

lemma first_credit_row:
  assumes run: "Returns (CreditRechargeInTx True ev tx i) s rf t" and new: "rf_Disposition rf = RechargeCreditCreated"
  shows "\<exists>x. rf_Transaction rf = Some x \<and> transactions (tables t) = transactions (tables s) @ [x]"
proof -
  from run obtain w s1 found s2 where
    s1: "Returns (lockOrCreateWalletForUpdateUnits ev (cr_UserID i)) s w s1"
    and s2: "Returns (findRechargeCreditTransactionForUpdate ev (cr_RechargeID i)) s1 found s2"
    and rest: "if found \<noteq> None
      then validateRechargeCreditFact w (the found) i = Inr () \<and> rf = replayed_credit w (the found) \<and> t = s2
      else Returns (credit_new_recharge ev w i) s2 rf t"
    by (auto simp: CreditRechargeInTx_def act_simps)
  have same: "transactions (tables s2) = transactions (tables s)"
    using keepsD [OF keeps_wallet_lookup(2) [OF blind_transactions] s1] keepsD [OF keeps_FindRecharge [where f = transactions] s2] by simp
  from rest new have new_credit: "Returns (credit_new_recharge ev w i) s2 rf t" by (auto simp: replayed_credit_def split: if_splits)
  let ?after = "add64 (w_BalanceUnits w) (cr_AmountUnits i)"
  let ?g = "\<lambda>v. v\<lparr>w_BalanceUnits := ?after, w_TotalRechargeUnits := add64 (w_TotalRechargeUnits w) (cr_AmountUnits i)\<rparr>"
  let ?row = "\<lambda>no. \<lparr>t_ID = 0, t_TransactionNo = no, t_WalletID = w_ID w, t_UserID = cr_UserID i,
     t_Direction = DirectionIn, t_AmountUnits = cr_AmountUnits i, t_BalanceBeforeUnits = w_BalanceUnits w,
     t_BalanceAfterUnits = ?after, t_SourceType = SourceRecharge, t_SourceID = cr_RechargeID i,
     t_Remark = trim_space (cr_Remark i), t_IsDel = CommonNo, t_CreatedAt = 0, t_UpdatedAt = 0\<rparr>"
  from new_credit obtain no s3 x s4 where
    no: "Returns (newTransactionNo ev (ev_now ev (clock_no s2)) :: (wallet_error, _, _) act) (ticked s2) no s3"
    and x: "Returns (createTransactionWithNumberRetry ev (?row no) (ev_now ev (clock_no s3))) (ticked s3) x s4"
    and upd: "Returns (update_wallet_row ev (w_ID w) ?g) s4 () t" and rf: "rf_Transaction rf = Some x"
    unfolding credit_new_recharge_def Let_def
    by (auto simp: Returns_bind Returns_read_clock Returns_ret Returns_throw split: if_splits)
  note no' = newTransactionNo_effect [OF no]
  have "added_row (?row no) x (ticked s3) s4" using no'(3) by (intro createTransactionWithNumberRetry_effect [OF x]) simp
  then have "transactions (tables s4) = transactions (tables s2) @ [x]" using no'(1) by (simp add: added_row_def)
  moreover have "transactions (tables t) = transactions (tables s4)"
    by (rule keepsD [OF keeps_wallet_statements(5) [OF blind_transactions] upd])
  ultimately show ?thesis using same rf by simp
qed

lemma recharge_books_append:
  assumes "source_of x \<notin> source_of ` set (transactions D)" "transactions D' = transactions D @ [x]"
    "source_of x = (SourceRecharge, c)"
  shows "recharge_books D c = None" "recharge_books D' = (recharge_books D)(c \<mapsto> (t_UserID x, t_AmountUnits x))"
proof -
  show "recharge_books D c = None" using assms by (simp add: recharge_books_def row_map_None)
  show "recharge_books D' = (recharge_books D)(c \<mapsto> (t_UserID x, t_AmountUnits x))"
    using row_map_append_new [OF assms(1), of "\<lambda>t. (t_UserID t, t_AmountUnits t)"]
    by (intro ext) (simp add: recharge_books_def assms(2,3))
qed

interpretation wallet_recharge: recharge_participant recharge_find recharge_credit wallet_state_ok recharge_books user_funds
proof unfold_locales
  fix ev i and s t :: "'a payment_tables_scheme world" and r
  assume "wallet_state_ok s" "Returns (recharge_find ev i) s r t"
  then show "same_tables s t" by (auto simp: recharge_find_def act_simps dest: FindRecharge_effect(1))
next
  fix ev i
  show "grows (recharge_find ev i)" "grows (recharge_credit ev i)" by (fact grows_recharge_calls)+
next
  fix ev i and s t :: "'a payment_tables_scheme world" and r
  assume run: "Returns (recharge_credit ev i) s r t"
  show "pay_orders (tables t) = pay_orders (tables s) \<and> recharges (tables t) = recharges (tables s) \<and> events (tables t) = events (tables s)"
    by (simp add: keepsD [OF keeps_recharge_credit [OF blind_payment_tables(1) UNIV_I] run]
        keepsD [OF keeps_recharge_credit [OF blind_payment_tables(2) UNIV_I] run]
        keepsD [OF keeps_recharge_credit [OF blind_payment_tables(3) UNIV_I] run])
next
  fix ev i and s t :: "'a payment_tables_scheme world" and rf
  assume ok: "wallet_state_ok s" "cr_AmountUnits i \<le> max_int64" and run0: "Returns (recharge_credit ev i) s (Some rf) t"
    and new: "rf_Disposition rf = RechargeCreditCreated"
  from run0 have run: "Returns (CreditRechargeInTx True ev open_tx i) s rf t" by (auto simp: recharge_credit_def act_simps)
  note C = CreditRecharge_effect [OF ok run]
  from first_credit_row [OF run new] obtain x where x: "rf_Transaction rf = Some x"
    and app: "transactions (tables t) = transactions (tables s) @ [x]" by blast
  from C x have src: "source_of x = (SourceRecharge, cr_RechargeID i)" and fields: "t_AmountUnits x = cr_AmountUnits i" "t_UserID x = cr_UserID i"
    by (auto simp: recharge_fact_def split: option.splits)
  from C new have none: "as_ledger (account_of (tables s)) (SourceRecharge, cr_RechargeID i) = None" by auto
  then have key: "source_of x \<notin> source_of ` set (transactions (tables s))" by (simp add: account_of_def row_map_None src)
  from C have "Some (account_of (tables t)) = spec_credit SourceRecharge (cr_UserID i) (cr_RechargeID i) (cr_AmountUnits i) (account_of (tables s))"
    by presburger
  then have "user_funds (tables t) = (user_funds (tables s))(cr_UserID i := user_funds (tables s) (cr_UserID i) + cr_AmountUnits i)"
    by (simp add: spec_credit_def none user_funds_def)
  then show "wallet_state_ok t \<and> auto_inc s \<le> auto_inc t \<and> recharge_books (tables s) (cr_RechargeID i) = None \<and>
      recharge_books (tables t) = (recharge_books (tables s))(cr_RechargeID i \<mapsto> (cr_UserID i, cr_AmountUnits i)) \<and>
      user_funds (tables t) = (user_funds (tables s))(cr_UserID i := user_funds (tables s) (cr_UserID i) + cr_AmountUnits i)"
    using C recharge_books_append [OF key app src] unfolding fields by simp
next
  fix s t :: "'a payment_tables_scheme world" and k h g
  assume "wallet_state_ok s" "auto_inc s \<le> auto_inc t"
    "tables t = events_update k (recharges_update h (pay_orders_update g (tables s)))"
  then show "wallet_state_ok t \<and> recharge_books (tables t) = recharge_books (tables s) \<and> user_funds (tables t) = user_funds (tables s)"
    using wallet_state_ok_frame [of s t] account_of_frame [of "tables t" "tables s"]
    by (simp add: recharge_books_def [abs_def] user_funds_def)
qed

section \<open>What the redemption of codes leaves alone\<close>

lemma keeps_transaction_with [keeps_intros]: "keeps f m \<Longrightarrow> keeps f (transaction_with ev b c m)"
proof -
  assume m: "keeps f m"
  have e: "tables (snd (exec ev s)) = tables s" for s by (simp add: exec_def)
  have "f (tables (snd (transaction_with ev b c m s))) = f (tables s)" for s
  proof -
    obtain r1 s1 r2 s2 r3 s3 where "exec ev s = (r1, s1)" "m s1 = (r2, s2)" "exec ev s2 = (r3, s3)" by fastforce
    with e [of s] e [of s2] m [unfolded keeps_def, rule_format, of s1] show ?thesis
      by (simp add: transaction_with_def split: sum.split)
  qed
  then show ?thesis unfolding keeps_def by blast
qed

lemma keeps_transaction [keeps_intros]: "keeps f m \<Longrightarrow> keeps f (transaction ev conv m)"
  unfolding transaction_def by (intro keeps_intros)

lemma keeps_retry: "(\<And>i. keeps f (operation i)) \<Longrightarrow> keeps f (withTransactionRetry ev operation i)"
proof -
  assume op: "\<And>i. keeps f (operation i)"
  have "keeps f (tx_attempt ev operation i)" for i
    unfolding tx_attempt_def using op by (auto intro!: keeps_intros split: prod.split)
  then have "keeps f (retry_attempts retryableMySQLError (tx_attempt ev operation) n i)" for n
    by (induction n arbitrary: i) (auto intro!: keeps_intros split: prod.split)
  then show ?thesis unfolding withTransactionRetry_alt .
qed

definition blind_to_codes :: "('y redeem_tables_scheme \<Rightarrow> 'b) \<Rightarrow> bool" where
  "blind_to_codes f \<longleftrightarrow> (\<forall>h d. f (codes_update h d) = f d) \<and> (\<forall>h d. f (batches_update h d) = f d)"

lemma keeps_redeem_attempt:
  assumes "blind_to S f" "SourceRedeemCode \<in> S" "blind_to_codes f"
  shows "keeps f (redeem_attempt ev wallet_find wallet_credit u code i)"
proof -
  have "keeps f (wallet_find ev c)" for c unfolding wallet_find_def by (intro keeps_intros)
  moreover have "keeps f (wallet_credit ev input idn)" for input idn
    unfolding wallet_credit_def using assms by (intro keeps_intros)
  moreover have "f (codes_update h d) = f d" for h d using assms(3) by (simp add: blind_to_codes_def)
  ultimately show ?thesis
    unfolding redeem_attempt_def redeem_lookup_def findCodeForUpdate_def redeem_replay_def redeem_unused_def redeem_book_def
      operationNow_def Let_def
    by (auto intro!: keeps_intros split: prod.split)
qed

lemma keeps_redeem_call:
  assumes "blind_to S f" "SourceRedeemCode \<in> S" "blind_to_codes f" "\<And>w. op = OpWallet w \<Longrightarrow> op_source w \<in> S"
  shows "keeps f (redeem_call ev op)"
proof (cases op)
  case (OpRedeemCode u code)
  show ?thesis unfolding OpRedeemCode redeem_call_def redeem_op.case discard_def Redeem_def Redeem_with_def option.case prod.case
    by (intro keeps_intros keeps_retry keeps_redeem_attempt [OF assms(1-3)])
next
  case (OpVoid ids now)
  have "f (codes_update h d) = f d" for h d using assms(3) by (simp add: blind_to_codes_def)
  then have "keeps f (void_attempt ev l n)" for l n unfolding void_attempt_def by (intro keeps_intros)
  then show ?thesis unfolding OpVoid redeem_call_def redeem_op.case discard_def VoidCodes_def plain_operation_def
    by (intro keeps_intros keeps_retry)
next
  case (OpCreateBatch batch cs)
  have "keeps f (insert_rows ev codes codes_update v set_id rows)" for v set_id rows
    using assms(3) unfolding insert_rows_def blind_to_codes_def
    by (intro keeps_intros) (simp add: keeps_def Let_def split: option.split)
  moreover have "f (batches_update h d) = f d" for h d using assms(3) by (simp add: blind_to_codes_def)
  ultimately have "keeps f (create_attempt ev batch cs)"
    unfolding create_attempt_def insert_batch_def insert_codes_def operationNow_def findBatchByRequestDB_def load_batch_def Let_def
    by (intro keeps_intros)
  then show ?thesis unfolding OpCreateBatch redeem_call_def redeem_op.case discard_def CreateOrReplayBatch_def plain_operation_def
    by (intro keeps_intros keeps_retry FindBatchByRequest_reads)
next
  case (OpWallet w)
  show ?thesis unfolding OpWallet redeem_call_def redeem_op.case wallet_tx_def
    by (intro keeps_intros keeps_wallet_call [OF assms(1)] assms(4) [OF OpWallet])
qed

section \<open>Histories\<close>

datatype payment_op =
    PayCreateOrder Order
  | PayOrderPaying int string
  | PayOrderFailed int string
  | PayOrderClosed int gotime
  | PayCreateRecharge Recharge Order
  | PayRechargePaying int
  | PayRechargeFailed int string
  | PayRechargeClosed int
  | PayFinalize int string gotime gotime
  | PayAcquireEvent CallbackEvent
  | PayResolveEvent CallbackEventResolution
  | PayCreateEvent CallbackEvent
  | PayEventProcessed int int string string gotime
  | PayOther redeem_op

text \<open>Orders and recharges are created as the service does, and the wallet is credited for a recharge by
  the settlement of its order only.\<close>

definition payment_op_ok :: "payment_op \<Rightarrow> bool" where
  "payment_op_ok op = (case op of
     PayCreateOrder o' \<Rightarrow> new_order o'
   | PayCreateRecharge r o' \<Rightarrow> new_order o' \<and> new_recharge r o'
   | PayOther op' \<Rightarrow> redeem_op_ok op' \<and> (case op' of OpWallet w \<Rightarrow> op_source w \<noteq> SourceRecharge | _ \<Rightarrow> True)
   | _ \<Rightarrow> True)"

definition payment_call :: "env \<Rightarrow> payment_op \<Rightarrow> 'z payment_tables_scheme world \<Rightarrow> 'z payment_tables_scheme world" where
  "payment_call ev op s = (case op of
     PayCreateOrder o' \<Rightarrow> snd (CreateOrder True ev o' s)
   | PayOrderPaying i url \<Rightarrow> snd (UpdateOrderPaying True ev i url s)
   | PayOrderFailed i reason \<Rightarrow> snd (UpdateOrderFailed True ev i reason s)
   | PayOrderClosed i time \<Rightarrow> snd (UpdateOrderClosed True ev i time s)
   | PayCreateRecharge r o' \<Rightarrow> snd (CreateRechargeWithOrder True ev r o' s)
   | PayRechargePaying i \<Rightarrow> snd (UpdateRechargePaying True ev i s)
   | PayRechargeFailed i reason \<Rightarrow> snd (UpdateRechargeFailed True ev i reason s)
   | PayRechargeClosed i \<Rightarrow> snd (UpdateRechargeClosed True ev i s)
   | PayFinalize i tradeNo paidAt now \<Rightarrow> snd (FinalizePaidOrder True ev i tradeNo paidAt now s)
   | PayAcquireEvent e \<Rightarrow> snd (AcquireCallbackEvent True ev e s)
   | PayResolveEvent r \<Rightarrow> snd (ResolveCallbackEvent True ev r s)
   | PayCreateEvent e \<Rightarrow> snd (CreateCallbackEvent True ev e s)
   | PayEventProcessed i v status message time \<Rightarrow> snd (UpdateCallbackEventProcessed True ev i v status message time s)
   | PayOther op' \<Rightarrow> snd (redeem_call ev op' s))"

inductive payment_step :: "'z payment_tables_scheme world \<Rightarrow> 'z payment_tables_scheme world \<Rightarrow> bool" where
  step: "payment_op_ok op \<Longrightarrow> payment_step s (payment_call ev op s)"

definition empty_payment_world :: "payment_tables world" where
  "empty_payment_world = \<lparr>stmt_no = 0, clock_no = 0, auto_inc = 1, serial_seq = 0,
     tables = \<lparr>wallets = [], transactions = [], holds = [], batches = [], codes = [],
       pay_orders = [], recharges = [], packages = [], configs = [], events = []\<rparr>\<rparr>"

inductive payment_reachable :: "payment_tables world \<Rightarrow> bool" where
  start: "payment_reachable empty_payment_world"
| more: "payment_reachable s \<Longrightarrow> payment_step s t \<Longrightarrow> payment_reachable t"

abbreviation payment_state_ok :: "'z payment_tables_scheme world \<Rightarrow> bool" where
  "payment_state_ok \<equiv> pay_state_ok wallet_state_ok recharge_books"

lemma payment_state_okD:
  assumes "payment_state_ok s"
  shows "wallet_state_ok s" "payments_ok (recharge_books (tables s)) (tables s)" "pay_ids s"
  using assms by (simp_all add: pay_state_ok_def)

definition payment_part :: "'z payment_tables_scheme \<Rightarrow> Transaction list \<times> Order list \<times> Recharge list" where
  "payment_part D = (filter (\<lambda>t. t_SourceType t = SourceRecharge) (transactions D), pay_orders D, recharges D)"

lemma recharge_books_filter:
  "recharge_books D c = row_map source_of (\<lambda>t. (t_UserID t, t_AmountUnits t))
     (filter (\<lambda>t. t_SourceType t = SourceRecharge) (transactions D)) (SourceRecharge, c)"
proof -
  have "row_map source_of f ts (SourceRecharge, c) =
      row_map source_of f (filter (\<lambda>t. t_SourceType t = SourceRecharge) ts) (SourceRecharge, c)"
    for f :: "Transaction \<Rightarrow> int \<times> int" and ts
    by (induction ts) (auto simp: row_map_def source_of_def)
  then show ?thesis unfolding recharge_books_def .
qed

lemma recharge_books_part: "payment_part D' = payment_part D \<Longrightarrow> recharge_books D' = recharge_books D"
  by (intro ext) (simp add: recharge_books_filter payment_part_def)

text \<open>Redemptions and other wallet calls keep the wallet consistent.\<close>

lemma redeem_call_wallet:
  fixes s :: "'z payment_tables_scheme world"
  assumes both: "redeem_state_ok s" and op: "redeem_op_ok op" "\<And>w. op = OpWallet w \<Longrightarrow> op_source w \<noteq> SourceRecharge"
    and ok: "payment_state_ok s" and run: "redeem_call ev op s = (res, t)"
  shows "redeem_state_ok t \<and> payment_state_ok t \<and> pay_advances recharge_books (tables s) (tables t)"
proof -
  have "keeps payment_part (redeem_call ev op)"
    by (rule keeps_redeem_call [of "- {SourceRecharge}"]) (use op(2) in \<open>auto simp: blind_to_def blind_to_codes_def payment_part_def\<close>)
  then have part: "payment_part (tables t) = payment_part (tables s)" using run unfolding keeps_def by (metis snd_conv)
  then have rows: "pay_orders (tables t) = pay_orders (tables s)" "recharges (tables t) = recharges (tables s)"
    by (simp_all add: payment_part_def)
  have R: "redeem_state_ok t" by (rule redeem_call_ok [OF both op(1) run])
  have inc: "auto_inc s \<le> auto_inc t" using growsD [OF redeem_call_grows, of s ev op] run by simp
  have "payments_ok (recharge_books (tables t)) (tables t)"
    using payment_state_okD(2) [OF ok] by (simp add: payments_ok_def rows recharge_books_part [OF part])
  moreover have "pay_ids t" by (rule pay_ids_later [OF payment_state_okD(3) [OF ok] inc]) (simp_all add: rows)
  ultimately have "payment_state_ok t" using redeem_state_okD(1) [OF R] by (simp add: pay_state_ok_def)
  moreover have "pay_advances recharge_books (tables s) (tables t)"
    by (simp add: pay_advances_def rows recharge_books_part [OF part])
  ultimately show ?thesis using R by simp
qed

text \<open>The payment statements leave codes and what is booked for them alone.\<close>

definition code_part :: "'z payment_tables_scheme \<Rightarrow> Transaction list \<times> Batch list \<times> Code list" where
  "code_part D = (filter (\<lambda>t. t_SourceType t = SourceRedeemCode) (transactions D), batches D, codes D)"

lemma keeps_code_part_rows:
  "keeps code_part (insert_row ev pay_orders pay_orders_update v mk)"
  "keeps code_part (insert_row ev recharges recharges_update v2 mk2)"
  "keeps code_part (insert_row ev events events_update v3 mk3)"
  "keeps code_part (update_where ev pay_orders pay_orders_update P g)"
  "keeps code_part (update_where ev recharges recharges_update P2 g2)"
  "keeps code_part (update_where ev events events_update P3 g3)"
  by (rule keeps_insert_row keeps_update_where, simp add: code_part_def)+

lemma keeps_code_part_calls:
  "keeps code_part (recharge_find ev i)" "keeps code_part (recharge_credit ev i)"
  "keeps code_part (optional_first ev get P4)"
  unfolding recharge_find_def FindRechargeCreditInTx_def lockWalletForUpdateUnits_def optional_first_def
  by (intro keeps_intros) (rule keeps_recharge_credit [of "{SourceRecharge}"], simp_all add: blind_to_def code_part_def, intro keeps_intros)

lemmas keeps_code_part = keeps_code_part_rows keeps_code_part_calls

lemma keeps_insert_new_event: "keeps code_part (insert_new_event ev e)"
  unfolding insert_new_event_def by (intro keeps_intros) (simp add: keeps_def Let_def code_part_def)

lemmas payment_statement_defs = CreateOrder_def UpdateOrderPaying_def UpdateOrderFailed_def UpdateOrderClosed_def
  CreateRechargeWithOrder_def UpdateRechargePaying_def UpdateRechargeFailed_def UpdateRechargeClosed_def
  FinalizePaidOrder_def AcquireCallbackEvent_def ResolveCallbackEvent_def CreateCallbackEvent_def UpdateCallbackEventProcessed_def
  insert_order_def insert_recharge_def update_order_from_def update_recharge_from_def GetRecharge_def FinalizePaidOrder_with_def
  ResolveCallbackEvent_with_def resolve_event_def finalizePaidOrderInTx_def settle_recharge_def markOrderPaidInTx_def
  markRechargeCreditedInTx_def Let_def

lemma keeps_codes_payment:
  "keeps code_part (CreateOrder c ev o')" "keeps code_part (UpdateOrderPaying c ev i url)"
  "keeps code_part (UpdateOrderFailed c ev i reason)" "keeps code_part (UpdateOrderClosed c ev i time)"
  "keeps code_part (CreateRechargeWithOrder c ev r o')" "keeps code_part (UpdateRechargePaying c ev i)"
  "keeps code_part (UpdateRechargeFailed c ev i reason)" "keeps code_part (UpdateRechargeClosed c ev i)"
  "keeps code_part (FinalizePaidOrder c ev i tradeNo paidAt now)" "keeps code_part (AcquireCallbackEvent c ev e)"
  "keeps code_part (ResolveCallbackEvent c ev cr)" "keeps code_part (CreateCallbackEvent c ev e)"
  "keeps code_part (UpdateCallbackEventProcessed c ev i v status message time)"
  unfolding payment_statement_defs by (intro keeps_intros keeps_code_part keeps_insert_new_event)+

section \<open>Every step keeps both sides of the books\<close>

lemma codes_part_ok:
  fixes s t :: "'z payment_tables_scheme world"
  assumes ok: "redeem_state_ok s" and part: "code_part (tables t) = code_part (tables s)"
    and t: "wallet_state_ok t" "auto_inc s \<le> auto_inc t"
  shows "redeem_state_ok t"
proof -
  have rows: "codes (tables t) = codes (tables s)" "batches (tables t) = batches (tables s)"
    using part by (simp_all add: code_part_def)
  have "ledger_books (tables t) = ledger_books (tables s)"
    using part by (intro ext) (simp add: ledger_books_filter code_part_def)
  then have "codes_ok (ledger_books (tables t)) (tables t)"
    using redeem_state_okD(2) [OF ok] by (simp add: codes_ok_def rows)
  moreover have "ids_given t" by (rule ids_given_later [OF redeem_state_okD(3) [OF ok] t(2)]) (simp_all add: rows)
  ultimately show ?thesis using t(1) by (simp add: books_ok_def)
qed

lemma keepsE: "keeps f m \<Longrightarrow> m s = (res, t) \<Longrightarrow> f (tables t) = f (tables s)"
  unfolding keeps_def by (metis snd_conv)

lemma growsE: "grows m \<Longrightarrow> m s = (res, t) \<Longrightarrow> auto_inc s \<le> auto_inc t"
  using growsD [of m s] by simp

lemma grows_payment:
  "grows (CreateOrder c ev o')" "grows (UpdateOrderPaying c ev i url)"
  "grows (UpdateOrderFailed c ev i reason)" "grows (UpdateOrderClosed c ev i time)"
  "grows (CreateRechargeWithOrder c ev r o')" "grows (UpdateRechargePaying c ev i)"
  "grows (UpdateRechargeFailed c ev i reason)" "grows (UpdateRechargeClosed c ev i)"
  "grows (FinalizePaidOrder c ev i tradeNo paidAt now)" "grows (AcquireCallbackEvent c ev e)"
  "grows (ResolveCallbackEvent c ev cr)" "grows (CreateCallbackEvent c ev e)"
  "grows (UpdateCallbackEventProcessed c ev i v status message time)"
  unfolding payment_statement_defs optional_first_def
  by (intro grows_intros wallet_recharge.find_grows wallet_recharge.credit_grows wallet_recharge.insert_new_event_frame(2))+

lemma both_ok:
  fixes s t :: "'z payment_tables_scheme world"
  assumes "redeem_state_ok s" "keeps code_part m" "grows m" "m s = (res, t)" "wallet_recharge.step_ok s t"
  shows "redeem_state_ok t \<and> payment_state_ok t \<and> pay_advances recharge_books (tables s) (tables t)"
proof -
  have S: "payment_state_ok t" "pay_advances recharge_books (tables s) (tables t)"
    using assms(5) by (simp_all add: wallet_recharge.step_ok_def)
  have "redeem_state_ok t"
    by (rule codes_part_ok [OF assms(1) keepsE [OF assms(2,4)] payment_state_okD(1) [OF S(1)] growsE [OF assms(3,4)]])
  with S show ?thesis by simp
qed

lemma payment_call_ok:
  fixes s :: "'z payment_tables_scheme world"
  assumes ok: "redeem_state_ok s" "payment_state_ok s" and op: "payment_op_ok op"
  shows "redeem_state_ok (payment_call ev op s) \<and> payment_state_ok (payment_call ev op s) \<and>
    pay_advances recharge_books (tables s) (tables (payment_call ev op s))"
proof -
  have step: "keeps code_part m \<Longrightarrow> grows m \<Longrightarrow> wallet_recharge.step_ok s (snd (m s)) \<Longrightarrow> payment_call ev op s = snd (m s) \<Longrightarrow> ?thesis"
    for m :: "(payment_error, 'z payment_tables_scheme world, 'r) act"
    using both_ok [OF ok(1) _ _ prod.collapse [symmetric]] by simp
  note steps = wallet_recharge.order_updates wallet_recharge.recharge_updates wallet_recharge.event_steps
  note E = prod.collapse [symmetric]
  show ?thesis
  proof (cases op)
    case (PayCreateOrder o')
    with op wallet_recharge.CreateOrder_effect [OF ok(2) _ E] show ?thesis
      by (intro step [OF keeps_codes_payment(1) grows_payment(1)]) (simp_all add: payment_op_ok_def payment_call_def)
  next
    case (PayCreateRecharge r o')
    with op wallet_recharge.CreateRecharge_effect [OF ok(2) _ _ E] show ?thesis
      by (intro step [OF keeps_codes_payment(5) grows_payment(5)]) (simp_all add: payment_op_ok_def payment_call_def)
  next
    case (PayFinalize i tradeNo paidAt now)
    with wallet_recharge.FinalizePaidOrder_step [OF ok(2) E] show ?thesis
      by (intro step [OF keeps_codes_payment(9) grows_payment(9)]) (simp_all add: FinalizePaidOrder_def payment_call_def)
  next
    case (PayResolveEvent cr)
    with wallet_recharge.ResolveCallbackEvent_step [OF ok(2) E] show ?thesis
      by (intro step [OF keeps_codes_payment(11) grows_payment(11)]) (simp_all add: ResolveCallbackEvent_def payment_call_def)
  next
    case (PayOther op')
    with op have "redeem_op_ok op'" "\<And>w. op' = OpWallet w \<Longrightarrow> op_source w \<noteq> SourceRecharge"
      by (auto simp: payment_op_ok_def)
    from redeem_call_wallet [OF ok(1) this ok(2) E] show ?thesis by (simp add: PayOther payment_call_def)
  next
    case (PayOrderPaying i url)
    then show ?thesis
      by (intro step [OF keeps_codes_payment(2) grows_payment(2)] steps [OF ok(2) E]) (simp add: payment_call_def)
  next
    case (PayOrderFailed i reason)
    then show ?thesis
      by (intro step [OF keeps_codes_payment(3) grows_payment(3)] steps [OF ok(2) E]) (simp add: payment_call_def)
  next
    case (PayOrderClosed i time)
    then show ?thesis
      by (intro step [OF keeps_codes_payment(4) grows_payment(4)] steps [OF ok(2) E]) (simp add: payment_call_def)
  next
    case (PayRechargePaying i)
    then show ?thesis
      by (intro step [OF keeps_codes_payment(6) grows_payment(6)] steps [OF ok(2) E]) (simp add: payment_call_def)
  next
    case (PayRechargeFailed i reason)
    then show ?thesis
      by (intro step [OF keeps_codes_payment(7) grows_payment(7)] steps [OF ok(2) E]) (simp add: payment_call_def)
  next
    case (PayRechargeClosed i)
    then show ?thesis
      by (intro step [OF keeps_codes_payment(8) grows_payment(8)] steps [OF ok(2) E]) (simp add: payment_call_def)
  next
    case (PayAcquireEvent e)
    then show ?thesis
      by (intro step [OF keeps_codes_payment(10) grows_payment(10)] steps [OF ok(2) E]) (simp add: payment_call_def)
  next
    case (PayCreateEvent e)
    then show ?thesis
      by (intro step [OF keeps_codes_payment(12) grows_payment(12)] steps [OF ok(2) E]) (simp add: payment_call_def)
  next
    case (PayEventProcessed i v status message time)
    then show ?thesis
      by (intro step [OF keeps_codes_payment(13) grows_payment(13)] steps [OF ok(2) E]) (simp add: payment_call_def)
  qed
qed

lemma payment_steps_ok:
  fixes s :: "'z payment_tables_scheme world"
  assumes "payment_step\<^sup>*\<^sup>* s t" and ok: "redeem_state_ok s" "payment_state_ok s"
  shows "redeem_state_ok t \<and> payment_state_ok t \<and> pay_advances recharge_books (tables s) (tables t)"
  using assms(1)
proof (induction rule: rtranclp_induct)
  case base
  show ?case using ok by simp
next
  case (step t u)
  from step(2) obtain ev op where u: "u = payment_call ev op t" and op: "payment_op_ok op" by cases
  from payment_call_ok [OF _ _ op, of t ev] step(3) pay_advances_trans show ?case unfolding u by blast
qed

lemma empty_payment_ok: "redeem_state_ok empty_payment_world \<and> payment_state_ok empty_payment_world"
  by (auto simp: books_ok_def codes_ok_def ids_given_def empty_payment_world_def ledger_books_def recharge_books_def
      pay_state_ok_def payments_ok_def pay_ids_def wallet_state_ok_def wallet_inv_def wallet_keys_def ids_below_def)

lemma payment_reachable_ok: "payment_reachable s \<Longrightarrow> redeem_state_ok s \<and> payment_state_ok s"
proof (induction rule: payment_reachable.induct)
  case start
  show ?case by (rule empty_payment_ok)
next
  case (more s t)
  with payment_steps_ok [of s t] show ?case by blast
qed

end
