(* ===== verification/PaymentServiceLaws.thy ===== *)
theory PaymentServiceLaws
  imports PaymentCallback PaymentHistory
begin

text \<open>
  What every operation of the payment service guarantees: from consistent books it leads to
  consistent books, rows only advance, and an order becomes paid only when the gateway has confirmed
  its payment. The judgement \<open>guards\<close> carries what an operation has read of orders so far; one rule per
  way of composing actions, and one per statement, verify the operations along their structure.
\<close>

section \<open>What is known and what is guaranteed\<close>

definition good :: "'z payment_tables_scheme world \<Rightarrow> bool" where
  "good s \<longleftrightarrow> redeem_state_ok s \<and> payment_state_ok s"

text \<open>What an operation may know of orders: the number and amount of one, and that one is paid.\<close>

datatype pay_fact = Numbered int string int | IsPaid int

fun fulfils :: "'z payment_tables_scheme world \<Rightarrow> pay_fact \<Rightarrow> bool" where
  "fulfils s (Numbered i no n) = (\<exists>x \<in> set (pay_orders (tables s)). o_ID x = i \<and> o_OrderNo x = no \<and> o_AmountCents x = n)"
| "fulfils s (IsPaid i) = (\<exists>x \<in> set (pay_orders (tables s)). o_ID x = i \<and> o_Status x = orderStatusPaid)"

definition known :: "pay_fact set \<Rightarrow> 'z payment_tables_scheme world \<Rightarrow> bool" where
  "known K s \<longleftrightarrow> (\<forall>k \<in> K. fulfils s k)"

text \<open>A step under a set of confirmed order numbers and amounts\<close>

definition pay_step :: "(string \<times> int) set \<Rightarrow> 'z payment_tables_scheme world \<Rightarrow> 'z payment_tables_scheme world \<Rightarrow> bool" where
  "pay_step C s t \<longleftrightarrow> good t \<and> pay_advances recharge_books (tables s) (tables t) \<and>
     (\<forall>x \<in> set (pay_orders (tables t)). o_Status x = orderStatusPaid \<longrightarrow>
        x \<in> set (pay_orders (tables s)) \<or> (o_OrderNo x, o_AmountCents x) \<in> C)"

definition guards ::
    "(string \<times> int) set \<Rightarrow> pay_fact set \<Rightarrow> ('e, 'z payment_tables_scheme world, 'a) act \<Rightarrow>
      ('a \<Rightarrow> 'z payment_tables_scheme world \<Rightarrow> bool) \<Rightarrow> bool" where
  "guards C K m Q \<longleftrightarrow> (\<forall>s. good s \<and> known K s \<longrightarrow>
     pay_step C s (snd (m s)) \<and> (\<forall>a t. m s = (Inr a, t) \<longrightarrow> Q a t))"

abbreviation safe :: "(string \<times> int) set \<Rightarrow> pay_fact set \<Rightarrow> ('e, 'z payment_tables_scheme world, 'a) act \<Rightarrow> bool" where
  "safe C K m \<equiv> guards C K m (\<lambda>_ _. True)"

lemma pay_step_refl: "good s \<Longrightarrow> pay_step C s s"
  by (auto simp: pay_step_def)

lemma pay_step_trans: "pay_step C s t \<Longrightarrow> pay_step C t u \<Longrightarrow> pay_step C s u"
  unfolding pay_step_def using pay_advances_trans by blast

lemma pay_step_good: "pay_step C s t \<Longrightarrow> good t"
  by (simp add: pay_step_def)

lemma fulfils_step: "pay_step C s t \<Longrightarrow> fulfils s k \<Longrightarrow> fulfils t k"
proof (cases k)
  case (Numbered i no n)
  assume "pay_step C s t" "fulfils s k"
  then show ?thesis
    by (fastforce simp: Numbered pay_step_def pay_advances_def advances_def)
next
  case (IsPaid i)
  assume step: "pay_step C s t" and "fulfils s k"
  then obtain x where x: "x \<in> set (pay_orders (tables s))" "o_ID x = i" "o_Status x = orderStatusPaid"
    by (auto simp: IsPaid)
  have "x \<in> set (pay_orders (tables t))"
    using step x(1,3) unfolding pay_step_def pay_advances_def advances_def by fastforce
  with x show ?thesis by (auto simp: IsPaid)
qed

lemma known_step: "pay_step C s t \<Longrightarrow> known K s \<Longrightarrow> known K t"
  unfolding known_def using fulfils_step by blast

lemma known_Un: "known (K \<union> L) s \<longleftrightarrow> known K s \<and> known L s"
  by (auto simp: known_def)

lemma known_mono: "L \<subseteq> K \<Longrightarrow> known K s \<Longrightarrow> known L s"
  by (auto simp: known_def)

lemma known_empty [simp]: "known {} s"
  by (simp add: known_def)

section \<open>Rules of composition\<close>

lemma guards_safe: "guards C K m Q \<Longrightarrow> safe C K m"
  unfolding guards_def by blast

lemma guards_more: "guards C K m Q \<Longrightarrow> K \<subseteq> L \<Longrightarrow> guards C L m Q"
  unfolding guards_def using known_mono by blast

lemma guards_weaken: "guards C K m Q \<Longrightarrow> (\<And>a t. Q a t \<Longrightarrow> R a t) \<Longrightarrow> guards C K m R"
  unfolding guards_def by blast

lemma guards_bind_fact:
  assumes "guards C K m (\<lambda>a t. \<exists>L. P a L \<and> known L t)" "\<And>a L. P a L \<Longrightarrow> guards C (K \<union> L) (f a) R"
  shows "guards C K (bind m f) R"
  unfolding guards_def
proof (intro allI impI)
  fix s :: "'a payment_tables_scheme world" assume s: "good s \<and> known K s"
  obtain r t where run: "m s = (r, t)" by fastforce
  have first: "pay_step C s t" using assms(1) s run unfolding guards_def by (metis snd_conv)
  show "pay_step C s (snd (bind m f s)) \<and> (\<forall>a t. bind m f s = (Inr a, t) \<longrightarrow> R a t)"
  proof (cases r)
    case (Inl e)
    with run first show ?thesis by (simp add: bind_def)
  next
    case (Inr a)
    with assms(1) s run obtain L where a: "P a L" "known L t" unfolding guards_def by blast
    have "known (K \<union> L) t" using a(2) known_step [OF first] s by (simp add: known_Un)
    with assms(2) [OF a(1)] pay_step_good [OF first] have "pay_step C t (snd (f a t)) \<and> (\<forall>b u. f a t = (Inr b, u) \<longrightarrow> R b u)"
      unfolding guards_def by blast
    with pay_step_trans [OF first] show ?thesis by (simp add: bind_def run Inr)
  qed
qed

lemma guards_bind_known:
  assumes "guards C K m (\<lambda>a t. F a \<and> known (G a) t)" "\<And>a. F a \<Longrightarrow> guards C (K \<union> G a) (f a) R"
  shows "guards C K (bind m f) R"
  by (rule guards_bind_fact [where P = "\<lambda>a L. F a \<and> L = G a", OF guards_weaken [OF assms(1)]]) (use assms(2) in auto)

lemma guards_bind: "safe C K m \<Longrightarrow> (\<And>a. guards C K (f a) R) \<Longrightarrow> guards C K (bind m f) R"
  by (rule guards_bind_known [where F = "\<lambda>_. True" and G = "\<lambda>_. {}"]) simp_all

lemma guards_either_known:
  assumes "guards C K m (\<lambda>a t. F a \<and> known (G a) t)" "\<And>e. guards C K (h e) R" "\<And>a. F a \<Longrightarrow> guards C (K \<union> G a) (f a) R"
  shows "guards C K (either m h f) R"
  unfolding guards_def
proof (intro allI impI)
  fix s :: "'a payment_tables_scheme world" assume s: "good s \<and> known K s"
  obtain r t where run: "m s = (r, t)" by fastforce
  have first: "pay_step C s t" using assms(1) s run unfolding guards_def by (metis snd_conv)
  note t = pay_step_good [OF first] known_step [OF first]
  show "pay_step C s (snd (either m h f s)) \<and> (\<forall>a t. either m h f s = (Inr a, t) \<longrightarrow> R a t)"
  proof (cases r)
    case (Inl e)
    have "pay_step C t (snd (h e t)) \<and> (\<forall>b u. h e t = (Inr b, u) \<longrightarrow> R b u)"
      using assms(2) [of e] t s unfolding guards_def by blast
    with pay_step_trans [OF first] show ?thesis by (simp add: either_def run Inl)
  next
    case (Inr a)
    with assms(1) s run have a: "F a" "known (G a) t" unfolding guards_def by blast+
    have "known (K \<union> G a) t" using a(2) t s by (simp add: known_Un)
    with assms(3) [OF a(1)] t(1) have "pay_step C t (snd (f a t)) \<and> (\<forall>b u. f a t = (Inr b, u) \<longrightarrow> R b u)"
      unfolding guards_def by blast
    with pay_step_trans [OF first] show ?thesis by (simp add: either_def run Inr)
  qed
qed

lemma guards_either:
  "safe C K m \<Longrightarrow> (\<And>e. guards C K (h e) R) \<Longrightarrow> (\<And>a. guards C K (f a) R) \<Longrightarrow> guards C K (either m h f) R"
  by (rule guards_either_known [where F = "\<lambda>_. True" and G = "\<lambda>_. {}"]) simp_all

lemma guards_map_error: "guards C K m Q \<Longrightarrow> guards C K (map_error g m) Q"
  unfolding guards_def map_error_def catch_def
  by (auto split: prod.split sum.split simp: throw_def)

lemma guards_ret: "(\<And>s. good s \<Longrightarrow> known K s \<Longrightarrow> Q a s) \<Longrightarrow> guards C K (ret a) Q"
  by (simp add: guards_def ret_def pay_step_refl)

lemma guards_throw: "guards C K (throw e) Q"
  by (simp add: guards_def throw_def pay_step_refl)

lemma guards_cases:
  "(c \<Longrightarrow> guards C K m Q) \<Longrightarrow> (\<not> c \<Longrightarrow> guards C K n Q) \<Longrightarrow> guards C K (if c then m else n) Q"
  "(x = None \<Longrightarrow> guards C K m Q) \<Longrightarrow> (\<And>a. x = Some a \<Longrightarrow> guards C K (k a) Q) \<Longrightarrow>
     guards C K (case x of None \<Rightarrow> m | Some a \<Rightarrow> k a) Q"
  "(\<And>e. r = Inl e \<Longrightarrow> guards C K (g e) Q) \<Longrightarrow> (\<And>a. r = Inr a \<Longrightarrow> guards C K (k' a) Q) \<Longrightarrow>
     guards C K (case r of Inl e \<Rightarrow> g e | Inr a \<Rightarrow> k' a) Q"
  "(\<And>a b. p = (a, b) \<Longrightarrow> guards C K (j a b) Q) \<Longrightarrow> guards C K (case p of (a, b) \<Rightarrow> j a b) Q"
  by (simp_all split: option.split sum.split prod.split)

section \<open>Actions outside the books\<close>

lemma good_parts:
  assumes "good s" shows "redeem_state_ok s" "payment_state_ok s" "wallet_state_ok s"
    "payments_ok (recharge_books (tables s)) (tables s)" "pay_ids s" "distinct (map o_ID (pay_orders (tables s)))"
  using assms payment_state_okD payments_okD(1) unfolding good_def by blast+

text \<open>An action that touches neither orders, recharges and codes nor what is booked for them.\<close>

lemma pay_step_frame:
  fixes s t :: "'z payment_tables_scheme world"
  assumes ok: "good s" and t: "wallet_state_ok t" "auto_inc s \<le> auto_inc t"
    and part: "payment_part (tables t) = payment_part (tables s)" "code_part (tables t) = code_part (tables s)"
  shows "pay_step C s t"
proof -
  have rows: "pay_orders (tables t) = pay_orders (tables s)" "recharges (tables t) = recharges (tables s)"
    using part(1) by (simp_all add: payment_part_def)
  have books: "recharge_books (tables t) = recharge_books (tables s)" by (rule recharge_books_part [OF part(1)])
  have "redeem_state_ok t" by (rule codes_part_ok [OF good_parts(1) [OF ok] part(2) t])
  moreover have "pay_ids t" by (rule pay_ids_later [OF good_parts(5) [OF ok] t(2)]) (simp_all add: rows)
  moreover have "payments_ok (recharge_books (tables t)) (tables t)"
    using good_parts(4) [OF ok] by (simp add: payments_ok_def rows books)
  ultimately have "good t" using t(1) by (simp add: good_def pay_state_ok_def)
  then show ?thesis by (simp add: pay_step_def pay_advances_def rows books)
qed

lemma guards_frame:
  fixes m :: "('e, 'z payment_tables_scheme world, 'a) act"
  assumes "keeps payment_part m" "keeps code_part m" "grows m"
    and "\<And>s. wallet_state_ok s \<Longrightarrow> wallet_state_ok (snd (m s))"
  shows "safe C K m"
  unfolding guards_def
proof (intro allI impI conjI)
  fix s :: "'z payment_tables_scheme world" assume s: "good s \<and> known K s"
  from s have g: "good s" by simp
  show "pay_step C s (snd (m s))"
    by (rule pay_step_frame [OF g assms(4) [OF good_parts(3) [OF g]] growsD [OF assms(3)]])
      (use assms(1,2) in \<open>simp_all add: keeps_def\<close>)
qed simp

lemma keeps_all: "keeps (\<lambda>d. d) m \<Longrightarrow> keeps f m"
  by (simp add: keeps_def)

lemma guards_quiet:
  assumes "keeps (\<lambda>d. d) m" "grows m" shows "safe C K m"
proof (rule guards_frame [OF keeps_all [OF assms(1)] keeps_all [OF assms(1)] assms(2)])
  show "wallet_state_ok s \<Longrightarrow> wallet_state_ok (snd (m s))" for s
    by (rule wallet_state_ok_frame [where s = s]) (use assms in \<open>simp_all add: keeps_def grows_def\<close>)
qed

lemma ask_frame [keeps_intros, grows_intros]: "keeps f (ask g)" "grows (ask g)"
  by (simp_all add: ask_def keeps_def grows_def)

lemma guards_ask: "safe C K (ask f)" "safe C K (payment_now pe)" "safe C K (pure_result r)"
  unfolding payment_now_def by (rule guards_quiet; intro keeps_intros grows_intros)+

lemma keeps_configs:
  shows "keeps payment_part (update_where ev configs configs_update P g)" "keeps code_part (update_where ev configs configs_update P g)"
    "keeps wallets (update_where ev configs configs_update P g)" "keeps transactions (update_where ev configs configs_update P g)"
    "keeps holds (update_where ev configs configs_update P g)"
    "keeps payment_part (insert_row ev configs configs_update v mk)" "keeps code_part (insert_row ev configs configs_update v mk)"
    "keeps wallets (insert_row ev configs configs_update v mk)" "keeps transactions (insert_row ev configs configs_update v mk)"
    "keeps holds (insert_row ev configs configs_update v mk)"
  by (rule keeps_insert_row keeps_update_where, simp add: payment_part_def code_part_def)+

lemma guards_tables:
  assumes "keeps payment_part m" "keeps code_part m" "grows m" "keeps wallets m" "keeps transactions m" "keeps holds m"
  shows "safe C K m"
proof (rule guards_frame [OF assms(1-3)])
  show "wallet_state_ok s \<Longrightarrow> wallet_state_ok (snd (m s))" for s
    by (rule wallet_state_ok_frame [where s = s]) (use assms in \<open>simp_all add: keeps_def grows_def\<close>)
qed

lemma guards_config_rows:
  "safe C K (update_where ev configs configs_update P g)" "safe C K (insert_row ev configs configs_update v mk)"
  by (rule guards_tables; intro keeps_configs grows_intros)+

section \<open>The repository's statements\<close>

text \<open>Only the two settlements add a row to the paid orders.\<close>

definition paid_part :: "'z payment_tables_scheme \<Rightarrow> Order list" where
  "paid_part D = filter (\<lambda>x. o_Status x = orderStatusPaid) (pay_orders D)"

lemma keeps_changed_rows:
  assumes "\<And>u d. f (upd (change_rows P (g u)) d) = f d"
  shows "keeps f (update_where ev get upd P g)"
  unfolding update_where_def by (intro keeps_intros) (simp add: keeps_def assms)

lemma keeps_new_row:
  assumes "\<And>i u d. f (upd (\<lambda>rows. rows @ [mk i u]) d) = f d"
  shows "keeps f (insert_row ev get upd v mk)"
  unfolding insert_row_def by (intro keeps_intros) (simp add: keeps_def assms Let_def split: option.split)

lemma filter_change_rows:
  "(\<And>x. P x \<Longrightarrow> \<not> Q x \<and> \<not> Q (g x)) \<Longrightarrow> filter Q (change_rows P g rs) = filter Q rs"
  by (induction rs) (auto simp: change_rows_def)

lemma keeps_paid_update:
  assumes "orderStatusPaid \<notin> set statuses" "\<And>x. o_Status (g x) \<noteq> orderStatusPaid"
  shows "keeps paid_part (update_order_from ev i statuses g)"
proof -
  let ?P = "\<lambda>o'. live_order i o' \<and> List.member statuses (o_Status o')"
  have "keeps paid_part (update_where ev pay_orders pay_orders_update ?P (\<lambda>t o'. (g o')\<lparr>o_UpdatedAt := t\<rparr>))"
    by (rule keeps_changed_rows) (simp add: paid_part_def, rule filter_change_rows, use assms in auto)
  then show ?thesis unfolding update_order_from_def
    by (rule keeps_bind [OF keeps_map_error]) (intro keeps_intros)
qed

lemma keeps_paid_part:
  "new_order o' \<Longrightarrow> keeps paid_part (CreateOrder c ev o')" "keeps paid_part (UpdateOrderPaying c ev i url)"
  "keeps paid_part (UpdateOrderFailed c ev i reason)" "keeps paid_part (UpdateOrderClosed c ev i time)"
  "new_order o' \<Longrightarrow> keeps paid_part (CreateRechargeWithOrder c ev r o')"
proof -
  show "keeps paid_part (UpdateOrderPaying c ev i url)" "keeps paid_part (UpdateOrderFailed c ev i reason)"
    "keeps paid_part (UpdateOrderClosed c ev i time)"
    unfolding UpdateOrderPaying_def UpdateOrderFailed_def UpdateOrderClosed_def
    by (intro keeps_intros keeps_paid_update; simp add: cas_defs)+
  assume new: "new_order o'"
  have insert: "keeps paid_part (insert_order ev o')"
    unfolding insert_order_def by (rule keeps_new_row) (use new in \<open>simp add: paid_part_def new_order_def\<close>)
  then show "keeps paid_part (CreateOrder c ev o')" unfolding CreateOrder_def by (intro keeps_intros)
  have "keeps paid_part (insert_recharge ev r')" for r'
    unfolding insert_recharge_def by (intro keeps_insert_row) (simp add: paid_part_def)
  with insert show "keeps paid_part (CreateRechargeWithOrder c ev r o')"
    unfolding CreateRechargeWithOrder_def GetRecharge_def optional_first_def Let_def by (intro keeps_intros)
qed

lemma keeps_orders_part: "keeps pay_orders m \<Longrightarrow> keeps paid_part m"
  by (simp add: keeps_def paid_part_def)

lemma keeps_orders:
  "keeps pay_orders (UpdateRechargePaying c ev i)" "keeps pay_orders (UpdateRechargeFailed c ev i reason)"
  "keeps pay_orders (UpdateRechargeClosed c ev i)" "keeps pay_orders (AcquireCallbackEvent c ev e)"
  unfolding UpdateRechargePaying_def UpdateRechargeFailed_def UpdateRechargeClosed_def AcquireCallbackEvent_def
    update_recharge_from_def insert_new_event_def Let_def
  by (intro keeps_intros; simp add: keeps_def)+

lemma guards_statement:
  fixes m :: "(payment_error, 'z payment_tables_scheme world, 'a) act"
  assumes call: "\<And>s. snd (m s) = payment_call ev op (s :: 'z payment_tables_scheme world)" and op: "payment_op_ok op"
    and paid: "keeps paid_part m"
  shows "safe C K m"
  unfolding guards_def
proof (intro allI impI conjI)
  fix s :: "'z payment_tables_scheme world" assume "good s \<and> known K s"
  then have "good (snd (m s)) \<and> pay_advances recharge_books (tables s) (tables (snd (m s)))"
    using payment_call_ok [of s op ev] op by (simp add: good_def call)
  moreover have "paid_part (tables (snd (m s))) = paid_part (tables s)" using paid by (simp add: keeps_def)
  then have "{x \<in> set (pay_orders (tables (snd (m s)))). o_Status x = orderStatusPaid} =
      {x \<in> set (pay_orders (tables s)). o_Status x = orderStatusPaid}"
    unfolding paid_part_def by (metis set_filter)
  ultimately show "pay_step C s (snd (m s))" unfolding pay_step_def by blast
qed simp

lemma unconfigured:
  "CreateOrder False ev o' = throw payment_error.ErrRepositoryNotConfigured"
  "UpdateOrderPaying False ev i url = throw payment_error.ErrRepositoryNotConfigured"
  "UpdateOrderFailed False ev i reason = throw payment_error.ErrRepositoryNotConfigured"
  "UpdateOrderClosed False ev i time = throw payment_error.ErrRepositoryNotConfigured"
  "CreateRechargeWithOrder False ev r o' = throw payment_error.ErrRepositoryNotConfigured"
  "UpdateRechargePaying False ev i = throw payment_error.ErrRepositoryNotConfigured"
  "UpdateRechargeFailed False ev i reason = throw payment_error.ErrRepositoryNotConfigured"
  "UpdateRechargeClosed False ev i = throw payment_error.ErrRepositoryNotConfigured"
  "AcquireCallbackEvent False ev e = throw payment_error.ErrRepositoryNotConfigured"
  "FinalizePaidOrder False ev i tradeNo paidAt now = throw payment_error.ErrRepositoryNotConfigured"
  "ResolveCallbackEvent False ev cr = throw payment_error.ErrRepositoryNotConfigured"
  by (simp_all add: CreateOrder_def UpdateOrderPaying_def UpdateOrderFailed_def UpdateOrderClosed_def
      CreateRechargeWithOrder_def UpdateRechargePaying_def UpdateRechargeFailed_def UpdateRechargeClosed_def
      AcquireCallbackEvent_def FinalizePaidOrder_def FinalizePaidOrder_with_def ResolveCallbackEvent_def
      ResolveCallbackEvent_with_def)

lemma guards_statements:
  "new_order o' \<Longrightarrow> safe C K (CreateOrder c ev o')" "safe C K (UpdateOrderPaying c ev i url)"
  "safe C K (UpdateOrderFailed c ev i reason)" "safe C K (UpdateOrderClosed c ev i time)"
  "new_order o' \<Longrightarrow> new_recharge r o' \<Longrightarrow> safe C K (CreateRechargeWithOrder c ev r o')"
  "safe C K (UpdateRechargePaying c ev i)" "safe C K (UpdateRechargeFailed c ev i reason)"
  "safe C K (UpdateRechargeClosed c ev i)" "safe C K (AcquireCallbackEvent c ev e)"
proof -
  note via = guards_statement [where ev = ev, OF _ _ keeps_paid_part(2)] guards_statement [where ev = ev, OF _ _ keeps_paid_part(3)]
    guards_statement [where ev = ev, OF _ _ keeps_paid_part(4)]
    guards_statement [where ev = ev, OF _ _ keeps_orders_part [OF keeps_orders(1)]]
    guards_statement [where ev = ev, OF _ _ keeps_orders_part [OF keeps_orders(2)]]
    guards_statement [where ev = ev, OF _ _ keeps_orders_part [OF keeps_orders(3)]]
    guards_statement [where ev = ev, OF _ _ keeps_orders_part [OF keeps_orders(4)]]
  note def = payment_call_def payment_op_ok_def
  show "safe C K (UpdateOrderPaying c ev i url)"
    by (cases c) (simp_all add: unconfigured guards_throw via(1) [where op = "PayOrderPaying i url"] def)
  show "safe C K (UpdateOrderFailed c ev i reason)"
    by (cases c) (simp_all add: unconfigured guards_throw via(2) [where op = "PayOrderFailed i reason"] def)
  show "safe C K (UpdateOrderClosed c ev i time)"
    by (cases c) (simp_all add: unconfigured guards_throw via(3) [where op = "PayOrderClosed i time"] def)
  show "safe C K (UpdateRechargePaying c ev i)"
    by (cases c) (simp_all add: unconfigured guards_throw via(4) [where op = "PayRechargePaying i"] def)
  show "safe C K (UpdateRechargeFailed c ev i reason)"
    by (cases c) (simp_all add: unconfigured guards_throw via(5) [where op = "PayRechargeFailed i reason"] def)
  show "safe C K (UpdateRechargeClosed c ev i)"
    by (cases c) (simp_all add: unconfigured guards_throw via(6) [where op = "PayRechargeClosed i"] def)
  show "safe C K (AcquireCallbackEvent c ev e)"
    by (cases c) (simp_all add: unconfigured guards_throw via(7) [where op = "PayAcquireEvent e"] def)
  assume new: "new_order o'"
  show "safe C K (CreateOrder c ev o')"
    by (cases c) (simp_all add: unconfigured guards_throw new keeps_paid_part def guards_statement [where op = "PayCreateOrder o'" and ev = ev])
  assume "new_recharge r o'"
  with new show "safe C K (CreateRechargeWithOrder c ev r o')"
    by (cases c) (simp_all add: unconfigured guards_throw keeps_paid_part def guards_statement [where op = "PayCreateRecharge r o'" and ev = ev])
qed

section \<open>Settlements\<close>

text \<open>An order may be settled when it is confirmed, or paid already.\<close>

definition may_settle :: "(string \<times> int) set \<Rightarrow> pay_fact set \<Rightarrow> int \<Rightarrow> bool" where
  "may_settle C K i \<longleftrightarrow> IsPaid i \<in> K \<or> (\<exists>no n. Numbered i no n \<in> K \<and> (no, n) \<in> C)"

lemma may_settle_more: "may_settle C K i \<Longrightarrow> K \<subseteq> L \<Longrightarrow> may_settle C L i"
  by (auto simp: may_settle_def)

lemma settled_step:
  fixes s t :: "'z payment_tables_scheme world"
  assumes s: "good s" "known K s" "may_settle C K i"
    and t: "good t" "pay_advances recharge_books (tables s) (tables t)" "pay_orders (tables t) = pay_orders D"
    and set: "order_settled recharge_books user_funds i tradeNo paidAt now pf o' (tables s) D"
  shows "pay_step C s t"
proof -
  have "x \<in> set (pay_orders (tables s)) \<or> (o_OrderNo x, o_AmountCents x) \<in> C" if x: "x \<in> set (pay_orders D)" for x
  proof (cases "pf_OrderAlreadyPaid pf")
    case True
    with set x show ?thesis by (simp add: order_settled_def)
  next
    case False
    with set obtain n u where o': "o' \<in> set (pay_orders (tables s))" "o_ID o' = i" "o_Status o' \<noteq> orderStatusPaid"
      and os: "pay_orders D = paid_orders i n paidAt u (pay_orders (tables s))"
      by (auto simp: order_settled_def Let_def)
    have same: "y = o'" if "y \<in> set (pay_orders (tables s))" "o_ID y = i" for y
      using distinct_key_eq [OF good_parts(6) [OF s(1)] that(1) o'(1)] that(2) o'(2) by simp
    have "IsPaid i \<notin> K"
    proof
      assume "IsPaid i \<in> K"
      with s(2) have "fulfils s (IsPaid i)" unfolding known_def by blast
      with same o'(3) show False by auto
    qed
    with s(3) obtain no m where m: "(no, m) \<in> C" "Numbered i no m \<in> K" unfolding may_settle_def by blast
    with s(2) have "fulfils s (Numbered i no m)" unfolding known_def by blast
    with same m(1) have C: "(o_OrderNo o', o_AmountCents o') \<in> C" by auto
    from x obtain y where y: "y \<in> set (pay_orders (tables s))" "x = (if o_ID y = i then paid_row n paidAt u y else y)"
      unfolding os paid_orders_def by (auto simp: set_change_rows)
    show ?thesis using y same C by (cases "o_ID y = i") auto
  qed
  with t show ?thesis by (simp add: pay_step_def)
qed

lemma failed_step:
  "good t \<Longrightarrow> tables t = tables s \<Longrightarrow> pay_step C s t"
  by (simp add: pay_step_def)

lemma guards_finalize:
  assumes "may_settle C K i" shows "safe C K (FinalizePaidOrder c ev i tradeNo paidAt now)"
proof (cases c)
  case False
  then show ?thesis by (simp add: unconfigured guards_throw)
next
  case True
  show ?thesis unfolding guards_def
  proof (intro allI impI conjI)
    fix s :: "'b payment_tables_scheme world" assume s: "good s \<and> known K s"
    obtain r t where run: "FinalizePaidOrder True ev i tradeNo paidAt now s = (r, t)" by fastforce
    have t: "good t" "pay_advances recharge_books (tables s) (tables t)"
      using payment_call_ok [of s "PayFinalize i tradeNo paidAt now" ev] s run by (simp_all add: good_def payment_call_def payment_op_ok_def)
    show "pay_step C s (snd (FinalizePaidOrder c ev i tradeNo paidAt now s))"
    proof (cases r)
      case (Inl e)
      with run have "Fails (FinalizePaidOrder True ev i tradeNo paidAt now) s e t" by (simp add: Fails_def)
      then have "tables t = tables s"
        by (auto simp: FinalizePaidOrder_def FinalizePaidOrder_with_def act_simps split: if_splits dest: Fails_transaction_tables)
      with t True run show ?thesis by (simp add: failed_step)
    next
      case (Inr pf)
      with run have R: "Returns (FinalizePaidOrder_with True ev recharge_find recharge_credit i tradeNo paidAt now) s pf t"
        by (simp add: Returns_def FinalizePaidOrder_def)
      from s have p: "payment_state_ok s" by (simp add: good_def)
      from wallet_recharge.FinalizePaidOrder_effect [OF p R] obtain o' where
        "order_settled recharge_books user_funds i tradeNo paidAt now pf o' (tables s) (tables t)" by blast
      from settled_step [OF _ _ assms t refl this] s True run show ?thesis by simp
    qed
  qed simp
qed

lemma only_events: "D' = D\<lparr>events := es\<rparr> \<Longrightarrow> pay_orders D' = pay_orders D"
  by simp

lemma guards_resolve:
  assumes "0 < cer_PaidOrderID cr \<Longrightarrow> may_settle C K (cer_PaidOrderID cr)"
  shows "safe C K (ResolveCallbackEvent c ev cr)"
proof (cases c)
  case False
  then show ?thesis by (simp add: unconfigured guards_throw)
next
  case True
  show ?thesis unfolding guards_def
  proof (intro allI impI conjI)
    fix s :: "'b payment_tables_scheme world" assume s: "good s \<and> known K s"
    obtain r t where run: "ResolveCallbackEvent True ev cr s = (r, t)" by fastforce
    have t: "good t" "pay_advances recharge_books (tables s) (tables t)"
      using payment_call_ok [of s "PayResolveEvent cr" ev] s run by (simp_all add: good_def payment_call_def payment_op_ok_def)
    show "pay_step C s (snd (ResolveCallbackEvent c ev cr s))"
    proof (cases r)
      case (Inl e)
      with run have "Fails (ResolveCallbackEvent True ev cr) s e t" by (simp add: Fails_def)
      then have "tables t = tables s"
        by (auto simp: ResolveCallbackEvent_def ResolveCallbackEvent_with_def act_simps split: if_splits dest: Fails_transaction_tables)
      with t True run show ?thesis by (simp add: failed_step)
    next
      case (Inr res)
      with run have "Returns (ResolveCallbackEvent_with True ev recharge_find recharge_credit cr) s res t"
        by (simp add: Returns_def ResolveCallbackEvent_def)
      then obtain u where u: "Returns (resolve_event ev recharge_find recharge_credit cr) (sent s) res u" "t = sent u"
        by (auto simp: ResolveCallbackEvent_with_def Returns_transaction act_simps split: if_splits)
      from s have "payment_state_ok s" by (simp add: good_def)
      then have ok: "payment_state_ok (sent s)" by (rule wallet_recharge.pay_ok_same) simp_all
      note E = wallet_recharge.resolve_event_effect [OF ok u(1)]
      show ?thesis
      proof (cases "crr_Replay res \<or> cer_PaidOrderID cr \<le> 0")
        case True
        have "pay_orders (tables t) = pay_orders (tables s)"
          using only_events [OF E(3) [OF True]] by (simp add: u(2))
        with t \<open>c\<close> run show ?thesis by (simp add: pay_step_def)
      next
        case False
        then have "\<not> crr_Replay res" "0 < cer_PaidOrderID cr" by simp_all
        from E(2) [OF this] obtain pf o' D where D: "tables u = D\<lparr>events := events (tables u)\<rparr>" "order_settled recharge_books user_funds
            (cer_PaidOrderID cr) (cer_AlipayTradeNo cr) (cer_PaidAt cr) (cer_ProcessedAt cr) pf o' (tables s) D"
          unfolding sent_simps by (elim exE conjE) (rule that)
        have "pay_orders (tables t) = pay_orders D" using only_events [OF D(1)] by (simp add: u(2))
        from settled_step [OF _ _ assms [OF \<open>0 < cer_PaidOrderID cr\<close>] t this D(2)] s \<open>c\<close> run show ?thesis by simp
      qed
    qed
  qed simp
qed

section \<open>What a read tells\<close>

definition order_facts :: "Order \<Rightarrow> pay_fact set" where
  "order_facts x = insert (Numbered (o_ID x) (o_OrderNo x) (o_AmountCents x))
     (if o_Status x = orderStatusPaid then {IsPaid (o_ID x)} else {})"

definition recharge_facts :: "RechargeWithOrder \<Rightarrow> pay_fact set" where
  "recharge_facts x = (if ro_OrderStatus x = orderStatusPaid then {IsPaid (r_PaymentOrderID (ro_Recharge x))} else {})"

lemma known_order_facts: "x \<in> set (pay_orders (tables s)) \<Longrightarrow> known (order_facts x) s"
  by (auto simp: known_def order_facts_def)

lemma known_recharge_facts: "x \<in> set (rechargeJoinQuery (tables s)) \<Longrightarrow> known (recharge_facts x) s"
  by (auto simp: known_def recharge_facts_def rechargeJoinQuery_def recharge_with_order_def)

lemma known_tables: "tables t = tables s \<Longrightarrow> known K t = known K s"
proof -
  assume "tables t = tables s"
  then have "fulfils t k = fulfils s k" for k by (cases k) simp_all
  then show ?thesis by (simp add: known_def)
qed

lemma guards_read:
  fixes m :: "('e, 'z payment_tables_scheme world, 'a) act"
  assumes "keeps (\<lambda>d. d) m" "grows m"
    and "\<And>s t a. Returns m (s :: 'z payment_tables_scheme world) a t \<Longrightarrow> good s \<Longrightarrow> F a \<and> known (G a) s"
  shows "guards C K m (\<lambda>a t. F a \<and> known (G a) t)"
  unfolding guards_def
proof (intro allI impI)
  fix s :: "'z payment_tables_scheme world" assume s: "good s \<and> known K s"
  have "pay_step C s (snd (m s))" using guards_quiet [OF assms(1,2)] s unfolding guards_def by blast
  moreover have "F a \<and> known (G a) t" if "m s = (Inr a, t)" for a t
  proof -
    have "tables t = tables s" using assms(1) that unfolding keeps_def by (metis snd_conv)
    moreover have "Returns m s a t" using that by (simp add: Returns_def)
    ultimately show ?thesis using assms(3) s known_tables by blast
  qed
  ultimately show "pay_step C s (snd (m s)) \<and> (\<forall>a t. m s = (Inr a, t) \<longrightarrow> F a \<and> known (G a) t)" by blast
qed

lemma optional_first_quiet [keeps_intros, grows_intros]:
  "keeps f (optional_first ev get P)" "grows (optional_first ev get P)"
  unfolding optional_first_def by (intro keeps_intros grows_intros)+

lemma optional_first_found: "Returns (optional_first ev get P) s (Some x) t \<Longrightarrow> x \<in> set (get (tables s)) \<and> P x"
  by (auto simp: optional_first_def act_simps dest: find_SomeD split: if_splits)

text \<open>Reads that only matter for what the service answers\<close>

lemma quiet_service [keeps_intros, grows_intros]:
  "keeps f (payment_requireRepository pe)" "grows (payment_requireRepository pe)"
  "keeps f (requireGateway pe)" "grows (requireGateway pe)"
  "keeps f (payment_now pe)" "grows (payment_now pe)"
  unfolding payment_requireRepository_def requireGateway_def payment_now_def
  by (intro keeps_intros grows_intros)+

lemma wrapped_frame [keeps_intros, grows_intros]:
  "keeps f m \<Longrightarrow> keeps f (wrapped message m)" "grows m \<Longrightarrow> grows (wrapped message m)"
  unfolding wrapped_def by (intro keeps_intros grows_intros; assumption)+

lemma quiet_configs [keeps_intros, grows_intros]:
  "keeps f (GetConfig c ev i)" "grows (GetConfig c ev i)"
  "keeps f (GetConfigByCode c ev code)" "grows (GetConfigByCode c ev code)"
  "keeps f (GetConfigByIDForSettlement c ev i)" "grows (GetConfigByIDForSettlement c ev i)"
  "keeps f (FirstEnabledConfigForPay c ev provider payMethod)" "grows (FirstEnabledConfigForPay c ev provider payMethod)"
  "keeps f (ListEnabledOrderConfigOptions c ev)" "grows (ListEnabledOrderConfigOptions c ev)"
  "keeps f (repository_ListConfigs c ev dir cq)" "grows (repository_ListConfigs c ev dir cq)"
  "keeps f (ListRechargePackages c ev)" "grows (ListRechargePackages c ev)"
  "keeps f (GetRechargePackageByCode c ev code)" "grows (GetRechargePackageByCode c ev code)"
  "keeps f (repository_ListOrders c ev dir oq)" "grows (repository_ListOrders c ev dir oq)"
  "keeps f (repository_ListRecharges c ev dir rq)" "grows (repository_ListRecharges c ev dir rq)"
  unfolding GetConfig_def GetConfigByCode_def GetConfigByIDForSettlement_def FirstEnabledConfigForPay_def
    ListEnabledOrderConfigOptions_def repository_ListConfigs_def ListRechargePackages_def GetRechargePackageByCode_def
    repository_ListOrders_def repository_ListRecharges_def Let_def
  by (simp_all only: split_beta) (intro keeps_intros grows_intros)+

lemma quiet_gateway [keeps_intros, grows_intros]:
  "keeps f (gatewayConfigFromConfig pe cfg)" "grows (gatewayConfigFromConfig pe cfg)"
  "keeps f (configByOrder pe x)" "grows (configByOrder pe x)"
  "keeps f (enabledConfigByCode pe code)" "grows (enabledConfigByCode pe code)"
  "keeps f (testConfigRow pe cfg)" "grows (testConfigRow pe cfg)"
  "keeps f (config_by_id pe i)" "grows (config_by_id pe i)"
proof -
  show g: "keeps f (gatewayConfigFromConfig pe cfg)" "grows (gatewayConfigFromConfig pe cfg)" for f cfg
    unfolding gatewayConfigFromConfig_def by (intro keeps_intros grows_intros)+
  show "keeps f (configByOrder pe x)" "grows (configByOrder pe x)" "keeps f (enabledConfigByCode pe code)"
    "grows (enabledConfigByCode pe code)" "keeps f (config_by_id pe i)" "grows (config_by_id pe i)"
    unfolding configByOrder_def enabledConfigByCode_def config_by_id_def by (intro keeps_intros grows_intros)+
  show "keeps f (testConfigRow pe cfg)" "grows (testConfigRow pe cfg)"
    unfolding testConfigRow_def by (intro keeps_intros grows_intros g)+
qed

text \<open>Reads whose rows are used for a settlement\<close>

definition facts_of :: "('r \<Rightarrow> pay_fact set) \<Rightarrow> 'r option \<Rightarrow> pay_fact set" where
  "facts_of f r = (case r of None \<Rightarrow> {} | Some x \<Rightarrow> f x)"

lemma known_found: "(\<And>x. r = Some x \<Longrightarrow> known (f x) s) \<Longrightarrow> known (facts_of f r) s"
  by (cases r) (simp_all add: facts_of_def)

lemma read_orders:
  "guards C K (GetOrder c ev i) (\<lambda>r t. True \<and> known (facts_of order_facts r) t)"
  "guards C K (GetOrderByNo c ev no) (\<lambda>r t. True \<and> known (facts_of order_facts r) t)"
proof -
  show "guards C K (GetOrder c ev i) (\<lambda>r t. True \<and> known (facts_of order_facts r) t)"
  proof (rule guards_read)
    show "keeps (\<lambda>d. d) (GetOrder c ev i)" "grows (GetOrder c ev i)"
      unfolding GetOrder_def by (intro keeps_intros grows_intros)+
    show "True \<and> known (facts_of order_facts a) s" if "Returns (GetOrder c ev i) s a t" for s t a
      using that by (auto simp: GetOrder_def act_simps split: if_splits
          intro!: known_found known_order_facts dest: optional_first_found)
  qed
  show "guards C K (GetOrderByNo c ev no) (\<lambda>r t. True \<and> known (facts_of order_facts r) t)"
  proof (rule guards_read)
    show "keeps (\<lambda>d. d) (GetOrderByNo c ev no)" "grows (GetOrderByNo c ev no)"
      unfolding GetOrderByNo_def by (intro keeps_intros grows_intros)+
    show "True \<and> known (facts_of order_facts a) s" if "Returns (GetOrderByNo c ev no) s a t" for s t a
      using that by (auto simp: GetOrderByNo_def act_simps split: if_splits
          intro!: known_found known_order_facts dest: optional_first_found)
  qed
qed

lemma read_recharge:
  "guards C K (GetRecharge c ev u i) (\<lambda>r t. (\<forall>x. r = Some x \<longrightarrow> r_UserID (ro_Recharge x) = u) \<and> known (facts_of recharge_facts r) t)"
proof (rule guards_read)
  show "keeps (\<lambda>d. d) (GetRecharge c ev u i)" "grows (GetRecharge c ev u i)"
    unfolding GetRecharge_def by (intro keeps_intros grows_intros)+
  show "(\<forall>x. a = Some x \<longrightarrow> r_UserID (ro_Recharge x) = u) \<and> known (facts_of recharge_facts a) s"
    if "Returns (GetRecharge c ev u i) s a t" for s t a
    using that by (auto simp: GetRecharge_def act_simps split: if_splits
        intro!: known_found known_recharge_facts dest: optional_first_found)
qed

lemma read_recharge_of_order: "safe C K (GetRechargeByOrderID c ev i)"
  unfolding GetRechargeByOrderID_def by (rule guards_quiet; intro keeps_intros grows_intros)

lemma known_Union: "(\<And>x. x \<in> set rows \<Longrightarrow> known (f x) s) \<Longrightarrow> known (\<Union>x \<in> set rows. f x) s"
  by (auto simp: known_def)

lemma read_lists:
  "guards C K (ListPendingPayingOrders c ev cutoff n) (\<lambda>rows t. True \<and> known (\<Union>x \<in> set rows. order_facts x) t)"
  "guards C K (ListExpiredOpenOrders c ev now n) (\<lambda>rows t. True \<and> known (\<Union>x \<in> set rows. order_facts x) t)"
  "guards C K (ListUncreditedPaidRecharges c ev n) (\<lambda>rows t. list_all uncredited_paid rows \<and> known (\<Union>x \<in> set rows. recharge_facts x) t)"
proof -
  show "guards C K (ListPendingPayingOrders c ev cutoff n) (\<lambda>rows t. True \<and> known (\<Union>x \<in> set rows. order_facts x) t)"
  proof (rule guards_read)
    show "keeps (\<lambda>d. d) (ListPendingPayingOrders c ev cutoff n)" "grows (ListPendingPayingOrders c ev cutoff n)"
      unfolding ListPendingPayingOrders_def by (intro keeps_intros grows_intros)+
    show "True \<and> known (\<Union>x \<in> set a. order_facts x) s" if "Returns (ListPendingPayingOrders c ev cutoff n) s a t" for s t a
      using that by (auto simp: ListPendingPayingOrders_def act_simps split: if_splits
          intro!: known_Union known_order_facts dest: in_set_takeD)
  qed
  show "guards C K (ListExpiredOpenOrders c ev now n) (\<lambda>rows t. True \<and> known (\<Union>x \<in> set rows. order_facts x) t)"
  proof (rule guards_read)
    show "keeps (\<lambda>d. d) (ListExpiredOpenOrders c ev now n)" "grows (ListExpiredOpenOrders c ev now n)"
      unfolding ListExpiredOpenOrders_def by (intro keeps_intros grows_intros)+
    show "True \<and> known (\<Union>x \<in> set a. order_facts x) s" if "Returns (ListExpiredOpenOrders c ev now n) s a t" for s t a
      using that by (auto simp: ListExpiredOpenOrders_def act_simps split: if_splits
          intro!: known_Union known_order_facts dest!: in_set_takeD)
  qed
  show "guards C K (ListUncreditedPaidRecharges c ev n) (\<lambda>rows t. list_all uncredited_paid rows \<and> known (\<Union>x \<in> set rows. recharge_facts x) t)"
  proof (rule guards_read)
    show "keeps (\<lambda>d. d) (ListUncreditedPaidRecharges c ev n)" "grows (ListUncreditedPaidRecharges c ev n)"
      unfolding ListUncreditedPaidRecharges_def by (intro keeps_intros grows_intros)+
    show "list_all uncredited_paid a \<and> known (\<Union>x \<in> set a. recharge_facts x) s"
      if "Returns (ListUncreditedPaidRecharges c ev n) s a t" for s t a
      using that by (auto simp: ListUncreditedPaidRecharges_def act_simps list_all_iff split: if_splits
          intro!: known_Union known_recharge_facts dest!: in_set_takeD)
  qed
qed

section \<open>Wallets and numbers\<close>

lemma grows_getOrCreate: "grows (getOrCreateWallet ev u)"
  unfolding getOrCreateWallet_def create_wallet_def getWalletByUserID_def by (intro grows_intros)

lemma getOrCreateWallet_state:
  assumes "wallet_state_ok s" "0 < u" shows "wallet_state_ok (snd (getOrCreateWallet ev u s))"
proof (cases "getOrCreateWallet ev u s")
  case (Pair r t)
  show ?thesis
  proof (cases r)
    case (Inl e)
    with Pair have "Fails (getOrCreateWallet ev u) s e t" by (simp add: Fails_def)
    then have "tables t = tables s"
      by (auto simp: getOrCreateWallet_def getWalletByUserID_def act_simps same_tables_def split: if_splits dest: failed_inserts(1))
    then show ?thesis using assms(1) wallet_state_ok_frame [of s t] growsE [OF grows_getOrCreate Pair] by (simp add: Pair)
  next
    case (Inr w)
    with Pair have "Returns (getOrCreateWallet ev u) s w t" by (simp add: Returns_def)
    from getOrCreateWallet_effect [OF assms this] show ?thesis by (simp add: Pair)
  qed
qed

lemma guards_wallet:
  assumes "0 < u" shows "safe C K (payment_wallet pe message u)"
proof -
  have "safe C K (getOrCreateWallet (pe_db pe) u)"
  proof (rule guards_frame [OF _ _ grows_getOrCreate getOrCreateWallet_state [OF _ assms]])
    show "keeps payment_part (getOrCreateWallet (pe_db pe) u)" "keeps code_part (getOrCreateWallet (pe_db pe) u)"
      by (intro keeps_intros; auto simp: blind_to_def payment_part_def code_part_def)+
  qed
  then show ?thesis unfolding payment_wallet_def GetOrCreateWallet_def wrapped_def
    by (auto intro: guards_cases guards_throw guards_map_error)
qed

lemma guards_serial: "safe C K (newPaymentOrderNo pe now)" "safe C K (newPaymentRechargeNo pe now)"
  unfolding newPaymentOrderNo_def newPaymentRechargeNo_def
  by (rule guards_quiet; simp add: keeps_def grows_def serialno_New_def Let_def)+

end
