(* ===== verification/PaymentServiceSteps.thy ===== *)
theory PaymentServiceSteps
  imports PaymentServiceLaws
begin

text \<open>
  Every operation of the payment service, verified along its structure with the rules of
  PaymentServiceLaws, and histories of operations: whatever is called, with whatever answers of the
  gateway and whatever statements fail, the books agree and an order becomes paid only when the
  gateway has confirmed it.
\<close>

section \<open>Orders\<close>

text \<open>What the gateway has confirmed: a query for the order number that reports it paid, or a verified
  notification of that number, amount and outcome.\<close>

definition confirmed :: "payment_env \<Rightarrow> (string \<times> int) set" where
  "confirmed pe = {(no, n). \<exists>gw k cfg. pe_gateway pe = Some gw \<and>
     ((\<exists>answered. gw_Query gw k cfg no = Inr answered \<and> trade_paid (trim_space (resultStatus answered))) \<or>
      (\<exists>form payload. gw_VerifyNotify gw k cfg form = Inr (Some payload) \<and> trade_paid (trim_space (np_TradeStatus payload)) \<and>
         trim_space (np_OutTradeNo payload) = trim_space no \<and> np_TotalAmountCents payload = n))}"

lemma confirmed_query:
  "pe_gateway pe = Some gw \<Longrightarrow> gw_Query gw k cfg no = Inr answered \<Longrightarrow> trade_paid (trim_space (resultStatus answered)) \<Longrightarrow>
     (no, n) \<in> confirmed pe"
  unfolding confirmed_def by blast

lemma confirmed_notify:
  "pe_gateway pe = Some gw \<Longrightarrow> gw_VerifyNotify gw k cfg form = Inr (Some payload) \<Longrightarrow>
     trade_paid (trim_space (np_TradeStatus payload)) \<Longrightarrow> trim_space (np_OutTradeNo payload) = trim_space no \<Longrightarrow>
     np_TotalAmountCents payload = n \<Longrightarrow> (no, n) \<in> confirmed pe"
  unfolding confirmed_def by blast

lemma may_settle_order: "order_facts x \<subseteq> K \<Longrightarrow> (o_OrderNo x, o_AmountCents x) \<in> C \<Longrightarrow> may_settle C K (o_ID x)"
  by (auto simp: may_settle_def order_facts_def)

text \<open>What \<open>ask\<close> returns is an answer of the one asked.\<close>

lemma ask_answer: "guards C K (ask f) (\<lambda>a t. (\<exists>k. f k = Inr a) \<and> known {} t)"
  by (rule guards_read; (intro keeps_intros grows_intros)?) (auto simp: Returns_def ask_def)

lemma guards_either_ask:
  assumes "\<And>e. guards C K (h e) R" "\<And>a k. f k = Inr a \<Longrightarrow> guards C K (g a) R"
  shows "guards C K (either (ask f) h g) R"
  by (rule guards_either_known [OF ask_answer assms(1)]) (use assms(2) in auto)

lemma guards_wrapped: "guards C K m Q \<Longrightarrow> guards C K (wrapped message m) Q"
  unfolding wrapped_def by (rule guards_map_error)

lemma known_some: "known (K \<union> facts_of f (Some x)) s \<Longrightarrow> known (f x) s"
  by (simp add: known_Un facts_of_def)

lemma guards_require: "safe C K (payment_requireRepository pe)" "safe C K (requireGateway pe)"
  by (rule guards_quiet; intro keeps_intros grows_intros)+

lemma guards_done: "safe C K (ret a)"
  by (rule guards_ret) simp

lemma read_orderByID: "guards C K (orderByID pe i) (\<lambda>x t. True \<and> known (order_facts x) t)"
  unfolding orderByID_def
  by (rule guards_cases guards_throw guards_bind [OF guards_require(1)] guards_bind_known [OF guards_wrapped [OF read_orders(1)]]
      | rule guards_ret, simp, erule known_some)+

lemma guards_bind_order:
  "(\<And>x. guards C (K \<union> order_facts x) (f x) R) \<Longrightarrow> guards C K (bind (orderByID pe i) f) R"
  by (rule guards_bind_known [OF read_orderByID])

lemma guards_bind_gateway:
  assumes "\<And>cfg gw. pe_gateway pe = Some gw \<Longrightarrow> guards C K (f (cfg, gw)) R"
  shows "guards C K (bind (gateway_of pe x) f) R"
proof (rule guards_bind_known)
  show "guards C K (gateway_of pe x) (\<lambda>p t. pe_gateway pe = Some (snd p) \<and> known {} t)"
    by (rule guards_read; unfold gateway_of_def; (intro keeps_intros grows_intros)?)
      (auto simp: act_simps requireGateway_def split: option.splits)
  show "guards C (K \<union> {}) (f p) R" if "pe_gateway pe = Some (snd p)" for p using assms [of "snd p" "fst p"] that by simp
qed

lemma guards_FinalizeOrderPaid: "may_settle C K i \<Longrightarrow> safe C K (FinalizeOrderPaid pe i tradeNo paidAt source)"
  unfolding FinalizeOrderPaid_def
  by (rule guards_cases guards_throw guards_done guards_bind guards_require guards_ask guards_map_error guards_finalize | assumption)+

lemma guards_closeLinked: "safe C K (closeOrderAndLinkedRecharge pe i time)"
  unfolding closeOrderAndLinkedRecharge_def
  by (rule guards_cases guards_throw guards_done guards_bind guards_either guards_wrapped guards_map_error
      guards_statements guards_safe [OF read_orders(1)] read_recharge_of_order)+

lemma guards_pair: "guards C K (f a b) Q \<Longrightarrow> guards C K (case (a, b) of (x, y) \<Rightarrow> f x y) Q"
  by simp

lemmas guards_rules = guards_pair guards_cases guards_throw guards_done guards_either_ask guards_bind_order guards_bind_gateway
  guards_bind guards_either guards_wrapped guards_map_error guards_require guards_ask guards_statements
  guards_serial guards_closeLinked

lemma guards_payChanged: "safe C K (payOrderChangedResponse pe i)"
  unfolding payOrderChangedResponse_def by (rule guards_rules)+

lemma guards_payFailure: "safe C K (payOrderFailureResponse pe i reason)"
  unfolding payOrderFailureResponse_def by (rule guards_rules guards_payChanged)+

lemma guards_pay_through: "safe C K (pay_through pe x)"
  unfolding pay_through_def Let_def by (rule guards_rules guards_payChanged guards_payFailure)+

lemma guards_PayOrder: "safe C K (PayOrder pe i)"
  unfolding PayOrder_def by (rule guards_rules guards_pay_through)+

lemma guards_read_quiet:
  "safe C K (enabledConfigByCode pe code)" "safe C K (configByOrder pe x)" "safe C K (gatewayConfigFromConfig pe cfg)"
  "safe C K (testConfigRow pe cfg)" "safe C K (config_by_id pe i)" "safe C K (GetRechargePackageByCode c ev code)"
  "safe C K (FirstEnabledConfigForPay c ev provider payMethod)" "safe C K (ListRechargePackages c ev)"
  "safe C K (ListEnabledOrderConfigOptions c ev)" "safe C K (repository_ListConfigs c ev dir cq)"
  "safe C K (repository_ListOrders c ev dir oq)" "safe C K (repository_ListRecharges c ev dir rq)"
  by (rule guards_quiet; intro keeps_intros grows_intros)+

lemma new_order_row: "new_order (order_row no cfg method' subject n url expiry)"
  by (simp add: new_order_def order_row_def)

lemma guards_CreateOrder: "safe C K (service_CreateOrder pe input)"
  unfolding service_CreateOrder_def Let_def by (rule guards_read_quiet guards_rules new_order_row)+

lemma guards_SyncOrder: "safe (confirmed pe) K (SyncOrder pe i)"
proof -
  have settle: "safe (confirmed pe) (K \<union> order_facts x) (FinalizeOrderPaid pe (o_ID x) tradeNo paidAt source)"
    if "pe_gateway pe = Some gw" "gw_Query gw k cfg (o_OrderNo x) = Inr answered" "trade_paid (trim_space (resultStatus answered))"
    for x tradeNo paidAt source gw k cfg answered
    by (rule guards_FinalizeOrderPaid [OF may_settle_order [OF Un_upper2 confirmed_query [OF that]]])
  show ?thesis unfolding SyncOrder_def Let_def
    by (rule guards_rules settle | assumption)+
qed

lemma guards_CloseOrder: "safe C K (CloseOrder pe i)"
  unfolding CloseOrder_def Let_def by (rule guards_rules)+

section \<open>Recharges\<close>

definition of_user :: "int \<Rightarrow> RechargeWithOrder \<Rightarrow> bool" where
  "of_user u x \<longleftrightarrow> 0 < r_UserID (ro_Recharge x) \<and> r_UserID (ro_Recharge x) = u"

lemma read_rechargeByID:
  "guards C K (rechargeByID pe u i) (\<lambda>x t. of_user u x \<and> known (recharge_facts x) t)"
proof -
  have found: "guards C (K \<union> facts_of recharge_facts row) (case row of None \<Rightarrow> throw err | Some x \<Rightarrow> ret x)
      (\<lambda>x t. of_user u x \<and> known (recharge_facts x) t)"
    if "\<not> u \<le> 0" "\<forall>x. row = Some x \<longrightarrow> r_UserID (ro_Recharge x) = u" for row and err :: pay_app_error
    by (rule guards_cases(2), rule guards_throw, rule guards_ret) (use that known_some in \<open>auto simp: of_user_def\<close>)
  show ?thesis unfolding rechargeByID_def
    by (rule guards_cases(1) guards_throw found guards_bind [OF guards_require(1)] guards_bind_known [OF guards_wrapped [OF read_recharge]]
        | assumption)+
qed

lemma guards_bind_recharge:
  "(\<And>x. of_user u x \<Longrightarrow> guards C (K \<union> recharge_facts x) (f x) R) \<Longrightarrow> guards C K (bind (rechargeByID pe u i) f) R"
  by (rule guards_bind_known [OF read_rechargeByID])

lemma guards_payChangedRecharge: "safe C K (rechargePayChangedResponse pe u i)"
  unfolding rechargePayChangedResponse_def by (rule guards_bind_recharge guards_rules)+

lemma guards_payRechargeRow: "safe C K (payRechargeRow pe x)"
  unfolding payRechargeRow_def Let_def
  by (rule guards_either [OF guards_PayOrder] guards_rules guards_payChangedRecharge)+

lemma guards_PayRecharge: "safe C K (PayRecharge pe u i)"
  unfolding PayRecharge_def by (rule guards_bind_recharge guards_payRechargeRow)+

lemma guards_CreateRecharge: "safe C K (service_CreateRecharge pe input)"
proof -
  have new: "new_recharge (recharge_row no u pkg) (order_row no' cfg method' subject (p_AmountCents pkg) url expiry)"
    for no u pkg no' cfg method' subject url expiry
    by (simp add: new_recharge_def recharge_row_def order_row_def)
  have wallet: "\<not> rn_UserID input \<le> 0 \<Longrightarrow> safe C K' (payment_wallet pe message (rn_UserID input))" for K' message
    by (rule guards_wallet) simp
  show ?thesis unfolding service_CreateRecharge_def recharge_created_def Let_def
    by (rule guards_read_quiet wallet guards_rules new_order_row new guards_payRechargeRow | assumption)+
qed

lemma guards_reply: "safe C K (rechargeStatusReply pe x w)"
  unfolding rechargeStatusReply_def by (rule guards_rules)+

lemma guards_syncRechargeRow:
  assumes "0 < r_UserID (ro_Recharge x)" "recharge_facts x \<subseteq> K"
  shows "safe (confirmed pe) K (syncRechargeRow pe x)"
proof -
  have settle: "safe (confirmed pe) L (FinalizeOrderPaid pe (r_PaymentOrderID (ro_Recharge y)) tradeNo paidAt source)"
    if "\<not> ro_OrderStatus y \<noteq> orderStatusPaid" "recharge_facts y \<subseteq> L" for y L tradeNo paidAt source
    by (rule guards_FinalizeOrderPaid) (use that in \<open>simp add: may_settle_def recharge_facts_def\<close>)
  have wallet: "of_user u y \<Longrightarrow> safe (confirmed pe) K' (payment_wallet pe message (r_UserID (ro_Recharge y)))" for K' y u message
    by (rule guards_wallet) (simp add: of_user_def)
  have fresh: "guards (confirmed pe) K (if ro_OrderStatus x = orderStatusPaying then
               bind (SyncOrder pe (r_PaymentOrderID (ro_Recharge x))) (\<lambda>_.
               rechargeByID pe (r_UserID (ro_Recharge x)) (r_ID (ro_Recharge x)))
             else ret x) (\<lambda>y t. True \<and> known (recharge_facts y) t)"
    by (rule guards_cases(1); (rule guards_bind [OF guards_SyncOrder], rule guards_weaken [OF read_rechargeByID], simp)?)
      (rule guards_ret, use assms(2) known_mono in blast)
  show ?thesis unfolding syncRechargeRow_def
    by (rule guards_reply guards_bind_known [OF fresh] guards_bind [OF guards_wallet [OF assms(1)]] guards_bind [OF wallet] guards_bind [OF settle] guards_bind_recharge guards_rules
        | assumption | rule Un_upper2)+
qed

lemma guards_SyncRecharge: "safe (confirmed pe) K (SyncRecharge pe u i)"
  unfolding SyncRecharge_def
  by (rule guards_bind_recharge, rule guards_syncRechargeRow) (simp_all add: of_user_def)

lemma guards_CloseRecharge: "safe C K (CloseRecharge pe u i)"
proof -
  have wallet: "of_user u y \<Longrightarrow> safe C K' (payment_wallet pe message u)" for K' y message
    by (rule guards_wallet) (simp add: of_user_def)
  show ?thesis unfolding CloseRecharge_def Let_def
    by (rule guards_bind_recharge guards_reply guards_bind [OF guards_CloseOrder] guards_bind [OF wallet] guards_rules | assumption)+
qed

lemma guards_RechargePageInit: "safe C K (RechargePageInit pe u)"
proof -
  have wallet: "\<not> u \<le> 0 \<Longrightarrow> safe C K' (payment_wallet pe message u)" for K' message
    by (rule guards_wallet) simp
  show ?thesis unfolding RechargePageInit_def firstAvailableRechargeConfig_def
    by (rule guards_bind [OF wallet] guards_read_quiet guards_rules | assumption)+
qed

section \<open>Notifications\<close>

lemma judge_verified_pays:
  assumes "0 < vd_OrderID (judge_verified cfg x payload)"
  shows "vd_OrderID (judge_verified cfg x payload) = o_ID x \<and> trade_paid (trim_space (np_TradeStatus payload)) \<and>
    trim_space (np_OutTradeNo payload) = trim_space (o_OrderNo x) \<and> np_TotalAmountCents payload = o_AmountCents x \<and>
    trim_space (np_AppID payload) = trim_space (cf_AppID cfg)"
  using assms by (auto simp: judge_verified_def Let_def refuse_def split: if_splits)

definition verdict_known :: "(string \<times> int) set \<Rightarrow> verdict \<Rightarrow> 'z payment_tables_scheme world \<Rightarrow> bool" where
  "verdict_known C v s \<longleftrightarrow> (\<exists>L. (0 < vd_OrderID v \<longrightarrow> may_settle C L (vd_OrderID v)) \<and> known L s)"

lemma guards_verdict:
  assumes "0 < vd_OrderID v \<Longrightarrow> may_settle C K (vd_OrderID v)" shows "guards C K (ret v) (verdict_known C)"
  by (rule guards_ret) (use assms in \<open>auto simp: verdict_known_def\<close>)

lemma guards_refused: "guards C K (ret (refuse valid status message)) (verdict_known C)"
  by (rule guards_verdict) (simp add: refuse_def)

lemma judge_known: "guards (confirmed pe) K (judge pe form) (verdict_known (confirmed pe))"
proof -
  have pays: "guards (confirmed pe) L (ret (case verified of None \<Rightarrow> refuse CommonNo callbackProcessFailed message
        | Some payload \<Rightarrow> judge_verified cfg x payload)) (verdict_known (confirmed pe))"
    if "pe_gateway pe = Some gw" "gw_VerifyNotify gw k channel form = Inr verified" "order_facts x \<subseteq> L" for gw k channel x L verified message cfg
  proof (cases verified)
    case None
    then show ?thesis by (simp add: guards_refused)
  next
    case (Some payload)
    have pays: "may_settle (confirmed pe) L (vd_OrderID (judge_verified cfg x payload))" if "0 < vd_OrderID (judge_verified cfg x payload)"
      using judge_verified_pays [OF that] may_settle_order \<open>order_facts x \<subseteq> L\<close>
        confirmed_notify \<open>pe_gateway pe = Some gw\<close> \<open>gw_VerifyNotify gw k channel form = Inr verified\<close> [unfolded Some] by metis
    show ?thesis unfolding Some option.case by (rule guards_verdict) (rule pays)
  qed
  have gateway: "guards C L (bind (gatewayConfigFromConfig pe cfg) (\<lambda>platformCfg. bind (requireGateway pe) (\<lambda>gw. ret (platformCfg, gw))))
      (\<lambda>p t. pe_gateway pe = Some (snd p) \<and> known {} t)" for C L cfg
    by (rule guards_read; (intro keeps_intros grows_intros)?)
      (auto simp: act_simps requireGateway_def split: option.splits)
  have ask: "guards (confirmed pe) L (either (ask (\<lambda>k. gw_VerifyNotify (snd p) k (fst p) form)) h g) (verdict_known (confirmed pe))"
    if "pe_gateway pe = Some (snd p)" "\<And>e. guards (confirmed pe) L (h e) (verdict_known (confirmed pe))"
      "\<And>a k. gw_VerifyNotify (snd p) k (fst p) form = Inr a \<Longrightarrow> guards (confirmed pe) L (g a) (verdict_known (confirmed pe))" for L p h g
    by (rule guards_either_ask) (use that in auto)
  show ?thesis unfolding judge_def
  proof (rule guards_either_known [OF read_orders(2)])
    fix found :: "Order option"
    let ?L = "K \<union> facts_of order_facts found"
    show "guards (confirmed pe) ?L (case found of None \<Rightarrow> ret (refuse CommonNo callbackProcessIgnored (encode_runes [25903, 20184, 35746, 21333, 19981, 23384, 22312]))
      | Some order \<Rightarrow>
         either (configByOrder pe order)
           (\<lambda>appErr. ret (refuse CommonNo callbackProcessFailed (ae_Message appErr)))
           (\<lambda>cfg.
         either (bind (gatewayConfigFromConfig pe cfg) (\<lambda>platformCfg. bind (requireGateway pe) (\<lambda>gw. ret (platformCfg, gw))))
           (\<lambda>appErr. ret (refuse CommonNo callbackProcessFailed (ae_Message appErr)))
           (\<lambda>(platformCfg, gw).
         either (ask (\<lambda>k. gw_VerifyNotify gw k platformCfg form))
           (\<lambda>verifyErr. ret (refuse CommonNo callbackProcessFailed verifyErr))
           (\<lambda>verified. ret (case verified of
              None \<Rightarrow> refuse CommonNo callbackProcessFailed (encode_runes [25903, 20184, 23453, 22238, 35843, 20026, 31354])
            | Some payload \<Rightarrow> judge_verified cfg order payload))))) (verdict_known (confirmed pe))"
    proof (cases found)
      case None
      then show ?thesis by (simp add: guards_refused)
    next
      case (Some x)
      show ?thesis unfolding Some option.case
      proof (rule guards_either [OF guards_read_quiet(2) guards_refused], rule guards_either_known [OF gateway guards_refused])
        fix cfg and p :: "ChannelConfig \<times> gateway" assume "pe_gateway pe = Some (snd p)"
        then show "guards (confirmed pe) (K \<union> facts_of order_facts (Some x) \<union> {}) (case p of (platformCfg, gw) \<Rightarrow>
           either (ask (\<lambda>k. gw_VerifyNotify gw k platformCfg form))
           (\<lambda>verifyErr. ret (refuse CommonNo callbackProcessFailed verifyErr))
           (\<lambda>verified. ret (case verified of
              None \<Rightarrow> refuse CommonNo callbackProcessFailed (encode_runes [25903, 20184, 23453, 22238, 35843, 20026, 31354])
            | Some payload \<Rightarrow> judge_verified cfg x payload))) (verdict_known (confirmed pe))"
          unfolding split_beta by (rule ask [OF _ guards_refused pays]; simp add: facts_of_def)
      qed
    qed
  qed (rule guards_refused)
qed

lemma guards_resolve_callback:
  assumes "0 < vd_OrderID v \<Longrightarrow> may_settle C K (vd_OrderID v)" shows "safe C K (resolve_callback pe event key v)"
  unfolding resolve_callback_def
  by (rule guards_bind guards_ask guards_done guards_either [OF guards_resolve])+
    (use assms in \<open>simp_all add: resolution_of_def guards_done split: if_splits\<close>)

lemma guards_HandleAlipayCallback: "safe (confirmed pe) K (HandleAlipayCallback pe form)"
proof -
  have judged: "safe (confirmed pe) L (bind (judge pe form) (resolve_callback pe event key))" for L event key
  proof (rule guards_bind_fact)
    show "guards (confirmed pe) L (judge pe form) (\<lambda>v t. \<exists>M. (0 < vd_OrderID v \<longrightarrow> may_settle (confirmed pe) M (vd_OrderID v)) \<and> known M t)"
      by (rule judge_known [unfolded verdict_known_def [abs_def]])
    show "safe (confirmed pe) (L \<union> M) (resolve_callback pe event key v)"
      if "0 < vd_OrderID v \<longrightarrow> may_settle (confirmed pe) M (vd_OrderID v)" for v M
      by (rule guards_resolve_callback) (use that may_settle_more in blast)
  qed
  show ?thesis unfolding HandleAlipayCallback_def Let_def
    by (rule judged guards_rules)+
qed

section \<open>Jobs\<close>

lemma guards_as_job: "guards C K m Q \<Longrightarrow> guards C K (as_job m) Q"
  unfolding as_job_def by (rule guards_map_error)

lemma guards_job_gateway:
  assumes "\<And>cfg gw. pe_gateway pe = Some gw \<Longrightarrow> guards C K (f (cfg, gw)) R"
  shows "guards C K (bind (as_job (gateway_of pe x)) f) R"
proof (rule guards_bind_known)
  show "guards C K (as_job (gateway_of pe x)) (\<lambda>p t. pe_gateway pe = Some (snd p) \<and> known {} t)"
    unfolding as_job_def gateway_of_def
    by (rule guards_read; (intro keeps_intros grows_intros)?)
      (auto simp: act_simps requireGateway_def split: option.splits)
  show "guards C (K \<union> {}) (f p) R" if "pe_gateway pe = Some (snd p)" for p using assms [of "snd p" "fst p"] that by simp
qed

lemmas guards_job_rules = guards_pair guards_cases guards_throw guards_done guards_either_ask guards_job_gateway
  guards_bind guards_as_job guards_map_error guards_require guards_ask guards_closeLinked

lemma guards_syncPendingOrder:
  assumes "order_facts x \<subseteq> K" shows "safe (confirmed pe) K (syncPendingOrder pe x source)"
proof -
  have settle: "safe (confirmed pe) K (FinalizeOrderPaid pe (o_ID x) tradeNo paidAt source)"
    if "pe_gateway pe = Some gw" "gw_Query gw k cfg (o_OrderNo x) = Inr answered" "trade_paid (trim_space (resultStatus answered))"
    for tradeNo paidAt source gw k cfg answered
    by (rule guards_FinalizeOrderPaid [OF may_settle_order [OF assms confirmed_query [OF that]]])
  show ?thesis unfolding syncPendingOrder_def Let_def
    by (rule guards_job_rules settle | assumption)+
qed

lemma guards_closeExpiredOrder:
  assumes "order_facts x \<subseteq> K" shows "safe (confirmed pe) K (closeExpiredOrder pe x)"
  unfolding closeExpiredOrder_def Let_def
  by (rule guards_bind [OF guards_syncPendingOrder [OF assms]] guards_job_rules)+

lemma guards_creditUncredited:
  assumes "recharge_facts x \<subseteq> K" "uncredited_paid x" shows "safe C K (creditUncreditedPaidRecharge pe x)"
  unfolding creditUncreditedPaidRecharge_def
  by (rule guards_FinalizeOrderPaid guards_job_rules)+
    (use assms in \<open>simp_all add: may_settle_def recharge_facts_def uncredited_paid_def guards_done\<close>)

lemma guards_job_rows:
  assumes "\<And>x. x \<in> set rows \<Longrightarrow> safe C K (step x)" shows "safe C K (job_rows step rows result)"
  using assms
proof (induction rows arbitrary: result)
  case Nil
  show ?case by (simp add: guards_done)
next
  case (Cons x rows)
  show ?case unfolding job_rows.simps
    by (rule guards_either [OF Cons.prems [OF list.set_intros(1)]]; rule Cons.IH; rule Cons.prems; simp)
qed

lemma guards_SyncPendingOrders: "safe (confirmed pe) K (SyncPendingOrders pe n)"
proof -
  have pending: "safe (confirmed pe) (L \<union> (\<Union>x \<in> set rows. order_facts x)) (job_rows (\<lambda>x. syncPendingOrder pe x source) rows result)"
    for L rows source result by (rule guards_job_rows, rule guards_syncPendingOrder) auto
  have paid: "safe (confirmed pe) (L \<union> (\<Union>x \<in> set rows. recharge_facts x)) (job_rows (creditUncreditedPaidRecharge pe) rows result)"
    if "list_all uncredited_paid rows" for L rows result
    by (rule guards_job_rows, rule guards_creditUncredited) (use that in \<open>auto simp: list_all_iff\<close>)
  show ?thesis unfolding SyncPendingOrders_def Let_def
    by (rule guards_bind_known [OF guards_map_error [OF read_lists(1)]] guards_bind_known [OF guards_map_error [OF read_lists(3)]]
        pending paid guards_job_rules | assumption)+
qed

lemma guards_CloseExpiredOrders: "safe (confirmed pe) K (CloseExpiredOrders pe n)"
proof -
  have expired: "safe (confirmed pe) (L \<union> (\<Union>x \<in> set rows. order_facts x)) (job_rows (closeExpiredOrder pe) rows result)"
    for L rows result by (rule guards_job_rows, rule guards_closeExpiredOrder) auto
  show ?thesis unfolding CloseExpiredOrders_def Let_def
    by (rule guards_bind_known [OF guards_map_error [OF read_lists(2)]] expired guards_job_rules | assumption)+
qed

section \<open>Configurations\<close>

lemma guards_config_writes:
  "safe C K (repository_CreateConfig c ev cfg)" "safe C K (repository_UpdateConfig c ev cfg keep)"
  "safe C K (repository_ChangeConfigStatus c ev i status)" "safe C K (repository_DeleteConfig c ev i)"
  unfolding repository_CreateConfig_def repository_UpdateConfig_def repository_ChangeConfigStatus_def
    repository_DeleteConfig_def update_config_def
  by (rule guards_cases guards_throw guards_bind guards_map_error guards_config_rows guards_done)+

lemma guards_open_orders: "safe C K (open_orders pe code statuses)"
proof (induction statuses)
  case Nil
  show ?case by (simp add: guards_done)
next
  case (Cons status statuses)
  show ?case unfolding open_orders.simps by (rule Cons.IH guards_read_quiet guards_rules)+
qed

lemma guards_ensure: "safe C K (ensureNoOpenOrdersForConfig pe code)"
  unfolding ensureNoOpenOrdersForConfig_def by (rule guards_open_orders guards_rules)+

lemma guards_bool:
  "(b \<Longrightarrow> guards C K m Q) \<Longrightarrow> (\<not> b \<Longrightarrow> guards C K n Q) \<Longrightarrow> guards C K (case b of True \<Rightarrow> m | False \<Rightarrow> n) Q"
  by (simp split: bool.split)

lemma guards_normalize: "safe C K (normalizeMutation pe input existing create)"
proof -
  have "safe C K' (mutation_key pe key existing create)" for K' key
    unfolding mutation_key_def by (rule guards_bool guards_rules)+
  then show ?thesis unfolding normalizeMutation_def Let_def by - (rule guards_rules | assumption)+
qed

lemma guards_configs:
  "safe C K (service_CreateConfig pe input)" "safe C K (service_UpdateConfig pe i input)"
  "safe C K (service_ChangeConfigStatus pe i status)" "safe C K (service_DeleteConfig pe i)"
  "safe C K (TestConfig pe i)" "safe C K (service_ListConfigs pe cq)"
  unfolding service_CreateConfig_def service_UpdateConfig_def service_ChangeConfigStatus_def service_DeleteConfig_def
    TestConfig_def service_ListConfigs_def Let_def
  by (rule guards_normalize guards_ensure guards_config_writes guards_read_quiet guards_rules)+

section \<open>Histories of operations\<close>

datatype service_op =
    SrvCreateOrder OrderCreateInput
  | SrvPayOrder int
  | SrvSyncOrder int
  | SrvCloseOrder int
  | SrvCreateRecharge RechargeCreateInput
  | SrvPayRecharge int int
  | SrvSyncRecharge int int
  | SrvCloseRecharge int int
  | SrvRechargePage int
  | SrvNotification form
  | SrvSyncPending int
  | SrvCloseExpired int
  | SrvCreateConfig ConfigMutationInput
  | SrvUpdateConfig int ConfigMutationInput
  | SrvConfigStatus int int
  | SrvDeleteConfig int
  | SrvOther redeem_op

text \<open>Redemptions and wallet calls other than the credit of a recharge, which is the settlements' own.\<close>

definition service_op_ok :: "service_op \<Rightarrow> bool" where
  "service_op_ok op = (case op of SrvOther op' \<Rightarrow> payment_op_ok (PayOther op') | _ \<Rightarrow> True)"

definition service_call :: "payment_env \<Rightarrow> service_op \<Rightarrow> 'z payment_tables_scheme world \<Rightarrow> 'z payment_tables_scheme world" where
  "service_call pe op s = (case op of
     SrvCreateOrder input \<Rightarrow> snd (service_CreateOrder pe input s)
   | SrvPayOrder i \<Rightarrow> snd (PayOrder pe i s)
   | SrvSyncOrder i \<Rightarrow> snd (SyncOrder pe i s)
   | SrvCloseOrder i \<Rightarrow> snd (CloseOrder pe i s)
   | SrvCreateRecharge input \<Rightarrow> snd (service_CreateRecharge pe input s)
   | SrvPayRecharge u i \<Rightarrow> snd (PayRecharge pe u i s)
   | SrvSyncRecharge u i \<Rightarrow> snd (SyncRecharge pe u i s)
   | SrvCloseRecharge u i \<Rightarrow> snd (CloseRecharge pe u i s)
   | SrvRechargePage u \<Rightarrow> snd (RechargePageInit pe u s)
   | SrvNotification form \<Rightarrow> snd (HandleAlipayCallback pe form s)
   | SrvSyncPending n \<Rightarrow> snd (SyncPendingOrders pe n s)
   | SrvCloseExpired n \<Rightarrow> snd (CloseExpiredOrders pe n s)
   | SrvCreateConfig input \<Rightarrow> snd (service_CreateConfig pe input s)
   | SrvUpdateConfig i input \<Rightarrow> snd (service_UpdateConfig pe i input s)
   | SrvConfigStatus i status \<Rightarrow> snd (service_ChangeConfigStatus pe i status s)
   | SrvDeleteConfig i \<Rightarrow> snd (service_DeleteConfig pe i s)
   | SrvOther op' \<Rightarrow> payment_call (pe_db pe) (PayOther op') s)"

text \<open>Every call has an environment of its own: other faults, other answers of the gateway.\<close>

fun run_service :: "(payment_env \<times> service_op) list \<Rightarrow> 'z payment_tables_scheme world \<Rightarrow> 'z payment_tables_scheme world" where
  "run_service [] s = s"
| "run_service ((pe, op) # h) s = run_service h (service_call pe op s)"

definition service_history :: "(payment_env \<times> service_op) list \<Rightarrow> bool" where
  "service_history h \<longleftrightarrow> list_all (\<lambda>(pe, op). service_op_ok op) h"

text \<open>The database a server starts with: the packages are its own, everything else is empty.\<close>

definition payment_start :: "RechargePackage list \<Rightarrow> payment_tables world" where
  "payment_start ps = empty_payment_world\<lparr>tables := (tables empty_payment_world)\<lparr>packages := ps\<rparr>\<rparr>"

lemma guardsD: "safe C {} m \<Longrightarrow> good s \<Longrightarrow> pay_step C s (snd (m s))"
  by (simp add: guards_def)

lemma service_call_step:
  fixes s :: "'z payment_tables_scheme world"
  assumes ok: "good s" and op: "service_op_ok op"
  shows "pay_step (confirmed pe) s (service_call pe op s)"
proof (cases op)
  case (SrvOther op')
  have other: "payment_op_ok (PayOther op')" using op SrvOther by (simp add: service_op_ok_def)
  then have parts: "redeem_op_ok op'" "\<And>w. op' = OpWallet w \<Longrightarrow> op_source w \<noteq> SourceRecharge" by (auto simp: payment_op_ok_def)
  have "keeps payment_part (redeem_call (pe_db pe) op' :: ('z payment_tables_ext, unit) redeem_act)"
    by (rule keeps_redeem_call [of "- {SourceRecharge}"])
      (use parts(2) in \<open>auto simp: blind_to_def blind_to_codes_def payment_part_def\<close>)
  then have "pay_orders (tables (service_call pe op s)) = pay_orders (tables s)"
    by (simp add: SrvOther service_call_def payment_call_def keeps_def payment_part_def)
  with payment_call_ok [OF good_parts(1,2) [OF ok] other, of "pe_db pe"] show ?thesis
    by (simp add: SrvOther service_call_def pay_step_def good_def)
qed (use guardsD [OF guards_CreateOrder ok] guardsD [OF guards_PayOrder ok] guardsD [OF guards_SyncOrder ok] guardsD [OF guards_CloseOrder ok]
    guardsD [OF guards_CreateRecharge ok] guardsD [OF guards_PayRecharge ok] guardsD [OF guards_SyncRecharge ok]
    guardsD [OF guards_CloseRecharge ok] guardsD [OF guards_RechargePageInit ok] guardsD [OF guards_HandleAlipayCallback ok]
    guardsD [OF guards_SyncPendingOrders ok] guardsD [OF guards_CloseExpiredOrders ok] guardsD [OF guards_configs(1) ok]
    guardsD [OF guards_configs(2) ok] guardsD [OF guards_configs(3) ok] guardsD [OF guards_configs(4) ok]
  in \<open>simp_all add: service_call_def\<close>)

lemma pay_step_mono: "pay_step C s t \<Longrightarrow> C \<subseteq> D \<Longrightarrow> pay_step D s t"
  unfolding pay_step_def by blast

lemma run_service_step:
  "service_history h \<Longrightarrow> good s \<Longrightarrow> pay_step (\<Union>(pe, op) \<in> set h. confirmed pe) s (run_service h s)"
proof (induction h arbitrary: s)
  case Nil
  then show ?case by (simp add: pay_step_refl)
next
  case (Cons call h)
  obtain pe op where call: "call = (pe, op)" by fastforce
  have first: "pay_step (confirmed pe) s (service_call pe op s)"
    by (rule service_call_step [OF Cons.prems(2)]) (use Cons.prems(1) in \<open>simp add: service_history_def call\<close>)
  have "pay_step (\<Union>(pe, op) \<in> set h. confirmed pe) (service_call pe op s) (run_service h (service_call pe op s))"
    by (rule Cons.IH [OF _ pay_step_good [OF first]]) (use Cons.prems(1) in \<open>simp add: service_history_def\<close>)
  then have "pay_step (\<Union>(pe, op) \<in> set (call # h). confirmed pe) (service_call pe op s) (run_service h (service_call pe op s))"
    by (rule pay_step_mono) auto
  moreover have "pay_step (\<Union>(pe, op) \<in> set (call # h). confirmed pe) s (service_call pe op s)"
    by (rule pay_step_mono [OF first]) (auto simp: call)
  ultimately show ?case unfolding call run_service.simps by (blast intro: pay_step_trans)
qed

lemma payment_start_good: "good (payment_start ps)"
  by (auto simp: good_def books_ok_def codes_ok_def ids_given_def payment_start_def empty_payment_world_def ledger_books_def
      recharge_books_def pay_state_ok_def payments_ok_def pay_ids_def wallet_state_ok_def wallet_inv_def wallet_keys_def ids_below_def)

lemma service_run_good:
  assumes "service_history h" shows "good (run_service h (payment_start ps))"
  by (rule pay_step_good [OF run_service_step [OF assms payment_start_good]])

lemma service_run_paid:
  assumes "service_history h" "x \<in> set (pay_orders (tables (run_service h (payment_start ps))))" "o_Status x = orderStatusPaid"
  shows "\<exists>(pe, op) \<in> set h. (o_OrderNo x, o_AmountCents x) \<in> confirmed pe"
proof -
  have "pay_orders (tables (payment_start ps)) = []" by (simp add: payment_start_def empty_payment_world_def)
  with run_service_step [OF assms(1) payment_start_good, of ps] assms(2,3) show ?thesis
    unfolding pay_step_def by auto
qed

end
