(* ===== verification/PaymentProps.thy ===== *)
theory PaymentProps
  imports PaymentHistory WalletProps
begin

text \<open>
  The properties of payments: recharges, their orders and the ledger agree; a settlement credits a
  user once; what is final stays; a callback changes the books only by settling an order. Each
  witness runs the operations on a concrete database.
\<close>

section \<open>A concrete history\<close>

definition demo_order :: Order where
  "demo_order = \<lparr>o_ID = 0, o_OrderNo = ''PAY20250101000000AB12CD34'', o_ConfigID = 1, o_ConfigCode = ''alipay'',
     o_Provider = ''alipay'', o_PayMethod = ''web'', o_Subject = ''Recharge'', o_AmountCents = 1000,
     o_Status = orderStatusPending, o_PayURL = [], o_ReturnURL = [], o_AlipayTradeNo = [],
     o_AlipayTradeNoIdentity = None, o_ExpiredAt = 63900000000000000000, o_PaidAt = None, o_ClosedAt = None,
     o_FailureReason = [], o_IsDel = CommonNo, o_CreatedAt = 0, o_UpdatedAt = 0\<rparr>"

definition demo_recharge :: Recharge where
  "demo_recharge = \<lparr>r_ID = 0, r_RechargeNo = ''RC1'', r_UserID = 7, r_PackageCode = ''p10'', r_PackageName = ''10'',
     r_AmountCents = 1000, r_PaymentOrderID = 0, r_Status = rechargeStatusPending, r_PaidAt = None,
     r_CreditedAt = None, r_FailureReason = [], r_IsDel = CommonNo, r_CreatedAt = 0, r_UpdatedAt = 0\<rparr>"

definition demo_event :: CallbackEvent where
  "demo_event = \<lparr>e_ID = 0, e_Provider = ''alipay'', e_DedupeKey = replicate 32 (CHR ''k''), e_NotifyID = ''n1'',
     e_OutTradeNo = ''PAY20250101000000AB12CD34'', e_TradeNo = ''T1'', e_TradeStatus = ''TRADE_SUCCESS'', e_AppID = ''app'',
     e_TotalAmountCents = 1000, e_SignatureValid = CommonNo, e_ProcessStatus = callbackProcessPending,
     e_ProcessMessage = [], e_RawPayloadJSON = [], e_ReceivedAt = 63800000000000000000, e_ProcessedAt = None,
     e_IsDel = CommonNo, e_CreatedAt = 0, e_UpdatedAt = 0\<rparr>"

definition pay_op :: "payment_op \<Rightarrow> payment_tables world \<Rightarrow> payment_tables world" where
  "pay_op op s = payment_call demo_env op s"

definition demo_ordered :: "payment_tables world" where
  "demo_ordered = pay_op (PayAcquireEvent demo_event) (pay_op (PayCreateRecharge demo_recharge demo_order) empty_payment_world)"

definition demo_settled :: "payment_tables world" where
  "demo_settled = pay_op (PayFinalize 1 ''T1'' 63800000000000000000 63800000000000000000) demo_ordered"

lemma pay_op_step: "payment_op_ok op \<Longrightarrow> payment_reachable s \<Longrightarrow> payment_reachable (pay_op op s)"
  unfolding pay_op_def by (blast intro: payment_reachable.more payment_step.step)

lemma demo_payment_reachable: "payment_reachable demo_ordered" "payment_reachable demo_settled"
proof -
  show o: "payment_reachable demo_ordered" unfolding demo_ordered_def
    by (intro pay_op_step payment_reachable.start)
      (simp_all add: payment_op_ok_def new_order_def new_recharge_def demo_order_def demo_recharge_def)
  show "payment_reachable demo_settled" unfolding demo_settled_def
    by (intro pay_op_step o) (simp add: payment_op_ok_def)
qed

lemma demo_payment_rows:
  "map o_Status (pay_orders (tables demo_settled)) = [orderStatusPaid]"
  "map r_Status (recharges (tables demo_settled)) = [rechargeStatusCredited]"
  "map t_AmountUnits (transactions (tables demo_settled)) = [1000000000]"
  by code_simp+

section \<open>The two sides of the books\<close>

definition recharge_credits :: "'x wallet_tables_scheme \<Rightarrow> int \<Rightarrow> Transaction list" where
  "recharge_credits D i = filter (\<lambda>t. source_of t = (SourceRecharge, i)) (transactions D)"

lemma recharge_credits_books:
  assumes "distinct (map source_of (transactions D))"
  shows "recharge_books D i = None \<Longrightarrow> recharge_credits D i = []"
    "recharge_books D i = Some (u, n) \<Longrightarrow> \<exists>t. recharge_credits D i = [t] \<and> t_UserID t = u \<and> t_AmountUnits t = n"
proof -
  show "recharge_books D i = None \<Longrightarrow> recharge_credits D i = []"
    by (force simp: recharge_books_def row_map_None recharge_credits_def filter_empty_conv)
  assume "recharge_books D i = Some (u, n)"
  then obtain t where t: "t \<in> set (transactions D)" "source_of t = (SourceRecharge, i)" "t_UserID t = u" "t_AmountUnits t = n"
    by (auto simp: recharge_books_def dest!: row_map_SomeD)
  from filter_key_one [OF assms t(1)] have "filter (\<lambda>x. source_of x = source_of t) (transactions D) = [t]" by simp
  with t show "\<exists>t. recharge_credits D i = [t] \<and> t_UserID t = u \<and> t_AmountUnits t = n"
    by (auto simp: recharge_credits_def)
qed

lemma payment_reachableD:
  assumes "payment_reachable s"
  shows "payment_state_ok s" "payments_ok (recharge_books (tables s)) (tables s)"
    "distinct (map source_of (transactions (tables s)))"
proof -
  show ok: "payment_state_ok s" using payment_reachable_ok [OF assms] by simp
  show "payments_ok (recharge_books (tables s)) (tables s)" by (rule payment_state_okD(2) [OF ok])
  show "distinct (map source_of (transactions (tables s)))"
    using wallet_keysD(7) [OF wallet_state_okD(1) [OF payment_state_okD(1) [OF ok]]] by (simp add: source_of_def [abs_def])
qed

text \<open>C9. In every database that a history of payments, callbacks, redemptions and other wallet calls can
  lead to: a recharge has one order, of the same amount; it is credited exactly when the order is paid
  and the ledger holds one credit of it, for its user and of its amount; otherwise it holds none.\<close>

theorem recharge_books_agree:
  assumes "payment_reachable s" and "r \<in> set (recharges (tables s))"
  shows "\<exists>o' \<in> set (pay_orders (tables s)). o_ID o' = r_PaymentOrderID r \<and> o_AmountCents o' = r_AmountCents r \<and>
    (if r_Status r = rechargeStatusCredited
     then o_Status o' = orderStatusPaid \<and> (\<exists>t. recharge_credits (tables s) (r_ID r) = [t] \<and>
       t_UserID t = r_UserID r \<and> t_AmountUnits t = r_AmountCents r * UnitsPerCent)
     else o_Status o' \<noteq> orderStatusPaid \<and> recharge_credits (tables s) (r_ID r) = [])"
proof -
  note D = payment_reachableD [OF assms(1)]
  obtain o' where o': "o' \<in> set (pay_orders (tables s))" "recharge_of (recharge_books (tables s)) r o'"
    by (rule recharge_okE [OF D(2) assms(2)])
  show ?thesis
    by (rule bexI [OF _ o'(1)]) (use o'(2) recharge_credits_books [OF D(3), of "r_ID r"] in \<open>auto simp: recharge_of_def split: if_splits\<close>)
qed

theorem recharge_books_agree_witness:
  "length (recharge_credits (tables demo_settled) (r_ID (hd (recharges (tables demo_settled))))) = 1"
proof -
  have r: "hd (recharges (tables demo_settled)) \<in> set (recharges (tables demo_settled))"
    and st: "r_Status (hd (recharges (tables demo_settled))) = rechargeStatusCredited"
    using demo_payment_rows(2) by (cases "recharges (tables demo_settled)"; simp)+
  from recharge_books_agree [OF demo_payment_reachable(2) r] st show ?thesis by auto
qed

text \<open>C14. No paid order is left without the credit of its recharge: the list that the repair job of
  uncredited recharges works on is empty in every reachable database.\<close>

theorem nothing_left_uncredited:
  assumes "payment_reachable s" and "Returns (ListUncreditedPaidRecharges True ev limit) s rows t"
  shows "rows = []"
proof -
  note D = payment_reachableD(2) [OF assms(1)]
  have "\<not> uncredited_paid x" if x: "x \<in> set (rechargeJoinQuery (tables s))" for x
  proof -
    from x obtain r o' where r: "r \<in> set (recharges (tables s))" and o': "o' \<in> set (pay_orders (tables s))"
      "o_ID o' = r_PaymentOrderID r" and x': "x = recharge_with_order r o'" by (auto simp: rechargeJoinQuery_def)
    show ?thesis
      using recharge_ok_order [OF D r o'] by (auto simp: x' recharge_with_order_def uncredited_paid_def recharge_of_def split: if_splits)
  qed
  with assms(2) show ?thesis
    by (auto simp: ListUncreditedPaidRecharges_def Returns_map_error find_limit_def act_simps filter_empty_conv)
qed

theorem nothing_left_uncredited_witness:
  "answer (ListUncreditedPaidRecharges True demo_env 10) demo_settled = []"
proof -
  have "succeeds (ListUncreditedPaidRecharges True demo_env 10 :: (unit, RechargeWithOrder list) pay_act) demo_settled" by code_simp
  from nothing_left_uncredited [OF demo_payment_reachable(2) Returns_run [OF this]] show ?thesis .
qed

section \<open>Settling an order\<close>

lemma settle_result:
  assumes "payment_reachable s" "Returns (FinalizePaidOrder True ev i tradeNo paidAt now) s pf t"
  obtains o' where "payment_state_ok t"
    "order_settled recharge_books user_funds i tradeNo paidAt now pf o' (tables s) (tables t)"
  using wallet_recharge.FinalizePaidOrder_effect [OF payment_reachableD(1) [OF assms(1)] assms(2) [unfolded FinalizePaidOrder_def]]
  by blast

text \<open>C11. A settlement that returns either finds its order paid and changes nothing, or marks a pending or
  paying order as paid with the time of payment and the trade number, credits its pending or paying
  recharge, and raises the balance of the user of the recharge by the amount of the order, and of
  nobody else; an order without recharge moves no money.\<close>

theorem settlement_outcome:
  assumes "payment_reachable s" and "Returns (FinalizePaidOrder True ev i tradeNo paidAt now) s pf t"
  shows "\<exists>o' \<in> set (pay_orders (tables s)). o_ID o' = i \<and>
    (if pf_OrderAlreadyPaid pf then o_Status o' = orderStatusPaid \<and> tables t = tables s
     else (o_Status o' = orderStatusPending \<or> o_Status o' = orderStatusPaying) \<and>
       (\<exists>u. pay_orders (tables t) = map (\<lambda>x. if o_ID x = i
          then paid_row (resultTradeNoFromStrings [tradeNo, o_AlipayTradeNo o']) paidAt u x else x) (pay_orders (tables s))) \<and>
       (case find (\<lambda>r. r_PaymentOrderID r = i) (recharges (tables s)) of
          None \<Rightarrow> recharges (tables t) = recharges (tables s) \<and> user_funds (tables t) = user_funds (tables s)
        | Some r \<Rightarrow> (r_Status r = rechargeStatusPending \<or> r_Status r = rechargeStatusPaying) \<and>
            (\<exists>u. recharges (tables t) = map (\<lambda>x. if r_ID x = r_ID r then credited_row paidAt now u x else x)
              (recharges (tables s))) \<and>
            user_funds (tables t) = (user_funds (tables s))
              (r_UserID r := user_funds (tables s) (r_UserID r) + o_AmountCents o' * UnitsPerCent)))"
proof -
  obtain o' where S: "order_settled recharge_books user_funds i tradeNo paidAt now pf o' (tables s) (tables t)"
    by (rule settle_result [OF assms])
  then have "o' \<in> set (pay_orders (tables s))" by (simp add: order_settled_def)
  then show ?thesis
    using S by (intro bexI [of _ o'])
      (auto simp: order_settled_def Let_def paid_orders_def credited_recharges_def change_rows_def split: option.splits if_splits)
qed

theorem settlement_outcome_witness:
  "user_funds (tables (final_state (FinalizePaidOrder True demo_env 1 ''T1'' 63800000000000000000 63800000000000000000) demo_ordered)) 7
     = 1000000000 \<and> user_funds (tables demo_ordered) 7 = 0"
proof -
  let ?m = "FinalizePaidOrder True demo_env 1 ''T1'' 63800000000000000000 63800000000000000000 :: (unit, PaidOrderFinalization) pay_act"
  have run: "succeeds ?m demo_ordered" by code_simp
  have facts: "\<not> pf_OrderAlreadyPaid (answer ?m demo_ordered)" "user_funds (tables demo_ordered) 7 = 0"
    "map_option r_UserID (find (\<lambda>r. r_PaymentOrderID r = 1) (recharges (tables demo_ordered))) = Some 7"
    "map (\<lambda>x. (o_ID x, o_AmountCents x)) (pay_orders (tables demo_ordered)) = [(1, 1000)]" "1000 * UnitsPerCent = 1000000000"
    by code_simp+
  then obtain r where r: "find (\<lambda>r. r_PaymentOrderID r = 1) (recharges (tables demo_ordered)) = Some r" "r_UserID r = 7" by auto
  from settlement_outcome [OF demo_payment_reachable(1) Returns_run [OF run]] obtain o' where
    "o' \<in> set (pay_orders (tables demo_ordered))"
    "user_funds (tables (final_state ?m demo_ordered)) = (user_funds (tables demo_ordered))
       (7 := user_funds (tables demo_ordered) 7 + o_AmountCents o' * UnitsPerCent)" using facts(1) by (auto simp: r)
  moreover from this(1) facts(4) have "o_AmountCents o' = 1000" by (cases "pay_orders (tables demo_ordered)") auto
  ultimately show ?thesis using facts by simp
qed

lemma payment_steps_reachable: "payment_step\<^sup>*\<^sup>* s t \<Longrightarrow> payment_reachable s \<Longrightarrow> payment_reachable t"
  by (induction rule: rtranclp_induct) (auto intro: payment_reachable.more)

lemma call_reachable: "payment_reachable s \<Longrightarrow> payment_op_ok op \<Longrightarrow> payment_reachable (payment_call ev op s)"
  by (blast intro: payment_reachable.more payment_step.step)

lemma settle_reachable:
  assumes "payment_reachable s" "Returns (FinalizePaidOrder True ev i tradeNo paidAt now) s pf t"
  shows "payment_reachable t"
  using call_reachable [OF assms(1), of "PayFinalize i tradeNo paidAt now" ev] assms(2)
  by (simp add: payment_op_ok_def payment_call_def Returns_def)

lemma steps_advance:
  assumes "payment_reachable s" "payment_step\<^sup>*\<^sup>* s t"
  shows "pay_advances recharge_books (tables s) (tables t)"
  using payment_steps_ok [OF assms(2)] payment_reachable_ok [OF assms(1)] by blast

lemma advances_final:
  assumes "advances fixed status edge final rs rs'" "r \<in> set rs" "status r \<in> set final"
  shows "r \<in> set rs'"
  using assms unfolding advances_def by blast

lemma settled_row:
  assumes "order_settled recharge_books user_funds i tradeNo paidAt now pf o' D D'"
  shows "\<exists>x \<in> set (pay_orders D'). o_ID x = i \<and> o_Status x = orderStatusPaid \<and> o_PaidAt x = o_PaidAt (pf_Order pf)"
proof (cases "pf_OrderAlreadyPaid pf")
  case True
  with assms show ?thesis by (auto simp: order_settled_def)
next
  case False
  with assms obtain n u where "pay_orders D' = paid_orders i n paidAt u (pay_orders D)" "pf_Order pf = order_paid n paidAt o'"
    and o': "o' \<in> set (pay_orders D)" "o_ID o' = i" by (auto simp: order_settled_def Let_def)
  then have "paid_row n paidAt u o' \<in> set (pay_orders D')" "o_PaidAt (pf_Order pf) = Some paidAt"
    by (auto simp: paid_orders_def set_change_rows order_paid_def)
  with o' show ?thesis by (intro bexI [of _ "paid_row n paidAt u o'"]) simp_all
qed

text \<open>C10. A user is credited for an order once: whatever other operations follow a settlement, a second
  settlement of the order that returns finds it paid since the first, credits nobody and changes
  nothing.\<close>

theorem settled_once:
  assumes "payment_reachable s" and "Returns (FinalizePaidOrder True ev i tradeNo paidAt now) s pf t"
    and "payment_step\<^sup>*\<^sup>* t t'" and "Returns (FinalizePaidOrder True ev' i tradeNo' paidAt' now') t' pf' t''"
  shows "pf_OrderAlreadyPaid pf' \<and> \<not> pf_RechargeCredited pf' \<and> tables t'' = tables t' \<and>
    o_PaidAt (pf_Order pf') = o_PaidAt (pf_Order pf)"
proof -
  obtain o1 where "order_settled recharge_books user_funds i tradeNo paidAt now pf o1 (tables s) (tables t)"
    by (rule settle_result [OF assms(1,2)])
  from settled_row [OF this] obtain x where x: "x \<in> set (pay_orders (tables t))" "o_ID x = i" "o_Status x = orderStatusPaid"
    "o_PaidAt x = o_PaidAt (pf_Order pf)" by blast
  have t: "payment_reachable t" by (rule settle_reachable [OF assms(1,2)])
  have t': "payment_reachable t'" by (rule payment_steps_reachable [OF assms(3) t])
  have x': "x \<in> set (pay_orders (tables t'))"
    by (rule advances_final [OF _ x(1)]) (use steps_advance [OF t assms(3)] x(3) in \<open>auto simp: pay_advances_def\<close>)
  obtain o2 where S: "order_settled recharge_books user_funds i tradeNo' paidAt' now' pf' o2 (tables t') (tables t'')"
    by (rule settle_result [OF t' assms(4)])
  then have "o2 \<in> set (pay_orders (tables t'))" "o_ID o2 = i" by (simp_all add: order_settled_def)
  with distinct_key_eq [OF payments_okD(1) [OF payment_reachableD(2) [OF t']] _ x'] x(2) have "o2 = x" by blast
  with S x(3,4) show ?thesis by (auto simp: order_settled_def split: if_splits)
qed

theorem settled_once_witness:
  "tables (final_state (FinalizePaidOrder True demo_env 1 ''T1'' 63800000000000000000 63800000000000000000) demo_settled) =
     tables demo_settled"
proof -
  let ?m = "FinalizePaidOrder True demo_env 1 ''T1'' 63800000000000000000 63800000000000000000 :: (unit, PaidOrderFinalization) pay_act"
  have "final_state ?m demo_ordered = demo_settled"
    by (simp add: demo_settled_def pay_op_def payment_call_def final_state_def)
  moreover have "succeeds ?m demo_ordered" "succeeds ?m demo_settled" by code_simp+
  ultimately show ?thesis
    using settled_once [OF demo_payment_reachable(1) Returns_run rtranclp.rtrancl_refl Returns_run, of demo_env 1 "''T1''"
        63800000000000000000 63800000000000000000 demo_env "''T1''" 63800000000000000000 63800000000000000000] by simp
qed

section \<open>What is final\<close>

text \<open>C13. Paid and closed orders and credited and closed recharges are final: no operation changes them or
  takes them away, and every other order and recharge keeps its number, user and amount and moves
  along the allowed transitions only.\<close>

theorem payments_advance:
  assumes "payment_reachable s" and "payment_step\<^sup>*\<^sup>* s t"
  shows "(\<forall>x \<in> set (pay_orders (tables s)). \<exists>x' \<in> set (pay_orders (tables t)). o_ID x' = o_ID x \<and> o_OrderNo x' = o_OrderNo x \<and>
      o_AmountCents x' = o_AmountCents x \<and> order_edge\<^sup>*\<^sup>* (o_Status x) (o_Status x') \<and>
      (o_Status x \<in> {orderStatusPaid, orderStatusClosed} \<longrightarrow> x' = x)) \<and>
    (\<forall>r \<in> set (recharges (tables s)). \<exists>r' \<in> set (recharges (tables t)). r_ID r' = r_ID r \<and> r_UserID r' = r_UserID r \<and>
      r_AmountCents r' = r_AmountCents r \<and> recharge_edge\<^sup>*\<^sup>* (r_Status r) (r_Status r') \<and>
      (r_Status r \<in> {rechargeStatusCredited, rechargeStatusClosed} \<longrightarrow> r' = r))"
proof (intro conjI ballI)
  note A = steps_advance [OF assms, unfolded pay_advances_def advances_def]
  show "\<exists>x' \<in> set (pay_orders (tables t)). o_ID x' = o_ID x \<and> o_OrderNo x' = o_OrderNo x \<and>
      o_AmountCents x' = o_AmountCents x \<and> order_edge\<^sup>*\<^sup>* (o_Status x) (o_Status x') \<and>
      (o_Status x \<in> {orderStatusPaid, orderStatusClosed} \<longrightarrow> x' = x)" if "x \<in> set (pay_orders (tables s))" for x
    using conjunct1 [OF A, rule_format, OF that] by auto
  show "\<exists>r' \<in> set (recharges (tables t)). r_ID r' = r_ID r \<and> r_UserID r' = r_UserID r \<and>
      r_AmountCents r' = r_AmountCents r \<and> recharge_edge\<^sup>*\<^sup>* (r_Status r) (r_Status r') \<and>
      (r_Status r \<in> {rechargeStatusCredited, rechargeStatusClosed} \<longrightarrow> r' = r)" if "r \<in> set (recharges (tables s))" for r
    using conjunct1 [OF conjunct2 [OF A], rule_format, OF that] by auto
qed

theorem payments_advance_witness:
  "\<exists>r' \<in> set (recharges (tables (pay_op (PayOrderClosed 1 63800000000000000000) demo_settled))). r' = hd (recharges (tables demo_settled))"
proof -
  let ?t = "pay_op (PayOrderClosed 1 63800000000000000000) demo_settled"
  have "payment_step\<^sup>*\<^sup>* demo_settled ?t"
    unfolding pay_op_def by (rule r_into_rtranclp, rule payment_step.step) (simp add: payment_op_ok_def)
  note A = conjunct2 [OF payments_advance [OF demo_payment_reachable(2) this]]
  have "hd (recharges (tables demo_settled)) \<in> set (recharges (tables demo_settled))"
    "r_Status (hd (recharges (tables demo_settled))) = rechargeStatusCredited"
    using demo_payment_rows(2) by (cases "recharges (tables demo_settled)"; simp)+
  with A show ?thesis by blast
qed

section \<open>Callbacks\<close>

text \<open>C12. The resolution of a callback that returns either is a replay or reports a failed or ignored
  callback, and then changes the row of the event at most; or it reports success, and then it has
  settled the order it names and changed the row of the event.\<close>

theorem callback_outcome:
  assumes "payment_reachable s" and "Returns (ResolveCallbackEvent True ev cr) s res t"
  shows "if crr_Replay res \<or> trim_space (cer_ProcessStatus cr) \<noteq> callbackProcessSuccess
    then tables t = (tables s)\<lparr>events := events (tables t)\<rparr>
    else \<exists>pf o' D. crr_PaidOrder res = Some pf \<and> tables t = D\<lparr>events := events (tables t)\<rparr> \<and>
      order_settled recharge_books user_funds (cer_PaidOrderID cr) (cer_AlipayTradeNo cr) (cer_PaidAt cr)
        (cer_ProcessedAt cr) pf o' (tables s) D"
proof -
  from assms(2) obtain u where valid: "validateCallbackEventResolution cr = Inr ()"
    and u: "Returns (resolve_event ev recharge_find recharge_credit cr) (sent s) res u" "t = sent u"
    by (auto simp: ResolveCallbackEvent_def ResolveCallbackEvent_with_def Returns_transaction act_simps split: if_splits sum.splits)
  have ok: "payment_state_ok (sent s)"
    by (rule wallet_recharge.pay_ok_same [OF payment_reachableD(1) [OF assms(1)]]) simp_all
  note E = wallet_recharge.resolve_event_effect(2,3) [OF ok u(1)]
  have id: "0 < cer_PaidOrderID cr \<longleftrightarrow> trim_space (cer_ProcessStatus cr) = callbackProcessSuccess"
    using valid by (auto simp: validateCallbackEventResolution_def Let_def split: if_splits)
  show ?thesis
  proof (cases "crr_Replay res \<or> trim_space (cer_ProcessStatus cr) \<noteq> callbackProcessSuccess")
    case True
    then have "crr_Replay res \<or> cer_PaidOrderID cr \<le> 0" using id by auto
    from E(2) [OF this] True show ?thesis by (simp add: u(2))
  next
    case False
    with E(1) id show ?thesis by (simp add: u(2))
  qed
qed

definition demo_resolution :: CallbackEventResolution where
  "demo_resolution = \<lparr>cer_EventID = 3, cer_DedupeKey = replicate 32 (CHR ''k''), cer_SignatureValid = CommonYes,
     cer_ProcessStatus = callbackProcessSuccess, cer_ProcessMessage = [], cer_ProcessedAt = 63800000000000000000,
     cer_PaidOrderID = 1, cer_AlipayTradeNo = ''T1'', cer_PaidAt = 63800000000000000000\<rparr>"

theorem callback_outcome_witness:
  "user_funds (tables (final_state (ResolveCallbackEvent True demo_env demo_resolution) demo_ordered)) 7 =
     user_funds (tables demo_ordered) 7 + 1000 * UnitsPerCent"
proof -
  let ?m = "ResolveCallbackEvent True demo_env demo_resolution :: (unit, CallbackEventResolutionResult) pay_act"
  have run: "succeeds ?m demo_ordered" by code_simp
  have facts: "\<not> crr_Replay (answer ?m demo_ordered)"
    "map_option pf_OrderAlreadyPaid (crr_PaidOrder (answer ?m demo_ordered)) = Some False"
    "map_option r_UserID (find (\<lambda>r. r_PaymentOrderID r = 1) (recharges (tables demo_ordered))) = Some 7"
    "map (\<lambda>x. (o_ID x, o_AmountCents x)) (pay_orders (tables demo_ordered)) = [(1, 1000)]" by code_simp+
  then obtain r where r: "find (\<lambda>r. r_PaymentOrderID r = 1) (recharges (tables demo_ordered)) = Some r" "r_UserID r = 7" by auto
  have res: "trim_space (cer_ProcessStatus demo_resolution) = callbackProcessSuccess" "cer_PaidOrderID demo_resolution = 1"
    by code_simp+
  from callback_outcome [OF demo_payment_reachable(1) Returns_run [OF run]] facts(1) res obtain pf o' D where
    D: "crr_PaidOrder (answer ?m demo_ordered) = Some pf" "tables (final_state ?m demo_ordered) = D\<lparr>events := events (tables (final_state ?m demo_ordered))\<rparr>"
    and S: "order_settled recharge_books user_funds 1 (cer_AlipayTradeNo demo_resolution) (cer_PaidAt demo_resolution)
        (cer_ProcessedAt demo_resolution) pf o' (tables demo_ordered) D" by auto
  from S facts(4) have "o_AmountCents o' = 1000" by (cases "pay_orders (tables demo_ordered)") (auto simp: order_settled_def)
  with S D(1) facts(2) r have "user_funds D = (user_funds (tables demo_ordered))(7 := user_funds (tables demo_ordered) 7 + 1000 * UnitsPerCent)"
    by (simp add: order_settled_def Let_def)
  moreover have "user_funds (tables (final_state ?m demo_ordered)) = user_funds D"
    by (subst D(2)) (simp add: user_funds_def account_of_frame [of "events_update _ D" D])
  ultimately show ?thesis by simp
qed

end
