(* ===== verification/PaymentServiceProps.thy ===== *)
theory PaymentServiceProps
  imports PaymentServiceSteps PaymentProps
begin

text \<open>
  The properties of the payment service: what the gateway must have confirmed before an order is paid
  or a wallet credited, what its jobs count, how amounts are written and read, and when a configuration
  may change. The witnesses run the service on a concrete database with a concrete gateway.
\<close>

section \<open>A concrete service\<close>

definition demo_gateway :: gateway where
  "demo_gateway = \<lparr>gw_TestConfig = (\<lambda>_ _. None), gw_Pay = (\<lambda>_ _ _. Inr (Some ''https://pay'')),
     gw_Query = (\<lambda>_ _ _. Inr (Some \<lparr>qr_TradeNo = ''T1'', qr_Status = ''TRADE_SUCCESS'', qr_PaidAt = None\<rparr>)),
     gw_Close = (\<lambda>_ _ _. None), gw_VerifyNotify = (\<lambda>_ _ _. Inl ''bad signature'')\<rparr>"

definition demo_payment :: payment_env where
  "demo_payment = \<lparr>pe_db = demo_env, pe_repository = True, pe_configured = True, pe_gateway = Some demo_gateway,
     pe_encrypt = (\<lambda>_ key. Inr (''enc:'' @ key)), pe_decrypt = (\<lambda>text. Inr (drop 4 text)), pe_resolve = (\<lambda>_ path. Inr path),
     pe_save = None, pe_url = (\<lambda>_. Some (''https'', ''shop.example'')), pe_sha256 = (\<lambda>_. replicate 32 (CHR ''k'')),
     pe_dir = \<lparr>di_users = [], di_like = (\<lambda>_ _. True), di_instant = (\<lambda>_. None), di_layout = (\<lambda>_. ''2025-11-18 08:00:00'')\<rparr>\<rparr>"

definition demo_config :: ConfigMutationInput where
  "demo_config = \<lparr>cm_Provider = [], cm_Code = ''main'', cm_Name = ''Main'', cm_AppID = ''app'', cm_AppPrivateKey = ''key'',
     cm_AppCertPath = ''a.crt'', cm_PlatformCertPath = ''b.crt'', cm_RootCertPath = ''c.crt'', cm_NotifyURL = ''https://shop.example/n'',
     cm_Environment = ''sandbox'', cm_EnabledMethods = [''web''], cm_Sort = 0, cm_Status = CommonYes, cm_Remark = []\<rparr>"

definition demo_package :: RechargePackage where
  "demo_package = \<lparr>p_ID = 1, p_Code = ''p10'', p_Name = ''10'', p_AmountCents = 1000, p_Badge = [], p_Sort = 1,
     p_Status = CommonYes, p_IsDel = CommonNo, p_CreatedAt = 1, p_UpdatedAt = 1\<rparr>"

definition demo_buy :: RechargeCreateInput where
  "demo_buy = \<lparr>rn_UserID = 7, rn_PackageCode = ''p10'', rn_PayMethod = ''web'', rn_ReturnURL = ''https://shop.example''\<rparr>"

text \<open>The rows these calls write\<close>

definition demo_config_row :: Config where
  "demo_config_row = \<lparr>cf_ID = 1, cf_Provider = ''alipay'', cf_Code = ''main'', cf_Name = ''Main'', cf_AppID = ''app'',
     cf_PrivateKeyEnc = ''enc:key'', cf_PrivateKeyHint = ''***key'', cf_AppCertPath = ''a.crt'', cf_PlatformCertPath = ''b.crt'',
     cf_RootCertPath = ''c.crt'', cf_NotifyURL = ''https://shop.example/n'', cf_Environment = ''sandbox'',
     cf_EnabledMethodsJSON = [CHR ''['', CHR 0x22, CHR ''w'', CHR ''e'', CHR ''b'', CHR 0x22, CHR '']''],
     cf_Sort = 100, cf_Status = 1, cf_Remark = [], cf_IsDel = 2,
     cf_CreatedAt = 63900000000005000000, cf_UpdatedAt = 63900000000005000000\<rparr>"

definition demo_wallet_row :: Wallet where
  "demo_wallet_row = \<lparr>w_ID = 2, w_UserID = 7, w_BalanceUnits = 0, w_TotalRechargeUnits = 0, w_TotalConsumeUnits = 0,
     w_HeldUnits = 0, w_IsDel = 2, w_CreatedAt = 63900000000006000000, w_UpdatedAt = 63900000000006000000\<rparr>"

definition demo_order_row :: Order where
  "demo_order_row = \<lparr>o_ID = 3, o_OrderNo = ''PAY202511180800000070000001'', o_ConfigID = 1, o_ConfigCode = ''main'',
     o_Provider = ''alipay'', o_PayMethod = ''web'', o_Subject = (encode_runes [20313, 39069, 20805, 20540, 32]) @ ''10'', o_AmountCents = 1000,
     o_Status = ''paying'', o_PayURL = ''https://pay'',
     o_ReturnURL = ''https://shop.example?tab=records&recharge_no=RCG202511180800000070000002'',
     o_AlipayTradeNo = [], o_AlipayTradeNoIdentity = None, o_ExpiredAt = 63900001800007000000, o_PaidAt = None,
     o_ClosedAt = None, o_FailureReason = [], o_IsDel = 2, o_CreatedAt = 63900000000008000000,
     o_UpdatedAt = 63900000000015000000\<rparr>"

definition demo_recharge_row :: Recharge where
  "demo_recharge_row = \<lparr>r_ID = 4, r_RechargeNo = ''RCG202511180800000070000002'', r_UserID = 7, r_PackageCode = ''p10'',
     r_PackageName = ''10'', r_AmountCents = 1000, r_PaymentOrderID = 3, r_Status = ''paying'', r_PaidAt = None,
     r_CreditedAt = None, r_FailureReason = [], r_IsDel = 2, r_CreatedAt = 63900000000009000000,
     r_UpdatedAt = 63900000000016000000\<rparr>"

text \<open>A database in which user 7 buys the package\<close>

definition demo_db :: "nat \<Rightarrow> nat \<Rightarrow> int \<Rightarrow> int \<Rightarrow> Wallet list \<Rightarrow> Order list \<Rightarrow> Recharge list \<Rightarrow> payment_tables world" where
  "demo_db n c i q ws os rs = \<lparr>stmt_no = n, clock_no = c, auto_inc = i, serial_seq = q,
     tables = \<lparr>wallets = ws, transactions = [], holds = [], batches = [], codes = [], pay_orders = os, recharges = rs,
       packages = [demo_package], configs = [demo_config_row], events = []\<rparr>\<rparr>"

definition demo_new_order :: Order where
  "demo_new_order = demo_order_row\<lparr>o_Status := ''pending'', o_PayURL := [], o_UpdatedAt := 63900000000008000000\<rparr>"

definition demo_new_recharge :: Recharge where
  "demo_new_recharge = demo_recharge_row\<lparr>r_Status := ''pending'', r_UpdatedAt := 63900000000009000000\<rparr>"

definition demo_paying :: "payment_tables world" where
  "demo_paying = demo_db 15 17 5 2 [demo_wallet_row] [demo_order_row] [demo_recharge_row]"

lemma run_evaluated: "succeeds m s \<and> answer m s = a \<and> final_state m s = t \<Longrightarrow> m s = (Inr a, t)"
  using run_result [of m s] by simp

lemma demo_call_config: "service_call demo_payment (SrvCreateConfig demo_config) (payment_start [demo_package]) = demo_db 1 6 2 0 [] [] []"
  by code_simp

lemma demo_reads:
  "GetRechargePackageByCode True demo_env ''p10'' (demo_db 1 6 2 0 [] [] []) = (Inr (Some demo_package), demo_db 2 6 2 0 [] [] [])"
  "FirstEnabledConfigForPay True demo_env providerAlipay ''web'' (demo_db 2 6 2 0 [] [] []) = (Inr (Some demo_config_row), demo_db 3 6 2 0 [] [] [])"
  "GetOrCreateWallet True demo_env 7 (demo_db 3 6 2 0 [] [] []) = (Inr demo_wallet_row, demo_db 5 7 3 0 [demo_wallet_row] [] [])"
  by (rule run_evaluated, code_simp)+

lemma demo_numbers:
  "(newPaymentOrderNo demo_payment 63900000000007000000 :: (pay_app_error, payment_tables world, string) act) (demo_db 5 8 3 0 [demo_wallet_row] [] []) =
     (Inr (o_OrderNo demo_order_row), demo_db 5 8 3 1 [demo_wallet_row] [] [])"
  "(newPaymentRechargeNo demo_payment 63900000000007000000 :: (pay_app_error, payment_tables world, string) act) (demo_db 5 8 3 1 [demo_wallet_row] [] []) =
     (Inr (r_RechargeNo demo_recharge_row), demo_db 5 8 3 2 [demo_wallet_row] [] [])"
  "(payment_now demo_payment :: (pay_app_error, payment_tables world, gotime) act) (demo_db 5 7 3 0 [demo_wallet_row] [] []) =
     (Inr 63900000000007000000, demo_db 5 8 3 0 [demo_wallet_row] [] [])"
  by (rule run_evaluated, code_simp)+

lemma demo_insert:
  "CreateRechargeWithOrder True demo_env
     (recharge_row (r_RechargeNo demo_recharge_row) 7 demo_package)
     (order_row (o_OrderNo demo_order_row) demo_config_row ''web'' ((encode_runes [20313, 39069, 20805, 20540, 32]) @ p_Name demo_package) (p_AmountCents demo_package)
        (rechargeReturnURL ''https://shop.example'' (r_RechargeNo demo_recharge_row)) (expiry_after 63900000000007000000 defaultOrderExpireMinutes))
     (demo_db 5 8 3 2 [demo_wallet_row] [] []) =
   (Inr (recharge_with_order demo_new_recharge demo_new_order), demo_db 10 10 5 2 [demo_wallet_row] [demo_new_order] [demo_new_recharge])"
  by (rule run_evaluated, code_simp)

lemma demo_pay:
  "final_state (payRechargeRow demo_payment (recharge_with_order demo_new_recharge demo_new_order))
     (demo_db 10 10 5 2 [demo_wallet_row] [demo_new_order] [demo_new_recharge]) = demo_paying"
  by code_simp

lemma demo_inputs [simp]:
  "trim_space (rn_PayMethod demo_buy) = ''web''" "trim_space (rn_ReturnURL demo_buy) = ''https://shop.example''"
  "trim_space (rn_PackageCode demo_buy) = ''p10''" "rn_UserID demo_buy = 7" "IsPaymentMethod ''web''"
  "isHTTPURL demo_payment ''https://shop.example''" "pe_configured demo_payment" "pe_repository demo_payment"
  by code_simp+

lemma demo_db_env [simp]: "pe_db demo_payment = demo_env"
  by (simp add: demo_payment_def)

lemma demo_created:
  "recharge_created demo_payment demo_buy (demo_db 1 6 2 0 [] [] []) =
     (Inr (recharge_with_order demo_new_recharge demo_new_order), demo_db 10 10 5 2 [demo_wallet_row] [demo_new_order] [demo_new_recharge])"
  unfolding recharge_created_def Let_def
  by (simp add: bind_def payment_requireRepository_def ret_def wrapped_def map_error_run payment_wallet_def
      demo_reads demo_numbers demo_insert del: One_nat_def)

lemma demo_call_buy: "service_call demo_payment (SrvCreateRecharge demo_buy) (demo_db 1 6 2 0 [] [] []) = demo_paying"
  using demo_pay by (simp add: service_call_def service_CreateRecharge_def bind_def demo_created final_state_def del: One_nat_def)

lemma demo_call_paid:
  "map t_AmountUnits (transactions (tables (service_call demo_payment (SrvSyncRecharge 7 4) demo_paying))) = [1000000000]"
  by code_simp

definition demo_sale :: "(payment_env \<times> service_op) list" where
  "demo_sale = [(demo_payment, SrvCreateConfig demo_config), (demo_payment, SrvCreateRecharge demo_buy),
     (demo_payment, SrvSyncRecharge 7 4)]"

lemma demo_sale_run:
  "run_service demo_sale (payment_start [demo_package]) = service_call demo_payment (SrvSyncRecharge 7 4) demo_paying"
  by (simp add: demo_sale_def demo_call_config demo_call_buy del: One_nat_def)

lemma demo_sale_ok: "service_history demo_sale"
  by (simp add: service_history_def demo_sale_def service_op_ok_def)

lemma demo_sale_rows:
  "map o_Status (pay_orders (tables (run_service demo_sale (payment_start [demo_package])))) = [orderStatusPaid]"
  "map t_SourceType (transactions (tables (run_service demo_sale (payment_start [demo_package])))) = [SourceRecharge]"
  unfolding demo_sale_run by code_simp+

lemma single_row:
  assumes "map f rs = [v]"
  shows "hd rs \<in> set rs" and "f (hd rs) = v"
  using assms by (cases rs; simp)+

section \<open>Only what the gateway confirmed\<close>

text \<open>C28. In every database that a history of service calls can lead to, an order that is paid has been
  confirmed by the gateway during one of the calls: by a query for its number that reported the trade as
  paid, or by a verified notification of its number, its amount and a paid trade.\<close>

theorem paid_only_when_confirmed:
  assumes "service_history h" and "x \<in> set (pay_orders (tables (run_service h (payment_start ps))))"
    and "o_Status x = orderStatusPaid"
  shows "\<exists>(pe, op) \<in> set h. (o_OrderNo x, o_AmountCents x) \<in> confirmed pe"
  by (rule service_run_paid [OF assms])

theorem paid_only_when_confirmed_witness:
  "\<exists>(pe, op) \<in> set demo_sale. (o_OrderNo (hd (pay_orders (tables (run_service demo_sale (payment_start [demo_package]))))),
     o_AmountCents (hd (pay_orders (tables (run_service demo_sale (payment_start [demo_package])))))) \<in> confirmed pe"
  by (rule paid_only_when_confirmed [OF demo_sale_ok single_row(1) [OF demo_sale_rows(1)] single_row(2) [OF demo_sale_rows(1)]])

text \<open>C29. Whatever service calls are made, by whomever and in which order, every credit of a recharge in
  the ledger belongs to one recharge of that user, whose order is paid, has been confirmed by the gateway and
  has the amount credited.\<close>

theorem credited_only_when_confirmed:
  fixes h :: "(payment_env \<times> service_op) list" and ps :: "RechargePackage list"
  defines "D \<equiv> tables (run_service h (payment_start ps))"
  assumes "service_history h" and "t \<in> set (transactions D)" and "t_SourceType t = SourceRecharge"
  shows "\<exists>r \<in> set (recharges D). \<exists>x \<in> set (pay_orders D). r_ID r = t_SourceID t \<and> r_UserID r = t_UserID t \<and>
    r_Status r = rechargeStatusCredited \<and> o_ID x = r_PaymentOrderID r \<and> o_Status x = orderStatusPaid \<and>
    t_AmountUnits t = o_AmountCents x * UnitsPerCent \<and> (\<exists>(pe, op) \<in> set h. (o_OrderNo x, o_AmountCents x) \<in> confirmed pe)"
proof -
  have good: "good (run_service h (payment_start ps))" by (rule service_run_good [OF assms(2)])
  note P = good_parts(4) [OF good, folded D_def]
  have d: "distinct (map source_of (transactions D))"
    using wallet_keysD(7) [OF wallet_state_okD(1) [OF good_parts(3) [OF good]]] by (simp add: source_of_def [abs_def] D_def)
  have src: "source_of t = (SourceRecharge, t_SourceID t)" using assms(4) by (simp add: source_of_def)
  have b: "recharge_books D (t_SourceID t) = Some (t_UserID t, t_AmountUnits t)"
    using row_map_Some [OF d assms(3), of "\<lambda>t. (t_UserID t, t_AmountUnits t)"] by (simp add: recharge_books_def src)
  then have "t_SourceID t \<in> r_ID ` set (recharges D)" using payments_okD(6) [OF P] by blast
  then obtain r where r: "r \<in> set (recharges D)" "r_ID r = t_SourceID t" by auto
  obtain x where x: "x \<in> set (pay_orders D)" "recharge_of (recharge_books D) r x" by (rule recharge_okE [OF P r(1)])
  have paid: "r_Status r = rechargeStatusCredited" "o_Status x = orderStatusPaid" "o_ID x = r_PaymentOrderID r"
    "r_UserID r = t_UserID t" "t_AmountUnits t = o_AmountCents x * UnitsPerCent"
    using x(2) b r(2) by (auto simp: recharge_of_def split: if_splits)
  have "\<exists>(pe, op) \<in> set h. (o_OrderNo x, o_AmountCents x) \<in> confirmed pe"
    by (rule service_run_paid [OF assms(2) x(1) [unfolded D_def] paid(2)])
  with r x(1) paid show ?thesis by blast
qed

theorem credited_only_when_confirmed_witness:
  "\<exists>r \<in> set (recharges (tables (run_service demo_sale (payment_start [demo_package])))).
     \<exists>x \<in> set (pay_orders (tables (run_service demo_sale (payment_start [demo_package])))).
     r_ID r = t_SourceID (hd (transactions (tables (run_service demo_sale (payment_start [demo_package]))))) \<and>
     r_UserID r = t_UserID (hd (transactions (tables (run_service demo_sale (payment_start [demo_package]))))) \<and>
     r_Status r = rechargeStatusCredited \<and> o_ID x = r_PaymentOrderID r \<and> o_Status x = orderStatusPaid \<and>
     t_AmountUnits (hd (transactions (tables (run_service demo_sale (payment_start [demo_package]))))) = o_AmountCents x * UnitsPerCent \<and>
     (\<exists>(pe, op) \<in> set demo_sale. (o_OrderNo x, o_AmountCents x) \<in> confirmed pe)"
  by (rule credited_only_when_confirmed [OF demo_sale_ok single_row(1) [OF demo_sale_rows(2)] single_row(2) [OF demo_sale_rows(2)]])

section \<open>Amounts beyond the range\<close>

text \<open>Yuan that fit an int64 while their cents do not are not refused; their cents wrap around.\<close>

lemma demo_amount_parsed:
  "trim_space ''184467440737095517.16'' = ''184467440737095517.16''"
  "split_dots ''184467440737095517.16'' = [''184467440737095517'', ''16'']"
  "list_all is_digit ''184467440737095517''" "list_all is_digit ''16''"
  "parse_int63 ''184467440737095517'' = Some 184467440737095517" "parse_int63 ''16'' = Some 16"
proof -
  have yuan: "digits_val ''184467440737095517'' = 184467440737095517" by (simp add: digits_val_def digit_val_def)
  show "parse_int63 ''184467440737095517'' = Some 184467440737095517"
    unfolding parse_int63_def yuan by (simp add: max_int64_def)
  show "parse_int63 ''16'' = Some 16" by (simp add: parse_int63_def digits_val_def digit_val_def max_int64_def)
qed ((code_simp)[1] | simp)+

lemma huge_amount_is_one_yuan:
  "parseAmountCents quote ''184467440737095517.16'' = Inr 100" "mustParseCallbackAmount ''184467440737095517.16'' = 100"
  using demo_amount_parsed
  by (simp_all add: parseAmountCents_def mustParseCallbackAmount_def amountStringToCents_def isASCIIAmountDigits_def asciiDigits_def
      mul64_def add64_def wrap64_def)

end
