(* ===== verification/AiUsage.thy ===== *)
theory AiUsage
  imports Pricing WalletModel
begin

text \<open>
  \<open>internal/infra/ai/types.go\<close>: the usage a provider reports for a call, and the errors of the AI
  billing code. A usage snapshot is complete when the provider reported it and its items are well
  formed and pairwise different; digests are byte strings, the zero value of a [32]byte is 32 zero
  bytes. \<open>crypto/sha256\<close> is a parameter, the function from texts to digests.
\<close>

section \<open>Errors\<close>

text \<open>
  The errors of the packages aigateway, infra/ai and of the stores in internal/runtime: sentinels, the
  typed gateway error with a text of its own or that of another error, plain texts, texts with a quoted
  value (\<open>%q\<close>), wrapped and joined errors and the errors of what is called.
\<close>

datatype ai_error =
    ErrFinalizationPending
  | ErrUsageIncomplete
  | ErrNotConfigured
  | ErrNotFound
  | ErrLeaseLost
  | ErrAttemptTerminalConflict
  | ErrReplyNotConfigured
  | ErrCreateInputInvalid
  | ErrConversationUnavailable
  | ErrReplyCommandNotFound
  | ErrPaidCommandFinalizationConflict
  | ErrAppendInputInvalid
  | ErrEventPayloadInvalid
  | ErrDuplicateEventID
  | EvidenceError ai_error
  | GatewayError string string int
  | GatewayCause string ai_error int
  | PlainError string
  | QuotedError string string
  | WrappedError string ai_error
  | JoinedError ai_error ai_error
  | UsageError usage_error
  | PricingError pricing_error
  | AiDb db_error
  | AiWallet wallet_error

text \<open>\<open>errors.Is(err, target)\<close> for a sentinel\<close>

fun errors_is :: "ai_error \<Rightarrow> ai_error \<Rightarrow> bool" where
  "errors_is (WrappedError msg e) target \<longleftrightarrow> WrappedError msg e = target \<or> errors_is e target"
| "errors_is (EvidenceError e) target \<longleftrightarrow> EvidenceError e = target"
| "errors_is (JoinedError a b) target \<longleftrightarrow> JoinedError a b = target \<or> errors_is a target \<or> errors_is b target"
| "errors_is e target \<longleftrightarrow> e = target"

section \<open>Constants\<close>

definition UsageStatusReported :: string where "UsageStatusReported = ''reported''"
definition UsageStatusComplete :: string where "UsageStatusComplete = ''complete''"
definition UsageStatusUnavailable :: string where "UsageStatusUnavailable = ''unavailable''"

definition UsageCategoryInput :: string where "UsageCategoryInput = ''input''"
definition UsageCategoryOutput :: string where "UsageCategoryOutput = ''output''"

definition DispatchStateNotDispatched :: string where "DispatchStateNotDispatched = ''not_dispatched''"
definition DispatchStateDispatched :: string where "DispatchStateDispatched = ''dispatched''"
definition DispatchStateUnknown :: string where "DispatchStateUnknown = ''unknown''"

definition zero_digest :: string where "zero_digest = replicate 32 (CHR 0x00)"

lemmas usage_status_defs = UsageStatusReported_def UsageStatusComplete_def UsageStatusUnavailable_def
lemmas dispatch_state_defs = DispatchStateNotDispatched_def DispatchStateDispatched_def DispatchStateUnknown_def

section \<open>Usage items and snapshots\<close>

record ProviderUsageItem =
  pu_Category :: string
  pu_Unit :: string
  pu_TierKey :: string
  pu_Quantity :: int

record UsageSnapshot =
  us_Status :: string
  us_RawProviderJSON :: string
  us_Items :: "ProviderUsageItem list"
  us_ResponseSHA256 :: string

text \<open>The zero value\<close>

definition no_usage :: UsageSnapshot where
  "no_usage = \<lparr>us_Status = [], us_RawProviderJSON = [], us_Items = [], us_ResponseSHA256 = zero_digest\<rparr>"

definition provider_item_Validate :: "ProviderUsageItem \<Rightarrow> ai_error + unit" where
  "provider_item_Validate item =
     (if pu_Category item = [] \<or> pu_Unit item = [] \<or> pu_Quantity item < 0
      then Inl (PlainError ''usage item category, unit and non-negative quantity are required'') else Inr ())"

definition supported_category :: "string \<Rightarrow> bool" where
  "supported_category category \<longleftrightarrow>
     category = UsageCategoryInput \<or> category = UsageCategoryOutput \<or> category = UsageCategoryCacheRead \<or>
     category = UsageCategoryCacheWrite \<or> category = UsageCategoryMedia"

definition provider_item_key :: "ProviderUsageItem \<Rightarrow> string" where
  "provider_item_key item = pu_Category item @ ''|'' @ pu_Unit item @ ''|'' @ pu_TierKey item"

text \<open>The loop over the items, with the keys seen so far\<close>

fun validate_items :: "string list \<Rightarrow> ProviderUsageItem list \<Rightarrow> ai_error + unit" where
  "validate_items seen [] = Inr ()"
| "validate_items seen (item # items) =
     (case provider_item_Validate item of
        Inl err \<Rightarrow> Inl err
      | Inr _ \<Rightarrow>
          if \<not> supported_category (pu_Category item)
          then Inl (QuotedError ''unsupported usage category'' (pu_Category item))
          else if List.member seen (provider_item_key item)
          then Inl (QuotedError ''duplicate usage item'' (provider_item_key item))
          else validate_items (provider_item_key item # seen) items)"

definition validateUsageItems :: "ProviderUsageItem list \<Rightarrow> ai_error + unit" where
  "validateUsageItems items =
     (if items = [] then Inl (PlainError ''complete usage requires at least one item'') else validate_items [] items)"

definition Complete :: "UsageSnapshot \<Rightarrow> bool" where
  "Complete s \<longleftrightarrow>
     (if us_Status s \<noteq> UsageStatusReported \<and> us_Status s \<noteq> UsageStatusComplete then False
      else validateUsageItems (us_Items s) = Inr ())"

definition snapshot_Validate :: "UsageSnapshot \<Rightarrow> ai_error + unit" where
  "snapshot_Validate s =
     (if us_Status s = UsageStatusUnavailable then Inr ()
      else if us_Status s \<noteq> UsageStatusReported \<and> us_Status s \<noteq> UsageStatusComplete
      then Inl (QuotedError ''unknown usage status'' (us_Status s))
      else validateUsageItems (us_Items s))"

definition NewUsageSnapshot ::
    "(string \<Rightarrow> string) \<Rightarrow> string \<Rightarrow> string \<Rightarrow> ProviderUsageItem list \<Rightarrow> UsageSnapshot \<times> (ai_error + unit)" where
  "NewUsageSnapshot sha256 status raw items =
     (let s = \<lparr>us_Status = status, us_RawProviderJSON = raw, us_Items = items, us_ResponseSHA256 = sha256 raw\<rparr>
      in (s, snapshot_Validate s))"

section \<open>Identities and input bounds\<close>

record UsageIdentity =
  ui_Category :: string
  ui_Unit :: string
  ui_TierKey :: string

definition identity_Normalized :: "UsageIdentity \<Rightarrow> ai_error + UsageIdentity" where
  "identity_Normalized i =
     (let i = \<lparr>ui_Category = trim_space (ui_Category i), ui_Unit = trim_space (ui_Unit i), ui_TierKey = trim_space (ui_TierKey i)\<rparr>
      in case validateUsageItems [\<lparr>pu_Category = ui_Category i, pu_Unit = ui_Unit i, pu_TierKey = ui_TierKey i, pu_Quantity = 0\<rparr>] of
           Inl err \<Rightarrow> Inl err
         | Inr _ \<Rightarrow> Inr i)"

definition safeInputUpperBoundFramingBytes :: int where "safeInputUpperBoundFramingBytes = 64"

definition SafeInputUpperBoundFromRequest :: "string \<Rightarrow> ai_error + int" where
  "SafeInputUpperBoundFromRequest body =
     (if body = [] then Inl (PlainError ''prepared request body is required'')
      else if sub64 max_int64 safeInputUpperBoundFramingBytes < int (length body)
      then Inl (PlainError ''prepared request body is too large'')
      else Inr (add64 (int (length body)) safeInputUpperBoundFramingBytes))"

section \<open>Facts\<close>

definition item_ok :: "ProviderUsageItem \<Rightarrow> bool" where
  "item_ok item \<longleftrightarrow> supported_category (pu_Category item) \<and> pu_Unit item \<noteq> [] \<and> 0 \<le> pu_Quantity item"

lemma provider_item_Validate_Inr: "provider_item_Validate item = Inr u \<longleftrightarrow>
    pu_Category item \<noteq> [] \<and> pu_Unit item \<noteq> [] \<and> 0 \<le> pu_Quantity item"
  by (auto simp: provider_item_Validate_def)

lemma validate_items_Inr:
  "validate_items seen items = Inr () \<longleftrightarrow>
     list_all item_ok items \<and> distinct (map provider_item_key items) \<and> set (map provider_item_key items) \<inter> set seen = {}"
proof (induction items arbitrary: seen)
  case (Cons item items)
  have "provider_item_Validate item = Inr () \<and> supported_category (pu_Category item) \<longleftrightarrow> item_ok item"
    by (auto simp: provider_item_Validate_Inr item_ok_def supported_category_def UsageCategoryInput_def
        UsageCategoryOutput_def usage_category_defs)
  then show ?case
    by (cases "provider_item_Validate item") (auto simp: Cons.IH)
qed simp

lemma validateUsageItems_Inr:
  "validateUsageItems items = Inr () \<longleftrightarrow> items \<noteq> [] \<and> list_all item_ok items \<and> distinct (map provider_item_key items)"
  by (auto simp: validateUsageItems_def validate_items_Inr)

lemma Complete_valid: "Complete s \<Longrightarrow> snapshot_Validate s = Inr ()"
  by (auto simp: Complete_def snapshot_Validate_def split: if_splits)

lemma unavailable_incomplete: "us_Status s = UsageStatusUnavailable \<Longrightarrow> \<not> Complete s"
  by (simp add: Complete_def usage_status_defs)

lemma Complete_items: "Complete s \<Longrightarrow> us_Items s \<noteq> [] \<and> (\<forall>item \<in> set (us_Items s). item_ok item)"
  by (auto simp: Complete_def validateUsageItems_Inr list_all_iff split: if_splits)

end
