(* ===== verification/JsonValid.thy ===== *)
theory JsonValid
  imports JsonText
begin

text \<open>
  \<open>json.Valid\<close> of encoding/json: the scanner of the package, a machine that reads one byte at a time
  and keeps the kinds of the values it is inside of, at most 10000 of them.
\<close>

datatype json_inside = ObjectKey | ObjectValue | ArrayValue

datatype json_mode =
    BeginValue | BeginValueOrEmpty | BeginString | BeginStringOrEmpty | EndValue | EndTop
  | InString | InEscape | InUnicode nat | Negative | LeadingZero | Digits | Dot | Fraction
  | Exponent | ExponentSign | ExponentDigits | Literal string

type_synonym json_scan = "json_mode \<times> json_inside list"

definition json_digit :: "char \<Rightarrow> bool" where
  "json_digit c \<longleftrightarrow> is_digit c"

definition json_push :: "json_mode \<Rightarrow> json_inside \<Rightarrow> json_inside list \<Rightarrow> json_scan option" where
  "json_push mode k ks = (if length ks < 10000 then Some (mode, k # ks) else None)"

definition json_pop :: "json_inside list \<Rightarrow> json_scan" where
  "json_pop ks = (if tl ks = [] then (EndTop, []) else (EndValue, tl ks))"

definition json_end_value :: "json_inside list \<Rightarrow> char \<Rightarrow> json_scan option" where
  "json_end_value ks c =
     (case ks of
        [] \<Rightarrow> if json_space c then Some (EndTop, []) else None
      | k # rest \<Rightarrow>
          if json_space c then Some (EndValue, ks)
          else (case k of
              ObjectKey \<Rightarrow> if c = CHR '':'' then Some (BeginValue, ObjectValue # rest) else None
            | ObjectValue \<Rightarrow>
                if c = CHR '','' then Some (BeginString, ObjectKey # rest)
                else if c = CHR ''}'' then Some (json_pop ks) else None
            | ArrayValue \<Rightarrow>
                if c = CHR '','' then Some (BeginValue, ks)
                else if c = CHR '']'' then Some (json_pop ks) else None))"

definition json_begin_value :: "json_inside list \<Rightarrow> char \<Rightarrow> json_scan option" where
  "json_begin_value ks c =
     (if json_space c then Some (BeginValue, ks)
      else if c = CHR ''{'' then json_push BeginStringOrEmpty ObjectKey ks
      else if c = CHR ''['' then json_push BeginValueOrEmpty ArrayValue ks
      else if c = CHR 0x22 then Some (InString, ks)
      else if c = CHR ''-'' then Some (Negative, ks)
      else if c = CHR ''0'' then Some (LeadingZero, ks)
      else if c = CHR ''t'' then Some (Literal ''rue'', ks)
      else if c = CHR ''f'' then Some (Literal ''alse'', ks)
      else if c = CHR ''n'' then Some (Literal ''ull'', ks)
      else if json_digit c then Some (Digits, ks) else None)"

definition json_begin_string :: "json_mode \<Rightarrow> json_inside list \<Rightarrow> char \<Rightarrow> json_scan option" where
  "json_begin_string here ks c =
     (if json_space c then Some (here, ks) else if c = CHR 0x22 then Some (InString, ks) else None)"

definition json_after_integer :: "json_inside list \<Rightarrow> char \<Rightarrow> json_scan option" where
  "json_after_integer ks c =
     (if c = CHR ''.'' then Some (Dot, ks)
      else if c = CHR ''e'' \<or> c = CHR ''E'' then Some (Exponent, ks) else json_end_value ks c)"

definition json_step :: "json_scan \<Rightarrow> char \<Rightarrow> json_scan option" where
  "json_step s c = (let ks = snd s in case fst s of
     BeginValue \<Rightarrow> json_begin_value ks c
   | BeginValueOrEmpty \<Rightarrow>
       if json_space c then Some s else if c = CHR '']'' then json_end_value ks c else json_begin_value ks c
   | BeginString \<Rightarrow> json_begin_string BeginString ks c
   | BeginStringOrEmpty \<Rightarrow>
       if c = CHR ''}'' then json_end_value (ObjectValue # tl ks) c else json_begin_string BeginStringOrEmpty ks c
   | EndValue \<Rightarrow> json_end_value ks c
   | EndTop \<Rightarrow> if json_space c then Some s else None
   | InString \<Rightarrow>
       if c = CHR 0x22 then Some (EndValue, ks) else if c = CHR 0x5C then Some (InEscape, ks)
       else if of_char c < (32 :: int) then None else Some s
   | InEscape \<Rightarrow>
       if List.member ''bfnrt/'' c \<or> c = CHR 0x5C \<or> c = CHR 0x22 then Some (InString, ks)
       else if c = CHR ''u'' then Some (InUnicode 3, ks) else None
   | InUnicode n \<Rightarrow>
       if json_hex c = None then None
       else if n = 0 then Some (InString, ks) else Some (InUnicode (n - 1), ks)
   | Negative \<Rightarrow> if c = CHR ''0'' then Some (LeadingZero, ks) else if json_digit c then Some (Digits, ks) else None
   | LeadingZero \<Rightarrow> json_after_integer ks c
   | Digits \<Rightarrow> if json_digit c then Some s else json_after_integer ks c
   | Dot \<Rightarrow> if json_digit c then Some (Fraction, ks) else None
   | Fraction \<Rightarrow>
       if json_digit c then Some s
       else if c = CHR ''e'' \<or> c = CHR ''E'' then Some (Exponent, ks) else json_end_value ks c
   | Exponent \<Rightarrow>
       if c = CHR ''+'' \<or> c = CHR ''-'' then Some (ExponentSign, ks)
       else if json_digit c then Some (ExponentDigits, ks) else None
   | ExponentSign \<Rightarrow> if json_digit c then Some (ExponentDigits, ks) else None
   | ExponentDigits \<Rightarrow> if json_digit c then Some s else json_end_value ks c
   | Literal rest \<Rightarrow>
       (case rest of
          [] \<Rightarrow> None
        | d # ds \<Rightarrow> if c \<noteq> d then None else if ds = [] then Some (EndValue, ks) else Some (Literal ds, ks)))"

fun json_scan :: "json_scan \<Rightarrow> string \<Rightarrow> json_scan option" where
  "json_scan s [] = Some s"
| "json_scan s (c # cs) = (case json_step s c of None \<Rightarrow> None | Some t \<Rightarrow> json_scan t cs)"

text \<open>At the end of the text the scanner takes one more blank.\<close>

definition json_Valid :: "string \<Rightarrow> bool" where
  "json_Valid text =
     (case json_scan (BeginValue, []) text of
        None \<Rightarrow> False
      | Some s \<Rightarrow> fst s = EndTop \<or> (case json_step s (CHR '' '') of Some t \<Rightarrow> fst t = EndTop | None \<Rightarrow> False))"

lemma json_Valid_nonempty [simp]: "\<not> json_Valid []"
  by (simp add: json_Valid_def json_step_def json_begin_value_def json_space_def)

definition json_quoted :: "string \<Rightarrow> string" where
  "json_quoted text = [CHR 0x22] @ text @ [CHR 0x22]"

lemma json_Valid_examples:
  "json_Valid (''{'' @ json_quoted ''a'' @ '': [1, -0.5e+2, true, null], '' @ json_quoted ''b'' @ '': {}}'')"
  "json_Valid '' 12 ''" "\<not> json_Valid ''[1,]''" "\<not> json_Valid ''01''"
  "\<not> json_Valid (''{'' @ json_quoted ''a'' @ ''}'')" "\<not> json_Valid ''1 2''"
  by code_simp+

end
