(* ===== verification/AiFinalizer.thy ===== *)
theory AiFinalizer
  imports AiUsage JsonValid
begin

text \<open>
  \<open>internal/module/ai/aigateway/finalizer.go\<close>, and from gateway.go what makes an outcome of a
  provider call terminal: the facts of a finished AI run, their validation, and the decision what of
  the held amount is captured. The pricer is an argument of the decision, as it is a dependency of
  the Go type.
\<close>

section \<open>Constants (billing/contracts.go, finalizer.go, enum/ai.go)\<close>

definition BillingReasonPending :: string where "BillingReasonPending = ''pending''"
definition BillingReasonHeld :: string where "BillingReasonHeld = ''held''"
definition BillingReasonSettledCompleteUsage :: string where "BillingReasonSettledCompleteUsage = ''settled_complete_usage''"
definition BillingReasonReleasedBeforeDispatch :: string where "BillingReasonReleasedBeforeDispatch = ''released_before_dispatch''"
definition BillingReasonReleasedInsufficientBalance :: string where
  "BillingReasonReleasedInsufficientBalance = ''released_insufficient_balance''"
definition BillingReasonReleasedProviderFailed :: string where "BillingReasonReleasedProviderFailed = ''released_provider_failed''"
definition BillingReasonReleasedOutcomeUnknown :: string where "BillingReasonReleasedOutcomeUnknown = ''released_outcome_unknown''"
definition BillingReasonUnbilledUsageIncomplete :: string where "BillingReasonUnbilledUsageIncomplete = ''unbilled_usage_incomplete''"
definition BillingReasonUnbilledOverHold :: string where "BillingReasonUnbilledOverHold = ''unbilled_over_hold''"

definition ChargeStatusOpen :: string where "ChargeStatusOpen = ''open''"
definition ChargeStatusSettled :: string where "ChargeStatusSettled = ''settled''"
definition ChargeStatusReleased :: string where "ChargeStatusReleased = ''released''"
definition ChargeStatusUnbilled :: string where "ChargeStatusUnbilled = ''unbilled''"

definition TriggerSuccess :: string where "TriggerSuccess = ''success''"
definition TriggerUserStop :: string where "TriggerUserStop = ''user_stop''"
definition TriggerUserStopBeforeDispatch :: string where "TriggerUserStopBeforeDispatch = ''before_dispatch''"
definition TriggerPreDispatchFailed :: string where "TriggerPreDispatchFailed = ''pre_dispatch_failed''"
definition TriggerLocalFailure :: string where "TriggerLocalFailure = ''local_failure''"
definition TriggerInitialInsufficient :: string where "TriggerInitialInsufficient = ''initial_insufficient''"
definition TriggerContinuationTopUpInsufficient :: string where
  "TriggerContinuationTopUpInsufficient = ''continuation_topup_insufficient''"
definition TriggerProviderFailed :: string where "TriggerProviderFailed = ''provider_failed''"
definition TriggerOutcomeUnknown :: string where "TriggerOutcomeUnknown = ''outcome_unknown''"

definition AttemptEvidencePaid :: string where "AttemptEvidencePaid = ''paid''"
definition AttemptEvidenceLegacyUnbillable :: string where "AttemptEvidenceLegacyUnbillable = ''legacy_unbillable''"

definition SettlementMoneyCapture :: string where "SettlementMoneyCapture = ''capture''"
definition SettlementMoneyRelease :: string where "SettlementMoneyRelease = ''release''"
definition SettlementCandidatePublish :: string where "SettlementCandidatePublish = ''publish''"
definition SettlementCandidateDiscard :: string where "SettlementCandidateDiscard = ''discard''"

definition AIRunStatusRunning :: string where "AIRunStatusRunning = ''running''"
definition AIRunStatusSuccess :: string where "AIRunStatusSuccess = ''success''"
definition AIRunStatusFailed :: string where "AIRunStatusFailed = ''failed''"
definition AIRunStatusCanceled :: string where "AIRunStatusCanceled = ''canceled''"
definition AIRunStatusOutcomeUnknown :: string where "AIRunStatusOutcomeUnknown = ''outcome_unknown''"

lemmas charge_status_defs = ChargeStatusOpen_def ChargeStatusSettled_def ChargeStatusReleased_def ChargeStatusUnbilled_def
lemmas trigger_defs = TriggerSuccess_def TriggerUserStop_def TriggerUserStopBeforeDispatch_def
  TriggerPreDispatchFailed_def TriggerLocalFailure_def TriggerInitialInsufficient_def
  TriggerContinuationTopUpInsufficient_def TriggerProviderFailed_def TriggerOutcomeUnknown_def
lemmas evidence_defs = AttemptEvidencePaid_def AttemptEvidenceLegacyUnbillable_def
lemmas settlement_action_defs = SettlementMoneyCapture_def SettlementMoneyRelease_def
  SettlementCandidatePublish_def SettlementCandidateDiscard_def
lemmas run_status_defs = AIRunStatusRunning_def AIRunStatusSuccess_def AIRunStatusFailed_def
  AIRunStatusCanceled_def AIRunStatusOutcomeUnknown_def
lemmas billing_reason_defs = BillingReasonPending_def BillingReasonHeld_def BillingReasonSettledCompleteUsage_def
  BillingReasonReleasedBeforeDispatch_def BillingReasonReleasedInsufficientBalance_def
  BillingReasonReleasedProviderFailed_def BillingReasonReleasedOutcomeUnknown_def
  BillingReasonUnbilledUsageIncomplete_def BillingReasonUnbilledOverHold_def

section \<open>Facts and decisions (finalizer.go, contracts.go, billing/model.go)\<close>

record RunSnapshot =
  rs_RunID :: int
  rs_UserID :: int
  rs_RequestID :: string
  rs_RequestFingerprint :: string
  rs_PricingSnapshotJSON :: string
  rs_BillingStatus :: string
  rs_BillingReason :: string
  rs_AgentID :: int
  rs_ModelID :: string
  rs_ModelDisplayName :: string

record FinalizationCharge =
  fc_ID :: int
  fc_RunID :: int
  fc_UserID :: int
  fc_HeldUnits :: int
  fc_HeldAuditMax :: int
  fc_ActualUnits :: int
  fc_Status :: string

record FinalizationHold =
  fh_ID :: int
  fh_WalletID :: int
  fh_RunID :: int
  fh_UserID :: int
  fh_HeldUnits :: int
  fh_HeldAuditMax :: int
  fh_CapturedUnits :: int
  fh_Status :: string

definition no_hold :: FinalizationHold where
  "no_hold = \<lparr>fh_ID = 0, fh_WalletID = 0, fh_RunID = 0, fh_UserID = 0, fh_HeldUnits = 0, fh_HeldAuditMax = 0,
     fh_CapturedUnits = 0, fh_Status = []\<rparr>"

record FinalizationAttempt =
  fa_ID :: int
  fa_RunID :: int
  fa_AttemptNo :: int
  fa_EvidenceKind :: string
  fa_State :: string
  fa_DispatchState :: string
  fa_Usage :: UsageSnapshot
  fa_ProviderRequestID :: string
  fa_ResponseSHA256 :: string

record FinalizationCandidate =
  cd_AttemptID :: int
  cd_JSON :: string

record FinalizationFacts =
  ff_Run :: RunSnapshot
  ff_Charge :: FinalizationCharge
  ff_Hold :: FinalizationHold
  ff_Attempts :: "FinalizationAttempt list"
  ff_Trigger :: string
  ff_StoppedAttemptID :: int
  ff_CurrentAttemptID :: int
  ff_Candidate :: FinalizationCandidate

record BillableAttempt =
  ba_ID :: int
  ba_AttemptNo :: int
  ba_Usage :: UsageSnapshot

record UsageChargeItem =
  ci_ID :: int
  ci_ChargeID :: int
  ci_AttemptID :: int
  ci_Category :: string
  ci_TierKey :: string
  ci_Quantity :: int
  ci_Unit :: string
  ci_UnitPriceUnits :: int
  ci_UnitScale :: int
  ci_AmountUnits :: int
  ci_CreatedAt :: gotime

record SettlementPricingInput =
  sp_Run :: RunSnapshot
  sp_Attempts :: "BillableAttempt list"

record SettlementQuote =
  sq_ActualUnits :: int
  sq_Items :: "UsageChargeItem list"

record SettlementDecision =
  sd_RunStatus :: string
  sd_BillingStatus :: string
  sd_BillingReason :: string
  sd_ChargeStatus :: string
  sd_HoldStatus :: string
  sd_MoneyAction :: string
  sd_CandidateAction :: string
  sd_Candidate :: FinalizationCandidate
  sd_ActualUnits :: int
  sd_HoldUnits :: int
  sd_Items :: "UsageChargeItem list"
  sd_EventType :: string
  sd_BillingAnomaly :: string
  sd_LedgerSummary :: string

record FileInputMetrics =
  fm_COSHeadMS :: int
  fm_COSStreamMS :: int
  fm_MaterializedRequestBytes :: int

record DispatchResult =
  dr_ProviderRequestID :: string
  dr_ResponseSHA256 :: string
  dr_DispatchState :: string
  dr_TerminalState :: string
  dr_ErrorCode :: string
  dr_Usage :: UsageSnapshot
  dr_ResultCandidateJSON :: "string option"
  dr_FileInputMetrics :: "FileInputMetrics option"

section \<open>Terminal outcomes (gateway.go)\<close>

definition ErrCodeInvalidOutcome :: string where "ErrCodeInvalidOutcome = ''ai.billing.invalid_terminal_outcome''"

definition validTerminalState :: "string \<Rightarrow> bool" where
  "validTerminalState state \<longleftrightarrow> List.member [''succeeded'', ''failed'', ''canceled'', ''outcome_unknown''] (trim_space state)"

definition validDispatchState :: "string \<Rightarrow> bool" where
  "validDispatchState state \<longleftrightarrow>
     List.member [DispatchStateNotDispatched, DispatchStateDispatched, DispatchStateUnknown] (trim_space state)"

definition invalid_outcome :: "string \<Rightarrow> int \<Rightarrow> ai_error + 'a" where
  "invalid_outcome msg status = Inl (GatewayError ErrCodeInvalidOutcome msg status)"

definition validateRawUsageEvidence :: "(string \<Rightarrow> string) \<Rightarrow> UsageSnapshot \<Rightarrow> ai_error + unit" where
  "validateRawUsageEvidence sha256 usage =
     (if \<not> Complete usage then Inr ()
      else if us_RawProviderJSON usage = [] \<or> us_ResponseSHA256 usage = zero_digest \<or>
              sha256 (us_RawProviderJSON usage) \<noteq> us_ResponseSHA256 usage
      then invalid_outcome ''complete usage requires raw provider bytes and their hash'' 409
      else Inr ())"

text \<open>The switch over the terminal state at the end of validateTerminalOutcome\<close>

definition terminal_evidence :: "DispatchResult \<Rightarrow> bool \<Rightarrow> ai_error + unit" where
  "terminal_evidence result hasResponseHash =
     (if dr_TerminalState result = ''succeeded'' then
        if dr_ErrorCode result \<noteq> [] then invalid_outcome ''succeeded outcome cannot have an error code'' 400
        else if dr_DispatchState result \<noteq> DispatchStateDispatched \<or> trim_space (dr_ProviderRequestID result) = [] \<or> \<not> hasResponseHash
        then invalid_outcome ''succeeded outcome requires dispatched provider response evidence'' 400
        else Inr ()
      else if dr_TerminalState result = ''failed'' \<or> dr_TerminalState result = ''canceled'' then
        if us_Status (dr_Usage result) = []
        then invalid_outcome ''failed or canceled outcome requires explicit usage audit status'' 400
        else if dr_DispatchState result = DispatchStateUnknown
        then invalid_outcome ''unknown dispatch must use outcome_unknown terminal state'' 400
        else if dr_DispatchState result = DispatchStateNotDispatched \<and> Complete (dr_Usage result)
        then invalid_outcome ''not-dispatched outcome cannot contain complete usage'' 400
        else if dr_DispatchState result = DispatchStateDispatched \<and> Complete (dr_Usage result) \<and>
             (trim_space (dr_ProviderRequestID result) = [] \<or> \<not> hasResponseHash)
        then invalid_outcome ''complete failed or canceled usage requires provider response evidence'' 400
        else Inr ()
      else if dr_TerminalState result = ''outcome_unknown'' then
        if dr_DispatchState result \<noteq> DispatchStateUnknown \<or> us_Status (dr_Usage result) \<noteq> UsageStatusUnavailable \<or>
           Complete (dr_Usage result)
        then invalid_outcome ''unknown outcome requires unknown dispatch and unavailable usage'' 400
        else Inr ()
      else Inr ())"

definition validateTerminalOutcome :: "(string \<Rightarrow> string) \<Rightarrow> DispatchResult \<Rightarrow> ai_error + unit" where
  "validateTerminalOutcome sha256 result =
     (if \<not> validTerminalState (dr_TerminalState result) \<or> \<not> validDispatchState (dr_DispatchState result)
      then invalid_outcome ''terminal and dispatch states are required'' 400
      else case snapshot_Validate (dr_Usage result) of
        Inl err \<Rightarrow> Inl (GatewayCause ErrCodeInvalidOutcome err 400)
      | Inr _ \<Rightarrow>
      (case validateRawUsageEvidence sha256 (dr_Usage result) of
        Inl err \<Rightarrow> Inl err
      | Inr _ \<Rightarrow>
      if (case dr_FileInputMetrics result of
            None \<Rightarrow> False
          | Some m \<Rightarrow> fm_COSHeadMS m < 0 \<or> fm_COSStreamMS m < 0 \<or> fm_MaterializedRequestBytes m \<le> 0)
      then invalid_outcome ''file input metrics are invalid'' 400
      else if dr_ErrorCode result \<noteq> trim_space (dr_ErrorCode result) \<or> 128 < length (dr_ErrorCode result)
      then invalid_outcome ''terminal error code is invalid'' 400
      else if (case dr_ResultCandidateJSON result of
            None \<Rightarrow> False
          | Some text \<Rightarrow> trim_space text = [] \<or> \<not> json_Valid (trim_space text))
      then invalid_outcome ''result candidate must be valid non-empty JSON'' 400
      else
        let hasResponseHash = dr_ResponseSHA256 result \<noteq> zero_digest
        in if hasResponseHash \<and> dr_DispatchState result = DispatchStateNotDispatched
           then invalid_outcome ''not-dispatched outcome cannot have response evidence'' 400
           else terminal_evidence result hasResponseHash))"

section \<open>Kinds of attempts\<close>

definition validTrigger :: "string \<Rightarrow> bool" where
  "validTrigger trigger \<longleftrightarrow> List.member
     [TriggerSuccess, TriggerUserStop, TriggerUserStopBeforeDispatch, TriggerPreDispatchFailed, TriggerLocalFailure,
      TriggerInitialInsufficient, TriggerContinuationTopUpInsufficient, TriggerProviderFailed, TriggerOutcomeUnknown] trigger"

definition hasIntermediateAttempt :: "FinalizationAttempt list \<Rightarrow> bool" where
  "hasIntermediateAttempt attempts \<longleftrightarrow>
     list_ex (\<lambda>a. fa_State a = AttemptStatePrepared \<or> fa_State a = AttemptStateDispatched) attempts"

definition hasDispatchedAttempt :: "FinalizationAttempt list \<Rightarrow> bool" where
  "hasDispatchedAttempt attempts \<longleftrightarrow>
     list_ex (\<lambda>a. fa_DispatchState a = DispatchStateDispatched \<or> fa_State a = AttemptStateDispatched) attempts"

text \<open>The attempt a user stopped while the provider was answering\<close>

definition stopped_attempt :: "FinalizationFacts \<Rightarrow> FinalizationAttempt \<Rightarrow> bool" where
  "stopped_attempt facts a \<longleftrightarrow> fa_ID a = ff_StoppedAttemptID facts \<and> fa_State a = AttemptStateCanceled \<and>
     fa_DispatchState a = DispatchStateDispatched"

text \<open>The loop of allSucceededOrStopped, with its counter and its flag\<close>

fun succeeded_or_stopped :: "FinalizationFacts \<Rightarrow> nat \<Rightarrow> bool \<Rightarrow> FinalizationAttempt list \<Rightarrow> bool" where
  "succeeded_or_stopped facts stoppedMatches hasBillable [] \<longleftrightarrow>
     hasBillable \<and> (ff_StoppedAttemptID facts = 0 \<or> stoppedMatches = 1)"
| "succeeded_or_stopped facts stoppedMatches hasBillable (a # as) \<longleftrightarrow>
     (if fa_State a = AttemptStateSucceeded then succeeded_or_stopped facts stoppedMatches True as
      else if fa_State a = AttemptStateFailed then succeeded_or_stopped facts stoppedMatches hasBillable as
      else if stopped_attempt facts a then succeeded_or_stopped facts (Suc stoppedMatches) True as
      else False)"

definition allSucceededOrStopped :: "FinalizationFacts \<Rightarrow> bool" where
  "allSucceededOrStopped facts \<longleftrightarrow> succeeded_or_stopped facts 0 False (ff_Attempts facts)"

definition hasSuccessfulResultWithoutBlockingTerminal :: "FinalizationAttempt list \<Rightarrow> bool" where
  "hasSuccessfulResultWithoutBlockingTerminal attempts \<longleftrightarrow>
     list_all (\<lambda>a. fa_State a = AttemptStateSucceeded \<or> fa_State a = AttemptStateFailed) attempts \<and>
     list_ex (\<lambda>a. fa_State a = AttemptStateSucceeded) attempts"

definition chargeable :: "FinalizationFacts \<Rightarrow> FinalizationAttempt \<Rightarrow> bool" where
  "chargeable facts a \<longleftrightarrow> fa_State a = AttemptStateSucceeded \<or> stopped_attempt facts a"

definition billable_attempt :: "FinalizationAttempt \<Rightarrow> BillableAttempt" where
  "billable_attempt a = \<lparr>ba_ID = fa_ID a, ba_AttemptNo = fa_AttemptNo a, ba_Usage = fa_Usage a\<rparr>"

definition billableAttempts :: "FinalizationFacts \<Rightarrow> BillableAttempt list" where
  "billableAttempts facts =
     map billable_attempt (filter (\<lambda>a. fa_EvidenceKind a = AttemptEvidencePaid \<and> chargeable facts a) (ff_Attempts facts))"

definition hasLegacyChargeableAttempt :: "FinalizationFacts \<Rightarrow> bool" where
  "hasLegacyChargeableAttempt facts \<longleftrightarrow>
     list_ex (\<lambda>a. fa_EvidenceKind a = AttemptEvidenceLegacyUnbillable \<and> chargeable facts a) (ff_Attempts facts)"

definition candidateBelongsToBillableAttempt :: "FinalizationCandidate \<Rightarrow> BillableAttempt list \<Rightarrow> bool" where
  "candidateBelongsToBillableAttempt candidate billable \<longleftrightarrow>
     (if cd_AttemptID candidate \<le> 0 \<or> trim_space (cd_JSON candidate) = [] then False
      else list_ex (\<lambda>a. cd_AttemptID candidate = ba_ID a) billable)"

section \<open>Validation of the facts\<close>

definition validateFinalizationAttempt :: "(string \<Rightarrow> string) \<Rightarrow> FinalizationAttempt \<Rightarrow> ai_error + unit" where
  "validateFinalizationAttempt sha256 a =
     (if fa_EvidenceKind a \<noteq> AttemptEvidencePaid \<and> fa_EvidenceKind a \<noteq> AttemptEvidenceLegacyUnbillable
      then Inl (PlainError ''finalization attempt evidence kind is invalid'')
      else case snapshot_Validate (fa_Usage a) of
        Inl err \<Rightarrow> Inl err
      | Inr _ \<Rightarrow>
          let inconsistent = Inl (PlainError ''finalization attempt state and dispatch facts are inconsistent'')
          in if fa_State a = AttemptStatePrepared then
               if fa_DispatchState a = DispatchStateNotDispatched then Inr () else inconsistent
             else if fa_State a = AttemptStateDispatched then
               if fa_DispatchState a = DispatchStateDispatched then Inr () else inconsistent
             else if List.member [AttemptStateSucceeded, AttemptStateFailed, AttemptStateCanceled, AttemptStateOutcomeUnknown] (fa_State a)
             then validateTerminalOutcome sha256
               \<lparr>dr_ProviderRequestID = fa_ProviderRequestID a, dr_ResponseSHA256 = fa_ResponseSHA256 a,
                dr_DispatchState = fa_DispatchState a, dr_TerminalState = fa_State a, dr_ErrorCode = [], dr_Usage = fa_Usage a,
                dr_ResultCandidateJSON = None, dr_FileInputMetrics = None\<rparr>
             else Inl (PlainError ''unknown finalization attempt state''))"

text \<open>The loop over the attempts, with those seen so far\<close>

fun validate_attempts ::
    "(string \<Rightarrow> string) \<Rightarrow> int \<Rightarrow> FinalizationAttempt list \<Rightarrow> FinalizationAttempt list \<Rightarrow> ai_error + unit" where
  "validate_attempts sha256 runID seen [] = Inr ()"
| "validate_attempts sha256 runID seen (a # as) =
     (if fa_ID a \<le> 0 \<or> fa_RunID a \<noteq> runID \<or> fa_AttemptNo a = 0
      then Inl (PlainError ''finalization attempt identity is invalid'')
      else if list_ex (\<lambda>b. fa_ID b = fa_ID a) seen then Inl (PlainError ''finalization attempt id is duplicated'')
      else if list_ex (\<lambda>b. fa_AttemptNo b = fa_AttemptNo a) seen then Inl (PlainError ''finalization attempt number is duplicated'')
      else case validateFinalizationAttempt sha256 a of
        Inl err \<Rightarrow> Inl (WrappedError ''finalization attempt terminal evidence is invalid'' err)
      | Inr _ \<Rightarrow> validate_attempts sha256 runID (a # seen) as)"

text \<open>The facts about the current, the stopped and the published attempt, in the order of the code\<close>

definition validate_current :: "FinalizationFacts \<Rightarrow> ai_error + unit" where
  "validate_current facts =
     (let current = find (\<lambda>a. fa_ID a = ff_CurrentAttemptID facts) (ff_Attempts facts);
          ends_in = (\<lambda>state. case current of Some a \<Rightarrow> fa_State a = state | None \<Rightarrow> False)
      in if ff_CurrentAttemptID facts \<noteq> 0 \<and> current = None
         then Inl (PlainError ''current finalization attempt does not exist'')
         else if ff_Trigger facts = TriggerProviderFailed \<and> (ff_CurrentAttemptID facts = 0 \<or> \<not> ends_in AttemptStateFailed)
         then Inl (PlainError ''provider failed trigger does not match the current terminal attempt'')
         else if ff_Trigger facts = TriggerOutcomeUnknown \<and> (ff_CurrentAttemptID facts = 0 \<or> \<not> ends_in AttemptStateOutcomeUnknown)
         then Inl (PlainError ''outcome unknown trigger does not match the current terminal attempt'')
         else Inr ())"

definition candidate_present :: "FinalizationFacts \<Rightarrow> bool" where
  "candidate_present facts \<longleftrightarrow> cd_AttemptID (ff_Candidate facts) \<noteq> 0 \<or> trim_space (cd_JSON (ff_Candidate facts)) \<noteq> []"

definition validate_candidate :: "FinalizationFacts \<Rightarrow> ai_error + unit" where
  "validate_candidate facts =
     (let candidate = ff_Candidate facts
      in if \<not> candidate_present facts then Inr ()
         else if cd_AttemptID candidate \<le> 0 \<or> trim_space (cd_JSON candidate) = []
         then Inl (PlainError ''finalization candidate identity and payload are incomplete'')
         else if \<not> list_ex (\<lambda>a. fa_ID a = cd_AttemptID candidate) (ff_Attempts facts)
         then Inl (PlainError ''finalization candidate attempt does not exist'')
         else if ff_CurrentAttemptID facts = 0 \<or> cd_AttemptID candidate \<noteq> ff_CurrentAttemptID facts
         then Inl (PlainError ''finalization candidate does not match the current attempt'')
         else Inr ())"

definition validate_stopped :: "FinalizationFacts \<Rightarrow> ai_error + unit" where
  "validate_stopped facts =
     (if ff_StoppedAttemptID facts \<noteq> 0 \<and>
         (ff_Trigger facts \<noteq> TriggerUserStop \<or> ff_CurrentAttemptID facts \<noteq> ff_StoppedAttemptID facts \<or>
          \<not> list_ex (stopped_attempt facts) (ff_Attempts facts))
      then Inl (PlainError ''stopped finalization attempt is inconsistent'')
      else if ff_Trigger facts = TriggerInitialInsufficient \<and>
         (ff_Attempts facts \<noteq> [] \<or> ff_CurrentAttemptID facts \<noteq> 0 \<or> candidate_present facts \<or> ff_StoppedAttemptID facts \<noteq> 0)
      then Inl (PlainError ''pre-dispatch finalization cannot contain attempt facts'')
      else if ff_Trigger facts = TriggerPreDispatchFailed \<and> (candidate_present facts \<or> ff_StoppedAttemptID facts \<noteq> 0)
      then Inl (PlainError ''pre-dispatch failure cannot contain a result candidate'')
      else Inr ())"

definition validateFinalizationAttempts :: "(string \<Rightarrow> string) \<Rightarrow> FinalizationFacts \<Rightarrow> ai_error + unit" where
  "validateFinalizationAttempts sha256 facts =
     (case validate_attempts sha256 (rs_RunID (ff_Run facts)) [] (ff_Attempts facts) of
        Inl err \<Rightarrow> Inl err
      | Inr _ \<Rightarrow> (case validate_current facts of
        Inl err \<Rightarrow> Inl err
      | Inr _ \<Rightarrow> (case validate_candidate facts of
        Inl err \<Rightarrow> Inl err
      | Inr _ \<Rightarrow> validate_stopped facts)))"

definition terminalWithoutHold :: "FinalizationFacts \<Rightarrow> bool" where
  "terminalWithoutHold facts \<longleftrightarrow>
     (ff_Trigger facts = TriggerInitialInsufficient \<or> ff_Trigger facts = TriggerUserStopBeforeDispatch \<or>
      ff_Trigger facts = TriggerPreDispatchFailed) \<and> fh_ID (ff_Hold facts) = 0"

definition validateFinalizationFacts :: "(string \<Rightarrow> string) \<Rightarrow> int \<Rightarrow> FinalizationFacts \<Rightarrow> ai_error + unit" where
  "validateFinalizationFacts sha256 runID facts =
     (let run = ff_Run facts; charge = ff_Charge facts; hold = ff_Hold facts
      in if runID \<le> 0 \<or> rs_RunID run \<noteq> runID \<or> rs_UserID run \<le> 0 \<or> fc_ID charge \<le> 0 \<or> fc_RunID charge \<noteq> runID \<or>
            fc_UserID charge \<noteq> rs_UserID run \<or> fc_Status charge \<noteq> ChargeStatusOpen \<or> fc_ActualUnits charge \<noteq> 0
         then Inl (PlainError ''locked run, charge, and hold facts are inconsistent'')
         else if terminalWithoutHold facts then
           if rs_BillingStatus run \<noteq> BillingStatusPending \<or> rs_BillingReason run \<noteq> BillingReasonPending \<or>
              fc_HeldUnits charge \<noteq> 0 \<or> fc_HeldAuditMax charge \<noteq> 0 \<or> hold \<noteq> no_hold
           then Inl (PlainError ''pre-reserve finalization facts are inconsistent'')
           else validateFinalizationAttempts sha256 facts
         else if ff_Trigger facts = TriggerInitialInsufficient \<or> rs_BillingStatus run \<noteq> BillingStatusHeld \<or>
              rs_BillingReason run \<noteq> BillingReasonHeld \<or> fh_ID hold \<le> 0 \<or> fh_WalletID hold \<le> 0 \<or> fh_RunID hold \<noteq> runID \<or>
              fh_UserID hold \<noteq> rs_UserID run \<or> fh_Status hold \<noteq> HoldStatusActive \<or> fh_CapturedUnits hold \<noteq> 0 \<or>
              fc_HeldUnits charge < 0 \<or> fc_HeldAuditMax charge < fc_HeldUnits charge \<or> fh_HeldUnits hold < 0 \<or>
              fh_HeldAuditMax hold < fh_HeldUnits hold \<or> fc_HeldUnits charge \<noteq> fh_HeldUnits hold \<or>
              fc_HeldAuditMax charge \<noteq> fh_HeldAuditMax hold
         then Inl (PlainError ''locked run, charge, and hold facts are inconsistent'')
         else validateFinalizationAttempts sha256 facts)"

section \<open>Decisions\<close>

definition LedgerSummary :: "int \<Rightarrow> string \<Rightarrow> string \<Rightarrow> string" where
  "LedgerSummary agentID displayName modelID =
     (let display = trim_space displayName;
          named = (if display = [] then trim_space modelID else display);
          model = (if named = [] then ''unknown'' else named)
      in ''Agent #'' @ format_int agentID @ encode_runes [32, 183, 32] @ model)"

definition run_summary :: "FinalizationFacts \<Rightarrow> string" where
  "run_summary facts =
     LedgerSummary (rs_AgentID (ff_Run facts)) (rs_ModelDisplayName (ff_Run facts)) (rs_ModelID (ff_Run facts))"

definition releaseDecision :: "FinalizationFacts \<Rightarrow> string \<Rightarrow> string \<Rightarrow> string \<Rightarrow> SettlementDecision" where
  "releaseDecision facts runStatus status reason =
     \<lparr>sd_RunStatus = runStatus, sd_BillingStatus = status, sd_BillingReason = reason,
      sd_ChargeStatus = ChargeStatusReleased, sd_HoldStatus = HoldStatusReleased, sd_MoneyAction = SettlementMoneyRelease,
      sd_CandidateAction = SettlementCandidateDiscard, sd_Candidate = ff_Candidate facts, sd_ActualUnits = 0,
      sd_HoldUnits = fh_HeldUnits (ff_Hold facts), sd_Items = [], sd_EventType = ''ai.billing.released'',
      sd_BillingAnomaly = [], sd_LedgerSummary = run_summary facts\<rparr>"

definition unbilledDecision :: "FinalizationFacts \<Rightarrow> string \<Rightarrow> string \<Rightarrow> SettlementDecision" where
  "unbilledDecision facts runStatus candidate =
     \<lparr>sd_RunStatus = runStatus, sd_BillingStatus = BillingStatusUnbilled, sd_BillingReason = BillingReasonUnbilledUsageIncomplete,
      sd_ChargeStatus = ChargeStatusUnbilled, sd_HoldStatus = HoldStatusReleased, sd_MoneyAction = SettlementMoneyRelease,
      sd_CandidateAction = candidate, sd_Candidate = ff_Candidate facts, sd_ActualUnits = 0,
      sd_HoldUnits = fh_HeldUnits (ff_Hold facts), sd_Items = [], sd_EventType = ''ai.billing.unbilled'',
      sd_BillingAnomaly = [], sd_LedgerSummary = run_summary facts\<rparr>"

definition unbilledRunStatus :: "string \<Rightarrow> string" where
  "unbilledRunStatus runStatus = (if runStatus = ''canceled'' then runStatus else ''failed'')"

definition overHoldDecision ::
    "FinalizationFacts \<Rightarrow> string \<Rightarrow> SettlementQuote \<Rightarrow> UsageChargeItem list \<Rightarrow> SettlementDecision" where
  "overHoldDecision facts runStatus quote items =
     (unbilledDecision facts (if runStatus \<noteq> ''canceled'' then ''failed'' else runStatus) SettlementCandidateDiscard)
       \<lparr>sd_BillingReason := BillingReasonUnbilledOverHold, sd_ActualUnits := sq_ActualUnits quote, sd_Items := items,
        sd_BillingAnomaly := ''actual usage exceeds authoritative hold'', sd_EventType := ''ai.billing.over_hold''\<rparr>"

text \<open>The identity of an item, \<open>%d\x00%s\x00%s\x00%s\<close>\<close>

definition item_identity :: "UsageChargeItem \<Rightarrow> string" where
  "item_identity item = format_int (ci_AttemptID item) @ [CHR 0x00] @ ci_Category item @ [CHR 0x00] @
     trim_space (ci_Unit item) @ [CHR 0x00] @ trim_space (ci_TierKey item)"

definition charge_item_valid :: "UsageChargeItem \<Rightarrow> bool" where
  "charge_item_valid item \<longleftrightarrow>
     usage_Validate \<lparr>u_Category = ci_Category item, u_Unit = ci_Unit item, u_TierKey = ci_TierKey item,
       u_Quantity = ci_Quantity item\<rparr> = None \<and>
     0 \<le> ci_UnitPriceUnits item \<and> 0 < ci_UnitScale item \<and> 0 \<le> ci_AmountUnits item"

text \<open>The loop over the items of a quote, with the identities seen and the sum so far\<close>

fun validate_quote_items ::
    "int \<Rightarrow> int list \<Rightarrow> string list \<Rightarrow> int \<Rightarrow> UsageChargeItem list \<Rightarrow> ai_error + (UsageChargeItem list \<times> int)" where
  "validate_quote_items chargeID allowed seen acc [] = Inr ([], acc)"
| "validate_quote_items chargeID allowed seen acc (item # items) =
     (if ci_ChargeID item \<noteq> 0 \<and> ci_ChargeID item \<noteq> chargeID
      then Inl (PlainError ''settlement item charge does not match locked charge'')
      else if \<not> List.member allowed (ci_AttemptID item)
      then Inl (PlainError ''settlement item is not from a billable attempt'')
      else if \<not> charge_item_valid item then Inl (PlainError ''settlement item is invalid'')
      else if List.member seen (item_identity item) then Inl (PlainError ''duplicate settlement item'')
      else if sub64 max_int64 acc < ci_AmountUnits item then Inl (PlainError ''settlement item amount overflow'')
      else case validate_quote_items chargeID allowed (item_identity item # seen) (add64 acc (ci_AmountUnits item)) items of
        Inl err \<Rightarrow> Inl err
      | Inr (rest, tot) \<Rightarrow> Inr (item\<lparr>ci_ChargeID := chargeID\<rparr> # rest, tot))"

definition validateSettlementQuote ::
    "FinalizationFacts \<Rightarrow> BillableAttempt list \<Rightarrow> SettlementQuote \<Rightarrow> ai_error + UsageChargeItem list" where
  "validateSettlementQuote facts billable quote =
     (if sq_ActualUnits quote < 0 then Inl (PlainError ''negative settlement actual units'')
      else if list_ex (\<lambda>a. ba_ID a \<le> 0) billable then Inl (PlainError ''billable attempt identity is invalid'')
      else case validate_quote_items (fc_ID (ff_Charge facts)) (map ba_ID billable) [] 0 (sq_Items quote) of
        Inl err \<Rightarrow> Inl err
      | Inr (items, acc) \<Rightarrow>
          if acc \<noteq> sq_ActualUnits quote then Inl (PlainError ''settlement item sum does not equal actual units'')
          else Inr items)"

type_synonym pricer = "SettlementPricingInput \<Rightarrow> ai_error + SettlementQuote"

definition captureDecision :: "FinalizationFacts \<Rightarrow> string \<Rightarrow> string \<Rightarrow> SettlementQuote \<Rightarrow> UsageChargeItem list \<Rightarrow> SettlementDecision" where
  "captureDecision facts runStatus candidate quote items =
     \<lparr>sd_RunStatus = runStatus, sd_BillingStatus = BillingStatusSettled, sd_BillingReason = BillingReasonSettledCompleteUsage,
      sd_ChargeStatus = ChargeStatusSettled, sd_HoldStatus = HoldStatusCaptured, sd_MoneyAction = SettlementMoneyCapture,
      sd_CandidateAction = candidate, sd_Candidate = ff_Candidate facts, sd_ActualUnits = sq_ActualUnits quote,
      sd_HoldUnits = fh_HeldUnits (ff_Hold facts), sd_Items = items, sd_EventType = ''ai.billing.settled'',
      sd_BillingAnomaly = [], sd_LedgerSummary = run_summary facts\<rparr>"

definition priceOrUnbilled ::
    "pricer \<Rightarrow> FinalizationFacts \<Rightarrow> string \<Rightarrow> string \<Rightarrow> ai_error + SettlementDecision" where
  "priceOrUnbilled price facts runStatus candidate =
     (let unbilled = unbilledDecision facts (unbilledRunStatus runStatus) SettlementCandidateDiscard;
          billable = billableAttempts facts
      in if hasLegacyChargeableAttempt facts then Inr unbilled
         else if billable = [] then Inr unbilled
         else case price \<lparr>sp_Run = ff_Run facts, sp_Attempts = billable\<rparr> of
           Inl err \<Rightarrow> if errors_is err ErrUsageIncomplete then Inr unbilled else Inl err
         | Inr quote \<Rightarrow>
             (case validateSettlementQuote facts billable quote of
                Inl err \<Rightarrow> Inl err
              | Inr items \<Rightarrow>
                  if fh_HeldUnits (ff_Hold facts) < sq_ActualUnits quote
                  then Inr (overHoldDecision facts runStatus quote items)
                  else if candidate = SettlementCandidatePublish \<and> \<not> candidateBelongsToBillableAttempt (ff_Candidate facts) billable
                  then Inl (PlainError ''publish candidate does not belong to a billable attempt'')
                  else Inr (captureDecision facts runStatus candidate quote items)))"

definition decide :: "pricer \<Rightarrow> FinalizationFacts \<Rightarrow> ai_error + SettlementDecision" where
  "decide price facts =
     (let trigger = ff_Trigger facts; attempts = ff_Attempts facts
      in if hasIntermediateAttempt attempts \<or> \<not> validTrigger trigger then Inl ErrFinalizationPending
         else if trigger = TriggerSuccess then
           if \<not> hasSuccessfulResultWithoutBlockingTerminal attempts then Inl ErrFinalizationPending
           else priceOrUnbilled price facts ''success'' SettlementCandidatePublish
         else if trigger = TriggerUserStopBeforeDispatch then
           if hasDispatchedAttempt attempts then Inl ErrFinalizationPending
           else Inr (releaseDecision facts ''canceled'' BillingStatusReleased BillingReasonReleasedBeforeDispatch)
         else if trigger = TriggerPreDispatchFailed then
           if hasDispatchedAttempt attempts then Inl ErrFinalizationPending
           else Inr (releaseDecision facts ''failed'' BillingStatusReleased BillingReasonReleasedBeforeDispatch)
         else if trigger = TriggerLocalFailure then
           Inr (releaseDecision facts ''failed'' BillingStatusReleased BillingReasonReleasedProviderFailed)
         else if trigger = TriggerUserStop then
           if attempts = [] \<or> \<not> allSucceededOrStopped facts
           then Inr (unbilledDecision facts ''canceled'' SettlementCandidateDiscard)
           else priceOrUnbilled price facts ''canceled'' SettlementCandidateDiscard
         else if trigger = TriggerProviderFailed then
           Inr (releaseDecision facts ''failed'' BillingStatusReleased BillingReasonReleasedProviderFailed)
         else if trigger = TriggerOutcomeUnknown then
           Inr (releaseDecision facts ''outcome_unknown'' BillingStatusReleased BillingReasonReleasedOutcomeUnknown)
         else if trigger = TriggerInitialInsufficient then
           Inr (releaseDecision facts ''failed'' BillingStatusReleased BillingReasonReleasedInsufficientBalance)
         else if trigger = TriggerContinuationTopUpInsufficient then
           if hasLegacyChargeableAttempt facts then Inr (unbilledDecision facts ''failed'' SettlementCandidateDiscard)
           else if billableAttempts facts = []
           then Inr (releaseDecision facts ''failed'' BillingStatusReleased BillingReasonReleasedInsufficientBalance)
           else priceOrUnbilled price facts ''failed'' SettlementCandidateDiscard
         else Inl ErrFinalizationPending)"

text \<open>The callback \<open>Finalize\<close> hands to its store\<close>

definition finalize_decision ::
    "(string \<Rightarrow> string) \<Rightarrow> pricer \<Rightarrow> int \<Rightarrow> FinalizationFacts \<Rightarrow> ai_error + SettlementDecision" where
  "finalize_decision sha256 price runID facts =
     (case validateFinalizationFacts sha256 runID facts of Inl err \<Rightarrow> Inl err | Inr _ \<Rightarrow> decide price facts)"

end
