(* ===== verification/AiQuote.thy ===== *)
theory AiQuote
  imports AiFinalizer
begin

text \<open>
  \<open>internal/module/ai/aigateway/quote_validator.go\<close>, and from internal/runtime/ai_billing_gateway.go
  the pricing of usage by the price snapshot of a run. \<open>decode\<close> is what the strict decoder of
  encoding/json makes of the text of a snapshot: the fields of the struct and the names that occur in the
  object, or an error; everything done with the decoded snapshot is defined here.
\<close>

section \<open>Snapshots of prices\<close>

record PricingSnapshot =
  ps_SchemaVersion :: int
  ps_Version :: string
  ps_CatalogVersion :: string
  ps_OverrideVersion :: int
  ps_Billable :: bool
  ps_CatalogVendor :: string
  ps_TransportEngine :: string
  ps_RequestedModelID :: string
  ps_CanonicalModelID :: string
  ps_ContextWindowTokens :: int
  ps_CatalogMaxOutputTokens :: int
  ps_EffectiveMaxOutputTokens :: int
  ps_ContextTierThresholdTokens :: int
  ps_MultiplierPPM :: int
  ps_PriceSource :: string
  ps_SourceURL :: string
  ps_RetrievedAt :: string
  ps_Rates :: "Rate list"

definition PricingSnapshotSchemaVersionV2 :: int where "PricingSnapshotSchemaVersionV2 = 2"
definition CurrentPricingSnapshotSchemaVersion :: int where "CurrentPricingSnapshotSchemaVersion = 3"

lemmas schema_version_defs = PricingSnapshotSchemaVersionV2_def CurrentPricingSnapshotSchemaVersion_def

definition normalizePricingSnapshot :: "PricingSnapshot \<Rightarrow> PricingSnapshot" where
  "normalizePricingSnapshot s = s\<lparr>ps_Version := trim_space (ps_Version s), ps_CatalogVersion := trim_space (ps_CatalogVersion s),
     ps_CatalogVendor := trim_space (ps_CatalogVendor s), ps_TransportEngine := trim_space (ps_TransportEngine s),
     ps_RequestedModelID := trim_space (ps_RequestedModelID s), ps_CanonicalModelID := trim_space (ps_CanonicalModelID s),
     ps_PriceSource := trim_space (ps_PriceSource s), ps_SourceURL := trim_space (ps_SourceURL s),
     ps_RetrievedAt := trim_space (ps_RetrievedAt s)\<rparr>"

definition priceBook :: "PricingSnapshot \<Rightarrow> PriceBook" where
  "priceBook s = \<lparr>p_ModelID = ps_CanonicalModelID s, p_ContextTierThresholdTokens = ps_ContextTierThresholdTokens s,
     p_Rates = ps_Rates s\<rparr>"

definition hasContextTier :: "Rate list \<Rightarrow> bool" where
  "hasContextTier rates \<longleftrightarrow> list_ex (\<lambda>r. r_TierKey r = ''short_context'' \<or> r_TierKey r = ''long_context'') rates"

definition snapshot_incomplete :: "PricingSnapshot \<Rightarrow> bool" where
  "snapshot_incomplete s \<longleftrightarrow> \<not> ps_Billable s \<or> ps_Version s = [] \<or> ps_CatalogVendor s = [] \<or> ps_TransportEngine s = [] \<or>
     ps_RequestedModelID s = [] \<or> ps_CanonicalModelID s = [] \<or> ps_SourceURL s = [] \<or> ps_RetrievedAt s = [] \<or>
     ps_Rates s = [] \<or> ps_MultiplierPPM s \<le> 0 \<or> ps_CatalogMaxOutputTokens s \<le> 0 \<or> ps_EffectiveMaxOutputTokens s \<le> 0 \<or>
     ps_CatalogMaxOutputTokens s < ps_EffectiveMaxOutputTokens s \<or> ps_ContextTierThresholdTokens s < 0"

text \<open>The checks of a snapshot that names its schema\<close>

definition validate_current_snapshot :: "PricingSnapshot \<Rightarrow> ai_error + unit" where
  "validate_current_snapshot s =
     (if ps_CatalogVersion s = [] then Inl (PlainError ''pricing snapshot price metadata is incomplete'')
      else if ps_PriceSource s = ''official'' \<and> (ps_OverrideVersion s \<noteq> 0 \<or> ps_Version s \<noteq> ps_CatalogVersion s)
      then Inl (PlainError ''official pricing snapshot version is inconsistent'')
      else if ps_PriceSource s = ''override'' \<and>
        (ps_OverrideVersion s = 0 \<or> ps_Version s \<noteq> ps_CatalogVersion s @ '':override:'' @ format_int (ps_OverrideVersion s))
      then Inl (PlainError ''override pricing snapshot version is inconsistent'')
      else if ps_PriceSource s \<noteq> ''official'' \<and> ps_PriceSource s \<noteq> ''override''
      then Inl (PlainError ''pricing snapshot price source is invalid'')
      else if hasContextTier (ps_Rates s) \<and> ps_ContextTierThresholdTokens s \<le> 0
      then Inl (PlainError ''pricing snapshot context tier threshold is missing'')
      else if ps_SchemaVersion s = CurrentPricingSnapshotSchemaVersion \<and>
        (ps_ContextWindowTokens s \<le> 0 \<or> ps_ContextWindowTokens s < ps_CatalogMaxOutputTokens s)
      then Inl (PlainError ''pricing snapshot context window is invalid'')
      else Inr ())"

definition validatePricingSnapshot :: "PricingSnapshot \<Rightarrow> bool \<Rightarrow> ai_error + unit" where
  "validatePricingSnapshot s current =
     (if snapshot_incomplete s then Inl (PlainError ''pricing snapshot is incomplete or non-billable'')
      else case (if current then validate_current_snapshot s else Inr ()) of
        Inl err \<Rightarrow> Inl err
      | Inr _ \<Rightarrow>
          if ps_RequestedModelID s \<noteq> ps_CanonicalModelID s \<and> ps_SchemaVersion s \<noteq> 0 \<and> trim_space (ps_RequestedModelID s) = []
          then Inl (PlainError ''pricing snapshot model resolution is inconsistent'')
          else (case Quote (priceBook s) [] (ps_MultiplierPPM s) of
              Inl err \<Rightarrow> Inl (WrappedError ''validate pricing snapshot price book'' (PricingError err))
            | Inr _ \<Rightarrow>
                if ps_CanonicalModelID s = [] then Inl (PlainError ''pricing snapshot model resolution is inconsistent'')
                else Inr ()))"

type_synonym snapshot_decoder = "string \<Rightarrow> ai_error + PricingSnapshot \<times> string list"

definition missing_field :: "PricingSnapshot \<Rightarrow> string list \<Rightarrow> string option" where
  "missing_field s names =
     find (\<lambda>name. \<not> List.member names name)
       ([''price_source'', ''catalog_version'', ''override_version'', ''context_tier_threshold_tokens''] @
        (if ps_SchemaVersion s = CurrentPricingSnapshotSchemaVersion then [''context_window_tokens''] else []))"

definition ParsePricingSnapshot :: "snapshot_decoder \<Rightarrow> string \<Rightarrow> ai_error + PricingSnapshot" where
  "ParsePricingSnapshot decode raw =
     (case decode (trim_space raw) of
        Inl err \<Rightarrow> Inl err
      | Inr (s, names) \<Rightarrow>
          let s = normalizePricingSnapshot s
          in if ps_SchemaVersion s = 0 \<and> (List.member names ''price_source'' \<or> List.member names ''catalog_version'')
             then Inl (PlainError ''pricing snapshot schema version is missing'')
             else if ps_SchemaVersion s \<noteq> 0 \<and> ps_SchemaVersion s \<noteq> PricingSnapshotSchemaVersionV2 \<and>
                  ps_SchemaVersion s \<noteq> CurrentPricingSnapshotSchemaVersion
             then Inl (PlainError ''pricing snapshot schema version is unsupported'')
             else case (if ps_SchemaVersion s = 0 then None else missing_field s names) of
                 Some name \<Rightarrow> Inl (PlainError (''pricing snapshot is missing '' @ name))
               | None \<Rightarrow>
                   (case validatePricingSnapshot s (ps_SchemaVersion s \<noteq> 0) of
                      Inl err \<Rightarrow> Inl err | Inr _ \<Rightarrow> Inr s))"

section \<open>Evidence of a quote\<close>

record QuoteEvidence =
  qe_PricingVersion :: string
  qe_RequestFingerprint :: string
  qe_PreparedRequestSHA256 :: string
  qe_PreparedRequestSchema :: string
  qe_InputUpperBoundStrategy :: string
  qe_EffectiveMaxOutputTokens :: int
  qe_UpperBoundItems :: "UsageItem list"
  qe_CurrentCallMaxUnits :: int
  qe_PriorBillableUnits :: int
  qe_TargetHoldUnits :: int

definition ErrCodeInvalidPrepared :: string where "ErrCodeInvalidPrepared = ''ai.billing.invalid_prepared_call''"

definition invalid_prepared :: "string \<Rightarrow> int \<Rightarrow> ai_error + 'a" where
  "invalid_prepared msg status = Inl (GatewayError ErrCodeInvalidPrepared msg status)"

definition SafeInputUpperBoundStrategyUTF8RequestBytesV1 :: string where
  "SafeInputUpperBoundStrategyUTF8RequestBytesV1 = ''utf8_request_bytes_plus_framing_v1''"
definition SafeInputUpperBoundStrategyNativeFileContextWindowV1 :: string where
  "SafeInputUpperBoundStrategyNativeFileContextWindowV1 = ''native_file_context_window_v1''"

definition PreparedChatSchemaInlineV1 :: string where "PreparedChatSchemaInlineV1 = ''openai_chat_inline_v1''"
definition PreparedChatSchemaFileManifestV1 :: string where "PreparedChatSchemaFileManifestV1 = ''openai_chat_file_manifest_v1''"
definition PreparedChatSchemaResponsesInlineV1 :: string where
  "PreparedChatSchemaResponsesInlineV1 = ''openai_responses_inline_v1''"
definition PreparedChatSchemaResponsesFileManifestV1 :: string where
  "PreparedChatSchemaResponsesFileManifestV1 = ''openai_responses_file_manifest_v1''"

definition cumulativeHoldTarget :: "int \<Rightarrow> int \<Rightarrow> ai_error + int" where
  "cumulativeHoldTarget prior current =
     (if prior < 0 \<or> current \<le> 0 \<or> sub64 max_int64 current < prior
      then invalid_prepared ''cumulative hold target is invalid or overflows'' 409
      else Inr (add64 prior current))"

definition upper_bound_key :: "UsageItem \<Rightarrow> string" where
  "upper_bound_key item = u_Category item @ [CHR 0x00] @ u_Unit item @ [CHR 0x00] @ u_TierKey item"

text \<open>The token bounds of a quote: how many input and output items, and the last quantity of each\<close>

record token_bounds =
  tb_inputItems :: nat
  tb_outputItems :: nat
  tb_inputBound :: int
  tb_outputBound :: int

text \<open>The loop over the upper bound items\<close>

fun bound_lines ::
    "int \<Rightarrow> nat \<Rightarrow> string list \<Rightarrow> token_bounds \<Rightarrow> UsageItem list \<Rightarrow> ai_error + (QuoteLine list \<times> token_bounds)" where
  "bound_lines cap index seen tb [] = Inr ([], tb)"
| "bound_lines cap index seen tb (raw # raws) =
     (case Normalized raw of
        Inl _ \<Rightarrow> invalid_prepared ''quote contains invalid upper-bound usage'' 409
      | Inr item \<Rightarrow>
          if List.member seen (upper_bound_key item)
          then invalid_prepared ''quote contains duplicate upper-bound usage'' 409
          else
            let input = u_Unit item = ''token'' \<and> u_Category item = UsageCategoryInputText;
                output = u_Unit item = ''token'' \<and> u_Category item = UsageCategoryOutputText
            in if output \<and> u_Quantity item \<noteq> cap
               then invalid_prepared ''quote output bound differs from the effective output cap'' 409
               else
                 let tb' = (if input then tb\<lparr>tb_inputItems := Suc (tb_inputItems tb), tb_inputBound := u_Quantity item\<rparr>
                     else if output then tb\<lparr>tb_outputItems := Suc (tb_outputItems tb), tb_outputBound := u_Quantity item\<rparr>
                     else tb)
                 in case bound_lines cap (Suc index) (upper_bound_key item # seen) tb' raws of
                      Inl err \<Rightarrow> Inl err
                    | Inr (rest, tb'') \<Rightarrow>
                        Inr (\<lparr>q_Key = ''upper-bound-'' @ format_nat index, q_AttemptID = [], q_Item = item\<rparr> # rest, tb''))"

definition validateNativeFileTokenBounds :: "PricingSnapshot \<Rightarrow> QuoteEvidence \<Rightarrow> int \<Rightarrow> int \<Rightarrow> ai_error + unit" where
  "validateNativeFileTokenBounds s quote inputBound outputBound =
     (let schema = trim_space (qe_PreparedRequestSchema quote);
          fileSchema = (schema = PreparedChatSchemaFileManifestV1 \<or> schema = PreparedChatSchemaResponsesFileManifestV1)
      in if trim_space (qe_InputUpperBoundStrategy quote) \<noteq> SafeInputUpperBoundStrategyNativeFileContextWindowV1 \<or>
            \<not> fileSchema \<or> ps_ContextWindowTokens s \<le> 0 \<or> inputBound \<noteq> ps_ContextWindowTokens s \<or>
            ps_EffectiveMaxOutputTokens s \<le> 0 \<or> ps_CatalogMaxOutputTokens s < ps_EffectiveMaxOutputTokens s \<or>
            qe_EffectiveMaxOutputTokens quote \<noteq> ps_EffectiveMaxOutputTokens s \<or> outputBound \<noteq> ps_EffectiveMaxOutputTokens s
         then invalid_prepared ''native file quote does not use official context and output bounds'' 409
         else Inr ())"

definition validate_current_bounds ::
    "PricingSnapshot \<Rightarrow> QuoteEvidence \<Rightarrow> string \<Rightarrow> token_bounds \<Rightarrow> ai_error + unit" where
  "validate_current_bounds s quote strategy tb =
     (if tb_inputItems tb \<noteq> 1 \<or> tb_outputItems tb \<noteq> 1 \<or> tb_inputBound tb \<le> 0 \<or> tb_outputBound tb \<le> 0
      then invalid_prepared ''current quote requires one positive input and output token bound'' 409
      else if strategy = SafeInputUpperBoundStrategyUTF8RequestBytesV1 then
        let remaining = sub64 (ps_ContextWindowTokens s) (tb_inputBound tb);
            safeOutput = (if remaining < ps_EffectiveMaxOutputTokens s then remaining else ps_EffectiveMaxOutputTokens s)
        in if safeOutput \<le> 0 \<or> tb_outputBound tb \<noteq> safeOutput \<or> qe_EffectiveMaxOutputTokens quote \<noteq> safeOutput
           then invalid_prepared ''quote output bound does not match the remaining context'' 409
           else Inr ()
      else if strategy = SafeInputUpperBoundStrategyNativeFileContextWindowV1
      then validateNativeFileTokenBounds s quote (tb_inputBound tb) (tb_outputBound tb)
      else invalid_prepared ''quote input upper-bound strategy is unsupported'' 409)"

text \<open>What of the quote must match the run and its snapshot\<close>

definition quote_mismatch :: "PricingSnapshot \<Rightarrow> RunSnapshot \<Rightarrow> string \<Rightarrow> QuoteEvidence \<Rightarrow> bool" where
  "quote_mismatch s run sha quote \<longleftrightarrow>
     rs_RunID run \<le> 0 \<or> rs_UserID run \<le> 0 \<or> trim_space (rs_ModelID run) \<noteq> ps_RequestedModelID s \<or> sha = zero_digest \<or>
     qe_PreparedRequestSHA256 quote \<noteq> sha \<or> qe_RequestFingerprint quote \<noteq> rs_RequestFingerprint run \<or>
     trim_space (qe_PricingVersion quote) \<noteq> ps_Version s \<or> qe_EffectiveMaxOutputTokens quote \<le> 0 \<or>
     ps_EffectiveMaxOutputTokens s < qe_EffectiveMaxOutputTokens quote \<or> qe_CurrentCallMaxUnits quote \<le> 0 \<or>
     qe_PriorBillableUnits quote < 0 \<or> qe_TargetHoldUnits quote \<le> 0 \<or> qe_UpperBoundItems quote = []"

definition quote_strategy :: "QuoteEvidence \<Rightarrow> string" where
  "quote_strategy quote = (let s = trim_space (qe_InputUpperBoundStrategy quote)
     in if s = [] then SafeInputUpperBoundStrategyUTF8RequestBytesV1 else s)"

definition quote_schema :: "QuoteEvidence \<Rightarrow> string" where
  "quote_schema quote = (let s = trim_space (qe_PreparedRequestSchema quote) in if s = [] then PreparedChatSchemaInlineV1 else s)"

text \<open>The price of the lines, and the end of ValidateQuote\<close>

definition reprice :: "PricingSnapshot \<Rightarrow> QuoteEvidence \<Rightarrow> QuoteLine list \<Rightarrow> ai_error + unit" where
  "reprice s quote lines =
     (case UpperBoundLines (priceBook s) lines of
        Inl err \<Rightarrow> Inl (GatewayCause ErrCodeInvalidPrepared (PricingError err) 409)
      | Inr selected \<Rightarrow>
          (case Quote (priceBook s) selected (ps_MultiplierPPM s) of
             Inl err \<Rightarrow> Inl (GatewayCause ErrCodeInvalidPrepared (PricingError err) 409)
           | Inr recomputed \<Rightarrow>
               if quote_AmountUnits recomputed \<noteq> qe_CurrentCallMaxUnits quote
               then invalid_prepared ''quote current call maximum differs from locked snapshot pricing'' 409
               else Inr ()))"

definition ValidateQuote :: "snapshot_decoder \<Rightarrow> RunSnapshot \<Rightarrow> string \<Rightarrow> QuoteEvidence \<Rightarrow> ai_error + unit" where
  "ValidateQuote decode run sha quote =
     (case ParsePricingSnapshot decode (rs_PricingSnapshotJSON run) of
        Inl err \<Rightarrow> Inl (GatewayCause ErrCodeInvalidPrepared err 409)
      | Inr s \<Rightarrow>
          if quote_mismatch s run sha quote
          then invalid_prepared ''quote does not match the locked pricing snapshot'' 409
          else if ps_SchemaVersion s < CurrentPricingSnapshotSchemaVersion \<and>
               qe_EffectiveMaxOutputTokens quote \<noteq> ps_EffectiveMaxOutputTokens s
          then invalid_prepared ''legacy quote output bound differs from the locked snapshot'' 409
          else
            let strategy = quote_strategy quote; schema = quote_schema quote;
                inlineSchema = (schema = PreparedChatSchemaInlineV1 \<or> schema = PreparedChatSchemaResponsesInlineV1);
                fileSchema = (schema = PreparedChatSchemaFileManifestV1 \<or> schema = PreparedChatSchemaResponsesFileManifestV1)
            in if \<not> inlineSchema \<and> \<not> fileSchema then invalid_prepared ''quote request schema is unsupported'' 409
               else if (strategy = SafeInputUpperBoundStrategyNativeFileContextWindowV1) \<noteq> fileSchema
               then invalid_prepared ''quote request schema and input strategy are inconsistent'' 409
               else if cumulativeHoldTarget (qe_PriorBillableUnits quote) (qe_CurrentCallMaxUnits quote) \<noteq> Inr (qe_TargetHoldUnits quote)
               then invalid_prepared ''quote cumulative hold evidence is inconsistent'' 409
               else
                 (case bound_lines (qe_EffectiveMaxOutputTokens quote) 0 []
                     \<lparr>tb_inputItems = 0, tb_outputItems = 0, tb_inputBound = 0, tb_outputBound = 0\<rparr> (qe_UpperBoundItems quote) of
                    Inl err \<Rightarrow> Inl err
                  | Inr (lines, tb) \<Rightarrow>
                      (case (if ps_SchemaVersion s = CurrentPricingSnapshotSchemaVersion
                             then validate_current_bounds s quote strategy tb else Inr ()) of
                         Inl err \<Rightarrow> Inl err
                       | Inr _ \<Rightarrow> reprice s quote lines)))"

end
