(* ===== verification/AiPricer.thy ===== *)
theory AiPricer
  imports AiQuote
begin

text \<open>
  From \<open>internal/runtime/ai_billing_gateway.go\<close>: the price of the usage of the attempts of a run by the
  price snapshot the run was accepted with, for the settlement of the run and for what earlier calls of it
  have already used up.
\<close>

definition completeRawUsage :: "(string \<Rightarrow> string) \<Rightarrow> UsageSnapshot \<Rightarrow> bool" where
  "completeRawUsage sha256 usage \<longleftrightarrow> Complete usage \<and> us_RawProviderJSON usage \<noteq> [] \<and>
     us_ResponseSHA256 usage \<noteq> zero_digest \<and> sha256 (us_RawProviderJSON usage) = us_ResponseSHA256 usage"

definition billing_item :: "ProviderUsageItem \<Rightarrow> UsageItem" where
  "billing_item i = \<lparr>u_Category = pu_Category i, u_Unit = trim_space (pu_Unit i), u_TierKey = trim_space (pu_TierKey i),
     u_Quantity = pu_Quantity i\<rparr>"

definition billingItemsFromProviderUsage :: "UsageSnapshot \<Rightarrow> UsageItem list" where
  "billingItemsFromProviderUsage usage = map billing_item (filter (\<lambda>i. pu_Quantity i \<noteq> 0) (us_Items usage))"

text \<open>\<open>fmt.Sprintf("attempt-%d-%d", id, index)\<close>\<close>

definition attempt_key :: "int \<Rightarrow> nat \<Rightarrow> string" where
  "attempt_key attemptID index = ''attempt-'' @ format_int attemptID @ ''-'' @ format_nat index"

text \<open>A line of the settlement with the entry that \<open>identities\<close> holds for its key\<close>

record settled_line =
  sl_Line :: QuoteLine
  sl_AttemptID :: int
  sl_Item :: UsageItem

fun usage_lines :: "int \<Rightarrow> nat \<Rightarrow> UsageItem list \<Rightarrow> ai_error + settled_line list" where
  "usage_lines attemptID index [] = Inr []"
| "usage_lines attemptID index (item # items) =
     (case usage_Validate item of
        Some err \<Rightarrow> Inl (JoinedError ErrUsageIncomplete (UsageError err))
      | None \<Rightarrow>
          (case usage_lines attemptID (Suc index) items of
             Inl err \<Rightarrow> Inl err
           | Inr rest \<Rightarrow> Inr (\<lparr>sl_Line = \<lparr>q_Key = attempt_key attemptID index, q_AttemptID = format_int attemptID, q_Item = item\<rparr>,
               sl_AttemptID = attemptID, sl_Item = item\<rparr> # rest)))"

fun attempts_lines :: "(string \<Rightarrow> string) \<Rightarrow> BillableAttempt list \<Rightarrow> ai_error + settled_line list" where
  "attempts_lines sha256 [] = Inr []"
| "attempts_lines sha256 (a # as) =
     (if ba_ID a \<le> 0 \<or> \<not> completeRawUsage sha256 (ba_Usage a) then Inl ErrUsageIncomplete
      else case usage_lines (ba_ID a) 0 (billingItemsFromProviderUsage (ba_Usage a)) of
        Inl err \<Rightarrow> Inl err
      | Inr ls \<Rightarrow> (case attempts_lines sha256 as of Inl err \<Rightarrow> Inl err | Inr rest \<Rightarrow> Inr (ls @ rest)))"

text \<open>\<open>identities[line.Key]\<close>: the entry written last\<close>

definition identity_of :: "settled_line list \<Rightarrow> string \<Rightarrow> settled_line option" where
  "identity_of ls key = find (\<lambda>l. q_Key (sl_Line l) = key) (rev ls)"

definition settlement_item :: "settled_line \<Rightarrow> QuoteLineResult \<Rightarrow> UsageChargeItem" where
  "settlement_item identity line =
     \<lparr>ci_ID = 0, ci_ChargeID = 0, ci_AttemptID = sl_AttemptID identity, ci_Category = u_Category (sl_Item identity),
      ci_TierKey = r_TierKey (qr_Rate line), ci_Quantity = u_Quantity (sl_Item identity), ci_Unit = u_Unit (sl_Item identity),
      ci_UnitPriceUnits = r_PriceUnits (qr_Rate line), ci_UnitScale = r_UnitScale (qr_Rate line),
      ci_AmountUnits = qr_AmountUnits line, ci_CreatedAt = 0\<rparr>"

fun settlement_items :: "settled_line list \<Rightarrow> QuoteLineResult list \<Rightarrow> ai_error + UsageChargeItem list" where
  "settlement_items ls [] = Inr []"
| "settlement_items ls (line # lines) =
     (case identity_of ls (qr_Key line) of
        None \<Rightarrow> Inl (PlainError ''settlement allocation lost its usage identity'')
      | Some identity \<Rightarrow>
          (case settlement_items ls lines of
             Inl err \<Rightarrow> Inl err
           | Inr rest \<Rightarrow> Inr (settlement_item identity line # rest)))"

definition PriceSettlement :: "(string \<Rightarrow> string) \<Rightarrow> snapshot_decoder \<Rightarrow> pricer" where
  "PriceSettlement sha256 decode i =
     (case ParsePricingSnapshot decode (rs_PricingSnapshotJSON (sp_Run i)) of
        Inl err \<Rightarrow> Inl err
      | Inr s \<Rightarrow>
          (case attempts_lines sha256 (sp_Attempts i) of
             Inl err \<Rightarrow> Inl err
           | Inr ls \<Rightarrow>
               (case SettlementLines (priceBook s) (map sl_Line ls) of
                  Inl err \<Rightarrow> Inl (JoinedError ErrUsageIncomplete (PricingError err))
                | Inr selected \<Rightarrow>
                    (case Quote (priceBook s) selected (ps_MultiplierPPM s) of
                       Inl err \<Rightarrow> Inl (JoinedError ErrUsageIncomplete (PricingError err))
                     | Inr quote \<Rightarrow>
                         (case settlement_items ls (quote_Lines quote) of
                            Inl err \<Rightarrow> Inl err
                          | Inr items \<Rightarrow> Inr \<lparr>sq_ActualUnits = quote_AmountUnits quote, sq_Items = items\<rparr>)))))"

text \<open>\<open>quotePricingSnapshot\<close>: the price of upper bound items\<close>

definition quotePricingSnapshot :: "PricingSnapshot \<Rightarrow> UsageItem list \<Rightarrow> string \<Rightarrow> pricing_error + QuoteResult" where
  "quotePricingSnapshot s items keyPrefix =
     (let lines = map (\<lambda>(index, item). \<lparr>q_Key = keyPrefix @ ''-'' @ format_nat index, q_AttemptID = [], q_Item = item\<rparr>)
            (zip [0..<length items] items)
      in case UpperBoundLines (priceBook s) lines of
           Inl err \<Rightarrow> Inl err
         | Inr selected \<Rightarrow> Quote (priceBook s) selected (ps_MultiplierPPM s))"

end
