(* ===== verification/AiStore.thy ===== *)
theory AiStore
  imports AiPricer TimeText
begin

text \<open>
  The rows the AI billing of a chat works on, beside the wallet tables: runs and their events
  (internal/module/ai/run/model.go), usage charges and their items (internal/module/ai/billing/model.go),
  reply commands, provider attempts, delivery chunks, messages and conversations
  (internal/module/ai/replycommand), the dashboard projection of finished runs and the durable realtime
  events (internal/module/realtime/repository.go); the constants of these packages; and what the code is
  given from outside: the driver, the JSON codecs of the structs it stores, SHA-256, event ids and the calendar
  date MySQL gives a time.
\<close>

section \<open>Rows\<close>

record Run =
  rn_ID :: int
  rn_Platform :: string
  rn_ConversationID :: "int option"
  rn_RequestID :: string
  rn_RequestFingerprint :: string
  rn_RequestIdentityStatus :: string
  rn_RequestIdentityMarker :: string
  rn_IdempotencyKey :: "string option"
  rn_UserMessageID :: "int option"
  rn_AssistantMessageID :: "int option"
  rn_UserID :: int
  rn_AgentID :: int
  rn_ProviderID :: int
  rn_ModelID :: string
  rn_ModelDisplayName :: string
  rn_InputSnapshot :: string
  rn_PricingSnapshotJSON :: string
  rn_Status :: string
  rn_BillingStatus :: string
  rn_BillingReason :: string
  rn_PromptTokens :: int
  rn_CompletionTokens :: int
  rn_TotalTokens :: int
  rn_DurationMS :: "int option"
  rn_ErrorMessage :: string
  rn_StartedAt :: "gotime option"
  rn_FinishedAt :: "gotime option"
  rn_SettledAt :: "gotime option"
  rn_LikedAt :: "gotime option"
  rn_CreatedAt :: gotime
  rn_UpdatedAt :: gotime

record RunEvent =
  re_ID :: int
  re_RunID :: int
  re_Seq :: int
  re_EventType :: string
  re_Message :: string
  re_CreatedAt :: gotime

record UsageCharge =
  ug_ID :: int
  ug_RunID :: int
  ug_UserID :: int
  ug_Currency :: string
  ug_PricingVersion :: string
  ug_MultiplierPPM :: int
  ug_HeldUnits :: int
  ug_ActualUnits :: int
  ug_Status :: string
  ug_FinalizedAt :: "gotime option"
  ug_CreatedAt :: gotime
  ug_UpdatedAt :: gotime

record Command =
  cm_ID :: int
  cm_RequestID :: string
  cm_RequestFingerprint :: string
  cm_RequestIdentityStatus :: string
  cm_RequestIdentityMarker :: string
  cm_IdempotencyKey :: string
  cm_Platform :: string
  cm_UserID :: int
  cm_ConversationID :: int
  cm_RunID :: int
  cm_UserMessageID :: int
  cm_AssistantMessageID :: "int option"
  cm_RequestReceivedAt :: "gotime option"
  cm_AcceptedAt :: "gotime option"
  cm_ClaimedAt :: "gotime option"
  cm_ClaimSource :: string
  cm_State :: string
  cm_AttemptCount :: int
  cm_MaxAttempts :: int
  cm_LeaseOwner :: "string option"
  cm_LeaseToken :: int
  cm_LeaseExpiresAt :: "gotime option"
  cm_NextAttemptAt :: gotime
  cm_CancelRequestedAt :: "gotime option"
  cm_DeliverySeq :: int
  cm_StopDeliverySeq :: "int option"
  cm_OutcomeUnknownAt :: "gotime option"
  cm_LastErrorCode :: string
  cm_LastErrorMessage :: string
  cm_StartedAt :: "gotime option"
  cm_FinishedAt :: "gotime option"
  cm_CreatedAt :: gotime
  cm_UpdatedAt :: gotime

record Attempt =
  at_ID :: int
  at_RunID :: int
  at_CommandID :: "int option"
  at_AttemptNo :: int
  at_IdempotencyKey :: string
  at_State :: string
  at_PreparedRequestJSON :: string
  at_PreparedRequestSHA256 :: string
  at_QuoteJSON :: string
  at_ContextPlanID :: "int option"
  at_ContextPlanSHA256 :: string
  at_UsageJSON :: string
  at_UsageStatus :: string
  at_DispatchState :: string
  at_ResultCandidateJSON :: "string option"
  at_ProviderRequestID :: string
  at_ResponseSHA256 :: string
  at_ErrorCode :: string
  at_PrepareStartedAt :: "gotime option"
  at_DispatchedAt :: "gotime option"
  at_FirstDeltaAt :: "gotime option"
  at_FinishedAt :: "gotime option"
  at_CreatedAt :: gotime
  at_UpdatedAt :: gotime

record replyMessage =
  mg_ID :: int
  mg_ConversationID :: int
  mg_ReplyCommandID :: "int option"
  mg_Role :: int
  mg_ContentType :: string
  mg_Content :: string
  mg_MetaJSON :: "string option"
  mg_DeliveryState :: "string option"
  mg_IsDel :: int
  mg_CreatedAt :: gotime
  mg_UpdatedAt :: gotime

text \<open>The columns the code reads or changes, with the two it names only in an update\<close>

record replyConversation =
  cv_ID :: int
  cv_UserID :: int
  cv_AgentID :: int
  cv_Title :: string
  cv_IsDel :: int
  cv_LastMessageAt :: "gotime option"
  cv_UpdatedAt :: gotime

record DeliveryChunk =
  ck_CommandID :: int
  ck_DeliverySeq :: int
  ck_Delta :: string
  ck_CreatedAt :: gotime

text \<open>\<open>attemptContextPlanRow\<close>\<close>

record ContextPlanRow =
  cp_ID :: int
  cp_RunID :: int
  cp_State :: string
  cp_PlanSHA256 :: string

section \<open>Realtime events\<close>

datatype rt_payload =
    AIResponseCompletedPayload int string int
  | AIResponseCanceledPayload int string int
  | AIResponseFailedPayload int string string string "string option" "string option"

record Event =
  ev_Sequence :: int
  ev_EventID :: string
  ev_EventType :: string
  ev_RequestID :: "string option"
  ev_TargetType :: string
  ev_TargetID :: string
  ev_Durability :: string
  ev_Payload :: rt_payload
  ev_OccurredAt :: gotime
  ev_ExpiresAt :: "gotime option"

section \<open>The dashboard projection\<close>

record DashboardFact =
  df_RunID :: int
  df_FactDate :: string
  df_RunCreatedAt :: gotime
  df_Platform :: string
  df_ModelID :: string
  df_ModelDisplayName :: string
  df_AgentID :: int
  df_ProviderID :: int
  df_UserID :: int
  df_Status :: string
  df_PromptTokens :: int
  df_CompletionTokens :: int
  df_TotalTokens :: int
  df_DurationMS :: "int option"
  df_SettledRuns :: int
  df_ActualUnits :: int
  df_ReleasedRuns :: int
  df_ReleasedUnits :: int
  df_UnbilledRuns :: int
  df_RunAnomalyCode :: string
  df_BillingAnomalyCode :: string
  df_FinalErrorCode :: string
  df_TTFTMS :: "int option"

text \<open>A row of the daily facts: its key, the latest run of the day and the sums\<close>

type_synonym daily_key = "string \<times> string \<times> string \<times> int \<times> int \<times> int \<times> string \<times> string \<times> string \<times> string"

record DailyFact =
  dd_Key :: daily_key
  dd_LatestRunID :: int
  dd_LatestModelDisplayName :: string
  dd_RunCount :: int
  dd_PromptTokens :: int
  dd_CompletionTokens :: int
  dd_TotalTokens :: int
  dd_SettledRuns :: int
  dd_ActualUnits :: int
  dd_ReleasedRuns :: int
  dd_ReleasedUnits :: int
  dd_UnbilledRuns :: int

section \<open>The tables\<close>

record ai_tables = wallet_tables +
  ai_runs :: "Run list"
  ai_run_events :: "RunEvent list"
  ai_usage_charges :: "UsageCharge list"
  ai_usage_charge_items :: "UsageChargeItem list"
  ai_reply_commands :: "Command list"
  ai_provider_attempts :: "Attempt list"
  ai_reply_delivery_chunks :: "DeliveryChunk list"
  ai_messages :: "replyMessage list"
  ai_conversations :: "replyConversation list"
  ai_context_plans :: "ContextPlanRow list"
  ai_run_dashboard_facts :: "DashboardFact list"
  ai_run_dashboard_daily_facts :: "DailyFact list"
  realtime_events :: "Event list"

type_synonym ('z, 'a) ai_act = "(ai_error, 'z ai_tables_scheme world, 'a) act"

section \<open>Constants\<close>

definition AIRunStatusTimeout :: string where "AIRunStatusTimeout = ''timeout''"

definition StatePending :: string where "StatePending = ''pending''"
definition StateClaimed :: string where "StateClaimed = ''claimed''"
definition StateRunning :: string where "StateRunning = ''running''"
definition StateSucceeded :: string where "StateSucceeded = ''succeeded''"
definition StateFailed :: string where "StateFailed = ''failed''"
definition StateCanceled :: string where "StateCanceled = ''canceled''"
definition StateOutcomeUnknown :: string where "StateOutcomeUnknown = ''outcome_unknown''"
definition StateTimedOut :: string where "StateTimedOut = ''timed_out''"

lemmas command_state_defs = StatePending_def StateClaimed_def StateRunning_def StateSucceeded_def StateFailed_def
  StateCanceled_def StateOutcomeUnknown_def StateTimedOut_def

definition DeliveryStateCompleted :: string where "DeliveryStateCompleted = ''completed''"
definition DeliveryStateStopped :: string where "DeliveryStateStopped = ''stopped''"

definition AIMessageRoleUser :: int where "AIMessageRoleUser = 1"
definition AIMessageRoleAssistant :: int where "AIMessageRoleAssistant = 2"

definition IdentityStatusReplayable :: string where "IdentityStatusReplayable = ''replayable''"
definition IdentityStatusLegacyNonReplayable :: string where "IdentityStatusLegacyNonReplayable = ''legacy_non_replayable''"

definition ErrCodeInsufficientBalance :: string where "ErrCodeInsufficientBalance = ''ai.billing.insufficient_balance''"
definition ErrCodePreparedMissing :: string where "ErrCodePreparedMissing = ''ai.billing.prepared_attempt_missing''"
definition ErrCodeDuplicateAttempt :: string where "ErrCodeDuplicateAttempt = ''ai.billing.duplicate_attempt''"

definition unavailable_usage :: UsageSnapshot where
  "unavailable_usage = no_usage\<lparr>us_Status := UsageStatusUnavailable\<rparr>"

definition unavailable_usage_json :: string where "unavailable_usage_json = ''{\"status\":\"unavailable\"}''"

section \<open>What the code is given from outside\<close>

text \<open>\<open>chatResultCandidate\<close> as its decoder reads it\<close>

record ChatContinuation =
  cc_Protocol :: string
  cc_Items :: string

record chatResultCandidate =
  cr_Version :: string
  cr_Answer :: string
  cr_ToolCalls :: "(string \<times> string \<times> string) list"
  cr_Continuation :: "ChatContinuation option"

record ai_env =
  ae_db :: env
  ae_sha256 :: "string \<Rightarrow> string"
  ae_usage :: "string \<Rightarrow> UsageSnapshot option"
  ae_usage_text :: "UsageSnapshot \<Rightarrow> string"
  ae_quote :: "string \<Rightarrow> QuoteEvidence option"
  ae_quote_text :: "QuoteEvidence \<Rightarrow> string"
  ae_candidate :: "string \<Rightarrow> ai_error + chatResultCandidate"
  ae_json_items :: "string \<Rightarrow> nat option"
  ae_snapshot :: snapshot_decoder
  ae_event_id :: "gotime \<Rightarrow> nat \<Rightarrow> ai_error + string"
  ae_date :: "gotime \<Rightarrow> string"

section \<open>Hexadecimal digests\<close>

definition hex_value :: "char \<Rightarrow> nat option" where
  "hex_value c =
     (let n = of_char c :: nat
      in if 48 \<le> n \<and> n \<le> 57 then Some (n - 48)
         else if 97 \<le> n \<and> n \<le> 102 then Some (n - 87)
         else if 65 \<le> n \<and> n \<le> 70 then Some (n - 55)
         else None)"

text \<open>\<open>hex.DecodeString\<close> and \<open>hex.EncodeToString\<close>\<close>

fun hex_decode :: "string \<Rightarrow> string option" where
  "hex_decode [] = Some []"
| "hex_decode [c] = None"
| "hex_decode (a # b # s) =
     (case (hex_value a, hex_value b, hex_decode s) of
        (Some x, Some y, Some t) \<Rightarrow> Some (char_of (16 * x + y) # t)
      | _ \<Rightarrow> None)"

definition hex_digit :: "nat \<Rightarrow> char" where
  "hex_digit n = (if n < 10 then char_of (48 + n) else char_of (87 + n))"

definition hex_encode :: "string \<Rightarrow> string" where
  "hex_encode s = concat (map (\<lambda>c. let n = of_char c :: nat in [hex_digit (n div 16), hex_digit (n mod 16)]) s)"

definition decodeOptionalSHA256 :: "string \<Rightarrow> ai_error + string" where
  "decodeOptionalSHA256 text =
     (let t = trim_space text
      in if t = [] then Inr zero_digest
         else case hex_decode t of
             None \<Rightarrow> Inl (PlainError ''response hash is not SHA-256'')
           | Some digest \<Rightarrow> if length digest \<noteq> 32 then Inl (PlainError ''response hash is not SHA-256'') else Inr digest)"

text \<open>\<open>digestFromBytes\<close>: the bytes in an array of 32\<close>

definition digestFromBytes :: "string \<Rightarrow> string" where
  "digestFromBytes b = take 32 (b @ zero_digest)"

end
