(* ===== verification/AiFacts.thy ===== *)
theory AiFacts
  imports AiStore
begin

text \<open>
  From \<open>internal/runtime/ai_billing_finalizer.go\<close> and ai_billing_gateway.go, with
  internal/module/ai/chat/candidate.go: how the locked rows of a chat run become the facts of a
  settlement decision, and what the decision makes of the run, its command and its events. Everything here
  is a function of rows.
\<close>

section \<open>Candidates of an answer (candidate.go)\<close>

definition chatResultCandidateVersion :: string where "chatResultCandidateVersion = ''ai_chat_result_v2''"
definition legacyChatResultCandidateVersion :: string where "legacyChatResultCandidateVersion = ''ai_chat_result_v1''"
definition maxChatContinuationBytes :: nat where "maxChatContinuationBytes = 1048576"
definition APIProtocolResponses :: string where "APIProtocolResponses = ''responses''"

definition validateChatContinuation :: "ai_env \<Rightarrow> ChatContinuation option \<Rightarrow> ai_error + unit" where
  "validateChatContinuation ae continuation =
     (case continuation of
        None \<Rightarrow> Inr ()
      | Some c \<Rightarrow>
          if trim_space (cc_Protocol c) \<noteq> APIProtocolResponses \<or> cc_Items c = [] \<or>
             maxChatContinuationBytes < length (cc_Items c)
          then Inl (PlainError ''chat result candidate continuation is invalid'')
          else case ae_json_items ae (cc_Items c) of
              None \<Rightarrow> Inl (PlainError ''chat result candidate continuation is invalid'')
            | Some n \<Rightarrow> if n = 0 then Inl (PlainError ''chat result candidate continuation is invalid'') else Inr ())"

definition parseChatResultCandidate :: "ai_env \<Rightarrow> string \<Rightarrow> ai_error + chatResultCandidate" where
  "parseChatResultCandidate ae raw =
     (case ae_candidate ae (trim_space raw) of
        Inl err \<Rightarrow> Inl err
      | Inr candidate \<Rightarrow>
          if cr_Version candidate \<noteq> chatResultCandidateVersion \<and> cr_Version candidate \<noteq> legacyChatResultCandidateVersion
          then Inl (PlainError ''chat result candidate version is invalid'')
          else if cr_Version candidate = legacyChatResultCandidateVersion \<and> cr_Continuation candidate \<noteq> None
          then Inl (PlainError ''legacy chat result candidate contains continuation'')
          else case validateChatContinuation ae (cr_Continuation candidate) of
              Inl err \<Rightarrow> Inl err
            | Inr _ \<Rightarrow> Inr candidate)"

definition FinalChatAnswerFromCandidate :: "ai_env \<Rightarrow> string \<Rightarrow> ai_error + string" where
  "FinalChatAnswerFromCandidate ae raw =
     (case parseChatResultCandidate ae raw of
        Inl err \<Rightarrow> Inl err
      | Inr candidate \<Rightarrow>
          let answer = trim_space (cr_Answer candidate)
          in if answer = [] \<or> cr_ToolCalls candidate \<noteq> []
             then Inl (PlainError ''chat result candidate is not a final answer'')
             else Inr answer)"

definition IsToolCallCandidate :: "ai_env \<Rightarrow> string \<Rightarrow> ai_error + bool" where
  "IsToolCallCandidate ae raw =
     (case parseChatResultCandidate ae raw of Inl err \<Rightarrow> Inl err | Inr candidate \<Rightarrow> Inr (cr_ToolCalls candidate \<noteq> []))"

section \<open>Evidence of an attempt (ai_billing_gateway.go)\<close>

definition usageFromAttempt :: "ai_env \<Rightarrow> Attempt \<Rightarrow> ai_error + UsageSnapshot" where
  "usageFromAttempt ae row =
     (if trim_space (at_UsageJSON row) = [] then Inl (PlainError ''provider attempt usage is invalid'')
      else case ae_usage ae (at_UsageJSON row) of
          None \<Rightarrow> Inl (PlainError ''provider attempt usage is invalid'')
        | Some usage \<Rightarrow> (case snapshot_Validate usage of Inl err \<Rightarrow> Inl err | Inr _ \<Rightarrow> Inr usage))"

definition paidQuoteFromAttempt :: "ai_env \<Rightarrow> Attempt \<Rightarrow> ai_error + QuoteEvidence" where
  "paidQuoteFromAttempt ae row =
     (if trim_space (at_QuoteJSON row) = [] then Inl (PlainError ''provider attempt is not paid quote evidence'')
      else case ae_quote ae (at_QuoteJSON row) of
          None \<Rightarrow> Inl (PlainError ''provider attempt is not paid quote evidence'')
        | Some quote \<Rightarrow>
            if qe_PricingVersion quote = [] \<or> qe_CurrentCallMaxUnits quote \<le> 0
            then Inl (PlainError ''provider attempt is not paid quote evidence'')
            else Inr quote)"

definition terminalCandidateRequiresLocalFailure :: "ai_env \<Rightarrow> Attempt \<Rightarrow> bool" where
  "terminalCandidateRequiresLocalFailure ae attempt =
     (case usageFromAttempt ae attempt of
        Inl _ \<Rightarrow> False
      | Inr usage \<Rightarrow>
          if \<not> Complete usage then False
          else case at_ResultCandidateJSON attempt of
              None \<Rightarrow> True
            | Some json \<Rightarrow>
                if \<not> isl (FinalChatAnswerFromCandidate ae json) then False
                else IsToolCallCandidate ae json \<noteq> Inr True)"

definition gatewayRunSnapshot :: "Run \<Rightarrow> ai_error + RunSnapshot" where
  "gatewayRunSnapshot row =
     (if rn_ID row \<le> 0 \<or> rn_UserID row \<le> 0 \<or> trim_space (rn_RequestID row) = [] \<or>
         length (rn_RequestFingerprint row) \<noteq> 32 \<or> rn_Status row \<noteq> AIRunStatusRunning
      then Inl (PlainError ''AI Run billing snapshot is incomplete'')
      else Inr \<lparr>rs_RunID = rn_ID row, rs_UserID = rn_UserID row, rs_RequestID = trim_space (rn_RequestID row),
        rs_RequestFingerprint = rn_RequestFingerprint row, rs_PricingSnapshotJSON = trim_space (rn_PricingSnapshotJSON row),
        rs_BillingStatus = rn_BillingStatus row, rs_BillingReason = rn_BillingReason row, rs_AgentID = rn_AgentID row,
        rs_ModelID = trim_space (rn_ModelID row), rs_ModelDisplayName = trim_space (rn_ModelDisplayName row)\<rparr>)"

section \<open>The trigger of a settlement\<close>

text \<open>The two marks a worker leaves on the command\<close>

definition marked :: "Command \<Rightarrow> string \<Rightarrow> string \<Rightarrow> bool" where
  "marked command code message \<longleftrightarrow>
     trim_space (cm_LastErrorCode command) = code \<and> trim_space (cm_LastErrorMessage command) = message"

definition succeeded_trigger :: "ai_env \<Rightarrow> Attempt \<Rightarrow> ai_error + string" where
  "succeeded_trigger ae latest =
     (let local = (if terminalCandidateRequiresLocalFailure ae latest then Inr TriggerLocalFailure else Inr TriggerSuccess)
      in case at_ResultCandidateJSON latest of
           None \<Rightarrow> local
         | Some json \<Rightarrow>
             if \<not> isl (FinalChatAnswerFromCandidate ae json) then Inr TriggerSuccess
             else if IsToolCallCandidate ae json = Inr True \<and>
                  (case usageFromAttempt ae latest of Inr usage \<Rightarrow> Complete usage | Inl _ \<Rightarrow> False)
             then Inl ErrFinalizationPending
             else local)"

definition no_trigger :: ai_error where
  "no_trigger = JoinedError ErrFinalizationPending (PlainError ''chat command has no persisted terminal settlement trigger'')"

definition latest_trigger :: "ai_env \<Rightarrow> Command \<Rightarrow> Attempt \<Rightarrow> ai_error + string" where
  "latest_trigger ae command latest =
     (if at_State latest = AttemptStateSucceeded then succeeded_trigger ae latest
      else if at_State latest = AttemptStateOutcomeUnknown then Inr TriggerOutcomeUnknown
      else if at_State latest = AttemptStateFailed \<or> at_State latest = AttemptStateCanceled then
        if marked command ''ai.provider_failed'' TriggerProviderFailed \<or>
           0 < cm_MaxAttempts command \<and> cm_MaxAttempts command \<le> at_AttemptNo latest
        then Inr TriggerProviderFailed else Inl no_trigger
      else Inl no_trigger)"

definition deriveChatFinalizationTrigger :: "ai_env \<Rightarrow> Command \<Rightarrow> Attempt list \<Rightarrow> ai_error + string" where
  "deriveChatFinalizationTrigger ae command attempts =
     (if cm_CancelRequestedAt command \<noteq> None then
        if list_ex (\<lambda>a. trim_space (at_DispatchState a) = ''dispatched'' \<or> trim_space (at_DispatchState a) = ''unknown'') attempts
        then Inr TriggerUserStop else Inr TriggerUserStopBeforeDispatch
      else if marked command ''ai.provider_pre_dispatch_failed'' TriggerPreDispatchFailed then Inr TriggerPreDispatchFailed
      else if marked command ''ai.local_failed'' TriggerLocalFailure then Inr TriggerLocalFailure
      else if marked command ErrCodeInsufficientBalance TriggerInitialInsufficient then Inr TriggerInitialInsufficient
      else if marked command ErrCodeInsufficientBalance TriggerContinuationTopUpInsufficient
      then Inr TriggerContinuationTopUpInsufficient
      else if attempts = [] then
        if cm_State command = StateFailed then Inr TriggerPreDispatchFailed else Inl ErrFinalizationPending
      else latest_trigger ae command (last attempts))"

section \<open>The facts of a settlement\<close>

definition charge_fact :: "UsageCharge \<Rightarrow> FinalizationCharge" where
  "charge_fact c = \<lparr>fc_ID = ug_ID c, fc_RunID = ug_RunID c, fc_UserID = ug_UserID c, fc_HeldUnits = ug_HeldUnits c,
     fc_HeldAuditMax = ug_HeldUnits c, fc_ActualUnits = ug_ActualUnits c, fc_Status = ug_Status c\<rparr>"

definition hold_fact :: "UsageCharge \<Rightarrow> Hold option \<Rightarrow> FinalizationHold" where
  "hold_fact c hold = (case hold of
     None \<Rightarrow> no_hold
   | Some h \<Rightarrow> \<lparr>fh_ID = h_ID h, fh_WalletID = h_WalletID h, fh_RunID = h_RunID h, fh_UserID = h_UserID h,
       fh_HeldUnits = h_HeldUnits h, fh_HeldAuditMax = ug_HeldUnits c, fh_CapturedUnits = h_CapturedUnits h,
       fh_Status = h_Status h\<rparr>)"

text \<open>The usage of an attempt, unavailable when a finished attempt has none that reads\<close>

definition attempt_usage :: "ai_env \<Rightarrow> Attempt \<Rightarrow> ai_error + UsageSnapshot" where
  "attempt_usage ae row =
     (case usageFromAttempt ae row of
        Inr usage \<Rightarrow> Inr usage
      | Inl err \<Rightarrow>
          if List.member [AttemptStateSucceeded, AttemptStateFailed, AttemptStateCanceled, AttemptStateOutcomeUnknown] (at_State row)
          then Inr unavailable_usage
          else Inl (WrappedError (''load attempt '' @ format_int (at_ID row) @ '' usage'') err))"

definition auditOnlyPrepared :: "string \<Rightarrow> Attempt \<Rightarrow> bool" where
  "auditOnlyPrepared trigger row \<longleftrightarrow>
     (trigger = TriggerPreDispatchFailed \<or> trigger = TriggerUserStopBeforeDispatch) \<and>
     at_State row = AttemptStateCanceled \<and> trim_space (at_DispatchState row) = DispatchStateNotDispatched"

definition prepared_request_valid :: "ai_env \<Rightarrow> Attempt \<Rightarrow> bool" where
  "prepared_request_valid ae row \<longleftrightarrow> length (at_PreparedRequestSHA256 row) = 32 \<and>
     ae_sha256 ae (at_PreparedRequestJSON row) = digestFromBytes (at_PreparedRequestSHA256 row)"

definition attempt_evidence :: "ai_env \<Rightarrow> bool \<Rightarrow> string \<Rightarrow> Attempt \<Rightarrow> ai_error + string" where
  "attempt_evidence ae legacy trigger row =
     (if legacy then Inr AttemptEvidenceLegacyUnbillable
      else if auditOnlyPrepared trigger row then Inr AttemptEvidencePaid
      else case paidQuoteFromAttempt ae row of
          Inl err \<Rightarrow> Inl (WrappedError (''load attempt '' @ format_int (at_ID row) @ '' quote'') err)
        | Inr _ \<Rightarrow>
            if \<not> prepared_request_valid ae row
            then Inl (PlainError (''attempt '' @ format_int (at_ID row) @ '' prepared request evidence is invalid''))
            else Inr AttemptEvidencePaid)"

definition attempt_fact :: "ai_env \<Rightarrow> bool \<Rightarrow> string \<Rightarrow> Attempt \<Rightarrow> ai_error + FinalizationAttempt" where
  "attempt_fact ae legacy trigger row =
     (if at_ID row = 0 \<or> max_int64 < at_ID row
      then Inl (PlainError (''attempt id '' @ format_int (at_ID row) @ '' is outside the billing identity range''))
      else case attempt_usage ae row of
          Inl err \<Rightarrow> Inl err
        | Inr usage \<Rightarrow>
            (case attempt_evidence ae legacy trigger row of
               Inl err \<Rightarrow> Inl err
             | Inr kind \<Rightarrow>
                 (case decodeOptionalSHA256 (at_ResponseSHA256 row) of
                    Inl err \<Rightarrow> Inl (WrappedError (''load attempt '' @ format_int (at_ID row) @ '' response hash'') err)
                  | Inr digest \<Rightarrow> Inr \<lparr>fa_ID = at_ID row, fa_RunID = at_RunID row, fa_AttemptNo = at_AttemptNo row mod 4294967296,
                      fa_EvidenceKind = kind, fa_State = at_State row, fa_DispatchState = at_DispatchState row,
                      fa_Usage = usage, fa_ProviderRequestID = trim_space (at_ProviderRequestID row),
                      fa_ResponseSHA256 = digest\<rparr>)))"

fun attempt_facts :: "ai_env \<Rightarrow> bool \<Rightarrow> string \<Rightarrow> Attempt list \<Rightarrow> ai_error + FinalizationAttempt list" where
  "attempt_facts ae legacy trigger [] = Inr []"
| "attempt_facts ae legacy trigger (row # rows) =
     (case attempt_fact ae legacy trigger row of
        Inl err \<Rightarrow> Inl err
      | Inr f \<Rightarrow>
          (case attempt_facts ae legacy trigger rows of Inl err \<Rightarrow> Inl err | Inr rest \<Rightarrow> Inr (f # rest)))"

definition current_candidate :: "Attempt list \<Rightarrow> FinalizationCandidate" where
  "current_candidate attempts =
     (case attempts of
        [] \<Rightarrow> \<lparr>cd_AttemptID = 0, cd_JSON = []\<rparr>
      | _ \<Rightarrow> (case at_ResultCandidateJSON (last attempts) of
                None \<Rightarrow> \<lparr>cd_AttemptID = 0, cd_JSON = []\<rparr>
              | Some json \<Rightarrow> \<lparr>cd_AttemptID = at_ID (last attempts), cd_JSON = trim_space json\<rparr>))"

definition stopped_id :: "string \<Rightarrow> Attempt list \<Rightarrow> int" where
  "stopped_id trigger attempts =
     (if attempts \<noteq> [] \<and> trigger = TriggerUserStop \<and> at_State (last attempts) = AttemptStateCanceled \<and>
         trim_space (at_DispatchState (last attempts)) = ''dispatched''
      then at_ID (last attempts) else 0)"

definition buildChatFinalizationFacts ::
    "ai_env \<Rightarrow> Run \<Rightarrow> UsageCharge \<Rightarrow> Hold option \<Rightarrow> Command \<Rightarrow> Attempt list \<Rightarrow> ai_error + FinalizationFacts" where
  "buildChatFinalizationFacts ae run charge hold command attempts =
     (case gatewayRunSnapshot run of
        Inl err \<Rightarrow> Inl err
      | Inr snapshot \<Rightarrow>
          (case deriveChatFinalizationTrigger ae command attempts of
             Inl err \<Rightarrow> Inl err
           | Inr trigger \<Rightarrow>
               (case attempt_facts ae (rn_RequestIdentityStatus run = IdentityStatusLegacyNonReplayable) trigger attempts of
                  Inl err \<Rightarrow> Inl err
                | Inr facts \<Rightarrow> Inr \<lparr>ff_Run = snapshot, ff_Charge = charge_fact charge, ff_Hold = hold_fact charge hold,
                    ff_Attempts = facts, ff_Trigger = trigger, ff_StoppedAttemptID = stopped_id trigger attempts,
                    ff_CurrentAttemptID = (if attempts = [] then 0 else at_ID (last attempts)),
                    ff_Candidate = current_candidate attempts\<rparr>)))"

section \<open>Replays\<close>

definition terminal_billing :: "string \<Rightarrow> bool" where
  "terminal_billing status \<longleftrightarrow>
     status = BillingStatusSettled \<or> status = BillingStatusReleased \<or> status = BillingStatusUnbilled"

definition terminalChatBilling :: "Run \<Rightarrow> UsageCharge \<Rightarrow> bool" where
  "terminalChatBilling run charge \<longleftrightarrow> terminal_billing (rn_BillingStatus run) \<and>
     (ug_Status charge = ChargeStatusSettled \<or> ug_Status charge = ChargeStatusReleased \<or> ug_Status charge = ChargeStatusUnbilled)"

definition optionalAssistantMessageIDsMatch :: "int option \<Rightarrow> int option \<Rightarrow> bool" where
  "optionalAssistantMessageIDsMatch commandID runID =
     (case (commandID, runID) of (Some a, Some b) \<Rightarrow> a = b | (None, None) \<Rightarrow> True | _ \<Rightarrow> False)"

definition chatCommandMatchesRunTerminal :: "Command \<Rightarrow> Run \<Rightarrow> bool" where
  "chatCommandMatchesRunTerminal command run =
     (let both = (cm_AssistantMessageID command \<noteq> None \<and> cm_AssistantMessageID command = rn_AssistantMessageID run);
          same = optionalAssistantMessageIDsMatch (cm_AssistantMessageID command) (rn_AssistantMessageID run)
      in if cm_UserID command \<noteq> rn_UserID run \<or> cm_RequestID command \<noteq> rn_RequestID run \<or> cm_FinishedAt command = None
         then False
         else if rn_Status run = AIRunStatusSuccess then cm_State command = StateSucceeded \<and> both
         else if rn_Status run = AIRunStatusCanceled then cm_State command = StateCanceled \<and> both
         else if rn_Status run = AIRunStatusOutcomeUnknown then cm_State command = StateOutcomeUnknown \<and> same
         else if rn_Status run = AIRunStatusFailed then cm_State command = StateFailed \<and> same
         else False)"

definition hold_released :: "Hold \<Rightarrow> bool" where
  "hold_released h \<longleftrightarrow> h_Status h = HoldReleased \<and> h_HeldUnits h = 0 \<and> h_CapturedUnits h = 0"

definition validateChatFinalizationReplay ::
    "Run \<Rightarrow> UsageCharge \<Rightarrow> Wallet option \<Rightarrow> Hold option \<Rightarrow> Command \<Rightarrow> Attempt list \<Rightarrow> ai_error + unit" where
  "validateChatFinalizationReplay run charge wallet hold command attempts =
     (if ug_FinalizedAt charge = None \<or> ug_RunID charge \<noteq> rn_ID run \<or> ug_UserID charge \<noteq> rn_UserID run \<or> ug_ActualUnits charge < 0
      then Inl (PlainError ''terminal AI charge replay facts are invalid'')
      else if rn_BillingStatus run = BillingStatusSettled \<and>
        (ug_Status charge \<noteq> ChargeStatusSettled \<or> wallet = None \<or>
         (case hold of None \<Rightarrow> True | Some h \<Rightarrow> h_Status h \<noteq> HoldCaptured \<or> h_HeldUnits h \<noteq> 0 \<or> h_CapturedUnits h \<noteq> ug_ActualUnits charge))
      then Inl (PlainError ''settled AI replay facts are inconsistent'')
      else if rn_BillingStatus run = BillingStatusReleased \<and>
        (ug_Status charge \<noteq> ChargeStatusReleased \<or> ug_ActualUnits charge \<noteq> 0 \<or>
         (case hold of None \<Rightarrow> False | Some h \<Rightarrow> \<not> hold_released h))
      then Inl (PlainError ''released AI replay facts are inconsistent'')
      else if rn_BillingStatus run = BillingStatusUnbilled \<and>
        (ug_Status charge \<noteq> ChargeStatusUnbilled \<or> ug_ActualUnits charge \<noteq> 0 \<or>
         (case hold of None \<Rightarrow> True | Some h \<Rightarrow> \<not> hold_released h))
      then Inl (PlainError ''unbilled AI replay facts are inconsistent'')
      else if \<not> terminal_billing (rn_BillingStatus run) then Inl (PlainError ''AI replay billing status is not terminal'')
      else if \<not> chatCommandMatchesRunTerminal command run
      then Inl (PlainError ''terminal AI command replay facts are inconsistent'')
      else if list_ex (\<lambda>a. at_ResultCandidateJSON a \<noteq> None) attempts
      then Inl (PlainError ''terminal AI replay retained a result candidate'')
      else Inr ())"

end
