(* ===== verification/AiDashboard.thy ===== *)
theory AiDashboard
  imports AiStore
begin

text \<open>
  internal/module/ai/run/dashboard_projection.go: the fact of a finished run, written once in the transaction
  that finishes it, and the daily totals that are kept beside the facts. The SQL texts of the source are
  translated column by column; a key of the daily table is what its ON DUPLICATE KEY UPDATE leaves alone. A run has
  one charge.
\<close>

section \<open>The columns of a fact\<close>

definition sql_trim :: "string \<Rightarrow> string" where
  "sql_trim s = rev (dropWhile (\<lambda>c. c = CHR '' '') (rev (dropWhile (\<lambda>c. c = CHR '' '') s)))"

definition terminal_run_status :: "string \<Rightarrow> bool" where
  "terminal_run_status status \<longleftrightarrow> List.member [''success'', ''failed'', ''canceled'', ''timeout'', ''outcome_unknown''] status"

definition released_reason :: "string \<Rightarrow> bool" where
  "released_reason reason \<longleftrightarrow> List.member [''released_before_dispatch'', ''released_insufficient_balance'',
     ''released_provider_failed'', ''released_outcome_unknown''] reason"

definition charge_for :: "'z ai_tables_scheme \<Rightarrow> int \<Rightarrow> UsageCharge option" where
  "charge_for d runID = find (\<lambda>c. ug_RunID c = runID) (ai_usage_charges d)"

text \<open>The finished attempt with the highest number, the highest id among equal numbers\<close>

definition later_attempt :: "Attempt \<Rightarrow> Attempt \<Rightarrow> Attempt" where
  "later_attempt a b =
     (if at_AttemptNo a < at_AttemptNo b \<or> at_AttemptNo a = at_AttemptNo b \<and> at_ID a < at_ID b then b else a)"

definition final_attempt :: "'z ai_tables_scheme \<Rightarrow> int \<Rightarrow> Attempt option" where
  "final_attempt d runID =
     (case filter (\<lambda>a. at_RunID a = runID \<and>
         List.member [''succeeded'', ''failed'', ''canceled'', ''outcome_unknown''] (at_State a)) (ai_provider_attempts d) of
        [] \<Rightarrow> None
      | a # as \<Rightarrow> Some (fold (\<lambda>b x. later_attempt x b) as a))"

text \<open>The states of run and charge that go together\<close>

definition states_consistent :: "Run \<Rightarrow> UsageCharge \<Rightarrow> bool" where
  "states_consistent r c \<longleftrightarrow>
     (rn_BillingStatus r = ''pending'' \<and> rn_BillingReason r = ''pending'' \<and> ug_Status c = ''open'' \<and> ug_FinalizedAt c = None) \<or>
     (rn_BillingStatus r = ''held'' \<and> rn_BillingReason r = ''held'' \<and> ug_Status c = ''open'' \<and> ug_FinalizedAt c = None) \<or>
     (rn_BillingStatus r = ''settled'' \<and> rn_BillingReason r = ''settled_complete_usage'' \<and> ug_Status c = ''settled'' \<and>
        ug_FinalizedAt c \<noteq> None) \<or>
     (rn_BillingStatus r = ''released'' \<and> released_reason (rn_BillingReason r) \<and> ug_Status c = ''released'' \<and>
        ug_FinalizedAt c \<noteq> None) \<or>
     (rn_BillingStatus r = ''unbilled'' \<and>
        List.member [''legacy_unpriced'', ''unbilled_usage_incomplete'', ''unbilled_over_hold''] (rn_BillingReason r) \<and>
        ug_Status c = ''unbilled'' \<and> ug_FinalizedAt c \<noteq> None)"

definition billing_class :: "Run \<Rightarrow> UsageCharge option \<Rightarrow> string" where
  "billing_class r charge =
     (if (case charge of None \<Rightarrow> True | Some c \<Rightarrow> \<not> states_consistent r c) \<or>
         rn_Status r = ''running'' \<and> List.member [''settled'', ''released'', ''unbilled''] (rn_BillingStatus r)
      then ''state_inconsistent''
      else if terminal_run_status (rn_Status r) \<and> List.member [''pending'', ''held''] (rn_BillingStatus r) \<and>
         (case charge of None \<Rightarrow> False | Some c \<Rightarrow> ug_Status c = ''open'' \<and> ug_FinalizedAt c = None)
      then ''open_overdue''
      else if rn_BillingReason r \<noteq> ''legacy_unpriced'' \<and> rn_BillingStatus r \<noteq> ''released'' \<and>
         (case charge of None \<Rightarrow> True | Some c \<Rightarrow> sql_trim (ug_PricingVersion c) = [])
      then ''pricing_snapshot_missing''
      else if rn_BillingStatus r = ''unbilled'' \<and>
         List.member [''legacy_unpriced'', ''unbilled_usage_incomplete'', ''unbilled_over_hold''] (rn_BillingReason r)
      then rn_BillingReason r
      else [])"

definition fact_settled :: "Run \<Rightarrow> UsageCharge option \<Rightarrow> bool" where
  "fact_settled r charge \<longleftrightarrow> rn_BillingStatus r = ''settled'' \<and> rn_BillingReason r = ''settled_complete_usage'' \<and>
     (case charge of None \<Rightarrow> False | Some c \<Rightarrow> ug_Status c = ''settled'' \<and> ug_FinalizedAt c \<noteq> None) \<and>
     billing_class r charge \<noteq> ''state_inconsistent''"

definition fact_released :: "Run \<Rightarrow> UsageCharge option \<Rightarrow> bool" where
  "fact_released r charge \<longleftrightarrow> rn_BillingStatus r = ''released'' \<and> released_reason (rn_BillingReason r) \<and>
     (case charge of None \<Rightarrow> False | Some c \<Rightarrow> ug_Status c = ''released'' \<and> ug_FinalizedAt c \<noteq> None) \<and>
     billing_class r charge \<noteq> ''state_inconsistent''"

definition fact_error :: "Run \<Rightarrow> Attempt option \<Rightarrow> string" where
  "fact_error r attempt =
     (if List.member [''failed'', ''timeout'', ''outcome_unknown''] (rn_Status r) then
        (case attempt of
           None \<Rightarrow> ''unclassified''
         | Some a \<Rightarrow> if sql_trim (at_ErrorCode a) = [] then ''unclassified'' else sql_trim (at_ErrorCode a))
      else [])"

definition fact_ttft :: "Run \<Rightarrow> Attempt option \<Rightarrow> int option" where
  "fact_ttft r attempt =
     (case attempt of
        None \<Rightarrow> None
      | Some a \<Rightarrow>
          (case (at_DispatchedAt a, at_FirstDeltaAt a) of
             (Some sent_at, Some delta_at) \<Rightarrow>
               if rn_Status r = ''success'' \<and> at_State a = ''succeeded'' \<and> sent_at \<le> delta_at
               then Some ((delta_at - sent_at) div 1000 div 1000) else None
           | _ \<Rightarrow> None))"

definition dashboard_fact :: "ai_env \<Rightarrow> 'z ai_tables_scheme \<Rightarrow> Run \<Rightarrow> DashboardFact" where
  "dashboard_fact ae d r =
     (let charge = charge_for d (rn_ID r); attempt = final_attempt d (rn_ID r)
      in \<lparr>df_RunID = rn_ID r, df_FactDate = ae_date ae (rn_CreatedAt r), df_RunCreatedAt = rn_CreatedAt r,
          df_Platform = rn_Platform r, df_ModelID = rn_ModelID r,
          df_ModelDisplayName = rn_ModelDisplayName r, df_AgentID = rn_AgentID r, df_ProviderID = rn_ProviderID r,
          df_UserID = rn_UserID r, df_Status = rn_Status r, df_PromptTokens = rn_PromptTokens r,
          df_CompletionTokens = rn_CompletionTokens r, df_TotalTokens = rn_TotalTokens r, df_DurationMS = rn_DurationMS r,
          df_SettledRuns = (if fact_settled r charge then 1 else 0),
          df_ActualUnits = (if fact_settled r charge then ug_ActualUnits (the charge) else 0),
          df_ReleasedRuns = (if fact_released r charge then 1 else 0),
          df_ReleasedUnits = (if fact_released r charge then ug_HeldUnits (the charge) else 0),
          df_UnbilledRuns = (if rn_BillingStatus r = ''unbilled'' then 1 else 0),
          df_RunAnomalyCode = (if List.member [''failed'', ''timeout'', ''outcome_unknown''] (rn_Status r) then rn_Status r else []),
          df_BillingAnomalyCode = billing_class r charge, df_FinalErrorCode = fact_error r attempt,
          df_TTFTMS = fact_ttft r attempt\<rparr>)"

section \<open>The daily totals\<close>

definition daily_key :: "DashboardFact \<Rightarrow> daily_key" where
  "daily_key f = (df_FactDate f, df_Platform f, df_ModelID f, df_AgentID f, df_ProviderID f, df_UserID f, df_Status f,
     df_RunAnomalyCode f, df_BillingAnomalyCode f, df_FinalErrorCode f)"

definition daily_row :: "DashboardFact \<Rightarrow> DailyFact" where
  "daily_row f = \<lparr>dd_Key = daily_key f, dd_LatestRunID = df_RunID f, dd_LatestModelDisplayName = df_ModelDisplayName f,
     dd_RunCount = 1, dd_PromptTokens = df_PromptTokens f, dd_CompletionTokens = df_CompletionTokens f,
     dd_TotalTokens = df_TotalTokens f, dd_SettledRuns = df_SettledRuns f, dd_ActualUnits = df_ActualUnits f,
     dd_ReleasedRuns = df_ReleasedRuns f, dd_ReleasedUnits = df_ReleasedUnits f, dd_UnbilledRuns = df_UnbilledRuns f\<rparr>"

text \<open>\<open>ON DUPLICATE KEY UPDATE\<close>, the assignments from left to right\<close>

definition daily_add :: "DailyFact \<Rightarrow> DailyFact \<Rightarrow> DailyFact" where
  "daily_add new old = old\<lparr>
     dd_LatestModelDisplayName := (if dd_LatestRunID old < dd_LatestRunID new then dd_LatestModelDisplayName new
       else dd_LatestModelDisplayName old),
     dd_LatestRunID := max (dd_LatestRunID old) (dd_LatestRunID new),
     dd_RunCount := dd_RunCount old + dd_RunCount new, dd_PromptTokens := dd_PromptTokens old + dd_PromptTokens new,
     dd_CompletionTokens := dd_CompletionTokens old + dd_CompletionTokens new,
     dd_TotalTokens := dd_TotalTokens old + dd_TotalTokens new, dd_SettledRuns := dd_SettledRuns old + dd_SettledRuns new,
     dd_ActualUnits := dd_ActualUnits old + dd_ActualUnits new, dd_ReleasedRuns := dd_ReleasedRuns old + dd_ReleasedRuns new,
     dd_ReleasedUnits := dd_ReleasedUnits old + dd_ReleasedUnits new,
     dd_UnbilledRuns := dd_UnbilledRuns old + dd_UnbilledRuns new\<rparr>"

definition upsert_daily :: "DashboardFact \<Rightarrow> DailyFact list \<Rightarrow> DailyFact list" where
  "upsert_daily f rows =
     (if list_ex (\<lambda>r. dd_Key r = daily_key f) rows
      then change_rows (\<lambda>r. dd_Key r = daily_key f) (daily_add (daily_row f)) rows
      else rows @ [daily_row f])"

section \<open>The projection\<close>

text \<open>One statement that changes tables\<close>

definition run_sql :: "env \<Rightarrow> ('d \<Rightarrow> 'd) \<Rightarrow> (db_error, 'd world, unit) act" where
  "run_sql ev f = bind (exec ev) (\<lambda>_ s. (Inr (), s\<lparr>tables := f (tables s)\<rparr>))"

lemma Returns_run_sql [act_simps]:
  "Returns (run_sql ev f) s u t \<longleftrightarrow> no_fault ev s \<and> t = (sent s)\<lparr>tables := f (tables s)\<rparr>"
  by (auto simp: run_sql_def act_simps) (auto simp: Returns_def)

lemma Fails_run_sql [act_simps]: "Fails (run_sql ev f) s e t \<longleftrightarrow> fault_at ev s e \<and> t = sent s"
  by (auto simp: run_sql_def act_simps) (auto simp: Fails_def)

lemma keeps_run_sql [keeps_intros]: "(\<And>d. f (g d) = f d) \<Longrightarrow> keeps f (run_sql ev g)"
  unfolding run_sql_def by (intro keeps_intros) (simp add: keeps_def)

lemma grows_run_sql [grows_intros]: "grows (run_sql ev f)"
  unfolding run_sql_def by (intro grows_intros) (simp add: grows_def)

text \<open>\<open>insertTerminalDashboardFactSQL\<close>: the facts of the finished run with this id\<close>

definition insert_fact :: "ai_env \<Rightarrow> int \<Rightarrow> 'z ai_tables_scheme \<Rightarrow> 'z ai_tables_scheme" where
  "insert_fact ae runID d = d\<lparr>ai_run_dashboard_facts := ai_run_dashboard_facts d @
     map (dashboard_fact ae d) (filter (\<lambda>r. rn_ID r = runID \<and> terminal_run_status (rn_Status r)) (ai_runs d))\<rparr>"

definition increment_daily :: "int \<Rightarrow> 'z ai_tables_scheme \<Rightarrow> 'z ai_tables_scheme" where
  "increment_daily runID d = d\<lparr>ai_run_dashboard_daily_facts :=
     fold upsert_daily (filter (\<lambda>f. df_RunID f = runID) (ai_run_dashboard_facts d)) (ai_run_dashboard_daily_facts d)\<rparr>"

definition fact_exists :: "int \<Rightarrow> 'z ai_tables_scheme \<Rightarrow> bool" where
  "fact_exists runID d = list_ex (\<lambda>f. df_RunID f = runID) (ai_run_dashboard_facts d)"

definition ProjectTerminalDashboardFacts :: "ai_env \<Rightarrow> int \<Rightarrow> ('z, unit) ai_act" where
  "ProjectTerminalDashboardFacts ae runID =
     (if runID \<le> 0 then throw (PlainError ''invalid terminal dashboard projection input'')
      else bind (map_error AiDb (query (ae_db ae) (fact_exists runID))) (\<lambda>factExists.
        if factExists then ret ()
        else either (run_sql (ae_db ae) (insert_fact ae runID))
          (\<lambda>err. case err of MySQLError n msg \<Rightarrow> if n = 1062 then ret () else throw (AiDb err) | _ \<Rightarrow> throw (AiDb err))
          (\<lambda>_. map_error AiDb (run_sql (ae_db ae) (increment_daily runID)))))"

end
