(* ===== verification/AiReply.thy ===== *)
theory AiReply
  imports AiStore
begin

text \<open>
  The end of a reply command: internal/module/ai/replycommand/finalization.go with the delivered prefix of
  delivery.go, and the durable realtime event, the append of internal/module/realtime/repository.go with the
  payload checks of event.go for the three events a settlement sends. The events carry no id of their
  own, so the id is always a new one; what the codec of a payload encodes it decodes again.
\<close>

section \<open>Statements\<close>

definition ai_first ::
    "ai_env \<Rightarrow> ('z ai_tables_scheme \<Rightarrow> 'r list) \<Rightarrow> ('r \<Rightarrow> bool) \<Rightarrow> ('z, 'r) ai_act" where
  "ai_first ae get P = map_error AiDb (first (ae_db ae) get P)"

text \<open>\<open>First\<close> with \<open>gorm.ErrRecordNotFound\<close> as None\<close>

definition ai_optional ::
    "ai_env \<Rightarrow> ('z ai_tables_scheme \<Rightarrow> 'r list) \<Rightarrow> ('r \<Rightarrow> bool) \<Rightarrow> ('z, 'r option) ai_act" where
  "ai_optional ae get P = either (first (ae_db ae) get P)
     (\<lambda>err. if err = RecordNotFound then ret None else throw (AiDb err)) (\<lambda>r. ret (Some r))"

text \<open>\<open>Updates\<close> that must change one row\<close>

definition ai_update_one ::
    "ai_env \<Rightarrow> ('z ai_tables_scheme \<Rightarrow> 'r list) \<Rightarrow> (('r list \<Rightarrow> 'r list) \<Rightarrow> 'z ai_tables_scheme \<Rightarrow> 'z ai_tables_scheme) \<Rightarrow>
       ai_error \<Rightarrow> ('r \<Rightarrow> bool) \<Rightarrow> ('r \<Rightarrow> 'r) \<Rightarrow> ('z, unit) ai_act" where
  "ai_update_one ae get upd rejected P g =
     bind (map_error AiDb (update_where (ae_db ae) get upd P (\<lambda>_. g))) (\<lambda>n. if n \<noteq> 1 then throw rejected else ret ())"

definition ai_insert ::
    "ai_env \<Rightarrow> ('z ai_tables_scheme \<Rightarrow> 'r list) \<Rightarrow> (('r list \<Rightarrow> 'r list) \<Rightarrow> 'z ai_tables_scheme \<Rightarrow> 'z ai_tables_scheme) \<Rightarrow>
       (int \<Rightarrow> 'r) \<Rightarrow> ('z, 'r) ai_act" where
  "ai_insert ae get upd mk = map_error AiDb (insert_row (ae_db ae) get upd (\<lambda>_ _. None) (\<lambda>i _. mk i))"

lemma Returns_ai_first [act_simps]:
  "Returns (ai_first ae get P) s r t \<longleftrightarrow> no_fault (ae_db ae) s \<and> find P (get (tables s)) = Some r \<and> t = sent s"
  by (simp add: ai_first_def act_simps)

lemma Returns_ai_optional [act_simps]:
  "Returns (ai_optional ae get P) s r t \<longleftrightarrow> no_fault (ae_db ae) s \<and> r = find P (get (tables s)) \<and> t = sent s"
  by (auto simp: ai_optional_def act_simps split: if_splits)

lemma Returns_ai_update_one [act_simps]:
  "Returns (ai_update_one ae get upd rejected P g) s u t \<longleftrightarrow>
     no_fault (ae_db ae) s \<and> length (filter P (get (tables s))) = 1 \<and>
     t = (sent (ticked s))\<lparr>tables := upd (change_rows P g) (tables s)\<rparr>"
  by (auto simp: ai_update_one_def act_simps)

lemma Returns_ai_insert [act_simps]:
  "Returns (ai_insert ae get upd mk) s r t \<longleftrightarrow>
     no_fault (ae_db ae) s \<and> r = mk (auto_inc s) \<and>
     t = (sent (ticked s))\<lparr>auto_inc := auto_inc s + 1, tables := upd (\<lambda>rows. rows @ [r]) (tables s)\<rparr>"
  by (auto simp: ai_insert_def act_simps)

lemma keeps_ai_statements [keeps_intros]:
  "keeps f (ai_first ae get P)" "keeps f (ai_optional ae get P)"
  "(\<And>h d. f (upd h d) = f d) \<Longrightarrow> keeps f (ai_update_one ae get upd rejected P g)"
  "(\<And>h d. f (upd h d) = f d) \<Longrightarrow> keeps f (ai_insert ae get upd mk)"
  unfolding ai_first_def ai_optional_def ai_update_one_def ai_insert_def by (intro keeps_intros; simp)+

lemma grows_ai_statements [grows_intros]:
  "grows (ai_first ae get P)" "grows (ai_optional ae get P)"
  "grows (ai_update_one ae get upd rejected P g)" "grows (ai_insert ae get upd mk)"
  unfolding ai_first_def ai_optional_def ai_update_one_def ai_insert_def by (intro grows_intros)+

section \<open>The delivered prefix (delivery.go)\<close>

record DeliveryPrefix =
  dp_StopDeliverySeq :: int
  dp_Content :: string
  dp_Consistent :: bool

definition no_prefix :: DeliveryPrefix where
  "no_prefix = \<lparr>dp_StopDeliverySeq = 0, dp_Content = [], dp_Consistent = False\<rparr>"

text \<open>The chunks must be numbered 1, 2, ...\<close>

definition prefix_of_chunks :: "int \<Rightarrow> DeliveryChunk list \<Rightarrow> DeliveryPrefix" where
  "prefix_of_chunks deliveredSeq chunks =
     (if int (length chunks) \<noteq> deliveredSeq then no_prefix
      else if list_ex (\<lambda>(index, chunk). ck_DeliverySeq chunk \<noteq> int index + 1) (enumerate 0 chunks) then no_prefix
      else \<lparr>dp_StopDeliverySeq = deliveredSeq, dp_Content = concat (map ck_Delta chunks), dp_Consistent = True\<rparr>)"

definition ReadDeliveryPrefixInTransaction :: "ai_env \<Rightarrow> int \<Rightarrow> int \<Rightarrow> ('z, DeliveryPrefix) ai_act" where
  "ReadDeliveryPrefixInTransaction ae commandID deliveredSeq =
     (if commandID = 0 then throw ErrCreateInputInvalid
      else if deliveredSeq = 0 then ret (no_prefix\<lparr>dp_Consistent := True\<rparr>)
      else bind (map_error AiDb (query (ae_db ae) (\<lambda>d. sort_key ck_DeliverySeq (filter (\<lambda>c.
          ck_CommandID c = commandID \<and> ck_DeliverySeq c \<le> deliveredSeq) (ai_reply_delivery_chunks d)))))
        (\<lambda>chunks. ret (prefix_of_chunks deliveredSeq chunks)))"

section \<open>Finalising a paid command (finalization.go)\<close>

record PaidCommandFinalizationInput =
  pi_CommandID :: int
  pi_UserID :: int
  pi_RequestID :: string
  pi_State :: string
  pi_Content :: string
  pi_ErrorCode :: string
  pi_ErrorMessage :: string
  pi_Now :: gotime

record PaidCommandFinalizationResult =
  pr_AssistantMessageID :: int
  pr_ConversationDeleted :: bool

definition normalizePaidCommandFinalization ::
    "PaidCommandFinalizationInput \<Rightarrow> ai_error + PaidCommandFinalizationInput" where
  "normalizePaidCommandFinalization raw =
     (let input = raw\<lparr>pi_RequestID := trim_space (pi_RequestID raw), pi_Content := trim_space (pi_Content raw),
            pi_ErrorCode := trim_space (pi_ErrorCode raw), pi_ErrorMessage := trim_space (pi_ErrorMessage raw)\<rparr>
      in if pi_CommandID input = 0 \<or> pi_UserID input \<le> 0 \<or> pi_RequestID input = [] \<or> time_is_zero (pi_Now input)
         then Inl ErrCreateInputInvalid
         else if pi_State input = StateSucceeded then
           if pi_Content input = [] \<or> pi_ErrorCode input \<noteq> [] \<or> pi_ErrorMessage input \<noteq> []
           then Inl ErrCreateInputInvalid else Inr input
         else if pi_State input = StateFailed \<or> pi_State input = StateOutcomeUnknown then
           if pi_Content input \<noteq> [] \<or> pi_ErrorCode input = [] \<or> pi_ErrorMessage input = []
           then Inl ErrCreateInputInvalid else Inr input
         else if pi_State input = StateCanceled then
           if pi_Content input \<noteq> [] \<or> pi_ErrorCode input \<noteq> [] \<or> pi_ErrorMessage input \<noteq> []
           then Inl ErrCreateInputInvalid else Inr input
         else Inl ErrCreateInputInvalid)"

definition paidCommandFinalizationSourceStates :: "string \<Rightarrow> string \<Rightarrow> ai_error + string list" where
  "paidCommandFinalizationSourceStates current target =
     (let states = [StatePending, StateClaimed, StateRunning, StateOutcomeUnknown]
      in if current \<noteq> StateFailed then Inr states
         else if target \<noteq> StateFailed then Inl ErrPaidCommandFinalizationConflict
         else Inr (states @ [StateFailed]))"

definition paidCommandConversationDeleted :: "ai_env \<Rightarrow> Command \<Rightarrow> ('z, bool) ai_act" where
  "paidCommandConversationDeleted ae command =
     bind (ai_first ae ai_conversations (\<lambda>c. cv_ID c = cm_ConversationID command \<and> cv_UserID c = cm_UserID command)) (\<lambda>c.
     if cv_IsDel c = CommonNo then ret False
     else if cv_IsDel c = CommonYes then ret True
     else throw ErrPaidCommandFinalizationConflict)"

definition assistant_message :: "Command \<Rightarrow> string \<Rightarrow> string \<Rightarrow> gotime \<Rightarrow> int \<Rightarrow> replyMessage" where
  "assistant_message command content delivery now i =
     \<lparr>mg_ID = i, mg_ConversationID = cm_ConversationID command, mg_ReplyCommandID = Some (cm_ID command),
      mg_Role = AIMessageRoleAssistant, mg_ContentType = ''text'', mg_Content = content, mg_MetaJSON = None,
      mg_DeliveryState = Some delivery, mg_IsDel = CommonNo, mg_CreatedAt = now, mg_UpdatedAt = now\<rparr>"

definition create_message :: "ai_env \<Rightarrow> (int \<Rightarrow> replyMessage) \<Rightarrow> ('z, replyMessage) ai_act" where
  "create_message ae mk = ai_insert ae ai_messages ai_messages_update mk"

definition touch_conversation :: "ai_env \<Rightarrow> Command \<Rightarrow> gotime \<Rightarrow> ('z, unit) ai_act" where
  "touch_conversation ae command now = ai_update_one ae ai_conversations ai_conversations_update
     ErrPaidCommandFinalizationConflict
     (\<lambda>c. cv_ID c = cm_ConversationID command \<and> cv_UserID c = cm_UserID command \<and> cv_IsDel c = CommonNo)
     (\<lambda>c. c\<lparr>cv_LastMessageAt := Some now, cv_UpdatedAt := now\<rparr>)"

text \<open>A succeeded command publishes its answer, once.\<close>

definition publish_answer ::
    "ai_env \<Rightarrow> PaidCommandFinalizationInput \<Rightarrow> Command \<Rightarrow> replyMessage option \<Rightarrow> ('z, PaidCommandFinalizationResult) ai_act" where
  "publish_answer ae input command existing =
     (if cm_CancelRequestedAt command \<noteq> None then throw ErrPaidCommandFinalizationConflict
      else bind (case existing of
          None \<Rightarrow> create_message ae (assistant_message command (pi_Content input) DeliveryStateCompleted (pi_Now input))
        | Some m \<Rightarrow>
            if mg_ConversationID m \<noteq> cm_ConversationID command \<or> mg_Role m \<noteq> AIMessageRoleAssistant \<or>
               mg_Content m \<noteq> pi_Content input \<or> mg_IsDel m \<noteq> CommonNo
            then throw ErrPaidCommandFinalizationConflict else ret m) (\<lambda>m.
        bind (touch_conversation ae command (pi_Now input)) (\<lambda>_.
        ret \<lparr>pr_AssistantMessageID = mg_ID m, pr_ConversationDeleted = False\<rparr>)))"

text \<open>A canceled command keeps the message its cancellation stopped.\<close>

definition stopped_message_of :: "Command \<Rightarrow> replyMessage \<Rightarrow> bool" where
  "stopped_message_of command m \<longleftrightarrow> Some (mg_ID m) = cm_AssistantMessageID command \<and>
     mg_ConversationID m = cm_ConversationID command \<and> mg_Role m = AIMessageRoleAssistant \<and>
     mg_DeliveryState m = Some DeliveryStateStopped"

definition keep_stopped ::
    "ai_env \<Rightarrow> Command \<Rightarrow> replyMessage option \<Rightarrow> ('z, PaidCommandFinalizationResult) ai_act" where
  "keep_stopped ae command existing =
     (case existing of
        None \<Rightarrow> throw ErrPaidCommandFinalizationConflict
      | Some m \<Rightarrow>
          if cm_CancelRequestedAt command = None \<or> cm_StopDeliverySeq command = None \<or> \<not> stopped_message_of command m
          then throw ErrPaidCommandFinalizationConflict
          else if mg_IsDel m = CommonNo then ret \<lparr>pr_AssistantMessageID = mg_ID m, pr_ConversationDeleted = False\<rparr>
          else if mg_IsDel m = CommonYes then
            either (paidCommandConversationDeleted ae command) (\<lambda>_. throw ErrPaidCommandFinalizationConflict)
              (\<lambda>deleted. if \<not> deleted then throw ErrPaidCommandFinalizationConflict
                else ret \<lparr>pr_AssistantMessageID = mg_ID m, pr_ConversationDeleted = True\<rparr>)
          else throw ErrPaidCommandFinalizationConflict)"

text \<open>A failed command keeps what had been delivered, if anything.\<close>

definition keep_delivered ::
    "ai_env \<Rightarrow> PaidCommandFinalizationInput \<Rightarrow> Command \<Rightarrow> replyMessage option \<Rightarrow> ('z, PaidCommandFinalizationResult) ai_act" where
  "keep_delivered ae input command existing =
     (if existing \<noteq> None \<or> cm_AssistantMessageID command \<noteq> None then throw ErrPaidCommandFinalizationConflict
      else if 0 < cm_DeliverySeq command then
        bind (ReadDeliveryPrefixInTransaction ae (cm_ID command) (cm_DeliverySeq command)) (\<lambda>prefix.
        if \<not> dp_Consistent prefix then throw ErrPaidCommandFinalizationConflict
        else bind (create_message ae (assistant_message command (dp_Content prefix) DeliveryStateStopped (pi_Now input))) (\<lambda>m.
        bind (touch_conversation ae command (pi_Now input)) (\<lambda>_.
        ret \<lparr>pr_AssistantMessageID = mg_ID m, pr_ConversationDeleted = False\<rparr>)))
      else bind (paidCommandConversationDeleted ae command) (\<lambda>deleted.
        ret \<lparr>pr_AssistantMessageID = 0, pr_ConversationDeleted = deleted\<rparr>))"

text \<open>The columns of the finished command\<close>

definition finish_command ::
    "PaidCommandFinalizationInput \<Rightarrow> PaidCommandFinalizationResult \<Rightarrow> Command \<Rightarrow> Command" where
  "finish_command input result c =
     (let base = c\<lparr>cm_State := pi_State input, cm_FinishedAt := Some (pi_Now input), cm_LeaseOwner := None,
            cm_LeaseExpiresAt := None, cm_UpdatedAt := pi_Now input\<rparr>
      in if pi_State input = StateSucceeded \<or> pi_State input = StateCanceled
         then base\<lparr>cm_AssistantMessageID := Some (pr_AssistantMessageID result), cm_LastErrorCode := [],
           cm_LastErrorMessage := [], cm_OutcomeUnknownAt := None\<rparr>
         else base\<lparr>cm_AssistantMessageID := (if 0 < pr_AssistantMessageID result then Some (pr_AssistantMessageID result)
             else cm_AssistantMessageID c),
           cm_LastErrorCode := pi_ErrorCode input, cm_LastErrorMessage := pi_ErrorMessage input,
           cm_OutcomeUnknownAt := (if pi_State input = StateOutcomeUnknown then Some (pi_Now input) else None)\<rparr>)"

definition paid_command :: "PaidCommandFinalizationInput \<Rightarrow> Command \<Rightarrow> bool" where
  "paid_command input c \<longleftrightarrow>
     cm_ID c = pi_CommandID input \<and> cm_UserID c = pi_UserID input \<and> cm_RequestID c = pi_RequestID input"

definition FinalizePaidCommandInTransaction ::
    "ai_env \<Rightarrow> PaidCommandFinalizationInput \<Rightarrow> ('z, PaidCommandFinalizationResult) ai_act" where
  "FinalizePaidCommandInTransaction ae raw =
     bind (pure_result (normalizePaidCommandFinalization raw)) (\<lambda>input.
     bind (ai_first ae ai_reply_commands (paid_command input)) (\<lambda>command.
     bind (pure_result (paidCommandFinalizationSourceStates (cm_State command) (pi_State input))) (\<lambda>sourceStates.
     bind (ai_optional ae ai_messages (\<lambda>m. mg_ReplyCommandID m = Some (cm_ID command))) (\<lambda>existing.
     bind (if pi_State input = StateSucceeded then publish_answer ae input command existing
           else if pi_State input = StateCanceled then keep_stopped ae command existing
           else keep_delivered ae input command existing) (\<lambda>result.
     bind (ai_update_one ae ai_reply_commands ai_reply_commands_update ErrPaidCommandFinalizationConflict
       (\<lambda>c. paid_command input c \<and> List.member sourceStates (cm_State c)) (finish_command input result)) (\<lambda>_.
     ret result))))))"

section \<open>Durable realtime events (repository.go, event.go)\<close>

definition TypeAIResponseCompletedV1 :: string where "TypeAIResponseCompletedV1 = ''ai.response.completed.v1''"
definition TypeAIResponseFailedV1 :: string where "TypeAIResponseFailedV1 = ''ai.response.failed.v1''"
definition TypeAIResponseCanceledV2 :: string where "TypeAIResponseCanceledV2 = ''ai.response.canceled.v2''"
definition TargetTypeUser :: string where "TargetTypeUser = ''user''"
definition DurableEventRetention :: int where "DurableEventRetention = 604800000000000"

record AppendInput =
  ap_Type :: string
  ap_RequestID :: string
  ap_UserID :: int
  ap_Payload :: rt_payload
  ap_OccurredAt :: gotime

definition validRequestID :: "string \<Rightarrow> bool" where
  "validRequestID text \<longleftrightarrow> trim_space text \<noteq> [] \<and> rune_count (trim_space text) \<le> 128"

definition payload_valid :: "rt_payload \<Rightarrow> bool" where
  "payload_valid p = (case p of
     AIResponseCompletedPayload conversation request message \<Rightarrow> 0 < conversation \<and> 0 < message \<and> validRequestID request
   | AIResponseCanceledPayload conversation request message \<Rightarrow> 0 < conversation \<and> 0 < message \<and> validRequestID request
   | AIResponseFailedPayload conversation request msg code walletPath rechargePath \<Rightarrow>
       0 < conversation \<and> validRequestID request \<and> trim_space msg \<noteq> [] \<and> rune_count msg \<le> 1024 \<and>
       trim_space code \<noteq> [] \<and> code = trim_space code \<and> rune_count code \<le> 128 \<and>
       (if code = ''ai.billing.insufficient_balance''
        then walletPath = Some ''/profile/wallet'' \<and> rechargePath = Some ''/payment/recharge''
        else walletPath = None \<and> rechargePath = None))"

text \<open>The types of the registry that the settlement sends, with their payloads\<close>

definition payload_of_type :: "string \<Rightarrow> rt_payload \<Rightarrow> bool" where
  "payload_of_type eventType p = (case p of
     AIResponseCompletedPayload _ _ _ \<Rightarrow> eventType = TypeAIResponseCompletedV1
   | AIResponseCanceledPayload _ _ _ \<Rightarrow> eventType = TypeAIResponseCanceledV2
   | AIResponseFailedPayload _ _ _ _ _ _ \<Rightarrow> eventType = TypeAIResponseFailedV1)"

definition event_violated :: "Event \<Rightarrow> Event list \<Rightarrow> string option" where
  "event_violated e es = (if list_ex (\<lambda>x. ev_EventID x = ev_EventID e) es then Some ''event_id'' else None)"

definition new_event_id :: "ai_env \<Rightarrow> gotime \<Rightarrow> ('z, string) ai_act" where
  "new_event_id ae t s = (ae_event_id ae t (stmt_no s), s)"

definition new_event :: "AppendInput \<Rightarrow> string \<Rightarrow> int \<Rightarrow> Event" where
  "new_event input eventID i = \<lparr>ev_Sequence = i, ev_EventID = eventID, ev_EventType = trim_space (ap_Type input),
     ev_RequestID = (if trim_space (ap_RequestID input) = [] then None else Some (trim_space (ap_RequestID input))),
     ev_TargetType = TargetTypeUser, ev_TargetID = format_int (ap_UserID input), ev_Durability = ''durable'',
     ev_Payload = ap_Payload input, ev_OccurredAt = ap_OccurredAt input,
     ev_ExpiresAt = Some (ap_OccurredAt input + DurableEventRetention)\<rparr>"

definition AppendTx :: "ai_env \<Rightarrow> AppendInput \<Rightarrow> ('z, Event) ai_act" where
  "AppendTx ae input =
     (if ap_UserID input \<le> 0 \<or> trim_space (ap_Type input) = [] \<or> time_is_zero (ap_OccurredAt input) \<or>
         128 < rune_count (trim_space (ap_RequestID input))
      then throw ErrAppendInputInvalid
      else if \<not> payload_of_type (trim_space (ap_Type input)) (ap_Payload input) \<or> \<not> payload_valid (ap_Payload input)
      then throw ErrEventPayloadInvalid
      else bind (new_event_id ae (ap_OccurredAt input)) (\<lambda>eventID.
        catch (map_error AiDb (insert_row (ae_db ae) realtime_events realtime_events_update event_violated
            (\<lambda>i _. new_event input eventID i)))
          (\<lambda>err. case err of
             AiDb (MySQLError n msg) \<Rightarrow> if n = 1062 then throw (JoinedError ErrDuplicateEventID err) else throw err
           | _ \<Rightarrow> throw err)))"

end
