(* ===== verification/AiSettlement.thy ===== *)
theory AiSettlement
  imports AiFacts AiDashboard AiReply WalletFrame
begin

text \<open>
  The store that settles a chat run (\<open>internal/runtime/ai_billing_finalizer.go\<close>, \<open>WithLockedSettlement\<close>): one
  transaction locks run, charge, wallet, hold, command and attempts, recognises a settlement already made, hands
  the facts to the decision, moves the money and ends the run, its charge and its command; then the delivered
  chunks are cleaned up (delivery.go). What follows the commit without touching these tables (pushing the
  event to open connections, queueing the index and memory jobs) is left out.
\<close>

section \<open>Locking\<close>

definition lockChatSettlementMoneyGraph ::
    "ai_env \<Rightarrow> int \<Rightarrow> ('z, Run \<times> UsageCharge \<times> Wallet option \<times> Hold option) ai_act" where
  "lockChatSettlementMoneyGraph ae runID =
     bind (ai_first ae ai_runs (\<lambda>r. rn_ID r = runID)) (\<lambda>run.
     bind (ai_first ae ai_usage_charges (\<lambda>c. ug_RunID c = runID)) (\<lambda>charge.
     bind (ai_optional ae wallets (\<lambda>w. w_UserID w = rn_UserID run \<and> w_IsDel w = CommonNo)) (\<lambda>wallet.
     bind (ai_optional ae holds (\<lambda>h. h_RunID h = runID)) (\<lambda>hold.
     if (case hold of
           None \<Rightarrow> False
         | Some h \<Rightarrow> (case wallet of None \<Rightarrow> True | Some w \<Rightarrow> h_WalletID h \<noteq> w_ID w) \<or> h_UserID h \<noteq> rn_UserID run)
     then throw (AiWallet ErrHoldOwnerMismatch)
     else ret (run, charge, wallet, hold)))))"

definition attempts_of :: "'z ai_tables_scheme \<Rightarrow> int \<Rightarrow> Attempt list" where
  "attempts_of d runID = sort_key at_AttemptNo (filter (\<lambda>a. at_RunID a = runID) (ai_provider_attempts d))"

definition lockChatSettlementBusinessGraph :: "ai_env \<Rightarrow> Run \<Rightarrow> ('z, Command \<times> Attempt list) ai_act" where
  "lockChatSettlementBusinessGraph ae run =
     bind (ai_first ae ai_reply_commands (\<lambda>c. cm_UserID c = rn_UserID run \<and> cm_RequestID c = rn_RequestID run)) (\<lambda>command.
     bind (map_error AiDb (query (ae_db ae) (\<lambda>d. attempts_of d (rn_ID run)))) (\<lambda>attempts. ret (command, attempts)))"

section \<open>Closing the last attempt\<close>

definition cancel_attempt :: "string \<Rightarrow> gotime \<Rightarrow> Attempt \<Rightarrow> Attempt" where
  "cancel_attempt errorCode now a = a\<lparr>at_State := AttemptStateCanceled, at_DispatchState := DispatchStateNotDispatched,
     at_UsageStatus := UsageStatusUnavailable, at_UsageJSON := unavailable_usage_json, at_ResultCandidateJSON := None,
     at_ProviderRequestID := [], at_ResponseSHA256 := [], at_ErrorCode := errorCode, at_FinishedAt := Some now,
     at_UpdatedAt := now\<rparr>"

definition lose_attempt :: "gotime \<Rightarrow> Attempt \<Rightarrow> Attempt" where
  "lose_attempt now a = a\<lparr>at_State := AttemptStateOutcomeUnknown, at_DispatchState := DispatchStateUnknown,
     at_UsageStatus := UsageStatusUnavailable, at_UsageJSON := unavailable_usage_json, at_ResultCandidateJSON := None,
     at_ResponseSHA256 := [], at_ErrorCode := ''ai.provider_outcome_unknown'', at_FinishedAt := Some now,
     at_UpdatedAt := now\<rparr>"

definition closing_updates :: "Command \<Rightarrow> Attempt \<Rightarrow> gotime \<Rightarrow> (Attempt \<Rightarrow> Attempt) option" where
  "closing_updates command latest now =
     (let preDispatchFailure = marked command ''ai.provider_pre_dispatch_failed'' TriggerPreDispatchFailed
      in if (cm_CancelRequestedAt command \<noteq> None \<or> preDispatchFailure) \<and> at_State latest = AttemptStatePrepared \<and>
            trim_space (at_DispatchState latest) = DispatchStateNotDispatched
         then Some (cancel_attempt (if preDispatchFailure then ''ai.provider_pre_dispatch_failed'' else ''ai.user_stopped'') now)
         else if cm_State command = StateOutcomeUnknown \<and> at_State latest = AttemptStateDispatched
         then Some (lose_attempt now)
         else None)"

definition normalizeChatAttemptsForFinalization ::
    "ai_env \<Rightarrow> Command \<Rightarrow> Attempt list \<Rightarrow> gotime \<Rightarrow> ('z, Attempt list) ai_act" where
  "normalizeChatAttemptsForFinalization ae command attempts now =
     (if attempts = [] then ret attempts
      else case closing_updates command (last attempts) now of
          None \<Rightarrow> ret attempts
        | Some g \<Rightarrow>
            bind (ai_update_one ae ai_provider_attempts ai_provider_attempts_update ErrAttemptTerminalConflict
              (\<lambda>a. at_ID a = at_ID (last attempts) \<and> at_State a = at_State (last attempts)) g) (\<lambda>_.
            bind (ai_first ae ai_provider_attempts (\<lambda>a. at_ID a = at_ID (last attempts))) (\<lambda>latest.
            ret (butlast attempts @ [latest]))))"

section \<open>The money\<close>

definition applyChatMoneyDecision :: "ai_env \<Rightarrow> FinalizationFacts \<Rightarrow> SettlementDecision \<Rightarrow> ('z, unit) ai_act" where
  "applyChatMoneyDecision ae facts decision =
     (if sd_MoneyAction decision = SettlementMoneyCapture then
        if fh_ID (ff_Hold facts) \<le> 0 then throw (PlainError ''AI capture decision has no authoritative Hold'')
        else bind (map_error AiWallet (CaptureHoldInTx True (ae_db ae) open_tx
            \<lparr>cap_UserID = rs_UserID (ff_Run facts), cap_RunID = rs_RunID (ff_Run facts),
             cap_ActualUnits = sd_ActualUnits decision, cap_SourceSummary = sd_LedgerSummary decision\<rparr>)) (\<lambda>(wallet, ledger).
          if sd_ActualUnits decision = 0 \<and> ledger \<noteq> None \<or> 0 < sd_ActualUnits decision \<and> ledger = None
          then throw (AiWallet ErrHoldIntegrity) else ret ())
      else if sd_MoneyAction decision = SettlementMoneyRelease then
        if fh_ID (ff_Hold facts) = 0 then
          if ff_Trigger facts \<noteq> TriggerInitialInsufficient \<and> ff_Trigger facts \<noteq> TriggerUserStopBeforeDispatch \<and>
             ff_Trigger facts \<noteq> TriggerPreDispatchFailed
          then throw (PlainError ''AI release decision has no authoritative Hold'')
          else ret ()
        else bind (map_error AiWallet (ReleaseHoldInTx True (ae_db ae) open_tx
            (rs_UserID (ff_Run facts)) (rs_RunID (ff_Run facts)))) (\<lambda>_. ret ())
      else throw (PlainError ''AI settlement money action is invalid''))"

definition settled_item :: "int \<Rightarrow> gotime \<Rightarrow> UsageChargeItem \<Rightarrow> int \<Rightarrow> UsageChargeItem" where
  "settled_item chargeID now item i = item\<lparr>ci_ID := i, ci_ChargeID := chargeID, ci_CreatedAt := now\<rparr>"

fun insert_items :: "ai_env \<Rightarrow> int \<Rightarrow> gotime \<Rightarrow> UsageChargeItem list \<Rightarrow> ('z, unit) ai_act" where
  "insert_items ae chargeID now [] = ret ()"
| "insert_items ae chargeID now (item # items) =
     bind (ai_insert ae ai_usage_charge_items ai_usage_charge_items_update (settled_item chargeID now item)) (\<lambda>_.
     insert_items ae chargeID now items)"

definition insertSettledUsageItems :: "ai_env \<Rightarrow> int \<Rightarrow> SettlementDecision \<Rightarrow> gotime \<Rightarrow> ('z, unit) ai_act" where
  "insertSettledUsageItems ae chargeID decision now =
     (if sd_ChargeStatus decision \<noteq> ChargeStatusSettled then ret ()
      else insert_items ae chargeID now (sd_Items decision))"

section \<open>The command\<close>

definition chatFinalizationFailure :: "FinalizationFacts \<Rightarrow> SettlementDecision \<Rightarrow> string \<times> string" where
  "chatFinalizationFailure facts decision =
     (if ff_Trigger facts = TriggerInitialInsufficient \<or> ff_Trigger facts = TriggerContinuationTopUpInsufficient
      then (ErrCodeInsufficientBalance, (encode_runes [20313, 39069, 19981, 36275, 65292, 35831, 20805, 20540, 21518, 37325, 35797]))
      else if sd_BillingReason decision = BillingReasonUnbilledOverHold
      then (''ai.billing.over_hold'', (encode_runes [65, 73, 29992, 37327, 36229, 36807, 20923, 32467, 19978, 38480, 65292, 26412, 27425, 26410, 25187, 36153]))
      else if sd_BillingReason decision = BillingReasonUnbilledUsageIncomplete
      then (''ai.billing.usage_incomplete'', (encode_runes [65, 73, 29992, 37327, 19981, 23436, 25972, 65292, 26412, 27425, 26410, 25187, 36153]))
      else if ff_Trigger facts = TriggerOutcomeUnknown
      then (''ai.provider_outcome_unknown'', (encode_runes [19978, 28216, 32467, 26524, 26080, 27861, 30830, 35748, 65292, 26412, 27425, 26410, 25187, 36153]))
      else (''ai.provider_failed'', (encode_runes [65, 73, 29983, 25104, 22833, 36133, 65292, 26412, 27425, 26410, 25187, 36153])))"

definition paidCommandInputFromDecision ::
    "ai_env \<Rightarrow> Command \<Rightarrow> FinalizationFacts \<Rightarrow> SettlementDecision \<Rightarrow> gotime \<Rightarrow> ai_error + PaidCommandFinalizationInput" where
  "paidCommandInputFromDecision ae command facts decision now =
     (let input = \<lparr>pi_CommandID = cm_ID command, pi_UserID = cm_UserID command, pi_RequestID = cm_RequestID command,
            pi_State = [], pi_Content = [], pi_ErrorCode = [], pi_ErrorMessage = [], pi_Now = now\<rparr>;
          failed = input\<lparr>pi_ErrorCode := fst (chatFinalizationFailure facts decision),
            pi_ErrorMessage := snd (chatFinalizationFailure facts decision)\<rparr>
      in if sd_RunStatus decision = AIRunStatusSuccess then
           if sd_CandidateAction decision \<noteq> SettlementCandidatePublish
           then Inl (PlainError ''successful AI settlement did not publish its candidate'')
           else (case FinalChatAnswerFromCandidate ae (cd_JSON (sd_Candidate decision)) of
               Inl err \<Rightarrow> Inl err
             | Inr text \<Rightarrow> Inr (input\<lparr>pi_State := StateSucceeded, pi_Content := text\<rparr>))
         else if sd_RunStatus decision = AIRunStatusCanceled then Inr (input\<lparr>pi_State := StateCanceled\<rparr>)
         else if sd_RunStatus decision = AIRunStatusOutcomeUnknown then Inr (failed\<lparr>pi_State := StateOutcomeUnknown\<rparr>)
         else if sd_RunStatus decision = AIRunStatusFailed then Inr (failed\<lparr>pi_State := StateFailed\<rparr>)
         else Inl (PlainError ''AI settlement run status is invalid''))"

section \<open>Run and charge\<close>

text \<open>The items of an attempt added to the prompt and completion totals\<close>

fun add_tokens :: "int \<Rightarrow> int \<Rightarrow> ProviderUsageItem list \<Rightarrow> ai_error + (int \<times> int)" where
  "add_tokens prompt completion [] = Inr (prompt, completion)"
| "add_tokens prompt completion (item # items) =
     (let category = trim_space (pu_Category item)
      in if List.member [UsageCategoryInput, UsageCategoryCacheRead, UsageCategoryCacheWrite] category then
           if sub64 max_int64 prompt < pu_Quantity item then Inl (PlainError ''AI prompt token total overflows'')
           else add_tokens (add64 prompt (pu_Quantity item)) completion items
         else if category = UsageCategoryOutput then
           if sub64 max_int64 completion < pu_Quantity item then Inl (PlainError ''AI completion token total overflows'')
           else add_tokens prompt (add64 completion (pu_Quantity item)) items
         else add_tokens prompt completion items)"

definition counted_attempt :: "FinalizationFacts \<Rightarrow> FinalizationAttempt \<Rightarrow> bool" where
  "counted_attempt facts a \<longleftrightarrow>
     (fa_State a = AttemptStateSucceeded \<or> fa_ID a = ff_StoppedAttemptID facts) \<and> Complete (fa_Usage a)"

definition finalizationTokenTotals :: "FinalizationFacts \<Rightarrow> ai_error + (int \<times> int \<times> int)" where
  "finalizationTokenTotals facts =
     (case add_tokens 0 0 (concat (map (us_Items \<circ> fa_Usage) (filter (counted_attempt facts) (ff_Attempts facts)))) of
        Inl err \<Rightarrow> Inl err
      | Inr (prompt, completion) \<Rightarrow>
          if prompt < 0 \<or> completion < 0 \<or> sub64 max_int64 completion < prompt
          then Inl (PlainError ''AI token totals exceed Run storage'')
          else Inr (prompt, completion, add64 prompt completion))"

definition finalizationDurationMS :: "gotime option \<Rightarrow> gotime \<Rightarrow> int" where
  "finalizationDurationMS startedAt finishedAt =
     (case startedAt of
        None \<Rightarrow> 0
      | Some started \<Rightarrow>
          if time_is_zero started \<or> finishedAt < started then 0
          else min max_int64 (finishedAt - started) div 1000000)"

definition truncateFinalizationMessage :: "string \<Rightarrow> string" where
  "truncateFinalizationMessage text = trimMax text 1024"

definition run_error_message :: "FinalizationFacts \<Rightarrow> SettlementDecision \<Rightarrow> string" where
  "run_error_message facts decision =
     (let message = (if sd_RunStatus decision = AIRunStatusCanceled then (encode_runes [29992, 25143, 20572, 27490, 29983, 25104])
            else snd (chatFinalizationFailure facts decision))
      in truncateFinalizationMessage
           (if sd_BillingAnomaly decision \<noteq> [] then trim_space (message @ '': '' @ sd_BillingAnomaly decision) else message))"

definition finish_run ::
    "FinalizationFacts \<Rightarrow> SettlementDecision \<Rightarrow> int \<times> int \<times> int \<Rightarrow> int \<Rightarrow> int \<Rightarrow> gotime \<Rightarrow> Run \<Rightarrow> Run" where
  "finish_run facts decision tokens duration messageID now r =
     (let (prompt, completion, total) = tokens
      in r\<lparr>rn_Status := sd_RunStatus decision, rn_BillingStatus := sd_BillingStatus decision,
           rn_BillingReason := sd_BillingReason decision, rn_PromptTokens := prompt, rn_CompletionTokens := completion,
           rn_TotalTokens := total, rn_FinishedAt := Some now, rn_SettledAt := Some now, rn_DurationMS := Some duration,
           rn_UpdatedAt := now, rn_AssistantMessageID := (if 0 < messageID then Some messageID else None),
           rn_ErrorMessage := (if sd_RunStatus decision = AIRunStatusSuccess then [] else run_error_message facts decision)\<rparr>)"

definition finish_charge :: "SettlementDecision \<Rightarrow> gotime \<Rightarrow> UsageCharge \<Rightarrow> UsageCharge" where
  "finish_charge decision now c =
     c\<lparr>ug_ActualUnits := (if sd_ChargeStatus decision = ChargeStatusSettled then sd_ActualUnits decision else 0),
       ug_Status := sd_ChargeStatus decision, ug_FinalizedAt := Some now, ug_UpdatedAt := now\<rparr>"

definition open_run :: "Run \<Rightarrow> Run \<Rightarrow> bool" where
  "open_run run r \<longleftrightarrow> rn_ID r = rn_ID run \<and> rn_Status r = AIRunStatusRunning \<and>
     (rn_BillingStatus r = BillingStatusPending \<or> rn_BillingStatus r = BillingStatusHeld)"

definition open_charge :: "UsageCharge \<Rightarrow> Run \<Rightarrow> UsageCharge \<Rightarrow> bool" where
  "open_charge charge run c \<longleftrightarrow> ug_ID c = ug_ID charge \<and> ug_RunID c = rn_ID run \<and> ug_Status c = ChargeStatusOpen \<and>
     ug_FinalizedAt c = None"

definition finalizeChatRunAndCharge ::
    "ai_env \<Rightarrow> Run \<Rightarrow> UsageCharge \<Rightarrow> FinalizationFacts \<Rightarrow> SettlementDecision \<Rightarrow> PaidCommandFinalizationResult \<Rightarrow> gotime
       \<Rightarrow> ('z, unit) ai_act" where
  "finalizeChatRunAndCharge ae run charge facts decision result now =
     bind (pure_result (finalizationTokenTotals facts)) (\<lambda>tokens.
     if sd_RunStatus decision = AIRunStatusSuccess \<and> pr_AssistantMessageID result \<le> 0
     then throw (PlainError ''successful AI settlement has no assistant message'')
     else if sd_RunStatus decision = AIRunStatusCanceled \<and> pr_AssistantMessageID result \<le> 0
     then throw (PlainError ''canceled AI settlement has no assistant message'')
     else bind (ai_update_one ae ai_runs ai_runs_update (PlainError ''AI Run terminal compare-and-set was rejected'') (open_run run)
         (finish_run facts decision tokens (finalizationDurationMS (rn_StartedAt run) now) (pr_AssistantMessageID result) now)) (\<lambda>_.
     bind (ai_update_one ae ai_usage_charges ai_usage_charges_update
         (PlainError ''AI usage charge terminal compare-and-set was rejected'') (open_charge charge run) (finish_charge decision now)) (\<lambda>_.
     ProjectTerminalDashboardFacts ae (rn_ID run))))"

definition clearChatResultCandidates :: "ai_env \<Rightarrow> int \<Rightarrow> ('z, unit) ai_act" where
  "clearChatResultCandidates ae runID =
     bind (map_error AiDb (update_where (ae_db ae) ai_provider_attempts ai_provider_attempts_update
       (\<lambda>a. at_RunID a = runID \<and> at_ResultCandidateJSON a \<noteq> None)
       (\<lambda>t a. a\<lparr>at_ResultCandidateJSON := None, at_UpdatedAt := t\<rparr>))) (\<lambda>_. ret ())"

section \<open>Events of the run\<close>

definition AIRunEventStart :: string where "AIRunEventStart = ''start''"
definition AIRunEventTimeout :: string where "AIRunEventTimeout = ''timeout''"
definition AIRunEventRetryScheduled :: string where "AIRunEventRetryScheduled = ''retry_scheduled''"
definition AIRunEventFileMaterialized :: string where "AIRunEventFileMaterialized = ''file_materialized_v1''"
definition AIRunEventCompleted :: string where "AIRunEventCompleted = ''completed''"
definition AIRunEventFailed :: string where "AIRunEventFailed = ''failed''"
definition AIRunEventCanceled :: string where "AIRunEventCanceled = ''canceled''"
definition AIRunEventUsageRecorded :: string where "AIRunEventUsageRecorded = ''usage_recorded''"
definition AIRunEventOutcomeUnknown :: string where "AIRunEventOutcomeUnknown = ''outcome_unknown''"
definition AIRunEventSettled :: string where "AIRunEventSettled = ''settled''"
definition AIRunEventReleased :: string where "AIRunEventReleased = ''released''"
definition AIRunEventUnbilled :: string where "AIRunEventUnbilled = ''unbilled''"

text \<open>The labels of the events above; the map gives the empty string for a key it does not have\<close>

definition AIRunEventLabels :: "string \<Rightarrow> string" where
  "AIRunEventLabels eventType =
     (case map_of [(AIRunEventStart, (encode_runes [24320, 22987, 29983, 25104])), (AIRunEventTimeout, (encode_runes [36816, 34892, 36229, 26102])), (AIRunEventRetryScheduled, (encode_runes [24050, 23433, 25490, 37325, 35797])),
        (AIRunEventFileMaterialized, (encode_runes [25991, 20214, 35831, 27714, 24050, 29289, 21270])), (AIRunEventCompleted, (encode_runes [29983, 25104, 23436, 25104])), (AIRunEventFailed, (encode_runes [29983, 25104, 22833, 36133])), (AIRunEventCanceled, (encode_runes [29992, 25143, 20572, 27490])),
        (AIRunEventUsageRecorded, (encode_runes [29992, 37327, 24050, 35760, 24405])), (AIRunEventOutcomeUnknown, (encode_runes [32467, 26524, 26410, 30693])), (AIRunEventSettled, (encode_runes [24050, 32467, 31639])),
        (AIRunEventReleased, (encode_runes [24050, 37322, 25918])), (AIRunEventUnbilled, (encode_runes [26410, 35745, 36153]))] eventType of
        None \<Rightarrow> [] | Some label \<Rightarrow> label)"

definition hasCompleteFinalizationUsage :: "FinalizationFacts \<Rightarrow> bool" where
  "hasCompleteFinalizationUsage facts \<longleftrightarrow> list_ex (Complete \<circ> fa_Usage) (ff_Attempts facts)"

definition business_event :: "SettlementDecision \<Rightarrow> string" where
  "business_event decision =
     (if sd_RunStatus decision = AIRunStatusSuccess then AIRunEventCompleted
      else if sd_RunStatus decision = AIRunStatusCanceled then AIRunEventCanceled
      else if sd_RunStatus decision = AIRunStatusOutcomeUnknown then AIRunEventOutcomeUnknown
      else AIRunEventFailed)"

definition billing_event :: "SettlementDecision \<Rightarrow> string" where
  "billing_event decision =
     (if sd_BillingStatus decision = BillingStatusSettled then AIRunEventSettled
      else if sd_BillingStatus decision = BillingStatusUnbilled then AIRunEventUnbilled
      else AIRunEventReleased)"

definition finalization_events :: "FinalizationFacts \<Rightarrow> SettlementDecision \<Rightarrow> (string \<times> string) list" where
  "finalization_events facts decision =
     (if hasCompleteFinalizationUsage facts then [(AIRunEventUsageRecorded, AIRunEventLabels AIRunEventUsageRecorded)] else []) @
     [(business_event decision, AIRunEventLabels (business_event decision)),
      (billing_event decision,
       (if sd_BillingAnomaly decision \<noteq> []
        then truncateFinalizationMessage (AIRunEventLabels (billing_event decision) @ '': '' @ sd_BillingAnomaly decision)
        else AIRunEventLabels (billing_event decision)))]"

fun insert_events :: "ai_env \<Rightarrow> int \<Rightarrow> int \<Rightarrow> gotime \<Rightarrow> (string \<times> string) list \<Rightarrow> ('z, unit) ai_act" where
  "insert_events ae runID maxSeq now [] = ret ()"
| "insert_events ae runID maxSeq now (event # events) =
     bind (ai_insert ae ai_run_events ai_run_events_update (\<lambda>i. \<lparr>re_ID = i, re_RunID = runID, re_Seq = maxSeq + 1,
       re_EventType = fst event, re_Message = snd event, re_CreatedAt = now\<rparr>)) (\<lambda>_.
     insert_events ae runID (maxSeq + 1) now events)"

definition max_seq :: "int \<Rightarrow> 'z ai_tables_scheme \<Rightarrow> int" where
  "max_seq runID d = foldr max (map re_Seq (filter (\<lambda>e. re_RunID e = runID) (ai_run_events d))) 0"

definition appendChatRunFinalizationEvents ::
    "ai_env \<Rightarrow> int \<Rightarrow> FinalizationFacts \<Rightarrow> SettlementDecision \<Rightarrow> gotime \<Rightarrow> ('z, unit) ai_act" where
  "appendChatRunFinalizationEvents ae runID facts decision now =
     bind (map_error AiDb (query (ae_db ae) (max_seq runID))) (\<lambda>maxSeq.
     insert_events ae runID maxSeq now (finalization_events facts decision))"

section \<open>The realtime event\<close>

definition realtime_payload ::
    "Command \<Rightarrow> PaidCommandFinalizationResult \<Rightarrow> PaidCommandFinalizationInput \<Rightarrow> ai_error + (string \<times> rt_payload)" where
  "realtime_payload command result input =
     (let insufficient = (pi_ErrorCode input = ErrCodeInsufficientBalance)
      in if pi_State input = StateSucceeded then
           if pr_AssistantMessageID result \<le> 0
           then Inl (PlainError ''completed realtime event has no assistant message'')
           else Inr (TypeAIResponseCompletedV1, AIResponseCompletedPayload (cm_ConversationID command) (cm_RequestID command)
             (pr_AssistantMessageID result))
         else if pi_State input = StateCanceled then
           if pr_AssistantMessageID result \<le> 0
           then Inl (PlainError ''canceled realtime event has no assistant message'')
           else Inr (TypeAIResponseCanceledV2, AIResponseCanceledPayload (cm_ConversationID command) (cm_RequestID command)
             (pr_AssistantMessageID result))
         else if pi_State input = StateFailed \<or> pi_State input = StateOutcomeUnknown then
           Inr (TypeAIResponseFailedV1, AIResponseFailedPayload (cm_ConversationID command) (cm_RequestID command)
             (pi_ErrorMessage input) (pi_ErrorCode input) (if insufficient then Some ''/profile/wallet'' else None)
             (if insufficient then Some ''/payment/recharge'' else None))
         else Inl (PlainError ''AI command realtime terminal state is invalid''))"

definition appendChatRealtimeFinalization ::
    "ai_env \<Rightarrow> Command \<Rightarrow> PaidCommandFinalizationResult \<Rightarrow> PaidCommandFinalizationInput \<Rightarrow> gotime \<Rightarrow> ('z, Event option) ai_act" where
  "appendChatRealtimeFinalization ae command result input now =
     (if pr_ConversationDeleted result then ret None
      else bind (pure_result (realtime_payload command result input)) (\<lambda>(eventType, payload).
        bind (AppendTx ae \<lparr>ap_Type = eventType, ap_RequestID = cm_RequestID command, ap_UserID = cm_UserID command,
            ap_Payload = payload, ap_OccurredAt = now\<rparr>) (\<lambda>e. ret (Some e))))"

section \<open>Cleaning up (delivery.go)\<close>

definition first_chunks :: "int \<Rightarrow> nat \<Rightarrow> DeliveryChunk list \<Rightarrow> DeliveryChunk list" where
  "first_chunks commandID n chunks = take n (sort_key ck_DeliverySeq (filter (\<lambda>c. ck_CommandID c = commandID) chunks))"

definition DeleteDeliveryChunks :: "ai_env \<Rightarrow> int \<Rightarrow> int \<Rightarrow> ('z, int) ai_act" where
  "DeleteDeliveryChunks ae commandID limit =
     (if commandID = 0 then throw ErrCreateInputInvalid
      else let n = nat (if limit \<le> 0 \<or> 256 < limit then 256 else limit)
        in bind (map_error AiDb (exec (ae_db ae))) (\<lambda>_ s.
          let doomed = first_chunks commandID n (ai_reply_delivery_chunks (tables s))
          in (Inr (int (length doomed)),
              s\<lparr>tables := (tables s)\<lparr>ai_reply_delivery_chunks :=
                filter (\<lambda>c. \<not> List.member doomed c) (ai_reply_delivery_chunks (tables s))\<rparr>\<rparr>)))"

fun cleanup_batches :: "ai_env \<Rightarrow> int \<Rightarrow> nat \<Rightarrow> ('z, unit) ai_act" where
  "cleanup_batches ae commandID 0 = ret ()"
| "cleanup_batches ae commandID (Suc n) =
     bind (DeleteDeliveryChunks ae commandID 256) (\<lambda>deleted.
     if deleted < 256 then ret () else cleanup_batches ae commandID n)"

definition CleanupDeliveryChunks :: "ai_env \<Rightarrow> int \<Rightarrow> int \<Rightarrow> ('z, unit) ai_act" where
  "CleanupDeliveryChunks ae commandID maxBatches =
     (if commandID = 0 \<or> maxBatches \<le> 0 then ret () else cleanup_batches ae commandID (nat maxBatches))"

section \<open>The settlement\<close>

record FinalizationApplyResult =
  fr_Applied :: bool
  fr_Replayed :: bool

text \<open>What a settlement does with a run that is still open\<close>

definition settle_open ::
    "ai_env \<Rightarrow> (FinalizationFacts \<Rightarrow> ai_error + SettlementDecision) \<Rightarrow> gotime \<Rightarrow> Run \<Rightarrow> UsageCharge \<Rightarrow> Hold option \<Rightarrow> Command
       \<Rightarrow> Attempt list \<Rightarrow> ('z, unit) ai_act" where
  "settle_open ae deciding now run charge hold command locked =
     bind (normalizeChatAttemptsForFinalization ae command locked now) (\<lambda>attempts.
     bind (pure_result (buildChatFinalizationFacts ae run charge hold command attempts)) (\<lambda>facts.
     bind (pure_result (deciding facts)) (\<lambda>decision.
     bind (applyChatMoneyDecision ae facts decision) (\<lambda>_.
     bind (insertSettledUsageItems ae (ug_ID charge) decision now) (\<lambda>_.
     bind (pure_result (paidCommandInputFromDecision ae command facts decision now)) (\<lambda>input.
     bind (FinalizePaidCommandInTransaction ae input) (\<lambda>result.
     bind (finalizeChatRunAndCharge ae run charge facts decision result now) (\<lambda>_.
     bind (clearChatResultCandidates ae (rn_ID run)) (\<lambda>_.
     bind (appendChatRunFinalizationEvents ae (rn_ID run) facts decision now) (\<lambda>_.
     bind (appendChatRealtimeFinalization ae command result input now) (\<lambda>_. ret ())))))))))))"

text \<open>What follows the locking: the id of the command and whether the settlement had been made before\<close>

definition settle_rows ::
    "ai_env \<Rightarrow> (FinalizationFacts \<Rightarrow> ai_error + SettlementDecision) \<Rightarrow> gotime \<Rightarrow> Run \<Rightarrow> UsageCharge \<Rightarrow> Wallet option \<Rightarrow> Hold option
       \<Rightarrow> Command \<Rightarrow> Attempt list \<Rightarrow> ('z, int \<times> bool) ai_act" where
  "settle_rows ae deciding now run charge wallet hold command attempts =
     (if terminalChatBilling run charge then
        bind (pure_result (validateChatFinalizationReplay run charge wallet hold command attempts)) (\<lambda>_.
        bind (ProjectTerminalDashboardFacts ae (rn_ID run)) (\<lambda>_. ret (cm_ID command, True)))
      else if rn_Status run \<noteq> AIRunStatusRunning \<or> ug_Status charge \<noteq> ChargeStatusOpen \<or> ug_FinalizedAt charge \<noteq> None
      then throw (PlainError ''AI chat settlement is neither open nor a valid terminal replay'')
      else bind (settle_open ae deciding now run charge hold command attempts) (\<lambda>_. ret (cm_ID command, False)))"

definition settle_locked ::
    "ai_env \<Rightarrow> int \<Rightarrow> (FinalizationFacts \<Rightarrow> ai_error + SettlementDecision) \<Rightarrow> gotime \<Rightarrow> ('z, int \<times> bool) ai_act" where
  "settle_locked ae runID deciding now =
     bind (lockChatSettlementMoneyGraph ae runID) (\<lambda>(run, charge, wallet, hold).
     bind (lockChatSettlementBusinessGraph ae run) (\<lambda>(command, attempts).
     settle_rows ae deciding now run charge wallet hold command attempts))"

text \<open>The cleanup after the commit, whose errors are logged only\<close>

definition tidy_chunks :: "ai_env \<Rightarrow> int \<Rightarrow> ('z, unit) ai_act" where
  "tidy_chunks ae commandID =
     (if 0 < commandID then either (CleanupDeliveryChunks ae commandID 4) (\<lambda>_. ret ()) ret else ret ())"

definition WithLockedSettlement ::
    "ai_env \<Rightarrow> int \<Rightarrow> (FinalizationFacts \<Rightarrow> ai_error + SettlementDecision) \<Rightarrow> ('z, FinalizationApplyResult) ai_act" where
  "WithLockedSettlement ae runID deciding =
     (if runID \<le> 0 then throw ErrNotConfigured
      else bind (read_clock (ae_db ae)) (\<lambda>_.
        bind (read_clock (ae_db ae)) (\<lambda>now.
        bind (transaction (ae_db ae) AiDb (settle_locked ae runID deciding now)) (\<lambda>(commandID, replayed).
        bind (tidy_chunks ae commandID) (\<lambda>_.
        ret \<lparr>fr_Applied = \<not> replayed, fr_Replayed = replayed\<rparr>)))))"

text \<open>\<open>RunFinalizer.Finalize\<close> (aigateway/finalizer.go) on this store\<close>

definition Finalize :: "ai_env \<Rightarrow> pricer \<Rightarrow> int \<Rightarrow> ('z, unit) ai_act" where
  "Finalize ae price runID =
     (if runID \<le> 0 then throw ErrNotConfigured
      else bind (WithLockedSettlement ae runID (finalize_decision (ae_sha256 ae) price runID)) (\<lambda>result.
        if fr_Applied result = fr_Replayed result
        then throw (PlainError ''finalization store returned neither a commit nor an idempotent replay'')
        else ret ()))"

end
