(* ===== verification/AiFinalizerProps.thy ===== *)
theory AiFinalizerProps
  imports AiFinalizer
begin

text \<open>
  What a settlement decision guarantees: it takes the billing status and the hold along the transition
  tables, publishes an answer only when it is paid, captures never more than is held, and charges items
  of attempts of the run that add up to the charge.
\<close>

section \<open>The items of a quote\<close>

lemma quote_item_cases:
  "validate_quote_items c allowed seen acc (item # items) = Inr (out, tot) \<longleftrightarrow>
     (ci_ChargeID item = 0 \<or> ci_ChargeID item = c) \<and> ci_AttemptID item \<in> set allowed \<and> charge_item_valid item \<and>
     item_identity item \<notin> set seen \<and> ci_AmountUnits item \<le> sub64 max_int64 acc \<and>
     (\<exists>rest. validate_quote_items c allowed (item_identity item # seen) (add64 acc (ci_AmountUnits item)) items = Inr (rest, tot) \<and>
        out = item\<lparr>ci_ChargeID := c\<rparr> # rest)"
  by (auto split: sum.splits)

declare validate_quote_items.simps(2) [simp del]

lemma charge_item_amount: "charge_item_valid item \<Longrightarrow> 0 \<le> ci_AmountUnits item"
  by (simp add: charge_item_valid_def)

lemma validate_quote_items_Inr:
  assumes "validate_quote_items c allowed seen acc items = Inr (out, tot)" and "0 \<le> acc" and "acc \<le> max_int64"
  shows "out = map (ci_ChargeID_update (\<lambda>_. c)) items \<and> tot = acc + sum_list (map ci_AmountUnits items) \<and>
    tot \<le> max_int64 \<and> (\<forall>item \<in> set items. ci_AttemptID item \<in> set allowed \<and> charge_item_valid item) \<and>
    distinct (map item_identity items) \<and> set (map item_identity items) \<inter> set seen = {}"
  using assms
proof (induction items arbitrary: seen acc out)
  case (Cons item items)
  from Cons.prems(1) obtain rest where parts: "ci_AttemptID item \<in> set allowed" "charge_item_valid item"
      "item_identity item \<notin> set seen" "ci_AmountUnits item \<le> sub64 max_int64 acc"
    and rest: "validate_quote_items c allowed (item_identity item # seen) (add64 acc (ci_AmountUnits item)) items = Inr (rest, tot)"
    and out: "out = item\<lparr>ci_ChargeID := c\<rparr> # rest"
    unfolding quote_item_cases by blast
  have acc: "add64 acc (ci_AmountUnits item) = acc + ci_AmountUnits item" "0 \<le> acc + ci_AmountUnits item"
    "acc + ci_AmountUnits item \<le> max_int64"
    using parts(4) charge_item_amount [OF parts(2)] Cons.prems(2,3) by (simp_all add: add64_id)
  from Cons.IH [OF rest [unfolded acc(1)] acc(2,3)] parts out show ?case by (auto simp: acc)
qed simp

lemma validateSettlementQuote_Inr:
  assumes "validateSettlementQuote facts billable quote = Inr items"
  shows "items = map (ci_ChargeID_update (\<lambda>_. fc_ID (ff_Charge facts))) (sq_Items quote)"
    "0 \<le> sq_ActualUnits quote" "sum_list (map ci_AmountUnits (sq_Items quote)) = sq_ActualUnits quote"
    "\<forall>item \<in> set (sq_Items quote). ci_AttemptID item \<in> ba_ID ` set billable \<and> charge_item_valid item"
    "distinct (map item_identity (sq_Items quote))"
  using assms validate_quote_items_Inr [of "fc_ID (ff_Charge facts)" "map ba_ID billable" "[]" 0 "sq_Items quote"]
  by (auto simp: validateSettlementQuote_def split: if_splits sum.splits)

section \<open>The shapes of a decision\<close>

lemma priceOrUnbilled_cases [consumes 1, case_names unbilled over capture]:
  assumes "priceOrUnbilled price facts runStatus candidate = Inr d"
  obtains "d = unbilledDecision facts (unbilledRunStatus runStatus) SettlementCandidateDiscard"
  | quote items where "price \<lparr>sp_Run = ff_Run facts, sp_Attempts = billableAttempts facts\<rparr> = Inr quote"
      "validateSettlementQuote facts (billableAttempts facts) quote = Inr items"
      "fh_HeldUnits (ff_Hold facts) < sq_ActualUnits quote" "d = overHoldDecision facts runStatus quote items"
  | quote items where "price \<lparr>sp_Run = ff_Run facts, sp_Attempts = billableAttempts facts\<rparr> = Inr quote"
      "validateSettlementQuote facts (billableAttempts facts) quote = Inr items"
      "sq_ActualUnits quote \<le> fh_HeldUnits (ff_Hold facts)" "d = captureDecision facts runStatus candidate quote items"
      "billableAttempts facts \<noteq> []"
      "candidate = SettlementCandidatePublish \<Longrightarrow> candidateBelongsToBillableAttempt (ff_Candidate facts) (billableAttempts facts)"
  using assms unfolding priceOrUnbilled_def Let_def
  by (auto split: if_splits sum.splits)

text \<open>A release, or a priced outcome that publishes exactly when it succeeds\<close>

lemma decide_cases [consumes 1, case_names release unbilled success partial]:
  assumes "decide price facts = Inr d"
  obtains runStatus reason where "d = releaseDecision facts runStatus BillingStatusReleased reason"
      "runStatus \<in> {''canceled'', ''failed'', ''outcome_unknown''}"
  | runStatus where "d = unbilledDecision facts runStatus SettlementCandidateDiscard" "runStatus \<in> {''canceled'', ''failed''}"
      "ff_Trigger facts \<in> {TriggerUserStop, TriggerContinuationTopUpInsufficient}"
  | "priceOrUnbilled price facts ''success'' SettlementCandidatePublish = Inr d" "ff_Trigger facts = TriggerSuccess"
  | runStatus where "priceOrUnbilled price facts runStatus SettlementCandidateDiscard = Inr d" "runStatus \<in> {''canceled'', ''failed''}"
      "ff_Trigger facts \<in> {TriggerUserStop, TriggerContinuationTopUpInsufficient}"
proof -
  have *: "(\<exists>runStatus reason. d = releaseDecision facts runStatus BillingStatusReleased reason \<and>
        runStatus \<in> {''canceled'', ''failed'', ''outcome_unknown''}) \<or>
      (\<exists>runStatus. d = unbilledDecision facts runStatus SettlementCandidateDiscard \<and> runStatus \<in> {''canceled'', ''failed''} \<and>
        ff_Trigger facts \<in> {TriggerUserStop, TriggerContinuationTopUpInsufficient}) \<or>
      priceOrUnbilled price facts ''success'' SettlementCandidatePublish = Inr d \<and> ff_Trigger facts = TriggerSuccess \<or>
      (\<exists>runStatus. priceOrUnbilled price facts runStatus SettlementCandidateDiscard = Inr d \<and> runStatus \<in> {''canceled'', ''failed''} \<and>
        ff_Trigger facts \<in> {TriggerUserStop, TriggerContinuationTopUpInsufficient})"
    using assms unfolding decide_def Let_def by (simp split: if_splits) blast+
  with that show thesis by blast
qed

lemma decide_terminal:
  assumes "decide price facts = Inr d" and "a \<in> set (ff_Attempts facts)"
  shows "fa_State a \<noteq> AttemptStatePrepared \<and> fa_State a \<noteq> AttemptStateDispatched"
  using assms by (auto simp: decide_def Let_def hasIntermediateAttempt_def list_ex_iff split: if_splits)

lemma billable_of_run:
  "ba \<in> set (billableAttempts facts) \<Longrightarrow>
     \<exists>a \<in> set (ff_Attempts facts). ba = billable_attempt a \<and> fa_EvidenceKind a = AttemptEvidencePaid \<and> chargeable facts a"
  by (auto simp: billableAttempts_def)

lemma validate_attempts_Inr:
  "validate_attempts sha256 runID seen as = Inr u \<Longrightarrow> a \<in> set as \<Longrightarrow> 0 < fa_ID a \<and> fa_RunID a = runID \<and>
     validateFinalizationAttempt sha256 a = Inr ()"
  by (induction as arbitrary: seen) (auto split: if_splits sum.splits)

lemma facts_valid:
  assumes "validateFinalizationFacts sha256 runID facts = Inr u"
  shows "0 < fc_ID (ff_Charge facts)" "rs_RunID (ff_Run facts) = runID"
    "validate_attempts sha256 runID [] (ff_Attempts facts) = Inr ()"
    "fh_ID (ff_Hold facts) = 0 \<Longrightarrow> rs_BillingStatus (ff_Run facts) = BillingStatusPending \<and>
       ff_Trigger facts \<in> {TriggerInitialInsufficient, TriggerUserStopBeforeDispatch, TriggerPreDispatchFailed}"
    "fh_ID (ff_Hold facts) \<noteq> 0 \<Longrightarrow> rs_BillingStatus (ff_Run facts) = BillingStatusHeld \<and>
       fh_Status (ff_Hold facts) = HoldStatusActive \<and> fh_HeldUnits (ff_Hold facts) = fc_HeldUnits (ff_Charge facts) \<and>
       fh_RunID (ff_Hold facts) = runID \<and> fh_UserID (ff_Hold facts) = rs_UserID (ff_Run facts)"
  using assms
  by (auto simp: validateFinalizationFacts_def validateFinalizationAttempts_def terminalWithoutHold_def no_hold_def Let_def
      split: if_splits sum.splits)

lemma finalize_decision_Inr:
  "finalize_decision sha256 price runID facts = Inr d \<longleftrightarrow>
     validateFinalizationFacts sha256 runID facts = Inr () \<and> decide price facts = Inr d"
  by (auto simp: finalize_decision_def split: sum.splits)

lemmas decision_defs = releaseDecision_def unbilledDecision_def overHoldDecision_def captureDecision_def unbilledRunStatus_def

section \<open>A concrete run\<close>

definition demo_sha256 :: "string \<Rightarrow> string" where
  "demo_sha256 text = take 32 (text @ replicate 32 (CHR ''0''))"

definition demo_usage :: UsageSnapshot where
  "demo_usage = \<lparr>us_Status = UsageStatusReported, us_RawProviderJSON = ''{}'',
     us_Items = [\<lparr>pu_Category = ''input'', pu_Unit = ''token'', pu_TierKey = [], pu_Quantity = 100\<rparr>,
       \<lparr>pu_Category = ''output'', pu_Unit = ''token'', pu_TierKey = [], pu_Quantity = 40\<rparr>],
     us_ResponseSHA256 = demo_sha256 ''{}''\<rparr>"

definition demo_attempt :: FinalizationAttempt where
  "demo_attempt = \<lparr>fa_ID = 31, fa_RunID = 11, fa_AttemptNo = 1, fa_EvidenceKind = AttemptEvidencePaid,
     fa_State = AttemptStateSucceeded, fa_DispatchState = DispatchStateDispatched, fa_Usage = demo_usage,
     fa_ProviderRequestID = ''req-1'', fa_ResponseSHA256 = demo_sha256 ''body''\<rparr>"

definition demo_run :: RunSnapshot where
  "demo_run = \<lparr>rs_RunID = 11, rs_UserID = 7, rs_RequestID = ''r-1'', rs_RequestFingerprint = zero_digest,
     rs_PricingSnapshotJSON = ''{}'', rs_BillingStatus = BillingStatusHeld, rs_BillingReason = BillingReasonHeld,
     rs_AgentID = 5, rs_ModelID = ''m-1'', rs_ModelDisplayName = ''Model''\<rparr>"

definition demo_facts :: FinalizationFacts where
  "demo_facts = \<lparr>ff_Run = demo_run,
     ff_Charge = \<lparr>fc_ID = 21, fc_RunID = 11, fc_UserID = 7, fc_HeldUnits = 200, fc_HeldAuditMax = 200, fc_ActualUnits = 0,
       fc_Status = ChargeStatusOpen\<rparr>,
     ff_Hold = \<lparr>fh_ID = 3, fh_WalletID = 1, fh_RunID = 11, fh_UserID = 7, fh_HeldUnits = 200, fh_HeldAuditMax = 200,
       fh_CapturedUnits = 0, fh_Status = HoldStatusActive\<rparr>,
     ff_Attempts = [demo_attempt], ff_Trigger = TriggerSuccess, ff_StoppedAttemptID = 0, ff_CurrentAttemptID = 31,
     ff_Candidate = \<lparr>cd_AttemptID = 31, cd_JSON = ''{}''\<rparr>\<rparr>"

definition demo_item :: UsageChargeItem where
  "demo_item = \<lparr>ci_ID = 0, ci_ChargeID = 0, ci_AttemptID = 31, ci_Category = ''input'', ci_TierKey = [], ci_Quantity = 100,
     ci_Unit = ''token'', ci_UnitPriceUnits = 1, ci_UnitScale = 1, ci_AmountUnits = 150, ci_CreatedAt = 0\<rparr>"

definition demo_price :: pricer where
  "demo_price i = Inr \<lparr>sq_ActualUnits = 150, sq_Items = [demo_item]\<rparr>"

definition demo_decision :: SettlementDecision where
  "demo_decision = projr (finalize_decision demo_sha256 demo_price 11 demo_facts)"

lemma demo_finalize: "finalize_decision demo_sha256 demo_price 11 demo_facts = Inr demo_decision"
proof -
  have "\<not> isl (finalize_decision demo_sha256 demo_price 11 demo_facts)" by code_simp
  then show ?thesis by (simp add: demo_decision_def)
qed

lemma demo_decision_fields: "sd_MoneyAction demo_decision = SettlementMoneyCapture" "sd_ActualUnits demo_decision = 150"
  by code_simp+

section \<open>What a decision does\<close>

text \<open>C34. A decision is made only when no call of the run is open any more. It takes the billing status of the run and the
  status of its hold along their transition tables into a final status, with the charge in the same
  status; it captures exactly when the run is settled and releases otherwise, and it publishes an answer
  exactly when the run succeeded, which happens only with a capture.\<close>

theorem decision_ends_run:
  assumes "finalize_decision sha256 price runID facts = Inr d"
  shows "(\<forall>a \<in> set (ff_Attempts facts). fa_State a \<noteq> AttemptStatePrepared \<and> fa_State a \<noteq> AttemptStateDispatched) \<and>
    sd_BillingStatus d \<in> {BillingStatusSettled, BillingStatusReleased, BillingStatusUnbilled} \<and>
    CanTransitionBillingStatus (rs_BillingStatus (ff_Run facts)) (sd_BillingStatus d) \<and>
    sd_ChargeStatus d = sd_BillingStatus d \<and>
    (sd_HoldStatus d, sd_MoneyAction d) =
      (if sd_BillingStatus d = BillingStatusSettled then (HoldStatusCaptured, SettlementMoneyCapture)
       else (HoldStatusReleased, SettlementMoneyRelease)) \<and>
    (fh_ID (ff_Hold facts) \<noteq> 0 \<longrightarrow> CanTransitionHoldStatus (fh_Status (ff_Hold facts)) (sd_HoldStatus d)) \<and>
    (fh_ID (ff_Hold facts) = 0 \<longrightarrow> sd_BillingStatus d = BillingStatusReleased) \<and>
    (sd_CandidateAction d = SettlementCandidatePublish \<longleftrightarrow> sd_RunStatus d = AIRunStatusSuccess) \<and>
    (sd_RunStatus d = AIRunStatusSuccess \<longrightarrow> sd_BillingStatus d = BillingStatusSettled)"
proof -
  from assms have valid: "validateFinalizationFacts sha256 runID facts = Inr ()" and d: "decide price facts = Inr d"
    by (simp_all add: finalize_decision_Inr)
  note V = facts_valid(4,5) [OF valid]
  have terminal: "\<forall>a \<in> set (ff_Attempts facts). fa_State a \<noteq> AttemptStatePrepared \<and> fa_State a \<noteq> AttemptStateDispatched"
    using decide_terminal [OF d] by blast
  note S = billing_status_defs hold_status_defs charge_status_defs settlement_action_defs run_status_defs decision_defs
    CanTransitionBillingStatus_def CanTransitionHoldStatus_def validBillingStatus_def validHoldStatus_def
  have held: "fh_ID (ff_Hold facts) \<noteq> 0" if "ff_Trigger facts \<in> {TriggerUserStop, TriggerContinuationTopUpInsufficient, TriggerSuccess}"
    using V(1) that by (auto simp: trigger_defs)
  from d show ?thesis
  proof (cases rule: decide_cases)
    case (release runStatus reason)
    with V terminal show ?thesis by (cases "fh_ID (ff_Hold facts) = 0") (auto simp: S)
  next
    case (unbilled runStatus)
    with held V(2) terminal show ?thesis by (auto simp: S)
  next
    case success
    with held have "fh_ID (ff_Hold facts) \<noteq> 0" by simp
    with V(2) have W: "rs_BillingStatus (ff_Run facts) = BillingStatusHeld" "fh_Status (ff_Hold facts) = HoldStatusActive" by blast+
    from success(1) show ?thesis
      by (cases rule: priceOrUnbilled_cases) (use terminal W \<open>fh_ID (ff_Hold facts) \<noteq> 0\<close> in \<open>auto simp: S\<close>)
  next
    case (partial runStatus)
    with held have "fh_ID (ff_Hold facts) \<noteq> 0" by auto
    with V(2) have W: "rs_BillingStatus (ff_Run facts) = BillingStatusHeld" "fh_Status (ff_Hold facts) = HoldStatusActive" by blast+
    from partial(1) show ?thesis
      by (cases rule: priceOrUnbilled_cases) (use terminal W partial(2) \<open>fh_ID (ff_Hold facts) \<noteq> 0\<close> in \<open>auto simp: S\<close>)
  qed
qed

theorem decision_ends_run_witness:
  "sd_BillingStatus demo_decision \<in> {BillingStatusSettled, BillingStatusReleased, BillingStatusUnbilled} \<and>
   sd_ChargeStatus demo_decision = sd_BillingStatus demo_decision"
  using decision_ends_run [OF demo_finalize] by blast

text \<open>C33. A capture charges what the quote of the paid attempts of the run amounts to and never more than is
  held: the items belong to the charge and to attempts that succeeded or that the user stopped while they
  were answered, none is listed twice, none is negative, and they add up to the charge. Any other decision
  charges nothing; it shows an amount only when that amount exceeds the hold.\<close>

theorem decision_charges_within_hold:
  assumes "finalize_decision sha256 price runID facts = Inr d"
  shows "(sd_MoneyAction d = SettlementMoneyCapture \<longrightarrow>
      0 \<le> sd_ActualUnits d \<and> sd_ActualUnits d \<le> fh_HeldUnits (ff_Hold facts) \<and>
      sum_list (map ci_AmountUnits (sd_Items d)) = sd_ActualUnits d \<and> distinct (map item_identity (sd_Items d)) \<and>
      (\<forall>item \<in> set (sd_Items d). ci_ChargeID item = fc_ID (ff_Charge facts) \<and> 0 \<le> ci_AmountUnits item \<and>
        (\<exists>a \<in> set (ff_Attempts facts). fa_ID a = ci_AttemptID item \<and> fa_RunID a = runID \<and>
           fa_EvidenceKind a = AttemptEvidencePaid \<and> chargeable facts a))) \<and>
    (sd_MoneyAction d \<noteq> SettlementMoneyCapture \<longrightarrow>
      sd_ActualUnits d = 0 \<and> sd_Items d = [] \<or>
      sd_BillingReason d = BillingReasonUnbilledOverHold \<and> fh_HeldUnits (ff_Hold facts) < sd_ActualUnits d)"
proof -
  from assms have valid: "validateFinalizationFacts sha256 runID facts = Inr ()" and d: "decide price facts = Inr d"
    by (simp_all add: finalize_decision_Inr)
  note A = validate_attempts_Inr [OF facts_valid(3) [OF valid]]
  have identity: "item_identity (item\<lparr>ci_ChargeID := c\<rparr>) = item_identity item" for item c
    by (simp add: item_identity_def)
  have priced: ?thesis if "priceOrUnbilled price facts rs candidate = Inr d" for rs candidate
    using that
  proof (cases rule: priceOrUnbilled_cases)
    case unbilled
    then show ?thesis by (simp add: decision_defs settlement_action_defs)
  next
    case (over quote items)
    then show ?thesis by (simp add: decision_defs settlement_action_defs)
  next
    case (capture quote items)
    note Q = validateSettlementQuote_Inr [OF capture(2)]
    have attempt: "\<exists>a \<in> set (ff_Attempts facts). fa_ID a = ci_AttemptID item \<and> fa_RunID a = runID \<and>
        fa_EvidenceKind a = AttemptEvidencePaid \<and> chargeable facts a" if item: "item \<in> set (sq_Items quote)" for item
    proof -
      from Q(4) item obtain ba where ba: "ba \<in> set (billableAttempts facts)" "ci_AttemptID item = ba_ID ba" by blast
      from billable_of_run [OF ba(1)] A ba(2) show ?thesis by (force simp: billable_attempt_def)
    qed
    from Q(4) have nonneg: "\<forall>item \<in> set (sq_Items quote). 0 \<le> ci_AmountUnits item" by (blast intro: charge_item_amount)
    have "sd_Items d = map (ci_ChargeID_update (\<lambda>_. fc_ID (ff_Charge facts))) (sq_Items quote)" "sd_ActualUnits d = sq_ActualUnits quote"
      "sd_MoneyAction d = SettlementMoneyCapture" using capture(4) Q(1) by (simp_all add: captureDecision_def)
    with Q(2,3,5) capture(3) attempt nonneg show ?thesis by (simp add: comp_def identity)
  qed
  from d show ?thesis
  proof (cases rule: decide_cases)
    case (release runStatus reason)
    then show ?thesis by (simp add: releaseDecision_def settlement_action_defs)
  next
    case (unbilled runStatus)
    then show ?thesis by (simp add: unbilledDecision_def settlement_action_defs)
  qed (rule priced, assumption)+
qed

theorem decision_charges_within_hold_witness:
  "sum_list (map ci_AmountUnits (sd_Items demo_decision)) = 150 \<and> 150 \<le> fh_HeldUnits (ff_Hold demo_facts)"
  using decision_charges_within_hold [OF demo_finalize] by (simp add: demo_decision_fields)

end
