(* ===== verification/AiPricerProps.thy ===== *)
theory AiPricerProps
  imports AiPricer AiFinalizerProps PricingProps
begin

text \<open>
  The settlement price of a run: every unit of usage that a paid attempt reported is charged once, at a
  rate of the snapshot, the exact prices together rounded up once; the quote always passes the validation
  of the decision, so the price of a run never fails but for incomplete usage; and the hold of a run covers
  the settlement of all its calls when each call stayed within the bound it was reserved for.
\<close>

section \<open>The lines of a settlement quote\<close>

definition rate_price :: "int \<Rightarrow> int \<Rightarrow> Rate \<Rightarrow> rat" where
  "rate_price ppm quantity rate = of_int quantity * unit_price rate * (of_int ppm / 1000000)"

text \<open>What a line of a settlement is quoted at\<close>

definition settled_at :: "PriceBook \<Rightarrow> int \<Rightarrow> QuoteLine \<Rightarrow> QuoteLineResult \<Rightarrow> bool" where
  "settled_at price ppm line r \<longleftrightarrow> (\<exists>n c. Normalized (q_Item line) = Inr n \<and> categoryForUsage (u_Category n) = Some c \<and>
     qr_Rate r \<in> set (ratesFor price c (u_Unit n)) \<and> rate_ok (qr_Rate r) \<and> qr_Key r = q_Key line \<and>
     qr_AmountUnits r - \<lfloor>rate_price ppm (u_Quantity n) (qr_Rate r)\<rfloor> \<in> {0, 1} \<and>
     0 \<le> rate_price ppm (u_Quantity n) (qr_Rate r))"

definition settled_identity :: "QuoteLine \<Rightarrow> QuoteLineResult \<Rightarrow> string" where
  "settled_identity line r = normalizedAttemptID line @ [CHR 0x00] @ u_Category (q_Item line) @ [CHR 0x00] @
     trim_space (u_Unit (q_Item line)) @ [CHR 0x00] @ r_TierKey (qr_Rate r)"

lemma settlement_lines_shape:
  assumes "SettlementLines price ls = Inr sl"
  shows "list_all2 (\<lambda>l l'. \<exists>n c S. Normalized (q_Item l) = Inr n \<and> categoryForUsage (u_Category n) = Some c \<and>
    S \<in> set (ratesFor price c (u_Unit n)) \<and> l' = l\<lparr>q_Item := n\<lparr>u_TierKey := r_TierKey S\<rparr>\<rparr>) ls sl"
proof -
  from assms obtain mid t where mid: "attempt_totals ls (\<lambda>_. 0) = Inr (mid, t)"
    and sel: "select_lines price False t mid = Inr sl"
    by (auto simp: SettlementLines_def selectTiers_def split: sum.splits)
  from attempt_totals_all2 [OF mid] select_lines_all2 [OF sel] show ?thesis
  proof (rule list_all2_trans [rotated])
    fix l m l'
    assume "\<exists>n. Normalized (q_Item l) = Inr n \<and> m = l\<lparr>q_Item := n\<rparr>" and s: "select_line price False t m = Inr l'"
    then obtain n where n: "Normalized (q_Item l) = Inr n" "m = l\<lparr>q_Item := n\<rparr>" by blast
    from s obtain item c item' where i: "Normalized (q_Item m) = Inr item" "categoryForUsage (u_Category item) = Some c"
        "ratesFor price c (u_Unit item) \<noteq> []"
        "settle_tier price (t (normalizedAttemptID m)) item (ratesFor price c (u_Unit item)) = Inr item'"
        "l' = m\<lparr>q_Item := item'\<rparr>" by (auto elim: select_lineE)
    have "item = n" using i(1) n Normalized_idem [OF n(1)] by simp
    with settle_tier_rate [OF i(4,3)] i n
    show "\<exists>n c S. Normalized (q_Item l) = Inr n \<and> categoryForUsage (u_Category n) = Some c \<and>
        S \<in> set (ratesFor price c (u_Unit n)) \<and> l' = l\<lparr>q_Item := n\<lparr>u_TierKey := r_TierKey S\<rparr>\<rparr>" by auto
  qed
qed

text \<open>The identities by which a quote refuses duplicates\<close>

definition quoted_identity :: "QuoteLine \<Rightarrow> string" where
  "quoted_identity line = normalizedAttemptID line @ [CHR 0x00] @
     rateKey (the (categoryForUsage (u_Category (q_Item line)))) (trim_space (u_Unit (q_Item line))) (trim_space (u_TierKey (q_Item line)))"

lemma quote_line_identity:
  "quote_line m ppm ids idents i line = Inr (identity, x) \<Longrightarrow>
     identity = quoted_identity line \<and> q_Key line \<notin> set ids \<and> identity \<notin> set idents"
  by (auto simp: quote_line_def quoted_identity_def Let_def Normalized_Inr split: if_splits sum.splits option.splits)

lemma quote_lines_distinct:
  "quote_lines m ppm ids idents i lines ex t = Inr r \<Longrightarrow>
     distinct (map q_Key lines) \<and> set (map q_Key lines) \<inter> set ids = {} \<and>
     distinct (map quoted_identity lines) \<and> set (map quoted_identity lines) \<inter> set idents = {}"
proof (induction lines arbitrary: ids idents i ex t)
  case (Cons line lines)
  from Cons.prems obtain identity x where x: "quote_line m ppm ids idents i line = Inr (identity, x)"
    and rest: "quote_lines m ppm (q_Key line # ids) (identity # idents) (Suc i) lines (ex @ [x]) (t + e_value x) = Inr r"
    by (auto split: sum.splits)
  from quote_line_identity [OF x] Cons.IH [OF rest] show ?case by auto
qed simp

lemma Quote_distinct:
  assumes "Quote price lines ppm = Inr res"
  shows "distinct (map q_Key lines)" and "distinct (map quoted_identity lines)"
proof -
  from assms obtain m r where "quote_lines m ppm [] [] 0 lines [] 0 = Inr r"
    unfolding Quote_def by (auto simp: Let_def split: if_splits sum.splits)
  from quote_lines_distinct [OF this] show "distinct (map q_Key lines)" "distinct (map quoted_identity lines)" by blast+
qed

lemma Quote_max: "Quote price lines ppm = Inr res \<Longrightarrow> quote_AmountUnits res \<le> max_int64"
  unfolding Quote_def by (auto simp: Let_def split: if_splits sum.splits prod.splits)

lemma settled_rate:
  assumes m: "index_rates (p_Rates price) Map.empty = Inr m" and n: "Normalized (q_Item l) = Inr n"
    and c: "categoryForUsage (u_Category n) = Some c" and S: "S \<in> set (ratesFor price c (u_Unit n))"
    and l': "l' = l\<lparr>q_Item := n\<lparr>u_TierKey := r_TierKey S\<rparr>\<rparr>" and x: "exact_for m ppm l' x" and pos: "0 \<le> e_value x"
    and amount: "qr_AmountUnits r = \<lfloor>e_value x\<rfloor> + (if chosen then 1 else 0)" and r: "qr_Key r = e_key x" "qr_Rate r = e_rate x"
  shows "settled_at price ppm l r" and "settled_identity l r = quoted_identity l'"
    and "e_value x = rate_price ppm (u_Quantity (q_Item l)) (qr_Rate r)"
proof -
  have Sc: "r_Category S = c" and ok: "rate_ok S" using ratesFor_indexed [OF m S] by simp_all
  have rate: "e_rate x = S"
    using n c S l' Normalized_fields [OF n] Sc by (intro quoted_rate [OF m _ _ x, of S n]) simp_all
  have val: "e_value x = rate_price ppm (u_Quantity n) S" and key: "e_key x = q_Key l"
    using x l' rate line_value_price [OF ok] by (simp_all add: exact_for_def rate_price_def)
  show "settled_at price ppm l r"
    unfolding settled_at_def using n c S ok rate val key pos amount r by (intro exI [of _ n] exI [of _ c]) auto
  show "e_value x = rate_price ppm (u_Quantity (q_Item l)) (qr_Rate r)"
    using val rate r n by (auto simp: Normalized_Inr)
  have cat: "the (categoryForUsage (u_Category n)) = u_Category n"
    using c by (auto simp: categoryForUsage_def usage_category_defs pricing_category_defs split: if_splits)
  show "settled_identity l r = quoted_identity l'"
    using n l' rate r(2) cat Normalized_fields [OF n] ratesFor_trimmed [OF S]
    by (auto simp: settled_identity_def quoted_identity_def rateKey_def Normalized_Inr normalizedAttemptID_def Let_def)
qed

lemma settled_lines:
  assumes S: "SettlementLines price ls = Inr sl" and Q: "Quote price sl ppm = Inr res"
  shows "list_all2 (settled_at price ppm) ls (quote_Lines res)" and "distinct (map q_Key ls)"
    and "distinct (map2 settled_identity ls (quote_Lines res))"
    and "sum_list (map qr_AmountUnits (quote_Lines res)) = quote_AmountUnits res"
    and "quote_AmountUnits res =
      \<lceil>sum_list (map2 (\<lambda>l r. rate_price ppm (u_Quantity (q_Item l)) (qr_Rate r)) ls (quote_Lines res))\<rceil>"
proof -
  from Quote_exact [OF Q] obtain m ex chosen where m: "index_rates (p_Rates price) Map.empty = Inr m"
    and ex: "list_all2 (exact_for m ppm) sl ex" and res: "quote_Lines res = allocated ex chosen"
    and pos: "\<And>x. x \<in> set ex \<Longrightarrow> 0 \<le> e_value x" and amount: "quote_AmountUnits res = \<lceil>sum_list (map e_value ex)\<rceil>"
    and total: "sum_list (map qr_AmountUnits (quote_Lines res)) = quote_AmountUnits res" by metis
  note shape = settlement_lines_shape [OF S]
  note len = list_all2_lengthD [OF shape] list_all2_lengthD [OF ex]
  have each: "settled_at price ppm (ls ! j) (quote_Lines res ! j) \<and> settled_identity (ls ! j) (quote_Lines res ! j) = quoted_identity (sl ! j) \<and>
      e_value (ex ! j) = rate_price ppm (u_Quantity (q_Item (ls ! j))) (qr_Rate (quote_Lines res ! j)) \<and> q_Key (sl ! j) = q_Key (ls ! j)"
    if j: "j < length ls" for j
  proof -
    from shape j len obtain n c S where n: "Normalized (q_Item (ls ! j)) = Inr n" "categoryForUsage (u_Category n) = Some c"
        "S \<in> set (ratesFor price c (u_Unit n))" "sl ! j = (ls ! j)\<lparr>q_Item := n\<lparr>u_TierKey := r_TierKey S\<rparr>\<rparr>"
      by (auto simp: list_all2_conv_all_nth)
    have x: "exact_for m ppm (sl ! j) (ex ! j)" "0 \<le> e_value (ex ! j)"
      using ex j len pos by (simp_all add: list_all2_conv_all_nth)
    have r: "qr_AmountUnits (quote_Lines res ! j) = \<lfloor>e_value (ex ! j)\<rfloor> + (if j \<in> chosen then 1 else 0)"
      "qr_Key (quote_Lines res ! j) = e_key (ex ! j)" "qr_Rate (quote_Lines res ! j) = e_rate (ex ! j)"
      using j len by (simp_all add: res nth_allocated)
    from settled_rate [OF m n x r] n(4) show ?thesis by simp
  qed
  have lens: "length (quote_Lines res) = length ls" using len by (simp add: res)
  show "list_all2 (settled_at price ppm) ls (quote_Lines res)"
    using each lens by (simp add: list_all2_conv_all_nth)
  have "map q_Key ls = map q_Key sl" using each len by (intro nth_equalityI) simp_all
  then show "distinct (map q_Key ls)" using Quote_distinct(1) [OF Q] by simp
  have "map2 settled_identity ls (quote_Lines res) = map quoted_identity sl"
    using each len lens by (intro nth_equalityI) simp_all
  then show "distinct (map2 settled_identity ls (quote_Lines res))" using Quote_distinct(2) [OF Q] by simp
  have "map2 (\<lambda>l r. rate_price ppm (u_Quantity (q_Item l)) (qr_Rate r)) ls (quote_Lines res) = map e_value ex"
    using each len lens by (intro nth_equalityI) simp_all
  then show "quote_AmountUnits res =
      \<lceil>sum_list (map2 (\<lambda>l r. rate_price ppm (u_Quantity (q_Item l)) (qr_Rate r)) ls (quote_Lines res))\<rceil>"
    using amount by simp
  show "sum_list (map qr_AmountUnits (quote_Lines res)) = quote_AmountUnits res" by (rule total)
qed

section \<open>The items of a settlement\<close>

text \<open>The lines of a settlement, as a list over the attempts\<close>

definition lines_of :: "BillableAttempt \<Rightarrow> settled_line list" where
  "lines_of a = map (\<lambda>(index, item). \<lparr>sl_Line = \<lparr>q_Key = attempt_key (ba_ID a) index, q_AttemptID = format_int (ba_ID a), q_Item = item\<rparr>,
     sl_AttemptID = ba_ID a, sl_Item = item\<rparr>) (enumerate 0 (billingItemsFromProviderUsage (ba_Usage a)))"

lemma usage_lines_Inr:
  "usage_lines i k items = Inr ls \<Longrightarrow> ls = map (\<lambda>(index, item). \<lparr>sl_Line = \<lparr>q_Key = attempt_key i index, q_AttemptID = format_int i,
     q_Item = item\<rparr>, sl_AttemptID = i, sl_Item = item\<rparr>) (enumerate k items) \<and> (\<forall>item \<in> set items. usage_Validate item = None)"
  by (induction items arbitrary: k ls) (auto split: option.splits sum.splits)

lemma attempts_lines_Inr:
  "attempts_lines sha256 as = Inr ls \<Longrightarrow> ls = concat (map lines_of as) \<and>
     (\<forall>a \<in> set as. 0 < ba_ID a \<and> completeRawUsage sha256 (ba_Usage a) \<and>
        (\<forall>item \<in> set (billingItemsFromProviderUsage (ba_Usage a)). usage_Validate item = None))"
  by (induction as arbitrary: ls) (auto simp: lines_of_def dest!: usage_lines_Inr split: if_splits sum.splits)

lemma sl_line_parts:
  "l \<in> set (concat (map lines_of as)) \<Longrightarrow> sl_Item l = q_Item (sl_Line l) \<and> q_AttemptID (sl_Line l) = format_int (sl_AttemptID l) \<and>
     sl_AttemptID l \<in> ba_ID ` set as"
  by (auto simp: lines_of_def)

lemma identity_of_line:
  assumes "distinct (map (\<lambda>l. q_Key (sl_Line l)) ls)" and "l \<in> set ls"
  shows "identity_of ls (q_Key (sl_Line l)) = Some l"
proof -
  have "find (\<lambda>x. q_Key (sl_Line x) = q_Key (sl_Line l)) (rev ls) \<noteq> None"
    using assms(2) by (auto simp: find_None_iff)
  then obtain x where x: "find (\<lambda>x. q_Key (sl_Line x) = q_Key (sl_Line l)) (rev ls) = Some x" by blast
  then have "x \<in> set ls" "q_Key (sl_Line x) = q_Key (sl_Line l)" by (auto simp: find_Some_iff) (metis length_rev nth_mem set_rev)
  with assms have "x = l" by (auto simp: distinct_map dest: inj_onD)
  with x show ?thesis by (simp add: identity_of_def)
qed

lemma settlement_items_of:
  assumes keys: "distinct (map (\<lambda>l. q_Key (sl_Line l)) ls)" and sub: "set part \<subseteq> set ls"
    and lines: "list_all2 (settled_at price ppm) (map sl_Line part) rs"
  shows "settlement_items ls rs = Inr (map2 settlement_item part rs)"
  using sub lines
proof (induction rs arbitrary: part)
  case (Cons r rs)
  from Cons.prems(2) obtain l part' where part: "part = l # part'" "settled_at price ppm (sl_Line l) r"
      "list_all2 (settled_at price ppm) (map sl_Line part') rs"
    by (cases part) auto
  then have "qr_Key r = q_Key (sl_Line l)" "l \<in> set ls" using Cons.prems(1) by (auto simp: settled_at_def)
  with identity_of_line [OF keys] have "identity_of ls (qr_Key r) = Some l" by simp
  with Cons.IH [OF _ part(3)] Cons.prems(1) part(1) show ?case by simp
qed simp

lemma space_not_digit: "q \<in> set space_seqs \<Longrightarrow> \<exists>c \<in> set q. \<not> is_digit c"
proof -
  have "list_all (\<lambda>q. list_ex (\<lambda>c. \<not> is_digit c) q) space_seqs" by code_simp
  then show "q \<in> set space_seqs \<Longrightarrow> \<exists>c \<in> set q. \<not> is_digit c" by (auto simp: list_all_iff list_ex_iff)
qed

lemma trim_space_digits:
  assumes "list_all is_digit s"
  shows "trim_space s = s"
proof -
  have no: "\<not> prefix q t" if "set q \<in> set ` set space_seqs" "set t = set s" for q t
    using that assms space_not_digit by (force simp: list_all_iff prefix_def)
  have "drop_seq space_seqs s = None" "drop_seq (map rev space_seqs) (rev s) = None"
    using no by (force simp: drop_seq_None)+
  then show ?thesis by (simp add: trim_space_def trim_left_fixed)
qed

lemma format_int_trimmed: "0 < i \<Longrightarrow> trim_space (format_int i) = format_int i \<and> format_int i \<noteq> []"
  using trim_space_digits [OF format_nat_digits] by (simp add: format_int_def)

lemma PriceSettlement_Inr:
  assumes "PriceSettlement sha256 decode i = Inr quote"
  obtains s ls sl res where "ParsePricingSnapshot decode (rs_PricingSnapshotJSON (sp_Run i)) = Inr s"
    and "ls = concat (map lines_of (sp_Attempts i))" and "attempts_lines sha256 (sp_Attempts i) = Inr ls"
    and "SettlementLines (priceBook s) (map sl_Line ls) = Inr sl" and "Quote (priceBook s) sl (ps_MultiplierPPM s) = Inr res"
    and "quote = \<lparr>sq_ActualUnits = quote_AmountUnits res, sq_Items = map2 settlement_item ls (quote_Lines res)\<rparr>"
proof -
  from assms obtain s ls sl res items where p: "ParsePricingSnapshot decode (rs_PricingSnapshotJSON (sp_Run i)) = Inr s"
      "attempts_lines sha256 (sp_Attempts i) = Inr ls" "SettlementLines (priceBook s) (map sl_Line ls) = Inr sl"
      "Quote (priceBook s) sl (ps_MultiplierPPM s) = Inr res" "settlement_items ls (quote_Lines res) = Inr items"
      "quote = \<lparr>sq_ActualUnits = quote_AmountUnits res, sq_Items = items\<rparr>"
    unfolding PriceSettlement_def by (auto split: sum.splits)
  have "items = map2 settlement_item ls (quote_Lines res)"
    using settlement_items_of [OF _ order_refl settled_lines(1) [OF p(3,4)]] settled_lines(2) [OF p(3,4)] p(5)
    by (simp add: comp_def)
  with p that attempts_lines_Inr [OF p(2)] show thesis by blast
qed

text \<open>The price of an item, as it is stored: its quantity at its unit price\<close>

definition item_price :: "int \<Rightarrow> UsageChargeItem \<Rightarrow> rat" where
  "item_price ppm item =
     of_int (ci_Quantity item) * (of_int (ci_UnitPriceUnits item) / of_int (ci_UnitScale item)) * (of_int ppm / 1000000)"

text \<open>An item charged at a rate of the snapshot\<close>

definition item_at_rate :: "PricingSnapshot \<Rightarrow> UsageChargeItem \<Rightarrow> bool" where
  "item_at_rate s item \<longleftrightarrow> (\<exists>rate \<in> set (ps_Rates s). categoryForUsage (ci_Category item) = Some (r_Category rate) \<and>
     trim_space (r_Unit rate) = ci_Unit item \<and> trim_space (r_TierKey rate) = ci_TierKey item \<and>
     r_PriceUnits rate = ci_UnitPriceUnits item \<and> r_UnitScale rate = ci_UnitScale item) \<and>
     ci_AmountUnits item - \<lfloor>item_price (ps_MultiplierPPM s) item\<rfloor> \<in> {0, 1}"

lemma at_least_floor: "a - b \<in> {0, 1} \<Longrightarrow> 0 \<le> b \<Longrightarrow> 0 \<le> (a :: int)"
  by auto

lemma settlement_item_facts:
  assumes "settled_at (priceBook s) (ps_MultiplierPPM s) (sl_Line l) r" and "sl_Item l = q_Item (sl_Line l)"
    and "u_Unit (sl_Item l) = trim_space (u_Unit (sl_Item l))"
  shows "charge_item_valid (settlement_item l r)" and "item_at_rate s (settlement_item l r)"
    and "item_price (ps_MultiplierPPM s) (settlement_item l r) = rate_price (ps_MultiplierPPM s) (u_Quantity (q_Item (sl_Line l))) (qr_Rate r)"
    and "trim_space (ci_TierKey (settlement_item l r)) = r_TierKey (qr_Rate r)"
proof -
  from assms(1) obtain n c where n: "Normalized (q_Item (sl_Line l)) = Inr n" "categoryForUsage (u_Category n) = Some c"
      "qr_Rate r \<in> set (ratesFor (priceBook s) c (u_Unit n))" "rate_ok (qr_Rate r)"
      "qr_AmountUnits r - \<lfloor>rate_price (ps_MultiplierPPM s) (u_Quantity n) (qr_Rate r)\<rfloor> \<in> {0, 1}"
      "0 \<le> rate_price (ps_MultiplierPPM s) (u_Quantity n) (qr_Rate r)"
    unfolding settled_at_def by blast
  note N = Normalized_fields [OF n(1)] n(1) [unfolded Normalized_Inr]
  have "0 \<le> \<lfloor>rate_price (ps_MultiplierPPM s) (u_Quantity n) (qr_Rate r)\<rfloor>" using n(6) by simp
  then have "0 \<le> qr_AmountUnits r" by (rule at_least_floor [OF n(5)])
  then show "charge_item_valid (settlement_item l r)"
    using N n(4) assms(2)
    by (auto simp: charge_item_valid_def settlement_item_def usage_Validate_def Normalized_def rate_ok_def)
  show price: "item_price (ps_MultiplierPPM s) (settlement_item l r) =
      rate_price (ps_MultiplierPPM s) (u_Quantity (q_Item (sl_Line l))) (qr_Rate r)"
    using assms(2) by (simp add: item_price_def settlement_item_def rate_price_def unit_price_def)
  show tier: "trim_space (ci_TierKey (settlement_item l r)) = r_TierKey (qr_Rate r)"
    using ratesFor_trimmed [OF n(3)] by (simp add: settlement_item_def)
  from n(3) obtain rate where "rate \<in> set (ps_Rates s)" "r_Category rate = c" "trim_space (r_Unit rate) = u_Unit n"
      "qr_Rate r = rate\<lparr>r_Unit := trim_space (r_Unit rate), r_TierKey := trim_space (r_TierKey rate)\<rparr>"
    by (auto simp: ratesFor_def priceBook_def)
  then have "\<exists>rate \<in> set (ps_Rates s). categoryForUsage (ci_Category (settlement_item l r)) = Some (r_Category rate) \<and>
      trim_space (r_Unit rate) = ci_Unit (settlement_item l r) \<and> trim_space (r_TierKey rate) = ci_TierKey (settlement_item l r) \<and>
      r_PriceUnits rate = ci_UnitPriceUnits (settlement_item l r) \<and> r_UnitScale rate = ci_UnitScale (settlement_item l r)"
    using N n(2) assms(2,3) by (intro bexI [of _ rate]) (auto simp: settlement_item_def)
  moreover have "ci_AmountUnits (settlement_item l r) - \<lfloor>item_price (ps_MultiplierPPM s) (settlement_item l r)\<rfloor> \<in> {0, 1}"
    using n(5) N price by (simp add: settlement_item_def)
  ultimately show "item_at_rate s (settlement_item l r)" by (simp add: item_at_rate_def)
qed

lemma sl_item_trimmed: "l \<in> set (concat (map lines_of as)) \<Longrightarrow> u_Unit (sl_Item l) = trim_space (u_Unit (sl_Item l))"
  by (auto simp: lines_of_def in_set_enumerate_eq billingItemsFromProviderUsage_def billing_item_def)

section \<open>The quote passes the validation of the decision\<close>

lemma validate_quote_items_ok:
  assumes "\<forall>item \<in> set items. ci_ChargeID item = 0 \<and> ci_AttemptID item \<in> set allowed \<and> charge_item_valid item"
    and "distinct (map item_identity items)" and "set (map item_identity items) \<inter> set seen = {}"
    and "0 \<le> acc" and "acc + sum_list (map ci_AmountUnits items) \<le> max_int64"
  shows "\<exists>out. validate_quote_items c allowed seen acc items = Inr (out, acc + sum_list (map ci_AmountUnits items))"
  using assms
proof (induction items arbitrary: seen acc)
  case (Cons item items)
  have a: "0 \<le> ci_AmountUnits item" "0 \<le> sum_list (map ci_AmountUnits items)"
    using Cons.prems(1) by (auto intro!: sum_list_nonneg charge_item_amount)
  with Cons.prems(4,5) have acc: "acc + ci_AmountUnits item \<le> max_int64" by simp
  then have add: "add64 acc (ci_AmountUnits item) = acc + ci_AmountUnits item" "ci_AmountUnits item \<le> sub64 max_int64 acc"
    using Cons.prems(4) a by (simp_all add: add64_id)
  have "\<exists>out. validate_quote_items c allowed (item_identity item # seen) (acc + ci_AmountUnits item) items =
      Inr (out, acc + ci_AmountUnits item + sum_list (map ci_AmountUnits items))"
    using Cons.prems a by (intro Cons.IH) auto
  then show ?case
    unfolding quote_item_cases list.map sum_list.Cons add(1) using Cons.prems(1,2,3) add(2) by (auto simp: add.assoc)
qed (simp add: quote_item_cases)

lemma settlement_identities:
  assumes "list_all2 (settled_at (priceBook s) (ps_MultiplierPPM s)) (map sl_Line ls) rs"
    and "ls = concat (map lines_of as)" and "\<forall>a \<in> set as. 0 < ba_ID a"
  shows "map item_identity (map2 settlement_item ls rs) = map2 settled_identity (map sl_Line ls) rs"
proof -
  note len = list_all2_lengthD [OF assms(1)]
  have "item_identity (settlement_item (ls ! j) (rs ! j)) = settled_identity (sl_Line (ls ! j)) (rs ! j)" if j: "j < length ls" for j
  proof -
    have l: "ls ! j \<in> set (concat (map lines_of as))" using nth_mem [OF j] by (simp only: assms(2))
    from sl_line_parts [OF l] assms(3) have parts: "sl_Item (ls ! j) = q_Item (sl_Line (ls ! j))"
        "q_AttemptID (sl_Line (ls ! j)) = format_int (sl_AttemptID (ls ! j))" "0 < sl_AttemptID (ls ! j)" by auto
    have at: "settled_at (priceBook s) (ps_MultiplierPPM s) (sl_Line (ls ! j)) (rs ! j)"
      using assms(1) j by (simp add: list_all2_conv_all_nth)
    note F = settlement_item_facts(4) [OF at parts(1) sl_item_trimmed [OF l]]
    show ?thesis
      using parts format_int_trimmed [OF parts(3)] F
      by (simp add: item_identity_def settled_identity_def normalizedAttemptID_def settlement_item_def Let_def)
  qed
  with len show ?thesis by (intro nth_equalityI) simp_all
qed

lemma settlement_quote_facts:
  assumes "PriceSettlement sha256 decode \<lparr>sp_Run = run, sp_Attempts = as\<rparr> = Inr quote"
  obtains s where "ParsePricingSnapshot decode (rs_PricingSnapshotJSON run) = Inr s"
    and "\<forall>a \<in> set as. 0 < ba_ID a"
    and "\<forall>item \<in> set (sq_Items quote). ci_ChargeID item = 0 \<and> ci_AttemptID item \<in> ba_ID ` set as \<and> charge_item_valid item \<and>
      item_at_rate s item"
    and "distinct (map item_identity (sq_Items quote))"
    and "sum_list (map ci_AmountUnits (sq_Items quote)) = sq_ActualUnits quote" and "sq_ActualUnits quote \<le> max_int64"
    and "sq_ActualUnits quote = \<lceil>sum_list (map (item_price (ps_MultiplierPPM s)) (sq_Items quote))\<rceil>"
    and "map (\<lambda>i. (ci_AttemptID i, ci_Category i, ci_Unit i, ci_Quantity i)) (sq_Items quote) =
      concat (map (\<lambda>a. map (\<lambda>u. (ba_ID a, u_Category u, u_Unit u, u_Quantity u)) (billingItemsFromProviderUsage (ba_Usage a))) as)"
  using assms
proof (cases rule: PriceSettlement_Inr)
  case (1 s ls sl res)
  then have parse: "ParsePricingSnapshot decode (rs_PricingSnapshotJSON run) = Inr s" and ls: "ls = concat (map lines_of as)"
    and "attempts_lines sha256 as = Inr ls"
    and quote: "quote = \<lparr>sq_ActualUnits = quote_AmountUnits res, sq_Items = map2 settlement_item ls (quote_Lines res)\<rparr>"
    by simp_all
  note A = attempts_lines_Inr [OF this(3)] and L = settled_lines [OF 1(4,5)]
  let ?items = "map2 settlement_item ls (quote_Lines res)"
  have len: "length (quote_Lines res) = length ls" using list_all2_lengthD [OF L(1)] by simp
  have item: "ci_ChargeID item = 0 \<and> ci_AttemptID item \<in> ba_ID ` set as \<and> charge_item_valid item \<and> item_at_rate s item"
    if "item \<in> set ?items" for item
  proof -
    from that obtain j where j: "j < length ls" "item = settlement_item (ls ! j) (quote_Lines res ! j)"
      using len by (auto simp: in_set_conv_nth)
    have l: "ls ! j \<in> set (concat (map lines_of as))" using nth_mem [OF j(1)] by (simp only: ls)
    have at: "settled_at (priceBook s) (ps_MultiplierPPM s) (sl_Line (ls ! j)) (quote_Lines res ! j)"
      using L(1) j(1) by (simp add: list_all2_conv_all_nth)
    from settlement_item_facts(1,2) [OF at _ sl_item_trimmed [OF l]] sl_line_parts [OF l] j(2)
    show ?thesis by (simp add: settlement_item_def)
  qed
  have amounts: "map ci_AmountUnits ?items = map qr_AmountUnits (quote_Lines res)"
    using len by (intro nth_equalityI) (simp_all add: settlement_item_def)
  have "map (item_price (ps_MultiplierPPM s)) ?items =
      map2 (\<lambda>l r. rate_price (ps_MultiplierPPM s) (u_Quantity (q_Item l)) (qr_Rate r)) (map sl_Line ls) (quote_Lines res)"
  proof (rule nth_equalityI)
    fix j assume "j < length (map (item_price (ps_MultiplierPPM s)) ?items)"
    then have j: "j < length ls" using len by simp
    have l: "ls ! j \<in> set (concat (map lines_of as))" using nth_mem [OF j] by (simp only: ls)
    have at: "settled_at (priceBook s) (ps_MultiplierPPM s) (sl_Line (ls ! j)) (quote_Lines res ! j)"
      using L(1) j by (simp add: list_all2_conv_all_nth)
    from settlement_item_facts(3) [OF at _ sl_item_trimmed [OF l]] sl_line_parts [OF l] j len
    show "map (item_price (ps_MultiplierPPM s)) ?items ! j =
        map2 (\<lambda>l r. rate_price (ps_MultiplierPPM s) (u_Quantity (q_Item l)) (qr_Rate r)) (map sl_Line ls) (quote_Lines res) ! j"
      by simp
  qed simp
  with L(5) have price: "quote_AmountUnits res = \<lceil>sum_list (map (item_price (ps_MultiplierPPM s)) ?items)\<rceil>" by simp
  have "map (\<lambda>i. (ci_AttemptID i, ci_Category i, ci_Unit i, ci_Quantity i)) ?items =
      map (\<lambda>l. (sl_AttemptID l, u_Category (sl_Item l), u_Unit (sl_Item l), u_Quantity (sl_Item l))) ls"
    using len by (intro nth_equalityI) (simp_all add: settlement_item_def)
  also have "\<dots> = concat (map (\<lambda>a. map (\<lambda>u. (ba_ID a, u_Category u, u_Unit u, u_Quantity u)) (billingItemsFromProviderUsage (ba_Usage a))) as)"
    unfolding ls map_concat list.map_comp
    by (intro arg_cong [where f = concat] map_cong refl nth_equalityI)
      (simp_all add: lines_of_def nth_enumerate_eq split_def)
  finally have order: "map (\<lambda>i. (ci_AttemptID i, ci_Category i, ci_Unit i, ci_Quantity i)) ?items = \<dots>" .
  have ids: "distinct (map item_identity ?items)"
    using settlement_identities [OF L(1) ls] A L(3) by simp
  from that [OF parse] A item ids amounts L(4) price order Quote_max [OF 1(5)] quote show thesis by simp
qed


section \<open>The settlement of a run\<close>

lemma capture_quote:
  assumes "finalize_decision sha256 price runID facts = Inr d" and "sd_MoneyAction d = SettlementMoneyCapture"
  obtains quote where "price \<lparr>sp_Run = ff_Run facts, sp_Attempts = billableAttempts facts\<rparr> = Inr quote"
    and "sd_Items d = map (ci_ChargeID_update (\<lambda>_. fc_ID (ff_Charge facts))) (sq_Items quote)"
    and "sd_ActualUnits d = sq_ActualUnits quote"
proof -
  note result = that
  have priced: thesis if "priceOrUnbilled price facts rs candidate = Inr d" for rs candidate
    using that
  proof (cases rule: priceOrUnbilled_cases)
    case unbilled
    with assms(2) show thesis by (simp add: decision_defs settlement_action_defs)
  next
    case (over quote items)
    with assms(2) show thesis by (simp add: decision_defs settlement_action_defs)
  next
    case (capture quote items)
    from validateSettlementQuote_Inr(1) [OF capture(2)] capture(4) show thesis
      by (intro result [OF capture(1)]) (simp_all add: captureDecision_def)
  qed
  from assms(1) have "decide price facts = Inr d" by (simp add: finalize_decision_Inr)
  then show thesis
  proof (cases rule: decide_cases)
    case (release runStatus reason)
    with assms(2) show thesis by (simp add: releaseDecision_def settlement_action_defs)
  next
    case (unbilled runStatus)
    with assms(2) show thesis by (simp add: unbilledDecision_def settlement_action_defs)
  qed (rule priced, assumption)+
qed

text \<open>What a provider reported for an attempt, as it is charged: everything that is not zero\<close>

definition reported_usage :: "BillableAttempt \<Rightarrow> (int \<times> string \<times> string \<times> int) list" where
  "reported_usage a =
     map (\<lambda>u. (ba_ID a, u_Category u, u_Unit u, u_Quantity u)) (billingItemsFromProviderUsage (ba_Usage a))"

text \<open>C32. A run that is settled by its price snapshot is charged for exactly what its paid attempts reported:
  the items are, in order, the reported quantities that are not zero, each at a rate of the snapshot for
  its category, unit and tier and within one unit of its exact price, and the whole charge is the sum of the
  exact prices rounded up once.\<close>

theorem charge_is_exact_price:
  assumes "finalize_decision sha256 (PriceSettlement sha256 decode) runID facts = Inr d"
    and "sd_MoneyAction d = SettlementMoneyCapture"
  shows "\<exists>s. ParsePricingSnapshot decode (rs_PricingSnapshotJSON (ff_Run facts)) = Inr s \<and>
    map (\<lambda>i. (ci_AttemptID i, ci_Category i, ci_Unit i, ci_Quantity i)) (sd_Items d) =
      concat (map reported_usage (billableAttempts facts)) \<and>
    (\<forall>item \<in> set (sd_Items d). item_at_rate s item) \<and>
    sd_ActualUnits d = \<lceil>sum_list (map (item_price (ps_MultiplierPPM s)) (sd_Items d))\<rceil>"
proof -
  obtain quote where quote: "PriceSettlement sha256 decode \<lparr>sp_Run = ff_Run facts, sp_Attempts = billableAttempts facts\<rparr> = Inr quote"
    and d: "sd_Items d = map (ci_ChargeID_update (\<lambda>_. fc_ID (ff_Charge facts))) (sq_Items quote)"
      "sd_ActualUnits d = sq_ActualUnits quote"
    using capture_quote [OF assms] by blast
  have same: "item_at_rate s (item\<lparr>ci_ChargeID := c\<rparr>) = item_at_rate s item"
    "item_price ppm (item\<lparr>ci_ChargeID := c\<rparr>) = item_price ppm item" for s ppm item c
    by (simp_all add: item_at_rate_def item_price_def)
  from quote show ?thesis
  proof (cases rule: settlement_quote_facts)
    case (1 s)
    then show ?thesis by (intro exI [of _ s]) (simp add: d comp_def same reported_usage_def [abs_def])
  qed
qed

text \<open>A settlement that cannot be priced is one whose usage is incomplete.\<close>

lemma attempts_lines_Inl: "attempts_lines sha256 as = Inl e \<Longrightarrow> errors_is e ErrUsageIncomplete"
proof (induction as)
  case (Cons a as)
  have "usage_lines i k items = Inl e \<Longrightarrow> errors_is e ErrUsageIncomplete" for i k items
    by (induction items arbitrary: k) (auto split: option.splits sum.splits)
  with Cons show ?case by (auto split: if_splits sum.splits)
qed simp

lemma PriceSettlement_outcome:
  assumes "ParsePricingSnapshot decode (rs_PricingSnapshotJSON (sp_Run i)) = Inr s"
  shows "(\<exists>quote. PriceSettlement sha256 decode i = Inr quote) \<or>
    (\<exists>e. PriceSettlement sha256 decode i = Inl e \<and> errors_is e ErrUsageIncomplete)"
proof (cases "attempts_lines sha256 (sp_Attempts i)")
  case (Inl e)
  with assms attempts_lines_Inl [OF Inl] show ?thesis by (simp add: PriceSettlement_def)
next
  case (Inr ls)
  note ls = Inr
  show ?thesis
  proof (cases "SettlementLines (priceBook s) (map sl_Line ls)")
    case (Inl e)
    with assms ls show ?thesis by (simp add: PriceSettlement_def)
  next
    case (Inr sl)
    note sl = Inr
    show ?thesis
    proof (cases "Quote (priceBook s) sl (ps_MultiplierPPM s)")
      case (Inl e)
      with assms ls sl show ?thesis by (simp add: PriceSettlement_def)
    next
      case (Inr res)
      have "settlement_items ls (quote_Lines res) = Inr (map2 settlement_item ls (quote_Lines res))"
        using settlement_items_of [OF _ order_refl settled_lines(1) [OF sl Inr]] settled_lines(2) [OF sl Inr]
        by (simp add: comp_def)
      with assms ls sl Inr show ?thesis by (simp add: PriceSettlement_def)
    qed
  qed
qed

lemma settlement_quote_valid:
  assumes "PriceSettlement sha256 decode \<lparr>sp_Run = run, sp_Attempts = as\<rparr> = Inr quote"
  shows "\<exists>items. validateSettlementQuote facts as quote = Inr items"
  using assms
proof (cases rule: settlement_quote_facts)
  case (1 s)
  have nonneg: "0 \<le> sum_list (map ci_AmountUnits (sq_Items quote))"
    using 1(3) by (auto intro!: sum_list_nonneg charge_item_amount)
  have "\<exists>out. validate_quote_items (fc_ID (ff_Charge facts)) (map ba_ID as) [] 0 (sq_Items quote) =
      Inr (out, 0 + sum_list (map ci_AmountUnits (sq_Items quote)))"
    using 1(3,4,5,6) by (intro validate_quote_items_ok) auto
  with 1(2,5) nonneg show ?thesis by (auto simp: validateSettlementQuote_def list_ex_iff)
qed

lemma priceOrUnbilled_total:
  assumes "ParsePricingSnapshot decode (rs_PricingSnapshotJSON (ff_Run facts)) = Inr s"
    and "candidate = SettlementCandidatePublish \<Longrightarrow>
      candidateBelongsToBillableAttempt (ff_Candidate facts) (billableAttempts facts)"
  shows "\<exists>d. priceOrUnbilled (PriceSettlement sha256 decode) facts runStatus candidate = Inr d"
proof -
  let ?i = "\<lparr>sp_Run = ff_Run facts, sp_Attempts = billableAttempts facts\<rparr>"
  have "ParsePricingSnapshot decode (rs_PricingSnapshotJSON (sp_Run ?i)) = Inr s" using assms(1) by simp
  from PriceSettlement_outcome [OF this] show ?thesis
  proof
    assume "\<exists>quote. PriceSettlement sha256 decode ?i = Inr quote"
    then obtain quote where q: "PriceSettlement sha256 decode ?i = Inr quote" by blast
    with settlement_quote_valid [OF q, of facts] assms(2) show ?thesis
      by (auto simp: priceOrUnbilled_def Let_def)
  next
    assume "\<exists>e. PriceSettlement sha256 decode ?i = Inl e \<and> errors_is e ErrUsageIncomplete"
    then show ?thesis by (auto simp: priceOrUnbilled_def Let_def)
  qed
qed

section \<open>The hold of a run\<close>

lemma validate_attempts_distinct:
  "validate_attempts sha256 runID seen as = Inr u \<Longrightarrow>
     distinct (map fa_ID as) \<and> set (map fa_ID as) \<inter> fa_ID ` set seen = {}"
proof (induction as arbitrary: seen)
  case (Cons a as)
  then have "validate_attempts sha256 runID (a # seen) as = Inr u" "fa_ID a \<notin> fa_ID ` set seen"
    by (auto simp: list_ex_iff split: if_splits sum.splits)
  with Cons.IH [OF this(1)] show ?case by auto
qed simp

lemma billable_distinct:
  assumes "validateFinalizationFacts sha256 runID facts = Inr u"
  shows "distinct (map ba_ID (billableAttempts facts))" and "\<forall>a \<in> set (billableAttempts facts). 0 < ba_ID a"
proof -
  note V = facts_valid(3) [OF assms]
  from validate_attempts_distinct [OF V] show "distinct (map ba_ID (billableAttempts facts))"
    by (auto simp: billableAttempts_def billable_attempt_def comp_def intro: distinct_map_filter)
  from validate_attempts_Inr [OF V] show "\<forall>a \<in> set (billableAttempts facts). 0 < ba_ID a"
    by (auto simp: billableAttempts_def billable_attempt_def)
qed

text \<open>The lines only matter by their items.\<close>

lemma covers_cong:
  assumes "map q_Item ls = map q_Item ls'" and "map q_Item us = map q_Item us'"
  shows "covers ls us from = covers ls' us' from"
proof -
  have len: "length ls = length ls'" "length us = length us'" using assms by (auto dest: map_eq_imp_length_eq)
  have l: "q_Item (ls ! i) = q_Item (ls' ! i)" if "i < length ls'" for i
    using assms(1) that len by (metis nth_map)
  have u: "q_Item (us ! i) = q_Item (us' ! i)" if "i < length us'" for i
    using assms(2) that len by (metis nth_map)
  have sums: "sum_list (map (\<lambda>j. if from ! j = i then line_quantity (us ! j) else 0) [0..<length us']) =
      sum_list (map (\<lambda>j. if from ! j = i then line_quantity (us' ! j) else 0) [0..<length us'])" for i
    using u by (intro arg_cong [where f = sum_list] map_cong) (auto simp: line_quantity_def)
  have "line_quantity (ls ! i) = line_quantity (ls' ! i)" if "i < length ls'" for i
    using l that by (simp add: line_quantity_def)
  moreover have "drawn_from (us ! j) (ls ! i) = drawn_from (us' ! j) (ls' ! i)" if "i < length ls'" "j < length us'" for i j
    using l u that by (simp add: drawn_from_def)
  ultimately show ?thesis unfolding covers_def len sums by (auto simp: list_all_iff)
qed

definition item_line :: "UsageItem \<Rightarrow> QuoteLine" where
  "item_line item = \<lparr>q_Key = [], q_AttemptID = [], q_Item = item\<rparr>"

text \<open>The usage an attempt reported stays within the items a call was reserved for.\<close>

definition within_bound :: "UsageItem list \<Rightarrow> BillableAttempt \<Rightarrow> nat list \<Rightarrow> bool" where
  "within_bound bounds a from \<longleftrightarrow>
     covers (map item_line bounds) (map item_line (billingItemsFromProviderUsage (ba_Usage a))) from"

lemma run_hold_covers:
  assumes snapshot: "ParsePricingSnapshot decode (rs_PricingSnapshotJSON run) = Inr s"
    and ids: "distinct (map ba_ID (prior @ [final]))" "\<forall>a \<in> set (prior @ [final]). 0 < ba_ID a"
    and prior: "PriceSettlement sha256 decode \<lparr>sp_Run = run, sp_Attempts = prior\<rparr> = Inr before"
    and bound: "quotePricingSnapshot s bounds keyPrefix = Inr bound"
    and all: "PriceSettlement sha256 decode \<lparr>sp_Run = run, sp_Attempts = prior @ [final]\<rparr> = Inr after"
    and within: "within_bound bounds final from"
  shows "sq_ActualUnits after \<le> sq_ActualUnits before + quote_AmountUnits bound"
proof -
  let ?used = "map sl_Line (lines_of final)" and ?prior = "map sl_Line (concat (map lines_of prior))"
  let ?bounds = "map (\<lambda>(index, item). \<lparr>q_Key = keyPrefix @ ''-'' @ format_nat index, q_AttemptID = [], q_Item = item\<rparr>)
    (zip [0..<length bounds] bounds)"
  from prior snapshot obtain pl b where p: "SettlementLines (priceBook s) ?prior = Inr pl"
      "Quote (priceBook s) pl (ps_MultiplierPPM s) = Inr b" "sq_ActualUnits before = quote_AmountUnits b"
    by (auto elim!: PriceSettlement_Inr)
  from all snapshot obtain al a where a: "SettlementLines (priceBook s) (?prior @ ?used) = Inr al"
      "Quote (priceBook s) al (ps_MultiplierPPM s) = Inr a" "sq_ActualUnits after = quote_AmountUnits a"
    by (auto elim!: PriceSettlement_Inr)
  from bound obtain rl where r: "UpperBoundLines (priceBook s) ?bounds = Inr rl"
      "Quote (priceBook s) rl (ps_MultiplierPPM s) = Inr bound"
    by (auto simp: quotePricingSnapshot_def Let_def split: sum.splits)
  have "map q_Item ?bounds = map q_Item (map item_line bounds)"
    by (intro nth_equalityI) (simp_all add: item_line_def)
  moreover have "map q_Item ?used = map q_Item (map item_line (billingItemsFromProviderUsage (ba_Usage final)))"
    by (intro nth_equalityI) (simp_all add: lines_of_def item_line_def nth_enumerate_eq)
  ultimately have cov: "covers ?bounds ?used from"
    using within covers_cong unfolding within_bound_def by blast
  have key: "normalizedAttemptID (sl_Line l) = format_int (ba_ID x)" if "l \<in> set (lines_of x)" "0 < ba_ID x" for l x
    using that format_int_trimmed [OF that(2)] by (auto simp: lines_of_def normalizedAttemptID_def Let_def)
  have inj: "ba_ID x = ba_ID y" if "format_int (ba_ID x) = format_int (ba_ID y)" "0 < ba_ID x" "0 < ba_ID y" for x y
    using that by (metis digits_val_format_nat format_int_def int_nat_eq less_asym order_less_imp_le)
  have "normalizedAttemptID ` set ?prior \<inter> normalizedAttemptID ` set ?used = {}"
    using ids key inj by (fastforce simp: image_iff)
  from cumulative_hold_covers [OF p(1,2) r a(1,2) cov this] show ?thesis by (simp add: p(3) a(3))
qed

text \<open>C36. A run whose hold is at least what its earlier calls have used and the bound its last call was reserved
  for is never given away as exceeding the hold, however the tiers of the snapshot turn out, as long as the last
  call reported no more than it was reserved for.\<close>

theorem bounded_call_is_billed:
  assumes "finalize_decision sha256 (PriceSettlement sha256 decode) runID facts = Inr d"
    and "ParsePricingSnapshot decode (rs_PricingSnapshotJSON (ff_Run facts)) = Inr s"
    and "billableAttempts facts = prior @ [final]"
    and "PriceSettlement sha256 decode \<lparr>sp_Run = ff_Run facts, sp_Attempts = prior\<rparr> = Inr before"
    and "quotePricingSnapshot s bounds keyPrefix = Inr bound"
    and "sq_ActualUnits before + quote_AmountUnits bound \<le> fh_HeldUnits (ff_Hold facts)"
    and "within_bound bounds final from"
  shows "sd_BillingReason d \<noteq> BillingReasonUnbilledOverHold"
proof -
  from assms(1) have valid: "validateFinalizationFacts sha256 runID facts = Inr ()"
    and d: "decide (PriceSettlement sha256 decode) facts = Inr d" by (simp_all add: finalize_decision_Inr)
  note ids = billable_distinct [OF valid, unfolded assms(3)]
  have priced: ?thesis if "priceOrUnbilled (PriceSettlement sha256 decode) facts rs candidate = Inr d" for rs candidate
    using that
  proof (cases rule: priceOrUnbilled_cases)
    case (over quote items)
    from run_hold_covers [OF assms(2) ids assms(4,5) _ assms(7)] over(1,3) assms(3,6) show ?thesis by fastforce
  qed (simp_all add: decision_defs billing_reason_defs)
  from d show ?thesis
  proof (cases rule: decide_cases)
    case (release runStatus reason)
    with d show ?thesis
      by (auto simp: decide_def Let_def decision_defs billing_reason_defs priceOrUnbilled_def split: if_splits sum.splits)
  next
    case (unbilled runStatus)
    then show ?thesis by (simp add: unbilledDecision_def billing_reason_defs)
  qed (rule priced, assumption)+
qed

section \<open>A concrete settlement\<close>

definition demo_snapshot :: PricingSnapshot where
  "demo_snapshot = \<lparr>ps_SchemaVersion = 3, ps_Version = ''v1'', ps_CatalogVersion = ''v1'', ps_OverrideVersion = 0, ps_Billable = True,
     ps_CatalogVendor = ''vendor'', ps_TransportEngine = ''openai'', ps_RequestedModelID = ''m-1'', ps_CanonicalModelID = ''m-1'',
     ps_ContextWindowTokens = 1000, ps_CatalogMaxOutputTokens = 100, ps_EffectiveMaxOutputTokens = 100,
     ps_ContextTierThresholdTokens = 0, ps_MultiplierPPM = 1000000, ps_PriceSource = ''official'', ps_SourceURL = ''https'',
     ps_RetrievedAt = ''2026'',
     ps_Rates = [\<lparr>r_Category = InputTokens, r_Unit = ''token'', r_TierKey = [], r_PriceUnits = 1, r_UnitScale = 3\<rparr>,
       \<lparr>r_Category = OutputTokens, r_Unit = ''token'', r_TierKey = [], r_PriceUnits = 7, r_UnitScale = 3\<rparr>]\<rparr>"

definition demo_decode :: snapshot_decoder where
  "demo_decode text = Inr (demo_snapshot, [''price_source'', ''catalog_version'', ''override_version'',
     ''context_tier_threshold_tokens'', ''context_window_tokens''])"

abbreviation demo_pricer :: pricer where
  "demo_pricer \<equiv> PriceSettlement demo_sha256 demo_decode"

definition demo_settlement :: SettlementDecision where
  "demo_settlement = projr (finalize_decision demo_sha256 demo_pricer 11 demo_facts)"

lemma demo_parse: "ParsePricingSnapshot demo_decode (rs_PricingSnapshotJSON (ff_Run demo_facts)) = Inr demo_snapshot"
  by code_simp

lemma demo_settlement: "finalize_decision demo_sha256 demo_pricer 11 demo_facts = Inr demo_settlement"
proof -
  have "\<not> isl (finalize_decision demo_sha256 demo_pricer 11 demo_facts)" by code_simp
  then show ?thesis by (simp add: demo_settlement_def)
qed

lemma demo_settlement_fields: "sd_MoneyAction demo_settlement = SettlementMoneyCapture" "sd_ActualUnits demo_settlement = 127"
  "sd_BillingReason demo_settlement = BillingReasonSettledCompleteUsage"
  by code_simp+

definition demo_bounds :: "UsageItem list" where
  "demo_bounds = [\<lparr>u_Category = ''input'', u_Unit = ''token'', u_TierKey = [], u_Quantity = 300\<rparr>,
     \<lparr>u_Category = ''output'', u_Unit = ''token'', u_TierKey = [], u_Quantity = 42\<rparr>]"

theorem charge_is_exact_price_witness:
  "\<exists>s. sd_ActualUnits demo_settlement = \<lceil>sum_list (map (item_price (ps_MultiplierPPM s)) (sd_Items demo_settlement))\<rceil> \<and>
     (\<forall>item \<in> set (sd_Items demo_settlement). item_at_rate s item) \<and> sd_ActualUnits demo_settlement = 127"
  using charge_is_exact_price [OF demo_settlement demo_settlement_fields(1)] demo_settlement_fields(2) by blast

definition demo_bound :: QuoteResult where
  "demo_bound = projr (quotePricingSnapshot demo_snapshot demo_bounds ''bound'')"

theorem bounded_call_is_billed_witness:
  "quote_AmountUnits demo_bound = 198 \<and> sd_BillingReason demo_settlement \<noteq> BillingReasonUnbilledOverHold"
proof -
  have "\<not> isl (quotePricingSnapshot demo_snapshot demo_bounds ''bound'')" by code_simp
  then have bound: "quotePricingSnapshot demo_snapshot demo_bounds ''bound'' = Inr demo_bound" by (simp add: demo_bound_def)
  have units: "quote_AmountUnits demo_bound = 198" by code_simp
  have one: "billableAttempts demo_facts = [] @ [billable_attempt demo_attempt]" by code_simp
  have none: "demo_pricer \<lparr>sp_Run = ff_Run demo_facts, sp_Attempts = []\<rparr> = Inr \<lparr>sq_ActualUnits = 0, sq_Items = []\<rparr>"
    by code_simp
  have "fh_HeldUnits (ff_Hold demo_facts) = 200" by code_simp
  with units have hold: "sq_ActualUnits \<lparr>sq_ActualUnits = 0, sq_Items = []\<rparr> + quote_AmountUnits demo_bound \<le> fh_HeldUnits (ff_Hold demo_facts)"
    by simp
  have within: "within_bound demo_bounds (billable_attempt demo_attempt) [0, 1]" by code_simp
  from bounded_call_is_billed [OF demo_settlement demo_parse one none bound hold within] units show ?thesis by simp
qed

end
