(* ===== verification/AiSettlementProps.thy ===== *)
theory AiSettlementProps
  imports AiSettlement AiPricerProps WalletProps
begin

text \<open>
  What a settlement does to the books: a run that is still open makes exactly one step of the account of its
  user, the step its decision names, and its run, charge and items end in agreement with it; a settled run is
  left alone; a settlement that fails changes nothing. Runs, charges, items and the wallet tables are the books; what the steps of
  the transaction do beside them is taken away by frame lemmas.
\<close>

section \<open>The books\<close>

definition books :: "'z ai_tables_scheme \<Rightarrow>
    Run list \<times> UsageCharge list \<times> UsageChargeItem list \<times> Wallet list \<times> Hold list \<times> Transaction list" where
  "books d = (ai_runs d, ai_usage_charges d, ai_usage_charge_items d, wallets d, holds d, transactions d)"

lemma books_frame [simp]:
  "books (ai_provider_attempts_update p d) = books d" "books (ai_messages_update q d) = books d"
  "books (ai_conversations_update r d) = books d" "books (ai_reply_commands_update x d) = books d"
  "books (ai_run_events_update y d) = books d" "books (realtime_events_update z d) = books d"
  "books (ai_run_dashboard_facts_update f d) = books d" "books (ai_run_dashboard_daily_facts_update g d) = books d"
  "books (ai_reply_delivery_chunks_update h d) = books d"
  by (simp_all add: books_def)

lemma keeps_prod [keeps_intros]: "(\<And>a b. x = (a, b) \<Longrightarrow> keeps f (m a b)) \<Longrightarrow> keeps f (case x of (a, b) \<Rightarrow> m a b)"
  by (cases x) simp

lemma grows_prod [grows_intros]: "(\<And>a b. x = (a, b) \<Longrightarrow> grows (m a b)) \<Longrightarrow> grows (case x of (a, b) \<Rightarrow> m a b)"
  by (cases x) simp

lemma keeps_error [keeps_intros]: "keeps f (case e of RecordNotFound \<Rightarrow> m | MySQLError n msg \<Rightarrow> k n msg | OtherDbError x \<Rightarrow> l x)"
  if "keeps f m" "\<And>n msg. keeps f (k n msg)" "\<And>x. keeps f (l x)"
  using that by (cases e) simp_all

lemma grows_error [grows_intros]: "grows (case e of RecordNotFound \<Rightarrow> m | MySQLError n msg \<Rightarrow> k n msg | OtherDbError x \<Rightarrow> l x)"
  if "grows m" "\<And>n msg. grows (k n msg)" "\<And>x. grows (l x)"
  using that by (cases e) simp_all

lemma keeps_ai_error [keeps_intros]:
  assumes "\<And>d. keeps f (k d)" "keeps f m"
  shows "keeps f (case e of AiDb d \<Rightarrow> k d | _ \<Rightarrow> m)"
  using assms by (cases e) simp_all

lemma grows_ai_error [grows_intros]:
  assumes "\<And>d. grows (k d)" "grows m"
  shows "grows (case e of AiDb d \<Rightarrow> k d | _ \<Rightarrow> m)"
  using assms by (cases e) simp_all

lemma keeps_normalize: "keeps books (normalizeChatAttemptsForFinalization ae command attempts now)"
  unfolding normalizeChatAttemptsForFinalization_def by (intro keeps_intros; simp)

lemma keeps_projection: "keeps books (ProjectTerminalDashboardFacts ae runID)"
  unfolding ProjectTerminalDashboardFacts_def by (intro keeps_intros; simp add: insert_fact_def increment_daily_def)

lemma keeps_clear: "keeps books (clearChatResultCandidates ae runID)"
  unfolding clearChatResultCandidates_def by (intro keeps_intros; simp)

lemma keeps_insert_events: "keeps books (insert_events ae runID n now es)"
  by (induction es arbitrary: n) (simp_all add: keeps_intros)

lemma keeps_run_events: "keeps books (appendChatRunFinalizationEvents ae runID facts d now)"
  unfolding appendChatRunFinalizationEvents_def by (intro keeps_intros keeps_insert_events)

lemma keeps_event_id [keeps_intros]: "keeps f (new_event_id ae u)"
  by (simp add: keeps_def new_event_id_def)

lemma grows_event_id [grows_intros]: "grows (new_event_id ae u)"
  by (simp add: grows_def new_event_id_def)

lemma keeps_realtime: "keeps books (appendChatRealtimeFinalization ae command result input now)"
  unfolding appendChatRealtimeFinalization_def AppendTx_def by (intro keeps_intros; simp)

lemma keeps_paid_command: "keeps books (FinalizePaidCommandInTransaction ae input)"
  unfolding FinalizePaidCommandInTransaction_def publish_answer_def keep_stopped_def keep_delivered_def
    paidCommandConversationDeleted_def create_message_def touch_conversation_def ReadDeliveryPrefixInTransaction_def
  by (intro keeps_intros; simp)

lemma grows_insert_events: "grows (insert_events ae runID n now es)"
  by (induction es arbitrary: n) (simp_all add: grows_intros)

lemma grows_settlement_parts:
  "grows (normalizeChatAttemptsForFinalization ae command attempts now)"
  "grows (ProjectTerminalDashboardFacts ae runID)" "grows (clearChatResultCandidates ae runID)"
  "grows (appendChatRunFinalizationEvents ae runID facts d now)"
  "grows (appendChatRealtimeFinalization ae command result input now)"
  unfolding normalizeChatAttemptsForFinalization_def ProjectTerminalDashboardFacts_def clearChatResultCandidates_def
    appendChatRunFinalizationEvents_def appendChatRealtimeFinalization_def AppendTx_def
  by (intro grows_intros grows_insert_events)+

lemma grows_paid_command: "grows (FinalizePaidCommandInTransaction ae input)"
  unfolding FinalizePaidCommandInTransaction_def publish_answer_def keep_stopped_def keep_delivered_def
    paidCommandConversationDeleted_def create_message_def touch_conversation_def ReadDeliveryPrefixInTransaction_def
  by (intro grows_intros)

lemmas keeps_settlement_parts = keeps_normalize keeps_projection keeps_clear keeps_run_events keeps_realtime keeps_paid_command

section \<open>The steps of the books\<close>

lemma Returns_mono: "grows m \<Longrightarrow> Returns m s a t \<Longrightarrow> auto_inc s \<le> auto_inc t"
  using growsD [of m s] by (simp add: Returns_def)

lemma quiet_step:
  assumes "keeps books m" "grows m" "Returns m s a t"
  shows "books (tables t) = books (tables s)" "auto_inc s \<le> auto_inc t"
  using keepsD [OF assms(1,3)] Returns_mono [OF assms(2,3)] by simp_all

lemma insert_items_effect:
  assumes "Returns (insert_items ae chargeID now items) s () t"
  shows "\<exists>rows. tables t = ai_usage_charge_items_update (\<lambda>xs. xs @ rows) (tables s) \<and>
    map ci_AmountUnits rows = map ci_AmountUnits items \<and> (\<forall>r \<in> set rows. ci_ChargeID r = chargeID) \<and> auto_inc s \<le> auto_inc t"
  using assms
proof (induction items arbitrary: s)
  case (Cons item items)
  from Cons.prems obtain u where rest: "Returns (insert_items ae chargeID now items) u () t"
    and u: "tables u = ai_usage_charge_items_update (\<lambda>xs. xs @ [settled_item chargeID now item (auto_inc s)]) (tables s)"
      "auto_inc u = auto_inc s + 1"
    by (force simp: act_simps)
  from Cons.IH [OF rest] obtain rows where
    "tables t = ai_usage_charge_items_update (\<lambda>xs. xs @ rows) (tables u)"
    "map ci_AmountUnits rows = map ci_AmountUnits items" "\<forall>r \<in> set rows. ci_ChargeID r = chargeID" "auto_inc u \<le> auto_inc t"
    by blast
  then show ?case
    using u by (intro exI [of _ "settled_item chargeID now item (auto_inc s) # rows"]) (simp add: settled_item_def comp_def)
qed (auto simp: act_simps intro: exI [of _ "[]"])

definition items_total :: "int \<Rightarrow> UsageChargeItem list \<Rightarrow> int" where
  "items_total chargeID items = sum_list (map ci_AmountUnits (filter (\<lambda>i. ci_ChargeID i = chargeID) items))"

lemma items_total_append: "items_total c (xs @ ys) = items_total c xs + items_total c ys"
  by (simp add: items_total_def)

lemma items_total_own: "\<forall>r \<in> set rows. ci_ChargeID r = c \<Longrightarrow>
    items_total d rows = (if d = c then sum_list (map ci_AmountUnits rows) else 0)"
  by (induction rows) (auto simp: items_total_def)

lemma settled_items_effect:
  assumes "Returns (insertSettledUsageItems ae chargeID d now) s () t"
  shows "\<exists>rows. tables t = ai_usage_charge_items_update (\<lambda>xs. xs @ rows) (tables s) \<and>
    sum_list (map ci_AmountUnits rows) =
      (if sd_ChargeStatus d = ChargeStatusSettled then sum_list (map ci_AmountUnits (sd_Items d)) else 0) \<and>
    (\<forall>r \<in> set rows. ci_ChargeID r = chargeID) \<and> auto_inc s \<le> auto_inc t"
proof (cases "sd_ChargeStatus d = ChargeStatusSettled")
  case True
  with assms have "Returns (insert_items ae chargeID now (sd_Items d)) s () t" by (simp add: insertSettledUsageItems_def)
  from insert_items_effect [OF this] True show ?thesis by (metis (no_types))
next
  case False
  with assms show ?thesis by (auto simp: insertSettledUsageItems_def act_simps intro: exI [of _ "[]"])
qed

text \<open>The two rows that end, and nothing else of the books\<close>

definition ended :: "FinalizationFacts \<Rightarrow> SettlementDecision \<Rightarrow> Run \<Rightarrow> UsageCharge \<Rightarrow> int \<times> int \<times> int \<Rightarrow> int \<Rightarrow> gotime
    \<Rightarrow> 'z ai_tables_scheme \<Rightarrow> 'z ai_tables_scheme" where
  "ended facts d run charge tokens messageID now D =
     ai_usage_charges_update (change_rows (open_charge charge run) (finish_charge d now))
      (ai_runs_update (change_rows (open_run run) (finish_run facts d tokens (finalizationDurationMS (rn_StartedAt run) now)
        messageID now)) D)"

lemma finalizeChatRunAndCharge_effect:
  assumes "Returns (finalizeChatRunAndCharge ae run charge facts d result now) s () t"
  shows "\<exists>tokens. finalizationTokenTotals facts = Inr tokens \<and>
    length (filter (open_run run) (ai_runs (tables s))) = 1 \<and>
    length (filter (open_charge charge run) (ai_usage_charges (tables s))) = 1 \<and>
    books (tables t) = books (ended facts d run charge tokens (pr_AssistantMessageID result) now (tables s)) \<and>
    auto_inc s \<le> auto_inc t"
proof -
  let ?finish = "\<lambda>tokens. finish_run facts d tokens (finalizationDurationMS (rn_StartedAt run) now) (pr_AssistantMessageID result) now"
  from assms obtain tokens s1 s2 u where tokens: "Returns (pure_result (finalizationTokenTotals facts)) s tokens s1"
    and ends: "Returns (ai_update_one ae ai_runs ai_runs_update (PlainError ''AI Run terminal compare-and-set was rejected'')
        (open_run run) (?finish tokens)) s1 () s2"
      "Returns (ai_update_one ae ai_usage_charges ai_usage_charges_update
        (PlainError ''AI usage charge terminal compare-and-set was rejected'') (open_charge charge run) (finish_charge d now)) s2 () u"
    and rest: "Returns (ProjectTerminalDashboardFacts ae (rn_ID run)) u () t"
    unfolding finalizeChatRunAndCharge_def
    by (auto simp: Returns_if Returns_throw elim!: Returns_bindE split: if_splits)
  have s1: "finalizationTokenTotals facts = Inr tokens" "s1 = s" using tokens by (simp_all only: Returns_pure_result)
  have one: "length (filter (open_run run) (ai_runs (tables s))) = 1"
      "length (filter (open_charge charge run) (ai_usage_charges (tables s))) = 1"
    and u: "tables u = ended facts d run charge tokens (pr_AssistantMessageID result) now (tables s)" "auto_inc u = auto_inc s"
    using ends unfolding ended_def s1 Returns_ai_update_one by simp_all
  from quiet_step [OF keeps_projection grows_settlement_parts(2) rest] s1(1) one u show ?thesis by metis
qed

lemma facts_of_rows:
  assumes "buildChatFinalizationFacts ae run charge hold command attempts = Inr facts"
  shows "rs_RunID (ff_Run facts) = rn_ID run" "rs_UserID (ff_Run facts) = rn_UserID run"
    "rs_BillingStatus (ff_Run facts) = rn_BillingStatus run" "rn_Status run = AIRunStatusRunning"
    "ff_Charge facts = charge_fact charge" "ff_Hold facts = hold_fact charge hold"
  using assms by (auto simp: buildChatFinalizationFacts_def gatewayRunSnapshot_def split: sum.splits if_splits)

definition settled_books :: "FinalizationFacts \<Rightarrow> SettlementDecision \<Rightarrow> Run \<Rightarrow> UsageCharge \<Rightarrow> int \<times> int \<times> int \<Rightarrow> int \<Rightarrow> gotime
    \<Rightarrow> UsageChargeItem list \<Rightarrow> 'z ai_tables_scheme \<Rightarrow> 'z ai_tables_scheme" where
  "settled_books facts d run charge tokens messageID now rows D =
     ended facts d run charge tokens messageID now (ai_usage_charge_items_update (\<lambda>xs. xs @ rows) D)"

lemma books_parts:
  assumes "books D = books D'"
  shows "ai_runs D = ai_runs D'" "ai_usage_charges D = ai_usage_charges D'"
    "ai_usage_charge_items D = ai_usage_charge_items D'" "wallets D = wallets D'" "holds D = holds D'"
    "transactions D = transactions D'" "account_of D = account_of D'"
    "books (ended facts d run charge tokens m now D) = books (ended facts d run charge tokens m now D')"
  using assms by (simp_all add: books_def ended_def account_of_def)

lemma keeps_money:
  "keeps (\<lambda>d. (ai_runs d, ai_usage_charges d, ai_usage_charge_items d)) (applyChatMoneyDecision ae facts d)"
  unfolding applyChatMoneyDecision_def
  by (intro keeps_intros keeps_capture [where S = UNIV] keeps_release [where S = UNIV]; simp add: blind_to_def)

text \<open>The rows a settlement locks for a run\<close>

definition locked_rows :: "'z ai_tables_scheme \<Rightarrow> int \<Rightarrow> Run \<Rightarrow> UsageCharge \<Rightarrow> Wallet option \<Rightarrow> Hold option \<Rightarrow> bool" where
  "locked_rows D runID run charge wallet hold \<longleftrightarrow>
     find (\<lambda>r. rn_ID r = runID) (ai_runs D) = Some run \<and> find (\<lambda>c. ug_RunID c = runID) (ai_usage_charges D) = Some charge \<and>
     wallet = find (\<lambda>w. w_UserID w = rn_UserID run \<and> w_IsDel w = CommonNo) (wallets D) \<and>
     hold = find (\<lambda>h. h_RunID h = runID) (holds D)"

lemma lockChatSettlementMoneyGraph_effect:
  assumes "Returns (lockChatSettlementMoneyGraph ae runID) s (run, charge, wallet, hold) t"
  shows "tables t = tables s \<and> auto_inc t = auto_inc s \<and> locked_rows (tables s) runID run charge wallet hold"
  using assms unfolding lockChatSettlementMoneyGraph_def locked_rows_def by (simp add: act_simps split: if_splits)

lemma lockChatSettlementBusinessGraph_effect:
  assumes "Returns (lockChatSettlementBusinessGraph ae run) s r t"
  shows "tables t = tables s \<and> auto_inc t = auto_inc s"
  using assms unfolding lockChatSettlementBusinessGraph_def by (auto simp: act_simps)

lemma settle_open_effect:
  fixes s t :: "'z ai_tables_scheme world"
  assumes run: "Returns (settle_open ae deciding now run charge hold command locked) s () t"
  obtains attempts facts d and sa sb :: "'z ai_tables_scheme world" and rows tokens m where
    "buildChatFinalizationFacts ae run charge hold command attempts = Inr facts" "deciding facts = Inr d"
    "books (tables sa) = books (tables s)" "auto_inc s \<le> auto_inc sa"
    "Returns (applyChatMoneyDecision ae facts d) sa () sb" "auto_inc sb \<le> auto_inc t"
    "sum_list (map ci_AmountUnits rows) =
       (if sd_ChargeStatus d = ChargeStatusSettled then sum_list (map ci_AmountUnits (sd_Items d)) else 0)"
    "\<forall>r \<in> set rows. ci_ChargeID r = ug_ID charge"
    "length (filter (open_run run) (ai_runs (tables sb))) = 1"
    "length (filter (open_charge charge run) (ai_usage_charges (tables sb))) = 1"
    "books (tables t) = books (settled_books facts d run charge tokens m now rows (tables sb))"
proof -
  from run obtain attempts s1 facts d sb s3 input result s4 s5 s6 s7 e where
    s1: "Returns (normalizeChatAttemptsForFinalization ae command locked now) s attempts s1"
    and facts: "buildChatFinalizationFacts ae run charge hold command attempts = Inr facts" and d: "deciding facts = Inr d"
    and money: "Returns (applyChatMoneyDecision ae facts d) s1 () sb"
    and s3: "Returns (insertSettledUsageItems ae (ug_ID charge) d now) sb () s3"
    and s4: "Returns (FinalizePaidCommandInTransaction ae input) s3 result s4"
    and s5: "Returns (finalizeChatRunAndCharge ae run charge facts d result now) s4 () s5"
    and s6: "Returns (clearChatResultCandidates ae (rn_ID run)) s5 () s6"
    and s7: "Returns (appendChatRunFinalizationEvents ae (rn_ID run) facts d now) s6 () s7"
    and s8: "Returns (appendChatRealtimeFinalization ae command result input now) s7 e t"
    unfolding settle_open_def by (auto simp: Returns_pure_result Returns_ret elim!: Returns_bindE)
  note q = quiet_step [OF keeps_normalize grows_settlement_parts(1) s1] quiet_step [OF keeps_paid_command grows_paid_command s4]
    quiet_step [OF keeps_clear grows_settlement_parts(3) s6] quiet_step [OF keeps_run_events grows_settlement_parts(4) s7]
    quiet_step [OF keeps_realtime grows_settlement_parts(5) s8]
  from settled_items_effect [OF s3] obtain rows where rows: "tables s3 = ai_usage_charge_items_update (\<lambda>xs. xs @ rows) (tables sb)"
    "sum_list (map ci_AmountUnits rows) =
       (if sd_ChargeStatus d = ChargeStatusSettled then sum_list (map ci_AmountUnits (sd_Items d)) else 0)"
    "\<forall>r \<in> set rows. ci_ChargeID r = ug_ID charge" "auto_inc sb \<le> auto_inc s3" by blast
  from finalizeChatRunAndCharge_effect [OF s5] obtain tokens where
    one: "length (filter (open_run run) (ai_runs (tables s4))) = 1" "length (filter (open_charge charge run) (ai_usage_charges (tables s4))) = 1"
    and ends: "books (tables s5) = books (ended facts d run charge tokens (pr_AssistantMessageID result) now (tables s4))"
      "auto_inc s4 \<le> auto_inc s5" by blast
  show ?thesis
  proof (rule that [OF facts d q(1,2) money])
    show "books (tables t) = books (settled_books facts d run charge tokens (pr_AssistantMessageID result) now rows (tables sb))"
      unfolding settled_books_def q(9) q(7) q(5) ends(1) using books_parts(8) [OF q(3)] by (simp only: rows(1))
    show "auto_inc sb \<le> auto_inc t" using q rows(4) ends(2) by simp
  qed (use rows one books_parts(1,2) [OF q(3)] in simp_all)
qed

section \<open>The money of a settlement\<close>

text \<open>What the decision means for the account of the user\<close>

definition spec_settle :: "int \<Rightarrow> int \<Rightarrow> SettlementDecision \<Rightarrow> account_state \<Rightarrow> account_state option" where
  "spec_settle u r d A =
     (if sd_BillingStatus d = BillingStatusSettled then spec_capture u r (sd_ActualUnits d) A
      else if as_run A r = None then Some A else spec_release u r A)"

lemma spec_settle_run:
  assumes "spec_settle u r d A = Some B"
  shows "sd_BillingStatus d = BillingStatusSettled \<Longrightarrow> as_run B r = Some (u, RunCaptured (sd_ActualUnits d))"
    "sd_BillingStatus d \<noteq> BillingStatusSettled \<Longrightarrow> as_run B r = None \<or> as_run B r = Some (u, RunReleased)"
    "r' \<noteq> r \<Longrightarrow> as_run B r' = as_run A r'"
  using assms by (auto simp: spec_settle_def spec_capture_def spec_release_def split: option.splits run_state.splits if_splits)

text \<open>What is booked for a run follows from the state of its hold.\<close>

definition run_charge :: "(int \<times> run_state) option \<Rightarrow> int option" where
  "run_charge x = (case x of Some (u, RunCaptured c) \<Rightarrow> if c = 0 then None else Some c | _ \<Rightarrow> None)"

lemma ai_rows_Nil: "ai_rows r ts = [] \<longleftrightarrow> (SourceAIGenerate, r) \<notin> source_of ` set ts"
  by (force simp: ai_rows_def filter_empty_conv source_of_def)

lemma ledger_of_run:
  assumes inv: "wallet_inv D"
  shows "as_ledger (account_of D) (SourceAIGenerate, r) = run_charge (as_run (account_of D) r)"
proof (cases "find (\<lambda>h. h_RunID h = r) (holds D)")
  case None
  have "t_SourceID t \<noteq> r" if "t \<in> set (transactions D)" "t_SourceType t = SourceAIGenerate" for t
    using wallet_invD(4) [OF inv that(1)] that(2) None by (auto simp: transaction_ok_def find_None_iff)
  then have "(SourceAIGenerate, r) \<notin> source_of ` set (transactions D)" unfolding source_of_def by force
  then have "as_ledger (account_of D) (SourceAIGenerate, r) = None" by (simp add: account_of_def row_map_None)
  moreover have "as_run (account_of D) r = None" using None by (simp add: account_of_no_hold)
  ultimately show ?thesis by (simp add: run_charge_def)
next
  case (Some h)
  then have h: "h \<in> set (holds D)" "h_RunID h = r" by (auto simp: find_Some_iff)
  note ok = wallet_invD(3) [OF inv h(1)]
  have run: "as_run (account_of D) r = Some (run_of h)" using account_of_hold [OF inv h(1)] h(2) by simp
  have charge: "run_charge (Some (run_of h)) = (if h_CapturedUnits h = 0 then None else Some (h_CapturedUnits h))"
    using ok by (auto simp: hold_ok_def run_of_def run_state_of_def run_charge_def hold_status_defs)
  show ?thesis
  proof (cases "h_CapturedUnits h = 0")
    case True
    then have "ai_rows r (transactions D) = []" using ok h(2) by (simp add: hold_ok_def)
    then show ?thesis using True run charge by (simp add: ai_rows_Nil account_of_def row_map_None)
  next
    case False
    then obtain x where x: "ai_rows r (transactions D) = [x]" "t_AmountUnits x = h_CapturedUnits h"
      using ok h(2) by (auto simp: hold_ok_def)
    from x(1) have "x \<in> set (ai_rows r (transactions D))" by simp
    then have "x \<in> set (transactions D)" "source_of x = (SourceAIGenerate, r)" by (auto simp: ai_rows_def source_of_def)
    with account_of_source [OF inv this(1)] x(2) False run charge show ?thesis by simp
  qed
qed

lemma decision_shape:
  assumes "finalize_decision sha256 price runID facts = Inr d"
  shows "sd_ChargeStatus d = sd_BillingStatus d \<and> sd_RunStatus d \<in> {''success'', ''canceled'', ''failed'', ''outcome_unknown''} \<and>
    (if sd_BillingStatus d = BillingStatusSettled
     then sd_MoneyAction d = SettlementMoneyCapture \<and> 0 \<le> sd_ActualUnits d \<and>
       sum_list (map ci_AmountUnits (sd_Items d)) = sd_ActualUnits d
     else sd_MoneyAction d = SettlementMoneyRelease \<and> sd_BillingStatus d \<in> {BillingStatusReleased, BillingStatusUnbilled})"
  (is "?shape d")
proof -
  have priced: "?shape d" if "priceOrUnbilled price facts st cand = Inr d" "st \<in> {''success'', ''canceled'', ''failed''}" for st cand
    using that(1)
  proof (cases rule: priceOrUnbilled_cases)
    case (capture quote items)
    note v = validateSettlementQuote_Inr [OF capture(2)]
    have "sum_list (map ci_AmountUnits items) = sq_ActualUnits quote" using v(1,3) by (simp add: comp_def)
    then show ?thesis using capture(4) v(2) that(2) by (auto simp: decision_defs billing_status_defs charge_status_defs)
  qed (use that(2) in \<open>auto simp: decision_defs billing_status_defs charge_status_defs\<close>)
  from assms have "decide price facts = Inr d" by (simp add: finalize_decision_Inr)
  then show ?thesis
    by (cases rule: decide_cases) (use priced in \<open>auto simp: decision_defs billing_status_defs charge_status_defs\<close>)
qed

lemma money_effect:
  fixes sa sb :: "'z ai_tables_scheme world"
  assumes ok: "wallet_state_ok sa" and facts: "buildChatFinalizationFacts ae run charge hold command attempts = Inr facts"
    and d: "finalize_decision sha256 price (rn_ID run) facts = Inr d"
    and hold: "hold = find (\<lambda>h. h_RunID h = rn_ID run) (holds (tables sa))"
    and money: "Returns (applyChatMoneyDecision ae facts d) sa () sb"
  shows "wallet_state_ok sb \<and> auto_inc sa \<le> auto_inc sb \<and>
    spec_settle (rn_UserID run) (rn_ID run) d (account_of (tables sa)) = Some (account_of (tables sb))"
proof -
  note f = facts_of_rows [OF facts] and shape = decision_shape [OF d]
  note inv = wallet_state_okD(1) [OF ok]
  show ?thesis
  proof (cases "sd_BillingStatus d = BillingStatusSettled")
    case True
    with shape have act: "sd_MoneyAction d = SettlementMoneyCapture" by simp
    with money obtain w ledger where "Returns (CaptureHoldInTx True (ae_db ae) open_tx
        \<lparr>cap_UserID = rn_UserID run, cap_RunID = rn_ID run, cap_ActualUnits = sd_ActualUnits d, cap_SourceSummary = sd_LedgerSummary d\<rparr>)
        sa (w, ledger) sb"
      using f by (auto simp: applyChatMoneyDecision_def act_simps split: if_splits)
    from CaptureHold_effect [OF ok this] True show ?thesis by (simp add: spec_settle_def)
  next
    case False
    with shape have act: "sd_MoneyAction d = SettlementMoneyRelease" by simp
    have no: "fh_ID (ff_Hold facts) = 0 \<longleftrightarrow> hold = None"
    proof (cases hold)
      case (Some h)
      with hold have "h \<in> set (holds (tables sa))" by (metis find_Some_iff nth_mem)
      with wallet_invD(3) [OF inv] Some f(6) show ?thesis by (fastforce simp: hold_fact_def hold_ok_def)
    qed (simp add: f(6) hold_fact_def no_hold_def)
    show ?thesis
    proof (cases hold)
      case None
      with act no money have "sb = sa" by (auto simp: applyChatMoneyDecision_def act_simps settlement_action_defs split: if_splits)
      with None hold account_of_no_hold [of "tables sa" "rn_ID run"] False ok show ?thesis by (simp add: spec_settle_def)
    next
      case (Some h)
      with act no money f obtain h' where "Returns (ReleaseHoldInTx True (ae_db ae) open_tx (rn_UserID run) (rn_ID run)) sa h' sb"
        by (auto simp: applyChatMoneyDecision_def act_simps settlement_action_defs split: if_splits)
      moreover have "as_run (account_of (tables sa)) (rn_ID run) \<noteq> None" using Some hold by (simp add: account_of_no_hold)
      ultimately show ?thesis using ReleaseHold_effect [OF ok] False by (auto simp: spec_settle_def)
    qed
  qed
qed

section \<open>The books agree\<close>

text \<open>
  An open run has an open charge without items. A finished one has a charge in its own billing status whose items add up
  to what is charged; when it is settled its hold was captured at that amount, otherwise nothing is charged and
  nothing is held; and the ledger of the wallet books for the run exactly what is charged.
\<close>

definition charge_agrees :: "account_state \<Rightarrow> UsageChargeItem list \<Rightarrow> Run \<Rightarrow> UsageCharge \<Rightarrow> bool" where
  "charge_agrees A items r c \<longleftrightarrow>
     (if rn_Status r = AIRunStatusRunning then
        ug_Status c = ChargeStatusOpen \<and> ug_FinalizedAt c = None \<and> items_total (ug_ID c) items = 0
      else
        ug_FinalizedAt c \<noteq> None \<and> ug_Status c = rn_BillingStatus r \<and> items_total (ug_ID c) items = ug_ActualUnits c \<and>
        as_ledger A (SourceAIGenerate, rn_ID r) = (if ug_ActualUnits c = 0 then None else Some (ug_ActualUnits c)) \<and>
        (if rn_BillingStatus r = BillingStatusSettled
         then as_run A (rn_ID r) = Some (rn_UserID r, RunCaptured (ug_ActualUnits c))
         else rn_BillingStatus r \<in> {BillingStatusReleased, BillingStatusUnbilled} \<and> ug_ActualUnits c = 0 \<and>
           (as_run A (rn_ID r) = None \<or> as_run A (rn_ID r) = Some (rn_UserID r, RunReleased))))"

definition books_ok :: "'z ai_tables_scheme \<Rightarrow> bool" where
  "books_ok D \<longleftrightarrow> wallet_inv D \<and> distinct (map rn_ID (ai_runs D)) \<and> distinct (map ug_ID (ai_usage_charges D)) \<and>
     distinct (map ug_RunID (ai_usage_charges D)) \<and>
     (\<forall>r \<in> set (ai_runs D). \<forall>c \<in> set (ai_usage_charges D). ug_RunID c = rn_ID r \<longrightarrow>
        charge_agrees (account_of D) (ai_usage_charge_items D) r c)"

lemma books_ok_books: "books D = books D' \<Longrightarrow> books_ok D \<longleftrightarrow> books_ok D'"
  unfolding books_ok_def wallet_inv_def wallet_keys_def using books_parts [of D D'] by simp

lemma distinct_found: "distinct (map f xs) \<Longrightarrow> find P xs = Some x \<Longrightarrow> y \<in> set xs \<Longrightarrow> f y = f x \<Longrightarrow> y = x"
  by (metis find_Some_iff distinct_map inj_onD nth_mem)

lemma changed_row:
  assumes "y \<in> set (change_rows P g xs)"
  obtains x where "x \<in> set xs" "P x" "y = g x" | "y \<in> set xs" "\<not> P y"
  using assms by (auto simp: change_rows_def split: if_splits)

lemma finish_run_simps [simp]:
  "rn_ID (finish_run facts d tokens n m now r) = rn_ID r" "rn_UserID (finish_run facts d tokens n m now r) = rn_UserID r"
  "rn_Status (finish_run facts d tokens n m now r) = sd_RunStatus d"
  "rn_BillingStatus (finish_run facts d tokens n m now r) = sd_BillingStatus d"
  by (cases tokens; simp add: finish_run_def)+

lemma finish_charge_simps [simp]:
  "ug_ID (finish_charge d now c) = ug_ID c" "ug_RunID (finish_charge d now c) = ug_RunID c"
  "ug_Status (finish_charge d now c) = sd_ChargeStatus d" "ug_FinalizedAt (finish_charge d now c) = Some now"
  "ug_ActualUnits (finish_charge d now c) = (if sd_ChargeStatus d = ChargeStatusSettled then sd_ActualUnits d else 0)"
  by (simp_all add: finish_charge_def)

lemma found_in: "find P xs = Some x \<Longrightarrow> x \<in> set xs \<and> P x"
  by (auto simp: find_Some_iff)

lemma books_okD:
  assumes "books_ok D"
  shows "wallet_inv D" "distinct (map rn_ID (ai_runs D))" "distinct (map ug_ID (ai_usage_charges D))"
    "distinct (map ug_RunID (ai_usage_charges D))"
    "r \<in> set (ai_runs D) \<Longrightarrow> c \<in> set (ai_usage_charges D) \<Longrightarrow> ug_RunID c = rn_ID r \<Longrightarrow>
       charge_agrees (account_of D) (ai_usage_charge_items D) r c"
  using assms by (auto simp: books_ok_def)

lemma charge_agrees_frame:
  assumes "as_run B (rn_ID r) = as_run A (rn_ID r)" "as_ledger B (SourceAIGenerate, rn_ID r) = as_ledger A (SourceAIGenerate, rn_ID r)"
    and "items_total (ug_ID c) items' = items_total (ug_ID c) items"
  shows "charge_agrees B items' r c \<longleftrightarrow> charge_agrees A items r c"
  using assms by (simp add: charge_agrees_def)

lemma one_open:
  assumes "distinct (map f xs)" "x \<in> set xs" "\<And>y. P y \<Longrightarrow> f y = f x" "length (filter P xs) = 1"
  shows "P x" "\<And>y. y \<in> set xs \<Longrightarrow> P y \<Longrightarrow> y = x"
proof -
  have same: "y = x" if "y \<in> set xs" "P y" for y
    using assms(1,2) assms(3) [OF that(2)] that(1) by (metis distinct_map inj_onD)
  from assms(4) have "filter P xs \<noteq> []" by auto
  then obtain y where "y \<in> set xs" "P y" by (auto simp: filter_empty_conv)
  with same show "P x" by blast
  show "\<And>y. y \<in> set xs \<Longrightarrow> P y \<Longrightarrow> y = x" by (rule same)
qed

lemma settled_agrees:
  assumes inv: "wallet_inv E" and spec: "spec_settle (rn_UserID run) (rn_ID run) d A = Some (account_of E)"
    and d: "finalize_decision sha256 price runID facts = Inr d"
    and empty: "items_total (ug_ID charge) items = 0" and own: "\<forall>r \<in> set rows. ci_ChargeID r = ug_ID charge"
    and sum: "sum_list (map ci_AmountUnits rows) =
       (if sd_ChargeStatus d = ChargeStatusSettled then sum_list (map ci_AmountUnits (sd_Items d)) else 0)"
  shows "charge_agrees (account_of E) (items @ rows) (finish_run facts d tokens n m now run) (finish_charge d now charge)"
proof -
  note shape = decision_shape [OF d]
  have total: "items_total (ug_ID charge) (items @ rows) = (if sd_BillingStatus d = BillingStatusSettled then sd_ActualUnits d else 0)"
    using items_total_own [OF own, of "ug_ID charge"] sum shape empty
    by (simp add: items_total_append billing_status_defs charge_status_defs split: if_splits)
  have running: "sd_RunStatus d \<noteq> AIRunStatusRunning" using shape by (auto simp: run_status_defs)
  show ?thesis
  proof (cases "sd_BillingStatus d = BillingStatusSettled")
    case True
    with spec_settle_run(1) [OF spec] shape total running show ?thesis
      by (simp add: charge_agrees_def ledger_of_run [OF inv] run_charge_def billing_status_defs charge_status_defs)
  next
    case False
    with spec_settle_run(2) [OF spec] shape total running show ?thesis
      by (auto simp: charge_agrees_def ledger_of_run [OF inv] run_charge_def billing_status_defs charge_status_defs)
  qed
qed

lemma settled_books_ok:
  assumes ok: "books_ok D" and inv: "wallet_inv E"
    and frame: "ai_runs E = ai_runs D" "ai_usage_charges E = ai_usage_charges D" "ai_usage_charge_items E = ai_usage_charge_items D"
    and lock: "run \<in> set (ai_runs D)" "charge \<in> set (ai_usage_charges D)" "ug_RunID charge = rn_ID run"
    and one: "length (filter (open_run run) (ai_runs E)) = 1" "length (filter (open_charge charge run) (ai_usage_charges E)) = 1"
    and spec: "spec_settle (rn_UserID run) (rn_ID run) d (account_of D) = Some (account_of E)"
    and d: "finalize_decision sha256 price runID facts = Inr d" and own: "\<forall>r \<in> set rows. ci_ChargeID r = ug_ID charge"
    and sum: "sum_list (map ci_AmountUnits rows) =
       (if sd_ChargeStatus d = ChargeStatusSettled then sum_list (map ci_AmountUnits (sd_Items d)) else 0)"
  shows "books_ok (settled_books facts d run charge tokens m now rows E)"
proof -
  let ?T = "settled_books facts d run charge tokens m now rows E"
  let ?F = "finish_run facts d tokens (finalizationDurationMS (rn_StartedAt run) now) m now"
  note D = books_okD [OF ok]
  have T: "ai_runs ?T = change_rows (open_run run) ?F (ai_runs D)" "account_of ?T = account_of E"
    "ai_usage_charges ?T = change_rows (open_charge charge run) (finish_charge d now) (ai_usage_charges D)"
    "ai_usage_charge_items ?T = ai_usage_charge_items D @ rows" "wallet_inv ?T = wallet_inv E"
    by (simp_all add: settled_books_def ended_def frame account_of_def wallet_inv_def wallet_keys_def)
  have openr: "open_run run run" "\<And>y. y \<in> set (ai_runs D) \<Longrightarrow> open_run run y \<Longrightarrow> y = run"
    using one_open [OF D(2) lock(1) _ one(1) [unfolded frame]] by (auto simp: open_run_def)
  have openc: "open_charge charge run charge" "\<And>y. y \<in> set (ai_usage_charges D) \<Longrightarrow> open_charge charge run y \<Longrightarrow> y = charge"
    using one_open [OF D(3) lock(2) _ one(2) [unfolded frame]] by (auto simp: open_charge_def)
  have run_key: "r = run" if "r \<in> set (ai_runs D)" "rn_ID r = rn_ID run" for r
    using D(2) that lock(1) by (metis distinct_map inj_onD)
  have charge_key: "c = charge" if "c \<in> set (ai_usage_charges D)" "ug_RunID c = rn_ID run" for c
    using D(4) that lock(2,3) by (metis distinct_map inj_onD)
  have charge_id: "c = charge" if "c \<in> set (ai_usage_charges D)" "ug_ID c = ug_ID charge" for c
    using D(3) that lock(2) by (metis distinct_map inj_onD)
  have "charge_agrees (account_of E) (ai_usage_charge_items D @ rows) r c"
    if r: "r \<in> set (ai_runs ?T)" and c: "c \<in> set (ai_usage_charges ?T)" and rc: "ug_RunID c = rn_ID r" for r c
    using r [unfolded T]
  proof (cases rule: changed_row)
    case (1 x)
    then have x: "x = run" "rn_ID r = rn_ID run" using openr(2) by auto
    have "items_total (ug_ID charge) (ai_usage_charge_items D) = 0"
      using D(5) [OF lock] openr(1) by (simp add: charge_agrees_def open_run_def)
    moreover from c [unfolded T] have "c = finish_charge d now charge"
      by (cases rule: changed_row) (use openc charge_key rc x in auto)
    ultimately show ?thesis using settled_agrees [OF inv spec d _ own sum] 1(3) x(1) by simp
  next
    case 2
    then have other: "rn_ID r \<noteq> rn_ID run" using run_key openr(1) by blast
    from c [unfolded T] have c': "c \<in> set (ai_usage_charges D)"
      by (cases rule: changed_row) (use other rc in \<open>auto simp: open_charge_def\<close>)
    have "ug_ID c \<noteq> ug_ID charge" using charge_id [OF c'] other rc lock(3) by auto
    then have "items_total (ug_ID c) (ai_usage_charge_items D @ rows) = items_total (ug_ID c) (ai_usage_charge_items D)"
      using items_total_own [OF own] by (simp add: items_total_append)
    then show ?thesis
      using D(5) [OF 2(1) c' rc] spec_settle_run(3) [OF spec other]
        charge_agrees_frame [of "account_of E" r "account_of D"] ledger_of_run [OF inv] ledger_of_run [OF D(1)] by simp
  qed
  moreover have "distinct (map rn_ID (ai_runs ?T))" "distinct (map ug_ID (ai_usage_charges ?T))" "distinct (map ug_RunID (ai_usage_charges ?T))"
    using D(2-4) by (simp_all add: T map_change_rows)
  ultimately show ?thesis using inv unfolding books_ok_def T(2,4,5) by blast
qed

lemma find_change_rows:
  "(\<And>x. P (g x) = P x) \<Longrightarrow> find P (change_rows Q g xs) = map_option (\<lambda>x. if Q x then g x else x) (find P xs)"
  by (induction xs) (auto simp: change_rows_def)

section \<open>The settlement as a whole\<close>

text \<open>The rows of a run: its own and its charge\<close>

definition rows_of :: "int \<Rightarrow> 'z ai_tables_scheme \<Rightarrow> Run option \<times> UsageCharge option" where
  "rows_of k D = (find (\<lambda>r. rn_ID r = k) (ai_runs D), find (\<lambda>c. ug_RunID c = k) (ai_usage_charges D))"

text \<open>How a run that was open ends: its account makes the step of the decision, run and charge take its statuses, and no other run is touched\<close>

definition run_settled :: "ai_env \<Rightarrow> pricer \<Rightarrow> int \<Rightarrow> 'z ai_tables_scheme \<Rightarrow> 'z ai_tables_scheme \<Rightarrow> bool" where
  "run_settled ae price runID D T \<longleftrightarrow> (\<exists>run charge wallet hold command attempts facts d run' charge'.
     locked_rows D runID run charge wallet hold \<and> rn_Status run = AIRunStatusRunning \<and>
     buildChatFinalizationFacts ae run charge hold command attempts = Inr facts \<and>
     finalize_decision (ae_sha256 ae) price runID facts = Inr d \<and>
     spec_settle (rn_UserID run) runID d (account_of D) = Some (account_of T) \<and>
     find (\<lambda>r. rn_ID r = runID) (ai_runs T) = Some run' \<and> find (\<lambda>c. ug_RunID c = runID) (ai_usage_charges T) = Some charge' \<and>
     rn_Status run' = sd_RunStatus d \<and> rn_BillingStatus run' = sd_BillingStatus d \<and> ug_Status charge' = sd_ChargeStatus d \<and>
     (\<forall>k. k \<noteq> runID \<longrightarrow> rows_of k T = rows_of k D))"

lemma settle_open_books:
  fixes s t :: "'z ai_tables_scheme world"
  assumes ok: "wallet_state_ok s" "books_ok (tables s)" and lock: "locked_rows (tables s) runID run charge wallet hold"
    and run: "Returns (settle_open ae (finalize_decision (ae_sha256 ae) price runID) now run charge hold command locked) s () t"
  shows "wallet_state_ok t \<and> books_ok (tables t) \<and> auto_inc s \<le> auto_inc t \<and> run_settled ae price runID (tables s) (tables t)"
proof -
  from lock have rows: "run \<in> set (ai_runs (tables s))" "charge \<in> set (ai_usage_charges (tables s))"
    "rn_ID run = runID" "ug_RunID charge = runID"
    using found_in unfolding locked_rows_def by fastforce+
  from run obtain attempts facts d and sa sb :: "'z ai_tables_scheme world" and items tokens m where
    facts: "buildChatFinalizationFacts ae run charge hold command attempts = Inr facts"
    and d: "finalize_decision (ae_sha256 ae) price runID facts = Inr d"
    and sa: "books (tables sa) = books (tables s)" "auto_inc s \<le> auto_inc sa"
    and money: "Returns (applyChatMoneyDecision ae facts d) sa () sb" and later: "auto_inc sb \<le> auto_inc t"
    and items: "sum_list (map ci_AmountUnits items) =
       (if sd_ChargeStatus d = ChargeStatusSettled then sum_list (map ci_AmountUnits (sd_Items d)) else 0)"
      "\<forall>r \<in> set items. ci_ChargeID r = ug_ID charge"
    and one: "length (filter (open_run run) (ai_runs (tables sb))) = 1"
      "length (filter (open_charge charge run) (ai_usage_charges (tables sb))) = 1"
    and t: "books (tables t) = books (settled_books facts d run charge tokens m now items (tables sb))"
    by (rule settle_open_effect)
  note B = books_parts [OF sa(1)]
  have "wallet_state_ok sa" by (rule wallet_state_ok_frame [OF ok(1) B(4,6,5) sa(2)])
  note M = money_effect [OF this facts d [folded rows(3)] _ money]
  have hold: "hold = find (\<lambda>h. h_RunID h = rn_ID run) (holds (tables sa))" using lock rows(3) B(5) by (simp add: locked_rows_def)
  note M = M [OF hold, unfolded B(7)]
  have frame: "ai_runs (tables sb) = ai_runs (tables s)" "ai_usage_charges (tables sb) = ai_usage_charges (tables s)"
    "ai_usage_charge_items (tables sb) = ai_usage_charge_items (tables s)"
    using keepsD [OF keeps_money money] B(1-3) by simp_all
  let ?T = "settled_books facts d run charge tokens m now items (tables sb)"
  have T: "wallets ?T = wallets (tables sb)" "transactions ?T = transactions (tables sb)" "holds ?T = holds (tables sb)"
    by (simp_all add: settled_books_def ended_def)
  note P = books_parts [OF t]
  have okt: "wallet_state_ok t" using M P(4,5,6) T later by (intro wallet_state_ok_frame [of sb t]) simp_all
  have acc: "account_of (tables t) = account_of (tables sb)" using P(4,5,6) T by (intro account_of_frame) simp_all
  have "books_ok ?T"
    using settled_books_ok [OF ok(2) wallet_state_okD(1) frame rows(1,2) _ one _ d items(2,1)] M rows(3,4) by simp
  then have "books_ok (tables t)" using books_ok_books [OF t] by simp
  moreover have "run_settled ae price runID (tables s) (tables t)"
  proof -
    let ?F = "finish_run facts d tokens (finalizationDurationMS (rn_StartedAt run) now) m now"
    note D = books_okD [OF ok(2)]
    have "open_run run run" "open_charge charge run charge"
      using one_open(1) [OF D(2) rows(1) _ one(1) [unfolded frame]] one_open(1) [OF D(3) rows(2) _ one(2) [unfolded frame]]
      by (auto simp: open_run_def open_charge_def)
    then have "find (\<lambda>r. rn_ID r = runID) (ai_runs (tables t)) = Some (?F run)"
      "find (\<lambda>c. ug_RunID c = runID) (ai_usage_charges (tables t)) = Some (finish_charge d now charge)"
      using lock unfolding P(1,2) settled_books_def ended_def locked_rows_def by (simp_all add: find_change_rows frame)
    moreover have "rows_of k (tables t) = rows_of k (tables s)" if "k \<noteq> runID" for k
      using that rows(3) unfolding rows_of_def P(1,2) settled_books_def ended_def
      by (auto simp: find_change_rows frame open_run_def open_charge_def option.map_id0 find_Some_iff
          intro!: option.map_ident_strong)
    ultimately show ?thesis
      unfolding run_settled_def
      using lock facts d M facts_of_rows(4) [OF facts] rows(3)
      by (intro exI conjI; (assumption | simp only: acc)?) simp_all
  qed
  ultimately show ?thesis using okt sa(2) M later by linarith
qed

lemma settle_locked_books:
  fixes s t :: "'z ai_tables_scheme world"
  assumes ok: "wallet_state_ok s" "books_ok (tables s)"
    and run: "Returns (settle_locked ae runID (finalize_decision (ae_sha256 ae) price runID) now) s (commandID, replayed) t"
  shows "wallet_state_ok t \<and> books_ok (tables t) \<and> auto_inc s \<le> auto_inc t \<and>
    (if replayed then books (tables t) = books (tables s) \<and>
       (\<exists>run charge wallet hold. locked_rows (tables s) runID run charge wallet hold \<and> terminalChatBilling run charge)
     else run_settled ae price runID (tables s) (tables t))"
proof -
  from run obtain r charge wallet hold command attempts s1 s2 where
    lock: "Returns (lockChatSettlementMoneyGraph ae runID) s (r, charge, wallet, hold) s1"
    and lock2: "Returns (lockChatSettlementBusinessGraph ae r) s1 (command, attempts) s2"
    and rest: "Returns (settle_rows ae (finalize_decision (ae_sha256 ae) price runID) now r charge wallet hold command attempts)
       s2 (commandID, replayed) t"
    unfolding settle_locked_def by (auto elim!: Returns_bindE)
  note L = lockChatSettlementMoneyGraph_effect [OF lock] lockChatSettlementBusinessGraph_effect [OF lock2]
  have s2: "tables s2 = tables s" "auto_inc s2 = auto_inc s" using L by simp_all
  have ok2: "wallet_state_ok s2" using ok(1) by (simp add: wallet_state_ok_def s2)
  show ?thesis
  proof (cases "terminalChatBilling r charge")
    case True
    with rest have replay: "Returns (ProjectTerminalDashboardFacts ae (rn_ID r)) s2 () t" "replayed"
      by (auto simp: settle_rows_def Returns_pure_result Returns_ret elim!: Returns_bindE)
    note q = quiet_step [OF keeps_projection grows_settlement_parts(2) replay(1)]
    note P = books_parts [OF q(1)]
    have "wallet_state_ok t" using P(4,5,6) q(2) ok2 by (intro wallet_state_ok_frame [of s2 t]) simp_all
    moreover have "books_ok (tables t)" using books_ok_books [OF q(1)] ok(2) s2 by simp
    ultimately show ?thesis using replay(2) q s2 L True by auto
  next
    case False
    with rest have new: "Returns (settle_open ae (finalize_decision (ae_sha256 ae) price runID) now r charge hold command attempts) s2 () t"
        "\<not> replayed"
      by (auto simp: settle_rows_def Returns_throw Returns_ret elim!: Returns_bindE split: if_splits)
    from settle_open_books [OF ok2 _ _ new(1), of wallet] L ok(2) new(2) show ?thesis by (simp add: s2)
  qed
qed

lemma keeps_cleanup: "keeps books (cleanup_batches ae commandID n)"
proof (induction n)
  case (Suc n)
  have "keeps books (DeleteDeliveryChunks ae commandID 256)"
    unfolding DeleteDeliveryChunks_def Let_def by (intro keeps_intros) (simp add: keeps_def)
  with Suc show ?case by (auto intro!: keeps_intros)
qed (simp add: keeps_intros)

lemma grows_cleanup: "grows (cleanup_batches ae commandID n)"
proof (induction n)
  case (Suc n)
  have "grows (DeleteDeliveryChunks ae commandID 256)"
    unfolding DeleteDeliveryChunks_def Let_def by (intro grows_intros) (simp add: grows_def)
  with Suc show ?case by (auto intro!: grows_intros)
qed (simp add: grows_intros)

lemma tidy_effect:
  assumes "Returns (tidy_chunks ae commandID) s () t"
  shows "books (tables t) = books (tables s)" "auto_inc s \<le> auto_inc t"
proof -
  have "keeps books (tidy_chunks ae commandID)" "grows (tidy_chunks ae commandID)"
    unfolding tidy_chunks_def CleanupDeliveryChunks_def by (intro keeps_intros grows_intros keeps_cleanup grows_cleanup)+
  from quiet_step [OF this assms] show "books (tables t) = books (tables s)" "auto_inc s \<le> auto_inc t" .
qed

text \<open>Everything a call of the finalizer that returns has done to the books\<close>

lemma Finalize_books:
  fixes s t :: "'z ai_tables_scheme world"
  assumes ok: "wallet_state_ok s" "books_ok (tables s)" and run: "Returns (Finalize ae price runID) s () t"
  shows "wallet_state_ok t \<and> books_ok (tables t) \<and> auto_inc s \<le> auto_inc t \<and>
    (books (tables t) = books (tables s) \<and>
       (\<exists>run charge wallet hold. locked_rows (tables s) runID run charge wallet hold \<and> terminalChatBilling run charge) \<or>
     run_settled ae price runID (tables s) (tables t))"
proof -
  let ?now = "ev_now (ae_db ae) (clock_no (ticked s))"
  from run obtain u v commandID replayed where
    body: "Returns (settle_locked ae runID (finalize_decision (ae_sha256 ae) price runID) ?now) u (commandID, replayed) v"
    and u: "u = sent (ticked (ticked s))"
    and tidy: "Returns (tidy_chunks ae commandID) (sent v) () t"
    unfolding Finalize_def WithLockedSettlement_def
    by (auto simp: Returns_transaction Returns_read_clock Returns_ret Returns_throw elim!: Returns_bindE split: if_splits)
  have oku: "wallet_state_ok u" "books_ok (tables u)" using ok u by (simp_all add: wallet_state_ok_def)
  note S = settle_locked_books [OF oku body] and C = tidy_effect [OF tidy]
  note P = books_parts [OF C(1)]
  have okt: "wallet_state_ok t" using S P(4,5,6) C(2) by (intro wallet_state_ok_frame [of v t]) simp_all
  have "run_settled ae price runID (tables s) (tables t)" if "run_settled ae price runID (tables u) (tables v)"
    using that u P(1,2,7) by (simp add: run_settled_def rows_of_def)
  then show ?thesis using S C okt books_ok_books [OF C(1)] u by (cases replayed) auto
qed

text \<open>A call that fails leaves every table as it was.\<close>

lemma Fails_tidy: "\<not> Fails (tidy_chunks ae commandID) s e t"
  by (simp add: tidy_chunks_def act_simps)

lemma Finalize_fails:
  assumes "Fails (Finalize ae price runID) s e t"
  shows "tables t = tables s"
  using assms unfolding Finalize_def WithLockedSettlement_def
  by (auto simp: act_simps Fails_tidy dest!: Fails_transaction_tables split: if_splits)

lemma grows_settle_rows: "grows (settle_rows ae deciding now run charge wallet hold command attempts)"
proof -
  have money: "grows (applyChatMoneyDecision ae facts d)" for facts d
    unfolding applyChatMoneyDecision_def by (intro grows_intros)
  have items: "grows (insert_items ae chargeID now items)" for chargeID items
    by (induction items) (auto intro!: grows_intros)
  show ?thesis
    unfolding settle_rows_def settle_open_def insertSettledUsageItems_def finalizeChatRunAndCharge_def
    by (intro grows_intros grows_settlement_parts grows_paid_command money items)
qed

lemma grows_Finalize: "grows (Finalize ae price runID)"
  unfolding Finalize_def WithLockedSettlement_def settle_locked_def lockChatSettlementMoneyGraph_def
    lockChatSettlementBusinessGraph_def tidy_chunks_def CleanupDeliveryChunks_def
  by (intro grows_intros grows_settle_rows grows_cleanup)

section \<open>Sequences of settlements and credits\<close>

text \<open>
  Settlements of any runs, each with its own schedule of failures, clock and pricer, and between them credits to wallets.
\<close>

definition credit_op :: "wallet_op \<Rightarrow> bool" where
  "credit_op op = (case op of OpRecharge i \<Rightarrow> True | OpRedeem i now \<Rightarrow> True | OpOpen u \<Rightarrow> True | _ \<Rightarrow> False)"

inductive billing_step :: "'z ai_tables_scheme world \<Rightarrow> 'z ai_tables_scheme world \<Rightarrow> bool" where
  settle: "t = snd (Finalize ae price runID s) \<Longrightarrow> billing_step s t"
| credit: "op_ok op \<Longrightarrow> credit_op op \<Longrightarrow> t = snd (wallet_tx ev op s) \<Longrightarrow> billing_step s t"

lemma credit_keeps_runs:
  assumes "spec_call op A = Some B" "credit_op op"
  shows "as_run B = as_run A"
  using assms by (cases op) (auto simp: spec_call_def credit_op_def spec_credit_def split: option.splits if_splits)

lemma credit_effect:
  fixes s t :: "'z ai_tables_scheme world"
  assumes ok: "wallet_state_ok s" and op: "op_ok op" "credit_op op" and t: "t = snd (wallet_tx ev op s)"
  shows "wallet_state_ok t \<and> as_run (account_of (tables t)) = as_run (account_of (tables s)) \<and>
    ai_runs (tables t) = ai_runs (tables s) \<and> ai_usage_charges (tables t) = ai_usage_charges (tables s) \<and>
    ai_usage_charge_items (tables t) = ai_usage_charge_items (tables s)"
proof -
  obtain res where run: "wallet_tx ev op s = (res, t)" using t by (cases "wallet_tx ev op s") simp
  note E = wallet_tx_effect [OF ok op(1) run]
  show ?thesis
  proof (cases res)
    case (Inl e)
    with E(1,2) show ?thesis by simp
  next
    case (Inr x)
    with run have "Returns (wallet_tx ev op) s x t" by (simp add: Returns_def)
    then obtain u where u: "Returns (wallet_call ev op) (sent s) x u" "t = sent u" by (auto simp: wallet_tx_def Returns_transaction)
    have "keeps (\<lambda>d. (ai_runs d, ai_usage_charges d, ai_usage_charge_items d)) (wallet_call ev op)"
      by (rule keeps_wallet_call [where S = UNIV]) (simp_all add: blind_to_def)
    from keepsD [OF this u(1)] u(2) E(1) credit_keeps_runs [OF E(3) [OF Inr] op(2)] show ?thesis by simp
  qed
qed

lemma books_ok_frame:
  assumes ok: "books_ok D" and inv: "wallet_inv E" and "as_run (account_of E) = as_run (account_of D)"
    and "ai_runs E = ai_runs D" "ai_usage_charges E = ai_usage_charges D" "ai_usage_charge_items E = ai_usage_charge_items D"
  shows "books_ok E"
proof -
  note D = books_okD [OF ok]
  have "charge_agrees (account_of E) (ai_usage_charge_items E) r c"
    if "r \<in> set (ai_runs E)" "c \<in> set (ai_usage_charges E)" "ug_RunID c = rn_ID r" for r c
    using D(5) [of r c] that assms(3-) charge_agrees_frame [of "account_of E" r "account_of D"]
      ledger_of_run [OF inv] ledger_of_run [OF D(1)] by simp
  then show ?thesis using inv D(2-4) assms(4,5) unfolding books_ok_def by simp
qed

lemma Finalize_ok:
  fixes s t :: "'z ai_tables_scheme world"
  assumes ok: "wallet_state_ok s" "books_ok (tables s)" and t: "t = snd (Finalize ae price runID s)"
  shows "wallet_state_ok t \<and> books_ok (tables t) \<and> (books (tables t) = books (tables s) \<or> run_settled ae price runID (tables s) (tables t))"
proof (cases "fst (Finalize ae price runID s)")
  case (Inl e)
  then have "Fails (Finalize ae price runID) s e t" using t by (simp add: Fails_def prod_eq_iff)
  from Finalize_fails [OF this] have same: "tables t = tables s" .
  moreover have "auto_inc s \<le> auto_inc t" using growsD [OF grows_Finalize] t by blast
  then have "wallet_state_ok t" using ok(1) same by (intro wallet_state_ok_frame [of s t]) simp_all
  ultimately show ?thesis using ok(2) by simp
next
  case (Inr u)
  then have "Returns (Finalize ae price runID) s () t" using t by (simp add: Returns_def prod_eq_iff)
  from Finalize_books [OF ok this] show ?thesis by blast
qed

lemma billing_step_ok:
  assumes "billing_step s t" "wallet_state_ok s" "books_ok (tables s)"
  shows "wallet_state_ok t \<and> books_ok (tables t)"
  using assms(1)
proof cases
  case (settle ae price runID)
  from Finalize_ok [OF assms(2,3) this] show ?thesis by blast
next
  case (credit op ev)
  from credit_effect [OF assms(2) credit] have E: "wallet_state_ok t"
    "as_run (account_of (tables t)) = as_run (account_of (tables s))" "ai_runs (tables t) = ai_runs (tables s)"
    "ai_usage_charges (tables t) = ai_usage_charges (tables s)" "ai_usage_charge_items (tables t) = ai_usage_charge_items (tables s)"
    by blast+
  then show ?thesis using books_ok_frame [OF assms(3) wallet_state_okD(1) [OF E(1)] E(2-5)] by blast
qed

lemma billing_steps_ok:
  "billing_step\<^sup>*\<^sup>* s t \<Longrightarrow> wallet_state_ok s \<Longrightarrow> books_ok (tables s) \<Longrightarrow> wallet_state_ok t \<and> books_ok (tables t)"
  by (induction rule: rtranclp_induct) (auto dest: billing_step_ok)

text \<open>A finished run stays what it is, whatever is settled or credited.\<close>

definition run_view :: "int \<Rightarrow> 'z ai_tables_scheme \<Rightarrow> (Run option \<times> UsageCharge option) \<times> (int \<times> run_state) option" where
  "run_view k D = (rows_of k D, as_run (account_of D) k)"

lemma billing_step_final:
  assumes "billing_step s t" "wallet_state_ok s" "books_ok (tables s)"
    and run: "find (\<lambda>r. rn_ID r = k) (ai_runs (tables s)) = Some run" "rn_Status run \<noteq> AIRunStatusRunning"
  shows "run_view k (tables t) = run_view k (tables s)"
  using assms(1)
proof cases
  case (settle ae price runID)
  from Finalize_ok [OF assms(2,3) this] consider "books (tables t) = books (tables s)"
    | "run_settled ae price runID (tables s) (tables t)" by blast
  then show ?thesis
  proof cases
    case 1
    from books_parts [OF this] show ?thesis by (simp add: run_view_def rows_of_def)
  next
    case 2
    then obtain r d where r: "find (\<lambda>r. rn_ID r = runID) (ai_runs (tables s)) = Some r" "rn_Status r = AIRunStatusRunning"
      and spec: "spec_settle (rn_UserID r) runID d (account_of (tables s)) = Some (account_of (tables t))"
      and others: "\<And>k. k \<noteq> runID \<Longrightarrow> rows_of k (tables t) = rows_of k (tables s)"
      unfolding run_settled_def locked_rows_def by blast
    have "k \<noteq> runID" using r run by auto
    with spec_settle_run(3) [OF spec this] others show ?thesis by (simp add: run_view_def)
  qed
next
  case (credit op ev)
  from credit_effect [OF assms(2) credit] show ?thesis by (simp add: run_view_def rows_of_def)
qed

section \<open>A concrete settlement\<close>

text \<open>User 7 with 500 units, 200 of them held for the open run 11; run 12 has ended without a charge.\<close>

definition demo_ai_env :: ai_env where
  "demo_ai_env = \<lparr>ae_db = demo_env, ae_sha256 = demo_sha256,
     ae_usage = (\<lambda>text. if text = ''usage'' then Some demo_usage else None), ae_usage_text = (\<lambda>_. ''usage''),
     ae_quote = (\<lambda>_. Some \<lparr>qe_PricingVersion = ''v1'', qe_RequestFingerprint = zero_digest, qe_PreparedRequestSHA256 = zero_digest,
       qe_PreparedRequestSchema = [], qe_InputUpperBoundStrategy = [], qe_EffectiveMaxOutputTokens = 100, qe_UpperBoundItems = [],
       qe_CurrentCallMaxUnits = 198, qe_PriorBillableUnits = 0, qe_TargetHoldUnits = 198\<rparr>),
     ae_quote_text = (\<lambda>_. ''quote''),
     ae_candidate = (\<lambda>_. Inr \<lparr>cr_Version = chatResultCandidateVersion, cr_Answer = ''Hello'', cr_ToolCalls = [], cr_Continuation = None\<rparr>),
     ae_json_items = (\<lambda>_. Some 1), ae_snapshot = demo_decode,
     ae_event_id = (\<lambda>_ n. Inr (CHR ''e'' # format_nat n)), ae_date = (\<lambda>_. ''2026-01-01'')\<rparr>"

definition demo_run_row :: "int \<Rightarrow> string \<Rightarrow> string \<Rightarrow> string \<Rightarrow> Run" where
  "demo_run_row runID status billingStatus billingReason = \<lparr>rn_ID = runID, rn_Platform = ''web'', rn_ConversationID = Some 51,
     rn_RequestID = (if runID = 11 then ''r-1'' else ''r-2''), rn_RequestFingerprint = zero_digest,
     rn_RequestIdentityStatus = IdentityStatusReplayable, rn_RequestIdentityMarker = [], rn_IdempotencyKey = None,
     rn_UserMessageID = Some 61, rn_AssistantMessageID = None, rn_UserID = 7, rn_AgentID = 5, rn_ProviderID = 2, rn_ModelID = ''m-1'',
     rn_ModelDisplayName = ''Model'', rn_InputSnapshot = [], rn_PricingSnapshotJSON = ''{}'', rn_Status = status,
     rn_BillingStatus = billingStatus, rn_BillingReason = billingReason, rn_PromptTokens = 0, rn_CompletionTokens = 0,
     rn_TotalTokens = 0, rn_DurationMS = None, rn_ErrorMessage = [], rn_StartedAt = Some 63899999999000000000, rn_FinishedAt = None,
     rn_SettledAt = None, rn_LikedAt = None, rn_CreatedAt = 63899999999000000000, rn_UpdatedAt = 63899999999000000000\<rparr>"

definition demo_charge_row :: "int \<Rightarrow> int \<Rightarrow> int \<Rightarrow> string \<Rightarrow> gotime option \<Rightarrow> UsageCharge" where
  "demo_charge_row chargeID runID held status finalizedAt = \<lparr>ug_ID = chargeID, ug_RunID = runID, ug_UserID = 7, ug_Currency = ''CNY'',
     ug_PricingVersion = ''v1'', ug_MultiplierPPM = 1000000, ug_HeldUnits = held, ug_ActualUnits = 0, ug_Status = status,
     ug_FinalizedAt = finalizedAt, ug_CreatedAt = 6, ug_UpdatedAt = 6\<rparr>"

definition demo_command_row :: Command where
  "demo_command_row = \<lparr>cm_ID = 41, cm_RequestID = ''r-1'', cm_RequestFingerprint = zero_digest,
     cm_RequestIdentityStatus = IdentityStatusReplayable, cm_RequestIdentityMarker = [], cm_IdempotencyKey = ''k-1'',
     cm_Platform = ''web'', cm_UserID = 7, cm_ConversationID = 51, cm_RunID = 11, cm_UserMessageID = 61,
     cm_AssistantMessageID = None, cm_RequestReceivedAt = Some 6, cm_AcceptedAt = Some 6, cm_ClaimedAt = Some 6, cm_ClaimSource = [],
     cm_State = StateRunning, cm_AttemptCount = 1, cm_MaxAttempts = 3, cm_LeaseOwner = None, cm_LeaseToken = 1,
     cm_LeaseExpiresAt = None, cm_NextAttemptAt = 6, cm_CancelRequestedAt = None, cm_DeliverySeq = 0, cm_StopDeliverySeq = None,
     cm_OutcomeUnknownAt = None, cm_LastErrorCode = [], cm_LastErrorMessage = [], cm_StartedAt = Some 6, cm_FinishedAt = None,
     cm_CreatedAt = 6, cm_UpdatedAt = 6\<rparr>"

definition demo_attempt_row :: Attempt where
  "demo_attempt_row = \<lparr>at_ID = 31, at_RunID = 11, at_CommandID = Some 41, at_AttemptNo = 1, at_IdempotencyKey = ''k-1'',
     at_State = AttemptStateSucceeded, at_PreparedRequestJSON = ''{}'', at_PreparedRequestSHA256 = demo_sha256 ''{}'',
     at_QuoteJSON = ''quote'', at_ContextPlanID = None, at_ContextPlanSHA256 = [], at_UsageJSON = ''usage'',
     at_UsageStatus = UsageStatusComplete, at_DispatchState = DispatchStateDispatched, at_ResultCandidateJSON = Some ''{}'',
     at_ProviderRequestID = ''req-1'', at_ResponseSHA256 = hex_encode (demo_sha256 ''body''), at_ErrorCode = [],
     at_PrepareStartedAt = Some 6, at_DispatchedAt = Some 6, at_FirstDeltaAt = Some 7, at_FinishedAt = Some 8, at_CreatedAt = 6,
     at_UpdatedAt = 8\<rparr>"

definition demo_ai_world :: "ai_tables world" where
  "demo_ai_world = \<lparr>stmt_no = 0, clock_no = 0, auto_inc = 80, serial_seq = 8,
     tables = \<lparr>wallets = [demo_wallet], transactions = [demo_transaction], holds = [demo_hold, demo_released],
       ai_runs = [demo_run_row 11 AIRunStatusRunning BillingStatusHeld BillingReasonHeld,
         demo_run_row 12 AIRunStatusFailed BillingStatusReleased BillingReasonReleasedProviderFailed],
       ai_run_events = [],
       ai_usage_charges = [demo_charge_row 21 11 200 ChargeStatusOpen None, demo_charge_row 22 12 90 ChargeStatusReleased (Some 9)],
       ai_usage_charge_items = [], ai_reply_commands = [demo_command_row], ai_provider_attempts = [demo_attempt_row],
       ai_reply_delivery_chunks = [], ai_messages = [],
       ai_conversations = [\<lparr>cv_ID = 51, cv_UserID = 7, cv_AgentID = 5, cv_Title = [], cv_IsDel = CommonNo, cv_LastMessageAt = None, cv_UpdatedAt = 6\<rparr>],
       ai_context_plans = [], ai_run_dashboard_facts = [], ai_run_dashboard_daily_facts = [], realtime_events = []\<rparr>\<rparr>"

lemma demo_ai_world_ok: "wallet_state_ok demo_ai_world"
  by code_simp

lemma demo_books_ok: "books_ok (tables demo_ai_world)"
  by code_simp

text \<open>The run of the settlement, step by step\<close>

abbreviation demo_row :: Run where "demo_row \<equiv> demo_run_row 11 AIRunStatusRunning BillingStatusHeld BillingReasonHeld"
abbreviation demo_charge :: UsageCharge where "demo_charge \<equiv> demo_charge_row 21 11 200 ChargeStatusOpen None"

abbreviation demo_locked :: "ai_tables world" where
  "demo_locked \<equiv> demo_ai_world\<lparr>stmt_no := 7, clock_no := 2\<rparr>"

lemma demo_no_fault: "no_fault (ae_db demo_ai_env) s"
  by (simp add: no_fault_def demo_ai_env_def demo_env_def)

lemma demo_no_fault_at: "\<not> fault_at (ae_db demo_ai_env) s e"
  by (simp add: fault_at_def demo_ai_env_def demo_env_def)

lemma demo_locks:
  "Returns (lockChatSettlementMoneyGraph demo_ai_env 11) (sent (ticked (ticked demo_ai_world)))
     (demo_row, demo_charge, Some demo_wallet, Some demo_hold) (demo_ai_world\<lparr>stmt_no := 5, clock_no := 2\<rparr>)"
  "Returns (lockChatSettlementBusinessGraph demo_ai_env demo_row) (demo_ai_world\<lparr>stmt_no := 5, clock_no := 2\<rparr>)
     (demo_command_row, [demo_attempt_row]) demo_locked"
  by (simp_all add: lockChatSettlementMoneyGraph_def lockChatSettlementBusinessGraph_def act_simps demo_no_fault sent_def
      ticked_def demo_ai_world_def demo_run_row_def demo_charge_row_def demo_wallet_def demo_hold_def demo_command_row_def
      demo_attempt_row_def attempts_of_def)

lemma demo_facts_built:
  "buildChatFinalizationFacts demo_ai_env demo_row demo_charge (Some demo_hold) demo_command_row [demo_attempt_row] = Inr demo_facts"
  by code_simp

lemma demo_money: "succeeds (applyChatMoneyDecision demo_ai_env demo_facts demo_settlement) demo_locked"
  by code_simp

lemma demo_input:
  "paidCommandInputFromDecision demo_ai_env demo_command_row demo_facts demo_settlement now =
     Inr \<lparr>pi_CommandID = 41, pi_UserID = 7, pi_RequestID = ''r-1'', pi_State = StateSucceeded, pi_Content = ''Hello'',
       pi_ErrorCode = [], pi_ErrorMessage = [], pi_Now = now\<rparr>"
  by code_simp

lemma demo_tokens: "finalizationTokenTotals demo_facts = Inr (100, 40, 140)"
  by code_simp

lemma demo_inserts:
  "\<exists>t. Returns (insert_items demo_ai_env chargeID now items) s () t"
  "\<exists>t. Returns (insert_events demo_ai_env runID n now es) s () t"
proof -
  have items: "\<not> Fails (insert_items demo_ai_env chargeID now items) s e t" for e t
    by (induction items arbitrary: s) (simp_all add: act_simps ai_insert_def demo_no_fault demo_no_fault_at)
  show "\<exists>t. Returns (insert_items demo_ai_env chargeID now items) s () t"
    by (rule Returns_or_Fails [of "insert_items demo_ai_env chargeID now items" s]) (use items in auto)
  have events: "\<not> Fails (insert_events demo_ai_env runID n now es) s e t" for e t
    by (induction es arbitrary: s n) (simp_all add: act_simps ai_insert_def demo_no_fault demo_no_fault_at)
  show "\<exists>t. Returns (insert_events demo_ai_env runID n now es) s () t"
    by (rule Returns_or_Fails [of "insert_events demo_ai_env runID n now es" s]) (use events in auto)
qed

text \<open>The tables the steps after the money read\<close>

definition demo_rest :: "'z ai_tables_scheme \<Rightarrow> bool" where
  "demo_rest d \<longleftrightarrow> ai_runs d = ai_runs (tables demo_ai_world) \<and> ai_usage_charges d = ai_usage_charges (tables demo_ai_world) \<and>
     ai_reply_commands d = [demo_command_row] \<and> ai_messages d = [] \<and>
     ai_conversations d = ai_conversations (tables demo_ai_world) \<and> ai_run_dashboard_facts d = [] \<and> realtime_events d = []"

lemma demo_paid:
  assumes "demo_rest (tables s)"
  shows "\<exists>t. Returns (FinalizePaidCommandInTransaction demo_ai_env \<lparr>pi_CommandID = 41, pi_UserID = 7, pi_RequestID = ''r-1'',
      pi_State = StateSucceeded, pi_Content = ''Hello'', pi_ErrorCode = [], pi_ErrorMessage = [], pi_Now = ev_now demo_env k\<rparr>) s
      \<lparr>pr_AssistantMessageID = auto_inc s, pr_ConversationDeleted = False\<rparr> t"
proof -
  let ?i = "\<lparr>pi_CommandID = 41, pi_UserID = 7, pi_RequestID = ''r-1'',
      pi_State = StateSucceeded, pi_Content = ''Hello'', pi_ErrorCode = [], pi_ErrorMessage = [], pi_Now = ev_now demo_env k\<rparr>"
  have "trim_space ''r-1'' = ''r-1''" "trim_space ''Hello'' = ''Hello''" "trim_space [] = []" by code_simp+
  then have norm: "normalizePaidCommandFinalization ?i = Inr ?i"
    by (simp add: normalizePaidCommandFinalization_def time_is_zero_def demo_env_def)
  show ?thesis
    using assms unfolding FinalizePaidCommandInTransaction_def
    by (simp add: act_simps norm [unfolded command_state_defs] demo_no_fault demo_rest_def paid_command_def paidCommandFinalizationSourceStates_def
        demo_command_row_def command_state_defs publish_answer_def create_message_def touch_conversation_def assistant_message_def
        demo_ai_world_def)
qed

lemma demo_projection: "ai_run_dashboard_facts (tables s) = [] \<Longrightarrow> \<exists>t. Returns (ProjectTerminalDashboardFacts demo_ai_env 11) s () t"
  by (auto simp: ProjectTerminalDashboardFacts_def act_simps demo_no_fault fact_exists_def)

lemma demo_ends:
  assumes "ai_runs (tables s) = ai_runs (tables demo_ai_world)" "ai_usage_charges (tables s) = ai_usage_charges (tables demo_ai_world)"
    "ai_run_dashboard_facts (tables s) = []" "0 < pr_AssistantMessageID result"
  shows "\<exists>t. Returns (finalizeChatRunAndCharge demo_ai_env demo_row demo_charge demo_facts demo_settlement result now) s () t"
proof -
  have id: "rn_ID demo_row = 11" by (simp add: demo_run_row_def)
  have rows: "filter (open_run demo_row) (ai_runs (tables demo_ai_world)) = [demo_row]"
    "filter (open_charge demo_charge demo_row) (ai_usage_charges (tables demo_ai_world)) = [demo_charge]"
    by (simp_all add: demo_ai_world_def open_run_def open_charge_def demo_run_row_def demo_charge_row_def run_status_defs
        billing_status_defs charge_status_defs)
  show ?thesis
    using assms rows unfolding finalizeChatRunAndCharge_def id
    by (auto simp: act_simps demo_no_fault demo_tokens intro!: demo_projection)
qed

lemma demo_event_id: "Returns (new_event_id demo_ai_env x) s r t \<longleftrightarrow> r = CHR ''e'' # format_nat (stmt_no s) \<and> t = s"
  by (auto simp: new_event_id_def Returns_def demo_ai_env_def)

lemma demo_announced:
  assumes "realtime_events (tables s) = []" "0 < m"
  shows "\<exists>e t. Returns (appendChatRealtimeFinalization demo_ai_env demo_command_row
      \<lparr>pr_AssistantMessageID = m, pr_ConversationDeleted = False\<rparr>
      \<lparr>pi_CommandID = 41, pi_UserID = 7, pi_RequestID = ''r-1'', pi_State = StateSucceeded, pi_Content = ''Hello'',
       pi_ErrorCode = [], pi_ErrorMessage = [], pi_Now = ev_now demo_env k\<rparr> (ev_now demo_env k)) s e t"
proof -
  let ?i = "\<lparr>ap_Type = TypeAIResponseCompletedV1, ap_RequestID = ''r-1'', ap_UserID = 7,
     ap_Payload = AIResponseCompletedPayload 51 ''r-1'' m, ap_OccurredAt = ev_now demo_env k\<rparr>"
  have "trim_space TypeAIResponseCompletedV1 = TypeAIResponseCompletedV1" "TypeAIResponseCompletedV1 \<noteq> []"
    "\<not> 128 < rune_count (trim_space ''r-1'')" "validRequestID ''r-1''" by code_simp+
  then have "\<exists>e t. Returns (AppendTx demo_ai_env ?i) s e t"
    using assms
    by (auto simp: AppendTx_def act_simps time_is_zero_def demo_no_fault demo_no_fault_at payload_of_type_def payload_valid_def
        event_violated_def demo_event_id demo_env_def)
  then obtain e t where "Returns (AppendTx demo_ai_env ?i) s e t" by blast
  then show ?thesis
    using assms(2) by (auto simp: appendChatRealtimeFinalization_def realtime_payload_def act_simps demo_command_row_def)
qed

definition ai_view where
  "ai_view d = (ai_runs d, ai_usage_charges d, ai_reply_commands d, ai_messages d, ai_conversations d, ai_run_dashboard_facts d, realtime_events d)"

lemma Returns_bindI: "Returns m s a u \<Longrightarrow> Returns (f a) u b t \<Longrightarrow> Returns (bind m f) s b t"
  by (auto simp: act_simps)

lemma demo_settles:
  "\<exists>t. Returns (settle_open demo_ai_env (finalize_decision demo_sha256 demo_pricer 11) (ev_now demo_env 1) demo_row demo_charge
     (Some demo_hold) demo_command_row [demo_attempt_row]) demo_locked () t"
proof -
  let ?now = "ev_now demo_env 1"
  let ?i = "\<lparr>pi_CommandID = 41, pi_UserID = 7, pi_RequestID = ''r-1'', pi_State = StateSucceeded, pi_Content = ''Hello'',
       pi_ErrorCode = [], pi_ErrorMessage = [], pi_Now = ?now\<rparr>"
  have s1: "Returns (normalizeChatAttemptsForFinalization demo_ai_env demo_command_row [demo_attempt_row] ?now) demo_locked
      [demo_attempt_row] demo_locked"
  proof -
    have "closing_updates demo_command_row demo_attempt_row ?now = None" by code_simp
    then show ?thesis by (simp add: normalizeChatAttemptsForFinalization_def act_simps)
  qed
  obtain s2 where s2: "Returns (applyChatMoneyDecision demo_ai_env demo_facts demo_settlement) demo_locked () s2"
    using Returns_run [OF demo_money] by auto
  have "keeps ai_view (applyChatMoneyDecision demo_ai_env demo_facts demo_settlement)"
    unfolding applyChatMoneyDecision_def
    by (intro keeps_intros keeps_capture [where S = UNIV] keeps_release [where S = UNIV]; simp add: blind_to_def ai_view_def)
  from keepsD [OF this s2] have r2: "demo_rest (tables s2)" by (simp add: ai_view_def demo_rest_def demo_ai_world_def)
  have "grows (applyChatMoneyDecision demo_ai_env demo_facts demo_settlement)"
    unfolding applyChatMoneyDecision_def by (intro grows_intros)
  from Returns_mono [OF this s2] have n2: "0 < auto_inc s2" by (simp add: demo_ai_world_def)
  obtain s3 where s3: "Returns (insertSettledUsageItems demo_ai_env 21 demo_settlement ?now) s2 () s3"
    using demo_inserts(1) [of 21 ?now "sd_Items demo_settlement" s2]
    by (cases "sd_ChargeStatus demo_settlement = ChargeStatusSettled") (auto simp: insertSettledUsageItems_def act_simps)
  from settled_items_effect [OF s3] r2 n2 have r3: "demo_rest (tables s3)" "0 < auto_inc s3" by (auto simp: demo_rest_def)
  let ?r = "\<lparr>pr_AssistantMessageID = auto_inc s3, pr_ConversationDeleted = False\<rparr>"
  from demo_paid [OF r3(1), of 1] obtain s4 where s4: "Returns (FinalizePaidCommandInTransaction demo_ai_env ?i) s3 ?r s4" by auto
  have "keeps (\<lambda>d. (ai_runs d, ai_usage_charges d, ai_run_dashboard_facts d, realtime_events d)) (FinalizePaidCommandInTransaction demo_ai_env ?i)"
    unfolding FinalizePaidCommandInTransaction_def publish_answer_def keep_stopped_def keep_delivered_def
      paidCommandConversationDeleted_def create_message_def touch_conversation_def ReadDeliveryPrefixInTransaction_def
    by (intro keeps_intros; simp)
  from keepsD [OF this s4] r3(1) have r4: "ai_runs (tables s4) = ai_runs (tables demo_ai_world)"
    "ai_usage_charges (tables s4) = ai_usage_charges (tables demo_ai_world)" "ai_run_dashboard_facts (tables s4) = []"
    "realtime_events (tables s4) = []" by (simp_all add: demo_rest_def)
  obtain s5 where s5: "Returns (finalizeChatRunAndCharge demo_ai_env demo_row demo_charge demo_facts demo_settlement ?r ?now) s4 () s5"
    using demo_ends [OF r4(1-3), of ?r] r3(2) by auto
  obtain s6 where s6: "Returns (clearChatResultCandidates demo_ai_env 11) s5 () s6"
    by (auto simp: clearChatResultCandidates_def act_simps demo_no_fault)
  obtain s7 where s7: "Returns (appendChatRunFinalizationEvents demo_ai_env 11 demo_facts demo_settlement ?now) s6 () s7"
    using demo_inserts(2) by (fastforce simp: appendChatRunFinalizationEvents_def act_simps demo_no_fault)
  have "keeps realtime_events (finalizeChatRunAndCharge demo_ai_env demo_row demo_charge demo_facts demo_settlement ?r ?now)"
    "keeps realtime_events (clearChatResultCandidates demo_ai_env 11)"
    unfolding finalizeChatRunAndCharge_def ProjectTerminalDashboardFacts_def clearChatResultCandidates_def
    by (intro keeps_intros; simp add: insert_fact_def increment_daily_def)+
  from keepsD [OF this(1) s5] keepsD [OF this(2) s6] r4(4) have k: "realtime_events (tables s6) = []" by simp
  have "keeps realtime_events (insert_events demo_ai_env 11 n ?now es)" for n es
    by (induction es arbitrary: n) (auto intro!: keeps_intros)
  then have "keeps realtime_events (appendChatRunFinalizationEvents demo_ai_env 11 demo_facts demo_settlement ?now)"
    unfolding appendChatRunFinalizationEvents_def by (intro keeps_intros)
  from keepsD [OF this s7] k have r7: "realtime_events (tables s7) = []" by simp
  from demo_announced [OF this r3(2), of 1] obtain e t where
    s8: "Returns (appendChatRealtimeFinalization demo_ai_env demo_command_row ?r ?i ?now) s7 e t" by auto
  have ids: "ug_ID demo_charge = 21" "rn_ID demo_row = 11" by (simp_all add: demo_charge_row_def demo_run_row_def)
  have pure: "Returns (pure_result (buildChatFinalizationFacts demo_ai_env demo_row demo_charge (Some demo_hold) demo_command_row
        [demo_attempt_row])) demo_locked demo_facts demo_locked"
    "Returns (pure_result (finalize_decision demo_sha256 demo_pricer 11 demo_facts)) demo_locked demo_settlement demo_locked"
    "Returns (pure_result (paidCommandInputFromDecision demo_ai_env demo_command_row demo_facts demo_settlement ?now)) s3 ?i s3"
    by (simp_all only: Returns_pure_result demo_facts_built demo_settlement demo_input)
  show ?thesis
    unfolding settle_open_def ids
    by (rule exI [of _ t], rule Returns_bindI [OF s1], rule Returns_bindI [OF pure(1)], rule Returns_bindI [OF pure(2)],
        rule Returns_bindI [OF s2], rule Returns_bindI [OF s3], rule Returns_bindI [OF pure(3)], rule Returns_bindI [OF s4],
        rule Returns_bindI [OF s5], rule Returns_bindI [OF s6], rule Returns_bindI [OF s7], rule Returns_bindI [OF s8])
      (simp add: Returns_ret)
qed

definition demo_after :: "ai_tables world" where
  "demo_after = snd (Finalize demo_ai_env demo_pricer 11 demo_ai_world)"

lemma demo_finalizes: "Returns (Finalize demo_ai_env demo_pricer 11) demo_ai_world () demo_after"
proof -
  have env: "ae_sha256 demo_ai_env = demo_sha256" "ae_db demo_ai_env = demo_env" by (simp_all add: demo_ai_env_def)
  obtain t where "Returns (settle_open demo_ai_env (finalize_decision demo_sha256 demo_pricer 11) (ev_now demo_env 1) demo_row demo_charge
     (Some demo_hold) demo_command_row [demo_attempt_row]) demo_locked () t" using demo_settles by blast
  moreover have "\<not> terminalChatBilling demo_row demo_charge" "rn_Status demo_row = AIRunStatusRunning"
    "ug_Status demo_charge = ChargeStatusOpen" "ug_FinalizedAt demo_charge = None" by code_simp+
  ultimately have rows: "Returns (settle_rows demo_ai_env (finalize_decision demo_sha256 demo_pricer 11) (ev_now demo_env 1) demo_row demo_charge
     (Some demo_wallet) (Some demo_hold) demo_command_row [demo_attempt_row]) demo_locked (41, False) t"
    by (simp add: settle_rows_def act_simps demo_command_row_def)
  have locked: "Returns (settle_locked demo_ai_env 11 (finalize_decision demo_sha256 demo_pricer 11) (ev_now demo_env 1))
      (sent (ticked (ticked demo_ai_world))) (41, False) t"
    unfolding settle_locked_def
    by (rule Returns_bindI [OF demo_locks(1)], simp only: prod.case, rule Returns_bindI [OF demo_locks(2)], simp only: prod.case, rule rows)
  obtain u where tidy: "Returns (tidy_chunks demo_ai_env 41) (sent t) () u"
    by (rule Returns_or_Fails [of "tidy_chunks demo_ai_env 41" "sent t"]) (auto simp: Fails_tidy)
  have clock: "clock_no demo_ai_world = 0" by (simp add: demo_ai_world_def)
  have "Returns (WithLockedSettlement demo_ai_env 11 (finalize_decision demo_sha256 demo_pricer 11)) demo_ai_world
      \<lparr>fr_Applied = True, fr_Replayed = False\<rparr> u"
  proof -
    have clocks: "Returns (read_clock demo_env) demo_ai_world (ev_now demo_env 0) (ticked demo_ai_world)"
      "Returns (read_clock demo_env) (ticked demo_ai_world) (ev_now demo_env 1) (ticked (ticked demo_ai_world))"
      by (simp_all add: Returns_read_clock clock)
    have tx: "Returns (transaction demo_env AiDb (settle_locked demo_ai_env 11 (finalize_decision demo_sha256 demo_pricer 11)
        (ev_now demo_env 1))) (ticked (ticked demo_ai_world)) (41, False) (sent t)"
      using locked demo_no_fault [unfolded env] unfolding Returns_transaction by blast
    show ?thesis
      unfolding WithLockedSettlement_def env
      by (subst if_not_P, simp, rule Returns_bindI [OF clocks(1)], rule Returns_bindI [OF clocks(2)], rule Returns_bindI [OF tx],
          simp only: prod.case, rule Returns_bindI [OF tidy]) (simp add: Returns_ret)
  qed
  then have "Returns (Finalize demo_ai_env demo_pricer 11) demo_ai_world () u" by (auto simp: Finalize_def act_simps env)
  then show ?thesis by (simp add: demo_after_def Returns_def)
qed

section \<open>What a settlement guarantees\<close>

text \<open>C37. A settlement of an open run that returns has made exactly one step of the account of its user: for the facts of the
  rows it locked the finalizer took a decision; a settled run has its hold captured at the decided units, any other has it
  released, and nothing else of any account changes. Run and charge end in the statuses of the decision, and the rows of
  every other run are untouched.\<close>

theorem settlement_makes_decided_step:
  assumes "wallet_state_ok s" and "books_ok (tables s)" and "find (\<lambda>r. rn_ID r = runID) (ai_runs (tables s)) = Some run"
    and "rn_Status run = AIRunStatusRunning" and "Returns (Finalize ae price runID) s () t"
  shows "\<exists>charge wallet hold command attempts facts d run' charge'. locked_rows (tables s) runID run charge wallet hold \<and>
    buildChatFinalizationFacts ae run charge hold command attempts = Inr facts \<and>
    finalize_decision (ae_sha256 ae) price runID facts = Inr d \<and>
    spec_settle (rn_UserID run) runID d (account_of (tables s)) = Some (account_of (tables t)) \<and>
    rows_of runID (tables t) = (Some run', Some charge') \<and> rn_Status run' = sd_RunStatus d \<and>
    rn_BillingStatus run' = sd_BillingStatus d \<and> ug_Status charge' = sd_ChargeStatus d \<and>
    (\<forall>k. k \<noteq> runID \<longrightarrow> rows_of k (tables t) = rows_of k (tables s))"
proof -
  have open_books: "\<not> terminalChatBilling run charge" if "locked_rows (tables s) runID run charge wallet hold" for charge wallet hold
  proof -
    from that have found: "find (\<lambda>r. rn_ID r = runID) (ai_runs (tables s)) = Some run"
      "find (\<lambda>c. ug_RunID c = runID) (ai_usage_charges (tables s)) = Some charge" by (simp_all add: locked_rows_def)
    then have "run \<in> set (ai_runs (tables s))" "charge \<in> set (ai_usage_charges (tables s))" "ug_RunID charge = rn_ID run"
      using found_in [OF found(1)] found_in [OF found(2)] by simp_all
    from books_okD(5) [OF assms(2) this] assms(4) show ?thesis
      by (auto simp: charge_agrees_def terminalChatBilling_def charge_status_defs)
  qed
  have same: "run' = run" if "locked_rows (tables s) runID run' charge wallet hold" for run' charge wallet hold
    using that assms(3) by (simp add: locked_rows_def)
  from Finalize_books [OF assms(1,2,5)] have "run_settled ae price runID (tables s) (tables t)" using open_books same by blast
  then obtain r charge wallet hold command attempts facts d run' charge' where rows: "locked_rows (tables s) runID r charge wallet hold"
      "buildChatFinalizationFacts ae r charge hold command attempts = Inr facts"
      "finalize_decision (ae_sha256 ae) price runID facts = Inr d"
      "spec_settle (rn_UserID r) runID d (account_of (tables s)) = Some (account_of (tables t))"
    and ends: "find (\<lambda>r. rn_ID r = runID) (ai_runs (tables t)) = Some run'" "find (\<lambda>c. ug_RunID c = runID) (ai_usage_charges (tables t)) = Some charge'"
      "rn_Status run' = sd_RunStatus d" "rn_BillingStatus run' = sd_BillingStatus d" "ug_Status charge' = sd_ChargeStatus d"
      "\<forall>k. k \<noteq> runID \<longrightarrow> rows_of k (tables t) = rows_of k (tables s)"
    unfolding run_settled_def by blast
  have r: "r = run" by (rule same [OF rows(1)])
  show ?thesis
    by (intro exI conjI) (rule rows [unfolded r] ends | simp add: rows_of_def ends(1,2))+
qed

theorem settlement_makes_decided_step_witness:
  "\<exists>d. spec_settle 7 11 d (account_of (tables demo_ai_world)) = Some (account_of (tables demo_after))"
proof -
  have run: "find (\<lambda>r. rn_ID r = 11) (ai_runs (tables demo_ai_world)) = Some demo_row" "rn_Status demo_row = AIRunStatusRunning"
    "rn_UserID demo_row = 7" by (simp_all add: demo_ai_world_def demo_run_row_def)
  from settlement_makes_decided_step [OF demo_ai_world_ok demo_books_ok run(1,2) demo_finalizes, unfolded run(3)] show ?thesis by blast
qed

text \<open>C38. The books stay in agreement. After any sequence of settlements, each of any run and under its own failing statements,
  and of recharges and redeemed codes between them: an open run has an open charge without items; the charge of a finished run has its
  billing status, its items add up to what is charged, the ledger of the wallet has booked exactly that for the run, and a hold
  was captured at that amount when the run is settled and is released otherwise.\<close>

theorem books_stay_in_agreement:
  assumes "billing_step\<^sup>*\<^sup>* s t" and "wallet_state_ok s" and "books_ok (tables s)"
    and "run \<in> set (ai_runs (tables t))" and "charge \<in> set (ai_usage_charges (tables t))" and "ug_RunID charge = rn_ID run"
  shows "charge_agrees (account_of (tables t)) (ai_usage_charge_items (tables t)) run charge \<and> wallet_state_ok t"
  using billing_steps_ok [OF assms(1-3)] books_okD(5) assms(4-6) by blast

lemma demo_steps: "billing_step\<^sup>*\<^sup>* demo_ai_world demo_after"
  by (rule r_into_rtranclp, rule billing_step.settle [of demo_after demo_ai_env demo_pricer 11]) (simp add: demo_after_def)

lemma demo_ended: "\<exists>run charge. run \<in> set (ai_runs (tables demo_after)) \<and> charge \<in> set (ai_usage_charges (tables demo_after)) \<and>
    ug_RunID charge = rn_ID run \<and> rn_ID run = 11"
proof -
  from Finalize_books [OF demo_ai_world_ok demo_books_ok demo_finalizes]
  consider "books (tables demo_after) = books (tables demo_ai_world)" | "run_settled demo_ai_env demo_pricer 11 (tables demo_ai_world) (tables demo_after)"
    by blast
  then show ?thesis
  proof cases
    case 1
    from books_parts(1,2) [OF this] show ?thesis
      by (intro exI [of _ demo_row] exI [of _ demo_charge]) (simp add: demo_ai_world_def demo_run_row_def demo_charge_row_def)
  next
    case 2
    then obtain run charge where "find (\<lambda>r. rn_ID r = 11) (ai_runs (tables demo_after)) = Some run"
      "find (\<lambda>c. ug_RunID c = 11) (ai_usage_charges (tables demo_after)) = Some charge" unfolding run_settled_def by blast
    from found_in [OF this(1)] found_in [OF this(2)] show ?thesis by (intro exI [of _ run] exI [of _ charge]) simp
  qed
qed

theorem books_stay_in_agreement_witness:
  "\<exists>run charge. rn_ID run = 11 \<and> charge_agrees (account_of (tables demo_after)) (ai_usage_charge_items (tables demo_after)) run charge"
  using books_stay_in_agreement [OF demo_steps demo_ai_world_ok demo_books_ok] demo_ended by blast

text \<open>C39. A finished run is final: whatever is settled afterwards, the same run again included, and whatever is credited, its row,
  its charge and the state of its hold stay as they are, so it is charged once.\<close>

theorem finished_run_is_final:
  assumes "billing_step\<^sup>*\<^sup>* s t" and "wallet_state_ok s" and "books_ok (tables s)"
    and "find (\<lambda>r. rn_ID r = k) (ai_runs (tables s)) = Some run" and "rn_Status run \<noteq> AIRunStatusRunning"
  shows "rows_of k (tables t) = rows_of k (tables s) \<and> as_run (account_of (tables t)) k = as_run (account_of (tables s)) k \<and>
    as_ledger (account_of (tables t)) (SourceAIGenerate, k) = as_ledger (account_of (tables s)) (SourceAIGenerate, k)"
proof -
  have "run_view k (tables t) = run_view k (tables s)"
    using assms(1)
  proof (induction rule: rtranclp_induct)
    case (step t u)
    from billing_steps_ok [OF step(1) assms(2,3)] have ok: "wallet_state_ok t" "books_ok (tables t)" by simp_all
    have "find (\<lambda>r. rn_ID r = k) (ai_runs (tables t)) = Some run" using step.IH assms(4) by (simp add: run_view_def rows_of_def)
    from billing_step_final [OF step(2) ok this assms(5)] step.IH show ?case by simp
  qed simp
  moreover have "wallet_inv (tables s)" "wallet_inv (tables t)"
    using assms(2) billing_steps_ok [OF assms(1-3)] by (simp_all add: wallet_state_okD)
  ultimately show ?thesis by (simp add: run_view_def ledger_of_run)
qed

theorem finished_run_is_final_witness:
  "rows_of 12 (tables demo_after) = rows_of 12 (tables demo_ai_world) \<and> as_run (account_of (tables demo_after)) 12 = Some (7, RunReleased)"
proof -
  have run: "find (\<lambda>r. rn_ID r = 12) (ai_runs (tables demo_ai_world)) =
      Some (demo_run_row 12 AIRunStatusFailed BillingStatusReleased BillingReasonReleasedProviderFailed)"
    by (simp add: demo_ai_world_def demo_run_row_def)
  have "as_run (account_of (tables demo_ai_world)) 12 = Some (7, RunReleased)" by code_simp
  with finished_run_is_final [OF demo_steps demo_ai_world_ok demo_books_ok run] show ?thesis
    by (simp add: demo_run_row_def run_status_defs)
qed

end
