(* ===== verification/AiPendingProps.thy ===== *)
theory AiPendingProps
  imports AiSettlementProps
begin

text \<open>
  When the settlement of a chat run is decided. The facts are those the store reads from the locked rows; what
  keeps them from a decision is named here in terms of the rows, and everything else, a usage that cannot be
  priced included, ends the run.
\<close>

section \<open>What holds a settlement up\<close>

text \<open>A call is still open; an answer is there but another call ended without one; or the command was marked as failed
  before any dispatch although a call of it was dispatched.\<close>

definition held_up :: "string \<Rightarrow> Attempt list \<Rightarrow> bool" where
  "held_up trigger attempts \<longleftrightarrow>
     list_ex (\<lambda>a. at_State a = AttemptStatePrepared \<or> at_State a = AttemptStateDispatched) attempts \<or>
     trigger = TriggerSuccess \<and> list_ex (\<lambda>a. at_State a = AttemptStateCanceled \<or> at_State a = AttemptStateOutcomeUnknown) attempts \<or>
     trigger = TriggerPreDispatchFailed \<and> list_ex (\<lambda>a. at_DispatchState a = DispatchStateDispatched) attempts"

section \<open>Facts and rows\<close>

lemma attempt_fact_Inr:
  "attempt_fact ae legacy trigger row = Inr f \<Longrightarrow> fa_ID f = at_ID row \<and> fa_State f = at_State row \<and>
     fa_DispatchState f = at_DispatchState row \<and> attempt_usage ae row = Inr (fa_Usage f)"
  by (auto simp: attempt_fact_def split: if_splits sum.splits)

lemma attempt_facts_Inr:
  "attempt_facts ae legacy trigger rows = Inr fs \<Longrightarrow> list_all2 (\<lambda>row f. attempt_fact ae legacy trigger row = Inr f) rows fs"
  by (induction rows arbitrary: fs) (auto split: sum.splits)

lemma attempt_facts_states:
  assumes "attempt_facts ae legacy trigger rows = Inr fs"
  shows "map fa_State fs = map at_State rows" and "map fa_DispatchState fs = map at_DispatchState rows"
    and "rows \<noteq> [] \<Longrightarrow> fs \<noteq> [] \<and> attempt_fact ae legacy trigger (last rows) = Inr (last fs)"
proof -
  note F = attempt_facts_Inr [OF assms]
  show "map fa_State fs = map at_State rows" "map fa_DispatchState fs = map at_DispatchState rows"
    using F by (induction rows fs rule: list_all2_induct) (auto dest: attempt_fact_Inr)
  show "rows \<noteq> [] \<Longrightarrow> fs \<noteq> [] \<and> attempt_fact ae legacy trigger (last rows) = Inr (last fs)"
    using F by (induction rows fs rule: list_all2_induct) (auto simp: list_all2_Nil list_all2_Nil2)
qed

lemma list_ex_states: "list_ex (\<lambda>a. P (f a)) xs \<longleftrightarrow> list_ex P (map f xs)"
  by (induction xs) auto

lemma built_facts:
  assumes "buildChatFinalizationFacts ae run charge hold command attempts = Inr facts"
  shows "deriveChatFinalizationTrigger ae command attempts = Inr (ff_Trigger facts)"
    and "attempt_facts ae (rn_RequestIdentityStatus run = IdentityStatusLegacyNonReplayable) (ff_Trigger facts) attempts = Inr (ff_Attempts facts)"
    and "ff_Candidate facts = current_candidate attempts"
    and "ff_CurrentAttemptID facts = (if attempts = [] then 0 else at_ID (last attempts))"
  using assms by (auto simp: buildChatFinalizationFacts_def split: sum.splits)

section \<open>Triggers\<close>

lemma derived_trigger:
  assumes "deriveChatFinalizationTrigger ae command attempts = Inr trigger"
  shows "validTrigger trigger"
    and "trigger = TriggerUserStopBeforeDispatch \<Longrightarrow> \<not> list_ex (\<lambda>a. trim_space (at_DispatchState a) = ''dispatched'') attempts"
    and "trigger = TriggerSuccess \<Longrightarrow> attempts \<noteq> [] \<and> at_State (last attempts) = AttemptStateSucceeded \<and>
      succeeded_trigger ae (last attempts) = Inr TriggerSuccess"
  using assms unfolding deriveChatFinalizationTrigger_def latest_trigger_def
  by (auto simp: validTrigger_def trigger_defs succeeded_trigger_def list_ex_iff Let_def split: if_splits option.splits)

text \<open>An answer without a text that is a final answer has usage that was not reported in full.\<close>

lemma successful_answer:
  assumes "succeeded_trigger ae row = Inr TriggerSuccess" and "attempt_usage ae row = Inr usage" and "at_ResultCandidateJSON row = None"
  shows "\<not> Complete usage"
  using assms by (auto simp: succeeded_trigger_def terminalCandidateRequiresLocalFailure_def attempt_usage_def unavailable_usage_def
      Complete_def trigger_defs usage_status_defs Let_def split: if_splits sum.splits)

section \<open>The decision\<close>

lemma validated_states:
  assumes "validate_attempts sha256 runID seen as = Inr u" and "a \<in> set as"
  shows "fa_State a \<in> {AttemptStatePrepared, AttemptStateDispatched, AttemptStateSucceeded, AttemptStateFailed, AttemptStateCanceled,
      AttemptStateOutcomeUnknown}"
    and "fa_State a = AttemptStateDispatched \<Longrightarrow> fa_DispatchState a = DispatchStateDispatched"
    and "fa_EvidenceKind a = AttemptEvidencePaid \<or> fa_EvidenceKind a = AttemptEvidenceLegacyUnbillable"
    and "0 < fa_ID a"
proof -
  note V = validate_attempts_Inr [OF assms]
  then have v: "validateFinalizationAttempt sha256 a = Inr ()" by simp
  show "fa_State a \<in> {AttemptStatePrepared, AttemptStateDispatched, AttemptStateSucceeded, AttemptStateFailed, AttemptStateCanceled,
      AttemptStateOutcomeUnknown}"
    using v by (auto simp: validateFinalizationAttempt_def Let_def split: if_splits sum.splits)
  show "fa_EvidenceKind a = AttemptEvidencePaid \<or> fa_EvidenceKind a = AttemptEvidenceLegacyUnbillable"
    using v by (auto simp: validateFinalizationAttempt_def split: if_splits)
  show "fa_DispatchState a = DispatchStateDispatched" if "fa_State a = AttemptStateDispatched"
    using v that unfolding validateFinalizationAttempt_def
    by (simp add: AttemptStatePrepared_def AttemptStateDispatched_def split: if_splits sum.splits)
  show "0 < fa_ID a" using V by simp
qed

lemma priced_complete:
  "PriceSettlement sha256 decode i = Inr quote \<Longrightarrow> a \<in> set (sp_Attempts i) \<Longrightarrow> Complete (ba_Usage a)"
  by (auto elim!: PriceSettlement_Inr dest!: attempts_lines_Inr simp: completeRawUsage_def)

lemma dispatched_trimmed: "trim_space DispatchStateDispatched = ''dispatched''"
  by code_simp

text \<open>An answer whose usage cannot be read is not an error.\<close>

lemma unread_answer:
  assumes snapshot: "ParsePricingSnapshot decode (rs_PricingSnapshotJSON (ff_Run facts)) = Inr s"
    and a: "a \<in> set (billableAttempts facts)" "\<not> Complete (ba_Usage a)"
  shows "\<exists>d. priceOrUnbilled (PriceSettlement sha256 decode) facts runStatus candidate = Inr d"
proof -
  let ?i = "\<lparr>sp_Run = ff_Run facts, sp_Attempts = billableAttempts facts\<rparr>"
  have "PriceSettlement sha256 decode ?i \<noteq> Inr quote" for quote using a priced_complete [of sha256 decode ?i quote a] by auto
  with PriceSettlement_outcome [of decode ?i s sha256] snapshot show ?thesis by (auto simp: priceOrUnbilled_def Let_def)
qed

text \<open>The answer of a run that ended well belongs to a call it is charged for, unless nothing is published.\<close>

lemma answer_priced:
  assumes built: "buildChatFinalizationFacts ae run charge hold command attempts = Inr facts"
    and valid: "validateFinalizationFacts (ae_sha256 ae) runID facts = Inr ()"
    and snapshot: "ParsePricingSnapshot (ae_snapshot ae) (rs_PricingSnapshotJSON (ff_Run facts)) = Inr s"
    and trigger: "ff_Trigger facts = TriggerSuccess"
  shows "\<exists>d. priceOrUnbilled (PriceSettlement (ae_sha256 ae) (ae_snapshot ae)) facts ''success'' SettlementCandidatePublish = Inr d"
proof -
  note B = built_facts [OF built]
  note T = derived_trigger(3) [OF B(1) trigger]
  let ?row = "last attempts" and ?fact = "last (ff_Attempts facts)"
  have last: "ff_Attempts facts \<noteq> []" "attempt_fact ae (rn_RequestIdentityStatus run = IdentityStatusLegacyNonReplayable) (ff_Trigger facts) ?row = Inr ?fact"
    using attempt_facts_states(3) [OF B(2)] T by simp_all
  note F = attempt_fact_Inr [OF last(2)]
  have mem: "?fact \<in> set (ff_Attempts facts)" using last(1) by simp
  note V = validated_states [OF facts_valid(3) [OF valid] mem]
  have chargeable: "chargeable facts ?fact" using F T by (simp add: chargeable_def)
  show ?thesis
  proof (cases "hasLegacyChargeableAttempt facts")
    case True
    then show ?thesis by (simp add: priceOrUnbilled_def Let_def)
  next
    case False
    with mem chargeable V(3) have paid: "fa_EvidenceKind ?fact = AttemptEvidencePaid"
      by (auto simp: hasLegacyChargeableAttempt_def list_ex_iff)
    have billable: "billable_attempt ?fact \<in> set (billableAttempts facts)"
      using mem paid chargeable by (simp add: billableAttempts_def)
    show ?thesis
    proof (cases "at_ResultCandidateJSON ?row")
      case None
      have "\<not> Complete (fa_Usage ?fact)" using successful_answer T F None by blast
      with unread_answer [OF snapshot billable] show ?thesis by (simp add: billable_attempt_def)
    next
      case (Some json)
      have candidate: "ff_Candidate facts = \<lparr>cd_AttemptID = at_ID ?row, cd_JSON = trim_space json\<rparr>"
        using B(3) T Some by (cases attempts) (auto simp: current_candidate_def)
      have "validate_candidate facts = Inr ()"
        using valid by (auto simp: validateFinalizationFacts_def validateFinalizationAttempts_def Let_def split: if_splits sum.splits)
      then have "trim_space (cd_JSON (ff_Candidate facts)) \<noteq> []"
        using V(4) F candidate by (auto simp: validate_candidate_def candidate_present_def Let_def split: if_splits)
      moreover have "ba_ID (billable_attempt ?fact) = cd_AttemptID (ff_Candidate facts)" using F candidate by (simp add: billable_attempt_def)
      ultimately have "candidateBelongsToBillableAttempt (ff_Candidate facts) (billableAttempts facts)"
        using billable V(4) F candidate unfolding candidateBelongsToBillableAttempt_def list_ex_iff by (auto intro: bexI [OF _ billable])
      with snapshot show ?thesis by (intro priceOrUnbilled_total) simp_all
    qed
  qed
qed

text \<open>The guards of the decision, read off the rows\<close>

lemma guards_of_rows:
  assumes built: "buildChatFinalizationFacts ae run charge hold command attempts = Inr facts"
    and valid: "validateFinalizationFacts (ae_sha256 ae) runID facts = Inr ()"
  shows "hasIntermediateAttempt (ff_Attempts facts) \<longleftrightarrow>
      list_ex (\<lambda>a. at_State a = AttemptStatePrepared \<or> at_State a = AttemptStateDispatched) attempts"
    and "hasDispatchedAttempt (ff_Attempts facts) \<longleftrightarrow> list_ex (\<lambda>a. at_DispatchState a = DispatchStateDispatched) attempts"
    and "ff_Trigger facts = TriggerUserStopBeforeDispatch \<Longrightarrow> \<not> hasDispatchedAttempt (ff_Attempts facts)"
    and "ff_Trigger facts = TriggerSuccess \<Longrightarrow> \<not> hasIntermediateAttempt (ff_Attempts facts) \<Longrightarrow>
      hasSuccessfulResultWithoutBlockingTerminal (ff_Attempts facts) \<longleftrightarrow>
      \<not> list_ex (\<lambda>a. at_State a = AttemptStateCanceled \<or> at_State a = AttemptStateOutcomeUnknown) attempts"
proof -
  let ?as = "ff_Attempts facts"
  note B = built_facts [OF built]
  note T = derived_trigger [OF B(1)]
  note states = attempt_facts_states(1,2) [OF B(2)]
  note V = validated_states [OF facts_valid(3) [OF valid]]
  have ex: "list_ex (\<lambda>a. P (at_State a)) attempts \<longleftrightarrow> list_ex (\<lambda>a. P (fa_State a)) ?as"
    "list_ex (\<lambda>a. P (at_DispatchState a)) attempts \<longleftrightarrow> list_ex (\<lambda>a. P (fa_DispatchState a)) ?as" for P
    using states by (simp_all only: list_ex_states)
  show "hasIntermediateAttempt ?as \<longleftrightarrow>
      list_ex (\<lambda>a. at_State a = AttemptStatePrepared \<or> at_State a = AttemptStateDispatched) attempts"
    using ex(1) [of "\<lambda>x. x = AttemptStatePrepared \<or> x = AttemptStateDispatched"] by (simp add: hasIntermediateAttempt_def)
  show dispatched: "hasDispatchedAttempt ?as \<longleftrightarrow> list_ex (\<lambda>a. at_DispatchState a = DispatchStateDispatched) attempts"
    using ex(2) [of "\<lambda>x. x = DispatchStateDispatched"] V(2) by (auto simp: hasDispatchedAttempt_def list_ex_iff)
  show "\<not> hasDispatchedAttempt ?as" if "ff_Trigger facts = TriggerUserStopBeforeDispatch"
    using T(2) [OF that] dispatched dispatched_trimmed by (auto simp: list_ex_iff)
  show "hasSuccessfulResultWithoutBlockingTerminal ?as \<longleftrightarrow>
      \<not> list_ex (\<lambda>a. at_State a = AttemptStateCanceled \<or> at_State a = AttemptStateOutcomeUnknown) attempts"
    if "ff_Trigger facts = TriggerSuccess" "\<not> hasIntermediateAttempt ?as"
  proof -
    have last: "at_State (last attempts) = AttemptStateSucceeded" "attempts \<noteq> []" using T(3) [OF that(1)] by simp_all
    then have "AttemptStateSucceeded \<in> set (map fa_State ?as)" unfolding states by (metis last_in_set list.set_map image_eqI)
    then have "list_ex (\<lambda>a. fa_State a = AttemptStateSucceeded) ?as" by (force simp: list_ex_iff)
    moreover have "fa_State a = AttemptStateSucceeded \<or> fa_State a = AttemptStateFailed \<longleftrightarrow>
        fa_State a \<noteq> AttemptStateCanceled \<and> fa_State a \<noteq> AttemptStateOutcomeUnknown" if "a \<in> set ?as" for a
      using V(1) [OF that] \<open>\<not> hasIntermediateAttempt ?as\<close> that
      by (auto simp: hasIntermediateAttempt_def list_ex_iff attempt_state_defs)
    ultimately show ?thesis
      using ex(1) [of "\<lambda>x. x = AttemptStateCanceled \<or> x = AttemptStateOutcomeUnknown"]
      by (auto simp: hasSuccessfulResultWithoutBlockingTerminal_def list_all_iff list_ex_iff)
  qed
qed

text \<open>C35. With facts read from the rows of a run that pass the validation, and a readable price snapshot, nothing but
  what \<open>held_up\<close> names keeps the run from its end: an open call, an answer beside a call that was
  stopped or lost, or the mark of a failure before dispatch on a command of which a call was dispatched. Then the settlement is answered
  as pending; in every other case a decision is made, and usage that cannot be priced ends in an unbilled run and not in an error that
  would leave the hold open.\<close>

theorem settlement_decided_unless_held_up:
  assumes "buildChatFinalizationFacts ae run charge hold command attempts = Inr facts"
    and "validateFinalizationFacts (ae_sha256 ae) runID facts = Inr ()"
    and "ParsePricingSnapshot (ae_snapshot ae) (rs_PricingSnapshotJSON (ff_Run facts)) = Inr s"
  shows "if held_up (ff_Trigger facts) attempts
    then finalize_decision (ae_sha256 ae) (PriceSettlement (ae_sha256 ae) (ae_snapshot ae)) runID facts = Inl ErrFinalizationPending
    else \<exists>d. finalize_decision (ae_sha256 ae) (PriceSettlement (ae_sha256 ae) (ae_snapshot ae)) runID facts = Inr d"
proof -
  let ?price = "PriceSettlement (ae_sha256 ae) (ae_snapshot ae)"
  note facts = guards_of_rows [OF assms(1,2)] answer_priced [OF assms] derived_trigger(1) [OF built_facts(1) [OF assms(1)]]
  have priced: "\<exists>d. priceOrUnbilled ?price facts runStatus SettlementCandidateDiscard = Inr d" for runStatus
    using assms(3) by (intro priceOrUnbilled_total) (auto simp: settlement_action_defs)
  have "if held_up (ff_Trigger facts) attempts then decide ?price facts = Inl ErrFinalizationPending
    else \<exists>d. decide ?price facts = Inr d"
  proof (cases "hasIntermediateAttempt (ff_Attempts facts)")
    case True
    with facts(1) show ?thesis by (simp add: held_up_def decide_def Let_def)
  next
    case False
    note facts = False facts priced
    show ?thesis
    proof (cases "ff_Trigger facts \<in> {TriggerSuccess, TriggerPreDispatchFailed, TriggerUserStopBeforeDispatch}")
      case True
      with facts show ?thesis by (auto simp: held_up_def decide_def Let_def trigger_defs)
    next
      case False
      with facts show ?thesis by (auto simp: held_up_def decide_def Let_def validTrigger_def trigger_defs)
    qed
  qed
  with assms(2) show ?thesis by (simp add: finalize_decision_def)
qed

text \<open>A command that failed before its second dispatch: marked so, with a first call that was dispatched and ended, and a second
  that was prepared and given up.\<close>

definition demo_marked_command :: Command where
  "demo_marked_command = demo_command_row\<lparr>cm_LastErrorCode := ''ai.provider_pre_dispatch_failed'',
     cm_LastErrorMessage := TriggerPreDispatchFailed\<rparr>"

definition demo_given_up :: Attempt where
  "demo_given_up = demo_attempt_row\<lparr>at_ID := 32, at_AttemptNo := 2, at_State := AttemptStateCanceled,
     at_DispatchState := DispatchStateNotDispatched, at_UsageJSON := unavailable_usage_json, at_ResponseSHA256 := [],
     at_ProviderRequestID := [], at_ResultCandidateJSON := None\<rparr>"

definition demo_stuck :: FinalizationFacts where
  "demo_stuck = projr (buildChatFinalizationFacts demo_ai_env demo_row demo_charge (Some demo_hold) demo_marked_command
     [demo_attempt_row, demo_given_up])"

lemma demo_stuck:
  "buildChatFinalizationFacts demo_ai_env demo_row demo_charge (Some demo_hold) demo_marked_command
     [demo_attempt_row, demo_given_up] = Inr demo_stuck"
  "validateFinalizationFacts demo_sha256 11 demo_stuck = Inr ()"
  "ParsePricingSnapshot demo_decode (rs_PricingSnapshotJSON (ff_Run demo_stuck)) = Inr demo_snapshot"
  "held_up (ff_Trigger demo_stuck) [demo_attempt_row, demo_given_up]"
  "\<not> held_up (ff_Trigger demo_facts) [demo_attempt_row]"
  by code_simp+

theorem settlement_decided_unless_held_up_witness:
  "(\<exists>d. finalize_decision demo_sha256 demo_pricer 11 demo_facts = Inr d) \<and>
   finalize_decision demo_sha256 demo_pricer 11 demo_stuck = Inl ErrFinalizationPending"
proof -
  have env: "ae_sha256 demo_ai_env = demo_sha256" "ae_snapshot demo_ai_env = demo_decode" by (simp_all add: demo_ai_env_def)
  have "validateFinalizationFacts demo_sha256 11 demo_facts = Inr ()" using demo_settlement by (simp add: finalize_decision_Inr)
  from settlement_decided_unless_held_up [OF demo_facts_built, unfolded env, OF this demo_parse]
    settlement_decided_unless_held_up [OF demo_stuck(1), unfolded env, OF demo_stuck(2,3)] demo_stuck(4,5)
  show ?thesis by simp
qed

end
