(* ===== verification/AiDashboardProps.thy ===== *)
theory AiDashboardProps
  imports AiSettlementProps
begin

text \<open>
  The dashboard beside the books: whatever is settled, in whatever order and with whatever failures, the daily rows are
  what one would compute from the facts, row by row.
\<close>

section \<open>A daily row and the facts it counts\<close>

definition counts :: "DailyFact \<Rightarrow> DashboardFact list \<Rightarrow> bool" where
  "counts row fs \<longleftrightarrow> dd_RunCount row = int (length fs) \<and>
     dd_PromptTokens row = sum_list (map df_PromptTokens fs) \<and> dd_CompletionTokens row = sum_list (map df_CompletionTokens fs) \<and>
     dd_TotalTokens row = sum_list (map df_TotalTokens fs) \<and>
     dd_SettledRuns row = sum_list (map df_SettledRuns fs) \<and> dd_ActualUnits row = sum_list (map df_ActualUnits fs) \<and>
     dd_ReleasedRuns row = sum_list (map df_ReleasedRuns fs) \<and> dd_ReleasedUnits row = sum_list (map df_ReleasedUnits fs) \<and>
     dd_UnbilledRuns row = sum_list (map df_UnbilledRuns fs) \<and>
     dd_LatestRunID row \<in> df_RunID ` set fs \<and> (\<forall>f \<in> set fs. df_RunID f \<le> dd_LatestRunID row)"

lemma daily_row_key [simp]: "dd_Key (daily_row f) = daily_key f"
  by (simp add: daily_row_def)

lemma daily_add_key [simp]: "dd_Key (daily_add new old) = dd_Key old"
  by (simp add: daily_add_def)

lemma counts_one: "counts (daily_row f) [f]"
  by (simp add: counts_def daily_row_def)

lemma counts_more:
  assumes "counts row fs"
  shows "counts (daily_add (daily_row f) row) (fs @ [f])"
  using assms by (auto simp: counts_def daily_add_def daily_row_def max_def)

definition facts_with :: "daily_key \<Rightarrow> DashboardFact list \<Rightarrow> DashboardFact list" where
  "facts_with k fs = filter (\<lambda>f. daily_key f = k) fs"

lemma facts_with_none: "k \<notin> daily_key ` set fs \<Longrightarrow> facts_with k fs = []"
  by (induction fs) (auto simp: facts_with_def)

lemma daily_totals:
  "distinct (map dd_Key (fold upsert_daily fs [])) \<and> dd_Key ` set (fold upsert_daily fs []) = daily_key ` set fs \<and>
   (\<forall>row \<in> set (fold upsert_daily fs []). counts row (facts_with (dd_Key row) fs))"
proof (induction fs rule: rev_induct)
  case (snoc f fs)
  let ?rows = "fold upsert_daily fs []"
  show ?case
  proof (cases "list_ex (\<lambda>r. dd_Key r = daily_key f) ?rows")
    case True
    then have new: "fold upsert_daily (fs @ [f]) [] = change_rows (\<lambda>r. dd_Key r = daily_key f) (daily_add (daily_row f)) ?rows"
      by (simp add: upsert_daily_def)
    have keys: "map dd_Key (fold upsert_daily (fs @ [f]) []) = map dd_Key ?rows" unfolding new by (rule map_change_rows) simp
    have "daily_key f \<in> dd_Key ` set ?rows" using True by (force simp: list_ex_iff)
    then have "dd_Key ` set (fold upsert_daily (fs @ [f]) []) = daily_key ` set (fs @ [f])"
      using snoc.IH arg_cong [OF keys, of set] by auto
    moreover have "counts row (facts_with (dd_Key row) (fs @ [f]))" if "row \<in> set (fold upsert_daily (fs @ [f]) [])" for row
      using that unfolding new
    proof (cases rule: changed_row)
      case (1 x)
      then have "counts x (facts_with (dd_Key x) fs)" using snoc.IH by blast
      from counts_more [OF this, of f] 1 show ?thesis by (simp add: facts_with_def)
    next
      case 2
      then show ?thesis using snoc.IH by (simp add: facts_with_def)
    qed
    ultimately show ?thesis using snoc.IH keys by metis
  next
    case False
    then have new: "fold upsert_daily (fs @ [f]) [] = ?rows @ [daily_row f]" by (simp add: upsert_daily_def)
    have "daily_key f \<notin> dd_Key ` set ?rows" using False by (force simp: list_ex_iff)
    then have other: "daily_key f \<notin> daily_key ` set fs" "daily_key f \<notin> dd_Key ` set ?rows" using snoc.IH by auto
    have fs: "facts_with (daily_key f) fs = []" using other(1) by (rule facts_with_none)
    have "counts row (facts_with (dd_Key row) (fs @ [f]))" if "row \<in> set (?rows @ [daily_row f])" for row
    proof (cases "row = daily_row f")
      case True
      then show ?thesis using fs counts_one [of f] by (simp add: facts_with_def)
    next
      case False
      then have "row \<in> set ?rows" using that by simp
      then have "daily_key f \<noteq> dd_Key row" "counts row (facts_with (dd_Key row) fs)" using other(2) snoc.IH by auto
      then show ?thesis by (simp add: facts_with_def)
    qed
    then show ?thesis using snoc.IH other unfolding new by auto
  qed
qed simp

section \<open>What keeps the daily rows in step\<close>

definition dashboard_ok :: "'z ai_tables_scheme \<Rightarrow> bool" where
  "dashboard_ok d \<longleftrightarrow> ai_run_dashboard_daily_facts d = fold upsert_daily (ai_run_dashboard_facts d) []"

definition dashboard :: "'z ai_tables_scheme \<Rightarrow> DashboardFact list \<times> DailyFact list" where
  "dashboard d = (ai_run_dashboard_facts d, ai_run_dashboard_daily_facts d)"

text \<open>An action that returns keeps the daily rows in step; one that fails is rolled back.\<close>

definition in_step :: "('z, 'a) ai_act \<Rightarrow> bool" where
  "in_step m \<longleftrightarrow> (\<forall>s a t. Returns m s a t \<longrightarrow> dashboard_ok (tables s) \<longrightarrow> dashboard_ok (tables t))"

lemma in_step_keeps: "keeps dashboard m \<Longrightarrow> in_step m"
  unfolding in_step_def using keepsD [of dashboard m] by (auto simp: dashboard_def dashboard_ok_def)

lemma in_step_bind: "in_step m \<Longrightarrow> (\<And>a. in_step (f a)) \<Longrightarrow> in_step (bind m f)"
  unfolding in_step_def by (auto elim!: Returns_bindE)

lemma in_step_if: "in_step m \<Longrightarrow> in_step n \<Longrightarrow> in_step (if c then m else n)"
  by simp

lemma in_step_prod: "(\<And>a b. in_step (m a b)) \<Longrightarrow> in_step (case x of (a, b) \<Rightarrow> m a b)"
  by (cases x) simp

lemma in_step_projection: "in_step (ProjectTerminalDashboardFacts ae runID)"
  unfolding in_step_def
proof (intro allI impI)
  fix s t :: "'z ai_tables_scheme world" and a
  assume run: "Returns (ProjectTerminalDashboardFacts ae runID) s a t" and ok: "dashboard_ok (tables s)"
  let ?D = "tables s"
  have "tables t = ?D \<or> (\<not> fact_exists runID ?D \<and> tables t = increment_daily runID (insert_fact ae runID ?D))"
    using run unfolding ProjectTerminalDashboardFacts_def
    by (auto simp: act_simps split: db_error.splits if_splits) (metis db_error.exhaust sent_simps(1))
  then show "dashboard_ok (tables t)"
  proof
    assume "\<not> fact_exists runID ?D \<and> tables t = increment_daily runID (insert_fact ae runID ?D)"
    then have none: "filter (\<lambda>f. df_RunID f = runID) (ai_run_dashboard_facts ?D) = []"
      and t: "tables t = increment_daily runID (insert_fact ae runID ?D)"
      by (auto simp: fact_exists_def list_ex_iff filter_empty_conv)
    let ?new = "map (dashboard_fact ae ?D) (filter (\<lambda>r. rn_ID r = runID \<and> terminal_run_status (rn_Status r)) (ai_runs ?D))"
    have "filter (\<lambda>f. df_RunID f = runID) ?new = ?new" by (auto simp: filter_id_conv dashboard_fact_def Let_def)
    with none ok show ?thesis unfolding t by (simp add: dashboard_ok_def increment_daily_def insert_fact_def)
  qed (simp add: ok)
qed

lemma dashboard_frame [simp]:
  "dashboard (ai_provider_attempts_update p d) = dashboard d" "dashboard (ai_messages_update q d) = dashboard d"
  "dashboard (ai_conversations_update r d) = dashboard d" "dashboard (ai_reply_commands_update x d) = dashboard d"
  "dashboard (ai_run_events_update y d) = dashboard d" "dashboard (realtime_events_update z d) = dashboard d"
  "dashboard (ai_runs_update f d) = dashboard d" "dashboard (ai_usage_charges_update g d) = dashboard d"
  "dashboard (ai_usage_charge_items_update i d) = dashboard d" "dashboard (ai_reply_delivery_chunks_update h d) = dashboard d"
  by (simp_all add: dashboard_def)

lemma dashboard_blind: "blind_to UNIV dashboard"
  by (simp add: blind_to_def dashboard_def)

lemma keeps_dashboard_loops:
  "keeps dashboard (insert_items ae chargeID now items)" "keeps dashboard (insert_events ae runID n now es)"
  "keeps dashboard (cleanup_batches ae commandID k)"
proof -
  show "keeps dashboard (insert_items ae chargeID now items)"
    by (induction items) (auto intro!: keeps_intros)
  show "keeps dashboard (insert_events ae runID n now es)"
    by (induction es arbitrary: n) (auto intro!: keeps_intros)
  have "keeps dashboard (DeleteDeliveryChunks ae commandID 256)"
    unfolding DeleteDeliveryChunks_def Let_def by (intro keeps_intros) (simp add: keeps_def)
  then show "keeps dashboard (cleanup_batches ae commandID k)"
    by (induction k) (auto intro!: keeps_intros)
qed

lemma keeps_dashboard_parts:
  "keeps dashboard (lockChatSettlementMoneyGraph ae runID)" "keeps dashboard (lockChatSettlementBusinessGraph ae run)"
  "keeps dashboard (normalizeChatAttemptsForFinalization ae command attempts now)" "keeps dashboard (clearChatResultCandidates ae runID)"
  "keeps dashboard (appendChatRunFinalizationEvents ae runID facts d now)" "keeps dashboard (insertSettledUsageItems ae chargeID d now)"
  "keeps dashboard (appendChatRealtimeFinalization ae command result input now)" "keeps dashboard (tidy_chunks ae commandID)"
  unfolding lockChatSettlementMoneyGraph_def lockChatSettlementBusinessGraph_def normalizeChatAttemptsForFinalization_def
    clearChatResultCandidates_def appendChatRunFinalizationEvents_def insertSettledUsageItems_def
    appendChatRealtimeFinalization_def AppendTx_def tidy_chunks_def CleanupDeliveryChunks_def
  by (intro keeps_intros keeps_dashboard_loops; simp)+

lemma keeps_dashboard_paid: "keeps dashboard (FinalizePaidCommandInTransaction ae input)"
  unfolding FinalizePaidCommandInTransaction_def publish_answer_def keep_stopped_def keep_delivered_def
    paidCommandConversationDeleted_def create_message_def touch_conversation_def ReadDeliveryPrefixInTransaction_def
  by (intro keeps_intros; simp)

lemma keeps_dashboard_money: "keeps dashboard (applyChatMoneyDecision ae facts d)"
  unfolding applyChatMoneyDecision_def
  by (intro keeps_intros keeps_capture [where S = UNIV] keeps_release [where S = UNIV] dashboard_blind; simp)

lemmas in_step_intros = in_step_bind in_step_if in_step_prod in_step_projection

lemma in_step_finalize: "in_step (finalizeChatRunAndCharge ae run charge facts d result now)"
  unfolding finalizeChatRunAndCharge_def
  by (intro in_step_intros in_step_keeps keeps_intros; simp)

lemma in_step_settle_locked: "in_step (settle_locked ae runID deciding now)"
  unfolding settle_locked_def settle_rows_def settle_open_def
  by (intro in_step_bind in_step_if in_step_prod in_step_projection in_step_finalize
      keeps_dashboard_parts [THEN in_step_keeps] keeps_dashboard_paid [THEN in_step_keeps] keeps_dashboard_money [THEN in_step_keeps]
      keeps_basic(1-3) [THEN in_step_keeps])

lemma Finalize_dashboard:
  fixes s t :: "'z ai_tables_scheme world"
  assumes ok: "dashboard_ok (tables s)" and t: "t = snd (Finalize ae price runID s)"
  shows "dashboard_ok (tables t)"
proof (cases "fst (Finalize ae price runID s)")
  case (Inl e)
  then have "Fails (Finalize ae price runID) s e t" using t by (simp add: Fails_def prod_eq_iff)
  from Finalize_fails [OF this] ok show ?thesis by simp
next
  case (Inr u)
  then have "Returns (Finalize ae price runID) s () t" using t by (simp add: Returns_def prod_eq_iff)
  then obtain u v commandID replayed now where
    body: "Returns (settle_locked ae runID (finalize_decision (ae_sha256 ae) price runID) now) u (commandID, replayed) v"
    and u: "tables u = tables s" and tidy: "Returns (tidy_chunks ae commandID) (sent v) () t"
    unfolding Finalize_def WithLockedSettlement_def
    by (auto simp: Returns_transaction Returns_read_clock Returns_ret Returns_throw elim!: Returns_bindE split: if_splits)
  have "dashboard_ok (tables v)" using in_step_settle_locked body ok u unfolding in_step_def by metis
  with keepsD [OF keeps_dashboard_parts(8) tidy] show ?thesis by (simp add: dashboard_def dashboard_ok_def)
qed

lemma billing_step_dashboard:
  assumes "billing_step s t" "dashboard_ok (tables s)"
  shows "dashboard_ok (tables t)"
  using assms(1)
proof cases
  case (settle ae price runID)
  from Finalize_dashboard [OF assms(2) this] show ?thesis .
next
  case (credit op ev)
  obtain res where run: "wallet_tx ev op s = (res, t)" using credit(3) by (cases "wallet_tx ev op s") simp
  show ?thesis
  proof (cases res)
    case (Inl e)
    then have "Fails (wallet_tx ev op) s e t" using run by (simp add: Fails_def)
    then show ?thesis unfolding wallet_tx_def using Fails_transaction_tables assms(2) by metis
  next
    case (Inr x)
    with run have "Returns (wallet_tx ev op) s x t" by (simp add: Returns_def)
    then obtain u where u: "Returns (wallet_call ev op) (sent s) x u" "t = sent u" by (auto simp: wallet_tx_def Returns_transaction)
    have "keeps dashboard (wallet_call ev op)" by (rule keeps_wallet_call [OF dashboard_blind]) simp
    from keepsD [OF this u(1)] u(2) assms(2) show ?thesis by (simp add: dashboard_def dashboard_ok_def)
  qed
qed

section \<open>The daily rows are the totals of the facts\<close>

text \<open>C40. The daily rows are the totals of the facts. After any sequence of settlements and credits, returning or failing, starting
  with a dashboard in step, there is one daily row for each combination of date, platform, model, agent, provider, user,
  status and codes that a finished run has, and each row has counted exactly the runs of its combination: their number, their
  tokens, their settled, released and unbilled runs, the units charged and released, and the latest of them.\<close>

theorem daily_rows_are_totals:
  assumes "billing_step\<^sup>*\<^sup>* s t" and "dashboard_ok (tables s)"
  shows "distinct (map dd_Key (ai_run_dashboard_daily_facts (tables t))) \<and>
    dd_Key ` set (ai_run_dashboard_daily_facts (tables t)) = daily_key ` set (ai_run_dashboard_facts (tables t)) \<and>
    (\<forall>row \<in> set (ai_run_dashboard_daily_facts (tables t)).
       counts row (facts_with (dd_Key row) (ai_run_dashboard_facts (tables t))))"
proof -
  have "dashboard_ok (tables t)"
    using assms by (induction rule: rtranclp_induct) (auto intro: billing_step_dashboard)
  then show ?thesis using daily_totals [of "ai_run_dashboard_facts (tables t)"] by (simp add: dashboard_ok_def)
qed

theorem daily_rows_are_totals_witness:
  "list_all (\<lambda>row. counts row (facts_with (dd_Key row) (ai_run_dashboard_facts (tables demo_after))))
     (ai_run_dashboard_daily_facts (tables demo_after))"
proof -
  have "dashboard_ok (tables demo_ai_world)" by (simp add: dashboard_ok_def demo_ai_world_def)
  from daily_rows_are_totals [OF demo_steps this] show ?thesis by (simp add: list_all_iff)
qed

end
