(* ===== verification/Spec2Isabelle.thy ===== *)
theory Spec2Isabelle
  imports WalletProps PricingProps RedeemProps LimiterProps TimeText WalletServiceProps RedeemFacts PaymentServiceProps AiPendingProps AiDashboardProps
begin

text \<open>
  Verification of the billing core of this server: wallets with holds and a ledger, redeem codes and
  payments (\<open>internal/module/payment\<close>), and what an AI call costs and how a chat run is settled
  (\<open>internal/module/ai\<close>, \<open>internal/runtime/ai_billing_finalizer.go\<close> and parts of ai_billing_gateway.go).

  \<^bold>\<open>The parts and how they interact.\<close> A user pays into a wallet through the payment gateway (orders, recharges,
  notifications, jobs) or with a redeem code; both end in a credit of the wallet's repository, which takes part in
  the transaction of its caller. A chat run reserves a hold on the wallet, calls a provider one or more times,
  and is settled by one transaction: the facts of its rows are judged by the finalizer, the pricer prices the usage
  the provider reported at the price snapshot of the run, the hold is captured or released, and run, charge, items,
  command, answer, events and dashboard are written. Everything meets in the tables, so the model has one record of
  tables per layer, each extending the one below (\<open>wallet_tables\<close>, \<open>redeem_tables\<close>, \<open>payment_tables\<close>; \<open>ai_tables\<close>).

  \<^bold>\<open>Foundations.\<close> Prelude: int64 arithmetic with its wrap-around, instants, decimal text, byte strings. Store: the database
  (a table is the list of its rows), statements, transactions, and the calculus the proofs run in: \<open>Returns m s a t\<close> unfolds along an action,
  \<open>keeps\<close> and \<open>grows\<close> are frames. Utf8, TimeText, JsonText, JsonValid, Redis: what the code uses of runes, civil dates, encoding/json and Redis.
  AppError: \<open>internal/shared/apperror/error.go\<close>. Money: \<open>internal/shared/money/units.go\<close> and the serial numbers.

  \<^bold>\<open>Wallet\<close> (\<open>internal/module/payment/wallet\<close>). WalletModel, WalletHold, WalletRedeem: the rows and every operation on holds and
  credits, statement by statement. WalletInv, WalletOps: one invariant over the tables that every operation keeps, whatever
  statements fail. WalletSpec, WalletRefine: the account specification and the refinement. WalletHistory, WalletLive, WalletFrame:
  reachable databases, liveness without faults, what an operation leaves alone. WalletService: summaries and lists.
  WalletProps and WalletServiceProps hold the properties.

  \<^bold>\<open>Redeem codes\<close> (\<open>internal/module/payment/redeemcode\<close>). RedeemCode: the text of codes and amounts. RedeemModel, RedeemRepo: the
  repository. RedeemLaws: the locale of what it relies on of the wallet, interpreted on the wallet in RedeemHistory;
  RedeemReceipt extends it by the ledger rows a redemption reports. RedeemLimiter: the
  attempt limiter with its Lua scripts. RedeemRequest, RedeemService, RedeemServiceLaws: the service. RedeemProps, LimiterProps, RedeemFacts hold the properties.

  \<^bold>\<open>Payments\<close> (\<open>internal/module/payment\<close>, \<open>internal/infra/payment\<close>). PaymentModel, PaymentRepo: orders, recharges and callback events.
  PaymentLaws, PaymentSteps, PaymentHistory: the locale of its wallet participant, the agreement of orders, recharges and ledger, histories.
  Alipay: the gateway. PaymentText, PaymentConfig, PaymentService, PaymentRecharge, PaymentCallback: the service, its notifications and jobs.
  PaymentServiceLaws and PaymentServiceSteps verify every service operation along its structure. PaymentProps and PaymentServiceProps hold the properties.

  \<^bold>\<open>Prices and decisions of AI calls.\<close> Billing: \<open>ai/billing/contracts.go\<close>. Pricing, PricingProps: \<open>ai/pricing\<close>, exact rational prices rounded up once.
  AiUsage: \<open>infra/ai/types.go\<close>. AiFinalizer, AiFinalizerProps: the decision of \<open>ai/aigateway/finalizer.go\<close>. AiQuote, AiPricer, AiPricerProps: the price snapshot
  (quote_validator.go) and the settlement pricer (ai_billing_gateway.go).

  \<^bold>\<open>Settlement of a chat run.\<close> AiStore: the rows. AiFacts: from rows to facts, candidates of a result. AiReply: the end of a reply command and its
  realtime event. AiDashboard: the dashboard projection. AiSettlement: the whole transaction and \<open>Finalize\<close>. AiSettlementProps: the books of runs,
  charges, items, holds and ledger. AiPendingProps: when the rows of a run let it be settled. AiDashboardProps: the daily rows.

  \<^bold>\<open>What the groups of lemmas show.\<close> Every repository operation is shown to keep an invariant, on success and on failure, for every schedule of failing
  statements; histories lift this to reachable databases; the abstract steps (\<open>spec_\<dots>\<close>) say what a call that returns has done.
  Witnesses run the operations on concrete databases.

  \<^bold>\<open>Bounds.\<close> Loops are structural or have a measure. Retries are counted as in the source (three transactions of a redemption, 10240 reads for
  a code, 1000 codes of a batch, 4 batches of chunks), and no fuel is added to them. Integers of the source
  that could leave int64 use the wrapping operations.

  \<^bold>\<open>Taken from outside, as parameters.\<close> The driver's faults, the clock and the layout of times (\<open>env\<close>); SHA-256; the random source of codes; the contents of
  the table users with MySQL's LIKE and reading of dates (\<open>directory\<close>); net/url, the secret box, certificate store and resolver, the answers of the
  gateway and of its SDK (\<open>payment_env\<close>); Redis faults and its clock; the JSON codecs of stored structs, event ids and the calendar date
  of an instant (\<open>ai_env\<close>). Two reads of a parameter at different times may differ.

  \<^bold>\<open>Reading the statements.\<close> Transactions are steps of one sequence: the rows they read are locked until they end. \<open>RowsAffected\<close> is the number of rows that
  satisfy the condition, as the driver reports it when the connection asks for found rows or when a changing column such as \<open>updated_at\<close> is written.

  \<^bold>\<open>Not modelled.\<close> Dispatching calls and reserving for them (ai_billing_gateway.go beyond the pricer), creating, claiming and cancelling reply commands,
  settling image and text runs, what follows the commit of a settlement without touching its tables (queueing index and memory jobs, pushing
  events to connections), HTTP handlers, and the rest of the server: accounts, sessions, permissions, files, messages, the context engine.
\<close>

end
